(* ===== verification/Prelude.thy ===== *)
theory Prelude
  imports "HOL-Library.Word"
begin

text \<open>
  What every component of the model shares: the error values the C functions return, the
  faults (undefined behaviour) the C code can run into, the result type with its sequencing,
  machine-integer casts, C strings and their case-insensitive comparison, and the collection
  \<open>res_simps\<close> of rewrite rules for results.
\<close>

named_theorems res_simps

section \<open>Error values and faults\<close>

text \<open>The error codes of src/src/libiodefv2-error/err-codes.h.in that the modelled code uses.\<close>

datatype errcode =
    ERROR_NO_ERROR
  | ERROR_GENERIC
  | ERROR_INVAL_LENGTH
  | ERROR_EOF
  | ERROR_INVAL_INT8
  | ERROR_INVAL_INT16
  | ERROR_INVAL_INT32
  | ERROR_INVAL_INT64
  | ERROR_INVAL_FLOAT
  | ERROR_INVAL_CHAR
  | ERROR_VALUE_TYPE_UNKNOWN
  | ERROR_VALUE_TYPE_COPY_UNAVAILABLE
  | ERROR_VALUE_TYPE_CLONE_UNAVAILABLE
  | ERROR_VALUE_TYPE_COMPARE_UNAVAILABLE
  | ERROR_VALUE_TYPE_READ_UNAVAILABLE
  | ERROR_VALUE_TYPE_WRITE_UNAVAILABLE
  | ERROR_VALUE_TYPE_COMPARE_MISMATCH
  | ERROR_VALUE_TYPE_PARSE
  | ERROR_CLASS_UNKNOWN
  | ERROR_CLASS_UNKNOWN_CHILD
  | ERROR_CLASS_UNKNOWN_NAME
  | ERROR_PATH_LENGTH
  | ERROR_PATH_DEPTH
  | ERROR_PATH_PARENT_ROOT
  | ERROR_PATH_INTEGRITY
  | ERROR_PATH_INDEX_RESERVED
  | ERROR_PATH_INDEX_FORBIDDEN
  | ERROR_PATH_INDEX_UNDEFINED
  | ERROR_UNKNOWN_ENUM_STRING
  | ERROR_STRING_NOT_NULL_TERMINATED
  | ERROR_CRITERION_UNSUPPORTED_OPERATOR
  | ERROR_CRITERION_INVALID_REGEX
  | ERROR_CLASS_CHILD_NOT_CLASS
  | ERROR_ASSERTION
  | ERROR_VALUE_TYPE_REF_UNAVAILABLE
  | ERROR_CLASS_CHILD_NOT_UNION
  | ERROR_TREE_INDEX_UNDEFINED

text \<open>
  Faults: places where the C code has no defined result, and failed assertions, which abort.
  \<open>Stale_link\<close> is following the links of an element that has left the list being walked,
  \<open>Wrong_kind\<close> using a piece of memory as something it is not, \<open>No_fuel\<close> running longer than the
  model was given steps for.
\<close>

datatype fault =
    Null_deref
  | Out_of_bounds
  | Write_borrowed
  | Use_after_free
  | Invalid_free
  | Uninitialised
  | Div_by_zero
  | Float_to_int
  | Stale_link
  | Wrong_kind
  | No_fuel
  | Assert_failed

text \<open>
  A failing call returns an error made with \<open>libiodefv2_error\<close> (\<open>E\<close>), one made with
  \<open>libiodefv2_error_verbose\<close> (\<open>EV\<close>), one made from \<open>errno\<close> after a failed libc call
  (\<open>E_errno\<close>), a plain \<open>-1\<close> (\<open>E_minus1\<close>), another negative number
  (\<open>E_value\<close>), or it runs into a fault (\<open>UB\<close>).
\<close>

datatype failure = E errcode | EV errcode | E_errno | E_minus1 | E_value int | UB fault

type_synonym 'a res = "failure + 'a"

definition res_bind :: "'a res \<Rightarrow> ('a \<Rightarrow> 'b res) \<Rightarrow> 'b res" where
  "res_bind r f = (case r of Inl e \<Rightarrow> Inl e | Inr x \<Rightarrow> f x)"

lemma res_bind_simps [simp, res_simps]:
  "res_bind (Inl e) f = Inl e"
  "res_bind (Inr x) f = f x"
  by (simp_all add: res_bind_def)

lemma res_bind_Inr_iff [res_simps]:
  "res_bind r f = Inr y \<longleftrightarrow> (\<exists>x. r = Inr x \<and> f x = Inr y)"
  by (cases r) auto

lemma res_bind_Inl_iff:
  "res_bind r f = Inl e \<longleftrightarrow> r = Inl e \<or> (\<exists>x. r = Inr x \<and> f x = Inl e)"
  by (cases r) auto

lemma res_bind_assoc: "res_bind (res_bind r f) g = res_bind r (\<lambda>x. res_bind (f x) g)"
  by (cases r) auto

lemma res_bind_split:
  "P (res_bind r f) \<longleftrightarrow> (\<forall>e. r = Inl e \<longrightarrow> P (Inl e)) \<and> (\<forall>x. r = Inr x \<longrightarrow> P (f x))"
  by (cases r) auto

definition guard :: "bool \<Rightarrow> failure \<Rightarrow> unit res" where
  "guard b e = (if b then Inr () else Inl e)"

lemma guard_simps [simp, res_simps]:
  "guard True e = Inr ()"
  "guard False e = Inl e"
  by (simp_all add: guard_def)

lemma guard_Inr_iff [simp]: "guard b e = Inr u \<longleftrightarrow> b"
  by (simp add: guard_def)

section \<open>Machine integers\<close>

text \<open>
  \<open>size_t\<close> is 64 bits. A C conversion to a signed type of \<open>w\<close> bits keeps the value modulo
  \<open>2 ^ w\<close> and reads it in two's complement; a conversion to an unsigned type keeps the
  remainder.
\<close>

definition SIZE_MOD :: nat where
  "SIZE_MOD = 2 ^ 64"

definition size_sub :: "nat \<Rightarrow> nat \<Rightarrow> nat" where
  "size_sub a b = (a + (SIZE_MOD - b mod SIZE_MOD)) mod SIZE_MOD"

definition size_add :: "nat \<Rightarrow> nat \<Rightarrow> nat" where
  "size_add a b = (a + b) mod SIZE_MOD"

definition to_signed :: "nat \<Rightarrow> int \<Rightarrow> int" where
  "to_signed w x = (x + 2 ^ (w - 1)) mod 2 ^ w - 2 ^ (w - 1)"

definition to_unsigned :: "nat \<Rightarrow> int \<Rightarrow> int" where
  "to_unsigned w x = x mod 2 ^ w"

lemma size_sub_le:
  assumes "b \<le> a" "a < SIZE_MOD"
  shows "size_sub a b = a - b"
proof -
  have "b < SIZE_MOD" using assms by simp
  then have "a + (SIZE_MOD - b mod SIZE_MOD) = (a - b) + SIZE_MOD" using assms by simp
  then show ?thesis using assms by (simp add: size_sub_def del: add_diff_assoc2)
qed

lemma size_add_small [simp]: "a + b < SIZE_MOD \<Longrightarrow> size_add a b = a + b"
  by (simp add: size_add_def)

lemma to_signed_id:
  assumes "0 < w" "- (2 ^ (w - 1)) \<le> x" "x < 2 ^ (w - 1)"
  shows "to_signed w x = x"
proof -
  have "(2::int) ^ w = 2 * 2 ^ (w - 1)" using assms(1) by (cases w) auto
  then have "(x + 2 ^ (w - 1)) mod 2 ^ w = x + 2 ^ (w - 1)" using assms by simp
  then show ?thesis by (simp add: to_signed_def)
qed

lemma to_signed_range:
  assumes "0 < w"
  shows "- (2 ^ (w - 1)) \<le> to_signed w x" "to_signed w x < 2 ^ (w - 1)"
proof -
  have "(2::int) ^ w = 2 * 2 ^ (w - 1)" using assms by (cases w) auto
  moreover have "0 \<le> (x + 2 ^ (w - 1)) mod 2 ^ w" "(x + 2 ^ (w - 1)) mod 2 ^ w < 2 ^ w"
    by simp_all
  ultimately show "- (2 ^ (w - 1)) \<le> to_signed w x" "to_signed w x < 2 ^ (w - 1)"
    unfolding to_signed_def by linarith+
qed

lemma to_unsigned_id: "0 \<le> x \<Longrightarrow> x < 2 ^ w \<Longrightarrow> to_unsigned w x = x"
  by (simp add: to_unsigned_def)

lemma to_unsigned_range: "0 \<le> to_unsigned w x" "to_unsigned w x < 2 ^ w"
  by (simp_all add: to_unsigned_def)

section \<open>C strings\<close>

text \<open>
  A \<open>char\<close> is a byte. A C string held in a buffer ends at the first NUL. Character classes
  and \<open>tolower\<close> are those of the C locale.
\<close>

abbreviation NUL :: char where
  "NUL \<equiv> CHR 0x00"

definition ccode :: "char \<Rightarrow> nat" where
  "ccode c = of_char c"

lemma ccode_less [simp]: "ccode c < 256"
  by (simp add: ccode_def)

lemma ccode_char_of: "n < 256 \<Longrightarrow> ccode (char_of n) = n"
  by (simp add: ccode_def)

lemma ccode_inject [simp]: "ccode c = ccode d \<longleftrightarrow> c = d"
  by (simp add: ccode_def)

definition is_cspace :: "char \<Rightarrow> bool" where
  "is_cspace c \<longleftrightarrow> c = CHR '' '' \<or> (9 \<le> ccode c \<and> ccode c \<le> 13)"

definition is_cdigit :: "char \<Rightarrow> bool" where
  "is_cdigit c \<longleftrightarrow> 48 \<le> ccode c \<and> ccode c \<le> 57"

definition c_tolower :: "char \<Rightarrow> char" where
  "c_tolower c = (if 65 \<le> ccode c \<and> ccode c \<le> 90 then char_of (ccode c + 32) else c)"

definition strcaseeq :: "string \<Rightarrow> string \<Rightarrow> bool" where
  "strcaseeq a b \<longleftrightarrow> List.map c_tolower a = List.map c_tolower b"

definition cstr :: "string \<Rightarrow> string" where
  "cstr buf = takeWhile (\<lambda>c. c \<noteq> NUL) buf"

lemma strcaseeq_refl [simp, intro]: "strcaseeq a a"
  by (simp add: strcaseeq_def)

lemma strcaseeq_sym: "strcaseeq a b \<Longrightarrow> strcaseeq b a"
  by (simp add: strcaseeq_def)

lemma strcaseeq_trans: "strcaseeq a b \<Longrightarrow> strcaseeq b c \<Longrightarrow> strcaseeq a c"
  by (simp add: strcaseeq_def)

lemma cstr_no_nul: "NUL \<notin> set s \<Longrightarrow> cstr (s @ NUL # t) = s"
  by (induction s) (auto simp: cstr_def)

lemma cstr_id: "NUL \<notin> set s \<Longrightarrow> cstr s = s"
  by (induction s) (auto simp: cstr_def)

section \<open>Lists\<close>

fun find_index :: "('a \<Rightarrow> bool) \<Rightarrow> 'a list \<Rightarrow> nat option" where
  "find_index p [] = None"
| "find_index p (x # xs) = (if p x then Some 0 else map_option Suc (find_index p xs))"

lemma find_index_None: "find_index p xs = None \<longleftrightarrow> (\<forall>x \<in> set xs. \<not> p x)"
  by (induction xs) auto

lemma find_index_Some:
  "find_index p xs = Some i \<Longrightarrow> i < length xs \<and> p (xs ! i) \<and> (\<forall>j < i. \<not> p (xs ! j))"
  by (induction xs arbitrary: i) (auto split: if_splits simp: less_Suc_eq_0_disj)

lemma find_index_first:
  "i < length xs \<Longrightarrow> p (xs ! i) \<Longrightarrow> (\<forall>j < i. \<not> p (xs ! j)) \<Longrightarrow> find_index p xs = Some i"
proof (induction xs arbitrary: i)
  case (Cons x xs)
  then show ?case by (cases i) fastforce+
qed simp

lemma find_index_split:
  assumes "find_index p xs = Some i"
  obtains us x vs where "xs = us @ x # vs" "length us = i" "p x" "\<forall>u \<in> set us. \<not> p u"
proof
  have i: "i < length xs" "p (xs ! i)" "\<forall>j < i. \<not> p (xs ! j)"
    using find_index_Some [OF assms] by auto
  show "xs = take i xs @ xs ! i # drop (Suc i) xs" using i(1) by (simp add: id_take_nth_drop)
  show "length (take i xs) = i" using i(1) by simp
  show "p (xs ! i)" by (rule i(2))
  show "\<forall>u \<in> set (take i xs). \<not> p u" using i by (auto simp: in_set_conv_nth)
qed

lemma find_index_append_hit: "\<forall>u \<in> set us. \<not> p u \<Longrightarrow> p x \<Longrightarrow> find_index p (us @ x # vs) = Some (length us)"
  by (induction us) auto

lemma find_conv_index: "find p xs = map_option ((!) xs) (find_index p xs)"
  by (induction xs) (auto simp: option.map_comp o_def)

lemma find_append:
  "find p (xs @ ys) = (case find p xs of Some x \<Rightarrow> Some x | None \<Rightarrow> find p ys)"
  by (induction xs) auto

definition remove_nth :: "nat \<Rightarrow> 'a list \<Rightarrow> 'a list" where
  "remove_nth i xs = take i xs @ drop (Suc i) xs"

lemma remove_nth_middle [simp]: "remove_nth (length us) (us @ x # vs) = us @ vs"
  by (simp add: remove_nth_def)

lemma nth_list_update_if: "j < length xs \<Longrightarrow> xs[i := x] ! j = (if i = j then x else xs ! j)"
  by (cases "i = j") simp_all

end
