(* ===== verification/Errors.thy ===== *)
theory Errors
  imports Prelude
begin

unbundle bit_operations_syntax

text \<open>
  The error integers of src/src/libiodefv2-error/libiodefv2-error.c. A
  \<open>libiodefv2_error_t\<close> is a 32-bit signed integer: it is zero for success and otherwise the
  negation of a word that holds the error source (from bit 23), the verbose flag (bit 22) and
  the error code (the low 16 bits). The numbers of the codes are those of err-codes.h.in.
  The tables that translate \<open>errno\<close> values are generated at build time and are parameters.
\<close>

section \<open>Codes and layout\<close>

abbreviation CODE_DIM :: "32 word" where "CODE_DIM \<equiv> 65536"
abbreviation SOURCE_DIM :: "32 word" where "SOURCE_DIM \<equiv> 256"
abbreviation SOURCE_SHIFT :: nat where "SOURCE_SHIFT \<equiv> 23"
abbreviation VERBOSE_SHIFT :: nat where "VERBOSE_SHIFT \<equiv> 22"

definition CODE_MASK :: "32 word" where "CODE_MASK = CODE_DIM - 1"
definition SOURCE_MASK :: "32 word" where "SOURCE_MASK = SOURCE_DIM - 1"
definition VERBOSE_MASK :: "32 word" where "VERBOSE_MASK = 1"
definition SYSTEM_ERROR :: "32 word" where "SYSTEM_ERROR = push_bit 15 1"

fun errcode_num :: "errcode \<Rightarrow> 32 word" where
  "errcode_num ERROR_NO_ERROR = 0"
| "errcode_num ERROR_GENERIC = 1"
| "errcode_num ERROR_INVAL_LENGTH = 3"
| "errcode_num ERROR_EOF = 6"
| "errcode_num ERROR_INVAL_INT8 = 17"
| "errcode_num ERROR_INVAL_INT16 = 18"
| "errcode_num ERROR_INVAL_INT32 = 19"
| "errcode_num ERROR_INVAL_INT64 = 20"
| "errcode_num ERROR_INVAL_FLOAT = 21"
| "errcode_num ERROR_INVAL_CHAR = 22"
| "errcode_num ERROR_VALUE_TYPE_UNKNOWN = 25"
| "errcode_num ERROR_VALUE_TYPE_COPY_UNAVAILABLE = 26"
| "errcode_num ERROR_VALUE_TYPE_CLONE_UNAVAILABLE = 27"
| "errcode_num ERROR_VALUE_TYPE_COMPARE_UNAVAILABLE = 28"
| "errcode_num ERROR_VALUE_TYPE_READ_UNAVAILABLE = 29"
| "errcode_num ERROR_VALUE_TYPE_WRITE_UNAVAILABLE = 30"
| "errcode_num ERROR_VALUE_TYPE_COMPARE_MISMATCH = 31"
| "errcode_num ERROR_VALUE_TYPE_PARSE = 32"
| "errcode_num ERROR_CLASS_UNKNOWN = 33"
| "errcode_num ERROR_CLASS_UNKNOWN_CHILD = 34"
| "errcode_num ERROR_CLASS_UNKNOWN_NAME = 35"
| "errcode_num ERROR_PATH_LENGTH = 36"
| "errcode_num ERROR_PATH_DEPTH = 37"
| "errcode_num ERROR_PATH_PARENT_ROOT = 38"
| "errcode_num ERROR_PATH_INTEGRITY = 41"
| "errcode_num ERROR_PATH_INDEX_RESERVED = 42"
| "errcode_num ERROR_PATH_INDEX_FORBIDDEN = 43"
| "errcode_num ERROR_PATH_INDEX_UNDEFINED = 44"
| "errcode_num ERROR_UNKNOWN_ENUM_STRING = 46"
| "errcode_num ERROR_STRING_NOT_NULL_TERMINATED = 50"
| "errcode_num ERROR_CRITERION_UNSUPPORTED_OPERATOR = 56"
| "errcode_num ERROR_CRITERION_INVALID_REGEX = 57"
| "errcode_num ERROR_CLASS_CHILD_NOT_CLASS = 60"
| "errcode_num ERROR_ASSERTION = 61"
| "errcode_num ERROR_VALUE_TYPE_REF_UNAVAILABLE = 62"
| "errcode_num ERROR_CLASS_CHILD_NOT_UNION = 63"
| "errcode_num ERROR_TREE_INDEX_UNDEFINED = 45"

section \<open>Making and reading errors\<close>

definition error_make :: "32 word \<Rightarrow> 32 word \<Rightarrow> 32 word" where
  "error_make source code =
     (if code = 0 then code else - (push_bit SOURCE_SHIFT source OR code))"

definition error_verbose_make :: "32 word \<Rightarrow> 32 word \<Rightarrow> 32 word" where
  "error_verbose_make source code =
     (let ret = error_make source code;
          ret = - ret;
          ret = ret OR push_bit VERBOSE_SHIFT 1
      in - ret)"

definition error_get_code :: "32 word \<Rightarrow> 32 word" where
  "error_get_code err = (- err) AND CODE_MASK"

definition error_get_source :: "32 word \<Rightarrow> 32 word" where
  "error_get_source err = signed_drop_bit SOURCE_SHIFT (- err) AND SOURCE_MASK"

definition error_is_verbose :: "32 word \<Rightarrow> bool" where
  "error_is_verbose err \<longleftrightarrow> signed_drop_bit VERBOSE_SHIFT (- err) AND VERBOSE_MASK \<noteq> 0"

text \<open>
  \<open>errno_to_idx\<close>, \<open>err_code_from_index\<close> and \<open>err_code_to_errno\<close> come from generated headers.
\<close>

definition error_code_from_errno ::
  "(int \<Rightarrow> int) \<Rightarrow> (nat \<Rightarrow> 32 word) \<Rightarrow> int \<Rightarrow> 32 word" where
  "error_code_from_errno errno_to_idx err_code_from_index err =
     (if err = 0 then 0
      else let idx = errno_to_idx err in
        if idx < 0 then 16382
        else SYSTEM_ERROR OR err_code_from_index (nat idx))"

definition error_code_to_errno :: "int list \<Rightarrow> 32 word \<Rightarrow> int" where
  "error_code_to_errno err_code_to_errno code =
     (if code AND SYSTEM_ERROR = 0 then 0
      else let code = code AND NOT SYSTEM_ERROR in
        if unat code < length err_code_to_errno then err_code_to_errno ! unat code
        else 0)"

definition error_make_from_errno ::
  "(int \<Rightarrow> int) \<Rightarrow> (nat \<Rightarrow> 32 word) \<Rightarrow> 32 word \<Rightarrow> int \<Rightarrow> 32 word" where
  "error_make_from_errno errno_to_idx err_code_from_index source err =
     error_make source (error_code_from_errno errno_to_idx err_code_from_index err)"

section \<open>What an error carries\<close>

lemma masks_mask_eq:
  "CODE_MASK = mask 16" "SOURCE_MASK = mask 8" "VERBOSE_MASK = mask 1"
  by (simp_all add: CODE_MASK_def SOURCE_MASK_def VERBOSE_MASK_def mask_eq_exp_minus_1)

lemma less_pow_bit:
  fixes x :: "32 word"
  assumes "uint x < 2 ^ n" "n \<le> i"
  shows "\<not> bit x i"
proof
  assume "bit x i"
  then have "bit (uint x) i"
    using bit_imp_le_length [OF \<open>bit x i\<close>] by (simp add: bit_uint_iff)
  moreover have "uint x < 2 ^ i"
    using assms(1) power_increasing [OF assms(2), of "2::int"] by linarith
  ultimately show False by (simp add: bit_iff_odd)
qed

lemma verbose_bit: "bit (push_bit VERBOSE_SHIFT 1 :: 32 word) n \<longleftrightarrow> n = 22"
  by (auto simp only: bit_push_bit_iff bit_1_iff possible_bit_word) simp_all

lemma packed_bits:
  fixes source code v :: "32 word"
  assumes "source < SOURCE_DIM" "code < CODE_DIM" and v: "\<And>n. bit v n \<longleftrightarrow> n = 22"
  shows "(push_bit SOURCE_SHIFT source OR code) AND CODE_MASK = code"
    and "signed_drop_bit SOURCE_SHIFT (push_bit SOURCE_SHIFT source OR code) AND SOURCE_MASK = source"
    and "signed_drop_bit VERBOSE_SHIFT (push_bit SOURCE_SHIFT source OR code) AND VERBOSE_MASK = 0"
    and "((push_bit SOURCE_SHIFT source OR code) OR v) AND CODE_MASK = code"
    and "signed_drop_bit SOURCE_SHIFT ((push_bit SOURCE_SHIFT source OR code) OR v)
           AND SOURCE_MASK = source"
    and "bit ((push_bit SOURCE_SHIFT source OR code) OR v) 22"
proof -
  have c: "\<not> bit code i" if "16 \<le> i" for i
    using less_pow_bit [of code 16 i] assms that by (simp add: word_less_def)
  have s: "\<not> bit source i" if "8 \<le> i" for i
    using less_pow_bit [of source 8 i] assms that by (simp add: word_less_def)
  show "(push_bit SOURCE_SHIFT source OR code) AND CODE_MASK = code"
    by (rule bit_word_eqI)
      (use c in \<open>auto simp: bit_and_iff bit_or_iff bit_push_bit_iff masks_mask_eq bit_mask_iff
        not_le intro: leI\<close>)
  show "signed_drop_bit SOURCE_SHIFT (push_bit SOURCE_SHIFT source OR code) AND SOURCE_MASK = source"
    by (rule bit_word_eqI)
      (use c s in \<open>auto simp: bit_and_iff bit_or_iff bit_push_bit_iff masks_mask_eq bit_mask_iff
        bit_signed_drop_bit_iff not_le add.commute intro: ccontr\<close>)
  show "signed_drop_bit VERBOSE_SHIFT (push_bit SOURCE_SHIFT source OR code) AND VERBOSE_MASK = 0"
    by (rule bit_word_eqI)
      (use c s in \<open>auto simp: bit_and_iff bit_or_iff bit_push_bit_iff masks_mask_eq bit_mask_iff
        bit_signed_drop_bit_iff bit_1_iff\<close>)
  show "((push_bit SOURCE_SHIFT source OR code) OR v) AND CODE_MASK = code"
    by (rule bit_word_eqI)
      (use c in \<open>auto simp: bit_and_iff bit_or_iff bit_push_bit_iff masks_mask_eq bit_mask_iff
        v not_le intro: leI\<close>)
  show "signed_drop_bit SOURCE_SHIFT ((push_bit SOURCE_SHIFT source OR code) OR v)
           AND SOURCE_MASK = source"
    by (rule bit_word_eqI)
      (use c s in \<open>auto simp: bit_and_iff bit_or_iff bit_push_bit_iff masks_mask_eq bit_mask_iff
        bit_signed_drop_bit_iff v not_le add.commute intro: ccontr\<close>)
  show "bit ((push_bit SOURCE_SHIFT source OR code) OR v) 22"
    using v by (simp add: bit_or_iff)
qed

lemma neg_word_sint:
  fixes x :: "32 word"
  assumes "0 < uint x" "uint x < 2 ^ 31"
  shows "sint (- x) = - uint x"
proof -
  have "sint (- x) = signed_take_bit 31 (- uint x)"
    using signed_take_bit_take_bit [of 31 32 "- uint x"]
    by (simp add: sint_uint uint_word_ariths(4) take_bit_eq_mod)
  also have "\<dots> = - uint x"
    using assms by (intro signed_take_bit_int_eq_self) auto
  finally show ?thesis .
qed

lemma bits_less_pow:
  fixes x :: "32 word"
  assumes "\<And>i. n \<le> i \<Longrightarrow> \<not> bit x i"
  shows "uint x < 2 ^ n"
proof -
  have "take_bit n (uint x) = uint x"
    by (rule bit_eqI) (use assms in \<open>auto simp: bit_take_bit_iff bit_uint_iff not_le intro: leI\<close>)
  then show ?thesis using take_bit_int_less_exp [of n "uint x"] by simp
qed

lemma packed_range:
  fixes source code v :: "32 word"
  assumes "source < SOURCE_DIM" "code < CODE_DIM" and v: "\<And>n. bit v n \<longleftrightarrow> n = 22"
  shows "uint (push_bit SOURCE_SHIFT source OR code) < 2 ^ 31"
    and "uint ((push_bit SOURCE_SHIFT source OR code) OR v) < 2 ^ 31"
proof -
  have "\<not> bit code i" if "16 \<le> i" for i
    using less_pow_bit [of code 16 i] assms that by (simp add: word_less_def)
  moreover have "\<not> bit source i" if "8 \<le> i" for i
    using less_pow_bit [of source 8 i] assms that by (simp add: word_less_def)
  ultimately show "uint (push_bit SOURCE_SHIFT source OR code) < 2 ^ 31"
    "uint ((push_bit SOURCE_SHIFT source OR code) OR v) < 2 ^ 31"
    by (intro bits_less_pow; auto simp: bit_or_iff bit_push_bit_iff v)+
qed

lemma nonzero_uint_pos: "(x::32 word) \<noteq> 0 \<Longrightarrow> 0 < uint x"
  by (metis uint_0_iff uint_ge_0 order_le_less)

lemma verbose_flag:
  assumes "bit x 22"
  shows "signed_drop_bit VERBOSE_SHIFT (x::32 word) AND VERBOSE_MASK \<noteq> 0"
proof -
  have "bit (signed_drop_bit VERBOSE_SHIFT x AND VERBOSE_MASK) 0"
    using assms by (simp add: bit_and_iff bit_signed_drop_bit_iff VERBOSE_MASK_def)
  then show ?thesis by auto
qed

text \<open>
  C1. An error made from any source below 256 and any non-zero code below 65536 is a negative
  integer, and reading it back gives the code, the source and whether it was made verbose.
\<close>

theorem error_roundtrip:
  assumes "source < SOURCE_DIM" "code < CODE_DIM" "code \<noteq> 0"
  shows "sint (error_make source code) < 0 \<and>
    error_get_code (error_make source code) = code \<and>
    error_get_source (error_make source code) = source \<and>
    \<not> error_is_verbose (error_make source code) \<and>
    sint (error_verbose_make source code) < 0 \<and>
    error_get_code (error_verbose_make source code) = code \<and>
    error_get_source (error_verbose_make source code) = source \<and>
    error_is_verbose (error_verbose_make source code)"
proof -
  let ?v = "push_bit VERBOSE_SHIFT 1 :: 32 word"
  let ?p = "push_bit SOURCE_SHIFT source OR code"
  note bits = packed_bits [OF assms(1,2) verbose_bit] and rng = packed_range [OF assms(1,2) verbose_bit]
  have mk: "error_make source code = - ?p" "error_verbose_make source code = - (?p OR ?v)"
    using assms(3) by (simp_all only: error_make_def error_verbose_make_def Let_def if_False minus_minus)
  have "?p \<noteq> 0" using bits(1) assms(3) by auto
  moreover have "?p OR ?v \<noteq> 0" using bits(6) by (metis bit_0_eq bot_apply bot_bool_def)
  ultimately have "sint (- ?p) < 0" "sint (- (?p OR ?v)) < 0"
    using rng neg_word_sint [of ?p] neg_word_sint [of "?p OR ?v"]
      nonzero_uint_pos [of ?p] nonzero_uint_pos [of "?p OR ?v"] by (simp_all only:) simp_all
  then show ?thesis
    unfolding mk error_get_code_def error_get_source_def error_is_verbose_def minus_minus
    using bits(1-5) verbose_flag [OF bits(6)] by blast
qed

theorem error_roundtrip_witness:
  "error_get_code (error_make 16 (errcode_num ERROR_VALUE_TYPE_PARSE)) = 32"
  using error_roundtrip [of 16 "errcode_num ERROR_VALUE_TYPE_PARSE"] by simp

end
