(* ===== verification/CList.thy ===== *)
theory CList
  imports Prelude
begin

text \<open>
  The intrusive circular doubly linked lists of src/src/include/libiodefv2-list.h and the
  positional \<open>list_insert\<close> of src/src/iodefv2-tree-wrap.c. The heap maps the address of a
  list node to its \<open>next\<close> and \<open>prev\<close> pointers; every C assignment is one heap update, in the
  order of the code. \<open>ring h head xs\<close> says that \<open>head\<close> is the head of a well-formed list of the
  nodes \<open>xs\<close>, and each operation is shown to refine an operation on \<open>xs\<close>.
\<close>

section \<open>Nodes, heap and operations\<close>

record heap =
  nxt :: "nat \<Rightarrow> nat"
  prv :: "nat \<Rightarrow> nat"

definition set_next :: "nat \<Rightarrow> nat \<Rightarrow> heap \<Rightarrow> heap" where
  "set_next p q h = h\<lparr>nxt := (nxt h)(p := q)\<rparr>"

definition set_prev :: "nat \<Rightarrow> nat \<Rightarrow> heap \<Rightarrow> heap" where
  "set_prev p q h = h\<lparr>prv := (prv h)(p := q)\<rparr>"

definition list_splice_between :: "nat \<Rightarrow> nat \<Rightarrow> nat \<Rightarrow> heap \<Rightarrow> heap" where
  "list_splice_between l prev next h =
     (let first = nxt h l; last = prv h l;
          h = set_prev first prev h;
          h = set_next prev first h;
          h = set_next last next h
      in set_prev next last h)"

definition list_add_between :: "nat \<Rightarrow> nat \<Rightarrow> nat \<Rightarrow> heap \<Rightarrow> heap" where
  "list_add_between item prev next h =
     (let h = set_next prev item h;
          h = set_prev item prev h;
          h = set_next item next h
      in set_prev next item h)"

definition list_init :: "nat \<Rightarrow> heap \<Rightarrow> heap" where
  "list_init item h = (let h = set_prev item item h in set_next item (prv h item) h)"

definition list_is_empty :: "nat \<Rightarrow> heap \<Rightarrow> bool" where
  "list_is_empty item h \<longleftrightarrow> nxt h item = item"

definition list_splice :: "nat \<Rightarrow> nat \<Rightarrow> heap \<Rightarrow> heap" where
  "list_splice head l h =
     (if \<not> list_is_empty l h then list_splice_between l head (nxt h head) h else h)"

definition list_splice_tail :: "nat \<Rightarrow> nat \<Rightarrow> heap \<Rightarrow> heap" where
  "list_splice_tail head l h =
     (if \<not> list_is_empty l h then list_splice_between l (prv h head) head h else h)"

definition list_add :: "nat \<Rightarrow> nat \<Rightarrow> heap \<Rightarrow> heap" where
  "list_add head item h = list_add_between item head (nxt h head) h"

definition list_add_tail :: "nat \<Rightarrow> nat \<Rightarrow> heap \<Rightarrow> heap" where
  "list_add_tail head item h = list_add_between item (prv h head) head h"

definition list_del :: "nat \<Rightarrow> heap \<Rightarrow> heap" where
  "list_del item h =
     (let h = set_next (prv h item) (nxt h item) h
      in set_prev (nxt h item) (prv h item) h)"

definition list_del_init :: "nat \<Rightarrow> heap \<Rightarrow> heap" where
  "list_del_init item h = list_init item (list_del item h)"

text \<open>The loops. Each may run forever on a heap that is not a ring: then its value is \<open>None\<close>.\<close>

partial_function (option) for_each_from :: "heap \<Rightarrow> nat \<Rightarrow> nat \<Rightarrow> nat list option" where
  "for_each_from h l pos =
     (if pos = l then Some []
      else Option.bind (for_each_from h l (nxt h pos)) (\<lambda>ps. Some (pos # ps)))"

definition list_for_each :: "heap \<Rightarrow> nat \<Rightarrow> nat list option" where
  "list_for_each h l = for_each_from h l (nxt h l)"

partial_function (option) for_each_rev_from :: "heap \<Rightarrow> nat \<Rightarrow> nat \<Rightarrow> nat list option" where
  "for_each_rev_from h l pos =
     (if pos = l then Some []
      else Option.bind (for_each_rev_from h l (prv h pos)) (\<lambda>ps. Some (pos # ps)))"

definition list_for_each_reversed :: "heap \<Rightarrow> nat \<Rightarrow> nat list option" where
  "list_for_each_reversed h l = for_each_rev_from h l (prv h l)"

text \<open>
  \<open>libiodefv2_list_for_each_safe\<close> with a loop body that works on the heap: the successor is read
  before the body runs.
\<close>

partial_function (option) for_each_safe_from ::
  "(nat \<Rightarrow> heap \<Rightarrow> heap) \<Rightarrow> nat \<Rightarrow> nat \<Rightarrow> nat \<Rightarrow> heap \<Rightarrow> heap option" where
  "for_each_safe_from body l pos bkp h =
     (if pos = l then Some h
      else let h' = body pos h in for_each_safe_from body l bkp (nxt h' bkp) h')"

definition list_for_each_safe :: "(nat \<Rightarrow> heap \<Rightarrow> heap) \<Rightarrow> nat \<Rightarrow> heap \<Rightarrow> heap option" where
  "list_for_each_safe body l h = for_each_safe_from body l (nxt h l) (nxt h (nxt h l)) h"

definition list_get_next :: "heap \<Rightarrow> nat \<Rightarrow> nat option \<Rightarrow> nat option" where
  "list_get_next h l pos = (case pos of
     Some p \<Rightarrow> if nxt h p = l then None else Some (nxt h p)
   | None \<Rightarrow> if nxt h l = l then None else Some (nxt h l))"

section \<open>Positional insertion\<close>

definition LIST_APPEND :: int where "LIST_APPEND = 2 ^ 31 - 1"
definition LIST_PREPEND :: int where "LIST_PREPEND = LIST_APPEND - 1"

text \<open>The searching loops of \<open>list_insert\<close>: they return the node at which the loop stopped.\<close>

partial_function (option) seek_from :: "(nat \<Rightarrow> nat) \<Rightarrow> nat \<Rightarrow> int \<Rightarrow> nat \<Rightarrow> int \<Rightarrow> nat option" where
  "seek_from step head pos tmp i =
     (if tmp = head then Some tmp
      else if i = pos then Some tmp
      else seek_from step head pos (step tmp) (i + 1))"

text \<open>
  The negation of \<open>INT_MIN\<close> overflows, which C leaves undefined; no value stands for it here,
  as for a loop that does not end.
\<close>

definition list_insert :: "nat \<Rightarrow> nat \<Rightarrow> int \<Rightarrow> heap \<Rightarrow> heap option" where
  "list_insert head item pos h =
     (if pos = LIST_APPEND then Some (list_add_tail head item h)
      else if pos = LIST_PREPEND then Some (list_add head item h)
      else if 0 \<le> pos then
        Option.bind (seek_from (nxt h) head pos (nxt h head) 0)
          (\<lambda>tmp. Some (list_add_tail tmp item h))
      else if pos = - (2 ^ 31) then None
      else
        Option.bind (seek_from (prv h) head (- pos - 1) (prv h head) 0)
          (\<lambda>tmp. Some (list_add tmp item h)))"

section \<open>Rings\<close>

fun links :: "heap \<Rightarrow> nat list \<Rightarrow> bool" where
  "links h (x # y # zs) \<longleftrightarrow> nxt h x = y \<and> prv h y = x \<and> links h (y # zs)"
| "links h xs \<longleftrightarrow> True"

definition ring :: "heap \<Rightarrow> nat \<Rightarrow> nat list \<Rightarrow> bool" where
  "ring h head xs \<longleftrightarrow> distinct (head # xs) \<and> links h (head # xs @ [head])"

lemma heap_simps [simp]:
  "nxt (set_next p q h) = (nxt h)(p := q)" "prv (set_next p q h) = prv h"
  "prv (set_prev p q h) = (prv h)(p := q)" "nxt (set_prev p q h) = nxt h"
  by (simp_all add: set_next_def set_prev_def)

lemma links_append:
  "links h (xs @ a # ys) \<longleftrightarrow> links h (xs @ [a]) \<and> links h (a # ys)"
proof (induction xs)
  case (Cons x xs)
  then show ?case by (cases xs) auto
qed simp

lemma links_appendD: "links h (xs @ ys) \<Longrightarrow> links h xs \<and> links h ys"
proof (induction xs)
  case (Cons x xs)
  then show ?case by (cases xs; cases ys; simp)
qed simp

lemma links_cong:
  "(\<And>x. x \<in> set (butlast xs) \<Longrightarrow> nxt h' x = nxt h x) \<Longrightarrow>
   (\<And>x. x \<in> set (tl xs) \<Longrightarrow> prv h' x = prv h x) \<Longrightarrow> links h' xs = links h xs"
  by (induction h xs rule: links.induct) auto

lemma ring_empty: "ring h head [] \<longleftrightarrow> nxt h head = head \<and> prv h head = head"
  by (simp add: ring_def)

lemma ring_split:
  "ring h head (us @ x # vs) \<longleftrightarrow>
     distinct (head # us @ x # vs) \<and> links h (head # us @ [x]) \<and> links h (x # vs @ [head])"
  unfolding ring_def using links_append [of h "head # us" x "vs @ [head]"] by auto

lemma links_last_prv: "links h (a # us @ [b]) \<Longrightarrow> prv h b = last (a # us)"
  by (induction us arbitrary: a) auto

lemma links_hd_nxt: "links h (a # us @ [b]) \<Longrightarrow> nxt h a = hd (us @ [b])"
  by (cases us) auto

lemma ring_nxt_head: "ring h head xs \<Longrightarrow> nxt h head = hd (xs @ [head])"
  unfolding ring_def using links_hd_nxt by blast

lemma ring_prv_head: "ring h head xs \<Longrightarrow> prv h head = last (head # xs)"
  unfolding ring_def using links_last_prv by blast

lemma ring_nxt: "ring h head (us @ x # vs) \<Longrightarrow> nxt h x = hd (vs @ [head])"
  unfolding ring_split using links_hd_nxt by blast

lemma ring_prv: "ring h head (us @ x # vs) \<Longrightarrow> prv h x = last (head # us)"
  unfolding ring_split using links_last_prv by blast

text \<open>The one lemma behind every insertion: linking a fresh node between two neighbours.\<close>

lemma list_add_between_links:
  assumes "links h (as @ [p])" "links h (n # bs)"
    and "distinct (as @ [p])" "x \<notin> set (as @ [p])" "x \<notin> set (n # bs)"
    and "p \<notin> set (butlast (n # bs))" "n \<notin> set (tl (as @ [p]))" "n \<notin> set bs"
  shows "links (list_add_between x p n h) (as @ p # x # n # bs)"
proof -
  let ?h = "list_add_between x p n h"
  have h: "nxt ?h = (nxt h)(p := x, x := n)" "prv ?h = (prv h)(x := p, n := x)"
    by (auto simp: list_add_between_def Let_def)
  have neq: "x \<noteq> p" "x \<noteq> n" using assms(4,5) by auto
  have "links ?h (as @ [p]) = links h (as @ [p])"
    by (rule links_cong; use assms(3,4,7) neq in \<open>auto simp: h butlast_append dest: list.set_sel(2) [rotated] split: if_splits\<close>)
  moreover have "links ?h (n # bs) = links h (n # bs)"
    by (rule links_cong; use assms(5,6,8) neq in \<open>auto simp: h dest: in_set_butlastD split: if_splits\<close>)
  moreover have "links ?h [p, x, n]" using neq by (simp add: h)
  ultimately show ?thesis
    using assms(1,2) links_append [of ?h as p "x # n # bs"] by simp
qed

lemma ring_add_between:
  assumes r: "ring h head (us @ vs)" and x: "x \<notin> set (head # us @ vs)"
    and pn: "p = last (head # us)" "n = hd (vs @ [head])"
  shows "ring (list_add_between x p n h) head (us @ x # vs)"
proof -
  obtain as where as: "head # us = as @ [p]"
    using pn(1) by (metis append_butlast_last_id list.distinct(1))
  obtain bs where bs: "vs @ [head] = n # bs"
    using pn(2) by (metis append_is_Nil_conv list.collapse list.distinct(1))
  have l: "links h (as @ p # n # bs)"
    using r as bs by (metis append.assoc append_Cons append_Nil ring_def)
  have d: "distinct (as @ [p])" "distinct (head # us @ vs)"
    using r as unfolding ring_def by (metis append_Cons distinct_append)+
  have bl: "butlast (n # bs) = vs" by (metis bs butlast_snoc)
  have tl: "tl (as @ [p]) = us" by (metis as list.sel(3))
  have "p \<in> set (head # us)" using pn(1) by (metis last_in_set list.distinct(1))
  then have "p \<notin> set vs" using d(2) by auto
  moreover have "n \<notin> set us" using d(2) pn(2) by (cases vs) auto
  moreover have "n \<notin> set bs" using bs d(2) pn(2) by (cases vs) auto
  moreover have "x \<notin> set (as @ [p])" "x \<notin> set (n # bs)"
    using x by (simp_all flip: as bs)
  ultimately have "links (list_add_between x p n h) (as @ p # x # n # bs)"
    using l d(1) links_append [of h as p "n # bs"]
    by (intro list_add_between_links) (auto simp: bl tl simp del: butlast.simps)
  moreover have "as @ p # x # n # bs = head # us @ x # vs @ [head]"
    using as bs by (metis append.assoc append_Cons append_Nil)
  ultimately show ?thesis using d(2) x by (auto simp: ring_def)
qed

section \<open>Each operation refines a list operation\<close>

lemma list_init_ring: "ring (list_init head h) head []"
  by (simp add: ring_empty list_init_def Let_def)

lemma list_is_empty_ring: "ring h head xs \<Longrightarrow> list_is_empty head h \<longleftrightarrow> xs = []"
  using ring_nxt_head [of h head xs] by (cases xs) (auto simp: list_is_empty_def ring_def)

lemma list_add_at:
  assumes "ring h head (us @ vs)" "x \<notin> set (head # us @ vs)"
  shows "ring (list_add (last (head # us)) x h) head (us @ x # vs)"
proof -
  have "nxt h (last (head # us)) = hd (vs @ [head])"
  proof (cases us rule: rev_cases)
    case Nil
    then show ?thesis using ring_nxt_head assms(1) by simp
  next
    case (snoc us' y)
    then show ?thesis using ring_nxt [of h head us' y vs] assms(1) by simp
  qed
  then show ?thesis
    unfolding list_add_def by (intro ring_add_between) (use assms in auto)
qed

lemma list_add_tail_at:
  assumes "ring h head (us @ vs)" "x \<notin> set (head # us @ vs)"
  shows "ring (list_add_tail (hd (vs @ [head])) x h) head (us @ x # vs)"
proof -
  have "prv h (hd (vs @ [head])) = last (head # us)"
  proof (cases vs)
    case Nil
    then show ?thesis using ring_prv_head assms(1) by simp
  next
    case (Cons y vs')
    then show ?thesis using ring_prv [of h head us y vs'] assms(1) by simp
  qed
  then show ?thesis
    unfolding list_add_tail_def by (intro ring_add_between) (use assms in auto)
qed

lemma list_add_ring:
  "ring h head xs \<Longrightarrow> x \<notin> set (head # xs) \<Longrightarrow> ring (list_add head x h) head (x # xs)"
  using list_add_at [of h head "[]" xs x] by simp

lemma list_add_tail_ring:
  "ring h head xs \<Longrightarrow> x \<notin> set (head # xs) \<Longrightarrow> ring (list_add_tail head x h) head (xs @ [x])"
  using list_add_tail_at [of h head xs "[]" x] by simp

lemma list_del_links:
  assumes "links h (as @ p # x # n # bs)"
    and "distinct (as @ [p])" "p \<notin> set (butlast (n # bs))" "n \<notin> set (tl (as @ [p]))"
    and "n \<notin> set bs"
  shows "links (list_del x h) (as @ p # n # bs)"
proof -
  let ?h = "list_del x h"
  have x: "prv h x = p" "nxt h x = n" and l: "links h (as @ [p])" "links h (n # bs)"
    using assms(1) links_append [of h as p "x # n # bs"] by simp_all
  have h: "nxt ?h = (nxt h)(p := n)" "prv ?h = (prv h)(n := p)"
    using x by (auto simp: list_del_def Let_def)
  have "links ?h (as @ [p]) = links h (as @ [p])"
    by (rule links_cong; use assms(2,4) in \<open>auto simp: h butlast_append dest: list.set_sel(2) [rotated] split: if_splits\<close>)
  moreover have "links ?h (n # bs) = links h (n # bs)"
    by (rule links_cong; use assms(3,5) in \<open>auto simp: h dest: in_set_butlastD split: if_splits\<close>)
  moreover have "links ?h [p, n]" by (simp add: h del: heap_simps)
  ultimately show ?thesis
    using l links_append [of ?h as p "n # bs"] by simp
qed

lemma list_del_ring:
  assumes r: "ring h head (us @ x # vs)"
  shows "ring (list_del x h) head (us @ vs)"
proof -
  obtain as p where as: "head # us = as @ [p]" by (metis append_butlast_last_id list.distinct(1))
  obtain n bs where bs: "vs @ [head] = n # bs" by (cases "vs @ [head]") auto
  have l: "links h (as @ p # x # n # bs)"
    using r as bs by (metis append.assoc append_Cons append_Nil ring_def)
  have d: "distinct (head # us @ vs)" "distinct (as @ [p])"
    using r by (auto simp: ring_def simp flip: as)
  have bl: "butlast (n # bs) = vs" by (metis bs butlast_snoc)
  have tl: "tl (as @ [p]) = us" by (metis as list.sel(3))
  have "p = last (head # us)" "n = hd (vs @ [head])" using as bs by auto
  then have "p \<notin> set vs" "n \<notin> set us" "n \<notin> set bs"
    using d(1) bs last_in_set [of "head # us"] by (cases vs; auto)+
  then have "links (list_del x h) (as @ p # n # bs)"
    using l d(2) by (intro list_del_links) (auto simp: bl tl simp del: butlast.simps)
  moreover have "as @ p # n # bs = head # us @ vs @ [head]"
    using as bs by (metis append.assoc append_Cons append_Nil)
  ultimately show ?thesis using d(1) by (auto simp: ring_def)
qed

lemma ring_frame:
  assumes "ring h head xs" "\<And>y. y \<in> set (head # xs) \<Longrightarrow> nxt h' y = nxt h y \<and> prv h' y = prv h y"
  shows "ring h' head xs"
proof -
  have "links h' (head # xs @ [head]) = links h (head # xs @ [head])"
    by (rule links_cong; use assms(2) in \<open>auto simp: butlast_append split: if_splits\<close>)
  then show ?thesis using assms(1) by (simp add: ring_def)
qed

lemma list_del_init_ring:
  assumes "ring h head (us @ x # vs)"
  shows "ring (list_del_init x h) head (us @ vs)" "ring (list_del_init x h) x []"
proof -
  have "x \<notin> set (head # us @ vs)" using assms by (auto simp: ring_def)
  then show "ring (list_del_init x h) head (us @ vs)"
    unfolding list_del_init_def
    by (intro ring_frame [OF list_del_ring [OF assms]]) (auto simp: list_init_def Let_def)
  show "ring (list_del_init x h) x []"
    unfolding list_del_init_def by (rule list_init_ring)
qed

section \<open>Loops\<close>

lemma for_each_from_ring:
  "links h (xs @ [head]) \<Longrightarrow> head \<notin> set xs \<Longrightarrow>
   for_each_from h head (hd (xs @ [head])) = Some xs"
proof (induction xs)
  case Nil
  then show ?case by (simp add: for_each_from.simps)
next
  case (Cons x xs)
  have "nxt h x = hd (xs @ [head])" "links h (xs @ [head])"
    using Cons.prems(1) by (cases xs; simp)+
  then show ?case using Cons by (simp add: for_each_from.simps [of h head x])
qed

lemma list_for_each_ring: "ring h head xs \<Longrightarrow> list_for_each h head = Some xs"
  unfolding list_for_each_def
  using for_each_from_ring [of h xs head] ring_nxt_head [of h head xs]
  by (cases xs) (auto simp: ring_def)

lemma for_each_rev_from_ring:
  "links h (head # xs) \<Longrightarrow> head \<notin> set xs \<Longrightarrow>
   for_each_rev_from h head (last (head # xs)) = Some (rev xs)"
proof (induction xs rule: rev_induct)
  case Nil
  then show ?case by (simp add: for_each_rev_from.simps)
next
  case (snoc x xs)
  have "prv h x = last (head # xs)" "links h (head # xs)"
    using snoc.prems(1) links_last_prv [of h head xs x] links_append [of h "head # butlast xs" "last xs" "[x]"]
    by (cases xs rule: rev_cases; simp)+
  then show ?case using snoc by (simp add: for_each_rev_from.simps [of h head x])
qed

lemma list_for_each_reversed_ring:
  assumes "ring h head xs"
  shows "list_for_each_reversed h head = Some (rev xs)"
proof -
  have "links h (head # xs)"
    using assms links_appendD [of h "head # xs" "[head]"] by (auto simp: ring_def)
  then show ?thesis
    unfolding list_for_each_reversed_def
    using for_each_rev_from_ring [of h head xs] ring_prv_head [OF assms] assms
    by (auto simp: ring_def)
qed

lemma list_get_next_ring:
  "ring h head xs \<Longrightarrow> list_get_next h head None = (case xs of [] \<Rightarrow> None | x # _ \<Rightarrow> Some x)"
  "ring h head (us @ x # vs) \<Longrightarrow>
     list_get_next h head (Some x) = (case vs of [] \<Rightarrow> None | y # _ \<Rightarrow> Some y)"
  using ring_nxt_head [of h head xs] ring_nxt [of h head us x vs]
  by (auto simp: list_get_next_def ring_def split: list.splits)

text \<open>Deleting every element while iterating with the safe loop empties the list.\<close>

lemma for_each_safe_del:
  "ring h head xs \<Longrightarrow>
   \<exists>h'. for_each_safe_from list_del head (hd (xs @ [head])) (nxt h (hd (xs @ [head]))) h = Some h'
     \<and> ring h' head []"
proof (induction xs arbitrary: h)
  case Nil
  then show ?case by (simp add: for_each_safe_from.simps)
next
  case (Cons x xs)
  have d: "ring (list_del x h) head xs" using list_del_ring [of h head "[]" x xs] Cons.prems by simp
  have "nxt h x = hd (xs @ [head])" using ring_nxt [of h head "[]" x xs] Cons.prems by simp
  moreover have "x \<noteq> head" using Cons.prems by (simp add: ring_def)
  ultimately show ?case
    using Cons.IH [OF d] by (simp add: for_each_safe_from.simps [of _ head x] Let_def)
qed

lemma list_for_each_safe_del_ring:
  "ring h head xs \<Longrightarrow> \<exists>h'. list_for_each_safe list_del head h = Some h' \<and> ring h' head []"
  using for_each_safe_del [of h head xs] ring_nxt_head [of h head xs]
  by (simp add: list_for_each_safe_def)

section \<open>Splicing\<close>

lemma list_splice_between_links:
  assumes "links h (as @ [p])" "links h (n # bs)" "links h (l # xs @ [l])" "xs \<noteq> []"
    and "distinct (as @ [p])" "distinct (l # xs)"
    and "set (as @ [p]) \<inter> set (l # xs) = {}" "set (n # bs) \<inter> set (l # xs) = {}"
    and "p \<notin> set (butlast (n # bs))" "n \<notin> set (tl (as @ [p]))" "n \<notin> set bs"
  shows "links (list_splice_between l p n h) (as @ p # xs @ n # bs)"
proof -
  let ?h = "list_splice_between l p n h"
  obtain f ys where xs: "xs = f # ys" using assms(4) by (cases xs) auto
  define z where "z = last xs"
  obtain zs where xz: "xs = zs @ [z]" using assms(4) z_def by (metis append_butlast_last_id)
  have fz: "nxt h l = f" "prv h l = z"
    using assms(3) xs z_def links_last_prv [of h l xs l] assms(4) by (auto simp: xs)
  have "f \<in> set xs" by (simp add: xs)
  have "z \<in> set xs" by (simp add: xz)
  have ne: "f \<noteq> p" "f \<noteq> n" "z \<noteq> p" "z \<noteq> n"
    using assms(7,8) \<open>f \<in> set xs\<close> \<open>z \<in> set xs\<close> by auto
  have "set (tl (as @ [p])) \<subseteq> set (as @ [p])" by (cases as) auto
  then have ft: "f \<notin> set (tl (as @ [p]))" using assms(7) \<open>f \<in> set xs\<close> by auto
  have h: "nxt ?h = (nxt h)(p := f, z := n)" "prv ?h = (prv h)(f := p, n := z)"
    by (auto simp: list_splice_between_def Let_def fz)
  have "links ?h (as @ [p]) = links h (as @ [p])"
    by (rule links_cong; use assms(5,7,10) \<open>f \<in> set xs\<close> \<open>z \<in> set xs\<close> ft in \<open>auto simp: h butlast_append dest: list.set_sel(2) [rotated] split: if_splits\<close>)
  moreover have "links ?h (n # bs) = links h (n # bs)"
    by (rule links_cong; use assms(8,9,11) \<open>f \<in> set xs\<close> \<open>z \<in> set xs\<close> in \<open>auto simp: h dest: in_set_butlastD split: if_splits\<close>)
  moreover have "links ?h xs = links h xs"
  proof (rule links_cong)
    show "nxt ?h x = nxt h x" if "x \<in> set (butlast xs)" for x
      using that assms(6,7) xz by (auto simp: h)
    show "prv ?h x = prv h x" if "x \<in> set (tl xs)" for x
      using that assms(6,8) xs by (auto simp: h)
  qed
  moreover have "links h xs"
    using assms(3) links_append [of h "l # zs" z "[l]"] xz
    by (cases zs) auto
  moreover have "links ?h [p, f]" "links ?h [z, n]" using ne by (auto simp: h)
  ultimately have ok: "links ?h (as @ [p])" "links ?h (n # bs)" "links ?h xs"
    "links ?h [p, f]" "links ?h [z, n]"
    using assms(1,2) by simp_all
  have "links ?h (xs @ n # bs)"
    using ok links_append [of ?h zs z "n # bs"] by (simp add: xz)
  then have "links ?h (p # xs @ n # bs)" using ok(4) by (simp add: xs)
  then show ?thesis using ok(1) links_append [of ?h as p "xs @ n # bs"] by simp
qed

lemma ring_splice_between:
  assumes r: "ring h head (us @ vs)" and l: "ring h l xs" "xs \<noteq> []"
    and dis: "set (head # us @ vs) \<inter> set (l # xs) = {}"
    and pn: "p = last (head # us)" "n = hd (vs @ [head])"
  shows "ring (list_splice_between l p n h) head (us @ xs @ vs)"
proof -
  obtain as where as: "head # us = as @ [p]"
    using pn(1) by (metis append_butlast_last_id list.distinct(1))
  obtain bs where bs: "vs @ [head] = n # bs"
    using pn(2) by (metis append_is_Nil_conv list.collapse list.distinct(1))
  have lk: "links h (as @ p # n # bs)"
    using r as bs by (metis append.assoc append_Cons append_Nil ring_def)
  have d: "distinct (as @ [p])" "distinct (head # us @ vs)" "distinct (l # xs)"
    using r l by (auto simp: ring_def simp flip: as)
  have bl: "butlast (n # bs) = vs" by (metis bs butlast_snoc)
  have tl: "tl (as @ [p]) = us" by (metis as list.sel(3))
  have "p \<notin> set vs" "n \<notin> set us" "n \<notin> set bs"
    using d(2) pn bs last_in_set [of "head # us"] by (cases vs; auto)+
  moreover have "set (as @ [p]) \<inter> set (l # xs) = {}" "set (n # bs) \<inter> set (l # xs) = {}"
    using dis unfolding as [symmetric] bs [symmetric] by auto
  ultimately have "links (list_splice_between l p n h) (as @ p # xs @ n # bs)"
    using lk d l links_append [of h as p "n # bs"]
    by (intro list_splice_between_links) (auto simp: bl tl ring_def simp del: butlast.simps)
  moreover have "as @ p # xs @ n # bs = head # us @ xs @ vs @ [head]"
    using as bs by (metis append.assoc append_Cons append_Nil)
  ultimately show ?thesis using d(2,3) dis by (auto simp: ring_def)
qed

lemma list_splice_ring:
  assumes "ring h head ys" "ring h l xs" "set (head # ys) \<inter> set (l # xs) = {}"
  shows "ring (list_splice head l h) head (xs @ ys)"
    "ring (list_splice_tail head l h) head (ys @ xs)"
  using ring_splice_between [of h head "[]" ys l xs head "nxt h head"]
    ring_splice_between [of h head ys "[]" l xs "prv h head" head]
    ring_nxt_head [OF assms(1)] ring_prv_head [OF assms(1)] assms list_is_empty_ring [OF assms(2)]
  by (auto simp: list_splice_def list_splice_tail_def)

section \<open>Positional insertion\<close>

lemma seek_from_fwd:
  "links h (vs @ [head]) \<Longrightarrow> head \<notin> set vs \<Longrightarrow> i \<le> pos \<Longrightarrow>
   seek_from (nxt h) head pos (hd (vs @ [head])) i = Some (hd (drop (nat (pos - i)) vs @ [head]))"
proof (induction vs arbitrary: i)
  case Nil
  then show ?case by (simp add: seek_from.simps)
next
  case (Cons x xs)
  have "nxt h x = hd (xs @ [head])" "links h (xs @ [head])"
    using Cons.prems(1) by (cases xs; simp)+
  moreover have "nat (pos - i) = Suc (nat (pos - (i + 1)))" if "i \<noteq> pos"
    using that Cons.prems(3) by simp
  ultimately show ?case
    using Cons.IH [of "i + 1"] Cons.prems by (auto simp: seek_from.simps [of _ head pos x])
qed

lemma seek_from_rev:
  "links h (head # vs) \<Longrightarrow> head \<notin> set vs \<Longrightarrow> i \<le> pos \<Longrightarrow>
   seek_from (prv h) head pos (last (head # vs)) i =
     Some (last (head # take (length vs - nat (pos - i)) vs))"
proof (induction vs arbitrary: i rule: rev_induct)
  case Nil
  then show ?case by (simp add: seek_from.simps)
next
  case (snoc x xs)
  have "prv h x = last (head # xs)" "links h (head # xs)"
    using snoc.prems(1) links_last_prv [of h head xs x] links_append [of h "head # butlast xs" "last xs" "[x]"]
    by (cases xs rule: rev_cases; simp)+
  moreover have "nat (pos - i) = Suc (nat (pos - (i + 1)))" if "i \<noteq> pos"
    using that snoc.prems(3) by simp
  ultimately show ?case
    using snoc.IH [of "i + 1"] snoc.prems by (auto simp: seek_from.simps [of _ head pos x])
qed

text \<open>Where \<open>list_insert\<close> puts the new element: how many elements stay in front of it.\<close>

definition insert_at :: "int \<Rightarrow> nat \<Rightarrow> nat" where
  "insert_at pos n =
     (if pos = LIST_APPEND then n
      else if pos = LIST_PREPEND then 0
      else if 0 \<le> pos then min (nat pos) n
      else n - nat (- pos - 1))"

text \<open>
  C2. On a well-formed list, \<open>list_insert\<close> always returns and links the new element at the
  position asked for: at the end, at the front, before the element with the given index (at the
  end past it), or, for a negative position, before the last \<open>-pos-1\<close> elements (at the front past
  it). The result is a well-formed list of the same elements with the new one inserted.
\<close>

theorem list_insert_refines:
  assumes "ring h head xs" "x \<notin> set (head # xs)" "- (2 ^ 31) < pos"
  shows "\<exists>h'. list_insert head x pos h = Some h' \<and>
    ring h' head (take (insert_at pos (length xs)) xs @ x # drop (insert_at pos (length xs)) xs)"
proof -
  have l: "links h (xs @ [head])" "links h (head # xs)" and hd: "head \<notin> set xs"
    using assms(1) links_appendD [of h "[head]" "xs @ [head]"]
      links_appendD [of h "head # xs" "[head]"] by (auto simp: ring_def)
  define k where "k = insert_at pos (length xs)"
  have r: "ring h head (take k xs @ drop k xs)" and x: "x \<notin> set (head # take k xs @ drop k xs)"
    using assms(1,2) by simp_all
  consider (tail) "pos = LIST_APPEND" | (head) "pos \<noteq> LIST_APPEND" "pos = LIST_PREPEND"
    | (fwd) "pos \<noteq> LIST_APPEND" "pos \<noteq> LIST_PREPEND" "0 \<le> pos"
    | (bwd) "pos \<noteq> LIST_APPEND" "pos \<noteq> LIST_PREPEND" "pos < 0" by linarith
  then have "\<exists>h'. list_insert head x pos h = Some h' \<and> ring h' head (take k xs @ x # drop k xs)"
  proof cases
    case tail
    then show ?thesis using list_add_tail_ring [OF assms(1,2)]
      by (simp add: list_insert_def k_def insert_at_def)
  next
    case head
    then show ?thesis using list_add_ring [OF assms(1,2)]
      by (simp add: list_insert_def k_def insert_at_def)
  next
    case fwd
    have "drop k xs = drop (nat pos) xs" using fwd by (simp add: k_def insert_at_def min_def)
    then have "seek_from (nxt h) head pos (nxt h head) 0 = Some (hd (drop k xs @ [head]))"
      using seek_from_fwd [OF l(1) hd fwd(3)] ring_nxt_head [OF assms(1)] by simp
    then show ?thesis using fwd list_add_tail_at [OF r x] by (simp add: list_insert_def)
  next
    case bwd
    then have "seek_from (prv h) head (- pos - 1) (prv h head) 0 = Some (last (head # take k xs))"
      using seek_from_rev [OF l(2) hd, of 0 "- pos - 1"] ring_prv_head [OF assms(1)]
      by (simp add: k_def insert_at_def)
    then show ?thesis using bwd assms(3) list_add_at [OF r x] by (simp add: list_insert_def)
  qed
  then show ?thesis by (simp add: k_def)
qed

text \<open>A ring of the nodes 1 and 2 around the head 0, for the witnesses.\<close>

definition ring_012 :: heap where
  "ring_012 = \<lparr>nxt = (\<lambda>p. if p = 0 then 1 else if p = 1 then 2 else 0),
              prv = (\<lambda>p. if p = 0 then 2 else if p = 1 then 0 else 1)\<rparr>"

lemma ring_012: "ring ring_012 0 [1, 2]"
  by (simp add: ring_def ring_012_def)

theorem list_insert_refines_witness:
  "\<exists>h'. list_insert 0 7 (-2) ring_012 = Some h' \<and> ring h' 0 [1, 7, 2]"
  using list_insert_refines [OF ring_012, of 7 "-2"]
  by (simp add: insert_at_def LIST_APPEND_def LIST_PREPEND_def)

text \<open>
  C3. Deleting an element of a well-formed list leaves exactly the other elements, in order, and
  walking the list in either direction then ends and visits them.
\<close>

theorem list_del_then_walk:
  assumes "ring h head (us @ x # vs)"
  shows "ring (list_del x h) head (us @ vs) \<and>
    list_for_each (list_del x h) head = Some (us @ vs) \<and>
    list_for_each_reversed (list_del x h) head = Some (rev (us @ vs))"
  using list_del_ring [OF assms] list_for_each_ring list_for_each_reversed_ring by blast

theorem list_del_then_walk_witness:
  "list_for_each (list_del 1 ring_012) 0 = Some [2]"
  using list_del_then_walk [of ring_012 0 "[]" 1 "[2]"] ring_012 by simp

end
