(* ===== verification/KeyedStore.thy ===== *)
theory KeyedStore
  imports Prelude
begin

text \<open>
  The contract shared by the keyed containers of the library (the hash tables of
  libiodefv2-hash.c and the variable list of variable.c): a store looked up by keys that are
  compared with an equivalence, with an update and a deletion. The client lemmas are proved
  from the laws and used through the interpretations in the theories of the providers.
\<close>

locale keyed_store =
  fixes inv :: "'s \<Rightarrow> bool"
    and same :: "'k \<Rightarrow> 'k \<Rightarrow> bool"
    and get :: "'s \<Rightarrow> 'k \<Rightarrow> 'v option"
    and put :: "'s \<Rightarrow> 'k \<Rightarrow> 'v \<Rightarrow> 's"
    and del :: "'s \<Rightarrow> 'k \<Rightarrow> 's"
  assumes same_refl: "same k k"
    and same_sym: "same k k' \<Longrightarrow> same k' k"
    and same_trans: "same k k' \<Longrightarrow> same k' k'' \<Longrightarrow> same k k''"
    and put_inv: "inv s \<Longrightarrow> inv (put s k v)"
    and del_inv: "inv s \<Longrightarrow> inv (del s k)"
    and get_put: "inv s \<Longrightarrow> get (put s k v) k' = (if same k' k then Some v else get s k')"
    and get_del: "inv s \<Longrightarrow> get (del s k) k' = (if same k' k then None else get s k')"
begin

lemma last_put_wins: "inv s \<Longrightarrow> same k' k \<Longrightarrow> get (put (put s k v) k' w) k = Some w"
  by (simp add: get_put put_inv same_sym)

lemma put_put_commute:
  assumes "inv s" "\<not> same k1 k2"
  shows "get (put (put s k1 v1) k2 v2) k = get (put (put s k2 v2) k1 v1) k"
  using assms same_trans [of k1 k k2] same_sym [of k k1] by (auto simp: get_put put_inv)

lemma put_del: "inv s \<Longrightarrow> get (del (put s k v) k) k' = get (del s k) k'"
  by (simp add: get_put get_del put_inv)

lemma del_put: "inv s \<Longrightarrow> get (put (del s k) k v) k' = get (put s k v) k'"
  by (simp add: get_put get_del del_inv)

lemma puts_inv: "inv s \<Longrightarrow> inv (fold (\<lambda>(k, v) s. put s k v) kvs s)"
  by (induction kvs arbitrary: s) (auto simp: put_inv)

lemma get_puts:
  "inv s \<Longrightarrow> get (fold (\<lambda>(k, v) s. put s k v) kvs s) k =
     (case find (\<lambda>(k', _). same k k') (rev kvs) of Some (_, v) \<Rightarrow> Some v | None \<Rightarrow> get s k)"
proof (induction kvs arbitrary: s rule: rev_induct)
  case (snoc kv kvs)
  obtain k1 v1 where "kv = (k1, v1)" by force
  then show ?case using snoc by (simp add: get_put puts_inv)
qed simp

end

section \<open>Association lists searched with a comparison\<close>

text \<open>
  The buckets of a hash table and the variable list: the first element whose key compares equal
  is found, replaced or removed.
\<close>

definition bucket_put :: "('k \<Rightarrow> 'k \<Rightarrow> bool) \<Rightarrow> 'k \<Rightarrow> 'v \<Rightarrow> ('k \<times> 'v) list \<Rightarrow> ('k \<times> 'v) list" where
  "bucket_put cmp k v xs = (case find_index (\<lambda>e. cmp k (fst e)) xs of
     Some i \<Rightarrow> xs[i := (k, v)] | None \<Rightarrow> (k, v) # xs)"

definition bucket_del :: "('k \<Rightarrow> 'k \<Rightarrow> bool) \<Rightarrow> 'k \<Rightarrow> ('k \<times> 'v) list \<Rightarrow> ('k \<times> 'v) list" where
  "bucket_del cmp k xs = (case find_index (\<lambda>e. cmp k (fst e)) xs of
     Some i \<Rightarrow> remove_nth i xs | None \<Rightarrow> xs)"

lemma equivp_kernel:
  fixes cmp :: "'k \<Rightarrow> 'k \<Rightarrow> bool"
  assumes "equivp cmp"
  shows "\<exists>f :: 'k \<Rightarrow> 'k \<Rightarrow> bool. \<forall>x y. cmp x y \<longleftrightarrow> f x = f y"
  using assms unfolding equivp_def by (intro exI [of _ cmp])

lemma bucket_put_find:
  fixes cmp :: "'k \<Rightarrow> 'k \<Rightarrow> bool"
  assumes "equivp cmp"
  shows "map_option snd (find (\<lambda>e. cmp k' (fst e)) (bucket_put cmp k v xs)) =
    (if cmp k' k then Some v else map_option snd (find (\<lambda>e. cmp k' (fst e)) xs))"
proof -
  obtain f :: "'k \<Rightarrow> 'k \<Rightarrow> bool" where f: "\<forall>x y. cmp x y \<longleftrightarrow> f x = f y" using equivp_kernel [OF assms] by (elim exE)
  show ?thesis
  proof (cases "find_index (\<lambda>e. f k = f (fst e)) xs")
    case None
    then show ?thesis by (simp add: bucket_put_def f)
  next
    case (Some i)
    then obtain us x vs where *: "xs = us @ x # vs" "length us = i" "f k = f (fst x)"
      "\<forall>u \<in> set us. f k \<noteq> f (fst u)" by (rule find_index_split)
    then have "find (\<lambda>e. f k = f (fst e)) us = None" by (auto simp: find_None_iff)
    then show ?thesis using Some * by (auto simp: bucket_put_def f find_append split: option.splits)
  qed
qed

definition bucket_unique :: "('k \<Rightarrow> 'k \<Rightarrow> bool) \<Rightarrow> ('k \<times> 'v) list \<Rightarrow> bool" where
  "bucket_unique cmp xs \<longleftrightarrow> sorted_wrt (\<lambda>e e'. \<not> cmp (fst e) (fst e')) xs"

lemma bucket_del_find:
  fixes cmp :: "'k \<Rightarrow> 'k \<Rightarrow> bool"
  assumes "equivp cmp" "bucket_unique cmp xs"
  shows "find (\<lambda>e. cmp k' (fst e)) (bucket_del cmp k xs) =
    (if cmp k' k then None else find (\<lambda>e. cmp k' (fst e)) xs)"
proof -
  obtain f :: "'k \<Rightarrow> 'k \<Rightarrow> bool" where f: "\<forall>x y. cmp x y \<longleftrightarrow> f x = f y" using equivp_kernel [OF assms(1)] by (elim exE)
  show ?thesis
  proof (cases "find_index (\<lambda>e. f k = f (fst e)) xs")
    case None
    then have "\<forall>e \<in> set xs. f k \<noteq> f (fst e)" by (simp add: find_index_None)
    then show ?thesis using None by (auto simp: bucket_del_def f find_None_iff)
  next
    case (Some i)
    then obtain us x vs where *: "xs = us @ x # vs" "length us = i" "f k = f (fst x)"
      "\<forall>u \<in> set us. f k \<noteq> f (fst u)" by (rule find_index_split)
    have "\<forall>e \<in> set vs. f k \<noteq> f (fst e)"
      using * assms(2) by (auto simp: bucket_unique_def sorted_wrt_append f)
    then have "find (\<lambda>e. f k = f (fst e)) (us @ vs) = None" using *(4) by (auto simp: find_None_iff)
    moreover have "find (\<lambda>e. f k' = f (fst e)) (us @ x # vs) = find (\<lambda>e. f k' = f (fst e)) (us @ vs)"
      if "f k' \<noteq> f k" using that *(3) by (simp add: find_append split: option.splits)
    ultimately show ?thesis using Some *(1,2) by (auto simp: bucket_del_def f)
  qed
qed

lemma bucket_put_unique:
  fixes cmp :: "'k \<Rightarrow> 'k \<Rightarrow> bool"
  assumes "equivp cmp" "bucket_unique cmp xs"
  shows "bucket_unique cmp (bucket_put cmp k v xs)"
proof -
  obtain f :: "'k \<Rightarrow> 'k \<Rightarrow> bool" where f: "\<forall>x y. cmp x y \<longleftrightarrow> f x = f y" using equivp_kernel [OF assms(1)] by (elim exE)
  show ?thesis
  proof (cases "find_index (\<lambda>e. f k = f (fst e)) xs")
    case None
    then show ?thesis
      using assms(2) by (simp add: bucket_put_def bucket_unique_def f) (simp add: find_index_None)
  next
    case (Some i)
    then obtain us x vs where "xs = us @ x # vs" "length us = i" "f k = f (fst x)"
      "\<forall>u \<in> set us. f k \<noteq> f (fst u)" by (rule find_index_split)
    then show ?thesis
      using Some assms(2) by (auto simp: bucket_put_def bucket_unique_def f sorted_wrt_append)
  qed
qed

lemma bucket_del_unique:
  assumes "bucket_unique cmp xs"
  shows "bucket_unique cmp (bucket_del cmp k xs)"
proof (cases "find_index (\<lambda>e. cmp k (fst e)) xs")
  case (Some i)
  then obtain us x vs where "xs = us @ x # vs" "length us = i" by (rule find_index_split)
  then show ?thesis
    using Some assms by (auto simp: bucket_del_def bucket_unique_def sorted_wrt_append)
qed (use assms in \<open>simp add: bucket_del_def\<close>)

lemma bucket_put_keys: "e \<in> set (bucket_put cmp k v xs) \<Longrightarrow> e = (k, v) \<or> e \<in> set xs"
  by (auto simp: bucket_put_def split: option.splits dest: subsetD [OF set_update_subset_insert])

lemma bucket_del_keys: "e \<in> set (bucket_del cmp k xs) \<Longrightarrow> e \<in> set xs"
  by (auto simp: bucket_del_def remove_nth_def split: option.splits dest: in_set_takeD in_set_dropD)

end
