(* ===== verification/Hash.thy ===== *)
theory Hash
  imports KeyedStore "HOL-Library.Multiset"
begin

unbundle bit_operations_syntax

text \<open>
  The hash tables of src/src/libiodefv2-hash.c. A table is an array of buckets, each a
  circular list (theory CList) whose elements carry a key and a value; a bucket is modelled by
  the list of its elements, head first. The hash and comparison callbacks are fields of the
  table, as in the code; the destroy callbacks are recorded as events, in the order of the calls.
\<close>

section \<open>State and operations\<close>

record ('k, 'v) hash =
  lists_size :: nat
  buckets :: "('k \<times> 'v) list list"
  hash_func :: "'k \<Rightarrow> 32 word"
  key_cmp_func :: "'k \<Rightarrow> 'k \<Rightarrow> bool" \<comment> \<open>the callback returned 0\<close>
  key_destroy_func :: bool \<comment> \<open>a callback is set\<close>
  value_destroy_func :: bool

datatype ('k, 'v) event = Key_destroyed 'k | Value_destroyed 'v

definition HASH_DEFAULT_SIZE :: nat where
  "HASH_DEFAULT_SIZE = 128"

text \<open>\<open>char\<close> is signed: a byte above 127 is sign-extended before it enters the hash value.\<close>

definition schar :: "char \<Rightarrow> 32 word" where
  "schar c = word_of_int (to_signed 8 (int (ccode c)))"

definition default_hash_func :: "string \<Rightarrow> 32 word" where
  "default_hash_func key = (case key of
     [] \<Rightarrow> 0
   | c # cs \<Rightarrow> foldl (\<lambda>hv d. push_bit 5 hv - hv + schar d) (schar c) cs)"

definition default_key_cmp_func :: "string \<Rightarrow> string \<Rightarrow> bool" where
  "default_key_cmp_func a b \<longleftrightarrow> a = b"

definition hash_value_calc :: "('k, 'v) hash \<Rightarrow> 'k \<Rightarrow> nat res" where
  "hash_value_calc h key =
     (if lists_size h = 0 then Inl (UB Div_by_zero)
      else Inr (unat (hash_func h key) mod lists_size h))"

text \<open>The element found: its bucket and its position there.\<close>

definition hash_elem_get :: "('k, 'v) hash \<Rightarrow> 'k \<Rightarrow> (nat \<times> nat) option res" where
  "hash_elem_get h key =
     res_bind (hash_value_calc h key) (\<lambda>b.
       Inr (map_option (Pair b) (find_index (\<lambda>(k, _). key_cmp_func h key k) (buckets h ! b))))"

definition elem_events :: "('k, 'v) hash \<Rightarrow> 'k \<times> 'v \<Rightarrow> ('k, 'v) event list" where
  "elem_events h e =
     (if key_destroy_func h then [Key_destroyed (fst e)] else []) @
     (if value_destroy_func h then [Value_destroyed (snd e)] else [])"

text \<open>\<open>hash_alloc\<close> and \<open>lists_alloc\<close>: whether the two allocations succeed.\<close>

definition hash_new2 ::
  "bool \<Rightarrow> bool \<Rightarrow> nat \<Rightarrow> ('k \<Rightarrow> 32 word) \<Rightarrow> ('k \<Rightarrow> 'k \<Rightarrow> bool) \<Rightarrow> bool \<Rightarrow> bool \<Rightarrow> ('k, 'v) hash res" where
  "hash_new2 hash_alloc lists_alloc sz hf cmp kd vd =
     (if \<not> hash_alloc then Inl E_errno
      else if \<not> lists_alloc then Inl E_errno
      else Inr \<lparr>lists_size = sz, buckets = replicate sz [], hash_func = hf,
                key_cmp_func = cmp, key_destroy_func = kd, value_destroy_func = vd\<rparr>)"

definition hash_new ::
  "bool \<Rightarrow> bool \<Rightarrow> ('k \<Rightarrow> 32 word) \<Rightarrow> ('k \<Rightarrow> 'k \<Rightarrow> bool) \<Rightarrow> bool \<Rightarrow> bool \<Rightarrow> ('k, 'v) hash res" where
  "hash_new hash_alloc lists_alloc = hash_new2 hash_alloc lists_alloc HASH_DEFAULT_SIZE"

definition hash_add ::
  "bool \<Rightarrow> ('k, 'v) hash \<Rightarrow> 'k \<Rightarrow> 'v \<Rightarrow> (('k, 'v) hash \<times> int) res" where
  "hash_add alloc h key v =
     (if \<not> alloc then Inl E_errno
      else res_bind (hash_value_calc h key) (\<lambda>b.
        Inr (h\<lparr>buckets := (buckets h)[b := (key, v) # buckets h ! b]\<rparr>, 1)))"

definition hash_set ::
  "bool \<Rightarrow> ('k, 'v) hash \<Rightarrow> 'k \<Rightarrow> 'v \<Rightarrow> (('k, 'v) hash \<times> int \<times> ('k, 'v) event list) res" where
  "hash_set alloc h key v =
     res_bind (hash_elem_get h key) (\<lambda>r. case r of
       Some (b, i) \<Rightarrow>
         Inr (h\<lparr>buckets := (buckets h)[b := (buckets h ! b)[i := (key, v)]]\<rparr>, 0,
              elem_events h (buckets h ! b ! i))
     | None \<Rightarrow> res_bind (hash_add alloc h key v) (\<lambda>(h', ret). Inr (h', ret, [])))"

definition hash_get :: "('k, 'v) hash \<Rightarrow> 'k \<Rightarrow> 'v option res" where
  "hash_get h key =
     res_bind (hash_elem_get h key) (\<lambda>r.
       Inr (map_option (\<lambda>(b, i). snd (buckets h ! b ! i)) r))"

definition hash_elem_destroy ::
  "('k, 'v) hash \<Rightarrow> 'k \<Rightarrow> (('k, 'v) hash \<times> ('k, 'v) event list) res" where
  "hash_elem_destroy h key =
     res_bind (hash_elem_get h key) (\<lambda>r. case r of
       None \<Rightarrow> Inl E_minus1
     | Some (b, i) \<Rightarrow>
         Inr (h\<lparr>buckets := (buckets h)[b := remove_nth i (buckets h ! b)]\<rparr>,
              elem_events h (buckets h ! b ! i)))"

definition hash_destroy :: "('k, 'v) hash \<Rightarrow> ('k, 'v) event list" where
  "hash_destroy h = concat (List.map (elem_events h) (concat (buckets h)))"

text \<open>
  The values the callback of \<open>libiodefv2_hash_iterate\<close> sees, in order. The counter is a 32-bit
  \<open>unsigned int\<close> compared with a \<open>size_t\<close>: with more buckets the loop does not end.
\<close>

definition hash_iterate :: "('k, 'v) hash \<Rightarrow> 'v list option" where
  "hash_iterate h =
     (if lists_size h < 2 ^ 32 then Some (List.map snd (concat (buckets h))) else None)"

section \<open>Invariants\<close>

text \<open>
  \<open>hash_ok\<close>: the bucket array has the declared, non-zero size. \<open>hash_keyed\<close>: besides, the
  comparison is an equivalence the hash function respects, every element is in the bucket of its
  key and no two elements of a bucket have the same key.
\<close>

definition hash_ok :: "('k, 'v) hash \<Rightarrow> bool" where
  "hash_ok h \<longleftrightarrow> 0 < lists_size h \<and> length (buckets h) = lists_size h"

definition bucket_of :: "('k, 'v) hash \<Rightarrow> 'k \<Rightarrow> nat" where
  "bucket_of h key = unat (hash_func h key) mod lists_size h"

definition hash_keyed :: "('k, 'v) hash \<Rightarrow> bool" where
  "hash_keyed h \<longleftrightarrow> hash_ok h \<and> equivp (key_cmp_func h) \<and>
     (\<forall>k k'. key_cmp_func h k k' \<longrightarrow> hash_func h k = hash_func h k') \<and>
     (\<forall>b < lists_size h. \<forall>e \<in> set (buckets h ! b). bucket_of h (fst e) = b) \<and>
     (\<forall>b < lists_size h.
        sorted_wrt (\<lambda>e e'. \<not> key_cmp_func h (fst e) (fst e')) (buckets h ! b))"

lemma hash_value_calc_ok: "hash_ok h \<Longrightarrow> hash_value_calc h k = Inr (bucket_of h k)"
  by (simp add: hash_value_calc_def hash_ok_def bucket_of_def)

lemma bucket_of_less: "hash_ok h \<Longrightarrow> bucket_of h k < length (buckets h)"
  by (simp add: hash_ok_def bucket_of_def)

definition bucket_find :: "('k, 'v) hash \<Rightarrow> 'k \<Rightarrow> nat option" where
  "bucket_find h key = find_index (\<lambda>e. key_cmp_func h key (fst e)) (buckets h ! bucket_of h key)"

lemma hash_elem_get_ok:
  "hash_ok h \<Longrightarrow> hash_elem_get h k = Inr (map_option (Pair (bucket_of h k)) (bucket_find h k))"
  by (simp add: hash_elem_get_def hash_value_calc_ok bucket_find_def case_prod_unfold)

lemma hash_get_ok:
  "hash_ok h \<Longrightarrow> hash_get h k =
     Inr (map_option snd (find (\<lambda>e. key_cmp_func h k (fst e)) (buckets h ! bucket_of h k)))"
  by (simp add: hash_get_def hash_elem_get_ok bucket_find_def find_conv_index option.map_comp o_def)

text \<open>What the two updating operations do to the table, as total functions.\<close>

definition hash_put :: "('k, 'v) hash \<Rightarrow> 'k \<Rightarrow> 'v \<Rightarrow> ('k, 'v) hash" where
  "hash_put h k v = (let b = bucket_of h k in
     h\<lparr>buckets := (buckets h)[b := bucket_put (key_cmp_func h) k v (buckets h ! b)]\<rparr>)"

definition hash_del :: "('k, 'v) hash \<Rightarrow> 'k \<Rightarrow> ('k, 'v) hash" where
  "hash_del h k = (let b = bucket_of h k in
     h\<lparr>buckets := (buckets h)[b := bucket_del (key_cmp_func h) k (buckets h ! b)]\<rparr>)"

definition hash_lookup :: "('k, 'v) hash \<Rightarrow> 'k \<Rightarrow> 'v option" where
  "hash_lookup h k = (case hash_get h k of Inr r \<Rightarrow> r | Inl _ \<Rightarrow> None)"

lemma hash_set_ok:
  "hash_ok h \<Longrightarrow> hash_set True h k v =
     Inr (hash_put h k v,
       case bucket_find h k of Some i \<Rightarrow> 0 | None \<Rightarrow> 1,
       case bucket_find h k of Some i \<Rightarrow> elem_events h (buckets h ! bucket_of h k ! i) | None \<Rightarrow> [])"
  by (auto simp: hash_set_def hash_elem_get_ok hash_add_def hash_value_calc_ok hash_put_def
      bucket_put_def bucket_find_def Let_def split: option.splits)

lemma hash_elem_destroy_ok:
  "hash_ok h \<Longrightarrow> hash_elem_destroy h k = (case bucket_find h k of
       None \<Rightarrow> Inl E_minus1
     | Some i \<Rightarrow> Inr (hash_del h k, elem_events h (buckets h ! bucket_of h k ! i)))"
  by (auto simp: hash_elem_destroy_def hash_elem_get_ok hash_del_def bucket_del_def
      bucket_find_def Let_def split: option.splits)

section \<open>The table is a keyed store\<close>

lemma hash_keyed_alt:
  "hash_keyed h \<longleftrightarrow> hash_ok h \<and> equivp (key_cmp_func h) \<and>
     (\<forall>k k'. key_cmp_func h k k' \<longrightarrow> hash_func h k = hash_func h k') \<and>
     (\<forall>b < length (buckets h). (\<forall>e \<in> set (buckets h ! b). bucket_of h (fst e) = b) \<and>
        bucket_unique (key_cmp_func h) (buckets h ! b))"
  unfolding hash_keyed_def hash_ok_def bucket_unique_def by auto

lemma hash_update_simps [simp]:
  "hash_func (hash_put h k v) = hash_func h" "key_cmp_func (hash_put h k v) = key_cmp_func h"
  "hash_func (hash_del h k) = hash_func h" "key_cmp_func (hash_del h k) = key_cmp_func h"
  "lists_size (hash_put h k v) = lists_size h" "lists_size (hash_del h k) = lists_size h"
  "bucket_of (hash_put h k v) = bucket_of h" "bucket_of (hash_del h k) = bucket_of h"
  "key_destroy_func (hash_put h k v) = key_destroy_func h"
  "value_destroy_func (hash_put h k v) = value_destroy_func h"
  "key_destroy_func (hash_del h k) = key_destroy_func h"
  "value_destroy_func (hash_del h k) = value_destroy_func h"
  "hash_ok (hash_put h k v) = hash_ok h" "hash_ok (hash_del h k) = hash_ok h"
  by (auto simp: hash_put_def hash_del_def Let_def bucket_of_def hash_ok_def fun_eq_iff)

lemma hash_update_buckets:
  "buckets (hash_put h k v) = (buckets h)[bucket_of h k :=
     bucket_put (key_cmp_func h) k v (buckets h ! bucket_of h k)]"
  "buckets (hash_del h k) = (buckets h)[bucket_of h k :=
     bucket_del (key_cmp_func h) k (buckets h ! bucket_of h k)]"
  by (simp_all add: hash_put_def hash_del_def Let_def)

lemma hash_put_keyed: "hash_keyed h \<Longrightarrow> hash_keyed (hash_put h k v)"
  by (auto simp: hash_keyed_alt hash_update_buckets nth_list_update_if split: if_splits
      intro: bucket_put_unique dest!: bucket_put_keys)

lemma hash_del_keyed: "hash_keyed h \<Longrightarrow> hash_keyed (hash_del h k)"
  by (auto simp: hash_keyed_alt hash_update_buckets nth_list_update_if split: if_splits
      intro: bucket_del_unique dest!: bucket_del_keys)

lemma hash_lookup_ok:
  "hash_ok h \<Longrightarrow> hash_lookup h k =
     map_option snd (find (\<lambda>e. key_cmp_func h k (fst e)) (buckets h ! bucket_of h k))"
  by (simp add: hash_lookup_def hash_get_ok)

lemma key_cmp_bucket: "hash_keyed h \<Longrightarrow> key_cmp_func h k k' \<Longrightarrow> bucket_of h k = bucket_of h k'"
  by (simp add: hash_keyed_def bucket_of_def)

lemma hash_lookup_put:
  assumes "hash_keyed h"
  shows "hash_lookup (hash_put h k v) k' =
    (if key_cmp_func h k' k then Some v else hash_lookup h k')"
proof -
  have ok: "hash_ok h" "equivp (key_cmp_func h)" using assms by (auto simp: hash_keyed_def)
  show ?thesis
  proof (cases "bucket_of h k' = bucket_of h k")
    case True
    then show ?thesis
      by (simp add: hash_lookup_ok ok(1) hash_update_buckets bucket_of_less [OF ok(1)]
          bucket_put_find [OF ok(2)])
  next
    case False
    then have "\<not> key_cmp_func h k' k" using key_cmp_bucket [OF assms] by blast
    then show ?thesis using False by (simp add: hash_lookup_ok ok(1) hash_update_buckets)
  qed
qed

lemma hash_lookup_del:
  assumes "hash_keyed h"
  shows "hash_lookup (hash_del h k) k' =
    (if key_cmp_func h k' k then None else hash_lookup h k')"
proof -
  have ok: "hash_ok h" "equivp (key_cmp_func h)" using assms by (auto simp: hash_keyed_def)
  have u: "bucket_unique (key_cmp_func h) (buckets h ! bucket_of h k)"
    using assms bucket_of_less [OF ok(1)] by (auto simp: hash_keyed_alt)
  show ?thesis
  proof (cases "bucket_of h k' = bucket_of h k")
    case True
    then show ?thesis
      by (simp add: hash_lookup_ok ok(1) hash_update_buckets bucket_of_less [OF ok(1)]
          bucket_del_find [OF ok(2) u])
  next
    case False
    then have "\<not> key_cmp_func h k' k" using key_cmp_bucket [OF assms] by blast
    then show ?thesis using False by (simp add: hash_lookup_ok ok(1) hash_update_buckets)
  qed
qed

lemma hash_get_lookup: "hash_ok h \<Longrightarrow> hash_get h k = Inr (hash_lookup h k)"
  by (simp add: hash_get_ok hash_lookup_ok)

lemma bucket_find_lookup: "hash_ok h \<Longrightarrow> bucket_find h k = None \<longleftrightarrow> hash_lookup h k = None"
  by (simp add: bucket_find_def hash_lookup_ok find_conv_index)

interpretation string_hash: keyed_store
  "\<lambda>h. hash_keyed h \<and> key_cmp_func h = default_key_cmp_func"
  default_key_cmp_func hash_lookup hash_put hash_del
  by unfold_locales
    (auto simp: default_key_cmp_func_def hash_put_keyed hash_del_keyed hash_lookup_put hash_lookup_del)

lemma hash_new_keyed:
  assumes "hash_new2 True True sz hf cmp kd vd = Inr h" "0 < sz"
    and "equivp cmp" "\<And>k k'. cmp k k' \<Longrightarrow> hf k = hf k'"
  shows "hash_keyed h" "hash_lookup h k = None"
proof -
  have h: "h = \<lparr>lists_size = sz, buckets = replicate sz [], hash_func = hf,
                key_cmp_func = cmp, key_destroy_func = kd, value_destroy_func = vd\<rparr>"
    using assms(1) by (simp add: hash_new2_def)
  show "hash_keyed h"
    unfolding hash_keyed_alt hash_ok_def h using assms(2-4)
    by (simp add: bucket_unique_def)
  then have ok: "hash_ok h" by (simp add: hash_keyed_def)
  show "hash_lookup h k = None"
    using bucket_of_less [OF ok] by (simp add: hash_lookup_ok [OF ok]) (simp add: h)
qed

section \<open>Every key and value is released exactly once\<close>

definition contents :: "('k, 'v) hash \<Rightarrow> ('k \<times> 'v) multiset" where
  "contents h = mset (concat (buckets h))"

definition released :: "('k \<times> 'v) multiset \<Rightarrow> ('k, 'v) event multiset" where
  "released es = image_mset (Key_destroyed \<circ> fst) es + image_mset (Value_destroyed \<circ> snd) es"

datatype ('k, 'v) hop = Op_add 'k 'v | Op_set 'k 'v | Op_destroy 'k

text \<open>A client's calls in order; a call that fails leaves the table as it was.\<close>

fun hash_run :: "('k, 'v) hash \<Rightarrow> ('k, 'v) hop list \<Rightarrow> ('k, 'v) hash \<times> ('k, 'v) event list" where
  "hash_run h [] = (h, [])"
| "hash_run h (Op_add k v # ops) = (case hash_add True h k v of
     Inl _ \<Rightarrow> hash_run h ops | Inr (h', _) \<Rightarrow> hash_run h' ops)"
| "hash_run h (Op_set k v # ops) = (case hash_set True h k v of
     Inl _ \<Rightarrow> hash_run h ops
   | Inr (h', _, ev) \<Rightarrow> (let (h'', evs) = hash_run h' ops in (h'', ev @ evs)))"
| "hash_run h (Op_destroy k # ops) = (case hash_elem_destroy h k of
     Inl _ \<Rightarrow> hash_run h ops
   | Inr (h', ev) \<Rightarrow> (let (h'', evs) = hash_run h' ops in (h'', ev @ evs)))"

fun handed_over :: "('k, 'v) hop list \<Rightarrow> ('k \<times> 'v) multiset" where
  "handed_over [] = {#}"
| "handed_over (Op_add k v # ops) = add_mset (k, v) (handed_over ops)"
| "handed_over (Op_set k v # ops) = add_mset (k, v) (handed_over ops)"
| "handed_over (Op_destroy k # ops) = handed_over ops"

lemma mset_concat_update:
  "i < length xss \<Longrightarrow> mset (concat (xss[i := xs])) + mset (xss ! i) = mset (concat xss) + mset xs"
proof (induction xss arbitrary: i)
  case (Cons ys yss)
  then show ?case by (cases i) (auto simp: ac_simps)
qed simp

lemma mset_swap:
  fixes x y :: "'e multiset"
  assumes "x + c = y + d" "d + a = c + b"
  shows "x + a = y + b"
proof -
  have "x + a + c = (x + c) + a" by (simp only: ac_simps)
  also have "\<dots> = y + (d + a)" using assms(1) by (simp only: ac_simps)
  also have "\<dots> = (y + b) + c" using assms(2) by (simp only: ac_simps)
  finally show ?thesis by simp
qed

lemma contents_update:
  assumes "hash_ok h" "mset xs + A = mset (buckets h ! bucket_of h k) + B"
  shows "contents (h\<lparr>buckets := (buckets h)[bucket_of h k := xs]\<rparr>) + A = contents h + B"
proof -
  have "contents (h\<lparr>buckets := (buckets h)[bucket_of h k := xs]\<rparr>) + mset (buckets h ! bucket_of h k)
      = contents h + mset xs"
    using mset_concat_update [OF bucket_of_less [OF assms(1)]] by (simp add: contents_def)
  then show ?thesis by (rule mset_swap) (rule assms(2))
qed

lemma bucket_find_Some:
  assumes "bucket_find h k = Some i"
  shows "i < length (buckets h ! bucket_of h k)"
  using assms find_index_Some unfolding bucket_find_def by fast

lemma contents_hash_put:
  assumes "hash_ok h"
  shows "contents (hash_put h k v) + (case bucket_find h k of
      Some i \<Rightarrow> {#buckets h ! bucket_of h k ! i#} | None \<Rightarrow> {#}) = contents h + {#(k, v)#}"
proof (cases "bucket_find h k")
  case None
  then show ?thesis
    using contents_update [OF assms, of "(k, v) # buckets h ! bucket_of h k" "{#}" k "{#(k, v)#}"]
    by (simp add: hash_put_def Let_def bucket_put_def bucket_find_def)
next
  case (Some i)
  have "i < length (buckets h ! bucket_of h k)" by (rule bucket_find_Some [OF Some])
  then have "mset ((buckets h ! bucket_of h k)[i := (k, v)]) + {#buckets h ! bucket_of h k ! i#}
      = mset (buckets h ! bucket_of h k) + {#(k, v)#}"
    by (simp add: mset_update)
  from contents_update [OF assms this] show ?thesis
    using Some
    by (simp add: hash_put_def Let_def bucket_put_def bucket_find_def)
qed

lemma contents_hash_del:
  assumes "hash_ok h" "bucket_find h k = Some i"
  shows "contents (hash_del h k) + {#buckets h ! bucket_of h k ! i#} = contents h"
proof -
  have "i < length (buckets h ! bucket_of h k)" by (rule bucket_find_Some [OF assms(2)])
  then have "mset (remove_nth i (buckets h ! bucket_of h k)) + {#buckets h ! bucket_of h k ! i#}
      = mset (buckets h ! bucket_of h k) + {#}"
    by (subst (3) id_take_nth_drop [of i]) (simp_all add: remove_nth_def)
  from contents_update [OF assms(1) this] show ?thesis
    using assms(2)
    by (simp add: hash_del_def Let_def bucket_del_def bucket_find_def)
qed

lemma released_simps [simp]:
  "released {#} = {#}" "released (A + B) = released A + released B"
  by (auto simp: released_def ac_simps)

lemma released_add_mset [simp]:
  "released (add_mset e A) =
     add_mset (Key_destroyed (fst e)) (add_mset (Value_destroyed (snd e)) (released A))"
  by (simp add: released_def)

lemma mset_elem_events:
  "key_destroy_func h \<Longrightarrow> value_destroy_func h \<Longrightarrow> mset (elem_events h e) = released {#e#}"
  by (simp add: elem_events_def)

lemma mset_hash_destroy:
  assumes "key_destroy_func h" "value_destroy_func h"
  shows "mset (hash_destroy h) = released (contents h)"
proof -
  have "mset (concat (List.map (elem_events h) es)) = released (mset es)" for es
    by (induction es) (simp_all add: mset_elem_events [OF assms])
  then show ?thesis by (simp add: hash_destroy_def contents_def)
qed

lemma contents_hash_add:
  assumes "hash_ok h" "hash_add True h k v = Inr (h', r)"
  shows "contents h' = contents h + {#(k, v)#}" "hash_ok h'"
    "key_destroy_func h' = key_destroy_func h" "value_destroy_func h' = value_destroy_func h"
  using contents_update [OF assms(1), of "(k, v) # buckets h ! bucket_of h k" "{#}" k "{#(k, v)#}"] assms
  by (auto simp: hash_add_def hash_value_calc_ok hash_ok_def)

lemma hash_run_conserves:
  "hash_ok h \<Longrightarrow> key_destroy_func h \<Longrightarrow> value_destroy_func h \<Longrightarrow> hash_run h ops = (h', evs) \<Longrightarrow>
   mset evs + released (contents h') = released (contents h + handed_over ops) \<and>
   key_destroy_func h' \<and> value_destroy_func h'"
proof (induction h ops arbitrary: h' evs rule: hash_run.induct)
  case (2 h k v ops)
  obtain h1 r where a: "hash_add True h k v = Inr (h1, r)"
    using 2(3) by (simp add: hash_add_def hash_value_calc_ok)
  note c = contents_hash_add [OF 2(3) a]
  have r: "hash_run h1 ops = (h', evs)" using 2(6) a by simp
  show ?case
    using 2(2) [OF a refl c(2) _ _ r] c 2(4,5) by simp
next
  case (3 h k v ops)
  let ?old = "case bucket_find h k of
      Some i \<Rightarrow> {#buckets h ! bucket_of h k ! i#} | None \<Rightarrow> {#}"
  obtain r ev where a: "hash_set True h k v = Inr (hash_put h k v, r, ev)"
    and ev: "mset ev = released ?old"
    using hash_set_ok [OF 3(3)] mset_elem_events [OF 3(4,5)] by (auto split: option.splits)
  obtain evs' where r: "hash_run (hash_put h k v) ops = (h', evs')" "evs = ev @ evs'"
    using 3(6) a by (auto split: prod.splits)
  have "mset evs' + released (contents h') = released (contents (hash_put h k v) + handed_over ops)"
    "key_destroy_func h' \<and> value_destroy_func h'"
    using 3(2) [OF a refl refl _ _ _ r(1)] 3(3-5) by simp_all
  moreover have "released (contents (hash_put h k v)) + released ?old
      = released (contents h) + released {#(k, v)#}"
    using arg_cong [OF contents_hash_put [OF 3(3)], of released] by (simp only: released_simps)
  ultimately have "(mset evs' + released (contents h')) + released ?old =
      released (contents h) + released {#(k, v)#} + released (handed_over ops)"
    by (simp only: released_simps ac_simps)
  then show ?case using \<open>key_destroy_func h' \<and> value_destroy_func h'\<close>
    by (simp add: r(2) ev ac_simps)
next
  case (4 h k ops)
  show ?case
  proof (cases "bucket_find h k")
    case None
    then have "hash_elem_destroy h k = Inl E_minus1" using hash_elem_destroy_ok [OF 4(3)] by simp
    then show ?thesis using 4(1) [OF _ 4(3-5)] 4(6) by simp
  next
    case (Some i)
    let ?e = "buckets h ! bucket_of h k ! i"
    have a: "hash_elem_destroy h k = Inr (hash_del h k, elem_events h ?e)"
      using hash_elem_destroy_ok [OF 4(3)] Some by simp
    obtain evs' where r: "hash_run (hash_del h k) ops = (h', evs')" "evs = elem_events h ?e @ evs'"
      using 4(6) a by (auto split: prod.splits)
    have "mset evs' + released (contents h') = released (contents (hash_del h k) + handed_over ops)"
      "key_destroy_func h' \<and> value_destroy_func h'"
      using 4(2) [OF a refl _ _ _ r(1)] 4(3-5) by simp_all
    moreover have "released (contents (hash_del h k)) + released {#?e#} = released (contents h)"
      using arg_cong [OF contents_hash_del [OF 4(3) Some], of released] by (simp only: released_simps)
    ultimately have "(mset evs' + released (contents h')) + released {#?e#} =
        released (contents h) + released (handed_over ops)"
      by (simp only: released_simps ac_simps)
    then show ?thesis using \<open>key_destroy_func h' \<and> value_destroy_func h'\<close>
      by (simp add: r(2) mset_elem_events [OF 4(4,5)] ac_simps)
  qed
qed simp

section \<open>Properties\<close>

text \<open>
  C4. In a keyed table, \<open>libiodefv2_hash_set\<close> succeeds, makes the new value the one found for
  the key and for every key that compares equal, and changes nothing else; it returns 1 and
  releases nothing when the key was new, and 0 with the old key and value released otherwise.
\<close>

theorem hash_set_get:
  assumes "hash_keyed h"
  shows "\<exists>h' ret evs. hash_set True h k v = Inr (h', ret, evs) \<and> hash_keyed h' \<and>
    (\<forall>k'. hash_get h' k' = (if key_cmp_func h k' k then Inr (Some v) else hash_get h k')) \<and>
    (if hash_get h k = Inr None then ret = 1 \<and> evs = []
     else ret = 0 \<and> (\<exists>old_key old. hash_get h k = Inr (Some old) \<and> key_cmp_func h k old_key \<and>
       evs = elem_events h (old_key, old)))"
proof -
  have ok: "hash_ok h" using assms by (simp add: hash_keyed_def)
  have g: "hash_get (hash_put h k v) k' = (if key_cmp_func h k' k then Inr (Some v) else hash_get h k')"
    for k' using hash_lookup_put [OF assms] ok by (simp add: hash_get_lookup)
  show ?thesis
  proof (cases "bucket_find h k")
    case None
    then show ?thesis
      using g hash_put_keyed [OF assms] bucket_find_lookup [OF ok, of k]
      by (simp add: hash_set_ok [OF ok] hash_get_lookup [OF ok])
  next
    case (Some i)
    define old where "old = buckets h ! bucket_of h k ! i"
    have "hash_get h k = Inr (Some (snd old))"
      using Some by (simp add: hash_get_def hash_elem_get_ok [OF ok] old_def)
    moreover have "key_cmp_func h k (fst old)"
      using find_index_Some [OF Some [unfolded bucket_find_def]] by (simp add: old_def)
    moreover have "hash_set True h k v = Inr (hash_put h k v, 0, elem_events h old)"
      using Some by (simp add: hash_set_ok [OF ok] old_def)
    ultimately show ?thesis
      using g hash_put_keyed [OF assms] by (auto intro: exI [of _ "fst old"])
  qed
qed

text \<open>A default table with two keys, for the witnesses.\<close>

definition sample_hash :: "(string, nat) hash" where
  "sample_hash = hash_put (hash_put
     \<lparr>lists_size = HASH_DEFAULT_SIZE, buckets = replicate HASH_DEFAULT_SIZE [],
      hash_func = default_hash_func, key_cmp_func = default_key_cmp_func,
      key_destroy_func = True, value_destroy_func = True\<rparr> ''a'' 1) ''b'' 2"

lemma sample_hash: "hash_keyed sample_hash" "key_cmp_func sample_hash = default_key_cmp_func"
proof -
  have "equivp default_key_cmp_func"
    by (auto simp: default_key_cmp_func_def equivp_def fun_eq_iff)
  then show "hash_keyed sample_hash"
    unfolding sample_hash_def
    by (intro hash_put_keyed)
      (auto simp: hash_keyed_alt hash_ok_def HASH_DEFAULT_SIZE_def default_key_cmp_func_def bucket_unique_def)
qed (simp add: sample_hash_def)

theorem hash_set_get_witness:
  "\<exists>h' ret evs. hash_set True sample_hash ''a'' 7 = Inr (h', ret, evs) \<and> hash_get h' ''a'' = Inr (Some 7)"
  using hash_set_get [OF sample_hash(1), of "''a''" 7]
  by (auto simp: sample_hash(2) default_key_cmp_func_def)

text \<open>A sequence of calls of \<open>libiodefv2_hash_set\<close>, in order, stopping at the first that fails.\<close>

fun hash_sets :: "('k, 'v) hash \<Rightarrow> ('k \<times> 'v) list \<Rightarrow> ('k, 'v) hash res" where
  "hash_sets h [] = Inr h"
| "hash_sets h ((k, v) # kvs) = res_bind (hash_set True h k v) (\<lambda>(h', _, _). hash_sets h' kvs)"

lemma hash_sets_puts: "hash_ok h \<Longrightarrow> hash_sets h kvs = Inr (fold (\<lambda>(k, v) h. hash_put h k v) kvs h)"
  by (induction h kvs rule: hash_sets.induct) (simp_all add: hash_set_ok)

lemma hash_puts_keyed:
  "hash_keyed h \<Longrightarrow> hash_keyed (fold (\<lambda>(k, v) h. hash_put h k v) kvs h) \<and>
     key_cmp_func (fold (\<lambda>(k, v) h. hash_put h k v) kvs h) = key_cmp_func h"
  by (induction kvs arbitrary: h) (auto simp: hash_put_keyed)

text \<open>
  C5. Any sequence of calls of \<open>libiodefv2_hash_set\<close> on a string-keyed table whose allocations
  succeed itself succeeds; afterwards \<open>libiodefv2_hash_get\<close> finds for every key the value of the
  last call that set it, or what it found before the calls when none did.
\<close>

theorem string_hash_last_insert:
  assumes "hash_keyed h" "key_cmp_func h = default_key_cmp_func"
  shows "\<exists>h'. hash_sets h kvs = Inr h' \<and> hash_keyed h' \<and>
    (\<forall>k. hash_get h' k =
      (case find (\<lambda>(k', _). k = k') (rev kvs) of Some (_, v) \<Rightarrow> Inr (Some v) | None \<Rightarrow> hash_get h k))"
proof -
  let ?h = "fold (\<lambda>(k, v) h. hash_put h k v) kvs h"
  have ok: "hash_ok h" "hash_keyed ?h" "hash_ok ?h"
    using assms(1) hash_puts_keyed [OF assms(1), of kvs] by (auto simp: hash_keyed_def)
  have "hash_get ?h k =
      (case find (\<lambda>(k', _). k = k') (rev kvs) of Some (_, v) \<Rightarrow> Inr (Some v) | None \<Rightarrow> hash_get h k)" for k
    using string_hash.get_puts [of h kvs k] assms
    by (simp add: default_key_cmp_func_def hash_get_lookup [OF ok(1)] hash_get_lookup [OF ok(3)]
        split: option.splits)
  then show ?thesis using hash_sets_puts [OF ok(1)] ok(2) by simp
qed

theorem string_hash_last_insert_witness:
  "\<exists>h'. hash_sets sample_hash [(''c'', 3), (''a'', 5), (''c'', 4)] = Inr h' \<and>
     hash_get h' ''a'' = Inr (Some 5) \<and> hash_get h' ''c'' = Inr (Some 4)"
proof -
  obtain h' where h: "hash_sets sample_hash [(''c'', 3), (''a'', 5), (''c'', 4)] = Inr h'"
    "\<forall>k. hash_get h' k = (case find (\<lambda>(k', _). k = k') (rev [(''c'', 3), (''a'', 5), (''c'', 4)]) of
       Some (_, v) \<Rightarrow> Inr (Some v) | None \<Rightarrow> hash_get sample_hash k)"
    using string_hash_last_insert [OF sample_hash, of "[(''c'', 3), (''a'', 5), (''c'', 4)]"] by blast
  show ?thesis using h(1) spec [OF h(2), of "''a''"] spec [OF h(2), of "''c''"] by simp
qed

text \<open>
  C6. Over any sequence of adds, sets and element destructions on a table with both destroy
  callbacks, followed by the destruction of the table, every key and every value handed to the
  table (and those it held at the start) is released exactly once.
\<close>

theorem hash_releases_once:
  assumes "hash_ok h" "key_destroy_func h" "value_destroy_func h" "hash_run h ops = (h', evs)"
  shows "mset (evs @ hash_destroy h') = released (contents h + handed_over ops)"
  using hash_run_conserves [OF assms] mset_hash_destroy [of h'] by simp

theorem hash_releases_once_witness:
  "mset (snd (hash_run sample_hash [Op_set ''a'' 5, Op_destroy ''b'']) @
     hash_destroy (fst (hash_run sample_hash [Op_set ''a'' 5, Op_destroy ''b'']))) =
   released (contents sample_hash + {#(''a'', 5)#})"
  using hash_releases_once [OF _ _ _ prod.collapse [symmetric],
      of sample_hash "[Op_set ''a'' 5, Op_destroy ''b'']"] sample_hash(1)
  by (simp add: hash_keyed_def sample_hash_def)

end
