(* ===== verification/Variable.thy ===== *)
theory Variable
  imports KeyedStore
begin

text \<open>
  The global variable list of src/src/variable.c: names compared without case, each with a value
  or NULL. The static list is the state; an entry is created at its tail. The allocations that
  can fail are the three booleans of \<open>create_entry\<close> and the one of the overwriting branch.
\<close>

type_synonym variables = "(string \<times> string option) list"

section \<open>Operations\<close>

definition search_entry :: "variables \<Rightarrow> string \<Rightarrow> nat option" where
  "search_entry vs variable = find_index (\<lambda>e. strcaseeq (fst e) variable) vs"

definition create_entry ::
  "bool \<Rightarrow> bool \<Rightarrow> bool \<Rightarrow> variables \<Rightarrow> string \<Rightarrow> string option \<Rightarrow> variables res" where
  "create_entry item_alloc name_dup value_dup vs variable value =
     (if \<not> item_alloc then Inl E_errno
      else if \<not> name_dup then Inl E_errno
      else case value of
        None \<Rightarrow> Inr (vs @ [(variable, None)])
      | Some v \<Rightarrow> if \<not> value_dup then Inl E_errno else Inr (vs @ [(variable, Some v)]))"

definition variable_get :: "variables \<Rightarrow> string \<Rightarrow> string option" where
  "variable_get vs variable = (case search_entry vs variable of
     Some i \<Rightarrow> snd (vs ! i) | None \<Rightarrow> None)"

definition variable_set ::
  "bool \<Rightarrow> bool \<Rightarrow> bool \<Rightarrow> variables \<Rightarrow> string \<Rightarrow> string option \<Rightarrow> variables \<times> int" where
  "variable_set item_alloc name_dup value_dup vs variable value =
     (case search_entry vs variable of
        None \<Rightarrow> (case create_entry item_alloc name_dup value_dup vs variable value of
            Inl _ \<Rightarrow> (vs, -1) | Inr vs' \<Rightarrow> (vs', 0))
      | Some i \<Rightarrow>
          (vs[i := (fst (vs ! i), case value of
             None \<Rightarrow> None | Some v \<Rightarrow> if value_dup then Some v else None)], 0))"

definition variable_unset :: "variables \<Rightarrow> string \<Rightarrow> variables \<times> int" where
  "variable_unset vs variable = (case search_entry vs variable of
     None \<Rightarrow> (vs, -1)
   | Some i \<Rightarrow> (remove_nth i vs, 0))"

definition variable_unset_all :: "variables \<Rightarrow> variables" where
  "variable_unset_all vs = fold (\<lambda>_ vs. remove_nth 0 vs) vs vs"

section \<open>The list is a keyed store\<close>

abbreviation var_unique :: "variables \<Rightarrow> bool" where
  "var_unique vs \<equiv> bucket_unique strcaseeq vs"

definition variable_lookup :: "variables \<Rightarrow> string \<Rightarrow> string option option" where
  "variable_lookup vs k = map_option snd (find (\<lambda>e. strcaseeq k (fst e)) vs)"

abbreviation variable_put :: "variables \<Rightarrow> string \<Rightarrow> string option \<Rightarrow> variables" where
  "variable_put vs k v \<equiv> fst (variable_set True True True vs k v)"

abbreviation variable_del :: "variables \<Rightarrow> string \<Rightarrow> variables" where
  "variable_del vs k \<equiv> fst (variable_unset vs k)"

lemma strcaseeq_equivp: "equivp strcaseeq"
  by (auto simp: equivp_def strcaseeq_def fun_eq_iff)

lemma strcaseeq_commute: "strcaseeq a b = strcaseeq b a"
  by (auto intro: strcaseeq_sym)

lemma search_entry_find: "search_entry vs k = find_index (\<lambda>e. strcaseeq k (fst e)) vs"
  by (simp add: search_entry_def strcaseeq_commute)

lemma variable_get_lookup: "variable_get vs k = (case variable_lookup vs k of Some v \<Rightarrow> v | None \<Rightarrow> None)"
  by (simp add: variable_get_def variable_lookup_def search_entry_find find_conv_index split: option.splits)

lemma variable_del_bucket: "variable_del vs k = bucket_del strcaseeq k vs"
  by (simp add: variable_unset_def bucket_del_def search_entry_find split: option.splits)

lemma variable_put_eq:
  "variable_put vs k v = (case search_entry vs k of
     None \<Rightarrow> vs @ [(k, v)] | Some i \<Rightarrow> vs[i := (fst (vs ! i), v)])"
  by (auto simp: variable_set_def create_entry_def split: option.splits)

lemma variable_put_split:
  assumes "search_entry vs k = Some i"
  obtains us x ws where "vs = us @ x # ws" "variable_put vs k v = us @ (fst x, v) # ws"
    "strcaseeq k (fst x)" "\<forall>u \<in> set us. \<not> strcaseeq k (fst u)"
proof -
  obtain us x ws where "vs = us @ x # ws" "length us = i" "strcaseeq k (fst x)"
    "\<forall>u \<in> set us. \<not> strcaseeq k (fst u)"
    using assms unfolding search_entry_find by (rule find_index_split)
  moreover from this have "variable_put vs k v = us @ (fst x, v) # ws"
    using assms unfolding variable_put_eq by auto
  ultimately show ?thesis using that by blast
qed

lemma variable_put_unique: "var_unique vs \<Longrightarrow> var_unique (variable_put vs k v)"
proof (cases "search_entry vs k")
  case None
  then have "\<forall>e \<in> set vs. \<not> strcaseeq (fst e) k" by (simp add: search_entry_def find_index_None)
  moreover assume "var_unique vs"
  ultimately show ?thesis using None by (auto simp: variable_put_eq bucket_unique_def sorted_wrt_append)
next
  case (Some i)
  assume "var_unique vs"
  moreover obtain us x ws where "vs = us @ x # ws" "variable_put vs k v = us @ (fst x, v) # ws"
    by (rule variable_put_split [OF Some])
  ultimately show ?thesis by (simp add: bucket_unique_def sorted_wrt_append)
qed

lemma variable_lookup_put:
  "variable_lookup (variable_put vs k v) k' = (if strcaseeq k' k then Some v else variable_lookup vs k')"
proof (cases "search_entry vs k")
  case None
  then have "find (\<lambda>e. strcaseeq k' (fst e)) vs = None" if "strcaseeq k' k"
    using that by (auto simp: search_entry_find find_index_None find_None_iff strcaseeq_def)
  then show ?thesis
    using None by (auto simp: variable_put_eq variable_lookup_def find_append split: option.splits)
next
  case (Some i)
  then obtain us x ws where *: "vs = us @ x # ws" "variable_put vs k v = us @ (fst x, v) # ws"
    "strcaseeq k (fst x)" "\<forall>u \<in> set us. \<not> strcaseeq k (fst u)"
    by (rule variable_put_split)
  show ?thesis
  proof (cases "strcaseeq k' k")
    case True
    then have "find (\<lambda>e. strcaseeq k' (fst e)) us = None" "strcaseeq k' (fst x)"
      using *(3,4) by (auto simp: find_None_iff strcaseeq_def)
    then show ?thesis using True *(2) by (simp add: variable_lookup_def find_append)
  next
    case False
    then have "\<not> strcaseeq k' (fst x)" using *(3) by (auto simp: strcaseeq_def)
    then show ?thesis using False *(1,2) by (simp add: variable_lookup_def find_append split: option.splits)
  qed
qed

interpretation var_store: keyed_store var_unique strcaseeq variable_lookup variable_put variable_del
proof unfold_locales
  show "var_unique (variable_put vs k v)" if "var_unique vs" for vs k v
    using that by (rule variable_put_unique)
  show "var_unique (variable_del vs k)" if "var_unique vs" for vs k
    using that by (simp add: variable_del_bucket bucket_del_unique)
  show "variable_lookup (variable_put vs k v) k' = (if strcaseeq k' k then Some v else variable_lookup vs k')"
    for vs k v k' by (rule variable_lookup_put)
  show "variable_lookup (variable_del vs k) k' = (if strcaseeq k' k then None else variable_lookup vs k')"
    if "var_unique vs" for vs k k'
    using bucket_del_find [OF strcaseeq_equivp that] by (simp add: variable_del_bucket variable_lookup_def)
qed (auto simp: strcaseeq_def)

lemma variable_unset_all_empty: "variable_unset_all vs = []"
proof -
  have "fold (\<lambda>_ vs. remove_nth 0 vs) us vs = []" if "length us = length vs" for us vs :: variables
    using that by (induction us vs rule: list_induct2) (auto simp: remove_nth_def)
  then show ?thesis by (simp add: variable_unset_all_def)
qed

text \<open>
  C7. Starting from a list with distinct names, any sequence of successful \<open>variable_set\<close> calls
  keeps the names distinct, and \<open>variable_get\<close> then returns, for a name in any case, the value set
  last for it; \<open>variable_unset\<close> afterwards makes it NULL and leaves every other name alone.
\<close>

theorem variable_last_set:
  assumes "var_unique vs"
  shows "let vs' = fold (\<lambda>(k, v) vs. variable_put vs k v) kvs vs in
    var_unique vs' \<and>
    variable_get vs' k = (case find (\<lambda>(k', _). strcaseeq k k') (rev kvs) of
      Some (_, v) \<Rightarrow> v | None \<Rightarrow> variable_get vs k) \<and>
    variable_get (variable_del vs' k) k' = (if strcaseeq k' k then None else variable_get vs' k')"
  using var_store.get_puts [OF assms, of kvs k] var_store.puts_inv [OF assms, of kvs]
    var_store.get_del [OF var_store.puts_inv [OF assms, of kvs], of k k']
  by (simp add: variable_get_lookup Let_def split: option.splits prod.splits)

lemma log_names: "strcaseeq ''log'' ''LOG''"
  by code_simp

theorem variable_last_set_witness:
  "variable_get (fold (\<lambda>(k, v) vs. variable_put vs k v) [(''Log'', Some ''a''), (''LOG'', Some ''b'')] []) ''log''
     = Some ''b''"
  using variable_last_set [of "[]" "[(''Log'', Some ''a''), (''LOG'', Some ''b'')]" "''log''"]
  by (simp add: Let_def bucket_unique_def log_names)

text \<open>
  The failed duplication of the new value in the overwriting branch is not reported: the variable
  becomes NULL and the call returns 0.
\<close>

lemma variable_set_lost_value:
  "variable_set True True False [(''a'', Some ''x'')] ''a'' (Some ''y'') = ([(''a'', None)], 0)"
  by (simp add: variable_set_def search_entry_def)

end
