(* ===== verification/CMem.thy ===== *)
theory CMem
  imports Prelude
begin

text \<open>
  The memory the string buffers work on: numbered blocks of bytes, each byte written or not yet
  initialised. A block is either one of the allocator's (it may be written and freed) or a buffer
  of the caller that was lent to the library (it may only be read). Loads and stores outside a
  block, on a freed block, or into a lent buffer are faults. \<open>alloc_ok\<close> decides which allocation
  requests succeed; \<open>realloc\<close> moves the block.
\<close>

datatype bkind = Malloced | Lent

type_synonym cells = "char option list"

record memory =
  blocks :: "nat \<Rightarrow> (bkind \<times> cells) option"
  next_addr :: nat
  alloc_ok :: "nat \<Rightarrow> nat \<Rightarrow> bool"

definition mem_malloc :: "nat \<Rightarrow> memory \<Rightarrow> nat option \<times> memory" where
  "mem_malloc n me = (let a = next_addr me; me' = me\<lparr>next_addr := Suc a\<rparr> in
     if alloc_ok me a n
     then (Some a, me'\<lparr>blocks := (blocks me)(a := Some (Malloced, replicate n None))\<rparr>)
     else (None, me'))"

definition mem_free :: "nat \<Rightarrow> memory \<Rightarrow> memory res" where
  "mem_free a me = (case blocks me a of
     None \<Rightarrow> Inl (UB Use_after_free)
   | Some (Lent, _) \<Rightarrow> Inl (UB Invalid_free)
   | Some (Malloced, _) \<Rightarrow> Inr (me\<lparr>blocks := (blocks me)(a := None)\<rparr>))"

definition mem_load :: "memory \<Rightarrow> nat \<Rightarrow> nat \<Rightarrow> nat \<Rightarrow> cells res" where
  "mem_load me a off n = (case blocks me a of
     None \<Rightarrow> Inl (UB Use_after_free)
   | Some (_, cs) \<Rightarrow>
       if off + n \<le> length cs then Inr (take n (drop off cs)) else Inl (UB Out_of_bounds))"

definition mem_store :: "nat \<Rightarrow> nat \<Rightarrow> cells \<Rightarrow> memory \<Rightarrow> memory res" where
  "mem_store a off bytes me = (case blocks me a of
     None \<Rightarrow> Inl (UB Use_after_free)
   | Some (Lent, _) \<Rightarrow> Inl (UB Write_borrowed)
   | Some (Malloced, cs) \<Rightarrow>
       if off + length bytes \<le> length cs
       then Inr (me\<lparr>blocks := (blocks me)(a :=
              Some (Malloced, take off cs @ bytes @ drop (off + length bytes) cs))\<rparr>)
       else Inl (UB Out_of_bounds))"

text \<open>\<open>_libiodefv2_realloc\<close> of common.c: a NULL pointer makes it an allocation.\<close>

definition mem_realloc :: "nat option \<Rightarrow> nat \<Rightarrow> memory \<Rightarrow> (nat option \<times> memory) res" where
  "mem_realloc ptr n me = (case ptr of
     None \<Rightarrow> Inr (mem_malloc n me)
   | Some a \<Rightarrow> (case blocks me a of
       None \<Rightarrow> Inl (UB Use_after_free)
     | Some (Lent, _) \<Rightarrow> Inl (UB Invalid_free)
     | Some (Malloced, cs) \<Rightarrow> (case mem_malloc n me of
         (None, me') \<Rightarrow> Inr (None, me')
       | (Some p, me') \<Rightarrow> Inr (Some p, me'\<lparr>blocks :=
           (blocks me')(a := None, p := Some (Malloced, take n (cs @ replicate n None)))\<rparr>))))"

text \<open>The character at an offset, and the length of the C string a pointer points to.\<close>

definition mem_char :: "memory \<Rightarrow> nat \<Rightarrow> nat \<Rightarrow> char res" where
  "mem_char me a off = res_bind (mem_load me a off 1) (\<lambda>cs. case cs of
     [Some c] \<Rightarrow> Inr c | _ \<Rightarrow> Inl (UB Uninitialised))"

fun scan_nul :: "cells \<Rightarrow> nat res" where
  "scan_nul [] = Inl (UB Out_of_bounds)"
| "scan_nul (None # _) = Inl (UB Uninitialised)"
| "scan_nul (Some c # cs) = (if c = NUL then Inr 0 else res_bind (scan_nul cs) (\<lambda>n. Inr (Suc n)))"

definition mem_strlen :: "memory \<Rightarrow> nat \<Rightarrow> nat res" where
  "mem_strlen me a = (case blocks me a of
     None \<Rightarrow> Inl (UB Use_after_free) | Some (_, cs) \<Rightarrow> scan_nul cs)"

section \<open>Facts\<close>

definition mem_ok :: "memory \<Rightarrow> bool" where
  "mem_ok me \<longleftrightarrow> (\<forall>a. next_addr me \<le> a \<longrightarrow> blocks me a = None)"

definition all_alloc :: "memory \<Rightarrow> bool" where
  "all_alloc me \<longleftrightarrow> (\<forall>a n. alloc_ok me a n)"

lemma mem_malloc_all:
  "all_alloc me \<Longrightarrow> mem_malloc n me = (Some (next_addr me),
     me\<lparr>next_addr := Suc (next_addr me),
        blocks := (blocks me)(next_addr me := Some (Malloced, replicate n None))\<rparr>)"
  by (simp add: mem_malloc_def all_alloc_def Let_def)

lemma all_alloc_update [simp]:
  "all_alloc (me\<lparr>blocks := b\<rparr>) = all_alloc me" "all_alloc (me\<lparr>next_addr := a\<rparr>) = all_alloc me"
  by (simp_all add: all_alloc_def)

lemma mem_ok_used: "mem_ok me \<Longrightarrow> blocks me a = Some b \<Longrightarrow> a < next_addr me"
  unfolding mem_ok_def by (metis linorder_not_less option.distinct(1))

lemma scan_nul_append: "NUL \<notin> set bs \<Longrightarrow> scan_nul (List.map Some bs @ Some NUL # rest) = Inr (length bs)"
  by (induction bs) auto

lemma mem_store_prefix:
  assumes "blocks me a = Some (Malloced, us @ old @ vs)" "length old = length bytes" "off = length us"
  shows "mem_store a off bytes me = Inr (me\<lparr>blocks := (blocks me)(a := Some (Malloced, us @ bytes @ vs))\<rparr>)"
  using assms by (simp add: mem_store_def)

lemma mem_load_prefix:
  assumes "blocks me a = Some (k, us @ vs @ ws)" "length us = off" "length vs = n"
  shows "mem_load me a off n = Inr vs"
  using assms by (auto simp: mem_load_def)

end
