(* ===== verification/StringBuf.thy ===== *)
theory StringBuf
  imports CMem
begin

text \<open>
  The growable strings of src/src/libiodefv2-string.c. A string object keeps its ownership flags,
  a pointer to its bytes, the size of the buffer and the number of bytes used; the bytes live in
  the memory of theory CMem, so sharing between strings and lent buffers is explicit. An
  operation runs on the memory and one string and returns a result with the new memory and
  string, also when it fails. \<open>STRING_RETURN_IF_INVALID\<close>, the logging assertions and the
  recursive calls are those of the code.
\<close>

section \<open>State\<close>

record sbuf =
  own_structure :: bool
  own_data :: bool
  refcount :: int
  data :: "nat option"
  buf_size :: nat
  buf_index :: nat

type_synonym 'a outcome = "'a res \<times> memory \<times> sbuf"

abbreviation BUFFER_CHUNK_SIZE :: nat where
  "BUFFER_CHUNK_SIZE \<equiv> 16"

text \<open>
  \<open>size_t\<close> to \<open>double\<close>: rounding to 53 significant bits, ties to even. \<open>excess\<close> is the number of
  bits that do not fit.
\<close>

fun excess :: "nat \<Rightarrow> nat" where
  "excess n = (if n < 2 ^ 53 then 0 else Suc (excess (n div 2)))"

definition dbl :: "nat \<Rightarrow> nat" where
  "dbl n = (let u = 2 ^ excess n; q = n div u; r = n mod u in
     (if 2 * r > u \<or> (2 * r = u \<and> odd q) then q + 1 else q) * u)"

text \<open>
  \<open>MAX(needed_len - (s->size - s->index), s->size * BUFFER_GROWTH_FACTOR)\<close>: the operands are
  compared as doubles and the larger one is converted back to \<open>size_t\<close>. The product is kept
  doubled, as \<open>2 * 1.5 = 3\<close>.
\<close>

definition chunk_len :: "nat \<Rightarrow> nat \<Rightarrow> nat \<Rightarrow> nat res" where
  "chunk_len needed_len sz index =
     (if needed_len = 0 then Inr BUFFER_CHUNK_SIZE
      else let a = size_sub needed_len (size_sub sz index);
               twice_b = dbl (3 * dbl sz);
               len = (if 2 * dbl a > twice_b then dbl a else twice_b div 2)
           in if len < SIZE_MOD then Inr len else Inl (UB Float_to_int))"

section \<open>Buffers\<close>

text \<open>\<open>string_check\<close> is \<open>STRING_RETURN_IF_INVALID\<close>, preceded by the test of the pointer.\<close>

definition string_check :: "memory \<Rightarrow> nat option \<Rightarrow> nat \<Rightarrow> nat res" where
  "string_check me str len = (case str of
     None \<Rightarrow> Inl (E ERROR_ASSERTION)
   | Some a \<Rightarrow>
       if \<not> size_add len 1 > len then Inl (EV ERROR_INVAL_LENGTH)
       else res_bind (mem_char me a len) (\<lambda>c.
         if c = NUL then Inr a else Inl (EV ERROR_STRING_NOT_NULL_TERMINATED)))"

definition string_buf_alloc :: "nat \<Rightarrow> memory \<Rightarrow> sbuf \<Rightarrow> unit outcome" where
  "string_buf_alloc len me s = (case mem_malloc (size_add len 1) me of
     (None, me) \<Rightarrow> (Inl E_errno, me, s\<lparr>data := None\<rparr>)
   | (Some p, me) \<Rightarrow> (Inr (), me, s\<lparr>data := Some p, buf_index := len, buf_size := size_add len 1\<rparr>))"

definition string_buf_copy :: "nat \<Rightarrow> nat \<Rightarrow> memory \<Rightarrow> sbuf \<Rightarrow> unit outcome" where
  "string_buf_copy buf len me s =
     (if \<not> len < buf_size s then (Inl (UB Assert_failed), me, s)
      else case data s of
        None \<Rightarrow> (Inl (UB Null_deref), me, s)
      | Some p \<Rightarrow> (case
          res_bind (mem_load me buf 0 len) (\<lambda>cs.
          res_bind (mem_store p 0 cs me) (mem_store p len [Some NUL])) of
            Inl e \<Rightarrow> (Inl e, me, s)
          | Inr me \<Rightarrow> (Inr (), me, s)))"

definition make_string_own :: "nat \<Rightarrow> memory \<Rightarrow> sbuf \<Rightarrow> unit outcome" where
  "make_string_own len me s = (case mem_malloc len me of
     (None, me) \<Rightarrow> (Inl E_errno, me, s)
   | (Some p, me) \<Rightarrow> (case
       (case data s of
          None \<Rightarrow> Inr me
        | Some a \<Rightarrow> res_bind (mem_load me a 0 (buf_index s + 1)) (\<lambda>cs. mem_store p 0 cs me)) of
         Inl e \<Rightarrow> (Inl e, me, s)
       | Inr me \<Rightarrow> (Inr (), me, s\<lparr>buf_size := len, data := Some p, own_data := True\<rparr>)))"

definition allocate_more_chunk_if_needed :: "nat \<Rightarrow> memory \<Rightarrow> sbuf \<Rightarrow> unit outcome" where
  "allocate_more_chunk_if_needed needed_len me s =
     (case chunk_len needed_len (buf_size s) (buf_index s) of
        Inl e \<Rightarrow> (Inl e, me, s)
      | Inr len \<Rightarrow>
          if size_add (buf_size s) len < buf_size s then (Inl (E ERROR_INVAL_LENGTH), me, s)
          else if own_data s then
            (case mem_realloc (data s) (size_add (buf_size s) len) me of
               Inl e \<Rightarrow> (Inl e, me, s)
             | Inr (None, me) \<Rightarrow> (Inl E_errno, me, s)
             | Inr (Some p, me) \<Rightarrow>
                 (Inr (), me, s\<lparr>buf_size := size_add (buf_size s) len, data := Some p\<rparr>))
          else make_string_own (size_add (buf_size s) len) me s)"

section \<open>Creation, destruction and assignment\<close>

text \<open>\<open>struct_alloc\<close>: whether the allocation of the object itself succeeds.\<close>

definition string_new :: "bool \<Rightarrow> sbuf res" where
  "string_new struct_alloc =
     (if \<not> struct_alloc then Inl E_errno
      else Inr \<lparr>own_structure = True, own_data = False, refcount = 1, data = None,
                buf_size = 0, buf_index = 0\<rparr>)"

definition string_ref :: "sbuf \<Rightarrow> sbuf" where
  "string_ref s = s\<lparr>refcount := refcount s + 1\<rparr>"

definition string_destroy_internal :: "memory \<Rightarrow> sbuf \<Rightarrow> unit outcome" where
  "string_destroy_internal me s =
     (let s' = s\<lparr>data := None, buf_index := 0, buf_size := 0\<rparr> in
      case data s of
        Some a \<Rightarrow> if own_data s then (case mem_free a me of
            Inl e \<Rightarrow> (Inl e, me, s) | Inr me \<Rightarrow> (Inr (), me, s'))
          else (Inr (), me, s')
      | None \<Rightarrow> (Inr (), me, s'))"

text \<open>The flag tells whether the object was released (its structure is freed when it owns it).\<close>

definition string_destroy :: "memory \<Rightarrow> sbuf \<Rightarrow> bool outcome" where
  "string_destroy me s =
     (let s = s\<lparr>refcount := refcount s - 1\<rparr> in
      if refcount s \<noteq> 0 then (Inr False, me, s)
      else case string_destroy_internal me s of
        (Inl e, me, s) \<Rightarrow> (Inl e, me, s)
      | (Inr _, me, s) \<Rightarrow> (Inr True, me, s))"

definition string_set_dup_fast :: "nat option \<Rightarrow> nat \<Rightarrow> memory \<Rightarrow> sbuf \<Rightarrow> unit outcome" where
  "string_set_dup_fast buf len me s = (case string_check me buf len of
     Inl e \<Rightarrow> (Inl e, me, s)
   | Inr a \<Rightarrow> (case string_destroy_internal me s of
       (Inl e, me, s) \<Rightarrow> (Inl e, me, s)
     | (Inr _, me, s) \<Rightarrow> (case string_buf_alloc len me s of
         (Inl e, me, s) \<Rightarrow> (Inl e, me, s)
       | (Inr _, me, s) \<Rightarrow> (case string_buf_copy a len me s of
           (Inl e, me, s) \<Rightarrow> (Inl e, me, s)
         | (Inr _, me, s) \<Rightarrow> (Inr (), me, s\<lparr>own_data := True\<rparr>)))))"

definition string_set_nodup_fast :: "nat option \<Rightarrow> nat \<Rightarrow> memory \<Rightarrow> sbuf \<Rightarrow> unit outcome" where
  "string_set_nodup_fast buf len me s = (case string_check me buf len of
     Inl e \<Rightarrow> (Inl e, me, s)
   | Inr a \<Rightarrow> (case string_destroy_internal me s of
       (Inl e, me, s) \<Rightarrow> (Inl e, me, s)
     | (Inr _, me, s) \<Rightarrow> (Inr (), me,
         s\<lparr>buf_index := len, buf_size := size_add len 1, data := Some a, own_data := True\<rparr>)))"

definition string_set_ref_fast :: "nat option \<Rightarrow> nat \<Rightarrow> memory \<Rightarrow> sbuf \<Rightarrow> unit outcome" where
  "string_set_ref_fast buf len me s = (case string_check me buf len of
     Inl e \<Rightarrow> (Inl e, me, s)
   | Inr a \<Rightarrow> (case string_destroy_internal me s of
       (Inl e, me, s) \<Rightarrow> (Inl e, me, s)
     | (Inr _, me, s) \<Rightarrow> (Inr (), me,
         s\<lparr>buf_index := len, buf_size := size_add len 1, data := Some a, own_data := False\<rparr>)))"

text \<open>The variants without a length measure the C string first.\<close>

definition with_strlen ::
  "(nat option \<Rightarrow> nat \<Rightarrow> memory \<Rightarrow> sbuf \<Rightarrow> 'a outcome) \<Rightarrow> nat option \<Rightarrow> memory \<Rightarrow> sbuf \<Rightarrow> 'a outcome" where
  "with_strlen f buf me s = (case buf of
     None \<Rightarrow> (Inl (E ERROR_ASSERTION), me, s)
   | Some a \<Rightarrow> (case mem_strlen me a of
       Inl e \<Rightarrow> (Inl e, me, s) | Inr len \<Rightarrow> f buf len me s))"

definition string_set_dup :: "nat option \<Rightarrow> memory \<Rightarrow> sbuf \<Rightarrow> unit outcome" where
  "string_set_dup = with_strlen string_set_dup_fast"

definition string_set_nodup :: "nat option \<Rightarrow> memory \<Rightarrow> sbuf \<Rightarrow> unit outcome" where
  "string_set_nodup = with_strlen string_set_nodup_fast"

definition string_set_ref :: "nat option \<Rightarrow> memory \<Rightarrow> sbuf \<Rightarrow> unit outcome" where
  "string_set_ref = with_strlen string_set_ref_fast"

text \<open>
  The constructors: the object is created, then filled. When filling fails the code returns the
  error and the new object is not reachable from here.
\<close>

definition string_new_dup_fast :: "bool \<Rightarrow> nat option \<Rightarrow> nat \<Rightarrow> memory \<Rightarrow> sbuf res \<times> memory" where
  "string_new_dup_fast struct_alloc str len me = (case string_check me str len of
     Inl e \<Rightarrow> (Inl e, me)
   | Inr a \<Rightarrow> (case string_new struct_alloc of
       Inl e \<Rightarrow> (Inl e, me)
     | Inr s \<Rightarrow> (case string_buf_alloc len me s of
         (Inl e, me, s) \<Rightarrow> (Inl e, me)
       | (Inr _, me, s) \<Rightarrow> (case string_buf_copy a len me s of
           (Inl e, me, s) \<Rightarrow> (Inl e, me)
         | (Inr _, me, s) \<Rightarrow> (Inr (s\<lparr>own_data := True\<rparr>), me)))))"

definition string_new_nodup_fast :: "bool \<Rightarrow> nat option \<Rightarrow> nat \<Rightarrow> memory \<Rightarrow> sbuf res" where
  "string_new_nodup_fast struct_alloc str len me =
     res_bind (string_check me str len) (\<lambda>a.
     res_bind (string_new struct_alloc) (\<lambda>s.
       Inr (s\<lparr>buf_index := len, buf_size := size_add len 1, data := Some a, own_data := True\<rparr>)))"

definition string_new_ref_fast :: "bool \<Rightarrow> nat option \<Rightarrow> nat \<Rightarrow> memory \<Rightarrow> sbuf res" where
  "string_new_ref_fast struct_alloc buf len me =
     res_bind (string_check me buf len) (\<lambda>a.
     res_bind (string_new struct_alloc) (\<lambda>s.
       Inr (s\<lparr>buf_index := len, buf_size := size_add len 1, data := Some a\<rparr>)))"

definition string_new_dup :: "bool \<Rightarrow> nat option \<Rightarrow> memory \<Rightarrow> sbuf res \<times> memory" where
  "string_new_dup struct_alloc str me = (case str of
     None \<Rightarrow> (Inl (E ERROR_ASSERTION), me)
   | Some a \<Rightarrow> (case mem_strlen me a of
       Inl e \<Rightarrow> (Inl e, me) | Inr len \<Rightarrow> string_new_dup_fast struct_alloc str len me))"

definition string_new_ref :: "bool \<Rightarrow> nat option \<Rightarrow> memory \<Rightarrow> sbuf res" where
  "string_new_ref struct_alloc str me = (case str of
     None \<Rightarrow> Inl (E ERROR_ASSERTION)
   | Some a \<Rightarrow> res_bind (mem_strlen me a) (\<lambda>len. string_new_ref_fast struct_alloc str len me))"

definition string_new_nodup :: "bool \<Rightarrow> nat option \<Rightarrow> memory \<Rightarrow> sbuf res" where
  "string_new_nodup struct_alloc str me = (case str of
     None \<Rightarrow> Inl (E ERROR_ASSERTION)
   | Some a \<Rightarrow> res_bind (mem_strlen me a) (\<lambda>len. string_new_nodup_fast struct_alloc str len me))"

section \<open>Copies between strings\<close>

definition string_copy_ref :: "sbuf \<Rightarrow> memory \<Rightarrow> sbuf \<Rightarrow> unit outcome" where
  "string_copy_ref src me dst = (case string_destroy_internal me dst of
     (Inl e, me, dst) \<Rightarrow> (Inl e, me, dst)
   | (Inr _, me, dst) \<Rightarrow> (Inr (), me,
       dst\<lparr>buf_size := buf_size src, buf_index := buf_index src, data := data src, own_data := False\<rparr>))"

text \<open>The part \<open>copy_dup\<close> and \<open>clone\<close> share: allocate the size of the source and copy its bytes.\<close>

definition copy_bytes :: "sbuf \<Rightarrow> memory \<Rightarrow> sbuf \<Rightarrow> unit outcome" where
  "copy_bytes src me dst =
     (if buf_size src = 0 then (Inr (), me, dst)
      else case mem_malloc (buf_size src) me of
        (None, me) \<Rightarrow> (Inl E_errno, me, dst\<lparr>data := None\<rparr>)
      | (Some p, me) \<Rightarrow> (let dst = dst\<lparr>data := Some p\<rparr> in
          case data src of
            None \<Rightarrow> (Inl (UB Null_deref), me, dst)
          | Some a \<Rightarrow> string_buf_copy a (buf_index src) me dst))"

definition string_copy_dup :: "sbuf \<Rightarrow> memory \<Rightarrow> sbuf \<Rightarrow> unit outcome" where
  "string_copy_dup src me dst = (case string_destroy_internal me dst of
     (Inl e, me, dst) \<Rightarrow> (Inl e, me, dst)
   | (Inr _, me, dst) \<Rightarrow> copy_bytes src me
       (dst\<lparr>buf_size := buf_size src, buf_index := buf_index src, own_data := True\<rparr>))"

definition string_clone :: "bool \<Rightarrow> sbuf \<Rightarrow> memory \<Rightarrow> sbuf res \<times> memory" where
  "string_clone struct_alloc src me = (case string_new struct_alloc of
     Inl e \<Rightarrow> (Inl e, me)
   | Inr dst \<Rightarrow> (case copy_bytes src me
       (dst\<lparr>buf_size := buf_size src, buf_index := buf_index src, own_data := True\<rparr>) of
         (Inl e, me, dst) \<Rightarrow> (Inl e, me)
       | (Inr _, me, dst) \<Rightarrow> (Inr dst, me)))"

section \<open>Reading\<close>

definition string_get_len :: "sbuf \<Rightarrow> nat" where
  "string_get_len s = buf_index s"

definition string_get_string_or_default :: "sbuf \<Rightarrow> nat option \<Rightarrow> nat option" where
  "string_get_string_or_default s def = (case data s of Some a \<Rightarrow> Some a | None \<Rightarrow> def)"

definition string_get_string :: "sbuf \<Rightarrow> nat option" where
  "string_get_string s = data s"

definition string_is_empty :: "sbuf \<Rightarrow> bool" where
  "string_is_empty s \<longleftrightarrow> buf_index s = 0"

text \<open>The C library's \<open>strdup\<close>.\<close>

definition mem_strdup :: "nat \<Rightarrow> memory \<Rightarrow> (nat option \<times> memory) res" where
  "mem_strdup a me = res_bind (mem_strlen me a) (\<lambda>n. (case mem_malloc (n + 1) me of
     (None, me) \<Rightarrow> Inr (None, me)
   | (Some p, me) \<Rightarrow> res_bind (mem_load me a 0 (n + 1)) (\<lambda>cs.
       res_bind (mem_store p 0 cs me) (\<lambda>me. Inr (Some p, me)))))"

definition string_get_string_released :: "memory \<Rightarrow> sbuf \<Rightarrow> nat option outcome" where
  "string_get_string_released me s =
     (if buf_index s = 0 then (Inr None, me, s)
      else if \<not> own_data s then (case data s of
          None \<Rightarrow> (Inl (UB Null_deref), me, s)
        | Some a \<Rightarrow> (case mem_strdup a me of
            Inl e \<Rightarrow> (Inl e, me, s)
          | Inr (None, me) \<Rightarrow> (Inl E_errno, me, s)
          | Inr (Some p, me) \<Rightarrow> (Inr (Some p), me, s)))
      else if size_add (buf_index s) 1 \<le> buf_index s then (Inl (E ERROR_INVAL_LENGTH), me, s)
      else case mem_realloc (data s) (size_add (buf_index s) 1) me of
          Inl e \<Rightarrow> (Inl e, me, s)
        | Inr (None, me) \<Rightarrow> (Inl E_errno, me, s)
        | Inr (Some p, me) \<Rightarrow> (Inr (Some p), me, s\<lparr>buf_size := 0, buf_index := 0, data := None\<rparr>))"

fun cells_streq :: "cells \<Rightarrow> cells \<Rightarrow> bool res" where
  "cells_streq (Some c # cs) (Some d # ds) =
     (if c \<noteq> d then Inr False else if c = NUL then Inr True else cells_streq cs ds)"
| "cells_streq [] _ = Inl (UB Out_of_bounds)"
| "cells_streq _ [] = Inl (UB Out_of_bounds)"
| "cells_streq _ _ = Inl (UB Uninitialised)"

definition string_compare :: "memory \<Rightarrow> sbuf option \<Rightarrow> sbuf option \<Rightarrow> int res" where
  "string_compare me str1 str2 = (case (str1, str2) of
     (None, None) \<Rightarrow> Inr 0
   | (Some s1, Some s2) \<Rightarrow>
       if buf_index s1 \<noteq> buf_index s2 then Inr (-1)
       else if buf_index s1 = 0 then Inr 0
       else (case (data s1, data s2) of
         (Some a, Some b) \<Rightarrow> (case (blocks me a, blocks me b) of
             (Some (_, cs), Some (_, ds)) \<Rightarrow>
               res_bind (cells_streq cs ds) (\<lambda>eq. Inr (if eq then 0 else -1))
           | _ \<Rightarrow> Inl (UB Use_after_free))
       | _ \<Rightarrow> Inl (UB Null_deref))
   | _ \<Rightarrow> Inr (-1))"

section \<open>Appending and truncating\<close>

text \<open>
  \<open>ncat\<close> appends in place when the string owns a large enough buffer, and otherwise grows the
  buffer and calls itself. The value returned is the length, converted to \<open>int\<close>.
\<close>

definition ncat_in_place :: "nat \<Rightarrow> nat \<Rightarrow> memory \<Rightarrow> sbuf \<Rightarrow> int outcome" where
  "ncat_in_place str len me s = (case data s of
     None \<Rightarrow> (Inl (UB Null_deref), me, s)
   | Some p \<Rightarrow> (case
       res_bind (mem_load me str 0 len) (\<lambda>cs.
       res_bind (mem_store p (buf_index s) cs me) (mem_store p (buf_index s + len) [Some NUL])) of
         Inl e \<Rightarrow> (Inl e, me, s)
       | Inr me \<Rightarrow> (Inr (to_signed 32 (int len)), me, s\<lparr>buf_index := buf_index s + len\<rparr>)))"

partial_function (option) string_ncat :: "nat \<Rightarrow> nat \<Rightarrow> memory \<Rightarrow> sbuf \<Rightarrow> int outcome option" where
  "string_ncat str len me s =
     (if own_data s \<and> len < size_sub (buf_size s) (buf_index s) then Some (ncat_in_place str len me s)
      else if size_add len 1 < len then Some (Inl (E ERROR_INVAL_LENGTH), me, s)
      else case allocate_more_chunk_if_needed (size_add len 1) me s of
        (Inl e, me', s') \<Rightarrow> Some (Inl e, me', s')
      | (Inr _, me', s') \<Rightarrow> string_ncat str len me' s')"

definition string_cat :: "nat option \<Rightarrow> memory \<Rightarrow> sbuf \<Rightarrow> int outcome option" where
  "string_cat str me s = (case str of
     None \<Rightarrow> Some (Inl (E ERROR_ASSERTION), me, s)
   | Some a \<Rightarrow> (case mem_strlen me a of
       Inl e \<Rightarrow> Some (Inl e, me, s) | Inr len \<Rightarrow> string_ncat a len me s))"

text \<open>
  \<open>vsnprintf\<close>: \<open>out\<close> is the formatted text, or \<open>None\<close> for an output error. At most \<open>n - 1\<close>
  characters and a NUL are stored, and the length of the whole text is returned.
\<close>

definition mem_vsnprintf :: "string option \<Rightarrow> nat option \<Rightarrow> nat \<Rightarrow> nat \<Rightarrow> memory \<Rightarrow> (int \<times> memory) res" where
  "mem_vsnprintf out ptr off n me = (case out of
     None \<Rightarrow> Inr (-1, me)
   | Some text \<Rightarrow>
       if \<not> length text < 2 ^ 31 then Inr (-1, me)
       else if n = 0 then Inr (int (length text), me)
       else (case ptr of
         None \<Rightarrow> Inl (UB Null_deref)
       | Some p \<Rightarrow>
           res_bind (mem_store p off (List.map Some (take (n - 1) text) @ [Some NUL]) me) (\<lambda>me.
             Inr (int (length text), me))))"

partial_function (option) string_vprintf :: "string option \<Rightarrow> memory \<Rightarrow> sbuf \<Rightarrow> int outcome option" where
  "string_vprintf out me s =
     (case (if own_data s then (Inr (), me, s) else allocate_more_chunk_if_needed 0 me s) of
        (Inl e, me1, s1) \<Rightarrow> Some (Inl e, me1, s1)
      | (Inr _, me1, s1) \<Rightarrow>
          (case mem_vsnprintf out (data s1) (buf_index s1) (size_sub (buf_size s1) (buf_index s1)) me1 of
             Inl e \<Rightarrow> Some (Inl e, me1, s1)
           | Inr (ret, me2) \<Rightarrow>
               if 0 \<le> ret \<and> nat ret < size_sub (buf_size s1) (buf_index s1)
               then Some (Inr ret, me2, s1\<lparr>buf_index := buf_index s1 + nat ret\<rparr>)
               else (case allocate_more_chunk_if_needed (if ret < 0 then 0 else nat (ret + 1)) me2 s1 of
                 (Inl e, me3, s3) \<Rightarrow> Some (Inl e, me3, s3)
               | (Inr _, me3, s3) \<Rightarrow> string_vprintf out me3 s3)))"

definition string_truncate :: "nat \<Rightarrow> memory \<Rightarrow> sbuf \<Rightarrow> unit outcome" where
  "string_truncate len me s =
     (if \<not> len \<le> buf_index s then (Inl (E ERROR_ASSERTION), me, s)
      else case (if len \<noteq> 0 \<and> \<not> own_data s then make_string_own 0 me s else (Inr (), me, s)) of
        (Inl e, me, s) \<Rightarrow> (Inl e, me, s)
      | (Inr _, me, s) \<Rightarrow> (case data s of
          None \<Rightarrow> (Inr (), me, s\<lparr>buf_index := len\<rparr>)
        | Some p \<Rightarrow> (case mem_store p len [Some NUL] me of
            Inl e \<Rightarrow> (Inl e, me, s)
          | Inr me \<Rightarrow> (Inr (), me, s\<lparr>buf_index := len\<rparr>))))"

definition string_clear :: "memory \<Rightarrow> sbuf \<Rightarrow> unit outcome" where
  "string_clear = string_truncate 0"

section \<open>What a string holds\<close>

declare excess.simps [simp del]

lemma dbl_small: "n < 2 ^ 53 \<Longrightarrow> dbl n = n"
  by (simp add: dbl_def excess.simps [of n] Let_def)

text \<open>
  \<open>holds me s bs\<close>: the bytes of the string are \<open>bs\<close> followed by a NUL, inside its buffer; a
  string that owns its data has a block of the allocator of exactly its size. \<open>raw\<close> is the same
  for an owned buffer just grown, whose byte after \<open>bs\<close> may not be written yet.
\<close>

definition holds :: "memory \<Rightarrow> sbuf \<Rightarrow> string \<Rightarrow> bool" where
  "holds me s bs \<longleftrightarrow> buf_index s = length bs \<and>
     (case data s of
        None \<Rightarrow> bs = [] \<and> buf_size s = 0
      | Some a \<Rightarrow> length bs < buf_size s \<and>
          (\<exists>k rest. blocks me a = Some (k, List.map Some bs @ Some NUL # rest) \<and>
             buf_size s \<le> length bs + 1 + length rest \<and>
             (own_data s \<longrightarrow> k = Malloced \<and> buf_size s = length bs + 1 + length rest)))"

definition raw :: "memory \<Rightarrow> sbuf \<Rightarrow> nat \<Rightarrow> string \<Rightarrow> cells \<Rightarrow> bool" where
  "raw me s p bs rest \<longleftrightarrow> own_data s \<and> data s = Some p \<and> buf_index s = length bs \<and>
     blocks me p = Some (Malloced, List.map Some bs @ rest) \<and> buf_size s = length bs + length rest"

lemma holds_raw:
  assumes "holds me s bs" "own_data s" "0 < buf_size s"
  obtains p rest where "raw me s p bs (Some NUL # rest)"
  using assms by (auto simp: holds_def raw_def split: option.splits)

lemma raw_holds: "raw me s p bs (Some NUL # rest) \<Longrightarrow> holds me s bs"
  by (auto simp: holds_def raw_def)

lemma chunk_len_grow:
  assumes "0 < needed" "needed < 2 ^ 48" "sz < 2 ^ 48" "index \<le> sz" "sz \<le> needed + index"
  shows "chunk_len needed sz index = Inr (max (needed - (sz - index)) (sz * 3 div 2))"
proof -
  have a: "size_sub needed (size_sub sz index) = needed - (sz - index)"
    using assms by (simp add: size_sub_le SIZE_MOD_def)
  have "dbl sz = sz" "dbl (3 * sz) = 3 * sz" "dbl (needed - (sz - index)) = needed - (sz - index)"
    using assms by (auto intro!: dbl_small)
  then show ?thesis using assms by (auto simp: chunk_len_def a Let_def SIZE_MOD_def max_def)
qed

lemma take_grow:
  "length us = m \<Longrightarrow> take (m + l) (us @ replicate (m + l) x) = us @ replicate l x"
  by simp

text \<open>Growing a string keeps its bytes and gives it a block of its own with the space asked for.\<close>

lemma allocate_more:
  assumes h: "holds me s bs" and m: "mem_ok me" "all_alloc me"
    and sz: "buf_size s < 2 ^ 48" "needed < 2 ^ 48"
    and n: "needed = 0 \<or> buf_size s \<le> needed + length bs"
  obtains me' s' rest where
    "allocate_more_chunk_if_needed needed me s = (Inr (), me', s')"
    "raw me' s' (next_addr me) bs rest" "max needed 1 \<le> length rest"
    "buf_size s' \<le> buf_size s + max (max needed 16) (buf_size s * 3 div 2)"
    "mem_ok me'" "all_alloc me'" "next_addr me' = Suc (next_addr me)"
    "\<And>b. b < next_addr me \<Longrightarrow> own_data s \<longrightarrow> data s \<noteq> Some b \<Longrightarrow> blocks me' b = blocks me b"
    "\<And>b. own_data s \<Longrightarrow> data s = Some b \<Longrightarrow> blocks me' b = None"
    "rest = [] \<or> bs = [] \<or> hd rest = Some NUL"
    "s' = s\<lparr>buf_size := buf_size s', data := Some (next_addr me), own_data := True\<rparr>"
proof -
  have idx: "buf_index s = length bs" "length bs \<le> buf_size s"
    using h by (auto simp: holds_def split: option.splits)
  obtain len where len: "chunk_len needed (buf_size s) (buf_index s) = Inr len"
    and l: "len = (if needed = 0 then 16 else max (needed - (buf_size s - length bs)) (buf_size s * 3 div 2))"
    using chunk_len_grow [of needed "buf_size s" "buf_index s"] sz n idx
    by (cases "needed = 0") (auto simp: chunk_len_def)
  have nw: "size_add (buf_size s) len = buf_size s + len"
    using sz by (intro size_add_small) (auto simp: SIZE_MOD_def l max_def)
  let ?p = "next_addr me" and ?n = "buf_size s + len"
  have fresh: "blocks me ?p = None" using m(1) by (simp add: mem_ok_def)
  let ?me1 = "me\<lparr>next_addr := Suc ?p, blocks := (blocks me)(?p := Some (Malloced, replicate ?n None))\<rparr>"
  have mal: "mem_malloc ?n me = (Some ?p, ?me1)" by (rule mem_malloc_all [OF m(2)])
  define s' where "s' = s\<lparr>buf_size := ?n, data := Some ?p, own_data := True\<rparr>"
  have room: "max needed 1 \<le> ?n - length bs" "length bs < ?n" "?n \<le> buf_size s + max (max needed 16) (buf_size s * 3 div 2)"
    using idx n by (auto simp: l)
  have call: "allocate_more_chunk_if_needed needed me s =
      (if own_data s then (case mem_realloc (data s) ?n me of
           Inl e \<Rightarrow> (Inl e, me, s) | Inr (None, me) \<Rightarrow> (Inl E_errno, me, s)
         | Inr (Some p, me) \<Rightarrow> (Inr (), me, s\<lparr>buf_size := ?n, data := Some p\<rparr>))
       else make_string_own ?n me s)"
    unfolding allocate_more_chunk_if_needed_def len sum.case nw by simp
  have sz': "buf_size s' = ?n" "data s' = Some ?p" "own_data s'" "buf_index s' = length bs"
    by (simp_all add: s'_def idx)
  show thesis
  proof (cases "data s")
    case None
    then have "bs = []" using h by (simp add: holds_def)
    moreover have "allocate_more_chunk_if_needed needed me s = (Inr (), ?me1, s')"
      unfolding call mem_realloc_def make_string_own_def None option.case mal prod.case sum.case
      by (cases s) (simp add: s'_def)
    ultimately show thesis
      using that [of ?me1 s' "replicate ?n None"] room sz' m None
      by (auto simp: raw_def mem_ok_def s'_def)
  next
    case (Some a)
    then obtain k r0 where blk: "blocks me a = Some (k, List.map Some bs @ Some NUL # r0)"
      and size0: "length bs < buf_size s" "buf_size s \<le> length bs + 1 + length r0"
        "own_data s \<longrightarrow> k = Malloced \<and> buf_size s = length bs + 1 + length r0"
      using h by (auto simp: holds_def)
    have ap: "a < ?p" by (rule mem_ok_used [OF m(1) blk])
    show thesis
    proof (cases "own_data s")
      case True
      define rest where "rest = Some NUL # r0 @ replicate len None"
      define me' where "me' = ?me1\<lparr>blocks := (blocks ?me1)(a := None, ?p := Some (Malloced, List.map Some bs @ rest))\<rparr>"
      have tk: "take ?n ((List.map Some bs @ Some NUL # r0) @ replicate ?n None) = List.map Some bs @ rest"
        using take_grow [of "List.map Some bs @ Some NUL # r0" "buf_size s" len None] size0 True
        by (simp add: rest_def)
      have "mem_realloc (data s) ?n me = Inr (Some ?p, me')"
        using True Some blk size0(3) mal tk by (simp add: mem_realloc_def me'_def)
      then have "allocate_more_chunk_if_needed needed me s = (Inr (), me', s')"
        using True by (simp add: call s'_def)
      moreover have "raw me' s' ?p bs rest"
        using sz' size0 True by (simp add: raw_def me'_def rest_def)
      moreover have "max needed 1 \<le> length rest"
        using room(1) size0 True by (simp add: rest_def)
      ultimately show thesis
        using that [of me' s' rest] room(3) sz' m True Some ap
        by (auto simp: mem_ok_def me'_def rest_def s'_def)
    next
      case False
      define rest where "rest = Some NUL # replicate (?n - Suc (length bs)) None"
      define me' where "me' = ?me1\<lparr>blocks := (blocks ?me1)(?p := Some (Malloced, List.map Some bs @ rest))\<rparr>"
      have "mem_load ?me1 a 0 (length bs + 1) = Inr (List.map Some bs @ [Some NUL])"
        using ap blk by (simp add: mem_load_def)
      moreover have "mem_store ?p 0 (List.map Some bs @ [Some NUL]) ?me1 = Inr me'"
        using room(2) by (simp add: mem_store_def me'_def rest_def)
      ultimately have "allocate_more_chunk_if_needed needed me s = (Inr (), me', s')"
        using False Some by (simp add: call make_string_own_def mal idx s'_def)
      moreover have "raw me' s' ?p bs rest"
        using sz' room(2) by (simp add: raw_def me'_def rest_def)
      moreover have "max needed 1 \<le> length rest"
        using room(1,2) by (simp add: rest_def) arith
      ultimately show thesis
        using that [of me' s' rest] room(3) sz' m False
        by (auto simp: mem_ok_def me'_def rest_def s'_def)
    qed
  qed
qed

text \<open>Appending in place.\<close>

lemma ncat_in_place_raw:
  assumes r: "raw me s p bs rest" and l: "length xs < length rest" "length xs < 2 ^ 31"
    and x: "blocks me a = Some (k, List.map Some xs @ cs)"
  shows "\<exists>rest'. ncat_in_place a (length xs) me s =
      (Inr (int (length xs)),
       me\<lparr>blocks := (blocks me)(p := Some (Malloced, List.map Some (bs @ xs) @ Some NUL # rest'))\<rparr>,
       s\<lparr>buf_index := length (bs @ xs)\<rparr>) \<and> length rest' + length xs + 1 = length rest"
proof -
  let ?rest' = "drop (Suc (length xs)) rest"
  have s: "data s = Some p" "buf_index s = length bs"
    and b: "blocks me p = Some (Malloced, List.map Some bs @ rest)" using r by (auto simp: raw_def)
  let ?me1 = "me\<lparr>blocks := (blocks me)(p := Some (Malloced, List.map Some (bs @ xs) @ drop (length xs) rest))\<rparr>"
  have ld: "mem_load me a 0 (length xs) = Inr (List.map Some xs)" using x by (simp add: mem_load_def)
  have st1: "mem_store p (length bs) (List.map Some xs) me = Inr ?me1"
    using b l by (simp add: mem_store_def)
  have st2: "mem_store p (length bs + length xs) [Some NUL] ?me1 =
      Inr (me\<lparr>blocks := (blocks me)(p := Some (Malloced, List.map Some (bs @ xs) @ Some NUL # ?rest'))\<rparr>)"
    using l by (simp add: mem_store_def)
  have "to_signed 32 (int (length xs)) = int (length xs)"
    using l by (intro to_signed_id) auto
  then have "ncat_in_place a (length xs) me s = (Inr (int (length xs)),
      me\<lparr>blocks := (blocks me)(p := Some (Malloced, List.map Some (bs @ xs) @ Some NUL # ?rest'))\<rparr>,
      s\<lparr>buf_index := length (bs @ xs)\<rparr>)"
    using ld st1 st2 by (simp add: ncat_in_place_def s)
  then show ?thesis using l by (intro exI [of _ ?rest']) simp
qed

text \<open>Appending in place, or after one growth.\<close>

lemma string_ncat_grows:
  assumes "holds me s bs" "mem_ok me" "all_alloc me" "buf_size s < 2 ^ 48" "length xs < 2 ^ 31"
    and "blocks me a = Some (k, List.map Some xs @ cs)" "own_data s \<longrightarrow> data s \<noteq> Some a"
    and "own_data s \<or> buf_size s \<le> length bs + 1 + length xs"
  shows "\<exists>me' s'. string_ncat a (length xs) me s = Some (Inr (int (length xs)), me', s') \<and>
    holds me' s' (bs @ xs) \<and> own_data s' \<and> mem_ok me' \<and> next_addr me' \<le> Suc (next_addr me) \<and>
    (\<forall>b. b < next_addr me \<longrightarrow> \<not> (own_data s \<and> data s = Some b) \<longrightarrow> blocks me' b = blocks me b)"
proof (cases "own_data s \<and> length xs < buf_size s - length bs")
  case True
  then have own: "own_data s" "0 < buf_size s" by auto
  obtain p rest where r: "raw me s p bs (Some NUL # rest)"
    by (rule holds_raw [OF assms(1) own])
  have sz: "buf_size s = length bs + length (Some NUL # rest)" "buf_index s = length bs"
    using r by (simp_all only: raw_def)
  have sp: "size_sub (buf_size s) (buf_index s) = buf_size s - length bs"
    using sz assms(4) by (simp add: size_sub_le SIZE_MOD_def)
  obtain rest' where n: "ncat_in_place a (length xs) me s =
      (Inr (int (length xs)),
       me\<lparr>blocks := (blocks me)(p := Some (Malloced, List.map Some (bs @ xs) @ Some NUL # rest'))\<rparr>,
       s\<lparr>buf_index := length (bs @ xs)\<rparr>)"
    and l: "length rest' + length xs + 1 = length (Some NUL # rest)"
    using ncat_in_place_raw [OF r _ assms(5,6)] True sz by auto
  have "string_ncat a (length xs) me s = Some (ncat_in_place a (length xs) me s)"
    using True sp by (simp add: string_ncat.simps [of a "length xs" me s])
  then show ?thesis
    using n l r sz True mem_ok_used [OF assms(2)] assms(2)
    by (auto simp: raw_def holds_def mem_ok_def)
next
  case False
  have sp: "size_sub (buf_size s) (buf_index s) = buf_size s - length bs"
    and idx: "buf_index s = length bs"
    using assms(1,4) by (auto simp: holds_def size_sub_le SIZE_MOD_def split: option.splits)
  have nl: "size_add (length xs) 1 = length xs + 1"
    using assms(5) by (intro size_add_small) (simp add: SIZE_MOD_def)
  obtain me1 s1 rest where
    al: "allocate_more_chunk_if_needed (length xs + 1) me s = (Inr (), me1, s1)"
    and r: "raw me1 s1 (next_addr me) bs rest" and room: "max (length xs + 1) 1 \<le> length rest"
    and s1: "buf_size s1 \<le> buf_size s + max (max (length xs + 1) 16) (buf_size s * 3 div 2)"
    and m1: "mem_ok me1" "next_addr me1 = Suc (next_addr me)"
    and fr: "\<And>b. b < next_addr me \<Longrightarrow> own_data s \<longrightarrow> data s \<noteq> Some b \<Longrightarrow> blocks me1 b = blocks me b"
    by (rule allocate_more [OF assms(1-4), of "length xs + 1"]) (use assms(5,8) False in auto)
  have a: "a < next_addr me" by (rule mem_ok_used [OF assms(2,6)])
  then have x1: "blocks me1 a = Some (k, List.map Some xs @ cs)" using fr assms(6,7) by simp
  obtain rest' where n: "ncat_in_place a (length xs) me1 s1 =
      (Inr (int (length xs)),
       me1\<lparr>blocks := (blocks me1)(next_addr me := Some (Malloced, List.map Some (bs @ xs) @ Some NUL # rest'))\<rparr>,
       s1\<lparr>buf_index := length (bs @ xs)\<rparr>)"
    and l: "length rest' + length xs + 1 = length rest"
    using ncat_in_place_raw [OF r _ assms(5) x1] room by auto
  have sz1: "buf_size s1 = length bs + length rest" "buf_index s1 = length bs" "own_data s1"
    "data s1 = Some (next_addr me)" "blocks me1 (next_addr me) \<noteq> None"
    using r by (simp_all add: raw_def)
  have "size_sub (buf_size s1) (buf_index s1) = length rest"
    using s1 sz1 assms(4,5) by (subst size_sub_le) (auto simp: SIZE_MOD_def)
  then have "string_ncat a (length xs) me1 s1 = Some (ncat_in_place a (length xs) me1 s1)"
    using room sz1 by (simp add: string_ncat.simps [of a "length xs" me1 s1])
  then have call: "string_ncat a (length xs) me s = Some (ncat_in_place a (length xs) me1 s1)"
    using False sp al by (auto simp: string_ncat.simps [of a "length xs" me s] nl [simplified])
  show ?thesis
    unfolding call n using l sz1 m1 fr
    by (auto simp: holds_def mem_ok_def)
qed

text \<open>
  A borrowed buffer with room to spare: \<open>needed_len - (s->size - s->index)\<close> wraps around, to just
  below \<open>2 ^ 64\<close>. As a \<open>double\<close> it is \<open>2 ^ 64\<close> when no more than 1024 bytes are spare.
\<close>

lemma excess_range: "2 ^ (52 + k) \<le> n \<Longrightarrow> n < 2 ^ (53 + k) \<Longrightarrow> excess n = k"
proof (induction k arbitrary: n)
  case 0
  then show ?case by (simp add: excess.simps [of n])
next
  case (Suc k)
  have p: "(2::nat) ^ 53 \<le> 2 ^ (52 + Suc k)" by (rule power_increasing) auto
  have "2 ^ (52 + Suc k) = 2 * (2 ^ (52 + k) :: nat)" "2 ^ (53 + Suc k) = 2 * (2 ^ (53 + k) :: nat)"
    by (simp_all only: add_Suc_right power_Suc)
  then have "2 ^ (52 + k) \<le> n div 2" "n div 2 < 2 ^ (53 + k)" using Suc.prems by arith+
  then have "excess (n div 2) = k" by (rule Suc.IH)
  moreover have "\<not> n < 2 ^ 53" using Suc.prems(1) p by linarith
  ultimately show ?case by (subst excess.simps) (simp only: if_False)
qed

lemma dbl_top:
  assumes "2 ^ 63 \<le> n" "n < 2 ^ 64"
  shows "n \<le> dbl n + 1024" "dbl n \<le> n + 1024" "2 ^ 64 \<le> n + 1024 \<Longrightarrow> dbl n = 2 ^ 64"
proof -
  have d: "dbl n = (if 2 * (n mod 2048) > 2048 \<or> (2 * (n mod 2048) = 2048 \<and> odd (n div 2048))
      then n div 2048 + 1 else n div 2048) * 2048"
    using excess_range [of 11 n] assms by (simp add: dbl_def Let_def)
  have n: "n = n div 2048 * 2048 + n mod 2048" "n mod 2048 < 2048" by auto
  then show "n \<le> dbl n + 1024" "dbl n \<le> n + 1024"
    unfolding d by (cases "2 * (n mod 2048) > 2048 \<or> (2 * (n mod 2048) = 2048 \<and> odd (n div 2048))"; simp only: if_True if_False add_mult_distrib; arith)+
  show "dbl n = 2 ^ 64" if "2 ^ 64 \<le> n + 1024"
  proof -
    have "q = 2 ^ 53 - 1 \<and> 1024 \<le> r" if "n = q * 2048 + r" "r < 2048" for q r
    proof -
      have "q * 2048 + r + 1024 \<ge> 9007199254740992 * 2048" "q * 2048 + r < 9007199254740992 * 2048"
        using that \<open>2 ^ 64 \<le> n + 1024\<close> assms(2) by simp_all
      then have "9007199254740990 < q" "q < 9007199254740992" using that(2) by linarith+
      then have "q = 9007199254740991" by linarith
      then show ?thesis using \<open>q * 2048 + r + 1024 \<ge> 9007199254740992 * 2048\<close> by simp
    qed
    then have q: "n div 2048 = 2 ^ 53 - 1" "1024 \<le> n mod 2048" using n by blast+
    moreover have "odd (2 ^ 53 - 1 :: nat)" by simp
    ultimately show ?thesis unfolding d by auto
  qed
qed

lemma string_ncat_wraps:
  assumes "holds me s bs" "buf_size s < 2 ^ 48" "length xs < 2 ^ 31" "\<not> own_data s"
    and "buf_size s = length bs + 1 + length xs + spare" "0 < spare"
  shows "spare \<le> 1024 \<Longrightarrow> string_ncat a (length xs) me s = Some (Inl (UB Float_to_int), me, s)"
    "1024 < spare \<Longrightarrow> spare + 1024 \<le> buf_size s \<Longrightarrow>
       string_ncat a (length xs) me s = Some (Inl (E ERROR_INVAL_LENGTH), me, s)"
proof -
  let ?a = "2 ^ 64 - spare :: nat"
  have idx: "buf_index s = length bs" using assms(1) by (simp add: holds_def)
  have nl: "size_add (length xs) 1 = length xs + 1"
    using assms(3) by (intro size_add_small) (simp add: SIZE_MOD_def)
  have sub: "size_sub (length xs + 1) (size_sub (buf_size s) (buf_index s)) = ?a"
    using assms(2,3,5,6) by (simp add: idx size_sub_le [of "length bs"] SIZE_MOD_def)
      (simp add: size_sub_def SIZE_MOD_def)
  have sm: "dbl (3 * dbl (buf_size s)) = 3 * buf_size s"
    using assms(2) by (simp add: dbl_small)
  have rng: "2 ^ 63 \<le> ?a" "?a < 2 ^ 64" using assms(2,5,6) by simp_all
  note d = dbl_top [OF rng]
  have ch: "chunk_len (length xs + 1) (buf_size s) (buf_index s) =
      (if dbl ?a < 2 ^ 64 then Inr (dbl ?a) else Inl (UB Float_to_int))"
    using d(1) rng assms(2) unfolding chunk_len_def sub sm Let_def by (auto simp: SIZE_MOD_def)
  have call: "string_ncat a (length xs) me s =
      (case allocate_more_chunk_if_needed (length xs + 1) me s of
        (Inl e, me', s') \<Rightarrow> Some (Inl e, me', s') | (Inr _, me', s') \<Rightarrow> string_ncat a (length xs) me' s')"
    using assms(4) by (simp add: string_ncat.simps [of a "length xs" me s] nl [simplified])
  show "string_ncat a (length xs) me s = Some (Inl (UB Float_to_int), me, s)" if "spare \<le> 1024"
    using d(3) that by (simp add: call allocate_more_chunk_if_needed_def ch [simplified])
  show "string_ncat a (length xs) me s = Some (Inl (E ERROR_INVAL_LENGTH), me, s)"
    if "1024 < spare" "spare + 1024 \<le> buf_size s"
  proof -
    have l: "dbl ?a < 2 ^ 64" "2 ^ 64 \<le> buf_size s + dbl ?a" using d(1,2) that assms(2) by auto
    then have "size_add (buf_size s) (dbl ?a) < buf_size s"
      using assms(2) by (simp add: size_add_def SIZE_MOD_def mod_if) linarith
    then show ?thesis using l(1) by (simp add: call allocate_more_chunk_if_needed_def ch [simplified])
  qed
qed

text \<open>
  C8. Appending, when allocations succeed. On a well-formed string that owns its data, or borrows
  a buffer without spare room, \<open>libiodefv2_string_ncat\<close> returns the number of bytes appended; the
  string then holds its old bytes followed by the new ones and a NUL, in a buffer of its own, after
  at most one allocation, and no block but the string's own one has changed. On a string that
  borrows a buffer with room to spare the computation of the chunk wraps around: up to 1024 spare
  bytes the conversion back to \<open>size_t\<close> is undefined, and with more of them, when the buffer is
  1024 bytes larger than its spare room, the call fails with \<open>ERROR_INVAL_LENGTH\<close>; nothing has
  changed either way. (Between the two, a block of almost \<open>2 ^ 64\<close> bytes would be asked for.)
\<close>

theorem string_ncat_appends:
  assumes "holds me s bs" "mem_ok me" "all_alloc me" "buf_size s < 2 ^ 48" "length xs < 2 ^ 31"
    and "blocks me a = Some (k, List.map Some xs @ cs)" "own_data s \<longrightarrow> data s \<noteq> Some a"
  shows "if own_data s \<or> buf_size s \<le> length bs + 1 + length xs
    then \<exists>me' s'. string_ncat a (length xs) me s = Some (Inr (int (length xs)), me', s') \<and>
      holds me' s' (bs @ xs) \<and> own_data s' \<and> mem_ok me' \<and> next_addr me' \<le> Suc (next_addr me) \<and>
      (\<forall>b. b < next_addr me \<longrightarrow> \<not> (own_data s \<and> data s = Some b) \<longrightarrow> blocks me' b = blocks me b)
    else let spare = buf_size s - (length bs + 1 + length xs) in
      if spare \<le> 1024 then string_ncat a (length xs) me s = Some (Inl (UB Float_to_int), me, s)
      else spare + 1024 \<le> buf_size s \<longrightarrow>
        string_ncat a (length xs) me s = Some (Inl (E ERROR_INVAL_LENGTH), me, s)"
proof (cases "own_data s \<or> buf_size s \<le> length bs + 1 + length xs")
  case True
  show ?thesis using string_ncat_grows [OF assms True] True by simp
next
  case False
  then show ?thesis
    using string_ncat_wraps [OF assms(1,4,5), of "buf_size s - (length bs + 1 + length xs)" a]
    by (auto simp: Let_def)
qed

text \<open>A string holding ''ab'' in a buffer of 16 bytes, and a lent buffer, for the witnesses.\<close>

definition sample_mem :: memory where
  "sample_mem = \<lparr>blocks = (\<lambda>a. if a = 0 then Some (Malloced, [Some CHR ''a'', Some CHR ''b'', Some NUL, None])
       else if a = 1 then Some (Lent, [Some CHR ''c'', Some CHR ''d'', Some NUL]) else None),
     next_addr = 2, alloc_ok = (\<lambda>_ _. True)\<rparr>"

definition sample_str :: sbuf where
  "sample_str = \<lparr>own_structure = True, own_data = True, refcount = 1, data = Some 0,
     buf_size = 4, buf_index = 2\<rparr>"

lemma sample_mem: "mem_ok sample_mem" "all_alloc sample_mem"
  "blocks sample_mem 1 = Some (Lent, List.map Some ''cd'' @ [Some NUL])"
  by (simp_all add: mem_ok_def all_alloc_def sample_mem_def)

lemma sample_str: "holds sample_mem sample_str ''ab''"
  by (simp add: holds_def sample_mem_def sample_str_def)

text \<open>A string that borrows a buffer with one spare byte.\<close>

definition spare_str :: sbuf where
  "spare_str = \<lparr>own_structure = True, own_data = False, refcount = 1, data = Some 0,
     buf_size = 4, buf_index = 2\<rparr>"

theorem string_ncat_appends_witness:
  "(\<exists>me' s'. string_ncat 1 (length ''cd'') sample_mem sample_str = Some (Inr 2, me', s') \<and>
     holds me' s' ''abcd'') \<and>
   string_ncat 1 (length []) sample_mem spare_str = Some (Inl (UB Float_to_int), sample_mem, spare_str)"
proof
  show "\<exists>me' s'. string_ncat 1 (length ''cd'') sample_mem sample_str = Some (Inr 2, me', s') \<and>
     holds me' s' ''abcd''"
    using string_ncat_appends [OF sample_str sample_mem(1,2) _ _ sample_mem(3)]
    by (auto simp: sample_str_def)
  have "holds sample_mem spare_str ''ab''" by (simp add: holds_def sample_mem_def spare_str_def)
  from string_ncat_appends [OF this sample_mem(1,2), of "[]" 1 Lent "List.map Some ''cd'' @ [Some NUL]"]
  show "string_ncat 1 (length []) sample_mem spare_str = Some (Inl (UB Float_to_int), sample_mem, spare_str)"
    using sample_mem(3) by (simp add: spare_str_def)
qed

section \<open>Formatted printing\<close>

lemma vsnprintf_raw:
  assumes r: "raw me s p bs rest" and l: "length text < length rest" "length text < 2 ^ 31"
  shows "\<exists>rest'. mem_vsnprintf (Some text) (data s) (buf_index s) (length rest) me =
      Inr (int (length text),
        me\<lparr>blocks := (blocks me)(p := Some (Malloced, List.map Some (bs @ text) @ Some NUL # rest'))\<rparr>)
     \<and> length rest' + length text + 1 = length rest"
proof -
  have s: "data s = Some p" "buf_index s = length bs"
    and b: "blocks me p = Some (Malloced, List.map Some bs @ rest)" using r by (auto simp: raw_def)
  show ?thesis
    using l b by (intro exI [of _ "drop (Suc (length text)) rest"])
      (auto simp: mem_vsnprintf_def s mem_store_def)
qed

text \<open>Output that does not fit: a prefix is stored over the space, and nothing else changes.\<close>

lemma vsnprintf_raw_short:
  assumes r: "raw me s p bs rest" and l: "length rest \<le> length text" "length text < 2 ^ 31" "rest \<noteq> []"
  shows "mem_vsnprintf (Some text) (data s) (buf_index s) (length rest) me =
      Inr (int (length text), me\<lparr>blocks := (blocks me)(p := Some (Malloced,
        List.map Some bs @ List.map Some (take (length rest - 1) text) @ [Some NUL]))\<rparr>)"
proof -
  have s: "data s = Some p" "buf_index s = length bs"
    and b: "blocks me p = Some (Malloced, List.map Some bs @ rest)" using r by (auto simp: raw_def)
  have "0 < length rest" using l(3) by simp
  then have "Suc (min (length text) (length rest - Suc 0)) = length rest" using l(1) by simp
  then show ?thesis
    using l b by (simp add: mem_vsnprintf_def s mem_store_def)
qed

text \<open>Growing an owned buffer whose spare bytes were partly overwritten.\<close>

lemma allocate_more_raw:
  assumes r: "raw me s p bs rest" and m: "mem_ok me" "all_alloc me"
    and sz: "buf_size s < 2 ^ 48" "needed < 2 ^ 48" "0 < needed" "length rest \<le> needed"
  obtains me' s' rest' where
    "allocate_more_chunk_if_needed needed me s = (Inr (), me', s')"
    "raw me' s' (next_addr me) bs rest'" "needed \<le> length rest'" "length rest' < 2 ^ 50"
    "mem_ok me'" "all_alloc me'" "next_addr me' = Suc (next_addr me)"
    "\<And>b. b < next_addr me \<Longrightarrow> p \<noteq> b \<Longrightarrow> blocks me' b = blocks me b"
    "s' = s\<lparr>buf_size := buf_size s', data := Some (next_addr me)\<rparr>"
proof -
  have s: "own_data s" "data s = Some p" "buf_index s = length bs" "buf_size s = length bs + length rest"
    and b: "blocks me p = Some (Malloced, List.map Some bs @ rest)" using r by (auto simp: raw_def)
  define len where "len = max (needed - length rest) (buf_size s * 3 div 2)"
  have len: "chunk_len needed (buf_size s) (buf_index s) = Inr len"
    using chunk_len_grow [of needed "buf_size s" "buf_index s"] sz s by (simp add: len_def)
  have nw: "size_add (buf_size s) len = buf_size s + len"
    using sz by (intro size_add_small) (auto simp: SIZE_MOD_def len_def max_def)
  let ?p = "next_addr me" and ?n = "buf_size s + len"
  let ?me1 = "me\<lparr>next_addr := Suc ?p, blocks := (blocks me)(?p := Some (Malloced, replicate ?n None))\<rparr>"
  have mal: "mem_malloc ?n me = (Some ?p, ?me1)" by (rule mem_malloc_all [OF m(2)])
  have pp: "p < ?p" by (rule mem_ok_used [OF m(1) b])
  define rest' where "rest' = rest @ replicate len None"
  define me' where "me' = ?me1\<lparr>blocks := (blocks ?me1)(p := None, ?p := Some (Malloced, List.map Some bs @ rest'))\<rparr>"
  define s' where "s' = s\<lparr>buf_size := ?n, data := Some ?p\<rparr>"
  have "take ?n ((List.map Some bs @ rest) @ replicate ?n None) = List.map Some bs @ rest'"
    using take_grow [of "List.map Some bs @ rest" "buf_size s" len None] s by (simp add: rest'_def)
  then have "mem_realloc (data s) ?n me = Inr (Some ?p, me')"
    using s b mal by (simp add: mem_realloc_def me'_def)
  then have "allocate_more_chunk_if_needed needed me s = (Inr (), me', s')"
    unfolding allocate_more_chunk_if_needed_def len sum.case nw by (simp add: s s'_def)
  moreover have "raw me' s' ?p bs rest'" by (simp add: raw_def me'_def s'_def s rest'_def)
  moreover have "needed \<le> length rest'" "length rest' < 2 ^ 50"
    using sz s by (auto simp: rest'_def len_def)
  ultimately show thesis
    using that [of me' s' rest'] m pp by (auto simp: mem_ok_def me'_def s'_def)
qed

text \<open>The second round of \<open>vprintf\<close>, when the text fits.\<close>

lemma vprintf_fits:
  assumes r: "raw me s p bs rest" and l: "length text < length rest" "length text < 2 ^ 31"
    and sz: "buf_size s < 2 ^ 52" and m: "mem_ok me"
  shows "\<exists>me' s'. string_vprintf (Some text) me s = Some (Inr (int (length text)), me', s') \<and>
    holds me' s' (bs @ text) \<and> own_data s' \<and> mem_ok me' \<and> next_addr me' = next_addr me \<and>
    (\<forall>b. b \<noteq> p \<longrightarrow> blocks me' b = blocks me b)"
proof -
  have s: "own_data s" "data s = Some p" "buf_index s = length bs" "buf_size s = length bs + length rest"
    and b: "blocks me p \<noteq> None" using r by (auto simp: raw_def)
  have sp: "size_sub (buf_size s) (buf_index s) = length rest"
    using s sz by (simp add: size_sub_le SIZE_MOD_def)
  obtain rest' where v: "mem_vsnprintf (Some text) (data s) (buf_index s) (length rest) me =
      Inr (int (length text),
        me\<lparr>blocks := (blocks me)(p := Some (Malloced, List.map Some (bs @ text) @ Some NUL # rest'))\<rparr>)"
    and lr: "length rest' + length text + 1 = length rest" using vsnprintf_raw [OF r l] by blast
  let ?me' = "me\<lparr>blocks := (blocks me)(p := Some (Malloced, List.map Some (bs @ text) @ Some NUL # rest'))\<rparr>"
  let ?s' = "s\<lparr>buf_index := length bs + length text\<rparr>"
  have "string_vprintf (Some text) me s = Some (Inr (int (length text)), ?me', ?s')"
    using v sp s l by (simp add: string_vprintf.simps [of "Some text" me s])
  moreover have "holds ?me' ?s' (bs @ text)" using s lr by (auto simp: holds_def)
  moreover have "mem_ok ?me'" using m b by (auto simp: mem_ok_def)
  ultimately show ?thesis using s by (intro exI [of _ ?me'] exI [of _ ?s'] conjI) simp_all
qed

lemma vprintf_raw:
  assumes r: "raw me s p bs rest" "rest \<noteq> []" and l: "length text < 2 ^ 31"
    and sz: "buf_size s < 2 ^ 48" and m: "mem_ok me" "all_alloc me"
  shows "\<exists>me' s'. string_vprintf (Some text) me s = Some (Inr (int (length text)), me', s') \<and>
    holds me' s' (bs @ text) \<and> own_data s' \<and> mem_ok me' \<and> next_addr me' \<le> Suc (next_addr me) \<and>
    (\<forall>b. b < next_addr me \<longrightarrow> b \<noteq> p \<longrightarrow> blocks me' b = blocks me b)"
proof (cases "length text < length rest")
  case True
  then show ?thesis using vprintf_fits [OF r(1) True l _ m(1)] sz by fastforce
next
  case False
  have s: "own_data s" "data s = Some p" "buf_index s = length bs" "buf_size s = length bs + length rest"
    and b: "blocks me p \<noteq> None" using r by (auto simp: raw_def)
  have sp: "size_sub (buf_size s) (buf_index s) = length rest"
    using s sz by (simp add: size_sub_le SIZE_MOD_def)
  define rest2 where "rest2 = List.map Some (take (length rest - 1) text) @ [Some NUL]"
  define me2 where "me2 = me\<lparr>blocks := (blocks me)(p := Some (Malloced, List.map Some bs @ rest2))\<rparr>"
  have lr: "length rest2 = length rest" using False r(2) by (cases rest) (auto simp: rest2_def)
  have v: "mem_vsnprintf (Some text) (data s) (buf_index s) (length rest) me = Inr (int (length text), me2)"
    using vsnprintf_raw_short [OF r(1) _ l r(2)] False by (simp add: me2_def rest2_def)
  have r2: "raw me2 s p bs rest2" using s lr by (simp add: raw_def me2_def)
  have m2: "mem_ok me2" "all_alloc me2" using m b by (auto simp: me2_def mem_ok_def)
  obtain me3 s3 rest3 where
    al: "allocate_more_chunk_if_needed (length text + 1) me2 s = (Inr (), me3, s3)"
    and r3: "raw me3 s3 (next_addr me2) bs rest3" "length text + 1 \<le> length rest3" "length rest3 < 2 ^ 50"
    and m3: "mem_ok me3" "all_alloc me3" "next_addr me3 = Suc (next_addr me2)"
    and fr: "\<And>b. b < next_addr me2 \<Longrightarrow> p \<noteq> b \<Longrightarrow> blocks me3 b = blocks me2 b"
    by (rule allocate_more_raw [OF r2 m2 sz, of "length text + 1"]) (use l lr False in auto)
  have "buf_size s3 < 2 ^ 52" using r3 sz s by (auto simp: raw_def)
  then obtain me' s' where "string_vprintf (Some text) me3 s3 = Some (Inr (int (length text)), me', s')"
    "holds me' s' (bs @ text)" "own_data s'" "mem_ok me'" "next_addr me' = next_addr me3"
    and fr': "\<forall>b. b \<noteq> next_addr me2 \<longrightarrow> blocks me' b = blocks me3 b"
    using vprintf_fits [OF r3(1) _ l _ m3(1)] r3(2) by auto
  moreover have "nat (int (length text) + 1) = length text + 1" by simp
  then have "string_vprintf (Some text) me s = string_vprintf (Some text) me3 s3"
    using v sp s al False
    by (simp add: string_vprintf.simps [of "Some text" me s] del: nat_int_add)
  moreover have "next_addr me2 = next_addr me" by (simp add: me2_def)
  ultimately show ?thesis using fr fr' m3(3)
    by (intro exI [of _ me'] exI [of _ s'] conjI) (auto simp: me2_def)
qed



section \<open>Copies, destruction, truncation\<close>

lemma string_check_ok:
  assumes "blocks me a = Some (k, List.map Some xs @ Some NUL # cs)" "length xs < 2 ^ 48"
  shows "string_check me (Some a) (length xs) = Inr a"
proof -
  have "mem_char me a (length xs) = Inr NUL"
    using assms(1) by (simp add: mem_char_def mem_load_def)
  moreover have "size_add (length xs) 1 = length xs + 1"
    using assms(2) by (intro size_add_small) (simp add: SIZE_MOD_def)
  ultimately show ?thesis by (simp add: string_check_def)
qed

lemma string_buf_copy_fresh:
  assumes "blocks me a = Some (k, List.map Some xs @ cs)" "blocks me p = Some (Malloced, replicate n None)"
    and "data s = Some p" "buf_size s = n" "length xs < n" "a \<noteq> p"
  shows "string_buf_copy a (length xs) me s = (Inr (),
    me\<lparr>blocks := (blocks me)(p := Some (Malloced,
      List.map Some xs @ Some NUL # replicate (n - Suc (length xs)) None))\<rparr>, s)"
  using assms by (simp add: string_buf_copy_def mem_load_def mem_store_def)

lemma string_destroy_internal_holds:
  assumes "holds me s bs"
  shows "string_destroy_internal me s = (Inr (),
    (case data s of Some a \<Rightarrow> if own_data s then me\<lparr>blocks := (blocks me)(a := None)\<rparr> else me | None \<Rightarrow> me),
    s\<lparr>data := None, buf_index := 0, buf_size := 0\<rparr>)"
  using assms by (auto simp: string_destroy_internal_def holds_def mem_free_def split: option.splits)

text \<open>
  C10. \<open>libiodefv2_string_set_dup_fast\<close> of a NUL-terminated text that is not the string's own
  buffer releases the block the string owned and makes it hold a copy of the text, with its
  reference count unchanged; a lent buffer and every other block stay as they were. Destroying
  the string it leaves, when that has one reference, frees its copy too, so that the memory is
  the caller's again, less the block the string owned at first; with more references it only
  drops one.
\<close>

theorem string_set_dup_destroy:
  assumes "holds me s bs" "mem_ok me" "all_alloc me"
    and "blocks me a = Some (k, List.map Some xs @ Some NUL # cs)" "length xs < 2 ^ 48"
    and "own_data s \<longrightarrow> data s \<noteq> Some a"
  shows "\<exists>me' s'. string_set_dup_fast (Some a) (length xs) me s = (Inr (), me', s') \<and>
    holds me' s' xs \<and> own_data s' \<and> refcount s' = refcount s \<and> data s' = Some (next_addr me) \<and>
    (\<forall>b. b < next_addr me \<longrightarrow>
      blocks me' b = (if own_data s \<and> data s = Some b then None else blocks me b)) \<and>
    (if refcount s = 1 then \<exists>me'' s''. string_destroy me' s' = (Inr True, me'', s'') \<and>
       (\<forall>b. blocks me'' b = (if own_data s \<and> data s = Some b then None else blocks me b))
     else string_destroy me' s' = (Inr False, me', s'\<lparr>refcount := refcount s - 1\<rparr>))"
proof -
  let ?me1 = "case data s of Some a \<Rightarrow> if own_data s then me\<lparr>blocks := (blocks me)(a := None)\<rparr> else me
    | None \<Rightarrow> me"
  let ?p = "next_addr me" and ?n = "length xs + 1"
  have a: "blocks ?me1 a = Some (k, List.map Some xs @ Some NUL # cs)" "next_addr ?me1 = ?p" "all_alloc ?me1"
    and fr: "\<And>b. blocks ?me1 b = (if own_data s \<and> data s = Some b then None else blocks me b)"
    using assms(3,4,6) by (auto split: option.splits)
  have ne: "a \<noteq> ?p" using mem_ok_used [OF assms(2,4)] by simp
  have fresh: "blocks me ?p = None" using assms(2) by (simp add: mem_ok_def)
  let ?me2 = "?me1\<lparr>next_addr := Suc ?p, blocks := (blocks ?me1)(?p := Some (Malloced, replicate ?n None))\<rparr>"
  have mal: "mem_malloc ?n ?me1 = (Some ?p, ?me2)" using mem_malloc_all [OF a(3)] by (simp only: a(2))
  have nl: "size_add (length xs) 1 = ?n"
    using assms(5) by (intro size_add_small) (simp add: SIZE_MOD_def)
  let ?s2 = "s\<lparr>data := Some ?p, buf_index := length xs, buf_size := ?n\<rparr>"
  have al: "string_buf_alloc (length xs) ?me1 (s\<lparr>data := None, buf_index := 0, buf_size := 0\<rparr>) = (Inr (), ?me2, ?s2)"
    unfolding string_buf_alloc_def nl mal by simp
  define me3 where "me3 = ?me2\<lparr>blocks := (blocks ?me2)(?p := Some (Malloced,
      List.map Some xs @ Some NUL # replicate (?n - Suc (length xs)) None))\<rparr>"
  have cp: "string_buf_copy a (length xs) ?me2 ?s2 = (Inr (), me3, ?s2)"
    unfolding me3_def by (rule string_buf_copy_fresh) (use a(1) ne in auto)
  define s3 where "s3 = ?s2\<lparr>own_data := True\<rparr>"
  have "string_set_dup_fast (Some a) (length xs) me s = (Inr (), me3, s3)"
    unfolding string_set_dup_fast_def string_check_ok [OF assms(4,5)] s3_def
      string_destroy_internal_holds [OF assms(1)] sum.case prod.case al cp by simp
  moreover have h3: "holds me3 s3 xs" by (simp add: holds_def me3_def s3_def)
  moreover have s3: "own_data s3" "refcount s3 = refcount s" "data s3 = Some ?p" by (simp_all add: s3_def)
  moreover have b3: "blocks me3 b = (if b = ?p then Some (Malloced, List.map Some xs @ [Some NUL])
      else if own_data s \<and> data s = Some b then None else blocks me b)" for b
    by (simp add: me3_def fr)
  moreover have "if refcount s = 1 then \<exists>me'' s''. string_destroy me3 s3 = (Inr True, me'', s'') \<and>
       (\<forall>b. blocks me'' b = (if own_data s \<and> data s = Some b then None else blocks me b))
     else string_destroy me3 s3 = (Inr False, me3, s3\<lparr>refcount := refcount s - 1\<rparr>)"
    using string_destroy_internal_holds [of me3 "s3\<lparr>refcount := refcount s3 - 1\<rparr>" xs] h3 s3 b3 fresh
    by (auto simp: string_destroy_def holds_def Let_def)
  ultimately show ?thesis
    by (intro exI [of _ me3] exI [of _ s3] conjI) simp_all
qed

theorem string_set_dup_destroy_witness:
  "\<exists>me' s' me'' s''. string_set_dup_fast (Some 1) (length ''cd'') sample_mem sample_str = (Inr (), me', s') \<and>
     holds me' s' ''cd'' \<and> blocks me' 0 = None \<and> string_destroy me' s' = (Inr True, me'', s'') \<and>
     blocks me'' 1 = blocks sample_mem 1 \<and> blocks me'' 2 = None"
  using string_set_dup_destroy [OF sample_str sample_mem(1,2), of 1 Lent "''cd''" "[]"] sample_mem(3)
  by (fastforce simp: sample_str_def sample_mem_def)

text \<open>
  Truncating a string that does not own its data to a non-zero length asks for a buffer of 0 bytes
  and then copies the old bytes into it: the store is outside the block. Clearing such a string
  stores a NUL into the lent buffer.
\<close>

definition borrowed_str :: sbuf where
  "borrowed_str = \<lparr>own_structure = True, own_data = False, refcount = 1, data = Some 1,
     buf_size = 3, buf_index = 2\<rparr>"

lemma string_truncate_borrowed:
  "fst (string_truncate 1 sample_mem borrowed_str) = Inl (UB Out_of_bounds)"
  "fst (string_clear sample_mem borrowed_str) = Inl (UB Write_borrowed)"
  by (simp_all add: string_truncate_def string_clear_def make_string_own_def mem_malloc_def mem_load_def
      mem_store_def sample_mem_def borrowed_str_def Let_def)

lemma copy_bytes_holds:
  assumes h: "holds me src bs" and m: "mem_ok me" "all_alloc me"
    and d: "data dst = None" "buf_size dst = buf_size src" "buf_index dst = buf_index src" "own_data dst"
  obtains me' dst' where "copy_bytes src me dst = (Inr (), me', dst')" "holds me' dst' bs" "own_data dst'"
    "mem_ok me'" "\<And>b. b < next_addr me \<Longrightarrow> blocks me' b = blocks me b" "refcount dst' = refcount dst"
    "data dst' = (if buf_size src = 0 then None else Some (next_addr me))"
proof (cases "data src")
  case None
  then have "buf_size src = 0" "bs = []" using h by (auto simp: holds_def)
  then show thesis using that [of me dst] h m d None by (auto simp: copy_bytes_def holds_def)
next
  case (Some a)
  then obtain k rest where b: "blocks me a = Some (k, List.map Some bs @ Some NUL # rest)"
    and i: "buf_index src = length bs" "length bs < buf_size src"
    using h by (auto simp: holds_def)
  let ?p = "next_addr me" and ?n = "buf_size src"
  let ?me1 = "me\<lparr>next_addr := Suc ?p, blocks := (blocks me)(?p := Some (Malloced, replicate ?n None))\<rparr>"
  let ?me2 = "?me1\<lparr>blocks := (blocks ?me1)(?p := Some (Malloced,
      List.map Some bs @ Some NUL # replicate (?n - Suc (length bs)) None))\<rparr>"
  let ?dst = "dst\<lparr>data := Some ?p\<rparr>"
  have ap: "a < ?p" by (rule mem_ok_used [OF m(1) b])
  have mal: "mem_malloc ?n me = (Some ?p, ?me1)" by (rule mem_malloc_all [OF m(2)])
  have "string_buf_copy a (length bs) ?me1 ?dst = (Inr (), ?me2, ?dst)"
    by (rule string_buf_copy_fresh) (use b ap d i in auto)
  then have "copy_bytes src me dst = (Inr (), ?me2, ?dst)"
    using i Some by (simp add: copy_bytes_def mal Let_def)
  moreover have "holds ?me2 ?dst bs" using d i by (auto simp: holds_def)
  moreover have "mem_ok ?me2" using m(1) by (auto simp: mem_ok_def)
  ultimately show thesis using that d i(2) by auto
qed

lemma cells_streq_prefix:
  assumes "NUL \<notin> set bs" "NUL \<notin> set cs"
  shows "cells_streq (List.map Some bs @ Some NUL # r1) (List.map Some cs @ Some NUL # r2) = Inr (bs = cs)"
  using assms
proof (induction bs arbitrary: cs)
  case Nil
  then show ?case by (cases cs) auto
next
  case (Cons b bs)
  then show ?case by (cases cs) auto
qed

text \<open>
  C11. Comparing two strings that hold texts without NUL returns 0 exactly when the texts are
  equal; cloning a string gives a new string with its own copy of the bytes, in a block
  the allocator had not handed out before (none when the source has no buffer), so not the
  source's; the source and every other block are untouched, and the two compare equal.
\<close>

theorem string_clone_compare:
  assumes "holds me s bs" "mem_ok me" "all_alloc me" "holds me t cs" "NUL \<notin> set bs" "NUL \<notin> set cs"
  shows "string_compare me (Some s) (Some t) = Inr (if bs = cs then 0 else -1) \<and>
    (\<exists>me' s'. string_clone True s me = (Inr s', me') \<and> holds me' s' bs \<and> own_data s' \<and>
      refcount s' = 1 \<and>
      data s' = (if buf_size s = 0 then None else Some (next_addr me)) \<and>
      blocks me (next_addr me) = None \<and> data s \<noteq> Some (next_addr me) \<and> holds me' s bs \<and> string_compare me' (Some s) (Some s') = Inr 0 \<and>
      (\<forall>b. b < next_addr me \<longrightarrow> blocks me' b = blocks me b))"
proof -
  have cmp: "string_compare m (Some s1) (Some s2) = Inr (if as = ds then 0 else -1)"
    if "holds m s1 as" "holds m s2 ds" "NUL \<notin> set as" "NUL \<notin> set ds" for m s1 s2 as ds
  proof (cases "length as = length ds \<and> as \<noteq> []")
    case True
    then have "as \<noteq> []" "ds \<noteq> []" by auto
    then show ?thesis
      using that cells_streq_prefix [OF that(3,4)] True
      by (auto simp: string_compare_def holds_def split: option.splits)
  next
    case False
    then show ?thesis using that by (auto simp: string_compare_def holds_def)
  qed
  obtain dst where n: "string_new True = Inr dst"
    and d: "data dst = None" "refcount dst = 1" by (simp add: string_new_def)
  let ?dst = "dst\<lparr>buf_size := buf_size s, buf_index := buf_index s, own_data := True\<rparr>"
  obtain me' dst' where c: "copy_bytes s me ?dst = (Inr (), me', dst')" "holds me' dst' bs" "own_data dst'"
    "mem_ok me'" "\<And>b. b < next_addr me \<Longrightarrow> blocks me' b = blocks me b" "refcount dst' = refcount ?dst"
    "data dst' = (if buf_size s = 0 then None else Some (next_addr me))"
    by (rule copy_bytes_holds [OF assms(1-3), of ?dst]) (use d in auto)
  have new: "blocks me (next_addr me) = None" "data s \<noteq> Some (next_addr me)"
    using assms(1,2) by (auto simp: mem_ok_def holds_def split: option.splits)
  have "holds me' s bs"
    using assms(1) c(5) mem_ok_used [OF assms(2)] by (auto simp: holds_def split: option.splits)
  moreover have "string_clone True s me = (Inr dst', me')" by (simp add: string_clone_def n c(1))
  ultimately show ?thesis
    using cmp [OF assms(1,4-6)] cmp [of me' s bs dst' bs] c assms(5) d new by auto
qed

theorem string_clone_compare_witness:
  "\<exists>me' s'. string_clone True sample_str sample_mem = (Inr s', me') \<and> holds me' s' ''ab'' \<and>
     string_compare me' (Some sample_str) (Some s') = Inr 0"
  using string_clone_compare [OF sample_str sample_mem(1,2) sample_str] by auto

lemma string_truncate_owned:
  assumes "holds me s bs" "own_data s" "len \<le> length bs"
  shows "\<exists>me' s'. string_truncate len me s = (Inr (), me', s') \<and> holds me' s' (take len bs)"
proof (cases "data s")
  case None
  then show ?thesis using assms by (auto simp: string_truncate_def holds_def)
next
  case (Some a)
  then obtain rest where b: "blocks me a = Some (Malloced, List.map Some bs @ Some NUL # rest)"
    and i: "buf_index s = length bs" "buf_size s = length bs + 1 + length rest"
    using assms by (auto simp: holds_def)
  define cs where "cs = drop (Suc len) (List.map Some bs @ Some NUL # rest)"
  have "mem_store a len [Some NUL] me =
      Inr (me\<lparr>blocks := (blocks me)(a := Some (Malloced, List.map Some (take len bs) @ Some NUL # cs))\<rparr>)"
    using b assms(3) by (simp add: mem_store_def cs_def take_map)
  moreover have "length cs + len + 1 = length bs + 1 + length rest"
    using assms(3) by (simp add: cs_def)
  ultimately show ?thesis
    using Some i assms(2,3) by (auto simp: string_truncate_def holds_def)
qed

end
