(* ===== verification/Json.thy ===== *)
theory Json
  imports Prelude
begin

text \<open>
  JSON strings: the writer \<open>conv_string\<close> of src/src/iodefv2-document-print-json.c and the reader
  helpers of src/src/iodefv2-document-read-json.c (UTF-8 encoding of code points, escape
  sequences, token comparison). The output of the writer is the sequence of its
  \<open>libiodefv2_io_write\<close> calls; the reader appends to a string with \<open>libiodefv2_string_ncat\<close>
  (theory StringBuf), modelled here by the bytes appended so far. The tokens come from
  the tokeniser of theory Jsmn.
\<close>

section \<open>Writing a string\<close>

definition hex_digit :: "nat \<Rightarrow> char" where
  "hex_digit n = ''0123456789ABCDEF'' ! (n mod 16)"

text \<open>The writes for one byte. The control characters are those of the C escapes.\<close>

definition conv_char :: "char \<Rightarrow> string list" where
  "conv_char c =
     (if c = CHR 0x5C \<or> c = CHR 0x22 \<or> c = CHR ''/'' then [[CHR 0x5C], [c]]
      else if c = CHR 0x08 then [[CHR 0x5C, CHR ''b'']]
      else if c = CHR 0x09 then [[CHR 0x5C, CHR ''t'']]
      else if c = CHR 0x0A then [[CHR 0x5C, CHR ''n'']]
      else if c = CHR 0x0C then [[CHR 0x5C, CHR ''f'']]
      else if c = CHR 0x0D then [[CHR 0x5C, CHR ''r'']]
      else if 32 \<le> ccode c then [[c]]
      else [[CHR 0x5C, CHR ''u'', CHR ''0'', CHR ''0'', hex_digit (ccode c div 16), hex_digit (ccode c)]])"

definition conv_string_writes :: "string \<Rightarrow> string list" where
  "conv_string_writes s = [[CHR 0x22]] @ concat (List.map conv_char s) @ [[CHR 0x22]]"

fun io_writes :: "('fd \<Rightarrow> string \<Rightarrow> 'fd res) \<Rightarrow> 'fd \<Rightarrow> string list \<Rightarrow> 'fd res" where
  "io_writes write fd [] = Inr fd"
| "io_writes write fd (w # ws) = res_bind (write fd w) (\<lambda>fd. io_writes write fd ws)"

definition conv_string :: "('fd \<Rightarrow> string \<Rightarrow> 'fd res) \<Rightarrow> 'fd \<Rightarrow> string \<Rightarrow> 'fd res" where
  "conv_string write fd s = io_writes write fd (conv_string_writes s)"

text \<open>The text between the quotes.\<close>

definition json_body :: "string \<Rightarrow> string" where
  "json_body s = concat (concat (List.map conv_char s))"

section \<open>Reading a string\<close>

definition byte :: "nat \<Rightarrow> char" where
  "byte n = char_of (n mod 256)"

text \<open>
  The bytes appended, with the value returned; 1 and 0 are both successes. The unsigned
  subtraction of the surrogate test wraps to a large number below 0xd800.
\<close>

definition unicode_to_utf8 :: "nat \<Rightarrow> (int \<times> string) res" where
  "unicode_to_utf8 cp =
     (if cp < 0x80 then Inr (1, [byte cp])
      else if cp < 0x800 then Inr (1, [byte (192 + cp div 64), byte (128 + cp mod 64)])
      else if 0xd800 \<le> cp \<and> cp - 0xd800 < 0x800 then Inr (0, [])
      else if cp < 0x10000 then
        Inr (1, [byte (224 + cp div 4096), byte (128 + cp div 64 mod 64), byte (128 + cp mod 64)])
      else if cp < 0x110000 then
        Inr (1, [byte (240 + cp div 262144), byte (128 + cp div 4096 mod 64),
                 byte (128 + cp div 64 mod 64), byte (128 + cp mod 64)])
      else Inl E_minus1)"

definition hexval :: "char \<Rightarrow> nat option" where
  "hexval c =
     (if 48 \<le> ccode c \<and> ccode c \<le> 57 then Some (ccode c - 48)
      else if 97 \<le> ccode c \<and> ccode c \<le> 102 then Some (ccode c - 97 + 10)
      else if 65 \<le> ccode c \<and> ccode c \<le> 70 then Some (ccode c - 65 + 10)
      else None)"

text \<open>The text is a buffer that may be longer than the token; a read past it is a fault.\<close>

definition char_at :: "string \<Rightarrow> nat \<Rightarrow> char res" where
  "char_at inp i = (if i < length inp then Inr (inp ! i) else Inl (UB Out_of_bounds))"

definition hexval_at :: "string \<Rightarrow> nat \<Rightarrow> nat res" where
  "hexval_at inp i = res_bind (char_at inp i) (\<lambda>c. case hexval c of
     Some h \<Rightarrow> Inr h | None \<Rightarrow> Inl (EV ERROR_GENERIC))"

definition unescape_unicode :: "string \<Rightarrow> nat \<Rightarrow> nat \<Rightarrow> nat res" where
  "unescape_unicode inp i fin =
     (if i + 4 > fin then Inl (EV ERROR_GENERIC)
      else res_bind (hexval_at inp i) (\<lambda>h1. res_bind (hexval_at inp (i + 1)) (\<lambda>h2.
           res_bind (hexval_at inp (i + 2)) (\<lambda>h3. res_bind (hexval_at inp (i + 3)) (\<lambda>h4.
             Inr (h1 * 4096 + h2 * 256 + h3 * 16 + h4))))))"

text \<open>
  One round of the loop of \<open>unescape_string\<close>: the bytes appended and the position of the last
  character read, before the increment of the loop header.
\<close>

definition unescape_codepoint :: "string \<Rightarrow> nat \<Rightarrow> nat \<Rightarrow> (nat \<times> nat) res" where
  "unescape_codepoint inp i fin =
     res_bind (unescape_unicode inp (i + 1) fin) (\<lambda>codepoint.
       if 0xd800 \<le> codepoint \<and> codepoint < 0xdc00
       then res_bind (unescape_unicode inp (i + 7) fin) (\<lambda>low.
         Inr (nat (0x10000 + (int codepoint - 0xd800) * 1024 + (int low - 0xdc00)), i + 7))
       else Inr (codepoint, i))"

definition unescape_u :: "string \<Rightarrow> nat \<Rightarrow> nat \<Rightarrow> (string \<times> nat) res" where
  "unescape_u inp i fin =
     res_bind (unescape_codepoint inp i fin) (\<lambda>(codepoint, i).
     res_bind (unicode_to_utf8 codepoint) (\<lambda>(_, bytes). Inr (bytes, i + 4)))"

definition simple_escape :: "char \<Rightarrow> char" where
  "simple_escape d =
     (if d = CHR ''b'' then CHR 0x08
      else if d = CHR ''t'' then CHR 0x09
      else if d = CHR ''n'' then CHR 0x0A
      else if d = CHR ''f'' then CHR 0x0C
      else if d = CHR ''r'' then CHR 0x0D
      else d)"

definition unescape_step :: "string \<Rightarrow> nat \<Rightarrow> nat \<Rightarrow> (string \<times> nat) res" where
  "unescape_step inp i fin =
     res_bind (char_at inp i) (\<lambda>c.
       if c \<noteq> CHR 0x5C then Inr ([c], i)
       else res_bind (char_at inp (i + 1)) (\<lambda>d.
         if d = CHR ''u'' then unescape_u inp (i + 1) fin
         else Inr ([simple_escape d], i + 1)))"

lemma unescape_codepoint_forward: "unescape_codepoint inp i fin = Inr (cp, j) \<Longrightarrow> i \<le> j"
  unfolding unescape_codepoint_def
  by (cases "unescape_unicode inp (i + 1) fin"; cases "unescape_unicode inp (i + 7) fin")
    (simp_all split: if_splits)

lemma unescape_u_forward: "unescape_u inp i fin = Inr (bs, j) \<Longrightarrow> i \<le> j"
  unfolding unescape_u_def
  by (cases "unescape_codepoint inp i fin") (auto simp: res_bind_Inr_iff dest: unescape_codepoint_forward)

lemma unescape_step_forward: "unescape_step inp i fin = Inr (bs, j) \<Longrightarrow> i \<le> j"
  unfolding unescape_step_def
  by (cases "char_at inp i"; cases "char_at inp (i + 1)")
    (auto split: if_splits dest: unescape_u_forward)

function unescape_from :: "string \<Rightarrow> nat \<Rightarrow> nat \<Rightarrow> string \<Rightarrow> string res" where
  "unescape_from inp fin i out =
     (if i < fin then (case unescape_step inp i fin of
          Inl e \<Rightarrow> Inl e
        | Inr (bytes, j) \<Rightarrow> unescape_from inp fin (j + 1) (out @ bytes))
      else Inr out)"
  by pat_completeness auto

termination
  by (relation "measure (\<lambda>(inp, fin, i, out). fin - i)") (auto dest!: unescape_step_forward)

declare unescape_from.simps [simp del]

definition unescape_string :: "string \<Rightarrow> string \<Rightarrow> nat \<Rightarrow> string res" where
  "unescape_string out inp sz = unescape_from inp sz 0 out"

section \<open>Tokens\<close>

datatype jtype = JSMN_PRIMITIVE | JSMN_OBJECT | JSMN_ARRAY | JSMN_STRING

record jtok =
  jtype :: jtype
  jstart :: nat
  jend :: nat
  jsize :: nat

definition get_string :: "string \<Rightarrow> jtok \<Rightarrow> string \<Rightarrow> string res" where
  "get_string input j out =
     (if jtype j \<noteq> JSMN_STRING then Inl (EV ERROR_GENERIC)
      else if jend j - jstart j = 0 then Inr out
      else unescape_string out (drop (jstart j) input) (jend j - jstart j))"

text \<open>\<open>strncpy\<close> stops at a NUL and pads with NULs.\<close>

definition get_string_copy :: "string \<Rightarrow> jtok \<Rightarrow> nat \<Rightarrow> string res" where
  "get_string_copy input j sz =
     (let insize = jend j - jstart j in
      if insize = 0 then Inr []
      else if insize \<ge> sz then Inl (EV ERROR_GENERIC)
      else Inr (cstr (take insize (drop (jstart j) input))))"

definition jsoneq :: "string \<Rightarrow> jtok \<Rightarrow> string \<Rightarrow> bool" where
  "jsoneq input tok wanted \<longleftrightarrow>
     (let sz = jend tok - jstart tok in
      jtype tok = JSMN_STRING \<and> length wanted = sz \<and> take sz (drop (jstart tok) input) = wanted)"

text \<open>\<open>jtok\<close> has 1024 entries; the loop runs over twice the number of keys of the object.\<close>

fun get_json_key_from :: "string \<Rightarrow> jtok list \<Rightarrow> string \<Rightarrow> nat \<Rightarrow> nat \<Rightarrow> nat \<Rightarrow> int res" where
  "get_json_key_from input toks wanted sidx i 0 = Inr (-1)"
| "get_json_key_from input toks wanted sidx i (Suc n) =
     (if \<not> sidx + i < length toks then Inl (UB Out_of_bounds)
      else if jsoneq input (toks ! (sidx + i)) wanted then Inr (int i)
      else get_json_key_from input toks wanted sidx (i + 1) n)"

definition get_json_key :: "string \<Rightarrow> jtok list \<Rightarrow> string \<Rightarrow> nat \<Rightarrow> int res" where
  "get_json_key input toks wanted sidx =
     (if \<not> sidx < length toks then Inl (UB Out_of_bounds)
      else get_json_key_from input toks wanted sidx 0 (jsize (toks ! sidx) * 2))"

section \<open>Reading undoes writing\<close>

lemma json_body_simps [simp]:
  "json_body [] = []" "json_body (c # s) = concat (conv_char c) @ json_body s"
  by (simp_all add: json_body_def)

lemma hexval_digit: "n < 16 \<Longrightarrow> hexval (hex_digit n) = Some n"
proof -
  have "\<forall>n < 16. hexval (hex_digit n) = Some n" by code_simp
  then show "n < 16 \<Longrightarrow> hexval (hex_digit n) = Some n" by blast
qed

lemma char_at_simps [simp]:
  "char_at (x # xs) 0 = Inr x" "char_at (x # xs) (Suc k) = char_at xs k"
  "char_at (us @ zs) (length us) = char_at zs 0"
  "char_at (us @ zs) (Suc (length us)) = char_at zs 1"
  "char_at (us @ zs) (Suc (Suc (length us))) = char_at zs 2"
  "char_at (us @ zs) (length us + k) = char_at zs k"
  by (simp_all add: char_at_def nth_append)

lemma char_at_numeral [simp]: "char_at (x # xs) (numeral n) = char_at xs (pred_numeral n)"
  by (simp add: numeral_eq_Suc)

abbreviation bslash :: char where "bslash \<equiv> CHR 0x5C"

lemma conv_char_cases:
  obtains (plain) "conv_char c = [[c]]" "c \<noteq> bslash"
    | (same) "conv_char c = [[bslash], [c]]" "c = bslash \<or> c = CHR 0x22 \<or> c = CHR ''/''"
    | (ctl) d where "conv_char c = [[bslash, d]]" "(d, c) \<in> {(CHR ''b'', CHR 0x08), (CHR ''t'', CHR 0x09),
        (CHR ''n'', CHR 0x0A), (CHR ''f'', CHR 0x0C), (CHR ''r'', CHR 0x0D)}"
    | (uni) "conv_char c = [[bslash, CHR ''u'', CHR ''0'', CHR ''0'', hex_digit (ccode c div 16), hex_digit (ccode c)]]"
        "ccode c < 32"
proof (cases "c = bslash \<or> c = CHR 0x22 \<or> c = CHR ''/''")
  case True
  then show thesis by (intro same) (simp_all only: conv_char_def if_True)
next
  case False
  note F = this
  show thesis
  proof (cases "c \<in> {CHR 0x08, CHR 0x09, CHR 0x0A, CHR 0x0C, CHR 0x0D}")
    case True
    then show thesis by (elim insertE emptyE) (rule ctl, (simp add: conv_char_def; fail), simp)+
  next
    case False
    with F have "conv_char c = (if 32 \<le> ccode c then [[c]]
        else [[bslash, CHR ''u'', CHR ''0'', CHR ''0'', hex_digit (ccode c div 16), hex_digit (ccode c)]])"
      by (simp add: conv_char_def)
    then show thesis using F plain uni by (cases "32 \<le> ccode c") simp_all
  qed
qed

text \<open>
  Every byte is written so that one round of the reader gives it back, whatever surrounds it.
\<close>

lemma unescape_step_conv:
  assumes "fin = length us + length (concat (conv_char c)) + n"
  shows "unescape_step (us @ concat (conv_char c) @ ws) (length us) fin =
    Inr ([c], length us + length (concat (conv_char c)) - 1)"
proof (cases c rule: conv_char_cases)
  case plain
  then show ?thesis by (simp add: unescape_step_def)
next
  case same
  then show ?thesis by (auto simp: unescape_step_def simple_escape_def)
next
  case (ctl d)
  then show ?thesis by (auto simp: unescape_step_def simple_escape_def)
next
  case uni
  have h: "hexval (hex_digit (ccode c div 16)) = Some (ccode c div 16)"
    "hexval (hex_digit (ccode c)) = Some (ccode c mod 16)" "hexval CHR ''0'' = Some 0"
    using hexval_digit [of "ccode c div 16"] hexval_digit [of "ccode c mod 16"] uni(2)
    by (simp_all add: hex_digit_def hexval_def ccode_def)
  have b: "byte (ccode c) = c" by (simp add: byte_def ccode_def)
  define S where "S = us @ concat (conv_char c) @ ws"
  have K: "char_at S (length us + k) = char_at (concat (conv_char c) @ ws) k" for k
    unfolding S_def by (rule char_at_simps(6))
  have S: "char_at S (length us + 2) = Inr CHR ''0''" "char_at S (length us + 3) = Inr CHR ''0''"
    "char_at S (length us + 4) = Inr (hex_digit (ccode c div 16))"
    "char_at S (length us + 5) = Inr (hex_digit (ccode c))"
    using K [of 2] K [of 3] K [of 4] K [of 5] by (simp_all add: uni(1))
  have "unescape_unicode S (length us + 2) fin = Inr (ccode c)"
  proof -
    have "length us + 2 + 1 = length us + 3" "length us + 2 + 2 = length us + 4"
      "length us + 2 + 3 = length us + 5" "\<not> length us + 2 + 4 > fin"
      using assms uni(1) by simp_all
    then show ?thesis
      unfolding unescape_unicode_def hexval_at_def by (simp only: S) (simp add: h)
  qed
  then have "unescape_u S (length us + 1) fin = Inr ([c], length us + 5)"
    using uni(2) b by (simp add: unescape_u_def unescape_codepoint_def unicode_to_utf8_def)
  moreover have "char_at S (length us) = Inr bslash" "char_at S (length us + 1) = Inr CHR ''u''"
    by (simp_all add: S_def uni(1))
  ultimately have "unescape_step S (length us) fin = Inr ([c], length us + 5)"
    by (simp add: unescape_step_def)
  then show ?thesis by (simp add: S_def uni(1))
qed

lemma unescape_from_body:
  "fin = length us + length (json_body s) \<Longrightarrow>
   unescape_from (us @ json_body s @ ws) fin (length us) out = Inr (out @ s)"
proof (induction s arbitrary: us out)
  case Nil
  then show ?case by (simp add: unescape_from.simps)
next
  case (Cons c s)
  let ?e = "concat (conv_char c)"
  have ne: "?e \<noteq> []" by (cases c rule: conv_char_cases) auto
  have st: "unescape_step (us @ ?e @ json_body s @ ws) (length us) fin = Inr ([c], length us + length ?e - 1)"
    by (rule unescape_step_conv) (use Cons.prems in simp)
  have "unescape_from (us @ json_body (c # s) @ ws) fin (length us) out =
      unescape_from ((us @ ?e) @ json_body s @ ws) fin (length (us @ ?e)) (out @ [c])"
    using st ne Cons.prems by (subst unescape_from.simps) (cases ?e; simp)
  also have "\<dots> = Inr ((out @ [c]) @ s)"
    using Cons.IH [of "us @ ?e" "out @ [c]"] Cons.prems by simp
  finally show ?case by simp
qed

text \<open>The strings of RFC 8259: what may stand between the quotes.\<close>

fun json_string_ok :: "string \<Rightarrow> bool" where
  "json_string_ok [] \<longleftrightarrow> True"
| "json_string_ok (c # cs) \<longleftrightarrow>
     (if c = bslash then (case cs of
          d # ds \<Rightarrow>
            if d = CHR ''u'' then (case ds of
                h1 # h2 # h3 # h4 # rest \<Rightarrow>
                  hexval h1 \<noteq> None \<and> hexval h2 \<noteq> None \<and> hexval h3 \<noteq> None \<and> hexval h4 \<noteq> None \<and>
                  json_string_ok rest
              | _ \<Rightarrow> False)
            else d \<in> set ''bfnrt/'' \<union> {bslash, CHR 0x22} \<and> json_string_ok ds
        | [] \<Rightarrow> False)
      else c \<noteq> CHR 0x22 \<and> 32 \<le> ccode c \<and> json_string_ok cs)"

lemma json_string_ok_conv: "json_string_ok (concat (conv_char c) @ s) = json_string_ok s"
proof (cases c rule: conv_char_cases)
  case plain
  then have "c \<noteq> CHR 0x22" "32 \<le> ccode c" by (auto simp: conv_char_def split: if_splits)
  then show ?thesis using plain by simp
next
  case uni
  then show ?thesis
    using hexval_digit [of "ccode c div 16"] hexval_digit [of "ccode c mod 16"]
    by (simp add: hex_digit_def hexval_def ccode_def)
qed auto

text \<open>
  C12. What \<open>conv_string\<close> writes between the quotes is a legal JSON string for every sequence of
  bytes, NUL and control characters included, and \<open>unescape_string\<close> run on it (with any text
  after it in the buffer) appends exactly the original bytes.
\<close>

theorem json_string_roundtrip:
  "concat (conv_string_writes s) = CHR 0x22 # json_body s @ [CHR 0x22] \<and>
   json_string_ok (json_body s) \<and>
   unescape_string out (json_body s @ rest) (length (json_body s)) = Inr (out @ s)"
proof -
  have "json_string_ok (json_body s)" by (induction s) (simp_all add: json_string_ok_conv)
  moreover have "concat (conv_string_writes s) = CHR 0x22 # json_body s @ [CHR 0x22]"
    by (simp add: conv_string_writes_def json_body_def)
  moreover have "unescape_string out (json_body s @ rest) (length (json_body s)) = Inr (out @ s)"
    using unescape_from_body [of _ "[]" s rest out] by (simp add: unescape_string_def)
  ultimately show ?thesis by simp
qed

section \<open>UTF-8\<close>

text \<open>A reference decoder for one character.\<close>

fun utf8_decode :: "string \<Rightarrow> nat option" where
  "utf8_decode [a] = (if ccode a < 128 then Some (ccode a) else None)"
| "utf8_decode [a, b] =
     (if 192 \<le> ccode a \<and> ccode a < 224 \<and> ccode b div 64 = 2
      then Some ((ccode a - 192) * 64 + (ccode b - 128)) else None)"
| "utf8_decode [a, b, c] =
     (if 224 \<le> ccode a \<and> ccode a < 240 \<and> ccode b div 64 = 2 \<and> ccode c div 64 = 2
      then Some ((ccode a - 224) * 4096 + (ccode b - 128) * 64 + (ccode c - 128)) else None)"
| "utf8_decode [a, b, c, d] =
     (if 240 \<le> ccode a \<and> ccode a < 248 \<and> ccode b div 64 = 2 \<and> ccode c div 64 = 2 \<and> ccode d div 64 = 2
      then Some ((ccode a - 240) * 262144 + (ccode b - 128) * 4096 + (ccode c - 128) * 64 + (ccode d - 128))
      else None)"
| "utf8_decode _ = None"

lemma ccode_byte: "n < 256 \<Longrightarrow> ccode (byte n) = n"
  by (simp add: byte_def ccode_def)

text \<open>
  C13. \<open>unicode_to_utf8\<close> succeeds exactly on code points below 0x110000; it writes nothing for the
  surrogates, and for every other code point one to four bytes that decode back to it.
\<close>

theorem utf8_encode_decode:
  "if 0x110000 \<le> cp then unicode_to_utf8 cp = Inl E_minus1
   else if 0xd800 \<le> cp \<and> cp < 0xe000 then unicode_to_utf8 cp = Inr (0, [])
   else \<exists>bytes. unicode_to_utf8 cp = Inr (1, bytes) \<and> utf8_decode bytes = Some cp \<and>
     length bytes = (if cp < 0x80 then 1 else if cp < 0x800 then 2 else if cp < 0x10000 then 3 else 4)"
proof -
  have d1: "cp div 64 * 64 + cp mod 64 = cp" by simp
  have d2: "cp div 4096 * 64 + cp div 64 mod 64 = cp div 64"
    using div_mult_mod_eq [of "cp div 64" 64] by (simp add: div_mult2_eq flip: div_mult2_eq)
  have d3: "cp div 262144 * 64 + cp div 4096 mod 64 = cp div 4096"
    using div_mult_mod_eq [of "cp div 4096" 64] by (simp flip: div_mult2_eq)
  have s3: "cp div 4096 * 4096 + cp div 64 mod 64 * 64 + cp mod 64 = cp"
    using d1 d2 by linarith
  have s4: "cp div 262144 * 262144 + cp div 4096 mod 64 * 4096 + cp div 64 mod 64 * 64 + cp mod 64 = cp"
    using s3 d3 by linarith
  have cont: "ccode (byte (128 + n mod 64)) = 128 + n mod 64" "(128 + n mod 64) div 64 = 2" for n
    by (simp_all add: ccode_byte)
  consider "0x110000 \<le> cp" | "0xd800 \<le> cp" "cp < 0xe000" | "cp < 0x80" | "0x80 \<le> cp" "cp < 0x800"
    | "0x800 \<le> cp" "cp < 0x10000" "\<not> (0xd800 \<le> cp \<and> cp < 0xe000)" | "0x10000 \<le> cp" "cp < 0x110000"
    by linarith
  then show ?thesis
  proof cases
    case 4
    then have "cp div 64 < 32" by linarith
    then show ?thesis using 4 d1 cont by (simp add: unicode_to_utf8_def ccode_byte)
  next
    case 5
    then have "cp div 4096 < 16" by linarith
    then show ?thesis using 5 s3 cont by (auto simp: unicode_to_utf8_def ccode_byte)
  next
    case 6
    then have "cp div 262144 < 8" by linarith
    then show ?thesis using 6 s4 cont by (auto simp: unicode_to_utf8_def ccode_byte)
  qed (auto simp: unicode_to_utf8_def ccode_byte)
qed

text \<open>
  A surrogate pair is decoded to the right code point, but the reader then leaves the position one
  character too far: the character after the pair is lost.
\<close>

lemma surrogate_pair_skips:
  "unescape_step (bslash # ''uD83D'' @ bslash # ''uDE00xy'') 0 14 =
     Inr (List.map byte [0xF0, 0x9F, 0x98, 0x80], 12)"
  "(bslash # ''uD83D'' @ bslash # ''uDE00xy'') ! 12 = CHR ''x''"
  by (simp_all add: unescape_step_def unescape_u_def unescape_codepoint_def unescape_unicode_def
      hexval_at_def char_at_def hexval_def ccode_def unicode_to_utf8_def)

end
