(* ===== verification/Enums.thy ===== *)
theory Enums
  imports Prelude
begin

text \<open>
  The enumerations of the IODEF schema: the conversions between the strings of the schema and the
  numbers of the C enumerations in src/src/iodefv2-tree-wrap.c (two functions per enumeration,
  each with its own table; the numbers are those of src/src/include/iodefv2-tree-wrap.h). The
  search and the indexing are the same in all of them and are written once, with the table as an
  argument.
\<close>

section \<open>The two lookups\<close>

definition enum_to_numeric :: "(int \<times> string) list \<Rightarrow> string option \<Rightarrow> int res" where
  "enum_to_numeric tbl name = (case name of
     None \<Rightarrow> Inl (E ERROR_ASSERTION)
   | Some n \<Rightarrow> (case find (\<lambda>(_, s). strcaseeq n s) tbl of
       Some (v, _) \<Rightarrow> Inr v
     | None \<Rightarrow> Inl (EV ERROR_UNKNOWN_ENUM_STRING)))"

definition enum_to_string :: "(int \<times> string option) list \<Rightarrow> int \<Rightarrow> string option" where
  "enum_to_string tbl val =
     (if val < 0 \<or> nat val \<ge> length tbl then None else snd (tbl ! nat val))"

section \<open>Agreement of two tables\<close>

text \<open>
  The tables of one enumeration agree: the second one is the first one with an unused entry 0 in
  front (or both are empty), the values are 1, 2, ... and no two names are equal without case.
\<close>

definition enum_tables_ok :: "(int \<times> string) list \<Rightarrow> (int \<times> string option) list \<Rightarrow> bool" where
  "enum_tables_ok ntbl stbl \<longleftrightarrow>
     (ntbl = [] \<and> stbl = [] \<or> stbl = (0, None) # List.map (\<lambda>(v, n). (v, Some n)) ntbl) \<and>
     List.map fst ntbl = List.map int [1..<Suc (length ntbl)] \<and>
     distinct (List.map (\<lambda>(_, n). List.map c_tolower n) ntbl)"

definition enum_pair_ok :: "(string option \<Rightarrow> int res) \<Rightarrow> (int \<Rightarrow> string option) \<Rightarrow> bool" where
  "enum_pair_ok num str \<longleftrightarrow>
     (\<forall>v n. str v = Some n \<longrightarrow> (\<forall>m. strcaseeq m n \<longrightarrow> num (Some m) = Inr v)) \<and>
     (\<forall>m v. num (Some m) = Inr v \<longrightarrow> (\<exists>n. str v = Some n \<and> strcaseeq m n))"

lemma find_distinct_map:
  "distinct (List.map f xs) \<Longrightarrow> i < length xs \<Longrightarrow> find (\<lambda>x. f (xs ! i) = f x) xs = Some (xs ! i)"
proof (induction xs arbitrary: i)
  case (Cons x xs)
  then show ?case
    by (cases i) (auto, metis imageI nth_mem)
qed simp

lemma find_Some_nth: "find p xs = Some x \<Longrightarrow> \<exists>i < length xs. xs ! i = x \<and> p x"
  by (auto simp: find_Some_iff)

lemma enum_tables_pair_ok:
  assumes "enum_tables_ok ntbl stbl"
  shows "enum_pair_ok (enum_to_numeric ntbl) (enum_to_string stbl)"
proof (cases "ntbl = []")
  case True
  then show ?thesis
    using assms by (auto simp: enum_tables_ok_def enum_pair_ok_def enum_to_numeric_def enum_to_string_def nth_Cons')
next
  case False
  have st: "stbl = (0, None) # List.map (\<lambda>(v, n). (v, Some n)) ntbl"
    and vals: "List.map fst ntbl = List.map int [1..<Suc (length ntbl)]"
    and dis: "distinct (List.map (\<lambda>(_, n). List.map c_tolower n) ntbl)"
    using assms False by (auto simp: enum_tables_ok_def)
  have v: "fst (ntbl ! i) = int i + 1" if "i < length ntbl" for i
    using arg_cong [OF vals, of "\<lambda>l. l ! i"] that by (simp del: upt_Suc)
  have f: "find (\<lambda>(_, s). strcaseeq m s) ntbl = Some (ntbl ! i)"
    if "i < length ntbl" "strcaseeq m (snd (ntbl ! i))" for i m
    using find_distinct_map [OF dis that(1)] that(2) by (simp add: strcaseeq_def case_prod_unfold)
  have s: "enum_to_string stbl x = Some n \<longleftrightarrow> (\<exists>i < length ntbl. x = int i + 1 \<and> n = snd (ntbl ! i))" for x n
  proof (cases "0 < x")
    case True
    then obtain i where i: "x = int (Suc i)"
      using zero_less_imp_eq_int [OF True] by (metis gr0_implies_Suc)
    then have "nat x = Suc i" by simp
    then show ?thesis using i by (auto simp: enum_to_string_def st case_prod_unfold)
  next
    case False
    then show ?thesis by (auto simp: enum_to_string_def st)
  qed
  show ?thesis
    unfolding enum_pair_ok_def
  proof (intro conjI allI impI)
    show "enum_to_numeric ntbl (Some m) = Inr x"
      if a: "enum_to_string stbl x = Some n" and b: "strcaseeq m n" for x n m
    proof -
      obtain i where i: "i < length ntbl" "x = int i + 1" "n = snd (ntbl ! i)"
        using a unfolding s by blast
      then show ?thesis
        using f [of i m] b v [of i] by (auto simp: enum_to_numeric_def case_prod_unfold)
    qed
    show "\<exists>n. enum_to_string stbl x = Some n \<and> strcaseeq m n" if a: "enum_to_numeric ntbl (Some m) = Inr x" for m x
    proof -
      obtain e where e: "find (\<lambda>(_, s). strcaseeq m s) ntbl = Some e" "fst e = x"
        using a by (auto simp: enum_to_numeric_def split: option.splits)
      then obtain i where "i < length ntbl" "ntbl ! i = e" "strcaseeq m (snd e)"
        using find_Some_nth [OF e(1)] by auto
      then show ?thesis using s [of x "snd e"] v [of i] e(2) by auto
    qed
  qed
qed

lemma c_tolower_letters:
  "c_tolower CHR ''-'' = CHR ''-''"
  "c_tolower CHR ''2'' = CHR ''2''"
  "c_tolower CHR ''4'' = CHR ''4''"
  "c_tolower CHR ''6'' = CHR ''6''"
  "c_tolower CHR ''a'' = CHR ''a''"
  "c_tolower CHR ''b'' = CHR ''b''"
  "c_tolower CHR ''c'' = CHR ''c''"
  "c_tolower CHR ''d'' = CHR ''d''"
  "c_tolower CHR ''e'' = CHR ''e''"
  "c_tolower CHR ''f'' = CHR ''f''"
  "c_tolower CHR ''g'' = CHR ''g''"
  "c_tolower CHR ''h'' = CHR ''h''"
  "c_tolower CHR ''i'' = CHR ''i''"
  "c_tolower CHR ''j'' = CHR ''j''"
  "c_tolower CHR ''k'' = CHR ''k''"
  "c_tolower CHR ''l'' = CHR ''l''"
  "c_tolower CHR ''m'' = CHR ''m''"
  "c_tolower CHR ''n'' = CHR ''n''"
  "c_tolower CHR ''o'' = CHR ''o''"
  "c_tolower CHR ''p'' = CHR ''p''"
  "c_tolower CHR ''q'' = CHR ''q''"
  "c_tolower CHR ''r'' = CHR ''r''"
  "c_tolower CHR ''s'' = CHR ''s''"
  "c_tolower CHR ''t'' = CHR ''t''"
  "c_tolower CHR ''u'' = CHR ''u''"
  "c_tolower CHR ''v'' = CHR ''v''"
  "c_tolower CHR ''w'' = CHR ''w''"
  "c_tolower CHR ''x'' = CHR ''x''"
  "c_tolower CHR ''y'' = CHR ''y''"
  "c_tolower CHR ''z'' = CHR ''z''"
  by (simp_all add: c_tolower_def ccode_def)

lemma upt_values: "List.map int [1..<Suc 0] = []" "List.map int [1..<Suc (Suc n)] = List.map int [1..<Suc n] @ [int (Suc n)]"
  by simp_all

section \<open>The enumerations\<close>

definition telephone_type_to_numeric :: "string option \<Rightarrow> int res" where
  "telephone_type_to_numeric = enum_to_numeric
    [(1, ''wired''), (2, ''mobile''), (3, ''fax''), (4, ''hotline''), (5, ''ext-value'')]"

definition telephone_type_to_string :: "int \<Rightarrow> string option" where
  "telephone_type_to_string = enum_to_string
    [(0, None), (1, Some ''wired''), (2, Some ''mobile''), (3, Some ''fax''), (4, Some ''hotline''),
     (5, Some ''ext-value'')]"

definition key_registryaction_to_numeric :: "string option \<Rightarrow> int res" where
  "key_registryaction_to_numeric = enum_to_numeric
    [(1, ''add-key''), (2, ''add-value''), (3, ''delete-value''), (4, ''delete-key''), (5,
     ''modify-key''), (6, ''modify-value''), (7, ''ext-value'')]"

definition key_registryaction_to_string :: "int \<Rightarrow> string option" where
  "key_registryaction_to_string = enum_to_string
    [(0, None), (1, Some ''add-key''), (2, Some ''add-value''), (3, Some ''delete-value''), (4, Some
     ''delete-key''), (5, Some ''modify-key''), (6, Some ''modify-value''), (7, Some ''ext-value'')]"

definition registry_handle_registry_to_numeric :: "string option \<Rightarrow> int res" where
  "registry_handle_registry_to_numeric = enum_to_numeric
    [(1, ''internic''), (2, ''apnic''), (3, ''arin''), (4, ''lacnic''), (5, ''ripe''), (6,
     ''afrinic''), (7, ''local''), (8, ''ext-value'')]"

definition registry_handle_registry_to_string :: "int \<Rightarrow> string option" where
  "registry_handle_registry_to_string = enum_to_string
    [(0, None), (1, Some ''internic''), (2, Some ''apnic''), (3, Some ''arin''), (4, Some
     ''lacnic''), (5, Some ''ripe''), (6, Some ''afrinic''), (7, Some ''local''), (8, Some
     ''ext-value'')]"

definition time_impact_duration_to_numeric :: "string option \<Rightarrow> int res" where
  "time_impact_duration_to_numeric = enum_to_numeric
    [(1, ''second''), (2, ''minute''), (3, ''hour''), (4, ''day''), (5, ''month''), (6,
     ''quarter''), (7, ''year''), (8, ''ext-value'')]"

definition time_impact_duration_to_string :: "int \<Rightarrow> string option" where
  "time_impact_duration_to_string = enum_to_string
    [(0, None), (1, Some ''second''), (2, Some ''minute''), (3, Some ''hour''), (4, Some ''day''),
     (5, Some ''month''), (6, Some ''quarter''), (7, Some ''year''), (8, Some ''ext-value'')]"

definition time_impact_metric_to_numeric :: "string option \<Rightarrow> int res" where
  "time_impact_metric_to_numeric = enum_to_numeric
    [(1, ''labor''), (2, ''elapsed''), (3, ''downtime''), (4, ''ext-value'')]"

definition time_impact_metric_to_string :: "int \<Rightarrow> string option" where
  "time_impact_metric_to_string = enum_to_string
    [(0, None), (1, Some ''labor''), (2, Some ''elapsed''), (3, Some ''downtime''), (4, Some
     ''ext-value'')]"

definition time_impact_severity_to_numeric :: "string option \<Rightarrow> int res" where
  "time_impact_severity_to_numeric = enum_to_numeric
    [(1, ''low''), (2, ''medium''), (3, ''high'')]"

definition time_impact_severity_to_string :: "int \<Rightarrow> string option" where
  "time_impact_severity_to_string = enum_to_string
    [(0, None), (1, Some ''low''), (2, Some ''medium''), (3, Some ''high'')]"

definition record_pattern_offsetunit_to_numeric :: "string option \<Rightarrow> int res" where
  "record_pattern_offsetunit_to_numeric = enum_to_numeric
    [(1, ''line''), (2, ''binary''), (3, ''ext-value'')]"

definition record_pattern_offsetunit_to_string :: "int \<Rightarrow> string option" where
  "record_pattern_offsetunit_to_string = enum_to_string
    [(0, None), (1, Some ''line''), (2, Some ''binary''), (3, Some ''ext-value'')]"

definition record_pattern_type_to_numeric :: "string option \<Rightarrow> int res" where
  "record_pattern_type_to_numeric = enum_to_numeric
    [(1, ''regex''), (2, ''binary''), (3, ''xpath''), (4, ''ext-value'')]"

definition record_pattern_type_to_string :: "int \<Rightarrow> string option" where
  "record_pattern_type_to_string = enum_to_string
    [(0, None), (1, Some ''regex''), (2, Some ''binary''), (3, Some ''xpath''), (4, Some
     ''ext-value'')]"

definition postal_address_type_to_numeric :: "string option \<Rightarrow> int res" where
  "postal_address_type_to_numeric = enum_to_numeric
    [(1, ''street''), (2, ''mailing''), (3, ''ext-value'')]"

definition postal_address_type_to_string :: "int \<Rightarrow> string option" where
  "postal_address_type_to_string = enum_to_string
    [(0, None), (1, Some ''street''), (2, Some ''mailing''), (3, Some ''ext-value'')]"

definition node_role_category_to_numeric :: "string option \<Rightarrow> int res" where
  "node_role_category_to_numeric = enum_to_numeric
    [(1, ''client''), (2, ''server-internal''), (3, ''server-public''), (4, ''www''), (5, ''mail''),
     (6, ''messaging''), (7, ''streaming''), (8, ''voice''), (9, ''file''), (10, ''ftp''), (11,
     ''p2p''), (12, ''name''), (13, ''directory''), (14, ''credential''), (15, ''print''), (16,
     ''application''), (17, ''database''), (18, ''infra''), (19, ''log''), (20, ''ext-value'')]"

definition node_role_category_to_string :: "int \<Rightarrow> string option" where
  "node_role_category_to_string = enum_to_string
    [(0, None), (1, Some ''client''), (2, Some ''server-internal''), (3, Some ''server-public''),
     (4, Some ''www''), (5, Some ''mail''), (6, Some ''messaging''), (7, Some ''streaming''), (8,
     Some ''voice''), (9, Some ''file''), (10, Some ''ftp''), (11, Some ''p2p''), (12, Some
     ''name''), (13, Some ''directory''), (14, Some ''credential''), (15, Some ''print''), (16, Some
     ''application''), (17, Some ''database''), (18, Some ''infra''), (19, Some ''log''), (20, Some
     ''ext-value'')]"

definition incident_id_restriction_to_numeric :: "string option \<Rightarrow> int res" where
  "incident_id_restriction_to_numeric = enum_to_numeric
    [(1, ''public''), (2, ''partner''), (3, ''need-to-know''), (4, ''private''), (5, ''default''),
     (6, ''white''), (7, ''green''), (8, ''amber''), (9, ''red'')]"

definition incident_id_restriction_to_string :: "int \<Rightarrow> string option" where
  "incident_id_restriction_to_string = enum_to_string
    [(0, None), (1, Some ''public''), (2, Some ''partner''), (3, Some ''need-to-know''), (4, Some
     ''private''), (5, Some ''default''), (6, Some ''white''), (7, Some ''green''), (8, Some
     ''amber''), (9, Some ''red'')]"

definition alternative_indicator_id_restriction_to_numeric :: "string option \<Rightarrow> int res" where
  "alternative_indicator_id_restriction_to_numeric = enum_to_numeric
    [(1, ''public''), (2, ''partner''), (3, ''need-to-know''), (4, ''private''), (5, ''default''),
     (6, ''white''), (7, ''green''), (8, ''amber''), (9, ''red'')]"

definition alternative_indicator_id_restriction_to_string :: "int \<Rightarrow> string option" where
  "alternative_indicator_id_restriction_to_string = enum_to_string
    [(0, None), (1, Some ''public''), (2, Some ''partner''), (3, Some ''need-to-know''), (4, Some
     ''private''), (5, Some ''default''), (6, Some ''white''), (7, Some ''green''), (8, Some
     ''amber''), (9, Some ''red'')]"

definition confidence_rating_to_numeric :: "string option \<Rightarrow> int res" where
  "confidence_rating_to_numeric = enum_to_numeric
    [(1, ''low''), (2, ''medium''), (3, ''high''), (4, ''numeric'')]"

definition confidence_rating_to_string :: "int \<Rightarrow> string option" where
  "confidence_rating_to_string = enum_to_string
    [(0, None), (1, Some ''low''), (2, Some ''medium''), (3, Some ''high''), (4, Some ''numeric'')]"

definition system_impact_completion_to_numeric :: "string option \<Rightarrow> int res" where
  "system_impact_completion_to_numeric = enum_to_numeric
    [(1, ''failed''), (2, ''succeeded'')]"

definition system_impact_completion_to_string :: "int \<Rightarrow> string option" where
  "system_impact_completion_to_string = enum_to_string
    [(0, None), (1, Some ''failed''), (2, Some ''succeeded'')]"

definition system_impact_type_to_numeric :: "string option \<Rightarrow> int res" where
  "system_impact_type_to_numeric = enum_to_numeric
    [(1, ''takeover-account''), (2, ''takeover-service''), (3, ''takeover-system''), (4,
     ''cps-manipulation''), (5, ''cps-damage''), (6, ''availability-data''), (7,
     ''availability-account''), (8, ''availability-service''), (9, ''availability-system''), (10,
     ''damaged-system''), (11, ''damaged-data''), (12, ''breach-proprietary''), (13,
     ''breach-privacy''), (14, ''breach-credential''), (15, ''breach-configuration''), (16,
     ''integrity-data''), (17, ''integrity-configuration''), (18, ''integrity-hardware''), (19,
     ''traffic-redirection''), (20, ''monitoring-traffic''), (21, ''monitoring-host''), (22,
     ''policy''), (23, ''unknown''), (24, ''ext-value'')]"

definition system_impact_type_to_string :: "int \<Rightarrow> string option" where
  "system_impact_type_to_string = enum_to_string
    [(0, None), (1, Some ''takeover-account''), (2, Some ''takeover-service''), (3, Some
     ''takeover-system''), (4, Some ''cps-manipulation''), (5, Some ''cps-damage''), (6, Some
     ''availability-data''), (7, Some ''availability-account''), (8, Some ''availability-service''),
     (9, Some ''availability-system''), (10, Some ''damaged-system''), (11, Some ''damaged-data''),
     (12, Some ''breach-proprietary''), (13, Some ''breach-privacy''), (14, Some
     ''breach-credential''), (15, Some ''breach-configuration''), (16, Some ''integrity-data''),
     (17, Some ''integrity-configuration''), (18, Some ''integrity-hardware''), (19, Some
     ''traffic-redirection''), (20, Some ''monitoring-traffic''), (21, Some ''monitoring-host''),
     (22, Some ''policy''), (23, Some ''unknown''), (24, Some ''ext-value'')]"

definition system_impact_severity_to_numeric :: "string option \<Rightarrow> int res" where
  "system_impact_severity_to_numeric = enum_to_numeric
    [(1, ''low''), (2, ''medium''), (3, ''high'')]"

definition system_impact_severity_to_string :: "int \<Rightarrow> string option" where
  "system_impact_severity_to_string = enum_to_string
    [(0, None), (1, Some ''low''), (2, Some ''medium''), (3, Some ''high'')]"

definition software_reference_dtype_to_numeric :: "string option \<Rightarrow> int res" where
  "software_reference_dtype_to_numeric = enum_to_numeric
    [(1, ''bytes''), (2, ''integer''), (3, ''real''), (4, ''string''), (5, ''xml''), (6,
     ''ext-value'')]"

definition software_reference_dtype_to_string :: "int \<Rightarrow> string option" where
  "software_reference_dtype_to_string = enum_to_string
    [(0, None), (1, Some ''bytes''), (2, Some ''integer''), (3, Some ''real''), (4, Some
     ''string''), (5, Some ''xml''), (6, Some ''ext-value'')]"

definition business_impact_type_to_numeric :: "string option \<Rightarrow> int res" where
  "business_impact_type_to_numeric = enum_to_numeric
    [(1, ''breach-proprietary''), (2, ''breach-privacy''), (3, ''breach-credential''), (4,
     ''loss-of-integrity''), (5, ''loss-of-service''), (6, ''theft-financial''), (7,
     ''theft-service''), (8, ''degraded-reputation''), (9, ''asset-damage''), (10,
     ''damaged-system''), (11, ''legal''), (12, ''extortion''), (13, ''unknown''), (14,
     ''ext-value'')]"

definition business_impact_type_to_string :: "int \<Rightarrow> string option" where
  "business_impact_type_to_string = enum_to_string
    [(0, None), (1, Some ''breach-proprietary''), (2, Some ''breach-privacy''), (3, Some
     ''breach-credential''), (4, Some ''loss-of-integrity''), (5, Some ''loss-of-service''), (6,
     Some ''theft-financial''), (7, Some ''theft-service''), (8, Some ''degraded-reputation''), (9,
     Some ''asset-damage''), (10, Some ''damaged-system''), (11, Some ''legal''), (12, Some
     ''extortion''), (13, Some ''unknown''), (14, Some ''ext-value'')]"

definition business_impact_severity_to_numeric :: "string option \<Rightarrow> int res" where
  "business_impact_severity_to_numeric = enum_to_numeric
    [(1, ''low''), (2, ''medium''), (3, ''high''), (4, ''none''), (5, ''unknown''), (6,
     ''ext-value'')]"

definition business_impact_severity_to_string :: "int \<Rightarrow> string option" where
  "business_impact_severity_to_string = enum_to_string
    [(0, None), (1, Some ''low''), (2, Some ''medium''), (3, Some ''high''), (4, Some ''none''), (5,
     Some ''unknown''), (6, Some ''ext-value'')]"

definition email_type_to_numeric :: "string option \<Rightarrow> int res" where
  "email_type_to_numeric = enum_to_numeric
    [(1, ''direct''), (2, ''hotline''), (3, ''ext-value'')]"

definition email_type_to_string :: "int \<Rightarrow> string option" where
  "email_type_to_string = enum_to_string
    [(0, None), (1, Some ''direct''), (2, Some ''hotline''), (3, Some ''ext-value'')]"

definition intended_impact_type_to_numeric :: "string option \<Rightarrow> int res" where
  "intended_impact_type_to_numeric = enum_to_numeric
    [(1, ''breach-proprietary''), (2, ''breach-privacy''), (3, ''breach-credential''), (4,
     ''loss-of-integrity''), (5, ''loss-of-service''), (6, ''theft-financial''), (7,
     ''theft-service''), (8, ''degraded-reputation''), (9, ''asset-damage''), (10,
     ''damaged-system''), (11, ''legal''), (12, ''extortion''), (13, ''unknown''), (14,
     ''ext-value'')]"

definition intended_impact_type_to_string :: "int \<Rightarrow> string option" where
  "intended_impact_type_to_string = enum_to_string
    [(0, None), (1, Some ''breach-proprietary''), (2, Some ''breach-privacy''), (3, Some
     ''breach-credential''), (4, Some ''loss-of-integrity''), (5, Some ''loss-of-service''), (6,
     Some ''theft-financial''), (7, Some ''theft-service''), (8, Some ''degraded-reputation''), (9,
     Some ''asset-damage''), (10, Some ''damaged-system''), (11, Some ''legal''), (12, Some
     ''extortion''), (13, Some ''unknown''), (14, Some ''ext-value'')]"

definition intended_impact_severity_to_numeric :: "string option \<Rightarrow> int res" where
  "intended_impact_severity_to_numeric = enum_to_numeric
    [(1, ''low''), (2, ''medium''), (3, ''high''), (4, ''none''), (5, ''unknown''), (6,
     ''ext-value'')]"

definition intended_impact_severity_to_string :: "int \<Rightarrow> string option" where
  "intended_impact_severity_to_string = enum_to_string
    [(0, None), (1, Some ''low''), (2, Some ''medium''), (3, Some ''high''), (4, Some ''none''), (5,
     Some ''unknown''), (6, Some ''ext-value'')]"

definition additional_data_restriction_to_numeric :: "string option \<Rightarrow> int res" where
  "additional_data_restriction_to_numeric = enum_to_numeric
    [(1, ''public''), (2, ''partner''), (3, ''need-to-know''), (4, ''private''), (5, ''default''),
     (6, ''white''), (7, ''green''), (8, ''amber''), (9, ''red'')]"

definition additional_data_restriction_to_string :: "int \<Rightarrow> string option" where
  "additional_data_restriction_to_string = enum_to_string
    [(0, None), (1, Some ''public''), (2, Some ''partner''), (3, Some ''need-to-know''), (4, Some
     ''private''), (5, Some ''default''), (6, Some ''white''), (7, Some ''green''), (8, Some
     ''amber''), (9, Some ''red'')]"

definition additional_data_type_to_numeric :: "string option \<Rightarrow> int res" where
  "additional_data_type_to_numeric = enum_to_numeric
    [(1, ''boolean''), (2, ''byte''), (3, ''character''), (4, ''date-time''), (5, ''integer''), (6,
     ''portlist''), (7, ''real''), (8, ''string''), (9, ''file''), (10, ''frame''), (11,
     ''packet''), (12, ''ipv4-packet''), (13, ''ipv6-packet''), (14, ''path''), (15, ''url''), (16,
     ''csv''), (17, ''winreg''), (18, ''xml''), (19, ''bytes''), (20, ''ntpstamp''), (21,
     ''ext-value'')]"

definition additional_data_type_to_string :: "int \<Rightarrow> string option" where
  "additional_data_type_to_string = enum_to_string
    [(0, None), (1, Some ''boolean''), (2, Some ''byte''), (3, Some ''character''), (4, Some
     ''date-time''), (5, Some ''integer''), (6, Some ''portlist''), (7, Some ''real''), (8, Some
     ''string''), (9, Some ''file''), (10, Some ''frame''), (11, Some ''packet''), (12, Some
     ''ipv4-packet''), (13, Some ''ipv6-packet''), (14, Some ''path''), (15, Some ''url''), (16,
     Some ''csv''), (17, Some ''winreg''), (18, Some ''xml''), (19, Some ''bytes''), (20, Some
     ''ntpstamp''), (21, Some ''ext-value'')]"

definition counter_unit_to_numeric :: "string option \<Rightarrow> int res" where
  "counter_unit_to_numeric = enum_to_numeric
    [(1, ''byte''), (2, ''mbit''), (3, ''packet''), (4, ''flow''), (5, ''session''), (6, ''alert''),
     (7, ''message''), (8, ''event''), (9, ''host''), (10, ''site''), (11, ''organization''), (12,
     ''ext-value'')]"

definition counter_unit_to_string :: "int \<Rightarrow> string option" where
  "counter_unit_to_string = enum_to_string
    [(0, None), (1, Some ''byte''), (2, Some ''mbit''), (3, Some ''packet''), (4, Some ''flow''),
     (5, Some ''session''), (6, Some ''alert''), (7, Some ''message''), (8, Some ''event''), (9,
     Some ''host''), (10, Some ''site''), (11, Some ''organization''), (12, Some ''ext-value'')]"

definition counter_duration_to_numeric :: "string option \<Rightarrow> int res" where
  "counter_duration_to_numeric = enum_to_numeric
    []"

definition counter_duration_to_string :: "int \<Rightarrow> string option" where
  "counter_duration_to_string = enum_to_string
    []"

definition counter_type_to_numeric :: "string option \<Rightarrow> int res" where
  "counter_type_to_numeric = enum_to_numeric
    [(1, ''count''), (2, ''peak''), (3, ''average''), (4, ''ext-value'')]"

definition counter_type_to_string :: "int \<Rightarrow> string option" where
  "counter_type_to_string = enum_to_string
    [(0, None), (1, Some ''count''), (2, Some ''peak''), (3, Some ''average''), (4, Some
     ''ext-value'')]"

definition monetary_impact_severity_to_numeric :: "string option \<Rightarrow> int res" where
  "monetary_impact_severity_to_numeric = enum_to_numeric
    [(1, ''low''), (2, ''medium''), (3, ''high'')]"

definition monetary_impact_severity_to_string :: "int \<Rightarrow> string option" where
  "monetary_impact_severity_to_string = enum_to_string
    [(0, None), (1, Some ''low''), (2, Some ''medium''), (3, Some ''high'')]"

definition address_category_to_numeric :: "string option \<Rightarrow> int res" where
  "address_category_to_numeric = enum_to_numeric
    [(1, ''asn''), (2, ''atm''), (3, ''e-mail''), (4, ''ipv4-addr''), (5, ''ipv4-net''), (6,
     ''ipv4-net-mask''), (7, ''ipv6-addr''), (8, ''ipv6-net''), (9, ''ipv6-net-mask''), (10,
     ''mac''), (11, ''ext-value'')]"

definition address_category_to_string :: "int \<Rightarrow> string option" where
  "address_category_to_string = enum_to_string
    [(0, None), (1, Some ''asn''), (2, Some ''atm''), (3, Some ''e-mail''), (4, Some ''ipv4-addr''),
     (5, Some ''ipv4-net''), (6, Some ''ipv4-net-mask''), (7, Some ''ipv6-addr''), (8, Some
     ''ipv6-net''), (9, Some ''ipv6-net-mask''), (10, Some ''mac''), (11, Some ''ext-value'')]"

definition certificate_data_restriction_to_numeric :: "string option \<Rightarrow> int res" where
  "certificate_data_restriction_to_numeric = enum_to_numeric
    [(1, ''public''), (2, ''partner''), (3, ''need-to-know''), (4, ''private''), (5, ''default''),
     (6, ''white''), (7, ''green''), (8, ''amber''), (9, ''red'')]"

definition certificate_data_restriction_to_string :: "int \<Rightarrow> string option" where
  "certificate_data_restriction_to_string = enum_to_string
    [(0, None), (1, Some ''public''), (2, Some ''partner''), (3, Some ''need-to-know''), (4, Some
     ''private''), (5, Some ''default''), (6, Some ''white''), (7, Some ''green''), (8, Some
     ''amber''), (9, Some ''red'')]"

definition threat_actor_restriction_to_numeric :: "string option \<Rightarrow> int res" where
  "threat_actor_restriction_to_numeric = enum_to_numeric
    [(1, ''public''), (2, ''partner''), (3, ''need-to-know''), (4, ''private''), (5, ''default''),
     (6, ''white''), (7, ''green''), (8, ''amber''), (9, ''red'')]"

definition threat_actor_restriction_to_string :: "int \<Rightarrow> string option" where
  "threat_actor_restriction_to_string = enum_to_string
    [(0, None), (1, Some ''public''), (2, Some ''partner''), (3, Some ''need-to-know''), (4, Some
     ''private''), (5, Some ''default''), (6, Some ''white''), (7, Some ''green''), (8, Some
     ''amber''), (9, Some ''red'')]"

definition method_restriction_to_numeric :: "string option \<Rightarrow> int res" where
  "method_restriction_to_numeric = enum_to_numeric
    [(1, ''public''), (2, ''partner''), (3, ''need-to-know''), (4, ''private''), (5, ''default''),
     (6, ''white''), (7, ''green''), (8, ''amber''), (9, ''red'')]"

definition method_restriction_to_string :: "int \<Rightarrow> string option" where
  "method_restriction_to_string = enum_to_string
    [(0, None), (1, Some ''public''), (2, Some ''partner''), (3, Some ''need-to-know''), (4, Some
     ''private''), (5, Some ''default''), (6, Some ''white''), (7, Some ''green''), (8, Some
     ''amber''), (9, Some ''red'')]"

definition alternative_id_restriction_to_numeric :: "string option \<Rightarrow> int res" where
  "alternative_id_restriction_to_numeric = enum_to_numeric
    [(1, ''public''), (2, ''partner''), (3, ''need-to-know''), (4, ''private''), (5, ''default''),
     (6, ''white''), (7, ''green''), (8, ''amber''), (9, ''red'')]"

definition alternative_id_restriction_to_string :: "int \<Rightarrow> string option" where
  "alternative_id_restriction_to_string = enum_to_string
    [(0, None), (1, Some ''public''), (2, Some ''partner''), (3, Some ''need-to-know''), (4, Some
     ''private''), (5, Some ''default''), (6, Some ''white''), (7, Some ''green''), (8, Some
     ''amber''), (9, Some ''red'')]"

definition campaign_restriction_to_numeric :: "string option \<Rightarrow> int res" where
  "campaign_restriction_to_numeric = enum_to_numeric
    [(1, ''public''), (2, ''partner''), (3, ''need-to-know''), (4, ''private''), (5, ''default''),
     (6, ''white''), (7, ''green''), (8, ''amber''), (9, ''red'')]"

definition campaign_restriction_to_string :: "int \<Rightarrow> string option" where
  "campaign_restriction_to_string = enum_to_string
    [(0, None), (1, Some ''public''), (2, Some ''partner''), (3, Some ''need-to-know''), (4, Some
     ''private''), (5, Some ''default''), (6, Some ''white''), (7, Some ''green''), (8, Some
     ''amber''), (9, Some ''red'')]"

definition assessment_restriction_to_numeric :: "string option \<Rightarrow> int res" where
  "assessment_restriction_to_numeric = enum_to_numeric
    [(1, ''public''), (2, ''partner''), (3, ''need-to-know''), (4, ''private''), (5, ''default''),
     (6, ''white''), (7, ''green''), (8, ''amber''), (9, ''red'')]"

definition assessment_restriction_to_string :: "int \<Rightarrow> string option" where
  "assessment_restriction_to_string = enum_to_string
    [(0, None), (1, Some ''public''), (2, Some ''partner''), (3, Some ''need-to-know''), (4, Some
     ''private''), (5, Some ''default''), (6, Some ''white''), (7, Some ''green''), (8, Some
     ''amber''), (9, Some ''red'')]"

definition assessment_occurrence_to_numeric :: "string option \<Rightarrow> int res" where
  "assessment_occurrence_to_numeric = enum_to_numeric
    [(1, ''actual''), (2, ''potential'')]"

definition assessment_occurrence_to_string :: "int \<Rightarrow> string option" where
  "assessment_occurrence_to_string = enum_to_string
    [(0, None), (1, Some ''actual''), (2, Some ''potential'')]"

definition contact_restriction_to_numeric :: "string option \<Rightarrow> int res" where
  "contact_restriction_to_numeric = enum_to_numeric
    [(1, ''public''), (2, ''partner''), (3, ''need-to-know''), (4, ''private''), (5, ''default''),
     (6, ''white''), (7, ''green''), (8, ''amber''), (9, ''red'')]"

definition contact_restriction_to_string :: "int \<Rightarrow> string option" where
  "contact_restriction_to_string = enum_to_string
    [(0, None), (1, Some ''public''), (2, Some ''partner''), (3, Some ''need-to-know''), (4, Some
     ''private''), (5, Some ''default''), (6, Some ''white''), (7, Some ''green''), (8, Some
     ''amber''), (9, Some ''red'')]"

definition contact_role_to_numeric :: "string option \<Rightarrow> int res" where
  "contact_role_to_numeric = enum_to_numeric
    [(1, ''creator''), (2, ''admin''), (3, ''tech''), (4, ''irt''), (5, ''cc''), (6, ''ext-value'')]"

definition contact_role_to_string :: "int \<Rightarrow> string option" where
  "contact_role_to_string = enum_to_string
    [(0, None), (1, Some ''creator''), (2, Some ''admin''), (3, Some ''tech''), (4, Some ''irt''),
     (5, Some ''cc''), (6, Some ''ext-value'')]"

definition contact_type_to_numeric :: "string option \<Rightarrow> int res" where
  "contact_type_to_numeric = enum_to_numeric
    [(1, ''person''), (2, ''organization''), (3, ''ext-value'')]"

definition contact_type_to_string :: "int \<Rightarrow> string option" where
  "contact_type_to_string = enum_to_string
    [(0, None), (1, Some ''person''), (2, Some ''organization''), (3, Some ''ext-value'')]"

definition related_activity_restriction_to_numeric :: "string option \<Rightarrow> int res" where
  "related_activity_restriction_to_numeric = enum_to_numeric
    [(1, ''public''), (2, ''partner''), (3, ''need-to-know''), (4, ''private''), (5, ''default''),
     (6, ''white''), (7, ''green''), (8, ''amber''), (9, ''red'')]"

definition related_activity_restriction_to_string :: "int \<Rightarrow> string option" where
  "related_activity_restriction_to_string = enum_to_string
    [(0, None), (1, Some ''public''), (2, Some ''partner''), (3, Some ''need-to-know''), (4, Some
     ''private''), (5, Some ''default''), (6, Some ''white''), (7, Some ''green''), (8, Some
     ''amber''), (9, Some ''red'')]"

definition history_item_action_to_numeric :: "string option \<Rightarrow> int res" where
  "history_item_action_to_numeric = enum_to_numeric
    []"

definition history_item_action_to_string :: "int \<Rightarrow> string option" where
  "history_item_action_to_string = enum_to_string
    []"

definition history_item_restriction_to_numeric :: "string option \<Rightarrow> int res" where
  "history_item_restriction_to_numeric = enum_to_numeric
    [(1, ''public''), (2, ''partner''), (3, ''need-to-know''), (4, ''private''), (5, ''default''),
     (6, ''white''), (7, ''green''), (8, ''amber''), (9, ''red'')]"

definition history_item_restriction_to_string :: "int \<Rightarrow> string option" where
  "history_item_restriction_to_string = enum_to_string
    [(0, None), (1, Some ''public''), (2, Some ''partner''), (3, Some ''need-to-know''), (4, Some
     ''private''), (5, Some ''default''), (6, Some ''white''), (7, Some ''green''), (8, Some
     ''amber''), (9, Some ''red'')]"

definition detection_pattern_restriction_to_numeric :: "string option \<Rightarrow> int res" where
  "detection_pattern_restriction_to_numeric = enum_to_numeric
    [(1, ''public''), (2, ''partner''), (3, ''need-to-know''), (4, ''private''), (5, ''default''),
     (6, ''white''), (7, ''green''), (8, ''amber''), (9, ''red'')]"

definition detection_pattern_restriction_to_string :: "int \<Rightarrow> string option" where
  "detection_pattern_restriction_to_string = enum_to_string
    [(0, None), (1, Some ''public''), (2, Some ''partner''), (3, Some ''need-to-know''), (4, Some
     ''private''), (5, Some ''default''), (6, Some ''white''), (7, Some ''green''), (8, Some
     ''amber''), (9, Some ''red'')]"

definition expectation_restriction_to_numeric :: "string option \<Rightarrow> int res" where
  "expectation_restriction_to_numeric = enum_to_numeric
    [(1, ''public''), (2, ''partner''), (3, ''need-to-know''), (4, ''private''), (5, ''default''),
     (6, ''white''), (7, ''green''), (8, ''amber''), (9, ''red'')]"

definition expectation_restriction_to_string :: "int \<Rightarrow> string option" where
  "expectation_restriction_to_string = enum_to_string
    [(0, None), (1, Some ''public''), (2, Some ''partner''), (3, Some ''need-to-know''), (4, Some
     ''private''), (5, Some ''default''), (6, Some ''white''), (7, Some ''green''), (8, Some
     ''amber''), (9, Some ''red'')]"

definition expectation_severity_to_numeric :: "string option \<Rightarrow> int res" where
  "expectation_severity_to_numeric = enum_to_numeric
    [(1, ''low''), (2, ''medium''), (3, ''high'')]"

definition expectation_severity_to_string :: "int \<Rightarrow> string option" where
  "expectation_severity_to_string = enum_to_string
    [(0, None), (1, Some ''low''), (2, Some ''medium''), (3, Some ''high'')]"

definition expectation_action_to_numeric :: "string option \<Rightarrow> int res" where
  "expectation_action_to_numeric = enum_to_numeric
    [(1, ''nothing''), (2, ''contact-source-site''), (3, ''contact-target-site''), (4,
     ''contact-sender''), (5, ''investigate''), (6, ''block-host''), (7, ''block-network''), (8,
     ''block-port''), (9, ''rate-limit-host''), (10, ''rate-limit-network''), (11,
     ''rate-limit-port''), (12, ''remediate-other''), (13, ''status-triage''), (14,
     ''status-new-info''), (15, ''other''), (16, ''ext-value'')]"

definition expectation_action_to_string :: "int \<Rightarrow> string option" where
  "expectation_action_to_string = enum_to_string
    [(0, None), (1, Some ''nothing''), (2, Some ''contact-source-site''), (3, Some
     ''contact-target-site''), (4, Some ''contact-sender''), (5, Some ''investigate''), (6, Some
     ''block-host''), (7, Some ''block-network''), (8, Some ''block-port''), (9, Some
     ''rate-limit-host''), (10, Some ''rate-limit-network''), (11, Some ''rate-limit-port''), (12,
     Some ''remediate-other''), (13, Some ''status-triage''), (14, Some ''status-new-info''), (15,
     Some ''other''), (16, Some ''ext-value'')]"

definition domain_data_domain_status_to_numeric :: "string option \<Rightarrow> int res" where
  "domain_data_domain_status_to_numeric = enum_to_numeric
    [(1, ''reserveddelegation''), (2, ''assignedandactive''), (3, ''assignedandinactive''), (4,
     ''assignedandonhold''), (5, ''revoked''), (6, ''transferpending''), (7, ''registrylock''), (8,
     ''registrarlock''), (9, ''other''), (10, ''unknown''), (11, ''ext-value'')]"

definition domain_data_domain_status_to_string :: "int \<Rightarrow> string option" where
  "domain_data_domain_status_to_string = enum_to_string
    [(0, None), (1, Some ''reserveddelegation''), (2, Some ''assignedandactive''), (3, Some
     ''assignedandinactive''), (4, Some ''assignedandonhold''), (5, Some ''revoked''), (6, Some
     ''transferpending''), (7, Some ''registrylock''), (8, Some ''registrarlock''), (9, Some
     ''other''), (10, Some ''unknown''), (11, Some ''ext-value'')]"

definition domain_data_system_status_to_numeric :: "string option \<Rightarrow> int res" where
  "domain_data_system_status_to_numeric = enum_to_numeric
    [(1, ''spoofed''), (2, ''fraudulent''), (3, ''innocent-hacked''), (4, ''innocent-hijacked''),
     (5, ''unknown''), (6, ''ext-value'')]"

definition domain_data_system_status_to_string :: "int \<Rightarrow> string option" where
  "domain_data_system_status_to_string = enum_to_string
    [(0, None), (1, Some ''spoofed''), (2, Some ''fraudulent''), (3, Some ''innocent-hacked''), (4,
     Some ''innocent-hijacked''), (5, Some ''unknown''), (6, Some ''ext-value'')]"

definition hash_data_scope_to_numeric :: "string option \<Rightarrow> int res" where
  "hash_data_scope_to_numeric = enum_to_numeric
    [(1, ''file-content''), (2, ''file-pe-section''), (3, ''file-pe-iat''), (4,
     ''file-pe-resource''), (5, ''file-pdf-object''), (6, ''email-hash''), (7,
     ''email-headers-hash''), (8, ''email-body-hash''), (9, ''ext-value'')]"

definition hash_data_scope_to_string :: "int \<Rightarrow> string option" where
  "hash_data_scope_to_string = enum_to_string
    [(0, None), (1, Some ''file-content''), (2, Some ''file-pe-section''), (3, Some
     ''file-pe-iat''), (4, Some ''file-pe-resource''), (5, Some ''file-pdf-object''), (6, Some
     ''email-hash''), (7, Some ''email-headers-hash''), (8, Some ''email-body-hash''), (9, Some
     ''ext-value'')]"

definition history_restriction_to_numeric :: "string option \<Rightarrow> int res" where
  "history_restriction_to_numeric = enum_to_numeric
    []"

definition history_restriction_to_string :: "int \<Rightarrow> string option" where
  "history_restriction_to_string = enum_to_string
    []"

definition discovery_source_to_numeric :: "string option \<Rightarrow> int res" where
  "discovery_source_to_numeric = enum_to_numeric
    [(1, ''nidps''), (2, ''hips''), (3, ''siem''), (4, ''av''), (5, ''third-party-monitoring''), (6,
     ''incident''), (7, ''os-log''), (8, ''application-log''), (9, ''device-log''), (10,
     ''network-flow''), (11, ''passive-dns''), (12, ''investigation''), (13, ''audit''), (14,
     ''internal-notification''), (15, ''external-notification''), (16, ''leo''), (17, ''partner''),
     (18, ''actor''), (19, ''unknown''), (20, ''ext-value'')]"

definition discovery_source_to_string :: "int \<Rightarrow> string option" where
  "discovery_source_to_string = enum_to_string
    [(0, None), (1, Some ''nidps''), (2, Some ''hips''), (3, Some ''siem''), (4, Some ''av''), (5,
     Some ''third-party-monitoring''), (6, Some ''incident''), (7, Some ''os-log''), (8, Some
     ''application-log''), (9, Some ''device-log''), (10, Some ''network-flow''), (11, Some
     ''passive-dns''), (12, Some ''investigation''), (13, Some ''audit''), (14, Some
     ''internal-notification''), (15, Some ''external-notification''), (16, Some ''leo''), (17, Some
     ''partner''), (18, Some ''actor''), (19, Some ''unknown''), (20, Some ''ext-value'')]"

definition discovery_restriction_to_numeric :: "string option \<Rightarrow> int res" where
  "discovery_restriction_to_numeric = enum_to_numeric
    [(1, ''public''), (2, ''partner''), (3, ''need-to-know''), (4, ''private''), (5, ''default''),
     (6, ''white''), (7, ''green''), (8, ''amber''), (9, ''red'')]"

definition discovery_restriction_to_string :: "int \<Rightarrow> string option" where
  "discovery_restriction_to_string = enum_to_string
    [(0, None), (1, Some ''public''), (2, Some ''partner''), (3, Some ''need-to-know''), (4, Some
     ''private''), (5, Some ''default''), (6, Some ''white''), (7, Some ''green''), (8, Some
     ''amber''), (9, Some ''red'')]"

definition bulk_observable_type_to_numeric :: "string option \<Rightarrow> int res" where
  "bulk_observable_type_to_numeric = enum_to_numeric
    [(1, ''asn''), (2, ''atm''), (3, ''e-mail''), (4, ''ipv4-addr''), (5, ''ipv4-net''), (6,
     ''ipv4-net-mask''), (7, ''ipv6-addr''), (8, ''ipv6-net''), (9, ''ipv6-net-mask''), (10,
     ''mac''), (11, ''site-uri''), (12, ''domain-name''), (13, ''domain-to-ipv4''), (14,
     ''domain-to-ipv6''), (15, ''domain-to-ipv4-timestamp''), (16, ''domain-to-ipv6-timestamp''),
     (17, ''ipv4-port''), (18, ''ipv6-port''), (19, ''windows-reg-key''), (20, ''file-hash''), (21,
     ''email-x-mailer''), (22, ''email-subject''), (23, ''http-user-agent''), (24,
     ''http-request-uri''), (25, ''amber''), (26, ''file-path''), (27, ''user-name''), (28,
     ''ext-value'')]"

definition bulk_observable_type_to_string :: "int \<Rightarrow> string option" where
  "bulk_observable_type_to_string = enum_to_string
    [(0, None), (1, Some ''asn''), (2, Some ''atm''), (3, Some ''e-mail''), (4, Some ''ipv4-addr''),
     (5, Some ''ipv4-net''), (6, Some ''ipv4-net-mask''), (7, Some ''ipv6-addr''), (8, Some
     ''ipv6-net''), (9, Some ''ipv6-net-mask''), (10, Some ''mac''), (11, Some ''site-uri''), (12,
     Some ''domain-name''), (13, Some ''domain-to-ipv4''), (14, Some ''domain-to-ipv6''), (15, Some
     ''domain-to-ipv4-timestamp''), (16, Some ''domain-to-ipv6-timestamp''), (17, Some
     ''ipv4-port''), (18, Some ''ipv6-port''), (19, Some ''windows-reg-key''), (20, Some
     ''file-hash''), (21, Some ''email-x-mailer''), (22, Some ''email-subject''), (23, Some
     ''http-user-agent''), (24, Some ''http-request-uri''), (25, Some ''amber''), (26, Some
     ''file-path''), (27, Some ''user-name''), (28, Some ''ext-value'')]"

definition file_data_restriction_to_numeric :: "string option \<Rightarrow> int res" where
  "file_data_restriction_to_numeric = enum_to_numeric
    [(1, ''public''), (2, ''partner''), (3, ''need-to-know''), (4, ''private''), (5, ''default''),
     (6, ''white''), (7, ''green''), (8, ''amber''), (9, ''red'')]"

definition file_data_restriction_to_string :: "int \<Rightarrow> string option" where
  "file_data_restriction_to_string = enum_to_string
    [(0, None), (1, Some ''public''), (2, Some ''partner''), (3, Some ''need-to-know''), (4, Some
     ''private''), (5, Some ''default''), (6, Some ''white''), (7, Some ''green''), (8, Some
     ''amber''), (9, Some ''red'')]"

definition system_category_to_numeric :: "string option \<Rightarrow> int res" where
  "system_category_to_numeric = enum_to_numeric
    [(1, ''source''), (2, ''target''), (3, ''intermediate''), (4, ''sensor''), (5,
     ''infrastructure''), (6, ''ext-value'')]"

definition system_category_to_string :: "int \<Rightarrow> string option" where
  "system_category_to_string = enum_to_string
    [(0, None), (1, Some ''source''), (2, Some ''target''), (3, Some ''intermediate''), (4, Some
     ''sensor''), (5, Some ''infrastructure''), (6, Some ''ext-value'')]"

definition system_restriction_to_numeric :: "string option \<Rightarrow> int res" where
  "system_restriction_to_numeric = enum_to_numeric
    [(1, ''public''), (2, ''partner''), (3, ''need-to-know''), (4, ''private''), (5, ''default''),
     (6, ''white''), (7, ''green''), (8, ''amber''), (9, ''red'')]"

definition system_restriction_to_string :: "int \<Rightarrow> string option" where
  "system_restriction_to_string = enum_to_string
    [(0, None), (1, Some ''public''), (2, Some ''partner''), (3, Some ''need-to-know''), (4, Some
     ''private''), (5, Some ''default''), (6, Some ''white''), (7, Some ''green''), (8, Some
     ''amber''), (9, Some ''red'')]"

definition system_spoofed_to_numeric :: "string option \<Rightarrow> int res" where
  "system_spoofed_to_numeric = enum_to_numeric
    [(1, ''unknown''), (2, ''yes''), (3, ''no'')]"

definition system_spoofed_to_string :: "int \<Rightarrow> string option" where
  "system_spoofed_to_string = enum_to_string
    [(0, None), (1, Some ''unknown''), (2, Some ''yes''), (3, Some ''no'')]"

definition system_virtual_to_numeric :: "string option \<Rightarrow> int res" where
  "system_virtual_to_numeric = enum_to_numeric
    [(1, ''yes''), (2, ''no''), (3, ''unknown'')]"

definition system_virtual_to_string :: "int \<Rightarrow> string option" where
  "system_virtual_to_string = enum_to_string
    [(0, None), (1, Some ''yes''), (2, Some ''no''), (3, Some ''unknown'')]"

definition system_ownership_to_numeric :: "string option \<Rightarrow> int res" where
  "system_ownership_to_numeric = enum_to_numeric
    [(1, ''organization''), (2, ''personal''), (3, ''partner''), (4, ''customer''), (5,
     ''no-relationship''), (6, ''unknown''), (7, ''ext-value'')]"

definition system_ownership_to_string :: "int \<Rightarrow> string option" where
  "system_ownership_to_string = enum_to_string
    [(0, None), (1, Some ''organization''), (2, Some ''personal''), (3, Some ''partner''), (4, Some
     ''customer''), (5, Some ''no-relationship''), (6, Some ''unknown''), (7, Some ''ext-value'')]"

definition record_data_restriction_to_numeric :: "string option \<Rightarrow> int res" where
  "record_data_restriction_to_numeric = enum_to_numeric
    [(1, ''public''), (2, ''partner''), (3, ''need-to-know''), (4, ''private''), (5, ''default''),
     (6, ''white''), (7, ''green''), (8, ''amber''), (9, ''red'')]"

definition record_data_restriction_to_string :: "int \<Rightarrow> string option" where
  "record_data_restriction_to_string = enum_to_string
    [(0, None), (1, Some ''public''), (2, Some ''partner''), (3, Some ''need-to-know''), (4, Some
     ''private''), (5, Some ''default''), (6, Some ''white''), (7, Some ''green''), (8, Some
     ''amber''), (9, Some ''red'')]"

definition record_restriction_to_numeric :: "string option \<Rightarrow> int res" where
  "record_restriction_to_numeric = enum_to_numeric
    [(1, ''public''), (2, ''partner''), (3, ''need-to-know''), (4, ''private''), (5, ''default''),
     (6, ''white''), (7, ''green''), (8, ''amber''), (9, ''red'')]"

definition record_restriction_to_string :: "int \<Rightarrow> string option" where
  "record_restriction_to_string = enum_to_string
    [(0, None), (1, Some ''public''), (2, Some ''partner''), (3, Some ''need-to-know''), (4, Some
     ''private''), (5, Some ''default''), (6, Some ''white''), (7, Some ''green''), (8, Some
     ''amber''), (9, Some ''red'')]"

definition event_data_restriction_to_numeric :: "string option \<Rightarrow> int res" where
  "event_data_restriction_to_numeric = enum_to_numeric
    [(1, ''public''), (2, ''partner''), (3, ''need-to-know''), (4, ''private''), (5, ''default''),
     (6, ''white''), (7, ''green''), (8, ''amber''), (9, ''red'')]"

definition event_data_restriction_to_string :: "int \<Rightarrow> string option" where
  "event_data_restriction_to_string = enum_to_string
    [(0, None), (1, Some ''public''), (2, Some ''partner''), (3, Some ''need-to-know''), (4, Some
     ''private''), (5, Some ''default''), (6, Some ''white''), (7, Some ''green''), (8, Some
     ''amber''), (9, Some ''red'')]"

definition observable_restriction_to_numeric :: "string option \<Rightarrow> int res" where
  "observable_restriction_to_numeric = enum_to_numeric
    [(1, ''public''), (2, ''partner''), (3, ''need-to-know''), (4, ''private''), (5, ''default''),
     (6, ''white''), (7, ''green''), (8, ''amber''), (9, ''red'')]"

definition observable_restriction_to_string :: "int \<Rightarrow> string option" where
  "observable_restriction_to_string = enum_to_string
    [(0, None), (1, Some ''public''), (2, Some ''partner''), (3, Some ''need-to-know''), (4, Some
     ''private''), (5, Some ''default''), (6, Some ''white''), (7, Some ''green''), (8, Some
     ''amber''), (9, Some ''red'')]"

definition indicator_expression_operator_to_numeric :: "string option \<Rightarrow> int res" where
  "indicator_expression_operator_to_numeric = enum_to_numeric
    [(1, ''not''), (2, ''and''), (3, ''or''), (4, ''xor'')]"

definition indicator_expression_operator_to_string :: "int \<Rightarrow> string option" where
  "indicator_expression_operator_to_string = enum_to_string
    [(0, None), (1, Some ''not''), (2, Some ''and''), (3, Some ''or''), (4, Some ''xor'')]"

definition indicator_restriction_to_numeric :: "string option \<Rightarrow> int res" where
  "indicator_restriction_to_numeric = enum_to_numeric
    [(1, ''public''), (2, ''partner''), (3, ''need-to-know''), (4, ''private''), (5, ''default''),
     (6, ''white''), (7, ''green''), (8, ''amber''), (9, ''red'')]"

definition indicator_restriction_to_string :: "int \<Rightarrow> string option" where
  "indicator_restriction_to_string = enum_to_string
    [(0, None), (1, Some ''public''), (2, Some ''partner''), (3, Some ''need-to-know''), (4, Some
     ''private''), (5, Some ''default''), (6, Some ''white''), (7, Some ''green''), (8, Some
     ''amber''), (9, Some ''red'')]"

definition incident_status_to_numeric :: "string option \<Rightarrow> int res" where
  "incident_status_to_numeric = enum_to_numeric
    []"

definition incident_status_to_string :: "int \<Rightarrow> string option" where
  "incident_status_to_string = enum_to_string
    []"

definition incident_lang_to_numeric :: "string option \<Rightarrow> int res" where
  "incident_lang_to_numeric = enum_to_numeric
    []"

definition incident_lang_to_string :: "int \<Rightarrow> string option" where
  "incident_lang_to_string = enum_to_string
    []"

definition incident_purpose_to_numeric :: "string option \<Rightarrow> int res" where
  "incident_purpose_to_numeric = enum_to_numeric
    [(1, ''traceback''), (2, ''mitigation''), (3, ''reporting''), (4, ''watch''), (5, ''other''),
     (6, ''ext-value'')]"

definition incident_purpose_to_string :: "int \<Rightarrow> string option" where
  "incident_purpose_to_string = enum_to_string
    [(0, None), (1, Some ''traceback''), (2, Some ''mitigation''), (3, Some ''reporting''), (4, Some
     ''watch''), (5, Some ''other''), (6, Some ''ext-value'')]"

definition incident_restriction_to_numeric :: "string option \<Rightarrow> int res" where
  "incident_restriction_to_numeric = enum_to_numeric
    [(1, ''public''), (2, ''need-to-know''), (3, ''private''), (4, ''default'')]"

definition incident_restriction_to_string :: "int \<Rightarrow> string option" where
  "incident_restriction_to_string = enum_to_string
    [(0, None), (1, Some ''public''), (2, Some ''need-to-know''), (3, Some ''private''), (4, Some
     ''default'')]"

definition document_lang_to_numeric :: "string option \<Rightarrow> int res" where
  "document_lang_to_numeric = enum_to_numeric
    []"

definition document_lang_to_string :: "int \<Rightarrow> string option" where
  "document_lang_to_string = enum_to_string
    []"

section \<open>Both directions agree\<close>

lemma telephone_type_ok: "enum_pair_ok telephone_type_to_numeric telephone_type_to_string"
  unfolding telephone_type_to_numeric_def telephone_type_to_string_def
  by (rule enum_tables_pair_ok) (simp add: enum_tables_ok_def c_tolower_letters upt_rec)

lemma key_registryaction_ok: "enum_pair_ok key_registryaction_to_numeric key_registryaction_to_string"
  unfolding key_registryaction_to_numeric_def key_registryaction_to_string_def
  by (rule enum_tables_pair_ok) (simp add: enum_tables_ok_def c_tolower_letters upt_rec)

lemma registry_handle_registry_ok: "enum_pair_ok registry_handle_registry_to_numeric registry_handle_registry_to_string"
  unfolding registry_handle_registry_to_numeric_def registry_handle_registry_to_string_def
  by (rule enum_tables_pair_ok) (simp add: enum_tables_ok_def c_tolower_letters upt_rec)

lemma time_impact_duration_ok: "enum_pair_ok time_impact_duration_to_numeric time_impact_duration_to_string"
  unfolding time_impact_duration_to_numeric_def time_impact_duration_to_string_def
  by (rule enum_tables_pair_ok) (simp add: enum_tables_ok_def c_tolower_letters upt_rec)

lemma time_impact_metric_ok: "enum_pair_ok time_impact_metric_to_numeric time_impact_metric_to_string"
  unfolding time_impact_metric_to_numeric_def time_impact_metric_to_string_def
  by (rule enum_tables_pair_ok) (simp add: enum_tables_ok_def c_tolower_letters upt_rec)

lemma time_impact_severity_ok: "enum_pair_ok time_impact_severity_to_numeric time_impact_severity_to_string"
  unfolding time_impact_severity_to_numeric_def time_impact_severity_to_string_def
  by (rule enum_tables_pair_ok) (simp add: enum_tables_ok_def c_tolower_letters upt_rec)

lemma record_pattern_offsetunit_ok: "enum_pair_ok record_pattern_offsetunit_to_numeric record_pattern_offsetunit_to_string"
  unfolding record_pattern_offsetunit_to_numeric_def record_pattern_offsetunit_to_string_def
  by (rule enum_tables_pair_ok) (simp add: enum_tables_ok_def c_tolower_letters upt_rec)

lemma record_pattern_type_ok: "enum_pair_ok record_pattern_type_to_numeric record_pattern_type_to_string"
  unfolding record_pattern_type_to_numeric_def record_pattern_type_to_string_def
  by (rule enum_tables_pair_ok) (simp add: enum_tables_ok_def c_tolower_letters upt_rec)

lemma postal_address_type_ok: "enum_pair_ok postal_address_type_to_numeric postal_address_type_to_string"
  unfolding postal_address_type_to_numeric_def postal_address_type_to_string_def
  by (rule enum_tables_pair_ok) (simp add: enum_tables_ok_def c_tolower_letters upt_rec)

lemma node_role_category_ok: "enum_pair_ok node_role_category_to_numeric node_role_category_to_string"
  unfolding node_role_category_to_numeric_def node_role_category_to_string_def
  by (rule enum_tables_pair_ok) (simp add: enum_tables_ok_def c_tolower_letters upt_rec)

lemma incident_id_restriction_ok: "enum_pair_ok incident_id_restriction_to_numeric incident_id_restriction_to_string"
  unfolding incident_id_restriction_to_numeric_def incident_id_restriction_to_string_def
  by (rule enum_tables_pair_ok) (simp add: enum_tables_ok_def c_tolower_letters upt_rec)

lemma alternative_indicator_id_restriction_ok: "enum_pair_ok alternative_indicator_id_restriction_to_numeric alternative_indicator_id_restriction_to_string"
  unfolding alternative_indicator_id_restriction_to_numeric_def alternative_indicator_id_restriction_to_string_def
  by (rule enum_tables_pair_ok) (simp add: enum_tables_ok_def c_tolower_letters upt_rec)

lemma confidence_rating_ok: "enum_pair_ok confidence_rating_to_numeric confidence_rating_to_string"
  unfolding confidence_rating_to_numeric_def confidence_rating_to_string_def
  by (rule enum_tables_pair_ok) (simp add: enum_tables_ok_def c_tolower_letters upt_rec)

lemma system_impact_completion_ok: "enum_pair_ok system_impact_completion_to_numeric system_impact_completion_to_string"
  unfolding system_impact_completion_to_numeric_def system_impact_completion_to_string_def
  by (rule enum_tables_pair_ok) (simp add: enum_tables_ok_def c_tolower_letters upt_rec)

lemma system_impact_type_ok: "enum_pair_ok system_impact_type_to_numeric system_impact_type_to_string"
  unfolding system_impact_type_to_numeric_def system_impact_type_to_string_def
  by (rule enum_tables_pair_ok) (simp add: enum_tables_ok_def c_tolower_letters upt_rec)

lemma system_impact_severity_ok: "enum_pair_ok system_impact_severity_to_numeric system_impact_severity_to_string"
  unfolding system_impact_severity_to_numeric_def system_impact_severity_to_string_def
  by (rule enum_tables_pair_ok) (simp add: enum_tables_ok_def c_tolower_letters upt_rec)

lemma software_reference_dtype_ok: "enum_pair_ok software_reference_dtype_to_numeric software_reference_dtype_to_string"
  unfolding software_reference_dtype_to_numeric_def software_reference_dtype_to_string_def
  by (rule enum_tables_pair_ok) (simp add: enum_tables_ok_def c_tolower_letters upt_rec)

lemma business_impact_type_ok: "enum_pair_ok business_impact_type_to_numeric business_impact_type_to_string"
  unfolding business_impact_type_to_numeric_def business_impact_type_to_string_def
  by (rule enum_tables_pair_ok) (simp add: enum_tables_ok_def c_tolower_letters upt_rec)

lemma business_impact_severity_ok: "enum_pair_ok business_impact_severity_to_numeric business_impact_severity_to_string"
  unfolding business_impact_severity_to_numeric_def business_impact_severity_to_string_def
  by (rule enum_tables_pair_ok) (simp add: enum_tables_ok_def c_tolower_letters upt_rec)

lemma email_type_ok: "enum_pair_ok email_type_to_numeric email_type_to_string"
  unfolding email_type_to_numeric_def email_type_to_string_def
  by (rule enum_tables_pair_ok) (simp add: enum_tables_ok_def c_tolower_letters upt_rec)

lemma intended_impact_type_ok: "enum_pair_ok intended_impact_type_to_numeric intended_impact_type_to_string"
  unfolding intended_impact_type_to_numeric_def intended_impact_type_to_string_def
  by (rule enum_tables_pair_ok) (simp add: enum_tables_ok_def c_tolower_letters upt_rec)

lemma intended_impact_severity_ok: "enum_pair_ok intended_impact_severity_to_numeric intended_impact_severity_to_string"
  unfolding intended_impact_severity_to_numeric_def intended_impact_severity_to_string_def
  by (rule enum_tables_pair_ok) (simp add: enum_tables_ok_def c_tolower_letters upt_rec)

lemma additional_data_restriction_ok: "enum_pair_ok additional_data_restriction_to_numeric additional_data_restriction_to_string"
  unfolding additional_data_restriction_to_numeric_def additional_data_restriction_to_string_def
  by (rule enum_tables_pair_ok) (simp add: enum_tables_ok_def c_tolower_letters upt_rec)

lemma additional_data_type_ok: "enum_pair_ok additional_data_type_to_numeric additional_data_type_to_string"
  unfolding additional_data_type_to_numeric_def additional_data_type_to_string_def
  by (rule enum_tables_pair_ok) (simp add: enum_tables_ok_def c_tolower_letters upt_rec)

lemma counter_unit_ok: "enum_pair_ok counter_unit_to_numeric counter_unit_to_string"
  unfolding counter_unit_to_numeric_def counter_unit_to_string_def
  by (rule enum_tables_pair_ok) (simp add: enum_tables_ok_def c_tolower_letters upt_rec)

lemma counter_duration_ok: "enum_pair_ok counter_duration_to_numeric counter_duration_to_string"
  unfolding counter_duration_to_numeric_def counter_duration_to_string_def
  by (rule enum_tables_pair_ok) (simp add: enum_tables_ok_def c_tolower_letters upt_rec)

lemma counter_type_ok: "enum_pair_ok counter_type_to_numeric counter_type_to_string"
  unfolding counter_type_to_numeric_def counter_type_to_string_def
  by (rule enum_tables_pair_ok) (simp add: enum_tables_ok_def c_tolower_letters upt_rec)

lemma monetary_impact_severity_ok: "enum_pair_ok monetary_impact_severity_to_numeric monetary_impact_severity_to_string"
  unfolding monetary_impact_severity_to_numeric_def monetary_impact_severity_to_string_def
  by (rule enum_tables_pair_ok) (simp add: enum_tables_ok_def c_tolower_letters upt_rec)

lemma address_category_ok: "enum_pair_ok address_category_to_numeric address_category_to_string"
  unfolding address_category_to_numeric_def address_category_to_string_def
  by (rule enum_tables_pair_ok) (simp add: enum_tables_ok_def c_tolower_letters upt_rec)

lemma certificate_data_restriction_ok: "enum_pair_ok certificate_data_restriction_to_numeric certificate_data_restriction_to_string"
  unfolding certificate_data_restriction_to_numeric_def certificate_data_restriction_to_string_def
  by (rule enum_tables_pair_ok) (simp add: enum_tables_ok_def c_tolower_letters upt_rec)

lemma threat_actor_restriction_ok: "enum_pair_ok threat_actor_restriction_to_numeric threat_actor_restriction_to_string"
  unfolding threat_actor_restriction_to_numeric_def threat_actor_restriction_to_string_def
  by (rule enum_tables_pair_ok) (simp add: enum_tables_ok_def c_tolower_letters upt_rec)

lemma method_restriction_ok: "enum_pair_ok method_restriction_to_numeric method_restriction_to_string"
  unfolding method_restriction_to_numeric_def method_restriction_to_string_def
  by (rule enum_tables_pair_ok) (simp add: enum_tables_ok_def c_tolower_letters upt_rec)

lemma alternative_id_restriction_ok: "enum_pair_ok alternative_id_restriction_to_numeric alternative_id_restriction_to_string"
  unfolding alternative_id_restriction_to_numeric_def alternative_id_restriction_to_string_def
  by (rule enum_tables_pair_ok) (simp add: enum_tables_ok_def c_tolower_letters upt_rec)

lemma campaign_restriction_ok: "enum_pair_ok campaign_restriction_to_numeric campaign_restriction_to_string"
  unfolding campaign_restriction_to_numeric_def campaign_restriction_to_string_def
  by (rule enum_tables_pair_ok) (simp add: enum_tables_ok_def c_tolower_letters upt_rec)

lemma assessment_restriction_ok: "enum_pair_ok assessment_restriction_to_numeric assessment_restriction_to_string"
  unfolding assessment_restriction_to_numeric_def assessment_restriction_to_string_def
  by (rule enum_tables_pair_ok) (simp add: enum_tables_ok_def c_tolower_letters upt_rec)

lemma assessment_occurrence_ok: "enum_pair_ok assessment_occurrence_to_numeric assessment_occurrence_to_string"
  unfolding assessment_occurrence_to_numeric_def assessment_occurrence_to_string_def
  by (rule enum_tables_pair_ok) (simp add: enum_tables_ok_def c_tolower_letters upt_rec)

lemma contact_restriction_ok: "enum_pair_ok contact_restriction_to_numeric contact_restriction_to_string"
  unfolding contact_restriction_to_numeric_def contact_restriction_to_string_def
  by (rule enum_tables_pair_ok) (simp add: enum_tables_ok_def c_tolower_letters upt_rec)

lemma contact_role_ok: "enum_pair_ok contact_role_to_numeric contact_role_to_string"
  unfolding contact_role_to_numeric_def contact_role_to_string_def
  by (rule enum_tables_pair_ok) (simp add: enum_tables_ok_def c_tolower_letters upt_rec)

lemma contact_type_ok: "enum_pair_ok contact_type_to_numeric contact_type_to_string"
  unfolding contact_type_to_numeric_def contact_type_to_string_def
  by (rule enum_tables_pair_ok) (simp add: enum_tables_ok_def c_tolower_letters upt_rec)

lemma related_activity_restriction_ok: "enum_pair_ok related_activity_restriction_to_numeric related_activity_restriction_to_string"
  unfolding related_activity_restriction_to_numeric_def related_activity_restriction_to_string_def
  by (rule enum_tables_pair_ok) (simp add: enum_tables_ok_def c_tolower_letters upt_rec)

lemma history_item_action_ok: "enum_pair_ok history_item_action_to_numeric history_item_action_to_string"
  unfolding history_item_action_to_numeric_def history_item_action_to_string_def
  by (rule enum_tables_pair_ok) (simp add: enum_tables_ok_def c_tolower_letters upt_rec)

lemma history_item_restriction_ok: "enum_pair_ok history_item_restriction_to_numeric history_item_restriction_to_string"
  unfolding history_item_restriction_to_numeric_def history_item_restriction_to_string_def
  by (rule enum_tables_pair_ok) (simp add: enum_tables_ok_def c_tolower_letters upt_rec)

lemma detection_pattern_restriction_ok: "enum_pair_ok detection_pattern_restriction_to_numeric detection_pattern_restriction_to_string"
  unfolding detection_pattern_restriction_to_numeric_def detection_pattern_restriction_to_string_def
  by (rule enum_tables_pair_ok) (simp add: enum_tables_ok_def c_tolower_letters upt_rec)

lemma expectation_restriction_ok: "enum_pair_ok expectation_restriction_to_numeric expectation_restriction_to_string"
  unfolding expectation_restriction_to_numeric_def expectation_restriction_to_string_def
  by (rule enum_tables_pair_ok) (simp add: enum_tables_ok_def c_tolower_letters upt_rec)

lemma expectation_severity_ok: "enum_pair_ok expectation_severity_to_numeric expectation_severity_to_string"
  unfolding expectation_severity_to_numeric_def expectation_severity_to_string_def
  by (rule enum_tables_pair_ok) (simp add: enum_tables_ok_def c_tolower_letters upt_rec)

lemma expectation_action_ok: "enum_pair_ok expectation_action_to_numeric expectation_action_to_string"
  unfolding expectation_action_to_numeric_def expectation_action_to_string_def
  by (rule enum_tables_pair_ok) (simp add: enum_tables_ok_def c_tolower_letters upt_rec)

lemma domain_data_domain_status_ok: "enum_pair_ok domain_data_domain_status_to_numeric domain_data_domain_status_to_string"
  unfolding domain_data_domain_status_to_numeric_def domain_data_domain_status_to_string_def
  by (rule enum_tables_pair_ok) (simp add: enum_tables_ok_def c_tolower_letters upt_rec)

lemma domain_data_system_status_ok: "enum_pair_ok domain_data_system_status_to_numeric domain_data_system_status_to_string"
  unfolding domain_data_system_status_to_numeric_def domain_data_system_status_to_string_def
  by (rule enum_tables_pair_ok) (simp add: enum_tables_ok_def c_tolower_letters upt_rec)

lemma hash_data_scope_ok: "enum_pair_ok hash_data_scope_to_numeric hash_data_scope_to_string"
  unfolding hash_data_scope_to_numeric_def hash_data_scope_to_string_def
  by (rule enum_tables_pair_ok) (simp add: enum_tables_ok_def c_tolower_letters upt_rec)

lemma history_restriction_ok: "enum_pair_ok history_restriction_to_numeric history_restriction_to_string"
  unfolding history_restriction_to_numeric_def history_restriction_to_string_def
  by (rule enum_tables_pair_ok) (simp add: enum_tables_ok_def c_tolower_letters upt_rec)

lemma discovery_source_ok: "enum_pair_ok discovery_source_to_numeric discovery_source_to_string"
  unfolding discovery_source_to_numeric_def discovery_source_to_string_def
  by (rule enum_tables_pair_ok) (simp add: enum_tables_ok_def c_tolower_letters upt_rec)

lemma discovery_restriction_ok: "enum_pair_ok discovery_restriction_to_numeric discovery_restriction_to_string"
  unfolding discovery_restriction_to_numeric_def discovery_restriction_to_string_def
  by (rule enum_tables_pair_ok) (simp add: enum_tables_ok_def c_tolower_letters upt_rec)

lemma bulk_observable_type_ok: "enum_pair_ok bulk_observable_type_to_numeric bulk_observable_type_to_string"
  unfolding bulk_observable_type_to_numeric_def bulk_observable_type_to_string_def
  by (rule enum_tables_pair_ok) (simp add: enum_tables_ok_def c_tolower_letters upt_rec)

lemma file_data_restriction_ok: "enum_pair_ok file_data_restriction_to_numeric file_data_restriction_to_string"
  unfolding file_data_restriction_to_numeric_def file_data_restriction_to_string_def
  by (rule enum_tables_pair_ok) (simp add: enum_tables_ok_def c_tolower_letters upt_rec)

lemma system_category_ok: "enum_pair_ok system_category_to_numeric system_category_to_string"
  unfolding system_category_to_numeric_def system_category_to_string_def
  by (rule enum_tables_pair_ok) (simp add: enum_tables_ok_def c_tolower_letters upt_rec)

lemma system_restriction_ok: "enum_pair_ok system_restriction_to_numeric system_restriction_to_string"
  unfolding system_restriction_to_numeric_def system_restriction_to_string_def
  by (rule enum_tables_pair_ok) (simp add: enum_tables_ok_def c_tolower_letters upt_rec)

lemma system_spoofed_ok: "enum_pair_ok system_spoofed_to_numeric system_spoofed_to_string"
  unfolding system_spoofed_to_numeric_def system_spoofed_to_string_def
  by (rule enum_tables_pair_ok) (simp add: enum_tables_ok_def c_tolower_letters upt_rec)

lemma system_virtual_ok: "enum_pair_ok system_virtual_to_numeric system_virtual_to_string"
  unfolding system_virtual_to_numeric_def system_virtual_to_string_def
  by (rule enum_tables_pair_ok) (simp add: enum_tables_ok_def c_tolower_letters upt_rec)

lemma system_ownership_ok: "enum_pair_ok system_ownership_to_numeric system_ownership_to_string"
  unfolding system_ownership_to_numeric_def system_ownership_to_string_def
  by (rule enum_tables_pair_ok) (simp add: enum_tables_ok_def c_tolower_letters upt_rec)

lemma record_data_restriction_ok: "enum_pair_ok record_data_restriction_to_numeric record_data_restriction_to_string"
  unfolding record_data_restriction_to_numeric_def record_data_restriction_to_string_def
  by (rule enum_tables_pair_ok) (simp add: enum_tables_ok_def c_tolower_letters upt_rec)

lemma record_restriction_ok: "enum_pair_ok record_restriction_to_numeric record_restriction_to_string"
  unfolding record_restriction_to_numeric_def record_restriction_to_string_def
  by (rule enum_tables_pair_ok) (simp add: enum_tables_ok_def c_tolower_letters upt_rec)

lemma event_data_restriction_ok: "enum_pair_ok event_data_restriction_to_numeric event_data_restriction_to_string"
  unfolding event_data_restriction_to_numeric_def event_data_restriction_to_string_def
  by (rule enum_tables_pair_ok) (simp add: enum_tables_ok_def c_tolower_letters upt_rec)

lemma observable_restriction_ok: "enum_pair_ok observable_restriction_to_numeric observable_restriction_to_string"
  unfolding observable_restriction_to_numeric_def observable_restriction_to_string_def
  by (rule enum_tables_pair_ok) (simp add: enum_tables_ok_def c_tolower_letters upt_rec)

lemma indicator_expression_operator_ok: "enum_pair_ok indicator_expression_operator_to_numeric indicator_expression_operator_to_string"
  unfolding indicator_expression_operator_to_numeric_def indicator_expression_operator_to_string_def
  by (rule enum_tables_pair_ok) (simp add: enum_tables_ok_def c_tolower_letters upt_rec)

lemma indicator_restriction_ok: "enum_pair_ok indicator_restriction_to_numeric indicator_restriction_to_string"
  unfolding indicator_restriction_to_numeric_def indicator_restriction_to_string_def
  by (rule enum_tables_pair_ok) (simp add: enum_tables_ok_def c_tolower_letters upt_rec)

lemma incident_status_ok: "enum_pair_ok incident_status_to_numeric incident_status_to_string"
  unfolding incident_status_to_numeric_def incident_status_to_string_def
  by (rule enum_tables_pair_ok) (simp add: enum_tables_ok_def c_tolower_letters upt_rec)

lemma incident_lang_ok: "enum_pair_ok incident_lang_to_numeric incident_lang_to_string"
  unfolding incident_lang_to_numeric_def incident_lang_to_string_def
  by (rule enum_tables_pair_ok) (simp add: enum_tables_ok_def c_tolower_letters upt_rec)

lemma incident_purpose_ok: "enum_pair_ok incident_purpose_to_numeric incident_purpose_to_string"
  unfolding incident_purpose_to_numeric_def incident_purpose_to_string_def
  by (rule enum_tables_pair_ok) (simp add: enum_tables_ok_def c_tolower_letters upt_rec)

lemma incident_restriction_ok: "enum_pair_ok incident_restriction_to_numeric incident_restriction_to_string"
  unfolding incident_restriction_to_numeric_def incident_restriction_to_string_def
  by (rule enum_tables_pair_ok) (simp add: enum_tables_ok_def c_tolower_letters upt_rec)

lemma document_lang_ok: "enum_pair_ok document_lang_to_numeric document_lang_to_string"
  unfolding document_lang_to_numeric_def document_lang_to_string_def
  by (rule enum_tables_pair_ok) (simp add: enum_tables_ok_def c_tolower_letters upt_rec)

text \<open>All enumerations by name.\<close>

definition enum_functions :: "(string \<times> (string option \<Rightarrow> int res) \<times> (int \<Rightarrow> string option)) list" where
  "enum_functions = [
     (''telephone_type'', telephone_type_to_numeric, telephone_type_to_string),
     (''key_registryaction'', key_registryaction_to_numeric, key_registryaction_to_string),
     (''registry_handle_registry'', registry_handle_registry_to_numeric, registry_handle_registry_to_string),
     (''time_impact_duration'', time_impact_duration_to_numeric, time_impact_duration_to_string),
     (''time_impact_metric'', time_impact_metric_to_numeric, time_impact_metric_to_string),
     (''time_impact_severity'', time_impact_severity_to_numeric, time_impact_severity_to_string),
     (''record_pattern_offsetunit'', record_pattern_offsetunit_to_numeric, record_pattern_offsetunit_to_string),
     (''record_pattern_type'', record_pattern_type_to_numeric, record_pattern_type_to_string),
     (''postal_address_type'', postal_address_type_to_numeric, postal_address_type_to_string),
     (''node_role_category'', node_role_category_to_numeric, node_role_category_to_string),
     (''incident_id_restriction'', incident_id_restriction_to_numeric, incident_id_restriction_to_string),
     (''alternative_indicator_id_restriction'', alternative_indicator_id_restriction_to_numeric, alternative_indicator_id_restriction_to_string),
     (''confidence_rating'', confidence_rating_to_numeric, confidence_rating_to_string),
     (''system_impact_completion'', system_impact_completion_to_numeric, system_impact_completion_to_string),
     (''system_impact_type'', system_impact_type_to_numeric, system_impact_type_to_string),
     (''system_impact_severity'', system_impact_severity_to_numeric, system_impact_severity_to_string),
     (''software_reference_dtype'', software_reference_dtype_to_numeric, software_reference_dtype_to_string),
     (''business_impact_type'', business_impact_type_to_numeric, business_impact_type_to_string),
     (''business_impact_severity'', business_impact_severity_to_numeric, business_impact_severity_to_string),
     (''email_type'', email_type_to_numeric, email_type_to_string),
     (''intended_impact_type'', intended_impact_type_to_numeric, intended_impact_type_to_string),
     (''intended_impact_severity'', intended_impact_severity_to_numeric, intended_impact_severity_to_string),
     (''additional_data_restriction'', additional_data_restriction_to_numeric, additional_data_restriction_to_string),
     (''additional_data_type'', additional_data_type_to_numeric, additional_data_type_to_string),
     (''counter_unit'', counter_unit_to_numeric, counter_unit_to_string),
     (''counter_duration'', counter_duration_to_numeric, counter_duration_to_string),
     (''counter_type'', counter_type_to_numeric, counter_type_to_string),
     (''monetary_impact_severity'', monetary_impact_severity_to_numeric, monetary_impact_severity_to_string),
     (''address_category'', address_category_to_numeric, address_category_to_string),
     (''certificate_data_restriction'', certificate_data_restriction_to_numeric, certificate_data_restriction_to_string),
     (''threat_actor_restriction'', threat_actor_restriction_to_numeric, threat_actor_restriction_to_string),
     (''method_restriction'', method_restriction_to_numeric, method_restriction_to_string),
     (''alternative_id_restriction'', alternative_id_restriction_to_numeric, alternative_id_restriction_to_string),
     (''campaign_restriction'', campaign_restriction_to_numeric, campaign_restriction_to_string),
     (''assessment_restriction'', assessment_restriction_to_numeric, assessment_restriction_to_string),
     (''assessment_occurrence'', assessment_occurrence_to_numeric, assessment_occurrence_to_string),
     (''contact_restriction'', contact_restriction_to_numeric, contact_restriction_to_string),
     (''contact_role'', contact_role_to_numeric, contact_role_to_string),
     (''contact_type'', contact_type_to_numeric, contact_type_to_string),
     (''related_activity_restriction'', related_activity_restriction_to_numeric, related_activity_restriction_to_string),
     (''history_item_action'', history_item_action_to_numeric, history_item_action_to_string),
     (''history_item_restriction'', history_item_restriction_to_numeric, history_item_restriction_to_string),
     (''detection_pattern_restriction'', detection_pattern_restriction_to_numeric, detection_pattern_restriction_to_string),
     (''expectation_restriction'', expectation_restriction_to_numeric, expectation_restriction_to_string),
     (''expectation_severity'', expectation_severity_to_numeric, expectation_severity_to_string),
     (''expectation_action'', expectation_action_to_numeric, expectation_action_to_string),
     (''domain_data_domain_status'', domain_data_domain_status_to_numeric, domain_data_domain_status_to_string),
     (''domain_data_system_status'', domain_data_system_status_to_numeric, domain_data_system_status_to_string),
     (''hash_data_scope'', hash_data_scope_to_numeric, hash_data_scope_to_string),
     (''history_restriction'', history_restriction_to_numeric, history_restriction_to_string),
     (''discovery_source'', discovery_source_to_numeric, discovery_source_to_string),
     (''discovery_restriction'', discovery_restriction_to_numeric, discovery_restriction_to_string),
     (''bulk_observable_type'', bulk_observable_type_to_numeric, bulk_observable_type_to_string),
     (''file_data_restriction'', file_data_restriction_to_numeric, file_data_restriction_to_string),
     (''system_category'', system_category_to_numeric, system_category_to_string),
     (''system_restriction'', system_restriction_to_numeric, system_restriction_to_string),
     (''system_spoofed'', system_spoofed_to_numeric, system_spoofed_to_string),
     (''system_virtual'', system_virtual_to_numeric, system_virtual_to_string),
     (''system_ownership'', system_ownership_to_numeric, system_ownership_to_string),
     (''record_data_restriction'', record_data_restriction_to_numeric, record_data_restriction_to_string),
     (''record_restriction'', record_restriction_to_numeric, record_restriction_to_string),
     (''event_data_restriction'', event_data_restriction_to_numeric, event_data_restriction_to_string),
     (''observable_restriction'', observable_restriction_to_numeric, observable_restriction_to_string),
     (''indicator_expression_operator'', indicator_expression_operator_to_numeric, indicator_expression_operator_to_string),
     (''indicator_restriction'', indicator_restriction_to_numeric, indicator_restriction_to_string),
     (''incident_status'', incident_status_to_numeric, incident_status_to_string),
     (''incident_lang'', incident_lang_to_numeric, incident_lang_to_string),
     (''incident_purpose'', incident_purpose_to_numeric, incident_purpose_to_string),
     (''incident_restriction'', incident_restriction_to_numeric, incident_restriction_to_string),
     (''document_lang'', document_lang_to_numeric, document_lang_to_string)]"

lemmas enums_ok =
  telephone_type_ok key_registryaction_ok registry_handle_registry_ok
  time_impact_duration_ok time_impact_metric_ok time_impact_severity_ok
  record_pattern_offsetunit_ok record_pattern_type_ok postal_address_type_ok
  node_role_category_ok incident_id_restriction_ok alternative_indicator_id_restriction_ok
  confidence_rating_ok system_impact_completion_ok system_impact_type_ok
  system_impact_severity_ok software_reference_dtype_ok business_impact_type_ok
  business_impact_severity_ok email_type_ok intended_impact_type_ok
  intended_impact_severity_ok additional_data_restriction_ok additional_data_type_ok
  counter_unit_ok counter_duration_ok counter_type_ok
  monetary_impact_severity_ok address_category_ok certificate_data_restriction_ok
  threat_actor_restriction_ok method_restriction_ok alternative_id_restriction_ok
  campaign_restriction_ok assessment_restriction_ok assessment_occurrence_ok
  contact_restriction_ok contact_role_ok contact_type_ok
  related_activity_restriction_ok history_item_action_ok history_item_restriction_ok
  detection_pattern_restriction_ok expectation_restriction_ok expectation_severity_ok
  expectation_action_ok domain_data_domain_status_ok domain_data_system_status_ok
  hash_data_scope_ok history_restriction_ok discovery_source_ok
  discovery_restriction_ok bulk_observable_type_ok file_data_restriction_ok
  system_category_ok system_restriction_ok system_spoofed_ok
  system_virtual_ok system_ownership_ok record_data_restriction_ok
  record_restriction_ok event_data_restriction_ok observable_restriction_ok
  indicator_expression_operator_ok indicator_restriction_ok incident_status_ok
  incident_lang_ok incident_purpose_ok incident_restriction_ok
  document_lang_ok

text \<open>
  C14. For each of the 70 enumerations of the schema: the string a value converts to converts back
  to that value, whatever its case, and every string that converts to a value is, without case,
  the string of that value.
\<close>

theorem enum_roundtrip:
  assumes "(name, num, str) \<in> set enum_functions"
  shows "(str v = Some n \<longrightarrow> strcaseeq m n \<longrightarrow> num (Some m) = Inr v) \<and>
    (num (Some m) = Inr v \<longrightarrow> (\<exists>n. str v = Some n \<and> strcaseeq m n))"
proof -
  have "\<forall>e \<in> set enum_functions. enum_pair_ok (fst (snd e)) (snd (snd e))"
    by (simp add: enum_functions_def enums_ok)
  then have "enum_pair_ok num str" using assms by fastforce
  then show ?thesis by (auto simp: enum_pair_ok_def)
qed

theorem enum_roundtrip_witness:
  "telephone_type_to_numeric (Some ''fax'') = Inr 3"
  using enum_roundtrip [of "''telephone_type''" telephone_type_to_numeric telephone_type_to_string 3 "''fax''" "''fax''"]
  by (simp add: enum_functions_def telephone_type_to_string_def enum_to_string_def)

text \<open>Six enumerations have empty tables, so none of their values can be read from a string.\<close>

lemma empty_enumerations:
  "incident_status_to_numeric (Some n) = Inl (EV ERROR_UNKNOWN_ENUM_STRING)"
  "incident_lang_to_numeric (Some n) = Inl (EV ERROR_UNKNOWN_ENUM_STRING)"
  "document_lang_to_numeric (Some n) = Inl (EV ERROR_UNKNOWN_ENUM_STRING)"
  by (simp_all add: incident_status_to_numeric_def incident_lang_to_numeric_def
      document_lang_to_numeric_def enum_to_numeric_def)

end
