(* ===== verification/TreeData.thy ===== *)
theory TreeData
  imports Enums
begin

text \<open>
  The schema tables of src/src/include/iodefv2-tree-data.h: for every class of the IODEF document
  the list of its children (name, whether it is a list, value type, class), and the table of all
  classes and enumerations indexed by class id. Both are constant data. The function pointers of
  a row are recorded by their presence, except the enumeration conversions, which are those of
  theory Enums.
\<close>

text \<open>The value types of src/src/include/iodefv2-value-type.h.\<close>

datatype vtype =
    VT_ERROR | VT_UNKNOWN | VT_INT8 | VT_UINT8 | VT_INT16 | VT_UINT16 | VT_INT32 | VT_UINT32
  | VT_INT64 | VT_UINT64 | VT_FLOAT | VT_DOUBLE | VT_STRING | VT_TIME | VT_DATA | VT_ENUM
  | VT_LIST | VT_CLASS

record child =
  child_name :: string
  child_list :: bool
  child_keyed_list :: bool
  child_type :: vtype
  child_class :: int
  child_union_id :: int

abbreviation Child :: "string \<Rightarrow> bool \<Rightarrow> bool \<Rightarrow> vtype \<Rightarrow> int \<Rightarrow> int \<Rightarrow> child" where
  "Child n l k t c u \<equiv> \<lparr>child_name = n, child_list = l, child_keyed_list = k, child_type = t,
     child_class = c, child_union_id = u\<rparr>"

record object =
  obj_name :: "string option"
  children_list :: "child list option"
  has_ops :: bool
  to_numeric :: "(string option \<Rightarrow> int res) option"
  to_string :: "(int \<Rightarrow> string option) option"
  is_listed :: bool

abbreviation Class_row :: "string \<Rightarrow> child list \<Rightarrow> bool \<Rightarrow> object" where
  "Class_row n cs l \<equiv> \<lparr>obj_name = Some n, children_list = Some cs, has_ops = True,
     to_numeric = None, to_string = None, is_listed = l\<rparr>"

abbreviation Enum_row ::
  "string \<Rightarrow> (string option \<Rightarrow> int res) \<Rightarrow> (int \<Rightarrow> string option) \<Rightarrow> object" where
  "Enum_row n num str \<equiv> \<lparr>obj_name = Some n, children_list = None, has_ops = False,
     to_numeric = Some num, to_string = Some str, is_listed = False\<rparr>"

abbreviation Empty_row :: "string option \<Rightarrow> object" where
  "Empty_row n \<equiv> \<lparr>obj_name = n, children_list = None, has_ops = False,
     to_numeric = None, to_string = None, is_listed = False\<rparr>"

section \<open>Children of each class\<close>

definition telephone_children_list :: "child list" where
  "telephone_children_list = [
     Child ''type'' False False VT_ENUM 2 0,
     Child ''ext_type'' False False VT_STRING 0 0,
     Child ''telephone_number'' False False VT_STRING 0 0,
     Child ''description'' False False VT_STRING 0 0]"

definition certificate_children_list :: "child list" where
  "certificate_children_list = [
     Child ''observable_id'' False False VT_STRING 0 0,
     Child ''x509_data'' False False VT_DATA 0 0,
     Child ''description'' False False VT_STRING 0 0]"

definition key_children_list :: "child list" where
  "key_children_list = [
     Child ''registryaction'' False False VT_ENUM 5 0,
     Child ''ext_registryaction'' False False VT_STRING 0 0,
     Child ''observable_id'' False False VT_STRING 0 0,
     Child ''key_name'' False False VT_STRING 0 0,
     Child ''key_value'' False False VT_STRING 0 0]"

definition observable_reference_children_list :: "child list" where
  "observable_reference_children_list = [
     Child ''uid_ref'' False False VT_STRING 0 0]"

definition registry_handle_children_list :: "child list" where
  "registry_handle_children_list = [
     Child ''registry'' False False VT_ENUM 11 0,
     Child ''ext_registry'' False False VT_STRING 0 0]"

definition time_impact_children_list :: "child list" where
  "time_impact_children_list = [
     Child ''ext_metric'' False False VT_STRING 0 0,
     Child ''duration'' False False VT_ENUM 13 0,
     Child ''metric'' False False VT_ENUM 14 0,
     Child ''severity'' False False VT_ENUM 15 0,
     Child ''ext_duration'' False False VT_STRING 0 0]"

definition record_pattern_children_list :: "child list" where
  "record_pattern_children_list = [
     Child ''instance'' False False VT_UINT32 0 0,
     Child ''ext_type'' False False VT_STRING 0 0,
     Child ''offset'' False False VT_UINT32 0 0,
     Child ''offsetunit'' False False VT_ENUM 17 0,
     Child ''ext_offsetunit'' False False VT_STRING 0 0,
     Child ''type'' False False VT_ENUM 18 0]"

definition reference_children_list :: "child list" where
  "reference_children_list = [
     Child ''observable_id'' False False VT_STRING 0 0,
     Child ''url'' False False VT_STRING 0 0,
     Child ''description'' False False VT_STRING 0 0,
     Child ''reference_name'' False False VT_STRING 0 0]"

definition postal_address_children_list :: "child list" where
  "postal_address_children_list = [
     Child ''type'' False False VT_ENUM 21 0,
     Child ''ext_type'' False False VT_STRING 0 0,
     Child ''p_address'' False False VT_STRING 0 0,
     Child ''description'' False False VT_STRING 0 0]"

definition node_role_children_list :: "child list" where
  "node_role_children_list = [
     Child ''category'' False False VT_ENUM 23 0,
     Child ''ext_category'' False False VT_STRING 0 0,
     Child ''description'' False False VT_STRING 0 0]"

definition incident_id_children_list :: "child list" where
  "incident_id_children_list = [
     Child ''instance'' False False VT_STRING 0 0,
     Child ''ext_restriction'' False False VT_STRING 0 0,
     Child ''name'' False False VT_STRING 0 0,
     Child ''restriction'' False False VT_ENUM 25 0]"

definition alternative_indicator_id_children_list :: "child list" where
  "alternative_indicator_id_children_list = [
     Child ''restriction'' False False VT_ENUM 27 0,
     Child ''ext_restriction'' False False VT_STRING 0 0,
     Child ''indicator_reference'' False False VT_STRING 0 0]"

definition confidence_children_list :: "child list" where
  "confidence_children_list = [
     Child ''rating'' False False VT_ENUM 29 0,
     Child ''ext_rating'' False False VT_STRING 0 0]"

definition system_impact_children_list :: "child list" where
  "system_impact_children_list = [
     Child ''completion'' False False VT_ENUM 31 0,
     Child ''type'' False False VT_ENUM 32 0,
     Child ''severity'' False False VT_ENUM 33 0,
     Child ''ext_type'' False False VT_STRING 0 0,
     Child ''description'' False False VT_STRING 0 0]"

definition software_reference_children_list :: "child list" where
  "software_reference_children_list = [
     Child ''dtype'' False False VT_ENUM 35 0,
     Child ''ext_spec_name'' False False VT_STRING 0 0,
     Child ''ext_dtype'' False False VT_STRING 0 0]"

definition business_impact_children_list :: "child list" where
  "business_impact_children_list = [
     Child ''ext_severity'' False False VT_STRING 0 0,
     Child ''type'' False False VT_ENUM 37 0,
     Child ''severity'' False False VT_ENUM 38 0,
     Child ''ext_type'' False False VT_STRING 0 0,
     Child ''description'' False False VT_STRING 0 0]"

definition indicator_reference_children_list :: "child list" where
  "indicator_reference_children_list = [
     Child ''uid_ref'' False False VT_STRING 0 0,
     Child ''version'' False False VT_STRING 0 0,
     Child ''euid_ref'' False False VT_STRING 0 0]"

definition email_children_list :: "child list" where
  "email_children_list = [
     Child ''type'' False False VT_ENUM 41 0,
     Child ''ext_type'' False False VT_STRING 0 0,
     Child ''email_to'' False False VT_STRING 0 0,
     Child ''description'' False False VT_STRING 0 0]"

definition intended_impact_children_list :: "child list" where
  "intended_impact_children_list = [
     Child ''ext_severity'' False False VT_STRING 0 0,
     Child ''type'' False False VT_ENUM 43 0,
     Child ''severity'' False False VT_ENUM 44 0,
     Child ''ext_type'' False False VT_STRING 0 0,
     Child ''description'' False False VT_STRING 0 0]"

definition additional_data_children_list :: "child list" where
  "additional_data_children_list = [
     Child ''restriction'' False False VT_ENUM 46 0,
     Child ''name'' False False VT_STRING 0 0,
     Child ''type'' False False VT_ENUM 47 0,
     Child ''ext_restriction'' False False VT_STRING 0 0,
     Child ''formatid'' False False VT_STRING 0 0,
     Child ''observable_id'' False False VT_STRING 0 0,
     Child ''meaning'' False False VT_STRING 0 0,
     Child ''ext_dtype'' False False VT_STRING 0 0,
     Child ''data'' False False VT_DATA 0 0]"

definition counter_children_list :: "child list" where
  "counter_children_list = [
     Child ''meaning'' False False VT_STRING 0 0,
     Child ''unit'' False False VT_ENUM 49 0,
     Child ''ext_type'' False False VT_STRING 0 0,
     Child ''duration'' False False VT_ENUM 50 0,
     Child ''ext_unit'' False False VT_STRING 0 0,
     Child ''type'' False False VT_ENUM 51 0,
     Child ''ext_duration'' False False VT_STRING 0 0]"

definition monetary_impact_children_list :: "child list" where
  "monetary_impact_children_list = [
     Child ''currency'' False False VT_STRING 0 0,
     Child ''severity'' False False VT_ENUM 53 0]"

definition service_name_children_list :: "child list" where
  "service_name_children_list = [
     Child ''url'' False False VT_STRING 0 0,
     Child ''iana_service'' False False VT_STRING 0 0,
     Child ''description'' False False VT_STRING 0 0]"

definition indicator_id_children_list :: "child list" where
  "indicator_id_children_list = [
     Child ''version'' False False VT_STRING 0 0,
     Child ''name'' False False VT_STRING 0 0]"

definition signature_data_children_list :: "child list" where
  "signature_data_children_list = [
     Child ''signature'' False False VT_STRING 0 0]"

definition address_children_list :: "child list" where
  "address_children_list = [
     Child ''category'' False False VT_ENUM 58 0,
     Child ''vlan_name'' False False VT_STRING 0 0,
     Child ''ext_category'' False False VT_STRING 0 0,
     Child ''vlan_num'' False False VT_STRING 0 0,
     Child ''observable_id'' False False VT_STRING 0 0]"

definition application_header_children_list :: "child list" where
  "application_header_children_list = [
     Child ''additional_data'' True False VT_CLASS 48 0]"

definition certificate_data_children_list :: "child list" where
  "certificate_data_children_list = [
     Child ''restriction'' False False VT_ENUM 61 0,
     Child ''ext_restriction'' False False VT_STRING 0 0,
     Child ''observable_id'' False False VT_STRING 0 0,
     Child ''certificate'' True False VT_CLASS 4 0]"

definition threat_actor_children_list :: "child list" where
  "threat_actor_children_list = [
     Child ''restriction'' False False VT_ENUM 63 0,
     Child ''ext_restriction'' False False VT_STRING 0 0,
     Child ''url'' False False VT_STRING 0 0,
     Child ''threat_actor_id'' False False VT_STRING 0 0,
     Child ''description'' False False VT_STRING 0 0,
     Child ''additional_data'' True False VT_CLASS 48 0]"

definition method_children_list :: "child list" where
  "method_children_list = [
     Child ''restriction'' False False VT_ENUM 65 0,
     Child ''ext_restriction'' False False VT_STRING 0 0,
     Child ''additional_data'' True False VT_CLASS 48 0,
     Child ''description'' False False VT_STRING 0 0,
     Child ''reference'' True False VT_CLASS 20 0]"

definition alternative_id_children_list :: "child list" where
  "alternative_id_children_list = [
     Child ''restriction'' False False VT_ENUM 67 0,
     Child ''ext_restriction'' False False VT_STRING 0 0,
     Child ''incident_id'' True False VT_CLASS 26 0]"

definition software_children_list :: "child list" where
  "software_children_list = [
     Child ''url'' False False VT_STRING 0 0,
     Child ''description'' False False VT_STRING 0 0,
     Child ''software_reference'' False False VT_CLASS 36 0]"

definition nameservers_children_list :: "child list" where
  "nameservers_children_list = [
     Child ''address'' True False VT_CLASS 59 0,
     Child ''server'' False False VT_STRING 0 0]"

definition windows_registry_keys_modified_children_list :: "child list" where
  "windows_registry_keys_modified_children_list = [
     Child ''observable_id'' False False VT_STRING 0 0,
     Child ''key'' True False VT_CLASS 6 0]"

definition campaign_children_list :: "child list" where
  "campaign_children_list = [
     Child ''restriction'' False False VT_ENUM 72 0,
     Child ''ext_restriction'' False False VT_STRING 0 0,
     Child ''url'' False False VT_STRING 0 0,
     Child ''additional_data'' True False VT_CLASS 48 0,
     Child ''description'' False False VT_STRING 0 0,
     Child ''campaign_id'' False False VT_STRING 0 0]"

definition assessment_children_list :: "child list" where
  "assessment_children_list = [
     Child ''restriction'' False False VT_ENUM 74 0,
     Child ''ext_restriction'' False False VT_STRING 0 0,
     Child ''occurrence'' False False VT_ENUM 75 0,
     Child ''observable_id'' False False VT_STRING 0 0,
     Child ''intended_impact'' True False VT_CLASS 45 0,
     Child ''confidence'' False False VT_CLASS 30 0,
     Child ''time_impact'' True False VT_CLASS 16 0,
     Child ''additional_data'' True False VT_CLASS 48 0,
     Child ''monetary_impact'' True False VT_CLASS 54 0,
     Child ''counter'' True False VT_CLASS 52 0,
     Child ''system_impact'' True False VT_CLASS 34 0,
     Child ''business_impact'' True False VT_CLASS 39 0,
     Child ''incident_category'' False False VT_STRING 0 0,
     Child ''mitigating_factor'' False False VT_STRING 0 0,
     Child ''cause'' False False VT_STRING 0 0]"

definition attack_phase_children_list :: "child list" where
  "attack_phase_children_list = [
     Child ''url'' False False VT_STRING 0 0,
     Child ''additional_data'' True False VT_CLASS 48 0,
     Child ''description'' False False VT_STRING 0 0,
     Child ''attack_phase_id'' False False VT_STRING 0 0]"

definition contact_children_list :: "child list" where
  "contact_children_list = [
     Child ''restriction'' False False VT_ENUM 78 0,
     Child ''role'' False False VT_ENUM 79 0,
     Child ''ext_type'' False False VT_STRING 0 0,
     Child ''ext_role'' False False VT_STRING 0 0,
     Child ''ext_restriction'' False False VT_STRING 0 0,
     Child ''type'' False False VT_ENUM 80 0,
     Child ''additional_data'' True False VT_CLASS 48 0,
     Child ''contact_title'' False False VT_STRING 0 0,
     Child ''description'' False False VT_STRING 0 0,
     Child ''telephone'' True False VT_CLASS 3 0,
     Child ''email'' True False VT_CLASS 42 0,
     Child ''contact_name'' False False VT_STRING 0 0,
     Child ''timezone'' False False VT_STRING 0 0,
     Child ''postal_address'' True False VT_CLASS 22 0,
     Child ''registry_handle'' True False VT_CLASS 12 0]"

definition related_activity_children_list :: "child list" where
  "related_activity_children_list = [
     Child ''restriction'' False False VT_ENUM 82 0,
     Child ''ext_restriction'' False False VT_STRING 0 0,
     Child ''additional_data'' True False VT_CLASS 48 0,
     Child ''confidence'' False False VT_CLASS 30 0,
     Child ''description'' False False VT_STRING 0 0,
     Child ''campaign'' True False VT_CLASS 73 0,
     Child ''url'' False False VT_STRING 0 0,
     Child ''threat_actor'' True False VT_CLASS 64 0,
     Child ''indicator_id'' True False VT_CLASS 56 0,
     Child ''incident_id'' True False VT_CLASS 26 0]"

definition domain_contacts_children_list :: "child list" where
  "domain_contacts_children_list = [
     Child ''contact'' True False VT_CLASS 81 0,
     Child ''same_domain_contact'' False False VT_STRING 0 0]"

definition history_item_children_list :: "child list" where
  "history_item_children_list = [
     Child ''action'' False False VT_ENUM 85 0,
     Child ''restriction'' False False VT_ENUM 86 0,
     Child ''ext_action'' False False VT_STRING 0 0,
     Child ''ext_restriction'' False False VT_STRING 0 0,
     Child ''observable_id'' False False VT_STRING 0 0,
     Child ''additional_data'' True False VT_CLASS 48 0,
     Child ''contact'' False False VT_CLASS 81 0,
     Child ''defined_coa'' False False VT_STRING 0 0,
     Child ''description'' False False VT_STRING 0 0,
     Child ''incident_id'' False False VT_CLASS 26 0,
     Child ''date_time'' False False VT_TIME 0 0]"

definition fuzzy_hash_children_list :: "child list" where
  "fuzzy_hash_children_list = [
     Child ''additional_data'' True False VT_CLASS 48 0,
     Child ''software'' False False VT_CLASS 69 0]"

definition hash_children_list :: "child list" where
  "hash_children_list = [
     Child ''digest_value'' False False VT_STRING 0 0,
     Child ''digest_method'' False False VT_STRING 0 0,
     Child ''canonicalization_method'' False False VT_STRING 0 0,
     Child ''software'' False False VT_CLASS 69 0]"

definition detection_pattern_children_list :: "child list" where
  "detection_pattern_children_list = [
     Child ''restriction'' False False VT_ENUM 90 0,
     Child ''ext_restriction'' False False VT_STRING 0 0,
     Child ''observable_id'' False False VT_STRING 0 0,
     Child ''detection_configuration'' False False VT_STRING 0 0,
     Child ''description'' False False VT_STRING 0 0,
     Child ''software'' False False VT_CLASS 69 0]"

definition expectation_children_list :: "child list" where
  "expectation_children_list = [
     Child ''restriction'' False False VT_ENUM 92 0,
     Child ''ext_action'' False False VT_STRING 0 0,
     Child ''ext_severity'' False False VT_STRING 0 0,
     Child ''severity'' False False VT_ENUM 93 0,
     Child ''action'' False False VT_ENUM 94 0,
     Child ''ext_restriction'' False False VT_STRING 0 0,
     Child ''end_time'' False False VT_TIME 0 0,
     Child ''defined_coa'' False False VT_STRING 0 0,
     Child ''description'' False False VT_STRING 0 0,
     Child ''start_time'' False False VT_TIME 0 0,
     Child ''contact'' False False VT_CLASS 81 0]"

definition domain_data_children_list :: "child list" where
  "domain_data_children_list = [
     Child ''ext_domain_status'' False False VT_STRING 0 0,
     Child ''domain_status'' False False VT_ENUM 96 0,
     Child ''ext_system_status'' False False VT_STRING 0 0,
     Child ''observable_id'' False False VT_STRING 0 0,
     Child ''system_status'' False False VT_ENUM 97 0,
     Child ''additional_data'' True False VT_CLASS 48 0,
     Child ''name'' False False VT_STRING 0 0,
     Child ''nameservers'' True False VT_CLASS 70 0,
     Child ''registration_date'' False False VT_TIME 0 0,
     Child ''domain_contacts'' False False VT_CLASS 84 0,
     Child ''date_domain_was_checked'' False False VT_TIME 0 0,
     Child ''expiration_date'' False False VT_TIME 0 0]"

definition hash_data_children_list :: "child list" where
  "hash_data_children_list = [
     Child ''scope'' False False VT_ENUM 99 0,
     Child ''ext_scope'' False False VT_STRING 0 0,
     Child ''hash_target_id'' False False VT_STRING 0 0,
     Child ''hash'' False False VT_CLASS 89 0,
     Child ''fuzzy_hash'' False False VT_CLASS 88 0]"

definition bulk_observable_format_children_list :: "child list" where
  "bulk_observable_format_children_list = [
     Child ''additional_data'' True False VT_CLASS 48 0,
     Child ''hash'' False False VT_CLASS 89 0]"

definition history_children_list :: "child list" where
  "history_children_list = [
     Child ''restriction'' False False VT_ENUM 102 0,
     Child ''history_item'' True False VT_CLASS 87 0]"

definition discovery_children_list :: "child list" where
  "discovery_children_list = [
     Child ''source'' False False VT_ENUM 104 0,
     Child ''ext_restriction'' False False VT_STRING 0 0,
     Child ''ext_source'' False False VT_STRING 0 0,
     Child ''observable_id'' False False VT_STRING 0 0,
     Child ''restriction'' False False VT_ENUM 105 0,
     Child ''detection_pattern'' True False VT_CLASS 91 0,
     Child ''contact'' True False VT_CLASS 81 0,
     Child ''description'' False False VT_STRING 0 0]"

definition bulk_observable_children_list :: "child list" where
  "bulk_observable_children_list = [
     Child ''type'' False False VT_ENUM 107 0,
     Child ''ext_type'' False False VT_STRING 0 0,
     Child ''bulk_observable_list'' False False VT_STRING 0 0,
     Child ''bulk_observable_format'' False False VT_CLASS 101 0,
     Child ''additional_data'' True False VT_CLASS 48 0]"

definition email_data_children_list :: "child list" where
  "email_data_children_list = [
     Child ''observable_id'' False False VT_STRING 0 0,
     Child ''additional_data'' True False VT_CLASS 48 0,
     Child ''email_headers'' False False VT_STRING 0 0,
     Child ''signature_data'' True False VT_CLASS 57 0,
     Child ''email_subject'' False False VT_STRING 0 0,
     Child ''email_x_mailer'' False False VT_STRING 0 0,
     Child ''hash_data'' True False VT_CLASS 100 0,
     Child ''email_from'' False False VT_STRING 0 0,
     Child ''application_header'' False False VT_CLASS 60 0,
     Child ''email_body'' False False VT_STRING 0 0,
     Child ''email_message'' False False VT_STRING 0 0,
     Child ''email_to'' False False VT_STRING 0 0]"

definition file_children_list :: "child list" where
  "file_children_list = [
     Child ''observable_id'' False False VT_STRING 0 0,
     Child ''hash_data'' False False VT_CLASS 100 0,
     Child ''additional_data'' True False VT_CLASS 48 0,
     Child ''signature_data'' False False VT_CLASS 57 0,
     Child ''url'' False False VT_STRING 0 0,
     Child ''software'' False False VT_CLASS 69 0,
     Child ''file_name'' False False VT_STRING 0 0]"

definition node_children_list :: "child list" where
  "node_children_list = [
     Child ''postal_address'' False False VT_STRING 0 0,
     Child ''counter'' True False VT_CLASS 52 0,
     Child ''location'' False False VT_STRING 0 0,
     Child ''domain_data'' True False VT_CLASS 98 0,
     Child ''address'' True False VT_CLASS 59 0]"

definition service_children_list :: "child list" where
  "service_children_list = [
     Child ''ip_protocol'' False False VT_UINT32 0 0,
     Child ''observable_id'' False False VT_STRING 0 0,
     Child ''proto_code'' False False VT_UINT32 0 0,
     Child ''portlist'' False False VT_STRING 0 0,
     Child ''proto_field'' False False VT_UINT32 0 0,
     Child ''service_name'' False False VT_CLASS 55 0,
     Child ''application_header'' False False VT_CLASS 60 0,
     Child ''email_data'' False False VT_CLASS 109 0,
     Child ''proto_type'' False False VT_UINT32 0 0,
     Child ''port'' False False VT_UINT32 0 0,
     Child ''software'' True False VT_CLASS 69 0]"

definition file_data_children_list :: "child list" where
  "file_data_children_list = [
     Child ''restriction'' False False VT_ENUM 113 0,
     Child ''ext_restriction'' False False VT_STRING 0 0,
     Child ''observable_id'' False False VT_STRING 0 0,
     Child ''file'' True False VT_CLASS 110 0]"

definition system_children_list :: "child list" where
  "system_children_list = [
     Child ''category'' False False VT_ENUM 115 0,
     Child ''restriction'' False False VT_ENUM 116 0,
     Child ''ext_restriction'' False False VT_STRING 0 0,
     Child ''ext_ownership'' False False VT_STRING 0 0,
     Child ''ext_category'' False False VT_STRING 0 0,
     Child ''spoofed'' False False VT_ENUM 117 0,
     Child ''virtual'' False False VT_ENUM 118 0,
     Child ''observable_id'' False False VT_STRING 0 0,
     Child ''ownership'' False False VT_ENUM 119 0,
     Child ''interface'' False False VT_STRING 0 0,
     Child ''node'' False False VT_CLASS 111 0,
     Child ''additional_data'' True False VT_CLASS 48 0,
     Child ''description'' False False VT_STRING 0 0,
     Child ''service'' True False VT_CLASS 112 0,
     Child ''asset_id'' False False VT_STRING 0 0,
     Child ''counter'' True False VT_CLASS 52 0,
     Child ''node_role'' True False VT_CLASS 24 0,
     Child ''software'' False False VT_CLASS 69 0]"

definition record_data_children_list :: "child list" where
  "record_data_children_list = [
     Child ''restriction'' False False VT_ENUM 121 0,
     Child ''ext_restriction'' False False VT_STRING 0 0,
     Child ''observable_id'' False False VT_STRING 0 0,
     Child ''additional_data'' True False VT_CLASS 48 0,
     Child ''description'' False False VT_STRING 0 0,
     Child ''url'' False False VT_STRING 0 0,
     Child ''certificate_data'' True False VT_CLASS 62 0,
     Child ''record_pattern'' True False VT_CLASS 19 0,
     Child ''date_time'' False False VT_TIME 0 0,
     Child ''windows_registry_keys_modified'' True False VT_CLASS 71 0,
     Child ''file_data'' True False VT_CLASS 114 0,
     Child ''software'' False False VT_CLASS 69 0]"

definition record_children_list :: "child list" where
  "record_children_list = [
     Child ''restriction'' False False VT_ENUM 123 0,
     Child ''ext_restriction'' False False VT_STRING 0 0,
     Child ''record_data'' True False VT_CLASS 122 0]"

definition flow_children_list :: "child list" where
  "flow_children_list = [
     Child ''system'' True False VT_CLASS 120 0]"

definition event_data_children_list :: "child list" where
  "event_data_children_list = [
     Child ''restriction'' False False VT_ENUM 126 0,
     Child ''ext_restriction'' False False VT_STRING 0 0,
     Child ''observable_id'' False False VT_STRING 0 0,
     Child ''detect_time'' False False VT_TIME 0 0,
     Child ''additional_data'' True False VT_CLASS 48 0,
     Child ''report_time'' False False VT_TIME 0 0,
     Child ''description'' False False VT_STRING 0 0,
     Child ''flow'' True False VT_CLASS 125 0,
     Child ''expectation'' True False VT_CLASS 95 0,
     Child ''record'' False False VT_CLASS 124 0,
     Child ''contact'' True False VT_CLASS 81 0,
     Child ''start_time'' False False VT_TIME 0 0,
     Child ''end_time'' False False VT_TIME 0 0,
     Child ''assessment'' False False VT_CLASS 76 0,
     Child ''method'' True False VT_CLASS 66 0,
     Child ''recovery_time'' False False VT_TIME 0 0,
     Child ''discovery'' True False VT_CLASS 106 0]"

definition observable_children_list :: "child list" where
  "observable_children_list = [
     Child ''restriction'' False False VT_ENUM 128 0,
     Child ''ext_restriction'' False False VT_STRING 0 0,
     Child ''detection_pattern'' False False VT_CLASS 91 0,
     Child ''service'' False False VT_CLASS 112 0,
     Child ''additional_data'' True False VT_CLASS 48 0,
     Child ''system'' False False VT_CLASS 120 0,
     Child ''domain_data'' False False VT_CLASS 98 0,
     Child ''email_data'' False False VT_CLASS 109 0,
     Child ''assessment'' False False VT_CLASS 76 0,
     Child ''record_data'' False False VT_CLASS 122 0,
     Child ''reference'' False False VT_CLASS 20 0,
     Child ''history_item'' False False VT_CLASS 87 0,
     Child ''bulk_observable'' False False VT_CLASS 108 0,
     Child ''certificate_data'' False False VT_CLASS 62 0,
     Child ''expectation'' False False VT_CLASS 95 0,
     Child ''windows_registry_keys_modified'' False False VT_CLASS 71 0,
     Child ''address'' False False VT_CLASS 59 0,
     Child ''event_data'' False False VT_CLASS 127 0,
     Child ''file_data'' False False VT_CLASS 114 0,
     Child ''registry_handle'' False False VT_CLASS 12 0]"

definition indicator_expression_children_list :: "child list" where
  "indicator_expression_children_list = [
     Child ''operator'' False False VT_ENUM 130 0,
     Child ''ext_operator'' False False VT_STRING 0 0,
     Child ''indicator_reference'' True False VT_CLASS 40 0,
     Child ''observable'' True False VT_CLASS 129 0,
     Child ''confidence'' False False VT_CLASS 30 0,
     Child ''indicator_expression'' True False VT_CLASS 131 0,
     Child ''additional_data'' True False VT_CLASS 48 0]"

definition indicator_children_list :: "child list" where
  "indicator_children_list = [
     Child ''restriction'' False False VT_ENUM 132 0,
     Child ''ext_restriction'' False False VT_STRING 0 0,
     Child ''alternative_indicator_id'' True False VT_CLASS 28 0,
     Child ''confidence'' False False VT_CLASS 30 0,
     Child ''reference'' True False VT_CLASS 20 0,
     Child ''observable'' False False VT_CLASS 129 0,
     Child ''additional_data'' True False VT_CLASS 48 0,
     Child ''indicator_expression'' False False VT_CLASS 131 0,
     Child ''contact'' True False VT_CLASS 81 0,
     Child ''node_role'' True False VT_CLASS 24 0,
     Child ''start_time'' False False VT_TIME 0 0,
     Child ''indicator_id'' False False VT_CLASS 56 0,
     Child ''indicator_reference'' False False VT_CLASS 40 0,
     Child ''observable_reference'' False False VT_CLASS 7 0,
     Child ''attack_phase'' True False VT_CLASS 77 0,
     Child ''end_time'' False False VT_TIME 0 0]"

definition indicator_data_children_list :: "child list" where
  "indicator_data_children_list = [
     Child ''indicator'' True False VT_CLASS 133 0]"

definition incident_children_list :: "child list" where
  "incident_children_list = [
     Child ''status'' False False VT_ENUM 135 0,
     Child ''lang'' False False VT_ENUM 136 0,
     Child ''ext_purpose'' False False VT_STRING 0 0,
     Child ''purpose'' False False VT_ENUM 137 0,
     Child ''ext_status'' False False VT_STRING 0 0,
     Child ''restriction'' False False VT_ENUM 138 0,
     Child ''observable_id'' False False VT_STRING 0 0,
     Child ''additional_data'' True False VT_CLASS 48 0,
     Child ''history'' False False VT_CLASS 103 0,
     Child ''start_time'' False False VT_TIME 0 0,
     Child ''alternative_id'' False False VT_CLASS 68 0,
     Child ''contact'' True False VT_CLASS 81 0,
     Child ''related_activity'' False False VT_CLASS 83 0,
     Child ''end_time'' False False VT_TIME 0 0,
     Child ''generation_time'' False False VT_TIME 0 0,
     Child ''assessment'' True False VT_CLASS 76 0,
     Child ''method'' True False VT_CLASS 66 0,
     Child ''recovery_time'' False False VT_TIME 0 0,
     Child ''discovery'' True False VT_CLASS 106 0,
     Child ''detect_time'' False False VT_TIME 0 0,
     Child ''report_time'' False False VT_TIME 0 0,
     Child ''description'' False False VT_STRING 0 0,
     Child ''indicator_data'' False False VT_CLASS 134 0,
     Child ''event_data'' True False VT_CLASS 127 0,
     Child ''incident_id'' False False VT_CLASS 26 0]"

definition document_children_list :: "child list" where
  "document_children_list = [
     Child ''lang'' False False VT_ENUM 140 0,
     Child ''formatid'' False False VT_STRING 0 0,
     Child ''version'' False False VT_STRING 0 0,
     Child ''private_enum_name'' False False VT_STRING 0 0,
     Child ''private_enum_id'' False False VT_STRING 0 0,
     Child ''additional_data'' True False VT_CLASS 48 0,
     Child ''incident'' True False VT_CLASS 139 0]"

section \<open>All classes\<close>

definition object_data :: "object list" where
  "object_data = [
     Empty_row (Some ''(unassigned)''),
     Empty_row (Some ''(unassigned)''),
     Enum_row ''telephone_type'' telephone_type_to_numeric telephone_type_to_string,
     Class_row ''telephone'' telephone_children_list True,
     Class_row ''certificate'' certificate_children_list True,
     Enum_row ''key_registryaction'' key_registryaction_to_numeric key_registryaction_to_string,
     Class_row ''key'' key_children_list True,
     Class_row ''observable_reference'' observable_reference_children_list False,
     Empty_row (Some ''(unassigned)''),
     Empty_row (Some ''(unassigned)''),
     Empty_row (Some ''(unassigned)''),
     Enum_row ''registry_handle_registry'' registry_handle_registry_to_numeric registry_handle_registry_to_string,
     Class_row ''registry_handle'' registry_handle_children_list True,
     Enum_row ''time_impact_duration'' time_impact_duration_to_numeric time_impact_duration_to_string,
     Enum_row ''time_impact_metric'' time_impact_metric_to_numeric time_impact_metric_to_string,
     Enum_row ''time_impact_severity'' time_impact_severity_to_numeric time_impact_severity_to_string,
     Class_row ''time_impact'' time_impact_children_list True,
     Enum_row ''record_pattern_offsetunit'' record_pattern_offsetunit_to_numeric record_pattern_offsetunit_to_string,
     Enum_row ''record_pattern_type'' record_pattern_type_to_numeric record_pattern_type_to_string,
     Class_row ''record_pattern'' record_pattern_children_list True,
     Class_row ''reference'' reference_children_list True,
     Enum_row ''postal_address_type'' postal_address_type_to_numeric postal_address_type_to_string,
     Class_row ''postal_address'' postal_address_children_list True,
     Enum_row ''node_role_category'' node_role_category_to_numeric node_role_category_to_string,
     Class_row ''node_role'' node_role_children_list True,
     Enum_row ''incident_id_restriction'' incident_id_restriction_to_numeric incident_id_restriction_to_string,
     Class_row ''incident_id'' incident_id_children_list True,
     Enum_row ''alternative_indicator_id_restriction'' alternative_indicator_id_restriction_to_numeric alternative_indicator_id_restriction_to_string,
     Class_row ''alternative_indicator_id'' alternative_indicator_id_children_list True,
     Enum_row ''confidence_rating'' confidence_rating_to_numeric confidence_rating_to_string,
     Class_row ''confidence'' confidence_children_list False,
     Enum_row ''system_impact_completion'' system_impact_completion_to_numeric system_impact_completion_to_string,
     Enum_row ''system_impact_type'' system_impact_type_to_numeric system_impact_type_to_string,
     Enum_row ''system_impact_severity'' system_impact_severity_to_numeric system_impact_severity_to_string,
     Class_row ''system_impact'' system_impact_children_list True,
     Enum_row ''software_reference_dtype'' software_reference_dtype_to_numeric software_reference_dtype_to_string,
     Class_row ''software_reference'' software_reference_children_list False,
     Enum_row ''business_impact_type'' business_impact_type_to_numeric business_impact_type_to_string,
     Enum_row ''business_impact_severity'' business_impact_severity_to_numeric business_impact_severity_to_string,
     Class_row ''business_impact'' business_impact_children_list True,
     Class_row ''indicator_reference'' indicator_reference_children_list True,
     Enum_row ''email_type'' email_type_to_numeric email_type_to_string,
     Class_row ''email'' email_children_list True,
     Enum_row ''intended_impact_type'' intended_impact_type_to_numeric intended_impact_type_to_string,
     Enum_row ''intended_impact_severity'' intended_impact_severity_to_numeric intended_impact_severity_to_string,
     Class_row ''intended_impact'' intended_impact_children_list True,
     Enum_row ''additional_data_restriction'' additional_data_restriction_to_numeric additional_data_restriction_to_string,
     Enum_row ''additional_data_type'' additional_data_type_to_numeric additional_data_type_to_string,
     Class_row ''additional_data'' additional_data_children_list True,
     Enum_row ''counter_unit'' counter_unit_to_numeric counter_unit_to_string,
     Enum_row ''counter_duration'' counter_duration_to_numeric counter_duration_to_string,
     Enum_row ''counter_type'' counter_type_to_numeric counter_type_to_string,
     Class_row ''counter'' counter_children_list True,
     Enum_row ''monetary_impact_severity'' monetary_impact_severity_to_numeric monetary_impact_severity_to_string,
     Class_row ''monetary_impact'' monetary_impact_children_list True,
     Class_row ''service_name'' service_name_children_list False,
     Class_row ''indicator_id'' indicator_id_children_list True,
     Class_row ''signature_data'' signature_data_children_list True,
     Enum_row ''address_category'' address_category_to_numeric address_category_to_string,
     Class_row ''address'' address_children_list True,
     Class_row ''application_header'' application_header_children_list False,
     Enum_row ''certificate_data_restriction'' certificate_data_restriction_to_numeric certificate_data_restriction_to_string,
     Class_row ''certificate_data'' certificate_data_children_list True,
     Enum_row ''threat_actor_restriction'' threat_actor_restriction_to_numeric threat_actor_restriction_to_string,
     Class_row ''threat_actor'' threat_actor_children_list True,
     Enum_row ''method_restriction'' method_restriction_to_numeric method_restriction_to_string,
     Class_row ''method'' method_children_list True,
     Enum_row ''alternative_id_restriction'' alternative_id_restriction_to_numeric alternative_id_restriction_to_string,
     Class_row ''alternative_id'' alternative_id_children_list False,
     Class_row ''software'' software_children_list True,
     Class_row ''nameservers'' nameservers_children_list True,
     Class_row ''windows_registry_keys_modified'' windows_registry_keys_modified_children_list True,
     Enum_row ''campaign_restriction'' campaign_restriction_to_numeric campaign_restriction_to_string,
     Class_row ''campaign'' campaign_children_list True,
     Enum_row ''assessment_restriction'' assessment_restriction_to_numeric assessment_restriction_to_string,
     Enum_row ''assessment_occurrence'' assessment_occurrence_to_numeric assessment_occurrence_to_string,
     Class_row ''assessment'' assessment_children_list True,
     Class_row ''attack_phase'' attack_phase_children_list True,
     Enum_row ''contact_restriction'' contact_restriction_to_numeric contact_restriction_to_string,
     Enum_row ''contact_role'' contact_role_to_numeric contact_role_to_string,
     Enum_row ''contact_type'' contact_type_to_numeric contact_type_to_string,
     Class_row ''contact'' contact_children_list True,
     Enum_row ''related_activity_restriction'' related_activity_restriction_to_numeric related_activity_restriction_to_string,
     Class_row ''related_activity'' related_activity_children_list False,
     Class_row ''domain_contacts'' domain_contacts_children_list False,
     Enum_row ''history_item_action'' history_item_action_to_numeric history_item_action_to_string,
     Enum_row ''history_item_restriction'' history_item_restriction_to_numeric history_item_restriction_to_string,
     Class_row ''history_item'' history_item_children_list True,
     Class_row ''fuzzy_hash'' fuzzy_hash_children_list False,
     Class_row ''hash'' hash_children_list False,
     Enum_row ''detection_pattern_restriction'' detection_pattern_restriction_to_numeric detection_pattern_restriction_to_string,
     Class_row ''detection_pattern'' detection_pattern_children_list True,
     Enum_row ''expectation_restriction'' expectation_restriction_to_numeric expectation_restriction_to_string,
     Enum_row ''expectation_severity'' expectation_severity_to_numeric expectation_severity_to_string,
     Enum_row ''expectation_action'' expectation_action_to_numeric expectation_action_to_string,
     Class_row ''expectation'' expectation_children_list True,
     Enum_row ''domain_data_domain_status'' domain_data_domain_status_to_numeric domain_data_domain_status_to_string,
     Enum_row ''domain_data_system_status'' domain_data_system_status_to_numeric domain_data_system_status_to_string,
     Class_row ''domain_data'' domain_data_children_list True,
     Enum_row ''hash_data_scope'' hash_data_scope_to_numeric hash_data_scope_to_string,
     Class_row ''hash_data'' hash_data_children_list True,
     Class_row ''bulk_observable_format'' bulk_observable_format_children_list False,
     Enum_row ''history_restriction'' history_restriction_to_numeric history_restriction_to_string,
     Class_row ''history'' history_children_list False,
     Enum_row ''discovery_source'' discovery_source_to_numeric discovery_source_to_string,
     Enum_row ''discovery_restriction'' discovery_restriction_to_numeric discovery_restriction_to_string,
     Class_row ''discovery'' discovery_children_list True,
     Enum_row ''bulk_observable_type'' bulk_observable_type_to_numeric bulk_observable_type_to_string,
     Class_row ''bulk_observable'' bulk_observable_children_list False,
     Class_row ''email_data'' email_data_children_list False,
     Class_row ''file'' file_children_list True,
     Class_row ''node'' node_children_list False,
     Class_row ''service'' service_children_list True,
     Enum_row ''file_data_restriction'' file_data_restriction_to_numeric file_data_restriction_to_string,
     Class_row ''file_data'' file_data_children_list True,
     Enum_row ''system_category'' system_category_to_numeric system_category_to_string,
     Enum_row ''system_restriction'' system_restriction_to_numeric system_restriction_to_string,
     Enum_row ''system_spoofed'' system_spoofed_to_numeric system_spoofed_to_string,
     Enum_row ''system_virtual'' system_virtual_to_numeric system_virtual_to_string,
     Enum_row ''system_ownership'' system_ownership_to_numeric system_ownership_to_string,
     Class_row ''system'' system_children_list True,
     Enum_row ''record_data_restriction'' record_data_restriction_to_numeric record_data_restriction_to_string,
     Class_row ''record_data'' record_data_children_list True,
     Enum_row ''record_restriction'' record_restriction_to_numeric record_restriction_to_string,
     Class_row ''record'' record_children_list False,
     Class_row ''flow'' flow_children_list True,
     Enum_row ''event_data_restriction'' event_data_restriction_to_numeric event_data_restriction_to_string,
     Class_row ''event_data'' event_data_children_list True,
     Enum_row ''observable_restriction'' observable_restriction_to_numeric observable_restriction_to_string,
     Class_row ''observable'' observable_children_list True,
     Enum_row ''indicator_expression_operator'' indicator_expression_operator_to_numeric indicator_expression_operator_to_string,
     Class_row ''indicator_expression'' indicator_expression_children_list True,
     Enum_row ''indicator_restriction'' indicator_restriction_to_numeric indicator_restriction_to_string,
     Class_row ''indicator'' indicator_children_list True,
     Class_row ''indicator_data'' indicator_data_children_list False,
     Enum_row ''incident_status'' incident_status_to_numeric incident_status_to_string,
     Enum_row ''incident_lang'' incident_lang_to_numeric incident_lang_to_string,
     Enum_row ''incident_purpose'' incident_purpose_to_numeric incident_purpose_to_string,
     Enum_row ''incident_restriction'' incident_restriction_to_numeric incident_restriction_to_string,
     Class_row ''incident'' incident_children_list True,
     Enum_row ''document_lang'' document_lang_to_numeric document_lang_to_string,
     Class_row ''document'' document_children_list False,
     Empty_row None]"

text \<open>The rows by number.\<close>

lemma object_data_nth:
  "object_data ! 0 = Empty_row (Some ''(unassigned)'')"
  "object_data ! 1 = Empty_row (Some ''(unassigned)'')"
  "object_data ! 2 = Enum_row ''telephone_type'' telephone_type_to_numeric telephone_type_to_string"
  "object_data ! 3 = Class_row ''telephone'' telephone_children_list True"
  "object_data ! 4 = Class_row ''certificate'' certificate_children_list True"
  "object_data ! 5 = Enum_row ''key_registryaction'' key_registryaction_to_numeric key_registryaction_to_string"
  "object_data ! 6 = Class_row ''key'' key_children_list True"
  "object_data ! 7 = Class_row ''observable_reference'' observable_reference_children_list False"
  "object_data ! 8 = Empty_row (Some ''(unassigned)'')"
  "object_data ! 9 = Empty_row (Some ''(unassigned)'')"
  "object_data ! 10 = Empty_row (Some ''(unassigned)'')"
  "object_data ! 11 = Enum_row ''registry_handle_registry'' registry_handle_registry_to_numeric registry_handle_registry_to_string"
  "object_data ! 12 = Class_row ''registry_handle'' registry_handle_children_list True"
  "object_data ! 13 = Enum_row ''time_impact_duration'' time_impact_duration_to_numeric time_impact_duration_to_string"
  "object_data ! 14 = Enum_row ''time_impact_metric'' time_impact_metric_to_numeric time_impact_metric_to_string"
  "object_data ! 15 = Enum_row ''time_impact_severity'' time_impact_severity_to_numeric time_impact_severity_to_string"
  "object_data ! 16 = Class_row ''time_impact'' time_impact_children_list True"
  "object_data ! 17 = Enum_row ''record_pattern_offsetunit'' record_pattern_offsetunit_to_numeric record_pattern_offsetunit_to_string"
  "object_data ! 18 = Enum_row ''record_pattern_type'' record_pattern_type_to_numeric record_pattern_type_to_string"
  "object_data ! 19 = Class_row ''record_pattern'' record_pattern_children_list True"
  "object_data ! 20 = Class_row ''reference'' reference_children_list True"
  "object_data ! 21 = Enum_row ''postal_address_type'' postal_address_type_to_numeric postal_address_type_to_string"
  "object_data ! 22 = Class_row ''postal_address'' postal_address_children_list True"
  "object_data ! 23 = Enum_row ''node_role_category'' node_role_category_to_numeric node_role_category_to_string"
  "object_data ! 24 = Class_row ''node_role'' node_role_children_list True"
  "object_data ! 25 = Enum_row ''incident_id_restriction'' incident_id_restriction_to_numeric incident_id_restriction_to_string"
  "object_data ! 26 = Class_row ''incident_id'' incident_id_children_list True"
  "object_data ! 27 = Enum_row ''alternative_indicator_id_restriction'' alternative_indicator_id_restriction_to_numeric alternative_indicator_id_restriction_to_string"
  "object_data ! 28 = Class_row ''alternative_indicator_id'' alternative_indicator_id_children_list True"
  "object_data ! 29 = Enum_row ''confidence_rating'' confidence_rating_to_numeric confidence_rating_to_string"
  "object_data ! 30 = Class_row ''confidence'' confidence_children_list False"
  "object_data ! 31 = Enum_row ''system_impact_completion'' system_impact_completion_to_numeric system_impact_completion_to_string"
  "object_data ! 32 = Enum_row ''system_impact_type'' system_impact_type_to_numeric system_impact_type_to_string"
  "object_data ! 33 = Enum_row ''system_impact_severity'' system_impact_severity_to_numeric system_impact_severity_to_string"
  "object_data ! 34 = Class_row ''system_impact'' system_impact_children_list True"
  "object_data ! 35 = Enum_row ''software_reference_dtype'' software_reference_dtype_to_numeric software_reference_dtype_to_string"
  "object_data ! 36 = Class_row ''software_reference'' software_reference_children_list False"
  "object_data ! 37 = Enum_row ''business_impact_type'' business_impact_type_to_numeric business_impact_type_to_string"
  "object_data ! 38 = Enum_row ''business_impact_severity'' business_impact_severity_to_numeric business_impact_severity_to_string"
  "object_data ! 39 = Class_row ''business_impact'' business_impact_children_list True"
  "object_data ! 40 = Class_row ''indicator_reference'' indicator_reference_children_list True"
  "object_data ! 41 = Enum_row ''email_type'' email_type_to_numeric email_type_to_string"
  "object_data ! 42 = Class_row ''email'' email_children_list True"
  "object_data ! 43 = Enum_row ''intended_impact_type'' intended_impact_type_to_numeric intended_impact_type_to_string"
  "object_data ! 44 = Enum_row ''intended_impact_severity'' intended_impact_severity_to_numeric intended_impact_severity_to_string"
  "object_data ! 45 = Class_row ''intended_impact'' intended_impact_children_list True"
  "object_data ! 46 = Enum_row ''additional_data_restriction'' additional_data_restriction_to_numeric additional_data_restriction_to_string"
  "object_data ! 47 = Enum_row ''additional_data_type'' additional_data_type_to_numeric additional_data_type_to_string"
  "object_data ! 48 = Class_row ''additional_data'' additional_data_children_list True"
  "object_data ! 49 = Enum_row ''counter_unit'' counter_unit_to_numeric counter_unit_to_string"
  "object_data ! 50 = Enum_row ''counter_duration'' counter_duration_to_numeric counter_duration_to_string"
  "object_data ! 51 = Enum_row ''counter_type'' counter_type_to_numeric counter_type_to_string"
  "object_data ! 52 = Class_row ''counter'' counter_children_list True"
  "object_data ! 53 = Enum_row ''monetary_impact_severity'' monetary_impact_severity_to_numeric monetary_impact_severity_to_string"
  "object_data ! 54 = Class_row ''monetary_impact'' monetary_impact_children_list True"
  "object_data ! 55 = Class_row ''service_name'' service_name_children_list False"
  "object_data ! 56 = Class_row ''indicator_id'' indicator_id_children_list True"
  "object_data ! 57 = Class_row ''signature_data'' signature_data_children_list True"
  "object_data ! 58 = Enum_row ''address_category'' address_category_to_numeric address_category_to_string"
  "object_data ! 59 = Class_row ''address'' address_children_list True"
  "object_data ! 60 = Class_row ''application_header'' application_header_children_list False"
  "object_data ! 61 = Enum_row ''certificate_data_restriction'' certificate_data_restriction_to_numeric certificate_data_restriction_to_string"
  "object_data ! 62 = Class_row ''certificate_data'' certificate_data_children_list True"
  "object_data ! 63 = Enum_row ''threat_actor_restriction'' threat_actor_restriction_to_numeric threat_actor_restriction_to_string"
  "object_data ! 64 = Class_row ''threat_actor'' threat_actor_children_list True"
  "object_data ! 65 = Enum_row ''method_restriction'' method_restriction_to_numeric method_restriction_to_string"
  "object_data ! 66 = Class_row ''method'' method_children_list True"
  "object_data ! 67 = Enum_row ''alternative_id_restriction'' alternative_id_restriction_to_numeric alternative_id_restriction_to_string"
  "object_data ! 68 = Class_row ''alternative_id'' alternative_id_children_list False"
  "object_data ! 69 = Class_row ''software'' software_children_list True"
  "object_data ! 70 = Class_row ''nameservers'' nameservers_children_list True"
  "object_data ! 71 = Class_row ''windows_registry_keys_modified'' windows_registry_keys_modified_children_list True"
  "object_data ! 72 = Enum_row ''campaign_restriction'' campaign_restriction_to_numeric campaign_restriction_to_string"
  "object_data ! 73 = Class_row ''campaign'' campaign_children_list True"
  "object_data ! 74 = Enum_row ''assessment_restriction'' assessment_restriction_to_numeric assessment_restriction_to_string"
  "object_data ! 75 = Enum_row ''assessment_occurrence'' assessment_occurrence_to_numeric assessment_occurrence_to_string"
  "object_data ! 76 = Class_row ''assessment'' assessment_children_list True"
  "object_data ! 77 = Class_row ''attack_phase'' attack_phase_children_list True"
  "object_data ! 78 = Enum_row ''contact_restriction'' contact_restriction_to_numeric contact_restriction_to_string"
  "object_data ! 79 = Enum_row ''contact_role'' contact_role_to_numeric contact_role_to_string"
  "object_data ! 80 = Enum_row ''contact_type'' contact_type_to_numeric contact_type_to_string"
  "object_data ! 81 = Class_row ''contact'' contact_children_list True"
  "object_data ! 82 = Enum_row ''related_activity_restriction'' related_activity_restriction_to_numeric related_activity_restriction_to_string"
  "object_data ! 83 = Class_row ''related_activity'' related_activity_children_list False"
  "object_data ! 84 = Class_row ''domain_contacts'' domain_contacts_children_list False"
  "object_data ! 85 = Enum_row ''history_item_action'' history_item_action_to_numeric history_item_action_to_string"
  "object_data ! 86 = Enum_row ''history_item_restriction'' history_item_restriction_to_numeric history_item_restriction_to_string"
  "object_data ! 87 = Class_row ''history_item'' history_item_children_list True"
  "object_data ! 88 = Class_row ''fuzzy_hash'' fuzzy_hash_children_list False"
  "object_data ! 89 = Class_row ''hash'' hash_children_list False"
  "object_data ! 90 = Enum_row ''detection_pattern_restriction'' detection_pattern_restriction_to_numeric detection_pattern_restriction_to_string"
  "object_data ! 91 = Class_row ''detection_pattern'' detection_pattern_children_list True"
  "object_data ! 92 = Enum_row ''expectation_restriction'' expectation_restriction_to_numeric expectation_restriction_to_string"
  "object_data ! 93 = Enum_row ''expectation_severity'' expectation_severity_to_numeric expectation_severity_to_string"
  "object_data ! 94 = Enum_row ''expectation_action'' expectation_action_to_numeric expectation_action_to_string"
  "object_data ! 95 = Class_row ''expectation'' expectation_children_list True"
  "object_data ! 96 = Enum_row ''domain_data_domain_status'' domain_data_domain_status_to_numeric domain_data_domain_status_to_string"
  "object_data ! 97 = Enum_row ''domain_data_system_status'' domain_data_system_status_to_numeric domain_data_system_status_to_string"
  "object_data ! 98 = Class_row ''domain_data'' domain_data_children_list True"
  "object_data ! 99 = Enum_row ''hash_data_scope'' hash_data_scope_to_numeric hash_data_scope_to_string"
  "object_data ! 100 = Class_row ''hash_data'' hash_data_children_list True"
  "object_data ! 101 = Class_row ''bulk_observable_format'' bulk_observable_format_children_list False"
  "object_data ! 102 = Enum_row ''history_restriction'' history_restriction_to_numeric history_restriction_to_string"
  "object_data ! 103 = Class_row ''history'' history_children_list False"
  "object_data ! 104 = Enum_row ''discovery_source'' discovery_source_to_numeric discovery_source_to_string"
  "object_data ! 105 = Enum_row ''discovery_restriction'' discovery_restriction_to_numeric discovery_restriction_to_string"
  "object_data ! 106 = Class_row ''discovery'' discovery_children_list True"
  "object_data ! 107 = Enum_row ''bulk_observable_type'' bulk_observable_type_to_numeric bulk_observable_type_to_string"
  "object_data ! 108 = Class_row ''bulk_observable'' bulk_observable_children_list False"
  "object_data ! 109 = Class_row ''email_data'' email_data_children_list False"
  "object_data ! 110 = Class_row ''file'' file_children_list True"
  "object_data ! 111 = Class_row ''node'' node_children_list False"
  "object_data ! 112 = Class_row ''service'' service_children_list True"
  "object_data ! 113 = Enum_row ''file_data_restriction'' file_data_restriction_to_numeric file_data_restriction_to_string"
  "object_data ! 114 = Class_row ''file_data'' file_data_children_list True"
  "object_data ! 115 = Enum_row ''system_category'' system_category_to_numeric system_category_to_string"
  "object_data ! 116 = Enum_row ''system_restriction'' system_restriction_to_numeric system_restriction_to_string"
  "object_data ! 117 = Enum_row ''system_spoofed'' system_spoofed_to_numeric system_spoofed_to_string"
  "object_data ! 118 = Enum_row ''system_virtual'' system_virtual_to_numeric system_virtual_to_string"
  "object_data ! 119 = Enum_row ''system_ownership'' system_ownership_to_numeric system_ownership_to_string"
  "object_data ! 120 = Class_row ''system'' system_children_list True"
  "object_data ! 121 = Enum_row ''record_data_restriction'' record_data_restriction_to_numeric record_data_restriction_to_string"
  "object_data ! 122 = Class_row ''record_data'' record_data_children_list True"
  "object_data ! 123 = Enum_row ''record_restriction'' record_restriction_to_numeric record_restriction_to_string"
  "object_data ! 124 = Class_row ''record'' record_children_list False"
  "object_data ! 125 = Class_row ''flow'' flow_children_list True"
  "object_data ! 126 = Enum_row ''event_data_restriction'' event_data_restriction_to_numeric event_data_restriction_to_string"
  "object_data ! 127 = Class_row ''event_data'' event_data_children_list True"
  "object_data ! 128 = Enum_row ''observable_restriction'' observable_restriction_to_numeric observable_restriction_to_string"
  "object_data ! 129 = Class_row ''observable'' observable_children_list True"
  "object_data ! 130 = Enum_row ''indicator_expression_operator'' indicator_expression_operator_to_numeric indicator_expression_operator_to_string"
  "object_data ! 131 = Class_row ''indicator_expression'' indicator_expression_children_list True"
  "object_data ! 132 = Enum_row ''indicator_restriction'' indicator_restriction_to_numeric indicator_restriction_to_string"
  "object_data ! 133 = Class_row ''indicator'' indicator_children_list True"
  "object_data ! 134 = Class_row ''indicator_data'' indicator_data_children_list False"
  "object_data ! 135 = Enum_row ''incident_status'' incident_status_to_numeric incident_status_to_string"
  "object_data ! 136 = Enum_row ''incident_lang'' incident_lang_to_numeric incident_lang_to_string"
  "object_data ! 137 = Enum_row ''incident_purpose'' incident_purpose_to_numeric incident_purpose_to_string"
  "object_data ! 138 = Enum_row ''incident_restriction'' incident_restriction_to_numeric incident_restriction_to_string"
  "object_data ! 139 = Class_row ''incident'' incident_children_list True"
  "object_data ! 140 = Enum_row ''document_lang'' document_lang_to_numeric document_lang_to_string"
  "object_data ! 141 = Class_row ''document'' document_children_list False"
  "object_data ! 142 = Empty_row None"
  by (simp_all add: object_data_def)

lemma length_object_data: "length object_data = 143"
  by (simp add: object_data_def)

section \<open>The tables are consistent\<close>

text \<open>
  A child of class type names an existing class that has operations and the same name, and is a
  list only if the class is marked as listed; a child of enumeration type names an enumeration; other children name
  no class. No child is a keyed list or a union member in this schema, and no name has a dot or a
  parenthesis.
\<close>

definition child_ok :: "child \<Rightarrow> bool" where
  "child_ok c \<longleftrightarrow>
     (case child_type c of
        VT_CLASS \<Rightarrow> 0 \<le> child_class c \<and> child_class c < 142 \<and> has_ops (object_data ! nat (child_class c)) \<and>
          (child_list c \<longrightarrow> is_listed (object_data ! nat (child_class c))) \<and>
          obj_name (object_data ! nat (child_class c)) = Some (child_name c)
      | VT_ENUM \<Rightarrow> 0 \<le> child_class c \<and> child_class c < 142 \<and>
          to_numeric (object_data ! nat (child_class c)) \<noteq> None \<and>
          to_string (object_data ! nat (child_class c)) \<noteq> None \<and> \<not> child_list c
      | _ \<Rightarrow> child_class c = 0 \<and> \<not> child_list c) \<and>
     \<not> child_keyed_list c \<and> child_union_id c = 0 \<and>
     child_name c \<noteq> [] \<and> CHR ''.'' \<notin> set (child_name c) \<and> CHR ''('' \<notin> set (child_name c)"

definition children_ok :: "child list \<Rightarrow> bool" where
  "children_ok cs \<longleftrightarrow> list_all child_ok cs \<and>
     distinct (List.map (\<lambda>c. List.map c_tolower (child_name c)) cs)"

lemma c_tolower_names:
  "c_tolower CHR ''0'' = CHR ''0''"
  "c_tolower CHR ''5'' = CHR ''5''"
  "c_tolower CHR ''9'' = CHR ''9''"
  "c_tolower CHR ''_'' = CHR ''_''"
  by (simp_all add: c_tolower_def ccode_def)

lemmas table_simps = child_ok_def children_ok_def object_data_nth c_tolower_names c_tolower_letters

lemma telephone_children_ok: "children_ok telephone_children_list"
  by (simp add: telephone_children_list_def table_simps)

lemma certificate_children_ok: "children_ok certificate_children_list"
  by (simp add: certificate_children_list_def table_simps)

lemma key_children_ok: "children_ok key_children_list"
  by (simp add: key_children_list_def table_simps)

lemma observable_reference_children_ok: "children_ok observable_reference_children_list"
  by (simp add: observable_reference_children_list_def table_simps)

lemma registry_handle_children_ok: "children_ok registry_handle_children_list"
  by (simp add: registry_handle_children_list_def table_simps)

lemma time_impact_children_ok: "children_ok time_impact_children_list"
  by (simp add: time_impact_children_list_def table_simps)

lemma record_pattern_children_ok: "children_ok record_pattern_children_list"
  by (simp add: record_pattern_children_list_def table_simps)

lemma reference_children_ok: "children_ok reference_children_list"
  by (simp add: reference_children_list_def table_simps)

lemma postal_address_children_ok: "children_ok postal_address_children_list"
  by (simp add: postal_address_children_list_def table_simps)

lemma node_role_children_ok: "children_ok node_role_children_list"
  by (simp add: node_role_children_list_def table_simps)

lemma incident_id_children_ok: "children_ok incident_id_children_list"
  by (simp add: incident_id_children_list_def table_simps)

lemma alternative_indicator_id_children_ok: "children_ok alternative_indicator_id_children_list"
  by (simp add: alternative_indicator_id_children_list_def table_simps)

lemma confidence_children_ok: "children_ok confidence_children_list"
  by (simp add: confidence_children_list_def table_simps)

lemma system_impact_children_ok: "children_ok system_impact_children_list"
  by (simp add: system_impact_children_list_def table_simps)

lemma software_reference_children_ok: "children_ok software_reference_children_list"
  by (simp add: software_reference_children_list_def table_simps)

lemma business_impact_children_ok: "children_ok business_impact_children_list"
  by (simp add: business_impact_children_list_def table_simps)

lemma indicator_reference_children_ok: "children_ok indicator_reference_children_list"
  by (simp add: indicator_reference_children_list_def table_simps)

lemma email_children_ok: "children_ok email_children_list"
  by (simp add: email_children_list_def table_simps)

lemma intended_impact_children_ok: "children_ok intended_impact_children_list"
  by (simp add: intended_impact_children_list_def table_simps)

lemma additional_data_children_ok: "children_ok additional_data_children_list"
  by (simp add: additional_data_children_list_def table_simps)

lemma counter_children_ok: "children_ok counter_children_list"
  by (simp add: counter_children_list_def table_simps)

lemma monetary_impact_children_ok: "children_ok monetary_impact_children_list"
  by (simp add: monetary_impact_children_list_def table_simps)

lemma service_name_children_ok: "children_ok service_name_children_list"
  by (simp add: service_name_children_list_def table_simps)

lemma indicator_id_children_ok: "children_ok indicator_id_children_list"
  by (simp add: indicator_id_children_list_def table_simps)

lemma signature_data_children_ok: "children_ok signature_data_children_list"
  by (simp add: signature_data_children_list_def table_simps)

lemma address_children_ok: "children_ok address_children_list"
  by (simp add: address_children_list_def table_simps)

lemma application_header_children_ok: "children_ok application_header_children_list"
  by (simp add: application_header_children_list_def table_simps)

lemma certificate_data_children_ok: "children_ok certificate_data_children_list"
  by (simp add: certificate_data_children_list_def table_simps)

lemma threat_actor_children_ok: "children_ok threat_actor_children_list"
  by (simp add: threat_actor_children_list_def table_simps)

lemma method_children_ok: "children_ok method_children_list"
  by (simp add: method_children_list_def table_simps)

lemma alternative_id_children_ok: "children_ok alternative_id_children_list"
  by (simp add: alternative_id_children_list_def table_simps)

lemma software_children_ok: "children_ok software_children_list"
  by (simp add: software_children_list_def table_simps)

lemma nameservers_children_ok: "children_ok nameservers_children_list"
  by (simp add: nameservers_children_list_def table_simps)

lemma windows_registry_keys_modified_children_ok: "children_ok windows_registry_keys_modified_children_list"
  by (simp add: windows_registry_keys_modified_children_list_def table_simps)

lemma campaign_children_ok: "children_ok campaign_children_list"
  by (simp add: campaign_children_list_def table_simps)

lemma assessment_children_ok: "children_ok assessment_children_list"
  by (simp add: assessment_children_list_def table_simps)

lemma attack_phase_children_ok: "children_ok attack_phase_children_list"
  by (simp add: attack_phase_children_list_def table_simps)

lemma contact_children_ok: "children_ok contact_children_list"
  by (simp add: contact_children_list_def table_simps)

lemma related_activity_children_ok: "children_ok related_activity_children_list"
  by (simp add: related_activity_children_list_def table_simps)

lemma domain_contacts_children_ok: "children_ok domain_contacts_children_list"
  by (simp add: domain_contacts_children_list_def table_simps)

lemma history_item_children_ok: "children_ok history_item_children_list"
  by (simp add: history_item_children_list_def table_simps)

lemma fuzzy_hash_children_ok: "children_ok fuzzy_hash_children_list"
  by (simp add: fuzzy_hash_children_list_def table_simps)

lemma hash_children_ok: "children_ok hash_children_list"
  by (simp add: hash_children_list_def table_simps)

lemma detection_pattern_children_ok: "children_ok detection_pattern_children_list"
  by (simp add: detection_pattern_children_list_def table_simps)

lemma expectation_children_ok: "children_ok expectation_children_list"
  by (simp add: expectation_children_list_def table_simps)

lemma domain_data_children_ok: "children_ok domain_data_children_list"
  by (simp add: domain_data_children_list_def table_simps)

lemma hash_data_children_ok: "children_ok hash_data_children_list"
  by (simp add: hash_data_children_list_def table_simps)

lemma bulk_observable_format_children_ok: "children_ok bulk_observable_format_children_list"
  by (simp add: bulk_observable_format_children_list_def table_simps)

lemma history_children_ok: "children_ok history_children_list"
  by (simp add: history_children_list_def table_simps)

lemma discovery_children_ok: "children_ok discovery_children_list"
  by (simp add: discovery_children_list_def table_simps)

lemma bulk_observable_children_ok: "children_ok bulk_observable_children_list"
  by (simp add: bulk_observable_children_list_def table_simps)

lemma email_data_children_ok: "children_ok email_data_children_list"
  by (simp add: email_data_children_list_def table_simps)

lemma file_children_ok: "children_ok file_children_list"
  by (simp add: file_children_list_def table_simps)

lemma node_children_ok: "children_ok node_children_list"
  by (simp add: node_children_list_def table_simps)

lemma service_children_ok: "children_ok service_children_list"
  by (simp add: service_children_list_def table_simps)

lemma file_data_children_ok: "children_ok file_data_children_list"
  by (simp add: file_data_children_list_def table_simps)

lemma system_children_ok: "children_ok system_children_list"
  by (simp add: system_children_list_def table_simps)

lemma record_data_children_ok: "children_ok record_data_children_list"
  by (simp add: record_data_children_list_def table_simps)

lemma record_children_ok: "children_ok record_children_list"
  by (simp add: record_children_list_def table_simps)

lemma flow_children_ok: "children_ok flow_children_list"
  by (simp add: flow_children_list_def table_simps)

lemma event_data_children_ok: "children_ok event_data_children_list"
  by (simp add: event_data_children_list_def table_simps)

lemma observable_children_ok: "children_ok observable_children_list"
  by (simp add: observable_children_list_def table_simps)

lemma indicator_expression_children_ok: "children_ok indicator_expression_children_list"
  by (simp add: indicator_expression_children_list_def table_simps)

lemma indicator_children_ok: "children_ok indicator_children_list"
  by (simp add: indicator_children_list_def table_simps)

lemma indicator_data_children_ok: "children_ok indicator_data_children_list"
  by (simp add: indicator_data_children_list_def table_simps)

lemma incident_children_ok: "children_ok incident_children_list"
  by (simp add: incident_children_list_def table_simps)

lemma document_children_ok: "children_ok document_children_list"
  by (simp add: document_children_list_def table_simps)

lemmas all_children_ok =
  telephone_children_ok
  certificate_children_ok
  key_children_ok
  observable_reference_children_ok
  registry_handle_children_ok
  time_impact_children_ok
  record_pattern_children_ok
  reference_children_ok
  postal_address_children_ok
  node_role_children_ok
  incident_id_children_ok
  alternative_indicator_id_children_ok
  confidence_children_ok
  system_impact_children_ok
  software_reference_children_ok
  business_impact_children_ok
  indicator_reference_children_ok
  email_children_ok
  intended_impact_children_ok
  additional_data_children_ok
  counter_children_ok
  monetary_impact_children_ok
  service_name_children_ok
  indicator_id_children_ok
  signature_data_children_ok
  address_children_ok
  application_header_children_ok
  certificate_data_children_ok
  threat_actor_children_ok
  method_children_ok
  alternative_id_children_ok
  software_children_ok
  nameservers_children_ok
  windows_registry_keys_modified_children_ok
  campaign_children_ok
  assessment_children_ok
  attack_phase_children_ok
  contact_children_ok
  related_activity_children_ok
  domain_contacts_children_ok
  history_item_children_ok
  fuzzy_hash_children_ok
  hash_children_ok
  detection_pattern_children_ok
  expectation_children_ok
  domain_data_children_ok
  hash_data_children_ok
  bulk_observable_format_children_ok
  history_children_ok
  discovery_children_ok
  bulk_observable_children_ok
  email_data_children_ok
  file_children_ok
  node_children_ok
  service_children_ok
  file_data_children_ok
  system_children_ok
  record_data_children_ok
  record_children_ok
  flow_children_ok
  event_data_children_ok
  observable_children_ok
  indicator_expression_children_ok
  indicator_children_ok
  indicator_data_children_ok
  incident_children_ok
  document_children_ok

lemma object_data_children_ok:
  "list_all (\<lambda>r. case children_list r of Some cs \<Rightarrow> children_ok cs | None \<Rightarrow> True) object_data"
  by (simp add: object_data_def all_children_ok)

lemma object_data_ops: "list_all (\<lambda>r. has_ops r \<longleftrightarrow> children_list r \<noteq> None) object_data"
  by (simp add: object_data_def)

lemma object_data_enums:
  "list_all (\<lambda>r. case (to_numeric r, to_string r) of
     (Some num, Some str) \<Rightarrow> enum_pair_ok num str \<and> children_list r = None
   | (None, None) \<Rightarrow> True | _ \<Rightarrow> False) object_data"
  by (simp add: object_data_def enums_ok)

text \<open>The names by themselves.\<close>

definition object_names :: "string option list" where
  "object_names = [
     Some ''(unassigned)'',
     Some ''(unassigned)'',
     Some ''telephone_type'',
     Some ''telephone'',
     Some ''certificate'',
     Some ''key_registryaction'',
     Some ''key'',
     Some ''observable_reference'',
     Some ''(unassigned)'',
     Some ''(unassigned)'',
     Some ''(unassigned)'',
     Some ''registry_handle_registry'',
     Some ''registry_handle'',
     Some ''time_impact_duration'',
     Some ''time_impact_metric'',
     Some ''time_impact_severity'',
     Some ''time_impact'',
     Some ''record_pattern_offsetunit'',
     Some ''record_pattern_type'',
     Some ''record_pattern'',
     Some ''reference'',
     Some ''postal_address_type'',
     Some ''postal_address'',
     Some ''node_role_category'',
     Some ''node_role'',
     Some ''incident_id_restriction'',
     Some ''incident_id'',
     Some ''alternative_indicator_id_restriction'',
     Some ''alternative_indicator_id'',
     Some ''confidence_rating'',
     Some ''confidence'',
     Some ''system_impact_completion'',
     Some ''system_impact_type'',
     Some ''system_impact_severity'',
     Some ''system_impact'',
     Some ''software_reference_dtype'',
     Some ''software_reference'',
     Some ''business_impact_type'',
     Some ''business_impact_severity'',
     Some ''business_impact'',
     Some ''indicator_reference'',
     Some ''email_type'',
     Some ''email'',
     Some ''intended_impact_type'',
     Some ''intended_impact_severity'',
     Some ''intended_impact'',
     Some ''additional_data_restriction'',
     Some ''additional_data_type'',
     Some ''additional_data'',
     Some ''counter_unit'',
     Some ''counter_duration'',
     Some ''counter_type'',
     Some ''counter'',
     Some ''monetary_impact_severity'',
     Some ''monetary_impact'',
     Some ''service_name'',
     Some ''indicator_id'',
     Some ''signature_data'',
     Some ''address_category'',
     Some ''address'',
     Some ''application_header'',
     Some ''certificate_data_restriction'',
     Some ''certificate_data'',
     Some ''threat_actor_restriction'',
     Some ''threat_actor'',
     Some ''method_restriction'',
     Some ''method'',
     Some ''alternative_id_restriction'',
     Some ''alternative_id'',
     Some ''software'',
     Some ''nameservers'',
     Some ''windows_registry_keys_modified'',
     Some ''campaign_restriction'',
     Some ''campaign'',
     Some ''assessment_restriction'',
     Some ''assessment_occurrence'',
     Some ''assessment'',
     Some ''attack_phase'',
     Some ''contact_restriction'',
     Some ''contact_role'',
     Some ''contact_type'',
     Some ''contact'',
     Some ''related_activity_restriction'',
     Some ''related_activity'',
     Some ''domain_contacts'',
     Some ''history_item_action'',
     Some ''history_item_restriction'',
     Some ''history_item'',
     Some ''fuzzy_hash'',
     Some ''hash'',
     Some ''detection_pattern_restriction'',
     Some ''detection_pattern'',
     Some ''expectation_restriction'',
     Some ''expectation_severity'',
     Some ''expectation_action'',
     Some ''expectation'',
     Some ''domain_data_domain_status'',
     Some ''domain_data_system_status'',
     Some ''domain_data'',
     Some ''hash_data_scope'',
     Some ''hash_data'',
     Some ''bulk_observable_format'',
     Some ''history_restriction'',
     Some ''history'',
     Some ''discovery_source'',
     Some ''discovery_restriction'',
     Some ''discovery'',
     Some ''bulk_observable_type'',
     Some ''bulk_observable'',
     Some ''email_data'',
     Some ''file'',
     Some ''node'',
     Some ''service'',
     Some ''file_data_restriction'',
     Some ''file_data'',
     Some ''system_category'',
     Some ''system_restriction'',
     Some ''system_spoofed'',
     Some ''system_virtual'',
     Some ''system_ownership'',
     Some ''system'',
     Some ''record_data_restriction'',
     Some ''record_data'',
     Some ''record_restriction'',
     Some ''record'',
     Some ''flow'',
     Some ''event_data_restriction'',
     Some ''event_data'',
     Some ''observable_restriction'',
     Some ''observable'',
     Some ''indicator_expression_operator'',
     Some ''indicator_expression'',
     Some ''indicator_restriction'',
     Some ''indicator'',
     Some ''indicator_data'',
     Some ''incident_status'',
     Some ''incident_lang'',
     Some ''incident_purpose'',
     Some ''incident_restriction'',
     Some ''incident'',
     Some ''document_lang'',
     Some ''document'',
     None]"

lemma object_names: "List.map obj_name object_data = object_names"
  by (simp add: object_data_def object_names_def)

lemma object_data_named: "list_all (\<lambda>r. obj_name r \<noteq> None) (butlast object_data)"
  by (simp add: object_data_def)

end
