(* ===== verification/Class.thy ===== *)
theory Class
  imports TreeData
begin

text \<open>
  The class functions of src/src/iodefv2-class.c over the tables of theory TreeData. Ids are C
  integers; an invalid one is reported by \<open>is_class_valid\<close> and \<open>is_child_valid\<close>. The boolean
  functions return the error of these checks as a (non-zero) value. The operations of an object
  are reached through the function pointers of its row, which are NULL for enumerations; the
  pointed-to functions are the record \<open>object_ops\<close>.
\<close>

section \<open>Validity\<close>

definition is_class_valid :: "int \<Rightarrow> unit res" where
  "is_class_valid cls =
     (if cls < 0 \<or> nat cls \<ge> length object_data then Inl (EV ERROR_CLASS_UNKNOWN) else Inr ())"

definition object_row :: "int \<Rightarrow> object" where
  "object_row cls = object_data ! nat cls"

text \<open>\<open>children_list_elem\<close> of a row.\<close>

definition children_list_elem :: "object \<Rightarrow> nat" where
  "children_list_elem r = (case children_list r of Some cs \<Rightarrow> length cs | None \<Rightarrow> 0)"

definition is_child_valid :: "int \<Rightarrow> int \<Rightarrow> unit res" where
  "is_child_valid cls child =
     res_bind (is_class_valid cls) (\<lambda>_.
       if child < 0 \<or> nat child \<ge> children_list_elem (object_row cls)
       then Inl (EV ERROR_CLASS_UNKNOWN_CHILD) else Inr ())"

definition child_of :: "int \<Rightarrow> int \<Rightarrow> child" where
  "child_of cls child = the (children_list (object_row cls)) ! nat child"

section \<open>Schema queries\<close>

definition class_find_child :: "int \<Rightarrow> string \<Rightarrow> int res" where
  "class_find_child cls name =
     res_bind (is_class_valid cls) (\<lambda>_.
       case children_list (object_row cls) of
         None \<Rightarrow> Inl (EV ERROR_CLASS_UNKNOWN_CHILD)
       | Some cs \<Rightarrow> (case find_index (\<lambda>c. strcaseeq (child_name c) name) cs of
           Some i \<Rightarrow> Inr (int i)
         | None \<Rightarrow> Inl (EV ERROR_CLASS_UNKNOWN_CHILD)))"

definition class_is_child_union_member :: "int \<Rightarrow> int \<Rightarrow> bool res" where
  "class_is_child_union_member cls child =
     res_bind (is_child_valid cls child) (\<lambda>_. Inr (child_union_id (child_of cls child) > 0))"

definition class_is_child_list :: "int \<Rightarrow> int \<Rightarrow> bool res" where
  "class_is_child_list cls child =
     res_bind (is_child_valid cls child) (\<lambda>_. Inr (child_list (child_of cls child)))"

definition class_is_child_keyed_list :: "int \<Rightarrow> int \<Rightarrow> bool res" where
  "class_is_child_keyed_list cls child =
     res_bind (is_child_valid cls child) (\<lambda>_. Inr (child_keyed_list (child_of cls child)))"

definition class_get_child_value_type :: "int \<Rightarrow> int \<Rightarrow> vtype res" where
  "class_get_child_value_type cls child =
     res_bind (is_child_valid cls child) (\<lambda>_. Inr (child_type (child_of cls child)))"

definition class_get_child_count :: "int \<Rightarrow> nat res" where
  "class_get_child_count cls =
     res_bind (is_class_valid cls) (\<lambda>_. Inr (children_list_elem (object_row cls)))"

definition class_get_child_union_id :: "int \<Rightarrow> int \<Rightarrow> int res" where
  "class_get_child_union_id cls child =
     res_bind (is_child_valid cls child) (\<lambda>_.
       let c = child_of cls child in
       if child_union_id c = 0 then Inl (E ERROR_CLASS_CHILD_NOT_UNION) else Inr (child_union_id c))"

definition class_get_child_class :: "int \<Rightarrow> int \<Rightarrow> int res" where
  "class_get_child_class cls child =
     res_bind (is_child_valid cls child) (\<lambda>_.
       let c = child_of cls child in
       if child_type c \<noteq> VT_CLASS \<and> child_type c \<noteq> VT_ENUM then Inl (E ERROR_CLASS_CHILD_NOT_CLASS)
       else Inr (child_class c))"

definition class_get_child_name :: "int \<Rightarrow> int \<Rightarrow> string option" where
  "class_get_child_name cls child =
     (case is_child_valid cls child of
        Inl _ \<Rightarrow> None | Inr _ \<Rightarrow> Some (child_name (child_of cls child)))"

definition class_find :: "string \<Rightarrow> int res" where
  "class_find name =
     (case find_index (\<lambda>r. case obj_name r of None \<Rightarrow> True | Some n \<Rightarrow> strcaseeq n name) object_data of
        Some i \<Rightarrow> if obj_name (object_data ! i) = None then Inl (EV ERROR_CLASS_UNKNOWN_NAME)
                  else Inr (int i)
      | None \<Rightarrow> Inl (UB Out_of_bounds))"

definition class_enum_to_numeric :: "int \<Rightarrow> string option \<Rightarrow> int res" where
  "class_enum_to_numeric cls val =
     res_bind (is_class_valid cls) (\<lambda>_. case to_numeric (object_row cls) of
       None \<Rightarrow> Inl E_minus1 | Some f \<Rightarrow> f val)"

definition class_enum_to_string :: "int \<Rightarrow> int \<Rightarrow> string option" where
  "class_enum_to_string cls val =
     (case is_class_valid cls of
        Inl _ \<Rightarrow> None
      | Inr _ \<Rightarrow> (case to_string (object_row cls) of None \<Rightarrow> None | Some f \<Rightarrow> f val))"

definition class_get_name :: "int \<Rightarrow> string option" where
  "class_get_name cls = (case is_class_valid cls of
     Inl _ \<Rightarrow> None | Inr _ \<Rightarrow> obj_name (object_row cls))"

definition class_is_listed :: "int \<Rightarrow> bool res" where
  "class_is_listed cls = res_bind (is_class_valid cls) (\<lambda>_. Inr (is_listed (object_row cls)))"

section \<open>Dispatch on the class\<close>

text \<open>
  The generated accessors of one class: they work on the object and may change it (\<open>'o\<close> stands for
  the objects and \<open>'w\<close> for the output channel).
\<close>

record ('o, 'w) object_ops =
  op_get_child :: "'o \<Rightarrow> int \<Rightarrow> 'o option res"
  op_new_child :: "'o \<Rightarrow> int \<Rightarrow> int \<Rightarrow> ('o \<times> 'o) res"
  op_destroy_child :: "'o \<Rightarrow> int \<Rightarrow> int \<Rightarrow> 'o res"
  op_copy :: "'o \<Rightarrow> 'o \<Rightarrow> 'o res"
  op_clone :: "'o \<Rightarrow> 'o res"
  op_compare :: "'o \<Rightarrow> 'o \<Rightarrow> int res"
  op_print :: "'o \<Rightarrow> 'w \<Rightarrow> 'w res"
  op_print_json :: "'o \<Rightarrow> 'w \<Rightarrow> 'w res"
  op_print_binary :: "'o \<Rightarrow> 'w \<Rightarrow> 'w res"
  op_ref :: "'o \<Rightarrow> 'o"
  op_destroy :: "'o \<Rightarrow> 'o"

text \<open>Calling through a pointer of the row.\<close>

definition call_op :: "int \<Rightarrow> 'a res \<Rightarrow> 'a res" where
  "call_op cls r = (if has_ops (object_row cls) then r else Inl (UB Null_deref))"

definition class_get_child :: "(int \<Rightarrow> ('o, 'w) object_ops) \<Rightarrow> 'o \<Rightarrow> int \<Rightarrow> int \<Rightarrow> 'o option res" where
  "class_get_child ops ptr cls child =
     res_bind (is_child_valid cls child) (\<lambda>_. call_op cls (op_get_child (ops cls) ptr child))"

definition class_new_child :: "(int \<Rightarrow> ('o, 'w) object_ops) \<Rightarrow> 'o \<Rightarrow> int \<Rightarrow> int \<Rightarrow> int \<Rightarrow> ('o \<times> 'o) res" where
  "class_new_child ops ptr cls child n =
     res_bind (is_child_valid cls child) (\<lambda>_. call_op cls (op_new_child (ops cls) ptr child n))"

definition class_destroy_child :: "(int \<Rightarrow> ('o, 'w) object_ops) \<Rightarrow> 'o \<Rightarrow> int \<Rightarrow> int \<Rightarrow> int \<Rightarrow> 'o res" where
  "class_destroy_child ops ptr cls child n =
     res_bind (is_child_valid cls child) (\<lambda>_. call_op cls (op_destroy_child (ops cls) ptr child n))"

definition class_copy :: "(int \<Rightarrow> ('o, 'w) object_ops) \<Rightarrow> int \<Rightarrow> 'o \<Rightarrow> 'o \<Rightarrow> 'o res" where
  "class_copy ops cls src dst =
     res_bind (is_class_valid cls) (\<lambda>_. call_op cls (op_copy (ops cls) src dst))"

definition class_clone :: "(int \<Rightarrow> ('o, 'w) object_ops) \<Rightarrow> int \<Rightarrow> 'o \<Rightarrow> 'o res" where
  "class_clone ops cls src =
     res_bind (is_class_valid cls) (\<lambda>_. call_op cls (op_clone (ops cls) src))"

definition class_compare :: "(int \<Rightarrow> ('o, 'w) object_ops) \<Rightarrow> int \<Rightarrow> 'o \<Rightarrow> 'o \<Rightarrow> int res" where
  "class_compare ops cls c1 c2 =
     res_bind (is_class_valid cls) (\<lambda>_. call_op cls (op_compare (ops cls) c1 c2))"

definition class_destroy :: "(int \<Rightarrow> ('o, 'w) object_ops) \<Rightarrow> int \<Rightarrow> 'o \<Rightarrow> 'o res" where
  "class_destroy ops cls obj =
     res_bind (is_class_valid cls) (\<lambda>_. call_op cls (Inr (op_destroy (ops cls) obj)))"

definition class_ref :: "(int \<Rightarrow> ('o, 'w) object_ops) \<Rightarrow> int \<Rightarrow> 'o \<Rightarrow> 'o res" where
  "class_ref ops cls obj =
     res_bind (is_class_valid cls) (\<lambda>_. call_op cls (Inr (op_ref (ops cls) obj)))"

definition class_print :: "(int \<Rightarrow> ('o, 'w) object_ops) \<Rightarrow> int \<Rightarrow> 'o \<Rightarrow> 'w \<Rightarrow> 'w res" where
  "class_print ops cls obj fd =
     res_bind (is_class_valid cls) (\<lambda>_. call_op cls (op_print (ops cls) obj fd))"

definition class_print_json :: "(int \<Rightarrow> ('o, 'w) object_ops) \<Rightarrow> int \<Rightarrow> 'o \<Rightarrow> 'w \<Rightarrow> 'w res" where
  "class_print_json ops cls obj fd =
     res_bind (is_class_valid cls) (\<lambda>_. call_op cls (op_print_json (ops cls) obj fd))"

definition class_print_binary :: "(int \<Rightarrow> ('o, 'w) object_ops) \<Rightarrow> int \<Rightarrow> 'o \<Rightarrow> 'w \<Rightarrow> 'w res" where
  "class_print_binary ops cls obj fd =
     res_bind (is_class_valid cls) (\<lambda>_. call_op cls (op_print_binary (ops cls) obj fd))"

section \<open>The schema can be walked\<close>

lemma class_valid_iff: "is_class_valid cls = Inr u \<longleftrightarrow> 0 \<le> cls \<and> cls < 143"
  by (auto simp: is_class_valid_def length_object_data)

lemma child_valid_children:
  assumes "is_child_valid cls child = Inr u"
  obtains cs where "0 \<le> cls" "cls < 143" "children_list (object_row cls) = Some cs" "0 \<le> child"
    "nat child < length cs" "child_of cls child = cs ! nat child" "children_ok cs"
proof -
  have c: "0 \<le> cls" "cls < 143" "0 \<le> child" "nat child < children_list_elem (object_row cls)"
    using assms class_valid_iff by (auto simp: is_child_valid_def res_bind_Inr_iff split: if_splits)
  obtain cs where cs: "children_list (object_row cls) = Some cs" "nat child < length cs"
    using c(4) by (auto simp: children_list_elem_def split: option.splits)
  have "object_row cls \<in> set object_data"
    using c by (simp add: object_row_def length_object_data)
  then have "children_ok cs"
    using object_data_children_ok cs(1) by (auto simp: list_all_iff)
  then show thesis using that c cs by (simp add: child_of_def)
qed

lemma row_ops: "0 \<le> cls \<Longrightarrow> cls < 143 \<Longrightarrow> has_ops (object_row cls) \<longleftrightarrow> children_list (object_row cls) \<noteq> None"
  using object_data_ops by (simp add: list_all_iff object_row_def length_object_data)

lemma row_named: "0 \<le> cls \<Longrightarrow> cls < 142 \<Longrightarrow> obj_name (object_row cls) \<noteq> None"
  using object_data_named
  by (auto simp: list_all_length object_row_def length_object_data nth_butlast)

lemma row_enums:
  assumes "0 \<le> cls" "cls < 143" "to_numeric (object_row cls) = Some num" "to_string (object_row cls) = Some str"
  shows "enum_pair_ok num str"
proof -
  have "object_row cls \<in> set object_data"
    using assms(1,2) by (simp add: object_row_def length_object_data)
  then have "case (to_numeric (object_row cls), to_string (object_row cls)) of
     (Some num, Some str) \<Rightarrow> enum_pair_ok num str \<and> children_list (object_row cls) = None
   | (None, None) \<Rightarrow> True | _ \<Rightarrow> False"
    using object_data_enums unfolding list_all_iff by (rule bspec [rotated])
  then show ?thesis using assms(3,4) by simp
qed

text \<open>
  C15. For every child a class declares: looking its name up, in any case, finds that child; a
  child of class type leads to an existing class with a name, children and operations; a child of
  enumeration type leads to an enumeration whose two conversions agree.
\<close>

theorem schema_walk:
  assumes "is_child_valid cls child = Inr ()"
  shows "(\<exists>name. class_get_child_name cls child = Some name \<and>
      (\<forall>name'. strcaseeq name' name \<longrightarrow> class_find_child cls name' = Inr child)) \<and>
    (class_get_child_value_type cls child = Inr VT_CLASS \<longrightarrow>
      (\<exists>c n. class_get_child_class cls child = Inr c \<and> class_get_name c = Some n \<and>
        has_ops (object_row c) \<and> children_list (object_row c) \<noteq> None)) \<and>
    (class_get_child_value_type cls child = Inr VT_ENUM \<longrightarrow>
      (\<exists>c num str. class_get_child_class cls child = Inr c \<and> to_numeric (object_row c) = Some num \<and>
        to_string (object_row c) = Some str \<and> enum_pair_ok num str))"
proof -
  obtain cs where c: "0 \<le> cls" "cls < 143" "children_list (object_row cls) = Some cs" "0 \<le> child"
    "nat child < length cs" "child_of cls child = cs ! nat child" "children_ok cs"
    by (rule child_valid_children [OF assms])
  have ok: "child_ok (child_of cls child)"
    using c(5,6,7) by (simp add: children_ok_def list_all_length)
  have dis: "distinct (List.map (\<lambda>c. List.map c_tolower (child_name c)) cs)"
    using c(7) by (simp add: children_ok_def)
  have "find_index (\<lambda>c. strcaseeq (child_name c) name') cs = Some (nat child)"
    if "strcaseeq name' (child_name (child_of cls child))" for name'
  proof (rule find_index_first)
    show "strcaseeq (child_name (cs ! nat child)) name'" using that c(6) by (simp add: strcaseeq_def)
    show "\<forall>j < nat child. \<not> strcaseeq (child_name (cs ! j)) name'"
      using dis that c(5,6) by (auto simp: strcaseeq_def distinct_conv_nth)
  qed (rule c(5))
  then have f: "class_find_child cls name' = Inr child"
    if "strcaseeq name' (child_name (child_of cls child))" for name'
    using that c by (simp add: class_find_child_def is_class_valid_def length_object_data)
  have cl: "\<exists>c n. class_get_child_class cls child = Inr c \<and> class_get_name c = Some n \<and>
        has_ops (object_row c) \<and> children_list (object_row c) \<noteq> None"
    if "child_type (child_of cls child) = VT_CLASS"
  proof -
    let ?c = "child_class (child_of cls child)"
    have k: "0 \<le> ?c" "?c < 142" "has_ops (object_row ?c)"
      using ok that by (simp_all add: child_ok_def object_row_def)
    obtain n where "obj_name (object_row ?c) = Some n" using row_named [OF k(1,2)] by auto
    then show ?thesis
      using k row_ops [of ?c] that assms
      by (auto simp: class_get_child_class_def class_get_name_def Let_def is_class_valid_def length_object_data)
  qed
  have en: "\<exists>c num str. class_get_child_class cls child = Inr c \<and> to_numeric (object_row c) = Some num \<and>
        to_string (object_row c) = Some str \<and> enum_pair_ok num str"
    if "child_type (child_of cls child) = VT_ENUM"
  proof -
    let ?c = "child_class (child_of cls child)"
    have k: "0 \<le> ?c" "?c < 143" "to_numeric (object_row ?c) \<noteq> None" "to_string (object_row ?c) \<noteq> None"
      using ok that by (simp_all add: child_ok_def object_row_def)
    then obtain num str where "to_numeric (object_row ?c) = Some num" "to_string (object_row ?c) = Some str"
      by auto
    then show ?thesis
      using row_enums [OF k(1,2)] that assms by (auto simp: class_get_child_class_def Let_def)
  qed
  show ?thesis
    using f cl en assms by (simp add: class_get_child_name_def class_get_child_value_type_def)
qed

theorem schema_walk_witness:
  "\<exists>c n. class_get_child_class 141 6 = Inr c \<and> class_get_name c = Some n"
proof -
  have "is_child_valid 141 6 = Inr ()" "class_get_child_value_type 141 6 = Inr VT_CLASS"
    by (simp_all add: is_child_valid_def is_class_valid_def length_object_data children_list_elem_def
        object_row_def object_data_nth document_children_list_def class_get_child_value_type_def child_of_def)
  then show ?thesis using schema_walk [of 141 6] by blast
qed

text \<open>A number computed from a name, which makes comparing the 137 names cheap.\<close>

fun name_key :: "string \<Rightarrow> nat" where
  "name_key [] = 0"
| "name_key (c # s) = name_key s * 128 + ccode c"

lemma ccode_letters:
  "ccode CHR ''_'' = 95"
  "ccode CHR ''-'' = 45"
  "ccode CHR ''0'' = 48"
  "ccode CHR ''1'' = 49"
  "ccode CHR ''2'' = 50"
  "ccode CHR ''3'' = 51"
  "ccode CHR ''4'' = 52"
  "ccode CHR ''5'' = 53"
  "ccode CHR ''6'' = 54"
  "ccode CHR ''7'' = 55"
  "ccode CHR ''8'' = 56"
  "ccode CHR ''9'' = 57"
  "ccode CHR ''a'' = 97"
  "ccode CHR ''b'' = 98"
  "ccode CHR ''c'' = 99"
  "ccode CHR ''d'' = 100"
  "ccode CHR ''e'' = 101"
  "ccode CHR ''f'' = 102"
  "ccode CHR ''g'' = 103"
  "ccode CHR ''h'' = 104"
  "ccode CHR ''i'' = 105"
  "ccode CHR ''j'' = 106"
  "ccode CHR ''k'' = 107"
  "ccode CHR ''l'' = 108"
  "ccode CHR ''m'' = 109"
  "ccode CHR ''n'' = 110"
  "ccode CHR ''o'' = 111"
  "ccode CHR ''p'' = 112"
  "ccode CHR ''q'' = 113"
  "ccode CHR ''r'' = 114"
  "ccode CHR ''s'' = 115"
  "ccode CHR ''t'' = 116"
  "ccode CHR ''u'' = 117"
  "ccode CHR ''v'' = 118"
  "ccode CHR ''w'' = 119"
  "ccode CHR ''x'' = 120"
  "ccode CHR ''y'' = 121"
  "ccode CHR ''z'' = 122"
  by (simp_all add: ccode_def)

abbreviation named :: "string option \<Rightarrow> bool" where
  "named n \<equiv> n \<noteq> None \<and> n \<noteq> Some ''(unassigned)''"

lemma names_distinct: "distinct (filter named object_names)"
proof -
  have "distinct (List.map (map_option name_key) (filter named object_names))"
    by (simp add: object_names_def ccode_letters)
  then show ?thesis unfolding distinct_map by blast
qed

lemma names_lower:
  "list_all (\<lambda>n. named n \<longrightarrow> map_option (List.map c_tolower) n = n) object_names"
  by (simp add: object_names_def c_tolower_letters c_tolower_names)

lemma distinct_filter_nth:
  "distinct (filter p xs) \<Longrightarrow> i < length xs \<Longrightarrow> j < length xs \<Longrightarrow> p (xs ! i) \<Longrightarrow> xs ! i = xs ! j \<Longrightarrow> i = j"
proof (induction xs arbitrary: i j)
  case (Cons x xs)
  then show ?case
    by (cases i; cases j) (auto simp: nth_Cons' split: if_splits intro: nth_mem)
qed simp

lemma unassigned_lower: "List.map c_tolower ''(unassigned)'' = ''(unassigned)''"
  by (simp add: c_tolower_letters) (simp add: c_tolower_def ccode_def)

text \<open>
  C16. Every named class and enumeration is found by its name, in any case: \<open>class_find\<close> returns
  the id \<open>class_get_name\<close> was asked with.
\<close>

theorem class_find_name:
  assumes "class_get_name cls = Some n" "n \<noteq> ''(unassigned)''" "strcaseeq m n"
  shows "class_find m = Inr cls"
proof -
  have c: "0 \<le> cls" "cls < 143" and row: "obj_name (object_row cls) = Some n"
    using assms(1) by (auto simp: class_get_name_def is_class_valid_def length_object_data split: sum.splits if_splits)
  have len: "length object_names = 143" unfolding object_names [symmetric] by (simp add: length_object_data)
  have nm: "obj_name (object_data ! i) = object_names ! i" if "i < 143" for i
    using that unfolding object_names [symmetric] by (simp add: length_object_data)
  have lower: "named (object_names ! i) \<Longrightarrow> map_option (List.map c_tolower) (object_names ! i) = object_names ! i"
    if "i < 143" for i
    using names_lower that len by (simp add: list_all_length)
  let ?p = "\<lambda>r. case obj_name r of None \<Rightarrow> True | Some x \<Rightarrow> strcaseeq x m"
  have n0: "object_names ! nat cls = Some n" using row nm [of "nat cls"] c by (simp add: object_row_def)
  have named: "named (object_names ! nat cls)" using n0 assms(2) by simp
  have nl: "List.map c_tolower n = n" using lower [of "nat cls"] named n0 c by simp
  have ml: "List.map c_tolower m = n" using assms(3) nl by (simp add: strcaseeq_def)
  have "find_index ?p object_data = Some (nat cls)"
  proof (rule find_index_first)
    show "nat cls < length object_data" using c by (simp add: length_object_data)
    show "?p (object_data ! nat cls)" using row assms(3) by (simp add: object_row_def strcaseeq_def)
    show "\<forall>j < nat cls. \<not> ?p (object_data ! j)"
    proof (intro allI impI)
      fix j assume j: "j < nat cls"
      then have "j < 142" using c by simp
      then obtain x where x: "obj_name (object_data ! j) = Some x"
        using row_named [of "int j"] by (auto simp: object_row_def)
      then have nj: "object_names ! j = Some x" using nm [of j] \<open>j < 142\<close> by simp
      have "\<not> strcaseeq x m"
      proof
        assume "strcaseeq x m"
        then have xl: "List.map c_tolower x = n" using ml by (simp add: strcaseeq_def)
        show False
        proof (cases "x = ''(unassigned)''")
          case True
          then show False using xl unassigned_lower assms(2) by simp
        next
          case False
          then have "x = n" using lower [of j] nj xl \<open>j < 142\<close> by simp
          then have "nat cls = j"
            using distinct_filter_nth [OF names_distinct, of "nat cls" j] n0 nj named j c len \<open>j < 142\<close>
            by (simp add: nat_less_iff)
          then show False using j by simp
        qed
      qed
      then show "\<not> ?p (object_data ! j)" by (simp add: x)
    qed
  qed
  then show ?thesis using row c by (simp add: class_find_def object_row_def)
qed

lemma c_tolower_I: "c_tolower CHR ''I'' = CHR ''i''"
  by code_simp

theorem class_find_name_witness: "class_find ''Incident'' = Inr 139"
proof -
  have "class_get_name 139 = Some ''incident''"
    by (simp add: class_get_name_def is_class_valid_def length_object_data object_row_def object_data_nth)
  moreover have "strcaseeq ''Incident'' ''incident''"
    by (simp add: strcaseeq_def c_tolower_letters c_tolower_I)
  ultimately show ?thesis using class_find_name [of 139 "''incident''" "''Incident''"] by simp
qed

text \<open>
  The terminating row of the table passes the validity check although it has no name: the functions
  that print the class name in an error message then pass a NULL pointer to the formatter.
\<close>

lemma terminator_valid: "is_class_valid 142 = Inr () \<and> class_get_name 142 = None"
  by (simp add: is_class_valid_def class_get_name_def length_object_data object_row_def object_data_nth)

end
