(* ===== verification/CStd.thy ===== *)
theory CStd
  imports Prelude
begin

text \<open>
  The parts of the C library the modelled code calls: \<open>strtol\<close>/\<open>strtoul\<close>/\<open>strtoll\<close> (LP64: \<open>long\<close> has
  64 bits, glibc's prefixes and clamping), the decimal output of \<open>printf\<close>, and searching and
  splitting of strings.
\<close>

section \<open>Numbers in text\<close>

definition digit_val :: "char \<Rightarrow> nat option" where
  "digit_val c =
     (if 48 \<le> ccode c \<and> ccode c \<le> 57 then Some (ccode c - 48)
      else if 97 \<le> ccode c \<and> ccode c \<le> 122 then Some (ccode c - 87)
      else if 65 \<le> ccode c \<and> ccode c \<le> 90 then Some (ccode c - 55)
      else None)"

definition is_digit_in :: "nat \<Rightarrow> char \<Rightarrow> bool" where
  "is_digit_in base c \<longleftrightarrow> (case digit_val c of Some d \<Rightarrow> d < base | None \<Rightarrow> False)"

text \<open>The longest run of digits: its value and its length.\<close>

fun scan_digits :: "nat \<Rightarrow> nat \<Rightarrow> nat \<Rightarrow> string \<Rightarrow> nat \<times> nat" where
  "scan_digits base acc n (c # s) =
     (if is_digit_in base c then scan_digits base (acc * base + the (digit_val c)) (Suc n) s
      else (acc, n))"
| "scan_digits base acc n [] = (acc, n)"

text \<open>The base and the number of prefix characters, for the bases 0, 8, 10 and 16.\<close>

definition detect_base :: "nat \<Rightarrow> string \<Rightarrow> nat \<times> nat" where
  "detect_base base s =
     (case s of
        c # d # e # _ \<Rightarrow>
          if (base = 0 \<or> base = 16) \<and> c = CHR ''0'' \<and> (d = CHR ''x'' \<or> d = CHR ''X'') \<and> is_digit_in 16 e
          then (16, 2)
          else if base = 0 then (if c = CHR ''0'' then 8 else 10, 0) else (base, 0)
      | c # _ \<Rightarrow> if base = 0 then (if c = CHR ''0'' then 8 else 10, 0) else (base, 0)
      | [] \<Rightarrow> (if base = 0 then 10 else base, 0))"

text \<open>
  Spaces, sign and digits: whether there is a minus, the magnitude, and the number of characters
  consumed, which is 0 when there is no digit.
\<close>

definition scan_number :: "nat \<Rightarrow> string \<Rightarrow> bool \<times> nat \<times> nat" where
  "scan_number base s =
     (let spaces = length (takeWhile is_cspace s); s1 = drop spaces s;
          (neg, sgn) = (case s1 of c # _ \<Rightarrow> if c = CHR ''-'' then (True, 1)
                          else if c = CHR ''+'' then (False, 1) else (False, 0) | [] \<Rightarrow> (False, 0));
          s2 = drop sgn s1; (b, pre) = detect_base base s2;
          (v, n) = scan_digits b 0 0 (drop pre s2)
      in if n = 0 then (neg, 0, 0) else (neg, v, spaces + sgn + pre + n))"

definition LONG_MAX :: int where "LONG_MAX = 2 ^ 63 - 1"
definition LONG_MIN :: int where "LONG_MIN = - (2 ^ 63)"
definition ULONG_MAX :: int where "ULONG_MAX = 2 ^ 64 - 1"

text \<open>The value, the number of characters consumed, and whether \<open>errno\<close> is set to \<open>ERANGE\<close>.\<close>

definition strtol :: "nat \<Rightarrow> string \<Rightarrow> int \<times> nat \<times> bool" where
  "strtol base s = (let (neg, v, n) = scan_number base s; x = (if neg then - int v else int v) in
     if x > LONG_MAX then (LONG_MAX, n, True)
     else if x < LONG_MIN then (LONG_MIN, n, True)
     else (x, n, False))"

definition strtoul :: "nat \<Rightarrow> string \<Rightarrow> int \<times> nat \<times> bool" where
  "strtoul base s = (let (neg, v, n) = scan_number base s in
     if int v > ULONG_MAX then (ULONG_MAX, n, True)
     else ((if neg then (- int v) mod 2 ^ 64 else int v), n, False))"

text \<open>\<open>%u\<close> and \<open>%d\<close>.\<close>

definition digit_char :: "nat \<Rightarrow> char" where
  "digit_char d = char_of (48 + d)"

fun nat_dec :: "nat \<Rightarrow> string" where
  "nat_dec n = (if n < 10 then [digit_char n] else nat_dec (n div 10) @ [digit_char (n mod 10)])"

declare nat_dec.simps [simp del]

definition int_dec :: "int \<Rightarrow> string" where
  "int_dec i = (if i < 0 then CHR ''-'' # nat_dec (nat (- i)) else nat_dec (nat i))"

section \<open>Strings\<close>

fun split_at_char :: "char \<Rightarrow> string \<Rightarrow> string list" where
  "split_at_char sep [] = [[]]"
| "split_at_char sep (c # s) =
     (if c = sep then [] # split_at_char sep s
      else (case split_at_char sep s of t # ts \<Rightarrow> (c # t) # ts | [] \<Rightarrow> [[c]]))"

fun join_with :: "char \<Rightarrow> string list \<Rightarrow> string" where
  "join_with sep [] = []"
| "join_with sep [t] = t"
| "join_with sep (t # ts) = t @ sep # join_with sep ts"

lemma split_at_char_ne [simp]: "split_at_char sep s \<noteq> []"
  by (induction s) (auto split: list.splits)

lemma join_split [simp]: "join_with sep (split_at_char sep s) = s"
proof (induction s)
  case (Cons c s)
  obtain t ts where "split_at_char sep s = t # ts"
    using split_at_char_ne by (metis list.exhaust)
  then show ?case using Cons by (cases ts) auto
qed simp

lemma split_no_sep: "sep \<notin> set s \<Longrightarrow> split_at_char sep s = [s]"
  by (induction s) auto

lemma split_append_sep: "sep \<notin> set t \<Longrightarrow> split_at_char sep (t @ sep # s) = t # split_at_char sep s"
  by (induction t) auto

lemma split_join:
  "ts \<noteq> [] \<Longrightarrow> \<forall>t \<in> set ts. sep \<notin> set t \<Longrightarrow> split_at_char sep (join_with sep ts) = ts"
  by (induction sep ts rule: join_with.induct) (auto simp: split_no_sep split_append_sep)

section \<open>Reading back what was printed\<close>

lemma digit_val_char: "d < 10 \<Longrightarrow> digit_val (digit_char d) = Some d"
  by (simp add: digit_val_def digit_char_def ccode_def)

lemma ccode_digit_char: "d < 10 \<Longrightarrow> ccode (digit_char d) = 48 + d"
  by (simp add: digit_char_def ccode_def)

lemma nat_dec_chars: "c \<in> set (nat_dec n) \<Longrightarrow> \<exists>d < 10. c = digit_char d"
proof (induction n rule: nat_dec.induct)
  case (1 n)
  show ?case
  proof (cases "n < 10")
    case True
    then show ?thesis using 1(2) by (auto simp: nat_dec.simps [of n])
  next
    case False
    then have "c \<in> set (nat_dec (n div 10)) \<or> c = digit_char (n mod 10)"
      using 1(2) by (auto simp: nat_dec.simps [of n])
    then show ?thesis
    proof
      assume "c \<in> set (nat_dec (n div 10))"
      then show ?thesis using 1(1) False by blast
    next
      assume "c = digit_char (n mod 10)"
      then show ?thesis by (intro exI [of _ "n mod 10"]) simp
    qed
  qed
qed

lemma nat_dec_ne [simp]: "nat_dec n \<noteq> []"
  by (simp add: nat_dec.simps [of n])

lemma nat_dec_hd:
  "\<exists>d ds. nat_dec n = digit_char d # ds \<and> d < 10 \<and> (d = 0 \<longrightarrow> n = 0 \<and> ds = [])"
proof (induction n rule: nat_dec.induct)
  case (1 n)
  show ?case
  proof (cases "n < 10")
    case True
    then show ?thesis by (auto simp: nat_dec.simps [of n])
  next
    case False
    then obtain d ds where "nat_dec (n div 10) = digit_char d # ds" "d < 10" "d = 0 \<longrightarrow> n div 10 = 0 \<and> ds = []"
      using 1 by blast
    then show ?thesis using False
      by (intro exI [of _ d] exI [of _ "ds @ [digit_char (n mod 10)]"]) (auto simp: nat_dec.simps [of n])
  qed
qed

lemma scan_digits_append:
  "scan_digits 10 a k (nat_dec n @ s) =
     scan_digits 10 (a * 10 ^ length (nat_dec n) + n) (k + length (nat_dec n)) s"
proof (induction n arbitrary: s rule: nat_dec.induct)
  case (1 n)
  have m: "n mod 10 < 10" by simp
  show ?case
  proof (cases "n < 10")
    case True
    then show ?thesis by (simp add: nat_dec.simps [of n] is_digit_in_def digit_val_char)
  next
    case False
    have "(a * 10 ^ length (nat_dec (n div 10)) + n div 10) * 10 + n mod 10 =
        a * 10 ^ Suc (length (nat_dec (n div 10))) + n"
      by (simp add: algebra_simps)
    then show ?thesis
      using 1(1) [OF False, of "digit_char (n mod 10) # s"] False digit_val_char [OF m]
      by (simp add: nat_dec.simps [of n] is_digit_in_def ac_simps)
  qed
qed

text \<open>A decimal number without leading zeros is read the same in base 10 and in base 0.\<close>

lemma digit_char_facts:
  assumes "d < 10"
  shows "\<not> is_cspace (digit_char d)" "digit_char d \<noteq> CHR ''-''" "digit_char d \<noteq> CHR ''+''"
    "digit_char d = CHR ''0'' \<longleftrightarrow> d = 0" "digit_char d \<noteq> CHR ''x''" "digit_char d \<noteq> CHR ''X''"
proof -
  have c: "ccode (digit_char d) = 48 + d" by (rule ccode_digit_char [OF assms])
  have n: "ccode CHR ''-'' = 45" "ccode CHR ''+'' = 43" "ccode CHR ''0'' = 48" "ccode CHR '' '' = 32"
    "ccode CHR ''x'' = 120" "ccode CHR ''X'' = 88"
    by (simp_all add: ccode_def)
  show "\<not> is_cspace (digit_char d)" "digit_char d \<noteq> CHR ''-''" "digit_char d \<noteq> CHR ''+''"
    "digit_char d = CHR ''0'' \<longleftrightarrow> d = 0" "digit_char d \<noteq> CHR ''x''" "digit_char d \<noteq> CHR ''X''"
    using c n assms by (auto simp: is_cspace_def simp flip: ccode_inject)
qed

lemma scan_digits_stop: "s = [] \<or> \<not> is_digit_in b (hd s) \<Longrightarrow> scan_digits b a k s = (a, k)"
  by (cases s) auto

lemma digit_octal: "is_digit_in 8 c \<Longrightarrow> is_digit_in 10 c"
  by (auto simp: is_digit_in_def split: option.splits)

text \<open>Where a printed number stops: no further digit and no hexadecimal prefix.\<close>

definition number_end :: "string \<Rightarrow> bool" where
  "number_end s \<longleftrightarrow> s = [] \<or> (\<not> is_digit_in 10 (hd s) \<and> hd s \<noteq> CHR ''x'' \<and> hd s \<noteq> CHR ''X'')"

lemma scan_base_nat_dec:
  assumes "base = 0 \<or> base = 10" "number_end s"
  shows "(let (b, pre) = detect_base base (nat_dec n @ s) in (pre, scan_digits b 0 0 (drop pre (nat_dec n @ s))))
    = (0, n, length (nat_dec n))"
proof (cases "n = 0")
  case True
  have "digit_char 0 = CHR ''0''" by code_simp
  then have nd: "nat_dec 0 = ''0''" by (simp add: nat_dec.simps)
  have "detect_base base (''0'' @ s) \<in> {(8, 0), (10, 0)}"
    using assms by (auto simp: detect_base_def number_end_def split: list.splits)
  moreover have "scan_digits b 0 0 (CHR ''0'' # s) = (0, 1)" if "b = 8 \<or> b = 10" for b
  proof -
    have "digit_val CHR ''0'' = Some 0" by (simp add: digit_val_def ccode_def)
    moreover have "s = [] \<or> \<not> is_digit_in b (hd s)"
      using assms(2) that digit_octal by (auto simp: number_end_def)
    ultimately show ?thesis
      using scan_digits_stop [of s b 0 1] that by (auto simp: is_digit_in_def)
  qed
  ultimately show ?thesis using True nd by auto
next
  case False
  obtain d ds where d: "nat_dec n = digit_char d # ds" "d < 10" "d \<noteq> 0"
    using nat_dec_hd [of n] False by auto
  have "detect_base base (nat_dec n @ s) = (10, 0)"
    using d assms(1) digit_char_facts(4) [OF d(2)]
    by (auto simp: detect_base_def split: list.splits)
  moreover have "scan_digits 10 0 0 (nat_dec n @ s) = (n, length (nat_dec n))"
    using scan_digits_append [of 0 0 n s] scan_digits_stop [of s 10] assms(2)
    by (auto simp: number_end_def)
  ultimately show ?thesis by simp
qed

lemma scan_number_nat_dec:
  assumes "base = 0 \<or> base = 10" "number_end s"
  shows "scan_number base (nat_dec n @ s) = (False, n, length (nat_dec n))"
    and "scan_number base (CHR ''-'' # nat_dec n @ s) = (True, n, Suc (length (nat_dec n)))"
proof -
  obtain d ds where d: "nat_dec n = digit_char d # ds" "d < 10"
    using nat_dec_hd [of n] by auto
  obtain b pre where b: "detect_base base (nat_dec n @ s) = (b, pre)" by force
  have r: "pre = 0" "scan_digits b 0 0 (nat_dec n @ s) = (n, length (nat_dec n))"
    using scan_base_nat_dec [OF assms, of n] b by auto
  have sp: "takeWhile is_cspace (nat_dec n @ s) = []"
    using d digit_char_facts(1) by simp
  have minus: "\<not> is_cspace CHR ''-''" by (simp add: is_cspace_def ccode_def)
  have sg: "(case nat_dec n @ s of c # _ \<Rightarrow> if c = CHR ''-'' then (True, 1::nat)
       else if c = CHR ''+'' then (False, 1) else (False, 0) | [] \<Rightarrow> (False, 0)) = (False, 0)"
    using d digit_char_facts [OF d(2)] by simp
  show "scan_number base (nat_dec n @ s) = (False, n, length (nat_dec n))"
    unfolding scan_number_def Let_def sp list.size drop_0 sg prod.case b r(1) r(2) by simp
  show "scan_number base (CHR ''-'' # nat_dec n @ s) = (True, n, Suc (length (nat_dec n)))"
    unfolding scan_number_def Let_def using b r minus by simp
qed

text \<open>A number printed with \<open>%d\<close> that fits a \<open>long\<close> is read back whole.\<close>

lemma strtol_int_dec:
  assumes "base = 0 \<or> base = 10" "number_end s" "LONG_MIN \<le> i" "i \<le> LONG_MAX"
  shows "strtol base (int_dec i @ s) = (i, length (int_dec i), False)"
  using scan_number_nat_dec [OF assms(1,2)] assms(3,4)
  by (cases "i < 0") (simp_all add: strtol_def int_dec_def Let_def)

lemma int_dec_chars: "c \<in> set (int_dec i) \<Longrightarrow> c = CHR ''-'' \<or> (\<exists>d < 10. c = digit_char d)"
  using nat_dec_chars by (auto simp: int_dec_def split: if_splits)

lemma int_dec_ne [simp]: "int_dec i \<noteq> []"
  by (simp add: int_dec_def)

end
