(* ===== verification/Path.thy ===== *)
theory Path
  imports Class CStd CList
begin

text \<open>
  The paths of src/src/iodefv2-path.c: a path names a value below an object of a root class by a
  chain of children, each with an optional index. This theory has the path itself: parsing, the
  queries, renaming, extending and shortening one path, comparison and cloning. The table of
  shared paths is theory PathCache. The name buffer is given by the string it holds.
\<close>

section \<open>State\<close>

definition MAX_DEPTH :: nat where "MAX_DEPTH = 16"
definition MAX_NAME_LEN :: nat where "MAX_NAME_LEN = 128"
definition INDEX_UNDEFINED :: int where "INDEX_UNDEFINED = - (2 ^ 31)"
definition INDEX_KEY :: int where "INDEX_KEY = INDEX_UNDEFINED + 1"
definition INDEX_FORBIDDEN :: int where "INDEX_FORBIDDEN = INDEX_UNDEFINED + 2"

text \<open>The pointer to a key: NULL, a string, or a string that was freed.\<close>

datatype key_ptr = Key_null | Key string | Key_freed

text \<open>The class is the result of \<open>iodefv2_class_get_child_class\<close>, an id or an error.\<close>

record path_element =
  index :: int
  index_key :: key_ptr
  elem_class :: "int res"
  position :: int
  value_type :: vtype

record path =
  name :: string
  refcount :: int
  depth :: nat
  top_class :: int
  elem :: "path_element list"

text \<open>What \<open>calloc\<close> gives.\<close>

definition zero_element :: path_element where
  "zero_element = \<lparr>index = 0, index_key = Key_null, elem_class = Inr 0, position = 0,
     value_type = VT_UNKNOWN\<rparr>"

definition zero_path :: path where
  "zero_path = \<lparr>name = [], refcount = 0, depth = 0, top_class = 0,
     elem = replicate MAX_DEPTH zero_element\<rparr>"

section \<open>Parsing\<close>

definition copy_path_name :: "path \<Rightarrow> string \<Rightarrow> path res" where
  "copy_path_name p buffer =
     (if length buffer + 1 \<ge> MAX_NAME_LEN then Inl (E ERROR_PATH_LENGTH)
      else Inr (p\<lparr>name := buffer\<rparr>))"

text \<open>The text up to the next dot and, unless this is the last element, the text behind it.\<close>

definition parse_path_token :: "string \<Rightarrow> string \<times> string option" where
  "parse_path_token s =
     (takeWhile (\<lambda>c. c \<noteq> CHR ''.'') s,
      (case dropWhile (\<lambda>c. c \<noteq> CHR ''.'') s of [] \<Rightarrow> None | _ # r \<Rightarrow> Some r))"

text \<open>
  The index of an element: the child's name, the index, and the key that is stored in the element,
  if one is. \<open>dup\<close> tells whether \<open>strndup\<close> succeeds.
\<close>

definition parse_index :: "bool \<Rightarrow> string \<Rightarrow> (string \<times> int \<times> key_ptr option) res" where
  "parse_index dup ptr =
     (case dropWhile (\<lambda>c. c \<noteq> CHR ''('') ptr of
        [] \<Rightarrow> Inr (ptr, INDEX_UNDEFINED, None)
      | _ # rest \<Rightarrow>
         (let child = takeWhile (\<lambda>c. c \<noteq> CHR ''('') ptr;
              tok = takeWhile (\<lambda>c. c \<noteq> CHR '')'') rest in
          if CHR '')'' \<notin> set rest then Inl (EV ERROR_GENERIC)
          else if tok = ''<<'' then Inr (child, LIST_PREPEND, None)
          else if tok = ''>>'' then Inr (child, LIST_APPEND, None)
          else if tok \<noteq> [] \<and> (hd tok = CHR 0x27 \<or> hd tok = CHR 0x22) \<and> last tok = hd tok
          then Inr (child, INDEX_KEY, Some (if dup then Key (butlast (tl tok)) else Key_null))
          else if tok = ''*'' then Inr (child, INDEX_UNDEFINED, None)
          else (let (v, n, _) = strtol 0 tok; i = to_signed 32 v in
                if i = 0 \<and> n = 0 then Inl (EV ERROR_GENERIC) else Inr (child, i, None))))"

text \<open>A C function used as a truth value: an error is a negative number, which is true.\<close>

definition truth :: "bool res \<Rightarrow> bool" where
  "truth r = (case r of Inr b \<Rightarrow> b | Inl _ \<Rightarrow> True)"

definition as_class :: "int res \<Rightarrow> int" where
  "as_class r = (case r of Inr c \<Rightarrow> c | Inl _ \<Rightarrow> -1)"

text \<open>One round of the loop: the element \<open>old\<close> of the array is filled from the token.\<close>

definition parse_element :: "bool \<Rightarrow> int \<Rightarrow> string \<Rightarrow> bool \<Rightarrow> path_element \<Rightarrow> path_element res" where
  "parse_element dup cls ptr is_last old =
     res_bind (parse_index dup ptr) (\<lambda>(cname, ix, key).
     res_bind (class_find_child cls cname) (\<lambda>child.
     res_bind (if ix = INDEX_UNDEFINED
               then Inr (if truth (class_is_child_list cls child) then INDEX_UNDEFINED else INDEX_FORBIDDEN)
               else if \<not> truth (class_is_child_list cls child) then Inl (EV ERROR_PATH_INDEX_FORBIDDEN)
               else if ix = INDEX_KEY \<and> \<not> truth (class_is_child_keyed_list cls child)
               then Inl (EV ERROR_PATH_INDEX_FORBIDDEN)
               else Inr ix) (\<lambda>ix'.
     res_bind (class_get_child_value_type cls child) (\<lambda>vt.
       if vt \<noteq> VT_CLASS \<and> \<not> is_last then Inl (EV ERROR_GENERIC)
       else Inr \<lparr>index = ix',
                 index_key = (case key of Some k \<Rightarrow> k | None \<Rightarrow> index_key old),
                 elem_class = class_get_child_class cls child,
                 position = child, value_type = vt\<rparr>))))"

function path_parse_loop ::
  "(nat \<Rightarrow> bool) \<Rightarrow> int \<Rightarrow> nat \<Rightarrow> path_element list \<Rightarrow> string \<Rightarrow> (nat \<times> path_element list) res" where
  "path_parse_loop dup cls d es s =
     (case parse_path_token s of (ptr, rest) \<Rightarrow>
      (case parse_element (dup d) cls ptr (rest = None) (es ! d) of
         Inl err \<Rightarrow> Inl err
       | Inr e \<Rightarrow>
          if Suc d = MAX_DEPTH then Inl (E ERROR_PATH_DEPTH)
          else (case rest of
              None \<Rightarrow> Inr (Suc d, es[d := e])
            | Some s' \<Rightarrow> path_parse_loop dup (as_class (elem_class e)) (Suc d) (es[d := e]) s')))"
  by pat_completeness auto

lemma parse_path_token_shorter: "parse_path_token s = (ptr, Some s') \<Longrightarrow> length s' < length s"
proof -
  assume "parse_path_token s = (ptr, Some s')"
  then obtain c where "dropWhile (\<lambda>c. c \<noteq> CHR ''.'') s = c # s'"
    by (auto simp: parse_path_token_def split: list.splits)
  then have "length (c # s') \<le> length s" by (metis length_dropWhile_le)
  then show ?thesis by simp
qed

termination path_parse_loop
  by (relation "measure (\<lambda>(dup, cls, d, es, s). length s)")
    (auto dest!: sym [of _ "parse_path_token _"] parse_path_token_shorter)

declare path_parse_loop.simps [simp del]

definition path_parse_new :: "(nat \<Rightarrow> bool) \<Rightarrow> path \<Rightarrow> int \<Rightarrow> string \<Rightarrow> path res" where
  "path_parse_new dup p rootclass buffer =
     res_bind (copy_path_name p buffer) (\<lambda>p.
     res_bind (path_parse_loop dup rootclass 0 (elem p) (name p)) (\<lambda>(d, es).
       Inr (p\<lparr>top_class := rootclass, depth := d, elem := es\<rparr>)))"

section \<open>Queries\<close>

definition path_get_class :: "path \<Rightarrow> int \<Rightarrow> int res" where
  "path_get_class p d =
     (let d' = (if d < 0 then int (depth p) - 1 else d) in
      if depth p = 0 \<and> d' < 0 then Inr (top_class p)
      else if nat d' < MAX_DEPTH then elem_class (elem p ! nat d') else Inl (UB Out_of_bounds))"

definition path_get_value_type :: "path \<Rightarrow> int \<Rightarrow> vtype res" where
  "path_get_value_type p d =
     (let d' = (if d < 0 then int (depth p) - 1 else d) in
      if depth p = 0 \<and> d' < 0 then Inr VT_CLASS
      else if nat d' < MAX_DEPTH then Inr (value_type (elem p ! nat d')) else Inl (UB Out_of_bounds))"

definition path_get_index :: "path \<Rightarrow> nat \<Rightarrow> int res" where
  "path_get_index p d =
     (if \<not> d < depth p then Inl (E ERROR_PATH_DEPTH)
      else if index (elem p ! d) = INDEX_UNDEFINED then Inl (E ERROR_PATH_INDEX_UNDEFINED)
      else if index (elem p ! d) = INDEX_FORBIDDEN then Inl (E ERROR_PATH_INDEX_FORBIDDEN)
      else Inr (index (elem p ! d)))"

definition path_get_key :: "path \<Rightarrow> nat \<Rightarrow> key_ptr res" where
  "path_get_key p d =
     (if \<not> d < depth p then Inl (E ERROR_PATH_DEPTH)
      else if index (elem p ! d) = INDEX_UNDEFINED then Inl (E ERROR_PATH_INDEX_UNDEFINED)
      else if index (elem p ! d) = INDEX_FORBIDDEN then Inl (E ERROR_PATH_INDEX_FORBIDDEN)
      else if index (elem p ! d) \<noteq> INDEX_KEY then Inl (E ERROR_PATH_INDEX_FORBIDDEN)
      else Inr (index_key (elem p ! d)))"

definition path_is_ambiguous :: "path \<Rightarrow> bool" where
  "path_is_ambiguous p \<longleftrightarrow> (\<exists>e \<in> set (take (depth p) (elem p)). index e = INDEX_UNDEFINED)"

definition path_has_lists :: "path \<Rightarrow> nat" where
  "path_has_lists p = length (filter (\<lambda>e. index e \<noteq> INDEX_FORBIDDEN) (take (depth p) (elem p)))"

definition path_is_list :: "path \<Rightarrow> int \<Rightarrow> bool res" where
  "path_is_list p d =
     (let d' = (if d < 0 then int (depth p) - 1 else d) in
      if 0 \<le> d' \<and> nat d' < MAX_DEPTH then Inr (index (elem p ! nat d') \<noteq> INDEX_FORBIDDEN)
      else Inl (UB Out_of_bounds))"

definition path_get_depth :: "path \<Rightarrow> nat" where
  "path_get_depth p = depth p"

text \<open>The result is NULL for a depth out of range and for an element with no name.\<close>

definition path_get_name :: "path \<Rightarrow> int \<Rightarrow> string option" where
  "path_get_name p d =
     (if d < 0 then Some (name p)
      else if \<not> nat d < depth p then None
      else let e = elem p ! nat d in
        if d > 0 \<and> (as_class (elem_class e) < 0 \<or> value_type e = VT_ENUM)
        then class_get_child_name (as_class (elem_class (elem p ! (nat d - 1)))) (position e)
        else class_get_name (as_class (elem_class e)))"

section \<open>Changing one path\<close>

text \<open>
  \<open>strncat (name, s, sizeof name - strlen name)\<close>: the bound leaves no room for the NUL that
  \<open>strncat\<close> adds.
\<close>

definition name_cat :: "string \<Rightarrow> string \<Rightarrow> string res" where
  "name_cat nm s =
     (let r = nm @ take (MAX_NAME_LEN - length nm) s in
      if length r \<ge> MAX_NAME_LEN then Inl (UB Out_of_bounds) else Inr r)"

text \<open>The part \<open>(index)\<close> of an element's name.\<close>

definition index_name :: "path_element \<Rightarrow> string \<Rightarrow> string res" where
  "index_name e nm =
     (if index e \<noteq> INDEX_UNDEFINED \<and> index e \<noteq> INDEX_FORBIDDEN then
        res_bind (name_cat nm ''('') (\<lambda>nm.
        res_bind (if index e \<noteq> INDEX_KEY
                  then Inr (take (MAX_NAME_LEN - 1) (nm @ int_dec (index e)))
                  else (case index_key e of
                      Key k \<Rightarrow> name_cat nm k | Key_null \<Rightarrow> Inr nm
                    | Key_freed \<Rightarrow> Inl (UB Use_after_free))) (\<lambda>nm.
          name_cat nm '')''))
      else Inr nm)"

text \<open>The loop of \<open>build_name\<close> with \<open>k\<close> rounds to go: the name it leaves, also on failure.\<close>

fun build_name_from :: "path \<Rightarrow> int \<Rightarrow> string \<Rightarrow> nat \<Rightarrow> nat \<Rightarrow> string \<times> unit res" where
  "build_name_from p cls nm i 0 = (nm, Inr ())"
| "build_name_from p cls nm i (Suc k) =
     (case (if i > 0 then name_cat nm ''.'' else Inr nm) of
        Inl err \<Rightarrow> (nm, Inl err)
      | Inr nm1 \<Rightarrow>
     (case path_get_name p (int i) of
        None \<Rightarrow> (nm1, Inl (E ERROR_PATH_INTEGRITY))
      | Some n \<Rightarrow>
     (case res_bind (name_cat nm1 n) (index_name (elem p ! i)) of
        Inl err \<Rightarrow> (nm1, Inl err)
      | Inr nm2 \<Rightarrow>
         (let cls' = as_class (class_get_child_class cls (position (elem p ! i))) in
          if cls' < 0 \<and> i < depth p - 1 then (nm2, Inl (E ERROR_PATH_INTEGRITY))
          else build_name_from p cls' nm2 (Suc i) k))))"

definition IODEFV2_CLASS_ID_DOCUMENT :: int where
  "IODEFV2_CLASS_ID_DOCUMENT = 141"

definition build_name :: "path \<Rightarrow> path \<times> unit res" where
  "build_name p =
     (let (nm, r) = build_name_from p IODEFV2_CLASS_ID_DOCUMENT [] 0 (depth p) in (p\<lparr>name := nm\<rparr>, r))"

text \<open>What \<open>iodefv2_path_set_index\<close> does once the path is no longer shared.\<close>

definition path_put_index :: "path \<Rightarrow> nat \<Rightarrow> int \<Rightarrow> path \<times> unit res" where
  "path_put_index p d ix =
     (let e = elem p ! d;
          e1 = (if index e = INDEX_KEY \<and> index_key e \<noteq> Key_null then e\<lparr>index_key := Key_freed\<rparr> else e)
      in build_name (p\<lparr>elem := (elem p)[d := e1\<lparr>index := ix\<rparr>]\<rparr>))"

text \<open>What \<open>iodefv2_path_make_child\<close> does once the path is no longer shared.\<close>

definition path_append_child :: "path \<Rightarrow> int \<Rightarrow> string \<Rightarrow> int \<Rightarrow> int \<Rightarrow> path res" where
  "path_append_child p cls cname ix child =
     (let lst = truth (class_is_child_list cls child);
          buf = (if ix \<ge> 0 \<and> lst then CHR ''('' # int_dec ix @ '')'' else []);
          d = depth p
      in res_bind (class_get_child_value_type cls child) (\<lambda>vt.
         Inr (p\<lparr>name := take (MAX_NAME_LEN - 1)
                  (name p @ (if depth p > 0 then ''.'' else []) @ cname @ buf),
                depth := Suc d,
                elem := (elem p)[d := (elem p ! d)
                  \<lparr>position := child,
                   index := (if lst then (if ix < 0 then INDEX_UNDEFINED else ix) else INDEX_FORBIDDEN),
                   elem_class := class_get_child_class cls child, value_type := vt\<rparr>]\<rparr>)))"

definition cut_last_dot :: "string \<Rightarrow> string" where
  "cut_last_dot s = (case dropWhile (\<lambda>c. c \<noteq> CHR ''.'') (rev s) of [] \<Rightarrow> [] | _ # r \<Rightarrow> rev r)"

text \<open>What \<open>iodefv2_path_make_parent\<close> does once the path is no longer shared.\<close>

definition path_drop_last :: "path \<Rightarrow> path" where
  "path_drop_last p = p\<lparr>depth := depth p - 1, name := cut_last_dot (name p)\<rparr>"

section \<open>Comparison and cloning\<close>

definition key_streq :: "key_ptr \<Rightarrow> key_ptr \<Rightarrow> bool res" where
  "key_streq a b = (case (a, b) of
     (Key x, Key y) \<Rightarrow> Inr (x = y)
   | (Key_freed, _) \<Rightarrow> Inl (UB Use_after_free) | (_, Key_freed) \<Rightarrow> Inl (UB Use_after_free)
   | _ \<Rightarrow> Inl (UB Null_deref))"

fun path_ncompare_from :: "path \<Rightarrow> path \<Rightarrow> nat \<Rightarrow> nat \<Rightarrow> unit res" where
  "path_ncompare_from p1 p2 i 0 = Inr ()"
| "path_ncompare_from p1 p2 i (Suc k) =
     (if i \<ge> MAX_DEPTH then Inl (UB Out_of_bounds)
      else let e1 = elem p1 ! i; e2 = elem p2 ! i in
        if index e1 \<noteq> index e2 then Inl E_minus1
        else res_bind (if index e1 = INDEX_KEY then key_streq (index_key e1) (index_key e2) else Inr True) (\<lambda>eq.
          if \<not> eq then Inl E_minus1
          else if position e1 - position e2 \<noteq> 0 then Inl E_minus1
          else path_ncompare_from p1 p2 (Suc i) k))"

definition path_ncompare :: "path \<Rightarrow> path \<Rightarrow> nat \<Rightarrow> unit res" where
  "path_ncompare p1 p2 d = path_ncompare_from p1 p2 0 d"

definition path_compare :: "path \<Rightarrow> path \<Rightarrow> unit res" where
  "path_compare p1 p2 =
     (if depth p1 \<noteq> depth p2 then Inl E_minus1 else path_ncompare p1 p2 (depth p1))"

text \<open>
  The keys are duplicated one by one; when \<open>strdup\<close> fails the loop \<open>while (--i)\<close> over an unsigned
  counter releases what it copied, and leaves the array when the very first key fails.
\<close>

fun clone_keys :: "(nat \<Rightarrow> bool) \<Rightarrow> path_element list \<Rightarrow> nat \<Rightarrow> nat \<Rightarrow> path_element list res" where
  "clone_keys dup es i 0 = Inr es"
| "clone_keys dup es i (Suc k) =
     (case index_key (es ! i) of
        Key_null \<Rightarrow> clone_keys dup es (Suc i) k
      | Key_freed \<Rightarrow> Inl (UB Use_after_free)
      | Key s \<Rightarrow>
          if dup i then clone_keys dup (es[i := (es ! i)\<lparr>index_key := Key s\<rparr>]) (Suc i) k
          else if i = 0 then Inl (UB Out_of_bounds) else Inl E_errno)"

definition path_clone :: "bool \<Rightarrow> (nat \<Rightarrow> bool) \<Rightarrow> path \<Rightarrow> path res" where
  "path_clone alloc dup src =
     (if \<not> alloc then Inl E_errno
      else res_bind (clone_keys dup (elem src) 0 (depth src)) (\<lambda>es.
        Inr (src\<lparr>elem := es, refcount := 1\<rparr>)))"

section \<open>Well-formed paths\<close>

text \<open>
  An element stands for an existing child of the class before it: its class and type are the
  child's, only a listed child has an index and only a keyed one a key; all but the last are objects.
\<close>

definition element_ok :: "int \<Rightarrow> path_element \<Rightarrow> bool" where
  "element_ok cls e \<longleftrightarrow>
     is_child_valid cls (position e) = Inr () \<and>
     elem_class e = class_get_child_class cls (position e) \<and>
     class_get_child_value_type cls (position e) = Inr (value_type e) \<and>
     (class_is_child_list cls (position e) = Inr False \<longrightarrow> index e = INDEX_FORBIDDEN) \<and>
     (index e = INDEX_KEY \<longrightarrow> class_is_child_keyed_list cls (position e) = Inr True)"

fun elems_ok :: "int \<Rightarrow> path_element list \<Rightarrow> bool" where
  "elems_ok cls [] = True"
| "elems_ok cls (e # es) \<longleftrightarrow> element_ok cls e \<and>
     (es \<noteq> [] \<longrightarrow> value_type e = VT_CLASS \<and> elems_ok (as_class (elem_class e)) es)"

definition path_ok :: "path \<Rightarrow> bool" where
  "path_ok p \<longleftrightarrow> length (elem p) = MAX_DEPTH \<and> depth p \<le> MAX_DEPTH \<and>
     length (name p) < MAX_NAME_LEN \<and> elems_ok (top_class p) (take (depth p) (elem p))"

text \<open>The class that the children of the path's last element belong to.\<close>

fun last_class :: "int \<Rightarrow> path_element list \<Rightarrow> int res" where
  "last_class cls [] = Inr cls"
| "last_class cls (e # es) = (if es = [] then elem_class e else last_class (as_class (elem_class e)) es)"

lemma last_class_last: "es \<noteq> [] \<Longrightarrow> last_class cls es = elem_class (last es)"
  by (induction cls es rule: last_class.induct) auto

lemma elems_ok_append:
  "elems_ok cls (es @ [e]) \<longleftrightarrow> elems_ok cls es \<and>
     (es \<noteq> [] \<longrightarrow> value_type (last es) = VT_CLASS) \<and> element_ok (as_class (last_class cls es)) e"
proof (induction es arbitrary: cls)
  case Nil
  show ?case by (simp add: as_class_def)
next
  case (Cons a es)
  then show ?case by (cases "es = []") auto
qed

lemma elems_ok_butlast: "elems_ok cls (es @ [e]) \<Longrightarrow> elems_ok cls es"
  by (simp add: elems_ok_append)

lemma child_valid_queries:
  assumes "is_child_valid cls child = Inr u"
  shows "class_is_child_list cls child = Inr (child_list (child_of cls child))"
    "class_is_child_keyed_list cls child = Inr False"
    "class_get_child_value_type cls child = Inr (child_type (child_of cls child))"
    "class_get_child_name cls child = Some (child_name (child_of cls child))"
    "child_type (child_of cls child) = VT_CLASS \<Longrightarrow>
       class_get_child_class cls child = Inr (child_class (child_of cls child))"
proof -
  obtain cs where "nat child < length cs" "child_of cls child = cs ! nat child" "children_ok cs"
    by (rule child_valid_children [OF assms])
  then have "child_ok (child_of cls child)" by (simp add: children_ok_def list_all_length)
  then have k: "\<not> child_keyed_list (child_of cls child)" by (simp add: child_ok_def)
  show "class_is_child_list cls child = Inr (child_list (child_of cls child))"
    "class_is_child_keyed_list cls child = Inr False"
    "class_get_child_value_type cls child = Inr (child_type (child_of cls child))"
    "class_get_child_name cls child = Some (child_name (child_of cls child))"
    "child_type (child_of cls child) = VT_CLASS \<Longrightarrow>
       class_get_child_class cls child = Inr (child_class (child_of cls child))"
    using assms k
    by (simp_all add: class_is_child_list_def class_is_child_keyed_list_def
        class_get_child_value_type_def class_get_child_name_def class_get_child_class_def Let_def)
qed

lemma find_child_valid: "class_find_child cls nm = Inr child \<Longrightarrow> is_child_valid cls child = Inr ()"
proof -
  assume f: "class_find_child cls nm = Inr child"
  then obtain cs i where "is_class_valid cls = Inr ()" "children_list (object_row cls) = Some cs"
    "find_index (\<lambda>c. strcaseeq (child_name c) nm) cs = Some i" "child = int i"
    by (auto simp: class_find_child_def res_bind_Inr_iff split: option.splits)
  then show ?thesis
    using find_index_Some by (fastforce simp: is_child_valid_def children_list_elem_def)
qed

lemma parse_element_ok:
  assumes "parse_element dup cls ptr is_last old = Inr e"
  shows "element_ok cls e" "value_type e = VT_CLASS \<or> is_last"
proof -
  obtain nm ix key where pi: "parse_index dup ptr = Inr (nm, ix, key)"
    using assms by (auto simp: parse_element_def res_bind_Inr_iff)
  then obtain child where c: "class_find_child cls nm = Inr child"
    using assms by (auto simp: parse_element_def res_bind_Inr_iff)
  note q = child_valid_queries [OF find_child_valid [OF c]]
  show "element_ok cls e" "value_type e = VT_CLASS \<or> is_last"
    using assms pi c q find_child_valid [OF c]
    by (auto simp: parse_element_def element_ok_def truth_def INDEX_UNDEFINED_def INDEX_KEY_def
        INDEX_FORBIDDEN_def res_bind_Inr_iff split: if_splits)
qed

lemma path_parse_loop_ok:
  assumes "path_parse_loop dup cls d es s = Inr (d', es')" "length es = MAX_DEPTH" "d < MAX_DEPTH"
  shows "\<exists>new. new \<noteq> [] \<and> es' = take d es @ new @ drop d' es \<and> d' = d + length new \<and>
    d' < MAX_DEPTH \<and> elems_ok cls new"
  using assms
proof (induction dup cls d es s rule: path_parse_loop.induct)
  case (1 dup cls d es s)
  obtain ptr rest where t: "parse_path_token s = (ptr, rest)" by force
  obtain e where e: "parse_element (dup d) cls ptr (rest = None) (es ! d) = Inr e"
    using 1(2) t by (auto simp: path_parse_loop.simps [of dup cls d es s] split: sum.splits)
  have d: "Suc d \<noteq> MAX_DEPTH" and l: "Suc d < MAX_DEPTH"
    using 1(2,4) t e by (auto simp: path_parse_loop.simps [of dup cls d es s] split: if_splits)
  have ud: "take (Suc d) (es[d := e]) = take d es @ [e]" "drop (Suc d) (es[d := e]) = drop (Suc d) es"
    using 1(3,4) by (simp_all add: take_Suc_conv_app_nth)
  show ?case
  proof (cases rest)
    case None
    then have "d' = Suc d" "es' = es[d := e]"
      using 1(2) t e d by (auto simp: path_parse_loop.simps [of dup cls d es s])
    then show ?thesis
      using ud l parse_element_ok(1) [OF e] append_take_drop_id [of "Suc d" "es[d := e]"]
      by (intro exI [of _ "[e]"]) simp
  next
    case (Some s')
    have r: "path_parse_loop dup (as_class (elem_class e)) (Suc d) (es[d := e]) s' = Inr (d', es')"
      using 1(2) t e d Some by (simp add: path_parse_loop.simps [of dup cls d es s])
    have "\<exists>new. new \<noteq> [] \<and> es' = take (Suc d) (es[d := e]) @ new @ drop d' (es[d := e]) \<and>
        d' = Suc d + length new \<and> d' < MAX_DEPTH \<and> elems_ok (as_class (elem_class e)) new"
      using 1(1) [OF t [symmetric] e d Some r] 1(3) l by simp
    then obtain new where n: "new \<noteq> []" "es' = take (Suc d) (es[d := e]) @ new @ drop d' (es[d := e])"
        "d' = Suc d + length new" "d' < MAX_DEPTH" "elems_ok (as_class (elem_class e)) new"
      by blast
    have "value_type e = VT_CLASS" using parse_element_ok(2) [OF e] Some by simp
    then show ?thesis
      using n ud parse_element_ok(1) [OF e]
      by (intro exI [of _ "e # new"]) (auto simp: drop_update_cancel)
  qed
qed

section \<open>Writing a path and parsing it\<close>

text \<open>A chain of children with their indexes, and its text.\<close>

definition step_text :: "int \<Rightarrow> int \<Rightarrow> int \<Rightarrow> string" where
  "step_text cls child ix =
     (case class_get_child_name cls child of Some n \<Rightarrow> n | None \<Rightarrow> []) @
     (if ix = INDEX_UNDEFINED \<or> ix = INDEX_FORBIDDEN then [] else CHR ''('' # int_dec ix @ '')'')"

fun steps_text :: "int \<Rightarrow> (int \<times> int) list \<Rightarrow> string" where
  "steps_text cls [] = []"
| "steps_text cls ((k, ix) # st) = step_text cls k ix @
     (if st = [] then [] else CHR ''.'' # steps_text (as_class (class_get_child_class cls k)) st)"

text \<open>
  Children that exist; a listed one may have an index (not one of the three reserved numbers), the
  others have none; all but the last are objects.
\<close>

definition step_ok :: "int \<Rightarrow> int \<Rightarrow> int \<Rightarrow> bool" where
  "step_ok cls child ix \<longleftrightarrow> is_child_valid cls child = Inr () \<and>
     (if class_is_child_list cls child = Inr True
      then ix = INDEX_UNDEFINED \<or> (INDEX_FORBIDDEN < ix \<and> ix < 2 ^ 31) else ix = INDEX_FORBIDDEN)"

fun steps_ok :: "int \<Rightarrow> (int \<times> int) list \<Rightarrow> bool" where
  "steps_ok cls [] = True"
| "steps_ok cls ((k, ix) # st) \<longleftrightarrow> step_ok cls k ix \<and>
     (st \<noteq> [] \<longrightarrow> class_get_child_value_type cls k = Inr VT_CLASS \<and>
        steps_ok (as_class (class_get_child_class cls k)) st)"

lemma child_name_plain:
  assumes "is_child_valid cls child = Inr u"
  shows "CHR ''.'' \<notin> set (child_name (child_of cls child))" "CHR ''('' \<notin> set (child_name (child_of cls child))"
    "class_find_child cls (child_name (child_of cls child)) = Inr child"
proof -
  obtain cs where c: "0 \<le> cls" "cls < 143" "children_list (object_row cls) = Some cs" "0 \<le> child"
    "nat child < length cs" "child_of cls child = cs ! nat child" "children_ok cs"
    by (rule child_valid_children [OF assms])
  then have "child_ok (child_of cls child)" by (simp add: children_ok_def list_all_length)
  then show "CHR ''.'' \<notin> set (child_name (child_of cls child))"
    "CHR ''('' \<notin> set (child_name (child_of cls child))"
    by (simp_all add: child_ok_def)
  have dis: "distinct (List.map (\<lambda>c. List.map c_tolower (child_name c)) cs)"
    using c(7) by (simp add: children_ok_def)
  have "find_index (\<lambda>c. strcaseeq (child_name c) (child_name (child_of cls child))) cs = Some (nat child)"
    by (rule find_index_first) (use c dis in \<open>auto simp: strcaseeq_def distinct_conv_nth\<close>)
  then show "class_find_child cls (child_name (child_of cls child)) = Inr child"
    using c by (simp add: class_find_child_def is_class_valid_def length_object_data)
qed

lemma span_char [simp]:
  "c \<notin> set s \<Longrightarrow> takeWhile (\<lambda>x. x \<noteq> c) (s @ c # t) = s"
  "c \<notin> set s \<Longrightarrow> dropWhile (\<lambda>x. x \<noteq> c) (s @ c # t) = c # t"
  "c \<notin> set s \<Longrightarrow> takeWhile (\<lambda>x. x \<noteq> c) s = s"
  "c \<notin> set s \<Longrightarrow> dropWhile (\<lambda>x. x \<noteq> c) s = []"
  by (induction s) auto

lemma int_dec_no: "c \<in> {CHR ''.'', CHR ''('', CHR '')'', CHR ''<'', CHR ''>'', CHR ''*'', CHR 0x27, CHR 0x22}
  \<Longrightarrow> c \<notin> set (int_dec i)"
proof
  assume c: "c \<in> {CHR ''.'', CHR ''('', CHR '')'', CHR ''<'', CHR ''>'', CHR ''*'', CHR 0x27, CHR 0x22}"
    and "c \<in> set (int_dec i)"
  then consider "c = CHR ''-''" | d where "d < 10" "c = digit_char d" using int_dec_chars by blast
  then have "ccode c = 45 \<or> (48 \<le> ccode c \<and> ccode c < 58)"
    by cases (simp add: ccode_def, auto simp: ccode_digit_char)
  then show False using c by (auto simp: ccode_def)
qed

lemma parse_index_number:
  assumes "CHR ''('' \<notin> set nm" "INDEX_UNDEFINED \<le> ix" "ix < 2 ^ 31"
  shows "parse_index dup (nm @ CHR ''('' # int_dec ix @ '')'') = Inr (nm, ix, None)"
proof -
  have d: "dropWhile (\<lambda>c. c \<noteq> CHR ''('') (nm @ CHR ''('' # int_dec ix @ '')'') = CHR ''('' # int_dec ix @ '')''"
    "takeWhile (\<lambda>c. c \<noteq> CHR ''('') (nm @ CHR ''('' # int_dec ix @ '')'') = nm"
    using assms(1) by simp_all
  have t: "takeWhile (\<lambda>c. c \<noteq> CHR '')'') (int_dec ix @ '')'') = int_dec ix"
    using int_dec_no [of "CHR '')''" ix] by simp
  have n: "int_dec ix \<noteq> ''<<''" "int_dec ix \<noteq> ''>>''" "int_dec ix \<noteq> ''*''"
    using int_dec_no [of "CHR ''<''" ix] int_dec_no [of "CHR ''>''" ix] int_dec_no [of "CHR ''*''" ix]
    by auto
  have h: "hd (int_dec ix) \<noteq> CHR 0x27" "hd (int_dec ix) \<noteq> CHR 0x22"
    using int_dec_no [of "CHR 0x27" ix] int_dec_no [of "CHR 0x22" ix] hd_in_set [of "int_dec ix"]
    by (metis int_dec_ne insertCI)+
  have s: "strtol 0 (int_dec ix) = (ix, length (int_dec ix), False)"
    using strtol_int_dec [of 0 "[]" ix] assms(2,3)
    by (simp add: number_end_def LONG_MIN_def LONG_MAX_def INDEX_UNDEFINED_def)
  have i: "to_signed 32 ix = ix"
    using to_signed_id [of 32 ix] assms(2,3) by (simp add: INDEX_UNDEFINED_def)
  show ?thesis
    unfolding parse_index_def d t list.case Let_def s prod.case i using n h by simp
qed

lemma parse_index_plain: "CHR ''('' \<notin> set nm \<Longrightarrow> parse_index dup nm = Inr (nm, INDEX_UNDEFINED, None)"
  by (simp add: parse_index_def)

lemma step_text_no_dot:
  assumes "step_ok cls child ix"
  shows "CHR ''.'' \<notin> set (step_text cls child ix)"
proof -
  have v: "is_child_valid cls child = Inr ()" using assms by (simp add: step_ok_def)
  show ?thesis
    using child_name_plain(1) [OF v] int_dec_no [of "CHR ''.''" ix]
    by (simp add: step_text_def child_valid_queries(4) [OF v])
qed

lemma parse_step:
  assumes "step_ok cls child ix" "class_get_child_value_type cls child = Inr VT_CLASS \<or> is_last"
  shows "parse_element dup cls (step_text cls child ix) is_last old =
    Inr \<lparr>index = ix, index_key = index_key old, elem_class = class_get_child_class cls child,
      position = child, value_type = child_type (child_of cls child)\<rparr>"
proof -
  have v: "is_child_valid cls child = Inr ()" using assms(1) by (simp add: step_ok_def)
  note q = child_valid_queries [OF v] and n = child_name_plain [OF v]
  have r: "INDEX_FORBIDDEN \<noteq> INDEX_UNDEFINED" "INDEX_KEY < INDEX_FORBIDDEN" "INDEX_UNDEFINED < INDEX_KEY"
    by (simp_all add: INDEX_FORBIDDEN_def INDEX_KEY_def)
  let ?nm = "child_name (child_of cls child)"
  have t: "child_type (child_of cls child) = VT_CLASS \<or> is_last" using assms(2) q(3) by simp
  have ix: "if child_list (child_of cls child) then ix = INDEX_UNDEFINED \<or> (INDEX_FORBIDDEN < ix \<and> ix < 2 ^ 31)
    else ix = INDEX_FORBIDDEN"
    using assms(1) unfolding step_ok_def q(1) by auto
  have "parse_index dup (step_text cls child ix) =
    Inr (?nm, if ix = INDEX_FORBIDDEN then INDEX_UNDEFINED else ix, None)"
  proof (cases "ix = INDEX_UNDEFINED \<or> ix = INDEX_FORBIDDEN")
    case True
    then show ?thesis using parse_index_plain [OF n(2)] by (auto simp: step_text_def q(4))
  next
    case False
    then have "parse_index dup (?nm @ CHR ''('' # int_dec ix @ '')'') = Inr (?nm, ix, None)"
      by (intro parse_index_number) (use n ix r in \<open>auto split: if_splits\<close>)
    then show ?thesis using False by (simp add: step_text_def q(4))
  qed
  then show ?thesis
    unfolding parse_element_def using t ix q(1,2,3) n(3) r by (auto simp: truth_def)
qed

lemma parse_path_token_last: "CHR ''.'' \<notin> set t \<Longrightarrow> parse_path_token t = (t, None)"
  by (simp add: parse_path_token_def)

lemma parse_path_token_dot:
  "CHR ''.'' \<notin> set t \<Longrightarrow> parse_path_token (t @ CHR ''.'' # s) = (t, Some s)"
  by (simp add: parse_path_token_def)

abbreviation step_of :: "path_element \<Rightarrow> int \<times> int" where
  "step_of e \<equiv> (position e, index e)"

lemma parse_steps:
  assumes "st \<noteq> []" "steps_ok cls st" "length es = MAX_DEPTH" "d + length st < MAX_DEPTH"
  shows "\<exists>new. path_parse_loop dup cls d es (steps_text cls st) =
    Inr (d + length st, take d es @ new @ drop (d + length st) es) \<and> List.map step_of new = st"
  using assms
proof (induction cls st arbitrary: d es rule: steps_text.induct)
  case (2 cls k ix st)
  have ok: "step_ok cls k ix" using 2(3) by simp
  have l: "d < length es" "Suc d \<noteq> MAX_DEPTH" using 2(4,5) by simp_all
  let ?e = "\<lparr>index = ix, index_key = index_key (es ! d), elem_class = class_get_child_class cls k,
      position = k, value_type = child_type (child_of cls k)\<rparr>"
  have vt: "parse_element (dup d) cls (step_text cls k ix) (st = []) (es ! d) = Inr ?e"
    using parse_step [OF ok, of "st = []"] 2(3) by auto
  have ud: "es[d := ?e] = take d es @ ?e # drop (Suc d) es" using l(1) by (simp add: upd_conv_take_nth_drop)
  show ?case
  proof (cases "st = []")
    case True
    then have "path_parse_loop dup cls d es (steps_text cls ((k, ix) # st)) = Inr (Suc d, es[d := ?e])"
      using vt l(2) parse_path_token_last [OF step_text_no_dot [OF ok]]
      by (simp add: path_parse_loop.simps [of dup cls d es])
    then show ?thesis using True ud by (intro exI [of _ "[?e]"]) simp
  next
    case False
    let ?c = "as_class (class_get_child_class cls k)"
    have "path_parse_loop dup cls d es (steps_text cls ((k, ix) # st)) =
        path_parse_loop dup ?c (Suc d) (es[d := ?e]) (steps_text ?c st)"
      using vt l(2) False parse_path_token_dot [OF step_text_no_dot [OF ok]]
      by (simp add: path_parse_loop.simps [of dup cls d es])
    moreover obtain new where n: "path_parse_loop dup ?c (Suc d) (es[d := ?e]) (steps_text ?c st) =
        Inr (Suc d + length st, take (Suc d) (es[d := ?e]) @ new @ drop (Suc d + length st) (es[d := ?e]))"
        "List.map step_of new = st"
      using 2(1) [OF False, where d = "Suc d" and es = "es[d := ?e]"] False 2(3-5) by auto
    moreover have "take (Suc d) (es[d := ?e]) = take d es @ [?e]" "drop (Suc d + length st) (es[d := ?e]) = drop (Suc d + length st) es"
      using l(1) by (simp_all add: take_Suc_conv_app_nth)
    ultimately show ?thesis by (intro exI [of _ "?e # new"]) simp
  qed
qed simp

section \<open>Extending and shortening\<close>

text \<open>The name of a path, parsed, gives the elements of the path.\<close>

definition name_parses :: "(nat \<Rightarrow> bool) \<Rightarrow> path \<Rightarrow> bool" where
  "name_parses dup p \<longleftrightarrow> (\<exists>es. path_parse_loop dup (top_class p) 0 (elem p) (name p) = Inr (depth p, es) \<and>
     List.map step_of (take (depth p) es) = List.map step_of (take (depth p) (elem p)))"

lemma path_get_class_last:
  assumes "length (elem p) = MAX_DEPTH" "depth p \<le> MAX_DEPTH"
  shows "path_get_class p (-1) = last_class (top_class p) (take (depth p) (elem p))"
proof (cases "depth p")
  case (Suc d)
  then have "take (depth p) (elem p) = take d (elem p) @ [elem p ! d]"
    using assms by (simp add: take_Suc_conv_app_nth MAX_DEPTH_def)
  then show ?thesis
    using Suc assms by (simp add: path_get_class_def last_class_last MAX_DEPTH_def)
qed (simp add: path_get_class_def)

text \<open>Only an object has children.\<close>

lemma class_with_children:
  assumes "elems_ok cls es" "es \<noteq> []" "is_child_valid (as_class (last_class cls es)) child = Inr u"
  shows "value_type (last es) = VT_CLASS"
proof -
  obtain c where e: "element_ok c (last es)"
    using assms(1,2) elems_ok_append [of cls "butlast es" "last es"] by auto
  let ?t = "child_type (child_of c (position (last es)))"
  have v: "is_child_valid c (position (last es)) = Inr ()" using e by (simp add: element_ok_def)
  note q = child_valid_queries [OF v]
  have t: "value_type (last es) = ?t" using e q(3) by (simp add: element_ok_def)
  obtain cs where cs: "children_list (object_row (as_class (elem_class (last es)))) = Some cs"
    "0 \<le> as_class (elem_class (last es))" "as_class (elem_class (last es)) < 143"
    using child_valid_children [OF assms(3)] last_class_last [OF assms(2)] by metis
  have "?t = VT_CLASS \<or> ?t = VT_ENUM"
    using e cs(2) v by (auto simp: element_ok_def class_get_child_class_def as_class_def Let_def split: if_splits)
  moreover have "?t \<noteq> VT_ENUM"
  proof
    assume n: "?t = VT_ENUM"
    obtain cs' where "nat (position (last es)) < length cs'" "children_ok cs'"
      "child_of c (position (last es)) = cs' ! nat (position (last es))"
      by (rule child_valid_children [OF v])
    then have ok: "child_ok (child_of c (position (last es)))" by (simp add: children_ok_def list_all_length)
    have cl: "as_class (elem_class (last es)) = child_class (child_of c (position (last es)))"
      using e n v by (simp add: element_ok_def class_get_child_class_def as_class_def Let_def)
    obtain num where num: "to_numeric (object_row (as_class (elem_class (last es)))) = Some num"
      using ok n unfolding cl by (auto simp: child_ok_def object_row_def)
    have "object_row (as_class (elem_class (last es))) \<in> set object_data"
      using cs(2,3) by (simp add: object_row_def length_object_data)
    from bspec [OF object_data_enums [unfolded list_all_iff] this] show False
      using num cs(1) by (auto split: option.splits)
  qed
  ultimately show ?thesis using t by simp
qed

lemma path_append_child_ok:
  assumes "path_ok p" "depth p < MAX_DEPTH" "path_get_class p (-1) = Inr cls"
    "class_find_child cls cname = Inr child"
  shows "\<exists>p'. path_append_child p cls cname ix child = Inr p' \<and> path_ok p' \<and> depth p' = Suc (depth p) \<and>
    take (depth p) (elem p') = take (depth p) (elem p) \<and> step_of (elem p' ! depth p) =
      (child, if child_list (child_of cls child) then (if ix < 0 then INDEX_UNDEFINED else ix) else INDEX_FORBIDDEN)"
proof -
  have l: "length (elem p) = MAX_DEPTH" using assms(1) by (simp add: path_ok_def)
  have v: "is_child_valid cls child = Inr ()" by (rule find_child_valid [OF assms(4)])
  note q = child_valid_queries [OF v]
  let ?es = "take (depth p) (elem p)"
  have c: "last_class (top_class p) ?es = Inr cls"
    using path_get_class_last [OF l] assms(2,3) by simp
  obtain p' where p': "path_append_child p cls cname ix child = Inr p'"
    using q(3) by (simp add: path_append_child_def Let_def)
  define e where "e = elem p' ! depth p"
  have e: "e = (elem p ! depth p)
        \<lparr>position := child,
         index := (if child_list (child_of cls child) then (if ix < 0 then INDEX_UNDEFINED else ix) else INDEX_FORBIDDEN),
         elem_class := class_get_child_class cls child, value_type := child_type (child_of cls child)\<rparr>"
    and p: "elem p' = (elem p)[depth p := e]" "depth p' = Suc (depth p)" "top_class p' = top_class p"
      "length (name p') < MAX_NAME_LEN"
    using p' q l assms(2)
    by (auto simp: path_append_child_def Let_def e_def truth_def MAX_NAME_LEN_def)
  have t: "take (depth p') (elem p') = ?es @ [e]" "take (depth p) (elem p') = ?es"
    using p(1,2) l assms(2) by (simp_all add: take_Suc_conv_app_nth)
  have "element_ok cls e"
    using v q unfolding e by (auto simp: element_ok_def INDEX_KEY_def INDEX_UNDEFINED_def INDEX_FORBIDDEN_def)
  moreover have "value_type (last ?es) = VT_CLASS" if "?es \<noteq> []"
    using class_with_children [of "top_class p" ?es child] that assms(1) c v
    by (auto simp: path_ok_def as_class_def)
  ultimately have "elems_ok (top_class p) (?es @ [e])"
    using assms(1) c by (simp add: elems_ok_append path_ok_def as_class_def)
  then have "path_ok p'"
    using p l assms(2) t by (simp add: path_ok_def)
  moreover have "step_of e = (child, if child_list (child_of cls child)
      then (if ix < 0 then INDEX_UNDEFINED else ix) else INDEX_FORBIDDEN)"
    unfolding e by simp
  ultimately show ?thesis using p' p(2) t(2) e_def by blast
qed

lemma path_drop_last_ok:
  assumes "path_ok p" "0 < depth p"
  shows "path_ok (path_drop_last p)"
proof -
  obtain d where d: "depth p = Suc d" using assms(2) by (cases "depth p") auto
  then have "take (depth p) (elem p) = take d (elem p) @ [elem p ! d]"
    using assms by (simp add: take_Suc_conv_app_nth path_ok_def)
  then have "elems_ok (top_class p) (take d (elem p))"
    using assms(1) elems_ok_butlast by (auto simp: path_ok_def)
  moreover have "length (cut_last_dot (name p)) \<le> length (name p)"
    using length_dropWhile_le [of "\<lambda>c. c \<noteq> CHR ''.''" "rev (name p)"]
    by (auto simp: cut_last_dot_def split: list.splits)
  ultimately show ?thesis using assms(1) d by (auto simp: path_ok_def path_drop_last_def)
qed

lemma cut_last_dot_append:
  "CHR ''.'' \<notin> set t \<Longrightarrow> cut_last_dot (s @ CHR ''.'' # t) = s"
  "CHR ''.'' \<notin> set t \<Longrightarrow> cut_last_dot t = []"
  by (simp_all add: cut_last_dot_def)

text \<open>Parsing a longer name goes on where parsing its beginning stopped.\<close>

lemma parse_element_not_last:
  assumes "parse_element dup cls ptr True old = Inr e" "value_type e = VT_CLASS"
  shows "parse_element dup cls ptr False old = Inr e"
proof -
  obtain nm ix key where pi: "parse_index dup ptr = Inr (nm, ix, key)"
    using assms(1) by (auto simp: parse_element_def res_bind_Inr_iff)
  then obtain child where c: "class_find_child cls nm = Inr child"
    using assms(1) by (auto simp: parse_element_def res_bind_Inr_iff)
  note q = child_valid_queries [OF find_child_valid [OF c]]
  show ?thesis
    using assms pi c q by (auto simp: parse_element_def split: if_splits)
qed

lemma parse_path_token_append:
  "parse_path_token (s @ CHR ''.'' # t) = (case parse_path_token s of
     (ptr, None) \<Rightarrow> (ptr, Some t) | (ptr, Some s') \<Rightarrow> (ptr, Some (s' @ CHR ''.'' # t)))"
proof (cases "CHR ''.'' \<in> set s")
  case True
  then obtain a b where s: "s = a @ CHR ''.'' # b" "CHR ''.'' \<notin> set a" by (metis split_list_first)
  then show ?thesis
    using parse_path_token_dot [OF s(2), of b] parse_path_token_dot [OF s(2), of "b @ CHR ''.'' # t"] by simp
next
  case False
  then show ?thesis using parse_path_token_last [of s] parse_path_token_dot [of s t] by simp
qed

lemma path_parse_loop_append:
  assumes "path_parse_loop dup cls d es s = Inr (d', es')" "length es = MAX_DEPTH" "d < MAX_DEPTH"
    "value_type (es' ! (d' - 1)) = VT_CLASS"
  shows "path_parse_loop dup cls d es (s @ CHR ''.'' # t) =
    path_parse_loop dup (as_class (elem_class (es' ! (d' - 1)))) d' es' t"
  using assms
proof (induction dup cls d es s rule: path_parse_loop.induct)
  case (1 dup cls d es s)
  obtain ptr rest where t: "parse_path_token s = (ptr, rest)" by force
  obtain e where e: "parse_element (dup d) cls ptr (rest = None) (es ! d) = Inr e"
    using 1(2) t by (auto simp: path_parse_loop.simps [of dup cls d es s] split: sum.splits)
  have d: "Suc d \<noteq> MAX_DEPTH"
    using 1(2) t e by (auto simp: path_parse_loop.simps [of dup cls d es s] split: if_splits)
  show ?case
  proof (cases rest)
    case None
    then have r: "d' = Suc d" "es' = es[d := e]"
      using 1(2) t e d by (auto simp: path_parse_loop.simps [of dup cls d es s])
    then have "es' ! (d' - 1) = e" using 1(3,4) by simp
    moreover have "parse_element (dup d) cls ptr False (es ! d) = Inr e"
      using parse_element_not_last e None calculation 1(5) by simp
    ultimately show ?thesis
      using None t r d by (simp add: path_parse_loop.simps [of dup cls d es] parse_path_token_append)
  next
    case (Some s')
    have r: "path_parse_loop dup (as_class (elem_class e)) (Suc d) (es[d := e]) s' = Inr (d', es')"
      using 1(2) t e d Some by (simp add: path_parse_loop.simps [of dup cls d es s])
    have "path_parse_loop dup (as_class (elem_class e)) (Suc d) (es[d := e]) (s' @ CHR ''.'' # t) =
       path_parse_loop dup (as_class (elem_class (es' ! (d' - 1)))) d' es' t"
      using 1(1) [OF t [symmetric] e d Some r] 1(3-5) d by simp
    then show ?thesis
      using Some t e d by (simp add: path_parse_loop.simps [of dup cls d es] parse_path_token_append)
  qed
qed

lemma tolower_special:
  "strcaseeq a b \<Longrightarrow> CHR ''.'' \<in> set b \<Longrightarrow> CHR ''.'' \<in> set a"
  "strcaseeq a b \<Longrightarrow> CHR ''('' \<in> set b \<Longrightarrow> CHR ''('' \<in> set a"
proof -
  have low: "c_tolower c = d \<Longrightarrow> d = CHR ''.'' \<or> d = CHR ''('' \<Longrightarrow> c = d" for c d
  proof -
    assume c: "c_tolower c = d" "d = CHR ''.'' \<or> d = CHR ''(''"
    have d: "ccode d < 65" using c(2) by (auto simp: ccode_def)
    have "\<not> (65 \<le> ccode c \<and> ccode c \<le> 90)"
    proof
      assume h: "65 \<le> ccode c \<and> ccode c \<le> 90"
      then have "ccode d = ccode c + 32" using c(1) by (auto simp: c_tolower_def ccode_char_of)
      then show False using h d by simp
    qed
    then show "c = d" using c(1) by (auto simp: c_tolower_def)
  qed
  have "c_tolower CHR ''.'' = CHR ''.''" "c_tolower CHR ''('' = CHR ''(''"
    by (simp_all add: c_tolower_def ccode_def)
  moreover have "c_tolower ` set a = c_tolower ` set b" if "strcaseeq a b"
    using that unfolding strcaseeq_def by (metis set_map)
  ultimately show
    "strcaseeq a b \<Longrightarrow> CHR ''.'' \<in> set b \<Longrightarrow> CHR ''.'' \<in> set a"
    "strcaseeq a b \<Longrightarrow> CHR ''('' \<in> set b \<Longrightarrow> CHR ''('' \<in> set a"
    using low by (metis (no_types, lifting) image_iff)+
qed

lemma find_child_name_plain:
  assumes "class_find_child cls cname = Inr child"
  shows "CHR ''.'' \<notin> set cname" "CHR ''('' \<notin> set cname"
proof -
  obtain cs i where f: "children_list (object_row cls) = Some cs"
    "find_index (\<lambda>c. strcaseeq (child_name c) cname) cs = Some i" "child = int i"
    using assms by (auto simp: class_find_child_def res_bind_Inr_iff split: option.splits)
  then have "strcaseeq (child_name (child_of cls child)) cname"
    using find_index_Some [OF f(2)] by (simp add: child_of_def)
  then show "CHR ''.'' \<notin> set cname" "CHR ''('' \<notin> set cname"
    using child_name_plain(1,2) [OF find_child_valid [OF assms]] tolower_special by blast+
qed

lemma parse_named_child:
  assumes "class_find_child cls cname = Inr child" "ix < 2 ^ 31"
  shows "step_of e = (child, if child_list (child_of cls child)
      then (if ix < 0 then INDEX_UNDEFINED else ix) else INDEX_FORBIDDEN) \<Longrightarrow>
    \<exists>e'. parse_element dup cls (cname @
      (if ix \<ge> 0 \<and> child_list (child_of cls child) then CHR ''('' # int_dec ix @ '')'' else [])) True old = Inr e' \<and>
      step_of e' = step_of e"
proof -
  assume e: "step_of e = (child, if child_list (child_of cls child)
      then (if ix < 0 then INDEX_UNDEFINED else ix) else INDEX_FORBIDDEN)"
  note q = child_valid_queries [OF find_child_valid [OF assms(1)]] and n = find_child_name_plain [OF assms(1)]
  show ?thesis
  proof (cases "ix \<ge> 0 \<and> child_list (child_of cls child)")
    case True
    then have "parse_index dup (cname @ CHR ''('' # int_dec ix @ '')'') = Inr (cname, ix, None)"
      by (intro parse_index_number) (use n assms(2) in \<open>auto simp: INDEX_UNDEFINED_def\<close>)
    then show ?thesis
      using True e q assms(1)
      by (auto simp: parse_element_def truth_def INDEX_UNDEFINED_def INDEX_KEY_def)
  next
    case False
    then show ?thesis
      using e q assms(1) by (auto simp: parse_element_def truth_def parse_index_plain [OF n(2)])
  qed
qed

lemma path_parse_new_cases:
  assumes "path_parse_new dup zero_path root buffer = Inr p"
  obtains d es new where "path_parse_loop dup root 0 (elem zero_path) buffer = Inr (d, es)"
    "length buffer + 1 < MAX_NAME_LEN" "p = zero_path\<lparr>name := buffer, top_class := root, depth := d, elem := es\<rparr>"
    "new \<noteq> []" "take d es = new" "length es = MAX_DEPTH" "0 < d" "d < MAX_DEPTH" "elems_ok root new"
proof -
  have z: "length (elem zero_path) = MAX_DEPTH" by (simp add: zero_path_def)
  obtain d es where r: "path_parse_loop dup root 0 (elem zero_path) buffer = Inr (d, es)"
    "length buffer + 1 < MAX_NAME_LEN" "p = zero_path\<lparr>name := buffer, top_class := root, depth := d, elem := es\<rparr>"
    using assms by (auto simp: path_parse_new_def copy_path_name_def res_bind_Inr_iff split: if_splits)
  obtain new where n: "new \<noteq> []" "es = new @ drop d (elem zero_path)" "d = length new" "d < MAX_DEPTH"
    "elems_ok root new"
    using path_parse_loop_ok [OF r(1) z] by (auto simp: MAX_DEPTH_def)
  then show thesis using r z by (intro that [OF r]) auto
qed

section \<open>Properties\<close>

text \<open>
  C17. A path that parses is well formed: its elements are a chain of children of the schema
  starting at the root class, with the class and value type the schema gives, an index only on
  listed children, and objects everywhere but at the end; it has between 1 and 15 elements, and
  its name is the text it was made from.
\<close>

theorem path_parse_well_formed:
  assumes "path_parse_new dup zero_path root buffer = Inr p"
  shows "path_ok p \<and> 0 < depth p \<and> depth p < MAX_DEPTH \<and> name p = buffer \<and> top_class p = root"
  by (rule path_parse_new_cases [OF assms]) (auto simp: path_ok_def)

lemma document_incident:
  "class_find_child 141 ''incident'' = Inr 6" "class_is_child_list 141 6 = Inr True"
  "class_is_child_keyed_list 141 6 = Inr False" "class_get_child_value_type 141 6 = Inr VT_CLASS"
  "class_get_child_class 141 6 = Inr 139" "class_get_child_name 141 6 = Some ''incident''"
  by (simp_all add: class_find_child_def is_child_valid_def is_class_valid_def length_object_data
      children_list_elem_def object_row_def object_data_nth document_children_list_def strcaseeq_def
      c_tolower_names c_tolower_letters class_is_child_list_def class_is_child_keyed_list_def
      class_get_child_value_type_def class_get_child_class_def class_get_child_name_def child_of_def Let_def)

lemma document_child_6: "child_list (child_of 141 6)" "is_child_valid 141 6 = Inr ()"
  using document_incident(2) child_valid_queries(1) [of 141 6 "()"] find_child_valid [OF document_incident(1)]
  by simp_all

definition sample_path :: path where
  "sample_path = zero_path\<lparr>name := ''incident(3)'', depth := 1, top_class := 141,
     elem := (elem zero_path)[0 := \<lparr>index = 3, index_key = Key_null, elem_class = Inr 139, position = 6,
       value_type = VT_CLASS\<rparr>]\<rparr>"

lemma document_steps: "steps_ok 141 [(6, 3)]" "steps_text 141 [(6, 3)] = ''incident(3)''"
proof -
  have "int_dec 3 = ''3''" by (simp add: int_dec_def nat_dec.simps digit_char_def) code_simp
  then show "steps_text 141 [(6, 3)] = ''incident(3)''"
    using document_incident(6) by (simp add: step_text_def INDEX_UNDEFINED_def INDEX_FORBIDDEN_def)
  show "steps_ok 141 [(6, 3)]"
    using document_incident document_child_6 by (simp add: step_ok_def INDEX_UNDEFINED_def INDEX_FORBIDDEN_def)
qed

lemma parse_incident: "path_parse_new dup zero_path 141 ''incident(3)'' = Inr sample_path"
proof -
  have t: "parse_path_token ''incident(3)'' = (''incident(3)'', None)" by (simp add: parse_path_token_def)
  have s: "''incident(3)'' = step_text 141 6 3" using document_steps(2) by simp
  have "step_ok 141 6 3" using document_steps(1) by simp
  from parse_step [OF this, of True]
  have e: "parse_element (dup 0) 141 ''incident(3)'' True (elem zero_path ! 0) =
    Inr \<lparr>index = 3, index_key = Key_null, elem_class = Inr 139, position = 6, value_type = VT_CLASS\<rparr>"
    using document_incident(4,5) child_valid_queries(3) [OF document_child_6(2)]
    by (simp add: s zero_path_def zero_element_def MAX_DEPTH_def)
  show ?thesis
    using t e by (simp add: path_parse_new_def copy_path_name_def MAX_NAME_LEN_def
        path_parse_loop.simps [of dup 141 0] sample_path_def MAX_DEPTH_def zero_path_def)
qed

theorem path_parse_well_formed_witness: "path_ok sample_path \<and> depth sample_path = 1"
  using path_parse_well_formed [OF parse_incident] by (simp add: sample_path_def)

text \<open>
  C18. Writing a chain of children and indexes as text and parsing the text gives the chain back:
  the path has exactly those children and indexes, in order.
\<close>

theorem path_text_roundtrip:
  assumes "st \<noteq> []" "steps_ok root st" "length st < MAX_DEPTH"
    and "length (steps_text root st) + 1 < MAX_NAME_LEN"
  shows "\<exists>p. path_parse_new dup zero_path root (steps_text root st) = Inr p \<and>
    depth p = length st \<and> List.map step_of (take (depth p) (elem p)) = st"
proof -
  have z: "length (elem zero_path) = MAX_DEPTH" by (simp add: zero_path_def)
  obtain new where n: "path_parse_loop dup root 0 (elem zero_path) (steps_text root st) =
      Inr (length st, new @ drop (length st) (elem zero_path))" "List.map step_of new = st"
    using parse_steps [OF assms(1,2) z, of 0 dup] assms(3) by auto
  then have "length new = length st" by (metis length_map)
  then show ?thesis using n assms(4) by (simp add: path_parse_new_def copy_path_name_def)
qed

theorem path_text_roundtrip_witness:
  "\<exists>p. path_parse_new (\<lambda>_. True) zero_path 141 ''incident(3)'' = Inr p \<and> depth p = 1"
proof -
  have "[(6::int, 3::int)] \<noteq> []" by simp
  from path_text_roundtrip [OF this document_steps(1), of "\<lambda>_. True"] show ?thesis
    unfolding document_steps(2) by (auto simp: MAX_DEPTH_def MAX_NAME_LEN_def)
qed

text \<open>
  C19. Extending a parsed path by a child gives the path that parsing its new name gives, as long
  as the new name still fits a path: the two ways to build a path agree on every element.
\<close>

theorem make_child_agrees_with_parse:
  assumes "path_parse_new dup zero_path root buffer = Inr p" "path_get_class p (-1) = Inr cls"
    and "class_find_child cls cname = Inr child" "ix < 2 ^ 31"
    and "path_append_child p cls cname ix child = Inr p'"
    and "depth p' < MAX_DEPTH" "length (name p') + 1 < MAX_NAME_LEN"
  shows "\<exists>q. path_parse_new dup zero_path root (name p') = Inr q \<and> depth q = depth p' \<and>
    List.map step_of (take (depth q) (elem q)) = List.map step_of (take (depth p') (elem p'))"
proof -
  obtain d es new where r: "path_parse_loop dup root 0 (elem zero_path) buffer = Inr (d, es)"
    and l: "length buffer + 1 < MAX_NAME_LEN"
    and p: "p = zero_path\<lparr>name := buffer, top_class := root, depth := d, elem := es\<rparr>"
    and new: "new \<noteq> []" "take d es = new" "length es = MAX_DEPTH" "0 < d" "d < MAX_DEPTH" "elems_ok root new"
    by (rule path_parse_new_cases [OF assms(1)])
  have ok: "path_ok p" using p new l by (simp add: path_ok_def)
  let ?buf = "if ix \<ge> 0 \<and> child_list (child_of cls child) then CHR ''('' # int_dec ix @ '')'' else []"
  have v: "is_child_valid cls child = Inr ()" by (rule find_child_valid [OF assms(3)])
  have c: "last_class root new = Inr cls"
    using path_get_class_last [of p] assms(2) p new by simp
  have lst: "es ! (d - 1) = last new"
    using new by (metis last_conv_nth length_take less_imp_le min.absorb2 nth_take diff_less zero_less_one)
  have vt: "value_type (es ! (d - 1)) = VT_CLASS"
    using class_with_children [OF new(6,1), of child] c v lst by (simp add: as_class_def)
  have p': "depth p' = Suc d" "elem p' ! d = e \<Longrightarrow> take (Suc d) (elem p') = new @ [e]" for e
    using assms(5) p new by (auto simp: path_append_child_def Let_def res_bind_Inr_iff take_Suc_conv_app_nth)
  have nm: "name p' = buffer @ CHR ''.'' # cname @ ?buf"
    using assms(5,7) p new(4) child_valid_queries(1) [OF v]
    by (auto simp: path_append_child_def Let_def res_bind_Inr_iff truth_def MAX_NAME_LEN_def split: if_splits)
  have st: "step_of (elem p' ! d) = (child, if child_list (child_of cls child)
      then (if ix < 0 then INDEX_UNDEFINED else ix) else INDEX_FORBIDDEN)"
    using path_append_child_ok [OF ok _ assms(2,3), of ix] assms(5) p new(5) by auto
  obtain e' where e: "parse_element (dup d) cls (cname @ ?buf) True (es ! d) = Inr e'"
    "step_of e' = step_of (elem p' ! d)"
    using parse_named_child [OF assms(3,4) st] by blast
  have "CHR ''.'' \<notin> set (cname @ ?buf)"
    using find_child_name_plain(1) [OF assms(3)] int_dec_no [of "CHR ''.''" ix] by simp
  then have "path_parse_loop dup cls d es (cname @ ?buf) = Inr (Suc d, es[d := e'])"
    using e(1) assms(6) p'(1) parse_path_token_last by (simp add: path_parse_loop.simps [of dup cls d es])
  moreover have "as_class (elem_class (es ! (d - 1))) = cls"
    using c last_class_last [OF new(1)] lst by (simp add: as_class_def)
  ultimately have "path_parse_loop dup root 0 (elem zero_path) (name p') = Inr (Suc d, es[d := e'])"
    using path_parse_loop_append [OF r _ _ vt, of "cname @ ?buf"] nm
    by (simp add: zero_path_def MAX_DEPTH_def)
  moreover have "take (Suc d) (es[d := e']) = new @ [e']"
    using new by (simp add: take_Suc_conv_app_nth)
  ultimately show ?thesis
    using p' assms(7) e(2) by (simp add: path_parse_new_def copy_path_name_def)
qed

lemma incident_contact:
  "class_find_child 139 ''contact'' = Inr 11" "class_is_child_list 139 11 = Inr True"
  "class_get_child_value_type 139 11 = Inr VT_CLASS" "class_get_child_class 139 11 = Inr 81"
  by (simp_all add: class_find_child_def is_child_valid_def is_class_valid_def length_object_data
      children_list_elem_def object_row_def object_data_nth incident_children_list_def strcaseeq_def
      c_tolower_names c_tolower_letters class_is_child_list_def
      class_get_child_value_type_def class_get_child_class_def child_of_def Let_def)

theorem make_child_agrees_with_parse_witness:
  "\<exists>p' q. path_append_child sample_path 139 ''contact'' 0 11 = Inr p' \<and>
     path_parse_new (\<lambda>_. True) zero_path 141 (name p') = Inr q \<and> depth q = 2"
proof -
  have g: "path_get_class sample_path (-1) = Inr 139"
    by (simp add: path_get_class_def sample_path_def zero_path_def MAX_DEPTH_def)
  obtain p' where p': "path_append_child sample_path 139 ''contact'' 0 11 = Inr p'"
    using incident_contact(3) by (simp add: path_append_child_def Let_def)
  have "length (int_dec 0) = 1" by (simp add: int_dec_def nat_dec.simps)
  then have "depth p' = 2" "length (name p') + 1 < MAX_NAME_LEN"
    using p' incident_contact
    by (auto simp: path_append_child_def Let_def sample_path_def MAX_NAME_LEN_def truth_def)
  then show ?thesis
    using make_child_agrees_with_parse [OF parse_incident g incident_contact(1) _ p', of "\<lambda>_. True"] p'
    by (auto simp: MAX_DEPTH_def)
qed

section \<open>Rebuilding the name\<close>

lemma class_child_name:
  assumes "is_child_valid cls child = Inr u" "child_type (child_of cls child) = VT_CLASS"
  shows "class_get_name (child_class (child_of cls child)) = Some (child_name (child_of cls child))"
    "0 \<le> child_class (child_of cls child)"
proof -
  obtain cs where "nat child < length cs" "child_of cls child = cs ! nat child" "children_ok cs"
    by (rule child_valid_children [OF assms(1)])
  then have "child_ok (child_of cls child)" by (simp add: children_ok_def list_all_length)
  then show "class_get_name (child_class (child_of cls child)) = Some (child_name (child_of cls child))"
    "0 \<le> child_class (child_of cls child)"
    using assms(2) by (auto simp: child_ok_def class_get_name_def is_class_valid_def length_object_data object_row_def)
qed

lemma path_get_name_child:
  assumes "element_ok cls (elem p ! i)" "i < depth p"
    "i = 0 \<Longrightarrow> value_type (elem p ! 0) = VT_CLASS" "i > 0 \<Longrightarrow> elem_class (elem p ! (i - 1)) = Inr cls"
  shows "path_get_name p (int i) = class_get_child_name cls (position (elem p ! i))"
proof -
  let ?e = "elem p ! i"
  have v: "is_child_valid cls (position ?e) = Inr ()" using assms(1) by (simp add: element_ok_def)
  note q = child_valid_queries [OF v]
  have t: "child_type (child_of cls (position ?e)) = value_type ?e"
    using assms(1) q(3) by (simp add: element_ok_def)
  show ?thesis
  proof (cases "value_type ?e = VT_CLASS")
    case True
    then have "elem_class ?e = Inr (child_class (child_of cls (position ?e)))"
      using assms(1) q(5) t by (simp add: element_ok_def)
    then show ?thesis
      using class_child_name [OF v] True t assms(2) q(4)
      by (auto simp: path_get_name_def Let_def as_class_def)
  next
    case False
    then have i: "i > 0" using assms(3) by (cases i) auto
    have "as_class (elem_class ?e) < 0 \<or> value_type ?e = VT_ENUM"
      using assms(1) v t False by (auto simp: element_ok_def class_get_child_class_def as_class_def Let_def)
    then show ?thesis
      using i assms(2) assms(4) by (simp add: path_get_name_def Let_def as_class_def nat_diff_distrib)
  qed
qed

lemma name_cat_fits: "length nm + length s < MAX_NAME_LEN \<Longrightarrow> name_cat nm s = Inr (nm @ s)"
  by (simp add: name_cat_def Let_def)

lemma index_name_fits:
  assumes "index e \<noteq> INDEX_KEY"
    "length nm + length (if index e = INDEX_UNDEFINED \<or> index e = INDEX_FORBIDDEN then []
        else CHR ''('' # int_dec (index e) @ '')'') < MAX_NAME_LEN"
  shows "index_name e nm = Inr (nm @ (if index e = INDEX_UNDEFINED \<or> index e = INDEX_FORBIDDEN then []
        else CHR ''('' # int_dec (index e) @ '')''))"
proof (cases "index e = INDEX_UNDEFINED \<or> index e = INDEX_FORBIDDEN")
  case True
  then show ?thesis by (auto simp: index_name_def)
next
  case False
  then have l: "length nm + length (int_dec (index e)) + 2 < MAX_NAME_LEN" using assms(2) by simp
  then show ?thesis
    using False assms(1) name_cat_fits [of nm "''(''"]
      name_cat_fits [of "nm @ CHR ''('' # int_dec (index e)" "'')''"]
    by (simp add: index_name_def)
qed

lemma elems_ok_nth:
  assumes "elems_ok cls es" "i < length es"
  shows "element_ok (if i = 0 then cls else as_class (elem_class (es ! (i - 1)))) (es ! i) \<and>
    (Suc i < length es \<longrightarrow> value_type (es ! i) = VT_CLASS)"
  using assms
proof (induction cls es arbitrary: i rule: elems_ok.induct)
  case (2 cls e es)
  show ?case
  proof (cases i)
    case 0
    then show ?thesis using 2(2,3) by auto
  next
    case (Suc j)
    then have "es \<noteq> []" using 2(3) by auto
    then show ?thesis using 2(1)[of j] 2(2,3) Suc by (cases j) auto
  qed
qed simp

lemma build_name_from_text:
  assumes "elems_ok (top_class p) (take (depth p) (elem p))" "depth p \<le> length (elem p)"
    "i + k = depth p" "\<forall>e \<in> set (take (depth p) (elem p)). index e \<noteq> INDEX_KEY"
    "i > 0 \<Longrightarrow> k > 0 \<Longrightarrow> elem_class (elem p ! (i - 1)) = Inr cls" "i = 0 \<Longrightarrow> cls = top_class p"
    "depth p > 0 \<Longrightarrow> value_type (elem p ! 0) = VT_CLASS"
    "rest = List.map step_of (drop i (take (depth p) (elem p)))"
    "t = (if i > 0 \<and> k > 0 then ''.'' else []) @ steps_text cls rest" "length nm + length t < MAX_NAME_LEN"
  shows "build_name_from p cls nm i k = (nm @ t, Inr ())"
  using assms(3,5-10)
proof (induction k arbitrary: i cls nm rest t)
  case 0
  then show ?case by simp
next
  case (Suc k)
  let ?es = "take (depth p) (elem p)" let ?e = "elem p ! i"
  have i: "i < depth p" "?es ! i = ?e" "i < length ?es" using Suc(2) assms(2) by auto
  have cls: "(if i = 0 then top_class p else as_class (elem_class (?es ! (i - 1)))) = cls"
    using Suc(3,4) i(1) by (auto simp: as_class_def)
  have ok: "element_ok cls ?e" and vt: "Suc i < depth p \<Longrightarrow> value_type ?e = VT_CLASS"
    using elems_ok_nth [OF assms(1) i(3)] i cls assms(2) by auto
  have key: "index ?e \<noteq> INDEX_KEY" using assms(4) i(2,3) by (metis nth_mem)
  have v: "is_child_valid cls (position ?e) = Inr ()" using ok by (simp add: element_ok_def)
  let ?n = "child_name (child_of cls (position ?e))"
  let ?ix = "if index ?e = INDEX_UNDEFINED \<or> index ?e = INDEX_FORBIDDEN then []
        else CHR ''('' # int_dec (index ?e) @ '')''"
  let ?dot = "if i > 0 then ''.'' else []"
  have nm: "path_get_name p (int i) = Some ?n"
    using path_get_name_child [OF ok i(1)] Suc(3,5) i(1) child_valid_queries(4) [OF v] by auto
  have st: "step_text cls (position ?e) (index ?e) = ?n @ ?ix"
    using child_valid_queries(4) [OF v] by (simp add: step_text_def)
  define rest' where "rest' = List.map step_of (drop (Suc i) ?es)"
  have rest: "rest = (position ?e, index ?e) # rest'"
    using Suc(6) i Cons_nth_drop_Suc [OF i(3)] by (metis (no_types, lifting) list.simps(9) rest'_def)
  have rl: "rest' = [] \<longleftrightarrow> k = 0" using Suc(2) assms(2) by (auto simp: rest'_def)
  let ?cls = "as_class (class_get_child_class cls (position ?e))"
  define t' where "t' = (if k > 0 then ''.'' else []) @ steps_text ?cls rest'"
  have t: "t = ?dot @ ?n @ ?ix @ t'"
    using Suc(7) rest rl st by (cases "k = 0") (simp_all add: t'_def)
  have len: "length nm + length ?dot + length ?n + length ?ix + length t' < MAX_NAME_LEN"
    using Suc(8) unfolding t by simp
  have c1: "(if i > 0 then name_cat nm ''.'' else Inr nm) = Inr (nm @ ?dot)"
    using name_cat_fits [of nm "''.''"] len by (cases "i > 0") simp_all
  have c2: "res_bind (name_cat (nm @ ?dot) ?n) (index_name ?e) = Inr (nm @ ?dot @ ?n @ ?ix)"
    using name_cat_fits [of "nm @ ?dot" ?n] index_name_fits [OF key, of "nm @ ?dot @ ?n"] len by simp
  have cl: "k > 0 \<Longrightarrow> elem_class ?e = Inr ?cls \<and> 0 \<le> ?cls"
    using vt Suc(2) ok child_valid_queries [OF v] class_child_name(2) [OF v]
    by (auto simp: element_ok_def as_class_def)
  have z: "(?cls < 0 \<and> i < depth p - 1) = False" using cl Suc(2) by (cases "k = 0") auto
  have "build_name_from p cls nm i (Suc k) = build_name_from p ?cls (nm @ ?dot @ ?n @ ?ix) (Suc i) k"
    unfolding build_name_from.simps c1 c2 nm Let_def sum.case option.case using z by (simp only: if_False)
  also have "\<dots> = ((nm @ ?dot @ ?n @ ?ix) @ t', Inr ())"
    by (rule Suc(1) [where rest = rest']) (use Suc(2) cl len t'_def rest'_def assms(7) in auto)
  finally show ?case using t by simp
qed

lemma path_ok_no_key:
  assumes "path_ok p" "e \<in> set (take (depth p) (elem p))"
  shows "index e \<noteq> INDEX_KEY"
proof
  assume k: "index e = INDEX_KEY"
  obtain i where "i < length (take (depth p) (elem p))" "e = take (depth p) (elem p) ! i"
    using assms(2) by (metis in_set_conv_nth)
  then obtain cls where "element_ok cls e"
    using elems_ok_nth assms(1) by (metis path_ok_def)
  then show False using k child_valid_queries(2) by (auto simp: element_ok_def)
qed

lemma elems_ok_reindex:
  assumes "elems_ok cls es" "d < length es" "index (es ! d) \<noteq> INDEX_FORBIDDEN" "ix \<noteq> INDEX_KEY"
  shows "elems_ok cls (es[d := (es ! d)\<lparr>index := ix\<rparr>])"
  using assms
proof (induction cls es arbitrary: d rule: elems_ok.induct)
  case (2 cls e es)
  show ?case
  proof (cases d)
    case 0
    then show ?thesis using 2(2-5) by (auto simp: element_ok_def)
  next
    case (Suc j)
    then have "es \<noteq> []" using 2(3) by auto
    then show ?thesis using 2(1) [of j] 2(2-5) Suc by simp
  qed
qed simp

text \<open>
  C20. Setting an index on a path below a document changes that index only, and the rebuilt name is
  the text of the new chain: parsing it gives a path with exactly the elements of the changed one.
\<close>

theorem set_index_renames:
  assumes "path_ok p" "top_class p = 141" "value_type (elem p ! 0) = VT_CLASS"
    and "d < depth p" "depth p < MAX_DEPTH" "index (elem p ! d) \<noteq> INDEX_FORBIDDEN"
    and "st = (List.map step_of (take (depth p) (elem p)))[d := (position (elem p ! d), ix)]"
    and "steps_ok 141 st" "length (steps_text 141 st) + 1 < MAX_NAME_LEN" "ix \<noteq> INDEX_KEY"
  shows "\<exists>p' q. path_put_index p d ix = (p', Inr ()) \<and> path_ok p' \<and> name p' = steps_text 141 st \<and>
    List.map step_of (take (depth p') (elem p')) = st \<and>
    path_parse_new dup zero_path 141 (name p') = Inr q \<and>
    List.map step_of (take (depth q) (elem q)) = st"
proof -
  let ?es = "take (depth p) (elem p)"
  have l: "length (elem p) = MAX_DEPTH" "length ?es = depth p" "d < length (elem p)"
    using assms(1,4) by (auto simp: path_ok_def)
  have e: "elem p ! d \<in> set ?es" using assms(4) l(2) by (metis nth_mem nth_take)
  have ek: "index (elem p ! d) \<noteq> INDEX_KEY" by (rule path_ok_no_key [OF assms(1) e])
  define p1 where "p1 = p\<lparr>elem := (elem p)[d := (elem p ! d)\<lparr>index := ix\<rparr>]\<rparr>"
  have es: "take (depth p) (elem p1) = ?es[d := (?es ! d)\<lparr>index := ix\<rparr>]"
    using assms(4) by (simp add: p1_def take_update_swap)
  have st: "List.map step_of (take (depth p) (elem p1)) = st"
    using assms(4,7) by (simp add: es map_update)
  have eok: "elems_ok (top_class p1) (take (depth p1) (elem p1))"
    using elems_ok_reindex [of "top_class p" ?es d ix] assms(1,4,6,10) l(2) es
    by (simp add: path_ok_def p1_def)
  have nk: "\<forall>x \<in> set (take (depth p1) (elem p1)). index x \<noteq> INDEX_KEY"
  proof
    fix x assume "x \<in> set (take (depth p1) (elem p1))"
    then have "x \<in> set (?es[d := (?es ! d)\<lparr>index := ix\<rparr>])" using es by (simp add: p1_def)
    then have "x \<in> set ?es \<or> x = (?es ! d)\<lparr>index := ix\<rparr>"
      using set_update_subset_insert by fastforce
    then show "index x \<noteq> INDEX_KEY" using path_ok_no_key [OF assms(1)] assms(10) by auto
  qed
  have vt: "value_type (elem p1 ! 0) = VT_CLASS"
    using assms(3) l(3) by (cases d) (simp_all add: p1_def)
  have b: "build_name_from p1 141 [] 0 (depth p1) = ([] @ steps_text 141 st, Inr ())"
    by (rule build_name_from_text [where rest = st])
      (use eok nk vt assms(2,9) l st in \<open>auto simp: p1_def MAX_NAME_LEN_def MAX_DEPTH_def\<close>)
  let ?p = "p1\<lparr>name := steps_text 141 st\<rparr>"
  have r: "path_put_index p d ix = (?p, Inr ())"
    using b ek by (simp add: path_put_index_def Let_def build_name_def IODEFV2_CLASS_ID_DOCUMENT_def p1_def)
  have "path_ok ?p" using eok assms(1,9) l(1) by (simp add: path_ok_def p1_def)
  moreover have "List.map step_of (take (depth ?p) (elem ?p)) = st" using st by (simp add: p1_def)
  moreover have "\<exists>q. path_parse_new dup zero_path 141 (steps_text 141 st) = Inr q \<and>
      List.map step_of (take (depth q) (elem q)) = st"
  proof -
    have z: "length (elem zero_path) = MAX_DEPTH" by (simp add: zero_path_def)
    have len: "st \<noteq> []" "length st < MAX_DEPTH" using assms(4,5,7) l(2) by auto
    obtain new where n: "path_parse_loop dup 141 0 (elem zero_path) (steps_text 141 st) =
        Inr (length st, new @ drop (length st) (elem zero_path))" "List.map step_of new = st"
      using parse_steps [OF len(1) assms(8) z, of 0 dup] len(2) by auto
    then have "length new = length st" by (metis length_map)
    then show ?thesis using n assms(9) by (simp add: path_parse_new_def copy_path_name_def)
  qed
  ultimately show ?thesis using r by auto
qed

lemma path_parse_new_ok: "path_parse_new dup zero_path root buffer = Inr p \<Longrightarrow> path_ok p"
  by (erule path_parse_new_cases) (auto simp: path_ok_def)

lemma sample_path_ok: "path_ok sample_path"
  by (rule path_parse_new_ok [OF parse_incident])

theorem set_index_renames_witness:
  "\<exists>p'. path_put_index sample_path 0 5 = (p', Inr ()) \<and> name p' = ''incident(5)''"
proof -
  have "int_dec 5 = ''5''" by (simp add: int_dec_def nat_dec.simps digit_char_def) code_simp
  then have t: "steps_text 141 [(6, 5)] = ''incident(5)''"
    using document_incident(6) by (simp add: step_text_def INDEX_UNDEFINED_def INDEX_FORBIDDEN_def)
  have "steps_ok 141 [(6, 5)]"
    using document_incident document_child_6 by (simp add: step_ok_def INDEX_UNDEFINED_def INDEX_FORBIDDEN_def)
  moreover have "elem sample_path ! 0 = \<lparr>index = 3, index_key = Key_null, elem_class = Inr 139,
      position = 6, value_type = VT_CLASS\<rparr>" "depth sample_path = 1" "top_class sample_path = 141"
    and "take 1 (elem sample_path) = [elem sample_path ! 0]"
    using take_Suc_conv_app_nth [of 0 "elem sample_path"]
    by (simp_all add: sample_path_def zero_path_def MAX_DEPTH_def)
  ultimately show ?thesis
    using set_index_renames [OF sample_path_ok, of 0 "[(6, 5)]" 5] t
    by (simp add: MAX_DEPTH_def MAX_NAME_LEN_def INDEX_FORBIDDEN_def INDEX_UNDEFINED_def INDEX_KEY_def) blast
qed

lemma ncompare_from_steps:
  assumes "\<forall>j. i \<le> j \<longrightarrow> j < i + k \<longrightarrow> index (elem p ! j) \<noteq> INDEX_KEY" "i + k \<le> MAX_DEPTH"
  shows "path_ncompare_from p q i k =
    (if \<forall>j. i \<le> j \<longrightarrow> j < i + k \<longrightarrow> step_of (elem p ! j) = step_of (elem q ! j) then Inr () else Inl E_minus1)"
  using assms
proof (induction k arbitrary: i)
  case (Suc k)
  have h: "index (elem p ! i) \<noteq> INDEX_KEY" "i < MAX_DEPTH" using Suc(2,3) by auto
  have s: "(\<forall>j. i \<le> j \<longrightarrow> j < i + Suc k \<longrightarrow> P j) \<longleftrightarrow> P i \<and> (\<forall>j. Suc i \<le> j \<longrightarrow> j < Suc i + k \<longrightarrow> P j)" for P
    using Suc_le_eq le_eq_less_or_eq by auto
  have "path_ncompare_from p q (Suc i) k =
    (if \<forall>j. Suc i \<le> j \<longrightarrow> j < Suc i + k \<longrightarrow> step_of (elem p ! j) = step_of (elem q ! j) then Inr () else Inl E_minus1)"
    by (rule Suc(1)) (use Suc(2,3) in auto)
  then show ?case unfolding s using h by (simp add: Let_def)
qed simp

text \<open>
  C21. Comparing two well-formed paths never faults and decides whether they have the same children
  and indexes; the root class is not compared.
\<close>

theorem path_compare_decides:
  assumes "path_ok p" "path_ok q"
  shows "path_compare p q =
    (if List.map step_of (take (depth p) (elem p)) = List.map step_of (take (depth q) (elem q))
     then Inr () else Inl E_minus1)"
proof (cases "depth p = depth q")
  case True
  have l: "length (elem p) = MAX_DEPTH" "length (elem q) = MAX_DEPTH" "depth p \<le> MAX_DEPTH"
    using assms by (auto simp: path_ok_def)
  have k: "\<forall>j. 0 \<le> j \<longrightarrow> j < 0 + depth p \<longrightarrow> index (elem p ! j) \<noteq> INDEX_KEY"
  proof (intro allI impI)
    fix j assume "j < 0 + depth p"
    then have "elem p ! j \<in> set (take (depth p) (elem p))"
      using l by (auto simp: in_set_conv_nth intro!: exI [of _ j])
    then show "index (elem p ! j) \<noteq> INDEX_KEY" by (rule path_ok_no_key [OF assms(1)])
  qed
  have "(List.map step_of (take (depth p) (elem p)) = List.map step_of (take (depth q) (elem q))) \<longleftrightarrow>
     (\<forall>j < depth p. step_of (elem p ! j) = step_of (elem q ! j))"
    using True l by (auto simp: list_eq_iff_nth_eq)
  then show ?thesis
    using True ncompare_from_steps [OF k] l(3) by (simp add: path_compare_def path_ncompare_def)
next
  case False
  then have "List.map step_of (take (depth p) (elem p)) \<noteq> List.map step_of (take (depth q) (elem q))"
    using assms by (metis length_map length_take min.absorb2 path_ok_def)
  then show ?thesis using False by (simp add: path_compare_def)
qed

theorem path_compare_decides_witness: "path_compare sample_path sample_path = Inr ()"
  using path_compare_decides [OF sample_path_ok sample_path_ok] by simp

lemma clone_keys_same:
  assumes "\<forall>e \<in> set es. index_key e \<noteq> Key_freed" "\<forall>i. dup i" "i + k \<le> length es"
  shows "clone_keys dup es i k = Inr es"
  using assms(3)
proof (induction k arbitrary: i)
  case (Suc k)
  have "index_key (es ! i) \<noteq> Key_freed" using assms(1) Suc(2) by auto
  moreover have "es[i := (es ! i)\<lparr>index_key := Key s\<rparr>] = es" if "index_key (es ! i) = Key s" for s
    using that Suc(2) list_update_id by (metis path_element.surjective path_element.update_convs(2))
  ultimately show ?case
    using Suc assms(2) by (cases "index_key (es ! i)") simp_all
qed simp

text \<open>A clone has the contents of its source and one reference.\<close>

lemma path_clone_same:
  assumes "path_ok p" "\<forall>e \<in> set (elem p). index_key e \<noteq> Key_freed" "\<forall>i. dup i"
  shows "path_clone True dup p = Inr (p\<lparr>refcount := 1\<rparr>)"
  using clone_keys_same [OF assms(2,3), of 0 "depth p"] assms(1)
  by (simp add: path_clone_def path_ok_def)

text \<open>
  When the very first key cannot be duplicated, the clean-up loop leaves the array.
\<close>

lemma path_clone_first_key_fails:
  "index_key (hd (elem p)) = Key k \<Longrightarrow> elem p \<noteq> [] \<Longrightarrow> 0 < depth p \<Longrightarrow> \<not> dup 0 \<Longrightarrow>
     path_clone True dup p = Inl (UB Out_of_bounds)"
  by (cases "depth p") (auto simp: path_clone_def hd_conv_nth)

text \<open>
  A name of 127 characters is the longest the buffer holds; one more character written by
  \<open>strncat\<close> overflows it by its NUL.
\<close>

lemma name_cat_overflow: "length nm = 127 \<Longrightarrow> s \<noteq> [] \<Longrightarrow> name_cat nm s = Inl (UB Out_of_bounds)"
  by (cases s) (simp_all add: name_cat_def MAX_NAME_LEN_def Let_def)

text \<open>
  \<open>build_name\<close> follows the classes from the document, whatever the path's root: below another root,
  setting an index can be refused after the index was changed and the name was cut short. Here the
  root is an incident; its \<open>event_data\<close> is child 23 there, and a document has no such child.
\<close>

lemma build_name_wrong_root:
  assumes "depth p = 2" "elem p ! 0 = \<lparr>index = 0, index_key = Key_null, elem_class = Inr 127, position = 23,
     value_type = VT_CLASS\<rparr>"
  shows "build_name p = (p\<lparr>name := ''event_data(0)''\<rparr>, Inl (E ERROR_PATH_INTEGRITY))"
proof -
  have n: "path_get_name p 0 = Some ''event_data''"
    using assms by (simp add: path_get_name_def Let_def as_class_def class_get_name_def is_class_valid_def
        length_object_data object_row_def object_data_nth)
  have i: "int_dec 0 = ''0''" by (simp add: int_dec_def nat_dec.simps digit_char_def) code_simp
  have c: "class_get_child_class 141 23 = Inl (EV ERROR_CLASS_UNKNOWN_CHILD)"
    by (simp add: class_get_child_class_def is_child_valid_def is_class_valid_def length_object_data
        children_list_elem_def object_row_def object_data_nth document_children_list_def)
  have x: "index_name (elem p ! 0) ''event_data'' = Inr ''event_data(0)''"
    using assms(2) i by (simp add: index_name_def name_cat_def Let_def MAX_NAME_LEN_def INDEX_UNDEFINED_def
        INDEX_FORBIDDEN_def INDEX_KEY_def)
  have d: "depth p = Suc (Suc 0)" using assms(1) by simp
  have "name_cat [] ''event_data'' = Inr ''event_data''" by (simp add: name_cat_def MAX_NAME_LEN_def)
  then show ?thesis
    using n c x d assms(2) by (simp add: build_name_def name_cat_def Let_def MAX_NAME_LEN_def as_class_def
        IODEFV2_CLASS_ID_DOCUMENT_def)
qed

end
