(* ===== verification/PathCache.thy ===== *)
theory PathCache
  imports Path Hash
begin

text \<open>
  The shared paths of src/src/iodefv2-path.c: the heap of path objects with their reference counts,
  and the table \<open>cached_path\<close> that makes \<open>iodefv2_path_new\<close> return the same object for the same
  root and name. Addresses are numbers; a new object gets an address that was never used. The
  table's callbacks read the paths in memory at the moment of the call. Mutexes are left out: the
  operations run one at a time.
\<close>

section \<open>State\<close>

text \<open>The pointer \<open>cached_path\<close>: NULL, a table, or a table that was destroyed.\<close>

datatype table_ptr = No_table | Table "(nat, nat) hash" | Table_freed

record pstate =
  paths :: "nat \<Rightarrow> path option"
  next_id :: nat
  cached_path :: table_ptr
  flush_cache :: bool

text \<open>Which allocations succeed during one call.\<close>

record allocs =
  a_hash :: bool
  a_lists :: bool
  a_path :: bool
  a_elem :: bool
  a_dup :: "nat \<Rightarrow> bool"

definition deref :: "pstate \<Rightarrow> nat \<Rightarrow> path res" where
  "deref st i = (case paths st i of Some p \<Rightarrow> Inr p | None \<Rightarrow> Inl (UB Use_after_free))"

definition put_path :: "nat \<Rightarrow> path \<Rightarrow> pstate \<Rightarrow> pstate" where
  "put_path i p st = st\<lparr>paths := (paths st)(i := Some p)\<rparr>"

definition free_path :: "nat \<Rightarrow> pstate \<Rightarrow> pstate" where
  "free_path i st = st\<lparr>paths := (paths st)(i := None)\<rparr>"

section \<open>The table of shared paths\<close>

definition path_hash_func :: "path \<Rightarrow> 32 word" where
  "path_hash_func p = default_hash_func (name p)"

definition path_key_cmp_func :: "path \<Rightarrow> path \<Rightarrow> bool" where
  "path_key_cmp_func p1 p2 \<longleftrightarrow> \<not> top_class p1 \<noteq> top_class p2 \<and> name p1 = name p2"

definition path_at :: "pstate \<Rightarrow> nat \<Rightarrow> path" where
  "path_at st i = (case paths st i of Some p \<Rightarrow> p | None \<Rightarrow> zero_path)"

text \<open>The table as the hash functions see it now.\<close>

definition table_now :: "pstate \<Rightarrow> (nat, nat) hash \<Rightarrow> (nat, nat) hash" where
  "table_now st h = h\<lparr>hash_func := \<lambda>i. path_hash_func (path_at st i),
     key_cmp_func := \<lambda>i j. path_key_cmp_func (path_at st i) (path_at st j)\<rparr>"

text \<open>Using the table: a destroyed table, or a table that holds a freed path, is a fault.\<close>

definition with_table :: "pstate \<Rightarrow> ((nat, nat) hash \<Rightarrow> 'a res) \<Rightarrow> 'a res" where
  "with_table st f = (case cached_path st of
     No_table \<Rightarrow> Inl (UB Null_deref)
   | Table_freed \<Rightarrow> Inl (UB Use_after_free)
   | Table h \<Rightarrow>
       if \<exists>b \<in> set (buckets h). \<exists>e \<in> set b. paths st (fst e) = None then Inl (UB Use_after_free)
       else f (table_now st h))"

definition initialize_path_cache_if_needed :: "allocs \<Rightarrow> pstate \<Rightarrow> pstate \<times> unit res" where
  "initialize_path_cache_if_needed al st =
     (if cached_path st \<noteq> No_table then (st, Inr ())
      else (case hash_new2 (a_hash al) (a_lists al) 128 (\<lambda>_. 0) (\<lambda>_ _. False) False True of
          Inl err \<Rightarrow> (st, Inl err)
        | Inr h \<Rightarrow> (st\<lparr>cached_path := Table h\<rparr>, Inr ())))"

section \<open>References\<close>

definition path_ref :: "pstate \<Rightarrow> nat \<Rightarrow> pstate \<times> nat res" where
  "path_ref st i = (case deref st i of
     Inl err \<Rightarrow> (st, Inl err)
   | Inr p \<Rightarrow> (put_path i (p\<lparr>refcount := refcount p + 1\<rparr>) st, Inr i))"

definition path_destroy :: "pstate \<Rightarrow> nat \<Rightarrow> pstate \<times> unit res" where
  "path_destroy st i = (case deref st i of
     Inl err \<Rightarrow> (st, Inl err)
   | Inr p \<Rightarrow>
       if refcount p - 1 \<noteq> 0 then (put_path i (p\<lparr>refcount := refcount p - 1\<rparr>) st, Inr ())
       else (free_path i st, Inr ()))"

definition flush_cache_if_wanted :: "pstate \<Rightarrow> nat \<Rightarrow> pstate \<times> unit res" where
  "flush_cache_if_wanted st i = (if flush_cache st then path_destroy st i else (st, Inr ()))"

fun flush_events :: "pstate \<Rightarrow> (nat, nat) event list \<Rightarrow> pstate \<times> unit res" where
  "flush_events st [] = (st, Inr ())"
| "flush_events st (Value_destroyed i # evs) =
     (case flush_cache_if_wanted st i of
        (st', Inl err) \<Rightarrow> (st', Inl err) | (st', Inr _) \<Rightarrow> flush_events st' evs)"
| "flush_events st (Key_destroyed i # evs) = flush_events st evs"

text \<open>\<open>_iodefv2_path_cache_destroy\<close>: the pointer \<open>cached_path\<close> keeps the destroyed table.\<close>

definition path_cache_destroy :: "pstate \<Rightarrow> pstate \<times> unit res" where
  "path_cache_destroy st = (case cached_path st of
     No_table \<Rightarrow> (st, Inr ())
   | Table_freed \<Rightarrow> (st, Inl (UB Use_after_free))
   | Table h \<Rightarrow>
       (case flush_events (st\<lparr>flush_cache := True\<rparr>) (hash_destroy h) of
          (st', r) \<Rightarrow> (st'\<lparr>flush_cache := False, cached_path := Table_freed\<rparr>, r)))"

section \<open>Creating\<close>

text \<open>
  The key of the look-up is a path on the stack: here it is at address 0, which no object has.
\<close>

definition path_create :: "allocs \<Rightarrow> pstate \<Rightarrow> int \<Rightarrow> string \<Rightarrow> pstate \<times> (nat \<times> bool) res" where
  "path_create al st rootclass buffer =
     (case copy_path_name zero_path buffer of
        Inl err \<Rightarrow> (st, Inl err)
      | Inr tmp \<Rightarrow>
     (case initialize_path_cache_if_needed al st of
        (st, Inl err) \<Rightarrow> (st, Inl err)
      | (st, Inr _) \<Rightarrow>
     (case with_table (put_path 0 (tmp\<lparr>top_class := rootclass\<rparr>) st) (\<lambda>h. hash_get h 0) of
        Inl err \<Rightarrow> (st, Inl err)
      | Inr (Some i) \<Rightarrow> (st, Inr (i, True))
      | Inr None \<Rightarrow>
          if \<not> a_path al then (st, Inl E_errno)
          else (put_path (next_id st) (zero_path\<lparr>refcount := 1\<rparr>) (st\<lparr>next_id := Suc (next_id st)\<rparr>),
                Inr (next_id st, False)))))"

text \<open>The table with a changed table value, keeping the callbacks as they were stored.\<close>

definition put_table :: "(nat, nat) hash \<Rightarrow> pstate \<Rightarrow> pstate" where
  "put_table h st = st\<lparr>cached_path := Table h\<rparr>"

definition path_new_from_root_fast ::
  "allocs \<Rightarrow> pstate \<Rightarrow> int \<Rightarrow> string option \<Rightarrow> pstate \<times> nat res" where
  "path_new_from_root_fast al st rootclass buffer = (case buffer of
     None \<Rightarrow> (st, Inl (E ERROR_ASSERTION))
   | Some buffer \<Rightarrow>
     (case path_create al st rootclass buffer of
        (st, Inl err) \<Rightarrow> (st, Inl err)
      | (st, Inr (i, True)) \<Rightarrow> path_ref st i
      | (st, Inr (i, False)) \<Rightarrow>
     (case (if buffer = [] then Inr ((path_at st i)\<lparr>top_class := rootclass\<rparr>)
            else path_parse_new (a_dup al) (path_at st i) rootclass buffer) of
        Inl err \<Rightarrow> (free_path i st, Inl err)
      | Inr p \<Rightarrow> (let st = put_path i p st in
     (case with_table st (\<lambda>h. hash_add (a_elem al) h i i) of
        Inl (UB f) \<Rightarrow> (st, Inl (UB f))
      | Inl _ \<Rightarrow> (free_path i st, Inr i)
      | Inr (h, _) \<Rightarrow> path_ref (put_table h st) i)))))"

definition path_new_fast :: "allocs \<Rightarrow> pstate \<Rightarrow> string option \<Rightarrow> pstate \<times> nat res" where
  "path_new_fast al st buffer = path_new_from_root_fast al st IODEFV2_CLASS_ID_DOCUMENT buffer"

text \<open>\<open>formatted\<close> is the text the format and its arguments stand for, or an error of \<open>vsnprintf\<close>.\<close>

definition path_new_v :: "allocs \<Rightarrow> pstate \<Rightarrow> string option \<Rightarrow> pstate \<times> nat res" where
  "path_new_v al st formatted = (case formatted of
     None \<Rightarrow> (st, Inl (E ERROR_PATH_LENGTH))
   | Some text \<Rightarrow>
       if length text > MAX_NAME_LEN - 1 then (st, Inl (E ERROR_PATH_LENGTH))
       else path_new_fast al st (Some text))"

section \<open>Changing\<close>

definition invalidate :: "pstate \<Rightarrow> nat \<Rightarrow> pstate \<times> unit res" where
  "invalidate st i = (case deref st i of
     Inl err \<Rightarrow> (st, Inl err)
   | Inr p \<Rightarrow>
       if refcount p = 1 then (st, Inr ())
       else if refcount p > 2 then (st, Inl E_minus1)
       else if refcount p = 2 then
         (case with_table st (\<lambda>h. hash_elem_destroy h i) of
            Inl (UB f) \<Rightarrow> (st, Inl (UB f))
          | Inl _ \<Rightarrow> (st, Inl E_minus1)
          | Inr (h, evs) \<Rightarrow>
             (case flush_events (put_table h st) evs of
                (st, Inl err) \<Rightarrow> (st, Inl err)
              | (st, Inr _) \<Rightarrow> (case deref st i of
                    Inl err \<Rightarrow> (st, Inl err)
                  | Inr p \<Rightarrow> (put_path i (p\<lparr>refcount := refcount p - 1\<rparr>) st, Inr ()))))
       else (st, Inr ()))"

text \<open>The common shape of the three operations that change a path.\<close>

definition after_invalidate :: "pstate \<Rightarrow> nat \<Rightarrow> (path \<Rightarrow> path \<times> 'a res) \<Rightarrow> pstate \<times> 'a res" where
  "after_invalidate st i f =
     (case invalidate st i of
        (st, Inl err) \<Rightarrow> (st, Inl err)
      | (st, Inr _) \<Rightarrow> (case deref st i of
            Inl err \<Rightarrow> (st, Inl err)
          | Inr p \<Rightarrow> (let (p', r) = f p in (put_path i p' st, r))))"

definition path_set_index :: "pstate \<Rightarrow> nat \<Rightarrow> nat \<Rightarrow> int \<Rightarrow> pstate \<times> unit res" where
  "path_set_index st i d ix = (case deref st i of
     Inl err \<Rightarrow> (st, Inl err)
   | Inr p \<Rightarrow>
       if \<not> d < depth p then (st, Inl (E ERROR_PATH_DEPTH))
       else if ix = INDEX_FORBIDDEN \<or> ix = INDEX_KEY then (st, Inl (E ERROR_PATH_INDEX_RESERVED))
       else if index (elem p ! d) = INDEX_FORBIDDEN then (st, Inl (E ERROR_PATH_INDEX_FORBIDDEN))
       else after_invalidate st i (\<lambda>p. path_put_index p d ix))"

definition path_undefine_index :: "pstate \<Rightarrow> nat \<Rightarrow> nat \<Rightarrow> pstate \<times> unit res" where
  "path_undefine_index st i d = path_set_index st i d INDEX_UNDEFINED"

definition path_make_child :: "pstate \<Rightarrow> nat \<Rightarrow> string \<Rightarrow> int \<Rightarrow> pstate \<times> unit res" where
  "path_make_child st i cname ix = (case deref st i of
     Inl err \<Rightarrow> (st, Inl err)
   | Inr p \<Rightarrow>
       if depth p > MAX_DEPTH - 1 then (st, Inl (E ERROR_PATH_DEPTH))
       else (case path_get_class p (-1) of
           Inl (UB f) \<Rightarrow> (st, Inl (UB f))
         | c \<Rightarrow>
       (case class_find_child (as_class c) cname of
           Inl err \<Rightarrow> (st, Inl err)
         | Inr child \<Rightarrow>
           after_invalidate st i (\<lambda>p. case path_append_child p (as_class c) cname ix child of
               Inl err \<Rightarrow> (p, Inl err) | Inr p' \<Rightarrow> (p', Inr ())))))"

definition path_make_parent :: "pstate \<Rightarrow> nat \<Rightarrow> pstate \<times> unit res" where
  "path_make_parent st i = (case deref st i of
     Inl err \<Rightarrow> (st, Inl err)
   | Inr p \<Rightarrow>
       if depth p = 0 then (st, Inl (E ERROR_PATH_PARENT_ROOT))
       else after_invalidate st i (\<lambda>p. (path_drop_last p, Inr ())))"

text \<open>Cloning puts the copy at a new address.\<close>

definition path_clone_new :: "allocs \<Rightarrow> pstate \<Rightarrow> nat \<Rightarrow> pstate \<times> nat res" where
  "path_clone_new al st i = (case deref st i of
     Inl err \<Rightarrow> (st, Inl err)
   | Inr p \<Rightarrow> (case path_clone (a_path al) (a_dup al) p of
         Inl err \<Rightarrow> (st, Inl err)
       | Inr q \<Rightarrow> (put_path (next_id st) q (st\<lparr>next_id := Suc (next_id st)\<rparr>), Inr (next_id st))))"

section \<open>The invariant\<close>

text \<open>The entries of the table, and the paths that are in it.\<close>

definition entries :: "pstate \<Rightarrow> (nat \<times> nat) set" where
  "entries st = (case cached_path st of Table h \<Rightarrow> set_mset (contents h) | _ \<Rightarrow> {})"

definition in_cache :: "pstate \<Rightarrow> nat \<Rightarrow> bool" where
  "in_cache st i \<longleftrightarrow> (i, i) \<in> entries st"

text \<open>A path that is what its name says: the root itself, or the result of parsing the name.\<close>

definition as_parsed :: "path \<Rightarrow> bool" where
  "as_parsed p \<longleftrightarrow> (name p = [] \<and> depth p = 0) \<or>
     (\<exists>dup. path_parse_new dup zero_path (top_class p) (name p) = Inr (p\<lparr>refcount := 0\<rparr>))"

definition cache_ok :: "pstate \<Rightarrow> bool" where
  "cache_ok st \<longleftrightarrow> 0 < next_id st \<and> \<not> flush_cache st \<and> cached_path st \<noteq> Table_freed \<and>
     (\<forall>i p. paths st i = Some p \<longrightarrow> 0 < i \<and> i < next_id st \<and> path_ok p) \<and>
     (\<forall>i j. (i, j) \<in> entries st \<longrightarrow> i = j \<and> (\<exists>p. paths st i = Some p \<and> as_parsed p)) \<and>
     (\<forall>h. cached_path st = Table h \<longrightarrow> hash_keyed (table_now st h) \<and> value_destroy_func h \<and> \<not> key_destroy_func h)"

lemma contents_table_now [simp]: "contents (table_now st h) = contents h"
  by (simp add: table_now_def contents_def)

lemma table_now_idem [simp]: "table_now st (table_now st' h) = table_now st h"
  by (simp add: table_now_def)

lemma table_now_funcs [simp]:
  "key_cmp_func (table_now st h) i j = path_key_cmp_func (path_at st i) (path_at st j)"
  "hash_func (table_now st h) i = path_hash_func (path_at st i)"
  "lists_size (table_now st h) = lists_size h" "buckets (table_now st h) = buckets h"
  "value_destroy_func (table_now st h) = value_destroy_func h"
  "key_destroy_func (table_now st h) = key_destroy_func h"
  "hash_ok (table_now st h) = hash_ok h"
  by (simp_all add: table_now_def hash_ok_def)

lemma equivp_key_cmp: "equivp (\<lambda>i j. path_key_cmp_func (path_at st i) (path_at st j))"
  by (rule equivpI) (auto simp: reflp_def symp_def transp_def path_key_cmp_func_def)

text \<open>The table is well formed when its own entries are: the other paths do not matter.\<close>

lemma table_keyed_iff:
  "hash_keyed (table_now st h) \<longleftrightarrow> hash_ok h \<and>
     (\<forall>b < lists_size h. \<forall>e \<in> set (buckets h ! b).
        unat (path_hash_func (path_at st (fst e))) mod lists_size h = b) \<and>
     (\<forall>b < lists_size h. sorted_wrt (\<lambda>e e'. \<not> path_key_cmp_func (path_at st (fst e)) (path_at st (fst e'))) (buckets h ! b))"
proof -
  have "equivp (key_cmp_func (table_now st h))"
    using equivp_key_cmp [of st] by (simp add: table_now_def)
  moreover have "key_cmp_func (table_now st h) k k' \<Longrightarrow>
      hash_func (table_now st h) k = hash_func (table_now st h) k'" for k k'
    by (simp add: path_key_cmp_func_def path_hash_func_def)
  ultimately show ?thesis unfolding hash_keyed_def bucket_of_def by simp
qed

lemma sorted_wrt_cong:
  "sorted_wrt P xs \<Longrightarrow> (\<And>x y. x \<in> set xs \<Longrightarrow> y \<in> set xs \<Longrightarrow> P x y \<Longrightarrow> Q x y) \<Longrightarrow> sorted_wrt Q xs"
  by (induction xs) auto

lemma bucket_entries: "hash_ok h \<Longrightarrow> b < lists_size h \<Longrightarrow> e \<in> set (buckets h ! b) \<Longrightarrow> e \<in># contents h"
  by (auto simp: contents_def hash_ok_def intro!: bexI [of _ "buckets h ! b"])

lemma table_keyed_cong:
  assumes "hash_keyed (table_now st h)"
    and same: "\<And>e. e \<in># contents h \<Longrightarrow> path_hash_func (path_at st' (fst e)) = path_hash_func (path_at st (fst e))"
      "\<And>e. e \<in># contents h \<Longrightarrow> name (path_at st' (fst e)) = name (path_at st (fst e)) \<and>
         top_class (path_at st' (fst e)) = top_class (path_at st (fst e))"
  shows "hash_keyed (table_now st' h)"
proof -
  have h: "hash_ok h" using assms(1) by (simp add: table_keyed_iff)
  have "sorted_wrt (\<lambda>e e'. \<not> path_key_cmp_func (path_at st' (fst e)) (path_at st' (fst e'))) (buckets h ! b)"
    if b: "b < lists_size h" for b
  proof (rule sorted_wrt_cong)
    show "sorted_wrt (\<lambda>e e'. \<not> path_key_cmp_func (path_at st (fst e)) (path_at st (fst e'))) (buckets h ! b)"
      using assms(1) b by (simp add: table_keyed_iff)
    show "\<not> path_key_cmp_func (path_at st' (fst x)) (path_at st' (fst y))"
      if "x \<in> set (buckets h ! b)" "y \<in> set (buckets h ! b)"
        "\<not> path_key_cmp_func (path_at st (fst x)) (path_at st (fst y))" for x y
      using that same(2) bucket_entries [OF h b] by (simp add: path_key_cmp_func_def)
  qed
  moreover have "unat (path_hash_func (path_at st' (fst e))) mod lists_size h = b"
    if "b < lists_size h" "e \<in> set (buckets h ! b)" for b e
    using assms(1) that same(1) bucket_entries [OF h that] by (simp add: table_keyed_iff)
  ultimately show ?thesis using h by (simp add: table_keyed_iff)
qed

lemma with_table_ok:
  assumes "cache_ok st" "cached_path st = Table h"
    and "\<And>i. paths st i \<noteq> None \<Longrightarrow> paths st' i \<noteq> None" "cached_path st' = cached_path st"
  shows "with_table st' f = f (table_now st' h)"
proof -
  have "\<forall>b \<in> set (buckets h). \<forall>e \<in> set b. paths st' (fst e) \<noteq> None"
  proof (intro ballI)
    fix b e assume "b \<in> set (buckets h)" "e \<in> set b"
    then have "(fst e, snd e) \<in> entries st" using assms(2) by (auto simp: entries_def contents_def)
    then have "paths st (fst e) \<noteq> None" using assms(1) unfolding cache_ok_def by blast
    then show "paths st' (fst e) \<noteq> None" by (rule assms(3))
  qed
  then have "\<not> (\<exists>b \<in> set (buckets h). \<exists>e \<in> set b. paths st' (fst e) = None)" by blast
  then show ?thesis by (simp only: with_table_def assms(2,4) table_ptr.case if_False)
qed

text \<open>A look-up finds the entry with that root and name, if there is one.\<close>

lemma table_lookup_Some:
  assumes "hash_keyed (table_now st h)" "hash_lookup (table_now st h) k = Some v"
  shows "\<exists>i. (i, v) \<in># contents h \<and> path_key_cmp_func (path_at st k) (path_at st i)"
proof -
  let ?h = "table_now st h"
  have ok: "hash_ok ?h" using assms(1) by (simp add: hash_keyed_def)
  obtain e where e: "find (\<lambda>e. key_cmp_func ?h k (fst e)) (buckets ?h ! bucket_of ?h k) = Some e" "v = snd e"
    using assms(2) by (auto simp: hash_lookup_ok [OF ok])
  then have "e \<in> set (buckets ?h ! bucket_of ?h k)" "key_cmp_func ?h k (fst e)"
    by (auto simp: find_Some_iff)
  moreover have "bucket_of ?h k < lists_size h" using bucket_of_less [OF ok, of k] ok by (simp add: hash_ok_def)
  ultimately have "e \<in># contents h" using bucket_entries [of h] ok by simp
  then show ?thesis using \<open>key_cmp_func ?h k (fst e)\<close> e(2) by (intro exI [of _ "fst e"]) simp
qed

lemma table_lookup_hit:
  assumes "hash_keyed (table_now st h)" "(i, v) \<in># contents h"
    "path_key_cmp_func (path_at st k) (path_at st i)"
  shows "hash_lookup (table_now st h) k = Some v"
proof -
  let ?h = "table_now st h"
  have ok: "hash_ok ?h" using assms(1) by (simp add: hash_keyed_def)
  obtain b where b: "b < length (buckets h)" "(i, v) \<in> set (buckets h ! b)"
    using assms(2) by (auto simp: contents_def in_set_conv_nth [of _ "buckets h"])
  have "\<forall>b < lists_size ?h. \<forall>e \<in> set (buckets ?h ! b). bucket_of ?h (fst e) = b"
    using assms(1) unfolding hash_keyed_def by blast
  moreover have "b < lists_size h" using b(1) ok by (simp add: hash_ok_def)
  ultimately have "bucket_of ?h (fst (i, v)) = b" using b(2) unfolding table_now_funcs by blast
  then have bi: "bucket_of ?h i = b" by simp
  have bk: "bucket_of ?h k = b"
    using key_cmp_bucket [OF assms(1), of k i] assms(3) bi by simp
  have u: "sorted_wrt (\<lambda>e e'. \<not> path_key_cmp_func (path_at st (fst e)) (path_at st (fst e'))) (buckets h ! b)"
    using assms(1) b(1) ok by (simp add: table_keyed_iff hash_ok_def)
  obtain us vs where s: "buckets h ! b = us @ (i, v) # vs" using b(2) by (metis split_list)
  have "\<not> path_key_cmp_func (path_at st k) (path_at st (fst e))" if "e \<in> set us" for e
    using u assms(3) that unfolding s by (auto simp: sorted_wrt_append path_key_cmp_func_def)
  then have "find (\<lambda>e. path_key_cmp_func (path_at st k) (path_at st (fst e))) us = None"
    by (auto simp: find_None_iff)
  then show ?thesis
    using assms(3) by (simp add: hash_lookup_ok [OF ok] bk s find_append)
qed

section \<open>Each step keeps the invariant\<close>

lemma state_simps [simp]:
  "paths (put_path i p st) = (paths st)(i := Some p)" "paths (free_path i st) = (paths st)(i := None)"
  "paths (put_table h st) = paths st" "next_id (put_table h st) = next_id st"
  "next_id (put_path i p st) = next_id st" "next_id (free_path i st) = next_id st"
  "cached_path (put_path i p st) = cached_path st" "cached_path (free_path i st) = cached_path st"
  "cached_path (put_table h st) = Table h"
  "flush_cache (put_path i p st) = flush_cache st" "flush_cache (free_path i st) = flush_cache st"
  "flush_cache (put_table h st) = flush_cache st"
  "entries (put_path i p st) = entries st" "entries (free_path i st) = entries st"
  "entries (st\<lparr>next_id := n\<rparr>) = entries st" "entries (put_table h st) = set_mset (contents h)"
  by (simp_all add: put_path_def free_path_def put_table_def entries_def)

lemma in_cache_simps [simp]:
  "in_cache (put_path i p st) = in_cache st" "in_cache (free_path i st) = in_cache st"
  "in_cache (st\<lparr>next_id := n\<rparr>) = in_cache st"
  by (simp_all add: in_cache_def fun_eq_iff)

lemma path_at_simps [simp]:
  "path_at (put_path i p st) j = (if j = i then p else path_at st j)"
  "path_at (put_table h st) = path_at st" "path_at (st\<lparr>next_id := n\<rparr>) = path_at st"
  "j \<noteq> i \<Longrightarrow> path_at (free_path i st) j = path_at st j"
  by (simp_all add: path_at_def put_path_def free_path_def put_table_def fun_eq_iff)

lemma entries_in_cache: "cache_ok st \<Longrightarrow> (i, j) \<in> entries st \<Longrightarrow> i = j \<and> in_cache st i"
  by (auto simp: cache_ok_def in_cache_def)

lemma in_cache_path: "cache_ok st \<Longrightarrow> in_cache st i \<Longrightarrow> \<exists>p. paths st i = Some p \<and> as_parsed p"
  by (auto simp: cache_ok_def in_cache_def)

lemma cache_ok_table: "cache_ok st \<Longrightarrow> cached_path st = Table h \<Longrightarrow> hash_keyed (table_now st h)"
  by (simp add: cache_ok_def)

lemma entries_table: "cached_path st = Table h \<Longrightarrow> entries st = set_mset (contents h)"
  by (simp add: entries_def)

lemma contents_in_cache:
  assumes "cache_ok st" "cached_path st = Table h" "e \<in># contents h"
  shows "in_cache st (fst e)"
proof -
  have "(fst e, snd e) \<in> entries st" using assms(3) entries_table [OF assms(2)] by simp
  then show ?thesis using entries_in_cache [OF assms(1)] by blast
qed

text \<open>
  Writing a path: one that is in the table must stay what its name says; any other may change freely.
\<close>

lemma cache_ok_put:
  assumes "cache_ok st" "0 < i" "i < next_id st" "path_ok p"
    and c: "in_cache st i \<Longrightarrow> name p = name (path_at st i) \<and> top_class p = top_class (path_at st i) \<and> as_parsed p"
  shows "cache_ok (put_path i p st)"
proof -
  have "hash_keyed (table_now (put_path i p st) h)" if h: "cached_path st = Table h" for h
  proof (rule table_keyed_cong [OF cache_ok_table [OF assms(1) h]])
    fix e assume "e \<in># contents h"
    then have e: "in_cache st (fst e)" by (rule contents_in_cache [OF assms(1) h])
    then show "path_hash_func (path_at (put_path i p st) (fst e)) = path_hash_func (path_at st (fst e))"
      "name (path_at (put_path i p st) (fst e)) = name (path_at st (fst e)) \<and>
       top_class (path_at (put_path i p st) (fst e)) = top_class (path_at st (fst e))"
      using c by (auto simp: path_hash_func_def)
  qed
  moreover have "k = j \<and> (\<exists>q. paths (put_path i p st) k = Some q \<and> as_parsed q)" if e: "(k, j) \<in> entries st" for k j
    using entries_in_cache [OF assms(1) e] in_cache_path [OF assms(1), of k] c by (cases "k = i") auto
  ultimately show ?thesis using assms(1-4) unfolding cache_ok_def by simp
qed

lemma cache_ok_free:
  assumes "cache_ok st" "\<not> in_cache st i"
  shows "cache_ok (free_path i st)"
proof -
  have "hash_keyed (table_now (free_path i st) h)" if h: "cached_path st = Table h" for h
  proof (rule table_keyed_cong [OF cache_ok_table [OF assms(1) h]])
    fix e assume "e \<in># contents h"
    then have "fst e \<noteq> i" using contents_in_cache [OF assms(1) h] assms(2) by blast
    then show "path_hash_func (path_at (free_path i st) (fst e)) = path_hash_func (path_at st (fst e))"
      "name (path_at (free_path i st) (fst e)) = name (path_at st (fst e)) \<and>
       top_class (path_at (free_path i st) (fst e)) = top_class (path_at st (fst e))"
      by simp_all
  qed
  then show ?thesis using assms by (fastforce simp: cache_ok_def in_cache_def split: if_splits)
qed

lemma cache_ok_next: "cache_ok st \<Longrightarrow> cache_ok (st\<lparr>next_id := Suc (next_id st)\<rparr>)"
  by (auto simp: cache_ok_def less_Suc_eq table_now_def path_at_def)

lemma as_parsed_refcount [simp]: "as_parsed (p\<lparr>refcount := r\<rparr>) = as_parsed p"
  by (simp add: as_parsed_def)

lemma path_ok_refcount [simp]: "path_ok (p\<lparr>refcount := r\<rparr>) = path_ok p"
  by (simp add: path_ok_def)

lemma cache_ok_refcount:
  assumes "cache_ok st" "paths st i = Some p"
  shows "cache_ok (put_path i (p\<lparr>refcount := r\<rparr>) st)"
proof (rule cache_ok_put [OF assms(1)])
  show "0 < i" "i < next_id st" "path_ok (p\<lparr>refcount := r\<rparr>)"
    using assms by (auto simp: cache_ok_def)
  show "in_cache st i \<Longrightarrow> name (p\<lparr>refcount := r\<rparr>) = name (path_at st i) \<and>
     top_class (p\<lparr>refcount := r\<rparr>) = top_class (path_at st i) \<and> as_parsed (p\<lparr>refcount := r\<rparr>)"
    using in_cache_path [OF assms(1), of i] assms(2) by (simp add: path_at_def)
qed

lemma cache_ok_init:
  assumes "cache_ok st" "initialize_path_cache_if_needed al st = (st', r)"
  shows "cache_ok st' \<and> paths st' = paths st \<and> next_id st' = next_id st \<and> entries st' = entries st \<and>
    (r = Inr () \<longrightarrow> (\<exists>h. cached_path st' = Table h))"
proof (cases "cached_path st = No_table")
  case True
  have "hash_keyed (table_now st' h)" if "cached_path st' = Table h" "buckets h = replicate 128 []" "lists_size h = 128" for h
    using that by (simp add: table_keyed_iff hash_ok_def)
  then show ?thesis
    using assms True
    by (auto simp: initialize_path_cache_if_needed_def hash_new2_def cache_ok_def entries_def contents_def
        split: if_splits)
next
  case False
  then show ?thesis
    using assms by (cases "cached_path st") (auto simp: initialize_path_cache_if_needed_def cache_ok_def)
qed

lemma hash_add_fresh:
  "hash_ok h \<Longrightarrow> hash_lookup h k = None \<Longrightarrow> hash_add True h k v = Inr (hash_put h k v, 1)"
  using bucket_find_lookup [of h k]
  by (simp add: hash_add_def hash_value_calc_ok hash_put_def bucket_put_def bucket_find_def Let_def)

lemma cache_ok_add:
  assumes "cache_ok st" "cached_path st = Table h" "paths st i = Some p" "as_parsed p"
    and "hash_lookup (table_now st h) i = None"
  shows "\<exists>h'. with_table st (\<lambda>h. hash_add True h i i) = Inr (h', 1) \<and> cache_ok (put_table h' st) \<and>
    set_mset (contents h') = insert (i, i) (entries st)"
proof -
  let ?h = "hash_put (table_now st h) i i"
  have k: "hash_keyed (table_now st h)" by (rule cache_ok_table [OF assms(1,2)])
  then have ok: "hash_ok (table_now st h)" by (simp add: hash_keyed_def)
  have "with_table st (\<lambda>h. hash_add True h i i) = Inr (?h, 1)"
    by (simp add: with_table_ok [OF assms(1,2)] hash_add_fresh [OF ok assms(5)])
  moreover have c: "contents ?h = contents h + {#(i, i)#}"
    using contents_hash_put [OF ok, of i i] bucket_find_lookup [OF ok, of i] assms(5) by simp
  moreover have "table_now (put_table ?h st) ?h = ?h"
    by (simp add: table_now_def hash_put_def Let_def)
  then have "hash_keyed (table_now (put_table ?h st) ?h)" using hash_put_keyed [OF k] by simp
  then have "cache_ok (put_table ?h st)"
    using assms c entries_table [OF assms(2)] by (auto simp: cache_ok_def)
  ultimately show ?thesis using entries_table [OF assms(2)] by (intro exI [of _ ?h]) simp
qed

section \<open>Creating a path\<close>

definition no_fault :: "'a res \<Rightarrow> bool" where
  "no_fault r \<longleftrightarrow> (\<forall>f. r \<noteq> Inl (UB f))"

lemma no_fault_simps [simp]:
  "no_fault (Inr x)" "no_fault (Inl e) \<longleftrightarrow> (\<forall>f. e \<noteq> UB f)"
  by (auto simp: no_fault_def)

lemma no_fault_bind: "no_fault r \<Longrightarrow> (\<And>x. r = Inr x \<Longrightarrow> no_fault (f x)) \<Longrightarrow> no_fault (res_bind r f)"
  by (cases r) auto

lemma class_no_fault [simp]:
  "no_fault (is_class_valid cls)" "no_fault (is_child_valid cls child)"
  "no_fault (class_find_child cls nm)" "no_fault (class_get_child_value_type cls child)"
  by (auto simp: is_class_valid_def is_child_valid_def class_find_child_def class_get_child_value_type_def
      intro!: no_fault_bind split: option.splits)

lemma parse_index_no_fault [simp]: "no_fault (parse_index dup ptr)"
  by (auto simp: parse_index_def Let_def split: list.splits prod.splits)

lemma parse_element_no_fault [simp]: "no_fault (parse_element dup cls ptr is_last old)"
  unfolding parse_element_def by (intro no_fault_bind; simp split: prod.splits)
    (auto intro!: no_fault_bind)

lemma path_parse_loop_no_fault: "no_fault (path_parse_loop dup cls d es s)"
proof (induction dup cls d es s rule: path_parse_loop.induct)
  case (1 dup cls d es s)
  obtain ptr rest where t: "parse_path_token s = (ptr, rest)" by force
  have "parse_element (dup d) cls ptr (rest = None) (es ! d) \<noteq> Inl (UB f)" for f
    using parse_element_no_fault unfolding no_fault_def by blast
  then show ?case
    using 1 t by (auto simp: path_parse_loop.simps [of dup cls d es s] split: sum.splits option.splits)
qed

lemma path_parse_new_no_fault: "no_fault (path_parse_new dup p root s)"
  using path_parse_loop_no_fault
  by (auto simp: path_parse_new_def copy_path_name_def intro!: no_fault_bind)

lemma path_parse_new_refcount:
  "path_parse_new dup (zero_path\<lparr>refcount := r\<rparr>) root s = Inr p \<Longrightarrow>
     refcount p = r \<and> path_parse_new dup zero_path root s = Inr (p\<lparr>refcount := 0\<rparr>)"
  by (auto simp: path_parse_new_def copy_path_name_def res_bind_Inr_iff zero_path_def split: if_splits)

lemma new_object_as_parsed:
  assumes "(if buffer = [] then Inr ((zero_path\<lparr>refcount := 1\<rparr>)\<lparr>top_class := root\<rparr>)
            else path_parse_new dup (zero_path\<lparr>refcount := 1\<rparr>) root buffer) = Inr p"
  shows "refcount p = 1 \<and> name p = buffer \<and> top_class p = root \<and> path_ok p \<and> as_parsed p"
proof (cases "buffer = []")
  case True
  then show ?thesis
    using assms by (auto simp: as_parsed_def path_ok_def zero_path_def MAX_NAME_LEN_def MAX_DEPTH_def)
next
  case False
  then have p: "refcount p = 1" "path_parse_new dup zero_path root buffer = Inr (p\<lparr>refcount := 0\<rparr>)"
    using assms path_parse_new_refcount by simp_all
  have "name (p\<lparr>refcount := 0\<rparr>) = buffer \<and> top_class (p\<lparr>refcount := 0\<rparr>) = root \<and> path_ok (p\<lparr>refcount := 0\<rparr>)"
    by (rule path_parse_new_cases [OF p(2)]) (auto simp: path_ok_def)
  then show ?thesis using p by (auto simp: as_parsed_def)
qed

text \<open>The look-up by root and name, with the key on the stack.\<close>

lemma cache_lookup:
  assumes "cache_ok st" "cached_path st = Table h" "name tmp = nm" "top_class tmp = root"
  obtains (hit) i p where "with_table (put_path 0 tmp st) (\<lambda>h. hash_get h 0) = Inr (Some i)"
      "in_cache st i" "paths st i = Some p" "name p = nm" "top_class p = root"
    | (miss) "with_table (put_path 0 tmp st) (\<lambda>h. hash_get h 0) = Inr None"
      "\<And>i p. in_cache st i \<Longrightarrow> paths st i = Some p \<Longrightarrow> \<not> (name p = nm \<and> top_class p = root)"
proof -
  let ?st = "put_path 0 tmp st"
  have z: "\<not> in_cache st 0" using assms(1) in_cache_path by (fastforce simp: cache_ok_def)
  have k: "hash_keyed (table_now ?st h)"
  proof (rule table_keyed_cong [OF cache_ok_table [OF assms(1,2)]])
    fix e assume "e \<in># contents h"
    then have "fst e \<noteq> 0" using contents_in_cache [OF assms(1,2)] z by metis
    then show "path_hash_func (path_at ?st (fst e)) = path_hash_func (path_at st (fst e))"
      "name (path_at ?st (fst e)) = name (path_at st (fst e)) \<and> top_class (path_at ?st (fst e)) = top_class (path_at st (fst e))"
      by simp_all
  qed
  have "with_table ?st (\<lambda>h. hash_get h 0) = hash_get (table_now ?st h) 0"
    by (rule with_table_ok [OF assms(1,2)]) (auto simp: assms(2))
  also have "\<dots> = Inr (hash_lookup (table_now ?st h) 0)"
    by (rule hash_get_lookup) (use k in \<open>simp only: hash_keyed_def\<close>)
  finally have w: "with_table ?st (\<lambda>h. hash_get h 0) = Inr (hash_lookup (table_now ?st h) 0)" .
  show thesis
  proof (cases "hash_lookup (table_now ?st h) 0")
    case None
    show thesis
    proof (rule miss)
      show "with_table ?st (\<lambda>h. hash_get h 0) = Inr None" using w None by simp
      fix i p assume i: "in_cache st i" "paths st i = Some p"
      show "\<not> (name p = nm \<and> top_class p = root)"
      proof
        assume "name p = nm \<and> top_class p = root"
        then have "path_key_cmp_func (path_at ?st 0) (path_at ?st i)"
          using i z assms(3,4) by (auto simp: path_key_cmp_func_def path_at_def)
        moreover have "(i, i) \<in># contents h" using i(1) entries_table [OF assms(2)] by (simp add: in_cache_def)
        ultimately show False using table_lookup_hit [OF k] None by fastforce
      qed
    qed
  next
    case (Some v)
    obtain i where i: "(i, v) \<in># contents h" "path_key_cmp_func (path_at ?st 0) (path_at ?st i)"
      using table_lookup_Some [OF k Some] by blast
    have c: "in_cache st i" using contents_in_cache [OF assms(1,2) i(1)] by simp
    have v: "v = i" using entries_in_cache [OF assms(1), of i v] i(1) entries_table [OF assms(2)] by simp
    obtain p where p: "paths st i = Some p" using in_cache_path [OF assms(1) c] by blast
    have "i \<noteq> 0" using c z by metis
    then have "name p = nm \<and> top_class p = root"
      using i(2) p assms(3,4) by (simp add: path_key_cmp_func_def path_at_def)
    then show thesis using hit w Some v c p by simp
  qed
qed

lemma cache_ok_live: "cache_ok st \<Longrightarrow> paths st i = Some p \<Longrightarrow> 0 < i \<and> i < next_id st \<and> path_ok p"
  unfolding cache_ok_def by blast

lemma fresh_address: "cache_ok st \<Longrightarrow> paths st (next_id st) = None"
  using cache_ok_live [of st "next_id st"] by (cases "paths st (next_id st)") auto

lemma path_new_cases:
  assumes "cache_ok st" "path_new_from_root_fast al st root (Some buffer) = (st', r)"
  obtains (fails) e where "r = Inl e" "\<forall>f. e \<noteq> UB f" "cache_ok st'" "paths st' = paths st" "entries st' = entries st"
    | (shared) i p where "r = Inr i" "in_cache st i" "paths st i = Some p" "name p = buffer" "top_class p = root"
        "cache_ok st'" "paths st' = (paths st)(i := Some (p\<lparr>refcount := refcount p + 1\<rparr>))" "entries st' = entries st"
    | (fresh) i p where "r = Inr i" "paths st i = None" "refcount p = 2" "name p = buffer" "top_class p = root"
        "cache_ok st'" "paths st' = (paths st)(i := Some p)" "entries st' = insert (i, i) (entries st)"
        "as_parsed p"
    | (lost) i where "r = Inr i" "\<not> a_elem al" "paths st' i = None" "cache_ok st'" "paths st' = paths st" "entries st' = entries st"
proof (cases "length buffer + 1 \<ge> MAX_NAME_LEN")
  case True
  then show thesis
    using fails assms(1,2) by (auto simp: path_new_from_root_fast_def path_create_def copy_path_name_def)
next
  case False
  let ?tmp = "zero_path\<lparr>name := buffer\<rparr>" let ?key = "zero_path\<lparr>name := buffer, top_class := root\<rparr>"
  have cp: "copy_path_name zero_path buffer = Inr ?tmp" using False by (simp add: copy_path_name_def)
  obtain st1 r1 where i: "initialize_path_cache_if_needed al st = (st1, r1)" by force
  have s1: "cache_ok st1" "paths st1 = paths st" "next_id st1 = next_id st" "entries st1 = entries st"
    "r1 = Inr () \<Longrightarrow> \<exists>h. cached_path st1 = Table h"
    using cache_ok_init [OF assms(1) i] by auto
  show thesis
  proof (cases r1)
    case (Inl e)
    then have "r = Inl e" "st' = st1" "\<forall>f. e \<noteq> UB f"
      using assms(2) cp i by (auto simp: path_new_from_root_fast_def path_create_def
          initialize_path_cache_if_needed_def hash_new2_def split: if_splits)
    then show thesis using fails s1 by simp
  next
    case (Inr u)
    then obtain h where h: "cached_path st1 = Table h" using s1(5) by auto
    have ic: "in_cache st1 j = in_cache st j" for j using s1(4) by (simp add: in_cache_def)
    have kn: "name ?key = buffer" "top_class ?key = root" by simp_all
    from s1(1) h kn show thesis
    proof (cases rule: cache_lookup)
      case (hit i p)
      then have "(st', r) = path_ref st1 i"
        using assms(2) cp i Inr by (simp add: path_new_from_root_fast_def path_create_def)
      then have "r = Inr i" "st' = put_path i (p\<lparr>refcount := refcount p + 1\<rparr>) st1"
        using hit by (simp_all add: path_ref_def deref_def)
      then show thesis
        using shared [of i p] hit s1 ic cache_ok_refcount [OF s1(1) hit(3)] by simp
    next
      case miss
      show thesis
      proof (cases "a_path al")
        case False
        then have "r = Inl E_errno" "st' = st1"
          using miss assms(2) cp i Inr by (simp_all add: path_new_from_root_fast_def path_create_def)
        then show thesis using fails s1 by simp
      next
        case True
        let ?i = "next_id st1" let ?z = "zero_path\<lparr>refcount := 1\<rparr>"
        let ?st2 = "put_path ?i ?z (st1\<lparr>next_id := Suc ?i\<rparr>)"
        have c: "path_create al st root buffer = (?st2, Inr (?i, False))"
          using miss True cp i Inr by (simp add: path_create_def)
        have live: "paths st1 ?i = None" by (rule fresh_address [OF s1(1)])
        have ni: "\<not> in_cache st1 ?i" using in_cache_path [OF s1(1)] live by fastforce
        let ?par = "if buffer = [] then Inr (?z\<lparr>top_class := root\<rparr>) else path_parse_new (a_dup al) ?z root buffer"
        have "no_fault ?par" using path_parse_new_no_fault by simp
        have pat: "path_at ?st2 ?i = ?z" by simp
        have step: "(st', r) = (case ?par of Inl err \<Rightarrow> (free_path ?i ?st2, Inl err)
           | Inr p \<Rightarrow> (let st = put_path ?i p ?st2 in
               (case with_table st (\<lambda>h. hash_add (a_elem al) h ?i ?i) of
                  Inl (UB f) \<Rightarrow> (st, Inl (UB f))
                | Inl _ \<Rightarrow> (free_path ?i st, Inr ?i)
                | Inr (h, _) \<Rightarrow> path_ref (put_table h st) ?i)))"
          unfolding assms(2) [symmetric] path_new_from_root_fast_def option.case c prod.case sum.case
            bool.case pat by (rule refl)
        show thesis
        proof (cases ?par)
          case (Inl e)
          then have "r = Inl e" "st' = free_path ?i ?st2"
            using step unfolding Inl by simp_all
          moreover have "cache_ok (put_path ?i ?z (st1\<lparr>next_id := Suc ?i\<rparr>))"
            by (rule cache_ok_put) (use cache_ok_next [OF s1(1)] s1(1) ni in
                \<open>auto simp: cache_ok_def path_ok_def zero_path_def MAX_NAME_LEN_def\<close>)
          ultimately show thesis
            using fails [of e] \<open>no_fault ?par\<close> Inl s1 live ni cache_ok_free [of ?st2 ?i]
            by (simp add: fun_upd_idem)
        next
          case (Inr p)
          have p: "refcount p = 1" "name p = buffer" "top_class p = root" "path_ok p" "as_parsed p"
            using new_object_as_parsed [OF Inr] by auto
          let ?st3 = "put_path ?i p ?st2"
          have ok3: "cache_ok ?st3"
          proof (rule cache_ok_put)
            show "cache_ok ?st2"
              by (rule cache_ok_put) (use cache_ok_next [OF s1(1)] s1(1) ni in
                \<open>auto simp: cache_ok_def path_ok_def zero_path_def MAX_NAME_LEN_def\<close>)
          qed (use s1(1) ni p in \<open>auto simp: cache_ok_def\<close>)
          have h3: "cached_path ?st3 = Table h" using h by simp
          have "hash_lookup (table_now ?st3 h) ?i = None"
          proof (rule ccontr)
            assume "hash_lookup (table_now ?st3 h) ?i \<noteq> None"
            then obtain v j where j: "(j, v) \<in># contents h"
              "path_key_cmp_func (path_at ?st3 ?i) (path_at ?st3 j)"
              using table_lookup_Some [OF cache_ok_table [OF ok3 h3]] by blast
            have jc: "in_cache st1 j" using contents_in_cache [OF s1(1) h j(1)] by simp
            then obtain q where q: "paths st1 j = Some q" "j \<noteq> ?i" using in_cache_path [OF s1(1)] ni by metis
            then show False using miss(2) [OF jc q(1)] j(2) p by (simp add: path_key_cmp_func_def path_at_def)
          qed
          note none = this
          show thesis
          proof (cases "a_elem al")
            case False
            have "with_table ?st3 (\<lambda>h. hash_add False h ?i ?i) = Inl E_errno"
              using with_table_ok [OF ok3 h3, of ?st3 "\<lambda>h. hash_add False h ?i ?i"] by (simp only: hash_add_def if_True not_False_eq_True)
            then have "r = Inr ?i" "st' = free_path ?i ?st3" using step False unfolding Inr by (simp_all add: Let_def)
            then show thesis
              using lost [of ?i] False live s1 ni cache_ok_free [OF ok3, of ?i] by (simp add: fun_upd_idem)
          next
            case alloc: True
            from cache_ok_add [OF ok3 h3 _ p(5) none]
            obtain h' where h': "with_table ?st3 (\<lambda>h. hash_add True h ?i ?i) = Inr (h', 1)"
              "cache_ok (put_table h' ?st3)" "set_mset (contents h') = insert (?i, ?i) (entries st1)"
              by auto
            let ?p = "p\<lparr>refcount := 2\<rparr>"
            have "r = Inr ?i" "st' = put_path ?i ?p (put_table h' ?st3)"
              using step alloc h'(1) p(1) unfolding Inr
              by (simp_all add: path_ref_def deref_def Let_def)
            moreover have "cache_ok (put_path ?i ?p (put_table h' ?st3))"
              by (rule cache_ok_refcount [OF h'(2)]) simp
            ultimately show thesis
              using fresh [of ?i ?p] live p s1 h'(3) by simp
          qed
        qed
      qed
    qed
  qed
qed

section \<open>Taking a path out of the table\<close>

lemma elem_destroy_entry:
  assumes "cache_ok st" "cached_path st = Table h" "in_cache st i"
    and key: "path_key_cmp_func (path_at st key) (path_at st i)"
  shows "\<exists>h'. with_table st (\<lambda>h. hash_elem_destroy h key) = Inr (h', [Value_destroyed i]) \<and>
    cache_ok (put_table h' st) \<and> set_mset (contents h') = entries st - {(i, i)}"
proof -
  let ?h = "table_now st h"
  have k: "hash_keyed ?h" by (rule cache_ok_table [OF assms(1,2)])
  then have ok: "hash_ok ?h" by (simp add: hash_keyed_def)
  have e: "entries st = set_mset (contents h)" by (rule entries_table [OF assms(2)])
  then have ii: "(i, i) \<in># contents h" using assms(3) by (simp add: in_cache_def)
  have hit: "hash_lookup ?h key = Some i"
    by (rule table_lookup_hit [OF k ii key])
  then obtain n where n: "bucket_find ?h key = Some n" using bucket_find_lookup [OF ok, of key] by fastforce
  let ?x = "buckets ?h ! bucket_of ?h key ! n"
  have x: "?x \<in># contents h" "key_cmp_func ?h key (fst ?x)"
  proof -
    have "n < length (buckets ?h ! bucket_of ?h key)" by (rule bucket_find_Some [OF n])
    then have "?x \<in> set (buckets ?h ! bucket_of ?h key)" by simp
    then show "?x \<in># contents h"
      using bucket_entries [OF ok] bucket_of_less [OF ok, of key] ok by (simp add: hash_ok_def)
    show "key_cmp_func ?h key (fst ?x)" using n find_index_Some unfolding bucket_find_def by fastforce
  qed
  then have "hash_lookup ?h key = Some (snd ?x)"
    using table_lookup_hit [OF k, of "fst ?x" "snd ?x" key] by simp
  then have "snd ?x = i" using hit by simp
  moreover have "fst ?x = snd ?x"
    using entries_in_cache [OF assms(1), of "fst ?x" "snd ?x"] x(1) e by simp
  ultimately have xi: "?x = (i, i)" by (simp add: prod_eq_iff)
  have ev: "elem_events ?h (i, i) = [Value_destroyed i]"
    using assms(1,2) by (simp add: elem_events_def cache_ok_def)
  let ?h' = "hash_del ?h key"
  have "with_table st (\<lambda>h. hash_elem_destroy h key) = hash_elem_destroy ?h key"
    by (rule with_table_ok [OF assms(1,2)]) (auto simp: assms(2))
  also have "\<dots> = Inr (?h', [Value_destroyed i])"
    using hash_elem_destroy_ok [OF ok, of key] n xi ev by simp
  finally have w: "with_table st (\<lambda>h. hash_elem_destroy h key) = Inr (?h', [Value_destroyed i])" .
  have c: "contents ?h' + {#(i, i)#} = contents h" using contents_hash_del [OF ok n] xi by simp
  have t: "table_now (put_table ?h' st) ?h' = ?h'" by (simp add: table_now_def hash_del_def Let_def)
  have k': "hash_keyed (table_now (put_table ?h' st) ?h')" unfolding t by (rule hash_del_keyed [OF k])
  have "hash_lookup ?h' key = None" using hash_lookup_del [OF k, of key key] by (simp add: path_key_cmp_func_def)
  then have "(i, i) \<notin># contents ?h'"
    using table_lookup_hit [OF k', of i i key] key unfolding t by auto
  then have s: "set_mset (contents ?h') = entries st - {(i, i)}"
    using arg_cong [OF c, of set_mset] e by auto
  have "cache_ok (put_table ?h' st)"
    using assms(1,2) k' s unfolding cache_ok_def by simp blast
  then show ?thesis using w s by blast
qed

text \<open>
  A path outside the table with two holders, while the table has another path with its root and
  name: \<open>invalidate\<close> takes the other one for it (lemma \<open>invalidate_steals\<close> below).
\<close>

definition steals :: "pstate \<Rightarrow> nat \<Rightarrow> bool" where
  "steals st i \<longleftrightarrow> (\<exists>p j q. paths st i = Some p \<and> refcount p = 2 \<and> \<not> in_cache st i \<and>
     in_cache st j \<and> paths st j = Some q \<and> name q = name p \<and> top_class q = top_class p)"

lemma elem_destroy_none:
  assumes "cache_ok st" "cached_path st = Table h"
    and "\<And>j q. in_cache st j \<Longrightarrow> paths st j = Some q \<Longrightarrow> \<not> path_key_cmp_func (path_at st key) q"
  shows "with_table st (\<lambda>h. hash_elem_destroy h key) = Inl E_minus1"
proof -
  let ?h = "table_now st h"
  have k: "hash_keyed ?h" by (rule cache_ok_table [OF assms(1,2)])
  then have ok: "hash_ok ?h" by (simp add: hash_keyed_def)
  have "hash_lookup ?h key = None"
  proof (cases "hash_lookup ?h key")
    case (Some v)
    then obtain j where j: "(j, v) \<in># contents h" "path_key_cmp_func (path_at st key) (path_at st j)"
      using table_lookup_Some [OF k] by blast
    have c: "in_cache st j" using contents_in_cache [OF assms(1,2) j(1)] by simp
    then obtain q where "paths st j = Some q" using in_cache_path [OF assms(1)] by blast
    then show ?thesis using assms(3) [OF c] j(2) by (simp add: path_at_def)
  qed
  then have "hash_elem_destroy ?h key = Inl E_minus1"
    using hash_elem_destroy_ok [OF ok, of key] bucket_find_lookup [OF ok, of key] by simp
  then show ?thesis by (simp add: with_table_ok [OF assms(1,2)] assms(2))
qed

lemma invalidate_cases:
  assumes "cache_ok st" "paths st i = Some p" "0 < refcount p"
    and "refcount p = 1 \<Longrightarrow> \<not> in_cache st i" "\<not> steals st i"
    and "invalidate st i = (st', r)"
  obtains (refused) e where "r = Inl e" "st' = st"
    | (taken) "r = Inr ()" "refcount p \<le> 2" "refcount p = 2 \<Longrightarrow> in_cache st i" "cache_ok st'" "\<not> in_cache st' i"
        "paths st' = (paths st)(i := Some (p\<lparr>refcount := 1\<rparr>))" "entries st' = entries st - {(i, i)}"
        "next_id st' = next_id st"
proof -
  consider "refcount p > 2" | "refcount p = 1" | "refcount p = 2" using assms(3) by linarith
  then show thesis
  proof cases
    case 1
    then show thesis using refused [of E_minus1] assms(2,6) by (simp add: invalidate_def deref_def)
  next
    case 2
    then have "p\<lparr>refcount := 1\<rparr> = p" by (metis path.surjective path.update_convs(2))
    then show thesis
      using taken assms 2 by (auto simp: invalidate_def deref_def fun_upd_idem in_cache_def)
  next
    case 3
    show thesis
    proof (cases "in_cache st i")
      case False
      have n: "\<not> path_key_cmp_func (path_at st i) q" if "in_cache st j" "paths st j = Some q" for j q
      proof
        assume "path_key_cmp_func (path_at st i) q"
        then have "name q = name p \<and> top_class q = top_class p"
          using assms(2) by (simp add: path_key_cmp_func_def path_at_def)
        then have "steals st i" unfolding steals_def using assms(2) 3 False that by blast
        then show False using assms(5) by blast
      qed
      have "\<exists>e. with_table st (\<lambda>h. hash_elem_destroy h i) = Inl e"
      proof (cases "cached_path st")
        case (Table h)
        show ?thesis by (rule exI, rule elem_destroy_none [OF assms(1) Table]) (use n in blast)
      qed (simp_all add: with_table_def)
      then have "st' = st \<and> (\<exists>e. r = Inl e)"
        using assms(2,6) 3 by (auto simp: invalidate_def deref_def split: failure.splits)
      then show thesis using refused by blast
    next
      case c: True
      then obtain h where h: "cached_path st = Table h"
        by (cases "cached_path st") (auto simp: in_cache_def entries_def)
      obtain h' where h': "with_table st (\<lambda>h. hash_elem_destroy h i) = Inr (h', [Value_destroyed i])"
        "cache_ok (put_table h' st)" "set_mset (contents h') = entries st - {(i, i)}"
        using elem_destroy_entry [OF assms(1) h c, of i] by (auto simp: path_key_cmp_func_def)
      have "\<not> flush_cache st" using assms(1) by (simp add: cache_ok_def)
      then have "st' = put_path i (p\<lparr>refcount := 1\<rparr>) (put_table h' st)" "r = Inr ()"
        using assms(2,6) 3 h'(1) by (simp_all add: invalidate_def deref_def flush_cache_if_wanted_def)
      moreover have "cache_ok (put_path i (p\<lparr>refcount := 1\<rparr>) (put_table h' st))"
        by (rule cache_ok_refcount [OF h'(2)]) (simp add: assms(2))
      ultimately show thesis using taken 3 c h'(3) by (simp add: in_cache_def)
    qed
  qed
qed

section \<open>Clients\<close>

text \<open>
  What the three changing operations do to the path keeps it well formed and leaves its count alone.
\<close>

lemma name_cat_short: "name_cat nm s = Inr r \<Longrightarrow> length r < MAX_NAME_LEN"
  by (auto simp: name_cat_def Let_def split: if_splits)

lemma index_name_short:
  "index_name e nm = Inr r \<Longrightarrow> length nm < MAX_NAME_LEN \<Longrightarrow> length r < MAX_NAME_LEN"
  by (auto simp: index_name_def res_bind_Inr_iff dest: name_cat_short split: if_splits)

lemma build_name_from_short:
  "length nm < MAX_NAME_LEN \<Longrightarrow> length (fst (build_name_from p cls nm i k)) < MAX_NAME_LEN"
proof (induction p cls nm i k rule: build_name_from.induct)
  case (2 p cls nm i k)
  show ?case
  proof (cases "if i > 0 then name_cat nm ''.'' else Inr nm")
    case (Inl err)
    then show ?thesis using 2(2) by simp
  next
    case (Inr nm1)
    then have l1: "length nm1 < MAX_NAME_LEN" using 2(2) by (auto dest: name_cat_short split: if_splits)
    show ?thesis
    proof (cases "path_get_name p (int i)")
      case None
      then show ?thesis using Inr l1 by simp
    next
      case (Some n)
      show ?thesis
      proof (cases "res_bind (name_cat nm1 n) (index_name (elem p ! i))")
        case (Inl err)
        then show ?thesis using Inr Some l1 by simp
      next
        case (Inr nm2)
        note nm2 = Inr
        then have "length nm2 < MAX_NAME_LEN"
          by (auto simp: res_bind_Inr_iff dest: name_cat_short index_name_short)
        then show ?thesis
          using 2(1) [OF \<open>(if i > 0 then name_cat nm ''.'' else Inr nm) = Inr nm1\<close> Some nm2 refl]
            \<open>(if i > 0 then name_cat nm ''.'' else Inr nm) = Inr nm1\<close> Some nm2
          by (simp add: Let_def)
      qed
    qed
  qed
qed simp

lemma path_put_index_ok:
  assumes "path_ok p" "d < depth p" "index (elem p ! d) \<noteq> INDEX_FORBIDDEN" "ix \<noteq> INDEX_KEY"
  shows "path_ok (fst (path_put_index p d ix)) \<and> refcount (fst (path_put_index p d ix)) = refcount p"
proof -
  have d: "d < length (elem p)" "depth p \<le> length (elem p)" using assms(1,2) by (auto simp: path_ok_def)
  then have "elem p ! d \<in> set (take (depth p) (elem p))"
    using assms(2) by (auto simp: in_set_conv_nth intro!: exI [of _ d])
  then have "index (elem p ! d) \<noteq> INDEX_KEY" by (rule path_ok_no_key [OF assms(1)])
  moreover have "elems_ok (top_class p) ((take (depth p) (elem p))[d := (elem p ! d)\<lparr>index := ix\<rparr>])"
    using elems_ok_reindex [of "top_class p" "take (depth p) (elem p)" d ix] assms d
    by (simp add: path_ok_def)
  ultimately show ?thesis
    using assms(1,2) build_name_from_short
    by (auto simp: path_put_index_def build_name_def Let_def path_ok_def take_update_swap MAX_NAME_LEN_def
        split: prod.splits) (metis fst_conv list.size(3) zero_less_numeral)
qed

lemma path_get_class_refcount [simp]: "path_get_class (p\<lparr>refcount := r\<rparr>) d = path_get_class p d"
  by (simp add: path_get_class_def Let_def)

lemma path_append_child_refcount: "path_append_child p cls cname ix child = Inr p' \<Longrightarrow> refcount p' = refcount p"
  by (auto simp: path_append_child_def Let_def res_bind_Inr_iff)

text \<open>
  Clients of the path functions: \<open>held\<close> counts the references they hold. A client extends or
  changes a path it holds, clones it, and takes and gives back references; every allocation may
  fail, and calls that fail or fault are steps too. Two things are left out. When the element of the
  table cannot be allocated, \<open>iodefv2_path_new\<close> returns 0 with a pointer to a path it has freed: that
  pointer is not used (\<open>new_lost\<close>). And a path that \<open>steals\<close> is not changed; the end of this theory
  shows what these two would do.
\<close>

inductive client_step :: "pstate \<times> (nat \<Rightarrow> nat) \<Rightarrow> pstate \<times> (nat \<Rightarrow> nat) \<Rightarrow> bool" where
  new: "path_new_from_root_fast al st root buffer = (st', Inr i) \<Longrightarrow> paths st' i \<noteq> None \<Longrightarrow>
    client_step (st, held) (st', held(i := Suc (held i)))"
| new_lost: "path_new_from_root_fast al st root buffer = (st', Inr i) \<Longrightarrow> paths st' i = None \<Longrightarrow>
    client_step (st, held) (st', held)"
| new_error: "path_new_from_root_fast al st root buffer = (st', Inl e) \<Longrightarrow> client_step (st, held) (st', held)"
| clone: "0 < held i \<Longrightarrow> path_clone_new al st i = (st', Inr j) \<Longrightarrow>
    client_step (st, held) (st', held(j := Suc (held j)))"
| clone_error: "0 < held i \<Longrightarrow> path_clone_new al st i = (st', Inl e) \<Longrightarrow> client_step (st, held) (st', held)"
| ref: "0 < held i \<Longrightarrow> path_ref st i = (st', r) \<Longrightarrow> client_step (st, held) (st', held(i := Suc (held i)))"
| destroy: "0 < held i \<Longrightarrow> path_destroy st i = (st', r) \<Longrightarrow> client_step (st, held) (st', held(i := held i - 1))"
| child: "0 < held i \<Longrightarrow> \<not> steals st i \<Longrightarrow> path_make_child st i cname ix = (st', r) \<Longrightarrow>
    client_step (st, held) (st', held)"
| parent: "0 < held i \<Longrightarrow> \<not> steals st i \<Longrightarrow> path_make_parent st i = (st', r) \<Longrightarrow> client_step (st, held) (st', held)"
| set_index: "0 < held i \<Longrightarrow> \<not> steals st i \<Longrightarrow> path_set_index st i d ix = (st', r) \<Longrightarrow>
    client_step (st, held) (st', held)"

definition initial_state :: pstate where
  "initial_state = \<lparr>paths = \<lambda>_. None, next_id = 1, cached_path = No_table, flush_cache = False\<rparr>"

definition count_ok :: "pstate \<Rightarrow> (nat \<Rightarrow> nat) \<Rightarrow> nat \<Rightarrow> bool" where
  "count_ok st held i \<longleftrightarrow> (case paths st i of
     None \<Rightarrow> held i = 0
   | Some p \<Rightarrow> refcount p = int (held i) + (if in_cache st i then 1 else 0) \<and> 0 < refcount p)"

definition client_ok :: "pstate \<times> (nat \<Rightarrow> nat) \<Rightarrow> bool" where
  "client_ok c \<longleftrightarrow> (case c of (st, held) \<Rightarrow> cache_ok st \<and> (\<forall>i. count_ok st held i))"

lemma count_ok_frame:
  "count_ok st held j \<Longrightarrow> paths st' j = paths st j \<Longrightarrow> in_cache st' j = in_cache st j \<Longrightarrow> held' j = held j \<Longrightarrow>
     count_ok st' held' j"
  by (cases "paths st j") (auto simp: count_ok_def)

lemma client_held:
  assumes "client_ok (st, held)" "0 < held i"
  obtains p where "paths st i = Some p" "path_ok p" "0 < refcount p"
    "refcount p = int (held i) + (if in_cache st i then 1 else 0)"
    "refcount p = 1 \<Longrightarrow> \<not> in_cache st i"
proof -
  have c: "count_ok st held i" "cache_ok st" using assms(1) by (auto simp: client_ok_def)
  then obtain p where "paths st i = Some p" using assms(2) by (cases "paths st i") (auto simp: count_ok_def)
  note p = this
  have r: "refcount p = int (held i) + (if in_cache st i then 1 else 0)"
    using c(1) p by (simp_all add: count_ok_def)
  show thesis
  proof (rule that [OF p])
    show "path_ok p" using cache_ok_live [OF c(2) p] by simp
    show "0 < refcount p" "refcount p = 1 \<Longrightarrow> \<not> in_cache st i"
      using r assms(2) by (auto split: if_splits)
  qed (rule r)
qed

lemma client_change:
  assumes "client_ok (st, held)" "0 < held i" "after_invalidate st i f = (st', r)" "paths st i = Some p"
    and ns: "\<not> steals st i"
    and f: "path_ok (fst (f (p\<lparr>refcount := 1\<rparr>))) \<and> refcount (fst (f (p\<lparr>refcount := 1\<rparr>))) = 1"
  shows "client_ok (st', held)"
proof -
  obtain st1 r1 where i: "invalidate st i = (st1, r1)" by force
  have ok: "cache_ok st" "count_ok st held j" for j using assms(1) by (auto simp: client_ok_def)
  have h: "0 < refcount p \<and> (refcount p = 1 \<longrightarrow> \<not> in_cache st i) \<and>
    refcount p = int (held i) + (if in_cache st i then 1 else 0)"
  proof (rule client_held [OF assms(1,2)])
    fix q assume a: "paths st i = Some q" "0 < refcount q" "refcount q = 1 \<Longrightarrow> \<not> in_cache st i"
      "refcount q = int (held i) + (if in_cache st i then 1 else 0)"
    have "q = p" using a(1) assms(4) by simp
    then show ?thesis using a(2-4) by blast
  qed
  show ?thesis
  proof (rule invalidate_cases [OF ok(1) assms(4) _ _ _ i])
    fix e assume "r1 = Inl e" "st1 = st"
    then show ?thesis using assms(1,3) i by (simp add: after_invalidate_def)
  next
    assume taken: "r1 = Inr ()" "refcount p \<le> 2" "refcount p = 2 \<Longrightarrow> in_cache st i" "cache_ok st1" "\<not> in_cache st1 i"
        "paths st1 = (paths st)(i := Some (p\<lparr>refcount := 1\<rparr>))" "entries st1 = entries st - {(i, i)}"
        "next_id st1 = next_id st"
    let ?p = "fst (f (p\<lparr>refcount := 1\<rparr>))"
    have st': "st' = put_path i ?p st1"
      using assms(3) i taken by (auto simp: after_invalidate_def deref_def Let_def split: prod.splits)
    have hi: "held i = 1"
    proof (cases "in_cache st i")
      case True
      then have "refcount p = int (held i) + 1" using h by presburger
      then show ?thesis using taken(2) assms(2) by linarith
    next
      case False
      then have "refcount p = int (held i)" using h by presburger
      moreover have "refcount p \<noteq> 2" using False taken(3) by blast
      ultimately show ?thesis using taken(2) assms(2) by linarith
    qed
    have "cache_ok st'"
      unfolding st' by (rule cache_ok_put)
        (use taken f cache_ok_live [OF ok(1) assms(4)] in auto)
    moreover have "count_ok st' held j" for j
    proof (cases "j = i")
      case True
      then show ?thesis using taken(5) f hi by (simp add: st' count_ok_def)
    next
      case False
      then show ?thesis
        by (intro count_ok_frame [OF ok(2)]) (use taken in \<open>auto simp: st' in_cache_def\<close>)
    qed
    ultimately show ?thesis unfolding client_ok_def prod.case by blast
  qed (use h ns in blast)+
qed

lemma client_okI:
  assumes "cache_ok st'" "\<And>j. count_ok st held j" "count_ok st' (held(i := n)) i"
    and "\<And>j. j \<noteq> i \<Longrightarrow> paths st' j = paths st j \<and> in_cache st' j = in_cache st j"
  shows "client_ok (st', held(i := n))"
proof -
  have "count_ok st' (held(i := n)) j" for j
    using assms(3) assms(4) [of j] count_ok_frame [OF assms(2) [of j], of st' "held(i := n)"]
    by (cases "j = i") simp_all
  then show ?thesis using assms(1) unfolding client_ok_def prod.case by blast
qed

lemma client_put_refcount:
  assumes "client_ok (st, held)" "paths st i = Some p" "refcount p + int n - int (held i) = r" "0 < r"
  shows "client_ok (put_path i (p\<lparr>refcount := r\<rparr>) st, held(i := n))"
proof -
  have ok: "cache_ok st" "count_ok st held j" for j using assms(1) by (auto simp: client_ok_def)
  show ?thesis
    by (rule client_okI [OF cache_ok_refcount [OF ok(1) assms(2)] ok(2)])
      (use ok(2) [of i] assms(2-4) in \<open>auto simp: count_ok_def\<close>)
qed

lemma client_ok_make_child:
  assumes "client_ok (st, held)" "0 < held i" "path_make_child st i cname ix = (st', r)" "\<not> steals st i"
  shows "client_ok (st', held)"
proof -
  obtain p where p: "paths st i = Some p" "path_ok p" using client_held [OF assms(1,2)] by metis
  show ?thesis
  proof (cases "depth p > MAX_DEPTH - 1 \<or> (\<exists>f. path_get_class p (-1) = Inl (UB f)) \<or>
      (\<exists>e. class_find_child (as_class (path_get_class p (-1))) cname = Inl e)")
    case True
    then have "st' = st"
      using assms(3) p by (auto simp: path_make_child_def deref_def split: if_splits sum.splits failure.splits)
    then show ?thesis using assms(1) by simp
  next
    case False
    then obtain child where c: "class_find_child (as_class (path_get_class p (-1))) cname = Inr child"
      by (cases "class_find_child (as_class (path_get_class p (-1))) cname") auto
    have "0 \<le> as_class (path_get_class p (-1))"
      using find_child_valid [OF c] by (auto simp: is_child_valid_def is_class_valid_def split: if_splits)
    then obtain cls where cls: "path_get_class p (-1) = Inr cls"
      by (cases "path_get_class p (-1)") (auto simp: as_class_def)
    let ?f = "\<lambda>p. case path_append_child p cls cname ix child of Inl err \<Rightarrow> (p, Inl err) | Inr p' \<Rightarrow> (p', Inr ())"
    have a: "after_invalidate st i ?f = (st', r)"
      using assms(3) p(1) False c cls by (simp add: path_make_child_def deref_def as_class_def)
    let ?p1 = "p\<lparr>refcount := 1\<rparr>"
    obtain p' where "path_append_child ?p1 cls cname ix child = Inr p'" "path_ok p'"
      using path_append_child_ok [of ?p1 cls cname child ix] p(2) False cls c
      by (auto simp: as_class_def MAX_DEPTH_def)
    moreover from this(1) have "refcount p' = 1" using path_append_child_refcount by fastforce
    ultimately show ?thesis using client_change [OF assms(1,2) a p(1) assms(4)] by simp
  qed
qed

lemma client_ok_make_parent:
  assumes "client_ok (st, held)" "0 < held i" "path_make_parent st i = (st', r)" "\<not> steals st i"
  shows "client_ok (st', held)"
proof -
  obtain p where p: "paths st i = Some p" "path_ok p" using client_held [OF assms(1,2)] by metis
  show ?thesis
  proof (cases "depth p = 0")
    case True
    then show ?thesis using assms(1,3) p by (simp add: path_make_parent_def deref_def)
  next
    case False
    let ?p = "p\<lparr>refcount := 1\<rparr>"
    have "path_ok (path_drop_last ?p)" by (rule path_drop_last_ok) (use p False in auto)
    moreover have "refcount (path_drop_last ?p) = 1" by (simp add: path_drop_last_def)
    ultimately show ?thesis
      using client_change [OF assms(1,2) _ p(1) assms(4), of "\<lambda>p. (path_drop_last p, Inr ())" st' r] assms(3) p(1) False
      by (simp add: path_make_parent_def deref_def)
  qed
qed

lemma client_ok_set_index:
  assumes "client_ok (st, held)" "0 < held i" "path_set_index st i d ix = (st', r)" "\<not> steals st i"
  shows "client_ok (st', held)"
proof -
  obtain p where p: "paths st i = Some p" "path_ok p" using client_held [OF assms(1,2)] by metis
  show ?thesis
  proof (cases "d < depth p \<and> ix \<noteq> INDEX_FORBIDDEN \<and> ix \<noteq> INDEX_KEY \<and> index (elem p ! d) \<noteq> INDEX_FORBIDDEN")
    case False
    then have "st' = st"
      using assms(3) p by (auto simp: path_set_index_def deref_def split: if_splits)
    then show ?thesis using assms(1) by simp
  next
    case True
    then have a: "after_invalidate st i (\<lambda>p. path_put_index p d ix) = (st', r)"
      using assms(3) p(1) by (simp add: path_set_index_def deref_def)
    have "path_ok (fst (path_put_index (p\<lparr>refcount := 1\<rparr>) d ix)) \<and>
        refcount (fst (path_put_index (p\<lparr>refcount := 1\<rparr>) d ix)) = refcount (p\<lparr>refcount := 1\<rparr>)"
      by (rule path_put_index_ok) (use p True in auto)
    then show ?thesis using client_change [OF assms(1,2) a p(1) assms(4)] by simp
  qed
qed

lemma client_ok_same:
  assumes "client_ok (st, held)" "cache_ok st'" "paths st' = paths st" "entries st' = entries st"
  shows "client_ok (st', held)"
proof -
  have "count_ok st held j" for j using assms(1) by (auto simp: client_ok_def)
  then have "count_ok st' held j" for j by (rule count_ok_frame) (use assms(3,4) in \<open>simp_all add: in_cache_def\<close>)
  then show ?thesis using assms(2) unfolding client_ok_def prod.case by blast
qed

lemma client_ok_new:
  assumes "client_ok (st, held)" "path_new_from_root_fast al st root buffer = (st', r)"
  shows "client_ok (st', case r of Inr i \<Rightarrow> if paths st' i = None then held else held(i := Suc (held i)) | Inl _ \<Rightarrow> held)"
proof (cases buffer)
  case None
  then show ?thesis using assms by (auto simp: path_new_from_root_fast_def)
next
  case (Some s)
  have ok: "cache_ok st" "count_ok st held j" for j using assms(1) by (auto simp: client_ok_def)
  show ?thesis
  proof (rule path_new_cases [OF ok(1) assms(2) [unfolded Some]])
    fix k p assume k: "r = Inr k" "in_cache st k" "paths st k = Some p" "cache_ok st'"
      "paths st' = (paths st)(k := Some (p\<lparr>refcount := refcount p + 1\<rparr>))" "entries st' = entries st"
    have "client_ok (st', held(k := Suc (held k)))"
      by (rule client_okI [OF k(4) ok(2)]) (use ok(2) [of k] k in \<open>auto simp: count_ok_def in_cache_def\<close>)
    then show ?thesis using k by simp
  next
    fix k p assume k: "r = Inr k" "paths st k = None" "refcount p = 2" "cache_ok st'"
      "paths st' = (paths st)(k := Some p)" "entries st' = insert (k, k) (entries st)"
    have "client_ok (st', held(k := Suc (held k)))"
      by (rule client_okI [OF k(4) ok(2)]) (use ok(2) [of k] k in \<open>auto simp: count_ok_def in_cache_def\<close>)
    then show ?thesis using k by simp
  qed (use client_ok_same [OF assms(1)] in simp_all)
qed

lemma clone_keys_same_elems: "clone_keys dup es i k = Inr es' \<Longrightarrow> es' = es"
proof (induction dup es i k rule: clone_keys.induct)
  case (2 dup es i k)
  show ?case
  proof (cases "index_key (es ! i)")
    case (Key s)
    then have "(es ! i)\<lparr>index_key := Key s\<rparr> = es ! i" by (cases "es ! i") simp
    then have "es[i := (es ! i)\<lparr>index_key := Key s\<rparr>] = es" by simp
    then show ?thesis using 2(2) [OF Key] 2(3) Key by (auto split: if_splits)
  qed (use 2 in simp_all)
qed simp

lemma client_ok_clone:
  assumes "client_ok (st, held)" "0 < held i" "path_clone_new al st i = (st', r)"
  shows "client_ok (st', case r of Inr j \<Rightarrow> held(j := Suc (held j)) | Inl _ \<Rightarrow> held)"
proof -
  have ok: "cache_ok st" "count_ok st held j" for j using assms(1) by (auto simp: client_ok_def)
  obtain p where p: "paths st i = Some p" "path_ok p" using client_held [OF assms(1,2)] by metis
  show ?thesis
  proof (cases "path_clone (a_path al) (a_dup al) p")
    case (Inl e)
    then show ?thesis using assms(1,3) p(1) by (auto simp: path_clone_new_def deref_def)
  next
    case (Inr q)
    let ?j = "next_id st"
    have q: "q = p\<lparr>refcount := 1\<rparr>"
      using Inr clone_keys_same_elems by (fastforce simp: path_clone_def res_bind_Inr_iff split: if_splits)
    have r: "r = Inr ?j" "st' = put_path ?j q (st\<lparr>next_id := Suc ?j\<rparr>)"
      using assms(3) p(1) Inr by (simp_all add: path_clone_new_def deref_def)
    have live: "paths st ?j = None" by (rule fresh_address [OF ok(1)])
    then have ni: "\<not> in_cache st ?j" using in_cache_path [OF ok(1)] by fastforce
    have "cache_ok st'" unfolding r(2)
      by (rule cache_ok_put [OF cache_ok_next [OF ok(1)]]) (use p(2) q ok(1) ni in \<open>auto simp: cache_ok_def\<close>)
    moreover have "held ?j = 0" using ok(2) [of ?j] live by (simp add: count_ok_def)
    ultimately have "client_ok (st', held(?j := Suc (held ?j)))"
      by (intro client_okI [OF _ ok(2)]) (use q ni in \<open>auto simp: r(2) count_ok_def\<close>)
    then show ?thesis using r(1) by simp
  qed
qed

lemma client_step_ok: "client_step c c' \<Longrightarrow> client_ok c \<Longrightarrow> client_ok c'"
proof (induction rule: client_step.induct)
  case (ref held i st st' r)
  obtain p where p: "paths st i = Some p" "0 < refcount p" using client_held [OF ref(3,1)] by metis
  then show ?case
    using client_put_refcount [OF ref(3) p(1), of "Suc (held i)" "refcount p + 1"] ref(2)
    by (simp add: path_ref_def deref_def)
next
  case (destroy held i st st' r)
  have ok: "cache_ok st" "count_ok st held j" for j using destroy(3) by (auto simp: client_ok_def)
  obtain p where p: "paths st i = Some p" "0 < refcount p"
    "refcount p = int (held i) + (if in_cache st i then 1 else 0)"
    using client_held [OF destroy(3,1)] by metis
  show ?case
  proof (cases "refcount p - 1 = 0")
    case False
    then show ?thesis
      using client_put_refcount [OF destroy(3) p(1), of "held i - 1" "refcount p - 1"] destroy(1,2) p
      by (simp add: path_destroy_def deref_def of_nat_diff)
  next
    case True
    then have h: "held i = 1" "\<not> in_cache st i" using p(3) destroy(1) by (auto split: if_splits)
    then have st': "st' = free_path i st" using destroy(2) p(1) True by (simp add: path_destroy_def deref_def)
    show ?thesis
      unfolding st' by (rule client_okI [OF cache_ok_free [OF ok(1) h(2)] ok(2)])
        (use h in \<open>auto simp: count_ok_def\<close>)
  qed
next
  case (child held i st cname ix st' r)
  then show ?case using client_ok_make_child by blast
next
  case (parent held i st st' r)
  then show ?case using client_ok_make_parent by blast
next
  case (set_index held i st d ix st' r)
  then show ?case using client_ok_set_index by blast
next
  case (new al st root buffer st' i held)
  then show ?case using client_ok_new [OF new(3,1)] by (simp only: sum.case if_False)
next
  case (new_lost al st root buffer st' i held)
  then show ?case using client_ok_new [OF new_lost(3,1)] by simp
next
  case (new_error al st root buffer st' e held)
  then show ?case using client_ok_new [OF new_error(2,1)] by simp
next
  case (clone held i al st st' j)
  then show ?case using client_ok_clone [OF clone(3,1,2)] by simp
next
  case (clone_error held i al st st' e)
  then show ?case using client_ok_clone [OF clone_error(3,1,2)] by simp
qed

lemma initial_client_ok: "client_ok (initial_state, \<lambda>_. 0)"
  by (simp add: client_ok_def cache_ok_def count_ok_def initial_state_def entries_def)

lemma reachable_client_ok: "client_step\<^sup>*\<^sup>* (initial_state, \<lambda>_. 0) c \<Longrightarrow> client_ok c"
  by (induction rule: rtranclp_induct) (auto intro: initial_client_ok client_step_ok)

lemma reachable_cache_ok:
  "client_step\<^sup>*\<^sup>* (initial_state, \<lambda>_. 0) (st, held) \<Longrightarrow> cache_ok st \<and> count_ok st held i"
  using reachable_client_ok by (fastforce simp: client_ok_def)

text \<open>Two entries never have the same root and name.\<close>

lemma same_name_same_path:
  assumes "cache_ok st" "in_cache st i" "in_cache st j" "paths st i = Some p" "paths st j = Some q"
    "name p = name q" "top_class p = top_class q"
  shows "j = i"
proof -
  obtain h where h: "cached_path st = Table h"
    using assms(2) by (cases "cached_path st") (auto simp: in_cache_def entries_def)
  note k = cache_ok_table [OF assms(1) h]
  have "(i, i) \<in># contents h" "(j, j) \<in># contents h"
    using assms(2,3) entries_table [OF h] by (auto simp: in_cache_def)
  moreover have "path_key_cmp_func (path_at st i) (path_at st j)" "path_key_cmp_func (path_at st i) (path_at st i)"
    using assms(4-7) by (simp_all add: path_key_cmp_func_def path_at_def)
  ultimately show ?thesis using table_lookup_hit [OF k, of _ _ i] by (metis option.inject)
qed

lemma as_parsed_short: "as_parsed p \<Longrightarrow> length (name p) + 1 < MAX_NAME_LEN"
  unfolding as_parsed_def
  by (elim disjE exE) (simp add: MAX_NAME_LEN_def, erule path_parse_new_cases, simp)

text \<open>Asking again for a shared path gives the same object with one more reference.\<close>

lemma path_new_again:
  assumes "cache_ok st" "in_cache st i" "paths st i = Some p" "name p = s" "top_class p = root"
  shows "path_new_from_root_fast al st root (Some s) =
    (put_path i (p\<lparr>refcount := refcount p + 1\<rparr>) st, Inr i)"
proof -
  obtain h where h: "cached_path st = Table h"
    using assms(2) by (cases "cached_path st") (auto simp: in_cache_def entries_def)
  have "length s + 1 < MAX_NAME_LEN"
    using in_cache_path [OF assms(1,2)] as_parsed_short assms(3,4) by auto
  then have cp: "copy_path_name zero_path s = Inr (zero_path\<lparr>name := s\<rparr>)" by (simp add: copy_path_name_def)
  have init: "initialize_path_cache_if_needed al st = (st, Inr ())"
    using h by (simp add: initialize_path_cache_if_needed_def)
  have kn: "name (zero_path\<lparr>name := s, top_class := root\<rparr>) = s"
    "top_class (zero_path\<lparr>name := s, top_class := root\<rparr>) = root" by simp_all
  have "path_create al st root s = (st, Inr (i, True))"
  proof (rule cache_lookup [OF assms(1) h kn])
    fix j q assume "with_table (put_path 0 (zero_path\<lparr>name := s, top_class := root\<rparr>) st) (\<lambda>h. hash_get h 0) =
       Inr (Some j)" "in_cache st j" "paths st j = Some q" "name q = s" "top_class q = root"
    moreover from this have "j = i" using same_name_same_path [OF assms(1,2) _ assms(3)] assms(4,5) by metis
    ultimately show ?thesis using cp init by (simp add: path_create_def)
  next
    assume "\<And>j q. in_cache st j \<Longrightarrow> paths st j = Some q \<Longrightarrow> \<not> (name q = s \<and> top_class q = root)"
    then show ?thesis using assms by blast
  qed
  then show ?thesis using assms(3) by (simp add: path_new_from_root_fast_def path_ref_def deref_def)
qed

section \<open>Properties\<close>


definition all_succeed :: allocs where
  "all_succeed = \<lparr>a_hash = True, a_lists = True, a_path = True, a_elem = True, a_dup = \<lambda>_. True\<rparr>"

lemma first_path:
  "\<exists>st. path_new_from_root_fast all_succeed initial_state 141 (Some []) = (st, Inr 1) \<and> paths st 1 \<noteq> None"
  by (simp add: path_new_from_root_fast_def path_create_def copy_path_name_def MAX_NAME_LEN_def
      initialize_path_cache_if_needed_def initial_state_def all_succeed_def hash_new2_def with_table_def
      put_path_def table_now_def hash_get_def hash_elem_get_def hash_value_calc_def hash_add_def
      path_ref_def deref_def put_table_def Let_def)

lemma first_step:
  obtains st where "path_new_from_root_fast all_succeed initial_state 141 (Some []) = (st, Inr 1)"
    "client_step\<^sup>*\<^sup>* (initial_state, \<lambda>_. 0) (st, (\<lambda>_. 0)(1 := Suc 0))"
proof -
  obtain st where s: "path_new_from_root_fast all_succeed initial_state 141 (Some []) = (st, Inr 1)" "paths st 1 \<noteq> None"
    using first_path by blast
  have "client_step (initial_state, \<lambda>_. 0) (st, (\<lambda>_. 0)(1 := Suc ((\<lambda>_. 0) (1::nat))))"
    by (rule client_step.new [OF s])
  then show thesis using that [OF s(1)] by auto
qed


text \<open>
  C23. Asking for a path gives an object whose name and root are the ones asked for and whose
  elements are what parsing that name gives, and asking for it again gives the same object with one
  more reference, whatever happened before.
\<close>

theorem path_new_shares:
  assumes "client_step\<^sup>*\<^sup>* (initial_state, \<lambda>_. 0) (st, held)"
    and "path_new_from_root_fast al st root (Some s) = (st', Inr i)" "a_elem al"
  shows "\<exists>p. paths st' i = Some p \<and> name p = s \<and> top_class p = root \<and> as_parsed p \<and>
    path_new_from_root_fast al' st' root (Some s) = (put_path i (p\<lparr>refcount := refcount p + 1\<rparr>) st', Inr i)"
proof -
  have ok: "cache_ok st" using reachable_cache_ok [OF assms(1)] by blast
  show ?thesis
  proof (rule path_new_cases [OF ok assms(2)])
    fix k p assume k: "Inr i = Inr k" "in_cache st k" "paths st k = Some p" "name p = s" "top_class p = root"
      "cache_ok st'" "paths st' = (paths st)(k := Some (p\<lparr>refcount := refcount p + 1\<rparr>))" "entries st' = entries st"
    have "in_cache st' k" using k(2,8) by (simp add: in_cache_def)
    then show ?thesis
      using path_new_again [OF k(6), of k "p\<lparr>refcount := refcount p + 1\<rparr>" s root al'] k
        in_cache_path [OF ok k(2)] by (intro exI [of _ "p\<lparr>refcount := refcount p + 1\<rparr>"]) simp
  next
    fix k p assume k: "Inr i = Inr k" "name p = s" "top_class p = root" "cache_ok st'"
      "paths st' = (paths st)(k := Some p)" "entries st' = insert (k, k) (entries st)" "as_parsed p"
    have "in_cache st' k" using k(6) by (simp add: in_cache_def)
    then show ?thesis
      using path_new_again [OF k(4), of k p s root al'] k by (intro exI [of _ p]) simp
  qed (use assms(3) in simp_all)
qed

theorem path_new_shares_witness:
  "\<exists>st p. as_parsed p \<and> path_new_from_root_fast all_succeed st 141 (Some []) =
     (put_path 1 (p\<lparr>refcount := refcount p + 1\<rparr>) st, Inr 1)"
proof -
  obtain st where s: "path_new_from_root_fast all_succeed initial_state 141 (Some []) = (st, Inr 1)"
    using first_path by blast
  have "a_elem all_succeed" by (simp add: all_succeed_def)
  from path_new_shares [OF rtranclp.rtrancl_refl s this, of all_succeed] show ?thesis by blast
qed

text \<open>
  C24. However clients extend and change the paths they hold, a path that is still shared through
  the table is what its name says, and no two shared paths have the same root and name: a change
  never reaches a path that others get by name.
\<close>

theorem shared_paths_keep_meaning:
  assumes "client_step\<^sup>*\<^sup>* (initial_state, \<lambda>_. 0) (st, held)" "in_cache st i"
  shows "\<exists>p. paths st i = Some p \<and> as_parsed p \<and>
    (\<forall>j q. in_cache st j \<longrightarrow> paths st j = Some q \<longrightarrow> name q = name p \<longrightarrow> top_class q = top_class p \<longrightarrow> j = i)"
proof -
  have ok: "cache_ok st" using reachable_cache_ok [OF assms(1)] by blast
  obtain p where p: "paths st i = Some p" "as_parsed p" using in_cache_path [OF ok assms(2)] by blast
  then show ?thesis using same_name_same_path [OF ok assms(2)] by metis
qed

theorem shared_paths_keep_meaning_witness: "\<exists>(st :: pstate) p. paths st 1 = Some p \<and> as_parsed p"
proof (rule first_step)
  fix st assume s: "path_new_from_root_fast all_succeed initial_state 141 (Some []) = (st, Inr 1)"
    "client_step\<^sup>*\<^sup>* (initial_state, \<lambda>_. 0) (st, (\<lambda>_. 0)(1 := Suc 0))"
  have ok: "cache_ok initial_state" using initial_client_ok by (simp add: client_ok_def)
  have "in_cache st 1"
  proof (rule path_new_cases [OF ok s(1)])
    fix i p assume "in_cache initial_state i"
    then show ?thesis by (simp add: in_cache_def entries_def initial_state_def)
  qed (simp_all add: in_cache_def all_succeed_def)
  from shared_paths_keep_meaning [OF s(2) this] show ?thesis by (intro exI [of _ st]) auto
qed

section \<open>Where the counts go wrong\<close>

text \<open>
  A path that left the table, with two references held by clients, looks to \<open>invalidate\<close> like a
  shared one: if another path with the same root and name is in the table by then, that one is taken
  out of the table, and the first path is changed under the other holder, with a count one too low.
\<close>

lemma invalidate_steals:
  assumes "cache_ok st" "steals st i" "invalidate st i = (st', r)"
  shows "\<exists>p j. paths st i = Some p \<and> refcount p = 2 \<and> j \<noteq> i \<and> in_cache st j \<and>
    r = Inr () \<and> paths st' i = Some (p\<lparr>refcount := 1\<rparr>) \<and> \<not> in_cache st' j"
proof -
  obtain p j q where p: "paths st i = Some p" "refcount p = 2" "\<not> in_cache st i"
    "in_cache st j" "paths st j = Some q" "name q = name p" "top_class q = top_class p"
    using assms(2) unfolding steals_def by blast
  obtain h where h: "cached_path st = Table h"
    using p(4) by (cases "cached_path st") (auto simp: in_cache_def entries_def)
  have "path_key_cmp_func (path_at st i) (path_at st j)"
    using p(1,5-7) by (simp add: path_at_def path_key_cmp_func_def)
  from elem_destroy_entry [OF assms(1) h p(4) this]
  obtain h' where h': "with_table st (\<lambda>h. hash_elem_destroy h i) = Inr (h', [Value_destroyed j])"
    "set_mset (contents h') = entries st - {(j, j)}" by blast
  have "\<not> flush_cache st" using assms(1) by (simp add: cache_ok_def)
  then have "(st', r) = (put_path i (p\<lparr>refcount := 1\<rparr>) (put_table h' st), Inr ())"
    unfolding assms(3) [symmetric] using p(1,2) h'(1)
    by (simp add: invalidate_def deref_def flush_cache_if_wanted_def)
  moreover have "j \<noteq> i" using p(3,4) by blast
  ultimately show ?thesis using p h'(2) by (intro exI [of _ p] exI [of _ j]) (simp add: in_cache_def)
qed

text \<open>
  When the element of the table cannot be allocated, \<open>iodefv2_path_new\<close> frees the new path and
  returns 0 with a pointer to it.
\<close>

lemma path_new_dangling:
  "path_new_from_root_fast (all_succeed\<lparr>a_elem := False\<rparr>) initial_state 141 (Some []) = (st, r) \<Longrightarrow>
     r = Inr 1 \<and> paths st 1 = None"
  by (auto simp: path_new_from_root_fast_def path_create_def copy_path_name_def MAX_NAME_LEN_def
      initialize_path_cache_if_needed_def initial_state_def all_succeed_def hash_new2_def with_table_def
      put_path_def free_path_def table_now_def hash_get_def hash_elem_get_def hash_value_calc_def hash_add_def Let_def)

text \<open>After the table was destroyed the pointer to it is still used.\<close>

lemma path_new_after_destroy:
  "cached_path st = Table_freed \<Longrightarrow> length s + 1 < MAX_NAME_LEN \<Longrightarrow>
     path_new_from_root_fast al st root (Some s) = (st, Inl (UB Use_after_free))"
  by (simp add: path_new_from_root_fast_def path_create_def copy_path_name_def
      initialize_path_cache_if_needed_def with_table_def put_path_def)

end
