(* ===== verification/ObjMem.thy ===== *)
theory ObjMem
  imports Errors CList
begin

text \<open>
  The memory the document objects live in. An address holds one cell: a string object, a time, a
  data object, a byte buffer, a value object, or an object of a document class. A string owns its
  bytes (their buffer is theory StringBuf); an object of a class has a reference count, the list
  it is linked into, and its fields by name. Freed addresses are never used again, so a use after
  free is always seen. \<open>obj_alloc_ok\<close> decides which allocations succeed.

  An action runs on this memory. Its result is a value or a failure, with the memory as the call
  left it. A C function that stores a pointer through an output parameter returns the stored
  pointer together with its return code, because callers may go on after an error.
\<close>

type_synonym addr = nat

section \<open>Cells\<close>

record string_obj =
  str_refcount :: int
  str_text :: string
  str_buf :: bool

record time_obj =
  time_refcount :: int
  time_sec :: "32 word"
  time_usec :: "32 word"
  time_gmt_offset :: "32 word"

text \<open>The types of src/src/include/iodefv2-data.h, and the member last written to the union.\<close>

datatype data_type =
    DATA_UNKNOWN | DATA_CHAR | DATA_BYTE | DATA_UINT32 | DATA_INT | DATA_FLOAT
  | DATA_CHAR_STRING | DATA_BYTE_STRING | DATA_TIME

datatype data_union =
    U_zero | U_char char | U_byte "8 word" | U_int "64 word" | U_float "32 word" | U_ptr "addr option"

record data_obj =
  data_refcount :: int
  own_structure :: bool
  own_buffer :: bool
  data_kind :: data_type
  data_len :: nat
  data_val :: data_union

datatype value_data =
    Val_uint32 "32 word"
  | Val_enum int "32 word"
  | Val_string "addr option"
  | Val_data "addr option"
  | Val_time "addr option"
  | Val_object int addr

record value_obj =
  value_refcount :: int
  value_own :: bool
  value_data :: value_data

text \<open>
  A field of a class: a pointer to another cell, a 32-bit integer or enumeration, an
  \<open>OPTIONAL_INT\<close> with its \<open>is_set\<close> bit, the head of a list, or a list head as \<open>calloc\<close> leaves it.
\<close>

datatype slot =
    S_ptr "addr option" | S_int "32 word" | S_opt bool "32 word" | S_list "addr list" | S_head0

record obj =
  obj_class :: nat
  obj_refcount :: int
  obj_link :: "(addr \<times> string) option"
  obj_fields :: "string \<Rightarrow> slot"

datatype cell =
    C_string string_obj
  | C_time time_obj
  | C_data data_obj
  | C_buf bool string
  | C_value value_obj
  | C_object obj

record omem =
  ocells :: "addr \<Rightarrow> cell option"
  onext :: addr
  obj_alloc_ok :: "addr \<Rightarrow> bool"

section \<open>Actions\<close>

type_synonym 'a act = "omem \<Rightarrow> 'a res \<times> omem"

definition ret :: "'a \<Rightarrow> 'a act" where
  "ret x = (\<lambda>m. (Inr x, m))"

definition fail :: "failure \<Rightarrow> 'a act" where
  "fail e = (\<lambda>m. (Inl e, m))"

definition act_bind :: "'a act \<Rightarrow> ('a \<Rightarrow> 'b act) \<Rightarrow> 'b act" where
  "act_bind f g = (\<lambda>m. case f m of (Inl e, m') \<Rightarrow> (Inl e, m') | (Inr x, m') \<Rightarrow> g x m')"

definition act_then :: "unit act \<Rightarrow> 'b act \<Rightarrow> 'b act" where
  "act_then f g = act_bind f (\<lambda>_. g)"

named_theorems act_simps

lemma ret_app [act_simps]: "ret x m = (Inr x, m)"
  by (simp add: ret_def)

lemma fail_app [act_simps]: "fail e m = (Inl e, m)"
  by (simp add: fail_def)

lemma bind_app: "act_bind f g m = (case f m of (Inl e, m') \<Rightarrow> (Inl e, m') | (Inr x, m') \<Rightarrow> g x m')"
  by (simp add: act_bind_def)

lemma bind_Inr [act_simps]: "f m = (Inr x, m') \<Longrightarrow> act_bind f g m = g x m'"
  by (simp add: act_bind_def)

lemma bind_Inl [act_simps]: "f m = (Inl e, m') \<Longrightarrow> act_bind f g m = (Inl e, m')"
  by (simp add: act_bind_def)

lemma then_Inr [act_simps]: "f m = (Inr (), m') \<Longrightarrow> act_then f g m = g m'"
  by (simp add: act_then_def act_bind_def)

lemma then_Inl [act_simps]: "f m = (Inl e, m') \<Longrightarrow> act_then f g m = (Inl e, m')"
  by (simp add: act_then_def act_bind_def)

text \<open>A C integer result: zero or more for success, an error otherwise, as a value.\<close>

type_synonym created = "addr option \<times> unit res"

text \<open>
  The return code of a call as a value: a fault stays a fault, an error becomes something the
  caller can look at or ignore.
\<close>

definition act_try :: "'a act \<Rightarrow> ('a res) act" where
  "act_try f = (\<lambda>m. case f m of
     (Inl (UB u), m') \<Rightarrow> (Inl (UB u), m')
   | (r, m') \<Rightarrow> (Inr r, m'))"

definition lift_res :: "'a res \<Rightarrow> 'a act" where
  "lift_res r = (\<lambda>m. (r, m))"

text \<open>A call \<open>f(..., &x)\<close> followed by \<open>if ( ret < 0 ) return ret\<close>; \<open>store\<close> writes \<open>x\<close>.\<close>

definition call_out :: "created act \<Rightarrow> (addr option \<Rightarrow> unit act) \<Rightarrow> unit act" where
  "call_out f store = act_bind f (\<lambda>(p, r). act_then (store p) (lift_res r))"

section \<open>Allocating, reading, writing\<close>

definition cell_alloc :: "cell \<Rightarrow> addr option act" where
  "cell_alloc c = (\<lambda>m. let a = onext m; m' = m\<lparr>onext := Suc a\<rparr> in
     if obj_alloc_ok m a then (Inr (Some a), m'\<lparr>ocells := (ocells m)(a := Some c)\<rparr>)
     else (Inr None, m'))"

text \<open>A buffer that belongs to the object that asks for it.\<close>

definition buffer_alloc :: "bool act" where
  "buffer_alloc = (\<lambda>m. (Inr (obj_alloc_ok m (onext m)), m\<lparr>onext := Suc (onext m)\<rparr>))"

definition cell_free :: "addr option \<Rightarrow> unit act" where
  "cell_free p = (\<lambda>m. case p of
     None \<Rightarrow> (Inr (), m)
   | Some a \<Rightarrow> (case ocells m a of
       None \<Rightarrow> (Inl (UB Use_after_free), m)
     | Some (C_buf True _) \<Rightarrow> (Inl (UB Invalid_free), m)
     | Some _ \<Rightarrow> (Inr (), m\<lparr>ocells := (ocells m)(a := None)\<rparr>)))"

definition load :: "addr option \<Rightarrow> cell act" where
  "load p = (\<lambda>m. case p of
     None \<Rightarrow> (Inl (UB Null_deref), m)
   | Some a \<Rightarrow> (case ocells m a of None \<Rightarrow> (Inl (UB Use_after_free), m) | Some c \<Rightarrow> (Inr c, m)))"

definition put_cell :: "addr \<Rightarrow> cell \<Rightarrow> omem \<Rightarrow> omem" where
  "put_cell a c m = m\<lparr>ocells := (ocells m)(a := Some c)\<rparr>"

definition store :: "addr option \<Rightarrow> cell \<Rightarrow> unit act" where
  "store p c = (\<lambda>m. case p of
     None \<Rightarrow> (Inl (UB Null_deref), m)
   | Some a \<Rightarrow> (case ocells m a of
       None \<Rightarrow> (Inl (UB Use_after_free), m) | Some _ \<Rightarrow> (Inr (), put_cell a c m)))"

definition load_string :: "addr option \<Rightarrow> string_obj act" where
  "load_string p = act_bind (load p)
     (\<lambda>c. case c of C_string s \<Rightarrow> ret s | _ \<Rightarrow> fail (UB Wrong_kind))"

definition load_time :: "addr option \<Rightarrow> time_obj act" where
  "load_time p = act_bind (load p)
     (\<lambda>c. case c of C_time t \<Rightarrow> ret t | _ \<Rightarrow> fail (UB Wrong_kind))"

definition load_data :: "addr option \<Rightarrow> data_obj act" where
  "load_data p = act_bind (load p)
     (\<lambda>c. case c of C_data d \<Rightarrow> ret d | _ \<Rightarrow> fail (UB Wrong_kind))"

definition load_buf :: "addr option \<Rightarrow> string act" where
  "load_buf p = act_bind (load p)
     (\<lambda>c. case c of C_buf _ s \<Rightarrow> ret s | _ \<Rightarrow> fail (UB Wrong_kind))"

definition load_value :: "addr option \<Rightarrow> value_obj act" where
  "load_value p = act_bind (load p)
     (\<lambda>c. case c of C_value v \<Rightarrow> ret v | _ \<Rightarrow> fail (UB Wrong_kind))"

definition load_obj :: "addr option \<Rightarrow> obj act" where
  "load_obj p = act_bind (load p)
     (\<lambda>c. case c of C_object x \<Rightarrow> ret x | _ \<Rightarrow> fail (UB Wrong_kind))"

lemma put_cell_simps [simp]:
  "ocells (put_cell a c m) = (ocells m)(a := Some c)"
  "onext (put_cell a c m) = onext m"
  "obj_alloc_ok (put_cell a c m) = obj_alloc_ok m"
  by (simp_all add: put_cell_def)

lemma load_simps [act_simps]:
  "ocells m a = Some c \<Longrightarrow> load (Some a) m = (Inr c, m)"
  "ocells m a = Some (C_string s) \<Longrightarrow> load_string (Some a) m = (Inr s, m)"
  "ocells m a = Some (C_time t) \<Longrightarrow> load_time (Some a) m = (Inr t, m)"
  "ocells m a = Some (C_data d) \<Longrightarrow> load_data (Some a) m = (Inr d, m)"
  "ocells m a = Some (C_buf b t') \<Longrightarrow> load_buf (Some a) m = (Inr t', m)"
  "ocells m a = Some (C_value v) \<Longrightarrow> load_value (Some a) m = (Inr v, m)"
  "ocells m a = Some (C_object x) \<Longrightarrow> load_obj (Some a) m = (Inr x, m)"
  by (simp_all add: load_def load_string_def load_time_def load_data_def load_buf_def
      load_value_def load_obj_def act_bind_def ret_def)

lemma load_None [act_simps]:
  "load None m = (Inl (UB Null_deref), m)"
  "load_string None m = (Inl (UB Null_deref), m)"
  "load_time None m = (Inl (UB Null_deref), m)"
  "load_data None m = (Inl (UB Null_deref), m)"
  "load_buf None m = (Inl (UB Null_deref), m)"
  "load_value None m = (Inl (UB Null_deref), m)"
  "load_obj None m = (Inl (UB Null_deref), m)"
  by (simp_all add: load_def load_string_def load_time_def load_data_def load_buf_def
      load_value_def load_obj_def act_bind_def)

lemma store_Some [act_simps]:
  "ocells m a = Some c' \<Longrightarrow> store (Some a) c m = (Inr (), put_cell a c m)"
  by (simp add: store_def)

lemma free_Some [act_simps]:
  "ocells m a = Some c \<Longrightarrow> (\<And>s. c \<noteq> C_buf True s) \<Longrightarrow>
   cell_free (Some a) m = (Inr (), m\<lparr>ocells := (ocells m)(a := None)\<rparr>)"
  by (auto simp: cell_free_def split: cell.split bool.split)

lemma cell_alloc_app [act_simps]:
  "obj_alloc_ok m (onext m) \<Longrightarrow> cell_alloc c m =
     (Inr (Some (onext m)), m\<lparr>onext := Suc (onext m), ocells := (ocells m)(onext m := Some c)\<rparr>)"
  "\<not> obj_alloc_ok m (onext m) \<Longrightarrow> cell_alloc c m = (Inr None, m\<lparr>onext := Suc (onext m)\<rparr>)"
  by (simp_all add: cell_alloc_def Let_def)

lemma buffer_alloc_app [act_simps]:
  "buffer_alloc m = (Inr (obj_alloc_ok m (onext m)), m\<lparr>onext := Suc (onext m)\<rparr>)"
  by (simp add: buffer_alloc_def)

section \<open>Strings as document objects\<close>

text \<open>
  The functions of libiodefv2-string.c that the generated code calls, on whole string objects;
  theory StringBuf has them on buffers. \<open>str_buf\<close> tells whether a buffer is allocated.
\<close>

definition str_new :: "created act" where
  "str_new = act_bind (cell_alloc (C_string \<lparr>str_refcount = 1, str_text = [], str_buf = False\<rparr>))
     (\<lambda>p. ret (p, if p = None then Inl E_errno else Inr ()))"

definition str_destroy :: "addr option \<Rightarrow> unit act" where
  "str_destroy p = (if p = None then ret () else
     act_bind (load_string p) (\<lambda>s.
       if str_refcount s - 1 \<noteq> 0
       then store p (C_string (s\<lparr>str_refcount := str_refcount s - 1\<rparr>))
       else cell_free p))"

definition str_ref :: "addr option \<Rightarrow> addr option act" where
  "str_ref p = (if p = None then ret None else
     act_bind (load_string p) (\<lambda>s.
       act_then (store p (C_string (s\<lparr>str_refcount := str_refcount s + 1\<rparr>))) (ret p)))"

definition str_clone :: "addr option \<Rightarrow> created act" where
  "str_clone src = (if src = None then fail (E ERROR_ASSERTION) else
     act_bind str_new (\<lambda>(dst, r). case r of
       Inl e \<Rightarrow> ret (dst, Inl e)
     | Inr _ \<Rightarrow> act_bind (load_string src) (\<lambda>s.
         if \<not> str_buf s
         then act_then (store dst (C_string \<lparr>str_refcount = 1, str_text = str_text s, str_buf = False\<rparr>))
                (ret (dst, Inr ()))
         else act_bind buffer_alloc (\<lambda>ok.
           if \<not> ok then act_then (str_destroy dst) (ret (dst, Inl E_errno))
           else act_then (store dst (C_string \<lparr>str_refcount = 1, str_text = str_text s, str_buf = True\<rparr>))
                  (ret (dst, Inr ()))))))"

definition str_copy_dup :: "addr option \<Rightarrow> addr option \<Rightarrow> unit act" where
  "str_copy_dup src dst = (if src = None \<or> dst = None then fail (E ERROR_ASSERTION) else
     act_bind (load_string dst) (\<lambda>d. act_bind (load_string src) (\<lambda>s.
       if \<not> str_buf s
       then store dst (C_string (d\<lparr>str_text := str_text s, str_buf := False\<rparr>))
       else act_bind buffer_alloc (\<lambda>ok.
         if ok then store dst (C_string (d\<lparr>str_text := str_text s, str_buf := True\<rparr>))
         else act_then (store dst (C_string (d\<lparr>str_text := str_text s, str_buf := False\<rparr>)))
                (fail E_errno)))))"

text \<open>\<open>libiodefv2_string_copy\<close> of iodefv2-tree-wrap.c: an empty source is not copied.\<close>

definition str_copy :: "addr option \<Rightarrow> addr option \<Rightarrow> unit act" where
  "str_copy src dst = (if src = None \<or> dst = None then fail (E ERROR_ASSERTION) else
     act_bind (load_string src) (\<lambda>s.
       if str_text s \<noteq> [] then str_copy_dup src dst else ret ()))"

definition str_compare :: "addr option \<Rightarrow> addr option \<Rightarrow> int act" where
  "str_compare p q =
     (if p = None \<and> q = None then ret 0
      else if p = None \<or> q = None then ret (-1)
      else act_bind (load_string p) (\<lambda>s. act_bind (load_string q) (\<lambda>t.
        if length (str_text s) \<noteq> length (str_text t) then ret (-1)
        else if str_text s = [] then ret 0
        else ret (if cstr (str_text s) = cstr (str_text t) then 0 else -1))))"

section \<open>Times\<close>

text \<open>The reference counting and copying functions of iodefv2-time.c.\<close>

definition time_new :: "created act" where
  "time_new = act_bind (cell_alloc (C_time \<lparr>time_refcount = 1, time_sec = 0, time_usec = 0,
       time_gmt_offset = 0\<rparr>))
     (\<lambda>p. ret (p, if p = None then Inl E_errno else Inr ()))"

definition time_ref :: "addr option \<Rightarrow> addr option act" where
  "time_ref p = (if p = None then ret None else
     act_bind (load_time p) (\<lambda>t.
       act_then (store p (C_time (t\<lparr>time_refcount := time_refcount t + 1\<rparr>))) (ret p)))"

definition time_copy :: "addr option \<Rightarrow> addr option \<Rightarrow> unit act" where
  "time_copy src dst = (if src = None \<or> dst = None then fail (E ERROR_ASSERTION) else
     act_bind (load_time src) (\<lambda>s. act_bind (load_time dst) (\<lambda>d.
       store dst (C_time (d\<lparr>time_sec := time_sec s, time_usec := time_usec s,
         time_gmt_offset := time_gmt_offset s\<rparr>)))))"

definition time_clone :: "addr option \<Rightarrow> created act" where
  "time_clone src = (if src = None then fail (E ERROR_ASSERTION) else
     act_bind time_new (\<lambda>(dst, r). case r of
       Inl e \<Rightarrow> ret (dst, Inl e)
     | Inr _ \<Rightarrow> act_bind (act_try (time_copy src dst)) (\<lambda>r. ret (dst, r))))"

definition time_destroy :: "addr option \<Rightarrow> unit act" where
  "time_destroy p = (if p = None then ret () else
     act_bind (load_time p) (\<lambda>t.
       if time_refcount t - 1 \<noteq> 0
       then store p (C_time (t\<lparr>time_refcount := time_refcount t - 1\<rparr>))
       else cell_free p))"

text \<open>
  The sum of the unsigned seconds and the signed offset is computed in 32 unsigned bits before it
  is widened.
\<close>

definition time_order :: "time_obj \<Rightarrow> time_obj \<Rightarrow> int" where
  "time_order a b =
     (let t1 = time_sec a + time_gmt_offset a; t2 = time_sec b + time_gmt_offset b in
      if t1 = t2 then
        (if time_usec a = time_usec b then 0 else if time_usec a < time_usec b then -1 else 1)
      else if t1 < t2 then -1 else 1)"

definition time_compare :: "addr option \<Rightarrow> addr option \<Rightarrow> int act" where
  "time_compare p q =
     (if p = None \<and> q = None then ret 0
      else if p = None \<or> q = None then ret (-1)
      else act_bind (load_time p) (\<lambda>s. act_bind (load_time q) (\<lambda>t. ret (time_order s t))))"

end
