(* ===== verification/Data.thy ===== *)
theory Data
  imports ObjMem
begin

text \<open>
  The data objects of src/src/iodefv2-data.c: a tagged union that owns its buffer or time when its
  \<open>OWN_DATA\<close> flag is set, or only refers to a buffer of the caller (a lent cell).
\<close>

section \<open>Creating, sharing and destroying\<close>

definition data_new :: "created act" where
  "data_new = act_bind (cell_alloc (C_data \<lparr>data_refcount = 1, own_structure = True,
       own_buffer = False, data_kind = DATA_UNKNOWN, data_len = 0, data_val = U_zero\<rparr>))
     (\<lambda>p. ret (p, if p = None then Inl E_errno else Inr ()))"

definition data_ref :: "addr option \<Rightarrow> addr option act" where
  "data_ref p = (if p = None then ret None else
     act_bind (load_data p) (\<lambda>d.
       act_then (store p (C_data (d\<lparr>data_refcount := data_refcount d + 1\<rparr>))) (ret p)))"

text \<open>The union read as a pointer: a zeroed union is a NULL pointer.\<close>

definition union_ptr :: "data_union \<Rightarrow> addr option act" where
  "union_ptr u = (case u of U_ptr p \<Rightarrow> ret p | U_zero \<Rightarrow> ret None | _ \<Rightarrow> fail (UB Wrong_kind))"

definition is_buffer_type :: "data_type \<Rightarrow> bool" where
  "is_buffer_type t \<longleftrightarrow> t = DATA_CHAR_STRING \<or> t = DATA_BYTE_STRING"

definition data_destroy_internal :: "addr option \<Rightarrow> unit act" where
  "data_destroy_internal p = (if p = None then ret () else
     act_bind (load_data p) (\<lambda>d.
       if data_kind d = DATA_TIME \<and> own_buffer d
       then act_bind (union_ptr (data_val d)) time_destroy
       else if is_buffer_type (data_kind d) \<and> own_buffer d
       then act_bind (union_ptr (data_val d)) (\<lambda>b.
              act_then (cell_free b) (store p (C_data (d\<lparr>data_val := U_ptr None\<rparr>))))
       else ret ()))"

definition data_destroy :: "addr option \<Rightarrow> unit act" where
  "data_destroy p = (if p = None then ret () else
     act_bind (load_data p) (\<lambda>d.
       act_then (store p (C_data (d\<lparr>data_refcount := data_refcount d - 1\<rparr>)))
         (if data_refcount d - 1 \<noteq> 0 then ret ()
          else act_then (data_destroy_internal p)
            (if own_structure d then cell_free p else ret ()))))"

section \<open>Setting the contents\<close>

text \<open>The setters made by \<open>IODEFV2_DATA_DECL\<close>; \<open>len\<close> is the size of the C type.\<close>

definition data_set_scalar :: "data_type \<Rightarrow> nat \<Rightarrow> data_union \<Rightarrow> addr option \<Rightarrow> unit act" where
  "data_set_scalar t len u p = (if p = None then ret () else
     act_then (data_destroy_internal p) (act_bind (load_data p) (\<lambda>d.
       store p (C_data (d\<lparr>data_kind := t, data_len := len, data_val := u\<rparr>)))))"

definition data_set_char :: "addr option \<Rightarrow> char \<Rightarrow> unit act" where
  "data_set_char p c = data_set_scalar DATA_CHAR 1 (U_char c) p"

definition data_set_byte :: "addr option \<Rightarrow> 8 word \<Rightarrow> unit act" where
  "data_set_byte p b = data_set_scalar DATA_BYTE 1 (U_byte b) p"

definition data_set_uint32 :: "addr option \<Rightarrow> 32 word \<Rightarrow> unit act" where
  "data_set_uint32 p v = data_set_scalar DATA_INT 4 (U_int (ucast v)) p"

definition data_set_int :: "addr option \<Rightarrow> 64 word \<Rightarrow> unit act" where
  "data_set_int p v = data_set_scalar DATA_INT 8 (U_int v) p"

definition data_set_float :: "addr option \<Rightarrow> 32 word \<Rightarrow> unit act" where
  "data_set_float p v = data_set_scalar DATA_FLOAT 4 (U_float v) p"

definition data_set_time :: "addr option \<Rightarrow> addr option \<Rightarrow> unit act" where
  "data_set_time p t = act_bind (load_data p) (\<lambda>d.
     store p (C_data (d\<lparr>data_len := 1, data_kind := DATA_TIME, own_buffer := True, data_val := U_ptr t\<rparr>)))"

definition data_set_ptr_ref_fast :: "addr option \<Rightarrow> data_type \<Rightarrow> addr option \<Rightarrow> nat \<Rightarrow> unit act" where
  "data_set_ptr_ref_fast p t b len =
     (if p = None \<or> b = None then fail (E ERROR_ASSERTION) else
      act_then (data_destroy_internal p) (act_bind (load_data p) (\<lambda>d.
        store p (C_data (d\<lparr>data_kind := t, data_val := U_ptr b, data_len := len\<rparr>)))))"

definition data_set_ptr_nodup_fast :: "addr option \<Rightarrow> data_type \<Rightarrow> addr option \<Rightarrow> nat \<Rightarrow> unit act" where
  "data_set_ptr_nodup_fast p t b len =
     (if p = None \<or> b = None then fail (E ERROR_ASSERTION) else
      act_then (data_destroy_internal p) (act_bind (load_data p) (\<lambda>d.
        store p (C_data (d\<lparr>data_kind := t, data_val := U_ptr b, data_len := len,
          own_buffer := True\<rparr>)))))"

text \<open>\<open>malloc\<close> and \<open>memcpy\<close> of \<open>len\<close> bytes; the source is read only when the block was obtained.\<close>

definition buf_dup :: "addr option \<Rightarrow> nat \<Rightarrow> addr option act" where
  "buf_dup b len = act_bind (cell_alloc (C_buf False [])) (\<lambda>new.
     if new = None then ret None
     else act_bind (load_buf b) (\<lambda>s.
       if length s < len then fail (UB Out_of_bounds)
       else act_then (store new (C_buf False (take len s))) (ret new)))"

definition data_set_ptr_dup_fast :: "addr option \<Rightarrow> data_type \<Rightarrow> addr option \<Rightarrow> nat \<Rightarrow> unit act" where
  "data_set_ptr_dup_fast p t b len =
     (if p = None \<or> b = None then fail (E ERROR_ASSERTION) else
      act_then (data_destroy_internal p) (act_bind (buf_dup b len) (\<lambda>new.
        if new = None then fail E_minus1
        else act_bind (load_data p) (\<lambda>d.
          store p (C_data (d\<lparr>data_kind := t, data_val := U_ptr new, data_len := len,
            own_buffer := True\<rparr>))))))"

section \<open>Copying and comparing\<close>

definition data_copy_ref :: "addr option \<Rightarrow> addr option \<Rightarrow> unit act" where
  "data_copy_ref src dst = (if src = None \<or> dst = None then fail (E ERROR_ASSERTION) else
     act_then (data_destroy_internal dst) (act_bind (load_data src) (\<lambda>s.
       act_bind (load_data dst) (\<lambda>d. store dst (C_data (d\<lparr>data_kind := data_kind s,
         data_len := data_len s, data_val := data_val s, own_buffer := False\<rparr>))))))"

definition data_copy_dup :: "addr option \<Rightarrow> addr option \<Rightarrow> unit act" where
  "data_copy_dup src dst = (if src = None \<or> dst = None then fail (E ERROR_ASSERTION) else
     act_then (data_destroy_internal dst) (act_bind (load_data src) (\<lambda>s.
       act_bind (load_data dst) (\<lambda>d.
         let put = (\<lambda>u. store dst (C_data (d\<lparr>data_kind := data_kind s, own_buffer := True,
                     data_len := data_len s, data_val := u\<rparr>))) in
         if data_kind s = DATA_TIME then
           act_then (put (data_val d)) (act_bind (union_ptr (data_val s)) (\<lambda>t.
             call_out (time_clone t) (\<lambda>q. put (U_ptr q))))
         else if is_buffer_type (data_kind s) then
           act_then (put (data_val d)) (act_bind (union_ptr (data_val s)) (\<lambda>b.
             act_bind (buf_dup b (data_len s)) (\<lambda>new.
               act_then (put (U_ptr new)) (if new = None then fail E_minus1 else ret ()))))
         else put (data_val s)))))"

definition data_clone :: "addr option \<Rightarrow> created act" where
  "data_clone src = (if src = None then fail (E ERROR_ASSERTION) else
     act_bind data_new (\<lambda>(dst, r). case r of
       Inl e \<Rightarrow> ret (dst, Inl e)
     | Inr _ \<Rightarrow> act_bind (act_try (data_copy_dup src dst)) (\<lambda>r.
         act_then (if r = Inr () then ret () else data_destroy dst) (ret (dst, r)))))"

definition mem_order :: "string \<Rightarrow> string \<Rightarrow> int" where
  "mem_order s t = (case find (\<lambda>(c, d). c \<noteq> d) (zip s t) of
     None \<Rightarrow> 0 | Some (c, d) \<Rightarrow> if ccode c < ccode d then -1 else 1)"

text \<open>The bytes of the union in memory order (little endian).\<close>

definition word_bytes :: "nat \<Rightarrow> 'a::len word \<Rightarrow> string" where
  "word_bytes n w = map (\<lambda>i. char_of (unat (drop_bit (8 * i) w) mod 256)) [0..<n]"

definition union_bytes :: "data_union \<Rightarrow> string" where
  "union_bytes u = (case u of
     U_char c \<Rightarrow> [c] | U_byte b \<Rightarrow> word_bytes 1 b | U_int w \<Rightarrow> word_bytes 8 w
   | U_float w \<Rightarrow> word_bytes 4 w | _ \<Rightarrow> [])"

definition data_compare :: "addr option \<Rightarrow> addr option \<Rightarrow> int act" where
  "data_compare p q =
     (if p = None \<and> q = None then ret 0
      else if p = None \<or> q = None then ret (if p \<noteq> None then 1 else -1)
      else act_bind (load_data p) (\<lambda>d1. act_bind (load_data q) (\<lambda>d2.
        if data_len d1 \<noteq> data_len d2 then ret (if data_len d1 > data_len d2 then 1 else -1)
        else if data_kind d1 \<noteq> data_kind d2 then ret (-1)
        else if data_kind d1 = DATA_TIME then
          act_bind (union_ptr (data_val d1)) (\<lambda>t1. act_bind (union_ptr (data_val d2)) (\<lambda>t2.
            time_compare t1 t2))
        else if is_buffer_type (data_kind d1) then
          act_bind (union_ptr (data_val d1)) (\<lambda>b1. act_bind (union_ptr (data_val d2)) (\<lambda>b2.
            act_bind (load_buf b1) (\<lambda>s. act_bind (load_buf b2) (\<lambda>t.
              if length s < data_len d1 \<or> length t < data_len d1 then fail (UB Out_of_bounds)
              else ret (mem_order (take (data_len d1) s) (take (data_len d1) t))))))
        else
          (let s = union_bytes (data_val d1); t = union_bytes (data_val d2) in
           if length s < data_len d1 \<or> length t < data_len d1 then fail (UB Wrong_kind)
           else ret (mem_order (take (data_len d1) s) (take (data_len d1) t))))))"

definition data_is_empty :: "addr option \<Rightarrow> bool act" where
  "data_is_empty p = (if p = None then ret True else
     act_bind (load_data p) (\<lambda>d. ret (data_len d = 0)))"

definition data_get_type :: "addr option \<Rightarrow> data_type act" where
  "data_get_type p = (if p = None then fail (E ERROR_ASSERTION) else
     act_bind (load_data p) (\<lambda>d. ret (data_kind d)))"

definition data_get_len :: "addr option \<Rightarrow> nat act" where
  "data_get_len p = (if p = None then ret 0 else act_bind (load_data p) (\<lambda>d. ret (data_len d)))"

end
