(* ===== verification/Object.thy ===== *)
theory Object
  imports Data Class
begin

text \<open>
  The functions the generator wrote for every class of the document into
  src/src/iodefv2-tree-wrap.c: creation, reference counting, destruction, copying, cloning,
  comparison, access by child number, and the get, set and new functions of the fields. All
  classes have the same functions, made of a few kinds of statements; a class differs only in
  which statements its functions contain, in which order and on which fields. Theory TreeWrap has
  those statements for each class, read off its functions; this theory says what a statement does.

  Calls between classes make the functions recursive; the first argument bounds the depth of the
  calls and the length of the list walks, and running out of it is the fault \<open>No_fuel\<close>.
\<close>

section \<open>Statements\<close>

text \<open>The type of a field, of a list element, or of a called function.\<close>

datatype ty = T_string | T_time | T_data | T_class nat

text \<open>The declarations of a struct.\<close>

datatype field_decl =
    F_ptr ty            \<comment> \<open>\<open>type *name\<close>\<close>
  | F_required ty       \<comment> \<open>\<open>REQUIRED(type, *name)\<close>\<close>
  | F_int               \<comment> \<open>\<open>type name\<close>, an enumeration or \<open>uint32_t\<close>\<close>
  | F_optional          \<comment> \<open>\<open>OPTIONAL_INT(type, name)\<close>\<close>
  | F_listed nat        \<comment> \<open>\<open>LISTED_OBJECT(name, class)\<close>\<close>
  | F_ignored           \<comment> \<open>\<open>IGNORED(type, name)\<close>\<close>

type_synonym struct = "(string \<times> field_decl) list"

datatype new_step = Init_list string | New_required ty string

datatype destroy_step = Destroy_ptr ty string | Destroy_list nat string

datatype copy_step =
    Copy_ptr ty string | Copy_required ty string | Copy_int string | Copy_optional string
  | Copy_list nat string

datatype compare_step =
    Compare_ptr ty string | Compare_int string | Compare_optional string | Compare_list nat string

text \<open>The cases of \<open>get_child\<close>; the first argument is the name of the field.\<close>

datatype get_case =
    Get_string string | Get_data string | Get_time string
  | Get_enum string int | Get_optional_enum string int
  | Get_uint32 string | Get_optional_uint32 string
  | Get_object string | Get_list string

text \<open>The \<open>get_\<close>, \<open>set_\<close> and \<open>new_\<close> functions of one field.\<close>

datatype get_fun = Getter_ptr string | Getter_int string | Getter_optional string | Getter_next string

datatype set_fun =
    Setter_ptr ty string | Setter_int string | Setter_int_flag string string
  | Setter_optional string | Setter_listed string

datatype new_fun =
    Maker_ptr ty string | Maker_int string | Maker_int_flag string string
  | Maker_optional string | Maker_listed nat string

record accessor =
  getter :: get_fun
  setter :: set_fun
  maker :: new_fun

datatype new_child_case = Make_field accessor | Make_in_list accessor string

datatype destroy_child_case =
    Drop_ptr ty string | Drop_optional string | Drop_int string | Drop_in_list nat string

text \<open>Everything the generator wrote for a class.\<close>

record class_code =
  cc_struct :: struct
  cc_linked :: bool
  cc_new :: "new_step list"
  cc_destroy :: "destroy_step list"
  cc_copy :: "copy_step list"
  cc_compare :: "compare_step list"
  cc_get_child :: "(int \<times> get_case) list"
  cc_new_child :: "(int \<times> new_child_case) list"
  cc_destroy_child :: "(int \<times> destroy_child_case) list"

section \<open>Fields and links\<close>

text \<open>What \<open>calloc\<close> leaves in a field.\<close>

fun zero_slot :: "field_decl \<Rightarrow> slot" where
  "zero_slot (F_ptr t) = S_ptr None"
| "zero_slot (F_required t) = S_ptr None"
| "zero_slot F_int = S_int 0"
| "zero_slot F_optional = S_opt False 0"
| "zero_slot (F_listed c) = S_head0"
| "zero_slot F_ignored = S_int 0"

definition zero_fields :: "struct \<Rightarrow> string \<Rightarrow> slot" where
  "zero_fields st = (\<lambda>f. case map_of st f of Some d \<Rightarrow> zero_slot d | None \<Rightarrow> S_int 0)"

definition get_slot :: "addr option \<Rightarrow> string \<Rightarrow> slot act" where
  "get_slot p f = act_bind (load_obj p) (\<lambda>x. ret (obj_fields x f))"

definition set_slot :: "addr option \<Rightarrow> string \<Rightarrow> slot \<Rightarrow> unit act" where
  "set_slot p f s = act_bind (load_obj p)
     (\<lambda>x. store p (C_object (x\<lparr>obj_fields := (obj_fields x)(f := s)\<rparr>)))"

definition get_ptr :: "addr option \<Rightarrow> string \<Rightarrow> addr option act" where
  "get_ptr p f = act_bind (get_slot p f) (\<lambda>s. case s of S_ptr q \<Rightarrow> ret q | _ \<Rightarrow> fail (UB Wrong_kind))"

definition get_int :: "addr option \<Rightarrow> string \<Rightarrow> 32 word act" where
  "get_int p f = act_bind (get_slot p f)
     (\<lambda>s. case s of S_int v \<Rightarrow> ret v | S_opt _ v \<Rightarrow> ret v | _ \<Rightarrow> fail (UB Wrong_kind))"

definition get_opt :: "addr option \<Rightarrow> string \<Rightarrow> (bool \<times> 32 word) act" where
  "get_opt p f = act_bind (get_slot p f)
     (\<lambda>s. case s of S_opt b v \<Rightarrow> ret (b, v) | _ \<Rightarrow> fail (UB Wrong_kind))"

definition get_list :: "addr option \<Rightarrow> string \<Rightarrow> addr list act" where
  "get_list p f = act_bind (get_slot p f)
     (\<lambda>s. case s of S_list xs \<Rightarrow> ret xs | S_head0 \<Rightarrow> fail (UB Null_deref) | _ \<Rightarrow> fail (UB Wrong_kind))"

definition set_link :: "addr option \<Rightarrow> (addr \<times> string) option \<Rightarrow> unit act" where
  "set_link p l = act_bind (load_obj p) (\<lambda>x. store p (C_object (x\<lparr>obj_link := l\<rparr>)))"

text \<open>
  \<open>libiodefv2_list_del_init\<close> on the list member of an object, under the test that it is not empty:
  an object that is in no list is left alone.
\<close>

definition list_unlink :: "addr \<Rightarrow> unit act" where
  "list_unlink a = act_bind (load_obj (Some a)) (\<lambda>x. case obj_link x of
     None \<Rightarrow> ret ()
   | Some (h, f) \<Rightarrow> act_bind (get_list (Some h) f) (\<lambda>xs.
       act_then (set_slot (Some h) f (S_list (remove1 a xs))) (set_link (Some a) None)))"

text \<open>
  Insertion at a position of the list at field \<open>f\<close> of \<open>h\<close>; the element must be in no list. The
  position is the one of theorem \<open>list_insert_refines\<close> of theory CList.
\<close>

definition list_put :: "addr \<Rightarrow> string \<Rightarrow> nat \<Rightarrow> addr \<Rightarrow> unit act" where
  "list_put h f k a = act_bind (get_list (Some h) f) (\<lambda>xs.
     act_bind (load_obj (Some a)) (\<lambda>x.
       if obj_link x \<noteq> None then fail (UB Stale_link)
       else act_then (set_slot (Some h) f (S_list (take k xs @ a # drop k xs)))
              (set_link (Some a) (Some (h, f)))))"

definition list_insert_pos :: "addr option \<Rightarrow> string \<Rightarrow> addr option \<Rightarrow> int \<Rightarrow> unit act" where
  "list_insert_pos h f a pos = (case (h, a) of
     (Some h, Some a) \<Rightarrow>
       if pos = - (2 ^ 31) then fail (UB Out_of_bounds)
       else act_bind (get_list (Some h) f) (\<lambda>xs. list_put h f (insert_at pos (length xs)) a)
   | _ \<Rightarrow> fail (UB Null_deref))"

text \<open>The successor of an element in the list it is walked through.\<close>

definition succ_in :: "addr list \<Rightarrow> addr \<Rightarrow> addr option" where
  "succ_in xs a = (case dropWhile (\<lambda>x. x \<noteq> a) xs of _ # y # _ \<Rightarrow> Some y | _ \<Rightarrow> None)"

definition list_next :: "addr \<Rightarrow> string \<Rightarrow> addr \<Rightarrow> addr option act" where
  "list_next h f a = act_bind (load_obj (Some a)) (\<lambda>x.
     if obj_link x \<noteq> Some (h, f) then fail (UB Stale_link)
     else act_bind (get_list (Some h) f) (\<lambda>xs. ret (succ_in xs a)))"

text \<open>\<open>libiodefv2_list_for_each_safe\<close>: the next element is read before the body runs.\<close>

fun walk_safe :: "nat \<Rightarrow> addr \<Rightarrow> string \<Rightarrow> (addr \<Rightarrow> unit act) \<Rightarrow> addr option \<Rightarrow> unit act" where
  "walk_safe n h f body None = ret ()"
| "walk_safe 0 h f body (Some a) = fail (UB No_fuel)"
| "walk_safe (Suc n) h f body (Some a) =
     act_bind (list_next h f a) (\<lambda>nx. act_then (body a) (walk_safe n h f body nx))"

definition for_each_safe :: "nat \<Rightarrow> addr option \<Rightarrow> string \<Rightarrow> (addr \<Rightarrow> unit act) \<Rightarrow> unit act" where
  "for_each_safe n p f body = (case p of
     None \<Rightarrow> fail (UB Null_deref)
   | Some h \<Rightarrow> act_bind (get_list (Some h) f)
       (\<lambda>xs. walk_safe n h f body (case xs of [] \<Rightarrow> None | a # _ \<Rightarrow> Some a)))"

section \<open>Destruction\<close>

text \<open>\<open>D t q\<close> is the destroy function of type \<open>t\<close>.\<close>

fun run_destroy :: "nat \<Rightarrow> (ty \<Rightarrow> addr option \<Rightarrow> unit act) \<Rightarrow> addr option \<Rightarrow> destroy_step \<Rightarrow> unit act" where
  "run_destroy n D p (Destroy_ptr t f) =
     act_bind (get_ptr p f) (\<lambda>q. if q = None then ret ()
       else act_then (D t q) (set_slot p f (S_ptr None)))"
| "run_destroy n D p (Destroy_list c f) =
     for_each_safe n p f (\<lambda>a. act_then (list_unlink a) (D (T_class c) (Some a)))"

fun run_all :: "('s \<Rightarrow> unit act) \<Rightarrow> 's list \<Rightarrow> unit act" where
  "run_all run [] = ret ()"
| "run_all run (s # ss) = act_then (run s) (run_all run ss)"

text \<open>The codes of the classes are an argument; theory TreeWrap gives the ones of the library.\<close>

type_synonym codes = "nat \<Rightarrow> class_code"

definition leaf_destroy :: "ty \<Rightarrow> (nat \<Rightarrow> addr option \<Rightarrow> unit act) \<Rightarrow> addr option \<Rightarrow> unit act" where
  "leaf_destroy t rec p = (case t of
     T_string \<Rightarrow> str_destroy p | T_time \<Rightarrow> time_destroy p | T_data \<Rightarrow> data_destroy p
   | T_class c \<Rightarrow> rec c p)"

primrec obj_destroy :: "codes \<Rightarrow> nat \<Rightarrow> nat \<Rightarrow> addr option \<Rightarrow> unit act" where
  "obj_destroy K 0 c p = fail (UB No_fuel)"
| "obj_destroy K (Suc n) c p = (if p = None then ret () else
     act_bind (load_obj p) (\<lambda>x.
       act_then (store p (C_object (x\<lparr>obj_refcount := obj_refcount x - 1\<rparr>)))
         (if obj_refcount x - 1 \<noteq> 0 then ret ()
          else act_then (if cc_linked (K c) then list_unlink (the p) else ret ())
            (act_then (run_all (run_destroy n (\<lambda>t. leaf_destroy t (obj_destroy K n)) p)
                 (cc_destroy (K c)))
               (cell_free p)))))"

definition obj_ref :: "addr option \<Rightarrow> addr option act" where
  "obj_ref p = (if p = None then ret None else
     act_bind (load_obj p) (\<lambda>x.
       act_then (store p (C_object (x\<lparr>obj_refcount := obj_refcount x + 1\<rparr>))) (ret p)))"

section \<open>Creation\<close>

text \<open>When a required child cannot be made, the new object is destroyed and NULL is stored.\<close>

definition leaf_new :: "ty \<Rightarrow> (nat \<Rightarrow> created act) \<Rightarrow> created act" where
  "leaf_new t rec = (case t of
     T_string \<Rightarrow> str_new | T_time \<Rightarrow> time_new | T_data \<Rightarrow> data_new | T_class c \<Rightarrow> rec c)"

fun run_new :: "(ty \<Rightarrow> created act) \<Rightarrow> addr option \<Rightarrow> new_step \<Rightarrow> unit act" where
  "run_new N p (Init_list f) = set_slot p f (S_list [])"
| "run_new N p (New_required t f) = call_out (N t) (\<lambda>q. set_slot p f (S_ptr q))"

primrec obj_new :: "codes \<Rightarrow> nat \<Rightarrow> nat \<Rightarrow> created act" where
  "obj_new K 0 c = fail (UB No_fuel)"
| "obj_new K (Suc n) c =
     act_bind (cell_alloc (C_object \<lparr>obj_class = c, obj_refcount = 1, obj_link = None,
         obj_fields = zero_fields (cc_struct (K c))\<rparr>)) (\<lambda>p.
       if p = None then ret (None, Inl E_errno)
       else act_bind (act_try (run_all (run_new (\<lambda>t. leaf_new t (obj_new K n)) p) (cc_new (K c)))) (\<lambda>r.
         if r = Inr () then ret (p, Inr ())
         else act_then (obj_destroy K n c p) (ret (None, r))))"

section \<open>Copying and cloning\<close>

definition leaf_clone :: "ty \<Rightarrow> (nat \<Rightarrow> addr option \<Rightarrow> created act) \<Rightarrow> addr option \<Rightarrow> created act" where
  "leaf_clone t rec p = (case t of
     T_string \<Rightarrow> str_clone p | T_time \<Rightarrow> time_clone p | T_data \<Rightarrow> data_clone p
   | T_class c \<Rightarrow> rec c p)"

text \<open>\<open>iodefv2_data_copy\<close> is defined as \<open>iodefv2_data_copy_dup\<close>.\<close>

definition leaf_copy ::
  "ty \<Rightarrow> (nat \<Rightarrow> addr option \<Rightarrow> addr option \<Rightarrow> unit act) \<Rightarrow> addr option \<Rightarrow> addr option \<Rightarrow> unit act" where
  "leaf_copy t rec p q = (case t of
     T_string \<Rightarrow> str_copy p q | T_time \<Rightarrow> time_copy p q | T_data \<Rightarrow> data_copy_dup p q
   | T_class c \<Rightarrow> rec c p q)"

text \<open>The return code of the clone of a list element is not looked at.\<close>

fun run_copy :: "nat \<Rightarrow> (ty \<Rightarrow> addr option \<Rightarrow> unit act) \<Rightarrow> (ty \<Rightarrow> addr option \<Rightarrow> created act) \<Rightarrow>
    (ty \<Rightarrow> addr option \<Rightarrow> addr option \<Rightarrow> unit act) \<Rightarrow> addr option \<Rightarrow> addr option \<Rightarrow> copy_step \<Rightarrow> unit act" where
  "run_copy n D C Y src dst (Copy_ptr t f) =
     act_then (act_bind (get_ptr dst f) (\<lambda>q. if q = None then ret ()
       else act_then (D t q) (set_slot dst f (S_ptr None))))
     (act_bind (get_ptr src f) (\<lambda>q. if q = None then ret ()
       else call_out (C t q) (\<lambda>r. set_slot dst f (S_ptr r))))"
| "run_copy n D C Y src dst (Copy_required t f) =
     act_bind (get_ptr src f) (\<lambda>q. if q = None then ret ()
       else act_bind (get_ptr dst f) (\<lambda>r. Y t q r))"
| "run_copy n D C Y src dst (Copy_int f) =
     act_bind (get_int src f) (\<lambda>v. set_slot dst f (S_int v))"
| "run_copy n D C Y src dst (Copy_optional f) =
     act_bind (get_opt src f) (\<lambda>(b, v). set_slot dst f (S_opt b v))"
| "run_copy n D C Y src dst (Copy_list c f) =
     act_then (for_each_safe n dst f (\<lambda>a. D (T_class c) (Some a)))
       (for_each_safe n src f (\<lambda>a. act_bind (C (T_class c) (Some a)) (\<lambda>(new, _).
          act_bind (get_list dst f) (\<lambda>xs. case new of
            None \<Rightarrow> fail (UB Null_deref)
          | Some b \<Rightarrow> list_put (the dst) f (length xs) b))))"

definition obj_clone_with ::
  "codes \<Rightarrow> (nat \<Rightarrow> addr option \<Rightarrow> addr option \<Rightarrow> unit act) \<Rightarrow> nat \<Rightarrow> nat \<Rightarrow> addr option \<Rightarrow> created act" where
  "obj_clone_with K copy n c src = (if src = None then fail (E ERROR_ASSERTION) else
     act_bind (obj_new K n c) (\<lambda>(dst, r). case r of
       Inl e \<Rightarrow> ret (dst, Inl e)
     | Inr _ \<Rightarrow> act_bind (act_try (copy c src dst)) (\<lambda>r. ret (dst, r))))"

primrec obj_copy :: "codes \<Rightarrow> nat \<Rightarrow> nat \<Rightarrow> addr option \<Rightarrow> addr option \<Rightarrow> unit act" where
  "obj_copy K 0 c src dst = fail (UB No_fuel)"
| "obj_copy K (Suc n) c src dst = (if src = None \<or> dst = None then fail (E ERROR_ASSERTION) else
     run_all (run_copy n (\<lambda>t. leaf_destroy t (obj_destroy K n))
         (\<lambda>t. leaf_clone t (obj_clone_with K (obj_copy K n) n))
         (\<lambda>t. leaf_copy t (obj_copy K n)) src dst)
       (cc_copy (K c)))"

definition obj_clone :: "codes \<Rightarrow> nat \<Rightarrow> nat \<Rightarrow> addr option \<Rightarrow> created act" where
  "obj_clone K n = obj_clone_with K (obj_copy K n) n"

section \<open>Comparison\<close>

definition leaf_compare ::
  "ty \<Rightarrow> (nat \<Rightarrow> addr option \<Rightarrow> addr option \<Rightarrow> int act) \<Rightarrow> addr option \<Rightarrow> addr option \<Rightarrow> int act" where
  "leaf_compare t rec p q = (case t of
     T_string \<Rightarrow> str_compare p q | T_time \<Rightarrow> time_compare p q | T_data \<Rightarrow> data_compare p q
   | T_class c \<Rightarrow> rec c p q)"

text \<open>
  The two lists are walked together; the elements, or NULL past an end, are compared until one of
  them is NULL.
\<close>

fun compare_walk :: "(addr option \<Rightarrow> addr option \<Rightarrow> int act) \<Rightarrow> addr list \<Rightarrow> addr list \<Rightarrow> int act" where
  "compare_walk R (a # as) (b # bs) =
     act_bind (R (Some a) (Some b)) (\<lambda>r. if r \<noteq> 0 then ret r else compare_walk R as bs)"
| "compare_walk R (a # as) [] = R (Some a) None"
| "compare_walk R [] (b # bs) = R None (Some b)"
| "compare_walk R [] [] = R None None"

fun run_compare :: "(ty \<Rightarrow> addr option \<Rightarrow> addr option \<Rightarrow> int act) \<Rightarrow> addr option \<Rightarrow> addr option \<Rightarrow>
    compare_step \<Rightarrow> int act" where
  "run_compare R p q (Compare_ptr t f) =
     act_bind (get_ptr p f) (\<lambda>x. act_bind (get_ptr q f) (\<lambda>y. R t x y))"
| "run_compare R p q (Compare_int f) =
     act_bind (get_int p f) (\<lambda>x. act_bind (get_int q f) (\<lambda>y. ret (if x \<noteq> y then -1 else 0)))"
| "run_compare R p q (Compare_optional f) =
     act_bind (get_opt p f) (\<lambda>(b, x). act_bind (get_opt q f) (\<lambda>(b', y).
       ret (if b \<noteq> b' then -1 else if b \<and> x \<noteq> y then -1 else 0)))"
| "run_compare R p q (Compare_list c f) =
     act_bind (get_list p f) (\<lambda>xs. act_bind (get_list q f) (\<lambda>ys.
       compare_walk (R (T_class c)) xs ys))"

fun run_compares :: "('s \<Rightarrow> int act) \<Rightarrow> 's list \<Rightarrow> int act" where
  "run_compares run [] = ret 0"
| "run_compares run (s # ss) = act_bind (run s) (\<lambda>r. if r \<noteq> 0 then ret r else run_compares run ss)"

primrec obj_compare :: "codes \<Rightarrow> nat \<Rightarrow> nat \<Rightarrow> addr option \<Rightarrow> addr option \<Rightarrow> int act" where
  "obj_compare K 0 c p q = fail (UB No_fuel)"
| "obj_compare K (Suc n) c p q =
     (if p = None \<and> q = None then ret 0
      else if p = None \<or> q = None then ret (-1)
      else run_compares (run_compare (\<lambda>t. leaf_compare t (obj_compare K n)) p q) (cc_compare (K c)))"

end
