(* ===== verification/ObjCode.thy ===== *)
theory ObjCode
  imports Object
begin

text \<open>
  What it means that the functions of a class do what its struct and the schema ask for:
  \<open>regular\<close> (the functions that take whole objects treat every field of the struct, in its order)
  and \<open>fits_schema\<close> (the functions that take a child number agree with the child table of the class
  in theory TreeData on the number, name, kind, type and class of every child).
\<close>

section \<open>Functions that follow the struct\<close>

fun destroy_of :: "string \<times> field_decl \<Rightarrow> destroy_step list" where
  "destroy_of (f, F_ptr t) = [Destroy_ptr t f]"
| "destroy_of (f, F_required t) = [Destroy_ptr t f]"
| "destroy_of (f, F_listed c) = [Destroy_list c f]"
| "destroy_of (f, _) = []"

fun copy_of :: "string \<times> field_decl \<Rightarrow> copy_step list" where
  "copy_of (f, F_ptr t) = [Copy_ptr t f]"
| "copy_of (f, F_required t) = [Copy_required t f]"
| "copy_of (f, F_int) = [Copy_int f]"
| "copy_of (f, F_optional) = [Copy_optional f]"
| "copy_of (f, F_listed c) = [Copy_list c f]"
| "copy_of (f, F_ignored) = []"

fun compare_of :: "string \<times> field_decl \<Rightarrow> compare_step list" where
  "compare_of (f, F_ptr t) = [Compare_ptr t f]"
| "compare_of (f, F_required t) = [Compare_ptr t f]"
| "compare_of (f, F_int) = [Compare_int f]"
| "compare_of (f, F_optional) = [Compare_optional f]"
| "compare_of (f, F_listed c) = [Compare_list c f]"
| "compare_of (f, F_ignored) = []"

fun init_of :: "string \<times> field_decl \<Rightarrow> new_step list" where
  "init_of (f, F_listed c) = [Init_list f]"
| "init_of (f, _) = []"

fun require_of :: "string \<times> field_decl \<Rightarrow> new_step list" where
  "require_of (f, F_required t) = [New_required t f]"
| "require_of (f, _) = []"

definition regular :: "class_code \<Rightarrow> bool" where
  "regular k \<longleftrightarrow>
     distinct (map fst (cc_struct k)) \<and>
     cc_new k = concat (map init_of (cc_struct k)) @ concat (map require_of (cc_struct k)) \<and>
     cc_destroy k = concat (map destroy_of (cc_struct k)) \<and>
     cc_copy k = concat (map copy_of (cc_struct k)) \<and>
     cc_compare k = concat (map compare_of (cc_struct k))"

section \<open>Functions that follow the schema\<close>

definition list_field :: "string \<Rightarrow> string" where
  "list_field f = f @ ''_list''"

definition has_field :: "struct \<Rightarrow> string \<Rightarrow> ty \<Rightarrow> bool" where
  "has_field st f t \<longleftrightarrow> map_of st f = Some (F_ptr t) \<or> map_of st f = Some (F_required t)"

fun get_fits :: "struct \<Rightarrow> child \<Rightarrow> get_case \<Rightarrow> bool" where
  "get_fits st ch (Get_string f) \<longleftrightarrow>
     child_name ch = f \<and> child_type ch = VT_STRING \<and> \<not> child_list ch \<and> has_field st f T_string"
| "get_fits st ch (Get_data f) \<longleftrightarrow>
     child_name ch = f \<and> child_type ch = VT_DATA \<and> \<not> child_list ch \<and> has_field st f T_data"
| "get_fits st ch (Get_time f) \<longleftrightarrow>
     child_name ch = f \<and> child_type ch = VT_TIME \<and> \<not> child_list ch \<and> has_field st f T_time"
| "get_fits st ch (Get_enum f c) \<longleftrightarrow>
     child_name ch = f \<and> child_type ch = VT_ENUM \<and> child_class ch = c \<and> \<not> child_list ch \<and>
     map_of st f = Some F_int"
| "get_fits st ch (Get_optional_enum f c) \<longleftrightarrow>
     child_name ch = f \<and> child_type ch = VT_ENUM \<and> child_class ch = c \<and> \<not> child_list ch \<and>
     map_of st f = Some F_optional"
| "get_fits st ch (Get_uint32 f) \<longleftrightarrow>
     child_name ch = f \<and> child_type ch = VT_UINT32 \<and> \<not> child_list ch \<and> map_of st f = Some F_int"
| "get_fits st ch (Get_optional_uint32 f) \<longleftrightarrow>
     child_name ch = f \<and> child_type ch = VT_UINT32 \<and> \<not> child_list ch \<and> map_of st f = Some F_optional"
| "get_fits st ch (Get_object f) \<longleftrightarrow>
     child_name ch = f \<and> child_type ch = VT_CLASS \<and> \<not> child_list ch \<and> 0 \<le> child_class ch \<and>
     has_field st f (T_class (nat (child_class ch)))"
| "get_fits st ch (Get_list f) \<longleftrightarrow>
     list_field (child_name ch) = f \<and> child_type ch = VT_CLASS \<and> child_list ch \<and> 0 \<le> child_class ch \<and>
     map_of st f = Some (F_listed (nat (child_class ch)))"

text \<open>The accessors of a child are those of the field that \<open>get_child\<close> reads.\<close>

fun accessor_fits :: "struct \<Rightarrow> get_case \<Rightarrow> accessor \<Rightarrow> bool" where
  "accessor_fits st (Get_list f) a \<longleftrightarrow>
     getter a = Getter_next f \<and> setter a = Setter_listed f \<and>
     (case maker a of Maker_listed c g \<Rightarrow> g = f \<and> map_of st f = Some (F_listed c) | _ \<Rightarrow> False)"
| "accessor_fits st (Get_enum f c) a \<longleftrightarrow>
     getter a = Getter_int f \<and>
     (setter a = Setter_int f \<and> maker a = Maker_int f \<or>
      (case setter a of Setter_int_flag g h \<Rightarrow> g = f \<and> map_of st h = Some F_ignored \<and>
         maker a = Maker_int_flag f h | _ \<Rightarrow> False))"
| "accessor_fits st (Get_uint32 f) a \<longleftrightarrow>
     getter a = Getter_int f \<and> setter a = Setter_int f \<and> maker a = Maker_int f"
| "accessor_fits st (Get_optional_enum f c) a \<longleftrightarrow>
     getter a = Getter_optional f \<and> setter a = Setter_optional f \<and> maker a = Maker_optional f"
| "accessor_fits st (Get_optional_uint32 f) a \<longleftrightarrow>
     getter a = Getter_optional f \<and> setter a = Setter_optional f \<and> maker a = Maker_optional f"
| "accessor_fits st (Get_string f) a \<longleftrightarrow>
     getter a = Getter_ptr f \<and> setter a = Setter_ptr T_string f \<and> maker a = Maker_ptr T_string f"
| "accessor_fits st (Get_data f) a \<longleftrightarrow>
     getter a = Getter_ptr f \<and> setter a = Setter_ptr T_data f \<and> maker a = Maker_ptr T_data f"
| "accessor_fits st (Get_time f) a \<longleftrightarrow>
     getter a = Getter_ptr f \<and> setter a = Setter_ptr T_time f \<and> maker a = Maker_ptr T_time f"
| "accessor_fits st (Get_object f) a \<longleftrightarrow>
     getter a = Getter_ptr f \<and>
     (case setter a of Setter_ptr t g \<Rightarrow> g = f \<and> has_field st f t \<and> maker a = Maker_ptr t f | _ \<Rightarrow> False)"

fun make_fits :: "struct \<Rightarrow> get_case \<Rightarrow> new_child_case \<Rightarrow> bool" where
  "make_fits st (Get_list f) (Make_in_list a g) \<longleftrightarrow> g = f \<and> accessor_fits st (Get_list f) a"
| "make_fits st (Get_list f) (Make_field a) \<longleftrightarrow> False"
| "make_fits st c (Make_field a) \<longleftrightarrow> accessor_fits st c a"
| "make_fits st c (Make_in_list a g) \<longleftrightarrow> False"

fun drop_fits :: "struct \<Rightarrow> get_case \<Rightarrow> destroy_child_case \<Rightarrow> bool" where
  "drop_fits st (Get_list f) d \<longleftrightarrow>
     (case d of Drop_in_list c g \<Rightarrow> g = f \<and> map_of st f = Some (F_listed c) | _ \<Rightarrow> False)"
| "drop_fits st (Get_enum f c) d \<longleftrightarrow> d = Drop_int f"
| "drop_fits st (Get_uint32 f) d \<longleftrightarrow> d = Drop_int f"
| "drop_fits st (Get_optional_enum f c) d \<longleftrightarrow> d = Drop_optional f"
| "drop_fits st (Get_optional_uint32 f) d \<longleftrightarrow> d = Drop_optional f"
| "drop_fits st (Get_string f) d \<longleftrightarrow> d = Drop_ptr T_string f"
| "drop_fits st (Get_data f) d \<longleftrightarrow> d = Drop_ptr T_data f"
| "drop_fits st (Get_time f) d \<longleftrightarrow> d = Drop_ptr T_time f"
| "drop_fits st (Get_object f) d \<longleftrightarrow>
     (case d of Drop_ptr t g \<Rightarrow> g = f \<and> has_field st f t | _ \<Rightarrow> False)"

fun children_fit :: "struct \<Rightarrow> int \<Rightarrow> child list \<Rightarrow> (int \<times> get_case) list \<Rightarrow> (int \<times> new_child_case) list \<Rightarrow> bool" where
  "children_fit st i [] [] [] \<longleftrightarrow> True"
| "children_fit st i (ch # chs) ((j, g) # gs) ((k, m) # ms) \<longleftrightarrow>
     j = i \<and> k = i \<and> get_fits st ch g \<and> make_fits st g m \<and> children_fit st (i + 1) chs gs ms"
| "children_fit st i _ _ _ \<longleftrightarrow> False"

text \<open>The cases of \<open>destroy_child\<close>, for the children whose numbers are not in the list \<open>miss\<close>.\<close>

fun drops_fit :: "struct \<Rightarrow> int list \<Rightarrow> (int \<times> get_case) list \<Rightarrow> (int \<times> destroy_child_case) list \<Rightarrow> bool" where
  "drops_fit st miss [] [] \<longleftrightarrow> True"
| "drops_fit st miss ((j, g) # gs) ds \<longleftrightarrow>
     (if j \<in> set miss then drops_fit st miss gs ds
      else case ds of (k, d) # ds' \<Rightarrow> k = j \<and> drop_fits st g d \<and> drops_fit st miss gs ds' | [] \<Rightarrow> False)"
| "drops_fit st miss [] _ \<longleftrightarrow> False"

definition fits_schema :: "child list \<Rightarrow> int list \<Rightarrow> class_code \<Rightarrow> bool" where
  "fits_schema chs miss k \<longleftrightarrow>
     children_fit (cc_struct k) 0 chs (cc_get_child k) (cc_new_child k) \<and>
     drops_fit (cc_struct k) miss (cc_get_child k) (cc_destroy_child k)"

end
