(* ===== verification/TreeWrapA.thy ===== *)
theory TreeWrapA
  imports ObjCode
begin

text \<open>
  The generated functions of src/src/iodefv2-tree-wrap.c, first half of the classes. For a class \<open>X\<close>
  the definitions are \<open>X_struct\<close> (its struct), \<open>X_f_<field>\<close> (the get, set and new functions of a
  field), \<open>X_new_code\<close>, \<open>X_destroy_code\<close>, \<open>X_copy_code\<close> and \<open>X_compare_code\<close> (the statements of these
  functions), and \<open>X_get_code\<close>, \<open>X_make_code\<close> and \<open>X_drop_code\<close> (the cases of the functions that take
  a child number). Theory Object says what the statements do. A class is named by its id.
\<close>

subsection \<open>telephone (class 3)\<close>

definition telephone_struct :: "struct" where
  "telephone_struct =
     [(''type'', F_optional), (''ext_type'', F_ptr T_string),
     (''telephone_number'', F_required T_string), (''description'', F_ptr T_string)]"

definition telephone_f_type :: accessor where
  "telephone_f_type = \<lparr>getter = Getter_optional ''type'',
     setter = Setter_optional ''type'', maker = Maker_optional ''type''\<rparr>"

definition telephone_f_ext_type :: accessor where
  "telephone_f_ext_type = \<lparr>getter = Getter_ptr ''ext_type'',
     setter = Setter_ptr T_string ''ext_type'', maker = Maker_ptr T_string ''ext_type''\<rparr>"

definition telephone_f_telephone_number :: accessor where
  "telephone_f_telephone_number = \<lparr>getter = Getter_ptr ''telephone_number'',
     setter = Setter_ptr T_string ''telephone_number'', maker = Maker_ptr T_string ''telephone_number''\<rparr>"

definition telephone_f_description :: accessor where
  "telephone_f_description = \<lparr>getter = Getter_ptr ''description'',
     setter = Setter_ptr T_string ''description'', maker = Maker_ptr T_string ''description''\<rparr>"

definition telephone_new_code :: "new_step list" where
  "telephone_new_code =
     [New_required T_string ''telephone_number'']"

definition telephone_destroy_code :: "destroy_step list" where
  "telephone_destroy_code =
     [Destroy_ptr T_string ''ext_type'', Destroy_ptr T_string ''telephone_number'',
     Destroy_ptr T_string ''description'']"

definition telephone_copy_code :: "copy_step list" where
  "telephone_copy_code =
     [Copy_optional ''type'', Copy_ptr T_string ''ext_type'',
     Copy_required T_string ''telephone_number'', Copy_ptr T_string ''description'']"

definition telephone_compare_code :: "compare_step list" where
  "telephone_compare_code =
     [Compare_optional ''type'', Compare_ptr T_string ''ext_type'',
     Compare_ptr T_string ''telephone_number'', Compare_ptr T_string ''description'']"

definition telephone_get_code :: "(int \<times> get_case) list" where
  "telephone_get_code =
     [(0, Get_optional_enum ''type'' 2), (1, Get_string ''ext_type''),
     (2, Get_string ''telephone_number''), (3, Get_string ''description'')]"

definition telephone_make_code :: "(int \<times> new_child_case) list" where
  "telephone_make_code =
     [(0, Make_field telephone_f_type), (1, Make_field telephone_f_ext_type),
     (2, Make_field telephone_f_telephone_number), (3, Make_field telephone_f_description)]"

definition telephone_drop_code :: "(int \<times> destroy_child_case) list" where
  "telephone_drop_code =
     [(0, Drop_optional ''type''), (1, Drop_ptr T_string ''ext_type''),
     (2, Drop_ptr T_string ''telephone_number''), (3, Drop_ptr T_string ''description'')]"

definition telephone_code :: class_code where
  "telephone_code = \<lparr>cc_struct = telephone_struct, cc_linked = True, cc_new = telephone_new_code,
     cc_destroy = telephone_destroy_code, cc_copy = telephone_copy_code, cc_compare = telephone_compare_code,
     cc_get_child = telephone_get_code, cc_new_child = telephone_make_code, cc_destroy_child = telephone_drop_code\<rparr>"

lemmas telephone_code_defs =
  telephone_struct_def telephone_f_type_def telephone_f_ext_type_def
  telephone_f_telephone_number_def telephone_f_description_def telephone_new_code_def
  telephone_destroy_code_def telephone_copy_code_def telephone_compare_code_def
  telephone_get_code_def telephone_make_code_def telephone_drop_code_def telephone_code_def

lemma telephone_regular: "regular telephone_code"
  by (simp add: regular_def telephone_code_defs)

lemma telephone_fits: "fits_schema telephone_children_list [] telephone_code"
  by (simp add: fits_schema_def has_field_def list_field_def telephone_children_list_def telephone_code_defs)

subsection \<open>certificate (class 4)\<close>

definition certificate_struct :: "struct" where
  "certificate_struct =
     [(''observable_id'', F_ptr T_string), (''x509_data'', F_required T_data),
     (''description'', F_ptr T_string)]"

definition certificate_f_observable_id :: accessor where
  "certificate_f_observable_id = \<lparr>getter = Getter_ptr ''observable_id'',
     setter = Setter_ptr T_string ''observable_id'', maker = Maker_ptr T_string ''observable_id''\<rparr>"

definition certificate_f_x509_data :: accessor where
  "certificate_f_x509_data = \<lparr>getter = Getter_ptr ''x509_data'',
     setter = Setter_ptr T_data ''x509_data'', maker = Maker_ptr T_data ''x509_data''\<rparr>"

definition certificate_f_description :: accessor where
  "certificate_f_description = \<lparr>getter = Getter_ptr ''description'',
     setter = Setter_ptr T_string ''description'', maker = Maker_ptr T_string ''description''\<rparr>"

definition certificate_new_code :: "new_step list" where
  "certificate_new_code =
     [New_required T_data ''x509_data'']"

definition certificate_destroy_code :: "destroy_step list" where
  "certificate_destroy_code =
     [Destroy_ptr T_string ''observable_id'', Destroy_ptr T_data ''x509_data'',
     Destroy_ptr T_string ''description'']"

definition certificate_copy_code :: "copy_step list" where
  "certificate_copy_code =
     [Copy_ptr T_string ''observable_id'', Copy_required T_data ''x509_data'',
     Copy_ptr T_string ''description'']"

definition certificate_compare_code :: "compare_step list" where
  "certificate_compare_code =
     [Compare_ptr T_string ''observable_id'', Compare_ptr T_data ''x509_data'',
     Compare_ptr T_string ''description'']"

definition certificate_get_code :: "(int \<times> get_case) list" where
  "certificate_get_code =
     [(0, Get_string ''observable_id''), (1, Get_data ''x509_data''),
     (2, Get_string ''description'')]"

definition certificate_make_code :: "(int \<times> new_child_case) list" where
  "certificate_make_code =
     [(0, Make_field certificate_f_observable_id), (1, Make_field certificate_f_x509_data),
     (2, Make_field certificate_f_description)]"

definition certificate_drop_code :: "(int \<times> destroy_child_case) list" where
  "certificate_drop_code =
     [(0, Drop_ptr T_string ''observable_id''), (1, Drop_ptr T_data ''x509_data''),
     (2, Drop_ptr T_string ''description'')]"

definition certificate_code :: class_code where
  "certificate_code = \<lparr>cc_struct = certificate_struct, cc_linked = True, cc_new = certificate_new_code,
     cc_destroy = certificate_destroy_code, cc_copy = certificate_copy_code, cc_compare = certificate_compare_code,
     cc_get_child = certificate_get_code, cc_new_child = certificate_make_code, cc_destroy_child = certificate_drop_code\<rparr>"

lemmas certificate_code_defs =
  certificate_struct_def certificate_f_observable_id_def certificate_f_x509_data_def
  certificate_f_description_def certificate_new_code_def certificate_destroy_code_def
  certificate_copy_code_def certificate_compare_code_def certificate_get_code_def
  certificate_make_code_def certificate_drop_code_def certificate_code_def

lemma certificate_regular: "regular certificate_code"
  by (simp add: regular_def certificate_code_defs)

lemma certificate_fits: "fits_schema certificate_children_list [] certificate_code"
  by (simp add: fits_schema_def has_field_def list_field_def certificate_children_list_def certificate_code_defs)

subsection \<open>key (class 6)\<close>

definition key_struct :: "struct" where
  "key_struct =
     [(''registryaction'', F_optional), (''ext_registryaction'', F_ptr T_string),
     (''observable_id'', F_ptr T_string), (''key_name'', F_required T_string),
     (''key_value'', F_ptr T_string)]"

definition key_f_registryaction :: accessor where
  "key_f_registryaction = \<lparr>getter = Getter_optional ''registryaction'',
     setter = Setter_optional ''registryaction'', maker = Maker_optional ''registryaction''\<rparr>"

definition key_f_ext_registryaction :: accessor where
  "key_f_ext_registryaction = \<lparr>getter = Getter_ptr ''ext_registryaction'',
     setter = Setter_ptr T_string ''ext_registryaction'', maker = Maker_ptr T_string ''ext_registryaction''\<rparr>"

definition key_f_observable_id :: accessor where
  "key_f_observable_id = \<lparr>getter = Getter_ptr ''observable_id'',
     setter = Setter_ptr T_string ''observable_id'', maker = Maker_ptr T_string ''observable_id''\<rparr>"

definition key_f_key_name :: accessor where
  "key_f_key_name = \<lparr>getter = Getter_ptr ''key_name'',
     setter = Setter_ptr T_string ''key_name'', maker = Maker_ptr T_string ''key_name''\<rparr>"

definition key_f_key_value :: accessor where
  "key_f_key_value = \<lparr>getter = Getter_ptr ''key_value'',
     setter = Setter_ptr T_string ''key_value'', maker = Maker_ptr T_string ''key_value''\<rparr>"

definition key_new_code :: "new_step list" where
  "key_new_code =
     [New_required T_string ''key_name'']"

definition key_destroy_code :: "destroy_step list" where
  "key_destroy_code =
     [Destroy_ptr T_string ''ext_registryaction'', Destroy_ptr T_string ''observable_id'',
     Destroy_ptr T_string ''key_name'', Destroy_ptr T_string ''key_value'']"

definition key_copy_code :: "copy_step list" where
  "key_copy_code =
     [Copy_optional ''registryaction'', Copy_ptr T_string ''ext_registryaction'',
     Copy_ptr T_string ''observable_id'', Copy_required T_string ''key_name'',
     Copy_ptr T_string ''key_value'']"

definition key_compare_code :: "compare_step list" where
  "key_compare_code =
     [Compare_optional ''registryaction'', Compare_ptr T_string ''ext_registryaction'',
     Compare_ptr T_string ''observable_id'', Compare_ptr T_string ''key_name'',
     Compare_ptr T_string ''key_value'']"

definition key_get_code :: "(int \<times> get_case) list" where
  "key_get_code =
     [(0, Get_optional_enum ''registryaction'' 5), (1, Get_string ''ext_registryaction''),
     (2, Get_string ''observable_id''), (3, Get_string ''key_name''),
     (4, Get_string ''key_value'')]"

definition key_make_code :: "(int \<times> new_child_case) list" where
  "key_make_code =
     [(0, Make_field key_f_registryaction), (1, Make_field key_f_ext_registryaction),
     (2, Make_field key_f_observable_id), (3, Make_field key_f_key_name),
     (4, Make_field key_f_key_value)]"

definition key_drop_code :: "(int \<times> destroy_child_case) list" where
  "key_drop_code =
     [(0, Drop_optional ''registryaction''), (1, Drop_ptr T_string ''ext_registryaction''),
     (2, Drop_ptr T_string ''observable_id''), (3, Drop_ptr T_string ''key_name''),
     (4, Drop_ptr T_string ''key_value'')]"

definition key_code :: class_code where
  "key_code = \<lparr>cc_struct = key_struct, cc_linked = True, cc_new = key_new_code,
     cc_destroy = key_destroy_code, cc_copy = key_copy_code, cc_compare = key_compare_code,
     cc_get_child = key_get_code, cc_new_child = key_make_code, cc_destroy_child = key_drop_code\<rparr>"

lemmas key_code_defs =
  key_struct_def key_f_registryaction_def key_f_ext_registryaction_def
  key_f_observable_id_def key_f_key_name_def key_f_key_value_def key_new_code_def
  key_destroy_code_def key_copy_code_def key_compare_code_def key_get_code_def
  key_make_code_def key_drop_code_def key_code_def

lemma key_regular: "regular key_code"
  by (simp add: regular_def key_code_defs)

lemma key_fits: "fits_schema key_children_list [] key_code"
  by (simp add: fits_schema_def has_field_def list_field_def key_children_list_def key_code_defs)

subsection \<open>observable reference (class 7)\<close>

definition observable_reference_struct :: "struct" where
  "observable_reference_struct =
     [(''uid_ref'', F_required T_string)]"

definition observable_reference_f_uid_ref :: accessor where
  "observable_reference_f_uid_ref = \<lparr>getter = Getter_ptr ''uid_ref'',
     setter = Setter_ptr T_string ''uid_ref'', maker = Maker_ptr T_string ''uid_ref''\<rparr>"

definition observable_reference_new_code :: "new_step list" where
  "observable_reference_new_code =
     [New_required T_string ''uid_ref'']"

definition observable_reference_destroy_code :: "destroy_step list" where
  "observable_reference_destroy_code =
     [Destroy_ptr T_string ''uid_ref'']"

definition observable_reference_copy_code :: "copy_step list" where
  "observable_reference_copy_code =
     [Copy_required T_string ''uid_ref'']"

definition observable_reference_compare_code :: "compare_step list" where
  "observable_reference_compare_code =
     [Compare_ptr T_string ''uid_ref'']"

definition observable_reference_get_code :: "(int \<times> get_case) list" where
  "observable_reference_get_code =
     [(0, Get_string ''uid_ref'')]"

definition observable_reference_make_code :: "(int \<times> new_child_case) list" where
  "observable_reference_make_code =
     [(0, Make_field observable_reference_f_uid_ref)]"

definition observable_reference_drop_code :: "(int \<times> destroy_child_case) list" where
  "observable_reference_drop_code =
     [(0, Drop_ptr T_string ''uid_ref'')]"

definition observable_reference_code :: class_code where
  "observable_reference_code = \<lparr>cc_struct = observable_reference_struct, cc_linked = False, cc_new = observable_reference_new_code,
     cc_destroy = observable_reference_destroy_code, cc_copy = observable_reference_copy_code, cc_compare = observable_reference_compare_code,
     cc_get_child = observable_reference_get_code, cc_new_child = observable_reference_make_code, cc_destroy_child = observable_reference_drop_code\<rparr>"

lemmas observable_reference_code_defs =
  observable_reference_struct_def observable_reference_f_uid_ref_def
  observable_reference_new_code_def observable_reference_destroy_code_def
  observable_reference_copy_code_def observable_reference_compare_code_def
  observable_reference_get_code_def observable_reference_make_code_def
  observable_reference_drop_code_def observable_reference_code_def

lemma observable_reference_regular: "regular observable_reference_code"
  by (simp add: regular_def observable_reference_code_defs)

lemma observable_reference_fits: "fits_schema observable_reference_children_list [] observable_reference_code"
  by (simp add: fits_schema_def has_field_def list_field_def observable_reference_children_list_def observable_reference_code_defs)

subsection \<open>registry handle (class 12)\<close>

definition registry_handle_struct :: "struct" where
  "registry_handle_struct =
     [(''registry'', F_int), (''ext_registry'', F_ptr T_string)]"

definition registry_handle_f_registry :: accessor where
  "registry_handle_f_registry = \<lparr>getter = Getter_int ''registry'',
     setter = Setter_int ''registry'', maker = Maker_int ''registry''\<rparr>"

definition registry_handle_f_ext_registry :: accessor where
  "registry_handle_f_ext_registry = \<lparr>getter = Getter_ptr ''ext_registry'',
     setter = Setter_ptr T_string ''ext_registry'', maker = Maker_ptr T_string ''ext_registry''\<rparr>"

definition registry_handle_new_code :: "new_step list" where
  "registry_handle_new_code =
     []"

definition registry_handle_destroy_code :: "destroy_step list" where
  "registry_handle_destroy_code =
     [Destroy_ptr T_string ''ext_registry'']"

definition registry_handle_copy_code :: "copy_step list" where
  "registry_handle_copy_code =
     [Copy_int ''registry'', Copy_ptr T_string ''ext_registry'']"

definition registry_handle_compare_code :: "compare_step list" where
  "registry_handle_compare_code =
     [Compare_int ''registry'', Compare_ptr T_string ''ext_registry'']"

definition registry_handle_get_code :: "(int \<times> get_case) list" where
  "registry_handle_get_code =
     [(0, Get_enum ''registry'' 11), (1, Get_string ''ext_registry'')]"

definition registry_handle_make_code :: "(int \<times> new_child_case) list" where
  "registry_handle_make_code =
     [(0, Make_field registry_handle_f_registry), (1, Make_field registry_handle_f_ext_registry)]"

definition registry_handle_drop_code :: "(int \<times> destroy_child_case) list" where
  "registry_handle_drop_code =
     [(0, Drop_int ''registry''), (1, Drop_ptr T_string ''ext_registry'')]"

definition registry_handle_code :: class_code where
  "registry_handle_code = \<lparr>cc_struct = registry_handle_struct, cc_linked = True, cc_new = registry_handle_new_code,
     cc_destroy = registry_handle_destroy_code, cc_copy = registry_handle_copy_code, cc_compare = registry_handle_compare_code,
     cc_get_child = registry_handle_get_code, cc_new_child = registry_handle_make_code, cc_destroy_child = registry_handle_drop_code\<rparr>"

lemmas registry_handle_code_defs =
  registry_handle_struct_def registry_handle_f_registry_def
  registry_handle_f_ext_registry_def registry_handle_new_code_def
  registry_handle_destroy_code_def registry_handle_copy_code_def
  registry_handle_compare_code_def registry_handle_get_code_def
  registry_handle_make_code_def registry_handle_drop_code_def registry_handle_code_def

lemma registry_handle_regular: "regular registry_handle_code"
  by (simp add: regular_def registry_handle_code_defs)

lemma registry_handle_fits: "fits_schema registry_handle_children_list [] registry_handle_code"
  by (simp add: fits_schema_def has_field_def list_field_def registry_handle_children_list_def registry_handle_code_defs)

subsection \<open>time impact (class 16)\<close>

definition time_impact_struct :: "struct" where
  "time_impact_struct =
     [(''ext_metric'', F_ptr T_string), (''duration'', F_int), (''metric'', F_int),
     (''severity'', F_optional), (''ext_duration'', F_ptr T_string)]"

definition time_impact_f_ext_metric :: accessor where
  "time_impact_f_ext_metric = \<lparr>getter = Getter_ptr ''ext_metric'',
     setter = Setter_ptr T_string ''ext_metric'', maker = Maker_ptr T_string ''ext_metric''\<rparr>"

definition time_impact_f_duration :: accessor where
  "time_impact_f_duration = \<lparr>getter = Getter_int ''duration'',
     setter = Setter_int ''duration'', maker = Maker_int ''duration''\<rparr>"

definition time_impact_f_metric :: accessor where
  "time_impact_f_metric = \<lparr>getter = Getter_int ''metric'',
     setter = Setter_int ''metric'', maker = Maker_int ''metric''\<rparr>"

definition time_impact_f_severity :: accessor where
  "time_impact_f_severity = \<lparr>getter = Getter_optional ''severity'',
     setter = Setter_optional ''severity'', maker = Maker_optional ''severity''\<rparr>"

definition time_impact_f_ext_duration :: accessor where
  "time_impact_f_ext_duration = \<lparr>getter = Getter_ptr ''ext_duration'',
     setter = Setter_ptr T_string ''ext_duration'', maker = Maker_ptr T_string ''ext_duration''\<rparr>"

definition time_impact_new_code :: "new_step list" where
  "time_impact_new_code =
     []"

definition time_impact_destroy_code :: "destroy_step list" where
  "time_impact_destroy_code =
     [Destroy_ptr T_string ''ext_metric'', Destroy_ptr T_string ''ext_duration'']"

definition time_impact_copy_code :: "copy_step list" where
  "time_impact_copy_code =
     [Copy_ptr T_string ''ext_metric'', Copy_int ''duration'', Copy_int ''metric'',
     Copy_optional ''severity'', Copy_ptr T_string ''ext_duration'']"

definition time_impact_compare_code :: "compare_step list" where
  "time_impact_compare_code =
     [Compare_ptr T_string ''ext_metric'', Compare_int ''duration'', Compare_int ''metric'',
     Compare_optional ''severity'', Compare_ptr T_string ''ext_duration'']"

definition time_impact_get_code :: "(int \<times> get_case) list" where
  "time_impact_get_code =
     [(0, Get_string ''ext_metric''), (1, Get_enum ''duration'' 13), (2, Get_enum ''metric'' 14),
     (3, Get_optional_enum ''severity'' 15), (4, Get_string ''ext_duration'')]"

definition time_impact_make_code :: "(int \<times> new_child_case) list" where
  "time_impact_make_code =
     [(0, Make_field time_impact_f_ext_metric), (1, Make_field time_impact_f_duration),
     (2, Make_field time_impact_f_metric), (3, Make_field time_impact_f_severity),
     (4, Make_field time_impact_f_ext_duration)]"

definition time_impact_drop_code :: "(int \<times> destroy_child_case) list" where
  "time_impact_drop_code =
     [(0, Drop_ptr T_string ''ext_metric''), (1, Drop_int ''duration''),
     (2, Drop_int ''metric''), (3, Drop_optional ''severity''),
     (4, Drop_ptr T_string ''ext_duration'')]"

definition time_impact_code :: class_code where
  "time_impact_code = \<lparr>cc_struct = time_impact_struct, cc_linked = True, cc_new = time_impact_new_code,
     cc_destroy = time_impact_destroy_code, cc_copy = time_impact_copy_code, cc_compare = time_impact_compare_code,
     cc_get_child = time_impact_get_code, cc_new_child = time_impact_make_code, cc_destroy_child = time_impact_drop_code\<rparr>"

lemmas time_impact_code_defs =
  time_impact_struct_def time_impact_f_ext_metric_def time_impact_f_duration_def
  time_impact_f_metric_def time_impact_f_severity_def time_impact_f_ext_duration_def
  time_impact_new_code_def time_impact_destroy_code_def time_impact_copy_code_def
  time_impact_compare_code_def time_impact_get_code_def time_impact_make_code_def
  time_impact_drop_code_def time_impact_code_def

lemma time_impact_regular: "regular time_impact_code"
  by (simp add: regular_def time_impact_code_defs)

lemma time_impact_fits: "fits_schema time_impact_children_list [] time_impact_code"
  by (simp add: fits_schema_def has_field_def list_field_def time_impact_children_list_def time_impact_code_defs)

subsection \<open>record pattern (class 19)\<close>

definition record_pattern_struct :: "struct" where
  "record_pattern_struct =
     [(''instance'', F_optional), (''ext_type'', F_ptr T_string), (''offset'', F_optional),
     (''offsetunit'', F_optional), (''ext_offsetunit'', F_ptr T_string), (''type'', F_int)]"

definition record_pattern_f_instance :: accessor where
  "record_pattern_f_instance = \<lparr>getter = Getter_optional ''instance'',
     setter = Setter_optional ''instance'', maker = Maker_optional ''instance''\<rparr>"

definition record_pattern_f_ext_type :: accessor where
  "record_pattern_f_ext_type = \<lparr>getter = Getter_ptr ''ext_type'',
     setter = Setter_ptr T_string ''ext_type'', maker = Maker_ptr T_string ''ext_type''\<rparr>"

definition record_pattern_f_offset :: accessor where
  "record_pattern_f_offset = \<lparr>getter = Getter_optional ''offset'',
     setter = Setter_optional ''offset'', maker = Maker_optional ''offset''\<rparr>"

definition record_pattern_f_offsetunit :: accessor where
  "record_pattern_f_offsetunit = \<lparr>getter = Getter_optional ''offsetunit'',
     setter = Setter_optional ''offsetunit'', maker = Maker_optional ''offsetunit''\<rparr>"

definition record_pattern_f_ext_offsetunit :: accessor where
  "record_pattern_f_ext_offsetunit = \<lparr>getter = Getter_ptr ''ext_offsetunit'',
     setter = Setter_ptr T_string ''ext_offsetunit'', maker = Maker_ptr T_string ''ext_offsetunit''\<rparr>"

definition record_pattern_f_type :: accessor where
  "record_pattern_f_type = \<lparr>getter = Getter_int ''type'',
     setter = Setter_int ''type'', maker = Maker_int ''type''\<rparr>"

definition record_pattern_new_code :: "new_step list" where
  "record_pattern_new_code =
     []"

definition record_pattern_destroy_code :: "destroy_step list" where
  "record_pattern_destroy_code =
     [Destroy_ptr T_string ''ext_type'', Destroy_ptr T_string ''ext_offsetunit'']"

definition record_pattern_copy_code :: "copy_step list" where
  "record_pattern_copy_code =
     [Copy_optional ''instance'', Copy_ptr T_string ''ext_type'', Copy_optional ''offset'',
     Copy_optional ''offsetunit'', Copy_ptr T_string ''ext_offsetunit'', Copy_int ''type'']"

definition record_pattern_compare_code :: "compare_step list" where
  "record_pattern_compare_code =
     [Compare_optional ''instance'', Compare_ptr T_string ''ext_type'',
     Compare_optional ''offset'', Compare_optional ''offsetunit'',
     Compare_ptr T_string ''ext_offsetunit'', Compare_int ''type'']"

definition record_pattern_get_code :: "(int \<times> get_case) list" where
  "record_pattern_get_code =
     [(0, Get_optional_uint32 ''instance''), (1, Get_string ''ext_type''),
     (2, Get_optional_uint32 ''offset''), (3, Get_optional_enum ''offsetunit'' 17),
     (4, Get_string ''ext_offsetunit''), (5, Get_enum ''type'' 18)]"

definition record_pattern_make_code :: "(int \<times> new_child_case) list" where
  "record_pattern_make_code =
     [(0, Make_field record_pattern_f_instance), (1, Make_field record_pattern_f_ext_type),
     (2, Make_field record_pattern_f_offset), (3, Make_field record_pattern_f_offsetunit),
     (4, Make_field record_pattern_f_ext_offsetunit), (5, Make_field record_pattern_f_type)]"

definition record_pattern_drop_code :: "(int \<times> destroy_child_case) list" where
  "record_pattern_drop_code =
     [(0, Drop_optional ''instance''), (1, Drop_ptr T_string ''ext_type''),
     (2, Drop_optional ''offset''), (3, Drop_optional ''offsetunit''),
     (4, Drop_ptr T_string ''ext_offsetunit''), (5, Drop_int ''type'')]"

definition record_pattern_code :: class_code where
  "record_pattern_code = \<lparr>cc_struct = record_pattern_struct, cc_linked = True, cc_new = record_pattern_new_code,
     cc_destroy = record_pattern_destroy_code, cc_copy = record_pattern_copy_code, cc_compare = record_pattern_compare_code,
     cc_get_child = record_pattern_get_code, cc_new_child = record_pattern_make_code, cc_destroy_child = record_pattern_drop_code\<rparr>"

lemmas record_pattern_code_defs =
  record_pattern_struct_def record_pattern_f_instance_def record_pattern_f_ext_type_def
  record_pattern_f_offset_def record_pattern_f_offsetunit_def
  record_pattern_f_ext_offsetunit_def record_pattern_f_type_def record_pattern_new_code_def
  record_pattern_destroy_code_def record_pattern_copy_code_def
  record_pattern_compare_code_def record_pattern_get_code_def record_pattern_make_code_def
  record_pattern_drop_code_def record_pattern_code_def

lemma record_pattern_regular: "regular record_pattern_code"
  by (simp add: regular_def record_pattern_code_defs)

lemma record_pattern_fits: "fits_schema record_pattern_children_list [] record_pattern_code"
  by (simp add: fits_schema_def has_field_def list_field_def record_pattern_children_list_def record_pattern_code_defs)

subsection \<open>reference (class 20)\<close>

definition reference_struct :: "struct" where
  "reference_struct =
     [(''observable_id'', F_ptr T_string), (''url'', F_ptr T_string),
     (''description'', F_ptr T_string), (''reference_name'', F_ptr T_string)]"

definition reference_f_observable_id :: accessor where
  "reference_f_observable_id = \<lparr>getter = Getter_ptr ''observable_id'',
     setter = Setter_ptr T_string ''observable_id'', maker = Maker_ptr T_string ''observable_id''\<rparr>"

definition reference_f_url :: accessor where
  "reference_f_url = \<lparr>getter = Getter_ptr ''url'',
     setter = Setter_ptr T_string ''url'', maker = Maker_ptr T_string ''url''\<rparr>"

definition reference_f_description :: accessor where
  "reference_f_description = \<lparr>getter = Getter_ptr ''description'',
     setter = Setter_ptr T_string ''description'', maker = Maker_ptr T_string ''description''\<rparr>"

definition reference_f_reference_name :: accessor where
  "reference_f_reference_name = \<lparr>getter = Getter_ptr ''reference_name'',
     setter = Setter_ptr T_string ''reference_name'', maker = Maker_ptr T_string ''reference_name''\<rparr>"

definition reference_new_code :: "new_step list" where
  "reference_new_code =
     []"

definition reference_destroy_code :: "destroy_step list" where
  "reference_destroy_code =
     [Destroy_ptr T_string ''observable_id'', Destroy_ptr T_string ''url'',
     Destroy_ptr T_string ''description'', Destroy_ptr T_string ''reference_name'']"

definition reference_copy_code :: "copy_step list" where
  "reference_copy_code =
     [Copy_ptr T_string ''observable_id'', Copy_ptr T_string ''url'',
     Copy_ptr T_string ''description'', Copy_ptr T_string ''reference_name'']"

definition reference_compare_code :: "compare_step list" where
  "reference_compare_code =
     [Compare_ptr T_string ''observable_id'', Compare_ptr T_string ''url'',
     Compare_ptr T_string ''description'', Compare_ptr T_string ''reference_name'']"

definition reference_get_code :: "(int \<times> get_case) list" where
  "reference_get_code =
     [(0, Get_string ''observable_id''), (1, Get_string ''url''),
     (2, Get_string ''description''), (3, Get_string ''reference_name'')]"

definition reference_make_code :: "(int \<times> new_child_case) list" where
  "reference_make_code =
     [(0, Make_field reference_f_observable_id), (1, Make_field reference_f_url),
     (2, Make_field reference_f_description), (3, Make_field reference_f_reference_name)]"

definition reference_drop_code :: "(int \<times> destroy_child_case) list" where
  "reference_drop_code =
     [(0, Drop_ptr T_string ''observable_id''), (1, Drop_ptr T_string ''url''),
     (2, Drop_ptr T_string ''description''), (3, Drop_ptr T_string ''reference_name'')]"

definition reference_code :: class_code where
  "reference_code = \<lparr>cc_struct = reference_struct, cc_linked = True, cc_new = reference_new_code,
     cc_destroy = reference_destroy_code, cc_copy = reference_copy_code, cc_compare = reference_compare_code,
     cc_get_child = reference_get_code, cc_new_child = reference_make_code, cc_destroy_child = reference_drop_code\<rparr>"

lemmas reference_code_defs =
  reference_struct_def reference_f_observable_id_def reference_f_url_def
  reference_f_description_def reference_f_reference_name_def reference_new_code_def
  reference_destroy_code_def reference_copy_code_def reference_compare_code_def
  reference_get_code_def reference_make_code_def reference_drop_code_def reference_code_def

lemma reference_regular: "regular reference_code"
  by (simp add: regular_def reference_code_defs)

lemma reference_fits: "fits_schema reference_children_list [] reference_code"
  by (simp add: fits_schema_def has_field_def list_field_def reference_children_list_def reference_code_defs)

subsection \<open>postal address (class 22)\<close>

definition postal_address_struct :: "struct" where
  "postal_address_struct =
     [(''type'', F_optional), (''ext_type'', F_ptr T_string),
     (''p_address'', F_required T_string), (''description'', F_ptr T_string)]"

definition postal_address_f_type :: accessor where
  "postal_address_f_type = \<lparr>getter = Getter_optional ''type'',
     setter = Setter_optional ''type'', maker = Maker_optional ''type''\<rparr>"

definition postal_address_f_ext_type :: accessor where
  "postal_address_f_ext_type = \<lparr>getter = Getter_ptr ''ext_type'',
     setter = Setter_ptr T_string ''ext_type'', maker = Maker_ptr T_string ''ext_type''\<rparr>"

definition postal_address_f_p_address :: accessor where
  "postal_address_f_p_address = \<lparr>getter = Getter_ptr ''p_address'',
     setter = Setter_ptr T_string ''p_address'', maker = Maker_ptr T_string ''p_address''\<rparr>"

definition postal_address_f_description :: accessor where
  "postal_address_f_description = \<lparr>getter = Getter_ptr ''description'',
     setter = Setter_ptr T_string ''description'', maker = Maker_ptr T_string ''description''\<rparr>"

definition postal_address_new_code :: "new_step list" where
  "postal_address_new_code =
     [New_required T_string ''p_address'']"

definition postal_address_destroy_code :: "destroy_step list" where
  "postal_address_destroy_code =
     [Destroy_ptr T_string ''ext_type'', Destroy_ptr T_string ''p_address'',
     Destroy_ptr T_string ''description'']"

definition postal_address_copy_code :: "copy_step list" where
  "postal_address_copy_code =
     [Copy_optional ''type'', Copy_ptr T_string ''ext_type'',
     Copy_required T_string ''p_address'', Copy_ptr T_string ''description'']"

definition postal_address_compare_code :: "compare_step list" where
  "postal_address_compare_code =
     [Compare_optional ''type'', Compare_ptr T_string ''ext_type'',
     Compare_ptr T_string ''p_address'', Compare_ptr T_string ''description'']"

definition postal_address_get_code :: "(int \<times> get_case) list" where
  "postal_address_get_code =
     [(0, Get_optional_enum ''type'' 21), (1, Get_string ''ext_type''),
     (2, Get_string ''p_address''), (3, Get_string ''description'')]"

definition postal_address_make_code :: "(int \<times> new_child_case) list" where
  "postal_address_make_code =
     [(0, Make_field postal_address_f_type), (1, Make_field postal_address_f_ext_type),
     (2, Make_field postal_address_f_p_address), (3, Make_field postal_address_f_description)]"

definition postal_address_drop_code :: "(int \<times> destroy_child_case) list" where
  "postal_address_drop_code =
     [(0, Drop_optional ''type''), (1, Drop_ptr T_string ''ext_type''),
     (2, Drop_ptr T_string ''p_address''), (3, Drop_ptr T_string ''description'')]"

definition postal_address_code :: class_code where
  "postal_address_code = \<lparr>cc_struct = postal_address_struct, cc_linked = True, cc_new = postal_address_new_code,
     cc_destroy = postal_address_destroy_code, cc_copy = postal_address_copy_code, cc_compare = postal_address_compare_code,
     cc_get_child = postal_address_get_code, cc_new_child = postal_address_make_code, cc_destroy_child = postal_address_drop_code\<rparr>"

lemmas postal_address_code_defs =
  postal_address_struct_def postal_address_f_type_def postal_address_f_ext_type_def
  postal_address_f_p_address_def postal_address_f_description_def
  postal_address_new_code_def postal_address_destroy_code_def postal_address_copy_code_def
  postal_address_compare_code_def postal_address_get_code_def postal_address_make_code_def
  postal_address_drop_code_def postal_address_code_def

lemma postal_address_regular: "regular postal_address_code"
  by (simp add: regular_def postal_address_code_defs)

lemma postal_address_fits: "fits_schema postal_address_children_list [] postal_address_code"
  by (simp add: fits_schema_def has_field_def list_field_def postal_address_children_list_def postal_address_code_defs)

subsection \<open>node role (class 24)\<close>

definition node_role_struct :: "struct" where
  "node_role_struct =
     [(''category'', F_int), (''ext_category'', F_ptr T_string), (''description'', F_ptr T_string)]"

definition node_role_f_category :: accessor where
  "node_role_f_category = \<lparr>getter = Getter_int ''category'',
     setter = Setter_int ''category'', maker = Maker_int ''category''\<rparr>"

definition node_role_f_ext_category :: accessor where
  "node_role_f_ext_category = \<lparr>getter = Getter_ptr ''ext_category'',
     setter = Setter_ptr T_string ''ext_category'', maker = Maker_ptr T_string ''ext_category''\<rparr>"

definition node_role_f_description :: accessor where
  "node_role_f_description = \<lparr>getter = Getter_ptr ''description'',
     setter = Setter_ptr T_string ''description'', maker = Maker_ptr T_string ''description''\<rparr>"

definition node_role_new_code :: "new_step list" where
  "node_role_new_code =
     []"

definition node_role_destroy_code :: "destroy_step list" where
  "node_role_destroy_code =
     [Destroy_ptr T_string ''ext_category'', Destroy_ptr T_string ''description'']"

definition node_role_copy_code :: "copy_step list" where
  "node_role_copy_code =
     [Copy_int ''category'', Copy_ptr T_string ''ext_category'', Copy_ptr T_string ''description'']"

definition node_role_compare_code :: "compare_step list" where
  "node_role_compare_code =
     [Compare_int ''category'', Compare_ptr T_string ''ext_category'',
     Compare_ptr T_string ''description'']"

definition node_role_get_code :: "(int \<times> get_case) list" where
  "node_role_get_code =
     [(0, Get_enum ''category'' 23), (1, Get_string ''ext_category''),
     (2, Get_string ''description'')]"

definition node_role_make_code :: "(int \<times> new_child_case) list" where
  "node_role_make_code =
     [(0, Make_field node_role_f_category), (1, Make_field node_role_f_ext_category),
     (2, Make_field node_role_f_description)]"

definition node_role_drop_code :: "(int \<times> destroy_child_case) list" where
  "node_role_drop_code =
     [(0, Drop_int ''category''), (1, Drop_ptr T_string ''ext_category''),
     (2, Drop_ptr T_string ''description'')]"

definition node_role_code :: class_code where
  "node_role_code = \<lparr>cc_struct = node_role_struct, cc_linked = True, cc_new = node_role_new_code,
     cc_destroy = node_role_destroy_code, cc_copy = node_role_copy_code, cc_compare = node_role_compare_code,
     cc_get_child = node_role_get_code, cc_new_child = node_role_make_code, cc_destroy_child = node_role_drop_code\<rparr>"

lemmas node_role_code_defs =
  node_role_struct_def node_role_f_category_def node_role_f_ext_category_def
  node_role_f_description_def node_role_new_code_def node_role_destroy_code_def
  node_role_copy_code_def node_role_compare_code_def node_role_get_code_def
  node_role_make_code_def node_role_drop_code_def node_role_code_def

lemma node_role_regular: "regular node_role_code"
  by (simp add: regular_def node_role_code_defs)

lemma node_role_fits: "fits_schema node_role_children_list [] node_role_code"
  by (simp add: fits_schema_def has_field_def list_field_def node_role_children_list_def node_role_code_defs)

subsection \<open>incident id (class 26)\<close>

definition incident_id_struct :: "struct" where
  "incident_id_struct =
     [(''instance'', F_ptr T_string), (''ext_restriction'', F_ptr T_string),
     (''name'', F_required T_string), (''restriction'', F_optional)]"

definition incident_id_f_instance :: accessor where
  "incident_id_f_instance = \<lparr>getter = Getter_ptr ''instance'',
     setter = Setter_ptr T_string ''instance'', maker = Maker_ptr T_string ''instance''\<rparr>"

definition incident_id_f_ext_restriction :: accessor where
  "incident_id_f_ext_restriction = \<lparr>getter = Getter_ptr ''ext_restriction'',
     setter = Setter_ptr T_string ''ext_restriction'', maker = Maker_ptr T_string ''ext_restriction''\<rparr>"

definition incident_id_f_name :: accessor where
  "incident_id_f_name = \<lparr>getter = Getter_ptr ''name'',
     setter = Setter_ptr T_string ''name'', maker = Maker_ptr T_string ''name''\<rparr>"

definition incident_id_f_restriction :: accessor where
  "incident_id_f_restriction = \<lparr>getter = Getter_optional ''restriction'',
     setter = Setter_optional ''restriction'', maker = Maker_optional ''restriction''\<rparr>"

definition incident_id_new_code :: "new_step list" where
  "incident_id_new_code =
     [New_required T_string ''name'']"

definition incident_id_destroy_code :: "destroy_step list" where
  "incident_id_destroy_code =
     [Destroy_ptr T_string ''instance'', Destroy_ptr T_string ''ext_restriction'',
     Destroy_ptr T_string ''name'']"

definition incident_id_copy_code :: "copy_step list" where
  "incident_id_copy_code =
     [Copy_ptr T_string ''instance'', Copy_ptr T_string ''ext_restriction'',
     Copy_required T_string ''name'', Copy_optional ''restriction'']"

definition incident_id_compare_code :: "compare_step list" where
  "incident_id_compare_code =
     [Compare_ptr T_string ''instance'', Compare_ptr T_string ''ext_restriction'',
     Compare_ptr T_string ''name'', Compare_optional ''restriction'']"

definition incident_id_get_code :: "(int \<times> get_case) list" where
  "incident_id_get_code =
     [(0, Get_string ''instance''), (1, Get_string ''ext_restriction''),
     (2, Get_string ''name''), (3, Get_optional_enum ''restriction'' 25)]"

definition incident_id_make_code :: "(int \<times> new_child_case) list" where
  "incident_id_make_code =
     [(0, Make_field incident_id_f_instance), (1, Make_field incident_id_f_ext_restriction),
     (2, Make_field incident_id_f_name), (3, Make_field incident_id_f_restriction)]"

definition incident_id_drop_code :: "(int \<times> destroy_child_case) list" where
  "incident_id_drop_code =
     [(0, Drop_ptr T_string ''instance''), (1, Drop_ptr T_string ''ext_restriction''),
     (2, Drop_ptr T_string ''name''), (3, Drop_optional ''restriction'')]"

definition incident_id_code :: class_code where
  "incident_id_code = \<lparr>cc_struct = incident_id_struct, cc_linked = True, cc_new = incident_id_new_code,
     cc_destroy = incident_id_destroy_code, cc_copy = incident_id_copy_code, cc_compare = incident_id_compare_code,
     cc_get_child = incident_id_get_code, cc_new_child = incident_id_make_code, cc_destroy_child = incident_id_drop_code\<rparr>"

lemmas incident_id_code_defs =
  incident_id_struct_def incident_id_f_instance_def incident_id_f_ext_restriction_def
  incident_id_f_name_def incident_id_f_restriction_def incident_id_new_code_def
  incident_id_destroy_code_def incident_id_copy_code_def incident_id_compare_code_def
  incident_id_get_code_def incident_id_make_code_def incident_id_drop_code_def
  incident_id_code_def

lemma incident_id_regular: "regular incident_id_code"
  by (simp add: regular_def incident_id_code_defs)

lemma incident_id_fits: "fits_schema incident_id_children_list [] incident_id_code"
  by (simp add: fits_schema_def has_field_def list_field_def incident_id_children_list_def incident_id_code_defs)

subsection \<open>alternative indicator id (class 28)\<close>

definition alternative_indicator_id_struct :: "struct" where
  "alternative_indicator_id_struct =
     [(''restriction'', F_optional), (''ext_restriction'', F_ptr T_string),
     (''indicator_reference'', F_ptr T_string)]"

definition alternative_indicator_id_f_restriction :: accessor where
  "alternative_indicator_id_f_restriction = \<lparr>getter = Getter_optional ''restriction'',
     setter = Setter_optional ''restriction'', maker = Maker_optional ''restriction''\<rparr>"

definition alternative_indicator_id_f_ext_restriction :: accessor where
  "alternative_indicator_id_f_ext_restriction = \<lparr>getter = Getter_ptr ''ext_restriction'',
     setter = Setter_ptr T_string ''ext_restriction'', maker = Maker_ptr T_string ''ext_restriction''\<rparr>"

definition alternative_indicator_id_f_indicator_reference :: accessor where
  "alternative_indicator_id_f_indicator_reference = \<lparr>getter = Getter_ptr ''indicator_reference'',
     setter = Setter_ptr T_string ''indicator_reference'', maker = Maker_ptr T_string ''indicator_reference''\<rparr>"

definition alternative_indicator_id_new_code :: "new_step list" where
  "alternative_indicator_id_new_code =
     []"

definition alternative_indicator_id_destroy_code :: "destroy_step list" where
  "alternative_indicator_id_destroy_code =
     [Destroy_ptr T_string ''ext_restriction'', Destroy_ptr T_string ''indicator_reference'']"

definition alternative_indicator_id_copy_code :: "copy_step list" where
  "alternative_indicator_id_copy_code =
     [Copy_optional ''restriction'', Copy_ptr T_string ''ext_restriction'',
     Copy_ptr T_string ''indicator_reference'']"

definition alternative_indicator_id_compare_code :: "compare_step list" where
  "alternative_indicator_id_compare_code =
     [Compare_optional ''restriction'', Compare_ptr T_string ''ext_restriction'',
     Compare_ptr T_string ''indicator_reference'']"

definition alternative_indicator_id_get_code :: "(int \<times> get_case) list" where
  "alternative_indicator_id_get_code =
     [(0, Get_optional_enum ''restriction'' 27), (1, Get_string ''ext_restriction''),
     (2, Get_string ''indicator_reference'')]"

definition alternative_indicator_id_make_code :: "(int \<times> new_child_case) list" where
  "alternative_indicator_id_make_code =
     [(0, Make_field alternative_indicator_id_f_restriction),
     (1, Make_field alternative_indicator_id_f_ext_restriction),
     (2, Make_field alternative_indicator_id_f_indicator_reference)]"

definition alternative_indicator_id_drop_code :: "(int \<times> destroy_child_case) list" where
  "alternative_indicator_id_drop_code =
     [(0, Drop_optional ''restriction''), (1, Drop_ptr T_string ''ext_restriction''),
     (2, Drop_ptr T_string ''indicator_reference'')]"

definition alternative_indicator_id_code :: class_code where
  "alternative_indicator_id_code = \<lparr>cc_struct = alternative_indicator_id_struct, cc_linked = True, cc_new = alternative_indicator_id_new_code,
     cc_destroy = alternative_indicator_id_destroy_code, cc_copy = alternative_indicator_id_copy_code, cc_compare = alternative_indicator_id_compare_code,
     cc_get_child = alternative_indicator_id_get_code, cc_new_child = alternative_indicator_id_make_code, cc_destroy_child = alternative_indicator_id_drop_code\<rparr>"

lemmas alternative_indicator_id_code_defs =
  alternative_indicator_id_struct_def alternative_indicator_id_f_restriction_def
  alternative_indicator_id_f_ext_restriction_def
  alternative_indicator_id_f_indicator_reference_def alternative_indicator_id_new_code_def
  alternative_indicator_id_destroy_code_def alternative_indicator_id_copy_code_def
  alternative_indicator_id_compare_code_def alternative_indicator_id_get_code_def
  alternative_indicator_id_make_code_def alternative_indicator_id_drop_code_def
  alternative_indicator_id_code_def

lemma alternative_indicator_id_regular: "regular alternative_indicator_id_code"
  by (simp add: regular_def alternative_indicator_id_code_defs)

lemma alternative_indicator_id_fits: "fits_schema alternative_indicator_id_children_list [] alternative_indicator_id_code"
  by (simp add: fits_schema_def has_field_def list_field_def alternative_indicator_id_children_list_def alternative_indicator_id_code_defs)

subsection \<open>confidence (class 30)\<close>

definition confidence_struct :: "struct" where
  "confidence_struct =
     [(''rating'', F_int), (''ext_rating'', F_ptr T_string)]"

definition confidence_f_rating :: accessor where
  "confidence_f_rating = \<lparr>getter = Getter_int ''rating'',
     setter = Setter_int ''rating'', maker = Maker_int ''rating''\<rparr>"

definition confidence_f_ext_rating :: accessor where
  "confidence_f_ext_rating = \<lparr>getter = Getter_ptr ''ext_rating'',
     setter = Setter_ptr T_string ''ext_rating'', maker = Maker_ptr T_string ''ext_rating''\<rparr>"

definition confidence_new_code :: "new_step list" where
  "confidence_new_code =
     []"

definition confidence_destroy_code :: "destroy_step list" where
  "confidence_destroy_code =
     [Destroy_ptr T_string ''ext_rating'']"

definition confidence_copy_code :: "copy_step list" where
  "confidence_copy_code =
     [Copy_int ''rating'', Copy_ptr T_string ''ext_rating'']"

definition confidence_compare_code :: "compare_step list" where
  "confidence_compare_code =
     [Compare_int ''rating'', Compare_ptr T_string ''ext_rating'']"

definition confidence_get_code :: "(int \<times> get_case) list" where
  "confidence_get_code =
     [(0, Get_enum ''rating'' 29), (1, Get_string ''ext_rating'')]"

definition confidence_make_code :: "(int \<times> new_child_case) list" where
  "confidence_make_code =
     [(0, Make_field confidence_f_rating), (1, Make_field confidence_f_ext_rating)]"

definition confidence_drop_code :: "(int \<times> destroy_child_case) list" where
  "confidence_drop_code =
     [(0, Drop_int ''rating''), (1, Drop_ptr T_string ''ext_rating'')]"

definition confidence_code :: class_code where
  "confidence_code = \<lparr>cc_struct = confidence_struct, cc_linked = False, cc_new = confidence_new_code,
     cc_destroy = confidence_destroy_code, cc_copy = confidence_copy_code, cc_compare = confidence_compare_code,
     cc_get_child = confidence_get_code, cc_new_child = confidence_make_code, cc_destroy_child = confidence_drop_code\<rparr>"

lemmas confidence_code_defs =
  confidence_struct_def confidence_f_rating_def confidence_f_ext_rating_def
  confidence_new_code_def confidence_destroy_code_def confidence_copy_code_def
  confidence_compare_code_def confidence_get_code_def confidence_make_code_def
  confidence_drop_code_def confidence_code_def

lemma confidence_regular: "regular confidence_code"
  by (simp add: regular_def confidence_code_defs)

lemma confidence_fits: "fits_schema confidence_children_list [] confidence_code"
  by (simp add: fits_schema_def has_field_def list_field_def confidence_children_list_def confidence_code_defs)

subsection \<open>system impact (class 34)\<close>

definition system_impact_struct :: "struct" where
  "system_impact_struct =
     [(''completion'', F_optional), (''type'', F_int), (''severity'', F_optional),
     (''ext_type'', F_ptr T_string), (''description'', F_ptr T_string)]"

definition system_impact_f_completion :: accessor where
  "system_impact_f_completion = \<lparr>getter = Getter_optional ''completion'',
     setter = Setter_optional ''completion'', maker = Maker_optional ''completion''\<rparr>"

definition system_impact_f_type :: accessor where
  "system_impact_f_type = \<lparr>getter = Getter_int ''type'',
     setter = Setter_int ''type'', maker = Maker_int ''type''\<rparr>"

definition system_impact_f_severity :: accessor where
  "system_impact_f_severity = \<lparr>getter = Getter_optional ''severity'',
     setter = Setter_optional ''severity'', maker = Maker_optional ''severity''\<rparr>"

definition system_impact_f_ext_type :: accessor where
  "system_impact_f_ext_type = \<lparr>getter = Getter_ptr ''ext_type'',
     setter = Setter_ptr T_string ''ext_type'', maker = Maker_ptr T_string ''ext_type''\<rparr>"

definition system_impact_f_description :: accessor where
  "system_impact_f_description = \<lparr>getter = Getter_ptr ''description'',
     setter = Setter_ptr T_string ''description'', maker = Maker_ptr T_string ''description''\<rparr>"

definition system_impact_new_code :: "new_step list" where
  "system_impact_new_code =
     []"

definition system_impact_destroy_code :: "destroy_step list" where
  "system_impact_destroy_code =
     [Destroy_ptr T_string ''ext_type'', Destroy_ptr T_string ''description'']"

definition system_impact_copy_code :: "copy_step list" where
  "system_impact_copy_code =
     [Copy_optional ''completion'', Copy_int ''type'', Copy_optional ''severity'',
     Copy_ptr T_string ''ext_type'', Copy_ptr T_string ''description'']"

definition system_impact_compare_code :: "compare_step list" where
  "system_impact_compare_code =
     [Compare_optional ''completion'', Compare_int ''type'', Compare_optional ''severity'',
     Compare_ptr T_string ''ext_type'', Compare_ptr T_string ''description'']"

definition system_impact_get_code :: "(int \<times> get_case) list" where
  "system_impact_get_code =
     [(0, Get_optional_enum ''completion'' 31), (1, Get_enum ''type'' 32),
     (2, Get_optional_enum ''severity'' 33), (3, Get_string ''ext_type''),
     (4, Get_string ''description'')]"

definition system_impact_make_code :: "(int \<times> new_child_case) list" where
  "system_impact_make_code =
     [(0, Make_field system_impact_f_completion), (1, Make_field system_impact_f_type),
     (2, Make_field system_impact_f_severity), (3, Make_field system_impact_f_ext_type),
     (4, Make_field system_impact_f_description)]"

definition system_impact_drop_code :: "(int \<times> destroy_child_case) list" where
  "system_impact_drop_code =
     [(0, Drop_optional ''completion''), (1, Drop_int ''type''), (2, Drop_optional ''severity''),
     (3, Drop_ptr T_string ''ext_type''), (4, Drop_ptr T_string ''description'')]"

definition system_impact_code :: class_code where
  "system_impact_code = \<lparr>cc_struct = system_impact_struct, cc_linked = True, cc_new = system_impact_new_code,
     cc_destroy = system_impact_destroy_code, cc_copy = system_impact_copy_code, cc_compare = system_impact_compare_code,
     cc_get_child = system_impact_get_code, cc_new_child = system_impact_make_code, cc_destroy_child = system_impact_drop_code\<rparr>"

lemmas system_impact_code_defs =
  system_impact_struct_def system_impact_f_completion_def system_impact_f_type_def
  system_impact_f_severity_def system_impact_f_ext_type_def system_impact_f_description_def
  system_impact_new_code_def system_impact_destroy_code_def system_impact_copy_code_def
  system_impact_compare_code_def system_impact_get_code_def system_impact_make_code_def
  system_impact_drop_code_def system_impact_code_def

lemma system_impact_regular: "regular system_impact_code"
  by (simp add: regular_def system_impact_code_defs)

lemma system_impact_fits: "fits_schema system_impact_children_list [] system_impact_code"
  by (simp add: fits_schema_def has_field_def list_field_def system_impact_children_list_def system_impact_code_defs)

subsection \<open>software reference (class 36)\<close>

definition software_reference_struct :: "struct" where
  "software_reference_struct =
     [(''dtype'', F_optional), (''ext_spec_name'', F_ptr T_string),
     (''ext_dtype'', F_ptr T_string)]"

definition software_reference_f_dtype :: accessor where
  "software_reference_f_dtype = \<lparr>getter = Getter_optional ''dtype'',
     setter = Setter_optional ''dtype'', maker = Maker_optional ''dtype''\<rparr>"

definition software_reference_f_ext_spec_name :: accessor where
  "software_reference_f_ext_spec_name = \<lparr>getter = Getter_ptr ''ext_spec_name'',
     setter = Setter_ptr T_string ''ext_spec_name'', maker = Maker_ptr T_string ''ext_spec_name''\<rparr>"

definition software_reference_f_ext_dtype :: accessor where
  "software_reference_f_ext_dtype = \<lparr>getter = Getter_ptr ''ext_dtype'',
     setter = Setter_ptr T_string ''ext_dtype'', maker = Maker_ptr T_string ''ext_dtype''\<rparr>"

definition software_reference_new_code :: "new_step list" where
  "software_reference_new_code =
     []"

definition software_reference_destroy_code :: "destroy_step list" where
  "software_reference_destroy_code =
     [Destroy_ptr T_string ''ext_spec_name'', Destroy_ptr T_string ''ext_dtype'']"

definition software_reference_copy_code :: "copy_step list" where
  "software_reference_copy_code =
     [Copy_optional ''dtype'', Copy_ptr T_string ''ext_spec_name'',
     Copy_ptr T_string ''ext_dtype'']"

definition software_reference_compare_code :: "compare_step list" where
  "software_reference_compare_code =
     [Compare_optional ''dtype'', Compare_ptr T_string ''ext_spec_name'',
     Compare_ptr T_string ''ext_dtype'']"

definition software_reference_get_code :: "(int \<times> get_case) list" where
  "software_reference_get_code =
     [(0, Get_optional_enum ''dtype'' 35), (1, Get_string ''ext_spec_name''),
     (2, Get_string ''ext_dtype'')]"

definition software_reference_make_code :: "(int \<times> new_child_case) list" where
  "software_reference_make_code =
     [(0, Make_field software_reference_f_dtype),
     (1, Make_field software_reference_f_ext_spec_name),
     (2, Make_field software_reference_f_ext_dtype)]"

definition software_reference_drop_code :: "(int \<times> destroy_child_case) list" where
  "software_reference_drop_code =
     [(0, Drop_optional ''dtype''), (1, Drop_ptr T_string ''ext_spec_name''),
     (2, Drop_ptr T_string ''ext_dtype'')]"

definition software_reference_code :: class_code where
  "software_reference_code = \<lparr>cc_struct = software_reference_struct, cc_linked = False, cc_new = software_reference_new_code,
     cc_destroy = software_reference_destroy_code, cc_copy = software_reference_copy_code, cc_compare = software_reference_compare_code,
     cc_get_child = software_reference_get_code, cc_new_child = software_reference_make_code, cc_destroy_child = software_reference_drop_code\<rparr>"

lemmas software_reference_code_defs =
  software_reference_struct_def software_reference_f_dtype_def
  software_reference_f_ext_spec_name_def software_reference_f_ext_dtype_def
  software_reference_new_code_def software_reference_destroy_code_def
  software_reference_copy_code_def software_reference_compare_code_def
  software_reference_get_code_def software_reference_make_code_def
  software_reference_drop_code_def software_reference_code_def

lemma software_reference_regular: "regular software_reference_code"
  by (simp add: regular_def software_reference_code_defs)

lemma software_reference_fits: "fits_schema software_reference_children_list [] software_reference_code"
  by (simp add: fits_schema_def has_field_def list_field_def software_reference_children_list_def software_reference_code_defs)

subsection \<open>business impact (class 39)\<close>

definition business_impact_struct :: "struct" where
  "business_impact_struct =
     [(''ext_severity'', F_ptr T_string), (''type'', F_int), (''severity'', F_optional),
     (''ext_type'', F_ptr T_string), (''description'', F_ptr T_string)]"

definition business_impact_f_ext_severity :: accessor where
  "business_impact_f_ext_severity = \<lparr>getter = Getter_ptr ''ext_severity'',
     setter = Setter_ptr T_string ''ext_severity'', maker = Maker_ptr T_string ''ext_severity''\<rparr>"

definition business_impact_f_type :: accessor where
  "business_impact_f_type = \<lparr>getter = Getter_int ''type'',
     setter = Setter_int ''type'', maker = Maker_int ''type''\<rparr>"

definition business_impact_f_severity :: accessor where
  "business_impact_f_severity = \<lparr>getter = Getter_optional ''severity'',
     setter = Setter_optional ''severity'', maker = Maker_optional ''severity''\<rparr>"

definition business_impact_f_ext_type :: accessor where
  "business_impact_f_ext_type = \<lparr>getter = Getter_ptr ''ext_type'',
     setter = Setter_ptr T_string ''ext_type'', maker = Maker_ptr T_string ''ext_type''\<rparr>"

definition business_impact_f_description :: accessor where
  "business_impact_f_description = \<lparr>getter = Getter_ptr ''description'',
     setter = Setter_ptr T_string ''description'', maker = Maker_ptr T_string ''description''\<rparr>"

definition business_impact_new_code :: "new_step list" where
  "business_impact_new_code =
     []"

definition business_impact_destroy_code :: "destroy_step list" where
  "business_impact_destroy_code =
     [Destroy_ptr T_string ''ext_severity'', Destroy_ptr T_string ''ext_type'',
     Destroy_ptr T_string ''description'']"

definition business_impact_copy_code :: "copy_step list" where
  "business_impact_copy_code =
     [Copy_ptr T_string ''ext_severity'', Copy_int ''type'', Copy_optional ''severity'',
     Copy_ptr T_string ''ext_type'', Copy_ptr T_string ''description'']"

definition business_impact_compare_code :: "compare_step list" where
  "business_impact_compare_code =
     [Compare_ptr T_string ''ext_severity'', Compare_int ''type'', Compare_optional ''severity'',
     Compare_ptr T_string ''ext_type'', Compare_ptr T_string ''description'']"

definition business_impact_get_code :: "(int \<times> get_case) list" where
  "business_impact_get_code =
     [(0, Get_string ''ext_severity''), (1, Get_enum ''type'' 37),
     (2, Get_optional_enum ''severity'' 38), (3, Get_string ''ext_type''),
     (4, Get_string ''description'')]"

definition business_impact_make_code :: "(int \<times> new_child_case) list" where
  "business_impact_make_code =
     [(0, Make_field business_impact_f_ext_severity), (1, Make_field business_impact_f_type),
     (2, Make_field business_impact_f_severity), (3, Make_field business_impact_f_ext_type),
     (4, Make_field business_impact_f_description)]"

definition business_impact_drop_code :: "(int \<times> destroy_child_case) list" where
  "business_impact_drop_code =
     [(0, Drop_ptr T_string ''ext_severity''), (1, Drop_int ''type''),
     (2, Drop_optional ''severity''), (3, Drop_ptr T_string ''ext_type''),
     (4, Drop_ptr T_string ''description'')]"

definition business_impact_code :: class_code where
  "business_impact_code = \<lparr>cc_struct = business_impact_struct, cc_linked = True, cc_new = business_impact_new_code,
     cc_destroy = business_impact_destroy_code, cc_copy = business_impact_copy_code, cc_compare = business_impact_compare_code,
     cc_get_child = business_impact_get_code, cc_new_child = business_impact_make_code, cc_destroy_child = business_impact_drop_code\<rparr>"

lemmas business_impact_code_defs =
  business_impact_struct_def business_impact_f_ext_severity_def business_impact_f_type_def
  business_impact_f_severity_def business_impact_f_ext_type_def
  business_impact_f_description_def business_impact_new_code_def
  business_impact_destroy_code_def business_impact_copy_code_def
  business_impact_compare_code_def business_impact_get_code_def
  business_impact_make_code_def business_impact_drop_code_def business_impact_code_def

lemma business_impact_regular: "regular business_impact_code"
  by (simp add: regular_def business_impact_code_defs)

lemma business_impact_fits: "fits_schema business_impact_children_list [] business_impact_code"
  by (simp add: fits_schema_def has_field_def list_field_def business_impact_children_list_def business_impact_code_defs)

subsection \<open>indicator reference (class 40)\<close>

definition indicator_reference_struct :: "struct" where
  "indicator_reference_struct =
     [(''uid_ref'', F_ptr T_string), (''version'', F_ptr T_string), (''euid_ref'', F_ptr T_string)]"

definition indicator_reference_f_uid_ref :: accessor where
  "indicator_reference_f_uid_ref = \<lparr>getter = Getter_ptr ''uid_ref'',
     setter = Setter_ptr T_string ''uid_ref'', maker = Maker_ptr T_string ''uid_ref''\<rparr>"

definition indicator_reference_f_version :: accessor where
  "indicator_reference_f_version = \<lparr>getter = Getter_ptr ''version'',
     setter = Setter_ptr T_string ''version'', maker = Maker_ptr T_string ''version''\<rparr>"

definition indicator_reference_f_euid_ref :: accessor where
  "indicator_reference_f_euid_ref = \<lparr>getter = Getter_ptr ''euid_ref'',
     setter = Setter_ptr T_string ''euid_ref'', maker = Maker_ptr T_string ''euid_ref''\<rparr>"

definition indicator_reference_new_code :: "new_step list" where
  "indicator_reference_new_code =
     []"

definition indicator_reference_destroy_code :: "destroy_step list" where
  "indicator_reference_destroy_code =
     [Destroy_ptr T_string ''uid_ref'', Destroy_ptr T_string ''version'',
     Destroy_ptr T_string ''euid_ref'']"

definition indicator_reference_copy_code :: "copy_step list" where
  "indicator_reference_copy_code =
     [Copy_ptr T_string ''uid_ref'', Copy_ptr T_string ''version'', Copy_ptr T_string ''euid_ref'']"

definition indicator_reference_compare_code :: "compare_step list" where
  "indicator_reference_compare_code =
     [Compare_ptr T_string ''uid_ref'', Compare_ptr T_string ''version'',
     Compare_ptr T_string ''euid_ref'']"

definition indicator_reference_get_code :: "(int \<times> get_case) list" where
  "indicator_reference_get_code =
     [(0, Get_string ''uid_ref''), (1, Get_string ''version''), (2, Get_string ''euid_ref'')]"

definition indicator_reference_make_code :: "(int \<times> new_child_case) list" where
  "indicator_reference_make_code =
     [(0, Make_field indicator_reference_f_uid_ref),
     (1, Make_field indicator_reference_f_version),
     (2, Make_field indicator_reference_f_euid_ref)]"

definition indicator_reference_drop_code :: "(int \<times> destroy_child_case) list" where
  "indicator_reference_drop_code =
     [(0, Drop_ptr T_string ''uid_ref''), (1, Drop_ptr T_string ''version''),
     (2, Drop_ptr T_string ''euid_ref'')]"

definition indicator_reference_code :: class_code where
  "indicator_reference_code = \<lparr>cc_struct = indicator_reference_struct, cc_linked = True, cc_new = indicator_reference_new_code,
     cc_destroy = indicator_reference_destroy_code, cc_copy = indicator_reference_copy_code, cc_compare = indicator_reference_compare_code,
     cc_get_child = indicator_reference_get_code, cc_new_child = indicator_reference_make_code, cc_destroy_child = indicator_reference_drop_code\<rparr>"

lemmas indicator_reference_code_defs =
  indicator_reference_struct_def indicator_reference_f_uid_ref_def
  indicator_reference_f_version_def indicator_reference_f_euid_ref_def
  indicator_reference_new_code_def indicator_reference_destroy_code_def
  indicator_reference_copy_code_def indicator_reference_compare_code_def
  indicator_reference_get_code_def indicator_reference_make_code_def
  indicator_reference_drop_code_def indicator_reference_code_def

lemma indicator_reference_regular: "regular indicator_reference_code"
  by (simp add: regular_def indicator_reference_code_defs)

lemma indicator_reference_fits: "fits_schema indicator_reference_children_list [] indicator_reference_code"
  by (simp add: fits_schema_def has_field_def list_field_def indicator_reference_children_list_def indicator_reference_code_defs)

subsection \<open>email (class 42)\<close>

definition email_struct :: "struct" where
  "email_struct =
     [(''type'', F_optional), (''ext_type'', F_ptr T_string),
     (''email_to'', F_required T_string), (''description'', F_ptr T_string)]"

definition email_f_type :: accessor where
  "email_f_type = \<lparr>getter = Getter_optional ''type'',
     setter = Setter_optional ''type'', maker = Maker_optional ''type''\<rparr>"

definition email_f_ext_type :: accessor where
  "email_f_ext_type = \<lparr>getter = Getter_ptr ''ext_type'',
     setter = Setter_ptr T_string ''ext_type'', maker = Maker_ptr T_string ''ext_type''\<rparr>"

definition email_f_email_to :: accessor where
  "email_f_email_to = \<lparr>getter = Getter_ptr ''email_to'',
     setter = Setter_ptr T_string ''email_to'', maker = Maker_ptr T_string ''email_to''\<rparr>"

definition email_f_description :: accessor where
  "email_f_description = \<lparr>getter = Getter_ptr ''description'',
     setter = Setter_ptr T_string ''description'', maker = Maker_ptr T_string ''description''\<rparr>"

definition email_new_code :: "new_step list" where
  "email_new_code =
     [New_required T_string ''email_to'']"

definition email_destroy_code :: "destroy_step list" where
  "email_destroy_code =
     [Destroy_ptr T_string ''ext_type'', Destroy_ptr T_string ''email_to'',
     Destroy_ptr T_string ''description'']"

definition email_copy_code :: "copy_step list" where
  "email_copy_code =
     [Copy_optional ''type'', Copy_ptr T_string ''ext_type'',
     Copy_required T_string ''email_to'', Copy_ptr T_string ''description'']"

definition email_compare_code :: "compare_step list" where
  "email_compare_code =
     [Compare_optional ''type'', Compare_ptr T_string ''ext_type'',
     Compare_ptr T_string ''email_to'', Compare_ptr T_string ''description'']"

definition email_get_code :: "(int \<times> get_case) list" where
  "email_get_code =
     [(0, Get_optional_enum ''type'' 41), (1, Get_string ''ext_type''),
     (2, Get_string ''email_to''), (3, Get_string ''description'')]"

definition email_make_code :: "(int \<times> new_child_case) list" where
  "email_make_code =
     [(0, Make_field email_f_type), (1, Make_field email_f_ext_type),
     (2, Make_field email_f_email_to), (3, Make_field email_f_description)]"

definition email_drop_code :: "(int \<times> destroy_child_case) list" where
  "email_drop_code =
     [(0, Drop_optional ''type''), (1, Drop_ptr T_string ''ext_type''),
     (2, Drop_ptr T_string ''email_to''), (3, Drop_ptr T_string ''description'')]"

definition email_code :: class_code where
  "email_code = \<lparr>cc_struct = email_struct, cc_linked = True, cc_new = email_new_code,
     cc_destroy = email_destroy_code, cc_copy = email_copy_code, cc_compare = email_compare_code,
     cc_get_child = email_get_code, cc_new_child = email_make_code, cc_destroy_child = email_drop_code\<rparr>"

lemmas email_code_defs =
  email_struct_def email_f_type_def email_f_ext_type_def email_f_email_to_def
  email_f_description_def email_new_code_def email_destroy_code_def email_copy_code_def
  email_compare_code_def email_get_code_def email_make_code_def email_drop_code_def
  email_code_def

lemma email_regular: "regular email_code"
  by (simp add: regular_def email_code_defs)

lemma email_fits: "fits_schema email_children_list [] email_code"
  by (simp add: fits_schema_def has_field_def list_field_def email_children_list_def email_code_defs)

subsection \<open>intended impact (class 45)\<close>

definition intended_impact_struct :: "struct" where
  "intended_impact_struct =
     [(''ext_severity'', F_ptr T_string), (''type'', F_int), (''severity'', F_optional),
     (''ext_type'', F_ptr T_string), (''description'', F_ptr T_string)]"

definition intended_impact_f_ext_severity :: accessor where
  "intended_impact_f_ext_severity = \<lparr>getter = Getter_ptr ''ext_severity'',
     setter = Setter_ptr T_string ''ext_severity'', maker = Maker_ptr T_string ''ext_severity''\<rparr>"

definition intended_impact_f_type :: accessor where
  "intended_impact_f_type = \<lparr>getter = Getter_int ''type'',
     setter = Setter_int ''type'', maker = Maker_int ''type''\<rparr>"

definition intended_impact_f_severity :: accessor where
  "intended_impact_f_severity = \<lparr>getter = Getter_optional ''severity'',
     setter = Setter_optional ''severity'', maker = Maker_optional ''severity''\<rparr>"

definition intended_impact_f_ext_type :: accessor where
  "intended_impact_f_ext_type = \<lparr>getter = Getter_ptr ''ext_type'',
     setter = Setter_ptr T_string ''ext_type'', maker = Maker_ptr T_string ''ext_type''\<rparr>"

definition intended_impact_f_description :: accessor where
  "intended_impact_f_description = \<lparr>getter = Getter_ptr ''description'',
     setter = Setter_ptr T_string ''description'', maker = Maker_ptr T_string ''description''\<rparr>"

definition intended_impact_new_code :: "new_step list" where
  "intended_impact_new_code =
     []"

definition intended_impact_destroy_code :: "destroy_step list" where
  "intended_impact_destroy_code =
     [Destroy_ptr T_string ''ext_severity'', Destroy_ptr T_string ''ext_type'',
     Destroy_ptr T_string ''description'']"

definition intended_impact_copy_code :: "copy_step list" where
  "intended_impact_copy_code =
     [Copy_ptr T_string ''ext_severity'', Copy_int ''type'', Copy_optional ''severity'',
     Copy_ptr T_string ''ext_type'', Copy_ptr T_string ''description'']"

definition intended_impact_compare_code :: "compare_step list" where
  "intended_impact_compare_code =
     [Compare_ptr T_string ''ext_severity'', Compare_int ''type'', Compare_optional ''severity'',
     Compare_ptr T_string ''ext_type'', Compare_ptr T_string ''description'']"

definition intended_impact_get_code :: "(int \<times> get_case) list" where
  "intended_impact_get_code =
     [(0, Get_string ''ext_severity''), (1, Get_enum ''type'' 43),
     (2, Get_optional_enum ''severity'' 44), (3, Get_string ''ext_type''),
     (4, Get_string ''description'')]"

definition intended_impact_make_code :: "(int \<times> new_child_case) list" where
  "intended_impact_make_code =
     [(0, Make_field intended_impact_f_ext_severity), (1, Make_field intended_impact_f_type),
     (2, Make_field intended_impact_f_severity), (3, Make_field intended_impact_f_ext_type),
     (4, Make_field intended_impact_f_description)]"

definition intended_impact_drop_code :: "(int \<times> destroy_child_case) list" where
  "intended_impact_drop_code =
     [(0, Drop_ptr T_string ''ext_severity''), (1, Drop_int ''type''),
     (2, Drop_optional ''severity''), (3, Drop_ptr T_string ''ext_type''),
     (4, Drop_ptr T_string ''description'')]"

definition intended_impact_code :: class_code where
  "intended_impact_code = \<lparr>cc_struct = intended_impact_struct, cc_linked = True, cc_new = intended_impact_new_code,
     cc_destroy = intended_impact_destroy_code, cc_copy = intended_impact_copy_code, cc_compare = intended_impact_compare_code,
     cc_get_child = intended_impact_get_code, cc_new_child = intended_impact_make_code, cc_destroy_child = intended_impact_drop_code\<rparr>"

lemmas intended_impact_code_defs =
  intended_impact_struct_def intended_impact_f_ext_severity_def intended_impact_f_type_def
  intended_impact_f_severity_def intended_impact_f_ext_type_def
  intended_impact_f_description_def intended_impact_new_code_def
  intended_impact_destroy_code_def intended_impact_copy_code_def
  intended_impact_compare_code_def intended_impact_get_code_def
  intended_impact_make_code_def intended_impact_drop_code_def intended_impact_code_def

lemma intended_impact_regular: "regular intended_impact_code"
  by (simp add: regular_def intended_impact_code_defs)

lemma intended_impact_fits: "fits_schema intended_impact_children_list [] intended_impact_code"
  by (simp add: fits_schema_def has_field_def list_field_def intended_impact_children_list_def intended_impact_code_defs)

subsection \<open>additional data (class 48)\<close>

definition additional_data_struct :: "struct" where
  "additional_data_struct =
     [(''_type_is_set'', F_ignored), (''restriction'', F_optional), (''name'', F_ptr T_string),
     (''type'', F_int), (''ext_restriction'', F_ptr T_string), (''formatid'', F_ptr T_string),
     (''observable_id'', F_ptr T_string), (''meaning'', F_ptr T_string),
     (''ext_dtype'', F_ptr T_string), (''data'', F_required T_data)]"

definition additional_data_f_restriction :: accessor where
  "additional_data_f_restriction = \<lparr>getter = Getter_optional ''restriction'',
     setter = Setter_optional ''restriction'', maker = Maker_optional ''restriction''\<rparr>"

definition additional_data_f_name :: accessor where
  "additional_data_f_name = \<lparr>getter = Getter_ptr ''name'',
     setter = Setter_ptr T_string ''name'', maker = Maker_ptr T_string ''name''\<rparr>"

definition additional_data_f_type :: accessor where
  "additional_data_f_type = \<lparr>getter = Getter_int ''type'',
     setter = Setter_int_flag ''type'' ''_type_is_set'', maker = Maker_int_flag ''type'' ''_type_is_set''\<rparr>"

definition additional_data_f_ext_restriction :: accessor where
  "additional_data_f_ext_restriction = \<lparr>getter = Getter_ptr ''ext_restriction'',
     setter = Setter_ptr T_string ''ext_restriction'', maker = Maker_ptr T_string ''ext_restriction''\<rparr>"

definition additional_data_f_formatid :: accessor where
  "additional_data_f_formatid = \<lparr>getter = Getter_ptr ''formatid'',
     setter = Setter_ptr T_string ''formatid'', maker = Maker_ptr T_string ''formatid''\<rparr>"

definition additional_data_f_observable_id :: accessor where
  "additional_data_f_observable_id = \<lparr>getter = Getter_ptr ''observable_id'',
     setter = Setter_ptr T_string ''observable_id'', maker = Maker_ptr T_string ''observable_id''\<rparr>"

definition additional_data_f_meaning :: accessor where
  "additional_data_f_meaning = \<lparr>getter = Getter_ptr ''meaning'',
     setter = Setter_ptr T_string ''meaning'', maker = Maker_ptr T_string ''meaning''\<rparr>"

definition additional_data_f_ext_dtype :: accessor where
  "additional_data_f_ext_dtype = \<lparr>getter = Getter_ptr ''ext_dtype'',
     setter = Setter_ptr T_string ''ext_dtype'', maker = Maker_ptr T_string ''ext_dtype''\<rparr>"

definition additional_data_f_data :: accessor where
  "additional_data_f_data = \<lparr>getter = Getter_ptr ''data'',
     setter = Setter_ptr T_data ''data'', maker = Maker_ptr T_data ''data''\<rparr>"

definition additional_data_new_code :: "new_step list" where
  "additional_data_new_code =
     [New_required T_data ''data'']"

definition additional_data_destroy_code :: "destroy_step list" where
  "additional_data_destroy_code =
     [Destroy_ptr T_string ''name'', Destroy_ptr T_string ''ext_restriction'',
     Destroy_ptr T_string ''formatid'', Destroy_ptr T_string ''observable_id'',
     Destroy_ptr T_string ''meaning'', Destroy_ptr T_string ''ext_dtype'',
     Destroy_ptr T_data ''data'']"

definition additional_data_copy_code :: "copy_step list" where
  "additional_data_copy_code =
     [Copy_optional ''restriction'', Copy_ptr T_string ''name'', Copy_int ''type'',
     Copy_ptr T_string ''ext_restriction'', Copy_ptr T_string ''formatid'',
     Copy_ptr T_string ''observable_id'', Copy_ptr T_string ''meaning'',
     Copy_ptr T_string ''ext_dtype'', Copy_required T_data ''data'']"

definition additional_data_compare_code :: "compare_step list" where
  "additional_data_compare_code =
     [Compare_optional ''restriction'', Compare_ptr T_string ''name'', Compare_int ''type'',
     Compare_ptr T_string ''ext_restriction'', Compare_ptr T_string ''formatid'',
     Compare_ptr T_string ''observable_id'', Compare_ptr T_string ''meaning'',
     Compare_ptr T_string ''ext_dtype'', Compare_ptr T_data ''data'']"

definition additional_data_get_code :: "(int \<times> get_case) list" where
  "additional_data_get_code =
     [(0, Get_optional_enum ''restriction'' 46), (1, Get_string ''name''),
     (2, Get_enum ''type'' 47), (3, Get_string ''ext_restriction''),
     (4, Get_string ''formatid''), (5, Get_string ''observable_id''),
     (6, Get_string ''meaning''), (7, Get_string ''ext_dtype''), (8, Get_data ''data'')]"

definition additional_data_make_code :: "(int \<times> new_child_case) list" where
  "additional_data_make_code =
     [(0, Make_field additional_data_f_restriction), (1, Make_field additional_data_f_name),
     (2, Make_field additional_data_f_type), (3, Make_field additional_data_f_ext_restriction),
     (4, Make_field additional_data_f_formatid),
     (5, Make_field additional_data_f_observable_id), (6, Make_field additional_data_f_meaning),
     (7, Make_field additional_data_f_ext_dtype), (8, Make_field additional_data_f_data)]"

definition additional_data_drop_code :: "(int \<times> destroy_child_case) list" where
  "additional_data_drop_code =
     [(0, Drop_optional ''restriction''), (1, Drop_ptr T_string ''name''),
     (2, Drop_int ''type''), (3, Drop_ptr T_string ''ext_restriction''),
     (4, Drop_ptr T_string ''formatid''), (5, Drop_ptr T_string ''observable_id''),
     (6, Drop_ptr T_string ''meaning''), (7, Drop_ptr T_string ''ext_dtype''),
     (8, Drop_ptr T_data ''data'')]"

definition additional_data_code :: class_code where
  "additional_data_code = \<lparr>cc_struct = additional_data_struct, cc_linked = True, cc_new = additional_data_new_code,
     cc_destroy = additional_data_destroy_code, cc_copy = additional_data_copy_code, cc_compare = additional_data_compare_code,
     cc_get_child = additional_data_get_code, cc_new_child = additional_data_make_code, cc_destroy_child = additional_data_drop_code\<rparr>"

lemmas additional_data_code_defs =
  additional_data_struct_def additional_data_f_restriction_def additional_data_f_name_def
  additional_data_f_type_def additional_data_f_ext_restriction_def
  additional_data_f_formatid_def additional_data_f_observable_id_def
  additional_data_f_meaning_def additional_data_f_ext_dtype_def additional_data_f_data_def
  additional_data_new_code_def additional_data_destroy_code_def
  additional_data_copy_code_def additional_data_compare_code_def
  additional_data_get_code_def additional_data_make_code_def additional_data_drop_code_def
  additional_data_code_def

lemma additional_data_regular: "regular additional_data_code"
  by (simp add: regular_def additional_data_code_defs)

lemma additional_data_fits: "fits_schema additional_data_children_list [] additional_data_code"
  by (simp add: fits_schema_def has_field_def list_field_def additional_data_children_list_def additional_data_code_defs)

subsection \<open>counter (class 52)\<close>

definition counter_struct :: "struct" where
  "counter_struct =
     [(''meaning'', F_ptr T_string), (''unit'', F_int), (''ext_type'', F_ptr T_string),
     (''duration'', F_optional), (''ext_unit'', F_ptr T_string), (''type'', F_int),
     (''ext_duration'', F_ptr T_string)]"

definition counter_f_meaning :: accessor where
  "counter_f_meaning = \<lparr>getter = Getter_ptr ''meaning'',
     setter = Setter_ptr T_string ''meaning'', maker = Maker_ptr T_string ''meaning''\<rparr>"

definition counter_f_unit :: accessor where
  "counter_f_unit = \<lparr>getter = Getter_int ''unit'',
     setter = Setter_int ''unit'', maker = Maker_int ''unit''\<rparr>"

definition counter_f_ext_type :: accessor where
  "counter_f_ext_type = \<lparr>getter = Getter_ptr ''ext_type'',
     setter = Setter_ptr T_string ''ext_type'', maker = Maker_ptr T_string ''ext_type''\<rparr>"

definition counter_f_duration :: accessor where
  "counter_f_duration = \<lparr>getter = Getter_optional ''duration'',
     setter = Setter_optional ''duration'', maker = Maker_optional ''duration''\<rparr>"

definition counter_f_ext_unit :: accessor where
  "counter_f_ext_unit = \<lparr>getter = Getter_ptr ''ext_unit'',
     setter = Setter_ptr T_string ''ext_unit'', maker = Maker_ptr T_string ''ext_unit''\<rparr>"

definition counter_f_type :: accessor where
  "counter_f_type = \<lparr>getter = Getter_int ''type'',
     setter = Setter_int ''type'', maker = Maker_int ''type''\<rparr>"

definition counter_f_ext_duration :: accessor where
  "counter_f_ext_duration = \<lparr>getter = Getter_ptr ''ext_duration'',
     setter = Setter_ptr T_string ''ext_duration'', maker = Maker_ptr T_string ''ext_duration''\<rparr>"

definition counter_new_code :: "new_step list" where
  "counter_new_code =
     []"

definition counter_destroy_code :: "destroy_step list" where
  "counter_destroy_code =
     [Destroy_ptr T_string ''meaning'', Destroy_ptr T_string ''ext_type'',
     Destroy_ptr T_string ''ext_unit'', Destroy_ptr T_string ''ext_duration'']"

definition counter_copy_code :: "copy_step list" where
  "counter_copy_code =
     [Copy_ptr T_string ''meaning'', Copy_int ''unit'', Copy_ptr T_string ''ext_type'',
     Copy_optional ''duration'', Copy_ptr T_string ''ext_unit'', Copy_int ''type'',
     Copy_ptr T_string ''ext_duration'']"

definition counter_compare_code :: "compare_step list" where
  "counter_compare_code =
     [Compare_ptr T_string ''meaning'', Compare_int ''unit'', Compare_ptr T_string ''ext_type'',
     Compare_optional ''duration'', Compare_ptr T_string ''ext_unit'', Compare_int ''type'',
     Compare_ptr T_string ''ext_duration'']"

definition counter_get_code :: "(int \<times> get_case) list" where
  "counter_get_code =
     [(0, Get_string ''meaning''), (1, Get_enum ''unit'' 49), (2, Get_string ''ext_type''),
     (3, Get_optional_enum ''duration'' 50), (4, Get_string ''ext_unit''),
     (5, Get_enum ''type'' 51), (6, Get_string ''ext_duration'')]"

definition counter_make_code :: "(int \<times> new_child_case) list" where
  "counter_make_code =
     [(0, Make_field counter_f_meaning), (1, Make_field counter_f_unit),
     (2, Make_field counter_f_ext_type), (3, Make_field counter_f_duration),
     (4, Make_field counter_f_ext_unit), (5, Make_field counter_f_type),
     (6, Make_field counter_f_ext_duration)]"

definition counter_drop_code :: "(int \<times> destroy_child_case) list" where
  "counter_drop_code =
     [(0, Drop_ptr T_string ''meaning''), (1, Drop_int ''unit''),
     (2, Drop_ptr T_string ''ext_type''), (3, Drop_optional ''duration''),
     (4, Drop_ptr T_string ''ext_unit''), (5, Drop_int ''type''),
     (6, Drop_ptr T_string ''ext_duration'')]"

definition counter_code :: class_code where
  "counter_code = \<lparr>cc_struct = counter_struct, cc_linked = True, cc_new = counter_new_code,
     cc_destroy = counter_destroy_code, cc_copy = counter_copy_code, cc_compare = counter_compare_code,
     cc_get_child = counter_get_code, cc_new_child = counter_make_code, cc_destroy_child = counter_drop_code\<rparr>"

lemmas counter_code_defs =
  counter_struct_def counter_f_meaning_def counter_f_unit_def counter_f_ext_type_def
  counter_f_duration_def counter_f_ext_unit_def counter_f_type_def
  counter_f_ext_duration_def counter_new_code_def counter_destroy_code_def
  counter_copy_code_def counter_compare_code_def counter_get_code_def counter_make_code_def
  counter_drop_code_def counter_code_def

lemma counter_regular: "regular counter_code"
  by (simp add: regular_def counter_code_defs)

lemma counter_fits: "fits_schema counter_children_list [] counter_code"
  by (simp add: fits_schema_def has_field_def list_field_def counter_children_list_def counter_code_defs)

subsection \<open>monetary impact (class 54)\<close>

definition monetary_impact_struct :: "struct" where
  "monetary_impact_struct =
     [(''currency'', F_required T_string), (''severity'', F_optional)]"

definition monetary_impact_f_currency :: accessor where
  "monetary_impact_f_currency = \<lparr>getter = Getter_ptr ''currency'',
     setter = Setter_ptr T_string ''currency'', maker = Maker_ptr T_string ''currency''\<rparr>"

definition monetary_impact_f_severity :: accessor where
  "monetary_impact_f_severity = \<lparr>getter = Getter_optional ''severity'',
     setter = Setter_optional ''severity'', maker = Maker_optional ''severity''\<rparr>"

definition monetary_impact_new_code :: "new_step list" where
  "monetary_impact_new_code =
     [New_required T_string ''currency'']"

definition monetary_impact_destroy_code :: "destroy_step list" where
  "monetary_impact_destroy_code =
     [Destroy_ptr T_string ''currency'']"

definition monetary_impact_copy_code :: "copy_step list" where
  "monetary_impact_copy_code =
     [Copy_required T_string ''currency'', Copy_optional ''severity'']"

definition monetary_impact_compare_code :: "compare_step list" where
  "monetary_impact_compare_code =
     [Compare_ptr T_string ''currency'', Compare_optional ''severity'']"

definition monetary_impact_get_code :: "(int \<times> get_case) list" where
  "monetary_impact_get_code =
     [(0, Get_string ''currency''), (1, Get_optional_enum ''severity'' 53)]"

definition monetary_impact_make_code :: "(int \<times> new_child_case) list" where
  "monetary_impact_make_code =
     [(0, Make_field monetary_impact_f_currency), (1, Make_field monetary_impact_f_severity)]"

definition monetary_impact_drop_code :: "(int \<times> destroy_child_case) list" where
  "monetary_impact_drop_code =
     [(0, Drop_ptr T_string ''currency''), (1, Drop_optional ''severity'')]"

definition monetary_impact_code :: class_code where
  "monetary_impact_code = \<lparr>cc_struct = monetary_impact_struct, cc_linked = True, cc_new = monetary_impact_new_code,
     cc_destroy = monetary_impact_destroy_code, cc_copy = monetary_impact_copy_code, cc_compare = monetary_impact_compare_code,
     cc_get_child = monetary_impact_get_code, cc_new_child = monetary_impact_make_code, cc_destroy_child = monetary_impact_drop_code\<rparr>"

lemmas monetary_impact_code_defs =
  monetary_impact_struct_def monetary_impact_f_currency_def monetary_impact_f_severity_def
  monetary_impact_new_code_def monetary_impact_destroy_code_def
  monetary_impact_copy_code_def monetary_impact_compare_code_def
  monetary_impact_get_code_def monetary_impact_make_code_def monetary_impact_drop_code_def
  monetary_impact_code_def

lemma monetary_impact_regular: "regular monetary_impact_code"
  by (simp add: regular_def monetary_impact_code_defs)

lemma monetary_impact_fits: "fits_schema monetary_impact_children_list [] monetary_impact_code"
  by (simp add: fits_schema_def has_field_def list_field_def monetary_impact_children_list_def monetary_impact_code_defs)

subsection \<open>service name (class 55)\<close>

definition service_name_struct :: "struct" where
  "service_name_struct =
     [(''url'', F_ptr T_string), (''iana_service'', F_ptr T_string),
     (''description'', F_ptr T_string)]"

definition service_name_f_url :: accessor where
  "service_name_f_url = \<lparr>getter = Getter_ptr ''url'',
     setter = Setter_ptr T_string ''url'', maker = Maker_ptr T_string ''url''\<rparr>"

definition service_name_f_iana_service :: accessor where
  "service_name_f_iana_service = \<lparr>getter = Getter_ptr ''iana_service'',
     setter = Setter_ptr T_string ''iana_service'', maker = Maker_ptr T_string ''iana_service''\<rparr>"

definition service_name_f_description :: accessor where
  "service_name_f_description = \<lparr>getter = Getter_ptr ''description'',
     setter = Setter_ptr T_string ''description'', maker = Maker_ptr T_string ''description''\<rparr>"

definition service_name_new_code :: "new_step list" where
  "service_name_new_code =
     []"

definition service_name_destroy_code :: "destroy_step list" where
  "service_name_destroy_code =
     [Destroy_ptr T_string ''url'', Destroy_ptr T_string ''iana_service'',
     Destroy_ptr T_string ''description'']"

definition service_name_copy_code :: "copy_step list" where
  "service_name_copy_code =
     [Copy_ptr T_string ''url'', Copy_ptr T_string ''iana_service'',
     Copy_ptr T_string ''description'']"

definition service_name_compare_code :: "compare_step list" where
  "service_name_compare_code =
     [Compare_ptr T_string ''url'', Compare_ptr T_string ''iana_service'',
     Compare_ptr T_string ''description'']"

definition service_name_get_code :: "(int \<times> get_case) list" where
  "service_name_get_code =
     [(0, Get_string ''url''), (1, Get_string ''iana_service''), (2, Get_string ''description'')]"

definition service_name_make_code :: "(int \<times> new_child_case) list" where
  "service_name_make_code =
     [(0, Make_field service_name_f_url), (1, Make_field service_name_f_iana_service),
     (2, Make_field service_name_f_description)]"

definition service_name_drop_code :: "(int \<times> destroy_child_case) list" where
  "service_name_drop_code =
     [(0, Drop_ptr T_string ''url''), (1, Drop_ptr T_string ''iana_service''),
     (2, Drop_ptr T_string ''description'')]"

definition service_name_code :: class_code where
  "service_name_code = \<lparr>cc_struct = service_name_struct, cc_linked = False, cc_new = service_name_new_code,
     cc_destroy = service_name_destroy_code, cc_copy = service_name_copy_code, cc_compare = service_name_compare_code,
     cc_get_child = service_name_get_code, cc_new_child = service_name_make_code, cc_destroy_child = service_name_drop_code\<rparr>"

lemmas service_name_code_defs =
  service_name_struct_def service_name_f_url_def service_name_f_iana_service_def
  service_name_f_description_def service_name_new_code_def service_name_destroy_code_def
  service_name_copy_code_def service_name_compare_code_def service_name_get_code_def
  service_name_make_code_def service_name_drop_code_def service_name_code_def

lemma service_name_regular: "regular service_name_code"
  by (simp add: regular_def service_name_code_defs)

lemma service_name_fits: "fits_schema service_name_children_list [] service_name_code"
  by (simp add: fits_schema_def has_field_def list_field_def service_name_children_list_def service_name_code_defs)

subsection \<open>indicator id (class 56)\<close>

definition indicator_id_struct :: "struct" where
  "indicator_id_struct =
     [(''version'', F_ptr T_string), (''name'', F_ptr T_string)]"

definition indicator_id_f_version :: accessor where
  "indicator_id_f_version = \<lparr>getter = Getter_ptr ''version'',
     setter = Setter_ptr T_string ''version'', maker = Maker_ptr T_string ''version''\<rparr>"

definition indicator_id_f_name :: accessor where
  "indicator_id_f_name = \<lparr>getter = Getter_ptr ''name'',
     setter = Setter_ptr T_string ''name'', maker = Maker_ptr T_string ''name''\<rparr>"

definition indicator_id_new_code :: "new_step list" where
  "indicator_id_new_code =
     []"

definition indicator_id_destroy_code :: "destroy_step list" where
  "indicator_id_destroy_code =
     [Destroy_ptr T_string ''version'', Destroy_ptr T_string ''name'']"

definition indicator_id_copy_code :: "copy_step list" where
  "indicator_id_copy_code =
     [Copy_ptr T_string ''version'', Copy_ptr T_string ''name'']"

definition indicator_id_compare_code :: "compare_step list" where
  "indicator_id_compare_code =
     [Compare_ptr T_string ''version'', Compare_ptr T_string ''name'']"

definition indicator_id_get_code :: "(int \<times> get_case) list" where
  "indicator_id_get_code =
     [(0, Get_string ''version''), (1, Get_string ''name'')]"

definition indicator_id_make_code :: "(int \<times> new_child_case) list" where
  "indicator_id_make_code =
     [(0, Make_field indicator_id_f_version), (1, Make_field indicator_id_f_name)]"

definition indicator_id_drop_code :: "(int \<times> destroy_child_case) list" where
  "indicator_id_drop_code =
     [(0, Drop_ptr T_string ''version''), (1, Drop_ptr T_string ''name'')]"

definition indicator_id_code :: class_code where
  "indicator_id_code = \<lparr>cc_struct = indicator_id_struct, cc_linked = True, cc_new = indicator_id_new_code,
     cc_destroy = indicator_id_destroy_code, cc_copy = indicator_id_copy_code, cc_compare = indicator_id_compare_code,
     cc_get_child = indicator_id_get_code, cc_new_child = indicator_id_make_code, cc_destroy_child = indicator_id_drop_code\<rparr>"

lemmas indicator_id_code_defs =
  indicator_id_struct_def indicator_id_f_version_def indicator_id_f_name_def
  indicator_id_new_code_def indicator_id_destroy_code_def indicator_id_copy_code_def
  indicator_id_compare_code_def indicator_id_get_code_def indicator_id_make_code_def
  indicator_id_drop_code_def indicator_id_code_def

lemma indicator_id_regular: "regular indicator_id_code"
  by (simp add: regular_def indicator_id_code_defs)

lemma indicator_id_fits: "fits_schema indicator_id_children_list [] indicator_id_code"
  by (simp add: fits_schema_def has_field_def list_field_def indicator_id_children_list_def indicator_id_code_defs)

subsection \<open>signature data (class 57)\<close>

definition signature_data_struct :: "struct" where
  "signature_data_struct =
     [(''signature'', F_ptr T_string)]"

definition signature_data_f_signature :: accessor where
  "signature_data_f_signature = \<lparr>getter = Getter_ptr ''signature'',
     setter = Setter_ptr T_string ''signature'', maker = Maker_ptr T_string ''signature''\<rparr>"

definition signature_data_new_code :: "new_step list" where
  "signature_data_new_code =
     []"

definition signature_data_destroy_code :: "destroy_step list" where
  "signature_data_destroy_code =
     [Destroy_ptr T_string ''signature'']"

definition signature_data_copy_code :: "copy_step list" where
  "signature_data_copy_code =
     [Copy_ptr T_string ''signature'']"

definition signature_data_compare_code :: "compare_step list" where
  "signature_data_compare_code =
     [Compare_ptr T_string ''signature'']"

definition signature_data_get_code :: "(int \<times> get_case) list" where
  "signature_data_get_code =
     [(0, Get_string ''signature'')]"

definition signature_data_make_code :: "(int \<times> new_child_case) list" where
  "signature_data_make_code =
     [(0, Make_field signature_data_f_signature)]"

definition signature_data_drop_code :: "(int \<times> destroy_child_case) list" where
  "signature_data_drop_code =
     [(0, Drop_ptr T_string ''signature'')]"

definition signature_data_code :: class_code where
  "signature_data_code = \<lparr>cc_struct = signature_data_struct, cc_linked = True, cc_new = signature_data_new_code,
     cc_destroy = signature_data_destroy_code, cc_copy = signature_data_copy_code, cc_compare = signature_data_compare_code,
     cc_get_child = signature_data_get_code, cc_new_child = signature_data_make_code, cc_destroy_child = signature_data_drop_code\<rparr>"

lemmas signature_data_code_defs =
  signature_data_struct_def signature_data_f_signature_def signature_data_new_code_def
  signature_data_destroy_code_def signature_data_copy_code_def
  signature_data_compare_code_def signature_data_get_code_def signature_data_make_code_def
  signature_data_drop_code_def signature_data_code_def

lemma signature_data_regular: "regular signature_data_code"
  by (simp add: regular_def signature_data_code_defs)

lemma signature_data_fits: "fits_schema signature_data_children_list [] signature_data_code"
  by (simp add: fits_schema_def has_field_def list_field_def signature_data_children_list_def signature_data_code_defs)

subsection \<open>address (class 59)\<close>

definition address_struct :: "struct" where
  "address_struct =
     [(''category'', F_int), (''vlan_name'', F_ptr T_string), (''ext_category'', F_ptr T_string),
     (''vlan_num'', F_ptr T_string), (''observable_id'', F_ptr T_string)]"

definition address_f_category :: accessor where
  "address_f_category = \<lparr>getter = Getter_int ''category'',
     setter = Setter_int ''category'', maker = Maker_int ''category''\<rparr>"

definition address_f_vlan_name :: accessor where
  "address_f_vlan_name = \<lparr>getter = Getter_ptr ''vlan_name'',
     setter = Setter_ptr T_string ''vlan_name'', maker = Maker_ptr T_string ''vlan_name''\<rparr>"

definition address_f_ext_category :: accessor where
  "address_f_ext_category = \<lparr>getter = Getter_ptr ''ext_category'',
     setter = Setter_ptr T_string ''ext_category'', maker = Maker_ptr T_string ''ext_category''\<rparr>"

definition address_f_vlan_num :: accessor where
  "address_f_vlan_num = \<lparr>getter = Getter_ptr ''vlan_num'',
     setter = Setter_ptr T_string ''vlan_num'', maker = Maker_ptr T_string ''vlan_num''\<rparr>"

definition address_f_observable_id :: accessor where
  "address_f_observable_id = \<lparr>getter = Getter_ptr ''observable_id'',
     setter = Setter_ptr T_string ''observable_id'', maker = Maker_ptr T_string ''observable_id''\<rparr>"

definition address_new_code :: "new_step list" where
  "address_new_code =
     []"

definition address_destroy_code :: "destroy_step list" where
  "address_destroy_code =
     [Destroy_ptr T_string ''vlan_name'', Destroy_ptr T_string ''ext_category'',
     Destroy_ptr T_string ''vlan_num'', Destroy_ptr T_string ''observable_id'']"

definition address_copy_code :: "copy_step list" where
  "address_copy_code =
     [Copy_int ''category'', Copy_ptr T_string ''vlan_name'', Copy_ptr T_string ''ext_category'',
     Copy_ptr T_string ''vlan_num'', Copy_ptr T_string ''observable_id'']"

definition address_compare_code :: "compare_step list" where
  "address_compare_code =
     [Compare_int ''category'', Compare_ptr T_string ''vlan_name'',
     Compare_ptr T_string ''ext_category'', Compare_ptr T_string ''vlan_num'',
     Compare_ptr T_string ''observable_id'']"

definition address_get_code :: "(int \<times> get_case) list" where
  "address_get_code =
     [(0, Get_enum ''category'' 58), (1, Get_string ''vlan_name''),
     (2, Get_string ''ext_category''), (3, Get_string ''vlan_num''),
     (4, Get_string ''observable_id'')]"

definition address_make_code :: "(int \<times> new_child_case) list" where
  "address_make_code =
     [(0, Make_field address_f_category), (1, Make_field address_f_vlan_name),
     (2, Make_field address_f_ext_category), (3, Make_field address_f_vlan_num),
     (4, Make_field address_f_observable_id)]"

definition address_drop_code :: "(int \<times> destroy_child_case) list" where
  "address_drop_code =
     [(0, Drop_int ''category''), (1, Drop_ptr T_string ''vlan_name''),
     (2, Drop_ptr T_string ''ext_category''), (3, Drop_ptr T_string ''vlan_num''),
     (4, Drop_ptr T_string ''observable_id'')]"

definition address_code :: class_code where
  "address_code = \<lparr>cc_struct = address_struct, cc_linked = True, cc_new = address_new_code,
     cc_destroy = address_destroy_code, cc_copy = address_copy_code, cc_compare = address_compare_code,
     cc_get_child = address_get_code, cc_new_child = address_make_code, cc_destroy_child = address_drop_code\<rparr>"

lemmas address_code_defs =
  address_struct_def address_f_category_def address_f_vlan_name_def
  address_f_ext_category_def address_f_vlan_num_def address_f_observable_id_def
  address_new_code_def address_destroy_code_def address_copy_code_def
  address_compare_code_def address_get_code_def address_make_code_def address_drop_code_def
  address_code_def

lemma address_regular: "regular address_code"
  by (simp add: regular_def address_code_defs)

lemma address_fits: "fits_schema address_children_list [] address_code"
  by (simp add: fits_schema_def has_field_def list_field_def address_children_list_def address_code_defs)

subsection \<open>application header (class 60)\<close>

definition application_header_struct :: "struct" where
  "application_header_struct =
     [(''additional_data_list'', F_listed 48)]"

definition application_header_f_additional_data :: accessor where
  "application_header_f_additional_data = \<lparr>getter = Getter_next ''additional_data_list'',
     setter = Setter_listed ''additional_data_list'', maker = Maker_listed 48 ''additional_data_list''\<rparr>"

definition application_header_new_code :: "new_step list" where
  "application_header_new_code =
     [Init_list ''additional_data_list'']"

definition application_header_destroy_code :: "destroy_step list" where
  "application_header_destroy_code =
     [Destroy_list 48 ''additional_data_list'']"

definition application_header_copy_code :: "copy_step list" where
  "application_header_copy_code =
     [Copy_list 48 ''additional_data_list'']"

definition application_header_compare_code :: "compare_step list" where
  "application_header_compare_code =
     [Compare_list 48 ''additional_data_list'']"

definition application_header_get_code :: "(int \<times> get_case) list" where
  "application_header_get_code =
     [(0, Get_list ''additional_data_list'')]"

definition application_header_make_code :: "(int \<times> new_child_case) list" where
  "application_header_make_code =
     [(0, Make_in_list application_header_f_additional_data ''additional_data_list'')]"

definition application_header_drop_code :: "(int \<times> destroy_child_case) list" where
  "application_header_drop_code =
     [(0, Drop_in_list 48 ''additional_data_list'')]"

definition application_header_code :: class_code where
  "application_header_code = \<lparr>cc_struct = application_header_struct, cc_linked = False, cc_new = application_header_new_code,
     cc_destroy = application_header_destroy_code, cc_copy = application_header_copy_code, cc_compare = application_header_compare_code,
     cc_get_child = application_header_get_code, cc_new_child = application_header_make_code, cc_destroy_child = application_header_drop_code\<rparr>"

lemmas application_header_code_defs =
  application_header_struct_def application_header_f_additional_data_def
  application_header_new_code_def application_header_destroy_code_def
  application_header_copy_code_def application_header_compare_code_def
  application_header_get_code_def application_header_make_code_def
  application_header_drop_code_def application_header_code_def

lemma application_header_regular: "regular application_header_code"
  by (simp add: regular_def application_header_code_defs)

lemma application_header_fits: "fits_schema application_header_children_list [] application_header_code"
  by (simp add: fits_schema_def has_field_def list_field_def application_header_children_list_def application_header_code_defs)

subsection \<open>certificate data (class 62)\<close>

definition certificate_data_struct :: "struct" where
  "certificate_data_struct =
     [(''restriction'', F_optional), (''ext_restriction'', F_ptr T_string),
     (''observable_id'', F_ptr T_string), (''certificate_list'', F_listed 4)]"

definition certificate_data_f_restriction :: accessor where
  "certificate_data_f_restriction = \<lparr>getter = Getter_optional ''restriction'',
     setter = Setter_optional ''restriction'', maker = Maker_optional ''restriction''\<rparr>"

definition certificate_data_f_ext_restriction :: accessor where
  "certificate_data_f_ext_restriction = \<lparr>getter = Getter_ptr ''ext_restriction'',
     setter = Setter_ptr T_string ''ext_restriction'', maker = Maker_ptr T_string ''ext_restriction''\<rparr>"

definition certificate_data_f_observable_id :: accessor where
  "certificate_data_f_observable_id = \<lparr>getter = Getter_ptr ''observable_id'',
     setter = Setter_ptr T_string ''observable_id'', maker = Maker_ptr T_string ''observable_id''\<rparr>"

definition certificate_data_f_certificate :: accessor where
  "certificate_data_f_certificate = \<lparr>getter = Getter_next ''certificate_list'',
     setter = Setter_listed ''certificate_list'', maker = Maker_listed 4 ''certificate_list''\<rparr>"

definition certificate_data_new_code :: "new_step list" where
  "certificate_data_new_code =
     [Init_list ''certificate_list'']"

definition certificate_data_destroy_code :: "destroy_step list" where
  "certificate_data_destroy_code =
     [Destroy_ptr T_string ''ext_restriction'', Destroy_ptr T_string ''observable_id'',
     Destroy_list 4 ''certificate_list'']"

definition certificate_data_copy_code :: "copy_step list" where
  "certificate_data_copy_code =
     [Copy_optional ''restriction'', Copy_ptr T_string ''ext_restriction'',
     Copy_ptr T_string ''observable_id'', Copy_list 4 ''certificate_list'']"

definition certificate_data_compare_code :: "compare_step list" where
  "certificate_data_compare_code =
     [Compare_optional ''restriction'', Compare_ptr T_string ''ext_restriction'',
     Compare_ptr T_string ''observable_id'', Compare_list 4 ''certificate_list'']"

definition certificate_data_get_code :: "(int \<times> get_case) list" where
  "certificate_data_get_code =
     [(0, Get_optional_enum ''restriction'' 61), (1, Get_string ''ext_restriction''),
     (2, Get_string ''observable_id''), (3, Get_list ''certificate_list'')]"

definition certificate_data_make_code :: "(int \<times> new_child_case) list" where
  "certificate_data_make_code =
     [(0, Make_field certificate_data_f_restriction),
     (1, Make_field certificate_data_f_ext_restriction),
     (2, Make_field certificate_data_f_observable_id),
     (3, Make_in_list certificate_data_f_certificate ''certificate_list'')]"

definition certificate_data_drop_code :: "(int \<times> destroy_child_case) list" where
  "certificate_data_drop_code =
     [(0, Drop_optional ''restriction''), (1, Drop_ptr T_string ''ext_restriction''),
     (2, Drop_ptr T_string ''observable_id''), (3, Drop_in_list 4 ''certificate_list'')]"

definition certificate_data_code :: class_code where
  "certificate_data_code = \<lparr>cc_struct = certificate_data_struct, cc_linked = True, cc_new = certificate_data_new_code,
     cc_destroy = certificate_data_destroy_code, cc_copy = certificate_data_copy_code, cc_compare = certificate_data_compare_code,
     cc_get_child = certificate_data_get_code, cc_new_child = certificate_data_make_code, cc_destroy_child = certificate_data_drop_code\<rparr>"

lemmas certificate_data_code_defs =
  certificate_data_struct_def certificate_data_f_restriction_def
  certificate_data_f_ext_restriction_def certificate_data_f_observable_id_def
  certificate_data_f_certificate_def certificate_data_new_code_def
  certificate_data_destroy_code_def certificate_data_copy_code_def
  certificate_data_compare_code_def certificate_data_get_code_def
  certificate_data_make_code_def certificate_data_drop_code_def certificate_data_code_def

lemma certificate_data_regular: "regular certificate_data_code"
  by (simp add: regular_def certificate_data_code_defs)

lemma certificate_data_fits: "fits_schema certificate_data_children_list [] certificate_data_code"
  by (simp add: fits_schema_def has_field_def list_field_def certificate_data_children_list_def certificate_data_code_defs)

subsection \<open>threat actor (class 64)\<close>

definition threat_actor_struct :: "struct" where
  "threat_actor_struct =
     [(''restriction'', F_optional), (''ext_restriction'', F_ptr T_string),
     (''url'', F_ptr T_string), (''threat_actor_id'', F_ptr T_string),
     (''description'', F_ptr T_string), (''additional_data_list'', F_listed 48)]"

definition threat_actor_f_restriction :: accessor where
  "threat_actor_f_restriction = \<lparr>getter = Getter_optional ''restriction'',
     setter = Setter_optional ''restriction'', maker = Maker_optional ''restriction''\<rparr>"

definition threat_actor_f_ext_restriction :: accessor where
  "threat_actor_f_ext_restriction = \<lparr>getter = Getter_ptr ''ext_restriction'',
     setter = Setter_ptr T_string ''ext_restriction'', maker = Maker_ptr T_string ''ext_restriction''\<rparr>"

definition threat_actor_f_url :: accessor where
  "threat_actor_f_url = \<lparr>getter = Getter_ptr ''url'',
     setter = Setter_ptr T_string ''url'', maker = Maker_ptr T_string ''url''\<rparr>"

definition threat_actor_f_threat_actor_id :: accessor where
  "threat_actor_f_threat_actor_id = \<lparr>getter = Getter_ptr ''threat_actor_id'',
     setter = Setter_ptr T_string ''threat_actor_id'', maker = Maker_ptr T_string ''threat_actor_id''\<rparr>"

definition threat_actor_f_description :: accessor where
  "threat_actor_f_description = \<lparr>getter = Getter_ptr ''description'',
     setter = Setter_ptr T_string ''description'', maker = Maker_ptr T_string ''description''\<rparr>"

definition threat_actor_f_additional_data :: accessor where
  "threat_actor_f_additional_data = \<lparr>getter = Getter_next ''additional_data_list'',
     setter = Setter_listed ''additional_data_list'', maker = Maker_listed 48 ''additional_data_list''\<rparr>"

definition threat_actor_new_code :: "new_step list" where
  "threat_actor_new_code =
     [Init_list ''additional_data_list'']"

definition threat_actor_destroy_code :: "destroy_step list" where
  "threat_actor_destroy_code =
     [Destroy_ptr T_string ''ext_restriction'', Destroy_ptr T_string ''url'',
     Destroy_ptr T_string ''threat_actor_id'', Destroy_ptr T_string ''description'',
     Destroy_list 48 ''additional_data_list'']"

definition threat_actor_copy_code :: "copy_step list" where
  "threat_actor_copy_code =
     [Copy_optional ''restriction'', Copy_ptr T_string ''ext_restriction'',
     Copy_ptr T_string ''url'', Copy_ptr T_string ''threat_actor_id'',
     Copy_ptr T_string ''description'', Copy_list 48 ''additional_data_list'']"

definition threat_actor_compare_code :: "compare_step list" where
  "threat_actor_compare_code =
     [Compare_optional ''restriction'', Compare_ptr T_string ''ext_restriction'',
     Compare_ptr T_string ''url'', Compare_ptr T_string ''threat_actor_id'',
     Compare_ptr T_string ''description'', Compare_list 48 ''additional_data_list'']"

definition threat_actor_get_code :: "(int \<times> get_case) list" where
  "threat_actor_get_code =
     [(0, Get_optional_enum ''restriction'' 63), (1, Get_string ''ext_restriction''),
     (2, Get_string ''url''), (3, Get_string ''threat_actor_id''),
     (4, Get_string ''description''), (5, Get_list ''additional_data_list'')]"

definition threat_actor_make_code :: "(int \<times> new_child_case) list" where
  "threat_actor_make_code =
     [(0, Make_field threat_actor_f_restriction), (1, Make_field threat_actor_f_ext_restriction),
     (2, Make_field threat_actor_f_url), (3, Make_field threat_actor_f_threat_actor_id),
     (4, Make_field threat_actor_f_description),
     (5, Make_in_list threat_actor_f_additional_data ''additional_data_list'')]"

definition threat_actor_drop_code :: "(int \<times> destroy_child_case) list" where
  "threat_actor_drop_code =
     [(0, Drop_optional ''restriction''), (1, Drop_ptr T_string ''ext_restriction''),
     (2, Drop_ptr T_string ''url''), (3, Drop_ptr T_string ''threat_actor_id''),
     (4, Drop_ptr T_string ''description''), (5, Drop_in_list 48 ''additional_data_list'')]"

definition threat_actor_code :: class_code where
  "threat_actor_code = \<lparr>cc_struct = threat_actor_struct, cc_linked = True, cc_new = threat_actor_new_code,
     cc_destroy = threat_actor_destroy_code, cc_copy = threat_actor_copy_code, cc_compare = threat_actor_compare_code,
     cc_get_child = threat_actor_get_code, cc_new_child = threat_actor_make_code, cc_destroy_child = threat_actor_drop_code\<rparr>"

lemmas threat_actor_code_defs =
  threat_actor_struct_def threat_actor_f_restriction_def threat_actor_f_ext_restriction_def
  threat_actor_f_url_def threat_actor_f_threat_actor_id_def threat_actor_f_description_def
  threat_actor_f_additional_data_def threat_actor_new_code_def threat_actor_destroy_code_def
  threat_actor_copy_code_def threat_actor_compare_code_def threat_actor_get_code_def
  threat_actor_make_code_def threat_actor_drop_code_def threat_actor_code_def

lemma threat_actor_regular: "regular threat_actor_code"
  by (simp add: regular_def threat_actor_code_defs)

lemma threat_actor_fits: "fits_schema threat_actor_children_list [] threat_actor_code"
  by (simp add: fits_schema_def has_field_def list_field_def threat_actor_children_list_def threat_actor_code_defs)

subsection \<open>method (class 66)\<close>

definition method_struct :: "struct" where
  "method_struct =
     [(''restriction'', F_optional), (''ext_restriction'', F_ptr T_string),
     (''additional_data_list'', F_listed 48), (''description'', F_ptr T_string),
     (''reference_list'', F_listed 20)]"

definition method_f_restriction :: accessor where
  "method_f_restriction = \<lparr>getter = Getter_optional ''restriction'',
     setter = Setter_optional ''restriction'', maker = Maker_optional ''restriction''\<rparr>"

definition method_f_ext_restriction :: accessor where
  "method_f_ext_restriction = \<lparr>getter = Getter_ptr ''ext_restriction'',
     setter = Setter_ptr T_string ''ext_restriction'', maker = Maker_ptr T_string ''ext_restriction''\<rparr>"

definition method_f_additional_data :: accessor where
  "method_f_additional_data = \<lparr>getter = Getter_next ''additional_data_list'',
     setter = Setter_listed ''additional_data_list'', maker = Maker_listed 48 ''additional_data_list''\<rparr>"

definition method_f_description :: accessor where
  "method_f_description = \<lparr>getter = Getter_ptr ''description'',
     setter = Setter_ptr T_string ''description'', maker = Maker_ptr T_string ''description''\<rparr>"

definition method_f_reference :: accessor where
  "method_f_reference = \<lparr>getter = Getter_next ''reference_list'',
     setter = Setter_listed ''reference_list'', maker = Maker_listed 20 ''reference_list''\<rparr>"

definition method_new_code :: "new_step list" where
  "method_new_code =
     [Init_list ''additional_data_list'', Init_list ''reference_list'']"

definition method_destroy_code :: "destroy_step list" where
  "method_destroy_code =
     [Destroy_ptr T_string ''ext_restriction'', Destroy_list 48 ''additional_data_list'',
     Destroy_ptr T_string ''description'', Destroy_list 20 ''reference_list'']"

definition method_copy_code :: "copy_step list" where
  "method_copy_code =
     [Copy_optional ''restriction'', Copy_ptr T_string ''ext_restriction'',
     Copy_list 48 ''additional_data_list'', Copy_ptr T_string ''description'',
     Copy_list 20 ''reference_list'']"

definition method_compare_code :: "compare_step list" where
  "method_compare_code =
     [Compare_optional ''restriction'', Compare_ptr T_string ''ext_restriction'',
     Compare_list 48 ''additional_data_list'', Compare_ptr T_string ''description'',
     Compare_list 20 ''reference_list'']"

definition method_get_code :: "(int \<times> get_case) list" where
  "method_get_code =
     [(0, Get_optional_enum ''restriction'' 65), (1, Get_string ''ext_restriction''),
     (2, Get_list ''additional_data_list''), (3, Get_string ''description''),
     (4, Get_list ''reference_list'')]"

definition method_make_code :: "(int \<times> new_child_case) list" where
  "method_make_code =
     [(0, Make_field method_f_restriction), (1, Make_field method_f_ext_restriction),
     (2, Make_in_list method_f_additional_data ''additional_data_list''),
     (3, Make_field method_f_description),
     (4, Make_in_list method_f_reference ''reference_list'')]"

definition method_drop_code :: "(int \<times> destroy_child_case) list" where
  "method_drop_code =
     [(0, Drop_optional ''restriction''), (1, Drop_ptr T_string ''ext_restriction''),
     (2, Drop_in_list 48 ''additional_data_list''), (3, Drop_ptr T_string ''description''),
     (4, Drop_in_list 20 ''reference_list'')]"

definition method_code :: class_code where
  "method_code = \<lparr>cc_struct = method_struct, cc_linked = True, cc_new = method_new_code,
     cc_destroy = method_destroy_code, cc_copy = method_copy_code, cc_compare = method_compare_code,
     cc_get_child = method_get_code, cc_new_child = method_make_code, cc_destroy_child = method_drop_code\<rparr>"

lemmas method_code_defs =
  method_struct_def method_f_restriction_def method_f_ext_restriction_def
  method_f_additional_data_def method_f_description_def method_f_reference_def
  method_new_code_def method_destroy_code_def method_copy_code_def method_compare_code_def
  method_get_code_def method_make_code_def method_drop_code_def method_code_def

lemma method_regular: "regular method_code"
  by (simp add: regular_def method_code_defs)

lemma method_fits: "fits_schema method_children_list [] method_code"
  by (simp add: fits_schema_def has_field_def list_field_def method_children_list_def method_code_defs)

subsection \<open>alternative id (class 68)\<close>

definition alternative_id_struct :: "struct" where
  "alternative_id_struct =
     [(''restriction'', F_optional), (''ext_restriction'', F_ptr T_string),
     (''incident_id_list'', F_listed 26)]"

definition alternative_id_f_restriction :: accessor where
  "alternative_id_f_restriction = \<lparr>getter = Getter_optional ''restriction'',
     setter = Setter_optional ''restriction'', maker = Maker_optional ''restriction''\<rparr>"

definition alternative_id_f_ext_restriction :: accessor where
  "alternative_id_f_ext_restriction = \<lparr>getter = Getter_ptr ''ext_restriction'',
     setter = Setter_ptr T_string ''ext_restriction'', maker = Maker_ptr T_string ''ext_restriction''\<rparr>"

definition alternative_id_f_incident_id :: accessor where
  "alternative_id_f_incident_id = \<lparr>getter = Getter_next ''incident_id_list'',
     setter = Setter_listed ''incident_id_list'', maker = Maker_listed 26 ''incident_id_list''\<rparr>"

definition alternative_id_new_code :: "new_step list" where
  "alternative_id_new_code =
     [Init_list ''incident_id_list'']"

definition alternative_id_destroy_code :: "destroy_step list" where
  "alternative_id_destroy_code =
     [Destroy_ptr T_string ''ext_restriction'', Destroy_list 26 ''incident_id_list'']"

definition alternative_id_copy_code :: "copy_step list" where
  "alternative_id_copy_code =
     [Copy_optional ''restriction'', Copy_ptr T_string ''ext_restriction'',
     Copy_list 26 ''incident_id_list'']"

definition alternative_id_compare_code :: "compare_step list" where
  "alternative_id_compare_code =
     [Compare_optional ''restriction'', Compare_ptr T_string ''ext_restriction'',
     Compare_list 26 ''incident_id_list'']"

definition alternative_id_get_code :: "(int \<times> get_case) list" where
  "alternative_id_get_code =
     [(0, Get_optional_enum ''restriction'' 67), (1, Get_string ''ext_restriction''),
     (2, Get_list ''incident_id_list'')]"

definition alternative_id_make_code :: "(int \<times> new_child_case) list" where
  "alternative_id_make_code =
     [(0, Make_field alternative_id_f_restriction),
     (1, Make_field alternative_id_f_ext_restriction),
     (2, Make_in_list alternative_id_f_incident_id ''incident_id_list'')]"

definition alternative_id_drop_code :: "(int \<times> destroy_child_case) list" where
  "alternative_id_drop_code =
     [(0, Drop_optional ''restriction''), (1, Drop_ptr T_string ''ext_restriction''),
     (2, Drop_in_list 26 ''incident_id_list'')]"

definition alternative_id_code :: class_code where
  "alternative_id_code = \<lparr>cc_struct = alternative_id_struct, cc_linked = False, cc_new = alternative_id_new_code,
     cc_destroy = alternative_id_destroy_code, cc_copy = alternative_id_copy_code, cc_compare = alternative_id_compare_code,
     cc_get_child = alternative_id_get_code, cc_new_child = alternative_id_make_code, cc_destroy_child = alternative_id_drop_code\<rparr>"

lemmas alternative_id_code_defs =
  alternative_id_struct_def alternative_id_f_restriction_def
  alternative_id_f_ext_restriction_def alternative_id_f_incident_id_def
  alternative_id_new_code_def alternative_id_destroy_code_def alternative_id_copy_code_def
  alternative_id_compare_code_def alternative_id_get_code_def alternative_id_make_code_def
  alternative_id_drop_code_def alternative_id_code_def

lemma alternative_id_regular: "regular alternative_id_code"
  by (simp add: regular_def alternative_id_code_defs)

lemma alternative_id_fits: "fits_schema alternative_id_children_list [] alternative_id_code"
  by (simp add: fits_schema_def has_field_def list_field_def alternative_id_children_list_def alternative_id_code_defs)

subsection \<open>software (class 69)\<close>

definition software_struct :: "struct" where
  "software_struct =
     [(''url'', F_ptr T_string), (''description'', F_ptr T_string),
     (''software_reference'', F_ptr (T_class 36))]"

definition software_f_url :: accessor where
  "software_f_url = \<lparr>getter = Getter_ptr ''url'',
     setter = Setter_ptr T_string ''url'', maker = Maker_ptr T_string ''url''\<rparr>"

definition software_f_description :: accessor where
  "software_f_description = \<lparr>getter = Getter_ptr ''description'',
     setter = Setter_ptr T_string ''description'', maker = Maker_ptr T_string ''description''\<rparr>"

definition software_f_software_reference :: accessor where
  "software_f_software_reference = \<lparr>getter = Getter_ptr ''software_reference'',
     setter = Setter_ptr (T_class 36) ''software_reference'', maker = Maker_ptr (T_class 36) ''software_reference''\<rparr>"

definition software_new_code :: "new_step list" where
  "software_new_code =
     []"

definition software_destroy_code :: "destroy_step list" where
  "software_destroy_code =
     [Destroy_ptr T_string ''url'', Destroy_ptr T_string ''description'',
     Destroy_ptr (T_class 36) ''software_reference'']"

definition software_copy_code :: "copy_step list" where
  "software_copy_code =
     [Copy_ptr T_string ''url'', Copy_ptr T_string ''description'',
     Copy_ptr (T_class 36) ''software_reference'']"

definition software_compare_code :: "compare_step list" where
  "software_compare_code =
     [Compare_ptr T_string ''url'', Compare_ptr T_string ''description'',
     Compare_ptr (T_class 36) ''software_reference'']"

definition software_get_code :: "(int \<times> get_case) list" where
  "software_get_code =
     [(0, Get_string ''url''), (1, Get_string ''description''),
     (2, Get_object ''software_reference'')]"

definition software_make_code :: "(int \<times> new_child_case) list" where
  "software_make_code =
     [(0, Make_field software_f_url), (1, Make_field software_f_description),
     (2, Make_field software_f_software_reference)]"

definition software_drop_code :: "(int \<times> destroy_child_case) list" where
  "software_drop_code =
     [(0, Drop_ptr T_string ''url''), (1, Drop_ptr T_string ''description''),
     (2, Drop_ptr (T_class 36) ''software_reference'')]"

definition software_code :: class_code where
  "software_code = \<lparr>cc_struct = software_struct, cc_linked = True, cc_new = software_new_code,
     cc_destroy = software_destroy_code, cc_copy = software_copy_code, cc_compare = software_compare_code,
     cc_get_child = software_get_code, cc_new_child = software_make_code, cc_destroy_child = software_drop_code\<rparr>"

lemmas software_code_defs =
  software_struct_def software_f_url_def software_f_description_def
  software_f_software_reference_def software_new_code_def software_destroy_code_def
  software_copy_code_def software_compare_code_def software_get_code_def
  software_make_code_def software_drop_code_def software_code_def

lemma software_regular: "regular software_code"
  by (simp add: regular_def software_code_defs)

lemma software_fits: "fits_schema software_children_list [] software_code"
  by (simp add: fits_schema_def has_field_def list_field_def software_children_list_def software_code_defs)

subsection \<open>nameservers (class 70)\<close>

definition nameservers_struct :: "struct" where
  "nameservers_struct =
     [(''address_list'', F_listed 59), (''server'', F_required T_string)]"

definition nameservers_f_address :: accessor where
  "nameservers_f_address = \<lparr>getter = Getter_next ''address_list'',
     setter = Setter_listed ''address_list'', maker = Maker_listed 59 ''address_list''\<rparr>"

definition nameservers_f_server :: accessor where
  "nameservers_f_server = \<lparr>getter = Getter_ptr ''server'',
     setter = Setter_ptr T_string ''server'', maker = Maker_ptr T_string ''server''\<rparr>"

definition nameservers_new_code :: "new_step list" where
  "nameservers_new_code =
     [Init_list ''address_list'', New_required T_string ''server'']"

definition nameservers_destroy_code :: "destroy_step list" where
  "nameservers_destroy_code =
     [Destroy_list 59 ''address_list'', Destroy_ptr T_string ''server'']"

definition nameservers_copy_code :: "copy_step list" where
  "nameservers_copy_code =
     [Copy_list 59 ''address_list'', Copy_required T_string ''server'']"

definition nameservers_compare_code :: "compare_step list" where
  "nameservers_compare_code =
     [Compare_list 59 ''address_list'', Compare_ptr T_string ''server'']"

definition nameservers_get_code :: "(int \<times> get_case) list" where
  "nameservers_get_code =
     [(0, Get_list ''address_list''), (1, Get_string ''server'')]"

definition nameservers_make_code :: "(int \<times> new_child_case) list" where
  "nameservers_make_code =
     [(0, Make_in_list nameservers_f_address ''address_list''),
     (1, Make_field nameservers_f_server)]"

definition nameservers_drop_code :: "(int \<times> destroy_child_case) list" where
  "nameservers_drop_code =
     [(0, Drop_in_list 59 ''address_list''), (1, Drop_ptr T_string ''server'')]"

definition nameservers_code :: class_code where
  "nameservers_code = \<lparr>cc_struct = nameservers_struct, cc_linked = True, cc_new = nameservers_new_code,
     cc_destroy = nameservers_destroy_code, cc_copy = nameservers_copy_code, cc_compare = nameservers_compare_code,
     cc_get_child = nameservers_get_code, cc_new_child = nameservers_make_code, cc_destroy_child = nameservers_drop_code\<rparr>"

lemmas nameservers_code_defs =
  nameservers_struct_def nameservers_f_address_def nameservers_f_server_def
  nameservers_new_code_def nameservers_destroy_code_def nameservers_copy_code_def
  nameservers_compare_code_def nameservers_get_code_def nameservers_make_code_def
  nameservers_drop_code_def nameservers_code_def

lemma nameservers_regular: "regular nameservers_code"
  by (simp add: regular_def nameservers_code_defs)

lemma nameservers_fits: "fits_schema nameservers_children_list [] nameservers_code"
  by (simp add: fits_schema_def has_field_def list_field_def nameservers_children_list_def nameservers_code_defs)

end
