(* ===== verification/TreeWrapB.thy ===== *)
theory TreeWrapB
  imports ObjCode
begin

text \<open>
  The generated functions of src/src/iodefv2-tree-wrap.c, second half of the classes. For a class \<open>X\<close>
  the definitions are \<open>X_struct\<close> (its struct), \<open>X_f_<field>\<close> (the get, set and new functions of a
  field), \<open>X_new_code\<close>, \<open>X_destroy_code\<close>, \<open>X_copy_code\<close> and \<open>X_compare_code\<close> (the statements of these
  functions), and \<open>X_get_code\<close>, \<open>X_make_code\<close> and \<open>X_drop_code\<close> (the cases of the functions that take
  a child number). Theory Object says what the statements do. A class is named by its id.
\<close>

subsection \<open>windows registry keys modified (class 71)\<close>

definition windows_registry_keys_modified_struct :: "struct" where
  "windows_registry_keys_modified_struct =
     [(''observable_id'', F_ptr T_string), (''key_list'', F_listed 6)]"

definition windows_registry_keys_modified_f_observable_id :: accessor where
  "windows_registry_keys_modified_f_observable_id = \<lparr>getter = Getter_ptr ''observable_id'',
     setter = Setter_ptr T_string ''observable_id'', maker = Maker_ptr T_string ''observable_id''\<rparr>"

definition windows_registry_keys_modified_f_key :: accessor where
  "windows_registry_keys_modified_f_key = \<lparr>getter = Getter_next ''key_list'',
     setter = Setter_listed ''key_list'', maker = Maker_listed 6 ''key_list''\<rparr>"

definition windows_registry_keys_modified_new_code :: "new_step list" where
  "windows_registry_keys_modified_new_code =
     [Init_list ''key_list'']"

definition windows_registry_keys_modified_destroy_code :: "destroy_step list" where
  "windows_registry_keys_modified_destroy_code =
     [Destroy_ptr T_string ''observable_id'', Destroy_list 6 ''key_list'']"

definition windows_registry_keys_modified_copy_code :: "copy_step list" where
  "windows_registry_keys_modified_copy_code =
     [Copy_ptr T_string ''observable_id'', Copy_list 6 ''key_list'']"

definition windows_registry_keys_modified_compare_code :: "compare_step list" where
  "windows_registry_keys_modified_compare_code =
     [Compare_ptr T_string ''observable_id'', Compare_list 6 ''key_list'']"

definition windows_registry_keys_modified_get_code :: "(int \<times> get_case) list" where
  "windows_registry_keys_modified_get_code =
     [(0, Get_string ''observable_id''), (1, Get_list ''key_list'')]"

definition windows_registry_keys_modified_make_code :: "(int \<times> new_child_case) list" where
  "windows_registry_keys_modified_make_code =
     [(0, Make_field windows_registry_keys_modified_f_observable_id),
     (1, Make_in_list windows_registry_keys_modified_f_key ''key_list'')]"

definition windows_registry_keys_modified_drop_code :: "(int \<times> destroy_child_case) list" where
  "windows_registry_keys_modified_drop_code =
     [(0, Drop_ptr T_string ''observable_id''), (1, Drop_in_list 6 ''key_list'')]"

definition windows_registry_keys_modified_code :: class_code where
  "windows_registry_keys_modified_code = \<lparr>cc_struct = windows_registry_keys_modified_struct, cc_linked = True, cc_new = windows_registry_keys_modified_new_code,
     cc_destroy = windows_registry_keys_modified_destroy_code, cc_copy = windows_registry_keys_modified_copy_code, cc_compare = windows_registry_keys_modified_compare_code,
     cc_get_child = windows_registry_keys_modified_get_code, cc_new_child = windows_registry_keys_modified_make_code, cc_destroy_child = windows_registry_keys_modified_drop_code\<rparr>"

lemmas windows_registry_keys_modified_code_defs =
  windows_registry_keys_modified_struct_def
  windows_registry_keys_modified_f_observable_id_def
  windows_registry_keys_modified_f_key_def windows_registry_keys_modified_new_code_def
  windows_registry_keys_modified_destroy_code_def
  windows_registry_keys_modified_copy_code_def
  windows_registry_keys_modified_compare_code_def
  windows_registry_keys_modified_get_code_def windows_registry_keys_modified_make_code_def
  windows_registry_keys_modified_drop_code_def windows_registry_keys_modified_code_def

lemma windows_registry_keys_modified_regular: "regular windows_registry_keys_modified_code"
  by (simp add: regular_def windows_registry_keys_modified_code_defs)

lemma windows_registry_keys_modified_fits: "fits_schema windows_registry_keys_modified_children_list [] windows_registry_keys_modified_code"
  by (simp add: fits_schema_def has_field_def list_field_def windows_registry_keys_modified_children_list_def windows_registry_keys_modified_code_defs)

subsection \<open>campaign (class 73)\<close>

definition campaign_struct :: "struct" where
  "campaign_struct =
     [(''restriction'', F_optional), (''ext_restriction'', F_ptr T_string),
     (''url'', F_ptr T_string), (''additional_data_list'', F_listed 48),
     (''description'', F_ptr T_string), (''campaign_id'', F_ptr T_string)]"

definition campaign_f_restriction :: accessor where
  "campaign_f_restriction = \<lparr>getter = Getter_optional ''restriction'',
     setter = Setter_optional ''restriction'', maker = Maker_optional ''restriction''\<rparr>"

definition campaign_f_ext_restriction :: accessor where
  "campaign_f_ext_restriction = \<lparr>getter = Getter_ptr ''ext_restriction'',
     setter = Setter_ptr T_string ''ext_restriction'', maker = Maker_ptr T_string ''ext_restriction''\<rparr>"

definition campaign_f_url :: accessor where
  "campaign_f_url = \<lparr>getter = Getter_ptr ''url'',
     setter = Setter_ptr T_string ''url'', maker = Maker_ptr T_string ''url''\<rparr>"

definition campaign_f_additional_data :: accessor where
  "campaign_f_additional_data = \<lparr>getter = Getter_next ''additional_data_list'',
     setter = Setter_listed ''additional_data_list'', maker = Maker_listed 48 ''additional_data_list''\<rparr>"

definition campaign_f_description :: accessor where
  "campaign_f_description = \<lparr>getter = Getter_ptr ''description'',
     setter = Setter_ptr T_string ''description'', maker = Maker_ptr T_string ''description''\<rparr>"

definition campaign_f_campaign_id :: accessor where
  "campaign_f_campaign_id = \<lparr>getter = Getter_ptr ''campaign_id'',
     setter = Setter_ptr T_string ''campaign_id'', maker = Maker_ptr T_string ''campaign_id''\<rparr>"

definition campaign_new_code :: "new_step list" where
  "campaign_new_code =
     [Init_list ''additional_data_list'']"

definition campaign_destroy_code :: "destroy_step list" where
  "campaign_destroy_code =
     [Destroy_ptr T_string ''ext_restriction'', Destroy_ptr T_string ''url'',
     Destroy_list 48 ''additional_data_list'', Destroy_ptr T_string ''description'',
     Destroy_ptr T_string ''campaign_id'']"

definition campaign_copy_code :: "copy_step list" where
  "campaign_copy_code =
     [Copy_optional ''restriction'', Copy_ptr T_string ''ext_restriction'',
     Copy_ptr T_string ''url'', Copy_list 48 ''additional_data_list'',
     Copy_ptr T_string ''description'', Copy_ptr T_string ''campaign_id'']"

definition campaign_compare_code :: "compare_step list" where
  "campaign_compare_code =
     [Compare_optional ''restriction'', Compare_ptr T_string ''ext_restriction'',
     Compare_ptr T_string ''url'', Compare_list 48 ''additional_data_list'',
     Compare_ptr T_string ''description'', Compare_ptr T_string ''campaign_id'']"

definition campaign_get_code :: "(int \<times> get_case) list" where
  "campaign_get_code =
     [(0, Get_optional_enum ''restriction'' 72), (1, Get_string ''ext_restriction''),
     (2, Get_string ''url''), (3, Get_list ''additional_data_list''),
     (4, Get_string ''description''), (5, Get_string ''campaign_id'')]"

definition campaign_make_code :: "(int \<times> new_child_case) list" where
  "campaign_make_code =
     [(0, Make_field campaign_f_restriction), (1, Make_field campaign_f_ext_restriction),
     (2, Make_field campaign_f_url),
     (3, Make_in_list campaign_f_additional_data ''additional_data_list''),
     (4, Make_field campaign_f_description), (5, Make_field campaign_f_campaign_id)]"

definition campaign_drop_code :: "(int \<times> destroy_child_case) list" where
  "campaign_drop_code =
     [(0, Drop_optional ''restriction''), (1, Drop_ptr T_string ''ext_restriction''),
     (2, Drop_ptr T_string ''url''), (3, Drop_in_list 48 ''additional_data_list''),
     (4, Drop_ptr T_string ''description''), (5, Drop_ptr T_string ''campaign_id'')]"

definition campaign_code :: class_code where
  "campaign_code = \<lparr>cc_struct = campaign_struct, cc_linked = True, cc_new = campaign_new_code,
     cc_destroy = campaign_destroy_code, cc_copy = campaign_copy_code, cc_compare = campaign_compare_code,
     cc_get_child = campaign_get_code, cc_new_child = campaign_make_code, cc_destroy_child = campaign_drop_code\<rparr>"

lemmas campaign_code_defs =
  campaign_struct_def campaign_f_restriction_def campaign_f_ext_restriction_def
  campaign_f_url_def campaign_f_additional_data_def campaign_f_description_def
  campaign_f_campaign_id_def campaign_new_code_def campaign_destroy_code_def
  campaign_copy_code_def campaign_compare_code_def campaign_get_code_def
  campaign_make_code_def campaign_drop_code_def campaign_code_def

lemma campaign_regular: "regular campaign_code"
  by (simp add: regular_def campaign_code_defs)

lemma campaign_fits: "fits_schema campaign_children_list [] campaign_code"
  by (simp add: fits_schema_def has_field_def list_field_def campaign_children_list_def campaign_code_defs)

subsection \<open>assessment (class 76)\<close>

definition assessment_struct :: "struct" where
  "assessment_struct =
     [(''restriction'', F_optional), (''ext_restriction'', F_ptr T_string),
     (''occurrence'', F_optional), (''observable_id'', F_ptr T_string),
     (''intended_impact_list'', F_listed 45), (''confidence'', F_ptr (T_class 30)),
     (''time_impact_list'', F_listed 16), (''additional_data_list'', F_listed 48),
     (''monetary_impact_list'', F_listed 54), (''counter_list'', F_listed 52),
     (''system_impact_list'', F_listed 34), (''business_impact_list'', F_listed 39),
     (''incident_category'', F_ptr T_string), (''mitigating_factor'', F_ptr T_string),
     (''cause'', F_ptr T_string)]"

definition assessment_f_restriction :: accessor where
  "assessment_f_restriction = \<lparr>getter = Getter_optional ''restriction'',
     setter = Setter_optional ''restriction'', maker = Maker_optional ''restriction''\<rparr>"

definition assessment_f_ext_restriction :: accessor where
  "assessment_f_ext_restriction = \<lparr>getter = Getter_ptr ''ext_restriction'',
     setter = Setter_ptr T_string ''ext_restriction'', maker = Maker_ptr T_string ''ext_restriction''\<rparr>"

definition assessment_f_occurrence :: accessor where
  "assessment_f_occurrence = \<lparr>getter = Getter_optional ''occurrence'',
     setter = Setter_optional ''occurrence'', maker = Maker_optional ''occurrence''\<rparr>"

definition assessment_f_observable_id :: accessor where
  "assessment_f_observable_id = \<lparr>getter = Getter_ptr ''observable_id'',
     setter = Setter_ptr T_string ''observable_id'', maker = Maker_ptr T_string ''observable_id''\<rparr>"

definition assessment_f_intended_impact :: accessor where
  "assessment_f_intended_impact = \<lparr>getter = Getter_next ''intended_impact_list'',
     setter = Setter_listed ''intended_impact_list'', maker = Maker_listed 45 ''intended_impact_list''\<rparr>"

definition assessment_f_confidence :: accessor where
  "assessment_f_confidence = \<lparr>getter = Getter_ptr ''confidence'',
     setter = Setter_ptr (T_class 30) ''confidence'', maker = Maker_ptr (T_class 30) ''confidence''\<rparr>"

definition assessment_f_time_impact :: accessor where
  "assessment_f_time_impact = \<lparr>getter = Getter_next ''time_impact_list'',
     setter = Setter_listed ''time_impact_list'', maker = Maker_listed 16 ''time_impact_list''\<rparr>"

definition assessment_f_additional_data :: accessor where
  "assessment_f_additional_data = \<lparr>getter = Getter_next ''additional_data_list'',
     setter = Setter_listed ''additional_data_list'', maker = Maker_listed 48 ''additional_data_list''\<rparr>"

definition assessment_f_monetary_impact :: accessor where
  "assessment_f_monetary_impact = \<lparr>getter = Getter_next ''monetary_impact_list'',
     setter = Setter_listed ''monetary_impact_list'', maker = Maker_listed 54 ''monetary_impact_list''\<rparr>"

definition assessment_f_counter :: accessor where
  "assessment_f_counter = \<lparr>getter = Getter_next ''counter_list'',
     setter = Setter_listed ''counter_list'', maker = Maker_listed 52 ''counter_list''\<rparr>"

definition assessment_f_system_impact :: accessor where
  "assessment_f_system_impact = \<lparr>getter = Getter_next ''system_impact_list'',
     setter = Setter_listed ''system_impact_list'', maker = Maker_listed 34 ''system_impact_list''\<rparr>"

definition assessment_f_business_impact :: accessor where
  "assessment_f_business_impact = \<lparr>getter = Getter_next ''business_impact_list'',
     setter = Setter_listed ''business_impact_list'', maker = Maker_listed 39 ''business_impact_list''\<rparr>"

definition assessment_f_incident_category :: accessor where
  "assessment_f_incident_category = \<lparr>getter = Getter_ptr ''incident_category'',
     setter = Setter_ptr T_string ''incident_category'', maker = Maker_ptr T_string ''incident_category''\<rparr>"

definition assessment_f_mitigating_factor :: accessor where
  "assessment_f_mitigating_factor = \<lparr>getter = Getter_ptr ''mitigating_factor'',
     setter = Setter_ptr T_string ''mitigating_factor'', maker = Maker_ptr T_string ''mitigating_factor''\<rparr>"

definition assessment_f_cause :: accessor where
  "assessment_f_cause = \<lparr>getter = Getter_ptr ''cause'',
     setter = Setter_ptr T_string ''cause'', maker = Maker_ptr T_string ''cause''\<rparr>"

definition assessment_new_code :: "new_step list" where
  "assessment_new_code =
     [Init_list ''intended_impact_list'', Init_list ''time_impact_list'',
     Init_list ''additional_data_list'', Init_list ''monetary_impact_list'',
     Init_list ''counter_list'', Init_list ''system_impact_list'',
     Init_list ''business_impact_list'']"

definition assessment_destroy_code :: "destroy_step list" where
  "assessment_destroy_code =
     [Destroy_ptr T_string ''ext_restriction'', Destroy_ptr T_string ''observable_id'',
     Destroy_list 45 ''intended_impact_list'', Destroy_ptr (T_class 30) ''confidence'',
     Destroy_list 16 ''time_impact_list'', Destroy_list 48 ''additional_data_list'',
     Destroy_list 54 ''monetary_impact_list'', Destroy_list 52 ''counter_list'',
     Destroy_list 34 ''system_impact_list'', Destroy_list 39 ''business_impact_list'',
     Destroy_ptr T_string ''incident_category'', Destroy_ptr T_string ''mitigating_factor'',
     Destroy_ptr T_string ''cause'']"

definition assessment_copy_code :: "copy_step list" where
  "assessment_copy_code =
     [Copy_optional ''restriction'', Copy_ptr T_string ''ext_restriction'',
     Copy_optional ''occurrence'', Copy_ptr T_string ''observable_id'',
     Copy_list 45 ''intended_impact_list'', Copy_ptr (T_class 30) ''confidence'',
     Copy_list 16 ''time_impact_list'', Copy_list 48 ''additional_data_list'',
     Copy_list 54 ''monetary_impact_list'', Copy_list 52 ''counter_list'',
     Copy_list 34 ''system_impact_list'', Copy_list 39 ''business_impact_list'',
     Copy_ptr T_string ''incident_category'', Copy_ptr T_string ''mitigating_factor'',
     Copy_ptr T_string ''cause'']"

definition assessment_compare_code :: "compare_step list" where
  "assessment_compare_code =
     [Compare_optional ''restriction'', Compare_ptr T_string ''ext_restriction'',
     Compare_optional ''occurrence'', Compare_ptr T_string ''observable_id'',
     Compare_list 45 ''intended_impact_list'', Compare_ptr (T_class 30) ''confidence'',
     Compare_list 16 ''time_impact_list'', Compare_list 48 ''additional_data_list'',
     Compare_list 54 ''monetary_impact_list'', Compare_list 52 ''counter_list'',
     Compare_list 34 ''system_impact_list'', Compare_list 39 ''business_impact_list'',
     Compare_ptr T_string ''incident_category'', Compare_ptr T_string ''mitigating_factor'',
     Compare_ptr T_string ''cause'']"

definition assessment_get_code :: "(int \<times> get_case) list" where
  "assessment_get_code =
     [(0, Get_optional_enum ''restriction'' 74), (1, Get_string ''ext_restriction''),
     (2, Get_optional_enum ''occurrence'' 75), (3, Get_string ''observable_id''),
     (4, Get_list ''intended_impact_list''), (5, Get_object ''confidence''),
     (6, Get_list ''time_impact_list''), (7, Get_list ''additional_data_list''),
     (8, Get_list ''monetary_impact_list''), (9, Get_list ''counter_list''),
     (10, Get_list ''system_impact_list''), (11, Get_list ''business_impact_list''),
     (12, Get_string ''incident_category''), (13, Get_string ''mitigating_factor''),
     (14, Get_string ''cause'')]"

definition assessment_make_code :: "(int \<times> new_child_case) list" where
  "assessment_make_code =
     [(0, Make_field assessment_f_restriction), (1, Make_field assessment_f_ext_restriction),
     (2, Make_field assessment_f_occurrence), (3, Make_field assessment_f_observable_id),
     (4, Make_in_list assessment_f_intended_impact ''intended_impact_list''),
     (5, Make_field assessment_f_confidence),
     (6, Make_in_list assessment_f_time_impact ''time_impact_list''),
     (7, Make_in_list assessment_f_additional_data ''additional_data_list''),
     (8, Make_in_list assessment_f_monetary_impact ''monetary_impact_list''),
     (9, Make_in_list assessment_f_counter ''counter_list''),
     (10, Make_in_list assessment_f_system_impact ''system_impact_list''),
     (11, Make_in_list assessment_f_business_impact ''business_impact_list''),
     (12, Make_field assessment_f_incident_category),
     (13, Make_field assessment_f_mitigating_factor), (14, Make_field assessment_f_cause)]"

definition assessment_drop_code :: "(int \<times> destroy_child_case) list" where
  "assessment_drop_code =
     [(0, Drop_optional ''restriction''), (1, Drop_ptr T_string ''ext_restriction''),
     (2, Drop_optional ''occurrence''), (3, Drop_ptr T_string ''observable_id''),
     (4, Drop_in_list 45 ''intended_impact_list''), (5, Drop_ptr (T_class 30) ''confidence''),
     (6, Drop_in_list 16 ''time_impact_list''), (7, Drop_in_list 48 ''additional_data_list''),
     (8, Drop_in_list 54 ''monetary_impact_list''), (9, Drop_in_list 52 ''counter_list''),
     (10, Drop_in_list 34 ''system_impact_list''),
     (11, Drop_in_list 39 ''business_impact_list''),
     (12, Drop_ptr T_string ''incident_category''),
     (13, Drop_ptr T_string ''mitigating_factor''), (14, Drop_ptr T_string ''cause'')]"

definition assessment_code :: class_code where
  "assessment_code = \<lparr>cc_struct = assessment_struct, cc_linked = True, cc_new = assessment_new_code,
     cc_destroy = assessment_destroy_code, cc_copy = assessment_copy_code, cc_compare = assessment_compare_code,
     cc_get_child = assessment_get_code, cc_new_child = assessment_make_code, cc_destroy_child = assessment_drop_code\<rparr>"

lemmas assessment_code_defs =
  assessment_struct_def assessment_f_restriction_def assessment_f_ext_restriction_def
  assessment_f_occurrence_def assessment_f_observable_id_def
  assessment_f_intended_impact_def assessment_f_confidence_def assessment_f_time_impact_def
  assessment_f_additional_data_def assessment_f_monetary_impact_def assessment_f_counter_def
  assessment_f_system_impact_def assessment_f_business_impact_def
  assessment_f_incident_category_def assessment_f_mitigating_factor_def
  assessment_f_cause_def assessment_new_code_def assessment_destroy_code_def
  assessment_copy_code_def assessment_compare_code_def assessment_get_code_def
  assessment_make_code_def assessment_drop_code_def assessment_code_def

lemma assessment_regular: "regular assessment_code"
  by (simp add: regular_def assessment_code_defs)

lemma assessment_fits: "fits_schema assessment_children_list [] assessment_code"
  by (simp add: fits_schema_def has_field_def list_field_def assessment_children_list_def assessment_code_defs)

subsection \<open>attack phase (class 77)\<close>

definition attack_phase_struct :: "struct" where
  "attack_phase_struct =
     [(''url'', F_ptr T_string), (''additional_data_list'', F_listed 48),
     (''description'', F_ptr T_string), (''attack_phase_id'', F_ptr T_string)]"

definition attack_phase_f_url :: accessor where
  "attack_phase_f_url = \<lparr>getter = Getter_ptr ''url'',
     setter = Setter_ptr T_string ''url'', maker = Maker_ptr T_string ''url''\<rparr>"

definition attack_phase_f_additional_data :: accessor where
  "attack_phase_f_additional_data = \<lparr>getter = Getter_next ''additional_data_list'',
     setter = Setter_listed ''additional_data_list'', maker = Maker_listed 48 ''additional_data_list''\<rparr>"

definition attack_phase_f_description :: accessor where
  "attack_phase_f_description = \<lparr>getter = Getter_ptr ''description'',
     setter = Setter_ptr T_string ''description'', maker = Maker_ptr T_string ''description''\<rparr>"

definition attack_phase_f_attack_phase_id :: accessor where
  "attack_phase_f_attack_phase_id = \<lparr>getter = Getter_ptr ''attack_phase_id'',
     setter = Setter_ptr T_string ''attack_phase_id'', maker = Maker_ptr T_string ''attack_phase_id''\<rparr>"

definition attack_phase_new_code :: "new_step list" where
  "attack_phase_new_code =
     [Init_list ''additional_data_list'']"

definition attack_phase_destroy_code :: "destroy_step list" where
  "attack_phase_destroy_code =
     [Destroy_ptr T_string ''url'', Destroy_list 48 ''additional_data_list'',
     Destroy_ptr T_string ''description'', Destroy_ptr T_string ''attack_phase_id'']"

definition attack_phase_copy_code :: "copy_step list" where
  "attack_phase_copy_code =
     [Copy_ptr T_string ''url'', Copy_list 48 ''additional_data_list'',
     Copy_ptr T_string ''description'', Copy_ptr T_string ''attack_phase_id'']"

definition attack_phase_compare_code :: "compare_step list" where
  "attack_phase_compare_code =
     [Compare_ptr T_string ''url'', Compare_list 48 ''additional_data_list'',
     Compare_ptr T_string ''description'', Compare_ptr T_string ''attack_phase_id'']"

definition attack_phase_get_code :: "(int \<times> get_case) list" where
  "attack_phase_get_code =
     [(0, Get_string ''url''), (1, Get_list ''additional_data_list''),
     (2, Get_string ''description''), (3, Get_string ''attack_phase_id'')]"

definition attack_phase_make_code :: "(int \<times> new_child_case) list" where
  "attack_phase_make_code =
     [(0, Make_field attack_phase_f_url),
     (1, Make_in_list attack_phase_f_additional_data ''additional_data_list''),
     (2, Make_field attack_phase_f_description), (3, Make_field attack_phase_f_attack_phase_id)]"

definition attack_phase_drop_code :: "(int \<times> destroy_child_case) list" where
  "attack_phase_drop_code =
     [(0, Drop_ptr T_string ''url''), (1, Drop_in_list 48 ''additional_data_list''),
     (2, Drop_ptr T_string ''description''), (3, Drop_ptr T_string ''attack_phase_id'')]"

definition attack_phase_code :: class_code where
  "attack_phase_code = \<lparr>cc_struct = attack_phase_struct, cc_linked = True, cc_new = attack_phase_new_code,
     cc_destroy = attack_phase_destroy_code, cc_copy = attack_phase_copy_code, cc_compare = attack_phase_compare_code,
     cc_get_child = attack_phase_get_code, cc_new_child = attack_phase_make_code, cc_destroy_child = attack_phase_drop_code\<rparr>"

lemmas attack_phase_code_defs =
  attack_phase_struct_def attack_phase_f_url_def attack_phase_f_additional_data_def
  attack_phase_f_description_def attack_phase_f_attack_phase_id_def
  attack_phase_new_code_def attack_phase_destroy_code_def attack_phase_copy_code_def
  attack_phase_compare_code_def attack_phase_get_code_def attack_phase_make_code_def
  attack_phase_drop_code_def attack_phase_code_def

lemma attack_phase_regular: "regular attack_phase_code"
  by (simp add: regular_def attack_phase_code_defs)

lemma attack_phase_fits: "fits_schema attack_phase_children_list [] attack_phase_code"
  by (simp add: fits_schema_def has_field_def list_field_def attack_phase_children_list_def attack_phase_code_defs)

subsection \<open>contact (class 81)\<close>

definition contact_struct :: "struct" where
  "contact_struct =
     [(''restriction'', F_optional), (''role'', F_int), (''ext_type'', F_ptr T_string),
     (''ext_role'', F_ptr T_string), (''ext_restriction'', F_ptr T_string), (''type'', F_int),
     (''additional_data_list'', F_listed 48), (''contact_title'', F_ptr T_string),
     (''description'', F_ptr T_string), (''telephone_list'', F_listed 3),
     (''email_list'', F_listed 42), (''contact_name'', F_ptr T_string),
     (''timezone'', F_ptr T_string), (''postal_address_list'', F_listed 22),
     (''registry_handle_list'', F_listed 12)]"

definition contact_f_restriction :: accessor where
  "contact_f_restriction = \<lparr>getter = Getter_optional ''restriction'',
     setter = Setter_optional ''restriction'', maker = Maker_optional ''restriction''\<rparr>"

definition contact_f_role :: accessor where
  "contact_f_role = \<lparr>getter = Getter_int ''role'',
     setter = Setter_int ''role'', maker = Maker_int ''role''\<rparr>"

definition contact_f_ext_type :: accessor where
  "contact_f_ext_type = \<lparr>getter = Getter_ptr ''ext_type'',
     setter = Setter_ptr T_string ''ext_type'', maker = Maker_ptr T_string ''ext_type''\<rparr>"

definition contact_f_ext_role :: accessor where
  "contact_f_ext_role = \<lparr>getter = Getter_ptr ''ext_role'',
     setter = Setter_ptr T_string ''ext_role'', maker = Maker_ptr T_string ''ext_role''\<rparr>"

definition contact_f_ext_restriction :: accessor where
  "contact_f_ext_restriction = \<lparr>getter = Getter_ptr ''ext_restriction'',
     setter = Setter_ptr T_string ''ext_restriction'', maker = Maker_ptr T_string ''ext_restriction''\<rparr>"

definition contact_f_type :: accessor where
  "contact_f_type = \<lparr>getter = Getter_int ''type'',
     setter = Setter_int ''type'', maker = Maker_int ''type''\<rparr>"

definition contact_f_additional_data :: accessor where
  "contact_f_additional_data = \<lparr>getter = Getter_next ''additional_data_list'',
     setter = Setter_listed ''additional_data_list'', maker = Maker_listed 48 ''additional_data_list''\<rparr>"

definition contact_f_contact_title :: accessor where
  "contact_f_contact_title = \<lparr>getter = Getter_ptr ''contact_title'',
     setter = Setter_ptr T_string ''contact_title'', maker = Maker_ptr T_string ''contact_title''\<rparr>"

definition contact_f_description :: accessor where
  "contact_f_description = \<lparr>getter = Getter_ptr ''description'',
     setter = Setter_ptr T_string ''description'', maker = Maker_ptr T_string ''description''\<rparr>"

definition contact_f_telephone :: accessor where
  "contact_f_telephone = \<lparr>getter = Getter_next ''telephone_list'',
     setter = Setter_listed ''telephone_list'', maker = Maker_listed 3 ''telephone_list''\<rparr>"

definition contact_f_email :: accessor where
  "contact_f_email = \<lparr>getter = Getter_next ''email_list'',
     setter = Setter_listed ''email_list'', maker = Maker_listed 42 ''email_list''\<rparr>"

definition contact_f_contact_name :: accessor where
  "contact_f_contact_name = \<lparr>getter = Getter_ptr ''contact_name'',
     setter = Setter_ptr T_string ''contact_name'', maker = Maker_ptr T_string ''contact_name''\<rparr>"

definition contact_f_timezone :: accessor where
  "contact_f_timezone = \<lparr>getter = Getter_ptr ''timezone'',
     setter = Setter_ptr T_string ''timezone'', maker = Maker_ptr T_string ''timezone''\<rparr>"

definition contact_f_postal_address :: accessor where
  "contact_f_postal_address = \<lparr>getter = Getter_next ''postal_address_list'',
     setter = Setter_listed ''postal_address_list'', maker = Maker_listed 22 ''postal_address_list''\<rparr>"

definition contact_f_registry_handle :: accessor where
  "contact_f_registry_handle = \<lparr>getter = Getter_next ''registry_handle_list'',
     setter = Setter_listed ''registry_handle_list'', maker = Maker_listed 12 ''registry_handle_list''\<rparr>"

definition contact_new_code :: "new_step list" where
  "contact_new_code =
     [Init_list ''additional_data_list'', Init_list ''telephone_list'', Init_list ''email_list'',
     Init_list ''postal_address_list'', Init_list ''registry_handle_list'']"

definition contact_destroy_code :: "destroy_step list" where
  "contact_destroy_code =
     [Destroy_ptr T_string ''ext_type'', Destroy_ptr T_string ''ext_role'',
     Destroy_ptr T_string ''ext_restriction'', Destroy_list 48 ''additional_data_list'',
     Destroy_ptr T_string ''contact_title'', Destroy_ptr T_string ''description'',
     Destroy_list 3 ''telephone_list'', Destroy_list 42 ''email_list'',
     Destroy_ptr T_string ''contact_name'', Destroy_ptr T_string ''timezone'',
     Destroy_list 22 ''postal_address_list'', Destroy_list 12 ''registry_handle_list'']"

definition contact_copy_code :: "copy_step list" where
  "contact_copy_code =
     [Copy_optional ''restriction'', Copy_int ''role'', Copy_ptr T_string ''ext_type'',
     Copy_ptr T_string ''ext_role'', Copy_ptr T_string ''ext_restriction'', Copy_int ''type'',
     Copy_list 48 ''additional_data_list'', Copy_ptr T_string ''contact_title'',
     Copy_ptr T_string ''description'', Copy_list 3 ''telephone_list'',
     Copy_list 42 ''email_list'', Copy_ptr T_string ''contact_name'',
     Copy_ptr T_string ''timezone'', Copy_list 22 ''postal_address_list'',
     Copy_list 12 ''registry_handle_list'']"

definition contact_compare_code :: "compare_step list" where
  "contact_compare_code =
     [Compare_optional ''restriction'', Compare_int ''role'', Compare_ptr T_string ''ext_type'',
     Compare_ptr T_string ''ext_role'', Compare_ptr T_string ''ext_restriction'',
     Compare_int ''type'', Compare_list 48 ''additional_data_list'',
     Compare_ptr T_string ''contact_title'', Compare_ptr T_string ''description'',
     Compare_list 3 ''telephone_list'', Compare_list 42 ''email_list'',
     Compare_ptr T_string ''contact_name'', Compare_ptr T_string ''timezone'',
     Compare_list 22 ''postal_address_list'', Compare_list 12 ''registry_handle_list'']"

definition contact_get_code :: "(int \<times> get_case) list" where
  "contact_get_code =
     [(0, Get_optional_enum ''restriction'' 78), (1, Get_enum ''role'' 79),
     (2, Get_string ''ext_type''), (3, Get_string ''ext_role''),
     (4, Get_string ''ext_restriction''), (5, Get_enum ''type'' 80),
     (6, Get_list ''additional_data_list''), (7, Get_string ''contact_title''),
     (8, Get_string ''description''), (9, Get_list ''telephone_list''),
     (10, Get_list ''email_list''), (11, Get_string ''contact_name''),
     (12, Get_string ''timezone''), (13, Get_list ''postal_address_list''),
     (14, Get_list ''registry_handle_list'')]"

definition contact_make_code :: "(int \<times> new_child_case) list" where
  "contact_make_code =
     [(0, Make_field contact_f_restriction), (1, Make_field contact_f_role),
     (2, Make_field contact_f_ext_type), (3, Make_field contact_f_ext_role),
     (4, Make_field contact_f_ext_restriction), (5, Make_field contact_f_type),
     (6, Make_in_list contact_f_additional_data ''additional_data_list''),
     (7, Make_field contact_f_contact_title), (8, Make_field contact_f_description),
     (9, Make_in_list contact_f_telephone ''telephone_list''),
     (10, Make_in_list contact_f_email ''email_list''), (11, Make_field contact_f_contact_name),
     (12, Make_field contact_f_timezone),
     (13, Make_in_list contact_f_postal_address ''postal_address_list''),
     (14, Make_in_list contact_f_registry_handle ''registry_handle_list'')]"

definition contact_drop_code :: "(int \<times> destroy_child_case) list" where
  "contact_drop_code =
     [(0, Drop_optional ''restriction''), (1, Drop_int ''role''),
     (2, Drop_ptr T_string ''ext_type''), (3, Drop_ptr T_string ''ext_role''),
     (4, Drop_ptr T_string ''ext_restriction''), (5, Drop_int ''type''),
     (6, Drop_in_list 48 ''additional_data_list''), (7, Drop_ptr T_string ''contact_title''),
     (8, Drop_ptr T_string ''description''), (9, Drop_in_list 3 ''telephone_list''),
     (10, Drop_in_list 42 ''email_list''), (11, Drop_ptr T_string ''contact_name''),
     (12, Drop_ptr T_string ''timezone''), (13, Drop_in_list 22 ''postal_address_list''),
     (14, Drop_in_list 12 ''registry_handle_list'')]"

definition contact_code :: class_code where
  "contact_code = \<lparr>cc_struct = contact_struct, cc_linked = True, cc_new = contact_new_code,
     cc_destroy = contact_destroy_code, cc_copy = contact_copy_code, cc_compare = contact_compare_code,
     cc_get_child = contact_get_code, cc_new_child = contact_make_code, cc_destroy_child = contact_drop_code\<rparr>"

lemmas contact_code_defs =
  contact_struct_def contact_f_restriction_def contact_f_role_def contact_f_ext_type_def
  contact_f_ext_role_def contact_f_ext_restriction_def contact_f_type_def
  contact_f_additional_data_def contact_f_contact_title_def contact_f_description_def
  contact_f_telephone_def contact_f_email_def contact_f_contact_name_def
  contact_f_timezone_def contact_f_postal_address_def contact_f_registry_handle_def
  contact_new_code_def contact_destroy_code_def contact_copy_code_def
  contact_compare_code_def contact_get_code_def contact_make_code_def contact_drop_code_def
  contact_code_def

lemma contact_regular: "regular contact_code"
  by (simp add: regular_def contact_code_defs)

lemma contact_fits: "fits_schema contact_children_list [] contact_code"
  by (simp add: fits_schema_def has_field_def list_field_def contact_children_list_def contact_code_defs)

subsection \<open>related activity (class 83)\<close>

definition related_activity_struct :: "struct" where
  "related_activity_struct =
     [(''restriction'', F_optional), (''ext_restriction'', F_ptr T_string),
     (''additional_data_list'', F_listed 48), (''confidence'', F_ptr (T_class 30)),
     (''description'', F_ptr T_string), (''campaign_list'', F_listed 73),
     (''url'', F_ptr T_string), (''threat_actor_list'', F_listed 64),
     (''indicator_id_list'', F_listed 56), (''incident_id_list'', F_listed 26)]"

definition related_activity_f_restriction :: accessor where
  "related_activity_f_restriction = \<lparr>getter = Getter_optional ''restriction'',
     setter = Setter_optional ''restriction'', maker = Maker_optional ''restriction''\<rparr>"

definition related_activity_f_ext_restriction :: accessor where
  "related_activity_f_ext_restriction = \<lparr>getter = Getter_ptr ''ext_restriction'',
     setter = Setter_ptr T_string ''ext_restriction'', maker = Maker_ptr T_string ''ext_restriction''\<rparr>"

definition related_activity_f_additional_data :: accessor where
  "related_activity_f_additional_data = \<lparr>getter = Getter_next ''additional_data_list'',
     setter = Setter_listed ''additional_data_list'', maker = Maker_listed 48 ''additional_data_list''\<rparr>"

definition related_activity_f_confidence :: accessor where
  "related_activity_f_confidence = \<lparr>getter = Getter_ptr ''confidence'',
     setter = Setter_ptr (T_class 30) ''confidence'', maker = Maker_ptr (T_class 30) ''confidence''\<rparr>"

definition related_activity_f_description :: accessor where
  "related_activity_f_description = \<lparr>getter = Getter_ptr ''description'',
     setter = Setter_ptr T_string ''description'', maker = Maker_ptr T_string ''description''\<rparr>"

definition related_activity_f_campaign :: accessor where
  "related_activity_f_campaign = \<lparr>getter = Getter_next ''campaign_list'',
     setter = Setter_listed ''campaign_list'', maker = Maker_listed 73 ''campaign_list''\<rparr>"

definition related_activity_f_url :: accessor where
  "related_activity_f_url = \<lparr>getter = Getter_ptr ''url'',
     setter = Setter_ptr T_string ''url'', maker = Maker_ptr T_string ''url''\<rparr>"

definition related_activity_f_threat_actor :: accessor where
  "related_activity_f_threat_actor = \<lparr>getter = Getter_next ''threat_actor_list'',
     setter = Setter_listed ''threat_actor_list'', maker = Maker_listed 64 ''threat_actor_list''\<rparr>"

definition related_activity_f_indicator_id :: accessor where
  "related_activity_f_indicator_id = \<lparr>getter = Getter_next ''indicator_id_list'',
     setter = Setter_listed ''indicator_id_list'', maker = Maker_listed 56 ''indicator_id_list''\<rparr>"

definition related_activity_f_incident_id :: accessor where
  "related_activity_f_incident_id = \<lparr>getter = Getter_next ''incident_id_list'',
     setter = Setter_listed ''incident_id_list'', maker = Maker_listed 26 ''incident_id_list''\<rparr>"

definition related_activity_new_code :: "new_step list" where
  "related_activity_new_code =
     [Init_list ''additional_data_list'', Init_list ''campaign_list'',
     Init_list ''threat_actor_list'', Init_list ''indicator_id_list'',
     Init_list ''incident_id_list'']"

definition related_activity_destroy_code :: "destroy_step list" where
  "related_activity_destroy_code =
     [Destroy_ptr T_string ''ext_restriction'', Destroy_list 48 ''additional_data_list'',
     Destroy_ptr (T_class 30) ''confidence'', Destroy_ptr T_string ''description'',
     Destroy_list 73 ''campaign_list'', Destroy_ptr T_string ''url'',
     Destroy_list 64 ''threat_actor_list'', Destroy_list 56 ''indicator_id_list'',
     Destroy_list 26 ''incident_id_list'']"

definition related_activity_copy_code :: "copy_step list" where
  "related_activity_copy_code =
     [Copy_optional ''restriction'', Copy_ptr T_string ''ext_restriction'',
     Copy_list 48 ''additional_data_list'', Copy_ptr (T_class 30) ''confidence'',
     Copy_ptr T_string ''description'', Copy_list 73 ''campaign_list'',
     Copy_ptr T_string ''url'', Copy_list 64 ''threat_actor_list'',
     Copy_list 56 ''indicator_id_list'', Copy_list 26 ''incident_id_list'']"

definition related_activity_compare_code :: "compare_step list" where
  "related_activity_compare_code =
     [Compare_optional ''restriction'', Compare_ptr T_string ''ext_restriction'',
     Compare_list 48 ''additional_data_list'', Compare_ptr (T_class 30) ''confidence'',
     Compare_ptr T_string ''description'', Compare_list 73 ''campaign_list'',
     Compare_ptr T_string ''url'', Compare_list 64 ''threat_actor_list'',
     Compare_list 56 ''indicator_id_list'', Compare_list 26 ''incident_id_list'']"

definition related_activity_get_code :: "(int \<times> get_case) list" where
  "related_activity_get_code =
     [(0, Get_optional_enum ''restriction'' 82), (1, Get_string ''ext_restriction''),
     (2, Get_list ''additional_data_list''), (3, Get_object ''confidence''),
     (4, Get_string ''description''), (5, Get_list ''campaign_list''), (6, Get_string ''url''),
     (7, Get_list ''threat_actor_list''), (8, Get_list ''indicator_id_list''),
     (9, Get_list ''incident_id_list'')]"

definition related_activity_make_code :: "(int \<times> new_child_case) list" where
  "related_activity_make_code =
     [(0, Make_field related_activity_f_restriction),
     (1, Make_field related_activity_f_ext_restriction),
     (2, Make_in_list related_activity_f_additional_data ''additional_data_list''),
     (3, Make_field related_activity_f_confidence),
     (4, Make_field related_activity_f_description),
     (5, Make_in_list related_activity_f_campaign ''campaign_list''),
     (6, Make_field related_activity_f_url),
     (7, Make_in_list related_activity_f_threat_actor ''threat_actor_list''),
     (8, Make_in_list related_activity_f_indicator_id ''indicator_id_list''),
     (9, Make_in_list related_activity_f_incident_id ''incident_id_list'')]"

definition related_activity_drop_code :: "(int \<times> destroy_child_case) list" where
  "related_activity_drop_code =
     [(0, Drop_optional ''restriction''), (1, Drop_ptr T_string ''ext_restriction''),
     (2, Drop_in_list 48 ''additional_data_list''), (3, Drop_ptr (T_class 30) ''confidence''),
     (4, Drop_ptr T_string ''description''), (5, Drop_in_list 73 ''campaign_list''),
     (6, Drop_ptr T_string ''url''), (7, Drop_in_list 64 ''threat_actor_list''),
     (8, Drop_in_list 56 ''indicator_id_list''), (9, Drop_in_list 26 ''incident_id_list'')]"

definition related_activity_code :: class_code where
  "related_activity_code = \<lparr>cc_struct = related_activity_struct, cc_linked = False, cc_new = related_activity_new_code,
     cc_destroy = related_activity_destroy_code, cc_copy = related_activity_copy_code, cc_compare = related_activity_compare_code,
     cc_get_child = related_activity_get_code, cc_new_child = related_activity_make_code, cc_destroy_child = related_activity_drop_code\<rparr>"

lemmas related_activity_code_defs =
  related_activity_struct_def related_activity_f_restriction_def
  related_activity_f_ext_restriction_def related_activity_f_additional_data_def
  related_activity_f_confidence_def related_activity_f_description_def
  related_activity_f_campaign_def related_activity_f_url_def
  related_activity_f_threat_actor_def related_activity_f_indicator_id_def
  related_activity_f_incident_id_def related_activity_new_code_def
  related_activity_destroy_code_def related_activity_copy_code_def
  related_activity_compare_code_def related_activity_get_code_def
  related_activity_make_code_def related_activity_drop_code_def related_activity_code_def

lemma related_activity_regular: "regular related_activity_code"
  by (simp add: regular_def related_activity_code_defs)

lemma related_activity_fits: "fits_schema related_activity_children_list [] related_activity_code"
  by (simp add: fits_schema_def has_field_def list_field_def related_activity_children_list_def related_activity_code_defs)

subsection \<open>domain contacts (class 84)\<close>

definition domain_contacts_struct :: "struct" where
  "domain_contacts_struct =
     [(''contact_list'', F_listed 81), (''same_domain_contact'', F_ptr T_string)]"

definition domain_contacts_f_contact :: accessor where
  "domain_contacts_f_contact = \<lparr>getter = Getter_next ''contact_list'',
     setter = Setter_listed ''contact_list'', maker = Maker_listed 81 ''contact_list''\<rparr>"

definition domain_contacts_f_same_domain_contact :: accessor where
  "domain_contacts_f_same_domain_contact = \<lparr>getter = Getter_ptr ''same_domain_contact'',
     setter = Setter_ptr T_string ''same_domain_contact'', maker = Maker_ptr T_string ''same_domain_contact''\<rparr>"

definition domain_contacts_new_code :: "new_step list" where
  "domain_contacts_new_code =
     [Init_list ''contact_list'']"

definition domain_contacts_destroy_code :: "destroy_step list" where
  "domain_contacts_destroy_code =
     [Destroy_list 81 ''contact_list'', Destroy_ptr T_string ''same_domain_contact'']"

definition domain_contacts_copy_code :: "copy_step list" where
  "domain_contacts_copy_code =
     [Copy_list 81 ''contact_list'', Copy_ptr T_string ''same_domain_contact'']"

definition domain_contacts_compare_code :: "compare_step list" where
  "domain_contacts_compare_code =
     [Compare_list 81 ''contact_list'', Compare_ptr T_string ''same_domain_contact'']"

definition domain_contacts_get_code :: "(int \<times> get_case) list" where
  "domain_contacts_get_code =
     [(0, Get_list ''contact_list''), (1, Get_string ''same_domain_contact'')]"

definition domain_contacts_make_code :: "(int \<times> new_child_case) list" where
  "domain_contacts_make_code =
     [(0, Make_in_list domain_contacts_f_contact ''contact_list''),
     (1, Make_field domain_contacts_f_same_domain_contact)]"

definition domain_contacts_drop_code :: "(int \<times> destroy_child_case) list" where
  "domain_contacts_drop_code =
     [(0, Drop_in_list 81 ''contact_list''), (1, Drop_ptr T_string ''same_domain_contact'')]"

definition domain_contacts_code :: class_code where
  "domain_contacts_code = \<lparr>cc_struct = domain_contacts_struct, cc_linked = False, cc_new = domain_contacts_new_code,
     cc_destroy = domain_contacts_destroy_code, cc_copy = domain_contacts_copy_code, cc_compare = domain_contacts_compare_code,
     cc_get_child = domain_contacts_get_code, cc_new_child = domain_contacts_make_code, cc_destroy_child = domain_contacts_drop_code\<rparr>"

lemmas domain_contacts_code_defs =
  domain_contacts_struct_def domain_contacts_f_contact_def
  domain_contacts_f_same_domain_contact_def domain_contacts_new_code_def
  domain_contacts_destroy_code_def domain_contacts_copy_code_def
  domain_contacts_compare_code_def domain_contacts_get_code_def
  domain_contacts_make_code_def domain_contacts_drop_code_def domain_contacts_code_def

lemma domain_contacts_regular: "regular domain_contacts_code"
  by (simp add: regular_def domain_contacts_code_defs)

lemma domain_contacts_fits: "fits_schema domain_contacts_children_list [] domain_contacts_code"
  by (simp add: fits_schema_def has_field_def list_field_def domain_contacts_children_list_def domain_contacts_code_defs)

subsection \<open>history item (class 87)\<close>

definition history_item_struct :: "struct" where
  "history_item_struct =
     [(''action'', F_int), (''restriction'', F_optional), (''ext_action'', F_ptr T_string),
     (''ext_restriction'', F_ptr T_string), (''observable_id'', F_ptr T_string),
     (''additional_data_list'', F_listed 48), (''contact'', F_ptr (T_class 81)),
     (''defined_coa'', F_ptr T_string), (''description'', F_ptr T_string),
     (''incident_id'', F_ptr (T_class 26)), (''date_time'', F_required T_time)]"

definition history_item_f_action :: accessor where
  "history_item_f_action = \<lparr>getter = Getter_int ''action'',
     setter = Setter_int ''action'', maker = Maker_int ''action''\<rparr>"

definition history_item_f_restriction :: accessor where
  "history_item_f_restriction = \<lparr>getter = Getter_optional ''restriction'',
     setter = Setter_optional ''restriction'', maker = Maker_optional ''restriction''\<rparr>"

definition history_item_f_ext_action :: accessor where
  "history_item_f_ext_action = \<lparr>getter = Getter_ptr ''ext_action'',
     setter = Setter_ptr T_string ''ext_action'', maker = Maker_ptr T_string ''ext_action''\<rparr>"

definition history_item_f_ext_restriction :: accessor where
  "history_item_f_ext_restriction = \<lparr>getter = Getter_ptr ''ext_restriction'',
     setter = Setter_ptr T_string ''ext_restriction'', maker = Maker_ptr T_string ''ext_restriction''\<rparr>"

definition history_item_f_observable_id :: accessor where
  "history_item_f_observable_id = \<lparr>getter = Getter_ptr ''observable_id'',
     setter = Setter_ptr T_string ''observable_id'', maker = Maker_ptr T_string ''observable_id''\<rparr>"

definition history_item_f_additional_data :: accessor where
  "history_item_f_additional_data = \<lparr>getter = Getter_next ''additional_data_list'',
     setter = Setter_listed ''additional_data_list'', maker = Maker_listed 48 ''additional_data_list''\<rparr>"

definition history_item_f_contact :: accessor where
  "history_item_f_contact = \<lparr>getter = Getter_ptr ''contact'',
     setter = Setter_ptr (T_class 81) ''contact'', maker = Maker_ptr (T_class 81) ''contact''\<rparr>"

definition history_item_f_defined_coa :: accessor where
  "history_item_f_defined_coa = \<lparr>getter = Getter_ptr ''defined_coa'',
     setter = Setter_ptr T_string ''defined_coa'', maker = Maker_ptr T_string ''defined_coa''\<rparr>"

definition history_item_f_description :: accessor where
  "history_item_f_description = \<lparr>getter = Getter_ptr ''description'',
     setter = Setter_ptr T_string ''description'', maker = Maker_ptr T_string ''description''\<rparr>"

definition history_item_f_incident_id :: accessor where
  "history_item_f_incident_id = \<lparr>getter = Getter_ptr ''incident_id'',
     setter = Setter_ptr (T_class 26) ''incident_id'', maker = Maker_ptr (T_class 26) ''incident_id''\<rparr>"

definition history_item_f_date_time :: accessor where
  "history_item_f_date_time = \<lparr>getter = Getter_ptr ''date_time'',
     setter = Setter_ptr T_time ''date_time'', maker = Maker_ptr T_time ''date_time''\<rparr>"

definition history_item_new_code :: "new_step list" where
  "history_item_new_code =
     [Init_list ''additional_data_list'', New_required T_time ''date_time'']"

definition history_item_destroy_code :: "destroy_step list" where
  "history_item_destroy_code =
     [Destroy_ptr T_string ''ext_action'', Destroy_ptr T_string ''ext_restriction'',
     Destroy_ptr T_string ''observable_id'', Destroy_list 48 ''additional_data_list'',
     Destroy_ptr (T_class 81) ''contact'', Destroy_ptr T_string ''defined_coa'',
     Destroy_ptr T_string ''description'', Destroy_ptr (T_class 26) ''incident_id'',
     Destroy_ptr T_time ''date_time'']"

definition history_item_copy_code :: "copy_step list" where
  "history_item_copy_code =
     [Copy_int ''action'', Copy_optional ''restriction'', Copy_ptr T_string ''ext_action'',
     Copy_ptr T_string ''ext_restriction'', Copy_ptr T_string ''observable_id'',
     Copy_list 48 ''additional_data_list'', Copy_ptr (T_class 81) ''contact'',
     Copy_ptr T_string ''defined_coa'', Copy_ptr T_string ''description'',
     Copy_ptr (T_class 26) ''incident_id'', Copy_required T_time ''date_time'']"

definition history_item_compare_code :: "compare_step list" where
  "history_item_compare_code =
     [Compare_int ''action'', Compare_optional ''restriction'',
     Compare_ptr T_string ''ext_action'', Compare_ptr T_string ''ext_restriction'',
     Compare_ptr T_string ''observable_id'', Compare_list 48 ''additional_data_list'',
     Compare_ptr (T_class 81) ''contact'', Compare_ptr T_string ''defined_coa'',
     Compare_ptr T_string ''description'', Compare_ptr (T_class 26) ''incident_id'',
     Compare_ptr T_time ''date_time'']"

definition history_item_get_code :: "(int \<times> get_case) list" where
  "history_item_get_code =
     [(0, Get_enum ''action'' 85), (1, Get_optional_enum ''restriction'' 86),
     (2, Get_string ''ext_action''), (3, Get_string ''ext_restriction''),
     (4, Get_string ''observable_id''), (5, Get_list ''additional_data_list''),
     (6, Get_object ''contact''), (7, Get_string ''defined_coa''),
     (8, Get_string ''description''), (9, Get_object ''incident_id''),
     (10, Get_time ''date_time'')]"

definition history_item_make_code :: "(int \<times> new_child_case) list" where
  "history_item_make_code =
     [(0, Make_field history_item_f_action), (1, Make_field history_item_f_restriction),
     (2, Make_field history_item_f_ext_action), (3, Make_field history_item_f_ext_restriction),
     (4, Make_field history_item_f_observable_id),
     (5, Make_in_list history_item_f_additional_data ''additional_data_list''),
     (6, Make_field history_item_f_contact), (7, Make_field history_item_f_defined_coa),
     (8, Make_field history_item_f_description), (9, Make_field history_item_f_incident_id),
     (10, Make_field history_item_f_date_time)]"

definition history_item_drop_code :: "(int \<times> destroy_child_case) list" where
  "history_item_drop_code =
     [(0, Drop_int ''action''), (1, Drop_optional ''restriction''),
     (2, Drop_ptr T_string ''ext_action''), (3, Drop_ptr T_string ''ext_restriction''),
     (4, Drop_ptr T_string ''observable_id''), (5, Drop_in_list 48 ''additional_data_list''),
     (6, Drop_ptr (T_class 81) ''contact''), (7, Drop_ptr T_string ''defined_coa''),
     (8, Drop_ptr T_string ''description''), (9, Drop_ptr (T_class 26) ''incident_id''),
     (10, Drop_ptr T_time ''date_time'')]"

definition history_item_code :: class_code where
  "history_item_code = \<lparr>cc_struct = history_item_struct, cc_linked = True, cc_new = history_item_new_code,
     cc_destroy = history_item_destroy_code, cc_copy = history_item_copy_code, cc_compare = history_item_compare_code,
     cc_get_child = history_item_get_code, cc_new_child = history_item_make_code, cc_destroy_child = history_item_drop_code\<rparr>"

lemmas history_item_code_defs =
  history_item_struct_def history_item_f_action_def history_item_f_restriction_def
  history_item_f_ext_action_def history_item_f_ext_restriction_def
  history_item_f_observable_id_def history_item_f_additional_data_def
  history_item_f_contact_def history_item_f_defined_coa_def history_item_f_description_def
  history_item_f_incident_id_def history_item_f_date_time_def history_item_new_code_def
  history_item_destroy_code_def history_item_copy_code_def history_item_compare_code_def
  history_item_get_code_def history_item_make_code_def history_item_drop_code_def
  history_item_code_def

lemma history_item_regular: "regular history_item_code"
  by (simp add: regular_def history_item_code_defs)

lemma history_item_fits: "fits_schema history_item_children_list [] history_item_code"
  by (simp add: fits_schema_def has_field_def list_field_def history_item_children_list_def history_item_code_defs)

subsection \<open>fuzzy hash (class 88)\<close>

definition fuzzy_hash_struct :: "struct" where
  "fuzzy_hash_struct =
     [(''additional_data_list'', F_listed 48), (''software'', F_ptr (T_class 69))]"

definition fuzzy_hash_f_additional_data :: accessor where
  "fuzzy_hash_f_additional_data = \<lparr>getter = Getter_next ''additional_data_list'',
     setter = Setter_listed ''additional_data_list'', maker = Maker_listed 48 ''additional_data_list''\<rparr>"

definition fuzzy_hash_f_software :: accessor where
  "fuzzy_hash_f_software = \<lparr>getter = Getter_ptr ''software'',
     setter = Setter_ptr (T_class 69) ''software'', maker = Maker_ptr (T_class 69) ''software''\<rparr>"

definition fuzzy_hash_new_code :: "new_step list" where
  "fuzzy_hash_new_code =
     [Init_list ''additional_data_list'']"

definition fuzzy_hash_destroy_code :: "destroy_step list" where
  "fuzzy_hash_destroy_code =
     [Destroy_list 48 ''additional_data_list'', Destroy_ptr (T_class 69) ''software'']"

definition fuzzy_hash_copy_code :: "copy_step list" where
  "fuzzy_hash_copy_code =
     [Copy_list 48 ''additional_data_list'', Copy_ptr (T_class 69) ''software'']"

definition fuzzy_hash_compare_code :: "compare_step list" where
  "fuzzy_hash_compare_code =
     [Compare_list 48 ''additional_data_list'', Compare_ptr (T_class 69) ''software'']"

definition fuzzy_hash_get_code :: "(int \<times> get_case) list" where
  "fuzzy_hash_get_code =
     [(0, Get_list ''additional_data_list''), (1, Get_object ''software'')]"

definition fuzzy_hash_make_code :: "(int \<times> new_child_case) list" where
  "fuzzy_hash_make_code =
     [(0, Make_in_list fuzzy_hash_f_additional_data ''additional_data_list''),
     (1, Make_field fuzzy_hash_f_software)]"

definition fuzzy_hash_drop_code :: "(int \<times> destroy_child_case) list" where
  "fuzzy_hash_drop_code =
     [(0, Drop_in_list 48 ''additional_data_list''), (1, Drop_ptr (T_class 69) ''software'')]"

definition fuzzy_hash_code :: class_code where
  "fuzzy_hash_code = \<lparr>cc_struct = fuzzy_hash_struct, cc_linked = False, cc_new = fuzzy_hash_new_code,
     cc_destroy = fuzzy_hash_destroy_code, cc_copy = fuzzy_hash_copy_code, cc_compare = fuzzy_hash_compare_code,
     cc_get_child = fuzzy_hash_get_code, cc_new_child = fuzzy_hash_make_code, cc_destroy_child = fuzzy_hash_drop_code\<rparr>"

lemmas fuzzy_hash_code_defs =
  fuzzy_hash_struct_def fuzzy_hash_f_additional_data_def fuzzy_hash_f_software_def
  fuzzy_hash_new_code_def fuzzy_hash_destroy_code_def fuzzy_hash_copy_code_def
  fuzzy_hash_compare_code_def fuzzy_hash_get_code_def fuzzy_hash_make_code_def
  fuzzy_hash_drop_code_def fuzzy_hash_code_def

lemma fuzzy_hash_regular: "regular fuzzy_hash_code"
  by (simp add: regular_def fuzzy_hash_code_defs)

lemma fuzzy_hash_fits: "fits_schema fuzzy_hash_children_list [] fuzzy_hash_code"
  by (simp add: fits_schema_def has_field_def list_field_def fuzzy_hash_children_list_def fuzzy_hash_code_defs)

subsection \<open>hash (class 89)\<close>

definition hash_struct :: "struct" where
  "hash_struct =
     [(''digest_value'', F_required T_string), (''digest_method'', F_required T_string),
     (''canonicalization_method'', F_ptr T_string), (''software'', F_ptr (T_class 69))]"

definition hash_f_digest_value :: accessor where
  "hash_f_digest_value = \<lparr>getter = Getter_ptr ''digest_value'',
     setter = Setter_ptr T_string ''digest_value'', maker = Maker_ptr T_string ''digest_value''\<rparr>"

definition hash_f_digest_method :: accessor where
  "hash_f_digest_method = \<lparr>getter = Getter_ptr ''digest_method'',
     setter = Setter_ptr T_string ''digest_method'', maker = Maker_ptr T_string ''digest_method''\<rparr>"

definition hash_f_canonicalization_method :: accessor where
  "hash_f_canonicalization_method = \<lparr>getter = Getter_ptr ''canonicalization_method'',
     setter = Setter_ptr T_string ''canonicalization_method'', maker = Maker_ptr T_string ''canonicalization_method''\<rparr>"

definition hash_f_software :: accessor where
  "hash_f_software = \<lparr>getter = Getter_ptr ''software'',
     setter = Setter_ptr (T_class 69) ''software'', maker = Maker_ptr (T_class 69) ''software''\<rparr>"

definition hash_new_code :: "new_step list" where
  "hash_new_code =
     [New_required T_string ''digest_value'', New_required T_string ''digest_method'']"

definition hash_destroy_code :: "destroy_step list" where
  "hash_destroy_code =
     [Destroy_ptr T_string ''digest_value'', Destroy_ptr T_string ''digest_method'',
     Destroy_ptr T_string ''canonicalization_method'', Destroy_ptr (T_class 69) ''software'']"

definition hash_copy_code :: "copy_step list" where
  "hash_copy_code =
     [Copy_required T_string ''digest_value'', Copy_required T_string ''digest_method'',
     Copy_ptr T_string ''canonicalization_method'', Copy_ptr (T_class 69) ''software'']"

definition hash_compare_code :: "compare_step list" where
  "hash_compare_code =
     [Compare_ptr T_string ''digest_value'', Compare_ptr T_string ''digest_method'',
     Compare_ptr T_string ''canonicalization_method'', Compare_ptr (T_class 69) ''software'']"

definition hash_get_code :: "(int \<times> get_case) list" where
  "hash_get_code =
     [(0, Get_string ''digest_value''), (1, Get_string ''digest_method''),
     (2, Get_string ''canonicalization_method''), (3, Get_object ''software'')]"

definition hash_make_code :: "(int \<times> new_child_case) list" where
  "hash_make_code =
     [(0, Make_field hash_f_digest_value), (1, Make_field hash_f_digest_method),
     (2, Make_field hash_f_canonicalization_method), (3, Make_field hash_f_software)]"

definition hash_drop_code :: "(int \<times> destroy_child_case) list" where
  "hash_drop_code =
     [(0, Drop_ptr T_string ''digest_value''), (1, Drop_ptr T_string ''digest_method''),
     (2, Drop_ptr T_string ''canonicalization_method''), (3, Drop_ptr (T_class 69) ''software'')]"

definition hash_code :: class_code where
  "hash_code = \<lparr>cc_struct = hash_struct, cc_linked = False, cc_new = hash_new_code,
     cc_destroy = hash_destroy_code, cc_copy = hash_copy_code, cc_compare = hash_compare_code,
     cc_get_child = hash_get_code, cc_new_child = hash_make_code, cc_destroy_child = hash_drop_code\<rparr>"

lemmas hash_code_defs =
  hash_struct_def hash_f_digest_value_def hash_f_digest_method_def
  hash_f_canonicalization_method_def hash_f_software_def hash_new_code_def
  hash_destroy_code_def hash_copy_code_def hash_compare_code_def hash_get_code_def
  hash_make_code_def hash_drop_code_def hash_code_def

lemma hash_regular: "regular hash_code"
  by (simp add: regular_def hash_code_defs)

lemma hash_fits: "fits_schema hash_children_list [] hash_code"
  by (simp add: fits_schema_def has_field_def list_field_def hash_children_list_def hash_code_defs)

subsection \<open>detection pattern (class 91)\<close>

definition detection_pattern_struct :: "struct" where
  "detection_pattern_struct =
     [(''restriction'', F_optional), (''ext_restriction'', F_ptr T_string),
     (''observable_id'', F_ptr T_string), (''detection_configuration'', F_ptr T_string),
     (''description'', F_ptr T_string), (''software'', F_required (T_class 69))]"

definition detection_pattern_f_restriction :: accessor where
  "detection_pattern_f_restriction = \<lparr>getter = Getter_optional ''restriction'',
     setter = Setter_optional ''restriction'', maker = Maker_optional ''restriction''\<rparr>"

definition detection_pattern_f_ext_restriction :: accessor where
  "detection_pattern_f_ext_restriction = \<lparr>getter = Getter_ptr ''ext_restriction'',
     setter = Setter_ptr T_string ''ext_restriction'', maker = Maker_ptr T_string ''ext_restriction''\<rparr>"

definition detection_pattern_f_observable_id :: accessor where
  "detection_pattern_f_observable_id = \<lparr>getter = Getter_ptr ''observable_id'',
     setter = Setter_ptr T_string ''observable_id'', maker = Maker_ptr T_string ''observable_id''\<rparr>"

definition detection_pattern_f_detection_configuration :: accessor where
  "detection_pattern_f_detection_configuration = \<lparr>getter = Getter_ptr ''detection_configuration'',
     setter = Setter_ptr T_string ''detection_configuration'', maker = Maker_ptr T_string ''detection_configuration''\<rparr>"

definition detection_pattern_f_description :: accessor where
  "detection_pattern_f_description = \<lparr>getter = Getter_ptr ''description'',
     setter = Setter_ptr T_string ''description'', maker = Maker_ptr T_string ''description''\<rparr>"

definition detection_pattern_f_software :: accessor where
  "detection_pattern_f_software = \<lparr>getter = Getter_ptr ''software'',
     setter = Setter_ptr (T_class 69) ''software'', maker = Maker_ptr (T_class 69) ''software''\<rparr>"

definition detection_pattern_new_code :: "new_step list" where
  "detection_pattern_new_code =
     [New_required (T_class 69) ''software'']"

definition detection_pattern_destroy_code :: "destroy_step list" where
  "detection_pattern_destroy_code =
     [Destroy_ptr T_string ''ext_restriction'', Destroy_ptr T_string ''observable_id'',
     Destroy_ptr T_string ''detection_configuration'', Destroy_ptr T_string ''description'',
     Destroy_ptr (T_class 69) ''software'']"

definition detection_pattern_copy_code :: "copy_step list" where
  "detection_pattern_copy_code =
     [Copy_optional ''restriction'', Copy_ptr T_string ''ext_restriction'',
     Copy_ptr T_string ''observable_id'', Copy_ptr T_string ''detection_configuration'',
     Copy_ptr T_string ''description'', Copy_required (T_class 69) ''software'']"

definition detection_pattern_compare_code :: "compare_step list" where
  "detection_pattern_compare_code =
     [Compare_optional ''restriction'', Compare_ptr T_string ''ext_restriction'',
     Compare_ptr T_string ''observable_id'', Compare_ptr T_string ''detection_configuration'',
     Compare_ptr T_string ''description'', Compare_ptr (T_class 69) ''software'']"

definition detection_pattern_get_code :: "(int \<times> get_case) list" where
  "detection_pattern_get_code =
     [(0, Get_optional_enum ''restriction'' 90), (1, Get_string ''ext_restriction''),
     (2, Get_string ''observable_id''), (3, Get_string ''detection_configuration''),
     (4, Get_string ''description''), (5, Get_object ''software'')]"

definition detection_pattern_make_code :: "(int \<times> new_child_case) list" where
  "detection_pattern_make_code =
     [(0, Make_field detection_pattern_f_restriction),
     (1, Make_field detection_pattern_f_ext_restriction),
     (2, Make_field detection_pattern_f_observable_id),
     (3, Make_field detection_pattern_f_detection_configuration),
     (4, Make_field detection_pattern_f_description),
     (5, Make_field detection_pattern_f_software)]"

definition detection_pattern_drop_code :: "(int \<times> destroy_child_case) list" where
  "detection_pattern_drop_code =
     [(0, Drop_optional ''restriction''), (1, Drop_ptr T_string ''ext_restriction''),
     (2, Drop_ptr T_string ''observable_id''),
     (3, Drop_ptr T_string ''detection_configuration''), (4, Drop_ptr T_string ''description''),
     (5, Drop_ptr (T_class 69) ''software'')]"

definition detection_pattern_code :: class_code where
  "detection_pattern_code = \<lparr>cc_struct = detection_pattern_struct, cc_linked = True, cc_new = detection_pattern_new_code,
     cc_destroy = detection_pattern_destroy_code, cc_copy = detection_pattern_copy_code, cc_compare = detection_pattern_compare_code,
     cc_get_child = detection_pattern_get_code, cc_new_child = detection_pattern_make_code, cc_destroy_child = detection_pattern_drop_code\<rparr>"

lemmas detection_pattern_code_defs =
  detection_pattern_struct_def detection_pattern_f_restriction_def
  detection_pattern_f_ext_restriction_def detection_pattern_f_observable_id_def
  detection_pattern_f_detection_configuration_def detection_pattern_f_description_def
  detection_pattern_f_software_def detection_pattern_new_code_def
  detection_pattern_destroy_code_def detection_pattern_copy_code_def
  detection_pattern_compare_code_def detection_pattern_get_code_def
  detection_pattern_make_code_def detection_pattern_drop_code_def detection_pattern_code_def

lemma detection_pattern_regular: "regular detection_pattern_code"
  by (simp add: regular_def detection_pattern_code_defs)

lemma detection_pattern_fits: "fits_schema detection_pattern_children_list [] detection_pattern_code"
  by (simp add: fits_schema_def has_field_def list_field_def detection_pattern_children_list_def detection_pattern_code_defs)

subsection \<open>expectation (class 95)\<close>

definition expectation_struct :: "struct" where
  "expectation_struct =
     [(''restriction'', F_optional), (''ext_action'', F_ptr T_string),
     (''ext_severity'', F_ptr T_string), (''severity'', F_optional), (''action'', F_optional),
     (''ext_restriction'', F_ptr T_string), (''end_time'', F_ptr T_time),
     (''defined_coa'', F_ptr T_string), (''description'', F_ptr T_string),
     (''start_time'', F_ptr T_time), (''contact'', F_ptr (T_class 81))]"

definition expectation_f_restriction :: accessor where
  "expectation_f_restriction = \<lparr>getter = Getter_optional ''restriction'',
     setter = Setter_optional ''restriction'', maker = Maker_optional ''restriction''\<rparr>"

definition expectation_f_ext_action :: accessor where
  "expectation_f_ext_action = \<lparr>getter = Getter_ptr ''ext_action'',
     setter = Setter_ptr T_string ''ext_action'', maker = Maker_ptr T_string ''ext_action''\<rparr>"

definition expectation_f_ext_severity :: accessor where
  "expectation_f_ext_severity = \<lparr>getter = Getter_ptr ''ext_severity'',
     setter = Setter_ptr T_string ''ext_severity'', maker = Maker_ptr T_string ''ext_severity''\<rparr>"

definition expectation_f_severity :: accessor where
  "expectation_f_severity = \<lparr>getter = Getter_optional ''severity'',
     setter = Setter_optional ''severity'', maker = Maker_optional ''severity''\<rparr>"

definition expectation_f_action :: accessor where
  "expectation_f_action = \<lparr>getter = Getter_optional ''action'',
     setter = Setter_optional ''action'', maker = Maker_optional ''action''\<rparr>"

definition expectation_f_ext_restriction :: accessor where
  "expectation_f_ext_restriction = \<lparr>getter = Getter_ptr ''ext_restriction'',
     setter = Setter_ptr T_string ''ext_restriction'', maker = Maker_ptr T_string ''ext_restriction''\<rparr>"

definition expectation_f_end_time :: accessor where
  "expectation_f_end_time = \<lparr>getter = Getter_ptr ''end_time'',
     setter = Setter_ptr T_time ''end_time'', maker = Maker_ptr T_time ''end_time''\<rparr>"

definition expectation_f_defined_coa :: accessor where
  "expectation_f_defined_coa = \<lparr>getter = Getter_ptr ''defined_coa'',
     setter = Setter_ptr T_string ''defined_coa'', maker = Maker_ptr T_string ''defined_coa''\<rparr>"

definition expectation_f_description :: accessor where
  "expectation_f_description = \<lparr>getter = Getter_ptr ''description'',
     setter = Setter_ptr T_string ''description'', maker = Maker_ptr T_string ''description''\<rparr>"

definition expectation_f_start_time :: accessor where
  "expectation_f_start_time = \<lparr>getter = Getter_ptr ''start_time'',
     setter = Setter_ptr T_time ''start_time'', maker = Maker_ptr T_time ''start_time''\<rparr>"

definition expectation_f_contact :: accessor where
  "expectation_f_contact = \<lparr>getter = Getter_ptr ''contact'',
     setter = Setter_ptr (T_class 81) ''contact'', maker = Maker_ptr (T_class 81) ''contact''\<rparr>"

definition expectation_new_code :: "new_step list" where
  "expectation_new_code =
     []"

definition expectation_destroy_code :: "destroy_step list" where
  "expectation_destroy_code =
     [Destroy_ptr T_string ''ext_action'', Destroy_ptr T_string ''ext_severity'',
     Destroy_ptr T_string ''ext_restriction'', Destroy_ptr T_time ''end_time'',
     Destroy_ptr T_string ''defined_coa'', Destroy_ptr T_string ''description'',
     Destroy_ptr T_time ''start_time'', Destroy_ptr (T_class 81) ''contact'']"

definition expectation_copy_code :: "copy_step list" where
  "expectation_copy_code =
     [Copy_optional ''restriction'', Copy_ptr T_string ''ext_action'',
     Copy_ptr T_string ''ext_severity'', Copy_optional ''severity'', Copy_optional ''action'',
     Copy_ptr T_string ''ext_restriction'', Copy_ptr T_time ''end_time'',
     Copy_ptr T_string ''defined_coa'', Copy_ptr T_string ''description'',
     Copy_ptr T_time ''start_time'', Copy_ptr (T_class 81) ''contact'']"

definition expectation_compare_code :: "compare_step list" where
  "expectation_compare_code =
     [Compare_optional ''restriction'', Compare_ptr T_string ''ext_action'',
     Compare_ptr T_string ''ext_severity'', Compare_optional ''severity'',
     Compare_optional ''action'', Compare_ptr T_string ''ext_restriction'',
     Compare_ptr T_time ''end_time'', Compare_ptr T_string ''defined_coa'',
     Compare_ptr T_string ''description'', Compare_ptr T_time ''start_time'',
     Compare_ptr (T_class 81) ''contact'']"

definition expectation_get_code :: "(int \<times> get_case) list" where
  "expectation_get_code =
     [(0, Get_optional_enum ''restriction'' 92), (1, Get_string ''ext_action''),
     (2, Get_string ''ext_severity''), (3, Get_optional_enum ''severity'' 93),
     (4, Get_optional_enum ''action'' 94), (5, Get_string ''ext_restriction''),
     (6, Get_time ''end_time''), (7, Get_string ''defined_coa''),
     (8, Get_string ''description''), (9, Get_time ''start_time''), (10, Get_object ''contact'')]"

definition expectation_make_code :: "(int \<times> new_child_case) list" where
  "expectation_make_code =
     [(0, Make_field expectation_f_restriction), (1, Make_field expectation_f_ext_action),
     (2, Make_field expectation_f_ext_severity), (3, Make_field expectation_f_severity),
     (4, Make_field expectation_f_action), (5, Make_field expectation_f_ext_restriction),
     (6, Make_field expectation_f_end_time), (7, Make_field expectation_f_defined_coa),
     (8, Make_field expectation_f_description), (9, Make_field expectation_f_start_time),
     (10, Make_field expectation_f_contact)]"

definition expectation_drop_code :: "(int \<times> destroy_child_case) list" where
  "expectation_drop_code =
     [(0, Drop_optional ''restriction''), (1, Drop_ptr T_string ''ext_action''),
     (2, Drop_ptr T_string ''ext_severity''), (3, Drop_optional ''severity''),
     (4, Drop_optional ''action''), (5, Drop_ptr T_string ''ext_restriction''),
     (6, Drop_ptr T_time ''end_time''), (7, Drop_ptr T_string ''defined_coa''),
     (8, Drop_ptr T_string ''description''), (9, Drop_ptr T_time ''start_time''),
     (10, Drop_ptr (T_class 81) ''contact'')]"

definition expectation_code :: class_code where
  "expectation_code = \<lparr>cc_struct = expectation_struct, cc_linked = True, cc_new = expectation_new_code,
     cc_destroy = expectation_destroy_code, cc_copy = expectation_copy_code, cc_compare = expectation_compare_code,
     cc_get_child = expectation_get_code, cc_new_child = expectation_make_code, cc_destroy_child = expectation_drop_code\<rparr>"

lemmas expectation_code_defs =
  expectation_struct_def expectation_f_restriction_def expectation_f_ext_action_def
  expectation_f_ext_severity_def expectation_f_severity_def expectation_f_action_def
  expectation_f_ext_restriction_def expectation_f_end_time_def expectation_f_defined_coa_def
  expectation_f_description_def expectation_f_start_time_def expectation_f_contact_def
  expectation_new_code_def expectation_destroy_code_def expectation_copy_code_def
  expectation_compare_code_def expectation_get_code_def expectation_make_code_def
  expectation_drop_code_def expectation_code_def

lemma expectation_regular: "regular expectation_code"
  by (simp add: regular_def expectation_code_defs)

lemma expectation_fits: "fits_schema expectation_children_list [] expectation_code"
  by (simp add: fits_schema_def has_field_def list_field_def expectation_children_list_def expectation_code_defs)

subsection \<open>domain data (class 98)\<close>

definition domain_data_struct :: "struct" where
  "domain_data_struct =
     [(''ext_domain_status'', F_ptr T_string), (''domain_status'', F_int),
     (''ext_system_status'', F_ptr T_string), (''observable_id'', F_ptr T_string),
     (''system_status'', F_int), (''additional_data_list'', F_listed 48),
     (''name'', F_required T_string), (''nameservers_list'', F_listed 70),
     (''registration_date'', F_ptr T_time), (''domain_contacts'', F_ptr (T_class 84)),
     (''date_domain_was_checked'', F_ptr T_time), (''expiration_date'', F_ptr T_time)]"

definition domain_data_f_ext_domain_status :: accessor where
  "domain_data_f_ext_domain_status = \<lparr>getter = Getter_ptr ''ext_domain_status'',
     setter = Setter_ptr T_string ''ext_domain_status'', maker = Maker_ptr T_string ''ext_domain_status''\<rparr>"

definition domain_data_f_domain_status :: accessor where
  "domain_data_f_domain_status = \<lparr>getter = Getter_int ''domain_status'',
     setter = Setter_int ''domain_status'', maker = Maker_int ''domain_status''\<rparr>"

definition domain_data_f_ext_system_status :: accessor where
  "domain_data_f_ext_system_status = \<lparr>getter = Getter_ptr ''ext_system_status'',
     setter = Setter_ptr T_string ''ext_system_status'', maker = Maker_ptr T_string ''ext_system_status''\<rparr>"

definition domain_data_f_observable_id :: accessor where
  "domain_data_f_observable_id = \<lparr>getter = Getter_ptr ''observable_id'',
     setter = Setter_ptr T_string ''observable_id'', maker = Maker_ptr T_string ''observable_id''\<rparr>"

definition domain_data_f_system_status :: accessor where
  "domain_data_f_system_status = \<lparr>getter = Getter_int ''system_status'',
     setter = Setter_int ''system_status'', maker = Maker_int ''system_status''\<rparr>"

definition domain_data_f_additional_data :: accessor where
  "domain_data_f_additional_data = \<lparr>getter = Getter_next ''additional_data_list'',
     setter = Setter_listed ''additional_data_list'', maker = Maker_listed 48 ''additional_data_list''\<rparr>"

definition domain_data_f_name :: accessor where
  "domain_data_f_name = \<lparr>getter = Getter_ptr ''name'',
     setter = Setter_ptr T_string ''name'', maker = Maker_ptr T_string ''name''\<rparr>"

definition domain_data_f_nameservers :: accessor where
  "domain_data_f_nameservers = \<lparr>getter = Getter_next ''nameservers_list'',
     setter = Setter_listed ''nameservers_list'', maker = Maker_listed 70 ''nameservers_list''\<rparr>"

definition domain_data_f_registration_date :: accessor where
  "domain_data_f_registration_date = \<lparr>getter = Getter_ptr ''registration_date'',
     setter = Setter_ptr T_time ''registration_date'', maker = Maker_ptr T_time ''registration_date''\<rparr>"

definition domain_data_f_domain_contacts :: accessor where
  "domain_data_f_domain_contacts = \<lparr>getter = Getter_ptr ''domain_contacts'',
     setter = Setter_ptr (T_class 84) ''domain_contacts'', maker = Maker_ptr (T_class 84) ''domain_contacts''\<rparr>"

definition domain_data_f_date_domain_was_checked :: accessor where
  "domain_data_f_date_domain_was_checked = \<lparr>getter = Getter_ptr ''date_domain_was_checked'',
     setter = Setter_ptr T_time ''date_domain_was_checked'', maker = Maker_ptr T_time ''date_domain_was_checked''\<rparr>"

definition domain_data_f_expiration_date :: accessor where
  "domain_data_f_expiration_date = \<lparr>getter = Getter_ptr ''expiration_date'',
     setter = Setter_ptr T_time ''expiration_date'', maker = Maker_ptr T_time ''expiration_date''\<rparr>"

definition domain_data_new_code :: "new_step list" where
  "domain_data_new_code =
     [Init_list ''additional_data_list'', Init_list ''nameservers_list'',
     New_required T_string ''name'']"

definition domain_data_destroy_code :: "destroy_step list" where
  "domain_data_destroy_code =
     [Destroy_ptr T_string ''ext_domain_status'', Destroy_ptr T_string ''ext_system_status'',
     Destroy_ptr T_string ''observable_id'', Destroy_list 48 ''additional_data_list'',
     Destroy_ptr T_string ''name'', Destroy_list 70 ''nameservers_list'',
     Destroy_ptr T_time ''registration_date'', Destroy_ptr (T_class 84) ''domain_contacts'',
     Destroy_ptr T_time ''date_domain_was_checked'', Destroy_ptr T_time ''expiration_date'']"

definition domain_data_copy_code :: "copy_step list" where
  "domain_data_copy_code =
     [Copy_ptr T_string ''ext_domain_status'', Copy_int ''domain_status'',
     Copy_ptr T_string ''ext_system_status'', Copy_ptr T_string ''observable_id'',
     Copy_int ''system_status'', Copy_list 48 ''additional_data_list'',
     Copy_required T_string ''name'', Copy_list 70 ''nameservers_list'',
     Copy_ptr T_time ''registration_date'', Copy_ptr (T_class 84) ''domain_contacts'',
     Copy_ptr T_time ''date_domain_was_checked'', Copy_ptr T_time ''expiration_date'']"

definition domain_data_compare_code :: "compare_step list" where
  "domain_data_compare_code =
     [Compare_ptr T_string ''ext_domain_status'', Compare_int ''domain_status'',
     Compare_ptr T_string ''ext_system_status'', Compare_ptr T_string ''observable_id'',
     Compare_int ''system_status'', Compare_list 48 ''additional_data_list'',
     Compare_ptr T_string ''name'', Compare_list 70 ''nameservers_list'',
     Compare_ptr T_time ''registration_date'', Compare_ptr (T_class 84) ''domain_contacts'',
     Compare_ptr T_time ''date_domain_was_checked'', Compare_ptr T_time ''expiration_date'']"

definition domain_data_get_code :: "(int \<times> get_case) list" where
  "domain_data_get_code =
     [(0, Get_string ''ext_domain_status''), (1, Get_enum ''domain_status'' 96),
     (2, Get_string ''ext_system_status''), (3, Get_string ''observable_id''),
     (4, Get_enum ''system_status'' 97), (5, Get_list ''additional_data_list''),
     (6, Get_string ''name''), (7, Get_list ''nameservers_list''),
     (8, Get_time ''registration_date''), (9, Get_object ''domain_contacts''),
     (10, Get_time ''date_domain_was_checked''), (11, Get_time ''expiration_date'')]"

definition domain_data_make_code :: "(int \<times> new_child_case) list" where
  "domain_data_make_code =
     [(0, Make_field domain_data_f_ext_domain_status),
     (1, Make_field domain_data_f_domain_status),
     (2, Make_field domain_data_f_ext_system_status),
     (3, Make_field domain_data_f_observable_id), (4, Make_field domain_data_f_system_status),
     (5, Make_in_list domain_data_f_additional_data ''additional_data_list''),
     (6, Make_field domain_data_f_name),
     (7, Make_in_list domain_data_f_nameservers ''nameservers_list''),
     (8, Make_field domain_data_f_registration_date),
     (9, Make_field domain_data_f_domain_contacts),
     (10, Make_field domain_data_f_date_domain_was_checked),
     (11, Make_field domain_data_f_expiration_date)]"

definition domain_data_drop_code :: "(int \<times> destroy_child_case) list" where
  "domain_data_drop_code =
     [(0, Drop_ptr T_string ''ext_domain_status''), (1, Drop_int ''domain_status''),
     (2, Drop_ptr T_string ''ext_system_status''), (3, Drop_ptr T_string ''observable_id''),
     (4, Drop_int ''system_status''), (5, Drop_in_list 48 ''additional_data_list''),
     (6, Drop_ptr T_string ''name''), (7, Drop_in_list 70 ''nameservers_list''),
     (8, Drop_ptr T_time ''registration_date''), (9, Drop_ptr (T_class 84) ''domain_contacts''),
     (10, Drop_ptr T_time ''date_domain_was_checked''), (11, Drop_ptr T_time ''expiration_date'')]"

definition domain_data_code :: class_code where
  "domain_data_code = \<lparr>cc_struct = domain_data_struct, cc_linked = True, cc_new = domain_data_new_code,
     cc_destroy = domain_data_destroy_code, cc_copy = domain_data_copy_code, cc_compare = domain_data_compare_code,
     cc_get_child = domain_data_get_code, cc_new_child = domain_data_make_code, cc_destroy_child = domain_data_drop_code\<rparr>"

lemmas domain_data_code_defs =
  domain_data_struct_def domain_data_f_ext_domain_status_def domain_data_f_domain_status_def
  domain_data_f_ext_system_status_def domain_data_f_observable_id_def
  domain_data_f_system_status_def domain_data_f_additional_data_def domain_data_f_name_def
  domain_data_f_nameservers_def domain_data_f_registration_date_def
  domain_data_f_domain_contacts_def domain_data_f_date_domain_was_checked_def
  domain_data_f_expiration_date_def domain_data_new_code_def domain_data_destroy_code_def
  domain_data_copy_code_def domain_data_compare_code_def domain_data_get_code_def
  domain_data_make_code_def domain_data_drop_code_def domain_data_code_def

lemma domain_data_regular: "regular domain_data_code"
  by (simp add: regular_def domain_data_code_defs)

lemma domain_data_fits: "fits_schema domain_data_children_list [] domain_data_code"
  by (simp add: fits_schema_def has_field_def list_field_def domain_data_children_list_def domain_data_code_defs)

subsection \<open>hash data (class 100)\<close>

definition hash_data_struct :: "struct" where
  "hash_data_struct =
     [(''scope'', F_optional), (''ext_scope'', F_ptr T_string),
     (''hash_target_id'', F_ptr T_string), (''hash'', F_ptr (T_class 89)),
     (''fuzzy_hash'', F_ptr (T_class 88))]"

definition hash_data_f_scope :: accessor where
  "hash_data_f_scope = \<lparr>getter = Getter_optional ''scope'',
     setter = Setter_optional ''scope'', maker = Maker_optional ''scope''\<rparr>"

definition hash_data_f_ext_scope :: accessor where
  "hash_data_f_ext_scope = \<lparr>getter = Getter_ptr ''ext_scope'',
     setter = Setter_ptr T_string ''ext_scope'', maker = Maker_ptr T_string ''ext_scope''\<rparr>"

definition hash_data_f_hash_target_id :: accessor where
  "hash_data_f_hash_target_id = \<lparr>getter = Getter_ptr ''hash_target_id'',
     setter = Setter_ptr T_string ''hash_target_id'', maker = Maker_ptr T_string ''hash_target_id''\<rparr>"

definition hash_data_f_hash :: accessor where
  "hash_data_f_hash = \<lparr>getter = Getter_ptr ''hash'',
     setter = Setter_ptr (T_class 89) ''hash'', maker = Maker_ptr (T_class 89) ''hash''\<rparr>"

definition hash_data_f_fuzzy_hash :: accessor where
  "hash_data_f_fuzzy_hash = \<lparr>getter = Getter_ptr ''fuzzy_hash'',
     setter = Setter_ptr (T_class 88) ''fuzzy_hash'', maker = Maker_ptr (T_class 88) ''fuzzy_hash''\<rparr>"

definition hash_data_new_code :: "new_step list" where
  "hash_data_new_code =
     []"

definition hash_data_destroy_code :: "destroy_step list" where
  "hash_data_destroy_code =
     [Destroy_ptr T_string ''ext_scope'', Destroy_ptr T_string ''hash_target_id'',
     Destroy_ptr (T_class 89) ''hash'', Destroy_ptr (T_class 88) ''fuzzy_hash'']"

definition hash_data_copy_code :: "copy_step list" where
  "hash_data_copy_code =
     [Copy_optional ''scope'', Copy_ptr T_string ''ext_scope'',
     Copy_ptr T_string ''hash_target_id'', Copy_ptr (T_class 89) ''hash'',
     Copy_ptr (T_class 88) ''fuzzy_hash'']"

definition hash_data_compare_code :: "compare_step list" where
  "hash_data_compare_code =
     [Compare_optional ''scope'', Compare_ptr T_string ''ext_scope'',
     Compare_ptr T_string ''hash_target_id'', Compare_ptr (T_class 89) ''hash'',
     Compare_ptr (T_class 88) ''fuzzy_hash'']"

definition hash_data_get_code :: "(int \<times> get_case) list" where
  "hash_data_get_code =
     [(0, Get_optional_enum ''scope'' 99), (1, Get_string ''ext_scope''),
     (2, Get_string ''hash_target_id''), (3, Get_object ''hash''), (4, Get_object ''fuzzy_hash'')]"

definition hash_data_make_code :: "(int \<times> new_child_case) list" where
  "hash_data_make_code =
     [(0, Make_field hash_data_f_scope), (1, Make_field hash_data_f_ext_scope),
     (2, Make_field hash_data_f_hash_target_id), (3, Make_field hash_data_f_hash),
     (4, Make_field hash_data_f_fuzzy_hash)]"

definition hash_data_drop_code :: "(int \<times> destroy_child_case) list" where
  "hash_data_drop_code =
     [(0, Drop_optional ''scope''), (1, Drop_ptr T_string ''ext_scope''),
     (2, Drop_ptr T_string ''hash_target_id''), (3, Drop_ptr (T_class 89) ''hash''),
     (4, Drop_ptr (T_class 88) ''fuzzy_hash'')]"

definition hash_data_code :: class_code where
  "hash_data_code = \<lparr>cc_struct = hash_data_struct, cc_linked = True, cc_new = hash_data_new_code,
     cc_destroy = hash_data_destroy_code, cc_copy = hash_data_copy_code, cc_compare = hash_data_compare_code,
     cc_get_child = hash_data_get_code, cc_new_child = hash_data_make_code, cc_destroy_child = hash_data_drop_code\<rparr>"

lemmas hash_data_code_defs =
  hash_data_struct_def hash_data_f_scope_def hash_data_f_ext_scope_def
  hash_data_f_hash_target_id_def hash_data_f_hash_def hash_data_f_fuzzy_hash_def
  hash_data_new_code_def hash_data_destroy_code_def hash_data_copy_code_def
  hash_data_compare_code_def hash_data_get_code_def hash_data_make_code_def
  hash_data_drop_code_def hash_data_code_def

lemma hash_data_regular: "regular hash_data_code"
  by (simp add: regular_def hash_data_code_defs)

lemma hash_data_fits: "fits_schema hash_data_children_list [] hash_data_code"
  by (simp add: fits_schema_def has_field_def list_field_def hash_data_children_list_def hash_data_code_defs)

subsection \<open>bulk observable format (class 101)\<close>

definition bulk_observable_format_struct :: "struct" where
  "bulk_observable_format_struct =
     [(''additional_data_list'', F_listed 48), (''hash'', F_ptr (T_class 89))]"

definition bulk_observable_format_f_additional_data :: accessor where
  "bulk_observable_format_f_additional_data = \<lparr>getter = Getter_next ''additional_data_list'',
     setter = Setter_listed ''additional_data_list'', maker = Maker_listed 48 ''additional_data_list''\<rparr>"

definition bulk_observable_format_f_hash :: accessor where
  "bulk_observable_format_f_hash = \<lparr>getter = Getter_ptr ''hash'',
     setter = Setter_ptr (T_class 89) ''hash'', maker = Maker_ptr (T_class 89) ''hash''\<rparr>"

definition bulk_observable_format_new_code :: "new_step list" where
  "bulk_observable_format_new_code =
     [Init_list ''additional_data_list'']"

definition bulk_observable_format_destroy_code :: "destroy_step list" where
  "bulk_observable_format_destroy_code =
     [Destroy_list 48 ''additional_data_list'', Destroy_ptr (T_class 89) ''hash'']"

definition bulk_observable_format_copy_code :: "copy_step list" where
  "bulk_observable_format_copy_code =
     [Copy_list 48 ''additional_data_list'', Copy_ptr (T_class 89) ''hash'']"

definition bulk_observable_format_compare_code :: "compare_step list" where
  "bulk_observable_format_compare_code =
     [Compare_list 48 ''additional_data_list'', Compare_ptr (T_class 89) ''hash'']"

definition bulk_observable_format_get_code :: "(int \<times> get_case) list" where
  "bulk_observable_format_get_code =
     [(0, Get_list ''additional_data_list''), (1, Get_object ''hash'')]"

definition bulk_observable_format_make_code :: "(int \<times> new_child_case) list" where
  "bulk_observable_format_make_code =
     [(0, Make_in_list bulk_observable_format_f_additional_data ''additional_data_list''),
     (1, Make_field bulk_observable_format_f_hash)]"

definition bulk_observable_format_drop_code :: "(int \<times> destroy_child_case) list" where
  "bulk_observable_format_drop_code =
     [(0, Drop_in_list 48 ''additional_data_list''), (1, Drop_ptr (T_class 89) ''hash'')]"

definition bulk_observable_format_code :: class_code where
  "bulk_observable_format_code = \<lparr>cc_struct = bulk_observable_format_struct, cc_linked = False, cc_new = bulk_observable_format_new_code,
     cc_destroy = bulk_observable_format_destroy_code, cc_copy = bulk_observable_format_copy_code, cc_compare = bulk_observable_format_compare_code,
     cc_get_child = bulk_observable_format_get_code, cc_new_child = bulk_observable_format_make_code, cc_destroy_child = bulk_observable_format_drop_code\<rparr>"

lemmas bulk_observable_format_code_defs =
  bulk_observable_format_struct_def bulk_observable_format_f_additional_data_def
  bulk_observable_format_f_hash_def bulk_observable_format_new_code_def
  bulk_observable_format_destroy_code_def bulk_observable_format_copy_code_def
  bulk_observable_format_compare_code_def bulk_observable_format_get_code_def
  bulk_observable_format_make_code_def bulk_observable_format_drop_code_def
  bulk_observable_format_code_def

lemma bulk_observable_format_regular: "regular bulk_observable_format_code"
  by (simp add: regular_def bulk_observable_format_code_defs)

lemma bulk_observable_format_fits: "fits_schema bulk_observable_format_children_list [] bulk_observable_format_code"
  by (simp add: fits_schema_def has_field_def list_field_def bulk_observable_format_children_list_def bulk_observable_format_code_defs)

subsection \<open>history (class 103)\<close>

definition history_struct :: "struct" where
  "history_struct =
     [(''restriction'', F_optional), (''history_item_list'', F_listed 87)]"

definition history_f_restriction :: accessor where
  "history_f_restriction = \<lparr>getter = Getter_optional ''restriction'',
     setter = Setter_optional ''restriction'', maker = Maker_optional ''restriction''\<rparr>"

definition history_f_history_item :: accessor where
  "history_f_history_item = \<lparr>getter = Getter_next ''history_item_list'',
     setter = Setter_listed ''history_item_list'', maker = Maker_listed 87 ''history_item_list''\<rparr>"

definition history_new_code :: "new_step list" where
  "history_new_code =
     [Init_list ''history_item_list'']"

definition history_destroy_code :: "destroy_step list" where
  "history_destroy_code =
     [Destroy_list 87 ''history_item_list'']"

definition history_copy_code :: "copy_step list" where
  "history_copy_code =
     [Copy_optional ''restriction'', Copy_list 87 ''history_item_list'']"

definition history_compare_code :: "compare_step list" where
  "history_compare_code =
     [Compare_optional ''restriction'', Compare_list 87 ''history_item_list'']"

definition history_get_code :: "(int \<times> get_case) list" where
  "history_get_code =
     [(0, Get_optional_enum ''restriction'' 102), (1, Get_list ''history_item_list'')]"

definition history_make_code :: "(int \<times> new_child_case) list" where
  "history_make_code =
     [(0, Make_field history_f_restriction),
     (1, Make_in_list history_f_history_item ''history_item_list'')]"

definition history_drop_code :: "(int \<times> destroy_child_case) list" where
  "history_drop_code =
     [(0, Drop_optional ''restriction''), (1, Drop_in_list 87 ''history_item_list'')]"

definition history_code :: class_code where
  "history_code = \<lparr>cc_struct = history_struct, cc_linked = False, cc_new = history_new_code,
     cc_destroy = history_destroy_code, cc_copy = history_copy_code, cc_compare = history_compare_code,
     cc_get_child = history_get_code, cc_new_child = history_make_code, cc_destroy_child = history_drop_code\<rparr>"

lemmas history_code_defs =
  history_struct_def history_f_restriction_def history_f_history_item_def
  history_new_code_def history_destroy_code_def history_copy_code_def
  history_compare_code_def history_get_code_def history_make_code_def history_drop_code_def
  history_code_def

lemma history_regular: "regular history_code"
  by (simp add: regular_def history_code_defs)

lemma history_fits: "fits_schema history_children_list [] history_code"
  by (simp add: fits_schema_def has_field_def list_field_def history_children_list_def history_code_defs)

subsection \<open>discovery (class 106)\<close>

definition discovery_struct :: "struct" where
  "discovery_struct =
     [(''source'', F_optional), (''ext_restriction'', F_ptr T_string),
     (''ext_source'', F_ptr T_string), (''observable_id'', F_ptr T_string),
     (''restriction'', F_optional), (''detection_pattern_list'', F_listed 91),
     (''contact_list'', F_listed 81), (''description'', F_ptr T_string)]"

definition discovery_f_source :: accessor where
  "discovery_f_source = \<lparr>getter = Getter_optional ''source'',
     setter = Setter_optional ''source'', maker = Maker_optional ''source''\<rparr>"

definition discovery_f_ext_restriction :: accessor where
  "discovery_f_ext_restriction = \<lparr>getter = Getter_ptr ''ext_restriction'',
     setter = Setter_ptr T_string ''ext_restriction'', maker = Maker_ptr T_string ''ext_restriction''\<rparr>"

definition discovery_f_ext_source :: accessor where
  "discovery_f_ext_source = \<lparr>getter = Getter_ptr ''ext_source'',
     setter = Setter_ptr T_string ''ext_source'', maker = Maker_ptr T_string ''ext_source''\<rparr>"

definition discovery_f_observable_id :: accessor where
  "discovery_f_observable_id = \<lparr>getter = Getter_ptr ''observable_id'',
     setter = Setter_ptr T_string ''observable_id'', maker = Maker_ptr T_string ''observable_id''\<rparr>"

definition discovery_f_restriction :: accessor where
  "discovery_f_restriction = \<lparr>getter = Getter_optional ''restriction'',
     setter = Setter_optional ''restriction'', maker = Maker_optional ''restriction''\<rparr>"

definition discovery_f_detection_pattern :: accessor where
  "discovery_f_detection_pattern = \<lparr>getter = Getter_next ''detection_pattern_list'',
     setter = Setter_listed ''detection_pattern_list'', maker = Maker_listed 91 ''detection_pattern_list''\<rparr>"

definition discovery_f_contact :: accessor where
  "discovery_f_contact = \<lparr>getter = Getter_next ''contact_list'',
     setter = Setter_listed ''contact_list'', maker = Maker_listed 81 ''contact_list''\<rparr>"

definition discovery_f_description :: accessor where
  "discovery_f_description = \<lparr>getter = Getter_ptr ''description'',
     setter = Setter_ptr T_string ''description'', maker = Maker_ptr T_string ''description''\<rparr>"

definition discovery_new_code :: "new_step list" where
  "discovery_new_code =
     [Init_list ''detection_pattern_list'', Init_list ''contact_list'']"

definition discovery_destroy_code :: "destroy_step list" where
  "discovery_destroy_code =
     [Destroy_ptr T_string ''ext_restriction'', Destroy_ptr T_string ''ext_source'',
     Destroy_ptr T_string ''observable_id'', Destroy_list 91 ''detection_pattern_list'',
     Destroy_list 81 ''contact_list'', Destroy_ptr T_string ''description'']"

definition discovery_copy_code :: "copy_step list" where
  "discovery_copy_code =
     [Copy_optional ''source'', Copy_ptr T_string ''ext_restriction'',
     Copy_ptr T_string ''ext_source'', Copy_ptr T_string ''observable_id'',
     Copy_optional ''restriction'', Copy_list 91 ''detection_pattern_list'',
     Copy_list 81 ''contact_list'', Copy_ptr T_string ''description'']"

definition discovery_compare_code :: "compare_step list" where
  "discovery_compare_code =
     [Compare_optional ''source'', Compare_ptr T_string ''ext_restriction'',
     Compare_ptr T_string ''ext_source'', Compare_ptr T_string ''observable_id'',
     Compare_optional ''restriction'', Compare_list 91 ''detection_pattern_list'',
     Compare_list 81 ''contact_list'', Compare_ptr T_string ''description'']"

definition discovery_get_code :: "(int \<times> get_case) list" where
  "discovery_get_code =
     [(0, Get_optional_enum ''source'' 104), (1, Get_string ''ext_restriction''),
     (2, Get_string ''ext_source''), (3, Get_string ''observable_id''),
     (4, Get_optional_enum ''restriction'' 105), (5, Get_list ''detection_pattern_list''),
     (6, Get_list ''contact_list''), (7, Get_string ''description'')]"

definition discovery_make_code :: "(int \<times> new_child_case) list" where
  "discovery_make_code =
     [(0, Make_field discovery_f_source), (1, Make_field discovery_f_ext_restriction),
     (2, Make_field discovery_f_ext_source), (3, Make_field discovery_f_observable_id),
     (4, Make_field discovery_f_restriction),
     (5, Make_in_list discovery_f_detection_pattern ''detection_pattern_list''),
     (6, Make_in_list discovery_f_contact ''contact_list''),
     (7, Make_field discovery_f_description)]"

definition discovery_drop_code :: "(int \<times> destroy_child_case) list" where
  "discovery_drop_code =
     [(0, Drop_optional ''source''), (1, Drop_ptr T_string ''ext_restriction''),
     (2, Drop_ptr T_string ''ext_source''), (3, Drop_ptr T_string ''observable_id''),
     (4, Drop_optional ''restriction''), (5, Drop_in_list 91 ''detection_pattern_list''),
     (6, Drop_in_list 81 ''contact_list''), (7, Drop_ptr T_string ''description'')]"

definition discovery_code :: class_code where
  "discovery_code = \<lparr>cc_struct = discovery_struct, cc_linked = True, cc_new = discovery_new_code,
     cc_destroy = discovery_destroy_code, cc_copy = discovery_copy_code, cc_compare = discovery_compare_code,
     cc_get_child = discovery_get_code, cc_new_child = discovery_make_code, cc_destroy_child = discovery_drop_code\<rparr>"

lemmas discovery_code_defs =
  discovery_struct_def discovery_f_source_def discovery_f_ext_restriction_def
  discovery_f_ext_source_def discovery_f_observable_id_def discovery_f_restriction_def
  discovery_f_detection_pattern_def discovery_f_contact_def discovery_f_description_def
  discovery_new_code_def discovery_destroy_code_def discovery_copy_code_def
  discovery_compare_code_def discovery_get_code_def discovery_make_code_def
  discovery_drop_code_def discovery_code_def

lemma discovery_regular: "regular discovery_code"
  by (simp add: regular_def discovery_code_defs)

lemma discovery_fits: "fits_schema discovery_children_list [] discovery_code"
  by (simp add: fits_schema_def has_field_def list_field_def discovery_children_list_def discovery_code_defs)

subsection \<open>bulk observable (class 108)\<close>

definition bulk_observable_struct :: "struct" where
  "bulk_observable_struct =
     [(''type'', F_optional), (''ext_type'', F_ptr T_string),
     (''bulk_observable_list'', F_ptr T_string),
     (''bulk_observable_format'', F_ptr (T_class 101)), (''additional_data_list'', F_listed 48)]"

definition bulk_observable_f_type :: accessor where
  "bulk_observable_f_type = \<lparr>getter = Getter_optional ''type'',
     setter = Setter_optional ''type'', maker = Maker_optional ''type''\<rparr>"

definition bulk_observable_f_ext_type :: accessor where
  "bulk_observable_f_ext_type = \<lparr>getter = Getter_ptr ''ext_type'',
     setter = Setter_ptr T_string ''ext_type'', maker = Maker_ptr T_string ''ext_type''\<rparr>"

definition bulk_observable_f_bulk_observable_list :: accessor where
  "bulk_observable_f_bulk_observable_list = \<lparr>getter = Getter_ptr ''bulk_observable_list'',
     setter = Setter_ptr T_string ''bulk_observable_list'', maker = Maker_ptr T_string ''bulk_observable_list''\<rparr>"

definition bulk_observable_f_bulk_observable_format :: accessor where
  "bulk_observable_f_bulk_observable_format = \<lparr>getter = Getter_ptr ''bulk_observable_format'',
     setter = Setter_ptr (T_class 101) ''bulk_observable_format'', maker = Maker_ptr (T_class 101) ''bulk_observable_format''\<rparr>"

definition bulk_observable_f_additional_data :: accessor where
  "bulk_observable_f_additional_data = \<lparr>getter = Getter_next ''additional_data_list'',
     setter = Setter_listed ''additional_data_list'', maker = Maker_listed 48 ''additional_data_list''\<rparr>"

definition bulk_observable_new_code :: "new_step list" where
  "bulk_observable_new_code =
     [Init_list ''additional_data_list'']"

definition bulk_observable_destroy_code :: "destroy_step list" where
  "bulk_observable_destroy_code =
     [Destroy_ptr T_string ''ext_type'', Destroy_ptr T_string ''bulk_observable_list'',
     Destroy_ptr (T_class 101) ''bulk_observable_format'',
     Destroy_list 48 ''additional_data_list'']"

definition bulk_observable_copy_code :: "copy_step list" where
  "bulk_observable_copy_code =
     [Copy_optional ''type'', Copy_ptr T_string ''ext_type'',
     Copy_ptr T_string ''bulk_observable_list'',
     Copy_ptr (T_class 101) ''bulk_observable_format'', Copy_list 48 ''additional_data_list'']"

definition bulk_observable_compare_code :: "compare_step list" where
  "bulk_observable_compare_code =
     [Compare_optional ''type'', Compare_ptr T_string ''ext_type'',
     Compare_ptr T_string ''bulk_observable_list'',
     Compare_ptr (T_class 101) ''bulk_observable_format'',
     Compare_list 48 ''additional_data_list'']"

definition bulk_observable_get_code :: "(int \<times> get_case) list" where
  "bulk_observable_get_code =
     [(0, Get_optional_enum ''type'' 107), (1, Get_string ''ext_type''),
     (2, Get_string ''bulk_observable_list''), (3, Get_object ''bulk_observable_format''),
     (4, Get_list ''additional_data_list'')]"

definition bulk_observable_make_code :: "(int \<times> new_child_case) list" where
  "bulk_observable_make_code =
     [(0, Make_field bulk_observable_f_type), (1, Make_field bulk_observable_f_ext_type),
     (2, Make_field bulk_observable_f_bulk_observable_list),
     (3, Make_field bulk_observable_f_bulk_observable_format),
     (4, Make_in_list bulk_observable_f_additional_data ''additional_data_list'')]"

definition bulk_observable_drop_code :: "(int \<times> destroy_child_case) list" where
  "bulk_observable_drop_code =
     [(0, Drop_optional ''type''), (1, Drop_ptr T_string ''ext_type''),
     (2, Drop_ptr T_string ''bulk_observable_list''),
     (3, Drop_ptr (T_class 101) ''bulk_observable_format''),
     (4, Drop_in_list 48 ''additional_data_list'')]"

definition bulk_observable_code :: class_code where
  "bulk_observable_code = \<lparr>cc_struct = bulk_observable_struct, cc_linked = False, cc_new = bulk_observable_new_code,
     cc_destroy = bulk_observable_destroy_code, cc_copy = bulk_observable_copy_code, cc_compare = bulk_observable_compare_code,
     cc_get_child = bulk_observable_get_code, cc_new_child = bulk_observable_make_code, cc_destroy_child = bulk_observable_drop_code\<rparr>"

lemmas bulk_observable_code_defs =
  bulk_observable_struct_def bulk_observable_f_type_def bulk_observable_f_ext_type_def
  bulk_observable_f_bulk_observable_list_def bulk_observable_f_bulk_observable_format_def
  bulk_observable_f_additional_data_def bulk_observable_new_code_def
  bulk_observable_destroy_code_def bulk_observable_copy_code_def
  bulk_observable_compare_code_def bulk_observable_get_code_def
  bulk_observable_make_code_def bulk_observable_drop_code_def bulk_observable_code_def

lemma bulk_observable_regular: "regular bulk_observable_code"
  by (simp add: regular_def bulk_observable_code_defs)

lemma bulk_observable_fits: "fits_schema bulk_observable_children_list [] bulk_observable_code"
  by (simp add: fits_schema_def has_field_def list_field_def bulk_observable_children_list_def bulk_observable_code_defs)

subsection \<open>email data (class 109)\<close>

definition email_data_struct :: "struct" where
  "email_data_struct =
     [(''observable_id'', F_ptr T_string), (''additional_data_list'', F_listed 48),
     (''email_headers'', F_ptr T_string), (''signature_data_list'', F_listed 57),
     (''email_subject'', F_ptr T_string), (''email_x_mailer'', F_ptr T_string),
     (''hash_data_list'', F_listed 100), (''email_from'', F_ptr T_string),
     (''application_header'', F_ptr (T_class 60)), (''email_body'', F_ptr T_string),
     (''email_message'', F_ptr T_string), (''email_to'', F_ptr T_string)]"

definition email_data_f_observable_id :: accessor where
  "email_data_f_observable_id = \<lparr>getter = Getter_ptr ''observable_id'',
     setter = Setter_ptr T_string ''observable_id'', maker = Maker_ptr T_string ''observable_id''\<rparr>"

definition email_data_f_additional_data :: accessor where
  "email_data_f_additional_data = \<lparr>getter = Getter_next ''additional_data_list'',
     setter = Setter_listed ''additional_data_list'', maker = Maker_listed 48 ''additional_data_list''\<rparr>"

definition email_data_f_email_headers :: accessor where
  "email_data_f_email_headers = \<lparr>getter = Getter_ptr ''email_headers'',
     setter = Setter_ptr T_string ''email_headers'', maker = Maker_ptr T_string ''email_headers''\<rparr>"

definition email_data_f_signature_data :: accessor where
  "email_data_f_signature_data = \<lparr>getter = Getter_next ''signature_data_list'',
     setter = Setter_listed ''signature_data_list'', maker = Maker_listed 57 ''signature_data_list''\<rparr>"

definition email_data_f_email_subject :: accessor where
  "email_data_f_email_subject = \<lparr>getter = Getter_ptr ''email_subject'',
     setter = Setter_ptr T_string ''email_subject'', maker = Maker_ptr T_string ''email_subject''\<rparr>"

definition email_data_f_email_x_mailer :: accessor where
  "email_data_f_email_x_mailer = \<lparr>getter = Getter_ptr ''email_x_mailer'',
     setter = Setter_ptr T_string ''email_x_mailer'', maker = Maker_ptr T_string ''email_x_mailer''\<rparr>"

definition email_data_f_hash_data :: accessor where
  "email_data_f_hash_data = \<lparr>getter = Getter_next ''hash_data_list'',
     setter = Setter_listed ''hash_data_list'', maker = Maker_listed 100 ''hash_data_list''\<rparr>"

definition email_data_f_email_from :: accessor where
  "email_data_f_email_from = \<lparr>getter = Getter_ptr ''email_from'',
     setter = Setter_ptr T_string ''email_from'', maker = Maker_ptr T_string ''email_from''\<rparr>"

definition email_data_f_application_header :: accessor where
  "email_data_f_application_header = \<lparr>getter = Getter_ptr ''application_header'',
     setter = Setter_ptr (T_class 60) ''application_header'', maker = Maker_ptr (T_class 60) ''application_header''\<rparr>"

definition email_data_f_email_body :: accessor where
  "email_data_f_email_body = \<lparr>getter = Getter_ptr ''email_body'',
     setter = Setter_ptr T_string ''email_body'', maker = Maker_ptr T_string ''email_body''\<rparr>"

definition email_data_f_email_message :: accessor where
  "email_data_f_email_message = \<lparr>getter = Getter_ptr ''email_message'',
     setter = Setter_ptr T_string ''email_message'', maker = Maker_ptr T_string ''email_message''\<rparr>"

definition email_data_f_email_to :: accessor where
  "email_data_f_email_to = \<lparr>getter = Getter_ptr ''email_to'',
     setter = Setter_ptr T_string ''email_to'', maker = Maker_ptr T_string ''email_to''\<rparr>"

definition email_data_new_code :: "new_step list" where
  "email_data_new_code =
     [Init_list ''additional_data_list'', Init_list ''signature_data_list'',
     Init_list ''hash_data_list'']"

definition email_data_destroy_code :: "destroy_step list" where
  "email_data_destroy_code =
     [Destroy_ptr T_string ''observable_id'', Destroy_list 48 ''additional_data_list'',
     Destroy_ptr T_string ''email_headers'', Destroy_list 57 ''signature_data_list'',
     Destroy_ptr T_string ''email_subject'', Destroy_ptr T_string ''email_x_mailer'',
     Destroy_list 100 ''hash_data_list'', Destroy_ptr T_string ''email_from'',
     Destroy_ptr (T_class 60) ''application_header'', Destroy_ptr T_string ''email_body'',
     Destroy_ptr T_string ''email_message'', Destroy_ptr T_string ''email_to'']"

definition email_data_copy_code :: "copy_step list" where
  "email_data_copy_code =
     [Copy_ptr T_string ''observable_id'', Copy_list 48 ''additional_data_list'',
     Copy_ptr T_string ''email_headers'', Copy_list 57 ''signature_data_list'',
     Copy_ptr T_string ''email_subject'', Copy_ptr T_string ''email_x_mailer'',
     Copy_list 100 ''hash_data_list'', Copy_ptr T_string ''email_from'',
     Copy_ptr (T_class 60) ''application_header'', Copy_ptr T_string ''email_body'',
     Copy_ptr T_string ''email_message'', Copy_ptr T_string ''email_to'']"

definition email_data_compare_code :: "compare_step list" where
  "email_data_compare_code =
     [Compare_ptr T_string ''observable_id'', Compare_list 48 ''additional_data_list'',
     Compare_ptr T_string ''email_headers'', Compare_list 57 ''signature_data_list'',
     Compare_ptr T_string ''email_subject'', Compare_ptr T_string ''email_x_mailer'',
     Compare_list 100 ''hash_data_list'', Compare_ptr T_string ''email_from'',
     Compare_ptr (T_class 60) ''application_header'', Compare_ptr T_string ''email_body'',
     Compare_ptr T_string ''email_message'', Compare_ptr T_string ''email_to'']"

definition email_data_get_code :: "(int \<times> get_case) list" where
  "email_data_get_code =
     [(0, Get_string ''observable_id''), (1, Get_list ''additional_data_list''),
     (2, Get_string ''email_headers''), (3, Get_list ''signature_data_list''),
     (4, Get_string ''email_subject''), (5, Get_string ''email_x_mailer''),
     (6, Get_list ''hash_data_list''), (7, Get_string ''email_from''),
     (8, Get_object ''application_header''), (9, Get_string ''email_body''),
     (10, Get_string ''email_message''), (11, Get_string ''email_to'')]"

definition email_data_make_code :: "(int \<times> new_child_case) list" where
  "email_data_make_code =
     [(0, Make_field email_data_f_observable_id),
     (1, Make_in_list email_data_f_additional_data ''additional_data_list''),
     (2, Make_field email_data_f_email_headers),
     (3, Make_in_list email_data_f_signature_data ''signature_data_list''),
     (4, Make_field email_data_f_email_subject), (5, Make_field email_data_f_email_x_mailer),
     (6, Make_in_list email_data_f_hash_data ''hash_data_list''),
     (7, Make_field email_data_f_email_from), (8, Make_field email_data_f_application_header),
     (9, Make_field email_data_f_email_body), (10, Make_field email_data_f_email_message),
     (11, Make_field email_data_f_email_to)]"

definition email_data_drop_code :: "(int \<times> destroy_child_case) list" where
  "email_data_drop_code =
     [(0, Drop_ptr T_string ''observable_id''), (1, Drop_in_list 48 ''additional_data_list''),
     (2, Drop_ptr T_string ''email_headers''), (3, Drop_in_list 57 ''signature_data_list''),
     (4, Drop_ptr T_string ''email_subject''), (5, Drop_ptr T_string ''email_x_mailer''),
     (6, Drop_in_list 100 ''hash_data_list''), (7, Drop_ptr T_string ''email_from''),
     (8, Drop_ptr (T_class 60) ''application_header''), (9, Drop_ptr T_string ''email_body''),
     (10, Drop_ptr T_string ''email_message''), (11, Drop_ptr T_string ''email_to'')]"

definition email_data_code :: class_code where
  "email_data_code = \<lparr>cc_struct = email_data_struct, cc_linked = False, cc_new = email_data_new_code,
     cc_destroy = email_data_destroy_code, cc_copy = email_data_copy_code, cc_compare = email_data_compare_code,
     cc_get_child = email_data_get_code, cc_new_child = email_data_make_code, cc_destroy_child = email_data_drop_code\<rparr>"

lemmas email_data_code_defs =
  email_data_struct_def email_data_f_observable_id_def email_data_f_additional_data_def
  email_data_f_email_headers_def email_data_f_signature_data_def
  email_data_f_email_subject_def email_data_f_email_x_mailer_def email_data_f_hash_data_def
  email_data_f_email_from_def email_data_f_application_header_def
  email_data_f_email_body_def email_data_f_email_message_def email_data_f_email_to_def
  email_data_new_code_def email_data_destroy_code_def email_data_copy_code_def
  email_data_compare_code_def email_data_get_code_def email_data_make_code_def
  email_data_drop_code_def email_data_code_def

lemma email_data_regular: "regular email_data_code"
  by (simp add: regular_def email_data_code_defs)

lemma email_data_fits: "fits_schema email_data_children_list [] email_data_code"
  by (simp add: fits_schema_def has_field_def list_field_def email_data_children_list_def email_data_code_defs)

subsection \<open>file (class 110)\<close>

definition file_struct :: "struct" where
  "file_struct =
     [(''observable_id'', F_ptr T_string), (''hash_data'', F_ptr (T_class 100)),
     (''additional_data_list'', F_listed 48), (''signature_data'', F_ptr (T_class 57)),
     (''url'', F_ptr T_string), (''software'', F_ptr (T_class 69)),
     (''file_name'', F_ptr T_string)]"

definition file_f_observable_id :: accessor where
  "file_f_observable_id = \<lparr>getter = Getter_ptr ''observable_id'',
     setter = Setter_ptr T_string ''observable_id'', maker = Maker_ptr T_string ''observable_id''\<rparr>"

definition file_f_hash_data :: accessor where
  "file_f_hash_data = \<lparr>getter = Getter_ptr ''hash_data'',
     setter = Setter_ptr (T_class 100) ''hash_data'', maker = Maker_ptr (T_class 100) ''hash_data''\<rparr>"

definition file_f_additional_data :: accessor where
  "file_f_additional_data = \<lparr>getter = Getter_next ''additional_data_list'',
     setter = Setter_listed ''additional_data_list'', maker = Maker_listed 48 ''additional_data_list''\<rparr>"

definition file_f_signature_data :: accessor where
  "file_f_signature_data = \<lparr>getter = Getter_ptr ''signature_data'',
     setter = Setter_ptr (T_class 57) ''signature_data'', maker = Maker_ptr (T_class 57) ''signature_data''\<rparr>"

definition file_f_url :: accessor where
  "file_f_url = \<lparr>getter = Getter_ptr ''url'',
     setter = Setter_ptr T_string ''url'', maker = Maker_ptr T_string ''url''\<rparr>"

definition file_f_software :: accessor where
  "file_f_software = \<lparr>getter = Getter_ptr ''software'',
     setter = Setter_ptr (T_class 69) ''software'', maker = Maker_ptr (T_class 69) ''software''\<rparr>"

definition file_f_file_name :: accessor where
  "file_f_file_name = \<lparr>getter = Getter_ptr ''file_name'',
     setter = Setter_ptr T_string ''file_name'', maker = Maker_ptr T_string ''file_name''\<rparr>"

definition file_new_code :: "new_step list" where
  "file_new_code =
     [Init_list ''additional_data_list'']"

definition file_destroy_code :: "destroy_step list" where
  "file_destroy_code =
     [Destroy_ptr T_string ''observable_id'', Destroy_ptr (T_class 100) ''hash_data'',
     Destroy_list 48 ''additional_data_list'', Destroy_ptr (T_class 57) ''signature_data'',
     Destroy_ptr T_string ''url'', Destroy_ptr (T_class 69) ''software'',
     Destroy_ptr T_string ''file_name'']"

definition file_copy_code :: "copy_step list" where
  "file_copy_code =
     [Copy_ptr T_string ''observable_id'', Copy_ptr (T_class 100) ''hash_data'',
     Copy_list 48 ''additional_data_list'', Copy_ptr (T_class 57) ''signature_data'',
     Copy_ptr T_string ''url'', Copy_ptr (T_class 69) ''software'',
     Copy_ptr T_string ''file_name'']"

definition file_compare_code :: "compare_step list" where
  "file_compare_code =
     [Compare_ptr T_string ''observable_id'', Compare_ptr (T_class 100) ''hash_data'',
     Compare_list 48 ''additional_data_list'', Compare_ptr (T_class 57) ''signature_data'',
     Compare_ptr T_string ''url'', Compare_ptr (T_class 69) ''software'',
     Compare_ptr T_string ''file_name'']"

definition file_get_code :: "(int \<times> get_case) list" where
  "file_get_code =
     [(0, Get_string ''observable_id''), (1, Get_object ''hash_data''),
     (2, Get_list ''additional_data_list''), (3, Get_object ''signature_data''),
     (4, Get_string ''url''), (5, Get_object ''software''), (6, Get_string ''file_name'')]"

definition file_make_code :: "(int \<times> new_child_case) list" where
  "file_make_code =
     [(0, Make_field file_f_observable_id), (1, Make_field file_f_hash_data),
     (2, Make_in_list file_f_additional_data ''additional_data_list''),
     (3, Make_field file_f_signature_data), (4, Make_field file_f_url),
     (5, Make_field file_f_software), (6, Make_field file_f_file_name)]"

definition file_drop_code :: "(int \<times> destroy_child_case) list" where
  "file_drop_code =
     [(0, Drop_ptr T_string ''observable_id''), (1, Drop_ptr (T_class 100) ''hash_data''),
     (2, Drop_in_list 48 ''additional_data_list''),
     (3, Drop_ptr (T_class 57) ''signature_data''), (4, Drop_ptr T_string ''url''),
     (5, Drop_ptr (T_class 69) ''software''), (6, Drop_ptr T_string ''file_name'')]"

definition file_code :: class_code where
  "file_code = \<lparr>cc_struct = file_struct, cc_linked = True, cc_new = file_new_code,
     cc_destroy = file_destroy_code, cc_copy = file_copy_code, cc_compare = file_compare_code,
     cc_get_child = file_get_code, cc_new_child = file_make_code, cc_destroy_child = file_drop_code\<rparr>"

lemmas file_code_defs =
  file_struct_def file_f_observable_id_def file_f_hash_data_def file_f_additional_data_def
  file_f_signature_data_def file_f_url_def file_f_software_def file_f_file_name_def
  file_new_code_def file_destroy_code_def file_copy_code_def file_compare_code_def
  file_get_code_def file_make_code_def file_drop_code_def file_code_def

lemma file_regular: "regular file_code"
  by (simp add: regular_def file_code_defs)

lemma file_fits: "fits_schema file_children_list [] file_code"
  by (simp add: fits_schema_def has_field_def list_field_def file_children_list_def file_code_defs)

subsection \<open>node (class 111)\<close>

definition node_struct :: "struct" where
  "node_struct =
     [(''postal_address'', F_ptr T_string), (''counter_list'', F_listed 52),
     (''location'', F_ptr T_string), (''domain_data_list'', F_listed 98),
     (''address_list'', F_listed 59)]"

definition node_f_postal_address :: accessor where
  "node_f_postal_address = \<lparr>getter = Getter_ptr ''postal_address'',
     setter = Setter_ptr T_string ''postal_address'', maker = Maker_ptr T_string ''postal_address''\<rparr>"

definition node_f_counter :: accessor where
  "node_f_counter = \<lparr>getter = Getter_next ''counter_list'',
     setter = Setter_listed ''counter_list'', maker = Maker_listed 52 ''counter_list''\<rparr>"

definition node_f_location :: accessor where
  "node_f_location = \<lparr>getter = Getter_ptr ''location'',
     setter = Setter_ptr T_string ''location'', maker = Maker_ptr T_string ''location''\<rparr>"

definition node_f_domain_data :: accessor where
  "node_f_domain_data = \<lparr>getter = Getter_next ''domain_data_list'',
     setter = Setter_listed ''domain_data_list'', maker = Maker_listed 98 ''domain_data_list''\<rparr>"

definition node_f_address :: accessor where
  "node_f_address = \<lparr>getter = Getter_next ''address_list'',
     setter = Setter_listed ''address_list'', maker = Maker_listed 59 ''address_list''\<rparr>"

definition node_new_code :: "new_step list" where
  "node_new_code =
     [Init_list ''counter_list'', Init_list ''domain_data_list'', Init_list ''address_list'']"

definition node_destroy_code :: "destroy_step list" where
  "node_destroy_code =
     [Destroy_ptr T_string ''postal_address'', Destroy_list 52 ''counter_list'',
     Destroy_ptr T_string ''location'', Destroy_list 98 ''domain_data_list'',
     Destroy_list 59 ''address_list'']"

definition node_copy_code :: "copy_step list" where
  "node_copy_code =
     [Copy_ptr T_string ''postal_address'', Copy_list 52 ''counter_list'',
     Copy_ptr T_string ''location'', Copy_list 98 ''domain_data_list'',
     Copy_list 59 ''address_list'']"

definition node_compare_code :: "compare_step list" where
  "node_compare_code =
     [Compare_ptr T_string ''postal_address'', Compare_list 52 ''counter_list'',
     Compare_ptr T_string ''location'', Compare_list 98 ''domain_data_list'',
     Compare_list 59 ''address_list'']"

definition node_get_code :: "(int \<times> get_case) list" where
  "node_get_code =
     [(0, Get_string ''postal_address''), (1, Get_list ''counter_list''),
     (2, Get_string ''location''), (3, Get_list ''domain_data_list''),
     (4, Get_list ''address_list'')]"

definition node_make_code :: "(int \<times> new_child_case) list" where
  "node_make_code =
     [(0, Make_field node_f_postal_address), (1, Make_in_list node_f_counter ''counter_list''),
     (2, Make_field node_f_location), (3, Make_in_list node_f_domain_data ''domain_data_list''),
     (4, Make_in_list node_f_address ''address_list'')]"

definition node_drop_code :: "(int \<times> destroy_child_case) list" where
  "node_drop_code =
     [(0, Drop_ptr T_string ''postal_address''), (1, Drop_in_list 52 ''counter_list''),
     (2, Drop_ptr T_string ''location''), (3, Drop_in_list 98 ''domain_data_list''),
     (4, Drop_in_list 59 ''address_list'')]"

definition node_code :: class_code where
  "node_code = \<lparr>cc_struct = node_struct, cc_linked = False, cc_new = node_new_code,
     cc_destroy = node_destroy_code, cc_copy = node_copy_code, cc_compare = node_compare_code,
     cc_get_child = node_get_code, cc_new_child = node_make_code, cc_destroy_child = node_drop_code\<rparr>"

lemmas node_code_defs =
  node_struct_def node_f_postal_address_def node_f_counter_def node_f_location_def
  node_f_domain_data_def node_f_address_def node_new_code_def node_destroy_code_def
  node_copy_code_def node_compare_code_def node_get_code_def node_make_code_def
  node_drop_code_def node_code_def

lemma node_regular: "regular node_code"
  by (simp add: regular_def node_code_defs)

lemma node_fits: "fits_schema node_children_list [] node_code"
  by (simp add: fits_schema_def has_field_def list_field_def node_children_list_def node_code_defs)

subsection \<open>service (class 112)\<close>

definition service_struct :: "struct" where
  "service_struct =
     [(''ip_protocol'', F_int), (''observable_id'', F_ptr T_string),
     (''proto_code'', F_optional), (''portlist'', F_ptr T_string),
     (''proto_field'', F_optional), (''service_name'', F_ptr (T_class 55)),
     (''application_header'', F_ptr (T_class 60)), (''email_data'', F_ptr (T_class 109)),
     (''proto_type'', F_optional), (''port'', F_optional), (''software_list'', F_listed 69)]"

definition service_f_ip_protocol :: accessor where
  "service_f_ip_protocol = \<lparr>getter = Getter_int ''ip_protocol'',
     setter = Setter_int ''ip_protocol'', maker = Maker_int ''ip_protocol''\<rparr>"

definition service_f_observable_id :: accessor where
  "service_f_observable_id = \<lparr>getter = Getter_ptr ''observable_id'',
     setter = Setter_ptr T_string ''observable_id'', maker = Maker_ptr T_string ''observable_id''\<rparr>"

definition service_f_proto_code :: accessor where
  "service_f_proto_code = \<lparr>getter = Getter_optional ''proto_code'',
     setter = Setter_optional ''proto_code'', maker = Maker_optional ''proto_code''\<rparr>"

definition service_f_portlist :: accessor where
  "service_f_portlist = \<lparr>getter = Getter_ptr ''portlist'',
     setter = Setter_ptr T_string ''portlist'', maker = Maker_ptr T_string ''portlist''\<rparr>"

definition service_f_proto_field :: accessor where
  "service_f_proto_field = \<lparr>getter = Getter_optional ''proto_field'',
     setter = Setter_optional ''proto_field'', maker = Maker_optional ''proto_field''\<rparr>"

definition service_f_service_name :: accessor where
  "service_f_service_name = \<lparr>getter = Getter_ptr ''service_name'',
     setter = Setter_ptr (T_class 55) ''service_name'', maker = Maker_ptr (T_class 55) ''service_name''\<rparr>"

definition service_f_application_header :: accessor where
  "service_f_application_header = \<lparr>getter = Getter_ptr ''application_header'',
     setter = Setter_ptr (T_class 60) ''application_header'', maker = Maker_ptr (T_class 60) ''application_header''\<rparr>"

definition service_f_email_data :: accessor where
  "service_f_email_data = \<lparr>getter = Getter_ptr ''email_data'',
     setter = Setter_ptr (T_class 109) ''email_data'', maker = Maker_ptr (T_class 109) ''email_data''\<rparr>"

definition service_f_proto_type :: accessor where
  "service_f_proto_type = \<lparr>getter = Getter_optional ''proto_type'',
     setter = Setter_optional ''proto_type'', maker = Maker_optional ''proto_type''\<rparr>"

definition service_f_port :: accessor where
  "service_f_port = \<lparr>getter = Getter_optional ''port'',
     setter = Setter_optional ''port'', maker = Maker_optional ''port''\<rparr>"

definition service_f_software :: accessor where
  "service_f_software = \<lparr>getter = Getter_next ''software_list'',
     setter = Setter_listed ''software_list'', maker = Maker_listed 69 ''software_list''\<rparr>"

definition service_new_code :: "new_step list" where
  "service_new_code =
     [Init_list ''software_list'']"

definition service_destroy_code :: "destroy_step list" where
  "service_destroy_code =
     [Destroy_ptr T_string ''observable_id'', Destroy_ptr T_string ''portlist'',
     Destroy_ptr (T_class 55) ''service_name'', Destroy_ptr (T_class 60) ''application_header'',
     Destroy_ptr (T_class 109) ''email_data'', Destroy_list 69 ''software_list'']"

definition service_copy_code :: "copy_step list" where
  "service_copy_code =
     [Copy_int ''ip_protocol'', Copy_ptr T_string ''observable_id'',
     Copy_optional ''proto_code'', Copy_ptr T_string ''portlist'',
     Copy_optional ''proto_field'', Copy_ptr (T_class 55) ''service_name'',
     Copy_ptr (T_class 60) ''application_header'', Copy_ptr (T_class 109) ''email_data'',
     Copy_optional ''proto_type'', Copy_optional ''port'', Copy_list 69 ''software_list'']"

definition service_compare_code :: "compare_step list" where
  "service_compare_code =
     [Compare_int ''ip_protocol'', Compare_ptr T_string ''observable_id'',
     Compare_optional ''proto_code'', Compare_ptr T_string ''portlist'',
     Compare_optional ''proto_field'', Compare_ptr (T_class 55) ''service_name'',
     Compare_ptr (T_class 60) ''application_header'', Compare_ptr (T_class 109) ''email_data'',
     Compare_optional ''proto_type'', Compare_optional ''port'',
     Compare_list 69 ''software_list'']"

definition service_get_code :: "(int \<times> get_case) list" where
  "service_get_code =
     [(0, Get_uint32 ''ip_protocol''), (1, Get_string ''observable_id''),
     (2, Get_optional_uint32 ''proto_code''), (3, Get_string ''portlist''),
     (4, Get_optional_uint32 ''proto_field''), (5, Get_object ''service_name''),
     (6, Get_object ''application_header''), (7, Get_object ''email_data''),
     (8, Get_optional_uint32 ''proto_type''), (9, Get_optional_uint32 ''port''),
     (10, Get_list ''software_list'')]"

definition service_make_code :: "(int \<times> new_child_case) list" where
  "service_make_code =
     [(0, Make_field service_f_ip_protocol), (1, Make_field service_f_observable_id),
     (2, Make_field service_f_proto_code), (3, Make_field service_f_portlist),
     (4, Make_field service_f_proto_field), (5, Make_field service_f_service_name),
     (6, Make_field service_f_application_header), (7, Make_field service_f_email_data),
     (8, Make_field service_f_proto_type), (9, Make_field service_f_port),
     (10, Make_in_list service_f_software ''software_list'')]"

definition service_drop_code :: "(int \<times> destroy_child_case) list" where
  "service_drop_code =
     [(1, Drop_ptr T_string ''observable_id''), (2, Drop_optional ''proto_code''),
     (3, Drop_ptr T_string ''portlist''), (4, Drop_optional ''proto_field''),
     (5, Drop_ptr (T_class 55) ''service_name''),
     (6, Drop_ptr (T_class 60) ''application_header''),
     (7, Drop_ptr (T_class 109) ''email_data''), (8, Drop_optional ''proto_type''),
     (9, Drop_optional ''port''), (10, Drop_in_list 69 ''software_list'')]"

definition service_code :: class_code where
  "service_code = \<lparr>cc_struct = service_struct, cc_linked = True, cc_new = service_new_code,
     cc_destroy = service_destroy_code, cc_copy = service_copy_code, cc_compare = service_compare_code,
     cc_get_child = service_get_code, cc_new_child = service_make_code, cc_destroy_child = service_drop_code\<rparr>"

lemmas service_code_defs =
  service_struct_def service_f_ip_protocol_def service_f_observable_id_def
  service_f_proto_code_def service_f_portlist_def service_f_proto_field_def
  service_f_service_name_def service_f_application_header_def service_f_email_data_def
  service_f_proto_type_def service_f_port_def service_f_software_def service_new_code_def
  service_destroy_code_def service_copy_code_def service_compare_code_def
  service_get_code_def service_make_code_def service_drop_code_def service_code_def

lemma service_regular: "regular service_code"
  by (simp add: regular_def service_code_defs)

lemma service_fits: "fits_schema service_children_list [0] service_code"
  by (simp add: fits_schema_def has_field_def list_field_def service_children_list_def service_code_defs)

subsection \<open>file data (class 114)\<close>

definition file_data_struct :: "struct" where
  "file_data_struct =
     [(''restriction'', F_optional), (''ext_restriction'', F_ptr T_string),
     (''observable_id'', F_ptr T_string), (''file_list'', F_listed 110)]"

definition file_data_f_restriction :: accessor where
  "file_data_f_restriction = \<lparr>getter = Getter_optional ''restriction'',
     setter = Setter_optional ''restriction'', maker = Maker_optional ''restriction''\<rparr>"

definition file_data_f_ext_restriction :: accessor where
  "file_data_f_ext_restriction = \<lparr>getter = Getter_ptr ''ext_restriction'',
     setter = Setter_ptr T_string ''ext_restriction'', maker = Maker_ptr T_string ''ext_restriction''\<rparr>"

definition file_data_f_observable_id :: accessor where
  "file_data_f_observable_id = \<lparr>getter = Getter_ptr ''observable_id'',
     setter = Setter_ptr T_string ''observable_id'', maker = Maker_ptr T_string ''observable_id''\<rparr>"

definition file_data_f_file :: accessor where
  "file_data_f_file = \<lparr>getter = Getter_next ''file_list'',
     setter = Setter_listed ''file_list'', maker = Maker_listed 110 ''file_list''\<rparr>"

definition file_data_new_code :: "new_step list" where
  "file_data_new_code =
     [Init_list ''file_list'']"

definition file_data_destroy_code :: "destroy_step list" where
  "file_data_destroy_code =
     [Destroy_ptr T_string ''ext_restriction'', Destroy_ptr T_string ''observable_id'',
     Destroy_list 110 ''file_list'']"

definition file_data_copy_code :: "copy_step list" where
  "file_data_copy_code =
     [Copy_optional ''restriction'', Copy_ptr T_string ''ext_restriction'',
     Copy_ptr T_string ''observable_id'', Copy_list 110 ''file_list'']"

definition file_data_compare_code :: "compare_step list" where
  "file_data_compare_code =
     [Compare_optional ''restriction'', Compare_ptr T_string ''ext_restriction'',
     Compare_ptr T_string ''observable_id'', Compare_list 110 ''file_list'']"

definition file_data_get_code :: "(int \<times> get_case) list" where
  "file_data_get_code =
     [(0, Get_optional_enum ''restriction'' 113), (1, Get_string ''ext_restriction''),
     (2, Get_string ''observable_id''), (3, Get_list ''file_list'')]"

definition file_data_make_code :: "(int \<times> new_child_case) list" where
  "file_data_make_code =
     [(0, Make_field file_data_f_restriction), (1, Make_field file_data_f_ext_restriction),
     (2, Make_field file_data_f_observable_id), (3, Make_in_list file_data_f_file ''file_list'')]"

definition file_data_drop_code :: "(int \<times> destroy_child_case) list" where
  "file_data_drop_code =
     [(0, Drop_optional ''restriction''), (1, Drop_ptr T_string ''ext_restriction''),
     (2, Drop_ptr T_string ''observable_id''), (3, Drop_in_list 110 ''file_list'')]"

definition file_data_code :: class_code where
  "file_data_code = \<lparr>cc_struct = file_data_struct, cc_linked = True, cc_new = file_data_new_code,
     cc_destroy = file_data_destroy_code, cc_copy = file_data_copy_code, cc_compare = file_data_compare_code,
     cc_get_child = file_data_get_code, cc_new_child = file_data_make_code, cc_destroy_child = file_data_drop_code\<rparr>"

lemmas file_data_code_defs =
  file_data_struct_def file_data_f_restriction_def file_data_f_ext_restriction_def
  file_data_f_observable_id_def file_data_f_file_def file_data_new_code_def
  file_data_destroy_code_def file_data_copy_code_def file_data_compare_code_def
  file_data_get_code_def file_data_make_code_def file_data_drop_code_def file_data_code_def

lemma file_data_regular: "regular file_data_code"
  by (simp add: regular_def file_data_code_defs)

lemma file_data_fits: "fits_schema file_data_children_list [] file_data_code"
  by (simp add: fits_schema_def has_field_def list_field_def file_data_children_list_def file_data_code_defs)

subsection \<open>system (class 120)\<close>

definition system_struct :: "struct" where
  "system_struct =
     [(''category'', F_int), (''restriction'', F_optional),
     (''ext_restriction'', F_ptr T_string), (''ext_ownership'', F_ptr T_string),
     (''ext_category'', F_ptr T_string), (''spoofed'', F_optional), (''virtual'', F_optional),
     (''observable_id'', F_ptr T_string), (''ownership'', F_optional),
     (''interface'', F_ptr T_string), (''node'', F_ptr (T_class 111)),
     (''additional_data_list'', F_listed 48), (''description'', F_ptr T_string),
     (''service_list'', F_listed 112), (''asset_id'', F_ptr T_string),
     (''counter_list'', F_listed 52), (''node_role_list'', F_listed 24),
     (''software'', F_ptr (T_class 69))]"

definition system_f_category :: accessor where
  "system_f_category = \<lparr>getter = Getter_int ''category'',
     setter = Setter_int ''category'', maker = Maker_int ''category''\<rparr>"

definition system_f_restriction :: accessor where
  "system_f_restriction = \<lparr>getter = Getter_optional ''restriction'',
     setter = Setter_optional ''restriction'', maker = Maker_optional ''restriction''\<rparr>"

definition system_f_ext_restriction :: accessor where
  "system_f_ext_restriction = \<lparr>getter = Getter_ptr ''ext_restriction'',
     setter = Setter_ptr T_string ''ext_restriction'', maker = Maker_ptr T_string ''ext_restriction''\<rparr>"

definition system_f_ext_ownership :: accessor where
  "system_f_ext_ownership = \<lparr>getter = Getter_ptr ''ext_ownership'',
     setter = Setter_ptr T_string ''ext_ownership'', maker = Maker_ptr T_string ''ext_ownership''\<rparr>"

definition system_f_ext_category :: accessor where
  "system_f_ext_category = \<lparr>getter = Getter_ptr ''ext_category'',
     setter = Setter_ptr T_string ''ext_category'', maker = Maker_ptr T_string ''ext_category''\<rparr>"

definition system_f_spoofed :: accessor where
  "system_f_spoofed = \<lparr>getter = Getter_optional ''spoofed'',
     setter = Setter_optional ''spoofed'', maker = Maker_optional ''spoofed''\<rparr>"

definition system_f_virtual :: accessor where
  "system_f_virtual = \<lparr>getter = Getter_optional ''virtual'',
     setter = Setter_optional ''virtual'', maker = Maker_optional ''virtual''\<rparr>"

definition system_f_observable_id :: accessor where
  "system_f_observable_id = \<lparr>getter = Getter_ptr ''observable_id'',
     setter = Setter_ptr T_string ''observable_id'', maker = Maker_ptr T_string ''observable_id''\<rparr>"

definition system_f_ownership :: accessor where
  "system_f_ownership = \<lparr>getter = Getter_optional ''ownership'',
     setter = Setter_optional ''ownership'', maker = Maker_optional ''ownership''\<rparr>"

definition system_f_interface :: accessor where
  "system_f_interface = \<lparr>getter = Getter_ptr ''interface'',
     setter = Setter_ptr T_string ''interface'', maker = Maker_ptr T_string ''interface''\<rparr>"

definition system_f_node :: accessor where
  "system_f_node = \<lparr>getter = Getter_ptr ''node'',
     setter = Setter_ptr (T_class 111) ''node'', maker = Maker_ptr (T_class 111) ''node''\<rparr>"

definition system_f_additional_data :: accessor where
  "system_f_additional_data = \<lparr>getter = Getter_next ''additional_data_list'',
     setter = Setter_listed ''additional_data_list'', maker = Maker_listed 48 ''additional_data_list''\<rparr>"

definition system_f_description :: accessor where
  "system_f_description = \<lparr>getter = Getter_ptr ''description'',
     setter = Setter_ptr T_string ''description'', maker = Maker_ptr T_string ''description''\<rparr>"

definition system_f_service :: accessor where
  "system_f_service = \<lparr>getter = Getter_next ''service_list'',
     setter = Setter_listed ''service_list'', maker = Maker_listed 112 ''service_list''\<rparr>"

definition system_f_asset_id :: accessor where
  "system_f_asset_id = \<lparr>getter = Getter_ptr ''asset_id'',
     setter = Setter_ptr T_string ''asset_id'', maker = Maker_ptr T_string ''asset_id''\<rparr>"

definition system_f_counter :: accessor where
  "system_f_counter = \<lparr>getter = Getter_next ''counter_list'',
     setter = Setter_listed ''counter_list'', maker = Maker_listed 52 ''counter_list''\<rparr>"

definition system_f_node_role :: accessor where
  "system_f_node_role = \<lparr>getter = Getter_next ''node_role_list'',
     setter = Setter_listed ''node_role_list'', maker = Maker_listed 24 ''node_role_list''\<rparr>"

definition system_f_software :: accessor where
  "system_f_software = \<lparr>getter = Getter_ptr ''software'',
     setter = Setter_ptr (T_class 69) ''software'', maker = Maker_ptr (T_class 69) ''software''\<rparr>"

definition system_new_code :: "new_step list" where
  "system_new_code =
     [Init_list ''additional_data_list'', Init_list ''service_list'', Init_list ''counter_list'',
     Init_list ''node_role_list'']"

definition system_destroy_code :: "destroy_step list" where
  "system_destroy_code =
     [Destroy_ptr T_string ''ext_restriction'', Destroy_ptr T_string ''ext_ownership'',
     Destroy_ptr T_string ''ext_category'', Destroy_ptr T_string ''observable_id'',
     Destroy_ptr T_string ''interface'', Destroy_ptr (T_class 111) ''node'',
     Destroy_list 48 ''additional_data_list'', Destroy_ptr T_string ''description'',
     Destroy_list 112 ''service_list'', Destroy_ptr T_string ''asset_id'',
     Destroy_list 52 ''counter_list'', Destroy_list 24 ''node_role_list'',
     Destroy_ptr (T_class 69) ''software'']"

definition system_copy_code :: "copy_step list" where
  "system_copy_code =
     [Copy_int ''category'', Copy_optional ''restriction'',
     Copy_ptr T_string ''ext_restriction'', Copy_ptr T_string ''ext_ownership'',
     Copy_ptr T_string ''ext_category'', Copy_optional ''spoofed'', Copy_optional ''virtual'',
     Copy_ptr T_string ''observable_id'', Copy_optional ''ownership'',
     Copy_ptr T_string ''interface'', Copy_ptr (T_class 111) ''node'',
     Copy_list 48 ''additional_data_list'', Copy_ptr T_string ''description'',
     Copy_list 112 ''service_list'', Copy_ptr T_string ''asset_id'',
     Copy_list 52 ''counter_list'', Copy_list 24 ''node_role_list'',
     Copy_ptr (T_class 69) ''software'']"

definition system_compare_code :: "compare_step list" where
  "system_compare_code =
     [Compare_int ''category'', Compare_optional ''restriction'',
     Compare_ptr T_string ''ext_restriction'', Compare_ptr T_string ''ext_ownership'',
     Compare_ptr T_string ''ext_category'', Compare_optional ''spoofed'',
     Compare_optional ''virtual'', Compare_ptr T_string ''observable_id'',
     Compare_optional ''ownership'', Compare_ptr T_string ''interface'',
     Compare_ptr (T_class 111) ''node'', Compare_list 48 ''additional_data_list'',
     Compare_ptr T_string ''description'', Compare_list 112 ''service_list'',
     Compare_ptr T_string ''asset_id'', Compare_list 52 ''counter_list'',
     Compare_list 24 ''node_role_list'', Compare_ptr (T_class 69) ''software'']"

definition system_get_code :: "(int \<times> get_case) list" where
  "system_get_code =
     [(0, Get_enum ''category'' 115), (1, Get_optional_enum ''restriction'' 116),
     (2, Get_string ''ext_restriction''), (3, Get_string ''ext_ownership''),
     (4, Get_string ''ext_category''), (5, Get_optional_enum ''spoofed'' 117),
     (6, Get_optional_enum ''virtual'' 118), (7, Get_string ''observable_id''),
     (8, Get_optional_enum ''ownership'' 119), (9, Get_string ''interface''),
     (10, Get_object ''node''), (11, Get_list ''additional_data_list''),
     (12, Get_string ''description''), (13, Get_list ''service_list''),
     (14, Get_string ''asset_id''), (15, Get_list ''counter_list''),
     (16, Get_list ''node_role_list''), (17, Get_object ''software'')]"

definition system_make_code :: "(int \<times> new_child_case) list" where
  "system_make_code =
     [(0, Make_field system_f_category), (1, Make_field system_f_restriction),
     (2, Make_field system_f_ext_restriction), (3, Make_field system_f_ext_ownership),
     (4, Make_field system_f_ext_category), (5, Make_field system_f_spoofed),
     (6, Make_field system_f_virtual), (7, Make_field system_f_observable_id),
     (8, Make_field system_f_ownership), (9, Make_field system_f_interface),
     (10, Make_field system_f_node),
     (11, Make_in_list system_f_additional_data ''additional_data_list''),
     (12, Make_field system_f_description),
     (13, Make_in_list system_f_service ''service_list''), (14, Make_field system_f_asset_id),
     (15, Make_in_list system_f_counter ''counter_list''),
     (16, Make_in_list system_f_node_role ''node_role_list''), (17, Make_field system_f_software)]"

definition system_drop_code :: "(int \<times> destroy_child_case) list" where
  "system_drop_code =
     [(0, Drop_int ''category''), (1, Drop_optional ''restriction''),
     (2, Drop_ptr T_string ''ext_restriction''), (3, Drop_ptr T_string ''ext_ownership''),
     (4, Drop_ptr T_string ''ext_category''), (5, Drop_optional ''spoofed''),
     (6, Drop_optional ''virtual''), (7, Drop_ptr T_string ''observable_id''),
     (8, Drop_optional ''ownership''), (9, Drop_ptr T_string ''interface''),
     (10, Drop_ptr (T_class 111) ''node''), (11, Drop_in_list 48 ''additional_data_list''),
     (12, Drop_ptr T_string ''description''), (13, Drop_in_list 112 ''service_list''),
     (14, Drop_ptr T_string ''asset_id''), (15, Drop_in_list 52 ''counter_list''),
     (16, Drop_in_list 24 ''node_role_list''), (17, Drop_ptr (T_class 69) ''software'')]"

definition system_code :: class_code where
  "system_code = \<lparr>cc_struct = system_struct, cc_linked = True, cc_new = system_new_code,
     cc_destroy = system_destroy_code, cc_copy = system_copy_code, cc_compare = system_compare_code,
     cc_get_child = system_get_code, cc_new_child = system_make_code, cc_destroy_child = system_drop_code\<rparr>"

lemmas system_code_defs =
  system_struct_def system_f_category_def system_f_restriction_def
  system_f_ext_restriction_def system_f_ext_ownership_def system_f_ext_category_def
  system_f_spoofed_def system_f_virtual_def system_f_observable_id_def
  system_f_ownership_def system_f_interface_def system_f_node_def
  system_f_additional_data_def system_f_description_def system_f_service_def
  system_f_asset_id_def system_f_counter_def system_f_node_role_def system_f_software_def
  system_new_code_def system_destroy_code_def system_copy_code_def system_compare_code_def
  system_get_code_def system_make_code_def system_drop_code_def system_code_def

lemma system_regular: "regular system_code"
  by (simp add: regular_def system_code_defs)

lemma system_fits: "fits_schema system_children_list [] system_code"
  by (simp add: fits_schema_def has_field_def list_field_def system_children_list_def system_code_defs)

subsection \<open>record data (class 122)\<close>

definition record_data_struct :: "struct" where
  "record_data_struct =
     [(''restriction'', F_optional), (''ext_restriction'', F_ptr T_string),
     (''observable_id'', F_ptr T_string), (''additional_data_list'', F_listed 48),
     (''description'', F_ptr T_string), (''url'', F_ptr T_string),
     (''certificate_data_list'', F_listed 62), (''record_pattern_list'', F_listed 19),
     (''date_time'', F_ptr T_time), (''windows_registry_keys_modified_list'', F_listed 71),
     (''file_data_list'', F_listed 114), (''software'', F_ptr (T_class 69))]"

definition record_data_f_restriction :: accessor where
  "record_data_f_restriction = \<lparr>getter = Getter_optional ''restriction'',
     setter = Setter_optional ''restriction'', maker = Maker_optional ''restriction''\<rparr>"

definition record_data_f_ext_restriction :: accessor where
  "record_data_f_ext_restriction = \<lparr>getter = Getter_ptr ''ext_restriction'',
     setter = Setter_ptr T_string ''ext_restriction'', maker = Maker_ptr T_string ''ext_restriction''\<rparr>"

definition record_data_f_observable_id :: accessor where
  "record_data_f_observable_id = \<lparr>getter = Getter_ptr ''observable_id'',
     setter = Setter_ptr T_string ''observable_id'', maker = Maker_ptr T_string ''observable_id''\<rparr>"

definition record_data_f_additional_data :: accessor where
  "record_data_f_additional_data = \<lparr>getter = Getter_next ''additional_data_list'',
     setter = Setter_listed ''additional_data_list'', maker = Maker_listed 48 ''additional_data_list''\<rparr>"

definition record_data_f_description :: accessor where
  "record_data_f_description = \<lparr>getter = Getter_ptr ''description'',
     setter = Setter_ptr T_string ''description'', maker = Maker_ptr T_string ''description''\<rparr>"

definition record_data_f_url :: accessor where
  "record_data_f_url = \<lparr>getter = Getter_ptr ''url'',
     setter = Setter_ptr T_string ''url'', maker = Maker_ptr T_string ''url''\<rparr>"

definition record_data_f_certificate_data :: accessor where
  "record_data_f_certificate_data = \<lparr>getter = Getter_next ''certificate_data_list'',
     setter = Setter_listed ''certificate_data_list'', maker = Maker_listed 62 ''certificate_data_list''\<rparr>"

definition record_data_f_record_pattern :: accessor where
  "record_data_f_record_pattern = \<lparr>getter = Getter_next ''record_pattern_list'',
     setter = Setter_listed ''record_pattern_list'', maker = Maker_listed 19 ''record_pattern_list''\<rparr>"

definition record_data_f_date_time :: accessor where
  "record_data_f_date_time = \<lparr>getter = Getter_ptr ''date_time'',
     setter = Setter_ptr T_time ''date_time'', maker = Maker_ptr T_time ''date_time''\<rparr>"

definition record_data_f_windows_registry_keys_modified :: accessor where
  "record_data_f_windows_registry_keys_modified = \<lparr>getter = Getter_next ''windows_registry_keys_modified_list'',
     setter = Setter_listed ''windows_registry_keys_modified_list'', maker = Maker_listed 71 ''windows_registry_keys_modified_list''\<rparr>"

definition record_data_f_file_data :: accessor where
  "record_data_f_file_data = \<lparr>getter = Getter_next ''file_data_list'',
     setter = Setter_listed ''file_data_list'', maker = Maker_listed 114 ''file_data_list''\<rparr>"

definition record_data_f_software :: accessor where
  "record_data_f_software = \<lparr>getter = Getter_ptr ''software'',
     setter = Setter_ptr (T_class 69) ''software'', maker = Maker_ptr (T_class 69) ''software''\<rparr>"

definition record_data_new_code :: "new_step list" where
  "record_data_new_code =
     [Init_list ''additional_data_list'', Init_list ''certificate_data_list'',
     Init_list ''record_pattern_list'', Init_list ''windows_registry_keys_modified_list'',
     Init_list ''file_data_list'']"

definition record_data_destroy_code :: "destroy_step list" where
  "record_data_destroy_code =
     [Destroy_ptr T_string ''ext_restriction'', Destroy_ptr T_string ''observable_id'',
     Destroy_list 48 ''additional_data_list'', Destroy_ptr T_string ''description'',
     Destroy_ptr T_string ''url'', Destroy_list 62 ''certificate_data_list'',
     Destroy_list 19 ''record_pattern_list'', Destroy_ptr T_time ''date_time'',
     Destroy_list 71 ''windows_registry_keys_modified_list'',
     Destroy_list 114 ''file_data_list'', Destroy_ptr (T_class 69) ''software'']"

definition record_data_copy_code :: "copy_step list" where
  "record_data_copy_code =
     [Copy_optional ''restriction'', Copy_ptr T_string ''ext_restriction'',
     Copy_ptr T_string ''observable_id'', Copy_list 48 ''additional_data_list'',
     Copy_ptr T_string ''description'', Copy_ptr T_string ''url'',
     Copy_list 62 ''certificate_data_list'', Copy_list 19 ''record_pattern_list'',
     Copy_ptr T_time ''date_time'', Copy_list 71 ''windows_registry_keys_modified_list'',
     Copy_list 114 ''file_data_list'', Copy_ptr (T_class 69) ''software'']"

definition record_data_compare_code :: "compare_step list" where
  "record_data_compare_code =
     [Compare_optional ''restriction'', Compare_ptr T_string ''ext_restriction'',
     Compare_ptr T_string ''observable_id'', Compare_list 48 ''additional_data_list'',
     Compare_ptr T_string ''description'', Compare_ptr T_string ''url'',
     Compare_list 62 ''certificate_data_list'', Compare_list 19 ''record_pattern_list'',
     Compare_ptr T_time ''date_time'', Compare_list 71 ''windows_registry_keys_modified_list'',
     Compare_list 114 ''file_data_list'', Compare_ptr (T_class 69) ''software'']"

definition record_data_get_code :: "(int \<times> get_case) list" where
  "record_data_get_code =
     [(0, Get_optional_enum ''restriction'' 121), (1, Get_string ''ext_restriction''),
     (2, Get_string ''observable_id''), (3, Get_list ''additional_data_list''),
     (4, Get_string ''description''), (5, Get_string ''url''),
     (6, Get_list ''certificate_data_list''), (7, Get_list ''record_pattern_list''),
     (8, Get_time ''date_time''), (9, Get_list ''windows_registry_keys_modified_list''),
     (10, Get_list ''file_data_list''), (11, Get_object ''software'')]"

definition record_data_make_code :: "(int \<times> new_child_case) list" where
  "record_data_make_code =
     [(0, Make_field record_data_f_restriction), (1, Make_field record_data_f_ext_restriction),
     (2, Make_field record_data_f_observable_id),
     (3, Make_in_list record_data_f_additional_data ''additional_data_list''),
     (4, Make_field record_data_f_description), (5, Make_field record_data_f_url),
     (6, Make_in_list record_data_f_certificate_data ''certificate_data_list''),
     (7, Make_in_list record_data_f_record_pattern ''record_pattern_list''),
     (8, Make_field record_data_f_date_time),
     (9, Make_in_list record_data_f_windows_registry_keys_modified ''windows_registry_keys_modified_list''),
     (10, Make_in_list record_data_f_file_data ''file_data_list''),
     (11, Make_field record_data_f_software)]"

definition record_data_drop_code :: "(int \<times> destroy_child_case) list" where
  "record_data_drop_code =
     [(0, Drop_optional ''restriction''), (1, Drop_ptr T_string ''ext_restriction''),
     (2, Drop_ptr T_string ''observable_id''), (3, Drop_in_list 48 ''additional_data_list''),
     (4, Drop_ptr T_string ''description''), (5, Drop_ptr T_string ''url''),
     (6, Drop_in_list 62 ''certificate_data_list''),
     (7, Drop_in_list 19 ''record_pattern_list''), (8, Drop_ptr T_time ''date_time''),
     (9, Drop_in_list 71 ''windows_registry_keys_modified_list''),
     (10, Drop_in_list 114 ''file_data_list''), (11, Drop_ptr (T_class 69) ''software'')]"

definition record_data_code :: class_code where
  "record_data_code = \<lparr>cc_struct = record_data_struct, cc_linked = True, cc_new = record_data_new_code,
     cc_destroy = record_data_destroy_code, cc_copy = record_data_copy_code, cc_compare = record_data_compare_code,
     cc_get_child = record_data_get_code, cc_new_child = record_data_make_code, cc_destroy_child = record_data_drop_code\<rparr>"

lemmas record_data_code_defs =
  record_data_struct_def record_data_f_restriction_def record_data_f_ext_restriction_def
  record_data_f_observable_id_def record_data_f_additional_data_def
  record_data_f_description_def record_data_f_url_def record_data_f_certificate_data_def
  record_data_f_record_pattern_def record_data_f_date_time_def
  record_data_f_windows_registry_keys_modified_def record_data_f_file_data_def
  record_data_f_software_def record_data_new_code_def record_data_destroy_code_def
  record_data_copy_code_def record_data_compare_code_def record_data_get_code_def
  record_data_make_code_def record_data_drop_code_def record_data_code_def

lemma record_data_regular: "regular record_data_code"
  by (simp add: regular_def record_data_code_defs)

lemma record_data_fits: "fits_schema record_data_children_list [] record_data_code"
  by (simp add: fits_schema_def has_field_def list_field_def record_data_children_list_def record_data_code_defs)

subsection \<open>record (class 124)\<close>

definition record_struct :: "struct" where
  "record_struct =
     [(''restriction'', F_optional), (''ext_restriction'', F_ptr T_string),
     (''record_data_list'', F_listed 122)]"

definition record_f_restriction :: accessor where
  "record_f_restriction = \<lparr>getter = Getter_optional ''restriction'',
     setter = Setter_optional ''restriction'', maker = Maker_optional ''restriction''\<rparr>"

definition record_f_ext_restriction :: accessor where
  "record_f_ext_restriction = \<lparr>getter = Getter_ptr ''ext_restriction'',
     setter = Setter_ptr T_string ''ext_restriction'', maker = Maker_ptr T_string ''ext_restriction''\<rparr>"

definition record_f_record_data :: accessor where
  "record_f_record_data = \<lparr>getter = Getter_next ''record_data_list'',
     setter = Setter_listed ''record_data_list'', maker = Maker_listed 122 ''record_data_list''\<rparr>"

definition record_new_code :: "new_step list" where
  "record_new_code =
     [Init_list ''record_data_list'']"

definition record_destroy_code :: "destroy_step list" where
  "record_destroy_code =
     [Destroy_ptr T_string ''ext_restriction'', Destroy_list 122 ''record_data_list'']"

definition record_copy_code :: "copy_step list" where
  "record_copy_code =
     [Copy_optional ''restriction'', Copy_ptr T_string ''ext_restriction'',
     Copy_list 122 ''record_data_list'']"

definition record_compare_code :: "compare_step list" where
  "record_compare_code =
     [Compare_optional ''restriction'', Compare_ptr T_string ''ext_restriction'',
     Compare_list 122 ''record_data_list'']"

definition record_get_code :: "(int \<times> get_case) list" where
  "record_get_code =
     [(0, Get_optional_enum ''restriction'' 123), (1, Get_string ''ext_restriction''),
     (2, Get_list ''record_data_list'')]"

definition record_make_code :: "(int \<times> new_child_case) list" where
  "record_make_code =
     [(0, Make_field record_f_restriction), (1, Make_field record_f_ext_restriction),
     (2, Make_in_list record_f_record_data ''record_data_list'')]"

definition record_drop_code :: "(int \<times> destroy_child_case) list" where
  "record_drop_code =
     [(0, Drop_optional ''restriction''), (1, Drop_ptr T_string ''ext_restriction''),
     (2, Drop_in_list 122 ''record_data_list'')]"

definition record_code :: class_code where
  "record_code = \<lparr>cc_struct = record_struct, cc_linked = False, cc_new = record_new_code,
     cc_destroy = record_destroy_code, cc_copy = record_copy_code, cc_compare = record_compare_code,
     cc_get_child = record_get_code, cc_new_child = record_make_code, cc_destroy_child = record_drop_code\<rparr>"

lemmas record_code_defs =
  record_struct_def record_f_restriction_def record_f_ext_restriction_def
  record_f_record_data_def record_new_code_def record_destroy_code_def record_copy_code_def
  record_compare_code_def record_get_code_def record_make_code_def record_drop_code_def
  record_code_def

lemma record_regular: "regular record_code"
  by (simp add: regular_def record_code_defs)

lemma record_fits: "fits_schema record_children_list [] record_code"
  by (simp add: fits_schema_def has_field_def list_field_def record_children_list_def record_code_defs)

subsection \<open>flow (class 125)\<close>

definition flow_struct :: "struct" where
  "flow_struct =
     [(''system_list'', F_listed 120)]"

definition flow_f_system :: accessor where
  "flow_f_system = \<lparr>getter = Getter_next ''system_list'',
     setter = Setter_listed ''system_list'', maker = Maker_listed 120 ''system_list''\<rparr>"

definition flow_new_code :: "new_step list" where
  "flow_new_code =
     [Init_list ''system_list'']"

definition flow_destroy_code :: "destroy_step list" where
  "flow_destroy_code =
     [Destroy_list 120 ''system_list'']"

definition flow_copy_code :: "copy_step list" where
  "flow_copy_code =
     [Copy_list 120 ''system_list'']"

definition flow_compare_code :: "compare_step list" where
  "flow_compare_code =
     [Compare_list 120 ''system_list'']"

definition flow_get_code :: "(int \<times> get_case) list" where
  "flow_get_code =
     [(0, Get_list ''system_list'')]"

definition flow_make_code :: "(int \<times> new_child_case) list" where
  "flow_make_code =
     [(0, Make_in_list flow_f_system ''system_list'')]"

definition flow_drop_code :: "(int \<times> destroy_child_case) list" where
  "flow_drop_code =
     [(0, Drop_in_list 120 ''system_list'')]"

definition flow_code :: class_code where
  "flow_code = \<lparr>cc_struct = flow_struct, cc_linked = True, cc_new = flow_new_code,
     cc_destroy = flow_destroy_code, cc_copy = flow_copy_code, cc_compare = flow_compare_code,
     cc_get_child = flow_get_code, cc_new_child = flow_make_code, cc_destroy_child = flow_drop_code\<rparr>"

lemmas flow_code_defs =
  flow_struct_def flow_f_system_def flow_new_code_def flow_destroy_code_def
  flow_copy_code_def flow_compare_code_def flow_get_code_def flow_make_code_def
  flow_drop_code_def flow_code_def

lemma flow_regular: "regular flow_code"
  by (simp add: regular_def flow_code_defs)

lemma flow_fits: "fits_schema flow_children_list [] flow_code"
  by (simp add: fits_schema_def has_field_def list_field_def flow_children_list_def flow_code_defs)

subsection \<open>event data (class 127)\<close>

definition event_data_struct :: "struct" where
  "event_data_struct =
     [(''restriction'', F_optional), (''ext_restriction'', F_ptr T_string),
     (''observable_id'', F_ptr T_string), (''detect_time'', F_ptr T_time),
     (''additional_data_list'', F_listed 48), (''report_time'', F_ptr T_time),
     (''description'', F_ptr T_string), (''flow_list'', F_listed 125),
     (''expectation_list'', F_listed 95), (''record'', F_ptr (T_class 124)),
     (''contact_list'', F_listed 81), (''start_time'', F_ptr T_time),
     (''end_time'', F_ptr T_time), (''assessment'', F_ptr (T_class 76)),
     (''method_list'', F_listed 66), (''recovery_time'', F_ptr T_time),
     (''discovery_list'', F_listed 106)]"

definition event_data_f_restriction :: accessor where
  "event_data_f_restriction = \<lparr>getter = Getter_optional ''restriction'',
     setter = Setter_optional ''restriction'', maker = Maker_optional ''restriction''\<rparr>"

definition event_data_f_ext_restriction :: accessor where
  "event_data_f_ext_restriction = \<lparr>getter = Getter_ptr ''ext_restriction'',
     setter = Setter_ptr T_string ''ext_restriction'', maker = Maker_ptr T_string ''ext_restriction''\<rparr>"

definition event_data_f_observable_id :: accessor where
  "event_data_f_observable_id = \<lparr>getter = Getter_ptr ''observable_id'',
     setter = Setter_ptr T_string ''observable_id'', maker = Maker_ptr T_string ''observable_id''\<rparr>"

definition event_data_f_detect_time :: accessor where
  "event_data_f_detect_time = \<lparr>getter = Getter_ptr ''detect_time'',
     setter = Setter_ptr T_time ''detect_time'', maker = Maker_ptr T_time ''detect_time''\<rparr>"

definition event_data_f_additional_data :: accessor where
  "event_data_f_additional_data = \<lparr>getter = Getter_next ''additional_data_list'',
     setter = Setter_listed ''additional_data_list'', maker = Maker_listed 48 ''additional_data_list''\<rparr>"

definition event_data_f_report_time :: accessor where
  "event_data_f_report_time = \<lparr>getter = Getter_ptr ''report_time'',
     setter = Setter_ptr T_time ''report_time'', maker = Maker_ptr T_time ''report_time''\<rparr>"

definition event_data_f_description :: accessor where
  "event_data_f_description = \<lparr>getter = Getter_ptr ''description'',
     setter = Setter_ptr T_string ''description'', maker = Maker_ptr T_string ''description''\<rparr>"

definition event_data_f_flow :: accessor where
  "event_data_f_flow = \<lparr>getter = Getter_next ''flow_list'',
     setter = Setter_listed ''flow_list'', maker = Maker_listed 125 ''flow_list''\<rparr>"

definition event_data_f_expectation :: accessor where
  "event_data_f_expectation = \<lparr>getter = Getter_next ''expectation_list'',
     setter = Setter_listed ''expectation_list'', maker = Maker_listed 95 ''expectation_list''\<rparr>"

definition event_data_f_record :: accessor where
  "event_data_f_record = \<lparr>getter = Getter_ptr ''record'',
     setter = Setter_ptr (T_class 124) ''record'', maker = Maker_ptr (T_class 124) ''record''\<rparr>"

definition event_data_f_contact :: accessor where
  "event_data_f_contact = \<lparr>getter = Getter_next ''contact_list'',
     setter = Setter_listed ''contact_list'', maker = Maker_listed 81 ''contact_list''\<rparr>"

definition event_data_f_start_time :: accessor where
  "event_data_f_start_time = \<lparr>getter = Getter_ptr ''start_time'',
     setter = Setter_ptr T_time ''start_time'', maker = Maker_ptr T_time ''start_time''\<rparr>"

definition event_data_f_end_time :: accessor where
  "event_data_f_end_time = \<lparr>getter = Getter_ptr ''end_time'',
     setter = Setter_ptr T_time ''end_time'', maker = Maker_ptr T_time ''end_time''\<rparr>"

definition event_data_f_assessment :: accessor where
  "event_data_f_assessment = \<lparr>getter = Getter_ptr ''assessment'',
     setter = Setter_ptr (T_class 76) ''assessment'', maker = Maker_ptr (T_class 76) ''assessment''\<rparr>"

definition event_data_f_method :: accessor where
  "event_data_f_method = \<lparr>getter = Getter_next ''method_list'',
     setter = Setter_listed ''method_list'', maker = Maker_listed 66 ''method_list''\<rparr>"

definition event_data_f_recovery_time :: accessor where
  "event_data_f_recovery_time = \<lparr>getter = Getter_ptr ''recovery_time'',
     setter = Setter_ptr T_time ''recovery_time'', maker = Maker_ptr T_time ''recovery_time''\<rparr>"

definition event_data_f_discovery :: accessor where
  "event_data_f_discovery = \<lparr>getter = Getter_next ''discovery_list'',
     setter = Setter_listed ''discovery_list'', maker = Maker_listed 106 ''discovery_list''\<rparr>"

definition event_data_new_code :: "new_step list" where
  "event_data_new_code =
     [Init_list ''additional_data_list'', Init_list ''flow_list'',
     Init_list ''expectation_list'', Init_list ''contact_list'', Init_list ''method_list'',
     Init_list ''discovery_list'']"

definition event_data_destroy_code :: "destroy_step list" where
  "event_data_destroy_code =
     [Destroy_ptr T_string ''ext_restriction'', Destroy_ptr T_string ''observable_id'',
     Destroy_ptr T_time ''detect_time'', Destroy_list 48 ''additional_data_list'',
     Destroy_ptr T_time ''report_time'', Destroy_ptr T_string ''description'',
     Destroy_list 125 ''flow_list'', Destroy_list 95 ''expectation_list'',
     Destroy_ptr (T_class 124) ''record'', Destroy_list 81 ''contact_list'',
     Destroy_ptr T_time ''start_time'', Destroy_ptr T_time ''end_time'',
     Destroy_ptr (T_class 76) ''assessment'', Destroy_list 66 ''method_list'',
     Destroy_ptr T_time ''recovery_time'', Destroy_list 106 ''discovery_list'']"

definition event_data_copy_code :: "copy_step list" where
  "event_data_copy_code =
     [Copy_optional ''restriction'', Copy_ptr T_string ''ext_restriction'',
     Copy_ptr T_string ''observable_id'', Copy_ptr T_time ''detect_time'',
     Copy_list 48 ''additional_data_list'', Copy_ptr T_time ''report_time'',
     Copy_ptr T_string ''description'', Copy_list 125 ''flow_list'',
     Copy_list 95 ''expectation_list'', Copy_ptr (T_class 124) ''record'',
     Copy_list 81 ''contact_list'', Copy_ptr T_time ''start_time'',
     Copy_ptr T_time ''end_time'', Copy_ptr (T_class 76) ''assessment'',
     Copy_list 66 ''method_list'', Copy_ptr T_time ''recovery_time'',
     Copy_list 106 ''discovery_list'']"

definition event_data_compare_code :: "compare_step list" where
  "event_data_compare_code =
     [Compare_optional ''restriction'', Compare_ptr T_string ''ext_restriction'',
     Compare_ptr T_string ''observable_id'', Compare_ptr T_time ''detect_time'',
     Compare_list 48 ''additional_data_list'', Compare_ptr T_time ''report_time'',
     Compare_ptr T_string ''description'', Compare_list 125 ''flow_list'',
     Compare_list 95 ''expectation_list'', Compare_ptr (T_class 124) ''record'',
     Compare_list 81 ''contact_list'', Compare_ptr T_time ''start_time'',
     Compare_ptr T_time ''end_time'', Compare_ptr (T_class 76) ''assessment'',
     Compare_list 66 ''method_list'', Compare_ptr T_time ''recovery_time'',
     Compare_list 106 ''discovery_list'']"

definition event_data_get_code :: "(int \<times> get_case) list" where
  "event_data_get_code =
     [(0, Get_optional_enum ''restriction'' 126), (1, Get_string ''ext_restriction''),
     (2, Get_string ''observable_id''), (3, Get_time ''detect_time''),
     (4, Get_list ''additional_data_list''), (5, Get_time ''report_time''),
     (6, Get_string ''description''), (7, Get_list ''flow_list''),
     (8, Get_list ''expectation_list''), (9, Get_object ''record''),
     (10, Get_list ''contact_list''), (11, Get_time ''start_time''),
     (12, Get_time ''end_time''), (13, Get_object ''assessment''),
     (14, Get_list ''method_list''), (15, Get_time ''recovery_time''),
     (16, Get_list ''discovery_list'')]"

definition event_data_make_code :: "(int \<times> new_child_case) list" where
  "event_data_make_code =
     [(0, Make_field event_data_f_restriction), (1, Make_field event_data_f_ext_restriction),
     (2, Make_field event_data_f_observable_id), (3, Make_field event_data_f_detect_time),
     (4, Make_in_list event_data_f_additional_data ''additional_data_list''),
     (5, Make_field event_data_f_report_time), (6, Make_field event_data_f_description),
     (7, Make_in_list event_data_f_flow ''flow_list''),
     (8, Make_in_list event_data_f_expectation ''expectation_list''),
     (9, Make_field event_data_f_record),
     (10, Make_in_list event_data_f_contact ''contact_list''),
     (11, Make_field event_data_f_start_time), (12, Make_field event_data_f_end_time),
     (13, Make_field event_data_f_assessment),
     (14, Make_in_list event_data_f_method ''method_list''),
     (15, Make_field event_data_f_recovery_time),
     (16, Make_in_list event_data_f_discovery ''discovery_list'')]"

definition event_data_drop_code :: "(int \<times> destroy_child_case) list" where
  "event_data_drop_code =
     [(0, Drop_optional ''restriction''), (1, Drop_ptr T_string ''ext_restriction''),
     (2, Drop_ptr T_string ''observable_id''), (3, Drop_ptr T_time ''detect_time''),
     (4, Drop_in_list 48 ''additional_data_list''), (5, Drop_ptr T_time ''report_time''),
     (6, Drop_ptr T_string ''description''), (7, Drop_in_list 125 ''flow_list''),
     (8, Drop_in_list 95 ''expectation_list''), (9, Drop_ptr (T_class 124) ''record''),
     (10, Drop_in_list 81 ''contact_list''), (11, Drop_ptr T_time ''start_time''),
     (12, Drop_ptr T_time ''end_time''), (13, Drop_ptr (T_class 76) ''assessment''),
     (14, Drop_in_list 66 ''method_list''), (15, Drop_ptr T_time ''recovery_time''),
     (16, Drop_in_list 106 ''discovery_list'')]"

definition event_data_code :: class_code where
  "event_data_code = \<lparr>cc_struct = event_data_struct, cc_linked = True, cc_new = event_data_new_code,
     cc_destroy = event_data_destroy_code, cc_copy = event_data_copy_code, cc_compare = event_data_compare_code,
     cc_get_child = event_data_get_code, cc_new_child = event_data_make_code, cc_destroy_child = event_data_drop_code\<rparr>"

lemmas event_data_code_defs =
  event_data_struct_def event_data_f_restriction_def event_data_f_ext_restriction_def
  event_data_f_observable_id_def event_data_f_detect_time_def
  event_data_f_additional_data_def event_data_f_report_time_def event_data_f_description_def
  event_data_f_flow_def event_data_f_expectation_def event_data_f_record_def
  event_data_f_contact_def event_data_f_start_time_def event_data_f_end_time_def
  event_data_f_assessment_def event_data_f_method_def event_data_f_recovery_time_def
  event_data_f_discovery_def event_data_new_code_def event_data_destroy_code_def
  event_data_copy_code_def event_data_compare_code_def event_data_get_code_def
  event_data_make_code_def event_data_drop_code_def event_data_code_def

lemma event_data_regular: "regular event_data_code"
  by (simp add: regular_def event_data_code_defs)

lemma event_data_fits: "fits_schema event_data_children_list [] event_data_code"
  by (simp add: fits_schema_def has_field_def list_field_def event_data_children_list_def event_data_code_defs)

subsection \<open>observable (class 129)\<close>

definition observable_struct :: "struct" where
  "observable_struct =
     [(''restriction'', F_optional), (''ext_restriction'', F_ptr T_string),
     (''detection_pattern'', F_ptr (T_class 91)), (''service'', F_ptr (T_class 112)),
     (''additional_data_list'', F_listed 48), (''system'', F_ptr (T_class 120)),
     (''domain_data'', F_ptr (T_class 98)), (''email_data'', F_ptr (T_class 109)),
     (''assessment'', F_ptr (T_class 76)), (''record_data'', F_ptr (T_class 122)),
     (''reference'', F_ptr (T_class 20)), (''history_item'', F_ptr (T_class 87)),
     (''bulk_observable'', F_ptr (T_class 108)), (''certificate_data'', F_ptr (T_class 62)),
     (''expectation'', F_ptr (T_class 95)),
     (''windows_registry_keys_modified'', F_ptr (T_class 71)),
     (''address'', F_ptr (T_class 59)), (''event_data'', F_ptr (T_class 127)),
     (''file_data'', F_ptr (T_class 114)), (''registry_handle'', F_ptr (T_class 12))]"

definition observable_f_restriction :: accessor where
  "observable_f_restriction = \<lparr>getter = Getter_optional ''restriction'',
     setter = Setter_optional ''restriction'', maker = Maker_optional ''restriction''\<rparr>"

definition observable_f_ext_restriction :: accessor where
  "observable_f_ext_restriction = \<lparr>getter = Getter_ptr ''ext_restriction'',
     setter = Setter_ptr T_string ''ext_restriction'', maker = Maker_ptr T_string ''ext_restriction''\<rparr>"

definition observable_f_detection_pattern :: accessor where
  "observable_f_detection_pattern = \<lparr>getter = Getter_ptr ''detection_pattern'',
     setter = Setter_ptr (T_class 91) ''detection_pattern'', maker = Maker_ptr (T_class 91) ''detection_pattern''\<rparr>"

definition observable_f_service :: accessor where
  "observable_f_service = \<lparr>getter = Getter_ptr ''service'',
     setter = Setter_ptr (T_class 112) ''service'', maker = Maker_ptr (T_class 112) ''service''\<rparr>"

definition observable_f_additional_data :: accessor where
  "observable_f_additional_data = \<lparr>getter = Getter_next ''additional_data_list'',
     setter = Setter_listed ''additional_data_list'', maker = Maker_listed 48 ''additional_data_list''\<rparr>"

definition observable_f_system :: accessor where
  "observable_f_system = \<lparr>getter = Getter_ptr ''system'',
     setter = Setter_ptr (T_class 120) ''system'', maker = Maker_ptr (T_class 120) ''system''\<rparr>"

definition observable_f_domain_data :: accessor where
  "observable_f_domain_data = \<lparr>getter = Getter_ptr ''domain_data'',
     setter = Setter_ptr (T_class 98) ''domain_data'', maker = Maker_ptr (T_class 98) ''domain_data''\<rparr>"

definition observable_f_email_data :: accessor where
  "observable_f_email_data = \<lparr>getter = Getter_ptr ''email_data'',
     setter = Setter_ptr (T_class 109) ''email_data'', maker = Maker_ptr (T_class 109) ''email_data''\<rparr>"

definition observable_f_assessment :: accessor where
  "observable_f_assessment = \<lparr>getter = Getter_ptr ''assessment'',
     setter = Setter_ptr (T_class 76) ''assessment'', maker = Maker_ptr (T_class 76) ''assessment''\<rparr>"

definition observable_f_record_data :: accessor where
  "observable_f_record_data = \<lparr>getter = Getter_ptr ''record_data'',
     setter = Setter_ptr (T_class 122) ''record_data'', maker = Maker_ptr (T_class 122) ''record_data''\<rparr>"

definition observable_f_reference :: accessor where
  "observable_f_reference = \<lparr>getter = Getter_ptr ''reference'',
     setter = Setter_ptr (T_class 20) ''reference'', maker = Maker_ptr (T_class 20) ''reference''\<rparr>"

definition observable_f_history_item :: accessor where
  "observable_f_history_item = \<lparr>getter = Getter_ptr ''history_item'',
     setter = Setter_ptr (T_class 87) ''history_item'', maker = Maker_ptr (T_class 87) ''history_item''\<rparr>"

definition observable_f_bulk_observable :: accessor where
  "observable_f_bulk_observable = \<lparr>getter = Getter_ptr ''bulk_observable'',
     setter = Setter_ptr (T_class 108) ''bulk_observable'', maker = Maker_ptr (T_class 108) ''bulk_observable''\<rparr>"

definition observable_f_certificate_data :: accessor where
  "observable_f_certificate_data = \<lparr>getter = Getter_ptr ''certificate_data'',
     setter = Setter_ptr (T_class 62) ''certificate_data'', maker = Maker_ptr (T_class 62) ''certificate_data''\<rparr>"

definition observable_f_expectation :: accessor where
  "observable_f_expectation = \<lparr>getter = Getter_ptr ''expectation'',
     setter = Setter_ptr (T_class 95) ''expectation'', maker = Maker_ptr (T_class 95) ''expectation''\<rparr>"

definition observable_f_windows_registry_keys_modified :: accessor where
  "observable_f_windows_registry_keys_modified = \<lparr>getter = Getter_ptr ''windows_registry_keys_modified'',
     setter = Setter_ptr (T_class 71) ''windows_registry_keys_modified'', maker = Maker_ptr (T_class 71) ''windows_registry_keys_modified''\<rparr>"

definition observable_f_address :: accessor where
  "observable_f_address = \<lparr>getter = Getter_ptr ''address'',
     setter = Setter_ptr (T_class 59) ''address'', maker = Maker_ptr (T_class 59) ''address''\<rparr>"

definition observable_f_event_data :: accessor where
  "observable_f_event_data = \<lparr>getter = Getter_ptr ''event_data'',
     setter = Setter_ptr (T_class 127) ''event_data'', maker = Maker_ptr (T_class 127) ''event_data''\<rparr>"

definition observable_f_file_data :: accessor where
  "observable_f_file_data = \<lparr>getter = Getter_ptr ''file_data'',
     setter = Setter_ptr (T_class 114) ''file_data'', maker = Maker_ptr (T_class 114) ''file_data''\<rparr>"

definition observable_f_registry_handle :: accessor where
  "observable_f_registry_handle = \<lparr>getter = Getter_ptr ''registry_handle'',
     setter = Setter_ptr (T_class 12) ''registry_handle'', maker = Maker_ptr (T_class 12) ''registry_handle''\<rparr>"

definition observable_new_code :: "new_step list" where
  "observable_new_code =
     [Init_list ''additional_data_list'']"

definition observable_destroy_code :: "destroy_step list" where
  "observable_destroy_code =
     [Destroy_ptr T_string ''ext_restriction'', Destroy_ptr (T_class 91) ''detection_pattern'',
     Destroy_ptr (T_class 112) ''service'', Destroy_list 48 ''additional_data_list'',
     Destroy_ptr (T_class 120) ''system'', Destroy_ptr (T_class 98) ''domain_data'',
     Destroy_ptr (T_class 109) ''email_data'', Destroy_ptr (T_class 76) ''assessment'',
     Destroy_ptr (T_class 122) ''record_data'', Destroy_ptr (T_class 20) ''reference'',
     Destroy_ptr (T_class 87) ''history_item'', Destroy_ptr (T_class 108) ''bulk_observable'',
     Destroy_ptr (T_class 62) ''certificate_data'', Destroy_ptr (T_class 95) ''expectation'',
     Destroy_ptr (T_class 71) ''windows_registry_keys_modified'',
     Destroy_ptr (T_class 59) ''address'', Destroy_ptr (T_class 127) ''event_data'',
     Destroy_ptr (T_class 114) ''file_data'', Destroy_ptr (T_class 12) ''registry_handle'']"

definition observable_copy_code :: "copy_step list" where
  "observable_copy_code =
     [Copy_optional ''restriction'', Copy_ptr T_string ''ext_restriction'',
     Copy_ptr (T_class 91) ''detection_pattern'', Copy_ptr (T_class 112) ''service'',
     Copy_list 48 ''additional_data_list'', Copy_ptr (T_class 120) ''system'',
     Copy_ptr (T_class 98) ''domain_data'', Copy_ptr (T_class 109) ''email_data'',
     Copy_ptr (T_class 76) ''assessment'', Copy_ptr (T_class 122) ''record_data'',
     Copy_ptr (T_class 20) ''reference'', Copy_ptr (T_class 87) ''history_item'',
     Copy_ptr (T_class 108) ''bulk_observable'', Copy_ptr (T_class 62) ''certificate_data'',
     Copy_ptr (T_class 95) ''expectation'',
     Copy_ptr (T_class 71) ''windows_registry_keys_modified'',
     Copy_ptr (T_class 59) ''address'', Copy_ptr (T_class 127) ''event_data'',
     Copy_ptr (T_class 114) ''file_data'', Copy_ptr (T_class 12) ''registry_handle'']"

definition observable_compare_code :: "compare_step list" where
  "observable_compare_code =
     [Compare_optional ''restriction'', Compare_ptr T_string ''ext_restriction'',
     Compare_ptr (T_class 91) ''detection_pattern'', Compare_ptr (T_class 112) ''service'',
     Compare_list 48 ''additional_data_list'', Compare_ptr (T_class 120) ''system'',
     Compare_ptr (T_class 98) ''domain_data'', Compare_ptr (T_class 109) ''email_data'',
     Compare_ptr (T_class 76) ''assessment'', Compare_ptr (T_class 122) ''record_data'',
     Compare_ptr (T_class 20) ''reference'', Compare_ptr (T_class 87) ''history_item'',
     Compare_ptr (T_class 108) ''bulk_observable'',
     Compare_ptr (T_class 62) ''certificate_data'', Compare_ptr (T_class 95) ''expectation'',
     Compare_ptr (T_class 71) ''windows_registry_keys_modified'',
     Compare_ptr (T_class 59) ''address'', Compare_ptr (T_class 127) ''event_data'',
     Compare_ptr (T_class 114) ''file_data'', Compare_ptr (T_class 12) ''registry_handle'']"

definition observable_get_code :: "(int \<times> get_case) list" where
  "observable_get_code =
     [(0, Get_optional_enum ''restriction'' 128), (1, Get_string ''ext_restriction''),
     (2, Get_object ''detection_pattern''), (3, Get_object ''service''),
     (4, Get_list ''additional_data_list''), (5, Get_object ''system''),
     (6, Get_object ''domain_data''), (7, Get_object ''email_data''),
     (8, Get_object ''assessment''), (9, Get_object ''record_data''),
     (10, Get_object ''reference''), (11, Get_object ''history_item''),
     (12, Get_object ''bulk_observable''), (13, Get_object ''certificate_data''),
     (14, Get_object ''expectation''), (15, Get_object ''windows_registry_keys_modified''),
     (16, Get_object ''address''), (17, Get_object ''event_data''),
     (18, Get_object ''file_data''), (19, Get_object ''registry_handle'')]"

definition observable_make_code :: "(int \<times> new_child_case) list" where
  "observable_make_code =
     [(0, Make_field observable_f_restriction), (1, Make_field observable_f_ext_restriction),
     (2, Make_field observable_f_detection_pattern), (3, Make_field observable_f_service),
     (4, Make_in_list observable_f_additional_data ''additional_data_list''),
     (5, Make_field observable_f_system), (6, Make_field observable_f_domain_data),
     (7, Make_field observable_f_email_data), (8, Make_field observable_f_assessment),
     (9, Make_field observable_f_record_data), (10, Make_field observable_f_reference),
     (11, Make_field observable_f_history_item), (12, Make_field observable_f_bulk_observable),
     (13, Make_field observable_f_certificate_data), (14, Make_field observable_f_expectation),
     (15, Make_field observable_f_windows_registry_keys_modified),
     (16, Make_field observable_f_address), (17, Make_field observable_f_event_data),
     (18, Make_field observable_f_file_data), (19, Make_field observable_f_registry_handle)]"

definition observable_drop_code :: "(int \<times> destroy_child_case) list" where
  "observable_drop_code =
     [(0, Drop_optional ''restriction''), (1, Drop_ptr T_string ''ext_restriction''),
     (2, Drop_ptr (T_class 91) ''detection_pattern''), (3, Drop_ptr (T_class 112) ''service''),
     (4, Drop_in_list 48 ''additional_data_list''), (5, Drop_ptr (T_class 120) ''system''),
     (6, Drop_ptr (T_class 98) ''domain_data''), (7, Drop_ptr (T_class 109) ''email_data''),
     (8, Drop_ptr (T_class 76) ''assessment''), (9, Drop_ptr (T_class 122) ''record_data''),
     (10, Drop_ptr (T_class 20) ''reference''), (11, Drop_ptr (T_class 87) ''history_item''),
     (12, Drop_ptr (T_class 108) ''bulk_observable''),
     (13, Drop_ptr (T_class 62) ''certificate_data''),
     (14, Drop_ptr (T_class 95) ''expectation''),
     (15, Drop_ptr (T_class 71) ''windows_registry_keys_modified''),
     (16, Drop_ptr (T_class 59) ''address''), (17, Drop_ptr (T_class 127) ''event_data''),
     (18, Drop_ptr (T_class 114) ''file_data''), (19, Drop_ptr (T_class 12) ''registry_handle'')]"

definition observable_code :: class_code where
  "observable_code = \<lparr>cc_struct = observable_struct, cc_linked = True, cc_new = observable_new_code,
     cc_destroy = observable_destroy_code, cc_copy = observable_copy_code, cc_compare = observable_compare_code,
     cc_get_child = observable_get_code, cc_new_child = observable_make_code, cc_destroy_child = observable_drop_code\<rparr>"

lemmas observable_code_defs =
  observable_struct_def observable_f_restriction_def observable_f_ext_restriction_def
  observable_f_detection_pattern_def observable_f_service_def
  observable_f_additional_data_def observable_f_system_def observable_f_domain_data_def
  observable_f_email_data_def observable_f_assessment_def observable_f_record_data_def
  observable_f_reference_def observable_f_history_item_def observable_f_bulk_observable_def
  observable_f_certificate_data_def observable_f_expectation_def
  observable_f_windows_registry_keys_modified_def observable_f_address_def
  observable_f_event_data_def observable_f_file_data_def observable_f_registry_handle_def
  observable_new_code_def observable_destroy_code_def observable_copy_code_def
  observable_compare_code_def observable_get_code_def observable_make_code_def
  observable_drop_code_def observable_code_def

lemma observable_regular: "regular observable_code"
  by (simp add: regular_def observable_code_defs)

lemma observable_fits: "fits_schema observable_children_list [] observable_code"
  by (simp add: fits_schema_def has_field_def list_field_def observable_children_list_def observable_code_defs)

subsection \<open>indicator expression (class 131)\<close>

definition indicator_expression_struct :: "struct" where
  "indicator_expression_struct =
     [(''operator'', F_optional), (''ext_operator'', F_ptr T_string),
     (''indicator_reference_list'', F_listed 40), (''observable_list'', F_listed 129),
     (''confidence'', F_ptr (T_class 30)), (''indicator_expression_list'', F_listed 131),
     (''additional_data_list'', F_listed 48)]"

definition indicator_expression_f_operator :: accessor where
  "indicator_expression_f_operator = \<lparr>getter = Getter_optional ''operator'',
     setter = Setter_optional ''operator'', maker = Maker_optional ''operator''\<rparr>"

definition indicator_expression_f_ext_operator :: accessor where
  "indicator_expression_f_ext_operator = \<lparr>getter = Getter_ptr ''ext_operator'',
     setter = Setter_ptr T_string ''ext_operator'', maker = Maker_ptr T_string ''ext_operator''\<rparr>"

definition indicator_expression_f_indicator_reference :: accessor where
  "indicator_expression_f_indicator_reference = \<lparr>getter = Getter_next ''indicator_reference_list'',
     setter = Setter_listed ''indicator_reference_list'', maker = Maker_listed 40 ''indicator_reference_list''\<rparr>"

definition indicator_expression_f_observable :: accessor where
  "indicator_expression_f_observable = \<lparr>getter = Getter_next ''observable_list'',
     setter = Setter_listed ''observable_list'', maker = Maker_listed 129 ''observable_list''\<rparr>"

definition indicator_expression_f_confidence :: accessor where
  "indicator_expression_f_confidence = \<lparr>getter = Getter_ptr ''confidence'',
     setter = Setter_ptr (T_class 30) ''confidence'', maker = Maker_ptr (T_class 30) ''confidence''\<rparr>"

definition indicator_expression_f_indicator_expression :: accessor where
  "indicator_expression_f_indicator_expression = \<lparr>getter = Getter_next ''indicator_expression_list'',
     setter = Setter_listed ''indicator_expression_list'', maker = Maker_listed 131 ''indicator_expression_list''\<rparr>"

definition indicator_expression_f_additional_data :: accessor where
  "indicator_expression_f_additional_data = \<lparr>getter = Getter_next ''additional_data_list'',
     setter = Setter_listed ''additional_data_list'', maker = Maker_listed 48 ''additional_data_list''\<rparr>"

definition indicator_expression_new_code :: "new_step list" where
  "indicator_expression_new_code =
     [Init_list ''indicator_reference_list'', Init_list ''observable_list'',
     Init_list ''indicator_expression_list'', Init_list ''additional_data_list'']"

definition indicator_expression_destroy_code :: "destroy_step list" where
  "indicator_expression_destroy_code =
     [Destroy_ptr T_string ''ext_operator'', Destroy_list 40 ''indicator_reference_list'',
     Destroy_list 129 ''observable_list'', Destroy_ptr (T_class 30) ''confidence'',
     Destroy_list 131 ''indicator_expression_list'', Destroy_list 48 ''additional_data_list'']"

definition indicator_expression_copy_code :: "copy_step list" where
  "indicator_expression_copy_code =
     [Copy_optional ''operator'', Copy_ptr T_string ''ext_operator'',
     Copy_list 40 ''indicator_reference_list'', Copy_list 129 ''observable_list'',
     Copy_ptr (T_class 30) ''confidence'', Copy_list 131 ''indicator_expression_list'',
     Copy_list 48 ''additional_data_list'']"

definition indicator_expression_compare_code :: "compare_step list" where
  "indicator_expression_compare_code =
     [Compare_optional ''operator'', Compare_ptr T_string ''ext_operator'',
     Compare_list 40 ''indicator_reference_list'', Compare_list 129 ''observable_list'',
     Compare_ptr (T_class 30) ''confidence'', Compare_list 131 ''indicator_expression_list'',
     Compare_list 48 ''additional_data_list'']"

definition indicator_expression_get_code :: "(int \<times> get_case) list" where
  "indicator_expression_get_code =
     [(0, Get_optional_enum ''operator'' 130), (1, Get_string ''ext_operator''),
     (2, Get_list ''indicator_reference_list''), (3, Get_list ''observable_list''),
     (4, Get_object ''confidence''), (5, Get_list ''indicator_expression_list''),
     (6, Get_list ''additional_data_list'')]"

definition indicator_expression_make_code :: "(int \<times> new_child_case) list" where
  "indicator_expression_make_code =
     [(0, Make_field indicator_expression_f_operator),
     (1, Make_field indicator_expression_f_ext_operator),
     (2, Make_in_list indicator_expression_f_indicator_reference ''indicator_reference_list''),
     (3, Make_in_list indicator_expression_f_observable ''observable_list''),
     (4, Make_field indicator_expression_f_confidence),
     (5, Make_in_list indicator_expression_f_indicator_expression ''indicator_expression_list''),
     (6, Make_in_list indicator_expression_f_additional_data ''additional_data_list'')]"

definition indicator_expression_drop_code :: "(int \<times> destroy_child_case) list" where
  "indicator_expression_drop_code =
     [(0, Drop_optional ''operator''), (1, Drop_ptr T_string ''ext_operator''),
     (2, Drop_in_list 40 ''indicator_reference_list''),
     (3, Drop_in_list 129 ''observable_list''), (4, Drop_ptr (T_class 30) ''confidence''),
     (5, Drop_in_list 131 ''indicator_expression_list''),
     (6, Drop_in_list 48 ''additional_data_list'')]"

definition indicator_expression_code :: class_code where
  "indicator_expression_code = \<lparr>cc_struct = indicator_expression_struct, cc_linked = True, cc_new = indicator_expression_new_code,
     cc_destroy = indicator_expression_destroy_code, cc_copy = indicator_expression_copy_code, cc_compare = indicator_expression_compare_code,
     cc_get_child = indicator_expression_get_code, cc_new_child = indicator_expression_make_code, cc_destroy_child = indicator_expression_drop_code\<rparr>"

lemmas indicator_expression_code_defs =
  indicator_expression_struct_def indicator_expression_f_operator_def
  indicator_expression_f_ext_operator_def indicator_expression_f_indicator_reference_def
  indicator_expression_f_observable_def indicator_expression_f_confidence_def
  indicator_expression_f_indicator_expression_def indicator_expression_f_additional_data_def
  indicator_expression_new_code_def indicator_expression_destroy_code_def
  indicator_expression_copy_code_def indicator_expression_compare_code_def
  indicator_expression_get_code_def indicator_expression_make_code_def
  indicator_expression_drop_code_def indicator_expression_code_def

lemma indicator_expression_regular: "regular indicator_expression_code"
  by (simp add: regular_def indicator_expression_code_defs)

lemma indicator_expression_fits: "fits_schema indicator_expression_children_list [] indicator_expression_code"
  by (simp add: fits_schema_def has_field_def list_field_def indicator_expression_children_list_def indicator_expression_code_defs)

subsection \<open>indicator (class 133)\<close>

definition indicator_struct :: "struct" where
  "indicator_struct =
     [(''restriction'', F_optional), (''ext_restriction'', F_ptr T_string),
     (''alternative_indicator_id_list'', F_listed 28), (''confidence'', F_ptr (T_class 30)),
     (''reference_list'', F_listed 20), (''observable'', F_ptr (T_class 129)),
     (''additional_data_list'', F_listed 48), (''indicator_expression'', F_ptr (T_class 131)),
     (''contact_list'', F_listed 81), (''node_role_list'', F_listed 24),
     (''start_time'', F_ptr T_time), (''indicator_id'', F_required (T_class 56)),
     (''indicator_reference'', F_ptr (T_class 40)),
     (''observable_reference'', F_ptr (T_class 7)), (''attack_phase_list'', F_listed 77),
     (''end_time'', F_ptr T_time)]"

definition indicator_f_restriction :: accessor where
  "indicator_f_restriction = \<lparr>getter = Getter_optional ''restriction'',
     setter = Setter_optional ''restriction'', maker = Maker_optional ''restriction''\<rparr>"

definition indicator_f_ext_restriction :: accessor where
  "indicator_f_ext_restriction = \<lparr>getter = Getter_ptr ''ext_restriction'',
     setter = Setter_ptr T_string ''ext_restriction'', maker = Maker_ptr T_string ''ext_restriction''\<rparr>"

definition indicator_f_alternative_indicator_id :: accessor where
  "indicator_f_alternative_indicator_id = \<lparr>getter = Getter_next ''alternative_indicator_id_list'',
     setter = Setter_listed ''alternative_indicator_id_list'', maker = Maker_listed 28 ''alternative_indicator_id_list''\<rparr>"

definition indicator_f_confidence :: accessor where
  "indicator_f_confidence = \<lparr>getter = Getter_ptr ''confidence'',
     setter = Setter_ptr (T_class 30) ''confidence'', maker = Maker_ptr (T_class 30) ''confidence''\<rparr>"

definition indicator_f_reference :: accessor where
  "indicator_f_reference = \<lparr>getter = Getter_next ''reference_list'',
     setter = Setter_listed ''reference_list'', maker = Maker_listed 20 ''reference_list''\<rparr>"

definition indicator_f_observable :: accessor where
  "indicator_f_observable = \<lparr>getter = Getter_ptr ''observable'',
     setter = Setter_ptr (T_class 129) ''observable'', maker = Maker_ptr (T_class 129) ''observable''\<rparr>"

definition indicator_f_additional_data :: accessor where
  "indicator_f_additional_data = \<lparr>getter = Getter_next ''additional_data_list'',
     setter = Setter_listed ''additional_data_list'', maker = Maker_listed 48 ''additional_data_list''\<rparr>"

definition indicator_f_indicator_expression :: accessor where
  "indicator_f_indicator_expression = \<lparr>getter = Getter_ptr ''indicator_expression'',
     setter = Setter_ptr (T_class 131) ''indicator_expression'', maker = Maker_ptr (T_class 131) ''indicator_expression''\<rparr>"

definition indicator_f_contact :: accessor where
  "indicator_f_contact = \<lparr>getter = Getter_next ''contact_list'',
     setter = Setter_listed ''contact_list'', maker = Maker_listed 81 ''contact_list''\<rparr>"

definition indicator_f_node_role :: accessor where
  "indicator_f_node_role = \<lparr>getter = Getter_next ''node_role_list'',
     setter = Setter_listed ''node_role_list'', maker = Maker_listed 24 ''node_role_list''\<rparr>"

definition indicator_f_start_time :: accessor where
  "indicator_f_start_time = \<lparr>getter = Getter_ptr ''start_time'',
     setter = Setter_ptr T_time ''start_time'', maker = Maker_ptr T_time ''start_time''\<rparr>"

definition indicator_f_indicator_id :: accessor where
  "indicator_f_indicator_id = \<lparr>getter = Getter_ptr ''indicator_id'',
     setter = Setter_ptr (T_class 56) ''indicator_id'', maker = Maker_ptr (T_class 56) ''indicator_id''\<rparr>"

definition indicator_f_indicator_reference :: accessor where
  "indicator_f_indicator_reference = \<lparr>getter = Getter_ptr ''indicator_reference'',
     setter = Setter_ptr (T_class 40) ''indicator_reference'', maker = Maker_ptr (T_class 40) ''indicator_reference''\<rparr>"

definition indicator_f_observable_reference :: accessor where
  "indicator_f_observable_reference = \<lparr>getter = Getter_ptr ''observable_reference'',
     setter = Setter_ptr (T_class 7) ''observable_reference'', maker = Maker_ptr (T_class 7) ''observable_reference''\<rparr>"

definition indicator_f_attack_phase :: accessor where
  "indicator_f_attack_phase = \<lparr>getter = Getter_next ''attack_phase_list'',
     setter = Setter_listed ''attack_phase_list'', maker = Maker_listed 77 ''attack_phase_list''\<rparr>"

definition indicator_f_end_time :: accessor where
  "indicator_f_end_time = \<lparr>getter = Getter_ptr ''end_time'',
     setter = Setter_ptr T_time ''end_time'', maker = Maker_ptr T_time ''end_time''\<rparr>"

definition indicator_new_code :: "new_step list" where
  "indicator_new_code =
     [Init_list ''alternative_indicator_id_list'', Init_list ''reference_list'',
     Init_list ''additional_data_list'', Init_list ''contact_list'',
     Init_list ''node_role_list'', Init_list ''attack_phase_list'',
     New_required (T_class 56) ''indicator_id'']"

definition indicator_destroy_code :: "destroy_step list" where
  "indicator_destroy_code =
     [Destroy_ptr T_string ''ext_restriction'',
     Destroy_list 28 ''alternative_indicator_id_list'', Destroy_ptr (T_class 30) ''confidence'',
     Destroy_list 20 ''reference_list'', Destroy_ptr (T_class 129) ''observable'',
     Destroy_list 48 ''additional_data_list'',
     Destroy_ptr (T_class 131) ''indicator_expression'', Destroy_list 81 ''contact_list'',
     Destroy_list 24 ''node_role_list'', Destroy_ptr T_time ''start_time'',
     Destroy_ptr (T_class 56) ''indicator_id'',
     Destroy_ptr (T_class 40) ''indicator_reference'',
     Destroy_ptr (T_class 7) ''observable_reference'', Destroy_list 77 ''attack_phase_list'',
     Destroy_ptr T_time ''end_time'']"

definition indicator_copy_code :: "copy_step list" where
  "indicator_copy_code =
     [Copy_optional ''restriction'', Copy_ptr T_string ''ext_restriction'',
     Copy_list 28 ''alternative_indicator_id_list'', Copy_ptr (T_class 30) ''confidence'',
     Copy_list 20 ''reference_list'', Copy_ptr (T_class 129) ''observable'',
     Copy_list 48 ''additional_data_list'', Copy_ptr (T_class 131) ''indicator_expression'',
     Copy_list 81 ''contact_list'', Copy_list 24 ''node_role_list'',
     Copy_ptr T_time ''start_time'', Copy_required (T_class 56) ''indicator_id'',
     Copy_ptr (T_class 40) ''indicator_reference'',
     Copy_ptr (T_class 7) ''observable_reference'', Copy_list 77 ''attack_phase_list'',
     Copy_ptr T_time ''end_time'']"

definition indicator_compare_code :: "compare_step list" where
  "indicator_compare_code =
     [Compare_optional ''restriction'', Compare_ptr T_string ''ext_restriction'',
     Compare_list 28 ''alternative_indicator_id_list'', Compare_ptr (T_class 30) ''confidence'',
     Compare_list 20 ''reference_list'', Compare_ptr (T_class 129) ''observable'',
     Compare_list 48 ''additional_data_list'',
     Compare_ptr (T_class 131) ''indicator_expression'', Compare_list 81 ''contact_list'',
     Compare_list 24 ''node_role_list'', Compare_ptr T_time ''start_time'',
     Compare_ptr (T_class 56) ''indicator_id'',
     Compare_ptr (T_class 40) ''indicator_reference'',
     Compare_ptr (T_class 7) ''observable_reference'', Compare_list 77 ''attack_phase_list'',
     Compare_ptr T_time ''end_time'']"

definition indicator_get_code :: "(int \<times> get_case) list" where
  "indicator_get_code =
     [(0, Get_optional_enum ''restriction'' 132), (1, Get_string ''ext_restriction''),
     (2, Get_list ''alternative_indicator_id_list''), (3, Get_object ''confidence''),
     (4, Get_list ''reference_list''), (5, Get_object ''observable''),
     (6, Get_list ''additional_data_list''), (7, Get_object ''indicator_expression''),
     (8, Get_list ''contact_list''), (9, Get_list ''node_role_list''),
     (10, Get_time ''start_time''), (11, Get_object ''indicator_id''),
     (12, Get_object ''indicator_reference''), (13, Get_object ''observable_reference''),
     (14, Get_list ''attack_phase_list''), (15, Get_time ''end_time'')]"

definition indicator_make_code :: "(int \<times> new_child_case) list" where
  "indicator_make_code =
     [(0, Make_field indicator_f_restriction), (1, Make_field indicator_f_ext_restriction),
     (2, Make_in_list indicator_f_alternative_indicator_id ''alternative_indicator_id_list''),
     (3, Make_field indicator_f_confidence),
     (4, Make_in_list indicator_f_reference ''reference_list''),
     (5, Make_field indicator_f_observable),
     (6, Make_in_list indicator_f_additional_data ''additional_data_list''),
     (7, Make_field indicator_f_indicator_expression),
     (8, Make_in_list indicator_f_contact ''contact_list''),
     (9, Make_in_list indicator_f_node_role ''node_role_list''),
     (10, Make_field indicator_f_start_time), (11, Make_field indicator_f_indicator_id),
     (12, Make_field indicator_f_indicator_reference),
     (13, Make_field indicator_f_observable_reference),
     (14, Make_in_list indicator_f_attack_phase ''attack_phase_list''),
     (15, Make_field indicator_f_end_time)]"

definition indicator_drop_code :: "(int \<times> destroy_child_case) list" where
  "indicator_drop_code =
     [(0, Drop_optional ''restriction''), (1, Drop_ptr T_string ''ext_restriction''),
     (2, Drop_in_list 28 ''alternative_indicator_id_list''),
     (3, Drop_ptr (T_class 30) ''confidence''), (4, Drop_in_list 20 ''reference_list''),
     (5, Drop_ptr (T_class 129) ''observable''), (6, Drop_in_list 48 ''additional_data_list''),
     (7, Drop_ptr (T_class 131) ''indicator_expression''),
     (8, Drop_in_list 81 ''contact_list''), (9, Drop_in_list 24 ''node_role_list''),
     (10, Drop_ptr T_time ''start_time''), (11, Drop_ptr (T_class 56) ''indicator_id''),
     (12, Drop_ptr (T_class 40) ''indicator_reference''),
     (13, Drop_ptr (T_class 7) ''observable_reference''),
     (14, Drop_in_list 77 ''attack_phase_list''), (15, Drop_ptr T_time ''end_time'')]"

definition indicator_code :: class_code where
  "indicator_code = \<lparr>cc_struct = indicator_struct, cc_linked = True, cc_new = indicator_new_code,
     cc_destroy = indicator_destroy_code, cc_copy = indicator_copy_code, cc_compare = indicator_compare_code,
     cc_get_child = indicator_get_code, cc_new_child = indicator_make_code, cc_destroy_child = indicator_drop_code\<rparr>"

lemmas indicator_code_defs =
  indicator_struct_def indicator_f_restriction_def indicator_f_ext_restriction_def
  indicator_f_alternative_indicator_id_def indicator_f_confidence_def
  indicator_f_reference_def indicator_f_observable_def indicator_f_additional_data_def
  indicator_f_indicator_expression_def indicator_f_contact_def indicator_f_node_role_def
  indicator_f_start_time_def indicator_f_indicator_id_def
  indicator_f_indicator_reference_def indicator_f_observable_reference_def
  indicator_f_attack_phase_def indicator_f_end_time_def indicator_new_code_def
  indicator_destroy_code_def indicator_copy_code_def indicator_compare_code_def
  indicator_get_code_def indicator_make_code_def indicator_drop_code_def indicator_code_def

lemma indicator_regular: "regular indicator_code"
  by (simp add: regular_def indicator_code_defs)

lemma indicator_fits: "fits_schema indicator_children_list [] indicator_code"
  by (simp add: fits_schema_def has_field_def list_field_def indicator_children_list_def indicator_code_defs)

subsection \<open>indicator data (class 134)\<close>

definition indicator_data_struct :: "struct" where
  "indicator_data_struct =
     [(''indicator_list'', F_listed 133)]"

definition indicator_data_f_indicator :: accessor where
  "indicator_data_f_indicator = \<lparr>getter = Getter_next ''indicator_list'',
     setter = Setter_listed ''indicator_list'', maker = Maker_listed 133 ''indicator_list''\<rparr>"

definition indicator_data_new_code :: "new_step list" where
  "indicator_data_new_code =
     [Init_list ''indicator_list'']"

definition indicator_data_destroy_code :: "destroy_step list" where
  "indicator_data_destroy_code =
     [Destroy_list 133 ''indicator_list'']"

definition indicator_data_copy_code :: "copy_step list" where
  "indicator_data_copy_code =
     [Copy_list 133 ''indicator_list'']"

definition indicator_data_compare_code :: "compare_step list" where
  "indicator_data_compare_code =
     [Compare_list 133 ''indicator_list'']"

definition indicator_data_get_code :: "(int \<times> get_case) list" where
  "indicator_data_get_code =
     [(0, Get_list ''indicator_list'')]"

definition indicator_data_make_code :: "(int \<times> new_child_case) list" where
  "indicator_data_make_code =
     [(0, Make_in_list indicator_data_f_indicator ''indicator_list'')]"

definition indicator_data_drop_code :: "(int \<times> destroy_child_case) list" where
  "indicator_data_drop_code =
     [(0, Drop_in_list 133 ''indicator_list'')]"

definition indicator_data_code :: class_code where
  "indicator_data_code = \<lparr>cc_struct = indicator_data_struct, cc_linked = False, cc_new = indicator_data_new_code,
     cc_destroy = indicator_data_destroy_code, cc_copy = indicator_data_copy_code, cc_compare = indicator_data_compare_code,
     cc_get_child = indicator_data_get_code, cc_new_child = indicator_data_make_code, cc_destroy_child = indicator_data_drop_code\<rparr>"

lemmas indicator_data_code_defs =
  indicator_data_struct_def indicator_data_f_indicator_def indicator_data_new_code_def
  indicator_data_destroy_code_def indicator_data_copy_code_def
  indicator_data_compare_code_def indicator_data_get_code_def indicator_data_make_code_def
  indicator_data_drop_code_def indicator_data_code_def

lemma indicator_data_regular: "regular indicator_data_code"
  by (simp add: regular_def indicator_data_code_defs)

lemma indicator_data_fits: "fits_schema indicator_data_children_list [] indicator_data_code"
  by (simp add: fits_schema_def has_field_def list_field_def indicator_data_children_list_def indicator_data_code_defs)

subsection \<open>incident (class 139)\<close>

definition incident_struct :: "struct" where
  "incident_struct =
     [(''status'', F_int), (''lang'', F_optional), (''ext_purpose'', F_ptr T_string),
     (''purpose'', F_int), (''ext_status'', F_ptr T_string), (''restriction'', F_optional),
     (''observable_id'', F_ptr T_string), (''additional_data_list'', F_listed 48),
     (''history'', F_ptr (T_class 103)), (''start_time'', F_ptr T_time),
     (''alternative_id'', F_ptr (T_class 68)), (''contact_list'', F_listed 81),
     (''related_activity'', F_ptr (T_class 83)), (''end_time'', F_ptr T_time),
     (''generation_time'', F_ptr T_time), (''assessment_list'', F_listed 76),
     (''method_list'', F_listed 66), (''recovery_time'', F_ptr T_time),
     (''discovery_list'', F_listed 106), (''detect_time'', F_ptr T_time),
     (''report_time'', F_ptr T_time), (''description'', F_ptr T_string),
     (''indicator_data'', F_ptr (T_class 134)), (''event_data_list'', F_listed 127),
     (''incident_id'', F_ptr (T_class 26))]"

definition incident_f_status :: accessor where
  "incident_f_status = \<lparr>getter = Getter_int ''status'',
     setter = Setter_int ''status'', maker = Maker_int ''status''\<rparr>"

definition incident_f_lang :: accessor where
  "incident_f_lang = \<lparr>getter = Getter_optional ''lang'',
     setter = Setter_optional ''lang'', maker = Maker_optional ''lang''\<rparr>"

definition incident_f_ext_purpose :: accessor where
  "incident_f_ext_purpose = \<lparr>getter = Getter_ptr ''ext_purpose'',
     setter = Setter_ptr T_string ''ext_purpose'', maker = Maker_ptr T_string ''ext_purpose''\<rparr>"

definition incident_f_purpose :: accessor where
  "incident_f_purpose = \<lparr>getter = Getter_int ''purpose'',
     setter = Setter_int ''purpose'', maker = Maker_int ''purpose''\<rparr>"

definition incident_f_ext_status :: accessor where
  "incident_f_ext_status = \<lparr>getter = Getter_ptr ''ext_status'',
     setter = Setter_ptr T_string ''ext_status'', maker = Maker_ptr T_string ''ext_status''\<rparr>"

definition incident_f_restriction :: accessor where
  "incident_f_restriction = \<lparr>getter = Getter_optional ''restriction'',
     setter = Setter_optional ''restriction'', maker = Maker_optional ''restriction''\<rparr>"

definition incident_f_observable_id :: accessor where
  "incident_f_observable_id = \<lparr>getter = Getter_ptr ''observable_id'',
     setter = Setter_ptr T_string ''observable_id'', maker = Maker_ptr T_string ''observable_id''\<rparr>"

definition incident_f_additional_data :: accessor where
  "incident_f_additional_data = \<lparr>getter = Getter_next ''additional_data_list'',
     setter = Setter_listed ''additional_data_list'', maker = Maker_listed 48 ''additional_data_list''\<rparr>"

definition incident_f_history :: accessor where
  "incident_f_history = \<lparr>getter = Getter_ptr ''history'',
     setter = Setter_ptr (T_class 103) ''history'', maker = Maker_ptr (T_class 103) ''history''\<rparr>"

definition incident_f_start_time :: accessor where
  "incident_f_start_time = \<lparr>getter = Getter_ptr ''start_time'',
     setter = Setter_ptr T_time ''start_time'', maker = Maker_ptr T_time ''start_time''\<rparr>"

definition incident_f_alternative_id :: accessor where
  "incident_f_alternative_id = \<lparr>getter = Getter_ptr ''alternative_id'',
     setter = Setter_ptr (T_class 68) ''alternative_id'', maker = Maker_ptr (T_class 68) ''alternative_id''\<rparr>"

definition incident_f_contact :: accessor where
  "incident_f_contact = \<lparr>getter = Getter_next ''contact_list'',
     setter = Setter_listed ''contact_list'', maker = Maker_listed 81 ''contact_list''\<rparr>"

definition incident_f_related_activity :: accessor where
  "incident_f_related_activity = \<lparr>getter = Getter_ptr ''related_activity'',
     setter = Setter_ptr (T_class 83) ''related_activity'', maker = Maker_ptr (T_class 83) ''related_activity''\<rparr>"

definition incident_f_end_time :: accessor where
  "incident_f_end_time = \<lparr>getter = Getter_ptr ''end_time'',
     setter = Setter_ptr T_time ''end_time'', maker = Maker_ptr T_time ''end_time''\<rparr>"

definition incident_f_generation_time :: accessor where
  "incident_f_generation_time = \<lparr>getter = Getter_ptr ''generation_time'',
     setter = Setter_ptr T_time ''generation_time'', maker = Maker_ptr T_time ''generation_time''\<rparr>"

definition incident_f_assessment :: accessor where
  "incident_f_assessment = \<lparr>getter = Getter_next ''assessment_list'',
     setter = Setter_listed ''assessment_list'', maker = Maker_listed 76 ''assessment_list''\<rparr>"

definition incident_f_method :: accessor where
  "incident_f_method = \<lparr>getter = Getter_next ''method_list'',
     setter = Setter_listed ''method_list'', maker = Maker_listed 66 ''method_list''\<rparr>"

definition incident_f_recovery_time :: accessor where
  "incident_f_recovery_time = \<lparr>getter = Getter_ptr ''recovery_time'',
     setter = Setter_ptr T_time ''recovery_time'', maker = Maker_ptr T_time ''recovery_time''\<rparr>"

definition incident_f_discovery :: accessor where
  "incident_f_discovery = \<lparr>getter = Getter_next ''discovery_list'',
     setter = Setter_listed ''discovery_list'', maker = Maker_listed 106 ''discovery_list''\<rparr>"

definition incident_f_detect_time :: accessor where
  "incident_f_detect_time = \<lparr>getter = Getter_ptr ''detect_time'',
     setter = Setter_ptr T_time ''detect_time'', maker = Maker_ptr T_time ''detect_time''\<rparr>"

definition incident_f_report_time :: accessor where
  "incident_f_report_time = \<lparr>getter = Getter_ptr ''report_time'',
     setter = Setter_ptr T_time ''report_time'', maker = Maker_ptr T_time ''report_time''\<rparr>"

definition incident_f_description :: accessor where
  "incident_f_description = \<lparr>getter = Getter_ptr ''description'',
     setter = Setter_ptr T_string ''description'', maker = Maker_ptr T_string ''description''\<rparr>"

definition incident_f_indicator_data :: accessor where
  "incident_f_indicator_data = \<lparr>getter = Getter_ptr ''indicator_data'',
     setter = Setter_ptr (T_class 134) ''indicator_data'', maker = Maker_ptr (T_class 134) ''indicator_data''\<rparr>"

definition incident_f_event_data :: accessor where
  "incident_f_event_data = \<lparr>getter = Getter_next ''event_data_list'',
     setter = Setter_listed ''event_data_list'', maker = Maker_listed 127 ''event_data_list''\<rparr>"

definition incident_f_incident_id :: accessor where
  "incident_f_incident_id = \<lparr>getter = Getter_ptr ''incident_id'',
     setter = Setter_ptr (T_class 26) ''incident_id'', maker = Maker_ptr (T_class 26) ''incident_id''\<rparr>"

definition incident_new_code :: "new_step list" where
  "incident_new_code =
     [Init_list ''additional_data_list'', Init_list ''contact_list'',
     Init_list ''assessment_list'', Init_list ''method_list'', Init_list ''discovery_list'',
     Init_list ''event_data_list'']"

definition incident_destroy_code :: "destroy_step list" where
  "incident_destroy_code =
     [Destroy_ptr T_string ''ext_purpose'', Destroy_ptr T_string ''ext_status'',
     Destroy_ptr T_string ''observable_id'', Destroy_list 48 ''additional_data_list'',
     Destroy_ptr (T_class 103) ''history'', Destroy_ptr T_time ''start_time'',
     Destroy_ptr (T_class 68) ''alternative_id'', Destroy_list 81 ''contact_list'',
     Destroy_ptr (T_class 83) ''related_activity'', Destroy_ptr T_time ''end_time'',
     Destroy_ptr T_time ''generation_time'', Destroy_list 76 ''assessment_list'',
     Destroy_list 66 ''method_list'', Destroy_ptr T_time ''recovery_time'',
     Destroy_list 106 ''discovery_list'', Destroy_ptr T_time ''detect_time'',
     Destroy_ptr T_time ''report_time'', Destroy_ptr T_string ''description'',
     Destroy_ptr (T_class 134) ''indicator_data'', Destroy_list 127 ''event_data_list'',
     Destroy_ptr (T_class 26) ''incident_id'']"

definition incident_copy_code :: "copy_step list" where
  "incident_copy_code =
     [Copy_int ''status'', Copy_optional ''lang'', Copy_ptr T_string ''ext_purpose'',
     Copy_int ''purpose'', Copy_ptr T_string ''ext_status'', Copy_optional ''restriction'',
     Copy_ptr T_string ''observable_id'', Copy_list 48 ''additional_data_list'',
     Copy_ptr (T_class 103) ''history'', Copy_ptr T_time ''start_time'',
     Copy_ptr (T_class 68) ''alternative_id'', Copy_list 81 ''contact_list'',
     Copy_ptr (T_class 83) ''related_activity'', Copy_ptr T_time ''end_time'',
     Copy_ptr T_time ''generation_time'', Copy_list 76 ''assessment_list'',
     Copy_list 66 ''method_list'', Copy_ptr T_time ''recovery_time'',
     Copy_list 106 ''discovery_list'', Copy_ptr T_time ''detect_time'',
     Copy_ptr T_time ''report_time'', Copy_ptr T_string ''description'',
     Copy_ptr (T_class 134) ''indicator_data'', Copy_list 127 ''event_data_list'',
     Copy_ptr (T_class 26) ''incident_id'']"

definition incident_compare_code :: "compare_step list" where
  "incident_compare_code =
     [Compare_int ''status'', Compare_optional ''lang'', Compare_ptr T_string ''ext_purpose'',
     Compare_int ''purpose'', Compare_ptr T_string ''ext_status'',
     Compare_optional ''restriction'', Compare_ptr T_string ''observable_id'',
     Compare_list 48 ''additional_data_list'', Compare_ptr (T_class 103) ''history'',
     Compare_ptr T_time ''start_time'', Compare_ptr (T_class 68) ''alternative_id'',
     Compare_list 81 ''contact_list'', Compare_ptr (T_class 83) ''related_activity'',
     Compare_ptr T_time ''end_time'', Compare_ptr T_time ''generation_time'',
     Compare_list 76 ''assessment_list'', Compare_list 66 ''method_list'',
     Compare_ptr T_time ''recovery_time'', Compare_list 106 ''discovery_list'',
     Compare_ptr T_time ''detect_time'', Compare_ptr T_time ''report_time'',
     Compare_ptr T_string ''description'', Compare_ptr (T_class 134) ''indicator_data'',
     Compare_list 127 ''event_data_list'', Compare_ptr (T_class 26) ''incident_id'']"

definition incident_get_code :: "(int \<times> get_case) list" where
  "incident_get_code =
     [(0, Get_enum ''status'' 135), (1, Get_optional_enum ''lang'' 136),
     (2, Get_string ''ext_purpose''), (3, Get_enum ''purpose'' 137),
     (4, Get_string ''ext_status''), (5, Get_optional_enum ''restriction'' 138),
     (6, Get_string ''observable_id''), (7, Get_list ''additional_data_list''),
     (8, Get_object ''history''), (9, Get_time ''start_time''),
     (10, Get_object ''alternative_id''), (11, Get_list ''contact_list''),
     (12, Get_object ''related_activity''), (13, Get_time ''end_time''),
     (14, Get_time ''generation_time''), (15, Get_list ''assessment_list''),
     (16, Get_list ''method_list''), (17, Get_time ''recovery_time''),
     (18, Get_list ''discovery_list''), (19, Get_time ''detect_time''),
     (20, Get_time ''report_time''), (21, Get_string ''description''),
     (22, Get_object ''indicator_data''), (23, Get_list ''event_data_list''),
     (24, Get_object ''incident_id'')]"

definition incident_make_code :: "(int \<times> new_child_case) list" where
  "incident_make_code =
     [(0, Make_field incident_f_status), (1, Make_field incident_f_lang),
     (2, Make_field incident_f_ext_purpose), (3, Make_field incident_f_purpose),
     (4, Make_field incident_f_ext_status), (5, Make_field incident_f_restriction),
     (6, Make_field incident_f_observable_id),
     (7, Make_in_list incident_f_additional_data ''additional_data_list''),
     (8, Make_field incident_f_history), (9, Make_field incident_f_start_time),
     (10, Make_field incident_f_alternative_id),
     (11, Make_in_list incident_f_contact ''contact_list''),
     (12, Make_field incident_f_related_activity), (13, Make_field incident_f_end_time),
     (14, Make_field incident_f_generation_time),
     (15, Make_in_list incident_f_assessment ''assessment_list''),
     (16, Make_in_list incident_f_method ''method_list''),
     (17, Make_field incident_f_recovery_time),
     (18, Make_in_list incident_f_discovery ''discovery_list''),
     (19, Make_field incident_f_detect_time), (20, Make_field incident_f_report_time),
     (21, Make_field incident_f_description), (22, Make_field incident_f_indicator_data),
     (23, Make_in_list incident_f_event_data ''event_data_list''),
     (24, Make_field incident_f_incident_id)]"

definition incident_drop_code :: "(int \<times> destroy_child_case) list" where
  "incident_drop_code =
     [(0, Drop_int ''status''), (1, Drop_optional ''lang''),
     (2, Drop_ptr T_string ''ext_purpose''), (3, Drop_int ''purpose''),
     (4, Drop_ptr T_string ''ext_status''), (5, Drop_optional ''restriction''),
     (6, Drop_ptr T_string ''observable_id''), (7, Drop_in_list 48 ''additional_data_list''),
     (8, Drop_ptr (T_class 103) ''history''), (9, Drop_ptr T_time ''start_time''),
     (10, Drop_ptr (T_class 68) ''alternative_id''), (11, Drop_in_list 81 ''contact_list''),
     (12, Drop_ptr (T_class 83) ''related_activity''), (13, Drop_ptr T_time ''end_time''),
     (14, Drop_ptr T_time ''generation_time''), (15, Drop_in_list 76 ''assessment_list''),
     (16, Drop_in_list 66 ''method_list''), (17, Drop_ptr T_time ''recovery_time''),
     (18, Drop_in_list 106 ''discovery_list''), (19, Drop_ptr T_time ''detect_time''),
     (20, Drop_ptr T_time ''report_time''), (21, Drop_ptr T_string ''description''),
     (22, Drop_ptr (T_class 134) ''indicator_data''),
     (23, Drop_in_list 127 ''event_data_list''), (24, Drop_ptr (T_class 26) ''incident_id'')]"

definition incident_code :: class_code where
  "incident_code = \<lparr>cc_struct = incident_struct, cc_linked = True, cc_new = incident_new_code,
     cc_destroy = incident_destroy_code, cc_copy = incident_copy_code, cc_compare = incident_compare_code,
     cc_get_child = incident_get_code, cc_new_child = incident_make_code, cc_destroy_child = incident_drop_code\<rparr>"

lemmas incident_code_defs =
  incident_struct_def incident_f_status_def incident_f_lang_def incident_f_ext_purpose_def
  incident_f_purpose_def incident_f_ext_status_def incident_f_restriction_def
  incident_f_observable_id_def incident_f_additional_data_def incident_f_history_def
  incident_f_start_time_def incident_f_alternative_id_def incident_f_contact_def
  incident_f_related_activity_def incident_f_end_time_def incident_f_generation_time_def
  incident_f_assessment_def incident_f_method_def incident_f_recovery_time_def
  incident_f_discovery_def incident_f_detect_time_def incident_f_report_time_def
  incident_f_description_def incident_f_indicator_data_def incident_f_event_data_def
  incident_f_incident_id_def incident_new_code_def incident_destroy_code_def
  incident_copy_code_def incident_compare_code_def incident_get_code_def
  incident_make_code_def incident_drop_code_def incident_code_def

lemma incident_regular: "regular incident_code"
  by (simp add: regular_def incident_code_defs)

lemma incident_fits: "fits_schema incident_children_list [] incident_code"
  by (simp add: fits_schema_def has_field_def list_field_def incident_children_list_def incident_code_defs)

subsection \<open>document (class 141)\<close>

definition document_struct :: "struct" where
  "document_struct =
     [(''lang'', F_int), (''formatid'', F_ptr T_string), (''version'', F_required T_string),
     (''private_enum_name'', F_ptr T_string), (''private_enum_id'', F_ptr T_string),
     (''additional_data_list'', F_listed 48), (''incident_list'', F_listed 139)]"

definition document_f_lang :: accessor where
  "document_f_lang = \<lparr>getter = Getter_int ''lang'',
     setter = Setter_int ''lang'', maker = Maker_int ''lang''\<rparr>"

definition document_f_formatid :: accessor where
  "document_f_formatid = \<lparr>getter = Getter_ptr ''formatid'',
     setter = Setter_ptr T_string ''formatid'', maker = Maker_ptr T_string ''formatid''\<rparr>"

definition document_f_version :: accessor where
  "document_f_version = \<lparr>getter = Getter_ptr ''version'',
     setter = Setter_ptr T_string ''version'', maker = Maker_ptr T_string ''version''\<rparr>"

definition document_f_private_enum_name :: accessor where
  "document_f_private_enum_name = \<lparr>getter = Getter_ptr ''private_enum_name'',
     setter = Setter_ptr T_string ''private_enum_name'', maker = Maker_ptr T_string ''private_enum_name''\<rparr>"

definition document_f_private_enum_id :: accessor where
  "document_f_private_enum_id = \<lparr>getter = Getter_ptr ''private_enum_id'',
     setter = Setter_ptr T_string ''private_enum_id'', maker = Maker_ptr T_string ''private_enum_id''\<rparr>"

definition document_f_additional_data :: accessor where
  "document_f_additional_data = \<lparr>getter = Getter_next ''additional_data_list'',
     setter = Setter_listed ''additional_data_list'', maker = Maker_listed 48 ''additional_data_list''\<rparr>"

definition document_f_incident :: accessor where
  "document_f_incident = \<lparr>getter = Getter_next ''incident_list'',
     setter = Setter_listed ''incident_list'', maker = Maker_listed 139 ''incident_list''\<rparr>"

definition document_new_code :: "new_step list" where
  "document_new_code =
     [Init_list ''additional_data_list'', Init_list ''incident_list'',
     New_required T_string ''version'']"

definition document_destroy_code :: "destroy_step list" where
  "document_destroy_code =
     [Destroy_ptr T_string ''formatid'', Destroy_ptr T_string ''version'',
     Destroy_ptr T_string ''private_enum_name'', Destroy_ptr T_string ''private_enum_id'',
     Destroy_list 48 ''additional_data_list'', Destroy_list 139 ''incident_list'']"

definition document_copy_code :: "copy_step list" where
  "document_copy_code =
     [Copy_int ''lang'', Copy_ptr T_string ''formatid'', Copy_required T_string ''version'',
     Copy_ptr T_string ''private_enum_name'', Copy_ptr T_string ''private_enum_id'',
     Copy_list 48 ''additional_data_list'', Copy_list 139 ''incident_list'']"

definition document_compare_code :: "compare_step list" where
  "document_compare_code =
     [Compare_int ''lang'', Compare_ptr T_string ''formatid'', Compare_ptr T_string ''version'',
     Compare_ptr T_string ''private_enum_name'', Compare_ptr T_string ''private_enum_id'',
     Compare_list 48 ''additional_data_list'', Compare_list 139 ''incident_list'']"

definition document_get_code :: "(int \<times> get_case) list" where
  "document_get_code =
     [(0, Get_enum ''lang'' 140), (1, Get_string ''formatid''), (2, Get_string ''version''),
     (3, Get_string ''private_enum_name''), (4, Get_string ''private_enum_id''),
     (5, Get_list ''additional_data_list''), (6, Get_list ''incident_list'')]"

definition document_make_code :: "(int \<times> new_child_case) list" where
  "document_make_code =
     [(0, Make_field document_f_lang), (1, Make_field document_f_formatid),
     (2, Make_field document_f_version), (3, Make_field document_f_private_enum_name),
     (4, Make_field document_f_private_enum_id),
     (5, Make_in_list document_f_additional_data ''additional_data_list''),
     (6, Make_in_list document_f_incident ''incident_list'')]"

definition document_drop_code :: "(int \<times> destroy_child_case) list" where
  "document_drop_code =
     [(0, Drop_int ''lang''), (1, Drop_ptr T_string ''formatid''),
     (2, Drop_ptr T_string ''version''), (3, Drop_ptr T_string ''private_enum_name''),
     (4, Drop_ptr T_string ''private_enum_id''), (5, Drop_in_list 48 ''additional_data_list''),
     (6, Drop_in_list 139 ''incident_list'')]"

definition document_code :: class_code where
  "document_code = \<lparr>cc_struct = document_struct, cc_linked = False, cc_new = document_new_code,
     cc_destroy = document_destroy_code, cc_copy = document_copy_code, cc_compare = document_compare_code,
     cc_get_child = document_get_code, cc_new_child = document_make_code, cc_destroy_child = document_drop_code\<rparr>"

lemmas document_code_defs =
  document_struct_def document_f_lang_def document_f_formatid_def document_f_version_def
  document_f_private_enum_name_def document_f_private_enum_id_def
  document_f_additional_data_def document_f_incident_def document_new_code_def
  document_destroy_code_def document_copy_code_def document_compare_code_def
  document_get_code_def document_make_code_def document_drop_code_def document_code_def

lemma document_regular: "regular document_code"
  by (simp add: regular_def document_code_defs)

lemma document_fits: "fits_schema document_children_list [] document_code"
  by (simp add: fits_schema_def has_field_def list_field_def document_children_list_def document_code_defs)

end
