(* ===== verification/ObjAccess.thy ===== *)
theory ObjAccess
  imports Object
begin

text \<open>
  Access to the fields of an object: the get, set and new functions of one field, and the three
  functions that a path uses, which take the number of the child (\<open>_get_child\<close>, \<open>_new_child\<close> and
  \<open>_destroy_child\<close> of every class in src/src/iodefv2-tree-wrap.c).
\<close>

section \<open>Values made from fields\<close>

definition value_create :: "value_data \<Rightarrow> created act" where
  "value_create d = act_bind (cell_alloc (C_value \<lparr>value_refcount = 1, value_own = True, value_data = d\<rparr>))
     (\<lambda>p. ret (p, if p = None then Inl E_errno else Inr ()))"

text \<open>
  \<open>get_value_from_string\<close>, \<open>_data\<close> and \<open>_time\<close> with \<open>is_ptr\<close> set, as all their callers do: when no
  value can be made the field is destroyed, although it was not yet referenced.
\<close>

definition get_value_from :: "(addr option \<Rightarrow> value_data) \<Rightarrow> (addr option \<Rightarrow> unit act) \<Rightarrow>
    (addr option \<Rightarrow> addr option act) \<Rightarrow> addr option \<Rightarrow> addr option act" where
  "get_value_from mk destroy ref q = (if q = None then ret None else
     act_bind (value_create (mk q)) (\<lambda>(v, r). case r of
       Inl e \<Rightarrow> act_then (destroy q) (fail e)
     | Inr _ \<Rightarrow> act_bind (ref q) (\<lambda>_. ret v)))"

definition get_value_from_string :: "addr option \<Rightarrow> addr option act" where
  "get_value_from_string = get_value_from Val_string str_destroy str_ref"

definition get_value_from_data :: "addr option \<Rightarrow> addr option act" where
  "get_value_from_data = get_value_from Val_data data_destroy data_ref"

definition get_value_from_time :: "addr option \<Rightarrow> addr option act" where
  "get_value_from_time = get_value_from Val_time time_destroy time_ref"

definition new_value :: "value_data \<Rightarrow> addr option act" where
  "new_value d = act_bind (value_create d) (\<lambda>(v, r). case r of Inl e \<Rightarrow> fail e | Inr _ \<Rightarrow> ret v)"

section \<open>Get by number\<close>

text \<open>What is stored through \<open>childptr\<close>: a value, an object or NULL, or the address of a list head.\<close>

datatype child_out = Out_ptr "addr option" | Out_list addr string

fun run_get :: "addr option \<Rightarrow> get_case \<Rightarrow> child_out act" where
  "run_get p (Get_string f) = act_bind (get_ptr p f) (\<lambda>q. act_bind (get_value_from_string q) (\<lambda>v. ret (Out_ptr v)))"
| "run_get p (Get_data f) = act_bind (get_ptr p f) (\<lambda>q. act_bind (get_value_from_data q) (\<lambda>v. ret (Out_ptr v)))"
| "run_get p (Get_time f) = act_bind (get_ptr p f) (\<lambda>q. act_bind (get_value_from_time q) (\<lambda>v. ret (Out_ptr v)))"
| "run_get p (Get_enum f c) = act_bind (get_int p f) (\<lambda>v. act_bind (new_value (Val_enum c v)) (\<lambda>v. ret (Out_ptr v)))"
| "run_get p (Get_optional_enum f c) = act_bind (get_opt p f) (\<lambda>(b, v).
     if b then act_bind (new_value (Val_enum c v)) (\<lambda>v. ret (Out_ptr v)) else ret (Out_ptr None))"
| "run_get p (Get_uint32 f) = act_bind (get_int p f) (\<lambda>v. act_bind (new_value (Val_uint32 v)) (\<lambda>v. ret (Out_ptr v)))"
| "run_get p (Get_optional_uint32 f) = act_bind (get_opt p f) (\<lambda>(b, v).
     if b then act_bind (new_value (Val_uint32 v)) (\<lambda>v. ret (Out_ptr v)) else ret (Out_ptr None))"
| "run_get p (Get_object f) = act_bind (get_ptr p f) (\<lambda>q. ret (Out_ptr q))"
| "run_get p (Get_list f) = ret (Out_list (the p) f)"

definition obj_get_child :: "codes \<Rightarrow> nat \<Rightarrow> addr option \<Rightarrow> int \<Rightarrow> child_out act" where
  "obj_get_child K c p child = (if p = None then fail (E ERROR_ASSERTION) else
     case map_of (cc_get_child (K c)) child of
       Some g \<Rightarrow> run_get p g | None \<Rightarrow> fail (E ERROR_CLASS_UNKNOWN_CHILD))"

section \<open>The functions of a field\<close>

text \<open>A pointer to a cell, or the address of an integer member.\<close>

datatype ref_out = Ref_ptr "addr option" | Ref_field addr string | Ref_value "32 word"

fun run_getter :: "addr option \<Rightarrow> get_fun \<Rightarrow> addr option \<Rightarrow> ref_out act" where
  "run_getter p (Getter_ptr f) cur = (if p = None then ret (Ref_ptr None) else
     act_bind (get_ptr p f) (\<lambda>q. ret (Ref_ptr q)))"
| "run_getter p (Getter_int f) cur = (if p = None then ret (Ref_value 0) else
     act_bind (get_int p f) (\<lambda>v. ret (Ref_value v)))"
| "run_getter p (Getter_optional f) cur = (if p = None then ret (Ref_ptr None) else
     act_bind (get_opt p f) (\<lambda>(b, _). ret (if b then Ref_field (the p) f else Ref_ptr None)))"
| "run_getter p (Getter_next f) cur = (case p of None \<Rightarrow> ret (Ref_ptr None) | Some h \<Rightarrow> (case cur of
       None \<Rightarrow> act_bind (get_list p f) (\<lambda>xs. ret (Ref_ptr (case xs of [] \<Rightarrow> None | a # _ \<Rightarrow> Some a)))
     | Some a \<Rightarrow> act_bind (list_next h f a) (\<lambda>nx. ret (Ref_ptr nx))))"

text \<open>The argument of a set function; the object of a list comes with its position.\<close>

datatype set_arg = Arg_ptr "addr option" | Arg_int "32 word" | Arg_listed "addr option" int

fun run_setter :: "codes \<Rightarrow> nat \<Rightarrow> addr option \<Rightarrow> set_fun \<Rightarrow> set_arg \<Rightarrow> unit act" where
  "run_setter K n p (Setter_ptr t f) (Arg_ptr v) = (if p = None then ret () else
     act_bind (get_ptr p f) (\<lambda>q.
       act_then (if q = None then ret () else leaf_destroy t (obj_destroy K n) q)
         (set_slot p f (S_ptr v))))"
| "run_setter K n p (Setter_int f) (Arg_int v) = (if p = None then ret () else set_slot p f (S_int v))"
| "run_setter K n p (Setter_int_flag f g) (Arg_int v) = (if p = None then ret () else
     act_then (set_slot p f (S_int v)) (set_slot p g (S_int 1)))"
| "run_setter K n p (Setter_optional f) (Arg_int v) =
     (if p = None then ret () else set_slot p f (S_opt True v))"
| "run_setter K n p (Setter_listed f) (Arg_listed v pos) = (if p = None then ret () else
     case v of None \<Rightarrow> ret ()
     | Some a \<Rightarrow> act_then (list_unlink a) (list_insert_pos p f v pos))"
| "run_setter K n p _ _ = fail (UB Wrong_kind)"

text \<open>The \<open>unset\<close> functions of the \<open>OPTIONAL_INT\<close> fields.\<close>

definition run_unset :: "addr option \<Rightarrow> string \<Rightarrow> unit act" where
  "run_unset p f = (if p = None then ret () else
     act_bind (get_opt p f) (\<lambda>(_, v). set_slot p f (S_opt False v)))"

text \<open>The position is used by the functions of listed fields only.\<close>

fun run_maker :: "codes \<Rightarrow> nat \<Rightarrow> addr option \<Rightarrow> new_fun \<Rightarrow> int \<Rightarrow> ref_out act" where
  "run_maker K n p (Maker_ptr t f) pos = (if p = None then fail (E ERROR_ASSERTION) else
     act_bind (get_ptr p f) (\<lambda>q.
       act_then (if q = None then call_out (leaf_new t (obj_new K n)) (\<lambda>r. set_slot p f (S_ptr r)) else ret ())
         (act_bind (get_ptr p f) (\<lambda>q. ret (Ref_ptr q)))))"
| "run_maker K n p (Maker_int f) pos = (if p = None then fail (E ERROR_ASSERTION)
     else ret (Ref_field (the p) f))"
| "run_maker K n p (Maker_int_flag f g) pos = (if p = None then fail (E ERROR_ASSERTION)
     else act_then (set_slot p g (S_int 1)) (ret (Ref_field (the p) f)))"
| "run_maker K n p (Maker_optional f) pos = (if p = None then fail (E ERROR_ASSERTION)
     else act_bind (get_opt p f) (\<lambda>(_, v). act_then (set_slot p f (S_opt True v)) (ret (Ref_field (the p) f))))"
| "run_maker K n p (Maker_listed c f) pos = (if p = None then fail (E ERROR_ASSERTION) else
     act_bind (obj_new K n c) (\<lambda>(q, r). case r of
       Inl e \<Rightarrow> fail e
     | Inr _ \<Rightarrow> act_then (list_insert_pos p f q pos) (ret (Ref_ptr q))))"

section \<open>New and destroy by number\<close>

text \<open>
  The element with number \<open>n\<close> of a list, from the end when \<open>n\<close> is negative, and whether \<open>n\<close> is just
  past the end. \<open>-n\<close> overflows for the smallest integer.
\<close>

definition nth_signed :: "'a list \<Rightarrow> int \<Rightarrow> 'a option" where
  "nth_signed xs n =
     (let i = (if n \<ge> 0 then nat n else nat (- n - 1)); ys = (if n \<ge> 0 then xs else rev xs) in
      if i < length ys then Some (ys ! i) else None)"

definition just_past :: "'a list \<Rightarrow> int \<Rightarrow> bool" where
  "just_past xs n \<longleftrightarrow> (if n \<ge> 0 then nat n else nat (- n - 1)) = length xs"

fun run_new_child :: "codes \<Rightarrow> nat \<Rightarrow> addr option \<Rightarrow> new_child_case \<Rightarrow> int \<Rightarrow> ref_out act" where
  "run_new_child K n p (Make_field a) k = run_maker K n p (maker a) k"
| "run_new_child K n p (Make_in_list a f) k =
     (if k = LIST_APPEND \<or> k = LIST_PREPEND then run_maker K n p (maker a) k
      else if k = - (2 ^ 31) then fail (UB Out_of_bounds)
      else act_bind (get_list p f) (\<lambda>xs. case nth_signed xs k of
          Some b \<Rightarrow> ret (Ref_ptr (Some b))
        | None \<Rightarrow> if just_past xs k then run_maker K n p (maker a) k
                  else fail (E ERROR_TREE_INDEX_UNDEFINED)))"

definition obj_new_child :: "codes \<Rightarrow> nat \<Rightarrow> nat \<Rightarrow> addr option \<Rightarrow> int \<Rightarrow> int \<Rightarrow> ref_out act" where
  "obj_new_child K n c p child k = (if p = None then fail (E ERROR_ASSERTION) else
     case map_of (cc_new_child (K c)) child of
       Some m \<Rightarrow> run_new_child K n p m k | None \<Rightarrow> fail (E ERROR_CLASS_UNKNOWN_CHILD))"

text \<open>
  The cases are those from the selected one on: the case of a list has no \<open>return\<close> at its end, so
  an index just past the end runs into the case that follows, or into the default.
\<close>

fun run_drop :: "codes \<Rightarrow> nat \<Rightarrow> addr option \<Rightarrow> int \<Rightarrow> (int \<times> destroy_child_case) list \<Rightarrow> unit act" where
  "run_drop K n p k [] = fail (E ERROR_CLASS_UNKNOWN_CHILD)"
| "run_drop K n p k ((_, Drop_ptr t f) # _) =
     act_bind (get_ptr p f) (\<lambda>q. if q = None then ret ()
       else act_then (leaf_destroy t (obj_destroy K n) q) (set_slot p f (S_ptr None)))"
| "run_drop K n p k ((_, Drop_optional f) # _) =
     act_bind (get_opt p f) (\<lambda>(_, v). set_slot p f (S_opt False v))"
| "run_drop K n p k ((_, Drop_int f) # _) = set_slot p f (S_int 0)"
| "run_drop K n p k ((_, Drop_in_list c f) # cs) =
     (if k = - (2 ^ 31) then fail (UB Out_of_bounds)
      else act_bind (get_list p f) (\<lambda>xs. case nth_signed xs k of
          Some b \<Rightarrow> obj_destroy K n c (Some b)
        | None \<Rightarrow> if just_past xs k then run_drop K n p k cs
                  else fail (E ERROR_TREE_INDEX_UNDEFINED)))"

definition obj_destroy_child :: "codes \<Rightarrow> nat \<Rightarrow> nat \<Rightarrow> addr option \<Rightarrow> int \<Rightarrow> int \<Rightarrow> unit act" where
  "obj_destroy_child K n c p child k = (if p = None then fail (E ERROR_ASSERTION) else
     run_drop K n p k (dropWhile (\<lambda>(i, _). i \<noteq> child) (cc_destroy_child (K c))))"

end
