(* ===== verification/TreeWrap.thy ===== *)
theory TreeWrap
  imports TreeWrapA TreeWrapB ObjAccess
begin

text \<open>
  The table of the generated functions by class id, and what all classes have in common: the
  functions of a class follow its struct, field by field. The names end in \<open>lib_codes\<close>, the codes
  of the library, which the functions of theories Object and ObjAccess take as their argument.
\<close>

definition code_table :: "(nat \<times> class_code) list" where
  "code_table =
     [(3, telephone_code), (4, certificate_code), (6, key_code), (7, observable_reference_code),
     (12, registry_handle_code), (16, time_impact_code), (19, record_pattern_code),
     (20, reference_code), (22, postal_address_code), (24, node_role_code),
     (26, incident_id_code), (28, alternative_indicator_id_code), (30, confidence_code),
     (34, system_impact_code), (36, software_reference_code), (39, business_impact_code),
     (40, indicator_reference_code), (42, email_code), (45, intended_impact_code),
     (48, additional_data_code), (52, counter_code), (54, monetary_impact_code),
     (55, service_name_code), (56, indicator_id_code), (57, signature_data_code),
     (59, address_code), (60, application_header_code), (62, certificate_data_code),
     (64, threat_actor_code), (66, method_code), (68, alternative_id_code), (69, software_code),
     (70, nameservers_code), (71, windows_registry_keys_modified_code), (73, campaign_code),
     (76, assessment_code), (77, attack_phase_code), (81, contact_code),
     (83, related_activity_code), (84, domain_contacts_code), (87, history_item_code),
     (88, fuzzy_hash_code), (89, hash_code), (91, detection_pattern_code),
     (95, expectation_code), (98, domain_data_code), (100, hash_data_code),
     (101, bulk_observable_format_code), (103, history_code), (106, discovery_code),
     (108, bulk_observable_code), (109, email_data_code), (110, file_code), (111, node_code),
     (112, service_code), (114, file_data_code), (120, system_code), (122, record_data_code),
     (124, record_code), (125, flow_code), (127, event_data_code), (129, observable_code),
     (131, indicator_expression_code), (133, indicator_code), (134, indicator_data_code),
     (139, incident_code), (141, document_code)]"

definition lib_codes :: codes where
  "lib_codes c = (case map_of code_table c of
     Some k \<Rightarrow> k
   | None \<Rightarrow> \<lparr>cc_struct = [], cc_linked = False, cc_new = [], cc_destroy = [], cc_copy = [],
       cc_compare = [], cc_get_child = [], cc_new_child = [], cc_destroy_child = []\<rparr>)"

lemmas class_regular =
  telephone_regular certificate_regular key_regular observable_reference_regular
  registry_handle_regular time_impact_regular record_pattern_regular reference_regular
  postal_address_regular node_role_regular incident_id_regular
  alternative_indicator_id_regular confidence_regular system_impact_regular
  software_reference_regular business_impact_regular indicator_reference_regular
  email_regular intended_impact_regular additional_data_regular counter_regular
  monetary_impact_regular service_name_regular indicator_id_regular signature_data_regular
  address_regular application_header_regular certificate_data_regular threat_actor_regular
  method_regular alternative_id_regular software_regular nameservers_regular
  windows_registry_keys_modified_regular campaign_regular assessment_regular
  attack_phase_regular contact_regular related_activity_regular domain_contacts_regular
  history_item_regular fuzzy_hash_regular hash_regular detection_pattern_regular
  expectation_regular domain_data_regular hash_data_regular bulk_observable_format_regular
  history_regular discovery_regular bulk_observable_regular email_data_regular file_regular
  node_regular service_regular file_data_regular system_regular record_data_regular
  record_regular flow_regular event_data_regular observable_regular
  indicator_expression_regular indicator_regular indicator_data_regular incident_regular
  document_regular

lemmas class_fits =
  telephone_fits certificate_fits key_fits observable_reference_fits registry_handle_fits
  time_impact_fits record_pattern_fits reference_fits postal_address_fits node_role_fits
  incident_id_fits alternative_indicator_id_fits confidence_fits system_impact_fits
  software_reference_fits business_impact_fits indicator_reference_fits email_fits
  intended_impact_fits additional_data_fits counter_fits monetary_impact_fits
  service_name_fits indicator_id_fits signature_data_fits address_fits
  application_header_fits certificate_data_fits threat_actor_fits method_fits
  alternative_id_fits software_fits nameservers_fits windows_registry_keys_modified_fits
  campaign_fits assessment_fits attack_phase_fits contact_fits related_activity_fits
  domain_contacts_fits history_item_fits fuzzy_hash_fits hash_fits detection_pattern_fits
  expectation_fits domain_data_fits hash_data_fits bulk_observable_format_fits history_fits
  discovery_fits bulk_observable_fits email_data_fits file_fits node_fits service_fits
  file_data_fits system_fits record_data_fits record_fits flow_fits event_data_fits
  observable_fits indicator_expression_fits indicator_fits indicator_data_fits incident_fits
  document_fits

lemmas class_structs =
  telephone_struct_def certificate_struct_def key_struct_def observable_reference_struct_def
  registry_handle_struct_def time_impact_struct_def record_pattern_struct_def
  reference_struct_def postal_address_struct_def node_role_struct_def incident_id_struct_def
  alternative_indicator_id_struct_def confidence_struct_def system_impact_struct_def
  software_reference_struct_def business_impact_struct_def indicator_reference_struct_def
  email_struct_def intended_impact_struct_def additional_data_struct_def counter_struct_def
  monetary_impact_struct_def service_name_struct_def indicator_id_struct_def
  signature_data_struct_def address_struct_def application_header_struct_def
  certificate_data_struct_def threat_actor_struct_def method_struct_def
  alternative_id_struct_def software_struct_def nameservers_struct_def
  windows_registry_keys_modified_struct_def campaign_struct_def assessment_struct_def
  attack_phase_struct_def contact_struct_def related_activity_struct_def
  domain_contacts_struct_def history_item_struct_def fuzzy_hash_struct_def hash_struct_def
  detection_pattern_struct_def expectation_struct_def domain_data_struct_def
  hash_data_struct_def bulk_observable_format_struct_def history_struct_def
  discovery_struct_def bulk_observable_struct_def email_data_struct_def file_struct_def
  node_struct_def service_struct_def file_data_struct_def system_struct_def
  record_data_struct_def record_struct_def flow_struct_def event_data_struct_def
  observable_struct_def indicator_expression_struct_def indicator_struct_def
  indicator_data_struct_def incident_struct_def document_struct_def

lemma code_table_regular: "list_all (\<lambda>(c, k). regular k) code_table"
  by (simp add: code_table_def class_regular)

text \<open>
  The children of the schema that \<open>destroy_child\<close> has no case for: only the first child of the
  class \<open>service\<close> (class 112).
\<close>

definition missing_drops :: "nat \<Rightarrow> int list" where
  "missing_drops c = (if c = 112 then [0] else [])"

lemma code_table_fits: "list_all (\<lambda>(c, k). c < 142 \<and> (case children_list (object_data ! c) of
    Some chs \<Rightarrow> fits_schema chs (missing_drops c) k | None \<Rightarrow> False)) code_table"
  by (simp add: code_table_def class_fits object_data_nth missing_drops_def)

lemma code_table_complete: "list_all (\<lambda>c. (children_list (object_data ! c) \<noteq> None) \<longleftrightarrow>
    c \<in> set (map fst code_table)) [0..<142]"
  by (simp add: code_table_def object_data_nth object_data_nth(2) [unfolded One_nat_def]
      upt_rec numeral_2_eq_2 [symmetric])

lemma code_table_distinct: "distinct (map fst code_table)"
  by (simp add: code_table_def)


end
