(* ===== verification/ObjTree.thy ===== *)
theory ObjTree
  imports ObjCode
begin

text \<open>
  Documents as trees. A tree says which cells an object owns: itself, its strings, times and data
  with their buffers, its child objects and the elements of its lists, each with one reference.
  \<open>cells_of\<close> gives the exact cells of a tree, and \<open>evolves\<close> says that memory changed from one tree
  to another one with nothing lost, leaked or touched elsewhere. The lemmas of this theory are the
  rules for the memory operations; the functions of the classes are verified in theory ObjProofs.
\<close>

section \<open>Trees\<close>

datatype payload = P_val data_union | P_buf addr string | P_time addr "32 word" "32 word" "32 word"

datatype tree =
    TR_string addr string bool
  | TR_time addr "32 word" "32 word" "32 word"
  | TR_data addr bool data_type nat payload
  | TR_obj addr nat "tslot list"
and tslot =
    TS_null string
  | TS_ptr string tree
  | TS_int string "32 word"
  | TS_opt string bool "32 word"
  | TS_list string "tree list"
  | TS_ignored string "32 word"
  | TS_head0 string

fun root :: "tree \<Rightarrow> addr" where
  "root (TR_string a s b) = a"
| "root (TR_time a x y z) = a"
| "root (TR_data a w k n pl) = a"
| "root (TR_obj a c ss) = a"

fun fname :: "tslot \<Rightarrow> string" where
  "fname (TS_null f) = f"
| "fname (TS_ptr f t) = f"
| "fname (TS_int f v) = f"
| "fname (TS_opt f b v) = f"
| "fname (TS_list f ts) = f"
| "fname (TS_ignored f v) = f"
| "fname (TS_head0 f) = f"

fun slot_of :: "tslot \<Rightarrow> slot" where
  "slot_of (TS_null f) = S_ptr None"
| "slot_of (TS_ptr f t) = S_ptr (Some (root t))"
| "slot_of (TS_int f v) = S_int v"
| "slot_of (TS_opt f b v) = S_opt b v"
| "slot_of (TS_list f ts) = S_list (map root ts)"
| "slot_of (TS_ignored f v) = S_int v"
| "slot_of (TS_head0 f) = S_head0"

definition fields_of :: "tslot list \<Rightarrow> string \<Rightarrow> slot" where
  "fields_of ss = (\<lambda>f. case map_of (map (\<lambda>s. (fname s, slot_of s)) ss) f of
     Some v \<Rightarrow> v | None \<Rightarrow> S_int 0)"

fun payload_union :: "payload \<Rightarrow> data_union" where
  "payload_union (P_val u) = u"
| "payload_union (P_buf b s) = U_ptr (Some b)"
| "payload_union (P_time b x y z) = U_ptr (Some b)"

abbreviation string_cell :: "string \<Rightarrow> bool \<Rightarrow> cell" where
  "string_cell s b \<equiv> C_string \<lparr>str_refcount = 1, str_text = s, str_buf = b\<rparr>"

abbreviation time_cell :: "32 word \<Rightarrow> 32 word \<Rightarrow> 32 word \<Rightarrow> cell" where
  "time_cell x y z \<equiv> C_time \<lparr>time_refcount = 1, time_sec = x, time_usec = y, time_gmt_offset = z\<rparr>"

abbreviation data_cell :: "bool \<Rightarrow> data_type \<Rightarrow> nat \<Rightarrow> data_union \<Rightarrow> cell" where
  "data_cell w k n u \<equiv> C_data \<lparr>data_refcount = 1, own_structure = True, own_buffer = w,
     data_kind = k, data_len = n, data_val = u\<rparr>"

abbreviation obj_cell :: "nat \<Rightarrow> (addr \<times> string) option \<Rightarrow> (string \<Rightarrow> slot) \<Rightarrow> cell" where
  "obj_cell c lk fd \<equiv> C_object \<lparr>obj_class = c, obj_refcount = 1, obj_link = lk, obj_fields = fd\<rparr>"

fun payload_cells :: "payload \<Rightarrow> (addr \<times> cell) list" where
  "payload_cells (P_val u) = []"
| "payload_cells (P_buf b s) = [(b, C_buf False s)]"
| "payload_cells (P_time b x y z) = [(b, time_cell x y z)]"

text \<open>The second argument is the list the root is linked into.\<close>

fun cells_of :: "tree \<Rightarrow> (addr \<times> string) option \<Rightarrow> (addr \<times> cell) list"
and slot_cells :: "tslot \<Rightarrow> addr \<Rightarrow> (addr \<times> cell) list" where
  "cells_of (TR_string a s b) lk = [(a, string_cell s b)]"
| "cells_of (TR_time a x y z) lk = [(a, time_cell x y z)]"
| "cells_of (TR_data a w k n pl) lk = (a, data_cell w k n (payload_union pl)) # payload_cells pl"
| "cells_of (TR_obj a c ss) lk =
     (a, obj_cell c lk (fields_of ss)) # concat (map (\<lambda>s. slot_cells s a) ss)"
| "slot_cells (TS_ptr f t) a = cells_of t None"
| "slot_cells (TS_list f ts) a = concat (map (\<lambda>t. cells_of t (Some (a, f))) ts)"
| "slot_cells (TS_null f) a = []"
| "slot_cells (TS_int f v) a = []"
| "slot_cells (TS_opt f b v) a = []"
| "slot_cells (TS_ignored f v) a = []"
| "slot_cells (TS_head0 f) a = []"

fun addrs :: "tree \<Rightarrow> addr list" and slot_addrs :: "tslot \<Rightarrow> addr list" where
  "addrs (TR_string a s b) = [a]"
| "addrs (TR_time a x y z) = [a]"
| "addrs (TR_data a w k n pl) = a # map fst (payload_cells pl)"
| "addrs (TR_obj a c ss) = a # concat (map slot_addrs ss)"
| "slot_addrs (TS_ptr f t) = addrs t"
| "slot_addrs (TS_list f ts) = concat (map addrs ts)"
| "slot_addrs (TS_null f) = []"
| "slot_addrs (TS_int f v) = []"
| "slot_addrs (TS_opt f b v) = []"
| "slot_addrs (TS_ignored f v) = []"
| "slot_addrs (TS_head0 f) = []"

definition holds :: "omem \<Rightarrow> tree \<Rightarrow> (addr \<times> string) option \<Rightarrow> bool" where
  "holds m t lk \<longleftrightarrow> (\<forall>(a, c) \<in> set (cells_of t lk). ocells m a = Some c)"

text \<open>The trees of a type: every field of the struct is there, in order, with a value of its kind.\<close>

definition payload_ok :: "bool \<Rightarrow> data_type \<Rightarrow> nat \<Rightarrow> payload \<Rightarrow> bool" where
  "payload_ok w k n pl = (case pl of
     P_val u \<Rightarrow> \<not> is_buffer_type k \<and> k \<noteq> DATA_TIME \<and> n \<le> length (union_bytes u)
   | P_buf b s \<Rightarrow> w \<and> is_buffer_type k \<and> n = length s
   | P_time b x y z \<Rightarrow> w \<and> k = DATA_TIME)"

fun wt :: "codes \<Rightarrow> tree \<Rightarrow> ty \<Rightarrow> bool" and slot_wt :: "codes \<Rightarrow> tslot \<Rightarrow> field_decl option \<Rightarrow> bool" where
  "wt K (TR_string a s b) ty \<longleftrightarrow> ty = T_string"
| "wt K (TR_time a x y z) ty \<longleftrightarrow> ty = T_time"
| "wt K (TR_data a w k n pl) ty \<longleftrightarrow> ty = T_data \<and> payload_ok w k n pl"
| "wt K (TR_obj a c ss) ty \<longleftrightarrow> ty = T_class c \<and> map fname ss = map fst (cc_struct (K c)) \<and>
     (\<forall>s \<in> set ss. slot_wt K s (map_of (cc_struct (K c)) (fname s)))"
| "slot_wt K (TS_ptr f t) d \<longleftrightarrow>
     (case d of Some (F_ptr ty) \<Rightarrow> wt K t ty | Some (F_required ty) \<Rightarrow> wt K t ty | _ \<Rightarrow> False)"
| "slot_wt K (TS_null f) d \<longleftrightarrow>
     (case d of Some (F_ptr ty) \<Rightarrow> True | Some (F_required ty) \<Rightarrow> True | _ \<Rightarrow> False)"
| "slot_wt K (TS_int f v) d \<longleftrightarrow> d = Some F_int"
| "slot_wt K (TS_opt f b v) d \<longleftrightarrow> d = Some F_optional"
| "slot_wt K (TS_list f ts) d \<longleftrightarrow>
     (case d of Some (F_listed c) \<Rightarrow> \<forall>t \<in> set ts. wt K t (T_class c) | _ \<Rightarrow> False)"
| "slot_wt K (TS_ignored f v) d \<longleftrightarrow> d = Some F_ignored"
| "slot_wt K (TS_head0 f) d \<longleftrightarrow> False"

text \<open>
  The contents of a tree, without its addresses, its buffer flags and the fields that copying
  ignores.
\<close>

fun payload_content :: "payload \<Rightarrow> payload" where
  "payload_content (P_val u) = P_val u"
| "payload_content (P_buf b s) = P_buf 0 s"
| "payload_content (P_time b x y z) = P_time 0 x y z"

fun content :: "tree \<Rightarrow> tree" and slot_content :: "tslot \<Rightarrow> tslot" where
  "content (TR_string a s b) = TR_string 0 s False"
| "content (TR_time a x y z) = TR_time 0 x y z"
| "content (TR_data a w k n pl) = TR_data 0 True k n (payload_content pl)"
| "content (TR_obj a c ss) = TR_obj 0 c (map slot_content ss)"
| "slot_content (TS_ptr f t) = TS_ptr f (content t)"
| "slot_content (TS_list f ts) = TS_list f (map content ts)"
| "slot_content (TS_null f) = TS_null f"
| "slot_content (TS_int f v) = TS_int f v"
| "slot_content (TS_opt f b v) = TS_opt f b v"
| "slot_content (TS_ignored f v) = TS_ignored f 0"
| "slot_content (TS_head0 f) = TS_head0 f"

section \<open>Cells and addresses\<close>

lemma fst_cells: "map fst (cells_of t lk) = addrs t" "map fst (slot_cells s a) = slot_addrs s"
proof (induction t and s arbitrary: lk and a rule: addrs_slot_addrs.induct)
  case (4 a c ss)
  then show ?case by (simp add: map_concat o_def cong: map_cong)
next
  case (6 f ts)
  then show ?case by (simp add: map_concat o_def cong: map_cong)
qed simp_all

lemma root_in_addrs [simp]: "root t \<in> set (addrs t)"
  by (cases t) auto

lemma cells_hd: "cells_of t lk = (root t, snd (hd (cells_of t lk))) # tl (cells_of t lk)"
  by (cases t) auto

lemma addrs_hd: "addrs t = root t # tl (addrs t)"
  by (cases t) auto

section \<open>Owned cells and changes of memory\<close>

definition owns :: "omem \<Rightarrow> (addr \<times> cell) list \<Rightarrow> bool" where
  "owns m cs \<longleftrightarrow> distinct (map fst cs) \<and> (\<forall>(a, c) \<in> set cs. ocells m a = Some c)"

definition live :: "omem \<Rightarrow> bool" where
  "live m \<longleftrightarrow> (\<forall>a. ocells m a \<noteq> None \<longrightarrow> a < onext m)"

text \<open>
  Memory changes from \<open>m\<close> to \<open>m'\<close> by giving up the cells at the addresses \<open>as\<close> for the cells \<open>cs\<close>,
  which are at addresses of \<open>as\<close> or newly allocated. Nothing else changes.
\<close>

definition evolves :: "omem \<Rightarrow> addr list \<Rightarrow> (addr \<times> cell) list \<Rightarrow> omem \<Rightarrow> bool" where
  "evolves m as cs m' \<longleftrightarrow>
     ocells m' = (ocells m |` (- set as)) ++ map_of cs \<and>
     distinct (map fst cs) \<and> set (map fst cs) \<subseteq> set as \<union> {onext m..<onext m'} \<and>
     onext m \<le> onext m' \<and> obj_alloc_ok m' = obj_alloc_ok m"

lemma owns_Nil [simp]: "owns m []"
  by (simp add: owns_def)

lemma owns_Cons: "owns m ((a, c) # cs) \<longleftrightarrow> ocells m a = Some c \<and> a \<notin> fst ` set cs \<and> owns m cs"
  by (auto simp: owns_def)

lemma owns_append: "owns m (xs @ ys) \<longleftrightarrow>
    owns m xs \<and> owns m ys \<and> fst ` set xs \<inter> fst ` set ys = {}"
  by (auto simp: owns_def)

lemma owns_lookup: "owns m cs \<Longrightarrow> (a, c) \<in> set cs \<Longrightarrow> ocells m a = Some c"
  by (auto simp: owns_def)

lemma owns_map_of: "owns m cs \<Longrightarrow> a \<in> fst ` set cs \<Longrightarrow> ocells m a = map_of cs a"
  by (auto simp: owns_def)

lemma owns_set: "set cs = set ds \<Longrightarrow> distinct (map fst ds) \<Longrightarrow> owns m cs \<Longrightarrow> owns m ds"
  by (auto simp: owns_def)

lemma map_of_fst_None: "a \<notin> fst ` set cs \<Longrightarrow> map_of cs a = None"
  by (simp add: map_of_eq_None_iff)

lemma evolves_cells: "evolves m as cs m' \<Longrightarrow> ocells m' a =
    (if a \<in> fst ` set cs then map_of cs a else if a \<in> set as then None else ocells m a)"
  by (auto simp: evolves_def map_add_def restrict_map_def map_of_fst_None map_of_eq_None_iff
      split: option.split)

lemma evolves_owns: "evolves m as cs m' \<Longrightarrow> owns m' cs"
  using evolves_cells [of m as cs m'] by (auto simp: owns_def evolves_def image_iff Bex_def)

lemma owned_live: "live m \<Longrightarrow> owns m cs \<Longrightarrow> a \<in> fst ` set cs \<Longrightarrow> a < onext m"
  by (auto simp: live_def owns_def image_iff split: prod.splits)

lemma evolves_live: "live m \<Longrightarrow> owns m bs \<Longrightarrow> set as \<subseteq> fst ` set bs \<Longrightarrow> evolves m as cs m' \<Longrightarrow> live m'"
  unfolding live_def
proof (intro allI impI)
  fix a
  assume l: "\<forall>a. ocells m a \<noteq> None \<longrightarrow> a < onext m" and o: "owns m bs" "set as \<subseteq> fst ` set bs"
    and e: "evolves m as cs m'" and a: "ocells m' a \<noteq> None"
  have n: "onext m \<le> onext m'" and sub: "fst ` set cs \<subseteq> set as \<union> {onext m..<onext m'}"
    using e by (auto simp: evolves_def)
  have "a < onext m" if "a \<in> set as" for a
    using that o l owned_live [of m bs a] by (auto simp: live_def)
  moreover have "a \<in> set as \<union> {onext m..<onext m'}" if "a \<in> fst ` set cs"
    using that sub by blast
  moreover have "a < onext m" if "a \<notin> fst ` set cs"
    using that a l evolves_cells [OF e, of a] by (auto split: if_splits)
  ultimately show "a < onext m'"
    using n by (cases "a \<in> fst ` set cs") force+
qed

lemma evolves_frame:
  assumes "evolves m as cs m'" "live m" "owns m fs" "set as \<inter> fst ` set fs = {}"
  shows "owns m' fs"
proof -
  have "ocells m' a = ocells m a" if "a \<in> fst ` set fs" for a
  proof -
    have "a \<notin> set as" using that assms(4) by auto
    moreover have "a < onext m"
      by (rule owned_live [OF assms(2,3) that])
    ultimately have "a \<notin> fst ` set cs"
      using assms(1) by (auto simp: evolves_def)
    then show ?thesis using \<open>a \<notin> set as\<close> by (simp add: evolves_cells [OF assms(1)])
  qed
  then have "ocells m' a = ocells m a" if "(a, c) \<in> set fs" for a c
    using that by (metis fst_conv image_eqI)
  then show ?thesis using assms(3) by (fastforce simp: owns_def)
qed

lemma evolves_refl: "owns m cs \<Longrightarrow> evolves m (map fst cs) cs m"
proof -
  assume o: "owns m cs"
  have "ocells m a = ((ocells m |` (- set (map fst cs))) ++ map_of cs) a" for a
    using owns_map_of [OF o, of a]
    by (cases "a \<in> fst ` set cs") (auto simp: map_add_def map_of_fst_None split: option.split)
  then show ?thesis using o by (auto simp: evolves_def owns_def)
qed

lemma evolves_trans:
  assumes "live m" "owns m bs" "as = map fst bs"
    and "evolves m as cs m1" "as1 = map fst cs" "evolves m1 as1 ds m2"
  shows "evolves m as ds m2"
proof -
  have s: "fst ` set cs \<subseteq> set as \<union> {onext m..<onext m1}" "onext m \<le> onext m1"
      "fst ` set ds \<subseteq> fst ` set cs \<union> {onext m1..<onext m2}" "onext m1 \<le> onext m2"
    using assms by (auto simp: evolves_def)
  have "ocells m2 a = ((ocells m |` (- set as)) ++ map_of ds) a" for a
  proof (cases "a \<in> fst ` set ds")
    case True
    then obtain c where "map_of ds a = Some c" by (metis map_of_eq_None_iff option.exhaust)
    with True show ?thesis by (simp add: evolves_cells [OF assms(6)])
  next
    case False
    have "ocells m a = None" if "a \<in> fst ` set cs" "a \<notin> set as"
      using that s(1) assms(1) by (fastforce simp: live_def)
    with False show ?thesis
      by (auto simp: evolves_cells [OF assms(6)] evolves_cells [OF assms(4)] assms(5)
          map_add_def map_of_fst_None restrict_map_def)
  qed
  then have "ocells m2 = (ocells m |` (- set as)) ++ map_of ds"
    by (rule ext)
  moreover have "set (map fst ds) \<subseteq> set as \<union> {onext m..<onext m2}"
    using s by fastforce
  ultimately show ?thesis using assms s(2,4) unfolding evolves_def by simp
qed

lemma evolves_context:
  assumes "live m" "owns m (xs @ ss @ ys)" "evolves m (map fst ss) ss' m'"
  shows "evolves m (map fst (xs @ ss @ ys)) (xs @ ss' @ ys) m'"
proof -
  have fresh: "a < onext m" if "a \<in> fst ` set (xs @ ss @ ys)" for a
    by (rule owned_live [OF assms(1,2) that])
  have sub: "fst ` set ss' \<subseteq> fst ` set ss \<union> {onext m..<onext m'}" "onext m \<le> onext m'"
    using assms(3) by (auto simp: evolves_def)
  have d: "fst ` set xs \<inter> fst ` set ss = {}" "fst ` set ss \<inter> fst ` set ys = {}"
      "fst ` set xs \<inter> fst ` set ys = {}"
    using assms(2) by (auto simp: owns_append)
  have dis: "fst ` set ss' \<inter> (fst ` set xs \<union> fst ` set ys) = {}"
  proof (rule equals0I)
    fix a assume a: "a \<in> fst ` set ss' \<inter> (fst ` set xs \<union> fst ` set ys)"
    then have "a < onext m" by (intro fresh) auto
    then have "a \<in> fst ` set ss" using a sub by auto
    then show False using a d by auto
  qed
  have "ocells m' a = ((ocells m |` (- set (map fst (xs @ ss @ ys)))) ++ map_of (xs @ ss' @ ys)) a" for a
  proof -
    consider (x) "a \<in> fst ` set xs" | (y) "a \<notin> fst ` set xs" "a \<in> fst ` set ys"
      | (s) "a \<notin> fst ` set xs" "a \<notin> fst ` set ys" "a \<in> fst ` set ss'"
      | (n) "a \<notin> fst ` set xs" "a \<notin> fst ` set ys" "a \<notin> fst ` set ss'" by blast
    then show ?thesis
    proof cases
      case x
      then have n: "a \<notin> fst ` set ss" "a \<notin> fst ` set ss'" "a \<notin> fst ` set ys" using d dis by auto
      have "ocells m a = map_of xs a" "map_of xs a \<noteq> None"
        using x assms(2) by (auto simp: owns_append map_of_eq_None_iff intro: owns_map_of)
      with x n show ?thesis
        by (auto simp add: evolves_cells [OF assms(3)] map_add_def map_of_fst_None)
    next
      case y
      then have n: "a \<notin> fst ` set ss" "a \<notin> fst ` set ss'" using d dis by auto
      have "ocells m a = map_of ys a" "map_of ys a \<noteq> None"
        using y assms(2) by (auto simp: owns_append map_of_eq_None_iff intro: owns_map_of)
      with y n show ?thesis
        by (auto simp add: evolves_cells [OF assms(3)] map_add_def map_of_fst_None)
    next
      case s
      then have "map_of ss' a \<noteq> None" by (simp add: map_of_eq_None_iff)
      with s show ?thesis
        by (auto simp add: evolves_cells [OF assms(3)] map_add_def map_of_fst_None)
    next
      case n
      then show ?thesis
        by (auto simp add: evolves_cells [OF assms(3)] map_add_def map_of_fst_None restrict_map_def)
    qed
  qed
  then have "ocells m' = (ocells m |` (- set (map fst (xs @ ss @ ys)))) ++ map_of (xs @ ss' @ ys)"
    by (rule ext)
  moreover have "distinct (map fst (xs @ ss' @ ys))"
    using assms(2,3) dis by (auto simp: evolves_def owns_def)
  moreover have "set (map fst (xs @ ss' @ ys)) \<subseteq> set (map fst (xs @ ss @ ys)) \<union> {onext m..<onext m'}"
    using sub by auto
  ultimately show ?thesis using assms(3) sub(2) unfolding evolves_def by blast
qed

lemma evolves_set:
  assumes "evolves m as cs m'" "set as = set as'" "set cs = set cs'" "distinct (map fst cs')"
  shows "evolves m as' cs' m'"
proof -
  have "map_of cs = map_of cs'"
    using assms unfolding evolves_def by (metis map_of_inject_set)
  then show ?thesis using assms by (simp add: evolves_def)
qed

section \<open>The memory operations as changes\<close>

lemma evolves_put: "ocells m a = Some c \<Longrightarrow> evolves m [a] [(a, c')] (put_cell a c' m)"
  by (auto simp: evolves_def map_add_def restrict_map_def fun_eq_iff)

lemma evolves_free: "evolves m [a] [] (m\<lparr>ocells := (ocells m)(a := None)\<rparr>)"
  by (auto simp: evolves_def map_add_def restrict_map_def fun_eq_iff)

lemma evolves_alloc: "evolves m [] [(onext m, c)]
    (m\<lparr>onext := Suc (onext m), ocells := (ocells m)(onext m := Some c)\<rparr>)"
  by (auto simp: evolves_def map_add_def restrict_map_def fun_eq_iff)

end
