(* ===== verification/ObjProofs.thy ===== *)
theory ObjProofs
  imports ObjTree "HOL-Library.Multiset"
begin

text \<open>
  The functions of theory Object on the trees of theory ObjTree, for any codes that follow their
  structs: destruction releases exactly the cells of the tree, creation and cloning allocate
  exactly the cells of the new one, copying replaces one tree by a copy of the other, comparison
  tells whether two trees are alike. The codes of the library are an instance (theory TreeWrap).
\<close>

section \<open>Fields of an object\<close>

definition with_field :: "obj \<Rightarrow> string \<Rightarrow> slot \<Rightarrow> obj" where
  "with_field x f s = x\<lparr>obj_fields := (obj_fields x)(f := s)\<rparr>"

lemma with_field_simps [simp]:
  "obj_fields (with_field x f s) f = s"
  "g \<noteq> f \<Longrightarrow> obj_fields (with_field x f s) g = obj_fields x g"
  "with_field (with_field x f s) f s' = with_field x f s'"
  "obj_refcount (with_field x f s) = obj_refcount x"
  "obj_class (with_field x f s) = obj_class x"
  "obj_link (with_field x f s) = obj_link x"
  by (simp_all add: with_field_def)

lemma with_field_same: "obj_fields x f = s \<Longrightarrow> with_field x f s = x"
  by (cases x) (auto simp: with_field_def)

lemma put_put [simp]: "put_cell a c (put_cell a c' m) = put_cell a c m"
  by (simp add: put_cell_def)

lemma get_slot_app:
  assumes "ocells m q = Some (C_object x)"
  shows "get_slot (Some q) f m = (Inr (obj_fields x f), m)"
  using assms by (simp add: get_slot_def act_simps)

lemma set_slot_app:
  assumes "ocells m q = Some (C_object x)"
  shows "set_slot (Some q) f s m =
    (Inr (), put_cell q (C_object (with_field x f s)) m)"
  using assms by (simp add: set_slot_def act_simps with_field_def)

lemma set_link_app:
  assumes "ocells m q = Some (C_object x)"
  shows "set_link (Some q) l m = (Inr (), put_cell q (C_object (x\<lparr>obj_link := l\<rparr>)) m)"
  using assms by (simp add: set_link_def act_simps)

lemma get_field_app:
  assumes "ocells m q = Some (C_object x)"
  shows "obj_fields x f = S_ptr r \<Longrightarrow> get_ptr (Some q) f m = (Inr r, m)"
    and "obj_fields x f = S_int v \<Longrightarrow> get_int (Some q) f m = (Inr v, m)"
    and "obj_fields x f = S_opt b v \<Longrightarrow> get_opt (Some q) f m = (Inr (b, v), m)"
    and "obj_fields x f = S_list as \<Longrightarrow> get_list (Some q) f m = (Inr as, m)"
  using get_slot_app [OF assms, of f]
  by (simp_all add: get_ptr_def get_int_def get_opt_def get_list_def act_simps)

text \<open>Replacing the cells of one part of a tree.\<close>

lemma owns_mset:
  assumes "mset cs = mset ds"
  shows "owns m cs \<longleftrightarrow> owns m ds"
proof -
  have "distinct (map fst cs) \<longleftrightarrow> distinct (map fst ds)"
    by (rule mset_eq_imp_distinct_iff) (simp only: mset_map assms)
  then show ?thesis using mset_eq_setD [OF assms] by (simp add: owns_def)
qed

lemma evolves_mset:
  assumes "evolves m as cs m'" "set as = set bs" "mset cs = mset ds"
  shows "evolves m bs ds m'"
proof (rule evolves_set [OF assms(1,2)])
  have "distinct (map fst cs) \<longleftrightarrow> distinct (map fst ds)"
    by (rule mset_eq_imp_distinct_iff) (simp only: mset_map assms)
  then show "distinct (map fst ds)" using assms(1) by (simp add: evolves_def)
qed (use mset_eq_setD [OF assms(3)] in simp)

lemma evolves_part:
  assumes "live m" "owns m cs" "as = map fst ss" "evolves m as ss' m'"
    and "mset cs = mset ss + mset ys" "mset cs' = mset ss' + mset ys" "bs = map fst cs"
  shows "evolves m bs cs' m'"
proof -
  have c: "mset cs = mset ([] @ ss @ ys)" "mset cs' = mset ([] @ ss' @ ys)"
    using assms(5,6) by simp_all
  have "evolves m (map fst ([] @ ss @ ys)) ([] @ ss' @ ys) m'"
    by (rule evolves_context [OF assms(1) owns_mset [OF c(1), THEN iffD1, OF assms(2)]])
      (use assms(3,4) in simp)
  then show ?thesis
    by (rule evolves_mset) (use c mset_eq_setD [OF c(1)] assms(7) in \<open>simp_all add: image_Un\<close>)
qed

lemma live_evolves: "live m \<Longrightarrow> owns m cs \<Longrightarrow> evolves m (map fst cs) ds m' \<Longrightarrow> live m'"
  by (rule evolves_live) auto

section \<open>Strings, times and data\<close>

lemma str_destroy_ok:
  assumes "owns m (cells_of (TR_string a s b) lk)"
  shows "\<exists>m'. str_destroy (Some a) m = (Inr (), m') \<and> evolves m [a] [] m'"
  using assms by (auto simp: str_destroy_def owns_Cons act_simps intro: evolves_free)

lemma time_destroy_ok:
  assumes "owns m (cells_of (TR_time a x y z) lk)"
  shows "\<exists>m'. time_destroy (Some a) m = (Inr (), m') \<and> evolves m [a] [] m'"
  using assms by (auto simp: time_destroy_def owns_Cons act_simps intro: evolves_free)

lemma data_destroy_ok:
  assumes "owns m (cells_of (TR_data a w k n pl) lk)" "payload_ok w k n pl"
  shows "\<exists>m'. data_destroy (Some a) m = (Inr (), m') \<and> evolves m (addrs (TR_data a w k n pl)) [] m'"
proof (cases pl)
  case (P_val u)
  then show ?thesis using assms
    by (auto simp: data_destroy_def data_destroy_internal_def payload_ok_def owns_Cons act_simps
        evolves_def map_add_def restrict_map_def fun_eq_iff)
next
  case (P_buf b s)
  then show ?thesis using assms
    by (auto simp: data_destroy_def data_destroy_internal_def payload_ok_def owns_Cons act_simps
        union_ptr_def is_buffer_type_def evolves_def map_add_def restrict_map_def fun_eq_iff)
next
  case (P_time b x y z)
  then show ?thesis using assms
    by (auto simp: data_destroy_def data_destroy_internal_def payload_ok_def owns_Cons act_simps
        union_ptr_def time_destroy_def is_buffer_type_def evolves_def map_add_def restrict_map_def fun_eq_iff)
qed

section \<open>Links\<close>

lemma list_unlink_none:
  assumes "ocells m a = Some (obj_cell c None fd)"
  shows "list_unlink a m = (Inr (), m)"
  using assms by (simp add: list_unlink_def act_simps)

lemma list_unlink_some:
  assumes "ocells m a = Some (obj_cell c (Some (h, f)) fd)" "ocells m h = Some (C_object x)"
    and "obj_fields x f = S_list as" "a \<noteq> h"
  shows "list_unlink a m = (Inr (), put_cell a (obj_cell c None fd)
    (put_cell h (C_object (with_field x f (S_list (remove1 a as)))) m))"
  using assms by (simp add: list_unlink_def act_simps get_field_app [OF assms(2)] set_slot_app
      set_link_app)

lemma list_next_app:
  assumes "ocells m a = Some (obj_cell c (Some (h, f)) fd)" "ocells m h = Some (C_object x)"
    and "obj_fields x f = S_list as"
  shows "list_next h f a m = (Inr (succ_in as a), m)"
  using assms by (simp add: list_next_def act_simps get_field_app [OF assms(2)])

lemma succ_in_hd: "succ_in (a # as) a = (case as of [] \<Rightarrow> None | b # _ \<Rightarrow> Some b)"
  by (simp add: succ_in_def split: list.split)

lemma for_each_safe_app:
  assumes "ocells m h = Some (C_object x)" "obj_fields x f = S_list as"
  shows "for_each_safe n (Some h) f body m =
    walk_safe n h f body (case as of [] \<Rightarrow> None | a # _ \<Rightarrow> Some a) m"
  using assms by (simp add: for_each_safe_def act_simps get_field_app [OF assms(1)])

section \<open>Destruction\<close>

text \<open>
  \<open>D\<close> destroys trees of type \<open>ty\<close> up to a size, exactly.
\<close>

definition destroys :: "codes \<Rightarrow> (addr option \<Rightarrow> unit act) \<Rightarrow> ty \<Rightarrow> nat \<Rightarrow> bool" where
  "destroys K D ty n \<longleftrightarrow> (\<forall>t m. wt K t ty \<longrightarrow> size t \<le> n \<longrightarrow> live m \<longrightarrow> owns m (cells_of t None) \<longrightarrow>
     (\<exists>m'. D (Some (root t)) m = (Inr (), m') \<and> evolves m (addrs t) [] m'))"

lemma destroysD:
  assumes "destroys K D ty n" "wt K t ty" "size t \<le> n" "live m" "owns m (cells_of t None)"
  obtains m' where "D (Some (root t)) m = (Inr (), m')" "evolves m (addrs t) [] m'"
  using assms unfolding destroys_def by blast

abbreviation list_cells :: "addr \<Rightarrow> string \<Rightarrow> tree list \<Rightarrow> (addr \<times> cell) list" where
  "list_cells q f ts \<equiv> concat (map (\<lambda>t. cells_of t (Some (q, f))) ts)"

lemma list_cells_addrs: "map fst (list_cells q f ts) = concat (map addrs ts)"
  by (simp add: map_concat o_def fst_cells cong: map_cong)

text \<open>Unlinking the first element of a list.\<close>

lemma unlink_first:
  assumes "live m" "owns m ((q, C_object x) # list_cells q f (t # ts))"
    and "obj_fields x f = S_list (map root (t # ts))" "wt K t (T_class c)"
  shows "\<exists>m'. list_unlink (root t) m = (Inr (), m') \<and>
    evolves m (q # concat (map addrs (t # ts)))
      ((q, C_object (with_field x f (S_list (map root ts)))) #
       cells_of t None @ list_cells q f ts) m'"
proof -
  obtain a ss where t: "t = TR_obj a c ss" using assms(4) by (cases t) auto
  let ?x = "with_field x f (S_list (map root ts))"
  let ?m = "put_cell a (obj_cell c None (fields_of ss)) (put_cell q (C_object ?x) m)"
  have o: "ocells m a = Some (obj_cell c (Some (q, f)) (fields_of ss))" "ocells m q = Some (C_object x)"
      "a \<noteq> q"
    using assms(2) by (auto simp: t owns_Cons owns_append)
  have u: "list_unlink a m = (Inr (), ?m)"
    using list_unlink_some [OF o(1,2) assms(3) o(3)] by (simp add: t)
  have e: "evolves m [q, a] [(q, C_object ?x), (a, obj_cell c None (fields_of ss))] ?m"
    using o by (auto simp: evolves_def map_add_def restrict_map_def fun_eq_iff)
  have "evolves m (q # concat (map addrs (t # ts)))
      ((q, C_object ?x) # cells_of t None @ list_cells q f ts) ?m"
    by (rule evolves_part [OF assms(1,2) _ e, where
          ss = "[(q, C_object x), (a, obj_cell c (Some (q, f)) (fields_of ss))]" and
          ys = "concat (map (\<lambda>s. slot_cells s a) ss) @ list_cells q f ts"])
      (simp_all add: t list_cells_addrs fst_cells map_concat o_def)
  then show ?thesis using u by (auto simp: t)
qed

text \<open>
  A loop over a list whose body takes the first element out of the list and releases it. The two
  bodies of the code are \<open>list_del_init\<close> with a destruction and a destruction alone.
\<close>

definition drops_first :: "codes \<Rightarrow> nat \<Rightarrow> nat \<Rightarrow> addr \<Rightarrow> string \<Rightarrow> (addr \<Rightarrow> unit act) \<Rightarrow> bool" where
  "drops_first K c n q f body \<longleftrightarrow> (\<forall>m x t ts. live m \<longrightarrow> owns m ((q, C_object x) # list_cells q f (t # ts)) \<longrightarrow>
     obj_fields x f = S_list (map root (t # ts)) \<longrightarrow> wt K t (T_class c) \<longrightarrow> size t \<le> n \<longrightarrow>
     (\<exists>m'. body (root t) m = (Inr (), m') \<and> evolves m (q # concat (map addrs (t # ts)))
        ((q, C_object (with_field x f (S_list (map root ts)))) # list_cells q f ts) m'))"

lemma drops_firstD:
  assumes "drops_first K c n q f body" "live m" "owns m ((q, C_object x) # list_cells q f (t # ts))"
    "obj_fields x f = S_list (map root (t # ts))" "wt K t (T_class c)" "size t \<le> n"
  obtains m' where "body (root t) m = (Inr (), m')" "evolves m (q # concat (map addrs (t # ts)))
        ((q, C_object (with_field x f (S_list (map root ts)))) # list_cells q f ts) m'"
  using assms unfolding drops_first_def by blast

lemma linked_addrs:
  "map fst ((q, C_object x) # list_cells q f ts) = q # concat (map addrs ts)"
  by (simp add: list_cells_addrs)

lemma walk_drops:
  assumes B: "drops_first K c n q f body"
  shows "live m \<Longrightarrow> owns m ((q, C_object x) # list_cells q f ts) \<Longrightarrow>
    obj_fields x f = S_list (map root ts) \<Longrightarrow> (\<And>t. t \<in> set ts \<Longrightarrow> wt K t (T_class c) \<and> size t \<le> n) \<Longrightarrow>
    length ts \<le> k \<Longrightarrow>
    \<exists>m'. walk_safe k q f body (case map root ts of [] \<Rightarrow> None | a # _ \<Rightarrow> Some a) m = (Inr (), m') \<and>
      evolves m (q # concat (map addrs ts)) [(q, C_object (with_field x f (S_list [])))] m'"
proof (induction ts arbitrary: m x k)
  case Nil
  then have x: "with_field x f (S_list []) = x"
    by (simp add: with_field_same)
  show ?case using evolves_refl [OF Nil(2)] unfolding x by (simp add: act_simps)
next
  case (Cons t ts)
  obtain k' where k: "k = Suc k'" using Cons.prems(5) by (cases k) auto
  let ?x = "with_field x f (S_list (map root ts))"
  obtain a ss where t: "t = TR_obj a c ss" using Cons.prems(4) [of t] by (cases t) auto
  have nx: "list_next q f a m = (Inr (case map root ts of [] \<Rightarrow> None | a # _ \<Rightarrow> Some a), m)"
    using list_next_app [of m a c q f "fields_of ss" x] Cons.prems(2,3)
    by (auto simp: t owns_Cons owns_append succ_in_hd)
  obtain m1 where m1: "body (root t) m = (Inr (), m1)"
    "evolves m (q # concat (map addrs (t # ts))) ((q, C_object ?x) # list_cells q f ts) m1"
    by (rule drops_firstD [OF B Cons.prems(1,2,3)]) (use Cons.prems(4) [of t] in auto)
  note l1 = live_evolves [OF Cons.prems(1,2) m1(2) [folded linked_addrs [of q x f]]]
  obtain m' where m': "walk_safe k' q f body
        (case map root ts of [] \<Rightarrow> None | a # _ \<Rightarrow> Some a) m1 = (Inr (), m')"
      "evolves m1 (q # concat (map addrs ts)) [(q, C_object (with_field x f (S_list [])))] m'"
    using Cons.IH [OF l1 evolves_owns [OF m1(2)], of k'] Cons.prems(4,5) k by auto
  have "evolves m (q # concat (map addrs (t # ts)))
      [(q, C_object (with_field x f (S_list [])))] m'"
    by (rule evolves_trans [OF Cons.prems(1,2) linked_addrs [symmetric] m1(2) linked_addrs [symmetric] m'(2)])
  moreover have "walk_safe k q f body (Some a) m = (Inr (), m')"
    using m'(1) m1(1) by (simp add: k t act_then_def act_bind_def nx)
  ultimately show ?case by (auto simp: t)
qed

lemma unlink_drops_first:
  assumes D: "destroys K D (T_class c) n"
  shows "drops_first K c n q f (\<lambda>a. act_then (list_unlink a) (D (Some a)))"
  unfolding drops_first_def
proof (intro allI impI)
  fix m x t ts
  assume a: "live m" "owns m ((q, C_object x) # list_cells q f (t # ts))"
    "obj_fields x f = S_list (map root (t # ts))" "wt K t (T_class c)" "size t \<le> n"
  let ?l = "(q, C_object (with_field x f (S_list (map root ts)))) # list_cells q f ts"
  obtain m1 where m1: "list_unlink (root t) m = (Inr (), m1)"
    "evolves m (q # concat (map addrs (t # ts)))
      ((q, C_object (with_field x f (S_list (map root ts)))) # cells_of t None @ list_cells q f ts) m1"
    using unlink_first [OF a(1-4)] by auto
  note l1 = live_evolves [OF a(1,2) m1(2) [folded linked_addrs [of q x f]]] and o1 = evolves_owns [OF m1(2)]
  have ot: "owns m1 (cells_of t None)" using o1 by (simp add: owns_append owns_Cons)
  obtain m2 where m2: "D (Some (root t)) m1 = (Inr (), m2)" and m22: "evolves m1 (addrs t) [] m2"
    by (rule destroysD [OF D a(4,5) l1 ot])
  have e2: "evolves m1 (map fst ((q, C_object (with_field x f (S_list (map root ts)))) #
      cells_of t None @ list_cells q f ts)) ?l m2"
    by (rule evolves_part [OF l1 o1 _ m22, where ss = "cells_of t None" and ys = ?l])
      (simp_all add: fst_cells)
  have "evolves m (q # concat (map addrs (t # ts))) ?l m2"
    by (rule evolves_trans [OF a(1,2) linked_addrs [symmetric] m1(2) refl e2])
  then show "\<exists>m'. act_then (list_unlink (root t)) (D (Some (root t))) m = (Inr (), m') \<and>
      evolves m (q # concat (map addrs (t # ts))) ?l m'"
    using m1(1) m2 by (auto simp: act_then_def act_bind_def)
qed

abbreviation slots_cells :: "addr \<Rightarrow> tslot list \<Rightarrow> (addr \<times> cell) list" where
  "slots_cells q ss \<equiv> concat (map (\<lambda>s. slot_cells s q) ss)"

lemma slots_cells_addrs: "map fst (slots_cells q ss) = concat (map slot_addrs ss)"
  by (simp add: map_concat o_def fst_cells cong: map_cong)

lemma size_list_le: "x \<in> set xs \<Longrightarrow> f x \<le> size_list f xs"
  by (induction xs) auto

lemma length_size_list: "length xs \<le> size_list f xs"
  by (induction xs) auto

text \<open>One statement of \<open>destroy_internal\<close>.\<close>

lemma destroy_one:
  assumes D: "\<And>ty. destroys K (D ty) ty n" and l: "live m"
    and o: "owns m ((q, C_object x) # slot_cells s q)" and x: "obj_fields x f = slot_of s" "fname s = f"
    and w: "slot_wt K s (Some d)" and n: "size s \<le> n"
  shows "\<exists>m' x'. run_all (run_destroy n D (Some q)) (destroy_of (f, d)) m = (Inr (), m') \<and>
    evolves m (q # slot_addrs s) [(q, C_object x')] m' \<and> (\<forall>g. g \<noteq> f \<longrightarrow> obj_fields x' g = obj_fields x g)"
proof (cases s)
  case (TS_ptr g t)
  then obtain ty where d: "d = F_ptr ty \<or> d = F_required ty" and t: "wt K t ty"
    using w by (auto split: field_decl.splits)
  have q: "ocells m q = Some (C_object x)" and ot: "owns m (cells_of t None)"
    using o TS_ptr by (auto simp: owns_Cons)
  obtain m1 where m1: "D ty (Some (root t)) m = (Inr (), m1)" "evolves m (addrs t) [] m1"
    by (rule destroysD [OF D t _ l ot]) (use n TS_ptr in auto)
  have "q \<notin> set (addrs t)" using o TS_ptr by (simp add: owns_Cons fst_cells flip: set_map)
  then have q1: "ocells m1 q = Some (C_object x)"
    using evolves_cells [OF m1(2), of q] q by simp
  let ?m = "put_cell q (C_object (with_field x f (S_ptr None))) m1"
  have "evolves m (q # addrs t) [(q, C_object (with_field x f (S_ptr None)))] ?m"
    using m1(2) q by (auto simp: evolves_def map_add_def restrict_map_def fun_eq_iff)
  moreover have "run_all (run_destroy n D (Some q)) (destroy_of (f, d)) m = (Inr (), ?m)"
    using d x TS_ptr
    by (auto simp: act_then_def act_bind_def get_field_app(1) [OF q] m1(1) set_slot_app [OF q1] ret_def)
  ultimately show ?thesis using TS_ptr by (intro exI [of _ ?m] exI conjI) auto
next
  case (TS_list g ts)
  then obtain c where d: "d = F_listed c" and t: "\<forall>t \<in> set ts. wt K t (T_class c)"
    using w by (auto split: field_decl.splits)
  have o': "owns m ((q, C_object x) # list_cells q f ts)" and x': "obj_fields x f = S_list (map root ts)"
    using o x TS_list by auto
  have q: "ocells m q = Some (C_object x)" using o by (simp add: owns_Cons)
  have "t \<in> set ts \<Longrightarrow> size t \<le> n" "length ts \<le> n" for t
    using n TS_list size_list_le [of t ts size] length_size_list [of ts size] by auto
  then obtain m' where m': "walk_safe n q f (\<lambda>a. act_then (list_unlink a) (D (T_class c) (Some a)))
        (case map root ts of [] \<Rightarrow> None | a # _ \<Rightarrow> Some a) m = (Inr (), m')"
      "evolves m (q # concat (map addrs ts)) [(q, C_object (with_field x f (S_list [])))] m'"
    using walk_drops [OF unlink_drops_first [OF D [of "T_class c"]] l o' x', of n] t by blast
  then have "run_all (run_destroy n D (Some q)) (destroy_of (f, d)) m = (Inr (), m')"
    by (simp add: d act_then_def act_bind_def for_each_safe_app [OF q x'] ret_def)
  then show ?thesis using m'(2) TS_list by (intro exI [of _ m'] exI conjI) auto
next
  case (TS_null g)
  then show ?thesis
    using w x o evolves_refl [of m "[(q, C_object x)]"]
    by (auto simp: owns_Cons act_then_def act_bind_def get_field_app ret_def split: field_decl.splits)
qed (use w o evolves_refl [of m "[(q, C_object x)]"] in \<open>auto simp: owns_Cons ret_def\<close>)

lemma run_all_append: "run_all r (xs @ ys) = act_then (run_all r xs) (run_all r ys)"
proof (induction xs)
  case Nil
  then show ?case by (rule ext) (simp add: act_then_def act_bind_def ret_def)
next
  case (Cons a xs)
  then show ?case
    by (intro ext) (simp add: act_then_def act_bind_def split: prod.split sum.split)
qed

lemma destroy_slots:
  assumes D: "\<And>ty. destroys K (D ty) ty n"
  shows "live m \<Longrightarrow> owns m ((q, C_object x) # slots_cells q ss) \<Longrightarrow> distinct (map fname ss) \<Longrightarrow>
    (\<And>s. s \<in> set ss \<Longrightarrow> obj_fields x (fname s) = slot_of s \<and> size s \<le> n) \<Longrightarrow>
    list_all2 (\<lambda>s (f, d). fname s = f \<and> slot_wt K s (Some d)) ss ds \<Longrightarrow>
    \<exists>m' x'. run_all (run_destroy n D (Some q)) (concat (map destroy_of ds)) m = (Inr (), m') \<and>
      evolves m (q # concat (map slot_addrs ss)) [(q, C_object x')] m'"
proof (induction ss arbitrary: m x ds)
  case Nil
  then show ?case using evolves_refl [OF Nil(2)] by (auto simp: ret_def)
next
  case (Cons s ss)
  obtain f d ds' where ds: "ds = (f, d) # ds'" "fname s = f" "slot_wt K s (Some d)"
      "list_all2 (\<lambda>s (f, d). fname s = f \<and> slot_wt K s (Some d)) ss ds'"
    using Cons.prems(5) by (auto simp: list_all2_Cons1)
  let ?as = "q # concat (map slot_addrs (s # ss))"
  have as: "?as = map fst ((q, C_object x) # slots_cells q (s # ss))"
    by (simp add: slots_cells_addrs fst_cells)
  have o1: "owns m ((q, C_object x) # slot_cells s q)"
    using Cons.prems(2) by (auto simp: owns_Cons owns_append)
  obtain m1 x1 where m1: "run_all (run_destroy n D (Some q)) (destroy_of (f, d)) m = (Inr (), m1)"
      "evolves m (q # slot_addrs s) [(q, C_object x1)] m1" "\<forall>g. g \<noteq> f \<longrightarrow> obj_fields x1 g = obj_fields x g"
    using destroy_one [OF D Cons.prems(1) o1 _ ds(2,3)] Cons.prems(4) [of s] ds(2) by auto
  let ?l = "(q, C_object x1) # slots_cells q ss"
  have e1: "evolves m ?as ?l m1"
    by (rule evolves_part [OF Cons.prems(1,2) _ m1(2), where ss = "(q, C_object x) # slot_cells s q" and
          ys = "slots_cells q ss"]) (simp_all add: slots_cells_addrs fst_cells)
  have "obj_fields x1 (fname u) = slot_of u \<and> size u \<le> n" if "u \<in> set ss" for u
    using Cons.prems(3) Cons.prems(4) [of u] m1(3) that ds(2) by (auto simp: image_iff)
  then obtain m' x' where m': "run_all (run_destroy n D (Some q)) (concat (map destroy_of ds')) m1 = (Inr (), m')"
      "evolves m1 (q # concat (map slot_addrs ss)) [(q, C_object x')] m'"
    using Cons.IH [OF live_evolves [OF Cons.prems(1,2) e1 [unfolded as]] evolves_owns [OF e1] _ _ ds(4)]
      Cons.prems(3) by auto
  have "evolves m ?as [(q, C_object x')] m'"
    by (rule evolves_trans [OF Cons.prems(1,2) as e1 _ m'(2)]) (simp add: slots_cells_addrs)
  then show ?case
    using m'(1) m1(1) by (auto simp: ds(1) run_all_append act_then_def act_bind_def)
qed

section \<open>Changing one field after the other\<close>

definition all_ok :: "omem \<Rightarrow> bool" where
  "all_ok m \<longleftrightarrow> (\<forall>a. obj_alloc_ok m a)"

lemma all_ok_evolves: "all_ok m \<Longrightarrow> evolves m as cs m' \<Longrightarrow> all_ok m'"
  by (simp add: all_ok_def evolves_def)

lemma fields_of_update:
  assumes "distinct (map fname (xs @ s # ys))" "fname s' = fname s"
  shows "(fields_of (xs @ s # ys))(fname s := slot_of s') = fields_of (xs @ s' # ys)"
proof
  fix g
  have n: "map_of (map (\<lambda>s. (fname s, slot_of s)) xs) (fname s) = None"
    using assms(1) by (auto simp: map_of_eq_None_iff)
  show "((fields_of (xs @ s # ys))(fname s := slot_of s')) g = fields_of (xs @ s' # ys) g"
    using assms(2) n by (auto simp: fields_of_def map_add_def split: option.split)
qed

lemma fields_of_nth: "distinct (map fname ss) \<Longrightarrow> s \<in> set ss \<Longrightarrow> fields_of ss (fname s) = slot_of s"
proof -
  assume "distinct (map fname ss)" "s \<in> set ss"
  then have "map_of (map (\<lambda>s. (fname s, slot_of s)) ss) (fname s) = Some (slot_of s)"
    by (intro map_of_is_SomeI) (auto simp: o_def)
  then show ?thesis by (simp add: fields_of_def)
qed

lemma cells_addrs: "addrs t = map fst (cells_of t lk)"
  by (simp add: fst_cells)

lemma owned_root: "owns m (cells_of (TR_obj q c ss) lk @ F) \<Longrightarrow>
    ocells m q = Some (obj_cell c lk (fields_of ss))"
  by (simp add: owns_Cons)

text \<open>A field that owns nothing is set, possibly to something that was made before.\<close>

lemma set_slot_tree:
  assumes "live m" "owns m (cells_of (TR_obj q c (xs @ s # ys)) lk @ slot_cells s' q)"
    and "slot_cells s q = []" "fname s' = fname s" "distinct (map fname (xs @ s # ys))"
  shows "\<exists>m'. set_slot (Some q) (fname s) (slot_of s') m = (Inr (), m') \<and>
    evolves m (map fst (cells_of (TR_obj q c (xs @ s # ys)) lk @ slot_cells s' q))
      (cells_of (TR_obj q c (xs @ s' # ys)) lk) m'"
proof -
  let ?x = "\<lparr>obj_class = c, obj_refcount = 1, obj_link = lk, obj_fields = fields_of (xs @ s # ys)\<rparr>"
  let ?c = "obj_cell c lk (fields_of (xs @ s' # ys))"
  have q: "ocells m q = Some (C_object ?x)" using assms(2) by (rule owned_root)
  have c: "C_object (with_field ?x (fname s) (slot_of s')) = ?c"
    using fields_of_update [OF assms(5,4)] by (simp add: with_field_def)
  have "evolves m (map fst (cells_of (TR_obj q c (xs @ s # ys)) lk @ slot_cells s' q))
      (cells_of (TR_obj q c (xs @ s' # ys)) lk) (put_cell q ?c m)"
    by (rule evolves_part [OF assms(1,2) _ evolves_put [OF q, of ?c], where
          ss = "[(q, C_object ?x)]" and ys = "slots_cells q xs @ slots_cells q ys @ slot_cells s' q"])
      (simp_all add: assms(3))
  then show ?thesis using set_slot_app [OF q] c by (intro exI [of _ "put_cell q ?c m"]) simp
qed

lemma evolves_disjoint:
  assumes "evolves m as cs m'" "live m" "owns m fs" "set as \<inter> fst ` set fs = {}"
  shows "fst ` set cs \<inter> fst ` set fs = {}"
proof (rule equals0I)
  fix a assume a: "a \<in> fst ` set cs \<inter> fst ` set fs"
  then have "a < onext m" using owned_live [OF assms(2,3)] by blast
  moreover have "a \<in> set as \<union> {onext m..<onext m'}" using a assms(1) by (auto simp: evolves_def)
  ultimately show False using a assms(4) by auto
qed

lemma slots_loop:
  assumes step: "\<And>m xs s ys d. live m \<Longrightarrow> all_ok m \<Longrightarrow> owns m (cells_of (TR_obj q c (xs @ s # ys)) lk @ F) \<Longrightarrow>
      distinct (map fname (xs @ s # ys)) \<Longrightarrow> P s d \<Longrightarrow>
      \<exists>m' s'. run_all run (g (fname s, d)) m = (Inr (), m') \<and> fname s' = fname s \<and> Q s d s' \<and>
        evolves m (addrs (TR_obj q c (xs @ s # ys))) (cells_of (TR_obj q c (xs @ s' # ys)) lk) m'"
  shows "live m \<Longrightarrow> all_ok m \<Longrightarrow> owns m (cells_of (TR_obj q c (xs @ ss)) lk @ F) \<Longrightarrow>
      distinct (map fname (xs @ ss)) \<Longrightarrow> list_all2 (\<lambda>s (f, d). fname s = f \<and> P s d) ss ds \<Longrightarrow>
      \<exists>m' ss'. run_all run (concat (map g ds)) m = (Inr (), m') \<and> map fname ss' = map fname ss \<and>
        list_all2 (\<lambda>(s, (f, d)) s'. Q s d s') (zip ss ds) ss' \<and>
        evolves m (addrs (TR_obj q c (xs @ ss))) (cells_of (TR_obj q c (xs @ ss')) lk) m'"
proof (induction ss arbitrary: m xs ds)
  case Nil
  have "owns m (cells_of (TR_obj q c (xs @ [])) lk)" using Nil(3) by (simp only: owns_append)
  then show ?case
    using evolves_refl [of m "cells_of (TR_obj q c xs) lk"] Nil(5) by (auto simp: ret_def fst_cells slots_cells_addrs)
next
  case (Cons s ss)
  obtain d ds' where ds: "ds = (fname s, d) # ds'" "P s d"
      "list_all2 (\<lambda>s (f, d). fname s = f \<and> P s d) ss ds'"
    using Cons.prems(5) by (auto simp: list_all2_Cons1)
  let ?C = "\<lambda>ss. cells_of (TR_obj q c ss) lk"
  obtain m1 s' where m1: "run_all run (g (fname s, d)) m = (Inr (), m1)" "fname s' = fname s" "Q s d s'"
      "evolves m (addrs (TR_obj q c (xs @ s # ss))) (?C (xs @ s' # ss)) m1"
    using step [OF Cons.prems(1-4) ds(2)] by blast
  have oc: "owns m (?C (xs @ s # ss))" and oF: "owns m F" and dis: "fst ` set (?C (xs @ s # ss)) \<inter> fst ` set F = {}"
    using Cons.prems(3) by (simp_all only: owns_append)
  note e1 = m1(4) [unfolded cells_addrs [of _ lk]]
  have l1: "live m1" by (rule live_evolves [OF Cons.prems(1) oc e1])
  have oF1: "owns m1 F"
    by (rule evolves_frame [OF e1 Cons.prems(1) oF]) (use dis in \<open>simp only: set_map\<close>)
  have "fst ` set (?C (xs @ s' # ss)) \<inter> fst ` set F = {}"
    by (rule evolves_disjoint [OF e1 Cons.prems(1) oF]) (use dis in \<open>simp only: set_map\<close>)
  then have "owns m1 (?C (xs @ s' # ss) @ F)"
    using evolves_owns [OF e1] oF1 unfolding owns_append by blast
  then have o1: "owns m1 (?C ((xs @ [s']) @ ss) @ F)"
    by (simp only: append.assoc append_Cons append_Nil)
  have d1: "distinct (map fname ((xs @ [s']) @ ss))" using Cons.prems(4) m1(2) by simp
  obtain m2 ss' where m2: "run_all run (concat (map g ds')) m1 = (Inr (), m2)" "map fname ss' = map fname ss"
      "list_all2 (\<lambda>(s, (f, d)) s'. Q s d s') (zip ss ds') ss'"
      "evolves m1 (addrs (TR_obj q c ((xs @ [s']) @ ss))) (?C ((xs @ [s']) @ ss')) m2"
    using Cons.IH [OF l1 all_ok_evolves [OF Cons.prems(2) e1] o1 d1 ds(3)] by blast
  have "evolves m (addrs (TR_obj q c (xs @ s # ss))) (?C (xs @ s' # ss')) m2"
    by (rule evolves_trans [OF Cons.prems(1) oc cells_addrs [of _ lk] m1(4) cells_addrs [of _ lk]])
      (use m2(4) in simp)
  then show ?case
    using m1 m2 by (intro exI [of _ m2] exI [of _ "s' # ss'"])
      (auto simp: ds(1) run_all_append act_then_def act_bind_def)
qed

section \<open>Codes that follow their structs\<close>

text \<open>
  What the proofs need of the codes of a library: every class is regular, the classes of list
  elements have a link, and required children do not contain each other, so that a new object has
  a size: \<open>rank c\<close> bounds the size of a new object of class \<open>c\<close>.
\<close>

fun new_weight :: "(nat \<Rightarrow> nat) \<Rightarrow> field_decl \<Rightarrow> nat" where
  "new_weight rank (F_required (T_class c)) = Suc (rank c)"
| "new_weight rank (F_required t) = 1"
| "new_weight rank (F_listed c) = 1"
| "new_weight rank _ = 0"

locale object_codes =
  fixes K :: codes and rank :: "nat \<Rightarrow> nat" and bound :: nat
  assumes codes_regular: "regular (K c)"
    and listed_linked: "(f, F_listed c') \<in> set (cc_struct (K c)) \<Longrightarrow> cc_linked (K c')"
    and rank_struct: "Suc (size_list (new_weight rank \<circ> snd) (cc_struct (K c))) \<le> rank c"
    and rank_bound: "rank c \<le> bound"
begin

lemma wt_slots:
  assumes "wt K (TR_obj a c ss) ty"
  shows "distinct (map fname ss)"
    and "list_all2 (\<lambda>s (f, d). fname s = f \<and> slot_wt K s (Some d)) ss (cc_struct (K c))"
proof -
  have d: "distinct (map fst (cc_struct (K c)))" using codes_regular [of c] by (simp add: regular_def)
  then show "distinct (map fname ss)" using assms by simp
  have n: "map fname ss = map fst (cc_struct (K c))" using assms by simp
  then have len: "length ss = length (cc_struct (K c))" by (metis length_map)
  show "list_all2 (\<lambda>s (f, d). fname s = f \<and> slot_wt K s (Some d)) ss (cc_struct (K c))"
  proof (rule list_all2I)
    show "\<forall>x\<in>set (zip ss (cc_struct (K c))). case x of (s, f, d) \<Rightarrow> fname s = f \<and> slot_wt K s (Some d)"
    proof clarify
      fix s f e assume "(s, f, e) \<in> set (zip ss (cc_struct (K c)))"
      then obtain i where i: "i < length ss" "s = ss ! i" "(f, e) = cc_struct (K c) ! i"
        by (auto simp: set_zip)
      have f: "fname s = f" using n i len by (metis fst_conv nth_map)
      have "map_of (cc_struct (K c)) f = Some e"
        using d i len by (metis map_of_is_SomeI nth_mem)
      moreover have "slot_wt K s (map_of (cc_struct (K c)) (fname s))"
        using assms i by auto
      ultimately show "fname s = f \<and> slot_wt K s (Some e)"
        using f by simp
    qed
  qed (rule len)
qed

lemma leaf_destroys:
  assumes "\<And>c. destroys K (rec c) (T_class c) n"
  shows "destroys K (leaf_destroy ty rec) ty n"
  unfolding destroys_def
proof (intro allI impI)
  fix t m assume t: "wt K t ty" "size t \<le> n" "live m" "owns m (cells_of t None)"
  show "\<exists>m'. leaf_destroy ty rec (Some (root t)) m = (Inr (), m') \<and> evolves m (addrs t) [] m'"
  proof (cases t)
    case (TR_obj a c ss)
    then have ty: "ty = T_class c" using t(1) by simp
    show ?thesis using t assms [of c] by (simp add: ty leaf_destroy_def destroys_def)
  next
    case (TR_string a s b)
    then show ?thesis using t str_destroy_ok [of m a s b None] by (simp add: leaf_destroy_def)
  next
    case (TR_time a x y z)
    then show ?thesis using t time_destroy_ok [of m a x y z None] by (simp add: leaf_destroy_def)
  next
    case (TR_data a w k l pl)
    then show ?thesis using t data_destroy_ok [of m a w k l pl None] by (simp add: leaf_destroy_def)
  qed
qed

lemma obj_destroys: "destroys K (obj_destroy K n c) (T_class c) n"
proof (induction n arbitrary: c)
  case 0
  have "size t > 0" if "wt K t (T_class c)" for t using that by (cases t) auto
  then show ?case by (fastforce simp: destroys_def)
next
  case (Suc n)
  show ?case unfolding destroys_def
  proof (intro allI impI)
    fix t m assume t: "wt K t (T_class c)" "size t \<le> Suc n" "live m" "owns m (cells_of t None)"
    obtain q ss where q: "t = TR_obj q c ss" using t(1) by (cases t) auto
    define x where "x = \<lparr>obj_class = c, obj_refcount = 0, obj_link = None, obj_fields = fields_of ss\<rparr>"
    define m0 where "m0 = put_cell q (C_object x) m"
    have mq: "ocells m q = Some (obj_cell c None (fields_of ss))"
      using t(4) by (simp add: q owns_Cons)
    have e0: "evolves m (addrs t) ((q, C_object x) # slots_cells q ss) m0"
      by (rule evolves_part [OF t(3,4) _ evolves_put [OF mq, of "C_object x", folded m0_def],
            where ss = "[(q, obj_cell c None (fields_of ss))]" and ys = "slots_cells q ss"])
        (simp_all add: q slots_cells_addrs)
    have a: "addrs t = map fst (cells_of t None)" by (simp add: fst_cells)
    have u: "list_unlink q m0 = (Inr (), m0)"
      by (simp add: m0_def x_def list_unlink_def act_simps)
    have D: "destroys K (leaf_destroy ty (obj_destroy K n)) ty n" for ty
      by (rule leaf_destroys) (rule Suc.IH)
    have "obj_fields x (fname s) = slot_of s \<and> size s \<le> n" if "s \<in> set ss" for s
      using fields_of_nth [OF wt_slots(1) [OF t(1) [unfolded q]] that] t(2) size_list_le [OF that, of size]
      by (simp add: x_def q)
    then obtain m1 x1 where m1: "run_all (run_destroy n (\<lambda>t. leaf_destroy t (obj_destroy K n)) (Some q))
          (concat (map destroy_of (cc_struct (K c)))) m0 = (Inr (), m1)"
        "evolves m0 (q # concat (map slot_addrs ss)) [(q, C_object x1)] m1"
      using destroy_slots [OF D live_evolves [OF t(3,4) e0 [unfolded a]] evolves_owns [OF e0] _ _ wt_slots(2)]
        wt_slots(1) t(1) unfolding q by blast
    have e1: "evolves m (addrs t) [(q, C_object x1)] m1"
      by (rule evolves_trans [OF t(3,4) a e0 _ m1(2)]) (simp add: slots_cells_addrs)
    let ?m = "m1\<lparr>ocells := (ocells m1)(q := None)\<rparr>"
    have q1: "ocells m1 q = Some (C_object x1)" using evolves_owns [OF e1] by (simp add: owns_Cons)
    have "evolves m (addrs t) [] ?m"
      by (rule evolves_trans [OF t(3,4) a e1 _ evolves_free]) simp
    moreover have "obj_destroy K (Suc n) c (Some (root t)) m = (Inr (), ?m)"
      using codes_regular [of c] m1(1) u free_Some [OF q1]
      by (simp add: q act_bind_def act_then_def load_simps(7) [OF mq] ret_def
          store_Some [OF mq] m0_def x_def regular_def)
    ultimately show "\<exists>m'. obj_destroy K (Suc n) c (Some (root t)) m = (Inr (), m') \<and> evolves m (addrs t) [] m'"
      by blast
  qed
qed

text \<open>Destroying the first element of a list through its link.\<close>

lemma destroy_unlinked_first:
  assumes "cc_linked (K c)" "ocells m a = Some (obj_cell c (Some (h, f)) fd)" "ocells m h = Some (C_object x)"
    and "obj_fields x f = S_list as" "a \<noteq> h" "list_unlink a m = (Inr (), m')"
  shows "obj_destroy K n c (Some a) m = obj_destroy K n c (Some a) m'
    \<or> n = 0"
proof (cases n)
  case (Suc k)
  let ?x = "with_field x f (S_list (remove1 a as))"
  have m': "m' = put_cell a (obj_cell c None fd) (put_cell h (C_object ?x) m)"
    using list_unlink_some [OF assms(2-5)] assms(6) by simp
  let ?z = "\<lparr>obj_class = c, obj_refcount = 0, obj_link = None, obj_fields = fd\<rparr>"
  let ?m0 = "put_cell a (C_object (?z\<lparr>obj_link := Some (h, f)\<rparr>)) m"
  have "list_unlink a ?m0 = (Inr (), put_cell a (C_object ?z) (put_cell h (C_object ?x) m))"
    using assms(3-5) by (simp add: list_unlink_def act_simps get_field_app(4) [of _ h x]
        set_slot_app [of _ h x] set_link_app [of _ a "?z\<lparr>obj_link := Some (h, f)\<rparr>"] put_cell_def
        fun_upd_twist [of a h])
  moreover have "list_unlink a (put_cell a (C_object ?z) m') = (Inr (), put_cell a (C_object ?z) m')"
    by (simp add: list_unlink_def act_simps)
  ultimately show ?thesis using assms(1,2) Suc
    by (simp add: act_bind_def act_then_def load_simps(7) store_Some m')
qed simp

lemma destroy_drops_first:
  assumes "cc_linked (K c)"
  shows "drops_first K c n q f (\<lambda>a. obj_destroy K n c (Some a))"
  unfolding drops_first_def
proof (intro allI impI)
  fix m x t ts
  assume a: "live m" "owns m ((q, C_object x) # list_cells q f (t # ts))"
    "obj_fields x f = S_list (map root (t # ts))" "wt K t (T_class c)" "size t \<le> n"
  obtain r ss where t: "t = TR_obj r c ss" using a(4) by (cases t) auto
  obtain m1 where m1: "list_unlink (root t) m = (Inr (), m1)" using unlink_first [OF a(1-4)] by blast
  have "obj_destroy K n c (Some (root t)) m = obj_destroy K n c (Some (root t)) m1"
    using destroy_unlinked_first [OF assms, of m r q f "fields_of ss" x "map root (t # ts)" m1 n] a m1
    by (auto simp: t owns_Cons owns_append)
  then show "\<exists>m'. obj_destroy K n c (Some (root t)) m = (Inr (), m') \<and> evolves m (q # concat (map addrs (t # ts)))
      ((q, C_object (with_field x f (S_list (map root ts)))) # list_cells q f ts) m'"
    using drops_firstD [OF unlink_drops_first [OF obj_destroys] a] m1
    by (metis (no_types, lifting) then_Inr)
qed

end

end
