(* ===== verification/ObjNew.thy ===== *)
theory ObjNew
  imports ObjProofs
begin

text \<open>
  Creation, cloning and copying on trees. A new object is \<open>blank\<close>; cloning gives a tree with the
  same contents; copying onto a tree gives the \<open>overlay\<close> of the source on it, which is the contents
  of the source when the target is \<open>ready\<close> for it. All of them change memory exactly by the cells of
  the trees.
\<close>

section \<open>Trees ready to be copied to\<close>

definition slot_named :: "tslot list \<Rightarrow> string \<Rightarrow> tslot" where
  "slot_named ss f = (case find (\<lambda>s. fname s = f) ss of Some s \<Rightarrow> s | None \<Rightarrow> TS_null f)"

text \<open>Required children are there, and required strings are empty.\<close>

fun blank :: "codes \<Rightarrow> tree \<Rightarrow> bool" and slot_blank :: "codes \<Rightarrow> tslot \<Rightarrow> field_decl option \<Rightarrow> bool" where
  "blank K (TR_string a s b) \<longleftrightarrow> s = [] \<and> \<not> b"
| "blank K (TR_time a x y z) \<longleftrightarrow> x = 0 \<and> y = 0 \<and> z = 0"
| "blank K (TR_data a w k n pl) \<longleftrightarrow> \<not> w \<and> k = DATA_UNKNOWN \<and> n = 0 \<and> pl = P_val U_zero"
| "blank K (TR_obj a c ss) \<longleftrightarrow> (\<forall>s \<in> set ss. slot_blank K s (map_of (cc_struct (K c)) (fname s)))"
| "slot_blank K (TS_ptr f t) d \<longleftrightarrow> (case d of Some (F_required ty) \<Rightarrow> blank K t | _ \<Rightarrow> False)"
| "slot_blank K (TS_null f) d \<longleftrightarrow> (case d of Some (F_required ty) \<Rightarrow> False | _ \<Rightarrow> True)"
| "slot_blank K (TS_list f ts) d \<longleftrightarrow> ts = []"
| "slot_blank K (TS_int f v) d \<longleftrightarrow> v = 0"
| "slot_blank K (TS_opt f b v) d \<longleftrightarrow> \<not> b \<and> v = 0"
| "slot_blank K (TS_ignored f v) d \<longleftrightarrow> v = 0"
| "slot_blank K (TS_head0 f) d \<longleftrightarrow> False"

text \<open>A tree in which no required child is missing.\<close>

fun complete :: "codes \<Rightarrow> tree \<Rightarrow> bool" and slot_complete :: "codes \<Rightarrow> tslot \<Rightarrow> field_decl option \<Rightarrow> bool" where
  "complete K (TR_obj a c ss) \<longleftrightarrow> (\<forall>s \<in> set ss. slot_complete K s (map_of (cc_struct (K c)) (fname s)))"
| "complete K (TR_string a s b) \<longleftrightarrow> True"
| "complete K (TR_time a x y z) \<longleftrightarrow> True"
| "complete K (TR_data a w k n pl) \<longleftrightarrow> True"
| "slot_complete K (TS_ptr f t) d \<longleftrightarrow> complete K t"
| "slot_complete K (TS_list f ts) d \<longleftrightarrow> (\<forall>t \<in> set ts. complete K t)"
| "slot_complete K (TS_null f) d \<longleftrightarrow> (case d of Some (F_required ty) \<Rightarrow> False | _ \<Rightarrow> True)"
| "slot_complete K (TS_int f v) d \<longleftrightarrow> True"
| "slot_complete K (TS_opt f b v) d \<longleftrightarrow> True"
| "slot_complete K (TS_ignored f v) d \<longleftrightarrow> True"
| "slot_complete K (TS_head0 f) d \<longleftrightarrow> True"

text \<open>
  Where the source has a required child the target has one too, and where a required string of
  the source is empty the one of the target is empty.
\<close>

fun ready :: "codes \<Rightarrow> tree \<Rightarrow> tree \<Rightarrow> bool" and
    slot_ready :: "codes \<Rightarrow> tslot \<Rightarrow> field_decl option \<Rightarrow> tslot \<Rightarrow> bool" where
  "ready K (TR_string a s b) u \<longleftrightarrow> (case u of TR_string a' s' b' \<Rightarrow> s = [] \<longrightarrow> s' = [] | _ \<Rightarrow> False)"
| "ready K (TR_time a x y z) u \<longleftrightarrow> True"
| "ready K (TR_data a w k n pl) u \<longleftrightarrow> True"
| "ready K (TR_obj a c ss) u \<longleftrightarrow> (case u of TR_obj a' c' us \<Rightarrow>
     (\<forall>s \<in> set ss. slot_ready K s (map_of (cc_struct (K c)) (fname s)) (slot_named us (fname s))) | _ \<Rightarrow> False)"
| "slot_ready K (TS_ptr f t) d u \<longleftrightarrow> (case d of Some (F_required ty) \<Rightarrow>
     (case u of TS_ptr g t' \<Rightarrow> ready K t t' | _ \<Rightarrow> False) | _ \<Rightarrow> True)"
| "slot_ready K (TS_null f) d u \<longleftrightarrow> True"
| "slot_ready K (TS_list f ts) d u \<longleftrightarrow> True"
| "slot_ready K (TS_int f v) d u \<longleftrightarrow> True"
| "slot_ready K (TS_opt f b v) d u \<longleftrightarrow> True"
| "slot_ready K (TS_ignored f v) d u \<longleftrightarrow> True"
| "slot_ready K (TS_head0 f) d u \<longleftrightarrow> True"

text \<open>
  What a target \<open>u\<close> holds after the source was copied onto it. \<open>libiodefv2_string_copy\<close> copies no empty
  string, so where a required string of the source is empty, the target keeps its own; required
  children are copied in place, and everything else becomes as in the source.
\<close>

fun overlay :: "codes \<Rightarrow> tree \<Rightarrow> tree \<Rightarrow> tree" and
    slot_overlay :: "codes \<Rightarrow> tslot \<Rightarrow> field_decl option \<Rightarrow> tslot \<Rightarrow> tslot" where
  "overlay K (TR_string a s b) u = (case u of TR_string a' s' b' \<Rightarrow> TR_string 0 (if s = [] then s' else s) False
     | _ \<Rightarrow> content (TR_string a s b))"
| "overlay K (TR_time a x y z) u = content (TR_time a x y z)"
| "overlay K (TR_data a w k n pl) u = content (TR_data a w k n pl)"
| "overlay K (TR_obj a c ss) u = (case u of TR_obj a' c' us \<Rightarrow>
       TR_obj 0 c (map (\<lambda>s. slot_overlay K s (map_of (cc_struct (K c)) (fname s)) (slot_named us (fname s))) ss)
     | _ \<Rightarrow> content (TR_obj a c ss))"
| "slot_overlay K (TS_ptr f t) d u = (case d of Some (F_required ty) \<Rightarrow>
     (case u of TS_ptr g t' \<Rightarrow> TS_ptr f (overlay K t t') | _ \<Rightarrow> slot_content (TS_ptr f t)) | _ \<Rightarrow> slot_content (TS_ptr f t))"
| "slot_overlay K (TS_null f) d u = TS_null f"
| "slot_overlay K (TS_list f ts) d u = slot_content (TS_list f ts)"
| "slot_overlay K (TS_int f v) d u = TS_int f v"
| "slot_overlay K (TS_opt f b v) d u = TS_opt f b v"
| "slot_overlay K (TS_ignored f v) d u = slot_content (TS_ignored f v)"
| "slot_overlay K (TS_head0 f) d u = TS_head0 f"

lemma ready_overlay:
  "ready K t u \<Longrightarrow> overlay K t u = content t"
  "slot_ready K s d v \<Longrightarrow> slot_overlay K s d v = slot_content s"
  by (induction K t u and K s d v rule: ready_slot_ready.induct)
    (auto split: tree.splits option.splits field_decl.splits tslot.splits)

lemma slot_overlay_plain: "(\<And>ty. d \<noteq> F_required ty) \<Longrightarrow> slot_overlay K s (Some d) v = slot_content s"
  by (cases s; cases d) auto

lemma slot_named_in:
  assumes "distinct (map fname us)" "u \<in> set us"
  shows "slot_named us (fname u) = u"
  using assms by (induction us) (auto simp: slot_named_def)

section \<open>Making strings, times and data\<close>

text \<open>A function that makes a new tree, through an output parameter.\<close>

definition makes :: "created act \<Rightarrow> omem \<Rightarrow> (tree \<Rightarrow> bool) \<Rightarrow> bool" where
  "makes N m P \<longleftrightarrow> (\<exists>t m'. N m = (Inr (Some (root t), Inr ()), m') \<and> evolves m [] (cells_of t None) m' \<and> P t)"

lemma makesI:
  "N m = (Inr (Some (root t), Inr ()), m') \<Longrightarrow> evolves m [] (cells_of t None) m' \<Longrightarrow> P t \<Longrightarrow> makes N m P"
  unfolding makes_def by blast

lemma live_next: "live m \<Longrightarrow> onext m \<le> a \<Longrightarrow> ocells m a = None"
  by (force simp: live_def)

definition with_cell :: "omem \<Rightarrow> cell \<Rightarrow> omem" where
  "with_cell m c = m\<lparr>onext := Suc (onext m), ocells := (ocells m)(onext m := Some c)\<rparr>"

lemma with_cell_simps [simp]:
  "ocells (with_cell m c) = (ocells m)(onext m := Some c)"
  "onext (with_cell m c) = Suc (onext m)"
  "obj_alloc_ok (with_cell m c) = obj_alloc_ok m"
  by (simp_all add: with_cell_def)

lemma put_with_cell [simp]: "put_cell (onext m) c (with_cell m c') = with_cell m c"
  by (simp add: put_cell_def with_cell_def)

lemma alloc_with_cell: "all_ok m \<Longrightarrow> cell_alloc c m = (Inr (Some (onext m)), with_cell m c)"
  by (simp add: all_ok_def cell_alloc_app with_cell_def)

lemma evolves_with_cell: "evolves m [] [(onext m, c)] (with_cell m c)"
  using evolves_alloc by (simp add: with_cell_def)

lemma all_ok_with_cell [simp]: "all_ok (with_cell m c) = all_ok m"
  by (simp add: all_ok_def)

lemma str_new_app: "all_ok m \<Longrightarrow> str_new m = (Inr (Some (onext m), Inr ()), with_cell m (string_cell [] False))"
  by (simp add: str_new_def act_bind_def alloc_with_cell ret_def)

lemma time_new_app: "all_ok m \<Longrightarrow> time_new m = (Inr (Some (onext m), Inr ()), with_cell m (time_cell 0 0 0))"
  by (simp add: time_new_def act_bind_def alloc_with_cell ret_def)

lemma data_new_app: "all_ok m \<Longrightarrow> data_new m =
    (Inr (Some (onext m), Inr ()), with_cell m (data_cell False DATA_UNKNOWN 0 U_zero))"
  by (simp add: data_new_def act_bind_def alloc_with_cell ret_def)

lemma str_new_makes: "all_ok m \<Longrightarrow> makes str_new m (\<lambda>t. wt K t T_string \<and> blank K t \<and> size t = 0)"
  by (rule makesI [where t = "TR_string (onext m) [] False" and m' = "with_cell m (string_cell [] False)"])
    (simp_all add: str_new_app evolves_with_cell)

lemma time_new_makes: "all_ok m \<Longrightarrow> makes time_new m (\<lambda>t. wt K t T_time \<and> blank K t \<and> size t = 0)"
  by (rule makesI [where t = "TR_time (onext m) 0 0 0" and m' = "with_cell m (time_cell 0 0 0)"])
    (simp_all add: time_new_app evolves_with_cell)

lemma data_new_makes: "all_ok m \<Longrightarrow> makes data_new m (\<lambda>t. wt K t T_data \<and> blank K t \<and> size t = 0)"
  by (rule makesI [where t = "TR_data (onext m) False DATA_UNKNOWN 0 (P_val U_zero)" and
        m' = "with_cell m (data_cell False DATA_UNKNOWN 0 U_zero)"])
    (simp_all add: data_new_app evolves_with_cell payload_ok_def is_buffer_type_def)

lemma str_clone_makes:
  assumes "all_ok m" "live m" "owns m (cells_of (TR_string a s b) lk)"
  shows "makes (str_clone (Some a)) m (\<lambda>t. wt K t T_string \<and> content t = content (TR_string a s b))"
proof -
  have a: "ocells m a = Some (string_cell s b)" "a < onext m"
    using assms(2,3) owned_live [OF assms(2,3)] by (auto simp: owns_Cons)
  let ?m = "with_cell m (string_cell s b)"
  let ?m' = "if b then ?m\<lparr>onext := Suc (onext ?m)\<rparr> else ?m"
  have "str_clone (Some a) m = (Inr (Some (onext m), Inr ()), ?m')"
    using a assms(1) by (cases b) (simp_all add: str_clone_def act_bind_def act_then_def str_new_app
        load_simps(2) store_def buffer_alloc_def ret_def all_ok_def put_cell_def with_cell_def)
  moreover have "evolves m [] [(onext m, string_cell s b)] ?m'"
    using evolves_with_cell [of m "string_cell s b"] by (auto simp: evolves_def)
  ultimately show ?thesis
    by (intro makesI [where t = "TR_string (onext m) s b" and m' = ?m']) simp_all
qed

lemma time_clone_makes:
  assumes "all_ok m" "live m" "owns m (cells_of (TR_time a x y z) lk)"
  shows "makes (time_clone (Some a)) m (\<lambda>t. wt K t T_time \<and> content t = content (TR_time a x y z))"
proof -
  have a: "ocells m a = Some (time_cell x y z)" "a < onext m"
    using assms(2,3) owned_live [OF assms(2,3)] by (auto simp: owns_Cons)
  have "time_clone (Some a) m = (Inr (Some (onext m), Inr ()), with_cell m (time_cell x y z))"
    using a assms(1) by (simp add: time_clone_def time_copy_def act_bind_def act_then_def time_new_app
        load_simps(3) store_def act_try_def ret_def)
  then show ?thesis
    by (intro makesI [where t = "TR_time (onext m) x y z" and m' = "with_cell m (time_cell x y z)"])
      (simp_all add: evolves_with_cell)
qed

section \<open>Copying strings, times and data\<close>

text \<open>A function that replaces the tree \<open>dst\<close> by another one with the same root.\<close>

definition replaces :: "unit act \<Rightarrow> omem \<Rightarrow> tree \<Rightarrow> (addr \<times> string) option \<Rightarrow> (tree \<Rightarrow> bool) \<Rightarrow> bool" where
  "replaces Y m dst lk P \<longleftrightarrow> (\<exists>u m'. Y m = (Inr (), m') \<and> evolves m (addrs dst) (cells_of u lk) m' \<and>
     root u = root dst \<and> P u)"

lemma replacesI:
  "Y m = (Inr (), m') \<Longrightarrow> evolves m (addrs dst) (cells_of u lk) m' \<Longrightarrow> root u = root dst \<Longrightarrow> P u \<Longrightarrow>
   replaces Y m dst lk P"
  unfolding replaces_def by blast

lemma str_copy_replaces:
  assumes "all_ok m" "live m" "owns m (cells_of (TR_string d t c) lkd @ cells_of (TR_string a s b) lks)"
  shows "replaces (str_copy (Some a) (Some d)) m (TR_string d t c) lkd
    (\<lambda>u. wt K u T_string \<and> content u = overlay K (TR_string a s b) (TR_string d t c))"
proof -
  have a: "ocells m a = Some (string_cell s b)" "ocells m d = Some (string_cell t c)" "d < onext m"
    using assms(2,3) owned_live [OF assms(2,3), of d] by (auto simp: owns_Cons)
  show ?thesis
  proof (cases "s = []")
    case True
    then show ?thesis using a evolves_refl [of m "[(d, string_cell t c)]"]
      by (intro replacesI [where u = "TR_string d t c" and m' = m])
        (auto simp: str_copy_def act_bind_def load_simps(2) ret_def owns_Cons)
  next
    case False
    let ?m1 = "if b then m\<lparr>onext := Suc (onext m)\<rparr> else m"
    let ?m = "put_cell d (string_cell s b) ?m1"
    have "str_copy (Some a) (Some d) m = (Inr (), ?m)"
      using a False assms(1) by (cases b) (simp_all add: str_copy_def str_copy_dup_def act_bind_def
          load_simps(2) store_def buffer_alloc_def all_ok_def)
    moreover have "evolves m [d] [(d, string_cell s b)] ?m"
      using a evolves_put [of m d "string_cell t c" "string_cell s b"]
      by (auto simp: evolves_def put_cell_def)
    ultimately show ?thesis using False
      by (intro replacesI [where u = "TR_string d s b" and m' = ?m]) simp_all
  qed
qed

lemma time_copy_replaces:
  assumes "owns m (cells_of (TR_time d x' y' z') lkd @ cells_of (TR_time a x y z) lks)"
  shows "replaces (time_copy (Some a) (Some d)) m (TR_time d x' y' z') lkd
    (\<lambda>u. wt K u T_time \<and> content u = content (TR_time a x y z))"
proof -
  have a: "ocells m a = Some (time_cell x y z)" "ocells m d = Some (time_cell x' y' z')"
    using assms by (auto simp: owns_Cons)
  have "time_copy (Some a) (Some d) m = (Inr (), put_cell d (time_cell x y z) m)"
    using a by (simp add: time_copy_def act_bind_def load_simps(3) store_def)
  then show ?thesis using evolves_put [OF a(2)]
    by (intro replacesI [where u = "TR_time d x y z" and m' = "put_cell d (time_cell x y z) m"]) simp_all
qed

lemma data_destroy_internal_ok:
  assumes "owns m (cells_of (TR_data a w k n pl) lk)" "payload_ok w k n pl"
  shows "\<exists>m' u. data_destroy_internal (Some a) m = (Inr (), m') \<and> onext m' = onext m \<and>
    evolves m (addrs (TR_data a w k n pl)) [(a, data_cell w k n u)] m'"
proof (cases pl)
  case (P_val u)
  then show ?thesis using assms evolves_refl [of m "[(a, data_cell w k n u)]"]
    by (intro exI [of _ m] exI [of _ u])
      (auto simp: data_destroy_internal_def payload_ok_def owns_Cons act_simps)
next
  case (P_buf b s)
  let ?m = "put_cell a (data_cell w k n (U_ptr None)) (m\<lparr>ocells := (ocells m)(b := None)\<rparr>)"
  have "data_destroy_internal (Some a) m = (Inr (), ?m)"
    using assms P_buf by (auto simp: data_destroy_internal_def payload_ok_def owns_Cons act_bind_def act_then_def
        load_simps(4) union_ptr_def ret_def cell_free_def store_def is_buffer_type_def)
  moreover have "evolves m [a, b] [(a, data_cell w k n (U_ptr None))] ?m"
    using assms P_buf by (auto simp: owns_Cons evolves_def map_add_def restrict_map_def fun_eq_iff)
  ultimately show ?thesis using P_buf by (intro exI [of _ ?m] exI [of _ "U_ptr None"]) auto
next
  case (P_time b x y z)
  let ?m = "m\<lparr>ocells := (ocells m)(b := None)\<rparr>"
  have "data_destroy_internal (Some a) m = (Inr (), ?m)"
    using assms P_time by (auto simp: data_destroy_internal_def payload_ok_def owns_Cons act_bind_def
        load_simps(3,4) union_ptr_def ret_def cell_free_def time_destroy_def)
  moreover have "evolves m [a, b] [(a, data_cell w k n (U_ptr (Some b)))] ?m"
    using assms P_time by (auto simp: owns_Cons evolves_def map_add_def restrict_map_def fun_eq_iff)
  ultimately show ?thesis using P_time by (intro exI [of _ ?m] exI [of _ "U_ptr (Some b)"]) auto
qed

text \<open>The part of \<open>iodefv2_data_copy_dup\<close> after the old contents are gone.\<close>

lemma data_copy_dup_rest:
  assumes "all_ok m" "live m" "owns m ((d, data_cell w' k' n' u) # cells_of (TR_data a w k n pl) lks)"
    and "payload_ok w k n pl" "data_destroy_internal (Some d) m0 = (Inr (), m)"
  shows "\<exists>pl' m'. data_copy_dup (Some a) (Some d) m0 = (Inr (), m') \<and>
    evolves m [d] (cells_of (TR_data d True k n pl') lkd) m' \<and> payload_ok True k n pl' \<and>
    payload_content pl' = payload_content pl"
proof -
  have c: "ocells m a = Some (data_cell w k n (payload_union pl))" "ocells m d = Some (data_cell w' k' n' u)"
      "a \<noteq> d" "d < onext m" "a < onext m"
    using assms(3) owned_live [OF assms(2,3), of d] owned_live [OF assms(2,3), of a] by (auto simp: owns_Cons)
  let ?put = "\<lambda>v. put_cell d (data_cell True k n v)"
  show ?thesis
  proof (cases pl)
    case (P_val v)
    then have "data_copy_dup (Some a) (Some d) m0 = (Inr (), ?put v m)"
      using c assms(4,5) by (simp add: data_copy_dup_def act_then_def act_bind_def load_simps(4) Let_def
          store_def payload_ok_def)
    then show ?thesis using assms(4) evolves_put [OF c(2), of "data_cell True k n v"] P_val
      by (intro exI [of _ pl] exI [of _ "?put v m"]) (simp add: payload_ok_def)
  next
    case (P_buf b s)
    have b: "ocells m b = Some (C_buf False s)" "b \<noteq> d" "b < onext m"
      using assms(3) P_buf owned_live [OF assms(2,3), of b] by (auto simp: owns_Cons)
    have k: "is_buffer_type k" "k \<noteq> DATA_TIME" "n = length s"
      using assms(4) P_buf by (auto simp: payload_ok_def is_buffer_type_def)
    let ?m = "?put (U_ptr (Some (onext m))) (with_cell (?put u m) (C_buf False s))"
    have "data_copy_dup (Some a) (Some d) m0 = (Inr (), ?m)"
      using c b k assms(1,5) P_buf
      by (simp add: data_copy_dup_def act_then_def act_bind_def load_simps(4,5) Let_def store_def union_ptr_def
          ret_def buf_dup_def alloc_with_cell all_ok_def cell_alloc_app)
    moreover have "evolves m [d] (cells_of (TR_data d True k n (P_buf (onext m) s)) lkd) ?m"
      using c by (auto simp: evolves_def map_add_def restrict_map_def fun_eq_iff)
    ultimately show ?thesis using k P_buf
      by (intro exI [of _ "P_buf (onext m) s"] exI [of _ ?m]) (auto simp: payload_ok_def)
  next
    case (P_time b x y z)
    have b: "ocells m b = Some (time_cell x y z)" "b \<noteq> d" "b < onext m"
      using assms(3) P_time owned_live [OF assms(2,3), of b] by (auto simp: owns_Cons)
    have k: "k = DATA_TIME" using assms(4) P_time by (auto simp: payload_ok_def)
    let ?m = "?put (U_ptr (Some (onext m))) (with_cell (?put u m) (time_cell x y z))"
    have "time_clone (Some b) (?put u m) = (Inr (Some (onext m), Inr ()), with_cell (?put u m) (time_cell x y z))"
      using b assms(1) by (simp add: time_clone_def time_copy_def act_bind_def act_then_def time_new_app
        load_simps(3) store_def act_try_def ret_def all_ok_def)
    then have "data_copy_dup (Some a) (Some d) m0 = (Inr (), ?m)"
      using c b k assms(5) P_time
      by (simp add: data_copy_dup_def act_then_def act_bind_def load_simps(4) Let_def store_def union_ptr_def
          ret_def call_out_def lift_res_def)
    moreover have "evolves m [d] (cells_of (TR_data d True k n (P_time (onext m) x y z)) lkd) ?m"
      using c by (auto simp: evolves_def map_add_def restrict_map_def fun_eq_iff)
    ultimately show ?thesis using k P_time
      by (intro exI [of _ "P_time (onext m) x y z"] exI [of _ ?m]) (auto simp: payload_ok_def)
  qed
qed

lemma data_copy_replaces:
  assumes "all_ok m" "live m" "owns m (cells_of (TR_data d w' k' n' pd) lkd @ cells_of (TR_data a w k n pl) lks)"
    and "payload_ok w' k' n' pd" "payload_ok w k n pl"
  shows "replaces (data_copy_dup (Some a) (Some d)) m (TR_data d w' k' n' pd) lkd
    (\<lambda>u. wt K u T_data \<and> content u = content (TR_data a w k n pl))"
proof -
  let ?D = "TR_data d w' k' n' pd"
  have o: "owns m (cells_of ?D lkd)" "owns m (cells_of (TR_data a w k n pl) lks)"
      "set (addrs ?D) \<inter> fst ` set (cells_of (TR_data a w k n pl) lks) = {}"
    using assms(3) by (simp_all only: owns_append cells_addrs [of _ lkd] set_map)
  obtain m1 u where m1: "data_destroy_internal (Some d) m = (Inr (), m1)"
      "evolves m (addrs ?D) [(d, data_cell w' k' n' u)] m1"
    using data_destroy_internal_ok [OF o(1) assms(4)] by blast
  have l1: "live m1"
    by (rule live_evolves [OF assms(2) o(1)]) (use m1(2) in \<open>simp only: cells_addrs [of _ lkd]\<close>)
  have "owns m1 (cells_of (TR_data a w k n pl) lks)"
    by (rule evolves_frame [OF m1(2) assms(2) o(2,3)])
  moreover have "d \<notin> fst ` set (cells_of (TR_data a w k n pl) lks)" using o(3) by auto
  ultimately have o1: "owns m1 ((d, data_cell w' k' n' u) # cells_of (TR_data a w k n pl) lks)"
    using evolves_owns [OF m1(2)] by (simp add: owns_Cons)
  obtain pl' m' where m': "data_copy_dup (Some a) (Some d) m = (Inr (), m')"
    "evolves m1 [d] (cells_of (TR_data d True k n pl') lkd) m'" "payload_ok True k n pl'"
    "payload_content pl' = payload_content pl"
    using data_copy_dup_rest [OF all_ok_evolves [OF assms(1) m1(2)] l1 o1 assms(5) m1(1)] by blast
  have "evolves m (addrs ?D) (cells_of (TR_data d True k n pl') lkd) m'"
    by (rule evolves_trans [OF assms(2) o(1) cells_addrs m1(2) _ m'(2)]) simp
  then show ?thesis using m'
    by (intro replacesI [where u = "TR_data d True k n pl'" and m' = m']) simp_all
qed

lemma data_clone_makes:
  assumes "all_ok m" "live m" "owns m (cells_of (TR_data a w k n pl) lk)" "payload_ok w k n pl"
  shows "makes (data_clone (Some a)) m (\<lambda>t. wt K t T_data \<and> content t = content (TR_data a w k n pl))"
proof -
  let ?d = "onext m" and ?c = "data_cell False DATA_UNKNOWN 0 U_zero"
  let ?m = "with_cell m ?c"
  have f: "?d \<notin> fst ` set (cells_of (TR_data a w k n pl) lk)"
    using owned_live [OF assms(2,3)] by blast
  have l: "live ?m" using assms(2) by (auto simp: live_def less_Suc_eq)
  have "owns ?m (cells_of (TR_data a w k n pl) lk)"
    by (rule evolves_frame [OF evolves_with_cell assms(2,3)]) simp
  then have o: "owns ?m ((?d, ?c) # cells_of (TR_data a w k n pl) lk)"
    using f by (simp add: owns_Cons)
  have "data_destroy_internal (Some ?d) ?m = (Inr (), ?m)"
    by (simp add: data_destroy_internal_def act_bind_def load_simps(4) ret_def is_buffer_type_def)
  then obtain pl' m' where m': "data_copy_dup (Some a) (Some ?d) ?m = (Inr (), m')"
    "evolves ?m [?d] (cells_of (TR_data ?d True k n pl') None) m'" "payload_ok True k n pl'"
    "payload_content pl' = payload_content pl"
    using data_copy_dup_rest [OF _ l o assms(4)] assms(1) by fastforce
  have "data_clone (Some a) m = (Inr (Some ?d, Inr ()), m')"
    using m'(1) assms(1) by (simp add: data_clone_def act_bind_def act_then_def data_new_app act_try_def ret_def)
  moreover have "evolves m [] (cells_of (TR_data ?d True k n pl') None) m'"
    by (rule evolves_trans [OF assms(2) owns_Nil _ evolves_with_cell _ m'(2)]) simp_all
  ultimately show ?thesis using m'
    by (intro makesI [where t = "TR_data ?d True k n pl'" and m' = m']) simp_all
qed

section \<open>Changing one field of an object\<close>

lemma evolves_new:
  assumes "live m" "owns m cs" "evolves m [] ds m'"
  shows "evolves m (map fst cs) (cs @ ds) m'"
  by (rule evolves_part [OF assms(1,2) _ assms(3), where ss = "[]" and ys = cs]) simp_all

lemma replace_child:
  assumes "live m" "owns m (cells_of (TR_obj q c (xs @ TS_ptr f t # ys)) lk)"
    and "evolves m (addrs t) (cells_of t' None) m'" "root t' = root t"
  shows "evolves m (addrs (TR_obj q c (xs @ TS_ptr f t # ys))) (cells_of (TR_obj q c (xs @ TS_ptr f t' # ys)) lk) m'"
proof -
  have "fields_of (xs @ TS_ptr f t # ys) = fields_of (xs @ TS_ptr f t' # ys)"
    by (simp add: fields_of_def assms(4))
  then show ?thesis
    by (intro evolves_part [OF assms(1,2) _ assms(3), where ss = "cells_of t None" and
          ys = "(q, obj_cell c lk (fields_of (xs @ TS_ptr f t # ys))) # slots_cells q xs @ slots_cells q ys"])
      (simp_all add: fst_cells slots_cells_addrs)
qed

lemma clear_ptr:
  assumes "destroys K D ty n" "live m" "owns m (cells_of (TR_obj q c (xs @ TS_ptr f t # ys)) lk)"
    and "wt K t ty" "size t \<le> n" "distinct (map fname (xs @ TS_ptr f t # ys))"
  shows "\<exists>m'. act_then (D (Some (root t))) (set_slot (Some q) f (S_ptr None)) m = (Inr (), m') \<and>
    evolves m (addrs (TR_obj q c (xs @ TS_ptr f t # ys))) (cells_of (TR_obj q c (xs @ TS_null f # ys)) lk) m'"
proof -
  let ?x = "\<lparr>obj_class = c, obj_refcount = 1, obj_link = lk, obj_fields = fields_of (xs @ TS_ptr f t # ys)\<rparr>"
  let ?r = "slots_cells q xs @ slots_cells q ys"
  have ot: "owns m (cells_of t None)" using assms(3) by (auto simp: owns_Cons owns_append)
  obtain m1 where m1: "D (Some (root t)) m = (Inr (), m1)" "evolves m (addrs t) [] m1"
    by (rule destroysD [OF assms(1,4,5,2) ot])
  have e1: "evolves m (addrs (TR_obj q c (xs @ TS_ptr f t # ys))) ((q, C_object ?x) # ?r) m1"
    by (rule evolves_part [OF assms(2,3) _ m1(2), where ss = "cells_of t None" and ys = "(q, C_object ?x) # ?r"])
      (simp_all add: fst_cells slots_cells_addrs)
  have l1: "live m1"
    by (rule live_evolves [OF assms(2,3)]) (use e1 in \<open>simp only: cells_addrs [of _ lk]\<close>)
  have q1: "ocells m1 q = Some (C_object ?x)" using evolves_owns [OF e1] by (simp add: owns_Cons)
  let ?c = "C_object (with_field ?x f (S_ptr None))"
  have c: "?c = obj_cell c lk (fields_of (xs @ TS_null f # ys))"
    using fields_of_update [OF assms(6), of "TS_null f"] by (simp add: with_field_def)
  have e2: "evolves m1 (map fst ((q, C_object ?x) # ?r)) (cells_of (TR_obj q c (xs @ TS_null f # ys)) lk) (put_cell q ?c m1)"
    by (rule evolves_part [OF l1 evolves_owns [OF e1] _ evolves_put [OF q1], where ss = "[(q, C_object ?x)]" and ys = ?r])
      (use c in simp_all)
  have "evolves m (addrs (TR_obj q c (xs @ TS_ptr f t # ys))) (cells_of (TR_obj q c (xs @ TS_null f # ys)) lk) (put_cell q ?c m1)"
    by (rule evolves_trans [OF assms(2,3) cells_addrs e1 refl e2])
  then show ?thesis using m1(1) set_slot_app [OF q1] by (auto simp: act_then_def act_bind_def)
qed

lemma set_child:
  assumes "live m" "owns m (cells_of (TR_obj q c (xs @ TS_null f # ys)) lk)"
    and "evolves m [] (cells_of t None) m1" "distinct (map fname (xs @ TS_null f # ys))"
  shows "\<exists>m'. set_slot (Some q) f (S_ptr (Some (root t))) m1 = (Inr (), m') \<and>
    evolves m (addrs (TR_obj q c (xs @ TS_null f # ys))) (cells_of (TR_obj q c (xs @ TS_ptr f t # ys)) lk) m'"
proof -
  let ?C = "cells_of (TR_obj q c (xs @ TS_null f # ys)) lk"
  have e1: "evolves m (map fst ?C) (?C @ slot_cells (TS_ptr f t) q) m1"
    using evolves_new [OF assms(1-3)] by simp
  have l1: "live m1" by (rule live_evolves [OF assms(1,2) e1])
  obtain m' where m': "set_slot (Some q) (fname (TS_null f)) (slot_of (TS_ptr f t)) m1 = (Inr (), m')"
    "evolves m1 (map fst (?C @ slot_cells (TS_ptr f t) q)) (cells_of (TR_obj q c (xs @ TS_ptr f t # ys)) lk) m'"
    using set_slot_tree [OF l1 evolves_owns [OF e1] _ _ assms(4)] by auto
  have "evolves m (addrs (TR_obj q c (xs @ TS_null f # ys))) (cells_of (TR_obj q c (xs @ TS_ptr f t # ys)) lk) m'"
    using evolves_trans [OF assms(1,2) refl e1 refl m'(2)] by (simp only: cells_addrs [of _ lk])
  then show ?thesis using m'(1) by auto
qed

lemma set_plain:
  assumes "live m" "owns m (cells_of (TR_obj q c (xs @ s # ys)) lk)" "slot_cells s q = []" "slot_cells s' q = []"
    and "fname s' = fname s" "distinct (map fname (xs @ s # ys))"
  shows "\<exists>m'. set_slot (Some q) (fname s) (slot_of s') m = (Inr (), m') \<and>
    evolves m (addrs (TR_obj q c (xs @ s # ys))) (cells_of (TR_obj q c (xs @ s' # ys)) lk) m'"
proof -
  have "owns m (cells_of (TR_obj q c (xs @ s # ys)) lk @ slot_cells s' q)"
    using assms(2) by (simp only: assms(4) append_Nil2)
  from set_slot_tree [OF assms(1) this assms(3,5,6)] show ?thesis
    by (simp only: assms(4) append_Nil2 cells_addrs [of _ lk])
qed

section \<open>Creation\<close>

fun zero_tslot :: "string \<times> field_decl \<Rightarrow> tslot" where
  "zero_tslot (f, F_ptr t) = TS_null f"
| "zero_tslot (f, F_required t) = TS_null f"
| "zero_tslot (f, F_int) = TS_int f 0"
| "zero_tslot (f, F_optional) = TS_opt f False 0"
| "zero_tslot (f, F_listed c) = TS_head0 f"
| "zero_tslot (f, F_ignored) = TS_ignored f 0"

fun init_tslot :: "string \<times> field_decl \<Rightarrow> tslot" where
  "init_tslot (f, F_listed c) = TS_list f []"
| "init_tslot (f, d) = zero_tslot (f, d)"

lemma zero_tslot_simps [simp]:
  "fname (zero_tslot d) = fst d" "slot_of (zero_tslot d) = zero_slot (snd d)"
  "slot_cells (zero_tslot d) q = []" "fname (init_tslot d) = fst d" "slot_cells (init_tslot d) q = []"
  by (cases d; cases "snd d"; auto)+

lemma zero_fields_tree: "fields_of (map zero_tslot st) = zero_fields st"
  by (rule ext) (induction st, auto simp: fields_of_def zero_fields_def)

lemma makes_mono: "makes N m P \<Longrightarrow> (\<And>t. P t \<Longrightarrow> Q t) \<Longrightarrow> makes N m Q"
  unfolding makes_def by blast

lemma slots_loop_all:
  assumes "distinct (map fst ds)" "map fname ss = map fst ds" "map fname ss' = map fst ds"
    and "list_all2 (\<lambda>(s, (f, d)) s'. Q s d s') (zip ss ds) ss'" "s' \<in> set ss'"
  shows "\<exists>s d. s \<in> set ss \<and> fname s = fname s' \<and> map_of ds (fname s') = Some d \<and> Q s d s'"
proof -
  have len: "length ss = length ds" "length ss' = length ds" using assms(2,3) by (metis length_map)+
  obtain i where i: "i < length ds" "s' = ss' ! i" using assms(5) len by (metis in_set_conv_nth)
  obtain f d where d: "ds ! i = (f, d)" by fastforce
  have n: "fname (ss ! i) = f" "fname s' = f"
    using assms(2,3) i len d by (metis fst_conv nth_map)+
  have "map_of ds f = Some d" using assms(1) i d by (metis map_of_is_SomeI nth_mem)
  moreover have "Q (ss ! i) d s'"
    using assms(4) i len d by (auto simp: list_all2_conv_all_nth)
  ultimately show ?thesis using n i len by (metis nth_mem)
qed

context object_codes
begin

lemma struct_distinct: "distinct (map fst (cc_struct (K c)))"
  using codes_regular [of c] by (simp add: regular_def)

text \<open>A function that makes new trees of a type.\<close>

definition maker_of :: "created act \<Rightarrow> ty \<Rightarrow> nat \<Rightarrow> bool" where
  "maker_of N ty r \<longleftrightarrow> (\<forall>m. live m \<longrightarrow> all_ok m \<longrightarrow>
     makes N m (\<lambda>t. wt K t ty \<and> blank K t \<and> complete K t \<and> size t \<le> r))"

lemma init_phase:
  assumes "live m" "all_ok m" "owns m (cells_of (TR_obj q c (map zero_tslot st)) lk)" "distinct (map fst st)"
  shows "\<exists>m'. run_all (run_new N (Some q)) (concat (map init_of st)) m = (Inr (), m') \<and>
    evolves m (addrs (TR_obj q c (map zero_tslot st))) (cells_of (TR_obj q c (map init_tslot st)) lk) m'"
proof -
  let ?P = "\<lambda>s d. s = zero_tslot (fname s, d)" and ?Q = "\<lambda>s d s'. s' = init_tslot (fname s, d)"
  have step: "\<exists>m' s'. run_all (run_new N (Some q)) (init_of (fname s, d)) m = (Inr (), m') \<and>
      fname s' = fname s \<and> ?Q s d s' \<and>
      evolves m (addrs (TR_obj q c (xs @ s # ys))) (cells_of (TR_obj q c (xs @ s' # ys)) lk) m'"
    if a: "live m" "all_ok m" "owns m (cells_of (TR_obj q c (xs @ s # ys)) lk @ [])"
      "distinct (map fname (xs @ s # ys))" "?P s d" for m xs s ys d
  proof -
    have o: "owns m (cells_of (TR_obj q c (xs @ s # ys)) lk)" using a(3) by (simp only: append_Nil2)
    have sc: "slot_cells s q = []" using a(5) by (metis zero_tslot_simps(3))
    show ?thesis
    proof (cases "\<exists>c'. d = F_listed c'")
      case True
      then obtain c' where d: "d = F_listed c'" by blast
      obtain m' where "set_slot (Some q) (fname s) (slot_of (TS_list (fname s) [])) m = (Inr (), m')"
        "evolves m (addrs (TR_obj q c (xs @ s # ys))) (cells_of (TR_obj q c (xs @ TS_list (fname s) [] # ys)) lk) m'"
        using set_plain [OF a(1) o sc, of "TS_list (fname s) []"] a(4) by auto
      then show ?thesis
        by (intro exI [of _ m'] exI [of _ "TS_list (fname s) []"]) (simp add: d act_then_def act_bind_def ret_def)
    next
      case False
      then have "init_of (fname s, d) = []" "s = init_tslot (fname s, d)"
        using a(5) by (cases d; simp)+
      then show ?thesis using evolves_refl [OF o]
        by (intro exI [of _ m] exI [of _ s]) (simp add: ret_def fst_cells slots_cells_addrs)
    qed
  qed
  have o0: "owns m (cells_of (TR_obj q c ([] @ map zero_tslot st)) lk @ [])"
    using assms(3) by (simp only: append_Nil append_Nil2)
  have d0: "distinct (map fname ([] @ map zero_tslot st))" using assms(4) by (simp add: o_def)
  have l2: "list_all2 (\<lambda>s (f, d). fname s = f \<and> ?P s d) (map zero_tslot st) st"
    by (simp add: list_all2_map1 list_all2_same split: prod.split)
  obtain m' ss' where r: "run_all (run_new N (Some q)) (concat (map init_of st)) m = (Inr (), m')"
      "map fname ss' = map fname (map zero_tslot st)"
      "list_all2 (\<lambda>(s, (f, d)) s'. ?Q s d s') (zip (map zero_tslot st) st) ss'"
      "evolves m (addrs (TR_obj q c ([] @ map zero_tslot st))) (cells_of (TR_obj q c ([] @ ss')) lk) m'"
    using slots_loop [where P = ?P and Q = ?Q and g = init_of, OF step assms(1,2) o0 d0 l2] by blast
  have "ss' = map init_tslot st"
  proof (rule nth_equalityI)
    show "length ss' = length (map init_tslot st)" using r(3) by (auto dest: list_all2_lengthD)
    fix i assume i: "i < length ss'"
    then show "ss' ! i = map init_tslot st ! i"
      using r(3) by (cases "st ! i") (auto simp: list_all2_conv_all_nth)
  qed
  then show ?thesis using r(1,4) by auto
qed

lemma require_phase:
  assumes N: "\<forall>f ty. (f, F_required ty) \<in> set st \<longrightarrow> maker_of (N ty) ty (new_weight rank (F_required ty) - 1)"
    and "live m" "all_ok m" "owns m (cells_of (TR_obj q c (map init_tslot st)) lk)" "distinct (map fst st)"
  shows "\<exists>m' ss'. run_all (run_new N (Some q)) (concat (map require_of st)) m = (Inr (), m') \<and>
    evolves m (addrs (TR_obj q c (map init_tslot st))) (cells_of (TR_obj q c ss') lk) m' \<and>
    map fname ss' = map fst st \<and> list_all2 (\<lambda>s' (f, d). slot_wt K s' (Some d) \<and> slot_blank K s' (Some d) \<and>
      slot_complete K s' (Some d) \<and> size s' \<le> new_weight rank d) ss' st"
proof -
  let ?Q = "\<lambda>s d s'. slot_wt K s' (Some d) \<and> slot_blank K s' (Some d) \<and>
      slot_complete K s' (Some d) \<and> size s' \<le> new_weight rank d"
    and ?P = "\<lambda>s d. s = init_tslot (fname s, d) \<and> (fname s, d) \<in> set st"
  have step: "\<exists>m' s'. run_all (run_new N (Some q)) (require_of (fname s, d)) m = (Inr (), m') \<and>
      fname s' = fname s \<and> ?Q s d s' \<and>
      evolves m (addrs (TR_obj q c (xs @ s # ys))) (cells_of (TR_obj q c (xs @ s' # ys)) lk) m'"
    if a: "live m" "all_ok m" "owns m (cells_of (TR_obj q c (xs @ s # ys)) lk @ [])"
      "distinct (map fname (xs @ s # ys))" "?P s d" for m xs s ys d
  proof -
    have o: "owns m (cells_of (TR_obj q c (xs @ s # ys)) lk)" using a(3) by (simp only: append_Nil2)
    show ?thesis
    proof (cases "\<exists>ty. d = F_required ty")
      case True
      then obtain ty where d: "d = F_required ty" by blast
      define f where "f = fname s"
      have s: "s = TS_null f" using a(5) by (simp add: d f_def)
      have w: "0 < new_weight rank (F_required ty)" by (cases ty) auto
      obtain t m1 where m1: "N ty m = (Inr (Some (root t), Inr ()), m1)" "evolves m [] (cells_of t None) m1"
        "wt K t ty" "blank K t" "complete K t" "size t \<le> new_weight rank (F_required ty) - 1"
        using N a(1,2,5) d unfolding maker_of_def makes_def by blast
      obtain m' where "set_slot (Some q) f (S_ptr (Some (root t))) m1 = (Inr (), m')"
        "evolves m (addrs (TR_obj q c (xs @ s # ys))) (cells_of (TR_obj q c (xs @ TS_ptr f t # ys)) lk) m'"
        using set_child [OF a(1) o [unfolded s] m1(2)] a(4) unfolding s by auto
      then show ?thesis using m1 w
        by (intro exI [of _ m'] exI [of _ "TS_ptr f t"])
          (simp add: d s call_out_def lift_res_def act_then_def act_bind_def ret_def)
    next
      case False
      then have "require_of (fname s, d) = []" "?Q s d s"
        using a(5) by (cases d; simp; cases s; simp)+
      then show ?thesis using evolves_refl [OF o]
        by (intro exI [of _ m] exI [of _ s]) (simp add: ret_def fst_cells slots_cells_addrs)
    qed
  qed
  have o0: "owns m (cells_of (TR_obj q c ([] @ map init_tslot st)) lk @ [])"
    using assms(4) by (simp only: append_Nil append_Nil2)
  have d0: "distinct (map fname ([] @ map init_tslot st))" using assms(5) by (simp add: o_def)
  have l2: "list_all2 (\<lambda>s (f, d). fname s = f \<and> ?P s d) (map init_tslot st) st"
    by (auto simp: list_all2_map1 list_all2_same)
  obtain m' ss' where r: "run_all (run_new N (Some q)) (concat (map require_of st)) m = (Inr (), m')"
      "map fname ss' = map fname (map init_tslot st)"
      "list_all2 (\<lambda>(s, (f, d)) s'. ?Q s d s') (zip (map init_tslot st) st) ss'"
      "evolves m (addrs (TR_obj q c ([] @ map init_tslot st))) (cells_of (TR_obj q c ([] @ ss')) lk) m'"
    using slots_loop [where P = ?P and Q = ?Q and g = require_of, OF step assms(2,3) o0 d0 l2] by blast
  then show ?thesis
    by (intro exI [of _ m'] exI [of _ ss']) (auto simp: list_all2_conv_all_nth split: prod.splits)
qed

lemma size_list_mono2:
  "list_all2 (\<lambda>x y. f x \<le> g y) xs ys \<Longrightarrow> size_list f xs \<le> size_list g ys"
  by (induction rule: list_all2_induct) auto

lemma wt_of_slots:
  assumes "map fname ss = map fst (cc_struct (K c))"
    and "list_all2 (\<lambda>s (f, d). P s (Some d)) ss (cc_struct (K c))" "s \<in> set ss"
  shows "P s (map_of (cc_struct (K c)) (fname s))"
proof -
  obtain i where i: "i < length ss" "s = ss ! i" using assms(3) by (metis in_set_conv_nth)
  obtain f d where d: "cc_struct (K c) ! i = (f, d)" by fastforce
  have len: "length ss = length (cc_struct (K c))" using assms(1) by (metis length_map)
  have "fname s = f" using assms(1) i d len by (metis fst_conv nth_map)
  moreover have "map_of (cc_struct (K c)) f = Some d"
    using struct_distinct [of c] i d len by (metis map_of_is_SomeI nth_mem)
  moreover have "P s (Some d)" using assms(2) i d by (auto simp: list_all2_conv_all_nth)
  ultimately show ?thesis by simp
qed

lemma leaf_maker:
  assumes "\<And>c. ty = T_class c \<Longrightarrow> maker_of (rec c) ty r"
  shows "maker_of (leaf_new ty rec) ty r"
  unfolding maker_of_def
proof (intro allI impI)
  fix m assume m: "live m" "all_ok m"
  have mono: "makes N m (\<lambda>t. wt K t ty \<and> blank K t \<and> complete K t \<and> size t \<le> r)"
    if "makes N m (\<lambda>t. wt K t ty \<and> blank K t \<and> size t = 0)" "\<And>t. wt K t ty \<Longrightarrow> complete K t" for N
    by (rule makes_mono [OF that(1)]) (use that(2) in auto)
  have leaf: "ty \<noteq> T_class c \<Longrightarrow> wt K t ty \<Longrightarrow> complete K t \<or> (\<exists>c. ty = T_class c)" for t c
    by (cases t) auto
  show "makes (leaf_new ty rec) m (\<lambda>t. wt K t ty \<and> blank K t \<and> complete K t \<and> size t \<le> r)"
  proof (cases ty)
    case (T_class c)
    then show ?thesis using assms [OF T_class] m by (simp add: leaf_new_def maker_of_def)
  next
    case T_string
    then show ?thesis using mono [of str_new] str_new_makes [OF m(2), of K] leaf by (auto simp: leaf_new_def)
  next
    case T_time
    then show ?thesis using mono [of time_new] time_new_makes [OF m(2), of K] leaf by (auto simp: leaf_new_def)
  next
    case T_data
    then show ?thesis using mono [of data_new] data_new_makes [OF m(2), of K] leaf by (auto simp: leaf_new_def)
  qed
qed

lemma new_makes: "rank c \<le> n \<Longrightarrow> maker_of (obj_new K n c) (T_class c) (rank c)"
proof (induction n arbitrary: c)
  case 0
  then show ?case using rank_struct [of c] by simp
next
  case (Suc n)
  let ?st = "cc_struct (K c)"
  have N: "maker_of (leaf_new ty (obj_new K n)) ty (new_weight rank (F_required ty) - 1)"
    if f: "(f, F_required ty) \<in> set ?st" for f ty
  proof (rule leaf_maker)
    fix c' assume ty: "ty = T_class c'"
    have "Suc (rank c') \<le> size_list (new_weight rank \<circ> snd) ?st"
      using size_list_le [OF f, of "new_weight rank \<circ> snd"] by (simp add: ty)
    then show "maker_of (obj_new K n c') ty (new_weight rank (F_required ty) - 1)"
      using Suc.IH [of c'] rank_struct [of c] Suc.prems by (simp add: ty)
  qed
  have NN: "\<forall>f ty. (f, F_required ty) \<in> set ?st \<longrightarrow>
      maker_of (leaf_new ty (obj_new K n)) ty (new_weight rank (F_required ty) - 1)" using N by blast
  show ?case unfolding maker_of_def
  proof (intro allI impI)
    fix m assume m: "live m" "all_ok m"
    define q where "q = onext m"
    define m0 where "m0 = with_cell m (obj_cell c None (zero_fields ?st))"
    let ?T = "\<lambda>ss. TR_obj q c ss"
    have c0: "cells_of (?T (map zero_tslot ?st)) None = [(q, obj_cell c None (zero_fields ?st))]"
      by (simp add: zero_fields_tree)
    have e0: "evolves m [] (cells_of (?T (map zero_tslot ?st)) None) m0"
      unfolding c0 unfolding q_def m0_def by (rule evolves_with_cell)
    have l0: "live m0" by (rule evolves_live [OF m(1) owns_Nil _ e0]) simp
    obtain m1 where m1: "run_all (run_new (\<lambda>t. leaf_new t (obj_new K n)) (Some q)) (concat (map init_of ?st)) m0 = (Inr (), m1)"
      "evolves m0 (addrs (?T (map zero_tslot ?st))) (cells_of (?T (map init_tslot ?st)) None) m1"
      using init_phase [OF l0 all_ok_evolves [OF m(2) e0] evolves_owns [OF e0] struct_distinct] by blast
    have e1: "evolves m [] (cells_of (?T (map init_tslot ?st)) None) m1"
      by (rule evolves_trans [OF m(1) owns_Nil _ e0 cells_addrs m1(2)]) simp
    have l1: "live m1" by (rule evolves_live [OF m(1) owns_Nil _ e1]) simp
    obtain m2 ss where m2: "run_all (run_new (\<lambda>t. leaf_new t (obj_new K n)) (Some q)) (concat (map require_of ?st)) m1 = (Inr (), m2)"
      "evolves m1 (addrs (?T (map init_tslot ?st))) (cells_of (?T ss) None) m2" and
      ss: "map fname ss = map fst ?st" "list_all2 (\<lambda>s' (f, d). slot_wt K s' (Some d) \<and> slot_blank K s' (Some d) \<and>
        slot_complete K s' (Some d) \<and> size s' \<le> new_weight rank d) ss ?st"
      using require_phase [where N = "\<lambda>t. leaf_new t (obj_new K n)", OF NN l1 all_ok_evolves [OF m(2) e1]
          evolves_owns [OF e1] struct_distinct] by blast
    have e2: "evolves m [] (cells_of (?T ss) None) m2"
      by (rule evolves_trans [OF m(1) owns_Nil _ e1 cells_addrs m2(2)]) simp
    have "run_all (run_new (\<lambda>t. leaf_new t (obj_new K n)) (Some q)) (cc_new (K c)) m0 = (Inr (), m2)"
      using codes_regular [of c] m1(1) m2(1) by (simp add: regular_def run_all_append act_then_def act_bind_def)
    then have r: "obj_new K (Suc n) c m = (Inr (Some (root (?T ss)), Inr ()), m2)"
      using m(2) by (simp add: act_bind_def alloc_with_cell act_try_def ret_def m0_def q_def)
    have "size_list size ss \<le> size_list (new_weight rank \<circ> snd) ?st"
      by (rule size_list_mono2) (use ss(2) in \<open>auto elim!: list_all2_mono\<close>)
    then have "size (?T ss) \<le> rank c" using rank_struct [of c] by simp
    moreover have "wt K (?T ss) (T_class c) \<and> blank K (?T ss) \<and> complete K (?T ss)"
      using ss(1) wt_of_slots [OF ss(1), of "slot_wt K"] wt_of_slots [OF ss(1), of "slot_blank K"]
        wt_of_slots [OF ss(1), of "slot_complete K"] ss(2)
      by (auto simp: list_all2_conv_all_nth split: prod.splits)
    ultimately show "makes (obj_new K (Suc n) c) m (\<lambda>t. wt K t (T_class c) \<and> blank K t \<and> complete K t \<and> size t \<le> rank c)"
      by (intro makesI [where t = "?T ss" and m' = m2]) (use r e2 in simp_all)
  qed
qed

end

end
