(* ===== verification/ObjCopy.thy ===== *)
theory ObjCopy
  imports ObjNew
begin

text \<open>
  Copying and cloning of whole objects: cloning a complete tree gives a tree with the same
  contents, copying onto a complete tree gives it the \<open>overlay\<close> of the source, the contents of the
  source but for required strings that are empty there. Neither changes the source or anything else.
\<close>

section \<open>A new object is ready for every source of its class\<close>

lemma wt_named:
  assumes "map fname us = map fst st" "distinct (map fst st)" "f \<in> fst ` set st"
  shows "slot_named us f \<in> set us" "fname (slot_named us f) = f"
proof -
  have "f \<in> set (map fname us)" using assms by simp
  then obtain u where u: "u \<in> set us" "f = fname u" by auto
  have "slot_named us f = u" using slot_named_in [of us u] assms(1,2) u by simp
  then show "slot_named us f \<in> set us" "fname (slot_named us f) = f" using u by simp_all
qed

lemma named_field: "map fname ss = map fst st \<Longrightarrow> s \<in> set ss \<Longrightarrow> fname s \<in> fst ` set st"
  by (metis image_eqI image_set)

lemma blank_ready:
  fixes K :: codes
  assumes "\<And>c. distinct (map fst (cc_struct (K c)))"
  shows "wt K t ty \<Longrightarrow> wt K u ty \<Longrightarrow> blank K u \<Longrightarrow> ready K t u"
    "slot_wt K s d \<Longrightarrow> slot_wt K v d \<Longrightarrow> slot_blank K v d \<Longrightarrow> slot_ready K s d v"
  using assms
proof (induction K t u and K s d v arbitrary: ty rule: ready_slot_ready.induct)
  case (1 K a s b u)
  then show ?case by (cases u) auto
next
  case (4 K a c ss u)
  obtain b us where u: "u = TR_obj b c us" using 4(2-4) by (cases u) auto
  show ?case
  proof (simp add: u, intro ballI)
    fix s assume s: "s \<in> set ss"
    let ?v = "slot_named us (fname s)"
    have n: "map fname us = map fst (cc_struct (K c))" "fname s \<in> fst ` set (cc_struct (K c))"
      using 4(2-4) s u named_field [of ss "cc_struct (K c)" s] by auto
    note v = wt_named [OF n(1) 4(5) n(2)]
    have "\<forall>v \<in> set us. slot_wt K v (map_of (cc_struct (K c)) (fname v)) \<and>
        slot_blank K v (map_of (cc_struct (K c)) (fname v))"
      using 4(3,4) u by auto
    with v have "slot_wt K ?v (map_of (cc_struct (K c)) (fname s))" "slot_blank K ?v (map_of (cc_struct (K c)) (fname s))"
      by metis+
    moreover have "slot_wt K s (map_of (cc_struct (K c)) (fname s))" using 4(2) s by simp
    ultimately show "slot_ready K s (map_of (cc_struct (K c)) (fname s)) ?v"
      using 4(1) [OF u s] 4(5) by blast
  qed
qed (auto split: option.splits field_decl.splits tslot.splits)

section \<open>Linking a new child\<close>

lemma evolves_beside:
  assumes "live m" "owns m (cs @ F)" "evolves m (map fst cs) ds m'"
  shows "live m'" "owns m' (ds @ F)"
proof -
  have o: "owns m cs" "owns m F" "set (map fst cs) \<inter> fst ` set F = {}"
    using assms(2) by (simp_all add: owns_append)
  show "live m'" by (rule live_evolves [OF assms(1) o(1) assms(3)])
  show "owns m' (ds @ F)"
    using evolves_owns [OF assms(3)] evolves_frame [OF assms(3,1) o(2,3)]
      evolves_disjoint [OF assms(3,1) o(2,3)] by (simp add: owns_append)
qed

lemma list_put_app:
  assumes "ocells m h = Some (C_object x)" "obj_fields x f = S_list as"
    and "ocells m a = Some (obj_cell c None fd)" "a \<noteq> h"
  shows "list_put h f k a m = (Inr (), put_cell a (obj_cell c (Some (h, f)) fd)
    (put_cell h (C_object (with_field x f (S_list (take k as @ a # drop k as)))) m))"
  using assms by (simp add: list_put_def act_bind_def act_then_def get_field_app(4) [OF assms(1,2)] load_simps(7)
      set_slot_app [OF assms(1)] set_link_app)

lemma list_cells_split:
  "mset (list_cells q f (take k ts)) + mset (list_cells q f (drop k ts)) = mset (list_cells q f ts)"
  by (metis append_take_drop_id concat_append map_append mset_append)

lemma insert_child:
  assumes "live m" "owns m (cells_of (TR_obj q c (xs @ TS_list f ts # ys)) lk)"
    and "evolves m [] (cells_of t None) m1" "wt K t (T_class c')" "distinct (map fname (xs @ TS_list f ts # ys))"
  shows "get_list (Some q) f m1 = (Inr (map root ts), m1)"
    and "\<exists>m'. list_put q f k (root t) m1 = (Inr (), m') \<and>
      evolves m (addrs (TR_obj q c (xs @ TS_list f ts # ys)))
        (cells_of (TR_obj q c (xs @ TS_list f (take k ts @ t # drop k ts) # ys)) lk) m'"
proof -
  let ?old = "xs @ TS_list f ts # ys" and ?new = "xs @ TS_list f (take k ts @ t # drop k ts) # ys"
  let ?x = "\<lparr>obj_class = c, obj_refcount = 1, obj_link = lk, obj_fields = fields_of ?old\<rparr>"
  let ?C = "cells_of (TR_obj q c ?old) lk"
  obtain a ss where t: "t = TR_obj a c' ss" using assms(4) by (cases t) auto
  have e1: "evolves m (map fst ?C) (?C @ cells_of t None) m1" by (rule evolves_new [OF assms(1-3)])
  have l1: "live m1" and o1: "owns m1 (?C @ cells_of t None)"
    by (rule live_evolves [OF assms(1,2) e1], rule evolves_owns [OF e1])
  have q: "ocells m1 q = Some (C_object ?x)" using o1 by (rule owned_root)
  have a: "ocells m1 a = Some (obj_cell c' None (fields_of ss))" "a \<noteq> q"
    using o1 by (auto simp: t owns_append owns_Cons)
  have x: "obj_fields ?x f = S_list (map root ts)"
    using fields_of_nth [OF assms(5), of "TS_list f ts"] by simp
  show "get_list (Some q) f m1 = (Inr (map root ts), m1)" by (rule get_field_app(4) [OF q x])
  let ?c = "C_object (with_field ?x f (S_list (map root (take k ts @ t # drop k ts))))"
  let ?m = "put_cell a (obj_cell c' (Some (q, f)) (fields_of ss)) (put_cell q ?c m1)"
  have p: "list_put q f k (root t) m1 = (Inr (), ?m)"
    using list_put_app [OF q x a] by (simp add: t take_map drop_map)
  have c: "?c = obj_cell c lk (fields_of ?new)"
    using fields_of_update [OF assms(5), of "TS_list f (take k ts @ t # drop k ts)"] by (simp add: with_field_def)
  have e: "evolves m1 [q, a] [(q, obj_cell c lk (fields_of ?new)), (a, obj_cell c' (Some (q, f)) (fields_of ss))] ?m"
    using q a unfolding c [symmetric] by (auto simp: evolves_def map_add_def restrict_map_def fun_eq_iff)
  have "evolves m1 (map fst (?C @ cells_of t None)) (cells_of (TR_obj q c ?new) lk) ?m"
    by (rule evolves_part [OF l1 o1 _ e, where ss = "[(q, C_object ?x), (a, obj_cell c' None (fields_of ss))]" and
          ys = "slots_cells q xs @ list_cells q f ts @ slots_cells q ys @ slots_cells a ss"])
      (simp_all add: t list_cells_split [of q f k ts, symmetric])
  then have "evolves m (addrs (TR_obj q c ?old)) (cells_of (TR_obj q c ?new) lk) ?m"
    by (rule evolves_trans [OF assms(1,2) cells_addrs [of _ lk] e1 [folded cells_addrs [of _ lk]] refl])
  then show "\<exists>m'. list_put q f k (root t) m1 = (Inr (), m') \<and>
      evolves m (addrs (TR_obj q c ?old)) (cells_of (TR_obj q c ?new) lk) m'"
    using p by blast
qed

section \<open>What cloning and copying do\<close>

definition like :: "codes \<Rightarrow> ty \<Rightarrow> tree \<Rightarrow> tree \<Rightarrow> bool" where
  "like K ty t u \<longleftrightarrow> wt K u ty \<and> content u = content t \<and> complete K u"

text \<open>\<open>n\<close> bounds the trees the fuel is enough for; \<open>b\<close> is what is needed for new objects.\<close>

definition clones :: "codes \<Rightarrow> (addr option \<Rightarrow> created act) \<Rightarrow> ty \<Rightarrow> nat \<Rightarrow> nat \<Rightarrow> bool" where
  "clones K C ty b n \<longleftrightarrow> (\<forall>t lk m. wt K t ty \<longrightarrow> complete K t \<longrightarrow> size t + b \<le> n \<longrightarrow> live m \<longrightarrow> all_ok m \<longrightarrow>
     owns m (cells_of t lk) \<longrightarrow> makes (C (Some (root t))) m (like K ty t))"

definition over :: "codes \<Rightarrow> ty \<Rightarrow> tree \<Rightarrow> tree \<Rightarrow> tree \<Rightarrow> bool" where
  "over K ty t u v \<longleftrightarrow> wt K v ty \<and> content v = overlay K t u \<and> complete K v"

definition copies :: "codes \<Rightarrow> (addr option \<Rightarrow> addr option \<Rightarrow> unit act) \<Rightarrow> ty \<Rightarrow> nat \<Rightarrow> nat \<Rightarrow> bool" where
  "copies K Y ty b n \<longleftrightarrow> (\<forall>t u m lt lu. wt K t ty \<longrightarrow> wt K u ty \<longrightarrow> complete K t \<longrightarrow> complete K u \<longrightarrow>
     size t + b \<le> n \<longrightarrow> size u \<le> n \<longrightarrow> live m \<longrightarrow> all_ok m \<longrightarrow> owns m (cells_of u lu @ cells_of t lt) \<longrightarrow>
     replaces (Y (Some (root t)) (Some (root u))) m u lu (over K ty t u))"

lemma clonesD:
  assumes "clones K C ty b n" "wt K t ty" "complete K t" "size t + b \<le> n" "live m" "all_ok m" "owns m (cells_of t lk)"
  shows "makes (C (Some (root t))) m (like K ty t)"
  using assms unfolding clones_def by blast

lemma copiesD:
  assumes "copies K Y ty b n" "wt K t ty" "wt K u ty" "complete K t" "complete K u" "size t + b \<le> n"
    "size u \<le> n" "live m" "all_ok m" "owns m (cells_of u lu @ cells_of t lt)"
  shows "replaces (Y (Some (root t)) (Some (root u))) m u lu (over K ty t u)"
  using assms unfolding copies_def by blast

lemma replaces_mono: "replaces Y m u lk P \<Longrightarrow> (\<And>t. P t \<Longrightarrow> Q t) \<Longrightarrow> replaces Y m u lk Q"
  unfolding replaces_def by blast

lemma leaf_like: "(\<And>c. ty \<noteq> T_class c) \<Longrightarrow> wt K u ty \<and> content u = content t \<Longrightarrow> like K ty t u"
  by (cases u) (auto simp: like_def)

lemma leaf_over: "(\<And>c. ty \<noteq> T_class c) \<Longrightarrow> wt K v ty \<and> content v = overlay K t u \<Longrightarrow> over K ty t u v"
  by (cases v) (auto simp: over_def)

lemma leaf_clones:
  assumes "\<And>c. clones K (rec c) (T_class c) b n"
  shows "clones K (leaf_clone ty rec) ty b n"
  unfolding clones_def
proof (intro allI impI)
  fix t lk m
  assume t: "wt K t ty" "complete K t" "size t + b \<le> n" "live m" "all_ok m" "owns m (cells_of t lk)"
  show "makes (leaf_clone ty rec (Some (root t))) m (like K ty t)"
  proof (cases t)
    case (TR_obj a c ss)
    then have ty: "ty = T_class c" using t(1) by simp
    show ?thesis using clonesD [OF assms t(1) [unfolded ty] t(2-6)] by (simp add: ty leaf_clone_def)
  next
    case (TR_string a s c)
    then have ty: "ty = T_string" using t(1) by simp
    show ?thesis using str_clone_makes [OF t(5,4), of a s c lk K] t(6) unfolding ty TR_string
      by (simp add: leaf_clone_def) (erule makes_mono, simp add: leaf_like)
  next
    case (TR_time a x y z)
    then have ty: "ty = T_time" using t(1) by simp
    show ?thesis using time_clone_makes [OF t(5,4), of a x y z lk K] t(6) unfolding ty TR_time
      by (simp add: leaf_clone_def) (erule makes_mono, simp add: leaf_like)
  next
    case (TR_data a w k l pl)
    then have ty: "ty = T_data" and p: "payload_ok w k l pl" using t(1) by simp_all
    show ?thesis using data_clone_makes [OF t(5,4), of a w k l pl lk K] t(6) p unfolding ty TR_data
      by (simp add: leaf_clone_def) (erule makes_mono, simp add: leaf_like)
  qed
qed

lemma leaf_copies:
  assumes "\<And>c. copies K (rec c) (T_class c) b n"
  shows "copies K (leaf_copy ty rec) ty b n"
  unfolding copies_def
proof (intro allI impI)
  fix t u m lt lu
  assume t: "wt K t ty" "wt K u ty" "complete K t" "complete K u" "size t + b \<le> n"
    "size u \<le> n" "live m" "all_ok m" "owns m (cells_of u lu @ cells_of t lt)"
  show "replaces (leaf_copy ty rec (Some (root t)) (Some (root u))) m u lu (over K ty t u)"
  proof (cases t)
    case (TR_obj a c ss)
    then have ty: "ty = T_class c" using t(1) by simp
    show ?thesis using copiesD [OF assms t(1,2) [unfolded ty] t(3-9)] by (simp add: ty leaf_copy_def)
  next
    case (TR_string a s c)
    then have ty: "ty = T_string" using t(1) by simp
    obtain d s' c' where u: "u = TR_string d s' c'" using t(2) ty by (cases u) auto
    show ?thesis using str_copy_replaces [OF t(8,7), of d s' c' lu a s c lt K] t(9) unfolding ty TR_string u
      by (simp add: leaf_copy_def) (erule replaces_mono, simp add: leaf_over)
  next
    case (TR_time a x y z)
    then have ty: "ty = T_time" using t(1) by simp
    obtain d x' y' z' where u: "u = TR_time d x' y' z'" using t(2) ty by (cases u) auto
    show ?thesis using time_copy_replaces [of m d x' y' z' lu a x y z lt K] t(9) unfolding ty TR_time u
      by (simp add: leaf_copy_def) (erule replaces_mono, simp add: leaf_over)
  next
    case (TR_data a w k l pl)
    then have ty: "ty = T_data" and p: "payload_ok w k l pl" using t(1) by simp_all
    obtain d w' k' l' pd where u: "u = TR_data d w' k' l' pd" and p': "payload_ok w' k' l' pd"
      using t(2) ty by (cases u) auto
    show ?thesis using data_copy_replaces [OF t(8,7), of d w' k' l' pd lu a w k l pl lt K] t(9) p p'
      unfolding ty TR_data u by (simp add: leaf_copy_def) (erule replaces_mono, simp add: leaf_over)
  qed
qed

section \<open>Copying a list\<close>

lemma owns_concat: "owns m (concat css) \<Longrightarrow> cs \<in> set css \<Longrightarrow> owns m cs"
  by (induction css) (auto simp: owns_append)

lemma owned_slot: "owns m (cells_of (TR_obj p c ss) lk) \<Longrightarrow> s \<in> set ss \<Longrightarrow> owns m (slot_cells s p)"
  by (auto simp: owns_Cons intro: owns_concat)

lemma owned_element: "owns m (list_cells q f ts) \<Longrightarrow> t \<in> set ts \<Longrightarrow> owns m (cells_of t (Some (q, f)))"
  by (auto intro: owns_concat)

lemma distinct_roots: "distinct (concat (map addrs ts)) \<Longrightarrow> distinct (map root ts)"
proof (induction ts)
  case (Cons t ts)
  have "root t \<noteq> root u" if "u \<in> set ts" for u
  proof
    assume "root t = root u"
    moreover have "root u \<in> set (concat (map addrs ts))"
      using that root_in_addrs [of u] by (auto simp del: root_in_addrs)
    ultimately show False using Cons.prems root_in_addrs [of t]
      by (simp del: root_in_addrs) blast
  qed
  with Cons show ?case by auto
qed simp

lemma owned_roots: "owns m (list_cells q f ts) \<Longrightarrow> distinct (map root ts)"
  by (rule distinct_roots) (simp add: owns_def list_cells_addrs)

lemma succ_in_mid: "distinct (pre @ a # as) \<Longrightarrow> succ_in (pre @ a # as) a = (case as of [] \<Rightarrow> None | b # _ \<Rightarrow> Some b)"
proof -
  assume "distinct (pre @ a # as)"
  then have "dropWhile (\<lambda>x. x \<noteq> a) (pre @ a # as) = a # as"
    by (subst dropWhile_append2) auto
  then show ?thesis by (simp add: succ_in_def split: list.split)
qed

abbreviation clone_into :: "(addr option \<Rightarrow> created act) \<Rightarrow> addr \<Rightarrow> string \<Rightarrow> addr \<Rightarrow> unit act" where
  "clone_into C q f \<equiv> (\<lambda>a. act_bind (C (Some a)) (\<lambda>(new, _). act_bind (get_list (Some q) f) (\<lambda>xs.
     case new of None \<Rightarrow> fail (UB Null_deref) | Some b \<Rightarrow> list_put q f (length xs) b)))"

lemma walk_clones:
  assumes C: "clones K C (T_class c') b n"
    and src: "TS_list f us \<in> set ss" "distinct (map fname ss)"
  shows "live m \<Longrightarrow> all_ok m \<Longrightarrow>
    owns m (cells_of (TR_obj q c (xs @ TS_list f ds # ys)) lk @ cells_of (TR_obj p cs ss) ls) \<Longrightarrow>
    distinct (map fname (xs @ TS_list f ds # ys)) \<Longrightarrow> us = pre @ vs \<Longrightarrow>
    (\<And>t. t \<in> set vs \<Longrightarrow> wt K t (T_class c') \<and> complete K t \<and> size t + b \<le> n) \<Longrightarrow> length vs \<le> k \<Longrightarrow>
    \<exists>m' ts. walk_safe k p f (clone_into C q f) (case map root vs of [] \<Rightarrow> None | a # _ \<Rightarrow> Some a) m = (Inr (), m') \<and>
      evolves m (addrs (TR_obj q c (xs @ TS_list f ds # ys)))
        (cells_of (TR_obj q c (xs @ TS_list f (ds @ ts) # ys)) lk) m' \<and>
      list_all2 (like K (T_class c')) vs ts"
proof (induction vs arbitrary: m ds pre k)
  case Nil
  have "owns m (cells_of (TR_obj q c (xs @ TS_list f ds # ys)) lk)" using Nil(3) by (simp only: owns_append)
  from evolves_refl [OF this] show ?case
    by (intro exI [of _ m] exI [of _ "[]"]) (simp add: ret_def slots_cells_addrs list_cells_addrs)
next
  case (Cons v vs)
  let ?D = "\<lambda>ds. TR_obj q c (xs @ TS_list f ds # ys)" and ?F = "cells_of (TR_obj p cs ss) ls"
  have oD: "owns m (cells_of (?D ds) lk)" and oF: "owns m ?F"
    using Cons.prems(3) by (simp_all only: owns_append)
  obtain k' where k: "k = Suc k'" using Cons.prems(7) by (cases k) auto
  have v: "wt K v (T_class c')" "complete K v" "size v + b \<le> n" using Cons.prems(6) [of v] by auto
  obtain a vss where va: "v = TR_obj a c' vss" using v(1) by (cases v) auto
  have ol: "owns m (list_cells p f us)" using owned_slot [OF oF src(1)] by simp
  have ov: "owns m (cells_of v (Some (p, f)))"
    by (rule owned_element [OF ol]) (simp add: Cons.prems(5))
  have "ocells m a = Some (obj_cell c' (Some (p, f)) (fields_of vss))" using ov by (simp add: va owns_Cons)
  moreover have "ocells m p = Some (obj_cell cs ls (fields_of ss))" using oF by (simp add: owns_Cons)
  ultimately have nx: "list_next p f a m = (Inr (case map root vs of [] \<Rightarrow> None | a # _ \<Rightarrow> Some a), m)"
    using list_next_app [of m a c' p f] fields_of_nth [OF src(2,1)] owned_roots [OF ol]
    by (simp add: Cons.prems(5) va succ_in_mid)
  obtain t m1 where m1: "C (Some a) m = (Inr (Some (root t), Inr ()), m1)" "evolves m [] (cells_of t None) m1"
    "like K (T_class c') v t"
    using clonesD [OF C v Cons.prems(1,2) ov] by (auto simp: va makes_def)
  have wt: "wt K t (T_class c')" using m1(3) by (simp add: like_def)
  note ic = insert_child [OF Cons.prems(1) oD m1(2) wt Cons.prems(4)]
  obtain m2 where m2: "list_put q f (length ds) (root t) m1 = (Inr (), m2)"
    "evolves m (addrs (?D ds)) (cells_of (?D (ds @ [t])) lk) m2"
    using ic(2) [of "length ds"] by auto
  note e2 = m2(2) [unfolded cells_addrs [of _ lk]]
  have l2: "live m2" and o2: "owns m2 (cells_of (?D (ds @ [t])) lk @ ?F)"
    by (rule evolves_beside [OF Cons.prems(1,3) e2])+
  obtain m3 ts where m3: "walk_safe k' p f (clone_into C q f) (case map root vs of [] \<Rightarrow> None | a # _ \<Rightarrow> Some a) m2 = (Inr (), m3)"
    "evolves m2 (addrs (?D (ds @ [t]))) (cells_of (?D ((ds @ [t]) @ ts)) lk) m3" "list_all2 (like K (T_class c')) vs ts"
    using Cons.IH [OF l2 all_ok_evolves [OF Cons.prems(2) e2] o2, of "pre @ [v]" k'] Cons.prems(4-7) k by auto
  have "evolves m (addrs (?D ds)) (cells_of (?D ((ds @ [t]) @ ts)) lk) m3"
    by (rule evolves_trans [OF Cons.prems(1) oD cells_addrs m2(2) cells_addrs m3(2)])
  moreover have "walk_safe k p f (clone_into C q f) (Some a) m = (Inr (), m3)"
    using m3(1) m1(1) m2(1) by (simp add: k act_then_def act_bind_def nx ic(1))
  ultimately show ?case using m3(3) m1(3)
    by (intro exI [of _ m3] exI [of _ "t # ts"]) (simp add: va)
qed

section \<open>Copying one field\<close>

text \<open>Clearing a pointer field, as copying, the set functions and \<open>destroy_child\<close> do.\<close>

definition drop_ptr :: "(addr option \<Rightarrow> unit act) \<Rightarrow> addr option \<Rightarrow> string \<Rightarrow> unit act" where
  "drop_ptr D p f = act_bind (get_ptr p f) (\<lambda>q. if q = None then ret ()
     else act_then (D q) (set_slot p f (S_ptr None)))"

lemma get_ptr_slot:
  assumes "owns m (cells_of (TR_obj q c ss) lk)" "distinct (map fname ss)"
  shows "TS_ptr f t \<in> set ss \<Longrightarrow> get_ptr (Some q) f m = (Inr (Some (root t)), m)"
    and "TS_null f \<in> set ss \<Longrightarrow> get_ptr (Some q) f m = (Inr None, m)"
proof -
  have q: "ocells m q = Some (obj_cell c lk (fields_of ss))" using assms(1) by (simp add: owns_Cons)
  show "get_ptr (Some q) f m = (Inr (Some (root t)), m)" if "TS_ptr f t \<in> set ss"
    using get_field_app(1) [OF q] fields_of_nth [OF assms(2) that] by simp
  show "get_ptr (Some q) f m = (Inr None, m)" if "TS_null f \<in> set ss"
    using get_field_app(1) [OF q] fields_of_nth [OF assms(2) that] by simp
qed

lemma drop_ptr_slot:
  assumes "destroys K D ty n" "live m" "owns m (cells_of (TR_obj q c (xs @ s # ys)) lk)"
    and "slot_wt K s (Some (F_ptr ty)) \<or> slot_wt K s (Some (F_required ty))" "size s \<le> Suc n"
    and "distinct (map fname (xs @ s # ys))"
  shows "\<exists>m'. drop_ptr D (Some q) (fname s) m = (Inr (), m') \<and>
    evolves m (addrs (TR_obj q c (xs @ s # ys))) (cells_of (TR_obj q c (xs @ TS_null (fname s) # ys)) lk) m'"
proof -
  consider t where "s = TS_ptr (fname s) t" "wt K t ty" "size t \<le> n" | "s = TS_null (fname s)"
    using assms(4,5) by (cases s) auto
  then show ?thesis
  proof cases
    case 1
    have g: "get_ptr (Some q) (fname s) m = (Inr (Some (root t)), m)"
      by (rule get_ptr_slot [OF assms(3,6)]) (use 1 in auto)
    show ?thesis
      using clear_ptr [OF assms(1,2), of q c xs "fname s" t ys lk] assms(3,6) 1(2,3)
      unfolding 1(1) [symmetric] by (simp add: drop_ptr_def act_bind_def g)
  next
    case 2
    have g: "get_ptr (Some q) (fname s) m = (Inr None, m)"
      by (rule get_ptr_slot [OF assms(3,6)]) (use 2 in auto)
    show ?thesis using evolves_refl [OF assms(3)]
      unfolding 2 [symmetric] cells_addrs [of _ lk] by (intro exI [of _ m]) (simp add: drop_ptr_def act_bind_def g ret_def)
  qed
qed

definition copied :: "codes \<Rightarrow> field_decl \<Rightarrow> tslot \<Rightarrow> tslot \<Rightarrow> bool" where
  "copied K d u s \<longleftrightarrow> slot_wt K s (Some d) \<and> slot_content s = slot_content u \<and> slot_complete K s (Some d)"

text \<open>The same for a field \<open>s\<close> of the target, which may keep the text of a required string.\<close>

definition patched :: "codes \<Rightarrow> field_decl \<Rightarrow> tslot \<Rightarrow> tslot \<Rightarrow> tslot \<Rightarrow> bool" where
  "patched K d u s s' \<longleftrightarrow> slot_wt K s' (Some d) \<and> slot_content s' = slot_overlay K u (Some d) s \<and> slot_complete K s' (Some d)"

lemma copied_patched: "copied K d u s' \<Longrightarrow> (\<And>ty. d \<noteq> F_required ty) \<Longrightarrow> patched K d u s s'"
  by (simp add: copied_def patched_def slot_overlay_plain)

lemma copy_ptr_slot:
  assumes D: "destroys K (D ty) ty n" and C: "clones K (C ty) ty b n"
    and m: "live m" "all_ok m" "owns m (cells_of (TR_obj q c (xs @ s # ys)) lk @ cells_of (TR_obj p cs ss) ls)"
    and dis: "distinct (map fname (xs @ s # ys))" "distinct (map fname ss)"
    and u: "u \<in> set ss" "fname u = fname s" "slot_wt K u (Some (F_ptr ty))" "slot_complete K u (Some (F_ptr ty))"
      "size u + b \<le> Suc n"
    and s: "slot_wt K s (Some (F_ptr ty))" "size s \<le> Suc n"
  shows "\<exists>m' s'. run_copy n D C Y (Some p) (Some q) (Copy_ptr ty (fname s)) m = (Inr (), m') \<and> fname s' = fname s \<and>
    copied K (F_ptr ty) u s' \<and>
    evolves m (addrs (TR_obj q c (xs @ s # ys))) (cells_of (TR_obj q c (xs @ s' # ys)) lk) m'"
proof -
  let ?f = "fname s" and ?F = "cells_of (TR_obj p cs ss) ls"
  let ?T = "\<lambda>s. TR_obj q c (xs @ s # ys)"
  have oT: "owns m (cells_of (?T s) lk)" using m(3) by (simp only: owns_append)
  obtain m1 where m1: "drop_ptr (D ty) (Some q) ?f m = (Inr (), m1)"
    "evolves m (addrs (?T s)) (cells_of (?T (TS_null ?f)) lk) m1"
    using drop_ptr_slot [OF D m(1) oT disjI1 [OF s(1)] s(2) dis(1)] by blast
  note e1 = m1(2) [unfolded cells_addrs [of _ lk]]
  have l1: "live m1" and o1: "owns m1 (cells_of (?T (TS_null ?f)) lk @ ?F)"
    by (rule evolves_beside [OF m(1,3) e1])+
  have oF: "owns m1 ?F" and oN: "owns m1 (cells_of (?T (TS_null ?f)) lk)" using o1 by (simp_all only: owns_append)
  have dn: "distinct (map fname (xs @ TS_null ?f # ys))" using dis(1) by simp
  have run: "run_copy n D C Y (Some p) (Some q) (Copy_ptr ty ?f) m = act_bind (get_ptr (Some p) ?f) (\<lambda>q'. if q' = None then ret ()
       else call_out (C ty q') (\<lambda>r. set_slot (Some q) ?f (S_ptr r))) m1"
    unfolding run_copy.simps(1) drop_ptr_def [symmetric] by (rule then_Inr) (rule m1(1))
  consider t where "u = TS_ptr ?f t" "wt K t ty" "complete K t" "size t + b \<le> n" | "u = TS_null ?f"
    using u(2-5) by (cases u) auto
  then show ?thesis
  proof cases
    case 1
    have g: "get_ptr (Some p) ?f m1 = (Inr (Some (root t)), m1)"
      by (rule get_ptr_slot(1) [OF oF dis(2)]) (use 1 u(1) in auto)
    have "owns m1 (slot_cells u p)" by (rule owned_slot [OF oF u(1)])
    then have "owns m1 (cells_of t None)" using 1(1) by (metis slot_cells.simps(1))
    then obtain r m2 where r: "C ty (Some (root t)) m1 = (Inr (Some (root r), Inr ()), m2)" "evolves m1 [] (cells_of r None) m2"
      "like K ty t r"
      using clonesD [OF C 1(2-4) l1 all_ok_evolves [OF m(2) e1]] unfolding makes_def by blast
    obtain m3 where m3: "set_slot (Some q) ?f (S_ptr (Some (root r))) m2 = (Inr (), m3)"
      "evolves m1 (addrs (?T (TS_null ?f))) (cells_of (?T (TS_ptr ?f r)) lk) m3"
      using set_child [OF l1 oN r(2) dn] by blast
    have "evolves m (addrs (?T s)) (cells_of (?T (TS_ptr ?f r)) lk) m3"
      by (rule evolves_trans [OF m(1) oT cells_addrs m1(2) cells_addrs m3(2)])
    moreover have "copied K (F_ptr ty) u (TS_ptr ?f r)"
      using r(3) by (subst 1(1)) (simp add: copied_def like_def)
    ultimately show ?thesis unfolding run using g r(1) m3(1)
      by (intro exI [of _ m3] exI [of _ "TS_ptr ?f r"]) (simp add: act_bind_def act_then_def call_out_def lift_res_def)
  next
    case 2
    have "get_ptr (Some p) ?f m1 = (Inr None, m1)"
      by (rule get_ptr_slot(2) [OF oF dis(2)]) (use 2 u(1) in auto)
    moreover have "copied K (F_ptr ty) u (TS_null ?f)" by (subst 2) (simp add: copied_def)
    ultimately show ?thesis unfolding run using m1(2)
      by (intro exI [of _ m1] exI [of _ "TS_null ?f"]) (simp only: act_bind_def ret_def, simp)
  qed
qed

lemma copy_required_slot:
  assumes Y: "copies K (Y ty) ty b n"
    and m: "live m" "all_ok m" "owns m (cells_of (TR_obj q c (xs @ s # ys)) lk @ cells_of (TR_obj p cs ss) ls)"
    and dis: "distinct (map fname (xs @ s # ys))" "distinct (map fname ss)"
    and u: "u \<in> set ss" "fname u = fname s" "slot_wt K u (Some (F_required ty))"
      "slot_complete K u (Some (F_required ty))" "size u + b \<le> Suc n"
    and s: "slot_wt K s (Some (F_required ty))" "size s \<le> Suc n" "slot_complete K s (Some (F_required ty))"
  shows "\<exists>m' s'. run_copy n D C Y (Some p) (Some q) (Copy_required ty (fname s)) m = (Inr (), m') \<and> fname s' = fname s \<and>
    patched K (F_required ty) u s s' \<and>
    evolves m (addrs (TR_obj q c (xs @ s # ys))) (cells_of (TR_obj q c (xs @ s' # ys)) lk) m'"
proof -
  let ?f = "fname s" and ?F = "cells_of (TR_obj p cs ss) ls"
  let ?T = "\<lambda>s. TR_obj q c (xs @ s # ys)"
  have oT: "owns m (cells_of (?T s) lk)" and oF: "owns m ?F" and disj: "fst ` set (cells_of (?T s) lk) \<inter> fst ` set ?F = {}"
    using m(3) by (simp_all only: owns_append)
  obtain t where t: "u = TS_ptr ?f t" "wt K t ty" "complete K t" "size t + b \<le> n"
    using u(2-5) by (cases u) auto
  obtain r where r: "s = TS_ptr ?f r" "wt K r ty" "size r \<le> n" "complete K r"
    using s by (cases s) auto
  have g: "get_ptr (Some p) ?f m = (Inr (Some (root t)), m)" "get_ptr (Some q) ?f m = (Inr (Some (root r)), m)"
    by (rule get_ptr_slot(1) [OF oF dis(2)], use t(1) u(1) in simp,
        rule get_ptr_slot(1) [OF oT dis(1)], use r(1) in simp)
  have "owns m (slot_cells s q)" by (rule owned_slot [OF oT]) simp
  moreover have "owns m (slot_cells u p)" by (rule owned_slot [OF oF u(1)])
  moreover have "set (slot_cells s q) \<subseteq> set (cells_of (?T s) lk)" "set (slot_cells u p) \<subseteq> set ?F" using u(1) by auto
  ultimately have "owns m (slot_cells s q @ slot_cells u p)" using disj unfolding owns_append by blast
  moreover have "slot_cells s q = cells_of r None" "slot_cells u p = cells_of t None"
    by (subst r(1), simp, subst t(1), simp)
  ultimately have "owns m (cells_of r None @ cells_of t None)" by simp
  then obtain m1 v where m1: "Y ty (Some (root t)) (Some (root r)) m = (Inr (), m1)" "root v = root r" "over K ty t r v"
    and e1: "evolves m (addrs r) (cells_of v None) m1"
    using copiesD [OF Y t(2) r(2) t(3) r(4) t(4) r(3) m(1,2)] unfolding replaces_def by blast
  have oT': "owns m (cells_of (?T (TS_ptr ?f r)) lk)" using oT r(1) by simp
  have e: "evolves m (addrs (?T s)) (cells_of (?T (TS_ptr ?f v)) lk) m1"
    using replace_child [OF m(1) oT' e1 m1(2)] unfolding r(1) [symmetric] .
  have "patched K (F_required ty) u s (TS_ptr ?f v)"
    using m1(3) by (subst t(1), subst r(1)) (simp add: patched_def over_def)
  then show ?thesis using e g m1(1)
    by (intro exI [of _ m1] exI [of _ "TS_ptr ?f v"]) (simp add: act_bind_def)
qed

lemma copy_list_slot:
  assumes B: "drops_first K c' n q (fname s) (\<lambda>a. D (T_class c') (Some a))"
    and C: "clones K (C (T_class c')) (T_class c') b n"
    and m: "live m" "all_ok m" "owns m (cells_of (TR_obj q c (xs @ s # ys)) lk @ cells_of (TR_obj p cs ss) ls)"
    and dis: "distinct (map fname (xs @ s # ys))" "distinct (map fname ss)"
    and u: "u \<in> set ss" "fname u = fname s" "slot_wt K u (Some (F_listed c'))"
      "slot_complete K u (Some (F_listed c'))" "size u + b \<le> Suc n"
    and s: "slot_wt K s (Some (F_listed c'))" "size s \<le> Suc n"
  shows "\<exists>m' s'. run_copy n D C Y (Some p) (Some q) (Copy_list c' (fname s)) m = (Inr (), m') \<and> fname s' = fname s \<and>
    copied K (F_listed c') u s' \<and>
    evolves m (addrs (TR_obj q c (xs @ s # ys))) (cells_of (TR_obj q c (xs @ s' # ys)) lk) m'"
proof -
  let ?f = "fname s" and ?F = "cells_of (TR_obj p cs ss) ls"
  let ?T = "\<lambda>ts. TR_obj q c (xs @ TS_list (fname s) ts # ys)"
  obtain ds where sd: "s = TS_list ?f ds" "\<And>t. t \<in> set ds \<Longrightarrow> wt K t (T_class c') \<and> size t \<le> n" "length ds \<le> n"
  proof -
    obtain ds where d: "s = TS_list ?f ds" "\<forall>t \<in> set ds. wt K t (T_class c')" using s(1) by (cases s) auto
    have "size_list size ds \<le> n" using s(2) by (subst (asm) d(1)) simp
    then show ?thesis using that [OF d(1)] d(2) size_list_le [of _ ds size] length_size_list [of ds size]
      by (meson le_trans)
  qed
  obtain us where ud: "u = TS_list ?f us" "\<And>t. t \<in> set us \<Longrightarrow> wt K t (T_class c') \<and> complete K t \<and> size t + b \<le> n" "length us \<le> n"
  proof -
    obtain us where d: "u = TS_list ?f us" "\<forall>t \<in> set us. wt K t (T_class c') \<and> complete K t"
      using u(2-4) by (cases u) auto
    have l: "size_list size us + b \<le> n" using u(5) by (subst (asm) d(1)) simp
    have "size t + b \<le> n" if "t \<in> set us" for t using size_list_le [OF that, of size] l by linarith
    moreover have "length us \<le> n" using length_size_list [of us size] l by linarith
    ultimately show ?thesis using that [OF d(1)] d(2) by blast
  qed
  have dT: "distinct (map fname (xs @ TS_list ?f ts # ys))" for ts using dis(1) by simp
  have oTF: "owns m (cells_of (?T ds) lk @ ?F)" using m(3) sd(1) by simp
  then have oT: "owns m (cells_of (?T ds) lk)" by (simp only: owns_append)
  let ?x = "\<lparr>obj_class = c, obj_refcount = 1, obj_link = lk, obj_fields = fields_of (xs @ TS_list ?f ds # ys)\<rparr>"
  have x: "ocells m q = Some (C_object ?x)" "obj_fields ?x ?f = S_list (map root ds)"
    using oT fields_of_nth [OF dT, of "TS_list ?f ds"] by (simp_all add: owns_Cons)
  have ol: "owns m ((q, C_object ?x) # list_cells q ?f ds)"
    using oT by (auto simp: owns_Cons owns_append)
  obtain m1 where m1: "walk_safe n q ?f (\<lambda>a. D (T_class c') (Some a)) (case map root ds of [] \<Rightarrow> None | a # _ \<Rightarrow> Some a) m = (Inr (), m1)"
    "evolves m (q # concat (map addrs ds)) [(q, C_object (with_field ?x ?f (S_list [])))] m1"
    using walk_drops [OF B m(1) ol x(2) sd(2,3)] by blast
  have cx: "C_object (with_field ?x ?f (S_list [])) = obj_cell c lk (fields_of (xs @ TS_list ?f [] # ys))"
    using fields_of_update [OF dT, of "TS_list ?f []" ds] by (simp add: with_field_def)
  have e1: "evolves m (addrs (?T ds)) (cells_of (?T []) lk) m1"
    by (rule evolves_part [OF m(1) oT _ m1(2) [unfolded cx], where ss = "(q, C_object ?x) # list_cells q ?f ds" and
          ys = "slots_cells q xs @ slots_cells q ys"]) (simp_all add: list_cells_addrs slots_cells_addrs)
  have l1: "live m1" and o1: "owns m1 (cells_of (?T []) lk @ ?F)"
    by (rule evolves_beside [OF m(1) oTF e1 [unfolded cells_addrs [of _ lk]]])+
  have uin: "TS_list ?f us \<in> set ss" using u(1) ud(1) by simp
  obtain m2 ts where m2: "walk_safe n p ?f (clone_into (C (T_class c')) q ?f) (case map root us of [] \<Rightarrow> None | a # _ \<Rightarrow> Some a) m1 = (Inr (), m2)"
    "evolves m1 (addrs (?T [])) (cells_of (?T ([] @ ts)) lk) m2" "list_all2 (like K (T_class c')) us ts"
    using walk_clones [OF C uin dis(2) l1 all_ok_evolves [OF m(2) e1] o1 dT append_Nil [symmetric] ud(2,3)] by blast
  have px: "ocells m1 p = Some (obj_cell cs ls (fields_of ss))" "fields_of ss ?f = S_list (map root us)"
    using o1 fields_of_nth [OF dis(2) uin] by (simp_all add: owns_append owns_Cons)
  have "evolves m (addrs (?T ds)) (cells_of (?T ts) lk) m2"
    using evolves_trans [OF m(1) oT cells_addrs e1 cells_addrs m2(2)] by simp
  then have e: "evolves m (addrs (TR_obj q c (xs @ s # ys))) (cells_of (?T ts) lk) m2"
    by (subst sd(1))
  have "map content ts = map content us" "\<forall>t \<in> set ts. wt K t (T_class c') \<and> complete K t"
    using m2(3) by (induction rule: list_all2_induct) (simp_all add: like_def)
  then have "copied K (F_listed c') u (TS_list ?f ts)" by (subst ud(1)) (simp add: copied_def)
  moreover have "run_copy n D C Y (Some p) (Some q) (Copy_list c' ?f) m = (Inr (), m2)"
    unfolding run_copy.simps option.sel using m1(1) m2(1) for_each_safe_app [OF x] for_each_safe_app [OF px(1), of ?f "map root us"] px(2)
    by (simp add: act_then_def act_bind_def [of "for_each_safe n (Some q) ?f (\<lambda>a. D (T_class c') (Some a))"])
  ultimately show ?thesis using e by (intro exI [of _ m2] exI [of _ "TS_list ?f ts"]) simp
qed

section \<open>Copying and cloning objects\<close>

lemma copy_one:
  assumes D: "\<And>ty. destroys K (D ty) ty n" and C: "\<And>ty. clones K (C ty) ty b n" and Y: "\<And>ty. copies K (Y ty) ty b n"
    and B: "\<And>c'. d = F_listed c' \<Longrightarrow> drops_first K c' n q (fname s) (\<lambda>a. D (T_class c') (Some a))"
    and m: "live m" "all_ok m" "owns m (cells_of (TR_obj q c (xs @ s # ys)) lk @ cells_of (TR_obj p cs ss) ls)"
    and dis: "distinct (map fname (xs @ s # ys))" "distinct (map fname ss)"
    and u: "u \<in> set ss" "fname u = fname s" "slot_wt K u (Some d)" "slot_complete K u (Some d)" "size u + b \<le> Suc n"
    and s: "slot_wt K s (Some d)" "size s \<le> Suc n" "slot_complete K s (Some d)"
  shows "\<exists>m' s'. run_all (run_copy n D C Y (Some p) (Some q)) (copy_of (fname s, d)) m = (Inr (), m') \<and>
    fname s' = fname s \<and> patched K d u s s' \<and>
    evolves m (addrs (TR_obj q c (xs @ s # ys))) (cells_of (TR_obj q c (xs @ s' # ys)) lk) m'"
proof -
  have oT: "owns m (cells_of (TR_obj q c (xs @ s # ys)) lk)" and oF: "owns m (cells_of (TR_obj p cs ss) ls)"
    using m(3) by (simp_all only: owns_append)
  have p: "ocells m p = Some (obj_cell cs ls (fields_of ss))" using oF by (simp add: owns_Cons)
  have up: "obj_fields \<lparr>obj_class = cs, obj_refcount = 1, obj_link = ls, obj_fields = fields_of ss\<rparr> (fname s) = slot_of u"
    using fields_of_nth [OF dis(2) u(1)] u(2) by simp
  have last: "act_then f (ret ()) m = (Inr (), m')" if "f m = (Inr (), m')" for f m'
    using that by (simp add: act_then_def act_bind_def ret_def)
  have plain: "\<exists>m'. set_slot (Some q) (fname s) (slot_of u) m = (Inr (), m') \<and>
      evolves m (addrs (TR_obj q c (xs @ s # ys))) (cells_of (TR_obj q c (xs @ u # ys)) lk) m'"
    if i: "d = F_int \<or> d = F_optional"
  proof -
    have "slot_cells s q = []" using i s(1) by (cases s) auto
    moreover have "slot_cells u q = []" using i u(3) by (cases u) auto
    ultimately show ?thesis by (rule set_plain [OF m(1) oT _ _ u(2) dis(1)])
  qed
  show ?thesis
  proof (cases d)
    case (F_ptr ty)
    then show ?thesis using copy_ptr_slot [where D = D and C = C and Y = Y and ty = ty, OF D C m dis u(1,2) _ _ u(5) _ s(2)] u(3,4) s(1) last
      copied_patched [of K d u _ s] by fastforce
  next
    case (F_required ty)
    then show ?thesis using copy_required_slot [where D = D and C = C and Y = Y and ty = ty, OF Y m dis u(1,2) _ _ u(5) _ s(2)] u(3,4) s(1,3) last by fastforce
  next
    case (F_listed c')
    then show ?thesis using copy_list_slot [where D = D and C = C and Y = Y and c' = c', OF B C m dis u(1,2) _ _ u(5) _ s(2)] u(3,4) s(1) last
      copied_patched [of K d u _ s] by fastforce
  next
    case F_int
    then obtain v where v: "u = TS_int (fname s) v" using u(2,3) by (cases u) auto
    have g: "get_int (Some p) (fname s) m = (Inr v, m)"
      by (rule get_field_app(2) [OF p]) (use up v in \<open>metis slot_of.simps(3)\<close>)
    obtain m' where "set_slot (Some q) (fname s) (slot_of u) m = (Inr (), m')"
      "evolves m (addrs (TR_obj q c (xs @ s # ys))) (cells_of (TR_obj q c (xs @ u # ys)) lk) m'"
      using plain F_int by blast
    moreover have "slot_of u = S_int v" by (subst v) simp
    ultimately show ?thesis using u(2-4) g
      by (intro exI [of _ m'] exI [of _ u]) (simp add: F_int patched_def slot_overlay_plain act_then_def act_bind_def ret_def)
  next
    case F_optional
    then obtain b v where v: "u = TS_opt (fname s) b v" using u(2,3) by (cases u) auto
    have g: "get_opt (Some p) (fname s) m = (Inr (b, v), m)"
      by (rule get_field_app(3) [OF p]) (use up v in \<open>metis slot_of.simps(4)\<close>)
    obtain m' where "set_slot (Some q) (fname s) (slot_of u) m = (Inr (), m')"
      "evolves m (addrs (TR_obj q c (xs @ s # ys))) (cells_of (TR_obj q c (xs @ u # ys)) lk) m'"
      using plain F_optional by blast
    moreover have "slot_of u = S_opt b v" by (subst v) simp
    ultimately show ?thesis using u(2-4) g
      by (intro exI [of _ m'] exI [of _ u]) (simp add: F_optional patched_def slot_overlay_plain act_then_def act_bind_def ret_def)
  next
    case F_ignored
    then obtain v w where v: "u = TS_ignored (fname s) v" and w: "s = TS_ignored (fname s) w"
      using u(2,3) s(1) by (cases u; cases s) auto
    have "copied K d u s" unfolding F_ignored copied_def by (subst (1 2 3) w, subst v) simp
    then have "patched K d u s s" by (rule copied_patched) (simp add: F_ignored)
    then show ?thesis using evolves_refl [OF oT] unfolding cells_addrs [of _ lk]
      by (intro exI [of _ m] exI [of _ s]) (simp add: F_ignored ret_def)
  qed
qed

lemma slot_content_name: "fname (slot_content s) = fname s"
  by (cases s) auto

lemma same_contents:
  assumes "map fname ss = map fname us" "distinct (map fname us)"
    and "\<And>s. s \<in> set ss \<Longrightarrow> slot_content s = g (slot_named us (fname s))"
  shows "map slot_content ss = map g us"
proof (rule nth_equalityI)
  show len: "length (map slot_content ss) = length (map g us)"
    using assms(1) by (metis length_map)
  fix i assume i: "i < length (map slot_content ss)"
  then have "fname (ss ! i) = fname (us ! i)" using assms(1) len by (metis length_map nth_map)
  then have "slot_named us (fname (ss ! i)) = us ! i" using assms(2) i len by (simp add: slot_named_in)
  then show "map slot_content ss ! i = map g us ! i" using assms(3) [of "ss ! i"] i len by simp
qed

context object_codes
begin

lemma clone_with:
  assumes Y: "copies K (Y c) (T_class c) bound n"
  shows "clones K (obj_clone_with K Y n c) (T_class c) bound n"
  unfolding clones_def
proof (intro allI impI)
  fix t lk m
  assume t: "wt K t (T_class c)" "complete K t" "size t + bound \<le> n" "live m" "all_ok m" "owns m (cells_of t lk)"
  have r: "rank c \<le> n" using rank_bound [of c] t(3) by linarith
  obtain u m1 where m1: "obj_new K n c m = (Inr (Some (root u), Inr ()), m1)" "evolves m [] (cells_of u None) m1"
    "wt K u (T_class c)" "blank K u" "size u \<le> n" "complete K u"
    using new_makes [OF r] t(4,5) r unfolding maker_of_def makes_def by (meson le_trans)
  have l1: "live m1" and o1: "owns m1 (cells_of u None @ cells_of t lk)"
    by (rule evolves_beside [of m "[]", OF t(4)], use t(6) m1(2) in simp_all)+
  obtain v m2 where m2: "Y c (Some (root t)) (Some (root u)) m1 = (Inr (), m2)"
    "evolves m1 (addrs u) (cells_of v None) m2" "root v = root u" "over K (T_class c) t u v"
    using copiesD [OF Y t(1) m1(3) t(2) m1(6) t(3) m1(5) l1 all_ok_evolves [OF t(5) m1(2)] o1]
    unfolding replaces_def by blast
  have "like K (T_class c) t v"
    using m2(4) ready_overlay(1) [OF blank_ready(1) [OF struct_distinct t(1) m1(3,4)]] by (simp add: over_def like_def)
  have "evolves m [] (cells_of v None) m2"
    by (rule evolves_trans [OF t(4) owns_Nil _ m1(2) cells_addrs m2(2)]) simp
  then show "makes (obj_clone_with K Y n c (Some (root t))) m (like K (T_class c) t)"
    using m1(1) m2 \<open>like K (T_class c) t v\<close> by (intro makesI [where t = v and m' = m2])
      (simp_all add: obj_clone_with_def act_bind_def act_try_def ret_def)
qed

lemma list_destroys_first: "(f, F_listed c') \<in> set (cc_struct (K c)) \<Longrightarrow>
    drops_first K c' n q f (\<lambda>a. leaf_destroy (T_class c') (obj_destroy K n) (Some a))"
  using destroy_drops_first [OF listed_linked] by (simp add: leaf_destroy_def)

lemma obj_copies: "copies K (obj_copy K n c) (T_class c) bound n"
proof (induction n arbitrary: c)
  case 0
  have "size t > 0" if "wt K t (T_class c)" for t using that by (cases t) auto
  then show ?case by (fastforce simp: copies_def)
next
  case (Suc n)
  let ?st = "cc_struct (K c)"
  let ?D = "\<lambda>t. leaf_destroy t (obj_destroy K n)" and ?Y = "\<lambda>t. leaf_copy t (obj_copy K n)"
    and ?C = "\<lambda>t. leaf_clone t (obj_clone_with K (obj_copy K n) n)"
  have D: "destroys K (?D ty) ty n" for ty by (rule leaf_destroys) (rule obj_destroys)
  have C: "clones K (?C ty) ty bound n" for ty by (rule leaf_clones) (rule clone_with, rule Suc.IH)
  have Y: "copies K (?Y ty) ty bound n" for ty by (rule leaf_copies) (rule Suc.IH)
  show ?case unfolding copies_def
  proof (intro allI impI)
    fix t u m lt lu
    assume a: "wt K t (T_class c)" "wt K u (T_class c)" "complete K t" "complete K u" "size t + bound \<le> Suc n"
      "size u \<le> Suc n" "live m" "all_ok m" "owns m (cells_of u lu @ cells_of t lt)"
    obtain p ss where t: "t = TR_obj p c ss" using a(1) by (cases t) auto
    obtain q us where u: "u = TR_obj q c us" using a(2) by (cases u) auto
    let ?N = "slot_named ss"
    let ?P = "\<lambda>s d. (fname s, d) \<in> set ?st \<and> slot_wt K s (Some d) \<and> size s \<le> Suc n \<and> slot_complete K s (Some d) \<and>
      slot_wt K (?N (fname s)) (Some d) \<and> slot_complete K (?N (fname s)) (Some d)"
    note ds = wt_slots(1) [OF a(1) [unfolded t]] and du = wt_slots(1) [OF a(2) [unfolded u]]
    have nm: "map fname ss = map fst ?st" "map fname us = map fst ?st" using a(1,2) by (simp_all add: t u)
    note named = wt_named [OF nm(1) struct_distinct]
    have step: "\<exists>m' s'. run_all (run_copy n ?D ?C ?Y (Some p) (Some q)) (copy_of (fname s, d)) m = (Inr (), m') \<and>
        fname s' = fname s \<and> patched K d (?N (fname s)) s s' \<and>
        evolves m (addrs (TR_obj q c (xs @ s # ys))) (cells_of (TR_obj q c (xs @ s' # ys)) lu) m'"
      if x: "live m" "all_ok m" "owns m (cells_of (TR_obj q c (xs @ s # ys)) lu @ cells_of t lt)"
        "distinct (map fname (xs @ s # ys))" "?P s d" for m xs s ys d
    proof (rule copy_one [OF D C Y _ x(1,2) x(3) [unfolded t] x(4) ds named])
      show "drops_first K c' n q (fname s) (\<lambda>a. ?D (T_class c') (Some a))" if "d = F_listed c'" for c'
        using list_destroys_first x(5) that by blast
      show f: "fname s \<in> fst ` set ?st" "fname s \<in> fst ` set ?st" using x(5) by force+
      show "size (?N (fname s)) + bound \<le> Suc n"
        using size_list_le [OF named(1) [OF f(1)], of size] a(5) by (simp add: t)
    qed (use x(5) in auto)
    have P: "list_all2 (\<lambda>s (f, d). fname s = f \<and> ?P s d) us ?st"
    proof (rule list_all2I)
      show "length us = length ?st" using nm(2) by (metis length_map)
      show "\<forall>x \<in> set (zip us ?st). case x of (s, f, d) \<Rightarrow> fname s = f \<and> ?P s d"
      proof clarify
        fix s f d assume z: "(s, f, d) \<in> set (zip us ?st)"
        have s: "fname s = f" "slot_wt K s (Some d)"
          using z wt_slots(2) [OF a(2) [unfolded u]] by (auto simp: list_all2_iff)
        have i: "s \<in> set us" "(f, d) \<in> set ?st" by (rule set_zip_leftD [OF z], rule set_zip_rightD [OF z])
        have d: "map_of ?st f = Some d" by (rule map_of_is_SomeI [OF struct_distinct i(2)])
        have n: "?N f \<in> set ss" "fname (?N f) = f" using named [of f] i(2) by force+
        have "slot_wt K (?N f) (Some d)" "slot_complete K (?N f) (Some d)"
          using a(1,3) n d by (auto simp: t)
        moreover have "slot_complete K s (Some d)" using a(4) i(1) s(1) d by (auto simp: u)
        moreover have "size s \<le> Suc n" using size_list_le [OF i(1), of size] a(6) by (simp add: u)
        ultimately show "fname s = f \<and> ?P s d" using s i(2) by simp
      qed
    qed
    have o0: "owns m (cells_of (TR_obj q c ([] @ us)) lu @ cells_of t lt)"
      using a(9) by (simp only: u append_Nil)
    have d0: "distinct (map fname ([] @ us))" using du by simp
    obtain m' ss' where r: "run_all (run_copy n ?D ?C ?Y (Some p) (Some q)) (concat (map copy_of ?st)) m = (Inr (), m')"
      "map fname ss' = map fname us" "list_all2 (\<lambda>(s, (f, d)) s'. patched K d (?N (fname s)) s s') (zip us ?st) ss'"
      "evolves m (addrs (TR_obj q c ([] @ us))) (cells_of (TR_obj q c ([] @ ss')) lu) m'"
      using slots_loop [where P = ?P and Q = "\<lambda>s d s'. patched K d (?N (fname s)) s s'" and g = copy_of,
          OF step a(7,8) o0 d0 P] by blast
    have all: "\<exists>d. map_of ?st (fname s') = Some d \<and> patched K d (?N (fname s')) (slot_named us (fname s')) s'"
      if "s' \<in> set ss'" for s'
      using slots_loop_all [OF struct_distinct nm(2) _ r(3) that] nm(2) r(2) slot_named_in [OF du] by (metis (no_types, lifting))
    let ?g = "\<lambda>s. slot_overlay K s (map_of ?st (fname s)) (slot_named us (fname s))"
    have "slot_content s' = ?g (?N (fname s'))" if "s' \<in> set ss'" for s'
    proof -
      have "fname s' \<in> fst ` set ?st" by (rule named_field [OF _ that]) (simp add: r(2) nm)
      then show ?thesis using all [OF that] named(2) by (auto simp: patched_def)
    qed
    then have "map slot_content ss' = map ?g ss"
      by (intro same_contents [OF _ ds]) (use r(2) nm in simp)
    moreover have "\<forall>s' \<in> set ss'. slot_wt K s' (map_of ?st (fname s')) \<and> slot_complete K s' (map_of ?st (fname s'))"
      using all by (force simp: patched_def)
    ultimately have "over K (T_class c) t u (TR_obj q c ss')" using r(2) nm by (simp add: over_def t u)
    moreover have "obj_copy K (Suc n) c (Some (root t)) (Some (root u)) m = (Inr (), m')"
      using r(1) codes_regular [of c] by (simp add: t u regular_def)
    ultimately show "replaces (obj_copy K (Suc n) c (Some (root t)) (Some (root u))) m u lu (over K (T_class c) t u)"
      using r(4) by (intro replacesI [where u = "TR_obj q c ss'" and m' = m']) (simp_all add: u)
  qed
qed

lemma obj_clones: "clones K (obj_clone K n c) (T_class c) bound n"
  unfolding obj_clone_def by (rule clone_with) (rule obj_copies)

end

end
