(* ===== verification/ObjCompare.thy ===== *)
theory ObjCompare
  imports ObjCopy
begin

text \<open>
  Comparison of whole objects: the compare functions return zero exactly for objects that are the
  \<open>same\<close>, and change nothing. Two trees with equal contents are the same; the converse fails for
  times, which are compared as instants, and for strings, which are compared up to the first NUL.
\<close>

section \<open>When two trees are the same\<close>

fun payload_same :: "nat \<Rightarrow> payload \<Rightarrow> payload \<Rightarrow> bool" where
  "payload_same n (P_val u) (P_val v) \<longleftrightarrow> take n (union_bytes u) = take n (union_bytes v)"
| "payload_same n (P_buf a s) (P_buf b t) \<longleftrightarrow> s = t"
| "payload_same n (P_time a x y z) (P_time b x' y' z') \<longleftrightarrow> x + z = x' + z' \<and> y = y'"
| "payload_same n _ _ \<longleftrightarrow> False"

fun same :: "tree \<Rightarrow> tree \<Rightarrow> bool" and slot_same :: "tslot \<Rightarrow> tslot \<Rightarrow> bool"
and slots_same :: "tslot list \<Rightarrow> tslot list \<Rightarrow> bool" and trees_same :: "tree list \<Rightarrow> tree list \<Rightarrow> bool" where
  "same (TR_string a s b) u \<longleftrightarrow> (case u of
     TR_string a' s' b' \<Rightarrow> length s = length s' \<and> cstr s = cstr s' | _ \<Rightarrow> False)"
| "same (TR_time a x y z) u \<longleftrightarrow> (case u of TR_time a' x' y' z' \<Rightarrow> x + z = x' + z' \<and> y = y' | _ \<Rightarrow> False)"
| "same (TR_data a w k n pl) u \<longleftrightarrow> (case u of
     TR_data a' w' k' n' pl' \<Rightarrow> k = k' \<and> n = n' \<and> payload_same n pl pl' | _ \<Rightarrow> False)"
| "same (TR_obj a c ss) u \<longleftrightarrow> (case u of TR_obj a' c' us \<Rightarrow> slots_same ss us | _ \<Rightarrow> False)"
| "slot_same (TS_null f) v \<longleftrightarrow> (case v of TS_null g \<Rightarrow> True | _ \<Rightarrow> False)"
| "slot_same (TS_ptr f t) v \<longleftrightarrow> (case v of TS_ptr g u \<Rightarrow> same t u | _ \<Rightarrow> False)"
| "slot_same (TS_int f x) v \<longleftrightarrow> (case v of TS_int g y \<Rightarrow> x = y | _ \<Rightarrow> False)"
| "slot_same (TS_opt f b x) v \<longleftrightarrow> (case v of TS_opt g b' y \<Rightarrow> b = b' \<and> (b \<longrightarrow> x = y) | _ \<Rightarrow> False)"
| "slot_same (TS_list f ts) v \<longleftrightarrow> (case v of TS_list g us \<Rightarrow> trees_same ts us | _ \<Rightarrow> False)"
| "slot_same (TS_ignored f x) v \<longleftrightarrow> (case v of TS_ignored g y \<Rightarrow> True | _ \<Rightarrow> False)"
| "slot_same (TS_head0 f) v \<longleftrightarrow> (case v of TS_head0 g \<Rightarrow> True | _ \<Rightarrow> False)"
| "slots_same [] vs \<longleftrightarrow> vs = []"
| "slots_same (s # ss) vs \<longleftrightarrow> (case vs of v # vs' \<Rightarrow> slot_same s v \<and> slots_same ss vs' | [] \<Rightarrow> False)"
| "trees_same [] us \<longleftrightarrow> us = []"
| "trees_same (t # ts) us \<longleftrightarrow> (case us of u # us' \<Rightarrow> same t u \<and> trees_same ts us' | [] \<Rightarrow> False)"

lemma payload_same_content: "payload_content p = payload_content q \<Longrightarrow> payload_same n p q"
  by (cases p; cases q) auto

lemma slot_content_eq:
  "TS_null f = slot_content v \<longleftrightarrow> v = TS_null f"
  "TS_int f x = slot_content v \<longleftrightarrow> v = TS_int f x"
  "TS_opt f b x = slot_content v \<longleftrightarrow> v = TS_opt f b x"
  "TS_head0 f = slot_content v \<longleftrightarrow> v = TS_head0 f"
  by (cases v; auto)+

lemma same_content:
  "content t = content u \<Longrightarrow> same t u"
  "slot_content s = slot_content v \<Longrightarrow> slot_same s v"
  "map slot_content ss = map slot_content vs \<Longrightarrow> slots_same ss vs"
  "map content ts = map content us \<Longrightarrow> trees_same ts us"
  by (induction t u and s v and ss vs and ts us rule: same_slot_same_slots_same_trees_same.induct)
    (auto intro: payload_same_content simp: slot_content_eq split: tree.splits tslot.splits list.splits)

section \<open>Comparing strings, times and data\<close>

definition compares :: "codes \<Rightarrow> (addr option \<Rightarrow> addr option \<Rightarrow> int act) \<Rightarrow> ty \<Rightarrow> nat \<Rightarrow> bool" where
  "compares K R ty n \<longleftrightarrow>
     (0 < n \<longrightarrow> (\<forall>m. R None None m = (Inr 0, m)) \<and>
       (\<forall>a m. (\<exists>r. R (Some a) None m = (Inr r, m) \<and> r \<noteq> 0) \<and> (\<exists>r. R None (Some a) m = (Inr r, m) \<and> r \<noteq> 0))) \<and>
     (\<forall>t u m lt lu. wt K t ty \<longrightarrow> wt K u ty \<longrightarrow> size t \<le> n \<longrightarrow> owns m (cells_of t lt) \<longrightarrow> owns m (cells_of u lu) \<longrightarrow>
       (\<exists>r. R (Some (root t)) (Some (root u)) m = (Inr r, m) \<and> (r = 0 \<longleftrightarrow> same t u)))"

lemma str_compare_decides:
  assumes "owns m (cells_of (TR_string a s b) la)" "owns m (cells_of (TR_string d t c) ld)"
  shows "\<exists>r. str_compare (Some a) (Some d) m = (Inr r, m) \<and> (r = 0 \<longleftrightarrow> same (TR_string a s b) (TR_string d t c))"
  using assms by (auto simp: owns_Cons str_compare_def act_simps cstr_def)

lemma time_compare_decides:
  assumes "ocells m a = Some (time_cell x y z)" "ocells m d = Some (time_cell x' y' z')"
  shows "\<exists>r. time_compare (Some a) (Some d) m = (Inr r, m) \<and> (r = 0 \<longleftrightarrow> x + z = x' + z' \<and> y = y')"
  using assms by (simp add: time_compare_def act_simps time_order_def Let_def)

lemma mem_order_zero: "length s = length t \<Longrightarrow> mem_order s t = 0 \<longleftrightarrow> s = t"
proof (induction s t rule: list_induct2)
  case (Cons c s d t)
  then show ?case by (auto simp: mem_order_def split: option.splits)
qed (simp add: mem_order_def)

lemma data_compare_decides:
  assumes "owns m (cells_of (TR_data a w k n pl) la)" "owns m (cells_of (TR_data d w' k' n' pl') ld)"
    and "payload_ok w k n pl" "payload_ok w' k' n' pl'"
  shows "\<exists>r. data_compare (Some a) (Some d) m = (Inr r, m) \<and>
    (r = 0 \<longleftrightarrow> same (TR_data a w k n pl) (TR_data d w' k' n' pl'))"
proof (cases "n = n' \<and> k = k'")
  case False
  have c: "ocells m a = Some (data_cell w k n (payload_union pl))" "ocells m d = Some (data_cell w' k' n' (payload_union pl'))"
    using assms(1,2) by (simp_all add: owns_Cons)
  show ?thesis using False by (auto simp: data_compare_def act_bind_def load_simps(4) [OF c(1)] load_simps(4) [OF c(2)] ret_def)
next
  case True
  have c: "ocells m a = Some (data_cell w k n (payload_union pl))" "ocells m d = Some (data_cell w' k' n' (payload_union pl'))"
    using assms(1,2) by (simp_all add: owns_Cons)
  note d = data_compare_def act_bind_def load_simps(4) [OF c(1)] load_simps(4) [OF c(2)] ret_def
  show ?thesis
  proof (cases pl)
    case (P_val u)
    then obtain v where "pl' = P_val v" using assms(3,4) True by (cases pl') (auto simp: payload_ok_def)
    then show ?thesis using P_val assms(3,4) True by (auto simp: d payload_ok_def mem_order_zero Let_def)
  next
    case (P_buf b s)
    then obtain b' s' where p: "pl' = P_buf b' s'"
      using assms(3,4) True by (cases pl') (auto simp: payload_ok_def is_buffer_type_def)
    have "ocells m b = Some (C_buf False s)" "ocells m b' = Some (C_buf False s')"
      using assms(1,2) P_buf p by (auto simp: owns_Cons)
    then show ?thesis using P_buf p assms(3,4) True
      by (auto simp: d payload_ok_def is_buffer_type_def union_ptr_def load_simps(5) mem_order_zero)
  next
    case (P_time b x y z)
    then obtain b' x' y' z' where p: "pl' = P_time b' x' y' z'"
      using assms(3,4) True by (cases pl') (auto simp: payload_ok_def is_buffer_type_def)
    have "ocells m b = Some (time_cell x y z)" "ocells m b' = Some (time_cell x' y' z')"
      using assms(1,2) P_time p by (auto simp: owns_Cons)
    from time_compare_decides [OF this] show ?thesis using P_time p assms(3,4) True
      by (auto simp: d payload_ok_def union_ptr_def)
  qed
qed

lemma wt_timeE: "wt K t T_time \<Longrightarrow> (\<And>a x y z. t = TR_time a x y z \<Longrightarrow> P) \<Longrightarrow> P"
  by (cases t) auto

lemma wt_stringE: "wt K t T_string \<Longrightarrow> (\<And>a s b. t = TR_string a s b \<Longrightarrow> P) \<Longrightarrow> P"
  by (cases t) auto

lemma wt_dataE: "wt K t T_data \<Longrightarrow>
    (\<And>a w k n pl. t = TR_data a w k n pl \<Longrightarrow> payload_ok w k n pl \<Longrightarrow> P) \<Longrightarrow> P"
  by (cases t) auto

lemma leaf_compares:
  assumes "\<And>c. compares K (rec c) (T_class c) n" "0 < n"
  shows "compares K (leaf_compare ty rec) ty n"
proof (cases ty)
  case (T_class c)
  have "leaf_compare ty rec = rec c" by (rule ext)+ (simp add: T_class leaf_compare_def)
  then show ?thesis using assms(1) [of c] T_class by simp
next
  case T_string
  show ?thesis unfolding compares_def T_string
  proof (intro conjI allI impI)
    fix t u m lt lu assume "wt K t T_string" "wt K u T_string" "owns m (cells_of t lt)" "owns m (cells_of u lu)"
    then show "\<exists>r. leaf_compare T_string rec (Some (root t)) (Some (root u)) m = (Inr r, m) \<and> (r = 0 \<longleftrightarrow> same t u)"
      by (elim wt_stringE) (simp only: leaf_compare_def ty.case root.simps str_compare_decides)
  qed (simp_all add: leaf_compare_def str_compare_def ret_def)
next
  case T_time
  show ?thesis unfolding compares_def T_time
  proof (intro conjI allI impI)
    fix t u m lt lu assume "wt K t T_time" "wt K u T_time" "owns m (cells_of t lt)" "owns m (cells_of u lu)"
    then show "\<exists>r. leaf_compare T_time rec (Some (root t)) (Some (root u)) m = (Inr r, m) \<and> (r = 0 \<longleftrightarrow> same t u)"
      by (elim wt_timeE) (simp add: leaf_compare_def owns_Cons time_compare_decides)
  qed (simp_all add: leaf_compare_def time_compare_def ret_def)
next
  case T_data
  show ?thesis unfolding compares_def T_data
  proof (intro conjI allI impI)
    fix t u m lt lu assume "wt K t T_data" "wt K u T_data" "owns m (cells_of t lt)" "owns m (cells_of u lu)"
    then show "\<exists>r. leaf_compare T_data rec (Some (root t)) (Some (root u)) m = (Inr r, m) \<and> (r = 0 \<longleftrightarrow> same t u)"
      by (elim wt_dataE) (simp only: leaf_compare_def ty.case root.simps data_compare_decides)
  qed (simp_all add: leaf_compare_def data_compare_def ret_def)
qed

section \<open>Comparing objects\<close>

lemma comparesD:
  assumes "compares K R ty n" "wt K t ty" "wt K u ty" "size t \<le> n" "owns m (cells_of t lt)" "owns m (cells_of u lu)"
  shows "\<exists>r. R (Some (root t)) (Some (root u)) m = (Inr r, m) \<and> (r = 0 \<longleftrightarrow> same t u)"
  using assms unfolding compares_def by blast

lemma compares_None:
  assumes "compares K R ty n" "0 < n"
  shows "R None None m = (Inr 0, m)" "\<exists>r. R (Some a) None m = (Inr r, m) \<and> r \<noteq> 0"
    "\<exists>r. R None (Some a) m = (Inr r, m) \<and> r \<noteq> 0"
  using assms unfolding compares_def by blast+

lemma compare_walk_decides:
  assumes R: "compares K R (T_class c) n" "0 < n"
  shows "(\<And>t. t \<in> set ts \<Longrightarrow> wt K t (T_class c) \<and> size t \<le> n \<and> owns m (cells_of t lt)) \<Longrightarrow>
    (\<And>u. u \<in> set us \<Longrightarrow> wt K u (T_class c) \<and> owns m (cells_of u lu)) \<Longrightarrow>
    \<exists>r. compare_walk R (map root ts) (map root us) m = (Inr r, m) \<and> (r = 0 \<longleftrightarrow> trees_same ts us)"
proof (induction ts arbitrary: us)
  case Nil
  then show ?case using compares_None(1,3) [OF R] by (cases us) auto
next
  case (Cons t ts)
  show ?case
  proof (cases us)
    case Nil
    then show ?thesis using compares_None(2) [OF R] by auto
  next
    case (Cons u us')
    obtain r where r: "R (Some (root t)) (Some (root u)) m = (Inr r, m)" "r = 0 \<longleftrightarrow> same t u"
      using comparesD [OF R(1), of t u m lt lu] Cons.prems(1) [of t] Cons.prems(2) [of u] Cons by auto
    obtain r' where r': "compare_walk R (map root ts) (map root us') m = (Inr r', m)" "r' = 0 \<longleftrightarrow> trees_same ts us'"
      using Cons.IH [of us'] Cons.prems Cons by auto
    show ?thesis using r r' Cons by (auto simp: act_bind_def ret_def)
  qed
qed

lemma compare_one:
  assumes R: "\<And>ty. compares K (R ty) ty n" "0 < n"
    and o: "owns m (cells_of (TR_obj p c ss) lp)" "owns m (cells_of (TR_obj q c us) lq)"
    and dis: "distinct (map fname ss)" "distinct (map fname us)"
    and s: "s \<in> set ss" "u \<in> set us" "fname s = f" "fname u = f" "slot_wt K s (Some d)" "slot_wt K u (Some d)"
      "size s \<le> Suc n"
  shows "\<exists>r. run_compares (run_compare R (Some p) (Some q)) (compare_of (f, d)) m = (Inr r, m) \<and>
    (r = 0 \<longleftrightarrow> slot_same s u)"
proof -
  have p: "ocells m p = Some (obj_cell c lp (fields_of ss))" "ocells m q = Some (obj_cell c lq (fields_of us))"
    using o by (simp_all add: owns_Cons)
  have f: "fields_of ss f = slot_of s" "fields_of us f = slot_of u"
    using fields_of_nth [OF dis(1) s(1)] fields_of_nth [OF dis(2) s(2)] s(3,4) by simp_all
  note g = get_field_app [OF p(1)] get_field_app [OF p(2)]
  note os = owned_slot [OF o(1) s(1)] owned_slot [OF o(2) s(2)]
  have one: "run_compares run [x] m = (Inr r, m)" if "run x m = (Inr r, m)" for run :: "compare_step \<Rightarrow> int act" and x r
    using that by (simp add: act_bind_def ret_def)
  have ptr: "\<exists>r. run_compare R (Some p) (Some q) (Compare_ptr ty f) m = (Inr r, m) \<and> (r = 0 \<longleftrightarrow> slot_same s u)"
    if "d = F_ptr ty \<or> d = F_required ty" for ty
  proof -
    note N = compares_None [OF R(1) [of ty] R(2)]
    have "(\<exists>t. s = TS_ptr f t \<and> wt K t ty) \<or> s = TS_null f" using that s(3,5) by (cases s) auto
    moreover have "(\<exists>t. u = TS_ptr f t \<and> wt K t ty) \<or> u = TS_null f" using that s(4,6) by (cases u) auto
    ultimately consider (pp) t v where "s = TS_ptr f t" "wt K t ty" "u = TS_ptr f v" "wt K v ty"
      | (pn) t where "s = TS_ptr f t" "u = TS_null f" | (np) t where "s = TS_null f" "u = TS_ptr f t"
      | (nn) "s = TS_null f" "u = TS_null f" by blast
    then show ?thesis
    proof cases
      case pp
      have "\<exists>r. R ty (Some (root t)) (Some (root v)) m = (Inr r, m) \<and> (r = 0 \<longleftrightarrow> same t v)"
        by (rule comparesD [OF R(1) pp(2,4)]) (use s(7) os pp(1,3) in auto)
      then show ?thesis using f pp by (simp add: act_bind_def g)
    next
      case pn
      then show ?thesis using f N(2) [of "root t" m] by (auto simp: act_bind_def g)
    next
      case np
      then show ?thesis using f N(3) [of "root t" m] by (auto simp: act_bind_def g)
    next
      case nn
      then show ?thesis using f N(1) [of m] by (auto simp: act_bind_def g)
    qed
  qed
  show ?thesis
  proof (cases d)
    case (F_ptr ty)
    with ptr obtain r where "run_compare R (Some p) (Some q) (Compare_ptr ty f) m = (Inr r, m)" "r = 0 \<longleftrightarrow> slot_same s u"
      by blast
    then show ?thesis using F_ptr one by (metis compare_of.simps(1))
  next
    case (F_required ty)
    with ptr obtain r where "run_compare R (Some p) (Some q) (Compare_ptr ty f) m = (Inr r, m)" "r = 0 \<longleftrightarrow> slot_same s u"
      by blast
    then show ?thesis using F_required one by (metis compare_of.simps(2))
  next
    case F_int
    then obtain v w where "s = TS_int f v" "u = TS_int f w" using s(3-6) by (cases s; cases u) auto
    moreover from this f have "get_int (Some p) f m = (Inr v, m)" "get_int (Some q) f m = (Inr w, m)"
      by (simp_all add: g(2,6))
    ultimately show ?thesis by (simp add: F_int act_bind_def ret_def)
  next
    case F_optional
    then obtain b v b' w where "s = TS_opt f b v" "u = TS_opt f b' w" using s(3-6) by (cases s; cases u) auto
    moreover from this f have "get_opt (Some p) f m = (Inr (b, v), m)" "get_opt (Some q) f m = (Inr (b', w), m)"
      by (simp_all add: g(3,7))
    ultimately show ?thesis by (simp add: F_optional act_bind_def ret_def)
  next
    case F_ignored
    then obtain v w where "s = TS_ignored f v" "u = TS_ignored f w" using s(3-6) by (cases s; cases u) auto
    then show ?thesis by (simp add: F_ignored ret_def)
  next
    case (F_listed c')
    then obtain ts vs where l: "s = TS_list f ts" "u = TS_list f vs"
      and w: "\<forall>t \<in> set ts. wt K t (T_class c')" "\<forall>t \<in> set vs. wt K t (T_class c')"
      using s(3-6) by (cases s; cases u) auto
    have "size t \<le> n" if "t \<in> set ts" for t using size_list_le [OF that, of size] s(7) l(1) by simp
    then have "\<exists>r. compare_walk (R (T_class c')) (map root ts) (map root vs) m = (Inr r, m) \<and> (r = 0 \<longleftrightarrow> trees_same ts vs)"
      by (intro compare_walk_decides [where m = m and lt = "Some (p, f)" and lu = "Some (q, f)", OF R(1) R(2)])
        (use w os l owned_element in auto)
    moreover from f l have "get_list (Some p) f m = (Inr (map root ts), m)" "get_list (Some q) f m = (Inr (map root vs), m)"
      by (simp_all add: g(4,8))
    ultimately show ?thesis using l by (auto simp: F_listed act_bind_def ret_def)
  qed
qed

lemma size_list_less: "x \<in> set xs \<Longrightarrow> f x < size_list f xs"
  by (induction xs) auto

lemma run_compares_append: "run_compares run (xs @ ys) =
    act_bind (run_compares run xs) (\<lambda>r. if r \<noteq> 0 then ret r else run_compares run ys)"
  by (induction xs) (auto simp: fun_eq_iff act_bind_def ret_def split: sum.split prod.split)

lemma compare_slots:
  assumes step: "\<And>s u f d. s \<in> set ss \<Longrightarrow> u \<in> set us \<Longrightarrow> (f, d) \<in> set ds \<Longrightarrow> fname s = f \<Longrightarrow> fname u = f \<Longrightarrow>
      slot_wt K s (Some d) \<Longrightarrow> slot_wt K u (Some d) \<Longrightarrow>
      \<exists>r. run_compares run (compare_of (f, d)) m = (Inr r, m) \<and> (r = 0 \<longleftrightarrow> slot_same s u)"
    and "list_all2 (\<lambda>s (f, d). fname s = f \<and> slot_wt K s (Some d)) ss ds"
    and "list_all2 (\<lambda>s (f, d). fname s = f \<and> slot_wt K s (Some d)) us ds"
  shows "\<exists>r. run_compares run (concat (map compare_of ds)) m = (Inr r, m) \<and> (r = 0 \<longleftrightarrow> slots_same ss us)"
  using assms
proof (induction ds arbitrary: ss us)
  case (Cons fd ds)
  obtain f d where fd: "fd = (f, d)" by fastforce
  obtain s ss' where s: "ss = s # ss'" "fname s = f" "slot_wt K s (Some d)"
      "list_all2 (\<lambda>s (f, d). fname s = f \<and> slot_wt K s (Some d)) ss' ds"
    using Cons.prems(2) fd by (auto simp: list_all2_Cons2)
  obtain u us' where u: "us = u # us'" "fname u = f" "slot_wt K u (Some d)"
      "list_all2 (\<lambda>s (f, d). fname s = f \<and> slot_wt K s (Some d)) us' ds"
    using Cons.prems(3) fd by (auto simp: list_all2_Cons2)
  obtain r where r: "run_compares run (compare_of (f, d)) m = (Inr r, m)" "r = 0 \<longleftrightarrow> slot_same s u"
    using Cons.prems(1) [of s u f d] s u fd by auto
  have "\<exists>r. run_compares run (concat (map compare_of ds)) m = (Inr r, m) \<and> (r = 0 \<longleftrightarrow> slots_same ss' us')"
    by (rule Cons.IH [OF _ s(4) u(4)]) (rule Cons.prems(1), use s(1) u(1) in auto)
  then show ?case using r by (auto simp: fd s(1) u(1) run_compares_append act_bind_def ret_def)
qed (simp add: ret_def)

context object_codes
begin

lemma obj_compares: "compares K (obj_compare K n c) (T_class c) n"
proof (induction n arbitrary: c)
  case 0
  have "size t > 0" if "wt K t (T_class c)" for t using that by (cases t) auto
  then show ?case by (fastforce simp: compares_def)
next
  case (Suc n)
  show ?case unfolding compares_def
  proof (intro conjI allI impI)
    fix t u m lt lu
    assume a: "wt K t (T_class c)" "wt K u (T_class c)" "size t \<le> Suc n"
      "owns m (cells_of t lt)" "owns m (cells_of u lu)"
    obtain p ss where t: "t = TR_obj p c ss" using a(1) by (cases t) auto
    obtain q us where u: "u = TR_obj q c us" using a(2) by (cases u) auto
    let ?R = "\<lambda>t. leaf_compare t (obj_compare K n)"
    have step: "\<exists>r. run_compares (run_compare ?R (Some p) (Some q)) (compare_of (f, d)) m = (Inr r, m) \<and> (r = 0 \<longleftrightarrow> slot_same s v)"
      if x: "s \<in> set ss" "v \<in> set us" "fname s = f" "fname v = f" "slot_wt K s (Some d)" "slot_wt K v (Some d)" for s v f d
    proof -
      have n: "size s < n" using size_list_less [OF x(1), of size] a(3) by (simp add: t)
      have R: "compares K (?R ty) ty n" for ty by (rule leaf_compares [OF Suc.IH]) (use n in simp)
      show ?thesis
        by (rule compare_one [OF R _ a(4,5) [unfolded t u] wt_slots(1) [OF a(1) [unfolded t]] wt_slots(1) [OF a(2) [unfolded u]] x])
         (use n in auto)
    qed
    have "\<exists>r. run_compares (run_compare ?R (Some p) (Some q)) (concat (map compare_of (cc_struct (K c)))) m = (Inr r, m) \<and>
        (r = 0 \<longleftrightarrow> slots_same ss us)"
      by (rule compare_slots [OF step wt_slots(2) [OF a(1) [unfolded t]] wt_slots(2) [OF a(2) [unfolded u]]])
    then show "\<exists>r. obj_compare K (Suc n) c (Some (root t)) (Some (root u)) m = (Inr r, m) \<and> (r = 0 \<longleftrightarrow> same t u)"
      using codes_regular [of c] by (simp add: t u regular_def)
  qed (simp_all add: ret_def)
qed

end

end
