(* ===== verification/ObjLib.thy ===== *)
theory ObjLib
  imports TreeWrap ObjCompare
begin

text \<open>
  The generated classes of the library as an instance of the locale \<open>object_codes\<close>: every class
  follows its struct, the elements of lists have a link, and no required child contains an object
  of its own class.
\<close>

section \<open>Tables of the library\<close>

text \<open>A bound for the size of a new object, and the classes whose structs have a list member.\<close>

definition rank_table :: "(nat \<times> nat) list" where
  "rank_table =
     [(3, 6), (4, 5), (6, 7), (7, 3), (12, 3), (16, 6), (19, 7), (20, 5), (22, 6), (24, 4),
     (26, 6), (28, 4), (30, 3), (34, 6), (36, 4), (39, 6), (40, 4), (42, 6), (45, 6), (48, 12),
     (52, 8), (54, 4), (55, 4), (56, 3), (57, 2), (59, 6), (60, 3), (62, 6), (64, 8), (66, 8),
     (68, 5), (69, 4), (70, 5), (71, 4), (73, 8), (76, 23), (77, 6), (81, 21), (83, 16),
     (84, 4), (87, 14), (88, 4), (89, 7), (91, 12), (95, 12), (98, 16), (100, 6), (101, 4),
     (103, 4), (106, 11), (108, 7), (109, 16), (110, 9), (111, 9), (112, 13), (114, 6),
     (120, 23), (122, 18), (124, 5), (125, 3), (127, 24), (129, 22), (131, 12), (133, 27),
     (134, 3), (139, 32), (141, 11)]"

definition lib_rank :: "nat \<Rightarrow> nat" where
  "lib_rank c = (case map_of rank_table c of Some r \<Rightarrow> r | None \<Rightarrow> 1)"

abbreviation lib_bound :: nat where
  "lib_bound \<equiv> 32"

definition linked_ids :: "nat list" where
  "linked_ids =
     [3, 4, 6, 12, 16, 19, 20, 22, 24, 26, 28, 34, 39, 40, 42, 45, 48, 52, 54, 56, 57, 59, 62,
     64, 66, 69, 70, 71, 73, 76, 77, 81, 87, 91, 95, 98, 100, 106, 110, 112, 114, 120, 122,
     125, 127, 129, 131, 133, 139]"

lemmas class_codes =
  telephone_code_def certificate_code_def key_code_def observable_reference_code_def
  registry_handle_code_def time_impact_code_def record_pattern_code_def reference_code_def
  postal_address_code_def node_role_code_def incident_id_code_def
  alternative_indicator_id_code_def confidence_code_def system_impact_code_def
  software_reference_code_def business_impact_code_def indicator_reference_code_def
  email_code_def intended_impact_code_def additional_data_code_def counter_code_def
  monetary_impact_code_def service_name_code_def indicator_id_code_def
  signature_data_code_def address_code_def application_header_code_def
  certificate_data_code_def threat_actor_code_def method_code_def alternative_id_code_def
  software_code_def nameservers_code_def windows_registry_keys_modified_code_def
  campaign_code_def assessment_code_def attack_phase_code_def contact_code_def
  related_activity_code_def domain_contacts_code_def history_item_code_def
  fuzzy_hash_code_def hash_code_def detection_pattern_code_def expectation_code_def
  domain_data_code_def hash_data_code_def bulk_observable_format_code_def history_code_def
  discovery_code_def bulk_observable_code_def email_data_code_def file_code_def
  node_code_def service_code_def file_data_code_def system_code_def record_data_code_def
  record_code_def flow_code_def event_data_code_def observable_code_def
  indicator_expression_code_def indicator_code_def indicator_data_code_def incident_code_def
  document_code_def

lemma rank_table_max: "list_all (\<lambda>(c, r). 0 < r \<and> r \<le> lib_bound) rank_table"
  by (simp add: rank_table_def)

lemma rank_table_struct:
  "list_all (\<lambda>(c, k). Suc (size_list (new_weight lib_rank \<circ> snd) (cc_struct k)) \<le> lib_rank c) code_table"
  by (simp add: code_table_def class_codes class_structs lib_rank_def rank_table_def)

lemma code_table_linked: "list_all (\<lambda>(c, k). cc_linked k \<longleftrightarrow> c \<in> set linked_ids) code_table"
  by (simp add: code_table_def linked_ids_def class_codes)

lemma code_table_lists: "list_all (\<lambda>(c, k). list_all (\<lambda>(f, d). case d of
    F_listed c' \<Rightarrow> c' \<in> set linked_ids | _ \<Rightarrow> True) (cc_struct k)) code_table"
  by (simp add: code_table_def class_codes class_structs linked_ids_def)

lemma linked_ids_codes: "list_all (\<lambda>c. c \<in> fst ` set code_table) linked_ids"
  by (simp add: code_table_def linked_ids_def)

section \<open>The instance\<close>

lemma lib_codes_cases:
  obtains "map_of code_table c = None" "cc_struct (lib_codes c) = []" "regular (lib_codes c)"
  | k where "(c, k) \<in> set code_table" "lib_codes c = k"
proof (cases "map_of code_table c")
  case None
  then show ?thesis using that(1) by (simp add: lib_codes_def regular_def)
next
  case (Some k)
  then show ?thesis using that(2) [of k] map_of_SomeD [OF Some] by (simp add: lib_codes_def)
qed

lemma lib_codes_in: "(c, k) \<in> set code_table \<Longrightarrow> lib_codes c = k"
  using map_of_is_SomeI [OF code_table_distinct] by (simp add: lib_codes_def)

interpretation lib: object_codes lib_codes lib_rank lib_bound
proof
  fix c c' f
  show "regular (lib_codes c)"
    using code_table_regular by (cases c rule: lib_codes_cases) (auto simp: list_all_iff)
  show "Suc (size_list (new_weight lib_rank \<circ> snd) (cc_struct (lib_codes c))) \<le> lib_rank c"
  proof (cases c rule: lib_codes_cases)
    case 1
    have "0 < lib_rank c"
      using rank_table_max by (auto simp: lib_rank_def list_all_iff split: option.splits dest!: map_of_SomeD)
    then show ?thesis using 1(2) by simp
  next
    case (2 k)
    then show ?thesis using rank_table_struct by (auto simp: list_all_iff)
  qed
  show "lib_rank c \<le> lib_bound"
    using rank_table_max by (auto simp: lib_rank_def list_all_iff split: option.splits dest!: map_of_SomeD)
  assume "(f, F_listed c') \<in> set (cc_struct (lib_codes c))"
  then have "c' \<in> set linked_ids"
    using code_table_lists by (cases c rule: lib_codes_cases) (fastforce simp: list_all_iff)+
  then obtain k where k: "(c', k) \<in> set code_table" using linked_ids_codes by (auto simp: list_all_iff)
  then show "cc_linked (lib_codes c')"
    using code_table_linked \<open>c' \<in> set linked_ids\<close> by (auto simp: list_all_iff lib_codes_in)
qed

end
