(* ===== verification/Documents.thy ===== *)
theory Documents
  imports ObjLib ObjAccess
begin

text \<open>
  What the generated functions of iodefv2-tree-wrap.c do with whole documents, for every class of
  the library: creation, destruction, cloning, copying and comparison, over the trees of theory
  ObjTree. A number \<open>n\<close> is the fuel of a call; the size of the tree, plus \<open>lib_bound\<close> where new
  objects are made, is always enough.
\<close>

section \<open>A sample document\<close>

text \<open>An \<open>AlternativeID\<close> with one \<open>IncidentID\<close>, at the addresses from \<open>b\<close> on.\<close>

definition sample :: "addr \<Rightarrow> tree" where
  "sample b = TR_obj b 68 [TS_opt ''restriction'' True 3, TS_null ''ext_restriction'',
     TS_list ''incident_id_list'' [TR_obj (b + 1) 26 [TS_null ''instance'', TS_null ''ext_restriction'',
       TS_ptr ''name'' (TR_string (b + 2) ''csirt'' True), TS_opt ''restriction'' False 0]]]"

definition empty_sample :: "addr \<Rightarrow> tree" where
  "empty_sample b = TR_obj b 68 [TS_opt ''restriction'' False 0, TS_null ''ext_restriction'',
     TS_list ''incident_id_list'' []]"

definition sample_mem :: "tree list \<Rightarrow> omem" where
  "sample_mem ts = \<lparr>ocells = map_of (concat (map (\<lambda>t. cells_of t None) ts)), onext = 20, obj_alloc_ok = (\<lambda>_. True)\<rparr>"

lemma sample_codes: "lib_codes 68 = alternative_id_code" "lib_codes 26 = incident_id_code"
  by (simp_all add: lib_codes_def code_table_def)

lemmas sample_simps = sample_def empty_sample_def sample_codes alternative_id_code_def
  alternative_id_struct_def incident_id_code_def incident_id_struct_def

lemma sample_ok:
  "wt lib_codes (sample b) (T_class 68)" "complete lib_codes (sample b)" "size (sample b) \<le> 20"
  "wt lib_codes (empty_sample b) (T_class 68)" "complete lib_codes (empty_sample b)" "size (empty_sample b) \<le> 20"
  "ready lib_codes (sample b) (empty_sample c)"
  by (simp_all add: sample_simps slot_named_def)

lemma sample_owned:
  "owns (sample_mem [sample 0]) (cells_of (sample 0) None)"
  "owns (sample_mem [empty_sample 5, sample 0]) (cells_of (empty_sample 5) None @ cells_of (sample 0) None)"
  by (simp_all add: owns_def sample_mem_def sample_def empty_sample_def)

lemma sample_live:
  "live (sample_mem [sample 0])" "all_ok (sample_mem ts)" "live (sample_mem [empty_sample 5, sample 0])"
  by (auto simp: live_def all_ok_def sample_mem_def sample_def empty_sample_def split: if_splits)

section \<open>Creation and destruction\<close>

lemma evolves_gone: "evolves m as [] m' \<Longrightarrow> ocells m' = ocells m |` (- set as)"
  by (simp add: evolves_def)

lemma evolves_added: "evolves m [] cs m' \<Longrightarrow> ocells m' = ocells m ++ map_of cs"
  by (simp add: evolves_def restrict_map_def)

lemma evolves_fresh: "live m \<Longrightarrow> evolves m [] (cells_of t lk) m' \<Longrightarrow> a \<in> set (addrs t) \<Longrightarrow> ocells m a = None"
  using live_next [of m a] by (auto simp: evolves_def cells_addrs [of t lk])

lemma evolves_room:
  assumes "live m" "evolves m as (cells_of t lk) m'" "a \<in> set (addrs t)"
  shows "a \<in> set as \<or> ocells m a = None"
proof -
  have "set (addrs t) \<subseteq> set as \<union> {onext m..<onext m'}"
    using assms(2) by (simp only: evolves_def fst_cells)
  then have "a \<in> set as \<union> {onext m..<onext m'}" using assms(3) by (rule subsetD)
  then show ?thesis using live_next [OF assms(1), of a] unfolding Un_iff atLeastLessThan_iff by argo
qed

text \<open>
  C25. Destroying an object of any class releases exactly the cells of its tree: the object, its
  strings, times and data with their buffers, its child objects and the elements of its lists. Each
  is released once, and no other cell of the memory is touched.
\<close>

theorem destroy_releases_tree:
  assumes "wt lib_codes t (T_class c)" "size t \<le> n" "live m" "owns m (cells_of t None)"
  shows "\<exists>m'. obj_destroy lib_codes n c (Some (root t)) m = (Inr (), m') \<and>
    ocells m' = ocells m |` (- set (addrs t))"
  using destroysD [OF lib.obj_destroys assms] evolves_gone by metis

theorem destroy_releases_tree_witness:
  "\<exists>m'. obj_destroy lib_codes 20 68 (Some 0) (sample_mem [sample 0]) = (Inr (), m') \<and> ocells m' = Map.empty"
proof -
  have "ocells (sample_mem [sample 0]) |` (- set (addrs (sample 0))) = Map.empty"
    by (auto simp: sample_mem_def sample_def fun_eq_iff restrict_map_def)
  then show ?thesis
    using destroy_releases_tree [OF sample_ok(1,3) sample_live(1) sample_owned(1)] by (simp add: sample_def)
qed

text \<open>
  C26. When allocation succeeds, making an object of any class succeeds. The new object is a
  well-typed tree of its class with all required children and nothing else, in memory that was free
  before, and the rest of the memory is as it was. Destroying the new object gives exactly the
  memory before its creation.
\<close>

theorem new_then_destroy:
  assumes "live m" "all_ok m" "lib_bound \<le> n"
  shows "\<exists>t m1 m2. obj_new lib_codes n c m = (Inr (Some (root t), Inr ()), m1) \<and>
    wt lib_codes t (T_class c) \<and> blank lib_codes t \<and> complete lib_codes t \<and>
    ocells m1 = ocells m ++ map_of (cells_of t None) \<and> (\<forall>a \<in> set (addrs t). ocells m a = None) \<and>
    obj_destroy lib_codes n c (Some (root t)) m1 = (Inr (), m2) \<and> ocells m2 = ocells m"
proof -
  have r: "lib_rank c \<le> n" using lib.rank_bound [of c] assms(3) by simp
  obtain t m1 where t: "obj_new lib_codes n c m = (Inr (Some (root t), Inr ()), m1)" "evolves m [] (cells_of t None) m1"
    "wt lib_codes t (T_class c)" "blank lib_codes t" "complete lib_codes t" "size t \<le> n"
    using lib.new_makes [OF r] assms r unfolding lib.maker_of_def makes_def by (meson le_trans)
  have l1: "live m1" and o1: "owns m1 (cells_of t None)"
    by (rule evolves_live [OF assms(1) owns_Nil _ t(2)], simp, rule evolves_owns [OF t(2)])
  obtain m2 where d: "obj_destroy lib_codes n c (Some (root t)) m1 = (Inr (), m2)" "evolves m1 (addrs t) [] m2"
    by (rule destroysD [OF lib.obj_destroys t(3,6) l1 o1])
  have "evolves m [] [] m2" by (rule evolves_trans [OF assms(1) owns_Nil _ t(2) cells_addrs d(2)]) simp
  from evolves_added [OF this] evolves_added [OF t(2)] show ?thesis
    using t d evolves_fresh [OF assms(1) t(2)] by (intro exI [of _ t] exI [of _ m1] exI [of _ m2]) simp
qed

theorem new_then_destroy_witness:
  "\<exists>t m1 m2. obj_new lib_codes 32 141 (sample_mem []) = (Inr (Some (root t), Inr ()), m1) \<and>
    obj_destroy lib_codes 32 141 (Some (root t)) m1 = (Inr (), m2) \<and> ocells m2 = Map.empty"
proof -
  have "live (sample_mem [])" "ocells (sample_mem []) = Map.empty" by (simp_all add: sample_mem_def live_def)
  with new_then_destroy [OF _ sample_live(2), of "[]" 32 141] show ?thesis
    by (simp only: order.refl simp_thms) blast
qed

section \<open>Cloning, copying and comparing\<close>

text \<open>
  C27. When allocation succeeds, cloning an object of any class gives a second tree with the contents
  of the first, at addresses that were free before. The source and all other memory are unchanged;
  so the two objects share nothing.
\<close>

theorem clone_makes_equal_tree:
  assumes "wt lib_codes t (T_class c)" "complete lib_codes t" "size t + lib_bound \<le> n" "live m" "all_ok m"
    "owns m (cells_of t lk)"
  shows "\<exists>u m'. obj_clone lib_codes n c (Some (root t)) m = (Inr (Some (root u), Inr ()), m') \<and>
    wt lib_codes u (T_class c) \<and> content u = content t \<and> owns m' (cells_of u None @ cells_of t lk) \<and>
    ocells m' = ocells m ++ map_of (cells_of u None) \<and> (\<forall>a \<in> set (addrs u). ocells m a = None)"
proof -
  obtain u m' where u: "obj_clone lib_codes n c (Some (root t)) m = (Inr (Some (root u), Inr ()), m')"
    "evolves m [] (cells_of u None) m'" "like lib_codes (T_class c) t u"
    using clonesD [OF lib.obj_clones assms] unfolding makes_def by blast
  have "owns m' (cells_of u None @ cells_of t lk)"
    by (rule evolves_beside(2) [of m "[]", OF assms(4)]) (use assms(6) u(2) in simp_all)
  then show ?thesis using u evolves_added [OF u(2)] evolves_fresh [OF assms(4) u(2)]
    by (intro exI [of _ u] exI [of _ m']) (simp add: like_def)
qed

theorem clone_makes_equal_tree_witness:
  "\<exists>u m'. obj_clone lib_codes 60 68 (Some 0) (sample_mem [sample 0]) = (Inr (Some (root u), Inr ()), m') \<and>
    content u = content (sample 0)"
proof -
  have "size (sample 0) + lib_bound \<le> 60" using sample_ok(3) [of 0] by simp
  from clone_makes_equal_tree [OF sample_ok(1,2) this sample_live(1,2) sample_owned(1)]
  show ?thesis by (auto simp: sample_def)
qed

text \<open>
  C28. Copying an object over another one of its class, when no required child of the two is missing
  and allocation succeeds, gives the target the \<open>overlay\<close> of the source: the contents of the source,
  but that the target keeps its text where a required string of the source is empty (which is not
  copied). When the target has no such text (it is \<open>ready\<close>) the contents are those of the source.
  The target keeps its address and the list it is in. Memory changes exactly by its cells: the new
  ones are at its old addresses or at free ones, the old ones are gone, so that nothing it held is
  leaked, and nothing else, the source included, is touched.
\<close>

theorem copy_replaces_contents:
  assumes "wt lib_codes t (T_class c)" "wt lib_codes u (T_class c)" "complete lib_codes t" "complete lib_codes u"
    "size t + lib_bound \<le> n" "size u \<le> n" "live m" "all_ok m" "owns m (cells_of u lu @ cells_of t lt)"
  shows "\<exists>v m'. obj_copy lib_codes n c (Some (root t)) (Some (root u)) m = (Inr (), m') \<and>
    root v = root u \<and> wt lib_codes v (T_class c) \<and> complete lib_codes v \<and>
    content v = overlay lib_codes t u \<and> (ready lib_codes t u \<longrightarrow> content v = content t) \<and>
    ocells m' = (ocells m |` (- set (addrs u))) ++ map_of (cells_of v lu) \<and>
    (\<forall>a \<in> set (addrs v). a \<in> set (addrs u) \<or> ocells m a = None) \<and>
    owns m' (cells_of v lu @ cells_of t lt)"
proof -
  obtain v m' where v: "obj_copy lib_codes n c (Some (root t)) (Some (root u)) m = (Inr (), m')"
    "evolves m (addrs u) (cells_of v lu) m'" "root v = root u" "over lib_codes (T_class c) t u v"
    using copiesD [OF lib.obj_copies assms] unfolding replaces_def by blast
  have "owns m' (cells_of v lu @ cells_of t lt)"
    by (rule evolves_beside(2) [OF assms(7,9)]) (use v(2) in \<open>simp only: cells_addrs [of _ lu]\<close>)
  moreover have "a \<in> set (addrs u) \<or> ocells m a = None" if "a \<in> set (addrs v)" for a
    by (rule evolves_room [OF assms(7) v(2) that])
  moreover have "ocells m' = (ocells m |` (- set (addrs u))) ++ map_of (cells_of v lu)"
    using v(2) unfolding evolves_def by blast
  moreover have "content v = content t" if "ready lib_codes t u"
    using v(4) ready_overlay(1) [OF that] by (simp add: over_def)
  ultimately show ?thesis using v(1,3,4) unfolding over_def
    by (intro exI [of _ v] exI [of _ m'] conjI impI ballI) simp_all
qed

text \<open>An incident id; the name is a required string.\<close>

definition incident_id :: "addr \<Rightarrow> string \<Rightarrow> tree" where
  "incident_id b name = TR_obj b 26 [TS_null ''instance'', TS_null ''ext_restriction'',
     TS_ptr ''name'' (TR_string (b + 1) name (name \<noteq> [])), TS_opt ''restriction'' False 0]"

lemma incident_id_ok:
  "wt lib_codes (incident_id b name) (T_class 26)" "complete lib_codes (incident_id b name)"
  "size (incident_id b name) \<le> 20"
  by (simp_all add: incident_id_def sample_codes incident_id_code_def incident_id_struct_def)

theorem copy_replaces_contents_witness:
  "(\<exists>v m'. obj_copy lib_codes 60 68 (Some 0) (Some 5) (sample_mem [empty_sample 5, sample 0]) = (Inr (), m') \<and>
     root v = 5 \<and> content v = content (sample 0)) \<and>
   (\<exists>v m'. obj_copy lib_codes 60 26 (Some 0) (Some 5) (sample_mem [incident_id 5 ''csirt'', incident_id 0 []]) = (Inr (), m') \<and>
     root v = 5 \<and> content v = content (incident_id 5 ''csirt''))"
proof
  have "size (sample 0) + lib_bound \<le> 60" "size (empty_sample 5) \<le> 60"
    using sample_ok(3) [of 0] sample_ok(6) [of 5] by simp_all
  from copy_replaces_contents [OF sample_ok(1,4,2,5) this sample_live(3,2) sample_owned(2)] sample_ok(7) [of 0 5]
  show "\<exists>v m'. obj_copy lib_codes 60 68 (Some 0) (Some 5) (sample_mem [empty_sample 5, sample 0]) = (Inr (), m') \<and>
     root v = 5 \<and> content v = content (sample 0)" by (auto simp: sample_def empty_sample_def)
  let ?m = "sample_mem [incident_id 5 ''csirt'', incident_id 0 []]"
  have m: "size (incident_id 0 []) + lib_bound \<le> 60" "size (incident_id 5 ''csirt'') \<le> 60" "live ?m"
    "owns ?m (cells_of (incident_id 5 ''csirt'') None @ cells_of (incident_id 0 []) None)"
    by (auto simp: incident_id_def owns_def live_def sample_mem_def split: if_splits)
  have "overlay lib_codes (incident_id 0 []) (incident_id 5 ''csirt'') = content (incident_id 5 ''csirt'')"
    by (simp add: incident_id_def slot_named_def sample_codes incident_id_code_def incident_id_struct_def)
  with copy_replaces_contents [OF incident_id_ok(1,1,2,2) m(1-3) sample_live(2) m(4)]
  show "\<exists>v m'. obj_copy lib_codes 60 26 (Some 0) (Some 5) ?m = (Inr (), m') \<and>
     root v = 5 \<and> content v = content (incident_id 5 ''csirt'')" by (auto simp: incident_id_def)
qed

text \<open>
  C29. Comparing two objects of a class changes nothing, and returns zero exactly when a reference
  comparison of the two trees, field by field, says that they are the same.
\<close>

theorem compare_decides_same:
  assumes "wt lib_codes t (T_class c)" "wt lib_codes u (T_class c)" "size t \<le> n"
    "owns m (cells_of t lt)" "owns m (cells_of u lu)"
  shows "\<exists>r. obj_compare lib_codes n c (Some (root t)) (Some (root u)) m = (Inr r, m) \<and> (r = 0 \<longleftrightarrow> same t u)"
  by (rule comparesD [OF lib.obj_compares assms])

theorem compare_decides_same_witness:
  "\<exists>r. obj_compare lib_codes 20 68 (Some 0) (Some 5) (sample_mem [empty_sample 5, sample 0]) =
      (Inr r, sample_mem [empty_sample 5, sample 0]) \<and> r \<noteq> 0"
proof -
  have o: "owns (sample_mem [empty_sample 5, sample 0]) (cells_of (sample 0) None)"
    "owns (sample_mem [empty_sample 5, sample 0]) (cells_of (empty_sample 5) None)"
    using sample_owned(2) by (simp_all only: owns_append)
  have "\<not> same (sample 0) (empty_sample 5)" by (simp add: sample_def empty_sample_def)
  then show ?thesis using compare_decides_same [OF sample_ok(1,4,3) o] by (simp add: sample_def empty_sample_def)
qed

text \<open>
  C30. Comparing an object with its clone returns zero, for every class.
\<close>

theorem clone_compares_equal:
  assumes "wt lib_codes t (T_class c)" "complete lib_codes t" "size t + lib_bound \<le> n" "live m" "all_ok m"
    "owns m (cells_of t lk)"
  shows "\<exists>q m'. obj_clone lib_codes n c (Some (root t)) m = (Inr (Some q, Inr ()), m') \<and>
    obj_compare lib_codes n c (Some (root t)) (Some q) m' = (Inr 0, m')"
proof -
  obtain u m' where u: "obj_clone lib_codes n c (Some (root t)) m = (Inr (Some (root u), Inr ()), m')"
    "evolves m [] (cells_of u None) m'" "like lib_codes (T_class c) t u"
    using clonesD [OF lib.obj_clones assms] unfolding makes_def by blast
  have o: "owns m' (cells_of u None @ cells_of t lk)"
    by (rule evolves_beside(2) [of m "[]", OF assms(4)]) (use assms(6) u(2) in simp_all)
  have "same t u" by (rule same_content(1)) (use u(3) in \<open>simp add: like_def\<close>)
  moreover have "wt lib_codes u (T_class c)" using u(3) by (simp add: like_def)
  ultimately have "obj_compare lib_codes n c (Some (root t)) (Some (root u)) m' = (Inr 0, m')"
    using comparesD [OF lib.obj_compares assms(1), where u = u and n = n and m = m' and lt = lk and lu = None] o assms(3)
    by (auto simp: owns_append)
  then show ?thesis using u(1) by blast
qed

theorem clone_compares_equal_witness:
  "\<exists>q m'. obj_clone lib_codes 60 68 (Some 0) (sample_mem [sample 0]) = (Inr (Some q, Inr ()), m') \<and>
    obj_compare lib_codes 60 68 (Some 0) (Some q) m' = (Inr 0, m')"
proof -
  have "size (sample 0) + lib_bound \<le> 60" using sample_ok(3) [of 0] by simp
  from clone_compares_equal [OF sample_ok(1,2) this sample_live(1,2) sample_owned(1)]
  show ?thesis by (simp add: sample_def)
qed

end
