(* ===== verification/TimeText.thy ===== *)
theory TimeText
  imports CStd ObjMem
begin

text \<open>
  Times as text: \<open>iodefv2_time_to_string\<close> and \<open>iodefv2_time_set_from_string\<close> of
  src/src/iodefv2-time.c with the C library functions they use (\<open>gmtime_r\<close>, \<open>timegm\<close>, \<open>strptime\<close>,
  \<open>sscanf\<close> and the number formats), and the theorem that a written time is read back. The local
  time zone, which only \<open>mktime\<close> knows, is a parameter.
\<close>

section \<open>The calendar\<close>

definition leap :: "nat \<Rightarrow> bool" where
  "leap y \<longleftrightarrow> y mod 4 = 0 \<and> (y mod 100 \<noteq> 0 \<or> y mod 400 = 0)"

definition year_days :: "nat \<Rightarrow> nat" where
  "year_days y = (if leap y then 366 else 365)"

definition month_days :: "nat \<Rightarrow> nat \<Rightarrow> nat" where
  "month_days y m = (if m = 2 then if leap y then 29 else 28
     else if m = 4 \<or> m = 6 \<or> m = 9 \<or> m = 11 then 30 else 31)"

text \<open>The date of a day: the years, then the months are taken off.\<close>

function split_years :: "nat \<Rightarrow> nat \<Rightarrow> nat \<times> nat" where
  "split_years y d = (if d < year_days y then (y, d) else split_years (Suc y) (d - year_days y))"
  by pat_completeness auto
termination
  by (relation "measure snd") (auto simp: year_days_def split: if_splits)

declare split_years.simps [simp del]

fun split_months :: "nat \<Rightarrow> nat \<Rightarrow> nat \<Rightarrow> nat \<Rightarrow> nat \<times> nat" where
  "split_months 0 y m d = (m, d)"
| "split_months (Suc k) y m d =
     (if d < month_days y m then (m, d) else split_months k y (Suc m) (d - month_days y m))"

text \<open>The fields of \<open>struct tm\<close> that are used; years and months count from 0 and 1 here.\<close>

record tm =
  tm_year :: nat
  tm_mon :: nat
  tm_mday :: nat
  tm_hour :: int
  tm_min :: int
  tm_sec :: int

definition gmtime :: "nat \<Rightarrow> tm" where
  "gmtime t = (let (y, d) = split_years 1970 (t div 86400); (mo, dm) = split_months 11 y 1 d; s = t mod 86400 in
     \<lparr>tm_year = y, tm_mon = mo, tm_mday = dm + 1,
      tm_hour = int (s div 3600), tm_min = int (s mod 3600 div 60), tm_sec = int (s mod 60)\<rparr>)"

text \<open>Years before 1970 are counted backwards. Hours, minutes and seconds may be out of range.\<close>

definition timegm :: "tm \<Rightarrow> int" where
  "timegm t = 86400 * ((if tm_year t \<ge> 1970 then int (\<Sum>k = 1970..<tm_year t. year_days k)
       else - int (\<Sum>k = tm_year t..<1970. year_days k)) +
     int (\<Sum>k = 1..<tm_mon t. month_days (tm_year t) k) + int (tm_mday t) - 1) +
     3600 * tm_hour t + 60 * tm_min t + tm_sec t"

section \<open>Writing\<close>

text \<open>\<open>%.2d\<close>, \<open>%02u\<close> and \<open>%+.2d\<close>.\<close>

definition pad2 :: "nat \<Rightarrow> string" where
  "pad2 n = (if n < 10 then CHR ''0'' # nat_dec n else nat_dec n)"

definition fmt_d2 :: "int \<Rightarrow> string" where
  "fmt_d2 i = (if i < 0 then CHR ''-'' # pad2 (nat (- i)) else pad2 (nat i))"

definition fmt_plus_d2 :: "int \<Rightarrow> string" where
  "fmt_plus_d2 i = (if i < 0 then CHR ''-'' # pad2 (nat (- i)) else CHR ''+'' # pad2 (nat i))"

text \<open>Division and remainder of C, towards zero.\<close>

definition c_div :: "int \<Rightarrow> int \<Rightarrow> int" where
  "c_div a b = sgn a * (\<bar>a\<bar> div b)"

definition c_mod :: "int \<Rightarrow> int \<Rightarrow> int" where
  "c_mod a b = sgn a * (\<bar>a\<bar> mod b)"

text \<open>
  The sum of the unsigned seconds and the offset wraps at 32 bits. The two parts of the offset are
  stored in unsigned variables and printed as signed integers.
\<close>

definition time_to_string :: "time_obj \<Rightarrow> string" where
  "time_to_string t =
     (let u = gmtime (unat (time_sec t + time_gmt_offset t)); off = sint (time_gmt_offset t) in
      int_dec (int (tm_year u)) @ ''-'' @ fmt_d2 (int (tm_mon u)) @ ''-'' @ fmt_d2 (int (tm_mday u)) @ ''T'' @
      fmt_d2 (tm_hour u) @ '':'' @ fmt_d2 (tm_min u) @ '':'' @ fmt_d2 (tm_sec u) @ ''.'' @
      pad2 (unat (time_usec t)) @ fmt_plus_d2 (c_div off 3600) @ '':'' @ fmt_d2 (c_div (c_mod off 3600) 60))"

section \<open>Reading\<close>

text \<open>
  A number of \<open>strptime\<close>: blanks, then at most \<open>n\<close> digits, fewer when another digit would pass the
  upper bound; the result must lie between the bounds.
\<close>

fun take_number :: "nat \<Rightarrow> nat \<Rightarrow> nat \<Rightarrow> string \<Rightarrow> nat \<times> string" where
  "take_number 0 hi v s = (v, s)"
| "take_number (Suc n) hi v [] = (v, [])"
| "take_number (Suc n) hi v (c # s) = (case digit_val c of
     Some d \<Rightarrow> if d < 10 \<and> v * 10 \<le> hi then take_number n hi (v * 10 + d) s else (v, c # s)
   | None \<Rightarrow> (v, c # s))"

definition get_number :: "nat \<Rightarrow> nat \<Rightarrow> nat \<Rightarrow> string \<Rightarrow> (nat \<times> string) option" where
  "get_number lo hi n s = (case dropWhile (\<lambda>c. c = CHR '' '') s of
     [] \<Rightarrow> None
   | c # s' \<Rightarrow> (if is_cdigit c then
       let (v, r) = take_number n hi 0 (c # s') in if lo \<le> v \<and> v \<le> hi then Some (v, r) else None
     else None))"

definition get_char :: "char \<Rightarrow> string \<Rightarrow> string option" where
  "get_char c s = (case s of d # r \<Rightarrow> if c = d then Some r else None | [] \<Rightarrow> None)"

text \<open>\<open>%Y-%m-%d\<close> and \<open>%H:%M:%S\<close>. Nothing else of the broken-down time is set.\<close>

definition strptime3 :: "char \<Rightarrow> nat \<times> nat \<times> nat \<Rightarrow> nat \<times> nat \<times> nat \<Rightarrow> nat \<times> nat \<times> nat \<Rightarrow> string \<Rightarrow>
    (nat \<times> nat \<times> nat \<times> string) option" where
  "strptime3 sep a b c s =
     (case get_number (fst a) (fst (snd a)) (snd (snd a)) s of None \<Rightarrow> None
      | Some (x, s) \<Rightarrow> (case get_char sep s of None \<Rightarrow> None
      | Some s \<Rightarrow> (case get_number (fst b) (fst (snd b)) (snd (snd b)) s of None \<Rightarrow> None
      | Some (y, s) \<Rightarrow> (case get_char sep s of None \<Rightarrow> None
      | Some s \<Rightarrow> (case get_number (fst c) (fst (snd c)) (snd (snd c)) s of None \<Rightarrow> None
      | Some (z, s) \<Rightarrow> Some (x, y, z, s))))))"

definition parse_time_ymd :: "tm \<Rightarrow> string \<Rightarrow> (tm \<times> string) option" where
  "parse_time_ymd tm buf = (case strptime3 CHR ''-'' (0, 9999, 4) (1, 12, 2) (1, 31, 2) buf of
     None \<Rightarrow> None
   | Some (y, m, d, s) \<Rightarrow>
       let s = dropWhile is_cspace s in
       Some (tm\<lparr>tm_year := y, tm_mon := m, tm_mday := d\<rparr>,
         case s of c # r \<Rightarrow> if c = CHR ''T'' then r else s | [] \<Rightarrow> []))"

definition digit2usec :: "32 word \<Rightarrow> nat \<Rightarrow> 32 word res" where
  "digit2usec n digits = (if digits > 6 then Inl (EV ERROR_GENERIC) else Inr (n * 10 ^ (6 - digits)))"

text \<open>
  The result of \<open>strtoul\<close> is truncated to 32 bits, and the microseconds come back as a signed
  number: a negative one is taken for an error code.
\<close>

definition parse_time_hmsu :: "tm \<Rightarrow> string \<Rightarrow> (tm \<times> 32 word option \<times> string) res" where
  "parse_time_hmsu tm buf = (case strptime3 CHR '':'' (0, 23, 2) (0, 59, 2) (0, 61, 2) buf of
     None \<Rightarrow> Inl (EV ERROR_GENERIC)
   | Some (h, m, s, r) \<Rightarrow>
       let tm = tm\<lparr>tm_hour := int h, tm_min := int m, tm_sec := int s\<rparr> in
       (case r of
          c # r' \<Rightarrow> if c = CHR ''.'' \<or> c = CHR '','' then
              let (v, k, _) = strtoul 10 r' in
              if k = 0 then Inl (EV ERROR_GENERIC)
              else (case digit2usec (word_of_int v) k of
                  Inl e \<Rightarrow> Inl e
                | Inr u \<Rightarrow> if sint u < 0 then Inl (E_value (sint u)) else Inr (tm, Some u, drop k r'))
            else Inr (tm, None, r)
        | [] \<Rightarrow> Inr (tm, None, [])))"

text \<open>
  \<open>%2u\<close> of \<open>sscanf\<close>: blanks, then at most two characters of which the first may be a sign, so \<open>-3\<close>
  is read as a large unsigned number.
\<close>

definition scan_u2 :: "string \<Rightarrow> (32 word \<times> string) option" where
  "scan_u2 s =
     (let s = dropWhile is_cspace s; w = take 2 s;
          (neg, ds) = (case w of c # r \<Rightarrow> if c = CHR ''-'' then (True, r) else if c = CHR ''+'' then (False, r)
                         else (False, w) | [] \<Rightarrow> (False, []));
          (v, n) = scan_digits 10 0 0 ds in
      if n = 0 then None
      else Some (if neg then - of_nat v else of_nat v, drop (length w - length ds + n) s))"

definition scan_u2_u2 :: "string \<Rightarrow> (32 word \<times> 32 word) option" where
  "scan_u2_u2 s = (case scan_u2 s of None \<Rightarrow> None
   | Some (h, r) \<Rightarrow> (case get_char CHR '':'' r of None \<Rightarrow> None
   | Some r \<Rightarrow> map_option (\<lambda>(m, _). (h, m)) (scan_u2 r)))"

text \<open>\<open>tm_min\<close> and \<open>tm_hour\<close> are changed with 32-bit arithmetic; the offset is a signed result.\<close>

definition add32 :: "int \<Rightarrow> 32 word \<Rightarrow> int" where
  "add32 i w = sint (word_of_int i + w :: 32 word)"

definition parse_time_gmt :: "tm \<Rightarrow> 32 word \<Rightarrow> string \<Rightarrow> (tm \<times> 32 word) res" where
  "parse_time_gmt tm gmtoff buf =
     (if take 1 buf = ''Z'' then Inr (tm, gmtoff)
      else case scan_u2_u2 (drop 1 buf) of
        None \<Rightarrow> Inl E_minus1
      | Some (h, m) \<Rightarrow>
          if take 1 buf = ''+'' then
            Inr (tm\<lparr>tm_min := add32 (tm_min tm) (- m), tm_hour := add32 (tm_hour tm) (- h)\<rparr>, h * 3600 + m * 60)
          else if take 1 buf = ''-'' then
            Inr (tm\<lparr>tm_min := add32 (tm_min tm) m, tm_hour := add32 (tm_hour tm) h\<rparr>, - (h * 3600 + m * 60))
          else Inl E_minus1)"

text \<open>
  The new contents of the time, also after an error. \<open>mk\<close> is \<open>mktime\<close> in the local time zone; when
  it fails the error of \<open>libiodefv2_get_gmt_offset_from_tm\<close> is ignored and an uninitialised offset
  is used.
\<close>

definition time_parse :: "(tm \<Rightarrow> int) \<Rightarrow> time_obj \<Rightarrow> string \<Rightarrow> unit res \<times> time_obj" where
  "time_parse mk t buf =
     (let tm0 = \<lparr>tm_year = 1900, tm_mon = 1, tm_mday = 0, tm_hour = 0, tm_min = 0, tm_sec = 0\<rparr> in
      case parse_time_ymd tm0 buf of
        None \<Rightarrow> (Inl (EV ERROR_GENERIC), t)
      | Some (tm, s) \<Rightarrow>
          let t = t\<lparr>time_usec := 0, time_gmt_offset := 0\<rparr> in
          if s = [] then (Inr (), t\<lparr>time_sec := word_of_int (timegm tm)\<rparr>)
          else case parse_time_hmsu tm s of
            Inl e \<Rightarrow> (Inl e, t)
          | Inr (tm, us, r) \<Rightarrow>
              let t = (case us of Some u \<Rightarrow> t\<lparr>time_usec := u\<rparr> | None \<Rightarrow> t) in
              if r = [] then
                (if mk tm = -1 then (Inl (UB Uninitialised), t)
                 else (Inr (), t\<lparr>time_gmt_offset := word_of_int (timegm tm - mk tm), time_sec := word_of_int (mk tm)\<rparr>))
              else case parse_time_gmt tm 0 r of
                Inl e \<Rightarrow> (Inl (EV ERROR_GENERIC), t)
              | Inr (tm, off) \<Rightarrow> (Inr (), t\<lparr>time_gmt_offset := off, time_sec := word_of_int (timegm tm)\<rparr>))"

definition time_set_from_string :: "(tm \<Rightarrow> int) \<Rightarrow> addr option \<Rightarrow> string \<Rightarrow> unit act" where
  "time_set_from_string mk p buf = (if p = None then fail (E ERROR_ASSERTION) else
     act_bind (load_time p) (\<lambda>t. let (r, t') = time_parse mk t (cstr buf) in
       act_then (store p (C_time t')) (lift_res r)))"

definition time_new_from_string :: "(tm \<Rightarrow> int) \<Rightarrow> string \<Rightarrow> created act" where
  "time_new_from_string mk buf =
     act_bind time_new (\<lambda>(p, r). case r of
       Inl e \<Rightarrow> ret (p, Inl e)
     | Inr _ \<Rightarrow> act_bind (act_try (time_set_from_string mk p buf)) (\<lambda>r. case r of
         Inl e \<Rightarrow> act_then (cell_free p) (ret (p, Inl e))
       | Inr _ \<Rightarrow> ret (p, Inr ())))"

section \<open>The calendar is inverted\<close>

lemma split_years_sum:
  "split_years y d = (y', r) \<Longrightarrow> y \<le> y' \<and> r < year_days y' \<and> d = (\<Sum>k = y..<y'. year_days k) + r"
proof (induction y d rule: split_years.induct)
  case (1 y d)
  show ?case
  proof (cases "d < year_days y")
    case True
    then show ?thesis using 1(2) by (simp add: split_years.simps [of y d])
  next
    case False
    have r: "split_years (Suc y) (d - year_days y) = (y', r)"
      using 1(2) False by (simp add: split_years.simps [of y d])
    have i: "Suc y \<le> y'" "r < year_days y'" "d - year_days y = (\<Sum>k = Suc y..<y'. year_days k) + r"
      using 1(1) [OF False r] by auto
    have "(\<Sum>k = y..<y'. year_days k) = year_days y + (\<Sum>k = Suc y..<y'. year_days k)"
      using i(1) by (simp add: sum.atLeast_Suc_lessThan)
    then show ?thesis using i False by auto
  qed
qed

lemma split_months_sum:
  "split_months k y m d = (m', r) \<Longrightarrow> d < (\<Sum>j = m..<m + Suc k. month_days y j) \<Longrightarrow>
   m \<le> m' \<and> m' \<le> m + k \<and> r < month_days y m' \<and> d = (\<Sum>j = m..<m'. month_days y j) + r"
proof (induction k arbitrary: m d)
  case (Suc k)
  show ?case
  proof (cases "d < month_days y m")
    case True
    then show ?thesis using Suc.prems(1) by simp
  next
    case False
    have s: "(\<Sum>j = m..<n. month_days y j) = month_days y m + (\<Sum>j = Suc m..<n. month_days y j)" if "m < n" for n
      using that by (simp add: sum.atLeast_Suc_lessThan)
    have "d - month_days y m < (\<Sum>j = Suc m..<Suc m + Suc k. month_days y j)"
      using Suc.prems(2) False s [of "m + Suc (Suc k)"] by simp
    then have i: "Suc m \<le> m'" "m' \<le> Suc m + k" "r < month_days y m'"
        "d - month_days y m = (\<Sum>j = Suc m..<m'. month_days y j) + r"
      using Suc.IH [of "Suc m" "d - month_days y m"] Suc.prems(1) False by auto
    then show ?thesis using False s [of m'] by auto
  qed
qed simp

lemma months_year: "(\<Sum>j = 1..<13. month_days y j) = year_days y"
  by (simp add: month_days_def year_days_def eval_nat_numeral)

lemma year_bound: "split_years 1970 d = (y, r) \<Longrightarrow> d < 50000 \<Longrightarrow> y < 2107"
proof -
  assume a: "split_years 1970 d = (y, r)" "d < 50000"
  have "(\<Sum>k = 1970..<y. 365) \<le> (\<Sum>k = 1970..<y. year_days k)"
    by (rule sum_mono) (simp add: year_days_def)
  then have "365 * (y - 1970) < 50000"
    using split_years_sum [OF a(1)] a(2) by simp
  then show ?thesis by simp
qed

definition tm_ok :: "tm \<Rightarrow> bool" where
  "tm_ok u \<longleftrightarrow> 1970 \<le> tm_year u \<and> tm_year u < 2107 \<and> 1 \<le> tm_mon u \<and> tm_mon u \<le> 12 \<and>
     1 \<le> tm_mday u \<and> tm_mday u \<le> 31 \<and> 0 \<le> tm_hour u \<and> tm_hour u < 24 \<and>
     0 \<le> tm_min u \<and> tm_min u < 60 \<and> 0 \<le> tm_sec u \<and> tm_sec u < 60"

lemma gmtime_ok:
  assumes "t < 2 ^ 32"
  shows "tm_ok (gmtime t)" "timegm (gmtime t) = int t"
proof -
  obtain y d where y: "split_years 1970 (t div 86400) = (y, d)" by fastforce
  obtain m dm where m: "split_months 11 y 1 d = (m, dm)" by fastforce
  let ?s = "t mod 86400"
  have g: "gmtime t = \<lparr>tm_year = y, tm_mon = m, tm_mday = dm + 1, tm_hour = int (?s div 3600),
      tm_min = int (?s mod 3600 div 60), tm_sec = int (?s mod 60)\<rparr>"
    by (simp add: gmtime_def y m [unfolded One_nat_def] Let_def)
  have ys: "1970 \<le> y" "d < year_days y" "t div 86400 = (\<Sum>k = 1970..<y. year_days k) + d"
    using split_years_sum [OF y] by auto
  have "d < (\<Sum>j = 1..<1 + Suc 11. month_days y j)" using ys(2) months_year by simp
  from split_months_sum [OF m this]
  have ms: "1 \<le> m" "m \<le> 12" "dm < month_days y m" "d = (\<Sum>j = 1..<m. month_days y j) + dm" by auto
  have "t div 86400 < 50000" using assms by simp
  then have yb: "y < 2107" using year_bound [OF y] by simp
  have h: "?s < 86400" by simp
  have "?s div 3600 < 24" by (rule less_mult_imp_div_less) (use h in simp)
  moreover have "?s mod 3600 div 60 < 60"
    by (rule less_mult_imp_div_less) simp
  moreover have "dm < 31" using ms(3) by (simp add: month_days_def split: if_splits)
  ultimately show "tm_ok (gmtime t)" using ys(1) yb ms by (simp add: tm_ok_def g)
  have "?s = 3600 * (?s div 3600) + 60 * (?s mod 3600 div 60) + ?s mod 60"
  proof -
    have "?s mod 60 = ?s mod 3600 mod 60" by (simp add: mod_mod_cancel)
    then show ?thesis by presburger
  qed
  moreover have "t = 86400 * (t div 86400) + ?s" by simp
  ultimately have "t = 86400 * (t div 86400) + (3600 * (?s div 3600) + 60 * (?s mod 3600 div 60) + ?s mod 60)" by linarith
  note T = this
  have a: "86400 * (a + b + (c + 1) - 1) + h + i + j = 86400 * (a + (b + c)) + (h + i + j)" for a b c h i j :: int
    by simp
  have q: "t div 86400 = (\<Sum>k = 1970..<y. year_days k) + ((\<Sum>j = 1..<m. month_days y j) + dm)"
    using ys(3) unfolding ms(4) .
  have "timegm (gmtime t) = 86400 * int (t div 86400) +
      (3600 * int (?s div 3600) + 60 * int (?s mod 3600 div 60) + int (?s mod 60))"
    unfolding g timegm_def q by (simp only: tm.select_convs ys(1) if_True of_nat_add of_nat_1 a)
  also have "\<dots> = int (86400 * (t div 86400) + (3600 * (?s div 3600) + 60 * (?s mod 3600 div 60) + ?s mod 60))"
    by (simp only: of_nat_add of_nat_mult of_nat_numeral)
  also have "\<dots> = int t" by (rule arg_cong [OF T [symmetric]])
  finally show "timegm (gmtime t) = int t" .
qed

section \<open>The fields are read back\<close>

lemma nat_dec_small: "n < 10 \<Longrightarrow> nat_dec n = [digit_char n]"
  by (simp add: nat_dec.simps [of n])

lemma nat_dec_big: "10 \<le> n \<Longrightarrow> nat_dec n = nat_dec (n div 10) @ [digit_char (n mod 10)]"
  by (simp add: nat_dec.simps [of n])

lemma digit_char_0: "digit_char 0 = CHR ''0''"
  by code_simp

lemma pad2_two: "n < 100 \<Longrightarrow> pad2 n = [digit_char (n div 10), digit_char (n mod 10)]"
  by (cases "n < 10") (simp_all add: pad2_def nat_dec_small nat_dec_big digit_char_0)

lemma nat_dec_four:
  assumes "1000 \<le> n" "n < 10000"
  shows "nat_dec n =
    [digit_char (n div 1000), digit_char (n div 100 mod 10), digit_char (n div 10 mod 10), digit_char (n mod 10)]"
proof -
  have "10 \<le> n" "10 \<le> n div 10" "10 \<le> n div 100" "n div 1000 < 10" using assms by auto
  moreover have "n div 10 div 10 = n div 100" "n div 100 div 10 = n div 1000"
    by (simp_all add: div_mult2_eq [symmetric])
  ultimately show ?thesis by (simp add: nat_dec_big [of n] nat_dec_big [of "n div 10"] nat_dec_big [of "n div 100"]
      nat_dec_small [of "n div 1000"])
qed

lemma digit_char_read [simp]:
  assumes "d < 10"
  shows "digit_val (digit_char d) = Some d" "is_cdigit (digit_char d)" "digit_char d \<noteq> CHR '' ''"
    "is_digit_in 10 (digit_char d)"
  using assms digit_char_facts(1) [OF assms]
  by (auto simp: digit_val_char is_cdigit_def ccode_digit_char is_digit_in_def is_cspace_def)

text \<open>\<open>x\<close> is what follows a number: nothing that could be a further digit.\<close>

definition stops :: "string \<Rightarrow> bool" where
  "stops r \<longleftrightarrow> r = [] \<or> (digit_val (hd r) = None)"

lemma two_digits: "n < 100 \<Longrightarrow> n div 10 < 10" "n < 100 \<Longrightarrow> n mod (10 :: nat) < 10"
    "n < 100 \<Longrightarrow> n div 10 * 10 + n mod 10 = n"
  by auto

text \<open>Digits are taken one by one while the bound is respected.\<close>

lemma take_number_digit:
  "d < 10 \<Longrightarrow> v * 10 \<le> hi \<Longrightarrow> take_number (Suc n) hi v (digit_char d # s) = take_number n hi (v * 10 + d) s"
  by simp

lemma get_number_first:
  "d < 10 \<Longrightarrow> take_number n hi 0 (digit_char d # s) = (v, r) \<Longrightarrow> lo \<le> v \<Longrightarrow> v \<le> hi \<Longrightarrow>
   get_number lo hi n (digit_char d # s) = Some (v, r)"
  by (simp add: get_number_def)

lemma get_number_pad2:
  assumes "n < 100" "lo \<le> n" "n \<le> hi"
  shows "get_number lo hi 2 (pad2 n @ r) = Some (n, r)"
proof -
  have "n div 10 * 10 \<le> hi" using assms(3) by linarith
  then have "take_number 2 hi 0 (digit_char (n div 10) # digit_char (n mod 10) # r) = (n, r)"
    using two_digits [OF assms(1)] by (simp add: numeral_2_eq_2 take_number_digit del: take_number.simps(3))
  then show ?thesis using get_number_first [OF two_digits(1) [OF assms(1)] _ assms(2,3)]
    by (simp add: pad2_two [OF assms(1)])
qed

lemma get_number_year:
  assumes "1000 \<le> n" "n < 10000"
  shows "get_number 0 9999 4 (nat_dec n @ r) = Some (n, r)"
proof -
  define a b c d where abcd: "a = n div 1000" "b = n div 100 mod 10" "c = n div 10 mod 10" "d = n mod 10"
  have l: "a < 10" "b < 10" "c < 10" "d < 10" using assms(2) by (auto simp: abcd)
  have "n div 10 div 10 = n div 100" "n div 100 div 10 = n div 1000"
    by (simp_all add: div_mult2_eq [symmetric])
  then have "n = n div 10 * 10 + d" "n div 10 = n div 100 * 10 + c" "n div 100 = a * 10 + b"
    using div_mult_mod_eq [of n 10] div_mult_mod_eq [of "n div 10" 10] div_mult_mod_eq [of "n div 100" 10]
    by (simp_all add: abcd)
  then have v: "((a * 10 + b) * 10 + c) * 10 + d = n" by simp
  have h: "0 * 10 \<le> (9999 :: nat)" "a * 10 \<le> 9999" "(a * 10 + b) * 10 \<le> 9999" "((a * 10 + b) * 10 + c) * 10 \<le> 9999"
    using assms(2) v l by simp_all
  have "take_number 4 9999 0 (digit_char a # digit_char b # digit_char c # digit_char d # r) =
      take_number 3 9999 a (digit_char b # digit_char c # digit_char d # r)"
    using take_number_digit [OF l(1) h(1), of 3] by simp
  also have "\<dots> = take_number 2 9999 (a * 10 + b) (digit_char c # digit_char d # r)"
    using take_number_digit [OF l(2) h(2), of 2] by simp
  also have "\<dots> = take_number 1 9999 ((a * 10 + b) * 10 + c) (digit_char d # r)"
    using take_number_digit [OF l(3) h(3), of 1] by (simp add: numeral_2_eq_2)
  also have "\<dots> = (n, r)"
    using take_number_digit [OF l(4) h(4), of 0] v by simp
  finally have "take_number 4 9999 0 (digit_char a # digit_char b # digit_char c # digit_char d # r) = (n, r)" .
  then show ?thesis using get_number_first [OF l(1), of 4 9999 _ n r 0] assms
    by (simp add: nat_dec_four abcd)
qed

lemma strptime3_read:
  assumes "get_number (fst a) (fst (snd a)) (snd (snd a)) (x @ sep # y @ sep # z @ r) = Some (i, sep # y @ sep # z @ r)"
    and "get_number (fst b) (fst (snd b)) (snd (snd b)) (y @ sep # z @ r) = Some (j, sep # z @ r)"
    and "get_number (fst c) (fst (snd c)) (snd (snd c)) (z @ r) = Some (k, r)"
  shows "strptime3 sep a b c (x @ sep # y @ sep # z @ r) = Some (i, j, k, r)"
  using assms by (simp add: strptime3_def get_char_def)

lemma parse_ymd_read:
  assumes "tm_ok u"
  shows "parse_time_ymd tm0 (int_dec (int (tm_year u)) @ ''-'' @ fmt_d2 (int (tm_mon u)) @ ''-'' @ fmt_d2 (int (tm_mday u)) @ ''T'' @ r)
    = Some (tm0\<lparr>tm_year := tm_year u, tm_mon := tm_mon u, tm_mday := tm_mday u\<rparr>, r)"
proof -
  have "strptime3 CHR ''-'' (0, 9999, 4) (1, 12, 2) (1, 31, 2)
      (nat_dec (tm_year u) @ CHR ''-'' # pad2 (tm_mon u) @ CHR ''-'' # pad2 (tm_mday u) @ CHR ''T'' # r) =
    Some (tm_year u, tm_mon u, tm_mday u, CHR ''T'' # r)"
    by (rule strptime3_read) (use assms in \<open>simp_all add: tm_ok_def get_number_pad2 get_number_year\<close>)
  moreover have "\<not> is_cspace CHR ''T''" by (simp add: is_cspace_def ccode_def)
  ultimately show ?thesis by (simp add: parse_time_ymd_def int_dec_def fmt_d2_def Let_def)
qed

text \<open>The microseconds that survive: none, or a number of six digits.\<close>

definition usec_ok :: "32 word \<Rightarrow> bool" where
  "usec_ok w \<longleftrightarrow> w = 0 \<or> (100000 \<le> unat w \<and> unat w < 1000000)"

lemma nat_dec_length_step: "10 * a \<le> n \<Longrightarrow> n < 10 * b \<Longrightarrow> 1 \<le> a \<Longrightarrow>
    (\<And>m. a \<le> m \<Longrightarrow> m < b \<Longrightarrow> length (nat_dec m) = k) \<Longrightarrow> length (nat_dec n) = Suc k"
  by (simp add: nat_dec_big less_mult_imp_div_less mult.commute)

lemma nat_dec_length6: "100000 \<le> n \<Longrightarrow> n < 1000000 \<Longrightarrow> length (nat_dec n) = 6"
proof -
  have 1: "length (nat_dec m) = 1" if "1 \<le> m" "m < 10" for m using that by (simp add: nat_dec_small)
  have 2: "length (nat_dec m) = 2" if "10 \<le> m" "m < 100" for m
    using nat_dec_length_step [of 1 m 10 1] that 1 by (simp add: numeral_2_eq_2)
  have 3: "length (nat_dec m) = 3" if "100 \<le> m" "m < 1000" for m
    using nat_dec_length_step [of 10 m 100 2] that 2 by simp
  have 4: "length (nat_dec m) = 4" if "1000 \<le> m" "m < 10000" for m
    using nat_dec_length_step [of 100 m 1000 3] that 3 by simp
  have 5: "length (nat_dec m) = 5" if "10000 \<le> m" "m < 100000" for m
    using nat_dec_length_step [of 1000 m 10000 4] that 4 by simp
  show "length (nat_dec n) = 6" if "100000 \<le> n" "n < 1000000"
    using nat_dec_length_step [of 10000 n 100000 5] that 5 by simp
qed

lemma sint_small: "- (2 ^ 31) \<le> x \<Longrightarrow> x < 2 ^ 31 \<Longrightarrow> sint (word_of_int x :: 32 word) = x"
  by (simp add: int_word_sint mod_pos_pos_trivial)

lemma small_word_sint:
  fixes w :: "32 word"
  assumes "unat w < 1000000"
  shows "0 \<le> sint w"
proof -
  have n: "int n < 2 ^ 31" "- (2 ^ 31) \<le> int n" if "n < 1000000" for n using that by simp_all
  note n [OF assms]
  then have "sint (word_of_int (int (unat w)) :: 32 word) = int (unat w)" by (intro sint_small [OF n(2) n(1)] assms)
  then show ?thesis by simp
qed

lemma strtoul_usec:
  assumes "usec_ok w" "number_end r"
  shows "\<exists>v k. strtoul 10 (pad2 (unat w) @ r) = (v, k, False) \<and> k = length (pad2 (unat w)) \<and> 0 < k \<and>
    digit2usec (word_of_int v) k = Inr w \<and> 0 \<le> sint w"
proof (cases "w = 0")
  case True
  have p: "pad2 0 = ''00''" by (simp add: pad2_two digit_char_0)
  have d: "is_digit_in 10 CHR ''0''" "digit_val CHR ''0'' = Some 0" "\<not> is_cspace CHR ''0''"
    by (simp_all add: is_digit_in_def digit_val_def ccode_def is_cspace_def)
  have "detect_base 10 (CHR ''0'' # CHR ''0'' # r) = (10, 0)"
    by (simp add: detect_base_def split: list.split)
  moreover have "scan_digits 10 0 0 (CHR ''0'' # CHR ''0'' # r) = (0, 2)"
    using scan_digits_stop [of r 10 0 2] assms(2) d by (auto simp: number_end_def numeral_2_eq_2)
  ultimately have "scan_number 10 (pad2 0 @ r) = (False, 0, 2)"
    using d by (simp add: p scan_number_def)
  then show ?thesis using True by (simp add: strtoul_def p digit2usec_def ULONG_MAX_def)
next
  case False
  then have b: "100000 \<le> unat w" "unat w < 1000000" using assms(1) by (auto simp: usec_ok_def)
  have "pad2 (unat w) = nat_dec (unat w)" using b by (simp add: pad2_def)
  moreover have "length (nat_dec (unat w)) = 6" by (rule nat_dec_length6 [OF b])
  moreover have "word_of_int (int (unat w)) = w" by simp
  moreover have "0 \<le> sint w" by (rule small_word_sint) (use b in linarith)
  ultimately show ?thesis using scan_number_nat_dec(1) [of 10 r "unat w"] assms(2) b(2)
    by (simp add: strtoul_def digit2usec_def ULONG_MAX_def)
qed

lemma parse_hmsu_read:
  assumes "tm_ok u" "usec_ok w" "number_end r"
  shows "parse_time_hmsu tm0 (fmt_d2 (tm_hour u) @ '':'' @ fmt_d2 (tm_min u) @ '':'' @ fmt_d2 (tm_sec u) @ ''.'' @
      pad2 (unat w) @ r)
    = Inr (tm0\<lparr>tm_hour := tm_hour u, tm_min := tm_min u, tm_sec := tm_sec u\<rparr>, Some w, r)"
proof -
  have h: "nat (tm_hour u) < 24" "nat (tm_min u) < 60" "nat (tm_sec u) < 60"
    using assms(1) by (auto simp: tm_ok_def)
  have "strptime3 CHR '':'' (0, 23, 2) (0, 59, 2) (0, 61, 2) (pad2 (nat (tm_hour u)) @ CHR '':'' #
      pad2 (nat (tm_min u)) @ CHR '':'' # pad2 (nat (tm_sec u)) @ CHR ''.'' # pad2 (unat w) @ r) =
    Some (nat (tm_hour u), nat (tm_min u), nat (tm_sec u), CHR ''.'' # pad2 (unat w) @ r)"
    by (rule strptime3_read) (use h in \<open>simp_all add: get_number_pad2\<close>)
  moreover obtain v k where "strtoul 10 (pad2 (unat w) @ r) = (v, k, False)" "k = length (pad2 (unat w))"
      "0 < k" "digit2usec (word_of_int v) k = Inr w" "0 \<le> sint w"
    using strtoul_usec [OF assms(2,3)] by blast
  ultimately show ?thesis using assms(1)
    by (simp add: parse_time_hmsu_def fmt_d2_def Let_def tm_ok_def)
qed

lemma scan_u2_pad2:
  assumes "n < 100"
  shows "scan_u2 (pad2 n @ r) = Some (of_nat n, r)"
proof -
  note d = two_digits [OF assms]
  have "scan_digits 10 0 0 [digit_char (n div 10), digit_char (n mod 10)] = (n, 2)"
    using d digit_char_read [OF d(1)] digit_char_read [OF d(2)]
    by (simp add: digit_val_char mult.commute)
  then show ?thesis
    using digit_char_facts [OF d(1)]
    by (simp add: scan_u2_def pad2_two [OF assms] Let_def)
qed

text \<open>The offsets that survive: whole minutes to the east, whole hours to the west.\<close>

definition offset_ok :: "32 word \<Rightarrow> bool" where
  "offset_ok w \<longleftrightarrow> (0 \<le> sint w \<and> sint w < 360000 \<and> sint w mod 60 = 0) \<or>
     (- 360000 < sint w \<and> sint w < 0 \<and> sint w mod 3600 = 0)"

lemma add32_small: "- (2 ^ 31) \<le> i + j \<Longrightarrow> i + j < 2 ^ 31 \<Longrightarrow> add32 i (word_of_int j) = i + j"
  by (simp only: add32_def wi_hom_add sint_small)

text \<open>
  What the last field does to the broken-down time: \<open>east\<close> for \<open>+\<close>. The two numbers are those of
  the text.
\<close>

lemma parse_gmt_east:
  assumes "tm_ok u" "h < 100" "m < 100"
  shows "parse_time_gmt u 0 (CHR ''+'' # pad2 h @ CHR '':'' # pad2 m) =
    Inr (u\<lparr>tm_min := tm_min u - int m, tm_hour := tm_hour u - int h\<rparr>, of_nat h * 3600 + of_nat m * 60)"
proof -
  have "add32 (tm_min u) (word_of_int (- int m)) = tm_min u - int m"
    "add32 (tm_hour u) (word_of_int (- int h)) = tm_hour u - int h"
    using assms by (subst add32_small; simp add: tm_ok_def)+
  then show ?thesis using assms scan_u2_pad2 [of m "[]"]
    by (simp add: parse_time_gmt_def scan_u2_u2_def scan_u2_pad2 get_char_def)
qed

lemma parse_gmt_west:
  assumes "tm_ok u" "h < 100" "m < 100"
  shows "parse_time_gmt u 0 (CHR ''-'' # pad2 h @ CHR '':'' # pad2 m) =
    Inr (u\<lparr>tm_min := tm_min u + int m, tm_hour := tm_hour u + int h\<rparr>, - (of_nat h * 3600 + of_nat m * 60))"
proof -
  have "add32 (tm_min u) (word_of_int (int m)) = tm_min u + int m"
    "add32 (tm_hour u) (word_of_int (int h)) = tm_hour u + int h"
    using assms by (subst add32_small; simp add: tm_ok_def)+
  then show ?thesis using assms scan_u2_pad2 [of m "[]"]
    by (simp add: parse_time_gmt_def scan_u2_u2_def scan_u2_pad2 get_char_def)
qed

lemma timegm_shift:
  "timegm (u\<lparr>tm_min := tm_min u + a, tm_hour := tm_hour u + b\<rparr>) = timegm u + (3600 * b + 60 * a)"
  by (simp add: timegm_def)

lemma c_div_nonneg: "0 \<le> a \<Longrightarrow> c_div a b = a div b"
  by (cases "a = 0") (simp_all add: c_div_def sgn_if)

lemma c_mod_nonneg: "0 \<le> a \<Longrightarrow> c_mod a b = a mod b"
  by (cases "a = 0") (simp_all add: c_mod_def sgn_if)

lemma whole_minutes:
  fixes s :: int
  assumes "s mod 60 = 0"
  shows "s = 3600 * (s div 3600) + 60 * (s mod 3600 div 60)"
proof -
  have "s mod 3600 mod 60 = 0" using assms by (simp add: mod_mod_cancel)
  then have "60 * (s mod 3600 div 60) = s mod 3600" using mult_div_mod_eq [of 60 "s mod 3600"] by simp
  then show ?thesis using mult_div_mod_eq [of 3600 s] by simp
qed

text \<open>The text of an offset that survives, and what reading it does.\<close>

lemma offset_text:
  assumes "tm_ok u" "offset_ok w"
  defines "txt \<equiv> fmt_plus_d2 (c_div (sint w) 3600) @ CHR '':'' # fmt_d2 (c_div (c_mod (sint w) 3600) 60)"
  shows "\<exists>u'. parse_time_gmt u 0 txt = Inr (u', w) \<and> timegm u' = timegm u - sint w"
    and "number_end txt" "txt \<noteq> []"
proof -
  have w: "word_of_int (sint w) = w" by simp
  have "(\<exists>u'. parse_time_gmt u 0 txt = Inr (u', w) \<and> timegm u' = timegm u - sint w) \<and>
    (\<exists>r. txt = CHR ''+'' # r \<or> txt = CHR ''-'' # r)"
  proof (cases "0 \<le> sint w")
    case True
    define h m where hm: "h = nat (sint w div 3600)" "m = nat (sint w mod 3600 div 60)"
    have b: "sint w < 360000" "sint w mod 60 = 0" using assms(2) True by (auto simp: offset_ok_def)
    have i: "int h = sint w div 3600" "int m = sint w mod 3600 div 60"
      using True by (auto intro!: nat_0_le simp: hm div_int_pos_iff)
    have "sint w div 3600 < 100" "sint w mod 3600 div 60 < 100" using b(1) by linarith+
    then have l: "h < 100" "m < 100" unfolding i [symmetric] by simp_all
    have e: "sint w = 3600 * int h + 60 * int m" unfolding i by (rule whole_minutes [OF b(2)])
    have "word_of_int (3600 * int h + 60 * int m) = (of_nat h * 3600 + of_nat m * 60 :: 32 word)" by simp
    then have o: "of_nat h * 3600 + of_nat m * 60 = w" using w e by metis
    have "0 \<le> sint w mod 3600" by simp
    then have c: "c_div (sint w) 3600 = int h" "c_mod (sint w) 3600 = sint w mod 3600"
      "c_div (sint w mod 3600) 60 = int m"
      unfolding i using True by (simp_all only: c_div_nonneg c_mod_nonneg)
    have t: "txt = CHR ''+'' # pad2 h @ CHR '':'' # pad2 m"
      unfolding txt_def c by (simp add: fmt_plus_d2_def fmt_d2_def)
    have "timegm (u\<lparr>tm_min := tm_min u - int m, tm_hour := tm_hour u - int h\<rparr>) = timegm u - sint w"
      unfolding e using timegm_shift [of u, where a = "- int m" and b = "- int h"] by simp
    moreover have "parse_time_gmt u 0 txt = Inr (u\<lparr>tm_min := tm_min u - int m, tm_hour := tm_hour u - int h\<rparr>, w)"
      unfolding t o [symmetric] by (rule parse_gmt_east [OF assms(1) l])
    ultimately show ?thesis using t by blast
  next
    case False
    define h where h: "h = nat (- sint w div 3600)"
    have b: "- 360000 < sint w" "sint w mod 3600 = 0" using assms(2) False by (auto simp: offset_ok_def)
    have "3600 dvd sint w" using b(2) by auto
    then have "- sint w = 3600 * (- sint w div 3600)" by simp
    moreover have "int h = - sint w div 3600" unfolding h using False by (intro nat_0_le) simp
    ultimately have e: "sint w = - (3600 * int h)" by linarith
    then have l: "h < 100" "0 < h" using b(1) False by linarith+
    have "word_of_int (- (3600 * int h)) = (- (of_nat h * 3600 + of_nat 0 * 60) :: 32 word)" by simp
    then have o: "- (of_nat h * 3600 + of_nat 0 * 60) = w" using w e by metis
    have c: "c_div (- (3600 * int h)) 3600 = - int h" "c_mod (- (3600 * int h)) 3600 = 0" "c_div 0 60 = 0"
      using l(2) by (simp_all add: c_div_def c_mod_def sgn_if abs_mult)
    have t: "txt = CHR ''-'' # pad2 h @ CHR '':'' # pad2 0"
      unfolding txt_def e c using l(2) by (simp add: fmt_plus_d2_def fmt_d2_def)
    have "timegm (u\<lparr>tm_min := tm_min u + int 0, tm_hour := tm_hour u + int h\<rparr>) = timegm u - sint w"
      unfolding e using timegm_shift [of u, where a = "int 0" and b = "int h"] by simp
    moreover have "parse_time_gmt u 0 txt = Inr (u\<lparr>tm_min := tm_min u + int 0, tm_hour := tm_hour u + int h\<rparr>, w)"
      unfolding t o [symmetric] by (rule parse_gmt_west [OF assms(1) l(1)]) simp
    ultimately show ?thesis using t by blast
  qed
  then show "\<exists>u'. parse_time_gmt u 0 txt = Inr (u', w) \<and> timegm u' = timegm u - sint w" "txt \<noteq> []"
    by auto
  show "number_end txt" using \<open>_ \<and> (\<exists>r. txt = CHR ''+'' # r \<or> txt = CHR ''-'' # r)\<close>
    by (auto simp: number_end_def is_digit_in_def digit_val_def ccode_def)
qed

section \<open>A written time is read back\<close>

lemma pad2_chars: "c \<in> set (pad2 n) \<Longrightarrow> \<exists>d < 10. c = digit_char d"
  using nat_dec_chars [of c n] digit_char_0 [symmetric] by (auto simp: pad2_def split: if_splits intro: exI [of _ 0])

lemma fmt_chars:
  "c \<in> set (fmt_d2 i) \<Longrightarrow> c \<noteq> CHR 0x00" "c \<in> set (fmt_plus_d2 i) \<Longrightarrow> c \<noteq> CHR 0x00"
  "c \<in> set (pad2 n) \<Longrightarrow> c \<noteq> CHR 0x00" "c \<in> set (int_dec i) \<Longrightarrow> c \<noteq> CHR 0x00"
proof -
  have d: "digit_char d \<noteq> CHR 0x00" if "d < 10" for d
    using ccode_digit_char [OF that] by (auto simp: ccode_def)
  have p: "c \<in> set (pad2 n) \<Longrightarrow> c \<noteq> CHR 0x00" for n using pad2_chars [of c n] d by auto
  then show "c \<in> set (pad2 n) \<Longrightarrow> c \<noteq> CHR 0x00" .
  show "c \<in> set (fmt_d2 i) \<Longrightarrow> c \<noteq> CHR 0x00" "c \<in> set (fmt_plus_d2 i) \<Longrightarrow> c \<noteq> CHR 0x00"
    using p by (auto simp: fmt_d2_def fmt_plus_d2_def split: if_splits)
  show "c \<in> set (int_dec i) \<Longrightarrow> c \<noteq> CHR 0x00"
  proof -
    assume "c \<in> set (int_dec i)"
    then consider "c = CHR ''-''" | e where "e < 10" "c = digit_char e" using int_dec_chars by blast
    then show "c \<noteq> CHR 0x00" by cases (simp_all add: d)
  qed
qed

lemma time_text_is_cstr: "cstr (time_to_string t) = time_to_string t"
proof -
  have "CHR 0x00 \<notin> set (time_to_string t)"
    by (auto simp: time_to_string_def Let_def dest: fmt_chars)
  then show ?thesis by (simp add: cstr_def takeWhile_eq_all_conv) metis
qed

lemma time_parse_fields:
  assumes "tm_ok u" "usec_ok w" "number_end x" "x \<noteq> []" "parse_time_gmt u 0 x = Inr (u', o')"
  shows "time_parse mk t0 (int_dec (int (tm_year u)) @ ''-'' @ fmt_d2 (int (tm_mon u)) @ ''-'' @
      fmt_d2 (int (tm_mday u)) @ ''T'' @ fmt_d2 (tm_hour u) @ '':'' @ fmt_d2 (tm_min u) @ '':'' @ fmt_d2 (tm_sec u) @
      ''.'' @ pad2 (unat w) @ x) =
    (Inr (), t0\<lparr>time_sec := word_of_int (timegm u'), time_usec := w, time_gmt_offset := o'\<rparr>)"
proof -
  let ?tm0 = "\<lparr>tm_year = 1900, tm_mon = 1, tm_mday = 0, tm_hour = 0, tm_min = 0, tm_sec = 0\<rparr>"
  let ?r = "fmt_d2 (tm_hour u) @ '':'' @ fmt_d2 (tm_min u) @ '':'' @ fmt_d2 (tm_sec u) @ ''.'' @ pad2 (unat w) @ x"
  let ?tm1 = "?tm0\<lparr>tm_year := tm_year u, tm_mon := tm_mon u, tm_mday := tm_mday u\<rparr>"
  have "?tm1\<lparr>tm_hour := tm_hour u, tm_min := tm_min u, tm_sec := tm_sec u\<rparr> = u" by simp
  then have "parse_time_hmsu ?tm1 ?r = Inr (u, Some w, x)"
    using parse_hmsu_read [OF assms(1,2,3), of ?tm1] by metis
  moreover have "?r \<noteq> []" by simp
  ultimately show ?thesis
    unfolding time_parse_def Let_def parse_ymd_read [OF assms(1)] option.case prod.case
    using assms(4,5) by (simp only: if_False sum.case prod.case option.case) simp
qed

lemma time_parse_text:
  assumes "usec_ok (time_usec t)" "offset_ok (time_gmt_offset t)"
  shows "time_parse mk t0 (time_to_string t) = (Inr (), t0\<lparr>time_sec := time_sec t, time_usec := time_usec t,
    time_gmt_offset := time_gmt_offset t\<rparr>)"
proof -
  let ?o = "time_gmt_offset t" and ?n = "unat (time_sec t + time_gmt_offset t)"
  let ?txt = "fmt_plus_d2 (c_div (sint ?o) 3600) @ CHR '':'' # fmt_d2 (c_div (c_mod (sint ?o) 3600) 60)"
  have n: "?n < 2 ^ 32" using unsigned_less [of "time_sec t + time_gmt_offset t"] by simp
  note u = gmtime_ok [OF n]
  obtain u' where u': "parse_time_gmt (gmtime ?n) 0 ?txt = Inr (u', ?o)" "timegm u' = timegm (gmtime ?n) - sint ?o"
    using offset_text(1) [OF u(1) assms(2)] by blast
  note ot = offset_text(2,3) [OF u(1) assms(2)]
  have "word_of_int (timegm u') = (of_nat ?n - ?o :: 32 word)"
    using u(2) u'(2) by (simp add: wi_hom_sub [symmetric])
  then have "word_of_int (timegm u') = time_sec t" by simp
  then show ?thesis
    using time_parse_fields [OF u(1) assms(1) ot u'(1), of mk t0]
    by (simp add: time_to_string_def Let_def)
qed

text \<open>
  C31. Reading the text of a time back, into any time object, gives the seconds, the microseconds and
  the offset of the written time, whatever the local time zone is, when the microseconds are zero
  or have six digits and the offset is a whole number of minutes to the east or of hours to the
  west, below 100 hours. Nothing else in memory changes. The seconds may be any 32-bit number.
\<close>

theorem time_text_roundtrip:
  assumes "ocells m a = Some (C_time t0)" "usec_ok (time_usec t)" "offset_ok (time_gmt_offset t)"
  shows "time_set_from_string mk (Some a) (time_to_string t) m = (Inr (), m\<lparr>ocells := (ocells m)(a \<mapsto>
    C_time (t0\<lparr>time_sec := time_sec t, time_usec := time_usec t, time_gmt_offset := time_gmt_offset t\<rparr>))\<rparr>)"
  using assms by (simp add: time_set_from_string_def time_text_is_cstr time_parse_text act_simps put_cell_def lift_res_def)

definition sample_time :: time_obj where
  "sample_time = \<lparr>time_refcount = 1, time_sec = 1700000000, time_usec = 250000, time_gmt_offset = -18000\<rparr>"

theorem time_text_roundtrip_witness:
  "let m = \<lparr>ocells = [1 \<mapsto> C_time (sample_time\<lparr>time_sec := 0\<rparr>)], onext = 2, obj_alloc_ok = (\<lambda>_. True)\<rparr> in
   time_set_from_string (\<lambda>_. 0) (Some 1) (time_to_string sample_time) m
   = (Inr (), m\<lparr>ocells := [1 \<mapsto> C_time sample_time]\<rparr>)"
proof -
  have "sint (- 18000 :: 32 word) = - 18000" using sint_small [of "- 18000"] by simp
  then have "usec_ok (time_usec sample_time)" "offset_ok (time_gmt_offset sample_time)"
    by (simp_all add: sample_time_def usec_ok_def offset_ok_def)
  then show ?thesis
    using time_text_roundtrip [of "\<lparr>ocells = [1 \<mapsto> C_time (sample_time\<lparr>time_sec := 0\<rparr>)], onext = 2, obj_alloc_ok = (\<lambda>_. True)\<rparr>" 1
      "sample_time\<lparr>time_sec := 0\<rparr>" sample_time "\<lambda>_. 0"] by (simp add: sample_time_def Let_def)
qed

text \<open>What is not read back: half hours to the west, and microseconds written with fewer than six digits.\<close>

lemma gmtime_first_day: "t < 86400 \<Longrightarrow> gmtime t = \<lparr>tm_year = 1970, tm_mon = 1, tm_mday = 1,
    tm_hour = int (t div 3600), tm_min = int (t mod 3600 div 60), tm_sec = int (t mod 60)\<rparr>"
proof -
  assume t: "t < 86400"
  have "split_years 1970 0 = (1970, 0)" by (simp add: split_years.simps [of 1970 0] year_days_def)
  moreover have "split_months 11 1970 1 0 = (1, 0)" by (simp add: month_days_def eval_nat_numeral)
  moreover have "t div 86400 = 0" "t mod 86400 = t" using t by simp_all
  ultimately show ?thesis by (simp only: gmtime_def prod.case Let_def) simp
qed

lemma west_half_hour_misread:
  "time_to_string \<lparr>time_refcount = 1, time_sec = 7200, time_usec = 0, time_gmt_offset = -5400\<rparr> =
     ''1970-01-01T00:30:00.00-01:-30''"
  "\<exists>u. parse_time_gmt tm 0 ''-01:-30'' = Inr (u, - 3420)"
proof -
  have "sint (- 5400 :: 32 word) = - 5400" using sint_small [of "- 5400"] by simp
  then show "time_to_string \<lparr>time_refcount = 1, time_sec = 7200, time_usec = 0, time_gmt_offset = -5400\<rparr> =
     ''1970-01-01T00:30:00.00-01:-30''"
    by (simp add: time_to_string_def gmtime_first_day) code_simp
  show "\<exists>u. parse_time_gmt tm 0 ''-01:-30'' = Inr (u, - 3420)"
  proof -
    have "scan_u2_u2 ''01:-30'' = Some (1, -3)" by code_simp
    then show ?thesis by (simp add: parse_time_gmt_def)
  qed
qed

lemma short_usec_misread:
  "time_to_string \<lparr>time_refcount = 1, time_sec = 0, time_usec = 5, time_gmt_offset = 0\<rparr> =
     ''1970-01-01T00:00:00.05+00:00''"
  "\<exists>u. parse_time_hmsu tm ''00:00:00.05+00:00'' = Inr (u, Some 50000, ''+00:00'')"
proof -
  show "time_to_string \<lparr>time_refcount = 1, time_sec = 0, time_usec = 5, time_gmt_offset = 0\<rparr> =
     ''1970-01-01T00:00:00.05+00:00''"
    by (simp add: time_to_string_def gmtime_first_day) code_simp
  show "\<exists>u. parse_time_hmsu tm ''00:00:00.05+00:00'' = Inr (u, Some 50000, ''+00:00'')"
  proof -
    have "strptime3 CHR '':'' (0, 23, 2) (0, 59, 2) (0, 61, 2) ''00:00:00.05+00:00'' = Some (0, 0, 0, ''.05+00:00'')"
      by code_simp
    moreover have "strtoul 10 ''05+00:00'' = (5, 2, False)" by code_simp
    moreover have "0 \<le> sint (50000 :: 32 word)" using sint_small [of 50000] by simp
    ultimately show ?thesis by (simp add: parse_time_hmsu_def digit2usec_def Let_def)
  qed
qed

end
