(* ===== verification/Io.thy ===== *)
theory Io
  imports Prelude Errors
begin

text \<open>
  src/src/libiodefv2-io.c: an object with four callbacks, and the buffer implementation of them.
  Reading and writing file descriptors and stdio files is the operating system's; it is not
  modelled, and neither are the delimited messages, which wait with \<open>poll\<close>.
\<close>

section \<open>The object\<close>

text \<open>
  The buffer (\<open>fd_ptr\<close> with its \<open>size\<close>) and \<open>rindex\<close>; \<open>io_realloc_ok n\<close> tells whether growing the
  buffer to \<open>n\<close> bytes succeeds.
\<close>

record io_buffer =
  io_bytes :: string
  io_rindex :: nat
  io_realloc_ok :: "nat \<Rightarrow> bool"

record io =
  io_buf :: io_buffer
  close_cb :: "(io_buffer \<Rightarrow> unit res \<times> io_buffer) option"
  read_cb :: "(nat \<Rightarrow> io_buffer \<Rightarrow> string res \<times> io_buffer) option"
  write_cb :: "(string \<Rightarrow> io_buffer \<Rightarrow> nat res \<times> io_buffer) option"
  pending_cb :: "(io_buffer \<Rightarrow> nat res) option"

section \<open>Buffers\<close>

definition buffer_read :: "nat \<Rightarrow> io_buffer \<Rightarrow> string res \<times> io_buffer" where
  "buffer_read count b = (if length (io_bytes b) - io_rindex b = 0 then (Inr [], b)
     else let n = min count (length (io_bytes b) - io_rindex b) in
       (Inr (take n (drop (io_rindex b) (io_bytes b))), b\<lparr>io_rindex := io_rindex b + n\<rparr>))"

text \<open>The sum of the sizes is a \<open>size_t\<close>; writing no bytes is an error.\<close>

definition buffer_write :: "string \<Rightarrow> io_buffer \<Rightarrow> nat res \<times> io_buffer" where
  "buffer_write s b =
     (let new = (length (io_bytes b) + length s) mod 2 ^ 64 in
      if new \<le> length (io_bytes b) then (Inl E_minus1, b)
      else if \<not> io_realloc_ok b new then (Inl E_errno, b)
      else (Inr (length s), b\<lparr>io_bytes := io_bytes b @ s\<rparr>))"

definition buffer_close :: "io_buffer \<Rightarrow> unit res \<times> io_buffer" where
  "buffer_close b = (Inr (), b\<lparr>io_bytes := [], io_rindex := 0\<rparr>)"

definition buffer_pending :: "io_buffer \<Rightarrow> nat res" where
  "buffer_pending b = Inr (length (io_bytes b) - io_rindex b)"

section \<open>Operations\<close>

definition io_new :: "bool \<Rightarrow> (nat \<Rightarrow> bool) \<Rightarrow> io res" where
  "io_new alloc ok = (if alloc then Inr \<lparr>io_buf = \<lparr>io_bytes = [], io_rindex = 0, io_realloc_ok = ok\<rparr>,
     close_cb = None, read_cb = None, write_cb = None, pending_cb = None\<rparr> else Inl E_errno)"

definition io_set_buffer_io :: "io option \<Rightarrow> io res" where
  "io_set_buffer_io pio = (case pio of None \<Rightarrow> Inl (E ERROR_ASSERTION)
   | Some p \<Rightarrow> Inr (p\<lparr>io_buf := (io_buf p)\<lparr>io_bytes := [], io_rindex := 0\<rparr>, read_cb := Some buffer_read,
       write_cb := Some buffer_write, close_cb := Some buffer_close, pending_cb := Some buffer_pending\<rparr>))"

definition io_read :: "nat \<Rightarrow> io \<Rightarrow> string res \<times> io" where
  "io_read count p = (case read_cb p of None \<Rightarrow> (Inl (E ERROR_ASSERTION), p)
   | Some f \<Rightarrow> (let (r, b) = f count (io_buf p) in (r, p\<lparr>io_buf := b\<rparr>)))"

definition io_write :: "string \<Rightarrow> io \<Rightarrow> nat res \<times> io" where
  "io_write s p = (case write_cb p of None \<Rightarrow> (Inl (E ERROR_ASSERTION), p)
   | Some f \<Rightarrow> (let (r, b) = f s (io_buf p) in (r, p\<lparr>io_buf := b\<rparr>)))"

definition io_close :: "io \<Rightarrow> unit res \<times> io" where
  "io_close p = (case close_cb p of None \<Rightarrow> (Inl (E ERROR_ASSERTION), p)
   | Some f \<Rightarrow> (let (r, b) = f (io_buf p) in (r, p\<lparr>io_buf := b\<rparr>)))"

text \<open>\<open>pending\<close> is called without a test.\<close>

definition io_pending :: "io \<Rightarrow> nat res" where
  "io_pending p = (case pending_cb p of None \<Rightarrow> Inl (UB Null_deref) | Some f \<Rightarrow> f (io_buf p))"

definition io_set_write_callback where
  "io_set_write_callback f p = p\<lparr>write_cb := f\<rparr>"

definition io_set_read_callback where
  "io_set_read_callback f p = p\<lparr>read_cb := f\<rparr>"

definition io_set_pending_callback where
  "io_set_pending_callback f p = p\<lparr>pending_cb := f\<rparr>"

text \<open>
  \<open>copy_forward\<close> with its buffer of 8192 bytes. A read callback that gives more bytes than asked for
  writes past the buffer.
\<close>

function copy_forward :: "nat \<Rightarrow> nat \<Rightarrow> io \<Rightarrow> io \<Rightarrow> nat res \<times> io \<times> io" where
  "copy_forward scount count dst src =
     (if count = 0 then (Inr scount, dst, src)
      else (case io_read (min count 8192) src of
        (Inl e, src) \<Rightarrow> (Inl e, dst, src)
      | (Inr s, src) \<Rightarrow>
          if s = [] then (Inr 0, dst, src)
          else if min count 8192 < length s then (Inl (UB Out_of_bounds), dst, src)
          else (case io_write s dst of
            (Inl e, dst) \<Rightarrow> (Inl e, dst, src)
          | (Inr _, dst) \<Rightarrow> copy_forward scount (count - length s) dst src)))"
  by pat_completeness auto
termination by (relation "measure (\<lambda>(_, count, _, _). count)") auto

declare copy_forward.simps [simp del]

definition io_forward :: "io option \<Rightarrow> io option \<Rightarrow> nat \<Rightarrow> nat res \<times> io option \<times> io option" where
  "io_forward dst src count = (case (dst, src) of
     (Some d, Some s) \<Rightarrow> (let (r, d, s) = copy_forward count count d s in (r, Some d, Some s))
   | _ \<Rightarrow> (Inl (E ERROR_ASSERTION), dst, src))"

section \<open>Buffers are queues\<close>

definition buffer_io :: "io \<Rightarrow> bool" where
  "buffer_io p \<longleftrightarrow> read_cb p = Some buffer_read \<and> write_cb p = Some buffer_write \<and>
     close_cb p = Some buffer_close \<and> pending_cb p = Some buffer_pending \<and>
     io_rindex (io_buf p) \<le> length (io_bytes (io_buf p)) \<and> length (io_bytes (io_buf p)) < 2 ^ 64"

definition unread :: "io \<Rightarrow> string" where
  "unread p = drop (io_rindex (io_buf p)) (io_bytes (io_buf p))"

text \<open>How many bytes the buffer can still take.\<close>

definition io_room :: "io \<Rightarrow> nat" where
  "io_room p = (if \<forall>n. io_realloc_ok (io_buf p) n then 2 ^ 64 - 1 - length (io_bytes (io_buf p)) else 0)"

lemma io_read_buffer:
  assumes "buffer_io p"
  shows "\<exists>p'. io_read n p = (Inr (take n (unread p)), p') \<and> buffer_io p' \<and> unread p' = drop n (unread p)"
proof -
  let ?b = "io_buf p" and ?k = "min n (length (io_bytes (io_buf p)) - io_rindex (io_buf p))"
  have "take n (unread p) = take ?k (unread p)" "drop n (unread p) = drop ?k (unread p)"
    by (simp_all add: unread_def min_def)
  then show ?thesis
    using assms by (auto simp: io_read_def buffer_read_def buffer_io_def Let_def unread_def add.commute)
qed

lemma io_write_buffer:
  assumes "buffer_io p" "s \<noteq> []" "length s \<le> io_room p"
  shows "\<exists>p'. io_write s p = (Inr (length s), p') \<and> buffer_io p' \<and> unread p' = unread p @ s \<and>
    io_bytes (io_buf p') = io_bytes (io_buf p) @ s \<and> io_room p' = io_room p - length s"
proof -
  have ok: "\<forall>n. io_realloc_ok (io_buf p) n" using assms(2,3) by (auto simp: io_room_def split: if_splits)
  have pos: "0 < length s" using assms(2) by simp
  have "length s \<le> 2 ^ 64 - 1 - length (io_bytes (io_buf p))" using assms(3) ok by (simp add: io_room_def)
  then have l: "length (io_bytes (io_buf p)) + length s < 2 ^ 64" using pos by (simp del: length_greater_0_conv)
  moreover note pos
  ultimately show ?thesis
    using assms ok by (auto simp: io_write_def buffer_write_def buffer_io_def Let_def unread_def io_room_def)
qed

lemma io_pending_buffer: "buffer_io p \<Longrightarrow> io_pending p = Inr (length (unread p))"
  by (simp add: io_pending_def buffer_pending_def buffer_io_def unread_def)

lemma rest_fits: "k \<le> a \<Longrightarrow> min a u \<le> r \<Longrightarrow> min (a - min u k) (u - k) \<le> r - min u k" for a u k r :: nat
  by (auto simp: min_def split: if_splits)

lemma rest_moved:
  assumes "f = g" "u1 = drop k u" "d1 = d @ take k u" "k \<le> count" "k \<le> length u"
    and "g = (Inr (if count - k \<le> length u1 then n else 0), dst', src')"
    "buffer_io dst'" "buffer_io src'" "unread dst' = d1 @ take (count - k) u1" "unread src' = drop (count - k) u1"
  shows "\<exists>dst' src'. f = (Inr (if count \<le> length u then n else 0), dst', src') \<and>
    buffer_io dst' \<and> buffer_io src' \<and> unread dst' = d @ take count u \<and> unread src' = drop count u"
proof -
  have "take k u @ take (count - k) (drop k u) = take count u"
    using assms(4) by (metis le_add_diff_inverse take_add)
  then show ?thesis using assms by (auto simp: le_diff_conv)
qed

text \<open>
  Forwarding between two buffers, for any count: the result is the count, or 0 when the source has
  fewer bytes, although those it has are moved.
\<close>

lemma io_forward_buffers:
  assumes "buffer_io src" "buffer_io dst" "min count (length (unread src)) \<le> io_room dst"
  shows "\<exists>dst' src'. io_forward (Some dst) (Some src) count =
      (Inr (if count \<le> length (unread src) then count else 0), Some dst', Some src') \<and>
    buffer_io dst' \<and> buffer_io src' \<and>
    unread dst' = unread dst @ take count (unread src) \<and> unread src' = drop count (unread src)"
proof -
  have "\<exists>dst' src'. copy_forward scount count dst src =
      (Inr (if count \<le> length (unread src) then scount else 0), dst', src') \<and>
    buffer_io dst' \<and> buffer_io src' \<and>
    unread dst' = unread dst @ take count (unread src) \<and> unread src' = drop count (unread src)" for scount
    using assms
  proof (induction scount count dst src rule: copy_forward.induct)
    case (1 scount count dst src)
    let ?n = "min count 8192" and ?u = "unread src"
    obtain src1 where r: "io_read ?n src = (Inr (take ?n ?u), src1)" "buffer_io src1" "unread src1 = drop ?n ?u"
      using io_read_buffer [OF "1.prems"(1)] by blast
    consider (z) "count = 0" | (e) "count \<noteq> 0" "?u = []" | (m) "count \<noteq> 0" "?u \<noteq> []" by blast
    then show ?case
    proof cases
      case z
      then show ?thesis using "1.prems" by (simp add: copy_forward.simps)
    next
      case e
      then show ?thesis using "1.prems" r by (subst copy_forward.simps) simp
    next
      case m
      let ?s = "take ?n ?u"
      have s: "?s \<noteq> []" "length ?s \<le> ?n" "length ?s \<le> io_room dst" using m "1.prems"(3) by auto
      obtain dst1 where w: "io_write ?s dst = (Inr (length ?s), dst1)" "buffer_io dst1"
          "unread dst1 = unread dst @ ?s" "io_room dst1 = io_room dst - length ?s"
        using io_write_buffer [OF "1.prems"(2) s(1,3)] by blast
      have room: "min (count - length ?s) (length (unread src1)) \<le> io_room dst1"
        using rest_fits [of ?n count] "1.prems"(3) by (simp only: r(3) w(4) length_drop length_take min.cobounded1)
      from "1.IH" [OF m(1) r(1) [symmetric] refl s(1) _ w(1) [symmetric] refl r(2) w(2) room] s(2)
      obtain dst' src' where i: "copy_forward scount (count - length ?s) dst1 src1 =
          (Inr (if count - length ?s \<le> length (unread src1) then scount else 0), dst', src')"
        "buffer_io dst'" "buffer_io src'" "unread dst' = unread dst1 @ take (count - length ?s) (unread src1)"
        "unread src' = drop (count - length ?s) (unread src1)" by (auto simp: not_less)
      have step: "copy_forward scount count dst src = copy_forward scount (count - length x) dst1 src1"
        if "io_read ?n src = (Inr x, src1)" "x \<noteq> []" "length x \<le> ?n" "io_write x dst = (Inr (length x), dst1)" for x
        using m that(1,2,4) not_less [THEN iffD2, OF that(3)] by (subst copy_forward.simps) simp
      have "copy_forward scount count dst src = copy_forward scount (count - length ?s) dst1 src1"
        by (rule step [OF r(1) s(1,2) w(1)])
      moreover have src1: "unread src1 = drop (length ?s) ?u" by (simp add: r(3) min_def)
      moreover have s': "?s = take (length ?s) ?u" by (simp add: min_def)
      moreover have "length ?s \<le> count" "length ?s \<le> length ?u" by simp_all
      moreover have "unread dst1 = unread dst @ take (length ?s) ?u" using w(3) s' by argo
      ultimately show ?thesis using i by (intro rest_moved)
    qed
  qed
  from this [of count] show ?thesis by (force simp: io_forward_def)
qed

text \<open>
  The end of the source: the bytes it had were written, but the result is 0 (the documentation of
  the function promises the number of bytes written).
\<close>

lemma io_forward_short:
  assumes "buffer_io src" "buffer_io dst" "length (unread src) < count" "length (unread src) \<le> io_room dst"
  shows "\<exists>dst' src'. io_forward (Some dst) (Some src) count = (Inr 0, Some dst', Some src') \<and>
    unread dst' = unread dst @ unread src \<and> unread src' = []"
  using io_forward_buffers [OF assms(1,2), of count] assms(3,4) by (auto simp: min_def not_le)

text \<open>
  C34. Forwarding between two buffers, when the source has the asked number of bytes and the target
  has room for them, returns (in blocks of 8192 bytes) with that number: exactly these bytes are
  taken off the front of the source's unread bytes and appended, in order, to the target, and both
  remain buffers that later calls can use. (The count is a \<open>size_t\<close> and the result a \<open>ssize_t\<close>, so
  the count is below \<open>2 ^ 63\<close>.)
\<close>

theorem io_forward_moves:
  assumes "buffer_io src" "buffer_io dst" "count \<le> length (unread src)" "count \<le> io_room dst"
    and "count < 2 ^ 63"
  shows "\<exists>dst' src'. io_forward (Some dst) (Some src) count = (Inr count, Some dst', Some src') \<and>
    buffer_io dst' \<and> buffer_io src' \<and>
    unread dst' = unread dst @ take count (unread src) \<and> unread src' = drop count (unread src)"
proof -
  have "min count (length (unread src)) \<le> io_room dst" using assms(4) by simp
  from io_forward_buffers [OF assms(1,2) this] show ?thesis using assms(3) by simp
qed

definition sample_io :: "string \<Rightarrow> io" where
  "sample_io s = \<lparr>io_buf = \<lparr>io_bytes = s, io_rindex = 0, io_realloc_ok = \<lambda>_. True\<rparr>, close_cb = Some buffer_close,
     read_cb = Some buffer_read, write_cb = Some buffer_write, pending_cb = Some buffer_pending\<rparr>"

lemma sample_io_ok: "length s < 2 ^ 64 \<Longrightarrow> buffer_io (sample_io s)" "unread (sample_io s) = s"
    "io_room (sample_io s) = 2 ^ 64 - 1 - length s"
  by (simp_all add: sample_io_def buffer_io_def unread_def io_room_def)

theorem io_forward_moves_witness:
  "\<exists>dst' src'. io_forward (Some (sample_io ''ab'')) (Some (sample_io ''xyz'')) 2 = (Inr 2, Some dst', Some src') \<and>
    unread dst' = ''abxy'' \<and> unread src' = ''z''"
proof -
  have "buffer_io (sample_io ''xyz'')" "buffer_io (sample_io ''ab'')" "2 \<le> length (unread (sample_io ''xyz''))"
    "2 \<le> io_room (sample_io ''ab'')"
    by (simp_all add: sample_io_ok)
  from io_forward_moves [OF this] show ?thesis by (auto simp: sample_io_ok)
qed

end
