(* ===== verification/DataText.thy ===== *)
theory DataText
  imports TimeText Data Json
begin

text \<open>
  The text of a data object: \<open>bytes_to_string\<close> (base64) and \<open>iodefv2_data_to_string\<close> of
  src/src/iodefv2-data.c. The text of a float is the C library's and a parameter. What \<open>%f\<close> and the
  other formats write goes into a string object; the model gives the characters written.
\<close>

section \<open>Base64\<close>

definition b64tbl :: string where
  "b64tbl = ''ABCDEFGHIJKLMNOPQRSTUVWXYZabcdefghijklmnopqrstuvwxyz0123456789+/''"

definition b64 :: "nat \<Rightarrow> char" where
  "b64 n = b64tbl ! (n mod 64)"

text \<open>Three bytes a round; the last round may have fewer.\<close>

fun bytes_to_string :: "string \<Rightarrow> string" where
  "bytes_to_string [] = []"
| "bytes_to_string [a] = [b64 (ccode a div 4), b64 (ccode a * 16), CHR ''='', CHR ''='']"
| "bytes_to_string [a, b] =
     [b64 (ccode a div 4), b64 (ccode a * 16 + ccode b div 16), b64 (ccode b * 4), CHR ''='']"
| "bytes_to_string (a # b # c # s) =
     b64 (ccode a div 4) # b64 (ccode a * 16 + ccode b div 16) # b64 (ccode b * 4 + ccode c div 64) # b64 (ccode c) #
     bytes_to_string s"

text \<open>The decoder of RFC 4648, as a reference: the library has none.\<close>

definition b64_val :: "char \<Rightarrow> nat option" where
  "b64_val c = (if c \<in> set b64tbl then Some (length (takeWhile (\<lambda>d. d \<noteq> c) b64tbl)) else None)"

fun b64_decode :: "string \<Rightarrow> string option" where
  "b64_decode [] = Some []"
| "b64_decode (w # x # y # z # s) =
     (case (b64_val w, b64_val x) of
        (Some i, Some j) \<Rightarrow>
          if y = CHR ''='' then (if z = CHR ''='' \<and> s = [] \<and> j mod 16 = 0 then Some [byte (i * 4 + j div 16)] else None)
          else (case b64_val y of None \<Rightarrow> None | Some k \<Rightarrow>
            if z = CHR ''='' then (if s = [] \<and> k mod 4 = 0
              then Some [byte (i * 4 + j div 16), byte (j mod 16 * 16 + k div 4)] else None)
            else (case (b64_val z, b64_decode s) of
              (Some l, Some r) \<Rightarrow> Some (byte (i * 4 + j div 16) # byte (j mod 16 * 16 + k div 4) # byte (k mod 4 * 64 + l) # r)
            | _ \<Rightarrow> None))
      | _ \<Rightarrow> None)"
| "b64_decode _ = None"

lemma b64_val_b64: "b64_val (b64 n) = Some (n mod 64)" "b64 n \<noteq> CHR ''=''"
proof -
  have "\<forall>k < 64. b64_val (b64tbl ! k) = Some k \<and> b64tbl ! k \<noteq> CHR ''=''" by code_simp
  then show "b64_val (b64 n) = Some (n mod 64)" "b64 n \<noteq> CHR ''=''" by (simp_all add: b64_def)
qed

lemma byte_ccode: "byte (ccode c) = c"
  by (simp add: byte_def ccode_def)

lemma byte_parts:
  fixes a b c :: nat
  assumes "a < 256" "b < 256" "c < 256"
  shows "a div 4 mod 64 * 4 + a * 16 mod 64 div 16 = a" "a * 16 mod 64 mod 16 = 0"
    "a div 4 mod 64 * 4 + (a * 16 + b div 16) mod 64 div 16 = a"
    "(a * 16 + b div 16) mod 64 mod 16 * 16 + b * 4 mod 64 div 4 = b" "b * 4 mod 64 mod 4 = 0"
    "(a * 16 + b div 16) mod 64 mod 16 * 16 + (b * 4 + c div 64) mod 64 div 4 = b"
    "(b * 4 + c div 64) mod 64 mod 4 * 64 + c mod 64 = c"
proof -
  have h1: "a div 4 mod 64 = a div 4" using assms by simp
  have h2: "(a * 16 + x) mod 64 = a mod 4 * 16 + x" if "x < 16" for x
  proof -
    have "a * 16 + x = 64 * (a div 4) + (a mod 4 * 16 + x)" using mult_div_mod_eq [of 4 a] by linarith
    moreover have "a mod 4 * 16 + x < 64"
    proof -
      have "a mod 4 < 4" by simp
      then show ?thesis using that by linarith
    qed
    ultimately show ?thesis by (metis mod_mult_self4 mod_less)
  qed
  have h3: "(b * 4 + y) mod 64 = b mod 16 * 4 + y" if "y < 4" for y
  proof -
    have "b * 4 + y = 64 * (b div 16) + (b mod 16 * 4 + y)" using mult_div_mod_eq [of 16 b] by linarith
    moreover have "b mod 16 * 4 + y < 64"
    proof -
      have "b mod 16 < 16" by simp
      then show ?thesis using that by linarith
    qed
    ultimately show ?thesis by (metis mod_mult_self4 mod_less)
  qed
  have x: "b div 16 < 16" "c div 64 < 4" using assms by simp_all
  note e = h2 [of 0, simplified] h3 [of 0, simplified] h2 [OF x(1)] h3 [OF x(2)] h1
  have d: "(m * 16 + x) div 16 = m" "(m * 16 + x) mod 16 = x" if "x < 16" for m x :: nat using that by simp_all
  have d': "(m * 4 + y) div 4 = m" "(m * 4 + y) mod 4 = y" if "y < 4" for m y :: nat using that by simp_all
  show "a div 4 mod 64 * 4 + a * 16 mod 64 div 16 = a" "a * 16 mod 64 mod 16 = 0"
    "a div 4 mod 64 * 4 + (a * 16 + b div 16) mod 64 div 16 = a" "b * 4 mod 64 mod 4 = 0"
    unfolding e d [OF x(1)] by simp_all
  show "(a * 16 + b div 16) mod 64 mod 16 * 16 + b * 4 mod 64 div 4 = b"
    "(a * 16 + b div 16) mod 64 mod 16 * 16 + (b * 4 + c div 64) mod 64 div 4 = b"
    unfolding e d [OF x(1)] d' [OF x(2)] by simp_all
  show "(b * 4 + c div 64) mod 64 mod 4 * 64 + c mod 64 = c"
    unfolding e d' [OF x(2)] by simp
qed

text \<open>
  C35. The base64 text of any bytes, as long as they are, is decoded by the RFC's decoder to exactly
  these bytes.
\<close>

theorem base64_roundtrip: "b64_decode (bytes_to_string s) = Some s"
proof (induction s rule: bytes_to_string.induct)
  case (2 a)
  note f = byte_parts [of "ccode a" "ccode a" "ccode a", OF ccode_less ccode_less ccode_less]
  show ?case
    by (simp only: bytes_to_string.simps b64_decode.simps b64_val_b64 option.case prod.case f byte_ccode simp_thms if_True)
next
  case (3 a b)
  note f = byte_parts [of "ccode a" "ccode b" "ccode b", OF ccode_less ccode_less ccode_less]
  show ?case
    by (simp only: bytes_to_string.simps b64_decode.simps b64_val_b64 option.case prod.case f byte_ccode simp_thms if_True if_False)
next
  case (4 a b c s)
  note f = byte_parts [of "ccode a" "ccode b" "ccode c", OF ccode_less ccode_less ccode_less]
  show ?case
    by (simp only: bytes_to_string.simps b64_decode.simps b64_val_b64 option.case prod.case f byte_ccode simp_thms if_False 4)
qed simp

section \<open>The text of a data object\<close>

text \<open>\<open>%s\<close> reads up to a NUL, which must be in the buffer.\<close>

definition printf_s :: "string \<Rightarrow> string act" where
  "printf_s s = (if NUL \<in> set s then ret (cstr s) else fail (UB Out_of_bounds))"

text \<open>The union is read as the type says.\<close>

definition data_to_string :: "(32 word \<Rightarrow> string) \<Rightarrow> addr option \<Rightarrow> string act" where
  "data_to_string ftxt p = (if p = None then fail (E ERROR_ASSERTION) else
     act_bind (load_data p) (\<lambda>d. case data_kind d of
       DATA_UNKNOWN \<Rightarrow> ret []
     | DATA_CHAR \<Rightarrow> (case data_val d of U_char c \<Rightarrow> ret [c] | U_zero \<Rightarrow> ret [NUL] | _ \<Rightarrow> fail (UB Wrong_kind))
     | DATA_BYTE \<Rightarrow> (case data_val d of U_byte b \<Rightarrow> ret (nat_dec (unat b)) | U_zero \<Rightarrow> ret ''0'' | _ \<Rightarrow> fail (UB Wrong_kind))
     | DATA_FLOAT \<Rightarrow> (case data_val d of U_float f \<Rightarrow> ret (ftxt f) | U_zero \<Rightarrow> ret (ftxt 0) | _ \<Rightarrow> fail (UB Wrong_kind))
     | DATA_CHAR_STRING \<Rightarrow> act_bind (union_ptr (data_val d)) (\<lambda>b. act_bind (load_buf b) printf_s)
     | DATA_BYTE_STRING \<Rightarrow> (if data_len d = 0 then ret [] else
         act_bind (union_ptr (data_val d)) (\<lambda>b. act_bind (load_buf b) (\<lambda>s.
           if length s < data_len d then fail (UB Out_of_bounds) else ret (bytes_to_string (take (data_len d) s)))))
     | DATA_TIME \<Rightarrow> act_bind (union_ptr (data_val d)) (\<lambda>t. if t = None then fail (E ERROR_ASSERTION)
         else act_bind (load_time t) (\<lambda>t. ret (time_to_string t)))
     | _ \<Rightarrow> (case data_val d of U_int v \<Rightarrow> ret (int_dec (sint v)) | U_zero \<Rightarrow> ret ''0'' | _ \<Rightarrow> fail (UB Wrong_kind))))"

end
