(* ===== verification/Jsmn.thy ===== *)
theory Jsmn
  imports Json
begin

text \<open>
  The JSON tokeniser in src/src/lib-wrappers-gen/jsmn/jsmn.c, as iodefv2-document-read-json.c
  compiles it: with parent links, not strict, and always with a token array. Texts are given with
  their length; a NUL ends them too. The theorems say that the tokeniser stays inside its token
  array and inside the text, that it ends, and that on the text of a JSON value it finds exactly the
  tokens of the value.
\<close>

section \<open>Tokens and parser\<close>

record token =
  tk_type :: jtype
  tk_start :: int
  tk_end :: int
  tk_size :: nat
  tk_parent :: int

text \<open>\<open>toknext\<close> is the number of tokens in use; \<open>tok_count\<close> is the local \<open>count\<close> of \<open>jsmn_parse\<close>.\<close>

record jsmn =
  tok_pos :: nat
  tok_list :: "token list"
  tok_super :: int
  tok_count :: nat

definition jsmn_init :: jsmn where
  "jsmn_init = \<lparr>tok_pos = 0, tok_list = [], tok_super = -1, tok_count = 0\<rparr>"

abbreviation JSMN_NOMEM :: failure where "JSMN_NOMEM \<equiv> E_value (-1)"
abbreviation JSMN_INVAL :: failure where "JSMN_INVAL \<equiv> E_value (-2)"
abbreviation JSMN_PART :: failure where "JSMN_PART \<equiv> E_value (-3)"

text \<open>\<open>tokens[toksuper].size++\<close>\<close>

definition bump :: "int \<Rightarrow> token list \<Rightarrow> token list" where
  "bump s ts = (if s = -1 then ts else ts[nat s := (ts ! nat s)\<lparr>tk_size := tk_size (ts ! nat s) + 1\<rparr>])"

definition jsmn_alloc_token :: "nat \<Rightarrow> token \<Rightarrow> token list \<Rightarrow> token list res" where
  "jsmn_alloc_token cap t ts = (if length ts \<ge> cap then Inl JSMN_NOMEM else Inr (ts @ [t]))"

section \<open>Primitives and strings\<close>

definition is_space :: "char \<Rightarrow> bool" where
  "is_space c \<longleftrightarrow> c = CHR 0x09 \<or> c = CHR 0x0D \<or> c = CHR 0x0A \<or> c = CHR '' ''"

text \<open>The number of characters a primitive has, from the position of its first character.\<close>

fun prim_length :: "string \<Rightarrow> nat res" where
  "prim_length [] = Inr 0"
| "prim_length (c # cs) =
     (if c = NUL \<or> c = CHR '':'' \<or> is_space c \<or> c = CHR '','' \<or> c = CHR '']'' \<or> c = CHR ''}'' then Inr 0
      else if ccode c < 32 \<or> 127 \<le> ccode c then Inl JSMN_INVAL
      else res_bind (prim_length cs) (\<lambda>n. Inr (Suc n)))"

text \<open>At most four hexadecimal digits are skipped; fewer only at the end of the text.\<close>

fun skip_hex :: "nat \<Rightarrow> string \<Rightarrow> nat res" where
  "skip_hex 0 s = Inr 0"
| "skip_hex (Suc n) [] = Inr 0"
| "skip_hex (Suc n) (c # cs) =
     (if c = NUL then Inr 0
      else if hexval c = None then Inl JSMN_INVAL
      else res_bind (skip_hex n cs) (\<lambda>k. Inr (Suc k)))"

text \<open>The number of characters before the closing quote; the argument starts after the opening one.\<close>

function string_length :: "string \<Rightarrow> nat res" where
  "string_length s = (case s of
     [] \<Rightarrow> Inl JSMN_PART
   | c # cs \<Rightarrow>
       if c = NUL then Inl JSMN_PART
       else if c = CHR 0x22 then Inr 0
       else if c = bslash then (case cs of
           [] \<Rightarrow> Inl JSMN_PART
         | d # ds \<Rightarrow>
             if d = CHR 0x22 \<or> d = CHR ''/'' \<or> d = bslash \<or> d = CHR ''b'' \<or> d = CHR ''f'' \<or> d = CHR ''r'' \<or>
                d = CHR ''n'' \<or> d = CHR ''t''
             then res_bind (string_length ds) (\<lambda>n. Inr (n + 2))
             else if d = CHR ''u'' then (case skip_hex 4 ds of
                 Inl e \<Rightarrow> Inl e
               | Inr k \<Rightarrow> res_bind (string_length (drop k ds)) (\<lambda>n. Inr (n + k + 2)))
             else Inl JSMN_INVAL)
       else res_bind (string_length cs) (\<lambda>n. Inr (n + 1)))"
  by pat_completeness auto
termination
  by (relation "measure length") auto

declare string_length.simps [simp del]

text \<open>The functions leave \<open>pos\<close> at the last character of the token; the loop goes on after it.\<close>

definition jsmn_parse_primitive :: "nat \<Rightarrow> string \<Rightarrow> jsmn \<Rightarrow> jsmn res" where
  "jsmn_parse_primitive cap js p =
     res_bind (prim_length (drop (tok_pos p) js)) (\<lambda>n.
     res_bind (jsmn_alloc_token cap \<lparr>tk_type = JSMN_PRIMITIVE, tk_start = int (tok_pos p),
         tk_end = int (tok_pos p + n), tk_size = 0, tk_parent = tok_super p\<rparr> (tok_list p)) (\<lambda>ts.
     Inr (p\<lparr>tok_list := ts, tok_pos := tok_pos p + n - 1\<rparr>)))"

definition jsmn_parse_string :: "nat \<Rightarrow> string \<Rightarrow> jsmn \<Rightarrow> jsmn res" where
  "jsmn_parse_string cap js p =
     res_bind (string_length (drop (Suc (tok_pos p)) js)) (\<lambda>n.
     res_bind (jsmn_alloc_token cap \<lparr>tk_type = JSMN_STRING, tk_start = int (tok_pos p) + 1,
         tk_end = int (tok_pos p + 1 + n), tk_size = 0, tk_parent = tok_super p\<rparr> (tok_list p)) (\<lambda>ts.
     Inr (p\<lparr>tok_list := ts, tok_pos := tok_pos p + 1 + n\<rparr>)))"

section \<open>The parser\<close>

definition open_bracket :: "nat \<Rightarrow> jtype \<Rightarrow> jsmn \<Rightarrow> jsmn res" where
  "open_bracket cap ty p =
     res_bind (jsmn_alloc_token cap \<lparr>tk_type = ty, tk_start = int (tok_pos p), tk_end = -1, tk_size = 0,
         tk_parent = tok_super p\<rparr> (tok_list p)) (\<lambda>ts.
     Inr (p\<lparr>tok_list := bump (tok_super p) ts, tok_super := int (length ts) - 1, tok_count := tok_count p + 1\<rparr>))"

text \<open>
  From token \<open>i\<close> up along the parent links to the first open token; \<open>None\<close> when the root is closed.
  The links point to earlier tokens (\<open>jsmn_parse_bounds\<close>), so the first argument, the number of
  tokens, is never used up.
\<close>

fun find_open :: "nat \<Rightarrow> token list \<Rightarrow> nat \<Rightarrow> nat option res" where
  "find_open 0 ts i = Inl (UB No_fuel)"
| "find_open (Suc n) ts i =
     (if tk_start (ts ! i) \<noteq> -1 \<and> tk_end (ts ! i) = -1 then Inr (Some i)
      else if tk_parent (ts ! i) = -1 then Inr None
      else find_open n ts (nat (tk_parent (ts ! i))))"

definition close_bracket :: "jtype \<Rightarrow> jsmn \<Rightarrow> jsmn res" where
  "close_bracket ty p =
     (if length (tok_list p) < 1 then Inl JSMN_INVAL
      else res_bind (find_open (length (tok_list p)) (tok_list p) (length (tok_list p) - 1)) (\<lambda>r. case r of
        None \<Rightarrow> Inr p
      | Some i \<Rightarrow>
          let t = tok_list p ! i in
          if tk_type t \<noteq> ty then Inl JSMN_INVAL
          else Inr (p\<lparr>tok_list := (tok_list p)[i := t\<lparr>tk_end := int (tok_pos p) + 1\<rparr>], tok_super := tk_parent t\<rparr>)))"

definition comma :: "jsmn \<Rightarrow> jsmn" where
  "comma p = (if tok_super p \<noteq> -1 \<and> tk_type (tok_list p ! nat (tok_super p)) \<noteq> JSMN_ARRAY \<and>
       tk_type (tok_list p ! nat (tok_super p)) \<noteq> JSMN_OBJECT
     then p\<lparr>tok_super := tk_parent (tok_list p ! nat (tok_super p))\<rparr> else p)"

definition count_child :: "jsmn \<Rightarrow> jsmn" where
  "count_child p = p\<lparr>tok_list := bump (tok_super p) (tok_list p), tok_count := tok_count p + 1\<rparr>"

definition jsmn_char :: "nat \<Rightarrow> string \<Rightarrow> char \<Rightarrow> jsmn \<Rightarrow> jsmn res" where
  "jsmn_char cap js c p =
     (if c = CHR ''{'' then open_bracket cap JSMN_OBJECT p
      else if c = CHR ''['' then open_bracket cap JSMN_ARRAY p
      else if c = CHR ''}'' then close_bracket JSMN_OBJECT p
      else if c = CHR '']'' then close_bracket JSMN_ARRAY p
      else if c = CHR 0x22 then res_bind (jsmn_parse_string cap js p) (\<lambda>p. Inr (count_child p))
      else if is_space c then Inr p
      else if c = CHR '':'' then Inr (p\<lparr>tok_super := int (length (tok_list p)) - 1\<rparr>)
      else if c = CHR '','' then Inr (comma p)
      else res_bind (jsmn_parse_primitive cap js p) (\<lambda>p. Inr (count_child p)))"

lemma prim_length_pos: "prim_length (c # cs) = Inr n \<Longrightarrow>
    \<not> (c = NUL \<or> c = CHR '':'' \<or> is_space c \<or> c = CHR '','' \<or> c = CHR '']'' \<or> c = CHR ''}'') \<Longrightarrow> 0 < n"
  by (auto simp: res_bind_Inr_iff split: if_splits)

text \<open>No step goes back: the reason why the loop ends.\<close>

lemma jsmn_char_forward:
  assumes "jsmn_char cap js (js ! tok_pos p) p = Inr q" "tok_pos p < length js" "js ! tok_pos p \<noteq> NUL"
  shows "tok_pos p \<le> tok_pos q"
proof -
  obtain cs where d: "drop (tok_pos p) js = js ! tok_pos p # cs"
    using assms(2) by (metis Cons_nth_drop_Suc)
  show ?thesis
    using assms(1,3) prim_length_pos [of "js ! tok_pos p" cs]
    by (auto simp: jsmn_char_def open_bracket_def close_bracket_def jsmn_parse_string_def comma_def Let_def
        jsmn_parse_primitive_def count_child_def res_bind_Inr_iff d split: if_splits option.splits
        simp del: prim_length.simps)
qed

function jsmn_loop :: "nat \<Rightarrow> string \<Rightarrow> jsmn \<Rightarrow> jsmn res" where
  "jsmn_loop cap js p =
     (if tok_pos p < length js \<and> js ! tok_pos p \<noteq> NUL
      then (case jsmn_char cap js (js ! tok_pos p) p of
          Inl e \<Rightarrow> Inl e
        | Inr q \<Rightarrow> jsmn_loop cap js (q\<lparr>tok_pos := Suc (tok_pos q)\<rparr>))
      else Inr p)"
  by pat_completeness auto
termination
  by (relation "measure (\<lambda>(cap, js, p). length js - tok_pos p)")
    (auto dest!: jsmn_char_forward)

declare jsmn_loop.simps [simp del]

definition jsmn_parse :: "nat \<Rightarrow> string \<Rightarrow> jsmn \<Rightarrow> (nat \<times> token list) res" where
  "jsmn_parse cap js p =
     res_bind (jsmn_loop cap js (p\<lparr>tok_count := length (tok_list p)\<rparr>)) (\<lambda>q.
       if \<exists>t \<in> set (tok_list q). tk_start t \<noteq> -1 \<and> tk_end t = -1 then Inl JSMN_PART
       else Inr (tok_count q, tok_list q))"

section \<open>Inside the array and inside the text\<close>

definition token_ok :: "nat \<Rightarrow> nat \<Rightarrow> nat \<Rightarrow> token \<Rightarrow> bool" where
  "token_ok len pos i t \<longleftrightarrow> 0 \<le> tk_start t \<and> tk_start t \<le> int pos \<and> -1 \<le> tk_parent t \<and> tk_parent t < int i \<and>
     (tk_end t = -1 \<or> (tk_start t \<le> tk_end t \<and> tk_end t \<le> int len))"

definition jsmn_ok :: "nat \<Rightarrow> nat \<Rightarrow> jsmn \<Rightarrow> bool" where
  "jsmn_ok cap len p \<longleftrightarrow> length (tok_list p) \<le> cap \<and> tok_count p = length (tok_list p) \<and>
     -1 \<le> tok_super p \<and> tok_super p < int (length (tok_list p)) \<and>
     (\<forall>i < length (tok_list p). token_ok len (tok_pos p) i (tok_list p ! i))"

lemma bump_length [simp]: "length (bump s ts) = length ts"
  by (simp add: bump_def)

lemma bump_token_ok: "i < length ts \<Longrightarrow> token_ok len pos i (bump s ts ! i) = token_ok len pos i (ts ! i)"
  by (cases "i = nat s") (auto simp: bump_def token_ok_def)

lemma token_ok_later: "token_ok len pos i t \<Longrightarrow> pos \<le> pos' \<Longrightarrow> token_ok len pos' i t"
  by (auto simp: token_ok_def)

definition escape_char :: "char \<Rightarrow> bool" where
  "escape_char d \<longleftrightarrow> d = CHR 0x22 \<or> d = CHR ''/'' \<or> d = bslash \<or> d = CHR ''b'' \<or> d = CHR ''f'' \<or> d = CHR ''r'' \<or>
     d = CHR ''n'' \<or> d = CHR ''t''"

text \<open>The text by its first characters.\<close>

lemma string_length_Cons [simp]:
  "string_length [] = Inl JSMN_PART"
  "string_length (CHR 0x22 # cs) = Inr 0"
  "c \<noteq> NUL \<Longrightarrow> c \<noteq> CHR 0x22 \<Longrightarrow> c \<noteq> bslash \<Longrightarrow>
    string_length (c # cs) = res_bind (string_length cs) (\<lambda>n. Inr (n + 1))"
  "escape_char d \<Longrightarrow> string_length (bslash # d # ds) = res_bind (string_length ds) (\<lambda>n. Inr (n + 2))"
  "string_length (bslash # CHR ''u'' # ds) = (case skip_hex 4 ds of
     Inl e \<Rightarrow> Inl e | Inr k \<Rightarrow> res_bind (string_length (drop k ds)) (\<lambda>n. Inr (n + k + 2)))"
  by (auto simp: string_length.simps [of "[]"] string_length.simps [of "_ # _"] escape_char_def)

lemma string_length_other:
  "string_length (NUL # cs) = Inl JSMN_PART" "string_length [bslash] = Inl JSMN_PART"
  "\<not> escape_char d \<Longrightarrow> d \<noteq> CHR ''u'' \<Longrightarrow> string_length (bslash # d # ds) = Inl JSMN_INVAL"
  by (auto simp: string_length.simps [of "_ # _"] escape_char_def)

lemma skip_hex_bound: "skip_hex k ds = Inr j \<Longrightarrow> j \<le> length ds"
  by (induction k ds arbitrary: j rule: skip_hex.induct) (auto simp: res_bind_Inr_iff split: if_splits)

lemma string_length_bound: "string_length s = Inr n \<Longrightarrow> n < length s"
proof (induction s arbitrary: n rule: length_induct)
  case (1 s)
  consider "s = []" | cs where "s = CHR 0x22 # cs" | cs where "s = NUL # cs" | "s = [bslash]"
    | d ds where "s = bslash # d # ds" "escape_char d" | ds where "s = bslash # CHR ''u'' # ds"
    | d ds where "s = bslash # d # ds" "\<not> escape_char d" "d \<noteq> CHR ''u''"
    | c cs where "s = c # cs" "c \<noteq> NUL" "c \<noteq> CHR 0x22" "c \<noteq> bslash"
    by (metis list.exhaust)
  then show ?case
  proof cases
    case (6 ds)
    then obtain k j where k: "skip_hex 4 ds = Inr k" "string_length (drop k ds) = Inr j" "n = j + k + 2"
      using 1(2) by (auto simp: res_bind_Inr_iff split: sum.splits)
    have "length (drop k ds) < length s" using 6 by simp
    then have "j < length (drop k ds)" using 1(1) k(2) by blast
    then show ?thesis using 6 k by simp
  qed (use 1 in \<open>auto simp: res_bind_Inr_iff string_length_other\<close>)
qed

lemma prim_length_bound: "prim_length s = Inr n \<Longrightarrow> n \<le> length s"
  by (induction s arbitrary: n) (auto simp: res_bind_Inr_iff split: if_splits)

lemma skip_hex_error: "skip_hex k ds = Inl e \<Longrightarrow> e = JSMN_INVAL"
  by (induction k ds rule: skip_hex.induct) (auto simp: res_bind_Inl_iff split: if_splits)

lemma string_length_error: "string_length s = Inl e \<Longrightarrow> e = JSMN_INVAL \<or> e = JSMN_PART"
proof (induction s rule: length_induct)
  case (1 s)
  consider "s = []" | cs where "s = CHR 0x22 # cs" | cs where "s = NUL # cs" | "s = [bslash]"
    | d ds where "s = bslash # d # ds" "escape_char d" | ds where "s = bslash # CHR ''u'' # ds"
    | d ds where "s = bslash # d # ds" "\<not> escape_char d" "d \<noteq> CHR ''u''"
    | c cs where "s = c # cs" "c \<noteq> NUL" "c \<noteq> CHR 0x22" "c \<noteq> bslash"
    by (metis list.exhaust)
  then show ?case
  proof cases
    case (5 d ds)
    then have "string_length ds = Inl e" "length ds < length s" using 1(2) by (auto simp: res_bind_Inl_iff)
    then show ?thesis using 1(1) by blast
  next
    case (6 ds)
    then consider "skip_hex 4 ds = Inl e" | k where "string_length (drop k ds) = Inl e"
      using 1(2) by (auto simp: res_bind_Inl_iff split: sum.splits)
    then show ?thesis
    proof cases
      case (2 k)
      then have "length (drop k ds) < length s" using 6 by simp
      then show ?thesis using 1(1) 2 by blast
    qed (use skip_hex_error in blast)
  qed (use 1 in \<open>auto simp: res_bind_Inl_iff string_length_other\<close>)
qed

lemma prim_length_error: "prim_length s = Inl e \<Longrightarrow> e = JSMN_INVAL"
  by (induction s) (auto simp: res_bind_Inl_iff split: if_splits)

lemma find_open_ok:
  "\<forall>i < length ts. token_ok len pos i (ts ! i) \<Longrightarrow> i < length ts \<Longrightarrow> i < n \<Longrightarrow>
   \<exists>r. find_open n ts i = Inr r \<and> (\<forall>j. r = Some j \<longrightarrow> j < length ts \<and> tk_end (ts ! j) = -1)"
proof (induction n arbitrary: i)
  case (Suc n)
  have p: "-1 \<le> tk_parent (ts ! i)" "tk_parent (ts ! i) < int i"
    using Suc.prems by (auto simp: token_ok_def)
  then have "tk_parent (ts ! i) \<noteq> -1 \<Longrightarrow> nat (tk_parent (ts ! i)) < i" by linarith
  then show ?case using Suc.IH [of "nat (tk_parent (ts ! i))"] Suc.prems by auto
qed simp

lemma add_token_ok:
  assumes "jsmn_ok cap len p" "length (tok_list p) < cap" "token_ok len pos (length (tok_list p)) t" "tok_pos p \<le> pos"
    and "-1 \<le> s" "s \<le> int (length (tok_list p))"
  shows "jsmn_ok cap len (p\<lparr>tok_pos := pos, tok_list := bump (tok_super p) (tok_list p @ [t]), tok_super := s,
    tok_count := Suc (tok_count p)\<rparr>)"
  using assms unfolding jsmn_ok_def
  by (auto simp: bump_token_ok nth_append less_Suc_eq intro: token_ok_later)

lemma jsmn_char_ok:
  assumes "jsmn_ok cap (length js) p" "tok_pos p < length js" "js ! tok_pos p \<noteq> NUL"
  shows "case jsmn_char cap js (js ! tok_pos p) p of
      Inl e \<Rightarrow> e \<in> {JSMN_NOMEM, JSMN_INVAL, JSMN_PART}
    | Inr q \<Rightarrow> jsmn_ok cap (length js) q \<and> tok_pos q < length js"
proof -
  let ?c = "js ! tok_pos p" and ?ts = "tok_list p"
  have ok: "length ?ts \<le> cap" "tok_count p = length ?ts" "-1 \<le> tok_super p" "tok_super p < int (length ?ts)"
    "\<And>i. i < length ?ts \<Longrightarrow> token_ok (length js) (tok_pos p) i (?ts ! i)"
    using assms(1) by (auto simp: jsmn_ok_def)
  have op: "case open_bracket cap ty p of Inl e \<Rightarrow> e \<in> {JSMN_NOMEM, JSMN_INVAL, JSMN_PART}
    | Inr q \<Rightarrow> jsmn_ok cap (length js) q \<and> tok_pos q < length js" for ty
    using add_token_ok [OF assms(1), of "tok_pos p" "\<lparr>tk_type = ty, tk_start = int (tok_pos p), tk_end = -1,
        tk_size = 0, tk_parent = tok_super p\<rparr>" "int (length ?ts)"] ok assms(2)
    by (simp add: open_bracket_def jsmn_alloc_token_def token_ok_def)
  have cl: "case close_bracket ty p of Inl e \<Rightarrow> e \<in> {JSMN_NOMEM, JSMN_INVAL, JSMN_PART}
    | Inr q \<Rightarrow> jsmn_ok cap (length js) q \<and> tok_pos q < length js" for ty
  proof (cases "?ts = []")
    case False
    then obtain r where r: "find_open (length ?ts) ?ts (length ?ts - 1) = Inr r"
        "\<And>j. r = Some j \<Longrightarrow> j < length ?ts"
      using find_open_ok [of ?ts "length js" "tok_pos p" "length ?ts - 1" "length ?ts"] ok(5) by auto
    show ?thesis
    proof (cases r)
      case None
      then show ?thesis using r False assms by (simp add: close_bracket_def)
    next
      case (Some j)
      then have j: "j < length ?ts" "token_ok (length js) (tok_pos p) j (?ts ! j)" using r(2) ok(5) by auto
      let ?t = "(?ts ! j)\<lparr>tk_end := int (tok_pos p) + 1\<rparr>"
      have t: "token_ok (length js) (tok_pos p) j ?t" "-1 \<le> tk_parent (?ts ! j)"
          "tk_parent (?ts ! j) < int (length ?ts)"
        using j assms(2) by (auto simp: token_ok_def)
      then have "jsmn_ok cap (length js) (p\<lparr>tok_list := ?ts[j := ?t], tok_super := tk_parent (?ts ! j)\<rparr>)"
        using ok j(1) unfolding jsmn_ok_def by (auto simp: nth_list_update simp del: split_paired_All)
      then show ?thesis using r(1) Some False assms(2)
        by (simp add: close_bracket_def Let_def)
    qed
  qed (simp add: close_bracket_def)
  have st: "case res_bind (jsmn_parse_string cap js p) (\<lambda>p. Inr (count_child p)) of
      Inl e \<Rightarrow> e \<in> {JSMN_NOMEM, JSMN_INVAL, JSMN_PART}
    | Inr q \<Rightarrow> jsmn_ok cap (length js) q \<and> tok_pos q < length js"
  proof (cases "string_length (drop (Suc (tok_pos p)) js)")
    case (Inr n)
    then have n: "tok_pos p + 1 + n < length js" using string_length_bound [OF Inr] by simp
    then show ?thesis
      using add_token_ok [OF assms(1), of "tok_pos p + 1 + n" "\<lparr>tk_type = JSMN_STRING, tk_start = int (tok_pos p) + 1,
        tk_end = int (tok_pos p + 1 + n), tk_size = 0, tk_parent = tok_super p\<rparr>" "tok_super p"] ok
      by (auto simp: jsmn_parse_string_def jsmn_alloc_token_def token_ok_def count_child_def Inr)
  qed (use string_length_error in \<open>simp add: jsmn_parse_string_def\<close>)
  have pr: "case res_bind (jsmn_parse_primitive cap js p) (\<lambda>p. Inr (count_child p)) of
      Inl e \<Rightarrow> e \<in> {JSMN_NOMEM, JSMN_INVAL, JSMN_PART}
    | Inr q \<Rightarrow> jsmn_ok cap (length js) q \<and> tok_pos q < length js"
    if c: "\<not> is_space ?c" "?c \<noteq> CHR '':''" "?c \<noteq> CHR '',''" "?c \<noteq> CHR '']''" "?c \<noteq> CHR ''}''"
  proof (cases "prim_length (drop (tok_pos p) js)")
    case (Inr n)
    have d: "drop (tok_pos p) js = ?c # drop (Suc (tok_pos p)) js"
      using assms(2) by (simp add: Cons_nth_drop_Suc)
    have n: "0 < n" using Inr c assms(3) prim_length_pos [of ?c "drop (Suc (tok_pos p)) js" n] d by auto
    have "n \<le> length js - tok_pos p" using prim_length_bound [OF Inr] by simp
    then have b: "tok_pos p + n \<le> length js" using assms(2) by linarith
    show ?thesis
      using add_token_ok [OF assms(1), of "tok_pos p + n - 1" "\<lparr>tk_type = JSMN_PRIMITIVE, tk_start = int (tok_pos p),
        tk_end = int (tok_pos p + n), tk_size = 0, tk_parent = tok_super p\<rparr>" "tok_super p"] ok n b
      by (auto simp: jsmn_parse_primitive_def jsmn_alloc_token_def token_ok_def count_child_def Inr)
  qed (use prim_length_error in \<open>simp add: jsmn_parse_primitive_def\<close>)
  have "tk_parent (?ts ! nat (tok_super p)) < int (length ?ts)" "-1 \<le> tk_parent (?ts ! nat (tok_super p))"
    if "tok_super p \<noteq> -1"
  proof -
    have n: "nat (tok_super p) < length ?ts" using ok(3,4) that by linarith
    show "-1 \<le> tk_parent (?ts ! nat (tok_super p))" using ok(5) [OF n] by (simp add: token_ok_def)
    have "tk_parent (?ts ! nat (tok_super p)) < int (nat (tok_super p))" using ok(5) [OF n] by (simp add: token_ok_def)
    then show "tk_parent (?ts ! nat (tok_super p)) < int (length ?ts)" using n by linarith
  qed
  then have co: "jsmn_ok cap (length js) (comma p)" "tok_pos (comma p) < length js"
    "jsmn_ok cap (length js) (p\<lparr>tok_super := int (length ?ts) - 1\<rparr>)"
    using assms ok by (auto simp: comma_def jsmn_ok_def)
  show ?thesis
    using op cl st pr co assms unfolding jsmn_char_def by (simp split del: sum.split)
qed

text \<open>
  C32. The tokeniser never leaves its token array and never returns a token outside the text, on any
  text: it returns one of its three errors, or tokens whose number is at most the size of the
  array, with bounds inside the text and links to earlier tokens.
\<close>

theorem jsmn_parse_bounds:
  "case jsmn_parse cap js jsmn_init of
     Inl e \<Rightarrow> e \<in> {JSMN_NOMEM, JSMN_INVAL, JSMN_PART}
   | Inr (n, ts) \<Rightarrow> n = length ts \<and> n \<le> cap \<and> (\<forall>i < n. 0 \<le> tk_start (ts ! i) \<and>
       tk_start (ts ! i) \<le> tk_end (ts ! i) \<and> tk_end (ts ! i) \<le> int (length js) \<and>
       -1 \<le> tk_parent (ts ! i) \<and> tk_parent (ts ! i) < int i)"
proof -
  have loop: "case jsmn_loop cap js p of Inl e \<Rightarrow> e \<in> {JSMN_NOMEM, JSMN_INVAL, JSMN_PART}
      | Inr q \<Rightarrow> jsmn_ok cap (length js) q" if "jsmn_ok cap (length js) p" for p
    using that
  proof (induction cap js p rule: jsmn_loop.induct)
    case (1 cap js p)
    show ?case
    proof (cases "tok_pos p < length js \<and> js ! tok_pos p \<noteq> NUL")
      case True
      note ok = jsmn_char_ok [OF 1(2)]
      show ?thesis
      proof (cases "jsmn_char cap js (js ! tok_pos p) p")
        case (Inl e)
        then show ?thesis using ok True by (simp add: jsmn_loop.simps [of cap js p])
      next
        case (Inr q)
        then have "jsmn_ok cap (length js) (q\<lparr>tok_pos := Suc (tok_pos q)\<rparr>)"
          using ok True by (auto simp: jsmn_ok_def intro: token_ok_later)
        then show ?thesis using 1(1) [OF True Inr] Inr True by (simp add: jsmn_loop.simps [of cap js p])
      qed
    next
      case False
      then have "jsmn_loop cap js p = Inr p" by (subst jsmn_loop.simps) (simp only: if_False)
      then show ?thesis using 1(2) by simp
    qed
  qed
  have "jsmn_ok cap (length js) (jsmn_init\<lparr>tok_count := 0\<rparr>)" by (simp add: jsmn_ok_def jsmn_init_def)
  note L = loop [OF this]
  show ?thesis
  proof (cases "jsmn_loop cap js (jsmn_init\<lparr>tok_count := 0\<rparr>)")
    case (Inl e)
    then show ?thesis using L by (simp add: jsmn_parse_def jsmn_init_def)
  next
    case (Inr q)
    then have ok: "length (tok_list q) \<le> cap" "tok_count q = length (tok_list q)"
      "\<And>i. i < length (tok_list q) \<Longrightarrow> token_ok (length js) (tok_pos q) i (tok_list q ! i)"
      using L by (auto simp: jsmn_ok_def)
    have "tk_end (tok_list q ! i) \<noteq> -1"
      if "\<forall>t \<in> set (tok_list q). tk_start t = -1 \<or> tk_end t \<noteq> -1" "i < length (tok_list q)" for i
      using that ok(3) [OF that(2)] nth_mem [OF that(2)] by (fastforce simp: token_ok_def)
    then show ?thesis using Inr ok
      by (fastforce simp: jsmn_parse_def jsmn_init_def token_ok_def)
  qed
qed

text \<open>An array inside a text with a garbage suffix.\<close>

theorem jsmn_parse_bounds_witness:
  "\<exists>ts. jsmn_parse 8 ''[7] x'' jsmn_init = Inr (3, ts) \<and> length ts = 3 \<and>
     (\<forall>i < 3. 0 \<le> tk_start (ts ! i) \<and> tk_end (ts ! i) \<le> 5 \<and> tk_parent (ts ! i) < int i)"
proof -
  have "case jsmn_parse 8 ''[7] x'' jsmn_init of Inl e \<Rightarrow> False | Inr (n, ts) \<Rightarrow> n = 3" by code_simp
  then obtain ts where "jsmn_parse 8 ''[7] x'' jsmn_init = Inr (3, ts)"
    by (cases "jsmn_parse 8 ''[7] x'' jsmn_init") auto
  then show ?thesis using jsmn_parse_bounds [of 8 "''[7] x''"] by fastforce
qed

section \<open>The text of a value and its tokens\<close>

text \<open>
  JSON values with the layout that iodefv2-document-print-json.c writes: strings are the characters
  between the quotes, escapes included.
\<close>

datatype jval = J_str string | J_prim string | J_obj "(string \<times> jval) list" | J_arr "jval list"

definition quoted :: "string \<Rightarrow> string" where
  "quoted s = CHR 0x22 # s @ [CHR 0x22]"

fun jtext :: "jval \<Rightarrow> string" and jmembers :: "(string \<times> jval) list \<Rightarrow> string" and
  jelements :: "jval list \<Rightarrow> string" where
  "jtext (J_str s) = quoted s"
| "jtext (J_prim s) = s"
| "jtext (J_obj ms) = ''{'' @ jmembers ms @ ''}''"
| "jtext (J_arr vs) = ''['' @ jelements vs @ '']''"
| "jmembers [] = []"
| "jmembers ((k, v) # ms) = quoted k @ '': '' @ jtext v @ (if ms = [] then [] else '', '' @ jmembers ms)"
| "jelements [] = []"
| "jelements (v # vs) = jtext v @ (if vs = [] then [] else '', '' @ jelements vs)"

fun ntok :: "jval \<Rightarrow> nat" and nmem :: "(string \<times> jval) list \<Rightarrow> nat" and nelem :: "jval list \<Rightarrow> nat" where
  "ntok (J_str s) = 1"
| "ntok (J_prim s) = 1"
| "ntok (J_obj ms) = Suc (nmem ms)"
| "ntok (J_arr vs) = Suc (nelem vs)"
| "nmem [] = 0"
| "nmem ((k, v) # ms) = Suc (ntok v + nmem ms)"
| "nelem [] = 0"
| "nelem (v # vs) = ntok v + nelem vs"

text \<open>The tokens of a value at position \<open>p\<close>, whose first token has number \<open>i\<close> and parent \<open>par\<close>.\<close>

fun jtoks :: "jval \<Rightarrow> nat \<Rightarrow> int \<Rightarrow> nat \<Rightarrow> token list" and
  mtoks :: "(string \<times> jval) list \<Rightarrow> nat \<Rightarrow> int \<Rightarrow> nat \<Rightarrow> token list" and
  etoks :: "jval list \<Rightarrow> nat \<Rightarrow> int \<Rightarrow> nat \<Rightarrow> token list" where
  "jtoks (J_str s) p par i = [\<lparr>tk_type = JSMN_STRING, tk_start = int (p + 1), tk_end = int (p + 1 + length s),
     tk_size = 0, tk_parent = par\<rparr>]"
| "jtoks (J_prim s) p par i = [\<lparr>tk_type = JSMN_PRIMITIVE, tk_start = int p, tk_end = int (p + length s),
     tk_size = 0, tk_parent = par\<rparr>]"
| "jtoks (J_obj ms) p par i = \<lparr>tk_type = JSMN_OBJECT, tk_start = int p,
     tk_end = int (p + length (jmembers ms) + 2), tk_size = length ms, tk_parent = par\<rparr> # mtoks ms (p + 1) (int i) (Suc i)"
| "jtoks (J_arr vs) p par i = \<lparr>tk_type = JSMN_ARRAY, tk_start = int p,
     tk_end = int (p + length (jelements vs) + 2), tk_size = length vs, tk_parent = par\<rparr> # etoks vs (p + 1) (int i) (Suc i)"
| "mtoks [] p par i = []"
| "mtoks ((k, v) # ms) p par i = \<lparr>tk_type = JSMN_STRING, tk_start = int (p + 1), tk_end = int (p + 1 + length k),
     tk_size = 1, tk_parent = par\<rparr> # jtoks v (p + length k + 4) (int i) (Suc i) @
     mtoks ms (p + length k + length (jtext v) + 6) par (Suc i + ntok v)"
| "etoks [] p par i = []"
| "etoks (v # vs) p par i = jtoks v p par i @ etoks vs (p + length (jtext v) + 2) par (i + ntok v)"

lemma length_toks [simp]:
  "length (jtoks v p par i) = ntok v" "length (mtoks ms p par i) = nmem ms" "length (etoks vs p par i) = nelem vs"
  by (induction v p par i and ms p par i and vs p par i rule: jtoks_mtoks_etoks.induct) simp_all

text \<open>Primitives are what \<open>%u\<close> and \<open>%d\<close> print, and anything else without special characters.\<close>

definition prim_char :: "char \<Rightarrow> bool" where
  "prim_char c \<longleftrightarrow> 33 \<le> ccode c \<and> ccode c < 127 \<and> c \<notin> set '',:[]{}'' \<and> c \<noteq> CHR 0x22"

fun jval_ok :: "jval \<Rightarrow> bool" and members_ok :: "(string \<times> jval) list \<Rightarrow> bool" and
  elements_ok :: "jval list \<Rightarrow> bool" where
  "jval_ok (J_str s) \<longleftrightarrow> json_string_ok s"
| "jval_ok (J_prim s) \<longleftrightarrow> s \<noteq> [] \<and> (\<forall>c \<in> set s. prim_char c)"
| "jval_ok (J_obj ms) \<longleftrightarrow> members_ok ms"
| "jval_ok (J_arr vs) \<longleftrightarrow> elements_ok vs"
| "members_ok [] \<longleftrightarrow> True"
| "members_ok ((k, v) # ms) \<longleftrightarrow> json_string_ok k \<and> jval_ok v \<and> members_ok ms"
| "elements_ok [] \<longleftrightarrow> True"
| "elements_ok (v # vs) \<longleftrightarrow> jval_ok v \<and> elements_ok vs"

section \<open>The tokeniser finds the tokens\<close>

abbreviation at :: "nat \<Rightarrow> token list \<Rightarrow> int \<Rightarrow> jsmn" where
  "at q ts s \<equiv> \<lparr>tok_pos = q, tok_list = ts, tok_super = s, tok_count = length ts\<rparr>"

lemma bump_append [simp]: "-1 \<le> s \<Longrightarrow> s < int (length ts) \<Longrightarrow> bump s (ts @ us) = bump s ts @ us"
  by (auto simp: bump_def nth_append list_update_append)

lemma bump_nth [simp]: "bump (int (length ts)) (ts @ t # us) = ts @ t\<lparr>tk_size := tk_size t + 1\<rparr> # us"
  by (simp add: bump_def)

lemma jsmn_char_simps:
  "jsmn_char cap js CHR ''{'' p = open_bracket cap JSMN_OBJECT p"
  "jsmn_char cap js CHR ''['' p = open_bracket cap JSMN_ARRAY p"
  "jsmn_char cap js CHR ''}'' p = close_bracket JSMN_OBJECT p"
  "jsmn_char cap js CHR '']'' p = close_bracket JSMN_ARRAY p"
  "jsmn_char cap js CHR 0x22 p = res_bind (jsmn_parse_string cap js p) (\<lambda>p. Inr (count_child p))"
  "jsmn_char cap js CHR '' '' p = Inr p"
  "jsmn_char cap js CHR '':'' p = Inr (p\<lparr>tok_super := int (length (tok_list p)) - 1\<rparr>)"
  "jsmn_char cap js CHR '','' p = Inr (comma p)"
  by (simp_all add: jsmn_char_def is_space_def)

lemma not_prim_char:
  "\<not> prim_char NUL" "\<not> prim_char CHR ''{''" "\<not> prim_char CHR ''['' " "\<not> prim_char CHR ''}''" "\<not> prim_char CHR '']''"
  "\<not> prim_char CHR 0x22" "\<not> prim_char CHR '' ''" "\<not> prim_char CHR '':''" "\<not> prim_char CHR '',''"
  "\<not> prim_char CHR 0x09" "\<not> prim_char CHR 0x0A" "\<not> prim_char CHR 0x0D"
  by code_simp+

lemma jsmn_char_prim: "prim_char c \<Longrightarrow>
    jsmn_char cap js c p = res_bind (jsmn_parse_primitive cap js p) (\<lambda>p. Inr (count_child p))"
proof -
  assume c: "prim_char c"
  then show ?thesis using not_prim_char by (auto simp: jsmn_char_def is_space_def)
qed

lemma loop_char:
  assumes "js = pre @ c # post" "c \<noteq> NUL" "jsmn_char cap js c (at (length pre) ts s) = Inr q"
  shows "jsmn_loop cap js (at (length pre) ts s) = jsmn_loop cap js (q\<lparr>tok_pos := Suc (tok_pos q)\<rparr>)"
  using assms by (subst jsmn_loop.simps) simp

lemma loop_open:
  assumes "js = pre @ c # post" "c = CHR ''{'' \<and> ty = JSMN_OBJECT \<or> c = CHR ''['' \<and> ty = JSMN_ARRAY"
    and "length ts < cap" "-1 \<le> s" "s < int (length ts)"
  shows "jsmn_loop cap js (at (length pre) ts s) = jsmn_loop cap js (at (length pre + 1)
    (bump s ts @ [\<lparr>tk_type = ty, tk_start = int (length pre), tk_end = -1, tk_size = 0, tk_parent = s\<rparr>]) (int (length ts)))"
proof (rule trans [OF loop_char [OF assms(1)]])
  show "jsmn_char cap js c (at (length pre) ts s) = Inr (at (length pre)
    (bump s ts @ [\<lparr>tk_type = ty, tk_start = int (length pre), tk_end = -1, tk_size = 0, tk_parent = s\<rparr>]) (int (length ts)))"
    using assms(2) by (rule disjE)
      (use assms(3-5) in \<open>simp_all add: jsmn_char_simps open_bracket_def jsmn_alloc_token_def\<close>)
qed (use assms(2) in auto)

lemma string_length_ok: "json_string_ok k \<Longrightarrow> string_length (k @ CHR 0x22 # post) = Inr (length k)"
proof (induction k rule: length_induct)
  case (1 k)
  show ?case
  proof (cases k)
    case (Cons c cs)
    show ?thesis
    proof (cases "c = bslash")
      case True
      then obtain d ds where d: "cs = d # ds" using 1(2) Cons by (cases cs) auto
      show ?thesis
      proof (cases "d = CHR ''u''")
        case u: True
        then obtain h1 h2 h3 h4 rest where h: "ds = h1 # h2 # h3 # h4 # rest" "hexval h1 \<noteq> None" "hexval h2 \<noteq> None"
            "hexval h3 \<noteq> None" "hexval h4 \<noteq> None" "json_string_ok rest"
          using 1(2) True d Cons by (auto split: list.splits)
        have nul: "hexval NUL = None" by (simp add: hexval_def ccode_def)
        then have "h1 \<noteq> NUL" "h2 \<noteq> NUL" "h3 \<noteq> NUL" "h4 \<noteq> NUL" using h by auto
        then have "skip_hex 4 (ds @ CHR 0x22 # post) = Inr 4" using h by (simp add: eval_nat_numeral)
        moreover have "string_length (rest @ CHR 0x22 # post) = Inr (length rest)"
          using 1(1) h Cons d by simp
        ultimately show ?thesis using u True d h(1) Cons by simp
      next
        case False
        then have "escape_char d" "json_string_ok ds"
          using 1(2) True d Cons by (auto simp: escape_char_def split: if_splits)
        then show ?thesis using 1(1) Cons True d by simp
      qed
    next
      case False
      then have "c \<noteq> CHR 0x22" "32 \<le> ccode c" "json_string_ok cs" using 1(2) Cons by auto
      moreover from this have "c \<noteq> NUL" by (auto simp: ccode_def)
      ultimately show ?thesis using 1(1) False Cons by simp
    qed
  qed simp
qed

lemma loop_string:
  assumes "js = pre @ quoted k @ post" "json_string_ok k" "length ts < cap" "-1 \<le> s" "s < int (length ts)"
  shows "jsmn_loop cap js (at (length pre) ts s) = jsmn_loop cap js (at (length pre + length k + 2)
    (bump s ts @ [\<lparr>tk_type = JSMN_STRING, tk_start = int (length pre + 1), tk_end = int (length pre + 1 + length k),
       tk_size = 0, tk_parent = s\<rparr>]) s)"
proof (rule trans [OF loop_char])
  show js: "js = pre @ CHR 0x22 # k @ CHR 0x22 # post" using assms(1) by (simp add: quoted_def)
  show "jsmn_char cap js CHR 0x22 (at (length pre) ts s) = Inr (at (length pre + length k + 1)
    (bump s ts @ [\<lparr>tk_type = JSMN_STRING, tk_start = int (length pre + 1), tk_end = int (length pre + 1 + length k),
       tk_size = 0, tk_parent = s\<rparr>]) s)"
    using assms(3-5) string_length_ok [OF assms(2), of post]
    by (simp add: js jsmn_char_simps jsmn_parse_string_def jsmn_alloc_token_def count_child_def)
qed simp_all

lemma prim_length_ok: "\<forall>c \<in> set t. prim_char c \<Longrightarrow> post \<noteq> [] \<longrightarrow> hd post \<in> set '',]}'' \<Longrightarrow>
    prim_length (t @ post) = Inr (length t)"
proof (induction t)
  case Nil
  then show ?case by (cases post) auto
next
  case (Cons c t)
  then have "prim_char c" by simp
  moreover from this have "32 \<le> ccode c" "ccode c < 127" by (simp_all add: prim_char_def)
  ultimately show ?case using Cons not_prim_char by (auto simp: is_space_def)
qed

lemma loop_prim:
  assumes "js = pre @ t @ post" "t \<noteq> []" "\<forall>c \<in> set t. prim_char c" "post \<noteq> [] \<longrightarrow> hd post \<in> set '',]}''"
    and "length ts < cap" "-1 \<le> s" "s < int (length ts)"
  shows "jsmn_loop cap js (at (length pre) ts s) = jsmn_loop cap js (at (length pre + length t)
    (bump s ts @ [\<lparr>tk_type = JSMN_PRIMITIVE, tk_start = int (length pre), tk_end = int (length pre + length t),
       tk_size = 0, tk_parent = s\<rparr>]) s)"
proof (rule trans [OF loop_char])
  show js: "js = pre @ hd t # tl t @ post" using assms(1,2) by (cases t) auto
  have c: "prim_char (hd t)" using assms(2,3) by (cases t) auto
  then show "hd t \<noteq> NUL" using not_prim_char by auto
  show "jsmn_char cap js (hd t) (at (length pre) ts s) = Inr (at (length pre + length t - 1)
    (bump s ts @ [\<lparr>tk_type = JSMN_PRIMITIVE, tk_start = int (length pre), tk_end = int (length pre + length t),
       tk_size = 0, tk_parent = s\<rparr>]) s)"
    using assms(5-7) prim_length_ok [OF assms(3,4)]
    by (simp add: assms(1) jsmn_char_prim [OF c] jsmn_parse_primitive_def jsmn_alloc_token_def count_child_def)
qed (use assms(2) in \<open>simp_all add: Suc_diff_1\<close>)

lemma loop_space: "js = pre @ CHR '' '' # post \<Longrightarrow>
    jsmn_loop cap js (at (length pre) ts s) = jsmn_loop cap js (at (length pre + 1) ts s)"
  by (rule trans [OF loop_char]) (auto simp: jsmn_char_simps)

lemma loop_colon:
  assumes "js = pre @ '': '' @ post"
  shows "jsmn_loop cap js (at (length pre) ts s) = jsmn_loop cap js (at (length pre + 2) ts (int (length ts) - 1))"
proof -
  have "jsmn_loop cap js (at (length pre) ts s) = jsmn_loop cap js (at (length pre + 1) ts (int (length ts) - 1))"
    by (rule trans [OF loop_char]) (use assms in \<open>auto simp: jsmn_char_simps\<close>)
  also have "\<dots> = jsmn_loop cap js (at (length pre + 2) ts (int (length ts) - 1))"
    using loop_space [of js "pre @ '':''" post] assms by simp
  finally show ?thesis .
qed

lemma loop_comma:
  assumes "js = pre @ '', '' @ post"
  shows "jsmn_loop cap js (at (length pre) ts s) = jsmn_loop cap js (at (length pre + 2) ts (tok_super (comma (at 0 ts s))))"
proof -
  have "jsmn_loop cap js (at (length pre) ts s) = jsmn_loop cap js (at (length pre + 1) ts (tok_super (comma (at 0 ts s))))"
    by (rule trans [OF loop_char]) (use assms in \<open>auto simp: jsmn_char_simps comma_def\<close>)
  also have "\<dots> = jsmn_loop cap js (at (length pre + 2) ts (tok_super (comma (at 0 ts s))))"
    using loop_space [of js "pre @ '',''" post] assms by simp
  finally show ?thesis .
qed

text \<open>Tokens below an open one are closed and lead up to it.\<close>

definition linked :: "int \<Rightarrow> nat \<Rightarrow> token list \<Rightarrow> bool" where
  "linked r i ts \<longleftrightarrow> (\<forall>k < length ts. 0 \<le> tk_end (ts ! k) \<and> r \<le> tk_parent (ts ! k) \<and> tk_parent (ts ! k) < int (i + k))"

lemma linked_Nil [simp]: "linked r i []"
  by (simp add: linked_def)

lemma linked_Cons [simp]: "linked r i (t # ts) \<longleftrightarrow>
    0 \<le> tk_end t \<and> r \<le> tk_parent t \<and> tk_parent t < int i \<and> linked r (Suc i) ts"
  by (auto simp: linked_def nth_Cons' less_Suc_eq_0_disj)

lemma linked_append [simp]: "linked r i (ts @ us) \<longleftrightarrow> linked r i ts \<and> linked r (i + length ts) us"
  by (induction ts arbitrary: i) auto

lemma toks_linked:
  "r \<le> par \<Longrightarrow> par < int i \<Longrightarrow> linked r i (jtoks v p par i)"
  "r \<le> par \<Longrightarrow> par < int i \<Longrightarrow> linked r i (mtoks ms p par i)"
  "r \<le> par \<Longrightarrow> par < int i \<Longrightarrow> linked r i (etoks vs p par i)"
  by (induction v p par i and ms p par i and vs p par i rule: jtoks_mtoks_etoks.induct) auto

lemma find_open_linked:
  assumes "tk_start t \<noteq> -1" "tk_end t = -1" "linked (int (length us)) (Suc (length us)) vs"
  shows "length us \<le> i \<Longrightarrow> i < length (us @ t # vs) \<Longrightarrow> i < n \<Longrightarrow> find_open n (us @ t # vs) i = Inr (Some (length us))"
proof (induction n arbitrary: i)
  case (Suc n)
  show ?case
  proof (cases "i = length us")
    case True
    then show ?thesis using assms by simp
  next
    case False
    define k where "k = i - Suc (length us)"
    have k: "i = Suc (length us) + k" "k < length vs" using False Suc.prems by (auto simp: k_def)
    then have e: "(us @ t # vs) ! i = vs ! k" by (simp add: nth_append)
    have v: "0 \<le> tk_end (vs ! k)" "int (length us) \<le> tk_parent (vs ! k)" "tk_parent (vs ! k) < int i"
      using assms(3) k by (auto simp: linked_def)
    have "find_open n (us @ t # vs) (nat (tk_parent (vs ! k))) = Inr (Some (length us))"
      by (rule Suc.IH) (use v Suc.prems in auto)
    moreover have "tk_end (vs ! k) \<noteq> -1" "tk_parent (vs ! k) \<noteq> -1" using v by auto
    ultimately show ?thesis using e by simp
  qed
qed simp

lemma loop_close:
  assumes "js = pre @ c # post" "c = CHR ''}'' \<and> tk_type t = JSMN_OBJECT \<or> c = CHR '']'' \<and> tk_type t = JSMN_ARRAY"
    and "tk_start t \<noteq> -1" "tk_end t = -1" "linked (int (length us)) (Suc (length us)) vs"
  shows "jsmn_loop cap js (at (length pre) (us @ t # vs) s) =
    jsmn_loop cap js (at (length pre + 1) (us @ t\<lparr>tk_end := int (length pre) + 1\<rparr> # vs) (tk_parent t))"
proof (rule trans [OF loop_char [OF assms(1)]])
  show "jsmn_char cap js c (at (length pre) (us @ t # vs) s) =
    Inr (at (length pre) (us @ t\<lparr>tk_end := int (length pre) + 1\<rparr> # vs) (tk_parent t))"
    using assms(2) find_open_linked [OF assms(3-5), of "length (us @ vs)" "length (us @ t # vs)"]
    by (elim disjE) (simp_all add: jsmn_char_simps close_bracket_def Let_def)
qed (use assms(2) in auto)

text \<open>What follows a value: nothing, or a character that ends a primitive.\<close>

definition ends :: "string \<Rightarrow> bool" where
  "ends post \<longleftrightarrow> (post \<noteq> [] \<longrightarrow> hd post \<in> set '',]}'')"

lemma ends_simps [simp]: "ends []" "ends (CHR '','' # s)" "ends (CHR '']'' # s)" "ends (CHR ''}'' # s)"
  by (simp_all add: ends_def)

lemma comma_key: "-1 \<le> tk_parent k \<Longrightarrow> tk_type k = JSMN_STRING \<Longrightarrow>
    tok_super (comma (at 0 (us @ k # vs) (int (length us)))) = tk_parent k"
  by (simp add: comma_def)

lemma comma_array: "tk_type k = JSMN_ARRAY \<Longrightarrow>
    tok_super (comma (at 0 (us @ k # vs) (int (length us)))) = int (length us)"
  by (simp add: comma_def)

lemma loop_value:
  "js = pre @ jtext v @ post \<Longrightarrow> jval_ok v \<Longrightarrow> ends post \<Longrightarrow> length ts + ntok v \<le> cap \<Longrightarrow>
   -1 \<le> s \<Longrightarrow> s < int (length ts) \<Longrightarrow>
   jsmn_loop cap js (at (length pre) ts s) =
   jsmn_loop cap js (at (length pre + length (jtext v)) (bump s ts @ jtoks v (length pre) s (length ts)) s)"
  and "js = pre @ jmembers ms @ post \<Longrightarrow> members_ok ms \<Longrightarrow> ends post \<Longrightarrow>
   length (us @ obj # vs) + nmem ms \<le> cap \<Longrightarrow>
   \<exists>s'. jsmn_loop cap js (at (length pre) (us @ obj # vs) (int (length us))) =
   jsmn_loop cap js (at (length pre + length (jmembers ms))
     (us @ obj\<lparr>tk_size := tk_size obj + length ms\<rparr> # vs @ mtoks ms (length pre) (int (length us)) (length (us @ obj # vs))) s')"
  and "js = pre @ jelements es @ post \<Longrightarrow> elements_ok es \<Longrightarrow> ends post \<Longrightarrow>
   length (us @ arr # vs) + nelem es \<le> cap \<Longrightarrow> tk_type arr = JSMN_ARRAY \<Longrightarrow>
   jsmn_loop cap js (at (length pre) (us @ arr # vs) (int (length us))) =
   jsmn_loop cap js (at (length pre + length (jelements es))
     (us @ arr\<lparr>tk_size := tk_size arr + length es\<rparr> # vs @ etoks es (length pre) (int (length us)) (length (us @ arr # vs)))
     (int (length us)))"
proof (induction v and ms and es arbitrary: pre post ts s and pre post us obj vs and pre post us arr vs
    rule: jtext_jmembers_jelements.induct)
  case (1 k)
  then show ?case using loop_string [of js pre k post ts cap s] by (simp add: quoted_def add.commute)
next
  case (2 k)
  then show ?case using loop_prim [of js pre k post ts cap s] by (simp add: ends_def)
next
  case (3 ms)
  let ?o = "\<lparr>tk_type = JSMN_OBJECT, tk_start = int (length pre), tk_end = -1, tk_size = 0, tk_parent = s\<rparr>"
  let ?us = "bump s ts" and ?pre = "pre @ ''{''"
  let ?vs = "mtoks ms (length ?pre) (int (length ?us)) (length (?us @ [?o]))"
  have js: "js = pre @ CHR ''{'' # jmembers ms @ CHR ''}'' # post" using 3 by simp
  have "jsmn_loop cap js (at (length pre) ts s) = jsmn_loop cap js (at (length ?pre) (?us @ [?o]) (int (length ?us)))"
    using loop_open [OF js, of JSMN_OBJECT ts cap s] 3 by simp
  also obtain s' where "\<dots> = jsmn_loop cap js (at (length ?pre + length (jmembers ms))
      (?us @ ?o\<lparr>tk_size := tk_size ?o + length ms\<rparr> # ?vs) s')"
    using 3(1) [of ?pre "CHR ''}'' # post" ?us ?o "[]"] 3 by auto
  also have "\<dots> = jsmn_loop cap js (at (length ?pre + length (jmembers ms) + 1)
      (?us @ ?o\<lparr>tk_size := length ms, tk_end := int (length ?pre + length (jmembers ms)) + 1\<rparr> # ?vs) s)"
    using loop_close [of js "?pre @ jmembers ms" "CHR ''}''" post "?o\<lparr>tk_size := length ms\<rparr>" ?us ?vs cap s'] js
      toks_linked(2) [of "int (length ?us)" "int (length ?us)" "Suc (length ?us)"] by simp
  finally show ?case by (simp add: algebra_simps)
next
  case (4 es)
  let ?o = "\<lparr>tk_type = JSMN_ARRAY, tk_start = int (length pre), tk_end = -1, tk_size = 0, tk_parent = s\<rparr>"
  let ?us = "bump s ts" and ?pre = "pre @ ''[''"
  let ?vs = "etoks es (length ?pre) (int (length ?us)) (length (?us @ [?o]))"
  have js: "js = pre @ CHR ''['' # jelements es @ CHR '']'' # post" using 4 by simp
  have "jsmn_loop cap js (at (length pre) ts s) = jsmn_loop cap js (at (length ?pre) (?us @ [?o]) (int (length ?us)))"
    using loop_open [OF js, of JSMN_ARRAY ts cap s] 4 by simp
  also have "\<dots> = jsmn_loop cap js (at (length ?pre + length (jelements es))
      (?us @ ?o\<lparr>tk_size := tk_size ?o + length es\<rparr> # ?vs) (int (length ?us)))"
    using 4(1) [of ?pre "CHR '']'' # post" ?us ?o "[]"] 4 by simp
  also have "\<dots> = jsmn_loop cap js (at (length ?pre + length (jelements es) + 1)
      (?us @ ?o\<lparr>tk_size := length es, tk_end := int (length ?pre + length (jelements es)) + 1\<rparr> # ?vs) s)"
    using loop_close [of js "?pre @ jelements es" "CHR '']''" post "?o\<lparr>tk_size := length es\<rparr>" ?us ?vs cap] js
      toks_linked(3) [of "int (length ?us)" "int (length ?us)" "Suc (length ?us)"] by simp
  finally show ?case by (simp add: algebra_simps)
next
  case 5
  then show ?case by (intro exI) simp
next
  case (6 k v ms)
  let ?o = "obj\<lparr>tk_size := tk_size obj + 1\<rparr>" and ?i = "int (length us)"
  let ?key = "\<lparr>tk_type = JSMN_STRING, tk_start = int (length pre + 1), tk_end = int (length pre + 1 + length k),
    tk_size = 0, tk_parent = ?i\<rparr>"
  let ?key1 = "?key\<lparr>tk_size := 1\<rparr>"
  let ?rest = "if ms = [] then [] else '', '' @ jmembers ms"
  let ?pre = "pre @ quoted k @ '': ''" and ?ts = "us @ ?o # vs"
  let ?tv = "jtoks v (length ?pre) (int (length ?ts)) (Suc (length ?ts))"
  have js: "js = pre @ quoted k @ '': '' @ jtext v @ ?rest @ post" using 6 by simp
  have e: "ends (?rest @ post)" using 6 by simp
  have "jsmn_loop cap js (at (length pre) (us @ obj # vs) ?i) =
      jsmn_loop cap js (at (length (pre @ quoted k)) (?ts @ [?key]) ?i)"
    using loop_string [OF js, of "us @ obj # vs" cap ?i] 6 by (simp add: quoted_def)
  also have "\<dots> = jsmn_loop cap js (at (length ?pre) (?ts @ [?key]) (int (length ?ts)))"
    using loop_colon [of js "pre @ quoted k" _ cap "?ts @ [?key]" ?i] js by simp
  also have "\<dots> = jsmn_loop cap js (at (length ?pre + length (jtext v)) (bump (int (length ?ts)) (?ts @ [?key]) @
      jtoks v (length ?pre) (int (length ?ts)) (length (?ts @ [?key]))) (int (length ?ts)))"
    by (rule 6(1) [where post = "?rest @ post"]) (use js e 6(4,6) in simp_all)
  also have "\<dots> = jsmn_loop cap js (at (length ?pre + length (jtext v)) (?ts @ ?key1 # ?tv) (int (length ?ts)))"
    unfolding bump_nth by simp
  finally have v: "jsmn_loop cap js (at (length pre) (us @ obj # vs) ?i) =
    jsmn_loop cap js (at (length ?pre + length (jtext v)) (?ts @ ?key1 # ?tv) (int (length ?ts)))" .
  show ?case
  proof (cases "ms = []")
    case True
    then show ?thesis using v by (intro exI [of _ "int (length ?ts)"]) (simp add: quoted_def eval_nat_numeral add.assoc)
  next
    case False
    let ?pre2 = "?pre @ jtext v @ '', ''" and ?vs = "vs @ ?key1 # ?tv"
    have "jsmn_loop cap js (at (length ?pre + length (jtext v)) (?ts @ ?key1 # ?tv) (int (length ?ts))) =
        jsmn_loop cap js (at (length ?pre2) (us @ ?o # ?vs) ?i)"
      using loop_comma [of js "?pre @ jtext v" "jmembers ms @ post" cap "?ts @ ?key1 # ?tv" "int (length ?ts)"]
        js False comma_key [of ?key1 ?ts ?tv] by (simp add: add.assoc)
    moreover have "\<exists>s'. jsmn_loop cap js (at (length ?pre2) (us @ ?o # ?vs) ?i) = jsmn_loop cap js (at (length ?pre2 + length (jmembers ms))
        (us @ ?o\<lparr>tk_size := tk_size ?o + length ms\<rparr> # ?vs @ mtoks ms (length ?pre2) ?i (length (us @ ?o # ?vs))) s')"
      by (rule 6(2) [OF False]) (use js 6(4-6) False in simp_all)
    then obtain s' where "jsmn_loop cap js (at (length ?pre2) (us @ ?o # ?vs) ?i) = jsmn_loop cap js (at (length ?pre2 + length (jmembers ms))
        (us @ ?o\<lparr>tk_size := tk_size ?o + length ms\<rparr> # ?vs @ mtoks ms (length ?pre2) ?i (length (us @ ?o # ?vs))) s')" ..
    ultimately show ?thesis using v False
      by (intro exI [of _ s']) (simp add: quoted_def eval_nat_numeral algebra_simps)
  qed
next
  case 7
  then show ?case by simp
next
  case (8 v es)
  let ?o = "arr\<lparr>tk_size := tk_size arr + 1\<rparr>" and ?i = "int (length us)"
  let ?rest = "if es = [] then [] else '', '' @ jelements es" and ?ts = "us @ arr # vs"
  let ?tv = "jtoks v (length pre) ?i (length ?ts)"
  have js: "js = pre @ jtext v @ ?rest @ post" using 8 by simp
  have e: "ends (?rest @ post)" using 8 by simp
  have v: "jsmn_loop cap js (at (length pre) ?ts ?i) =
      jsmn_loop cap js (at (length pre + length (jtext v)) (us @ ?o # vs @ ?tv) ?i)"
  proof -
    have "jsmn_loop cap js (at (length pre) ?ts ?i) = jsmn_loop cap js (at (length pre + length (jtext v))
        (bump ?i ?ts @ jtoks v (length pre) ?i (length ?ts)) ?i)"
      by (rule 8(1) [where post = "?rest @ post"]) (use js e 8(4,6) in simp_all)
    then show ?thesis unfolding bump_nth by simp
  qed
  show ?case
  proof (cases "es = []")
    case True
    then show ?thesis using v by simp
  next
    case False
    let ?pre2 = "pre @ jtext v @ '', ''" and ?vs = "vs @ ?tv"
    have "jsmn_loop cap js (at (length pre + length (jtext v)) (us @ ?o # ?vs) ?i) =
        jsmn_loop cap js (at (length ?pre2) (us @ ?o # ?vs) ?i)"
      using loop_comma [of js "pre @ jtext v" "jelements es @ post" cap "us @ ?o # ?vs" ?i]
        js False comma_array [of ?o us ?vs] 8(7) by (simp add: add.assoc)
    also have "\<dots> = jsmn_loop cap js (at (length ?pre2 + length (jelements es))
        (us @ ?o\<lparr>tk_size := tk_size ?o + length es\<rparr> # ?vs @ etoks es (length ?pre2) ?i (length (us @ ?o # ?vs))) ?i)"
      by (rule 8(2) [OF False]) (use js 8(4-7) False in simp_all)
    finally show ?thesis using v False by (simp add: algebra_simps)
  qed
qed

lemma jsmn_parses:
  assumes "jval_ok v" "ntok v \<le> cap"
  shows "jsmn_parse cap (jtext v) jsmn_init = Inr (ntok v, jtoks v 0 (-1) 0)"
proof -
  have c: "0 \<le> tk_end t" if "t \<in> set (jtoks v 0 (-1) 0)" for t
    using that toks_linked(1) [of "-1" "-1" 0 v 0] by (auto simp: linked_def in_set_conv_nth)
  have "jsmn_loop cap (jtext v) (at 0 [] (-1)) =
      jsmn_loop cap (jtext v) (at (length (jtext v)) (jtoks v 0 (-1) 0) (-1))"
    using loop_value(1) [of "jtext v" "[]" v "[]" "[]" cap "-1"] assms by (simp add: bump_def)
  also have "\<dots> = Inr (at (length (jtext v)) (jtoks v 0 (-1) 0) (-1))"
    by (subst jsmn_loop.simps) simp
  finally show ?thesis using c by (force simp: jsmn_parse_def jsmn_init_def)
qed

text \<open>
  C33. The tokens of the text of a value, when they fit the array, are exactly the tokens of the value in
  preorder: their types, bounds, sizes and parents.
\<close>

theorem jsmn_parses_value:
  assumes "jval_ok v" "ntok v \<le> cap"
  shows "jsmn_parse cap (jtext v) jsmn_init = Inr (ntok v, jtoks v 0 (-1) 0)"
  by (rule jsmn_parses [OF assms])

theorem jsmn_parses_value_witness:
  "jsmn_parse 4 (jtext (J_obj [(''a'', J_arr [J_prim ''12''])])) jsmn_init =
     Inr (4, jtoks (J_obj [(''a'', J_arr [J_prim ''12''])]) 0 (-1) 0)"
proof -
  have "jval_ok (J_obj [(''a'', J_arr [J_prim ''12''])])" by code_simp
  then show ?thesis using jsmn_parses_value [of "J_obj [(''a'', J_arr [J_prim ''12''])]" 4] by simp
qed

end
