(* ===== verification/JsonRead.thy ===== *)
theory JsonRead
  imports DataText Enums ObjAccess Jsmn
begin

text \<open>
  The functions \<open>iodefv2_X_read_json\<close> and \<open>iodefv2_object_new_from_json\<close> of
  src/src/iodefv2-document-read-json.c. As with printing, all classes are made of a few kinds of
  statements, one per key; theory JsonTables has them for each class.

  The text and its tokens (\<open>ctrl->input\<close>, \<open>ctrl->jtok\<close>) do not change; \<open>ctrl->idx\<close> is an argument and
  the result of every function. A token that the tokeniser did not write is a fault. Appending to
  a string is taken to succeed (theory StringBuf has the growth of its buffer), and the characters
  of a string that turns out to be invalid are not kept. \<open>mktime\<close> (\<open>mk\<close>) and \<open>strtof\<close> are parameters.
\<close>

section \<open>Tokens of the document\<close>

definition jtok_of :: "token \<Rightarrow> jtok" where
  "jtok_of t = \<lparr>jtype = tk_type t, jstart = nat (tk_start t), jend = nat (tk_end t), jsize = tk_size t\<rparr>"

record json_data =
  json_input :: string
  json_toks :: "jtok list"

definition jtok_at :: "json_data \<Rightarrow> nat \<Rightarrow> jtok act" where
  "jtok_at ctrl i = (if i < length (json_toks ctrl) then ret (json_toks ctrl ! i) else fail (UB Uninitialised))"

section \<open>Statements\<close>

datatype read_step =
    Read_string new_fun
  | Read_data new_fun
  | Read_typed_data "string option \<Rightarrow> int res" new_fun
  | Read_new_time set_fun
  | Read_uint32 set_fun
  | Read_enum "string option \<Rightarrow> int res" set_fun
  | Read_object nat new_fun
  | Read_list nat new_fun

text \<open>The name of the class in \<open>_self\<close>, and the statement of each key.\<close>

record read_class =
  read_self :: string
  read_steps :: "(string \<times> read_step) list"

type_synonym read_codes = "nat \<Rightarrow> read_class"

section \<open>Values\<close>

definition get_pointer_made :: "ref_out act \<Rightarrow> addr option act" where
  "get_pointer_made a = act_bind a (\<lambda>r. case r of Ref_ptr q \<Rightarrow> ret q | _ \<Rightarrow> fail (UB Wrong_kind))"

text \<open>
  \<open>__get_string\<close> into the string object \<open>str\<close>. The type of the token is looked at first, so a pointer
  to something else than a string object is used only for a string token.
\<close>

definition get_string_into :: "json_data \<Rightarrow> nat \<Rightarrow> ref_out \<Rightarrow> unit act" where
  "get_string_into ctrl idx r = act_bind (jtok_at ctrl idx) (\<lambda>j.
     if jtype j \<noteq> JSMN_STRING then fail (EV ERROR_GENERIC)
     else if jend j - jstart j = 0 then ret ()
     else (case r of
       Ref_ptr str \<Rightarrow> act_bind (load_string str) (\<lambda>s. act_bind (lift_res (get_string (json_input ctrl) j (str_text s)))
           (\<lambda>t. store str (C_string (s\<lparr>str_text := t, str_buf := True\<rparr>))))
     | _ \<Rightarrow> fail (UB Wrong_kind)))"

definition get_buf :: "json_data \<Rightarrow> nat \<Rightarrow> string act" where
  "get_buf ctrl idx = act_bind (jtok_at ctrl idx) (\<lambda>j. lift_res (get_string_copy (json_input ctrl) j 128))"

text \<open>A negative number is returned as an error.\<close>

definition get_integer :: "json_data \<Rightarrow> nat \<Rightarrow> int act" where
  "get_integer ctrl idx = act_bind (jtok_at ctrl idx) (\<lambda>j.
     if jtype j \<noteq> JSMN_PRIMITIVE then fail (EV ERROR_GENERIC)
     else let (v, n, _) = strtol 10 (drop (jstart j) (json_input ctrl)) in
       if n \<noteq> jend j - jstart j then fail (EV ERROR_GENERIC)
       else if v < 0 then fail (E_value v) else ret v)"

definition get_float :: "(string \<Rightarrow> 32 word \<times> nat) \<Rightarrow> json_data \<Rightarrow> nat \<Rightarrow> 32 word act" where
  "get_float strtof ctrl idx = act_bind (jtok_at ctrl idx) (\<lambda>j.
     let (v, n) = strtof (drop (jstart j) (json_input ctrl)) in
     if n \<noteq> jend j - jstart j then fail (EV ERROR_GENERIC) else ret v)"

text \<open>
  The number of an enumeration string, as a C integer: an unknown string gives the error number,
  which is not the \<open>-1\<close> the callers look for.
\<close>

definition enum_number :: "(string option \<Rightarrow> int res) \<Rightarrow> string \<Rightarrow> int" where
  "enum_number num buf = (case num (Some buf) of
     Inr v \<Rightarrow> v
   | Inl (E e) \<Rightarrow> sint (error_make 11 (errcode_num e))
   | Inl (EV e) \<Rightarrow> sint (error_verbose_make 11 (errcode_num e))
   | Inl _ \<Rightarrow> -1)"

text \<open>\<open>iodefv2_data_set_byte_string_dup\<close> with the bytes of a string; \<open>None\<close> is a NULL pointer.\<close>

definition data_set_bytes :: "addr option \<Rightarrow> string option \<Rightarrow> unit act" where
  "data_set_bytes p b = (case b of None \<Rightarrow> fail (E ERROR_ASSERTION)
   | Some s \<Rightarrow> if p = None then fail (E ERROR_ASSERTION) else
      act_then (data_destroy_internal p) (act_bind (cell_alloc (C_buf False s)) (\<lambda>new.
        if new = None then fail E_minus1
        else act_bind (load_data p) (\<lambda>d.
          store p (C_data (d\<lparr>data_kind := DATA_BYTE_STRING, data_val := U_ptr new, data_len := length s,
            own_buffer := True\<rparr>))))))"

text \<open>
  A string token as bytes: a temporary string is made, read into, copied and destroyed. The return
  code of the copy is ignored.
\<close>

definition read_bytes :: "json_data \<Rightarrow> nat \<Rightarrow> addr option \<Rightarrow> unit act" where
  "read_bytes ctrl idx d = act_bind str_new (\<lambda>(str, r). case r of
     Inl e \<Rightarrow> fail e
   | Inr _ \<Rightarrow> act_bind (act_try (get_string_into ctrl idx (Ref_ptr str))) (\<lambda>r. case r of
       Inl e \<Rightarrow> act_then (str_destroy str) (fail e)
     | Inr _ \<Rightarrow> act_bind (load_string str) (\<lambda>s.
         act_bind (act_try (data_set_bytes d (if str_buf s then Some (str_text s) else None))) (\<lambda>_. str_destroy str))))"

definition read_time :: "(tm \<Rightarrow> int) \<Rightarrow> json_data \<Rightarrow> nat \<Rightarrow> addr option act" where
  "read_time mk ctrl idx = act_bind (get_buf ctrl idx) (\<lambda>buf.
     act_bind (time_new_from_string mk buf) (\<lambda>(t, r). case r of Inl e \<Rightarrow> fail e | Inr _ \<Rightarrow> ret t))"

text \<open>
  The \<open>data\<close> member of an AdditionalData: its kind is the value after the first \<open>type\<close> string of the
  object, whose token is \<open>obj\<close>. \<open>IODEFV2_ADDITIONAL_DATA_TYPE_BYTES\<close> stands alone in the condition of
  the last case, so its other branch is never taken.
\<close>

definition read_typed_data :: "(tm \<Rightarrow> int) \<Rightarrow> (string \<Rightarrow> 32 word \<times> nat) \<Rightarrow> json_data \<Rightarrow> (string option \<Rightarrow> int res) \<Rightarrow>
    ref_out act \<Rightarrow> nat \<Rightarrow> nat \<Rightarrow> unit act" where
  "read_typed_data mk strtof ctrl num made obj idx =
     act_bind (lift_res (get_json_key (json_input ctrl) (json_toks ctrl) ''type'' obj)) (\<lambda>k.
     if k < 0 then fail (EV ERROR_GENERIC)
     else act_bind (get_buf ctrl (obj + nat k + 1)) (\<lambda>buf.
       let ty = enum_number num buf in
       if ty < 0 then fail (E_value ty)
       else act_bind (get_pointer_made made) (\<lambda>d.
         if ty = 7 then act_bind (get_float strtof ctrl idx) (\<lambda>v. data_set_float d v)
         else if ty = 1 \<or> ty = 2 \<or> ty = 3 \<or> ty = 5
           then act_bind (get_integer ctrl idx) (\<lambda>v. data_set_int d (word_of_int v))
         else if ty = 4 then act_bind (read_time mk ctrl idx) (data_set_time d)
         else if ty = 6 \<or> (8 \<le> ty \<and> ty \<le> 16) \<or> (18 \<le> ty \<and> ty \<le> 21) then read_bytes ctrl idx d
         else fail E_minus1)))"

section \<open>Running the statements\<close>

text \<open>
  The statement of a key, with \<open>idx\<close> at the value and \<open>obj\<close> at the object; \<open>rec c q idx\<close> reads an
  object of class \<open>c\<close> into \<open>q\<close>. The result is \<open>ctrl->idx\<close>, which the loop increments once more.
\<close>

fun read_elements :: "(nat \<Rightarrow> nat act) \<Rightarrow> nat \<Rightarrow> nat \<Rightarrow> nat act" where
  "read_elements elem 0 idx = ret idx"
| "read_elements elem (Suc k) idx = act_bind (elem idx) (\<lambda>idx. read_elements elem k idx)"

fun run_read :: "(tm \<Rightarrow> int) \<Rightarrow> (string \<Rightarrow> 32 word \<times> nat) \<Rightarrow> json_data \<Rightarrow> codes \<Rightarrow> nat \<Rightarrow>
    (nat \<Rightarrow> addr option \<Rightarrow> nat \<Rightarrow> nat act) \<Rightarrow> addr option \<Rightarrow> nat \<Rightarrow> read_step \<Rightarrow> nat \<Rightarrow> nat act" where
  "run_read mk strtof ctrl K n rec p obj (Read_string m) idx =
     act_bind (run_maker K n p m 0) (\<lambda>r. act_then (get_string_into ctrl idx r) (ret idx))"
| "run_read mk strtof ctrl K n rec p obj (Read_data m) idx =
     act_bind (get_pointer_made (run_maker K n p m 0)) (\<lambda>d. act_then (read_bytes ctrl idx d) (ret idx))"
| "run_read mk strtof ctrl K n rec p obj (Read_typed_data num m) idx =
     act_then (read_typed_data mk strtof ctrl num (run_maker K n p m 0) obj idx) (ret idx)"
| "run_read mk strtof ctrl K n rec p obj (Read_new_time s) idx =
     act_bind (read_time mk ctrl idx) (\<lambda>t. act_then (run_setter K n p s (Arg_ptr t)) (ret idx))"
| "run_read mk strtof ctrl K n rec p obj (Read_uint32 s) idx =
     act_bind (get_integer ctrl idx) (\<lambda>v. act_then (run_setter K n p s (Arg_int (word_of_int v))) (ret idx))"
| "run_read mk strtof ctrl K n rec p obj (Read_enum num s) idx =
     act_bind (get_buf ctrl idx) (\<lambda>buf. let v = enum_number num buf in
       act_then (if v \<noteq> -1 then run_setter K n p s (Arg_int (word_of_int v)) else ret ()) (ret idx))"
| "run_read mk strtof ctrl K n rec p obj (Read_object c m) idx =
     act_bind (get_pointer_made (run_maker K n p m 0)) (\<lambda>q. act_bind (rec c q idx) (\<lambda>idx. ret (idx - 1)))"
| "run_read mk strtof ctrl K n rec p obj (Read_list c m) idx =
     act_bind (jtok_at ctrl idx) (\<lambda>j.
       if jtype j \<noteq> JSMN_ARRAY then ret idx
       else act_bind (read_elements (\<lambda>idx. act_bind (get_pointer_made (run_maker K n p m LIST_APPEND)) (\<lambda>q. rec c q idx))
           (jsize j) (idx + 1)) (\<lambda>idx. ret (idx - 1)))"

definition read_key :: "json_data \<Rightarrow> jtok \<Rightarrow> (string \<times> read_step) list \<Rightarrow> read_step option" where
  "read_key ctrl j steps = map_option snd (find (\<lambda>(k, _). jsoneq (json_input ctrl) j k) steps)"

text \<open>The members of an object: at most as many as its token says, as long as there are tokens.\<close>

fun read_members :: "json_data \<Rightarrow> (string \<times> read_step) list \<Rightarrow> (read_step \<Rightarrow> nat \<Rightarrow> nat act) \<Rightarrow> nat \<Rightarrow> nat \<Rightarrow> nat act" where
  "read_members ctrl steps run 0 idx = ret idx"
| "read_members ctrl steps run (Suc k) idx =
     (if \<not> idx < length (json_toks ctrl) then ret idx
      else act_bind (jtok_at ctrl idx) (\<lambda>j.
        if jsoneq (json_input ctrl) j ''_self'' then read_members ctrl steps run k (idx + 2)
        else (case read_key ctrl j steps of
          None \<Rightarrow> fail (EV ERROR_GENERIC)
        | Some s \<Rightarrow> act_bind (run s (idx + 1)) (\<lambda>idx. read_members ctrl steps run k (idx + 1)))))"

primrec obj_read_json :: "(tm \<Rightarrow> int) \<Rightarrow> (string \<Rightarrow> 32 word \<times> nat) \<Rightarrow> json_data \<Rightarrow> read_codes \<Rightarrow> codes \<Rightarrow> nat \<Rightarrow>
    nat \<Rightarrow> addr option \<Rightarrow> nat \<Rightarrow> nat act" where
  "obj_read_json mk strtof ctrl R K 0 c p idx = fail (UB No_fuel)"
| "obj_read_json mk strtof ctrl R K (Suc n) c p idx = act_bind (jtok_at ctrl idx) (\<lambda>j.
     if jtype j \<noteq> JSMN_OBJECT then fail (EV ERROR_GENERIC)
     else read_members ctrl (read_steps (R c))
       (run_read mk strtof ctrl K n (obj_read_json mk strtof ctrl R K n) p idx) (jsize j) (idx + 1))"

section \<open>Reading a document\<close>

text \<open>
  \<open>iodefv2_object_new_from_json\<close>: the class is the first one whose name is the string after the
  first \<open>_self\<close>. When reading fails the object stays allocated, stored through \<open>object\<close>.
\<close>

definition object_new_from_json :: "(tm \<Rightarrow> int) \<Rightarrow> (string \<Rightarrow> 32 word \<times> nat) \<Rightarrow> (nat \<times> read_class) list \<Rightarrow>
    read_codes \<Rightarrow> codes \<Rightarrow> nat \<Rightarrow> string \<Rightarrow> created act" where
  "object_new_from_json mk strtof classes R K n msg =
     (case jsmn_parse 1024 (cstr msg) jsmn_init of
        Inl e \<Rightarrow> fail (EV ERROR_GENERIC)
      | Inr (_, ts) \<Rightarrow>
        let ctrl = \<lparr>json_input = cstr msg, json_toks = List.map jtok_of ts\<rparr> in
        act_bind (lift_res (get_json_key (json_input ctrl) (json_toks ctrl) ''_self'' 0)) (\<lambda>k.
        if k < 0 then fail (EV ERROR_GENERIC)
        else act_bind (jtok_at ctrl (nat k + 1)) (\<lambda>j.
          case find (\<lambda>(_, r). jsoneq (json_input ctrl) j (read_self r)) classes of
            None \<Rightarrow> fail (EV ERROR_GENERIC)
          | Some (c, _) \<Rightarrow> act_bind (obj_new K n c) (\<lambda>(p, r). case r of
              Inl e \<Rightarrow> ret (p, Inl e)
            | Inr _ \<Rightarrow> act_bind (act_try (obj_read_json mk strtof ctrl R K n c p 0)) (\<lambda>r.
                ret (p, case r of Inl e \<Rightarrow> Inl e | Inr _ \<Rightarrow> Inr ()))))))"

end
