(* ===== verification/JsonPrint.thy ===== *)
theory JsonPrint
  imports DataText Enums ObjAccess Jsmn
begin

text \<open>
  The functions \<open>iodefv2_X_print_json\<close> of src/src/iodefv2-document-print-json.c. All of them are made of
  the same few statements, which this theory models; theory JsonTables has the statements of each
  class. The output is written with \<open>libiodefv2_io_write\<close>, the parameter \<open>write\<close>: it gets the
  state of the output and the bytes, and returns the new state or an error.

  \<open>%f\<close> is a parameter, as in theory DataText. Filling the temporary string of \<open>conv_time\<close> and
  \<open>conv_data\<close> is taken to succeed (theory StringBuf has its growth).
\<close>

section \<open>Statements\<close>

text \<open>One statement per field: the key, the get function, and what is called for the value.\<close>

datatype print_step =
    Print_string string get_fun
  | Print_time string get_fun
  | Print_data string get_fun
  | Print_uint32 string get_fun
  | Print_optional_uint32 string get_fun
  | Print_enum string get_fun "int \<Rightarrow> string option"
  | Print_optional_enum string get_fun "int \<Rightarrow> string option"
  | Print_object nat string get_fun
  | Print_list nat string get_fun

text \<open>The value of the \<open>_self\<close> member, and the statements after it.\<close>

record print_class =
  self_name :: string
  print_steps :: "print_step list"

type_synonym 'fd writer = "'fd \<Rightarrow> string \<Rightarrow> 'fd res"

definition do_write :: "'fd writer \<Rightarrow> 'fd \<Rightarrow> string \<Rightarrow> 'fd act" where
  "do_write write fd s = lift_res (write fd s)"

definition conv_uint32 :: "'fd writer \<Rightarrow> 'fd \<Rightarrow> 32 word \<Rightarrow> 'fd act" where
  "conv_uint32 write fd v = lift_res (write fd (nat_dec (unat v)))"

text \<open>A string object with text; a missing buffer is written as an empty string.\<close>

definition conv_str :: "'fd writer \<Rightarrow> 'fd \<Rightarrow> addr option \<Rightarrow> 'fd act" where
  "conv_str write fd p = act_bind (load_string p) (\<lambda>s. lift_res (conv_string write fd (str_text s)))"

text \<open>
  A temporary string is made, filled by \<open>fill\<close>, written by \<open>out\<close> and destroyed; it is destroyed after an
  error of the two as well.
\<close>

definition with_temp :: "string act \<Rightarrow> (string \<Rightarrow> 'fd act) \<Rightarrow> 'fd act" where
  "with_temp fill out = act_bind str_new (\<lambda>(p, r). case r of
     Inl e \<Rightarrow> fail e
   | Inr _ \<Rightarrow> act_bind (act_try (act_bind fill out)) (\<lambda>r. act_then (str_destroy p) (lift_res r)))"

definition conv_time :: "'fd writer \<Rightarrow> 'fd \<Rightarrow> addr option \<Rightarrow> 'fd act" where
  "conv_time write fd t = (if t = None then ret fd else
     with_temp (act_bind (load_time t) (\<lambda>t. ret (time_to_string t)))
       (\<lambda>s. lift_res (conv_string write fd s)))"

definition conv_data :: "(32 word \<Rightarrow> string) \<Rightarrow> 'fd writer \<Rightarrow> 'fd \<Rightarrow> addr option \<Rightarrow> 'fd act" where
  "conv_data ftxt write fd d = with_temp (data_to_string ftxt d)
     (\<lambda>s. act_bind (load_data d) (\<lambda>x.
        if data_kind x = DATA_INT \<or> data_kind x = DATA_FLOAT then lift_res (write fd s)
        else lift_res (conv_string write fd s)))"

section \<open>Running the statements\<close>

text \<open>\<open>, "key": \<close>\<close>

definition key_text :: "string \<Rightarrow> string" where
  "key_text k = '', '' @ quoted k @ '': ''"

definition get_pointer :: "addr option \<Rightarrow> get_fun \<Rightarrow> addr option \<Rightarrow> addr option act" where
  "get_pointer p g cur = act_bind (run_getter p g cur) (\<lambda>r. case r of
     Ref_ptr q \<Rightarrow> ret q | _ \<Rightarrow> fail (UB Wrong_kind))"

text \<open>The pointer that the get function of an optional integer returns, with the value behind it.\<close>

definition get_int_pointer :: "addr option \<Rightarrow> get_fun \<Rightarrow> 32 word option act" where
  "get_int_pointer p g = act_bind (run_getter p g None) (\<lambda>r. case r of
     Ref_ptr None \<Rightarrow> ret None
   | Ref_field a f \<Rightarrow> act_bind (get_int (Some a) f) (\<lambda>v. ret (Some v))
   | _ \<Rightarrow> fail (UB Wrong_kind))"

definition get_number_value :: "addr option \<Rightarrow> get_fun \<Rightarrow> 32 word act" where
  "get_number_value p g = act_bind (run_getter p g None) (\<lambda>r. case r of
     Ref_value v \<Rightarrow> ret v | _ \<Rightarrow> fail (UB Wrong_kind))"

text \<open>A field with a pointer: nothing for NULL, else the key and the value.\<close>

definition print_pointer :: "'fd writer \<Rightarrow> string \<Rightarrow> addr option act \<Rightarrow> ('fd \<Rightarrow> addr option \<Rightarrow> 'fd act) \<Rightarrow> 'fd \<Rightarrow> 'fd act" where
  "print_pointer write k get conv fd = act_bind get (\<lambda>q. if q = None then ret fd
     else act_bind (do_write write fd (key_text k)) (\<lambda>fd. conv fd q))"

definition print_enum :: "'fd writer \<Rightarrow> string \<Rightarrow> (int \<Rightarrow> string option) \<Rightarrow> 32 word \<Rightarrow> 'fd \<Rightarrow> 'fd act" where
  "print_enum write k str v fd = (case str (sint v) of
     None \<Rightarrow> ret fd
   | Some s \<Rightarrow> act_bind (do_write write fd (key_text k @ [CHR 0x22])) (\<lambda>fd.
       act_bind (do_write write fd s) (\<lambda>fd. do_write write fd [CHR 0x22])))"

text \<open>The elements of a list from \<open>cur\<close> on; \<open>first\<close> is set until one is written.\<close>

fun print_list :: "'fd writer \<Rightarrow> (addr option \<Rightarrow> 'fd \<Rightarrow> 'fd act) \<Rightarrow> nat \<Rightarrow> addr option \<Rightarrow> string \<Rightarrow> get_fun \<Rightarrow>
    addr option \<Rightarrow> bool \<Rightarrow> 'fd \<Rightarrow> 'fd act" where
  "print_list write rec 0 p k g cur first fd = fail (UB No_fuel)"
| "print_list write rec (Suc n) p k g cur first fd =
     act_bind (get_pointer p g cur) (\<lambda>q.
       if q = None then (if first then ret fd else do_write write fd '']'')
       else act_bind (do_write write fd (if first then key_text k @ ''['' else '', '')) (\<lambda>fd.
         act_bind (rec q fd) (\<lambda>fd. print_list write rec n p k g q False fd)))"

fun run_print :: "'fd writer \<Rightarrow> (32 word \<Rightarrow> string) \<Rightarrow> (nat \<Rightarrow> addr option \<Rightarrow> 'fd \<Rightarrow> 'fd act) \<Rightarrow> nat \<Rightarrow> addr option \<Rightarrow>
    print_step \<Rightarrow> 'fd \<Rightarrow> 'fd act" where
  "run_print write ftxt rec n p (Print_string k g) fd = print_pointer write k (get_pointer p g None) (conv_str write) fd"
| "run_print write ftxt rec n p (Print_time k g) fd = print_pointer write k (get_pointer p g None) (conv_time write) fd"
| "run_print write ftxt rec n p (Print_data k g) fd = print_pointer write k (get_pointer p g None) (conv_data ftxt write) fd"
| "run_print write ftxt rec n p (Print_object c k g) fd =
     print_pointer write k (get_pointer p g None) (\<lambda>fd q. rec c q fd) fd"
| "run_print write ftxt rec n p (Print_uint32 k g) fd = act_bind (get_number_value p g) (\<lambda>v.
     if v = 0 then ret fd else act_bind (do_write write fd (key_text k)) (\<lambda>fd. conv_uint32 write fd v))"
| "run_print write ftxt rec n p (Print_optional_uint32 k g) fd = act_bind (get_int_pointer p g) (\<lambda>r. case r of
     None \<Rightarrow> ret fd | Some v \<Rightarrow> act_bind (do_write write fd (key_text k)) (\<lambda>fd. conv_uint32 write fd v))"
| "run_print write ftxt rec n p (Print_enum k g str) fd =
     act_bind (get_number_value p g) (\<lambda>v. print_enum write k str v fd)"
| "run_print write ftxt rec n p (Print_optional_enum k g str) fd =
     act_bind (get_int_pointer p g) (\<lambda>r. case r of None \<Rightarrow> ret fd | Some v \<Rightarrow> print_enum write k str v fd)"
| "run_print write ftxt rec n p (Print_list c k g) fd = print_list write (rec c) n p k g None True fd"

fun run_prints :: "('s \<Rightarrow> 'fd \<Rightarrow> 'fd act) \<Rightarrow> 's list \<Rightarrow> 'fd \<Rightarrow> 'fd act" where
  "run_prints run [] fd = ret fd"
| "run_prints run (s # ss) fd = act_bind (run s fd) (\<lambda>fd. run_prints run ss fd)"

type_synonym print_codes = "nat \<Rightarrow> print_class"

definition head_text :: "string \<Rightarrow> string" where
  "head_text self = ''{'' @ quoted ''_self'' @ '': '' @ quoted self"

text \<open>The first number bounds the depth of the calls and the length of the lists.\<close>

primrec obj_print_json :: "print_codes \<Rightarrow> 'fd writer \<Rightarrow> (32 word \<Rightarrow> string) \<Rightarrow> nat \<Rightarrow> nat \<Rightarrow> addr option \<Rightarrow> 'fd \<Rightarrow> 'fd act" where
  "obj_print_json P write ftxt 0 c p fd = fail (UB No_fuel)"
| "obj_print_json P write ftxt (Suc n) c p fd = (if p = None then ret fd else
     act_bind (do_write write fd (head_text (self_name (P c)))) (\<lambda>fd.
     act_bind (run_prints (run_print write ftxt (obj_print_json P write ftxt n) n p) (print_steps (P c)) fd) (\<lambda>fd.
     do_write write fd ''}'')))"

end
