(* ===== verification/JsonFits.thy ===== *)
theory JsonFits
  imports JsonPrint JsonRead ObjCode
begin

text \<open>
  When the JSON functions of a class agree with its struct and with each other: every field that is
  not ignored is printed, in the order of the struct, and every key that is printed, but for listed
  exceptions, is read back by a statement of the same kind on the same field (\<open>fits_json\<close>).
\<close>

section \<open>Enumerations\<close>

definition enum_pair :: "(string option \<Rightarrow> int res) \<Rightarrow> (int \<Rightarrow> string option) \<Rightarrow> bool" where
  "enum_pair num str \<longleftrightarrow> (num, str) \<in> set (map snd enum_functions)"

section \<open>Agreement of two statements\<close>

fun getter_field :: "get_fun \<Rightarrow> string" where
  "getter_field (Getter_ptr f) = f"
| "getter_field (Getter_int f) = f"
| "getter_field (Getter_optional f) = f"
| "getter_field (Getter_next f) = f"

fun step_key :: "print_step \<Rightarrow> string" and step_getter :: "print_step \<Rightarrow> get_fun" where
  "step_key (Print_string k g) = k"
| "step_key (Print_time k g) = k"
| "step_key (Print_data k g) = k"
| "step_key (Print_uint32 k g) = k"
| "step_key (Print_optional_uint32 k g) = k"
| "step_key (Print_enum k g s) = k"
| "step_key (Print_optional_enum k g s) = k"
| "step_key (Print_object c k g) = k"
| "step_key (Print_list c k g) = k"
| "step_getter (Print_string k g) = g"
| "step_getter (Print_time k g) = g"
| "step_getter (Print_data k g) = g"
| "step_getter (Print_uint32 k g) = g"
| "step_getter (Print_optional_uint32 k g) = g"
| "step_getter (Print_enum k g s) = g"
| "step_getter (Print_optional_enum k g s) = g"
| "step_getter (Print_object c k g) = g"
| "step_getter (Print_list c k g) = g"

definition step_field :: "print_step \<Rightarrow> string" where
  "step_field s = getter_field (step_getter s)"

text \<open>The declaration \<open>d\<close> of the field \<open>f\<close>, and the two statements.\<close>

fun declared_ptr :: "field_decl \<Rightarrow> ty \<Rightarrow> bool" where
  "declared_ptr (F_ptr t) t' \<longleftrightarrow> t = t'"
| "declared_ptr (F_required t) t' \<longleftrightarrow> t = t'"
| "declared_ptr _ t' \<longleftrightarrow> False"

text \<open>The struct may have a flag that tells whether an enumeration is set; copying ignores it.\<close>

fun sets_int :: "struct \<Rightarrow> string \<Rightarrow> set_fun \<Rightarrow> bool" where
  "sets_int st f (Setter_int g) \<longleftrightarrow> g = f"
| "sets_int st f (Setter_int_flag g h) \<longleftrightarrow> g = f \<and> map_of st h = Some F_ignored"
| "sets_int st f _ \<longleftrightarrow> False"

fun step_fits :: "struct \<Rightarrow> string \<times> field_decl \<Rightarrow> print_step \<Rightarrow> read_step \<Rightarrow> bool" where
  "step_fits st (f, d) (Print_string k g) r \<longleftrightarrow>
     g = Getter_ptr f \<and> declared_ptr d T_string \<and> r = Read_string (Maker_ptr T_string f)"
| "step_fits st (f, d) (Print_time k g) r \<longleftrightarrow>
     g = Getter_ptr f \<and> declared_ptr d T_time \<and> r = Read_new_time (Setter_ptr T_time f)"
| "step_fits st (f, d) (Print_data k g) r \<longleftrightarrow>
     g = Getter_ptr f \<and> declared_ptr d T_data \<and> (case r of Read_data m \<Rightarrow> m = Maker_ptr T_data f
       | Read_typed_data num m \<Rightarrow> m = Maker_ptr T_data f | _ \<Rightarrow> False)"
| "step_fits st (f, d) (Print_uint32 k g) r \<longleftrightarrow>
     g = Getter_int f \<and> d = F_int \<and> (case r of Read_uint32 s \<Rightarrow> sets_int st f s | _ \<Rightarrow> False)"
| "step_fits st (f, d) (Print_optional_uint32 k g) r \<longleftrightarrow>
     g = Getter_optional f \<and> d = F_optional \<and> r = Read_uint32 (Setter_optional f)"
| "step_fits st (f, d) (Print_enum k g str) r \<longleftrightarrow> g = Getter_int f \<and> d = F_int \<and>
     (case r of Read_enum num s \<Rightarrow> enum_pair num str \<and> sets_int st f s | _ \<Rightarrow> False)"
| "step_fits st (f, d) (Print_optional_enum k g str) r \<longleftrightarrow> g = Getter_optional f \<and> d = F_optional \<and>
     (case r of Read_enum num s \<Rightarrow> enum_pair num str \<and> s = Setter_optional f | _ \<Rightarrow> False)"
| "step_fits st (f, d) (Print_object c k g) r \<longleftrightarrow>
     g = Getter_ptr f \<and> declared_ptr d (T_class c) \<and> r = Read_object c (Maker_ptr (T_class c) f)"
| "step_fits st (f, d) (Print_list c k g) r \<longleftrightarrow>
     g = Getter_next f \<and> d = F_listed c \<and> r = Read_list c (Maker_listed c f)"

text \<open>The field is printed as a number, whatever reads it.\<close>

fun number_printed :: "string \<times> field_decl \<Rightarrow> print_step \<Rightarrow> bool" where
  "number_printed (f, d) (Print_uint32 k g) \<longleftrightarrow> g = Getter_int f \<and> d = F_int"
| "number_printed fd p \<longleftrightarrow> False"

text \<open>
  Along the struct; ignored fields have no statements. The keys \<open>ex\<close> are exceptions: they are printed
  as numbers and read by some other statement.
\<close>

fun steps_fit :: "string list \<Rightarrow> struct \<Rightarrow> struct \<Rightarrow> print_step list \<Rightarrow> (string \<times> read_step) list \<Rightarrow> bool" where
  "steps_fit ex st [] [] [] \<longleftrightarrow> True"
| "steps_fit ex st ((f, F_ignored) # ds) ps rs \<longleftrightarrow> steps_fit ex st ds ps rs"
| "steps_fit ex st (d # ds) (p # ps) ((k, r) # rs) \<longleftrightarrow> step_key p = k \<and>
     (if k \<in> set ex then number_printed d p else step_fits st d p r) \<and> steps_fit ex st ds ps rs"
| "steps_fit ex st _ _ _ \<longleftrightarrow> False"

text \<open>Without the condition on what reads a number: what the printer needs of every key.\<close>

fun step_prints :: "struct \<Rightarrow> string \<times> field_decl \<Rightarrow> print_step \<Rightarrow> read_step \<Rightarrow> bool" where
  "step_prints st (f, d) (Print_uint32 k g) r \<longleftrightarrow> g = Getter_int f \<and> d = F_int"
| "step_prints st fd p r \<longleftrightarrow> step_fits st fd p r"

fun steps_print :: "struct \<Rightarrow> struct \<Rightarrow> print_step list \<Rightarrow> (string \<times> read_step) list \<Rightarrow> bool" where
  "steps_print st [] [] [] \<longleftrightarrow> True"
| "steps_print st ((f, F_ignored) # ds) ps rs \<longleftrightarrow> steps_print st ds ps rs"
| "steps_print st (d # ds) (p # ps) ((k, r) # rs) \<longleftrightarrow>
     step_key p = k \<and> step_prints st d p r \<and> steps_print st ds ps rs"
| "steps_print st _ _ _ \<longleftrightarrow> False"

lemma fits_step_prints: "step_fits st fd p r \<Longrightarrow> step_prints st fd p r"
  by (cases fd; cases p) auto

lemma number_step_prints: "number_printed fd p \<Longrightarrow> step_prints st fd p r"
  by (cases fd; cases p) auto

lemma steps_fit_prints: "steps_fit ex st ds ps rs \<Longrightarrow> steps_print st ds ps rs"
  by (induction ex st ds ps rs rule: steps_fit.induct)
    (auto intro: fits_step_prints number_step_prints split: if_splits)

text \<open>Texts that need no escaping; a key must also differ from the name of the type.\<close>

fun plain_char :: "char \<Rightarrow> bool" where
  "plain_char (Char b0 b1 b2 b3 b4 b5 b6 b7) \<longleftrightarrow> (b5 \<or> b6) \<and> \<not> b7 \<and>
     Char b0 b1 b2 b3 b4 b5 b6 b7 \<noteq> bslash \<and> Char b0 b1 b2 b3 b4 b5 b6 b7 \<noteq> CHR 0x22"

definition plain_text :: "string \<Rightarrow> bool" where
  "plain_text s \<longleftrightarrow> list_all plain_char s"

definition plain_key :: "string \<Rightarrow> bool" where
  "plain_key k \<longleftrightarrow> k \<noteq> ''_self'' \<and> plain_text k"

lemma plain_char_ok:
  assumes "plain_char c"
  shows "c \<noteq> bslash" "c \<noteq> CHR 0x22" "32 \<le> ccode c"
proof -
  obtain b0 b1 b2 b3 b4 b5 b6 b7 where c: "c = Char b0 b1 b2 b3 b4 b5 b6 b7" by (cases c)
  show "c \<noteq> bslash" "c \<noteq> CHR 0x22" using assms by (auto simp: c)
  show "32 \<le> ccode c" using assms by (auto simp: c ccode_def of_bool_def)
qed

lemma plain_text_ok: "plain_text s \<Longrightarrow> json_string_ok s"
proof (induction s)
  case (Cons c s)
  then have "plain_char c" "json_string_ok s" by (auto simp: plain_text_def)
  then show ?case using plain_char_ok [of c] by (simp only: json_string_ok.simps if_False simp_thms)
qed simp

definition fits_json :: "string list \<Rightarrow> struct \<Rightarrow> print_class \<Rightarrow> read_class \<Rightarrow> bool" where
  "fits_json ex st p r \<longleftrightarrow> self_name p = read_self r \<and> steps_fit ex st st (print_steps p) (read_steps r) \<and>
     distinct (map fst (read_steps r))"

definition prints_json :: "struct \<Rightarrow> print_class \<Rightarrow> read_class \<Rightarrow> bool" where
  "prints_json st p r \<longleftrightarrow> self_name p = read_self r \<and> steps_print st st (print_steps p) (read_steps r) \<and>
     distinct (map fst (read_steps r))"

lemma fits_prints_json: "fits_json ex st p r \<Longrightarrow> prints_json st p r"
  by (auto simp: fits_json_def prints_json_def intro: steps_fit_prints)

lemma steps_print_cases:
  assumes "steps_print st ((f, d) # ds) ps rs"
  obtains (ignored) "d = F_ignored" "steps_print st ds ps rs"
  | (step) p ps' r rs' where "d \<noteq> F_ignored" "ps = p # ps'" "rs = (step_key p, r) # rs'" "step_prints st (f, d) p r"
    "steps_print st ds ps' rs'"
  using assms by (cases d; cases ps; cases rs; fastforce)

lemma steps_print_Nil: "steps_print st [] ps rs \<Longrightarrow> ps = [] \<and> rs = []"
  by (cases ps; cases rs; simp)

end
