(* ===== verification/JsonTables.thy ===== *)
theory JsonTables
  imports JsonFits TreeWrap
begin

text \<open>
  The JSON functions of the classes, as tables of statements: \<open>X_print_json\<close> is
  \<open>iodefv2_X_print_json\<close> of src/src/iodefv2-document-print-json.c, and \<open>X_read_json\<close> is
  \<open>iodefv2_X_read_json\<close> of src/src/iodefv2-document-read-json.c; long functions are cut into
  \<open>X_print_1\<close>, \<open>X_read_1\<close> and so on. A class is named by its id. Theories JsonPrint and JsonRead say
  what the statements do.
\<close>

section \<open>Keys and enumerations\<close>

text \<open>The names of the classes.\<close>

definition json_names :: "string list" where
  "json_names =
    [''iodefv2_telephone_t'', ''iodefv2_certificate_t'', ''iodefv2_key_t'',
    ''iodefv2_observable_reference_t'', ''iodefv2_registry_handle_t'',
    ''iodefv2_time_impact_t'', ''iodefv2_record_pattern_t'', ''iodefv2_reference_t'',
    ''iodefv2_postal_address_t'', ''iodefv2_node_role_t'', ''iodefv2_incident_id_t'',
    ''iodefv2_alternative_indicator_id_t'', ''iodefv2_confidence_t'',
    ''iodefv2_system_impact_t'', ''iodefv2_software_reference_t'',
    ''iodefv2_business_impact_t'', ''iodefv2_indicator_reference_t'', ''iodefv2_email_t'',
    ''iodefv2_intended_impact_t'', ''iodefv2_additional_data_t'', ''iodefv2_counter_t'',
    ''iodefv2_monetary_impact_t'', ''iodefv2_service_name_t'', ''iodefv2_indicator_id_t'',
    ''iodefv2_signature_data_t'', ''iodefv2_address_t'', ''iodefv2_application_header_t'',
    ''iodefv2_certificate_data_t'', ''iodefv2_threat_actor_t'', ''iodefv2_method_t'',
    ''iodefv2_alternative_id_t'', ''iodefv2_software_t'', ''iodefv2_nameservers_t'',
    ''iodefv2_windows_registry_keys_modified_t'', ''iodefv2_campaign_t'',
    ''iodefv2_assessment_t'', ''iodefv2_attack_phase_t'', ''iodefv2_contact_t'',
    ''iodefv2_related_activity_t'', ''iodefv2_domain_contacts_t'', ''iodefv2_history_item_t'',
    ''iodefv2_fuzzy_hash_t'', ''iodefv2_hash_t'', ''iodefv2_detection_pattern_t'',
    ''iodefv2_expectation_t'', ''iodefv2_domain_data_t'', ''iodefv2_hash_data_t'',
    ''iodefv2_bulk_observable_format_t'', ''iodefv2_history_t'', ''iodefv2_discovery_t'',
    ''iodefv2_bulk_observable_t'', ''iodefv2_email_data_t'', ''iodefv2_file_t'',
    ''iodefv2_node_t'', ''iodefv2_service_t'', ''iodefv2_file_data_t'', ''iodefv2_system_t'',
    ''iodefv2_record_data_t'', ''iodefv2_record_t'', ''iodefv2_flow_t'',
    ''iodefv2_event_data_t'', ''iodefv2_observable_t'', ''iodefv2_indicator_expression_t'',
    ''iodefv2_indicator_t'', ''iodefv2_indicator_data_t'', ''iodefv2_incident_t'',
    ''iodefv2_document_t'']"

lemma json_names_plain: "list_all plain_key json_names"
  by (simp add: json_names_def plain_key_def plain_text_def)

lemma enum_pairs:
  "enum_pair additional_data_restriction_to_numeric additional_data_restriction_to_string"
  "enum_pair additional_data_type_to_numeric additional_data_type_to_string"
  "enum_pair address_category_to_numeric address_category_to_string"
  "enum_pair alternative_id_restriction_to_numeric alternative_id_restriction_to_string"
  "enum_pair alternative_indicator_id_restriction_to_numeric alternative_indicator_id_restriction_to_string"
  "enum_pair assessment_occurrence_to_numeric assessment_occurrence_to_string"
  "enum_pair assessment_restriction_to_numeric assessment_restriction_to_string"
  "enum_pair bulk_observable_type_to_numeric bulk_observable_type_to_string"
  "enum_pair business_impact_severity_to_numeric business_impact_severity_to_string"
  "enum_pair business_impact_type_to_numeric business_impact_type_to_string"
  "enum_pair campaign_restriction_to_numeric campaign_restriction_to_string"
  "enum_pair certificate_data_restriction_to_numeric certificate_data_restriction_to_string"
  "enum_pair confidence_rating_to_numeric confidence_rating_to_string"
  "enum_pair contact_restriction_to_numeric contact_restriction_to_string"
  "enum_pair contact_role_to_numeric contact_role_to_string"
  "enum_pair contact_type_to_numeric contact_type_to_string"
  "enum_pair counter_duration_to_numeric counter_duration_to_string"
  "enum_pair counter_type_to_numeric counter_type_to_string"
  "enum_pair counter_unit_to_numeric counter_unit_to_string"
  "enum_pair detection_pattern_restriction_to_numeric detection_pattern_restriction_to_string"
  "enum_pair discovery_restriction_to_numeric discovery_restriction_to_string"
  "enum_pair discovery_source_to_numeric discovery_source_to_string"
  "enum_pair document_lang_to_numeric document_lang_to_string"
  "enum_pair domain_data_domain_status_to_numeric domain_data_domain_status_to_string"
  "enum_pair domain_data_system_status_to_numeric domain_data_system_status_to_string"
  "enum_pair email_type_to_numeric email_type_to_string"
  "enum_pair event_data_restriction_to_numeric event_data_restriction_to_string"
  "enum_pair expectation_action_to_numeric expectation_action_to_string"
  "enum_pair expectation_restriction_to_numeric expectation_restriction_to_string"
  "enum_pair expectation_severity_to_numeric expectation_severity_to_string"
  "enum_pair file_data_restriction_to_numeric file_data_restriction_to_string"
  "enum_pair hash_data_scope_to_numeric hash_data_scope_to_string"
  "enum_pair history_item_action_to_numeric history_item_action_to_string"
  "enum_pair history_item_restriction_to_numeric history_item_restriction_to_string"
  "enum_pair history_restriction_to_numeric history_restriction_to_string"
  "enum_pair incident_id_restriction_to_numeric incident_id_restriction_to_string"
  "enum_pair incident_lang_to_numeric incident_lang_to_string"
  "enum_pair incident_purpose_to_numeric incident_purpose_to_string"
  "enum_pair incident_restriction_to_numeric incident_restriction_to_string"
  "enum_pair incident_status_to_numeric incident_status_to_string"
  "enum_pair indicator_expression_operator_to_numeric indicator_expression_operator_to_string"
  "enum_pair indicator_restriction_to_numeric indicator_restriction_to_string"
  "enum_pair intended_impact_severity_to_numeric intended_impact_severity_to_string"
  "enum_pair intended_impact_type_to_numeric intended_impact_type_to_string"
  "enum_pair key_registryaction_to_numeric key_registryaction_to_string"
  "enum_pair method_restriction_to_numeric method_restriction_to_string"
  "enum_pair monetary_impact_severity_to_numeric monetary_impact_severity_to_string"
  "enum_pair node_role_category_to_numeric node_role_category_to_string"
  "enum_pair observable_restriction_to_numeric observable_restriction_to_string"
  "enum_pair postal_address_type_to_numeric postal_address_type_to_string"
  "enum_pair record_data_restriction_to_numeric record_data_restriction_to_string"
  "enum_pair record_pattern_offsetunit_to_numeric record_pattern_offsetunit_to_string"
  "enum_pair record_pattern_type_to_numeric record_pattern_type_to_string"
  "enum_pair record_restriction_to_numeric record_restriction_to_string"
  "enum_pair registry_handle_registry_to_numeric registry_handle_registry_to_string"
  "enum_pair related_activity_restriction_to_numeric related_activity_restriction_to_string"
  "enum_pair software_reference_dtype_to_numeric software_reference_dtype_to_string"
  "enum_pair system_category_to_numeric system_category_to_string"
  "enum_pair system_impact_completion_to_numeric system_impact_completion_to_string"
  "enum_pair system_impact_severity_to_numeric system_impact_severity_to_string"
  "enum_pair system_impact_type_to_numeric system_impact_type_to_string"
  "enum_pair system_ownership_to_numeric system_ownership_to_string"
  "enum_pair system_restriction_to_numeric system_restriction_to_string"
  "enum_pair system_spoofed_to_numeric system_spoofed_to_string"
  "enum_pair system_virtual_to_numeric system_virtual_to_string"
  "enum_pair telephone_type_to_numeric telephone_type_to_string"
  "enum_pair threat_actor_restriction_to_numeric threat_actor_restriction_to_string"
  "enum_pair time_impact_duration_to_numeric time_impact_duration_to_string"
  "enum_pair time_impact_metric_to_numeric time_impact_metric_to_string"
  "enum_pair time_impact_severity_to_numeric time_impact_severity_to_string"
  by (simp_all only: enum_pair_def enum_functions_def list.map snd_conv list.set insert_iff simp_thms)

section \<open>The classes\<close>

subsection \<open>telephone (class 3)\<close>

definition telephone_print_json :: print_class where
  "telephone_print_json = \<lparr>self_name = ''iodefv2_telephone_t'', print_steps =
     [Print_optional_enum ''type'' (getter telephone_f_type) telephone_type_to_string,
     Print_string ''ext_type'' (getter telephone_f_ext_type),
     Print_string ''telephone_number'' (getter telephone_f_telephone_number),
     Print_string ''description'' (getter telephone_f_description)]\<rparr>"

definition telephone_read_json :: read_class where
  "telephone_read_json = \<lparr>read_self = ''iodefv2_telephone_t'', read_steps =
     [(''type'', Read_enum telephone_type_to_numeric (setter telephone_f_type)),
     (''ext_type'', Read_string (maker telephone_f_ext_type)),
     (''telephone_number'', Read_string (maker telephone_f_telephone_number)),
     (''description'', Read_string (maker telephone_f_description))]\<rparr>"

lemma telephone_fits_json: "fits_json [] telephone_struct telephone_print_json telephone_read_json"
  by (simp add: fits_json_def telephone_code_defs enum_pairs
      telephone_print_json_def telephone_read_json_def)

subsection \<open>certificate (class 4)\<close>

definition certificate_print_json :: print_class where
  "certificate_print_json = \<lparr>self_name = ''iodefv2_certificate_t'', print_steps =
     [Print_string ''observable_id'' (getter certificate_f_observable_id),
     Print_data ''x509_data'' (getter certificate_f_x509_data),
     Print_string ''description'' (getter certificate_f_description)]\<rparr>"

definition certificate_read_json :: read_class where
  "certificate_read_json = \<lparr>read_self = ''iodefv2_certificate_t'', read_steps =
     [(''observable_id'', Read_string (maker certificate_f_observable_id)),
     (''x509_data'', Read_data (maker certificate_f_x509_data)),
     (''description'', Read_string (maker certificate_f_description))]\<rparr>"

lemma certificate_fits_json: "fits_json [] certificate_struct certificate_print_json certificate_read_json"
  by (simp add: fits_json_def certificate_code_defs enum_pairs
      certificate_print_json_def certificate_read_json_def)

subsection \<open>key (class 6)\<close>

definition key_print_json :: print_class where
  "key_print_json = \<lparr>self_name = ''iodefv2_key_t'', print_steps =
     [Print_optional_enum ''registryaction'' (getter key_f_registryaction) key_registryaction_to_string,
     Print_string ''ext_registryaction'' (getter key_f_ext_registryaction),
     Print_string ''observable_id'' (getter key_f_observable_id),
     Print_string ''key_name'' (getter key_f_key_name),
     Print_string ''key_value'' (getter key_f_key_value)]\<rparr>"

definition key_read_json :: read_class where
  "key_read_json = \<lparr>read_self = ''iodefv2_key_t'', read_steps =
     [(''registryaction'', Read_enum key_registryaction_to_numeric (setter key_f_registryaction)),
     (''ext_registryaction'', Read_string (maker key_f_ext_registryaction)),
     (''observable_id'', Read_string (maker key_f_observable_id)),
     (''key_name'', Read_string (maker key_f_key_name)),
     (''key_value'', Read_string (maker key_f_key_value))]\<rparr>"

lemma key_fits_json: "fits_json [] key_struct key_print_json key_read_json"
  by (simp add: fits_json_def key_code_defs enum_pairs
      key_print_json_def key_read_json_def)

subsection \<open>observable_reference (class 7)\<close>

definition observable_reference_print_json :: print_class where
  "observable_reference_print_json = \<lparr>self_name = ''iodefv2_observable_reference_t'', print_steps =
     [Print_string ''uid_ref'' (getter observable_reference_f_uid_ref)]\<rparr>"

definition observable_reference_read_json :: read_class where
  "observable_reference_read_json = \<lparr>read_self = ''iodefv2_observable_reference_t'', read_steps =
     [(''uid_ref'', Read_string (maker observable_reference_f_uid_ref))]\<rparr>"

lemma observable_reference_fits_json: "fits_json [] observable_reference_struct observable_reference_print_json observable_reference_read_json"
  by (simp add: fits_json_def observable_reference_code_defs enum_pairs
      observable_reference_print_json_def observable_reference_read_json_def)

subsection \<open>registry_handle (class 12)\<close>

definition registry_handle_print_json :: print_class where
  "registry_handle_print_json = \<lparr>self_name = ''iodefv2_registry_handle_t'', print_steps =
     [Print_enum ''registry'' (getter registry_handle_f_registry) registry_handle_registry_to_string,
     Print_string ''ext_registry'' (getter registry_handle_f_ext_registry)]\<rparr>"

definition registry_handle_read_json :: read_class where
  "registry_handle_read_json = \<lparr>read_self = ''iodefv2_registry_handle_t'', read_steps =
     [(''registry'', Read_enum registry_handle_registry_to_numeric (setter registry_handle_f_registry)),
     (''ext_registry'', Read_string (maker registry_handle_f_ext_registry))]\<rparr>"

lemma registry_handle_fits_json: "fits_json [] registry_handle_struct registry_handle_print_json registry_handle_read_json"
  by (simp add: fits_json_def registry_handle_code_defs enum_pairs
      registry_handle_print_json_def registry_handle_read_json_def)

subsection \<open>time_impact (class 16)\<close>

definition time_impact_print_json :: print_class where
  "time_impact_print_json = \<lparr>self_name = ''iodefv2_time_impact_t'', print_steps =
     [Print_string ''ext_metric'' (getter time_impact_f_ext_metric),
     Print_enum ''duration'' (getter time_impact_f_duration) time_impact_duration_to_string,
     Print_enum ''metric'' (getter time_impact_f_metric) time_impact_metric_to_string,
     Print_optional_enum ''severity'' (getter time_impact_f_severity) time_impact_severity_to_string,
     Print_string ''ext_duration'' (getter time_impact_f_ext_duration)]\<rparr>"

definition time_impact_read_json :: read_class where
  "time_impact_read_json = \<lparr>read_self = ''iodefv2_time_impact_t'', read_steps =
     [(''ext_metric'', Read_string (maker time_impact_f_ext_metric)),
     (''duration'', Read_enum time_impact_duration_to_numeric (setter time_impact_f_duration)),
     (''metric'', Read_enum time_impact_metric_to_numeric (setter time_impact_f_metric)),
     (''severity'', Read_enum time_impact_severity_to_numeric (setter time_impact_f_severity)),
     (''ext_duration'', Read_string (maker time_impact_f_ext_duration))]\<rparr>"

lemma time_impact_fits_json: "fits_json [] time_impact_struct time_impact_print_json time_impact_read_json"
  by (simp add: fits_json_def time_impact_code_defs enum_pairs
      time_impact_print_json_def time_impact_read_json_def)

subsection \<open>record_pattern (class 19)\<close>

definition record_pattern_print_json :: print_class where
  "record_pattern_print_json = \<lparr>self_name = ''iodefv2_record_pattern_t'', print_steps =
     [Print_optional_uint32 ''instance'' (getter record_pattern_f_instance),
     Print_string ''ext_type'' (getter record_pattern_f_ext_type),
     Print_optional_uint32 ''offset'' (getter record_pattern_f_offset),
     Print_optional_enum ''offsetunit'' (getter record_pattern_f_offsetunit) record_pattern_offsetunit_to_string,
     Print_string ''ext_offsetunit'' (getter record_pattern_f_ext_offsetunit),
     Print_enum ''type'' (getter record_pattern_f_type) record_pattern_type_to_string]\<rparr>"

definition record_pattern_read_json :: read_class where
  "record_pattern_read_json = \<lparr>read_self = ''iodefv2_record_pattern_t'', read_steps =
     [(''instance'', Read_uint32 (setter record_pattern_f_instance)),
     (''ext_type'', Read_string (maker record_pattern_f_ext_type)),
     (''offset'', Read_uint32 (setter record_pattern_f_offset)),
     (''offsetunit'', Read_enum record_pattern_offsetunit_to_numeric (setter record_pattern_f_offsetunit)),
     (''ext_offsetunit'', Read_string (maker record_pattern_f_ext_offsetunit)),
     (''type'', Read_enum record_pattern_type_to_numeric (setter record_pattern_f_type))]\<rparr>"

lemma record_pattern_fits_json: "fits_json [] record_pattern_struct record_pattern_print_json record_pattern_read_json"
  by (simp add: fits_json_def record_pattern_code_defs enum_pairs
      record_pattern_print_json_def record_pattern_read_json_def)

subsection \<open>reference (class 20)\<close>

definition reference_print_json :: print_class where
  "reference_print_json = \<lparr>self_name = ''iodefv2_reference_t'', print_steps =
     [Print_string ''observable_id'' (getter reference_f_observable_id),
     Print_string ''url'' (getter reference_f_url),
     Print_string ''description'' (getter reference_f_description),
     Print_string ''reference_name'' (getter reference_f_reference_name)]\<rparr>"

definition reference_read_json :: read_class where
  "reference_read_json = \<lparr>read_self = ''iodefv2_reference_t'', read_steps =
     [(''observable_id'', Read_string (maker reference_f_observable_id)),
     (''url'', Read_string (maker reference_f_url)),
     (''description'', Read_string (maker reference_f_description)),
     (''reference_name'', Read_string (maker reference_f_reference_name))]\<rparr>"

lemma reference_fits_json: "fits_json [] reference_struct reference_print_json reference_read_json"
  by (simp add: fits_json_def reference_code_defs enum_pairs
      reference_print_json_def reference_read_json_def)

subsection \<open>postal_address (class 22)\<close>

definition postal_address_print_json :: print_class where
  "postal_address_print_json = \<lparr>self_name = ''iodefv2_postal_address_t'', print_steps =
     [Print_optional_enum ''type'' (getter postal_address_f_type) postal_address_type_to_string,
     Print_string ''ext_type'' (getter postal_address_f_ext_type),
     Print_string ''p_address'' (getter postal_address_f_p_address),
     Print_string ''description'' (getter postal_address_f_description)]\<rparr>"

definition postal_address_read_json :: read_class where
  "postal_address_read_json = \<lparr>read_self = ''iodefv2_postal_address_t'', read_steps =
     [(''type'', Read_enum postal_address_type_to_numeric (setter postal_address_f_type)),
     (''ext_type'', Read_string (maker postal_address_f_ext_type)),
     (''p_address'', Read_string (maker postal_address_f_p_address)),
     (''description'', Read_string (maker postal_address_f_description))]\<rparr>"

lemma postal_address_fits_json: "fits_json [] postal_address_struct postal_address_print_json postal_address_read_json"
  by (simp add: fits_json_def postal_address_code_defs enum_pairs
      postal_address_print_json_def postal_address_read_json_def)

subsection \<open>node_role (class 24)\<close>

definition node_role_print_json :: print_class where
  "node_role_print_json = \<lparr>self_name = ''iodefv2_node_role_t'', print_steps =
     [Print_enum ''category'' (getter node_role_f_category) node_role_category_to_string,
     Print_string ''ext_category'' (getter node_role_f_ext_category),
     Print_string ''description'' (getter node_role_f_description)]\<rparr>"

definition node_role_read_json :: read_class where
  "node_role_read_json = \<lparr>read_self = ''iodefv2_node_role_t'', read_steps =
     [(''category'', Read_enum node_role_category_to_numeric (setter node_role_f_category)),
     (''ext_category'', Read_string (maker node_role_f_ext_category)),
     (''description'', Read_string (maker node_role_f_description))]\<rparr>"

lemma node_role_fits_json: "fits_json [] node_role_struct node_role_print_json node_role_read_json"
  by (simp add: fits_json_def node_role_code_defs enum_pairs
      node_role_print_json_def node_role_read_json_def)

subsection \<open>incident_id (class 26)\<close>

definition incident_id_print_json :: print_class where
  "incident_id_print_json = \<lparr>self_name = ''iodefv2_incident_id_t'', print_steps =
     [Print_string ''instance'' (getter incident_id_f_instance),
     Print_string ''ext_restriction'' (getter incident_id_f_ext_restriction),
     Print_string ''name'' (getter incident_id_f_name),
     Print_optional_enum ''restriction'' (getter incident_id_f_restriction) incident_id_restriction_to_string]\<rparr>"

definition incident_id_read_json :: read_class where
  "incident_id_read_json = \<lparr>read_self = ''iodefv2_incident_id_t'', read_steps =
     [(''instance'', Read_string (maker incident_id_f_instance)),
     (''ext_restriction'', Read_string (maker incident_id_f_ext_restriction)),
     (''name'', Read_string (maker incident_id_f_name)),
     (''restriction'', Read_enum incident_id_restriction_to_numeric (setter incident_id_f_restriction))]\<rparr>"

lemma incident_id_fits_json: "fits_json [] incident_id_struct incident_id_print_json incident_id_read_json"
  by (simp add: fits_json_def incident_id_code_defs enum_pairs
      incident_id_print_json_def incident_id_read_json_def)

subsection \<open>alternative_indicator_id (class 28)\<close>

definition alternative_indicator_id_print_json :: print_class where
  "alternative_indicator_id_print_json = \<lparr>self_name = ''iodefv2_alternative_indicator_id_t'', print_steps =
     [Print_optional_enum ''restriction'' (getter alternative_indicator_id_f_restriction) alternative_indicator_id_restriction_to_string,
     Print_string ''ext_restriction'' (getter alternative_indicator_id_f_ext_restriction),
     Print_string ''indicator_reference'' (getter alternative_indicator_id_f_indicator_reference)]\<rparr>"

definition alternative_indicator_id_read_json :: read_class where
  "alternative_indicator_id_read_json = \<lparr>read_self = ''iodefv2_alternative_indicator_id_t'', read_steps =
     [(''restriction'', Read_enum alternative_indicator_id_restriction_to_numeric (setter alternative_indicator_id_f_restriction)),
     (''ext_restriction'', Read_string (maker alternative_indicator_id_f_ext_restriction)),
     (''indicator_reference'', Read_string (maker alternative_indicator_id_f_indicator_reference))]\<rparr>"

lemma alternative_indicator_id_fits_json: "fits_json [] alternative_indicator_id_struct alternative_indicator_id_print_json alternative_indicator_id_read_json"
  by (simp add: fits_json_def alternative_indicator_id_code_defs enum_pairs
      alternative_indicator_id_print_json_def alternative_indicator_id_read_json_def)

subsection \<open>confidence (class 30)\<close>

definition confidence_print_json :: print_class where
  "confidence_print_json = \<lparr>self_name = ''iodefv2_confidence_t'', print_steps =
     [Print_enum ''rating'' (getter confidence_f_rating) confidence_rating_to_string,
     Print_string ''ext_rating'' (getter confidence_f_ext_rating)]\<rparr>"

definition confidence_read_json :: read_class where
  "confidence_read_json = \<lparr>read_self = ''iodefv2_confidence_t'', read_steps =
     [(''rating'', Read_enum confidence_rating_to_numeric (setter confidence_f_rating)),
     (''ext_rating'', Read_string (maker confidence_f_ext_rating))]\<rparr>"

lemma confidence_fits_json: "fits_json [] confidence_struct confidence_print_json confidence_read_json"
  by (simp add: fits_json_def confidence_code_defs enum_pairs
      confidence_print_json_def confidence_read_json_def)

subsection \<open>system_impact (class 34)\<close>

definition system_impact_print_json :: print_class where
  "system_impact_print_json = \<lparr>self_name = ''iodefv2_system_impact_t'', print_steps =
     [Print_optional_enum ''completion'' (getter system_impact_f_completion) system_impact_completion_to_string,
     Print_enum ''type'' (getter system_impact_f_type) system_impact_type_to_string,
     Print_optional_enum ''severity'' (getter system_impact_f_severity) system_impact_severity_to_string,
     Print_string ''ext_type'' (getter system_impact_f_ext_type),
     Print_string ''description'' (getter system_impact_f_description)]\<rparr>"

definition system_impact_read_json :: read_class where
  "system_impact_read_json = \<lparr>read_self = ''iodefv2_system_impact_t'', read_steps =
     [(''completion'', Read_enum system_impact_completion_to_numeric (setter system_impact_f_completion)),
     (''type'', Read_enum system_impact_type_to_numeric (setter system_impact_f_type)),
     (''severity'', Read_enum system_impact_severity_to_numeric (setter system_impact_f_severity)),
     (''ext_type'', Read_string (maker system_impact_f_ext_type)),
     (''description'', Read_string (maker system_impact_f_description))]\<rparr>"

lemma system_impact_fits_json: "fits_json [] system_impact_struct system_impact_print_json system_impact_read_json"
  by (simp add: fits_json_def system_impact_code_defs enum_pairs
      system_impact_print_json_def system_impact_read_json_def)

subsection \<open>software_reference (class 36)\<close>

definition software_reference_print_json :: print_class where
  "software_reference_print_json = \<lparr>self_name = ''iodefv2_software_reference_t'', print_steps =
     [Print_optional_enum ''dtype'' (getter software_reference_f_dtype) software_reference_dtype_to_string,
     Print_string ''ext_spec_name'' (getter software_reference_f_ext_spec_name),
     Print_string ''ext_dtype'' (getter software_reference_f_ext_dtype)]\<rparr>"

definition software_reference_read_json :: read_class where
  "software_reference_read_json = \<lparr>read_self = ''iodefv2_software_reference_t'', read_steps =
     [(''dtype'', Read_enum software_reference_dtype_to_numeric (setter software_reference_f_dtype)),
     (''ext_spec_name'', Read_string (maker software_reference_f_ext_spec_name)),
     (''ext_dtype'', Read_string (maker software_reference_f_ext_dtype))]\<rparr>"

lemma software_reference_fits_json: "fits_json [] software_reference_struct software_reference_print_json software_reference_read_json"
  by (simp add: fits_json_def software_reference_code_defs enum_pairs
      software_reference_print_json_def software_reference_read_json_def)

subsection \<open>business_impact (class 39)\<close>

definition business_impact_print_json :: print_class where
  "business_impact_print_json = \<lparr>self_name = ''iodefv2_business_impact_t'', print_steps =
     [Print_string ''ext_severity'' (getter business_impact_f_ext_severity),
     Print_enum ''type'' (getter business_impact_f_type) business_impact_type_to_string,
     Print_optional_enum ''severity'' (getter business_impact_f_severity) business_impact_severity_to_string,
     Print_string ''ext_type'' (getter business_impact_f_ext_type),
     Print_string ''description'' (getter business_impact_f_description)]\<rparr>"

definition business_impact_read_json :: read_class where
  "business_impact_read_json = \<lparr>read_self = ''iodefv2_business_impact_t'', read_steps =
     [(''ext_severity'', Read_string (maker business_impact_f_ext_severity)),
     (''type'', Read_enum business_impact_type_to_numeric (setter business_impact_f_type)),
     (''severity'', Read_enum business_impact_severity_to_numeric (setter business_impact_f_severity)),
     (''ext_type'', Read_string (maker business_impact_f_ext_type)),
     (''description'', Read_string (maker business_impact_f_description))]\<rparr>"

lemma business_impact_fits_json: "fits_json [] business_impact_struct business_impact_print_json business_impact_read_json"
  by (simp add: fits_json_def business_impact_code_defs enum_pairs
      business_impact_print_json_def business_impact_read_json_def)

subsection \<open>indicator_reference (class 40)\<close>

definition indicator_reference_print_json :: print_class where
  "indicator_reference_print_json = \<lparr>self_name = ''iodefv2_indicator_reference_t'', print_steps =
     [Print_string ''uid_ref'' (getter indicator_reference_f_uid_ref),
     Print_string ''version'' (getter indicator_reference_f_version),
     Print_string ''euid_ref'' (getter indicator_reference_f_euid_ref)]\<rparr>"

definition indicator_reference_read_json :: read_class where
  "indicator_reference_read_json = \<lparr>read_self = ''iodefv2_indicator_reference_t'', read_steps =
     [(''uid_ref'', Read_string (maker indicator_reference_f_uid_ref)),
     (''version'', Read_string (maker indicator_reference_f_version)),
     (''euid_ref'', Read_string (maker indicator_reference_f_euid_ref))]\<rparr>"

lemma indicator_reference_fits_json: "fits_json [] indicator_reference_struct indicator_reference_print_json indicator_reference_read_json"
  by (simp add: fits_json_def indicator_reference_code_defs enum_pairs
      indicator_reference_print_json_def indicator_reference_read_json_def)

subsection \<open>email (class 42)\<close>

definition email_print_json :: print_class where
  "email_print_json = \<lparr>self_name = ''iodefv2_email_t'', print_steps =
     [Print_optional_enum ''type'' (getter email_f_type) email_type_to_string,
     Print_string ''ext_type'' (getter email_f_ext_type),
     Print_string ''email_to'' (getter email_f_email_to),
     Print_string ''description'' (getter email_f_description)]\<rparr>"

definition email_read_json :: read_class where
  "email_read_json = \<lparr>read_self = ''iodefv2_email_t'', read_steps =
     [(''type'', Read_enum email_type_to_numeric (setter email_f_type)),
     (''ext_type'', Read_string (maker email_f_ext_type)),
     (''email_to'', Read_string (maker email_f_email_to)),
     (''description'', Read_string (maker email_f_description))]\<rparr>"

lemma email_fits_json: "fits_json [] email_struct email_print_json email_read_json"
  by (simp add: fits_json_def email_code_defs enum_pairs
      email_print_json_def email_read_json_def)

subsection \<open>intended_impact (class 45)\<close>

definition intended_impact_print_json :: print_class where
  "intended_impact_print_json = \<lparr>self_name = ''iodefv2_intended_impact_t'', print_steps =
     [Print_string ''ext_severity'' (getter intended_impact_f_ext_severity),
     Print_enum ''type'' (getter intended_impact_f_type) intended_impact_type_to_string,
     Print_optional_enum ''severity'' (getter intended_impact_f_severity) intended_impact_severity_to_string,
     Print_string ''ext_type'' (getter intended_impact_f_ext_type),
     Print_string ''description'' (getter intended_impact_f_description)]\<rparr>"

definition intended_impact_read_json :: read_class where
  "intended_impact_read_json = \<lparr>read_self = ''iodefv2_intended_impact_t'', read_steps =
     [(''ext_severity'', Read_string (maker intended_impact_f_ext_severity)),
     (''type'', Read_enum intended_impact_type_to_numeric (setter intended_impact_f_type)),
     (''severity'', Read_enum intended_impact_severity_to_numeric (setter intended_impact_f_severity)),
     (''ext_type'', Read_string (maker intended_impact_f_ext_type)),
     (''description'', Read_string (maker intended_impact_f_description))]\<rparr>"

lemma intended_impact_fits_json: "fits_json [] intended_impact_struct intended_impact_print_json intended_impact_read_json"
  by (simp add: fits_json_def intended_impact_code_defs enum_pairs
      intended_impact_print_json_def intended_impact_read_json_def)

subsection \<open>additional_data (class 48)\<close>

definition additional_data_print_1 :: "print_step list" where
  "additional_data_print_1 =
     [Print_optional_enum ''restriction'' (getter additional_data_f_restriction) additional_data_restriction_to_string,
     Print_string ''name'' (getter additional_data_f_name),
     Print_enum ''type'' (getter additional_data_f_type) additional_data_type_to_string,
     Print_string ''ext_restriction'' (getter additional_data_f_ext_restriction),
     Print_string ''formatid'' (getter additional_data_f_formatid),
     Print_string ''observable_id'' (getter additional_data_f_observable_id),
     Print_string ''meaning'' (getter additional_data_f_meaning),
     Print_string ''ext_dtype'' (getter additional_data_f_ext_dtype)]"

definition additional_data_print_2 :: "print_step list" where
  "additional_data_print_2 =
     [Print_data ''data'' (getter additional_data_f_data)]"

definition additional_data_print_json :: print_class where
  "additional_data_print_json = \<lparr>self_name = ''iodefv2_additional_data_t'', print_steps =
     additional_data_print_1 @ additional_data_print_2\<rparr>"

definition additional_data_read_1 :: "(string \<times> read_step) list" where
  "additional_data_read_1 =
     [(''restriction'', Read_enum additional_data_restriction_to_numeric (setter additional_data_f_restriction)),
     (''name'', Read_string (maker additional_data_f_name)),
     (''type'', Read_enum additional_data_type_to_numeric (setter additional_data_f_type)),
     (''ext_restriction'', Read_string (maker additional_data_f_ext_restriction)),
     (''formatid'', Read_string (maker additional_data_f_formatid)),
     (''observable_id'', Read_string (maker additional_data_f_observable_id))]"

definition additional_data_read_2 :: "(string \<times> read_step) list" where
  "additional_data_read_2 =
     [(''meaning'', Read_string (maker additional_data_f_meaning)),
     (''ext_dtype'', Read_string (maker additional_data_f_ext_dtype))]"

definition additional_data_read_3 :: "(string \<times> read_step) list" where
  "additional_data_read_3 =
     [(''data'', Read_typed_data additional_data_type_to_numeric (maker additional_data_f_data))]"

definition additional_data_read_json :: read_class where
  "additional_data_read_json = \<lparr>read_self = ''iodefv2_additional_data_t'', read_steps =
     additional_data_read_1 @ additional_data_read_2 @ additional_data_read_3\<rparr>"

lemma additional_data_fits_json: "fits_json [] additional_data_struct additional_data_print_json additional_data_read_json"
  by (simp add: fits_json_def additional_data_code_defs enum_pairs
      additional_data_print_1_def additional_data_print_2_def additional_data_print_json_def additional_data_read_1_def additional_data_read_2_def additional_data_read_3_def additional_data_read_json_def)

subsection \<open>counter (class 52)\<close>

definition counter_print_json :: print_class where
  "counter_print_json = \<lparr>self_name = ''iodefv2_counter_t'', print_steps =
     [Print_string ''meaning'' (getter counter_f_meaning),
     Print_enum ''unit'' (getter counter_f_unit) counter_unit_to_string,
     Print_string ''ext_type'' (getter counter_f_ext_type),
     Print_optional_enum ''duration'' (getter counter_f_duration) counter_duration_to_string,
     Print_string ''ext_unit'' (getter counter_f_ext_unit),
     Print_enum ''type'' (getter counter_f_type) counter_type_to_string,
     Print_string ''ext_duration'' (getter counter_f_ext_duration)]\<rparr>"

definition counter_read_1 :: "(string \<times> read_step) list" where
  "counter_read_1 =
     [(''meaning'', Read_string (maker counter_f_meaning)),
     (''unit'', Read_enum counter_unit_to_numeric (setter counter_f_unit)),
     (''ext_type'', Read_string (maker counter_f_ext_type)),
     (''duration'', Read_enum counter_duration_to_numeric (setter counter_f_duration)),
     (''ext_unit'', Read_string (maker counter_f_ext_unit)),
     (''type'', Read_enum counter_type_to_numeric (setter counter_f_type))]"

definition counter_read_2 :: "(string \<times> read_step) list" where
  "counter_read_2 =
     [(''ext_duration'', Read_string (maker counter_f_ext_duration))]"

definition counter_read_json :: read_class where
  "counter_read_json = \<lparr>read_self = ''iodefv2_counter_t'', read_steps =
     counter_read_1 @ counter_read_2\<rparr>"

lemma counter_fits_json: "fits_json [] counter_struct counter_print_json counter_read_json"
  by (simp add: fits_json_def counter_code_defs enum_pairs
      counter_print_json_def counter_read_1_def counter_read_2_def counter_read_json_def)

subsection \<open>monetary_impact (class 54)\<close>

definition monetary_impact_print_json :: print_class where
  "monetary_impact_print_json = \<lparr>self_name = ''iodefv2_monetary_impact_t'', print_steps =
     [Print_string ''currency'' (getter monetary_impact_f_currency),
     Print_optional_enum ''severity'' (getter monetary_impact_f_severity) monetary_impact_severity_to_string]\<rparr>"

definition monetary_impact_read_json :: read_class where
  "monetary_impact_read_json = \<lparr>read_self = ''iodefv2_monetary_impact_t'', read_steps =
     [(''currency'', Read_string (maker monetary_impact_f_currency)),
     (''severity'', Read_enum monetary_impact_severity_to_numeric (setter monetary_impact_f_severity))]\<rparr>"

lemma monetary_impact_fits_json: "fits_json [] monetary_impact_struct monetary_impact_print_json monetary_impact_read_json"
  by (simp add: fits_json_def monetary_impact_code_defs enum_pairs
      monetary_impact_print_json_def monetary_impact_read_json_def)

subsection \<open>service_name (class 55)\<close>

definition service_name_print_json :: print_class where
  "service_name_print_json = \<lparr>self_name = ''iodefv2_service_name_t'', print_steps =
     [Print_string ''url'' (getter service_name_f_url),
     Print_string ''iana_service'' (getter service_name_f_iana_service),
     Print_string ''description'' (getter service_name_f_description)]\<rparr>"

definition service_name_read_json :: read_class where
  "service_name_read_json = \<lparr>read_self = ''iodefv2_service_name_t'', read_steps =
     [(''url'', Read_string (maker service_name_f_url)),
     (''iana_service'', Read_string (maker service_name_f_iana_service)),
     (''description'', Read_string (maker service_name_f_description))]\<rparr>"

lemma service_name_fits_json: "fits_json [] service_name_struct service_name_print_json service_name_read_json"
  by (simp add: fits_json_def service_name_code_defs enum_pairs
      service_name_print_json_def service_name_read_json_def)

subsection \<open>indicator_id (class 56)\<close>

definition indicator_id_print_json :: print_class where
  "indicator_id_print_json = \<lparr>self_name = ''iodefv2_indicator_id_t'', print_steps =
     [Print_string ''version'' (getter indicator_id_f_version),
     Print_string ''name'' (getter indicator_id_f_name)]\<rparr>"

definition indicator_id_read_json :: read_class where
  "indicator_id_read_json = \<lparr>read_self = ''iodefv2_indicator_id_t'', read_steps =
     [(''version'', Read_string (maker indicator_id_f_version)),
     (''name'', Read_string (maker indicator_id_f_name))]\<rparr>"

lemma indicator_id_fits_json: "fits_json [] indicator_id_struct indicator_id_print_json indicator_id_read_json"
  by (simp add: fits_json_def indicator_id_code_defs enum_pairs
      indicator_id_print_json_def indicator_id_read_json_def)

subsection \<open>signature_data (class 57)\<close>

definition signature_data_print_json :: print_class where
  "signature_data_print_json = \<lparr>self_name = ''iodefv2_signature_data_t'', print_steps =
     [Print_string ''signature'' (getter signature_data_f_signature)]\<rparr>"

definition signature_data_read_json :: read_class where
  "signature_data_read_json = \<lparr>read_self = ''iodefv2_signature_data_t'', read_steps =
     [(''signature'', Read_string (maker signature_data_f_signature))]\<rparr>"

lemma signature_data_fits_json: "fits_json [] signature_data_struct signature_data_print_json signature_data_read_json"
  by (simp add: fits_json_def signature_data_code_defs enum_pairs
      signature_data_print_json_def signature_data_read_json_def)

subsection \<open>address (class 59)\<close>

definition address_print_json :: print_class where
  "address_print_json = \<lparr>self_name = ''iodefv2_address_t'', print_steps =
     [Print_enum ''category'' (getter address_f_category) address_category_to_string,
     Print_string ''vlan_name'' (getter address_f_vlan_name),
     Print_string ''ext_category'' (getter address_f_ext_category),
     Print_string ''vlan_num'' (getter address_f_vlan_num),
     Print_string ''observable_id'' (getter address_f_observable_id)]\<rparr>"

definition address_read_json :: read_class where
  "address_read_json = \<lparr>read_self = ''iodefv2_address_t'', read_steps =
     [(''category'', Read_enum address_category_to_numeric (setter address_f_category)),
     (''vlan_name'', Read_string (maker address_f_vlan_name)),
     (''ext_category'', Read_string (maker address_f_ext_category)),
     (''vlan_num'', Read_string (maker address_f_vlan_num)),
     (''observable_id'', Read_string (maker address_f_observable_id))]\<rparr>"

lemma address_fits_json: "fits_json [] address_struct address_print_json address_read_json"
  by (simp add: fits_json_def address_code_defs enum_pairs
      address_print_json_def address_read_json_def)

subsection \<open>application_header (class 60)\<close>

definition application_header_print_json :: print_class where
  "application_header_print_json = \<lparr>self_name = ''iodefv2_application_header_t'', print_steps =
     [Print_list 48 ''additional_data'' (getter application_header_f_additional_data)]\<rparr>"

definition application_header_read_json :: read_class where
  "application_header_read_json = \<lparr>read_self = ''iodefv2_application_header_t'', read_steps =
     [(''additional_data'', Read_list 48 (maker application_header_f_additional_data))]\<rparr>"

lemma application_header_fits_json: "fits_json [] application_header_struct application_header_print_json application_header_read_json"
  by (simp add: fits_json_def application_header_code_defs enum_pairs
      application_header_print_json_def application_header_read_json_def)

subsection \<open>certificate_data (class 62)\<close>

definition certificate_data_print_json :: print_class where
  "certificate_data_print_json = \<lparr>self_name = ''iodefv2_certificate_data_t'', print_steps =
     [Print_optional_enum ''restriction'' (getter certificate_data_f_restriction) certificate_data_restriction_to_string,
     Print_string ''ext_restriction'' (getter certificate_data_f_ext_restriction),
     Print_string ''observable_id'' (getter certificate_data_f_observable_id),
     Print_list 4 ''certificate'' (getter certificate_data_f_certificate)]\<rparr>"

definition certificate_data_read_json :: read_class where
  "certificate_data_read_json = \<lparr>read_self = ''iodefv2_certificate_data_t'', read_steps =
     [(''restriction'', Read_enum certificate_data_restriction_to_numeric (setter certificate_data_f_restriction)),
     (''ext_restriction'', Read_string (maker certificate_data_f_ext_restriction)),
     (''observable_id'', Read_string (maker certificate_data_f_observable_id)),
     (''certificate'', Read_list 4 (maker certificate_data_f_certificate))]\<rparr>"

lemma certificate_data_fits_json: "fits_json [] certificate_data_struct certificate_data_print_json certificate_data_read_json"
  by (simp add: fits_json_def certificate_data_code_defs enum_pairs
      certificate_data_print_json_def certificate_data_read_json_def)

subsection \<open>threat_actor (class 64)\<close>

definition threat_actor_print_json :: print_class where
  "threat_actor_print_json = \<lparr>self_name = ''iodefv2_threat_actor_t'', print_steps =
     [Print_optional_enum ''restriction'' (getter threat_actor_f_restriction) threat_actor_restriction_to_string,
     Print_string ''ext_restriction'' (getter threat_actor_f_ext_restriction),
     Print_string ''url'' (getter threat_actor_f_url),
     Print_string ''threat_actor_id'' (getter threat_actor_f_threat_actor_id),
     Print_string ''description'' (getter threat_actor_f_description),
     Print_list 48 ''additional_data'' (getter threat_actor_f_additional_data)]\<rparr>"

definition threat_actor_read_json :: read_class where
  "threat_actor_read_json = \<lparr>read_self = ''iodefv2_threat_actor_t'', read_steps =
     [(''restriction'', Read_enum threat_actor_restriction_to_numeric (setter threat_actor_f_restriction)),
     (''ext_restriction'', Read_string (maker threat_actor_f_ext_restriction)),
     (''url'', Read_string (maker threat_actor_f_url)),
     (''threat_actor_id'', Read_string (maker threat_actor_f_threat_actor_id)),
     (''description'', Read_string (maker threat_actor_f_description)),
     (''additional_data'', Read_list 48 (maker threat_actor_f_additional_data))]\<rparr>"

lemma threat_actor_fits_json: "fits_json [] threat_actor_struct threat_actor_print_json threat_actor_read_json"
  by (simp add: fits_json_def threat_actor_code_defs enum_pairs
      threat_actor_print_json_def threat_actor_read_json_def)

subsection \<open>method (class 66)\<close>

definition method_print_json :: print_class where
  "method_print_json = \<lparr>self_name = ''iodefv2_method_t'', print_steps =
     [Print_optional_enum ''restriction'' (getter method_f_restriction) method_restriction_to_string,
     Print_string ''ext_restriction'' (getter method_f_ext_restriction),
     Print_list 48 ''additional_data'' (getter method_f_additional_data),
     Print_string ''description'' (getter method_f_description),
     Print_list 20 ''reference'' (getter method_f_reference)]\<rparr>"

definition method_read_json :: read_class where
  "method_read_json = \<lparr>read_self = ''iodefv2_method_t'', read_steps =
     [(''restriction'', Read_enum method_restriction_to_numeric (setter method_f_restriction)),
     (''ext_restriction'', Read_string (maker method_f_ext_restriction)),
     (''additional_data'', Read_list 48 (maker method_f_additional_data)),
     (''description'', Read_string (maker method_f_description)),
     (''reference'', Read_list 20 (maker method_f_reference))]\<rparr>"

lemma method_fits_json: "fits_json [] method_struct method_print_json method_read_json"
  by (simp add: fits_json_def method_code_defs enum_pairs
      method_print_json_def method_read_json_def)

subsection \<open>alternative_id (class 68)\<close>

definition alternative_id_print_json :: print_class where
  "alternative_id_print_json = \<lparr>self_name = ''iodefv2_alternative_id_t'', print_steps =
     [Print_optional_enum ''restriction'' (getter alternative_id_f_restriction) alternative_id_restriction_to_string,
     Print_string ''ext_restriction'' (getter alternative_id_f_ext_restriction),
     Print_list 26 ''incident_id'' (getter alternative_id_f_incident_id)]\<rparr>"

definition alternative_id_read_json :: read_class where
  "alternative_id_read_json = \<lparr>read_self = ''iodefv2_alternative_id_t'', read_steps =
     [(''restriction'', Read_enum alternative_id_restriction_to_numeric (setter alternative_id_f_restriction)),
     (''ext_restriction'', Read_string (maker alternative_id_f_ext_restriction)),
     (''incident_id'', Read_list 26 (maker alternative_id_f_incident_id))]\<rparr>"

lemma alternative_id_fits_json: "fits_json [] alternative_id_struct alternative_id_print_json alternative_id_read_json"
  by (simp add: fits_json_def alternative_id_code_defs enum_pairs
      alternative_id_print_json_def alternative_id_read_json_def)

subsection \<open>software (class 69)\<close>

definition software_print_json :: print_class where
  "software_print_json = \<lparr>self_name = ''iodefv2_software_t'', print_steps =
     [Print_string ''url'' (getter software_f_url),
     Print_string ''description'' (getter software_f_description),
     Print_object 36 ''software_reference'' (getter software_f_software_reference)]\<rparr>"

definition software_read_json :: read_class where
  "software_read_json = \<lparr>read_self = ''iodefv2_software_t'', read_steps =
     [(''url'', Read_string (maker software_f_url)),
     (''description'', Read_string (maker software_f_description)),
     (''software_reference'', Read_object 36 (maker software_f_software_reference))]\<rparr>"

lemma software_fits_json: "fits_json [] software_struct software_print_json software_read_json"
  by (simp add: fits_json_def software_code_defs enum_pairs
      software_print_json_def software_read_json_def)

subsection \<open>nameservers (class 70)\<close>

definition nameservers_print_json :: print_class where
  "nameservers_print_json = \<lparr>self_name = ''iodefv2_nameservers_t'', print_steps =
     [Print_list 59 ''address'' (getter nameservers_f_address),
     Print_string ''server'' (getter nameservers_f_server)]\<rparr>"

definition nameservers_read_json :: read_class where
  "nameservers_read_json = \<lparr>read_self = ''iodefv2_nameservers_t'', read_steps =
     [(''address'', Read_list 59 (maker nameservers_f_address)),
     (''server'', Read_string (maker nameservers_f_server))]\<rparr>"

lemma nameservers_fits_json: "fits_json [] nameservers_struct nameservers_print_json nameservers_read_json"
  by (simp add: fits_json_def nameservers_code_defs enum_pairs
      nameservers_print_json_def nameservers_read_json_def)

subsection \<open>windows_registry_keys_modified (class 71)\<close>

definition windows_registry_keys_modified_print_json :: print_class where
  "windows_registry_keys_modified_print_json = \<lparr>self_name = ''iodefv2_windows_registry_keys_modified_t'', print_steps =
     [Print_string ''observable_id'' (getter windows_registry_keys_modified_f_observable_id),
     Print_list 6 ''key'' (getter windows_registry_keys_modified_f_key)]\<rparr>"

definition windows_registry_keys_modified_read_json :: read_class where
  "windows_registry_keys_modified_read_json = \<lparr>read_self = ''iodefv2_windows_registry_keys_modified_t'', read_steps =
     [(''observable_id'', Read_string (maker windows_registry_keys_modified_f_observable_id)),
     (''key'', Read_list 6 (maker windows_registry_keys_modified_f_key))]\<rparr>"

lemma windows_registry_keys_modified_fits_json: "fits_json [] windows_registry_keys_modified_struct windows_registry_keys_modified_print_json windows_registry_keys_modified_read_json"
  by (simp add: fits_json_def windows_registry_keys_modified_code_defs enum_pairs
      windows_registry_keys_modified_print_json_def windows_registry_keys_modified_read_json_def)

subsection \<open>campaign (class 73)\<close>

definition campaign_print_json :: print_class where
  "campaign_print_json = \<lparr>self_name = ''iodefv2_campaign_t'', print_steps =
     [Print_optional_enum ''restriction'' (getter campaign_f_restriction) campaign_restriction_to_string,
     Print_string ''ext_restriction'' (getter campaign_f_ext_restriction),
     Print_string ''url'' (getter campaign_f_url),
     Print_list 48 ''additional_data'' (getter campaign_f_additional_data),
     Print_string ''description'' (getter campaign_f_description),
     Print_string ''campaign_id'' (getter campaign_f_campaign_id)]\<rparr>"

definition campaign_read_json :: read_class where
  "campaign_read_json = \<lparr>read_self = ''iodefv2_campaign_t'', read_steps =
     [(''restriction'', Read_enum campaign_restriction_to_numeric (setter campaign_f_restriction)),
     (''ext_restriction'', Read_string (maker campaign_f_ext_restriction)),
     (''url'', Read_string (maker campaign_f_url)),
     (''additional_data'', Read_list 48 (maker campaign_f_additional_data)),
     (''description'', Read_string (maker campaign_f_description)),
     (''campaign_id'', Read_string (maker campaign_f_campaign_id))]\<rparr>"

lemma campaign_fits_json: "fits_json [] campaign_struct campaign_print_json campaign_read_json"
  by (simp add: fits_json_def campaign_code_defs enum_pairs
      campaign_print_json_def campaign_read_json_def)

subsection \<open>assessment (class 76)\<close>

definition assessment_print_1 :: "print_step list" where
  "assessment_print_1 =
     [Print_optional_enum ''restriction'' (getter assessment_f_restriction) assessment_restriction_to_string,
     Print_string ''ext_restriction'' (getter assessment_f_ext_restriction),
     Print_optional_enum ''occurrence'' (getter assessment_f_occurrence) assessment_occurrence_to_string,
     Print_string ''observable_id'' (getter assessment_f_observable_id),
     Print_list 45 ''intended_impact'' (getter assessment_f_intended_impact),
     Print_object 30 ''confidence'' (getter assessment_f_confidence),
     Print_list 16 ''time_impact'' (getter assessment_f_time_impact),
     Print_list 48 ''additional_data'' (getter assessment_f_additional_data),
     Print_list 54 ''monetary_impact'' (getter assessment_f_monetary_impact),
     Print_list 52 ''counter'' (getter assessment_f_counter),
     Print_list 34 ''system_impact'' (getter assessment_f_system_impact)]"

definition assessment_print_2 :: "print_step list" where
  "assessment_print_2 =
     [Print_list 39 ''business_impact'' (getter assessment_f_business_impact)]"

definition assessment_print_3 :: "print_step list" where
  "assessment_print_3 =
     [Print_string ''incident_category'' (getter assessment_f_incident_category),
     Print_string ''mitigating_factor'' (getter assessment_f_mitigating_factor),
     Print_string ''cause'' (getter assessment_f_cause)]"

definition assessment_print_json :: print_class where
  "assessment_print_json = \<lparr>self_name = ''iodefv2_assessment_t'', print_steps =
     assessment_print_1 @ assessment_print_2 @ assessment_print_3\<rparr>"

definition assessment_read_1 :: "(string \<times> read_step) list" where
  "assessment_read_1 =
     [(''restriction'', Read_enum assessment_restriction_to_numeric (setter assessment_f_restriction)),
     (''ext_restriction'', Read_string (maker assessment_f_ext_restriction)),
     (''occurrence'', Read_enum assessment_occurrence_to_numeric (setter assessment_f_occurrence)),
     (''observable_id'', Read_string (maker assessment_f_observable_id)),
     (''intended_impact'', Read_list 45 (maker assessment_f_intended_impact)),
     (''confidence'', Read_object 30 (maker assessment_f_confidence))]"

definition assessment_read_2 :: "(string \<times> read_step) list" where
  "assessment_read_2 =
     [(''time_impact'', Read_list 16 (maker assessment_f_time_impact)),
     (''additional_data'', Read_list 48 (maker assessment_f_additional_data)),
     (''monetary_impact'', Read_list 54 (maker assessment_f_monetary_impact)),
     (''counter'', Read_list 52 (maker assessment_f_counter)),
     (''system_impact'', Read_list 34 (maker assessment_f_system_impact))]"

definition assessment_read_3 :: "(string \<times> read_step) list" where
  "assessment_read_3 =
     [(''business_impact'', Read_list 39 (maker assessment_f_business_impact)),
     (''incident_category'', Read_string (maker assessment_f_incident_category)),
     (''mitigating_factor'', Read_string (maker assessment_f_mitigating_factor)),
     (''cause'', Read_string (maker assessment_f_cause))]"

definition assessment_read_json :: read_class where
  "assessment_read_json = \<lparr>read_self = ''iodefv2_assessment_t'', read_steps =
     assessment_read_1 @ assessment_read_2 @ assessment_read_3\<rparr>"

lemma assessment_fits_json: "fits_json [] assessment_struct assessment_print_json assessment_read_json"
  by (simp add: fits_json_def assessment_code_defs enum_pairs
      assessment_print_1_def assessment_print_2_def assessment_print_3_def assessment_print_json_def assessment_read_1_def assessment_read_2_def assessment_read_3_def assessment_read_json_def)

subsection \<open>attack_phase (class 77)\<close>

definition attack_phase_print_json :: print_class where
  "attack_phase_print_json = \<lparr>self_name = ''iodefv2_attack_phase_t'', print_steps =
     [Print_string ''url'' (getter attack_phase_f_url),
     Print_list 48 ''additional_data'' (getter attack_phase_f_additional_data),
     Print_string ''description'' (getter attack_phase_f_description),
     Print_string ''attack_phase_id'' (getter attack_phase_f_attack_phase_id)]\<rparr>"

definition attack_phase_read_json :: read_class where
  "attack_phase_read_json = \<lparr>read_self = ''iodefv2_attack_phase_t'', read_steps =
     [(''url'', Read_string (maker attack_phase_f_url)),
     (''additional_data'', Read_list 48 (maker attack_phase_f_additional_data)),
     (''description'', Read_string (maker attack_phase_f_description)),
     (''attack_phase_id'', Read_string (maker attack_phase_f_attack_phase_id))]\<rparr>"

lemma attack_phase_fits_json: "fits_json [] attack_phase_struct attack_phase_print_json attack_phase_read_json"
  by (simp add: fits_json_def attack_phase_code_defs enum_pairs
      attack_phase_print_json_def attack_phase_read_json_def)

subsection \<open>contact (class 81)\<close>

definition contact_print_1 :: "print_step list" where
  "contact_print_1 =
     [Print_optional_enum ''restriction'' (getter contact_f_restriction) contact_restriction_to_string,
     Print_enum ''role'' (getter contact_f_role) contact_role_to_string,
     Print_string ''ext_type'' (getter contact_f_ext_type),
     Print_string ''ext_role'' (getter contact_f_ext_role),
     Print_string ''ext_restriction'' (getter contact_f_ext_restriction),
     Print_enum ''type'' (getter contact_f_type) contact_type_to_string,
     Print_list 48 ''additional_data'' (getter contact_f_additional_data)]"

definition contact_print_2 :: "print_step list" where
  "contact_print_2 =
     [Print_string ''contact_title'' (getter contact_f_contact_title),
     Print_string ''description'' (getter contact_f_description),
     Print_list 3 ''telephone'' (getter contact_f_telephone),
     Print_list 42 ''email'' (getter contact_f_email),
     Print_string ''contact_name'' (getter contact_f_contact_name),
     Print_string ''timezone'' (getter contact_f_timezone),
     Print_list 22 ''postal_address'' (getter contact_f_postal_address)]"

definition contact_print_3 :: "print_step list" where
  "contact_print_3 =
     [Print_list 12 ''registry_handle'' (getter contact_f_registry_handle)]"

definition contact_print_json :: print_class where
  "contact_print_json = \<lparr>self_name = ''iodefv2_contact_t'', print_steps =
     contact_print_1 @ contact_print_2 @ contact_print_3\<rparr>"

definition contact_read_1 :: "(string \<times> read_step) list" where
  "contact_read_1 =
     [(''restriction'', Read_enum contact_restriction_to_numeric (setter contact_f_restriction)),
     (''role'', Read_enum contact_role_to_numeric (setter contact_f_role)),
     (''ext_type'', Read_string (maker contact_f_ext_type)),
     (''ext_role'', Read_string (maker contact_f_ext_role)),
     (''ext_restriction'', Read_string (maker contact_f_ext_restriction)),
     (''type'', Read_enum contact_type_to_numeric (setter contact_f_type))]"

definition contact_read_2 :: "(string \<times> read_step) list" where
  "contact_read_2 =
     [(''additional_data'', Read_list 48 (maker contact_f_additional_data)),
     (''contact_title'', Read_string (maker contact_f_contact_title)),
     (''description'', Read_string (maker contact_f_description)),
     (''telephone'', Read_list 3 (maker contact_f_telephone)),
     (''email'', Read_list 42 (maker contact_f_email)),
     (''contact_name'', Read_string (maker contact_f_contact_name))]"

definition contact_read_3 :: "(string \<times> read_step) list" where
  "contact_read_3 =
     [(''timezone'', Read_string (maker contact_f_timezone)),
     (''postal_address'', Read_list 22 (maker contact_f_postal_address)),
     (''registry_handle'', Read_list 12 (maker contact_f_registry_handle))]"

definition contact_read_json :: read_class where
  "contact_read_json = \<lparr>read_self = ''iodefv2_contact_t'', read_steps =
     contact_read_1 @ contact_read_2 @ contact_read_3\<rparr>"

lemma contact_fits_json: "fits_json [] contact_struct contact_print_json contact_read_json"
  by (simp add: fits_json_def contact_code_defs enum_pairs
      contact_print_1_def contact_print_2_def contact_print_3_def contact_print_json_def contact_read_1_def contact_read_2_def contact_read_3_def contact_read_json_def)

subsection \<open>related_activity (class 83)\<close>

definition related_activity_print_1 :: "print_step list" where
  "related_activity_print_1 =
     [Print_optional_enum ''restriction'' (getter related_activity_f_restriction) related_activity_restriction_to_string,
     Print_string ''ext_restriction'' (getter related_activity_f_ext_restriction),
     Print_list 48 ''additional_data'' (getter related_activity_f_additional_data),
     Print_object 30 ''confidence'' (getter related_activity_f_confidence),
     Print_string ''description'' (getter related_activity_f_description),
     Print_list 73 ''campaign'' (getter related_activity_f_campaign),
     Print_string ''url'' (getter related_activity_f_url),
     Print_list 64 ''threat_actor'' (getter related_activity_f_threat_actor),
     Print_list 56 ''indicator_id'' (getter related_activity_f_indicator_id)]"

definition related_activity_print_2 :: "print_step list" where
  "related_activity_print_2 =
     [Print_list 26 ''incident_id'' (getter related_activity_f_incident_id)]"

definition related_activity_print_json :: print_class where
  "related_activity_print_json = \<lparr>self_name = ''iodefv2_related_activity_t'', print_steps =
     related_activity_print_1 @ related_activity_print_2\<rparr>"

definition related_activity_read_1 :: "(string \<times> read_step) list" where
  "related_activity_read_1 =
     [(''restriction'', Read_enum related_activity_restriction_to_numeric (setter related_activity_f_restriction)),
     (''ext_restriction'', Read_string (maker related_activity_f_ext_restriction)),
     (''additional_data'', Read_list 48 (maker related_activity_f_additional_data)),
     (''confidence'', Read_object 30 (maker related_activity_f_confidence)),
     (''description'', Read_string (maker related_activity_f_description))]"

definition related_activity_read_2 :: "(string \<times> read_step) list" where
  "related_activity_read_2 =
     [(''campaign'', Read_list 73 (maker related_activity_f_campaign)),
     (''url'', Read_string (maker related_activity_f_url)),
     (''threat_actor'', Read_list 64 (maker related_activity_f_threat_actor)),
     (''indicator_id'', Read_list 56 (maker related_activity_f_indicator_id)),
     (''incident_id'', Read_list 26 (maker related_activity_f_incident_id))]"

definition related_activity_read_json :: read_class where
  "related_activity_read_json = \<lparr>read_self = ''iodefv2_related_activity_t'', read_steps =
     related_activity_read_1 @ related_activity_read_2\<rparr>"

lemma related_activity_fits_json: "fits_json [] related_activity_struct related_activity_print_json related_activity_read_json"
  by (simp add: fits_json_def related_activity_code_defs enum_pairs
      related_activity_print_1_def related_activity_print_2_def related_activity_print_json_def related_activity_read_1_def related_activity_read_2_def related_activity_read_json_def)

subsection \<open>domain_contacts (class 84)\<close>

definition domain_contacts_print_json :: print_class where
  "domain_contacts_print_json = \<lparr>self_name = ''iodefv2_domain_contacts_t'', print_steps =
     [Print_list 81 ''contact'' (getter domain_contacts_f_contact),
     Print_string ''same_domain_contact'' (getter domain_contacts_f_same_domain_contact)]\<rparr>"

definition domain_contacts_read_json :: read_class where
  "domain_contacts_read_json = \<lparr>read_self = ''iodefv2_domain_contacts_t'', read_steps =
     [(''contact'', Read_list 81 (maker domain_contacts_f_contact)),
     (''same_domain_contact'', Read_string (maker domain_contacts_f_same_domain_contact))]\<rparr>"

lemma domain_contacts_fits_json: "fits_json [] domain_contacts_struct domain_contacts_print_json domain_contacts_read_json"
  by (simp add: fits_json_def domain_contacts_code_defs enum_pairs
      domain_contacts_print_json_def domain_contacts_read_json_def)

subsection \<open>history_item (class 87)\<close>

definition history_item_print_1 :: "print_step list" where
  "history_item_print_1 =
     [Print_enum ''action'' (getter history_item_f_action) history_item_action_to_string,
     Print_optional_enum ''restriction'' (getter history_item_f_restriction) history_item_restriction_to_string,
     Print_string ''ext_action'' (getter history_item_f_ext_action),
     Print_string ''ext_restriction'' (getter history_item_f_ext_restriction),
     Print_string ''observable_id'' (getter history_item_f_observable_id),
     Print_list 48 ''additional_data'' (getter history_item_f_additional_data),
     Print_object 81 ''contact'' (getter history_item_f_contact)]"

definition history_item_print_2 :: "print_step list" where
  "history_item_print_2 =
     [Print_string ''defined_coa'' (getter history_item_f_defined_coa),
     Print_string ''description'' (getter history_item_f_description),
     Print_object 26 ''incident_id'' (getter history_item_f_incident_id),
     Print_time ''date_time'' (getter history_item_f_date_time)]"

definition history_item_print_json :: print_class where
  "history_item_print_json = \<lparr>self_name = ''iodefv2_history_item_t'', print_steps =
     history_item_print_1 @ history_item_print_2\<rparr>"

definition history_item_read_1 :: "(string \<times> read_step) list" where
  "history_item_read_1 =
     [(''action'', Read_enum history_item_action_to_numeric (setter history_item_f_action)),
     (''restriction'', Read_enum history_item_restriction_to_numeric (setter history_item_f_restriction)),
     (''ext_action'', Read_string (maker history_item_f_ext_action)),
     (''ext_restriction'', Read_string (maker history_item_f_ext_restriction)),
     (''observable_id'', Read_string (maker history_item_f_observable_id)),
     (''additional_data'', Read_list 48 (maker history_item_f_additional_data))]"

definition history_item_read_2 :: "(string \<times> read_step) list" where
  "history_item_read_2 =
     [(''contact'', Read_object 81 (maker history_item_f_contact)),
     (''defined_coa'', Read_string (maker history_item_f_defined_coa)),
     (''description'', Read_string (maker history_item_f_description)),
     (''incident_id'', Read_object 26 (maker history_item_f_incident_id)),
     (''date_time'', Read_new_time (setter history_item_f_date_time))]"

definition history_item_read_json :: read_class where
  "history_item_read_json = \<lparr>read_self = ''iodefv2_history_item_t'', read_steps =
     history_item_read_1 @ history_item_read_2\<rparr>"

lemma history_item_fits_json: "fits_json [] history_item_struct history_item_print_json history_item_read_json"
  by (simp add: fits_json_def history_item_code_defs enum_pairs
      history_item_print_1_def history_item_print_2_def history_item_print_json_def history_item_read_1_def history_item_read_2_def history_item_read_json_def)

subsection \<open>fuzzy_hash (class 88)\<close>

definition fuzzy_hash_print_json :: print_class where
  "fuzzy_hash_print_json = \<lparr>self_name = ''iodefv2_fuzzy_hash_t'', print_steps =
     [Print_list 48 ''additional_data'' (getter fuzzy_hash_f_additional_data),
     Print_object 69 ''software'' (getter fuzzy_hash_f_software)]\<rparr>"

definition fuzzy_hash_read_json :: read_class where
  "fuzzy_hash_read_json = \<lparr>read_self = ''iodefv2_fuzzy_hash_t'', read_steps =
     [(''additional_data'', Read_list 48 (maker fuzzy_hash_f_additional_data)),
     (''software'', Read_object 69 (maker fuzzy_hash_f_software))]\<rparr>"

lemma fuzzy_hash_fits_json: "fits_json [] fuzzy_hash_struct fuzzy_hash_print_json fuzzy_hash_read_json"
  by (simp add: fits_json_def fuzzy_hash_code_defs enum_pairs
      fuzzy_hash_print_json_def fuzzy_hash_read_json_def)

subsection \<open>hash (class 89)\<close>

definition hash_print_json :: print_class where
  "hash_print_json = \<lparr>self_name = ''iodefv2_hash_t'', print_steps =
     [Print_string ''digest_value'' (getter hash_f_digest_value),
     Print_string ''digest_method'' (getter hash_f_digest_method),
     Print_string ''canonicalization_method'' (getter hash_f_canonicalization_method),
     Print_object 69 ''software'' (getter hash_f_software)]\<rparr>"

definition hash_read_json :: read_class where
  "hash_read_json = \<lparr>read_self = ''iodefv2_hash_t'', read_steps =
     [(''digest_value'', Read_string (maker hash_f_digest_value)),
     (''digest_method'', Read_string (maker hash_f_digest_method)),
     (''canonicalization_method'', Read_string (maker hash_f_canonicalization_method)),
     (''software'', Read_object 69 (maker hash_f_software))]\<rparr>"

lemma hash_fits_json: "fits_json [] hash_struct hash_print_json hash_read_json"
  by (simp add: fits_json_def hash_code_defs enum_pairs
      hash_print_json_def hash_read_json_def)

subsection \<open>detection_pattern (class 91)\<close>

definition detection_pattern_print_json :: print_class where
  "detection_pattern_print_json = \<lparr>self_name = ''iodefv2_detection_pattern_t'', print_steps =
     [Print_optional_enum ''restriction'' (getter detection_pattern_f_restriction) detection_pattern_restriction_to_string,
     Print_string ''ext_restriction'' (getter detection_pattern_f_ext_restriction),
     Print_string ''observable_id'' (getter detection_pattern_f_observable_id),
     Print_string ''detection_configuration'' (getter detection_pattern_f_detection_configuration),
     Print_string ''description'' (getter detection_pattern_f_description),
     Print_object 69 ''software'' (getter detection_pattern_f_software)]\<rparr>"

definition detection_pattern_read_json :: read_class where
  "detection_pattern_read_json = \<lparr>read_self = ''iodefv2_detection_pattern_t'', read_steps =
     [(''restriction'', Read_enum detection_pattern_restriction_to_numeric (setter detection_pattern_f_restriction)),
     (''ext_restriction'', Read_string (maker detection_pattern_f_ext_restriction)),
     (''observable_id'', Read_string (maker detection_pattern_f_observable_id)),
     (''detection_configuration'', Read_string (maker detection_pattern_f_detection_configuration)),
     (''description'', Read_string (maker detection_pattern_f_description)),
     (''software'', Read_object 69 (maker detection_pattern_f_software))]\<rparr>"

lemma detection_pattern_fits_json: "fits_json [] detection_pattern_struct detection_pattern_print_json detection_pattern_read_json"
  by (simp add: fits_json_def detection_pattern_code_defs enum_pairs
      detection_pattern_print_json_def detection_pattern_read_json_def)

subsection \<open>expectation (class 95)\<close>

definition expectation_print_1 :: "print_step list" where
  "expectation_print_1 =
     [Print_optional_enum ''restriction'' (getter expectation_f_restriction) expectation_restriction_to_string,
     Print_string ''ext_action'' (getter expectation_f_ext_action),
     Print_string ''ext_severity'' (getter expectation_f_ext_severity),
     Print_optional_enum ''severity'' (getter expectation_f_severity) expectation_severity_to_string,
     Print_optional_enum ''action'' (getter expectation_f_action) expectation_action_to_string,
     Print_string ''ext_restriction'' (getter expectation_f_ext_restriction),
     Print_time ''end_time'' (getter expectation_f_end_time)]"

definition expectation_print_2 :: "print_step list" where
  "expectation_print_2 =
     [Print_string ''defined_coa'' (getter expectation_f_defined_coa),
     Print_string ''description'' (getter expectation_f_description),
     Print_time ''start_time'' (getter expectation_f_start_time),
     Print_object 81 ''contact'' (getter expectation_f_contact)]"

definition expectation_print_json :: print_class where
  "expectation_print_json = \<lparr>self_name = ''iodefv2_expectation_t'', print_steps =
     expectation_print_1 @ expectation_print_2\<rparr>"

definition expectation_read_1 :: "(string \<times> read_step) list" where
  "expectation_read_1 =
     [(''restriction'', Read_enum expectation_restriction_to_numeric (setter expectation_f_restriction)),
     (''ext_action'', Read_string (maker expectation_f_ext_action)),
     (''ext_severity'', Read_string (maker expectation_f_ext_severity)),
     (''severity'', Read_enum expectation_severity_to_numeric (setter expectation_f_severity)),
     (''action'', Read_enum expectation_action_to_numeric (setter expectation_f_action)),
     (''ext_restriction'', Read_string (maker expectation_f_ext_restriction))]"

definition expectation_read_2 :: "(string \<times> read_step) list" where
  "expectation_read_2 =
     [(''end_time'', Read_new_time (setter expectation_f_end_time)),
     (''defined_coa'', Read_string (maker expectation_f_defined_coa)),
     (''description'', Read_string (maker expectation_f_description)),
     (''start_time'', Read_new_time (setter expectation_f_start_time)),
     (''contact'', Read_object 81 (maker expectation_f_contact))]"

definition expectation_read_json :: read_class where
  "expectation_read_json = \<lparr>read_self = ''iodefv2_expectation_t'', read_steps =
     expectation_read_1 @ expectation_read_2\<rparr>"

lemma expectation_fits_json: "fits_json [] expectation_struct expectation_print_json expectation_read_json"
  by (simp add: fits_json_def expectation_code_defs enum_pairs
      expectation_print_1_def expectation_print_2_def expectation_print_json_def expectation_read_1_def expectation_read_2_def expectation_read_json_def)

subsection \<open>domain_data (class 98)\<close>

definition domain_data_print_1 :: "print_step list" where
  "domain_data_print_1 =
     [Print_string ''ext_domain_status'' (getter domain_data_f_ext_domain_status),
     Print_enum ''domain_status'' (getter domain_data_f_domain_status) domain_data_domain_status_to_string,
     Print_string ''ext_system_status'' (getter domain_data_f_ext_system_status),
     Print_string ''observable_id'' (getter domain_data_f_observable_id),
     Print_enum ''system_status'' (getter domain_data_f_system_status) domain_data_system_status_to_string,
     Print_list 48 ''additional_data'' (getter domain_data_f_additional_data),
     Print_string ''name'' (getter domain_data_f_name)]"

definition domain_data_print_2 :: "print_step list" where
  "domain_data_print_2 =
     [Print_list 70 ''nameservers'' (getter domain_data_f_nameservers),
     Print_time ''registration_date'' (getter domain_data_f_registration_date),
     Print_object 84 ''domain_contacts'' (getter domain_data_f_domain_contacts),
     Print_time ''date_domain_was_checked'' (getter domain_data_f_date_domain_was_checked),
     Print_time ''expiration_date'' (getter domain_data_f_expiration_date)]"

definition domain_data_print_json :: print_class where
  "domain_data_print_json = \<lparr>self_name = ''iodefv2_domain_data_t'', print_steps =
     domain_data_print_1 @ domain_data_print_2\<rparr>"

definition domain_data_read_1 :: "(string \<times> read_step) list" where
  "domain_data_read_1 =
     [(''ext_domain_status'', Read_string (maker domain_data_f_ext_domain_status)),
     (''domain_status'', Read_enum domain_data_domain_status_to_numeric (setter domain_data_f_domain_status)),
     (''ext_system_status'', Read_string (maker domain_data_f_ext_system_status)),
     (''observable_id'', Read_string (maker domain_data_f_observable_id)),
     (''system_status'', Read_enum domain_data_system_status_to_numeric (setter domain_data_f_system_status)),
     (''additional_data'', Read_list 48 (maker domain_data_f_additional_data))]"

definition domain_data_read_2 :: "(string \<times> read_step) list" where
  "domain_data_read_2 =
     [(''name'', Read_string (maker domain_data_f_name)),
     (''nameservers'', Read_list 70 (maker domain_data_f_nameservers)),
     (''registration_date'', Read_new_time (setter domain_data_f_registration_date)),
     (''domain_contacts'', Read_object 84 (maker domain_data_f_domain_contacts)),
     (''date_domain_was_checked'', Read_new_time (setter domain_data_f_date_domain_was_checked)),
     (''expiration_date'', Read_new_time (setter domain_data_f_expiration_date))]"

definition domain_data_read_json :: read_class where
  "domain_data_read_json = \<lparr>read_self = ''iodefv2_domain_data_t'', read_steps =
     domain_data_read_1 @ domain_data_read_2\<rparr>"

lemma domain_data_fits_json: "fits_json [] domain_data_struct domain_data_print_json domain_data_read_json"
  by (simp add: fits_json_def domain_data_code_defs enum_pairs
      domain_data_print_1_def domain_data_print_2_def domain_data_print_json_def domain_data_read_1_def domain_data_read_2_def domain_data_read_json_def)

subsection \<open>hash_data (class 100)\<close>

definition hash_data_print_json :: print_class where
  "hash_data_print_json = \<lparr>self_name = ''iodefv2_hash_data_t'', print_steps =
     [Print_optional_enum ''scope'' (getter hash_data_f_scope) hash_data_scope_to_string,
     Print_string ''ext_scope'' (getter hash_data_f_ext_scope),
     Print_string ''hash_target_id'' (getter hash_data_f_hash_target_id),
     Print_object 89 ''hash'' (getter hash_data_f_hash),
     Print_object 88 ''fuzzy_hash'' (getter hash_data_f_fuzzy_hash)]\<rparr>"

definition hash_data_read_json :: read_class where
  "hash_data_read_json = \<lparr>read_self = ''iodefv2_hash_data_t'', read_steps =
     [(''scope'', Read_enum hash_data_scope_to_numeric (setter hash_data_f_scope)),
     (''ext_scope'', Read_string (maker hash_data_f_ext_scope)),
     (''hash_target_id'', Read_string (maker hash_data_f_hash_target_id)),
     (''hash'', Read_object 89 (maker hash_data_f_hash)),
     (''fuzzy_hash'', Read_object 88 (maker hash_data_f_fuzzy_hash))]\<rparr>"

lemma hash_data_fits_json: "fits_json [] hash_data_struct hash_data_print_json hash_data_read_json"
  by (simp add: fits_json_def hash_data_code_defs enum_pairs
      hash_data_print_json_def hash_data_read_json_def)

subsection \<open>bulk_observable_format (class 101)\<close>

definition bulk_observable_format_print_json :: print_class where
  "bulk_observable_format_print_json = \<lparr>self_name = ''iodefv2_bulk_observable_format_t'', print_steps =
     [Print_list 48 ''additional_data'' (getter bulk_observable_format_f_additional_data),
     Print_object 89 ''hash'' (getter bulk_observable_format_f_hash)]\<rparr>"

definition bulk_observable_format_read_json :: read_class where
  "bulk_observable_format_read_json = \<lparr>read_self = ''iodefv2_bulk_observable_format_t'', read_steps =
     [(''additional_data'', Read_list 48 (maker bulk_observable_format_f_additional_data)),
     (''hash'', Read_object 89 (maker bulk_observable_format_f_hash))]\<rparr>"

lemma bulk_observable_format_fits_json: "fits_json [] bulk_observable_format_struct bulk_observable_format_print_json bulk_observable_format_read_json"
  by (simp add: fits_json_def bulk_observable_format_code_defs enum_pairs
      bulk_observable_format_print_json_def bulk_observable_format_read_json_def)

subsection \<open>history (class 103)\<close>

definition history_print_json :: print_class where
  "history_print_json = \<lparr>self_name = ''iodefv2_history_t'', print_steps =
     [Print_optional_enum ''restriction'' (getter history_f_restriction) history_restriction_to_string,
     Print_list 87 ''history_item'' (getter history_f_history_item)]\<rparr>"

definition history_read_json :: read_class where
  "history_read_json = \<lparr>read_self = ''iodefv2_history_t'', read_steps =
     [(''restriction'', Read_enum history_restriction_to_numeric (setter history_f_restriction)),
     (''history_item'', Read_list 87 (maker history_f_history_item))]\<rparr>"

lemma history_fits_json: "fits_json [] history_struct history_print_json history_read_json"
  by (simp add: fits_json_def history_code_defs enum_pairs
      history_print_json_def history_read_json_def)

subsection \<open>discovery (class 106)\<close>

definition discovery_print_1 :: "print_step list" where
  "discovery_print_1 =
     [Print_optional_enum ''source'' (getter discovery_f_source) discovery_source_to_string,
     Print_string ''ext_restriction'' (getter discovery_f_ext_restriction),
     Print_string ''ext_source'' (getter discovery_f_ext_source),
     Print_string ''observable_id'' (getter discovery_f_observable_id),
     Print_optional_enum ''restriction'' (getter discovery_f_restriction) discovery_restriction_to_string,
     Print_list 91 ''detection_pattern'' (getter discovery_f_detection_pattern)]"

definition discovery_print_2 :: "print_step list" where
  "discovery_print_2 =
     [Print_list 81 ''contact'' (getter discovery_f_contact),
     Print_string ''description'' (getter discovery_f_description)]"

definition discovery_print_json :: print_class where
  "discovery_print_json = \<lparr>self_name = ''iodefv2_discovery_t'', print_steps =
     discovery_print_1 @ discovery_print_2\<rparr>"

definition discovery_read_1 :: "(string \<times> read_step) list" where
  "discovery_read_1 =
     [(''source'', Read_enum discovery_source_to_numeric (setter discovery_f_source)),
     (''ext_restriction'', Read_string (maker discovery_f_ext_restriction)),
     (''ext_source'', Read_string (maker discovery_f_ext_source)),
     (''observable_id'', Read_string (maker discovery_f_observable_id)),
     (''restriction'', Read_enum discovery_restriction_to_numeric (setter discovery_f_restriction)),
     (''detection_pattern'', Read_list 91 (maker discovery_f_detection_pattern))]"

definition discovery_read_2 :: "(string \<times> read_step) list" where
  "discovery_read_2 =
     [(''contact'', Read_list 81 (maker discovery_f_contact)),
     (''description'', Read_string (maker discovery_f_description))]"

definition discovery_read_json :: read_class where
  "discovery_read_json = \<lparr>read_self = ''iodefv2_discovery_t'', read_steps =
     discovery_read_1 @ discovery_read_2\<rparr>"

lemma discovery_fits_json: "fits_json [] discovery_struct discovery_print_json discovery_read_json"
  by (simp add: fits_json_def discovery_code_defs enum_pairs
      discovery_print_1_def discovery_print_2_def discovery_print_json_def discovery_read_1_def discovery_read_2_def discovery_read_json_def)

subsection \<open>bulk_observable (class 108)\<close>

definition bulk_observable_print_json :: print_class where
  "bulk_observable_print_json = \<lparr>self_name = ''iodefv2_bulk_observable_t'', print_steps =
     [Print_optional_enum ''type'' (getter bulk_observable_f_type) bulk_observable_type_to_string,
     Print_string ''ext_type'' (getter bulk_observable_f_ext_type),
     Print_string ''bulk_observable_list'' (getter bulk_observable_f_bulk_observable_list),
     Print_object 101 ''bulk_observable_format'' (getter bulk_observable_f_bulk_observable_format),
     Print_list 48 ''additional_data'' (getter bulk_observable_f_additional_data)]\<rparr>"

definition bulk_observable_read_json :: read_class where
  "bulk_observable_read_json = \<lparr>read_self = ''iodefv2_bulk_observable_t'', read_steps =
     [(''type'', Read_enum bulk_observable_type_to_numeric (setter bulk_observable_f_type)),
     (''ext_type'', Read_string (maker bulk_observable_f_ext_type)),
     (''bulk_observable_list'', Read_string (maker bulk_observable_f_bulk_observable_list)),
     (''bulk_observable_format'', Read_object 101 (maker bulk_observable_f_bulk_observable_format)),
     (''additional_data'', Read_list 48 (maker bulk_observable_f_additional_data))]\<rparr>"

lemma bulk_observable_fits_json: "fits_json [] bulk_observable_struct bulk_observable_print_json bulk_observable_read_json"
  by (simp add: fits_json_def bulk_observable_code_defs enum_pairs
      bulk_observable_print_json_def bulk_observable_read_json_def)

subsection \<open>email_data (class 109)\<close>

definition email_data_print_1 :: "print_step list" where
  "email_data_print_1 =
     [Print_string ''observable_id'' (getter email_data_f_observable_id),
     Print_list 48 ''additional_data'' (getter email_data_f_additional_data),
     Print_string ''email_headers'' (getter email_data_f_email_headers),
     Print_list 57 ''signature_data'' (getter email_data_f_signature_data),
     Print_string ''email_subject'' (getter email_data_f_email_subject),
     Print_string ''email_x_mailer'' (getter email_data_f_email_x_mailer),
     Print_list 100 ''hash_data'' (getter email_data_f_hash_data),
     Print_string ''email_from'' (getter email_data_f_email_from)]"

definition email_data_print_2 :: "print_step list" where
  "email_data_print_2 =
     [Print_object 60 ''application_header'' (getter email_data_f_application_header),
     Print_string ''email_body'' (getter email_data_f_email_body),
     Print_string ''email_message'' (getter email_data_f_email_message),
     Print_string ''email_to'' (getter email_data_f_email_to)]"

definition email_data_print_json :: print_class where
  "email_data_print_json = \<lparr>self_name = ''iodefv2_email_data_t'', print_steps =
     email_data_print_1 @ email_data_print_2\<rparr>"

definition email_data_read_1 :: "(string \<times> read_step) list" where
  "email_data_read_1 =
     [(''observable_id'', Read_string (maker email_data_f_observable_id)),
     (''additional_data'', Read_list 48 (maker email_data_f_additional_data)),
     (''email_headers'', Read_string (maker email_data_f_email_headers)),
     (''signature_data'', Read_list 57 (maker email_data_f_signature_data)),
     (''email_subject'', Read_string (maker email_data_f_email_subject))]"

definition email_data_read_2 :: "(string \<times> read_step) list" where
  "email_data_read_2 =
     [(''email_x_mailer'', Read_string (maker email_data_f_email_x_mailer)),
     (''hash_data'', Read_list 100 (maker email_data_f_hash_data)),
     (''email_from'', Read_string (maker email_data_f_email_from)),
     (''application_header'', Read_object 60 (maker email_data_f_application_header)),
     (''email_body'', Read_string (maker email_data_f_email_body)),
     (''email_message'', Read_string (maker email_data_f_email_message))]"

definition email_data_read_3 :: "(string \<times> read_step) list" where
  "email_data_read_3 =
     [(''email_to'', Read_string (maker email_data_f_email_to))]"

definition email_data_read_json :: read_class where
  "email_data_read_json = \<lparr>read_self = ''iodefv2_email_data_t'', read_steps =
     email_data_read_1 @ email_data_read_2 @ email_data_read_3\<rparr>"

lemma email_data_fits_json: "fits_json [] email_data_struct email_data_print_json email_data_read_json"
  by (simp add: fits_json_def email_data_code_defs enum_pairs
      email_data_print_1_def email_data_print_2_def email_data_print_json_def email_data_read_1_def email_data_read_2_def email_data_read_3_def email_data_read_json_def)

subsection \<open>file (class 110)\<close>

definition file_print_json :: print_class where
  "file_print_json = \<lparr>self_name = ''iodefv2_file_t'', print_steps =
     [Print_string ''observable_id'' (getter file_f_observable_id),
     Print_object 100 ''hash_data'' (getter file_f_hash_data),
     Print_list 48 ''additional_data'' (getter file_f_additional_data),
     Print_object 57 ''signature_data'' (getter file_f_signature_data),
     Print_string ''url'' (getter file_f_url),
     Print_object 69 ''software'' (getter file_f_software),
     Print_string ''file_name'' (getter file_f_file_name)]\<rparr>"

definition file_read_1 :: "(string \<times> read_step) list" where
  "file_read_1 =
     [(''observable_id'', Read_string (maker file_f_observable_id)),
     (''hash_data'', Read_object 100 (maker file_f_hash_data)),
     (''additional_data'', Read_list 48 (maker file_f_additional_data)),
     (''signature_data'', Read_object 57 (maker file_f_signature_data)),
     (''url'', Read_string (maker file_f_url)),
     (''software'', Read_object 69 (maker file_f_software))]"

definition file_read_2 :: "(string \<times> read_step) list" where
  "file_read_2 =
     [(''file_name'', Read_string (maker file_f_file_name))]"

definition file_read_json :: read_class where
  "file_read_json = \<lparr>read_self = ''iodefv2_file_t'', read_steps =
     file_read_1 @ file_read_2\<rparr>"

lemma file_fits_json: "fits_json [] file_struct file_print_json file_read_json"
  by (simp add: fits_json_def file_code_defs enum_pairs
      file_print_json_def file_read_1_def file_read_2_def file_read_json_def)

subsection \<open>node (class 111)\<close>

definition node_print_json :: print_class where
  "node_print_json = \<lparr>self_name = ''iodefv2_node_t'', print_steps =
     [Print_string ''postal_address'' (getter node_f_postal_address),
     Print_list 52 ''counter'' (getter node_f_counter),
     Print_string ''location'' (getter node_f_location),
     Print_list 98 ''domain_data'' (getter node_f_domain_data),
     Print_list 59 ''address'' (getter node_f_address)]\<rparr>"

definition node_read_json :: read_class where
  "node_read_json = \<lparr>read_self = ''iodefv2_node_t'', read_steps =
     [(''postal_address'', Read_string (maker node_f_postal_address)),
     (''counter'', Read_list 52 (maker node_f_counter)),
     (''location'', Read_string (maker node_f_location)),
     (''domain_data'', Read_list 98 (maker node_f_domain_data)),
     (''address'', Read_list 59 (maker node_f_address))]\<rparr>"

lemma node_fits_json: "fits_json [] node_struct node_print_json node_read_json"
  by (simp add: fits_json_def node_code_defs enum_pairs
      node_print_json_def node_read_json_def)

subsection \<open>service (class 112)\<close>

definition service_print_1 :: "print_step list" where
  "service_print_1 =
     [Print_uint32 ''ip_protocol'' (getter service_f_ip_protocol),
     Print_string ''observable_id'' (getter service_f_observable_id),
     Print_optional_uint32 ''proto_code'' (getter service_f_proto_code),
     Print_string ''portlist'' (getter service_f_portlist),
     Print_optional_uint32 ''proto_field'' (getter service_f_proto_field),
     Print_object 55 ''service_name'' (getter service_f_service_name),
     Print_object 60 ''application_header'' (getter service_f_application_header),
     Print_object 109 ''email_data'' (getter service_f_email_data),
     Print_optional_uint32 ''proto_type'' (getter service_f_proto_type),
     Print_optional_uint32 ''port'' (getter service_f_port)]"

definition service_print_2 :: "print_step list" where
  "service_print_2 =
     [Print_list 69 ''software'' (getter service_f_software)]"

definition service_print_json :: print_class where
  "service_print_json = \<lparr>self_name = ''iodefv2_service_t'', print_steps =
     service_print_1 @ service_print_2\<rparr>"

definition service_read_1 :: "(string \<times> read_step) list" where
  "service_read_1 =
     [(''ip_protocol'', Read_string (maker service_f_ip_protocol)),
     (''observable_id'', Read_string (maker service_f_observable_id)),
     (''proto_code'', Read_uint32 (setter service_f_proto_code)),
     (''portlist'', Read_string (maker service_f_portlist)),
     (''proto_field'', Read_uint32 (setter service_f_proto_field)),
     (''service_name'', Read_object 55 (maker service_f_service_name))]"

definition service_read_2 :: "(string \<times> read_step) list" where
  "service_read_2 =
     [(''application_header'', Read_object 60 (maker service_f_application_header)),
     (''email_data'', Read_object 109 (maker service_f_email_data)),
     (''proto_type'', Read_uint32 (setter service_f_proto_type)),
     (''port'', Read_uint32 (setter service_f_port)),
     (''software'', Read_list 69 (maker service_f_software))]"

definition service_read_json :: read_class where
  "service_read_json = \<lparr>read_self = ''iodefv2_service_t'', read_steps =
     service_read_1 @ service_read_2\<rparr>"

lemma service_fits_json: "fits_json [''ip_protocol''] service_struct service_print_json service_read_json"
  by (simp add: fits_json_def service_code_defs enum_pairs
      service_print_1_def service_print_2_def service_print_json_def service_read_1_def service_read_2_def service_read_json_def)

subsection \<open>file_data (class 114)\<close>

definition file_data_print_json :: print_class where
  "file_data_print_json = \<lparr>self_name = ''iodefv2_file_data_t'', print_steps =
     [Print_optional_enum ''restriction'' (getter file_data_f_restriction) file_data_restriction_to_string,
     Print_string ''ext_restriction'' (getter file_data_f_ext_restriction),
     Print_string ''observable_id'' (getter file_data_f_observable_id),
     Print_list 110 ''file'' (getter file_data_f_file)]\<rparr>"

definition file_data_read_json :: read_class where
  "file_data_read_json = \<lparr>read_self = ''iodefv2_file_data_t'', read_steps =
     [(''restriction'', Read_enum file_data_restriction_to_numeric (setter file_data_f_restriction)),
     (''ext_restriction'', Read_string (maker file_data_f_ext_restriction)),
     (''observable_id'', Read_string (maker file_data_f_observable_id)),
     (''file'', Read_list 110 (maker file_data_f_file))]\<rparr>"

lemma file_data_fits_json: "fits_json [] file_data_struct file_data_print_json file_data_read_json"
  by (simp add: fits_json_def file_data_code_defs enum_pairs
      file_data_print_json_def file_data_read_json_def)

subsection \<open>system (class 120)\<close>

definition system_print_1 :: "print_step list" where
  "system_print_1 =
     [Print_enum ''category'' (getter system_f_category) system_category_to_string,
     Print_optional_enum ''restriction'' (getter system_f_restriction) system_restriction_to_string,
     Print_string ''ext_restriction'' (getter system_f_ext_restriction),
     Print_string ''ext_ownership'' (getter system_f_ext_ownership),
     Print_string ''ext_category'' (getter system_f_ext_category),
     Print_optional_enum ''spoofed'' (getter system_f_spoofed) system_spoofed_to_string,
     Print_optional_enum ''virtual'' (getter system_f_virtual) system_virtual_to_string]"

definition system_print_2 :: "print_step list" where
  "system_print_2 =
     [Print_string ''observable_id'' (getter system_f_observable_id),
     Print_optional_enum ''ownership'' (getter system_f_ownership) system_ownership_to_string,
     Print_string ''interface'' (getter system_f_interface),
     Print_object 111 ''node'' (getter system_f_node),
     Print_list 48 ''additional_data'' (getter system_f_additional_data),
     Print_string ''description'' (getter system_f_description),
     Print_list 112 ''service'' (getter system_f_service),
     Print_string ''asset_id'' (getter system_f_asset_id),
     Print_list 52 ''counter'' (getter system_f_counter),
     Print_list 24 ''node_role'' (getter system_f_node_role)]"

definition system_print_3 :: "print_step list" where
  "system_print_3 =
     [Print_object 69 ''software'' (getter system_f_software)]"

definition system_print_json :: print_class where
  "system_print_json = \<lparr>self_name = ''iodefv2_system_t'', print_steps =
     system_print_1 @ system_print_2 @ system_print_3\<rparr>"

definition system_read_1 :: "(string \<times> read_step) list" where
  "system_read_1 =
     [(''category'', Read_enum system_category_to_numeric (setter system_f_category)),
     (''restriction'', Read_enum system_restriction_to_numeric (setter system_f_restriction)),
     (''ext_restriction'', Read_string (maker system_f_ext_restriction)),
     (''ext_ownership'', Read_string (maker system_f_ext_ownership)),
     (''ext_category'', Read_string (maker system_f_ext_category)),
     (''spoofed'', Read_enum system_spoofed_to_numeric (setter system_f_spoofed))]"

definition system_read_2 :: "(string \<times> read_step) list" where
  "system_read_2 =
     [(''virtual'', Read_enum system_virtual_to_numeric (setter system_f_virtual)),
     (''observable_id'', Read_string (maker system_f_observable_id)),
     (''ownership'', Read_enum system_ownership_to_numeric (setter system_f_ownership)),
     (''interface'', Read_string (maker system_f_interface)),
     (''node'', Read_object 111 (maker system_f_node)),
     (''additional_data'', Read_list 48 (maker system_f_additional_data)),
     (''description'', Read_string (maker system_f_description))]"

definition system_read_3 :: "(string \<times> read_step) list" where
  "system_read_3 =
     [(''service'', Read_list 112 (maker system_f_service)),
     (''asset_id'', Read_string (maker system_f_asset_id)),
     (''counter'', Read_list 52 (maker system_f_counter)),
     (''node_role'', Read_list 24 (maker system_f_node_role)),
     (''software'', Read_object 69 (maker system_f_software))]"

definition system_read_json :: read_class where
  "system_read_json = \<lparr>read_self = ''iodefv2_system_t'', read_steps =
     system_read_1 @ system_read_2 @ system_read_3\<rparr>"

lemma system_fits_json: "fits_json [] system_struct system_print_json system_read_json"
  by (simp add: fits_json_def system_code_defs enum_pairs
      system_print_1_def system_print_2_def system_print_3_def system_print_json_def system_read_1_def system_read_2_def system_read_3_def system_read_json_def)

subsection \<open>record_data (class 122)\<close>

definition record_data_print_1 :: "print_step list" where
  "record_data_print_1 =
     [Print_optional_enum ''restriction'' (getter record_data_f_restriction) record_data_restriction_to_string,
     Print_string ''ext_restriction'' (getter record_data_f_ext_restriction),
     Print_string ''observable_id'' (getter record_data_f_observable_id),
     Print_list 48 ''additional_data'' (getter record_data_f_additional_data),
     Print_string ''description'' (getter record_data_f_description),
     Print_string ''url'' (getter record_data_f_url),
     Print_list 62 ''certificate_data'' (getter record_data_f_certificate_data)]"

definition record_data_print_2 :: "print_step list" where
  "record_data_print_2 =
     [Print_list 19 ''record_pattern'' (getter record_data_f_record_pattern),
     Print_time ''date_time'' (getter record_data_f_date_time),
     Print_list 71 ''windows_registry_keys_modified'' (getter record_data_f_windows_registry_keys_modified),
     Print_list 114 ''file_data'' (getter record_data_f_file_data),
     Print_object 69 ''software'' (getter record_data_f_software)]"

definition record_data_print_json :: print_class where
  "record_data_print_json = \<lparr>self_name = ''iodefv2_record_data_t'', print_steps =
     record_data_print_1 @ record_data_print_2\<rparr>"

definition record_data_read_1 :: "(string \<times> read_step) list" where
  "record_data_read_1 =
     [(''restriction'', Read_enum record_data_restriction_to_numeric (setter record_data_f_restriction)),
     (''ext_restriction'', Read_string (maker record_data_f_ext_restriction)),
     (''observable_id'', Read_string (maker record_data_f_observable_id)),
     (''additional_data'', Read_list 48 (maker record_data_f_additional_data)),
     (''description'', Read_string (maker record_data_f_description)),
     (''url'', Read_string (maker record_data_f_url))]"

definition record_data_read_2 :: "(string \<times> read_step) list" where
  "record_data_read_2 =
     [(''certificate_data'', Read_list 62 (maker record_data_f_certificate_data)),
     (''record_pattern'', Read_list 19 (maker record_data_f_record_pattern)),
     (''date_time'', Read_new_time (setter record_data_f_date_time)),
     (''windows_registry_keys_modified'', Read_list 71 (maker record_data_f_windows_registry_keys_modified)),
     (''file_data'', Read_list 114 (maker record_data_f_file_data))]"

definition record_data_read_3 :: "(string \<times> read_step) list" where
  "record_data_read_3 =
     [(''software'', Read_object 69 (maker record_data_f_software))]"

definition record_data_read_json :: read_class where
  "record_data_read_json = \<lparr>read_self = ''iodefv2_record_data_t'', read_steps =
     record_data_read_1 @ record_data_read_2 @ record_data_read_3\<rparr>"

lemma record_data_fits_json: "fits_json [] record_data_struct record_data_print_json record_data_read_json"
  by (simp add: fits_json_def record_data_code_defs enum_pairs
      record_data_print_1_def record_data_print_2_def record_data_print_json_def record_data_read_1_def record_data_read_2_def record_data_read_3_def record_data_read_json_def)

subsection \<open>record (class 124)\<close>

definition record_print_json :: print_class where
  "record_print_json = \<lparr>self_name = ''iodefv2_record_t'', print_steps =
     [Print_optional_enum ''restriction'' (getter record_f_restriction) record_restriction_to_string,
     Print_string ''ext_restriction'' (getter record_f_ext_restriction),
     Print_list 122 ''record_data'' (getter record_f_record_data)]\<rparr>"

definition record_read_json :: read_class where
  "record_read_json = \<lparr>read_self = ''iodefv2_record_t'', read_steps =
     [(''restriction'', Read_enum record_restriction_to_numeric (setter record_f_restriction)),
     (''ext_restriction'', Read_string (maker record_f_ext_restriction)),
     (''record_data'', Read_list 122 (maker record_f_record_data))]\<rparr>"

lemma record_fits_json: "fits_json [] record_struct record_print_json record_read_json"
  by (simp add: fits_json_def record_code_defs enum_pairs
      record_print_json_def record_read_json_def)

subsection \<open>flow (class 125)\<close>

definition flow_print_json :: print_class where
  "flow_print_json = \<lparr>self_name = ''iodefv2_flow_t'', print_steps =
     [Print_list 120 ''system'' (getter flow_f_system)]\<rparr>"

definition flow_read_json :: read_class where
  "flow_read_json = \<lparr>read_self = ''iodefv2_flow_t'', read_steps =
     [(''system'', Read_list 120 (maker flow_f_system))]\<rparr>"

lemma flow_fits_json: "fits_json [] flow_struct flow_print_json flow_read_json"
  by (simp add: fits_json_def flow_code_defs enum_pairs
      flow_print_json_def flow_read_json_def)

subsection \<open>event_data (class 127)\<close>

definition event_data_print_1 :: "print_step list" where
  "event_data_print_1 =
     [Print_optional_enum ''restriction'' (getter event_data_f_restriction) event_data_restriction_to_string,
     Print_string ''ext_restriction'' (getter event_data_f_ext_restriction),
     Print_string ''observable_id'' (getter event_data_f_observable_id),
     Print_time ''detect_time'' (getter event_data_f_detect_time),
     Print_list 48 ''additional_data'' (getter event_data_f_additional_data),
     Print_time ''report_time'' (getter event_data_f_report_time),
     Print_string ''description'' (getter event_data_f_description),
     Print_list 125 ''flow'' (getter event_data_f_flow),
     Print_list 95 ''expectation'' (getter event_data_f_expectation),
     Print_object 124 ''record'' (getter event_data_f_record)]"

definition event_data_print_2 :: "print_step list" where
  "event_data_print_2 =
     [Print_list 81 ''contact'' (getter event_data_f_contact),
     Print_time ''start_time'' (getter event_data_f_start_time),
     Print_time ''end_time'' (getter event_data_f_end_time),
     Print_object 76 ''assessment'' (getter event_data_f_assessment)]"

definition event_data_print_3 :: "print_step list" where
  "event_data_print_3 =
     [Print_list 66 ''method'' (getter event_data_f_method),
     Print_time ''recovery_time'' (getter event_data_f_recovery_time),
     Print_list 106 ''discovery'' (getter event_data_f_discovery)]"

definition event_data_print_json :: print_class where
  "event_data_print_json = \<lparr>self_name = ''iodefv2_event_data_t'', print_steps =
     event_data_print_1 @ event_data_print_2 @ event_data_print_3\<rparr>"

definition event_data_read_1 :: "(string \<times> read_step) list" where
  "event_data_read_1 =
     [(''restriction'', Read_enum event_data_restriction_to_numeric (setter event_data_f_restriction)),
     (''ext_restriction'', Read_string (maker event_data_f_ext_restriction)),
     (''observable_id'', Read_string (maker event_data_f_observable_id)),
     (''detect_time'', Read_new_time (setter event_data_f_detect_time)),
     (''additional_data'', Read_list 48 (maker event_data_f_additional_data))]"

definition event_data_read_2 :: "(string \<times> read_step) list" where
  "event_data_read_2 =
     [(''report_time'', Read_new_time (setter event_data_f_report_time)),
     (''description'', Read_string (maker event_data_f_description)),
     (''flow'', Read_list 125 (maker event_data_f_flow)),
     (''expectation'', Read_list 95 (maker event_data_f_expectation)),
     (''record'', Read_object 124 (maker event_data_f_record)),
     (''contact'', Read_list 81 (maker event_data_f_contact))]"

definition event_data_read_3 :: "(string \<times> read_step) list" where
  "event_data_read_3 =
     [(''start_time'', Read_new_time (setter event_data_f_start_time)),
     (''end_time'', Read_new_time (setter event_data_f_end_time)),
     (''assessment'', Read_object 76 (maker event_data_f_assessment)),
     (''method'', Read_list 66 (maker event_data_f_method)),
     (''recovery_time'', Read_new_time (setter event_data_f_recovery_time)),
     (''discovery'', Read_list 106 (maker event_data_f_discovery))]"

definition event_data_read_json :: read_class where
  "event_data_read_json = \<lparr>read_self = ''iodefv2_event_data_t'', read_steps =
     event_data_read_1 @ event_data_read_2 @ event_data_read_3\<rparr>"

lemma event_data_fits_json: "fits_json [] event_data_struct event_data_print_json event_data_read_json"
  by (simp add: fits_json_def event_data_code_defs enum_pairs
      event_data_print_1_def event_data_print_2_def event_data_print_3_def event_data_print_json_def event_data_read_1_def event_data_read_2_def event_data_read_3_def event_data_read_json_def)

subsection \<open>observable (class 129)\<close>

definition observable_print_1 :: "print_step list" where
  "observable_print_1 =
     [Print_optional_enum ''restriction'' (getter observable_f_restriction) observable_restriction_to_string,
     Print_string ''ext_restriction'' (getter observable_f_ext_restriction),
     Print_object 91 ''detection_pattern'' (getter observable_f_detection_pattern),
     Print_object 112 ''service'' (getter observable_f_service),
     Print_list 48 ''additional_data'' (getter observable_f_additional_data),
     Print_object 120 ''system'' (getter observable_f_system),
     Print_object 98 ''domain_data'' (getter observable_f_domain_data),
     Print_object 109 ''email_data'' (getter observable_f_email_data),
     Print_object 76 ''assessment'' (getter observable_f_assessment),
     Print_object 122 ''record_data'' (getter observable_f_record_data),
     Print_object 20 ''reference'' (getter observable_f_reference),
     Print_object 87 ''history_item'' (getter observable_f_history_item),
     Print_object 108 ''bulk_observable'' (getter observable_f_bulk_observable),
     Print_object 62 ''certificate_data'' (getter observable_f_certificate_data),
     Print_object 95 ''expectation'' (getter observable_f_expectation),
     Print_object 71 ''windows_registry_keys_modified'' (getter observable_f_windows_registry_keys_modified),
     Print_object 59 ''address'' (getter observable_f_address),
     Print_object 127 ''event_data'' (getter observable_f_event_data),
     Print_object 114 ''file_data'' (getter observable_f_file_data)]"

definition observable_print_2 :: "print_step list" where
  "observable_print_2 =
     [Print_object 12 ''registry_handle'' (getter observable_f_registry_handle)]"

definition observable_print_json :: print_class where
  "observable_print_json = \<lparr>self_name = ''iodefv2_observable_t'', print_steps =
     observable_print_1 @ observable_print_2\<rparr>"

definition observable_read_1 :: "(string \<times> read_step) list" where
  "observable_read_1 =
     [(''restriction'', Read_enum observable_restriction_to_numeric (setter observable_f_restriction)),
     (''ext_restriction'', Read_string (maker observable_f_ext_restriction)),
     (''detection_pattern'', Read_object 91 (maker observable_f_detection_pattern)),
     (''service'', Read_object 112 (maker observable_f_service)),
     (''additional_data'', Read_list 48 (maker observable_f_additional_data)),
     (''system'', Read_object 120 (maker observable_f_system))]"

definition observable_read_2 :: "(string \<times> read_step) list" where
  "observable_read_2 =
     [(''domain_data'', Read_object 98 (maker observable_f_domain_data)),
     (''email_data'', Read_object 109 (maker observable_f_email_data)),
     (''assessment'', Read_object 76 (maker observable_f_assessment)),
     (''record_data'', Read_object 122 (maker observable_f_record_data)),
     (''reference'', Read_object 20 (maker observable_f_reference)),
     (''history_item'', Read_object 87 (maker observable_f_history_item)),
     (''bulk_observable'', Read_object 108 (maker observable_f_bulk_observable))]"

definition observable_read_3 :: "(string \<times> read_step) list" where
  "observable_read_3 =
     [(''certificate_data'', Read_object 62 (maker observable_f_certificate_data)),
     (''expectation'', Read_object 95 (maker observable_f_expectation)),
     (''windows_registry_keys_modified'', Read_object 71 (maker observable_f_windows_registry_keys_modified)),
     (''address'', Read_object 59 (maker observable_f_address)),
     (''event_data'', Read_object 127 (maker observable_f_event_data)),
     (''file_data'', Read_object 114 (maker observable_f_file_data))]"

definition observable_read_4 :: "(string \<times> read_step) list" where
  "observable_read_4 =
     [(''registry_handle'', Read_object 12 (maker observable_f_registry_handle))]"

definition observable_read_json :: read_class where
  "observable_read_json = \<lparr>read_self = ''iodefv2_observable_t'', read_steps =
     observable_read_1 @ observable_read_2 @ observable_read_3 @ observable_read_4\<rparr>"

lemma observable_fits_json: "fits_json [] observable_struct observable_print_json observable_read_json"
  by (simp add: fits_json_def observable_code_defs enum_pairs
      observable_print_1_def observable_print_2_def observable_print_json_def observable_read_1_def observable_read_2_def observable_read_3_def observable_read_4_def observable_read_json_def)

subsection \<open>indicator_expression (class 131)\<close>

definition indicator_expression_print_1 :: "print_step list" where
  "indicator_expression_print_1 =
     [Print_optional_enum ''operator'' (getter indicator_expression_f_operator) indicator_expression_operator_to_string,
     Print_string ''ext_operator'' (getter indicator_expression_f_ext_operator),
     Print_list 40 ''indicator_reference'' (getter indicator_expression_f_indicator_reference),
     Print_list 129 ''observable'' (getter indicator_expression_f_observable),
     Print_object 30 ''confidence'' (getter indicator_expression_f_confidence),
     Print_list 131 ''indicator_expression'' (getter indicator_expression_f_indicator_expression)]"

definition indicator_expression_print_2 :: "print_step list" where
  "indicator_expression_print_2 =
     [Print_list 48 ''additional_data'' (getter indicator_expression_f_additional_data)]"

definition indicator_expression_print_json :: print_class where
  "indicator_expression_print_json = \<lparr>self_name = ''iodefv2_indicator_expression_t'', print_steps =
     indicator_expression_print_1 @ indicator_expression_print_2\<rparr>"

definition indicator_expression_read_1 :: "(string \<times> read_step) list" where
  "indicator_expression_read_1 =
     [(''operator'', Read_enum indicator_expression_operator_to_numeric (setter indicator_expression_f_operator)),
     (''ext_operator'', Read_string (maker indicator_expression_f_ext_operator)),
     (''indicator_reference'', Read_list 40 (maker indicator_expression_f_indicator_reference)),
     (''observable'', Read_list 129 (maker indicator_expression_f_observable)),
     (''confidence'', Read_object 30 (maker indicator_expression_f_confidence))]"

definition indicator_expression_read_2 :: "(string \<times> read_step) list" where
  "indicator_expression_read_2 =
     [(''indicator_expression'', Read_list 131 (maker indicator_expression_f_indicator_expression)),
     (''additional_data'', Read_list 48 (maker indicator_expression_f_additional_data))]"

definition indicator_expression_read_json :: read_class where
  "indicator_expression_read_json = \<lparr>read_self = ''iodefv2_indicator_expression_t'', read_steps =
     indicator_expression_read_1 @ indicator_expression_read_2\<rparr>"

lemma indicator_expression_fits_json: "fits_json [] indicator_expression_struct indicator_expression_print_json indicator_expression_read_json"
  by (simp add: fits_json_def indicator_expression_code_defs enum_pairs
      indicator_expression_print_1_def indicator_expression_print_2_def indicator_expression_print_json_def indicator_expression_read_1_def indicator_expression_read_2_def indicator_expression_read_json_def)

subsection \<open>indicator (class 133)\<close>

definition indicator_print_1 :: "print_step list" where
  "indicator_print_1 =
     [Print_optional_enum ''restriction'' (getter indicator_f_restriction) indicator_restriction_to_string,
     Print_string ''ext_restriction'' (getter indicator_f_ext_restriction),
     Print_list 28 ''alternative_indicator_id'' (getter indicator_f_alternative_indicator_id),
     Print_object 30 ''confidence'' (getter indicator_f_confidence),
     Print_list 20 ''reference'' (getter indicator_f_reference),
     Print_object 129 ''observable'' (getter indicator_f_observable),
     Print_list 48 ''additional_data'' (getter indicator_f_additional_data),
     Print_object 131 ''indicator_expression'' (getter indicator_f_indicator_expression),
     Print_list 81 ''contact'' (getter indicator_f_contact)]"

definition indicator_print_2 :: "print_step list" where
  "indicator_print_2 =
     [Print_list 24 ''node_role'' (getter indicator_f_node_role)]"

definition indicator_print_3 :: "print_step list" where
  "indicator_print_3 =
     [Print_time ''start_time'' (getter indicator_f_start_time),
     Print_object 56 ''indicator_id'' (getter indicator_f_indicator_id),
     Print_object 40 ''indicator_reference'' (getter indicator_f_indicator_reference),
     Print_object 7 ''observable_reference'' (getter indicator_f_observable_reference),
     Print_list 77 ''attack_phase'' (getter indicator_f_attack_phase),
     Print_time ''end_time'' (getter indicator_f_end_time)]"

definition indicator_print_json :: print_class where
  "indicator_print_json = \<lparr>self_name = ''iodefv2_indicator_t'', print_steps =
     indicator_print_1 @ indicator_print_2 @ indicator_print_3\<rparr>"

definition indicator_read_1 :: "(string \<times> read_step) list" where
  "indicator_read_1 =
     [(''restriction'', Read_enum indicator_restriction_to_numeric (setter indicator_f_restriction)),
     (''ext_restriction'', Read_string (maker indicator_f_ext_restriction)),
     (''alternative_indicator_id'', Read_list 28 (maker indicator_f_alternative_indicator_id)),
     (''confidence'', Read_object 30 (maker indicator_f_confidence)),
     (''reference'', Read_list 20 (maker indicator_f_reference))]"

definition indicator_read_2 :: "(string \<times> read_step) list" where
  "indicator_read_2 =
     [(''observable'', Read_object 129 (maker indicator_f_observable)),
     (''additional_data'', Read_list 48 (maker indicator_f_additional_data)),
     (''indicator_expression'', Read_object 131 (maker indicator_f_indicator_expression)),
     (''contact'', Read_list 81 (maker indicator_f_contact)),
     (''node_role'', Read_list 24 (maker indicator_f_node_role)),
     (''start_time'', Read_new_time (setter indicator_f_start_time))]"

definition indicator_read_3 :: "(string \<times> read_step) list" where
  "indicator_read_3 =
     [(''indicator_id'', Read_object 56 (maker indicator_f_indicator_id)),
     (''indicator_reference'', Read_object 40 (maker indicator_f_indicator_reference)),
     (''observable_reference'', Read_object 7 (maker indicator_f_observable_reference)),
     (''attack_phase'', Read_list 77 (maker indicator_f_attack_phase)),
     (''end_time'', Read_new_time (setter indicator_f_end_time))]"

definition indicator_read_json :: read_class where
  "indicator_read_json = \<lparr>read_self = ''iodefv2_indicator_t'', read_steps =
     indicator_read_1 @ indicator_read_2 @ indicator_read_3\<rparr>"

lemma indicator_fits_json: "fits_json [] indicator_struct indicator_print_json indicator_read_json"
  by (simp add: fits_json_def indicator_code_defs enum_pairs
      indicator_print_1_def indicator_print_2_def indicator_print_3_def indicator_print_json_def indicator_read_1_def indicator_read_2_def indicator_read_3_def indicator_read_json_def)

subsection \<open>indicator_data (class 134)\<close>

definition indicator_data_print_json :: print_class where
  "indicator_data_print_json = \<lparr>self_name = ''iodefv2_indicator_data_t'', print_steps =
     [Print_list 133 ''indicator'' (getter indicator_data_f_indicator)]\<rparr>"

definition indicator_data_read_json :: read_class where
  "indicator_data_read_json = \<lparr>read_self = ''iodefv2_indicator_data_t'', read_steps =
     [(''indicator'', Read_list 133 (maker indicator_data_f_indicator))]\<rparr>"

lemma indicator_data_fits_json: "fits_json [] indicator_data_struct indicator_data_print_json indicator_data_read_json"
  by (simp add: fits_json_def indicator_data_code_defs enum_pairs
      indicator_data_print_json_def indicator_data_read_json_def)

subsection \<open>incident (class 139)\<close>

definition incident_print_1 :: "print_step list" where
  "incident_print_1 =
     [Print_enum ''status'' (getter incident_f_status) incident_status_to_string,
     Print_optional_enum ''lang'' (getter incident_f_lang) incident_lang_to_string,
     Print_string ''ext_purpose'' (getter incident_f_ext_purpose),
     Print_enum ''purpose'' (getter incident_f_purpose) incident_purpose_to_string,
     Print_string ''ext_status'' (getter incident_f_ext_status),
     Print_optional_enum ''restriction'' (getter incident_f_restriction) incident_restriction_to_string,
     Print_string ''observable_id'' (getter incident_f_observable_id),
     Print_list 48 ''additional_data'' (getter incident_f_additional_data)]"

definition incident_print_2 :: "print_step list" where
  "incident_print_2 =
     [Print_object 103 ''history'' (getter incident_f_history),
     Print_time ''start_time'' (getter incident_f_start_time),
     Print_object 68 ''alternative_id'' (getter incident_f_alternative_id),
     Print_list 81 ''contact'' (getter incident_f_contact),
     Print_object 83 ''related_activity'' (getter incident_f_related_activity),
     Print_time ''end_time'' (getter incident_f_end_time),
     Print_time ''generation_time'' (getter incident_f_generation_time),
     Print_list 76 ''assessment'' (getter incident_f_assessment)]"

definition incident_print_3 :: "print_step list" where
  "incident_print_3 =
     [Print_list 66 ''method'' (getter incident_f_method),
     Print_time ''recovery_time'' (getter incident_f_recovery_time),
     Print_list 106 ''discovery'' (getter incident_f_discovery),
     Print_time ''detect_time'' (getter incident_f_detect_time),
     Print_time ''report_time'' (getter incident_f_report_time),
     Print_string ''description'' (getter incident_f_description),
     Print_object 134 ''indicator_data'' (getter incident_f_indicator_data),
     Print_list 127 ''event_data'' (getter incident_f_event_data)]"

definition incident_print_4 :: "print_step list" where
  "incident_print_4 =
     [Print_object 26 ''incident_id'' (getter incident_f_incident_id)]"

definition incident_print_json :: print_class where
  "incident_print_json = \<lparr>self_name = ''iodefv2_incident_t'', print_steps =
     incident_print_1 @ incident_print_2 @ incident_print_3 @ incident_print_4\<rparr>"

definition incident_read_1 :: "(string \<times> read_step) list" where
  "incident_read_1 =
     [(''status'', Read_enum incident_status_to_numeric (setter incident_f_status)),
     (''lang'', Read_enum incident_lang_to_numeric (setter incident_f_lang)),
     (''ext_purpose'', Read_string (maker incident_f_ext_purpose)),
     (''purpose'', Read_enum incident_purpose_to_numeric (setter incident_f_purpose)),
     (''ext_status'', Read_string (maker incident_f_ext_status)),
     (''restriction'', Read_enum incident_restriction_to_numeric (setter incident_f_restriction))]"

definition incident_read_2 :: "(string \<times> read_step) list" where
  "incident_read_2 =
     [(''observable_id'', Read_string (maker incident_f_observable_id)),
     (''additional_data'', Read_list 48 (maker incident_f_additional_data)),
     (''history'', Read_object 103 (maker incident_f_history)),
     (''start_time'', Read_new_time (setter incident_f_start_time)),
     (''alternative_id'', Read_object 68 (maker incident_f_alternative_id)),
     (''contact'', Read_list 81 (maker incident_f_contact))]"

definition incident_read_3 :: "(string \<times> read_step) list" where
  "incident_read_3 =
     [(''related_activity'', Read_object 83 (maker incident_f_related_activity)),
     (''end_time'', Read_new_time (setter incident_f_end_time)),
     (''generation_time'', Read_new_time (setter incident_f_generation_time)),
     (''assessment'', Read_list 76 (maker incident_f_assessment)),
     (''method'', Read_list 66 (maker incident_f_method)),
     (''recovery_time'', Read_new_time (setter incident_f_recovery_time))]"

definition incident_read_4 :: "(string \<times> read_step) list" where
  "incident_read_4 =
     [(''discovery'', Read_list 106 (maker incident_f_discovery)),
     (''detect_time'', Read_new_time (setter incident_f_detect_time)),
     (''report_time'', Read_new_time (setter incident_f_report_time)),
     (''description'', Read_string (maker incident_f_description)),
     (''indicator_data'', Read_object 134 (maker incident_f_indicator_data)),
     (''event_data'', Read_list 127 (maker incident_f_event_data))]"

definition incident_read_5 :: "(string \<times> read_step) list" where
  "incident_read_5 =
     [(''incident_id'', Read_object 26 (maker incident_f_incident_id))]"

definition incident_read_json :: read_class where
  "incident_read_json = \<lparr>read_self = ''iodefv2_incident_t'', read_steps =
     incident_read_1 @ incident_read_2 @ incident_read_3 @ incident_read_4 @ incident_read_5\<rparr>"

lemma incident_fits_json: "fits_json [] incident_struct incident_print_json incident_read_json"
  by (simp add: fits_json_def incident_code_defs enum_pairs
      incident_print_1_def incident_print_2_def incident_print_3_def incident_print_4_def incident_print_json_def incident_read_1_def incident_read_2_def incident_read_3_def incident_read_4_def incident_read_5_def incident_read_json_def)

subsection \<open>document (class 141)\<close>

definition document_print_json :: print_class where
  "document_print_json = \<lparr>self_name = ''iodefv2_document_t'', print_steps =
     [Print_enum ''lang'' (getter document_f_lang) document_lang_to_string,
     Print_string ''formatid'' (getter document_f_formatid),
     Print_string ''version'' (getter document_f_version),
     Print_string ''private_enum_name'' (getter document_f_private_enum_name),
     Print_string ''private_enum_id'' (getter document_f_private_enum_id),
     Print_list 48 ''additional_data'' (getter document_f_additional_data),
     Print_list 139 ''incident'' (getter document_f_incident)]\<rparr>"

definition document_read_1 :: "(string \<times> read_step) list" where
  "document_read_1 =
     [(''lang'', Read_enum document_lang_to_numeric (setter document_f_lang)),
     (''formatid'', Read_string (maker document_f_formatid)),
     (''version'', Read_string (maker document_f_version)),
     (''private_enum_name'', Read_string (maker document_f_private_enum_name)),
     (''private_enum_id'', Read_string (maker document_f_private_enum_id)),
     (''additional_data'', Read_list 48 (maker document_f_additional_data))]"

definition document_read_2 :: "(string \<times> read_step) list" where
  "document_read_2 =
     [(''incident'', Read_list 139 (maker document_f_incident))]"

definition document_read_json :: read_class where
  "document_read_json = \<lparr>read_self = ''iodefv2_document_t'', read_steps =
     document_read_1 @ document_read_2\<rparr>"

lemma document_fits_json: "fits_json [] document_struct document_print_json document_read_json"
  by (simp add: fits_json_def document_code_defs enum_pairs
      document_print_json_def document_read_1_def document_read_2_def document_read_json_def)

section \<open>All classes\<close>

definition print_table :: "(nat \<times> print_class) list" where
  "print_table =
     [(3, telephone_print_json), (4, certificate_print_json), (6, key_print_json),
     (7, observable_reference_print_json), (12, registry_handle_print_json),
     (16, time_impact_print_json), (19, record_pattern_print_json), (20, reference_print_json),
     (22, postal_address_print_json), (24, node_role_print_json), (26, incident_id_print_json),
     (28, alternative_indicator_id_print_json), (30, confidence_print_json),
     (34, system_impact_print_json), (36, software_reference_print_json),
     (39, business_impact_print_json), (40, indicator_reference_print_json),
     (42, email_print_json), (45, intended_impact_print_json), (48, additional_data_print_json),
     (52, counter_print_json), (54, monetary_impact_print_json), (55, service_name_print_json),
     (56, indicator_id_print_json), (57, signature_data_print_json), (59, address_print_json),
     (60, application_header_print_json), (62, certificate_data_print_json),
     (64, threat_actor_print_json), (66, method_print_json), (68, alternative_id_print_json),
     (69, software_print_json), (70, nameservers_print_json),
     (71, windows_registry_keys_modified_print_json), (73, campaign_print_json),
     (76, assessment_print_json), (77, attack_phase_print_json), (81, contact_print_json),
     (83, related_activity_print_json), (84, domain_contacts_print_json),
     (87, history_item_print_json), (88, fuzzy_hash_print_json), (89, hash_print_json),
     (91, detection_pattern_print_json), (95, expectation_print_json),
     (98, domain_data_print_json), (100, hash_data_print_json),
     (101, bulk_observable_format_print_json), (103, history_print_json),
     (106, discovery_print_json), (108, bulk_observable_print_json),
     (109, email_data_print_json), (110, file_print_json), (111, node_print_json),
     (112, service_print_json), (114, file_data_print_json), (120, system_print_json),
     (122, record_data_print_json), (124, record_print_json), (125, flow_print_json),
     (127, event_data_print_json), (129, observable_print_json),
     (131, indicator_expression_print_json), (133, indicator_print_json),
     (134, indicator_data_print_json), (139, incident_print_json), (141, document_print_json)]"

text \<open>The order is the one in which \<open>iodefv2_object_new_from_json\<close> tries the names.\<close>

definition read_table :: "(nat \<times> read_class) list" where
  "read_table =
     [(3, telephone_read_json), (4, certificate_read_json), (6, key_read_json),
     (7, observable_reference_read_json), (12, registry_handle_read_json),
     (16, time_impact_read_json), (19, record_pattern_read_json), (20, reference_read_json),
     (22, postal_address_read_json), (24, node_role_read_json), (26, incident_id_read_json),
     (28, alternative_indicator_id_read_json), (30, confidence_read_json),
     (34, system_impact_read_json), (36, software_reference_read_json),
     (39, business_impact_read_json), (40, indicator_reference_read_json),
     (42, email_read_json), (45, intended_impact_read_json), (48, additional_data_read_json),
     (52, counter_read_json), (54, monetary_impact_read_json), (55, service_name_read_json),
     (56, indicator_id_read_json), (57, signature_data_read_json), (59, address_read_json),
     (60, application_header_read_json), (62, certificate_data_read_json),
     (64, threat_actor_read_json), (66, method_read_json), (68, alternative_id_read_json),
     (69, software_read_json), (70, nameservers_read_json),
     (71, windows_registry_keys_modified_read_json), (73, campaign_read_json),
     (76, assessment_read_json), (77, attack_phase_read_json), (81, contact_read_json),
     (83, related_activity_read_json), (84, domain_contacts_read_json),
     (87, history_item_read_json), (88, fuzzy_hash_read_json), (89, hash_read_json),
     (91, detection_pattern_read_json), (95, expectation_read_json),
     (98, domain_data_read_json), (100, hash_data_read_json),
     (101, bulk_observable_format_read_json), (103, history_read_json),
     (106, discovery_read_json), (108, bulk_observable_read_json), (109, email_data_read_json),
     (110, file_read_json), (111, node_read_json), (112, service_read_json),
     (114, file_data_read_json), (120, system_read_json), (122, record_data_read_json),
     (124, record_read_json), (125, flow_read_json), (127, event_data_read_json),
     (129, observable_read_json), (131, indicator_expression_read_json),
     (133, indicator_read_json), (134, indicator_data_read_json), (139, incident_read_json),
     (141, document_read_json)]"

definition lib_print :: print_codes where
  "lib_print c = (case map_of print_table c of Some p \<Rightarrow> p | None \<Rightarrow> \<lparr>self_name = [], print_steps = []\<rparr>)"

definition lib_read :: read_codes where
  "lib_read c = (case map_of read_table c of Some r \<Rightarrow> r | None \<Rightarrow> \<lparr>read_self = [], read_steps = []\<rparr>)"

lemmas classes_fit_json =
  telephone_fits_json certificate_fits_json key_fits_json observable_reference_fits_json
  registry_handle_fits_json time_impact_fits_json record_pattern_fits_json reference_fits_json
  postal_address_fits_json node_role_fits_json incident_id_fits_json
  alternative_indicator_id_fits_json confidence_fits_json system_impact_fits_json
  software_reference_fits_json business_impact_fits_json indicator_reference_fits_json
  email_fits_json intended_impact_fits_json additional_data_fits_json counter_fits_json
  monetary_impact_fits_json service_name_fits_json indicator_id_fits_json
  signature_data_fits_json address_fits_json application_header_fits_json
  certificate_data_fits_json threat_actor_fits_json method_fits_json alternative_id_fits_json
  software_fits_json nameservers_fits_json windows_registry_keys_modified_fits_json
  campaign_fits_json assessment_fits_json attack_phase_fits_json contact_fits_json
  related_activity_fits_json domain_contacts_fits_json history_item_fits_json
  fuzzy_hash_fits_json hash_fits_json detection_pattern_fits_json expectation_fits_json
  domain_data_fits_json hash_data_fits_json bulk_observable_format_fits_json history_fits_json
  discovery_fits_json bulk_observable_fits_json email_data_fits_json file_fits_json
  node_fits_json service_fits_json file_data_fits_json system_fits_json record_data_fits_json
  record_fits_json flow_fits_json event_data_fits_json observable_fits_json
  indicator_expression_fits_json indicator_fits_json indicator_data_fits_json incident_fits_json
  document_fits_json

end
