(* ===== verification/JsonLib.thy ===== *)
theory JsonLib
  imports JsonTables ObjLib
begin

text \<open>
  The JSON functions of the library agree, class by class, with the structs and with each other.
\<close>

lemma lib_prints:
  "lib_print 3 = telephone_print_json"
  "lib_print 4 = certificate_print_json"
  "lib_print 6 = key_print_json"
  "lib_print 7 = observable_reference_print_json"
  "lib_print 12 = registry_handle_print_json"
  "lib_print 16 = time_impact_print_json"
  "lib_print 19 = record_pattern_print_json"
  "lib_print 20 = reference_print_json"
  "lib_print 22 = postal_address_print_json"
  "lib_print 24 = node_role_print_json"
  "lib_print 26 = incident_id_print_json"
  "lib_print 28 = alternative_indicator_id_print_json"
  "lib_print 30 = confidence_print_json"
  "lib_print 34 = system_impact_print_json"
  "lib_print 36 = software_reference_print_json"
  "lib_print 39 = business_impact_print_json"
  "lib_print 40 = indicator_reference_print_json"
  "lib_print 42 = email_print_json"
  "lib_print 45 = intended_impact_print_json"
  "lib_print 48 = additional_data_print_json"
  "lib_print 52 = counter_print_json"
  "lib_print 54 = monetary_impact_print_json"
  "lib_print 55 = service_name_print_json"
  "lib_print 56 = indicator_id_print_json"
  "lib_print 57 = signature_data_print_json"
  "lib_print 59 = address_print_json"
  "lib_print 60 = application_header_print_json"
  "lib_print 62 = certificate_data_print_json"
  "lib_print 64 = threat_actor_print_json"
  "lib_print 66 = method_print_json"
  "lib_print 68 = alternative_id_print_json"
  "lib_print 69 = software_print_json"
  "lib_print 70 = nameservers_print_json"
  "lib_print 71 = windows_registry_keys_modified_print_json"
  "lib_print 73 = campaign_print_json"
  "lib_print 76 = assessment_print_json"
  "lib_print 77 = attack_phase_print_json"
  "lib_print 81 = contact_print_json"
  "lib_print 83 = related_activity_print_json"
  "lib_print 84 = domain_contacts_print_json"
  "lib_print 87 = history_item_print_json"
  "lib_print 88 = fuzzy_hash_print_json"
  "lib_print 89 = hash_print_json"
  "lib_print 91 = detection_pattern_print_json"
  "lib_print 95 = expectation_print_json"
  "lib_print 98 = domain_data_print_json"
  "lib_print 100 = hash_data_print_json"
  "lib_print 101 = bulk_observable_format_print_json"
  "lib_print 103 = history_print_json"
  "lib_print 106 = discovery_print_json"
  "lib_print 108 = bulk_observable_print_json"
  "lib_print 109 = email_data_print_json"
  "lib_print 110 = file_print_json"
  "lib_print 111 = node_print_json"
  "lib_print 112 = service_print_json"
  "lib_print 114 = file_data_print_json"
  "lib_print 120 = system_print_json"
  "lib_print 122 = record_data_print_json"
  "lib_print 124 = record_print_json"
  "lib_print 125 = flow_print_json"
  "lib_print 127 = event_data_print_json"
  "lib_print 129 = observable_print_json"
  "lib_print 131 = indicator_expression_print_json"
  "lib_print 133 = indicator_print_json"
  "lib_print 134 = indicator_data_print_json"
  "lib_print 139 = incident_print_json"
  "lib_print 141 = document_print_json"
  by (simp_all add: lib_print_def print_table_def)

lemma lib_reads:
  "lib_read 3 = telephone_read_json"
  "lib_read 4 = certificate_read_json"
  "lib_read 6 = key_read_json"
  "lib_read 7 = observable_reference_read_json"
  "lib_read 12 = registry_handle_read_json"
  "lib_read 16 = time_impact_read_json"
  "lib_read 19 = record_pattern_read_json"
  "lib_read 20 = reference_read_json"
  "lib_read 22 = postal_address_read_json"
  "lib_read 24 = node_role_read_json"
  "lib_read 26 = incident_id_read_json"
  "lib_read 28 = alternative_indicator_id_read_json"
  "lib_read 30 = confidence_read_json"
  "lib_read 34 = system_impact_read_json"
  "lib_read 36 = software_reference_read_json"
  "lib_read 39 = business_impact_read_json"
  "lib_read 40 = indicator_reference_read_json"
  "lib_read 42 = email_read_json"
  "lib_read 45 = intended_impact_read_json"
  "lib_read 48 = additional_data_read_json"
  "lib_read 52 = counter_read_json"
  "lib_read 54 = monetary_impact_read_json"
  "lib_read 55 = service_name_read_json"
  "lib_read 56 = indicator_id_read_json"
  "lib_read 57 = signature_data_read_json"
  "lib_read 59 = address_read_json"
  "lib_read 60 = application_header_read_json"
  "lib_read 62 = certificate_data_read_json"
  "lib_read 64 = threat_actor_read_json"
  "lib_read 66 = method_read_json"
  "lib_read 68 = alternative_id_read_json"
  "lib_read 69 = software_read_json"
  "lib_read 70 = nameservers_read_json"
  "lib_read 71 = windows_registry_keys_modified_read_json"
  "lib_read 73 = campaign_read_json"
  "lib_read 76 = assessment_read_json"
  "lib_read 77 = attack_phase_read_json"
  "lib_read 81 = contact_read_json"
  "lib_read 83 = related_activity_read_json"
  "lib_read 84 = domain_contacts_read_json"
  "lib_read 87 = history_item_read_json"
  "lib_read 88 = fuzzy_hash_read_json"
  "lib_read 89 = hash_read_json"
  "lib_read 91 = detection_pattern_read_json"
  "lib_read 95 = expectation_read_json"
  "lib_read 98 = domain_data_read_json"
  "lib_read 100 = hash_data_read_json"
  "lib_read 101 = bulk_observable_format_read_json"
  "lib_read 103 = history_read_json"
  "lib_read 106 = discovery_read_json"
  "lib_read 108 = bulk_observable_read_json"
  "lib_read 109 = email_data_read_json"
  "lib_read 110 = file_read_json"
  "lib_read 111 = node_read_json"
  "lib_read 112 = service_read_json"
  "lib_read 114 = file_data_read_json"
  "lib_read 120 = system_read_json"
  "lib_read 122 = record_data_read_json"
  "lib_read 124 = record_read_json"
  "lib_read 125 = flow_read_json"
  "lib_read 127 = event_data_read_json"
  "lib_read 129 = observable_read_json"
  "lib_read 131 = indicator_expression_read_json"
  "lib_read 133 = indicator_read_json"
  "lib_read 134 = indicator_data_read_json"
  "lib_read 139 = incident_read_json"
  "lib_read 141 = document_read_json"
  by (simp_all add: lib_read_def read_table_def)

lemmas self_names =
  telephone_print_json_def telephone_read_json_def certificate_print_json_def
  certificate_read_json_def key_print_json_def key_read_json_def
  observable_reference_print_json_def observable_reference_read_json_def
  registry_handle_print_json_def registry_handle_read_json_def time_impact_print_json_def
  time_impact_read_json_def record_pattern_print_json_def record_pattern_read_json_def
  reference_print_json_def reference_read_json_def postal_address_print_json_def
  postal_address_read_json_def node_role_print_json_def node_role_read_json_def
  incident_id_print_json_def incident_id_read_json_def alternative_indicator_id_print_json_def
  alternative_indicator_id_read_json_def confidence_print_json_def confidence_read_json_def
  system_impact_print_json_def system_impact_read_json_def software_reference_print_json_def
  software_reference_read_json_def business_impact_print_json_def business_impact_read_json_def
  indicator_reference_print_json_def indicator_reference_read_json_def email_print_json_def
  email_read_json_def intended_impact_print_json_def intended_impact_read_json_def
  additional_data_print_json_def additional_data_read_json_def counter_print_json_def
  counter_read_json_def monetary_impact_print_json_def monetary_impact_read_json_def
  service_name_print_json_def service_name_read_json_def indicator_id_print_json_def
  indicator_id_read_json_def signature_data_print_json_def signature_data_read_json_def
  address_print_json_def address_read_json_def application_header_print_json_def
  application_header_read_json_def certificate_data_print_json_def
  certificate_data_read_json_def threat_actor_print_json_def threat_actor_read_json_def
  method_print_json_def method_read_json_def alternative_id_print_json_def
  alternative_id_read_json_def software_print_json_def software_read_json_def
  nameservers_print_json_def nameservers_read_json_def
  windows_registry_keys_modified_print_json_def windows_registry_keys_modified_read_json_def
  campaign_print_json_def campaign_read_json_def assessment_print_json_def
  assessment_read_json_def attack_phase_print_json_def attack_phase_read_json_def
  contact_print_json_def contact_read_json_def related_activity_print_json_def
  related_activity_read_json_def domain_contacts_print_json_def domain_contacts_read_json_def
  history_item_print_json_def history_item_read_json_def fuzzy_hash_print_json_def
  fuzzy_hash_read_json_def hash_print_json_def hash_read_json_def
  detection_pattern_print_json_def detection_pattern_read_json_def expectation_print_json_def
  expectation_read_json_def domain_data_print_json_def domain_data_read_json_def
  hash_data_print_json_def hash_data_read_json_def bulk_observable_format_print_json_def
  bulk_observable_format_read_json_def history_print_json_def history_read_json_def
  discovery_print_json_def discovery_read_json_def bulk_observable_print_json_def
  bulk_observable_read_json_def email_data_print_json_def email_data_read_json_def
  file_print_json_def file_read_json_def node_print_json_def node_read_json_def
  service_print_json_def service_read_json_def file_data_print_json_def file_data_read_json_def
  system_print_json_def system_read_json_def record_data_print_json_def
  record_data_read_json_def record_print_json_def record_read_json_def flow_print_json_def
  flow_read_json_def event_data_print_json_def event_data_read_json_def
  observable_print_json_def observable_read_json_def indicator_expression_print_json_def
  indicator_expression_read_json_def indicator_print_json_def indicator_read_json_def
  indicator_data_print_json_def indicator_data_read_json_def incident_print_json_def
  incident_read_json_def document_print_json_def document_read_json_def

text \<open>The names of the classes are different, so the name in \<open>_self\<close> determines the class.\<close>

lemma read_names: "map (\<lambda>(_, r). read_self r) read_table = json_names"
  by (simp add: read_table_def json_names_def self_names)

lemma json_names_distinct: "distinct json_names"
  by (simp add: json_names_def)

lemmas read_code_defs =
  telephone_read_json_def certificate_read_json_def key_read_json_def
  observable_reference_read_json_def registry_handle_read_json_def time_impact_read_json_def
  record_pattern_read_json_def reference_read_json_def postal_address_read_json_def
  node_role_read_json_def incident_id_read_json_def alternative_indicator_id_read_json_def
  confidence_read_json_def system_impact_read_json_def software_reference_read_json_def
  business_impact_read_json_def indicator_reference_read_json_def email_read_json_def
  intended_impact_read_json_def additional_data_read_1_def additional_data_read_2_def
  additional_data_read_3_def additional_data_read_json_def counter_read_1_def counter_read_2_def
  counter_read_json_def monetary_impact_read_json_def service_name_read_json_def
  indicator_id_read_json_def signature_data_read_json_def address_read_json_def
  application_header_read_json_def certificate_data_read_json_def threat_actor_read_json_def
  method_read_json_def alternative_id_read_json_def software_read_json_def
  nameservers_read_json_def windows_registry_keys_modified_read_json_def campaign_read_json_def
  assessment_read_1_def assessment_read_2_def assessment_read_3_def assessment_read_json_def
  attack_phase_read_json_def contact_read_1_def contact_read_2_def contact_read_3_def
  contact_read_json_def related_activity_read_1_def related_activity_read_2_def
  related_activity_read_json_def domain_contacts_read_json_def history_item_read_1_def
  history_item_read_2_def history_item_read_json_def fuzzy_hash_read_json_def hash_read_json_def
  detection_pattern_read_json_def expectation_read_1_def expectation_read_2_def
  expectation_read_json_def domain_data_read_1_def domain_data_read_2_def
  domain_data_read_json_def hash_data_read_json_def bulk_observable_format_read_json_def
  history_read_json_def discovery_read_1_def discovery_read_2_def discovery_read_json_def
  bulk_observable_read_json_def email_data_read_1_def email_data_read_2_def
  email_data_read_3_def email_data_read_json_def file_read_1_def file_read_2_def
  file_read_json_def node_read_json_def service_read_1_def service_read_2_def
  service_read_json_def file_data_read_json_def system_read_1_def system_read_2_def
  system_read_3_def system_read_json_def record_data_read_1_def record_data_read_2_def
  record_data_read_3_def record_data_read_json_def record_read_json_def flow_read_json_def
  event_data_read_1_def event_data_read_2_def event_data_read_3_def event_data_read_json_def
  observable_read_1_def observable_read_2_def observable_read_3_def observable_read_4_def
  observable_read_json_def indicator_expression_read_1_def indicator_expression_read_2_def
  indicator_expression_read_json_def indicator_read_1_def indicator_read_2_def
  indicator_read_3_def indicator_read_json_def indicator_data_read_json_def incident_read_1_def
  incident_read_2_def incident_read_3_def incident_read_4_def incident_read_5_def
  incident_read_json_def document_read_1_def document_read_2_def document_read_json_def

lemma keys_plain: "list_all (\<lambda>(c, r). list_all (\<lambda>(k, _). plain_key k) (read_steps r)) read_table"
  by (simp add: read_table_def read_code_defs plain_key_def plain_text_def)

text \<open>
  The one key that the printer and the reader disagree on: \<open>ip_protocol\<close> of a service (class 112), an
  \<open>int\<close> that is printed as a number and read by the statement for strings.
\<close>

definition json_exceptions :: "nat \<Rightarrow> string list" where
  "json_exceptions c = (if c = 112 then [''ip_protocol''] else [])"

lemma service_ip_protocol_clash:
  "map_of (read_steps (lib_read 112)) ''ip_protocol'' = Some (Read_string (maker service_f_ip_protocol))"
  "Print_uint32 ''ip_protocol'' (getter service_f_ip_protocol) \<in> set (print_steps (lib_print 112))"
  by (simp_all add: lib_prints lib_reads service_print_json_def service_read_json_def service_print_1_def
      service_read_1_def)

lemma code_table_json:
  "list_all (\<lambda>(c, k). fits_json (json_exceptions c) (cc_struct k) (lib_print c) (lib_read c)) code_table"
  by (simp add: json_exceptions_def code_table_def telephone_code_def certificate_code_def key_code_def observable_reference_code_def registry_handle_code_def time_impact_code_def record_pattern_code_def reference_code_def postal_address_code_def node_role_code_def incident_id_code_def alternative_indicator_id_code_def confidence_code_def system_impact_code_def software_reference_code_def business_impact_code_def indicator_reference_code_def email_code_def intended_impact_code_def additional_data_code_def counter_code_def monetary_impact_code_def service_name_code_def indicator_id_code_def signature_data_code_def address_code_def application_header_code_def certificate_data_code_def threat_actor_code_def method_code_def alternative_id_code_def software_code_def nameservers_code_def windows_registry_keys_modified_code_def campaign_code_def assessment_code_def attack_phase_code_def contact_code_def related_activity_code_def domain_contacts_code_def history_item_code_def fuzzy_hash_code_def hash_code_def detection_pattern_code_def expectation_code_def domain_data_code_def hash_data_code_def bulk_observable_format_code_def history_code_def discovery_code_def bulk_observable_code_def email_data_code_def file_code_def node_code_def service_code_def file_data_code_def system_code_def record_data_code_def record_code_def flow_code_def event_data_code_def observable_code_def indicator_expression_code_def indicator_code_def indicator_data_code_def incident_code_def document_code_def lib_prints lib_reads classes_fit_json)

lemma read_table_classes: "map fst read_table = map fst code_table"
  by (simp add: read_table_def code_table_def)

lemma find_distinct:
  "distinct (map f xs) \<Longrightarrow> x \<in> set xs \<Longrightarrow> find (\<lambda>y. f y = f x) xs = Some x"
proof (induction xs)
  case (Cons y ys)
  then show ?case by (cases "f y = f x") (auto dest: imageI [of x _ f])
qed simp

lemma lib_readE:
  assumes "map_of code_table c = Some k"
  shows "(c, lib_read c) \<in> set read_table" "(c, k) \<in> set code_table"
proof -
  show "(c, k) \<in> set code_table" by (rule map_of_SomeD [OF assms])
  then have "c \<in> fst ` set read_table"
    using arg_cong [OF read_table_classes, of set] by force
  then obtain r where "map_of read_table c = Some r" by (metis map_of_eq_None_iff option.exhaust)
  then show "(c, lib_read c) \<in> set read_table" by (simp add: lib_read_def map_of_SomeD)
qed

lemma json_names_plain_text: "n \<in> set json_names \<Longrightarrow> plain_text n"
  using json_names_plain by (simp add: list_all_iff plain_key_def)

lemma print_table_classes: "map fst print_table = map fst code_table"
  by (simp add: print_table_def code_table_def)

lemma lib_json_facts:
  assumes "map_of code_table c = Some k"
  shows "fits_json (json_exceptions c) (cc_struct k) (lib_print c) (lib_read c) \<and>
    find (\<lambda>(_, r). read_self r = self_name (lib_print c)) read_table = Some (c, lib_read c) \<and>
    plain_text (self_name (lib_print c)) \<and>
    list_all (\<lambda>(key, s). plain_key key) (read_steps (lib_read c))"
proof (intro conjI)
  note r = lib_readE [OF assms]
  show fits: "fits_json (json_exceptions c) (cc_struct k) (lib_print c) (lib_read c)"
    using r(2) code_table_json by (auto simp: list_all_iff)
  then have n: "self_name (lib_print c) = read_self (lib_read c)" by (simp add: fits_json_def)
  have "distinct (map (\<lambda>(_, r). read_self r) read_table)" by (simp only: read_names json_names_distinct)
  from find_distinct [OF this r(1)]
  show "find (\<lambda>(_, r). read_self r = self_name (lib_print c)) read_table = Some (c, lib_read c)"
    by (simp add: n split_def)
  have "read_self (lib_read c) \<in> set json_names" using r(1) by (force simp flip: read_names)
  then show "plain_text (self_name (lib_print c))" by (simp add: n json_names_plain_text)
  show "list_all (\<lambda>(key, s). plain_key key) (read_steps (lib_read c))"
    using r(1) keys_plain by (auto simp: list_all_iff)
qed



end
