(* ===== verification/JsonText.thy ===== *)
theory JsonText
  imports JsonLib
begin

text \<open>
  What the printer should write: the JSON value of a tree, field by field in the order of the
  struct. \<open>F\<close> is the text of floats, \<open>P\<close> the statements of the classes.
\<close>

section \<open>Enumeration strings\<close>

definition enum_strings_ok :: "(int \<Rightarrow> string option) \<Rightarrow> bool" where
  "enum_strings_ok str \<longleftrightarrow> (\<forall>v s. str v = Some s \<longrightarrow> s \<noteq> [] \<and> plain_text s \<and> length s < 128)"

lemma enum_strings_okI:
  assumes "list_all (\<lambda>(_, s). case s of None \<Rightarrow> True | Some s \<Rightarrow> s \<noteq> [] \<and> plain_text s \<and> length s < 128) tbl"
  shows "enum_strings_ok (enum_to_string tbl)"
  unfolding enum_strings_ok_def
proof (intro allI impI)
  fix v s assume "enum_to_string tbl v = Some s"
  then have "nat v < length tbl" "snd (tbl ! nat v) = Some s"
    by (auto simp: enum_to_string_def split: if_splits)
  then have "(fst (tbl ! nat v), Some s) \<in> set tbl" by (metis nth_mem prod.collapse)
  then show "s \<noteq> [] \<and> plain_text s \<and> length s < 128" using assms by (auto simp: list_all_iff)
qed

lemmas to_string_defs =
  telephone_type_to_string_def key_registryaction_to_string_def
  registry_handle_registry_to_string_def time_impact_duration_to_string_def
  time_impact_metric_to_string_def time_impact_severity_to_string_def
  record_pattern_offsetunit_to_string_def record_pattern_type_to_string_def
  postal_address_type_to_string_def node_role_category_to_string_def
  incident_id_restriction_to_string_def alternative_indicator_id_restriction_to_string_def
  confidence_rating_to_string_def system_impact_completion_to_string_def
  system_impact_type_to_string_def system_impact_severity_to_string_def
  software_reference_dtype_to_string_def business_impact_type_to_string_def
  business_impact_severity_to_string_def email_type_to_string_def
  intended_impact_type_to_string_def intended_impact_severity_to_string_def
  additional_data_restriction_to_string_def additional_data_type_to_string_def
  counter_unit_to_string_def counter_duration_to_string_def counter_type_to_string_def
  monetary_impact_severity_to_string_def address_category_to_string_def
  certificate_data_restriction_to_string_def threat_actor_restriction_to_string_def
  method_restriction_to_string_def alternative_id_restriction_to_string_def
  campaign_restriction_to_string_def assessment_restriction_to_string_def
  assessment_occurrence_to_string_def contact_restriction_to_string_def
  contact_role_to_string_def contact_type_to_string_def
  related_activity_restriction_to_string_def history_item_action_to_string_def
  history_item_restriction_to_string_def detection_pattern_restriction_to_string_def
  expectation_restriction_to_string_def expectation_severity_to_string_def
  expectation_action_to_string_def domain_data_domain_status_to_string_def
  domain_data_system_status_to_string_def hash_data_scope_to_string_def
  history_restriction_to_string_def discovery_source_to_string_def
  discovery_restriction_to_string_def bulk_observable_type_to_string_def
  file_data_restriction_to_string_def system_category_to_string_def
  system_restriction_to_string_def system_spoofed_to_string_def system_virtual_to_string_def
  system_ownership_to_string_def record_data_restriction_to_string_def
  record_restriction_to_string_def event_data_restriction_to_string_def
  observable_restriction_to_string_def indicator_expression_operator_to_string_def
  indicator_restriction_to_string_def incident_status_to_string_def incident_lang_to_string_def
  incident_purpose_to_string_def incident_restriction_to_string_def document_lang_to_string_def

lemma enum_functions_strings: "list_all (\<lambda>(_, _, str). enum_strings_ok str) enum_functions"
  by (simp add: enum_functions_def to_string_defs enum_strings_okI plain_text_def)

lemma enum_pair_strings: "enum_pair num str \<Longrightarrow> enum_strings_ok str"
  using enum_functions_strings by (auto simp: enum_pair_def list_all_iff)

section \<open>The JSON value of a tree\<close>

text \<open>The text of a data object, when its union holds what its type says.\<close>

definition data_text :: "(32 word \<Rightarrow> string) \<Rightarrow> data_type \<Rightarrow> payload \<Rightarrow> string option" where
  "data_text F k pl = (case pl of
     P_val u \<Rightarrow> (case k of
         DATA_UNKNOWN \<Rightarrow> Some []
       | DATA_CHAR \<Rightarrow> (case u of U_char c \<Rightarrow> Some [c] | U_zero \<Rightarrow> Some [NUL] | _ \<Rightarrow> None)
       | DATA_BYTE \<Rightarrow> (case u of U_byte b \<Rightarrow> Some (nat_dec (unat b)) | U_zero \<Rightarrow> Some ''0'' | _ \<Rightarrow> None)
       | DATA_FLOAT \<Rightarrow> (case u of U_float f \<Rightarrow> Some (F f) | U_zero \<Rightarrow> Some (F 0) | _ \<Rightarrow> None)
       | DATA_INT \<Rightarrow> (case u of U_int v \<Rightarrow> Some (int_dec (sint v)) | U_zero \<Rightarrow> Some ''0'' | _ \<Rightarrow> None)
       | DATA_UINT32 \<Rightarrow> (case u of U_int v \<Rightarrow> Some (int_dec (sint v)) | U_zero \<Rightarrow> Some ''0'' | _ \<Rightarrow> None)
       | _ \<Rightarrow> None)
   | P_buf b s \<Rightarrow> (case k of
         DATA_CHAR_STRING \<Rightarrow> (if NUL \<in> set s then Some (cstr s) else None)
       | DATA_BYTE_STRING \<Rightarrow> Some (bytes_to_string s)
       | _ \<Rightarrow> None)
   | P_time b x y z \<Rightarrow> (if k = DATA_TIME then Some (time_to_string
       \<lparr>time_refcount = 1, time_sec = x, time_usec = y, time_gmt_offset = z\<rparr>) else None))"

definition data_json :: "(32 word \<Rightarrow> string) \<Rightarrow> data_type \<Rightarrow> payload \<Rightarrow> jval" where
  "data_json F k pl = (let s = (case data_text F k pl of Some s \<Rightarrow> s | None \<Rightarrow> []) in
     if k = DATA_INT \<or> k = DATA_FLOAT then J_prim s else J_str (json_body s))"

definition enum_json :: "string \<Rightarrow> (int \<Rightarrow> string option) \<Rightarrow> 32 word \<Rightarrow> (string \<times> jval) list" where
  "enum_json k str v = (case str (sint v) of None \<Rightarrow> [] | Some s \<Rightarrow> [(k, J_str s)])"

definition number_json :: "string \<Rightarrow> 32 word \<Rightarrow> (string \<times> jval) list" where
  "number_json k v = [(k, J_prim (nat_dec (unat v)))]"

text \<open>
  The members of an object: an absent child, an empty list and a zero that is not optional have none,
  and neither has an enumeration without a string.
\<close>

fun json_of :: "(32 word \<Rightarrow> string) \<Rightarrow> print_codes \<Rightarrow> tree \<Rightarrow> jval" and
  json_fields :: "(32 word \<Rightarrow> string) \<Rightarrow> print_codes \<Rightarrow> print_step list \<Rightarrow> tslot list \<Rightarrow> (string \<times> jval) list" and
  json_slot :: "(32 word \<Rightarrow> string) \<Rightarrow> print_codes \<Rightarrow> print_step \<Rightarrow> tslot \<Rightarrow> (string \<times> jval) list" where
  "json_of F P (TR_string a s b) = J_str (json_body s)"
| "json_of F P (TR_time a x y z) = J_str (json_body (time_to_string
     \<lparr>time_refcount = 1, time_sec = x, time_usec = y, time_gmt_offset = z\<rparr>))"
| "json_of F P (TR_data a w k n pl) = data_json F k pl"
| "json_of F P (TR_obj a c ss) =
     J_obj ((''_self'', J_str (self_name (P c))) # json_fields F P (print_steps (P c)) ss)"
| "json_fields F P ps [] = []"
| "json_fields F P ps (s # ss) = (case s of
     TS_ignored f v \<Rightarrow> json_fields F P ps ss
   | _ \<Rightarrow> (case ps of [] \<Rightarrow> [] | p # ps \<Rightarrow> json_slot F P p s @ json_fields F P ps ss))"
| "json_slot F P p (TS_null f) = []"
| "json_slot F P p (TS_ptr f t) = [(step_key p, json_of F P t)]"
| "json_slot F P p (TS_int f v) = (case p of
     Print_uint32 k g \<Rightarrow> if v = 0 then [] else number_json k v
   | Print_enum k g str \<Rightarrow> enum_json k str v
   | _ \<Rightarrow> [])"
| "json_slot F P p (TS_opt f b v) = (if \<not> b then [] else (case p of
     Print_optional_uint32 k g \<Rightarrow> number_json k v
   | Print_optional_enum k g str \<Rightarrow> enum_json k str v
   | _ \<Rightarrow> []))"
| "json_slot F P p (TS_list f ts) = (if ts = [] then [] else [(step_key p, J_arr (map (json_of F P) ts))])"
| "json_slot F P p (TS_ignored f v) = []"
| "json_slot F P p (TS_head0 f) = []"

text \<open>The trees whose data objects can be printed.\<close>

fun printable :: "(32 word \<Rightarrow> string) \<Rightarrow> tree \<Rightarrow> bool" and slot_printable :: "(32 word \<Rightarrow> string) \<Rightarrow> tslot \<Rightarrow> bool" where
  "printable F (TR_string a s b) \<longleftrightarrow> True"
| "printable F (TR_time a x y z) \<longleftrightarrow> True"
| "printable F (TR_data a w k n pl) \<longleftrightarrow> data_text F k pl \<noteq> None"
| "printable F (TR_obj a c ss) \<longleftrightarrow> (\<forall>s \<in> set ss. slot_printable F s)"
| "slot_printable F (TS_ptr f t) \<longleftrightarrow> printable F t"
| "slot_printable F (TS_list f ts) \<longleftrightarrow> (\<forall>t \<in> set ts. printable F t)"
| "slot_printable F (TS_null f) \<longleftrightarrow> True"
| "slot_printable F (TS_int f v) \<longleftrightarrow> True"
| "slot_printable F (TS_opt f b v) \<longleftrightarrow> True"
| "slot_printable F (TS_ignored f v) \<longleftrightarrow> True"
| "slot_printable F (TS_head0 f) \<longleftrightarrow> True"

text \<open>What \<open>%f\<close> prints: digits, a sign, a point, \<open>inf\<close> or \<open>nan\<close>.\<close>

definition float_text_ok :: "(32 word \<Rightarrow> string) \<Rightarrow> bool" where
  "float_text_ok F \<longleftrightarrow> (\<forall>f. F f \<noteq> [] \<and> (\<forall>c \<in> set (F f). prim_char c))"

section \<open>Classes with JSON functions\<close>

text \<open>What the printer and the reader of the classes must satisfy, and that the library's do.\<close>

locale json_codes = object_codes K rank bound
  for K :: codes and rank :: "nat \<Rightarrow> nat" and bound :: nat +
  fixes P :: print_codes and R :: read_codes
  assumes json_fits: "prints_json (cc_struct (K c)) (P c) (R c)"
    and self_plain: "plain_text (self_name (P c))"
    and keys_plain: "list_all (\<lambda>(k, s). plain_key k) (read_steps (R c))"

interpretation lib_json: json_codes lib_codes lib_rank lib_bound lib_print lib_read
proof
  fix c
  have "prints_json (cc_struct (lib_codes c)) (lib_print c) (lib_read c) \<and> plain_text (self_name (lib_print c)) \<and>
      list_all (\<lambda>(k, s). plain_key k) (read_steps (lib_read c))"
  proof (cases c rule: lib_codes_cases)
    case 1
    then have "c \<notin> fst ` set read_table" "c \<notin> fst ` set print_table"
      using arg_cong [OF read_table_classes, of set] arg_cong [OF print_table_classes, of set]
      by (auto simp: map_of_eq_None_iff)
    then have "lib_read c = \<lparr>read_self = [], read_steps = []\<rparr>" "lib_print c = \<lparr>self_name = [], print_steps = []\<rparr>"
      by (simp_all add: lib_read_def lib_print_def map_of_eq_None_iff [THEN iffD2])
    then show ?thesis using 1 by (simp add: prints_json_def plain_text_def)
  next
    case (2 k)
    then show ?thesis using lib_json_facts [OF map_of_is_SomeI [OF code_table_distinct 2(1)]]
      by (auto intro: fits_prints_json)
  qed
  then show "prints_json (cc_struct (lib_codes c)) (lib_print c) (lib_read c)"
    "plain_text (self_name (lib_print c))" "list_all (\<lambda>(k, s). plain_key k) (read_steps (lib_read c))" by simp_all
qed

end
