(* ===== verification/JsonEmit.thy ===== *)
theory JsonEmit
  imports JsonText Io ObjCompare
begin

text \<open>
  The printer writes the JSON value of the tree and leaves memory as it was. The output is a
  \<open>byte_sink\<close>: it takes bytes in order as long as there is room; the buffers of theory Io are one.
\<close>

section \<open>Texts\<close>

definition member_text :: "string \<times> jval \<Rightarrow> string" where
  "member_text kv = key_text (fst kv) @ jtext (snd kv)"

lemma jmembers_concat:
  "jmembers (kv # ms) = quoted (fst kv) @ '': '' @ jtext (snd kv) @ concat (map member_text ms)"
proof (induction ms arbitrary: kv)
  case (Cons kw ms)
  then show ?case by (cases kv) (simp add: member_text_def key_text_def)
next
  case Nil
  then show ?case by (cases kv) simp
qed

lemma jtext_object: "jtext (J_obj ((k, J_str n) # ms)) =
    ''{'' @ quoted k @ '': '' @ quoted n @ concat (map member_text ms) @ ''}''"
  by (simp only: jtext.simps jmembers_concat fst_conv snd_conv append_assoc)

lemma jelements_concat: "jelements (v # vs) = jtext v @ concat (map (\<lambda>v. '', '' @ jtext v) vs)"
  by (induction vs arbitrary: v) simp_all

lemma key_text_ne [simp]: "key_text k \<noteq> []"
  by (simp add: key_text_def)

section \<open>Memory that is used for a while\<close>

text \<open>Cells were only added and removed again.\<close>

definition quiet :: "omem \<Rightarrow> omem \<Rightarrow> bool" where
  "quiet m m' \<longleftrightarrow> ocells m' = ocells m \<and> onext m \<le> onext m' \<and> obj_alloc_ok m' = obj_alloc_ok m"

lemma quiet_refl [simp]: "quiet m m"
  by (simp add: quiet_def)

lemma quiet_trans: "quiet m m1 \<Longrightarrow> quiet m1 m2 \<Longrightarrow> quiet m m2"
  by (simp add: quiet_def)

lemma quiet_keeps: "quiet m m' \<Longrightarrow> live m \<Longrightarrow> live m'" "quiet m m' \<Longrightarrow> all_ok m \<Longrightarrow> all_ok m'"
    "quiet m m' \<Longrightarrow> owns m X \<Longrightarrow> owns m' X"
  by (auto simp: quiet_def live_def all_ok_def owns_def)

text \<open>The next element of a list of an object that is owned.\<close>

lemma next_element:
  assumes o: "owns m (cells_of (TR_obj q c ss) lk)" and d: "distinct (map fname ss)" and ts: "TS_list f ts \<in> set ss"
    and v: "ts = pre @ v # us" "wt K v (T_class c')"
  shows "list_next q f (root v) m = (Inr (case us of [] \<Rightarrow> None | u # _ \<Rightarrow> Some (root u)), m)"
proof -
  obtain a vs where a: "v = TR_obj a c' vs" using v(2) by (cases v) auto
  have l: "owns m (list_cells q f ts)" using owned_slot [OF o ts] by simp
  have "owns m (cells_of v (Some (q, f)))" by (rule owned_element [OF l]) (simp add: v(1))
  then have "ocells m (root v) = Some (obj_cell c' (Some (q, f)) (fields_of vs))" by (simp add: a owns_Cons)
  moreover have "ocells m q = Some (obj_cell c lk (fields_of ss))" using o by (simp add: owns_Cons)
  moreover have "fields_of ss f = S_list (map root ts)" using fields_of_nth [OF d ts] by simp
  moreover have "succ_in (map root ts) (root v) = (case us of [] \<Rightarrow> None | u # _ \<Rightarrow> Some (root u))"
    using succ_in_mid [of "map root pre" "root v" "map root us"] owned_roots [OF l] v(1) by (simp split: list.split)
  ultimately show ?thesis using list_next_app [of m "root v" c' q f] by simp
qed

section \<open>Writing in order\<close>

locale byte_sink =
  fixes wr :: "'fd writer" and out :: "'fd \<Rightarrow> string" and room :: "'fd \<Rightarrow> nat"
  assumes write_ok: "s \<noteq> [] \<Longrightarrow> length s \<le> room fd \<Longrightarrow>
    \<exists>fd'. wr fd s = Inr fd' \<and> out fd' = out fd @ s \<and> room fd - length s \<le> room fd'"
begin

text \<open>On memory with the cells \<open>X\<close>, the action \<open>A\<close> writes exactly the text \<open>s\<close>.\<close>

definition emits :: "(addr \<times> cell) list \<Rightarrow> ('fd \<Rightarrow> 'fd act) \<Rightarrow> string \<Rightarrow> bool" where
  "emits X A s \<longleftrightarrow> (\<forall>m fd. live m \<longrightarrow> all_ok m \<longrightarrow> owns m X \<longrightarrow> length s \<le> room fd \<longrightarrow>
     (\<exists>fd' m'. A fd m = (Inr fd', m') \<and> out fd' = out fd @ s \<and> room fd - length s \<le> room fd' \<and> quiet m m'))"

lemma emitsD:
  assumes "emits X A s" "live m" "all_ok m" "owns m X" "length s \<le> room fd"
  obtains fd' m' where "A fd m = (Inr fd', m')" "out fd' = out fd @ s" "room fd - length s \<le> room fd'" "quiet m m'"
  using assms unfolding emits_def by blast

lemma emits_ret: "emits X ret []"
  by (simp add: emits_def ret_def)

lemma emits_ret' [simp]: "emits X (\<lambda>fd. ret fd) []"
  using emits_ret by simp

lemma emits_write: "s \<noteq> [] \<Longrightarrow> emits X (\<lambda>fd. do_write wr fd s) s"
  unfolding emits_def do_write_def lift_res_def using write_ok quiet_refl by fast

lemma emits_bind:
  assumes "emits X A s" "emits X B t"
  shows "emits X (\<lambda>fd. act_bind (A fd) B) (s @ t)"
  unfolding emits_def
proof (intro allI impI)
  fix m fd assume m: "live m" "all_ok m" "owns m X" "length (s @ t) \<le> room fd"
  obtain fd1 m1 where a: "A fd m = (Inr fd1, m1)" "out fd1 = out fd @ s" "room fd - length s \<le> room fd1" "quiet m m1"
    by (rule emitsD [OF assms(1) m(1-3), of fd]) (use m(4) in auto)
  obtain fd2 m2 where b: "B fd1 m1 = (Inr fd2, m2)" "out fd2 = out fd1 @ t" "room fd1 - length t \<le> room fd2" "quiet m1 m2"
    by (rule emitsD [OF assms(2) quiet_keeps(1) [OF a(4) m(1)] quiet_keeps(2) [OF a(4) m(2)] quiet_keeps(3) [OF a(4) m(3)], of fd1])
      (use m(4) a(3) in auto)
  show "\<exists>fd' m'. act_bind (A fd) B m = (Inr fd', m') \<and> out fd' = out fd @ s @ t \<and>
      room fd - length (s @ t) \<le> room fd' \<and> quiet m m'"
    using a b quiet_trans [OF a(4) b(4)] by (auto simp: act_bind_def)
qed

text \<open>A read of memory before the writing.\<close>

lemma emits_read:
  assumes "\<And>m. owns m X \<Longrightarrow> f m = (Inr x, m)" "emits X (\<lambda>fd. B x fd) s"
  shows "emits X (\<lambda>fd. act_bind f (\<lambda>x. B x fd)) s"
  using assms unfolding emits_def by (simp add: act_bind_def)

lemma emits_mono: "emits Y A s \<Longrightarrow> (\<And>m. owns m X \<Longrightarrow> owns m Y) \<Longrightarrow> emits X A s"
  unfolding emits_def by blast

lemma io_writes_ok:
  "list_all (\<lambda>w. w \<noteq> []) ws \<Longrightarrow> length (concat ws) \<le> room fd \<Longrightarrow>
   \<exists>fd'. io_writes wr fd ws = Inr fd' \<and> out fd' = out fd @ concat ws \<and> room fd - length (concat ws) \<le> room fd'"
proof (induction ws arbitrary: fd)
  case (Cons w ws)
  then obtain fd1 where w: "wr fd w = Inr fd1" "out fd1 = out fd @ w" "room fd - length w \<le> room fd1"
    using write_ok [of w fd] by auto
  moreover have "length (concat ws) \<le> room fd1"
  proof -
    have "length (concat (w # ws)) = length w + length (concat ws)" by simp
    then show ?thesis using Cons.prems(2) w(3) by linarith
  qed
  ultimately obtain fd2 where "io_writes wr fd1 ws = Inr fd2" "out fd2 = out fd1 @ concat ws"
      "room fd1 - length (concat ws) \<le> room fd2"
    using Cons.IH [of fd1] Cons.prems(1) by (metis list.pred_inject(2))
  then show ?case using w by auto
qed simp

lemma conv_string_chunks: "list_all (\<lambda>w. w \<noteq> []) (conv_string_writes s)" "concat (conv_string_writes s) = quoted (json_body s)"
  by (auto simp: conv_string_writes_def json_body_def quoted_def list_all_iff conv_char_def split: if_splits)

lemma emits_conv_string: "emits X (\<lambda>fd. lift_res (conv_string wr fd s)) (quoted (json_body s))"
  unfolding emits_def
proof (intro allI impI)
  fix m fd assume "length (quoted (json_body s)) \<le> room fd"
  then show "\<exists>fd' m'. lift_res (conv_string wr fd s) m = (Inr fd', m') \<and> out fd' = out fd @ quoted (json_body s) \<and>
      room fd - length (quoted (json_body s)) \<le> room fd' \<and> quiet m m'"
    using io_writes_ok [OF conv_string_chunks(1) [of s], of fd]
    by (auto simp: conv_string_chunks(2) lift_res_def conv_string_def)
qed

text \<open>The temporary string is made, and freed at the end.\<close>

lemma emits_temp:
  assumes fill: "\<And>m. owns m X \<Longrightarrow> fill m = (Inr x, m)" and out: "emits X (\<lambda>fd. G x fd) t"
  shows "emits X (\<lambda>fd. with_temp fill (\<lambda>s. G s fd)) t"
  unfolding emits_def
proof (intro allI impI)
  fix m fd assume m: "live m" "all_ok m" "owns m X" "length t \<le> room fd"
  define m1 where "m1 = with_cell m (string_cell [] False)"
  have e: "evolves m [] [(onext m, string_cell [] False)] m1" unfolding m1_def by (rule evolves_with_cell)
  have m1: "live m1" "all_ok m1" "owns m1 X"
    using evolves_live [OF m(1) owns_Nil _ e] evolves_frame [OF e m(1,3)] m(2) by (simp_all add: m1_def)
  obtain fd' m2 where g: "G x fd m1 = (Inr fd', m2)" "out fd' = out fd @ t" "room fd - length t \<le> room fd'" "quiet m1 m2"
    by (rule emitsD [OF out m1 m(4)])
  have c: "ocells m2 (onext m) = Some (string_cell [] False)" using g(4) by (simp add: quiet_def m1_def)
  have d: "str_destroy (Some (onext m)) m2 = (Inr (), m2\<lparr>ocells := (ocells m2)(onext m := None)\<rparr>)"
    using c by (simp add: str_destroy_def act_simps)
  have "ocells m (onext m) = None" by (rule live_next [OF m(1)]) simp
  then have q: "quiet m (m2\<lparr>ocells := (ocells m2)(onext m := None)\<rparr>)"
    using g(4) by (auto simp: quiet_def m1_def)
  have "with_temp fill (\<lambda>s. G s fd) m = (Inr fd', m2\<lparr>ocells := (ocells m2)(onext m := None)\<rparr>)"
    using fill [OF m1(3)] g(1) d str_new_app [OF m(2)]
    by (simp add: with_temp_def act_bind_def act_try_def act_then_def lift_res_def m1_def)
  then show "\<exists>fd' m'. with_temp fill (\<lambda>s. G s fd) m = (Inr fd', m') \<and> out fd' = out fd @ t \<and>
      room fd - length t \<le> room fd' \<and> quiet m m'"
    using g(2,3) q by blast
qed

lemma emits_pointer:
  assumes "\<And>m. owns m X \<Longrightarrow> get m = (Inr (Some q), m)" "emits X (\<lambda>fd. conv fd (Some q)) t"
  shows "emits X (print_pointer wr k get conv) (key_text k @ t)"
  unfolding print_pointer_def
  by (rule emits_read [OF assms(1)]) (simp_all add: emits_bind [OF emits_write [OF key_text_ne] assms(2)])

lemma emits_no_pointer:
  assumes "\<And>m. owns m X \<Longrightarrow> get m = (Inr None, m)"
  shows "emits X (print_pointer wr k get conv) []"
  unfolding print_pointer_def by (rule emits_read [OF assms]) simp_all

lemma emits_uint32: "emits X (\<lambda>fd. conv_uint32 wr fd v) (nat_dec (unat v))"
  using emits_write [of "nat_dec (unat v)" X] by (simp add: conv_uint32_def do_write_def)

lemma emits_number:
  "emits X (\<lambda>fd. act_bind (do_write wr fd (key_text k)) (\<lambda>fd. conv_uint32 wr fd v))
     (concat (map member_text (number_json k v)))"
  using emits_bind [OF emits_write [OF key_text_ne, of X k] emits_uint32] by (simp add: number_json_def member_text_def)

lemma emits_enum:
  assumes "enum_strings_ok str"
  shows "emits X (print_enum wr k str v) (concat (map member_text (enum_json k str v)))"
proof (cases "str (sint v)")
  case (Some s)
  then have s: "s \<noteq> []" using assms unfolding enum_strings_ok_def by blast
  have q: "emits X (\<lambda>fd. act_bind (do_write wr fd s) (\<lambda>fd. do_write wr fd [CHR 0x22])) (s @ [CHR 0x22])"
    by (rule emits_bind [OF emits_write [OF s] emits_write]) simp
  have "emits X (\<lambda>fd. act_bind (do_write wr fd (key_text k @ [CHR 0x22])) (\<lambda>fd.
       act_bind (do_write wr fd s) (\<lambda>fd. do_write wr fd [CHR 0x22]))) ((key_text k @ [CHR 0x22]) @ s @ [CHR 0x22])"
    by (rule emits_bind [OF emits_write q]) simp
  then show ?thesis using Some
    by (simp add: print_enum_def [abs_def] enum_json_def member_text_def quoted_def)
qed (simp add: print_enum_def [abs_def] enum_json_def)

text \<open>Strings, times and data.\<close>

lemma emits_string: "emits (cells_of (TR_string a s b) lk) (\<lambda>fd. conv_str wr fd (Some a)) (quoted (json_body s))"
  unfolding conv_str_def
  by (rule emits_read [where x = "\<lparr>str_refcount = 1, str_text = s, str_buf = b\<rparr>"])
    (simp_all add: owns_Cons load_simps emits_conv_string)

lemma emits_time: "emits (cells_of (TR_time a x y z) lk) (\<lambda>fd. conv_time wr fd (Some a))
    (jtext (json_of F P (TR_time a x y z)))"
proof -
  let ?t = "\<lparr>time_refcount = 1, time_sec = x, time_usec = y, time_gmt_offset = z\<rparr>"
  have fill: "act_bind (load_time (Some a)) (\<lambda>t. ret (time_to_string t)) m = (Inr (time_to_string ?t), m)"
    if "owns m (cells_of (TR_time a x y z) lk)" for m
    using that by (simp add: owns_Cons act_simps)
  show ?thesis
    using emits_temp [where G = "\<lambda>s fd. lift_res (conv_string wr fd s)", OF fill emits_conv_string]
    by (simp add: conv_time_def [abs_def])
qed

lemma data_to_string_app:
  assumes "data_text F k pl = Some x" "payload_ok w k n pl" "owns m (cells_of (TR_data a w k n pl) lk)"
  shows "data_to_string F (Some a) m = (Inr x, m)"
proof -
  have d: "load_data (Some a) m = (Inr \<lparr>data_refcount = 1, own_structure = True, own_buffer = w, data_kind = k,
      data_len = n, data_val = payload_union pl\<rparr>, m)"
    using assms(3) by (simp add: owns_Cons load_simps)
  show ?thesis
  proof (cases pl)
    case (P_val u)
    then show ?thesis using assms(1,2) d
      by (cases k; cases u) (auto simp: data_to_string_def act_bind_def ret_def data_text_def payload_ok_def is_buffer_type_def)
  next
    case (P_buf b s)
    then have "load_buf (Some b) m = (Inr s, m)" using assms(3) by (auto simp: owns_Cons intro: load_simps)
    then show ?thesis using P_buf assms(1,2) d
      by (cases k) (auto simp: data_to_string_def act_bind_def ret_def data_text_def payload_ok_def union_ptr_def
          printf_s_def split: if_splits)
  next
    case (P_time b x' y z)
    then have "load_time (Some b) m = (Inr \<lparr>time_refcount = 1, time_sec = x', time_usec = y, time_gmt_offset = z\<rparr>, m)"
      using assms(3) by (simp add: owns_Cons load_simps)
    then show ?thesis using P_time assms(1,2) d
      by (cases k) (auto simp: data_to_string_def act_bind_def ret_def data_text_def payload_ok_def union_ptr_def)
  qed
qed

lemma emits_data:
  assumes "data_text F k pl = Some x" "payload_ok w k n pl" "float_text_ok F"
  shows "emits (cells_of (TR_data a w k n pl) lk) (\<lambda>fd. conv_data F wr fd (Some a)) (jtext (data_json F k pl))"
proof -
  let ?X = "cells_of (TR_data a w k n pl) lk"
  let ?G = "\<lambda>s fd. act_bind (load_data (Some a)) (\<lambda>x. if data_kind x = DATA_INT \<or> data_kind x = DATA_FLOAT
      then lift_res (wr fd s) else lift_res (conv_string wr fd s))"
  have ne: "x \<noteq> []" if "k = DATA_INT \<or> k = DATA_FLOAT"
    using that assms(1,3) by (auto simp: data_text_def float_text_ok_def int_dec_def split: payload.splits data_union.splits if_splits)
  have "emits ?X (?G x) (jtext (data_json F k pl))"
  proof (rule emits_read [where x = "\<lparr>data_refcount = 1, own_structure = True, own_buffer = w, data_kind = k,
      data_len = n, data_val = payload_union pl\<rparr>"])
    show "emits ?X (\<lambda>fd. if data_kind \<lparr>data_refcount = 1, own_structure = True, own_buffer = w, data_kind = k,
      data_len = n, data_val = payload_union pl\<rparr> = DATA_INT \<or> data_kind \<lparr>data_refcount = 1, own_structure = True, own_buffer = w,
      data_kind = k, data_len = n, data_val = payload_union pl\<rparr> = DATA_FLOAT
      then lift_res (wr fd x) else lift_res (conv_string wr fd x)) (jtext (data_json F k pl))"
      using emits_write [OF ne] emits_conv_string assms(1) by (auto simp: data_json_def do_write_def)
  qed (simp add: owns_Cons load_simps)
  from emits_temp [where G = ?G, OF data_to_string_app [OF assms(1,2)] this]
  show ?thesis by (simp add: conv_data_def)
qed

end

end
