(* ===== verification/JsonPrints.thy ===== *)
theory JsonPrints
  imports JsonEmit
begin

text \<open>
  The print functions of all classes write the JSON value of their object (theory JsonText), with
  enough room in the output and a number of calls of at least the size of the tree.
\<close>

lemma run_print_fun:
  "run_print wr F rec n p (Print_string k g) = print_pointer wr k (get_pointer p g None) (conv_str wr)"
  "run_print wr F rec n p (Print_time k g) = print_pointer wr k (get_pointer p g None) (conv_time wr)"
  "run_print wr F rec n p (Print_data k g) = print_pointer wr k (get_pointer p g None) (conv_data F wr)"
  "run_print wr F rec n p (Print_object c k g) = print_pointer wr k (get_pointer p g None) (\<lambda>fd q. rec c q fd)"
  "run_print wr F rec n p (Print_list c k g) = print_list wr (rec c) n p k g None True"
  "run_print wr F rec n p (Print_uint32 k g) = (\<lambda>fd. act_bind (get_number_value p g) (\<lambda>v.
     if v = 0 then ret fd else act_bind (do_write wr fd (key_text k)) (\<lambda>fd. conv_uint32 wr fd v)))"
  "run_print wr F rec n p (Print_enum k g str) = (\<lambda>fd. act_bind (get_number_value p g) (\<lambda>v. print_enum wr k str v fd))"
  "run_print wr F rec n p (Print_optional_uint32 k g) = (\<lambda>fd. act_bind (get_int_pointer p g) (\<lambda>r. case r of
     None \<Rightarrow> ret fd | Some v \<Rightarrow> act_bind (do_write wr fd (key_text k)) (\<lambda>fd. conv_uint32 wr fd v)))"
  "run_print wr F rec n p (Print_optional_enum k g str) = (\<lambda>fd. act_bind (get_int_pointer p g) (\<lambda>r. case r of
     None \<Rightarrow> ret fd | Some v \<Rightarrow> print_enum wr k str v fd))"
  by (rule ext, simp)+

lemma run_prints_fun: "run_prints run [] = ret" "run_prints run (s # ss) = (\<lambda>fd. act_bind (run s fd) (run_prints run ss))"
  by (rule ext, simp)+

lemma obj_print_fun: "obj_print_json P wr F (Suc n) c (Some q) = (\<lambda>fd.
    act_bind (do_write wr fd (head_text (self_name (P c)))) (\<lambda>fd.
    act_bind (run_prints (run_print wr F (obj_print_json P wr F n) n (Some q)) (print_steps (P c)) fd) (\<lambda>fd.
    do_write wr fd ''}'')))"
  by (rule ext) simp

section \<open>The members of an object\<close>

locale json_printer = json_codes K rank bound P R + byte_sink wr out room
  for K :: codes and rank :: "nat \<Rightarrow> nat" and bound :: nat and P :: print_codes and R :: read_codes
    and wr :: "'fd writer" and out :: "'fd \<Rightarrow> string" and room :: "'fd \<Rightarrow> nat" +
  fixes F :: "32 word \<Rightarrow> string"
begin

definition renders :: "(addr option \<Rightarrow> 'fd \<Rightarrow> 'fd act) \<Rightarrow> ty \<Rightarrow> nat \<Rightarrow> bool" where
  "renders A ty n \<longleftrightarrow> (\<forall>t lk. wt K t ty \<longrightarrow> printable F t \<longrightarrow> size t \<le> n \<longrightarrow>
     emits (cells_of t lk) (A (Some (root t))) (jtext (json_of F P t)))"

lemma rendersD: "renders A ty n \<Longrightarrow> wt K t ty \<Longrightarrow> printable F t \<Longrightarrow> size t \<le> n \<Longrightarrow>
    emits (cells_of t lk) (A (Some (root t))) (jtext (json_of F P t))"
  unfolding renders_def by blast

lemma leaf_renders:
  "renders (\<lambda>q fd. conv_str wr fd q) T_string n"
  "renders (\<lambda>q fd. conv_time wr fd q) T_time n"
  "float_text_ok F \<Longrightarrow> renders (\<lambda>q fd. conv_data F wr fd q) T_data n"
  unfolding renders_def
proof (intro allI impI)
  fix t lk assume "wt K t T_string"
  then show "emits (cells_of t lk) (\<lambda>fd. conv_str wr fd (Some (root t))) (jtext (json_of F P t))"
    using emits_string by (elim wt_stringE) simp
next
  show "\<forall>t lk. wt K t T_time \<longrightarrow> printable F t \<longrightarrow> size t \<le> n \<longrightarrow>
      emits (cells_of t lk) (\<lambda>fd. conv_time wr fd (Some (root t))) (jtext (json_of F P t))"
    using emits_time by (auto elim!: wt_timeE simp del: cells_of.simps json_of.simps)
next
  assume float_ok: "float_text_ok F"
  show "\<forall>t lk. wt K t T_data \<longrightarrow> printable F t \<longrightarrow> size t \<le> n \<longrightarrow>
      emits (cells_of t lk) (\<lambda>fd. conv_data F wr fd (Some (root t))) (jtext (json_of F P t))"
    using emits_data [OF _ _ float_ok] by (auto elim!: wt_dataE simp del: cells_of.simps)
qed

text \<open>The elements of a list after the first one.\<close>

lemma emits_more:
  assumes "renders rec (T_class c') n" "TS_list f ts \<in> set ss" "distinct (map fname ss)"
    and "\<And>t. t \<in> set ts \<Longrightarrow> wt K t (T_class c') \<and> printable F t \<and> size t \<le> n"
  shows "ts = pre @ v # us \<Longrightarrow> length us < j \<Longrightarrow>
    emits (cells_of (TR_obj q c ss) lk) (print_list wr rec j (Some q) k (Getter_next f) (Some (root v)) False)
      (concat (map (\<lambda>v. '', '' @ jtext (json_of F P v)) us) @ '']'')"
proof (induction us arbitrary: pre v j)
  case Nil
  then obtain j' where j: "j = Suc j'" by (cases j) auto
  have nx: "get_pointer (Some q) (Getter_next f) (Some (root v)) m = (Inr None, m)"
    if o: "owns m (cells_of (TR_obj q c ss) lk)" for m
    using next_element [OF o assms(3,2), of pre v "[]" K c'] Nil assms(4) [of v] by (simp add: get_pointer_def act_bind_def ret_def)
  show ?case unfolding j print_list.simps
    by (rule emits_read [OF nx]) (use emits_write in simp_all)
next
  case (Cons u us)
  then obtain j' where j: "j = Suc j'" "length us < j'" by (cases j) auto
  have nx: "get_pointer (Some q) (Getter_next f) (Some (root v)) m = (Inr (Some (root u)), m)"
    if o: "owns m (cells_of (TR_obj q c ss) lk)" for m
    using next_element [OF o assms(3,2), of pre v "u # us" K c'] Cons.prems(1) assms(4) [of v]
    by (simp add: get_pointer_def act_bind_def ret_def)
  have u: "u \<in> set ts" using Cons.prems(1) by simp
  have e: "emits (cells_of (TR_obj q c ss) lk) (rec (Some (root u))) (jtext (json_of F P u))"
    by (rule emits_mono [OF rendersD [OF assms(1), of u "Some (q, f)"]])
      (use assms(4) [OF u] owned_slot [OF _ assms(2)] owned_element [OF _ u] in auto)
  have r: "emits (cells_of (TR_obj q c ss) lk) (print_list wr rec j' (Some q) k (Getter_next f) (Some (root u)) False)
      (concat (map (\<lambda>v. '', '' @ jtext (json_of F P v)) us) @ '']'')"
    by (rule Cons.IH [of "pre @ [v]"]) (use Cons.prems(1) j(2) in simp_all)
  have "emits (cells_of (TR_obj q c ss) lk) (\<lambda>fd. act_bind (do_write wr fd '', '') (\<lambda>fd. act_bind (rec (Some (root u)) fd)
      (print_list wr rec j' (Some q) k (Getter_next f) (Some (root u)) False)))
      ('', '' @ jtext (json_of F P u) @ concat (map (\<lambda>v. '', '' @ jtext (json_of F P v)) us) @ '']'')"
    by (rule emits_bind [OF emits_write emits_bind [OF e r]]) simp
  then show ?case unfolding j(1) print_list.simps
    by (intro emits_read [OF nx]) simp_all
qed

lemma jtext_list: "jtext (J_arr (map g (v # us))) = ''['' @ jtext (g v) @ concat (map (\<lambda>v. '', '' @ jtext (g v)) us) @ '']''"
  by (simp only: jtext.simps list.map jelements_concat map_map o_def append_assoc)

lemma emits_list:
  assumes "renders rec (T_class c') n" "TS_list f ts \<in> set ss" "distinct (map fname ss)" "length ts < j"
    and "\<And>t. t \<in> set ts \<Longrightarrow> wt K t (T_class c') \<and> printable F t \<and> size t \<le> n"
  shows "emits (cells_of (TR_obj q c ss) lk) (print_list wr rec j (Some q) k (Getter_next f) None True)
    (if ts = [] then [] else key_text k @ jtext (J_arr (map (json_of F P) ts)))"
proof -
  let ?X = "cells_of (TR_obj q c ss) lk"
  obtain j' where j: "j = Suc j'" "length ts \<le> j'" using assms(4) by (cases j) auto
  have hd: "get_pointer (Some q) (Getter_next f) None m = (Inr (case ts of [] \<Rightarrow> None | a # _ \<Rightarrow> Some (root a)), m)"
    if o: "owns m ?X" for m
  proof -
    have "ocells m q = Some (obj_cell c lk (fields_of ss))" using o by (simp add: owns_Cons)
    then have "get_list (Some q) f m = (Inr (map root ts), m)"
      using fields_of_nth [OF assms(3,2)] by (simp add: get_field_app)
    then show ?thesis by (simp add: get_pointer_def act_bind_def ret_def split: list.split)
  qed
  show ?thesis
  proof (cases ts)
    case Nil
    then show ?thesis unfolding j(1) print_list.simps by (intro emits_read [OF hd]) simp_all
  next
    case (Cons v us)
    have v: "v \<in> set ts" using Cons by simp
    have e: "emits ?X (rec (Some (root v))) (jtext (json_of F P v))"
      by (rule emits_mono [OF rendersD [OF assms(1), of v "Some (q, f)"]])
        (use assms(5) [OF v] owned_slot [OF _ assms(2)] owned_element [OF _ v] in auto)
    have r: "emits ?X (print_list wr rec j' (Some q) k (Getter_next f) (Some (root v)) False)
        (concat (map (\<lambda>v. '', '' @ jtext (json_of F P v)) us) @ '']'')"
      by (rule emits_more [where pre = "[]" and us = us, OF assms(1-3,5)]) (use Cons j(2) in simp_all)
    have t: "key_text k @ jtext (J_arr (map (json_of F P) ts)) = (key_text k @ ''['') @ jtext (json_of F P v) @
        concat (map (\<lambda>v. '', '' @ jtext (json_of F P v)) us) @ '']''"
      by (simp only: Cons jtext_list append_assoc)
    have "emits ?X (\<lambda>fd. act_bind (do_write wr fd (key_text k @ ''['')) (\<lambda>fd. act_bind (rec (Some (root v)) fd)
        (print_list wr rec j' (Some q) k (Getter_next f) (Some (root v)) False)))
        (key_text k @ jtext (J_arr (map (json_of F P) ts)))"
      unfolding t by (rule emits_bind [OF emits_write emits_bind [OF e r]]) simp
    then show ?thesis unfolding j(1) print_list.simps
      by (intro emits_read [OF hd]) (simp_all add: Cons)
  qed
qed

text \<open>One statement.\<close>

lemma emits_slot:
  assumes rec: "\<And>c. renders (rec c) (T_class c) n" and float_ok: "float_text_ok F"
    and dis: "distinct (map fname ss)" and s: "s \<in> set ss" "fname s = f" "slot_wt K s (Some d)" "slot_printable F s" "size s \<le> n"
    and fit: "step_prints st (f, d) p r"
  shows "emits (cells_of (TR_obj q c ss) lk) (run_print wr F rec n (Some q) p)
    (concat (map member_text (json_slot F P p s)))"
proof -
  let ?X = "cells_of (TR_obj q c ss) lk"
  have cell: "ocells m q = Some (obj_cell c lk (fields_of ss))" if "owns m ?X" for m
    using that by (simp add: owns_Cons)
  have fld: "fields_of ss f = slot_of s" using fields_of_nth [OF dis s(1)] s(2) by simp
  have ptr: "emits ?X (print_pointer wr k (get_pointer (Some q) (Getter_ptr f) None) (\<lambda>fd q. A q fd))
      (concat (map member_text (json_slot F P p s)))"
    if a: "renders A ty n" "declared_ptr d ty" "step_key p = k" for A ty k
  proof -
    have "(\<exists>t. s = TS_ptr f t \<and> wt K t ty) \<or> s = TS_null f"
      using a(2) s(2,3) by (cases d; cases s) auto
    then consider (p) t where "s = TS_ptr f t" "wt K t ty" | (n) "s = TS_null f" by blast
    then show ?thesis
    proof cases
      case p
      have g: "get_pointer (Some q) (Getter_ptr f) None m = (Inr (Some (root t)), m)" if "owns m ?X" for m
        using get_field_app(1) [OF cell [OF that]] fld p by (simp add: get_pointer_def act_bind_def ret_def)
      have "emits ?X (A (Some (root t))) (jtext (json_of F P t))"
        by (rule emits_mono [OF rendersD [OF a(1), of t None]]) (use p s owned_slot [OF _ s(1)] in auto)
      from emits_pointer [where conv = "\<lambda>fd q. A q fd", OF g this] show ?thesis
        by (simp add: p a(3) member_text_def)
    next
      case n
      have "get_pointer (Some q) (Getter_ptr f) None m = (Inr None, m)" if "owns m ?X" for m
        using get_field_app(1) [OF cell [OF that]] fld n by (simp add: get_pointer_def act_bind_def ret_def)
      from emits_no_pointer [OF this] show ?thesis by (simp add: n)
    qed
  qed
  have int: "get_number_value (Some q) (Getter_int f) m = (Inr v, m)" if "owns m ?X" "s = TS_int f v" for m v
    using get_field_app(2) [OF cell [OF that(1)]] fld that(2) by (simp add: get_number_value_def act_bind_def ret_def)
  have opt: "get_int_pointer (Some q) (Getter_optional f) m = (Inr (if b then Some v else None), m)"
    if "owns m ?X" "s = TS_opt f b v" for m b v
  proof -
    have "get_int (Some q) f m = (Inr v, m)"
      using get_slot_app [OF cell [OF that(1)]] fld that(2) by (simp add: get_int_def act_bind_def ret_def)
    then show ?thesis using get_field_app(3) [OF cell [OF that(1)]] fld that(2)
      by (simp add: get_int_pointer_def act_bind_def ret_def)
  qed
  have si: "\<exists>v. s = TS_int f v" if "d = F_int" using that s(2,3) by (cases s) auto
  have so: "\<exists>b v. s = TS_opt f b v" if "d = F_optional" using that s(2,3) by (cases s) auto
  show ?thesis
  proof (cases p)
    case (Print_string k g)
    then show ?thesis using fit ptr [OF leaf_renders(1), of k] by (simp add: run_print_fun)
  next
    case (Print_time k g)
    then show ?thesis using fit ptr [OF leaf_renders(2), of k] by (simp add: run_print_fun)
  next
    case (Print_data k g)
    then show ?thesis using fit ptr [OF leaf_renders(3) [OF float_ok], of k] by (simp add: run_print_fun)
  next
    case (Print_object c' k g)
    then show ?thesis using fit ptr [OF rec, of c' k] by (simp add: run_print_fun)
  next
    case (Print_uint32 k g)
    then obtain v where v: "s = TS_int f v" "g = Getter_int f" using fit si by auto
    show ?thesis unfolding Print_uint32 run_print_fun v(2)
      by (rule emits_read [where x = v]) (use int [OF _ v(1)] emits_number in \<open>simp_all add: v(1)\<close>)
  next
    case (Print_enum k g str)
    then obtain v where v: "s = TS_int f v" "g = Getter_int f" "enum_strings_ok str"
      using fit si enum_pair_strings by (auto split: read_step.splits)
    show ?thesis unfolding Print_enum run_print_fun v(2)
      by (rule emits_read [where x = v]) (use int [OF _ v(1)] emits_enum [OF v(3)] in \<open>simp_all add: v(1)\<close>)
  next
    case (Print_optional_uint32 k g)
    then obtain b v where v: "s = TS_opt f b v" "g = Getter_optional f" using fit so by auto
    show ?thesis unfolding Print_optional_uint32 run_print_fun v(2)
      by (rule emits_read [where x = "if b then Some v else None"])
        (use opt [OF _ v(1)] emits_number in \<open>auto simp add: v(1)\<close>)
  next
    case (Print_optional_enum k g str)
    then obtain b v where v: "s = TS_opt f b v" "g = Getter_optional f" "enum_strings_ok str"
      using fit so enum_pair_strings by (auto split: read_step.splits)
    show ?thesis unfolding Print_optional_enum run_print_fun v(2)
      by (rule emits_read [where x = "if b then Some v else None"])
        (use opt [OF _ v(1)] emits_enum [OF v(3)] in \<open>auto simp add: v(1)\<close>)
  next
    case (Print_list c' k g)
    then have g: "g = Getter_next f" "d = F_listed c'" using fit by auto
    then obtain ts where ts: "s = TS_list f ts" "\<forall>t \<in> set ts. wt K t (T_class c')" using s(2,3) by (cases s) auto
    have "length ts < n" using s(5) length_size_list [of ts size] by (simp add: ts(1))
    moreover have "size t \<le> n" if "t \<in> set ts" for t using size_list_le [OF that, of size] s(5) by (simp add: ts(1))
    ultimately have "emits ?X (print_list wr (rec c') n (Some q) k (Getter_next f) None True)
        (if ts = [] then [] else key_text k @ jtext (J_arr (map (json_of F P) ts)))"
      by (intro emits_list [OF rec _ dis]) (use s(1,4) ts in auto)
    then show ?thesis by (auto simp: run_print_fun Print_list g(1) ts(1) member_text_def)
  qed
qed

lemma emits_fields:
  assumes "steps_print st ds ps rs" "list_all2 (\<lambda>s (f, d). fname s = f \<and> slot_wt K s (Some d)) ss ds"
    and "\<And>s f d p r. s \<in> set ss \<Longrightarrow> fname s = f \<Longrightarrow> slot_wt K s (Some d) \<Longrightarrow> step_prints st (f, d) p r \<Longrightarrow>
      emits X (run p) (concat (map member_text (json_slot F P p s)))"
  shows "emits X (run_prints run ps) (concat (map member_text (json_fields F P ps ss)))"
  using assms
proof (induction ds arbitrary: ps rs ss)
  case Nil
  then show ?case by (auto dest: steps_print_Nil simp: run_prints_fun emits_ret)
next
  case (Cons fd ds)
  obtain f d where fd: "fd = (f, d)" by fastforce
  obtain s ss' where s: "ss = s # ss'" "fname s = f" "slot_wt K s (Some d)"
      "list_all2 (\<lambda>s (f, d). fname s = f \<and> slot_wt K s (Some d)) ss' ds"
    using Cons.prems(2) fd by (auto simp: list_all2_Cons2)
  note step = Cons.prems(3) [unfolded s(1)]
  from Cons.prems(1) [unfolded fd] show ?case
  proof (cases rule: steps_print_cases)
    case ignored
    then obtain v where "s = TS_ignored f v" using s(2,3) by (cases s) auto
    moreover have "emits X (run_prints run ps) (concat (map member_text (json_fields F P ps ss')))"
      by (rule Cons.IH [OF ignored(2) s(4) step]) simp_all
    ultimately show ?thesis by (simp add: s(1))
  next
    case (step p ps' r rs')
    have "json_fields F P (p # ps') (s # ss') = json_slot F P p s @ json_fields F P ps' ss'"
      using step(1) s(3) by (cases s) auto
    moreover have "emits X (run p) (concat (map member_text (json_slot F P p s)))"
      by (rule Cons.prems(3) [of s f d]) (use s step(4) in simp_all)
    moreover have "emits X (run_prints run ps') (concat (map member_text (json_fields F P ps' ss')))"
      by (rule Cons.IH [OF step(5) s(4)], rule Cons.prems(3)) (use s(1) in simp_all)
    ultimately show ?thesis by (simp add: s(1) step(2) run_prints_fun emits_bind)
  qed
qed

section \<open>Objects\<close>

lemma obj_renders:
  assumes "float_text_ok F"
  shows "renders (obj_print_json P wr F n c) (T_class c) n"
proof (induction n arbitrary: c)
  case 0
  have "size t > 0" if "wt K t (T_class c)" for t using that by (cases t) auto
  then show ?case by (fastforce simp: renders_def)
next
  case (Suc n)
  show ?case unfolding renders_def
  proof (intro allI impI)
    fix t lk assume a: "wt K t (T_class c)" "printable F t" "size t \<le> Suc n"
    obtain q ss where t: "t = TR_obj q c ss" using a(1) by (cases t) auto
    let ?X = "cells_of t lk" and ?run = "run_print wr F (obj_print_json P wr F n) n (Some q)"
    have "emits ?X (?run p) (concat (map member_text (json_slot F P p s)))"
      if "s \<in> set ss" "fname s = f" "slot_wt K s (Some d)" "step_prints (cc_struct (K c)) (f, d) p r" for s f d p r
      unfolding t
      by (rule emits_slot [OF Suc.IH assms wt_slots(1) [OF a(1) [unfolded t]] that(1-3) _ _ that(4)])
        (use a(2,3) that(1) size_list_less [OF that(1), of size] in \<open>auto simp: t\<close>)
    then have f: "emits ?X (run_prints ?run (print_steps (P c))) (concat (map member_text (json_fields F P (print_steps (P c)) ss)))"
      by (intro emits_fields [where st = "cc_struct (K c)", OF _ wt_slots(2) [OF a(1) [unfolded t]]])
        (use json_fits [of c] in \<open>auto simp: prints_json_def\<close>)
    have w: "emits ?X (\<lambda>fd. do_write wr fd s) s" if "s \<noteq> []" for s by (rule emits_write [OF that])
    have "emits ?X (\<lambda>fd. act_bind (do_write wr fd (head_text (self_name (P c)))) (\<lambda>fd.
        act_bind (run_prints ?run (print_steps (P c)) fd) (\<lambda>fd. do_write wr fd ''}'')))
        (head_text (self_name (P c)) @ concat (map member_text (json_fields F P (print_steps (P c)) ss)) @ ''}'')"
      by (rule emits_bind [OF w emits_bind [OF f w]]) (simp_all add: head_text_def)
    then show "emits (cells_of t lk) (obj_print_json P wr F (Suc n) c (Some (root t))) (jtext (json_of F P t))"
      by (simp add: t jtext_object head_text_def obj_print_fun del: jtext.simps jmembers.simps obj_print_json.simps)
  qed
qed

end

section \<open>The value is well formed\<close>

lemma members_ok_all: "members_ok ms \<longleftrightarrow> (\<forall>(k, v) \<in> set ms. json_string_ok k \<and> jval_ok v)"
  by (induction ms) auto

lemma elements_ok_all: "elements_ok vs \<longleftrightarrow> (\<forall>v \<in> set vs. jval_ok v)"
  by (induction vs) auto

lemma json_body_ok: "json_string_ok (json_body s)"
  unfolding json_body_def by (induction s) (simp_all add: json_string_ok_conv)

lemma digits_prim: "c \<in> set (nat_dec n) \<Longrightarrow> prim_char c"
proof -
  have "\<forall>d < 10. prim_char (digit_char d)" by code_simp
  then show "c \<in> set (nat_dec n) \<Longrightarrow> prim_char c" using nat_dec_chars by blast
qed

lemma int_dec_prim: "int_dec i \<noteq> []" "c \<in> set (int_dec i) \<Longrightarrow> prim_char c"
proof -
  have "prim_char CHR ''-''" by code_simp
  then show "int_dec i \<noteq> []" "c \<in> set (int_dec i) \<Longrightarrow> prim_char c"
    by (auto simp: int_dec_def digits_prim split: if_splits)
qed

lemma data_json_ok:
  assumes "data_text F k pl \<noteq> None" "float_text_ok F"
  shows "jval_ok (data_json F k pl)"
proof -
  have z: "prim_char CHR ''0''" by code_simp
  show ?thesis
    using assms json_body_ok int_dec_prim z
    by (auto simp: data_json_def data_text_def float_text_ok_def split: payload.splits data_union.splits)
qed

lemma json_fields_all:
  assumes "steps_print st ds ps rs" "list_all2 (\<lambda>s (f, d). fname s = f \<and> slot_wt K s (Some d)) ss ds"
    and "\<And>s f d p r. s \<in> set ss \<Longrightarrow> fname s = f \<Longrightarrow> slot_wt K s (Some d) \<Longrightarrow> step_prints st (f, d) p r \<Longrightarrow>
      (step_key p, r) \<in> set rs \<Longrightarrow> \<forall>m \<in> set (json_slot F P p s). Q m"
  shows "\<forall>m \<in> set (json_fields F P ps ss). Q m"
  using assms
proof (induction ds arbitrary: ps rs ss)
  case Nil
  then show ?case by (auto dest: steps_print_Nil)
next
  case (Cons fd ds)
  obtain f d where fd: "fd = (f, d)" by fastforce
  obtain s ss' where s: "ss = s # ss'" "fname s = f" "slot_wt K s (Some d)"
      "list_all2 (\<lambda>s (f, d). fname s = f \<and> slot_wt K s (Some d)) ss' ds"
    using Cons.prems(2) fd by (auto simp: list_all2_Cons2)
  from Cons.prems(1) [unfolded fd] show ?case
  proof (cases rule: steps_print_cases)
    case ignored
    then obtain v where "s = TS_ignored f v" using s(2,3) by (cases s) auto
    moreover have "\<forall>m \<in> set (json_fields F P ps ss'). Q m"
      by (rule Cons.IH [OF ignored(2) s(4)], rule Cons.prems(3)) (use s(1) in auto)
    ultimately show ?thesis by (simp add: s(1))
  next
    case (step p ps' r rs')
    have "json_fields F P (p # ps') (s # ss') = json_slot F P p s @ json_fields F P ps' ss'"
      using step(1) s(3) by (cases s) auto
    moreover have "\<forall>m \<in> set (json_slot F P p s). Q m"
      by (rule Cons.prems(3) [of s f d p r]) (use s step in auto)
    moreover have "\<forall>m \<in> set (json_fields F P ps' ss'). Q m"
      by (rule Cons.IH [OF step(5) s(4)], rule Cons.prems(3)) (use s(1) step in auto)
    ultimately show ?thesis by (auto simp: s(1) step(2))
  qed
qed

context json_codes
begin

lemma json_slot_ok:
  assumes IH: "\<And>t ty. size t < n \<Longrightarrow> wt K t ty \<Longrightarrow> printable F t \<Longrightarrow> jval_ok (json_of F P t)"
    and s: "slot_wt K s (Some d)" "slot_printable F s" "size s \<le> n" and fit: "step_prints st (f, d) p r"
  shows "\<forall>(k, v) \<in> set (json_slot F P p s). k = step_key p \<and> jval_ok v"
proof -
  have e: "k' = k \<and> jval_ok v" if "enum_pair num str" "(k', v) \<in> set (enum_json k str x)" for k num str x k' v
    using enum_pair_strings [OF that(1)] that(2) plain_text_ok
    by (auto simp: enum_json_def enum_strings_ok_def split: option.splits)
  have n: "k' = k \<and> jval_ok v" if "(k', v) \<in> set (number_json k x)" for k x k' v
    using that digits_prim by (auto simp: number_json_def)
  show ?thesis
  proof (cases s)
    case (TS_ptr g t)
    then show ?thesis using IH [of t] s by (auto split: field_decl.splits)
  next
    case (TS_list g ts)
    have "size t < n" if "t \<in> set ts" for t using size_list_le [OF that, of size] s(3) by (simp add: TS_list)
    then show ?thesis using IH s by (auto simp: TS_list elements_ok_all split: field_decl.splits)
  next
    case (TS_int g v)
    then show ?thesis using fit by (cases p) (auto split: read_step.splits dest: e n)
  next
    case (TS_opt g b v)
    then show ?thesis using fit by (cases p) (auto split: read_step.splits dest: e n)
  qed simp_all
qed

lemma json_of_ok: "float_text_ok F \<Longrightarrow> wt K t ty \<Longrightarrow> printable F t \<Longrightarrow> jval_ok (json_of F P t)"
proof (induction "size t" arbitrary: t ty rule: less_induct)
  case less
  show ?case
  proof (cases t)
    case (TR_data a w k n pl)
    then show ?thesis using less.prems data_json_ok by simp
  next
    case (TR_obj a c ss)
    note w = less.prems(2) [unfolded TR_obj]
    have "\<forall>m \<in> set (json_fields F P (print_steps (P c)) ss). json_string_ok (fst m) \<and> jval_ok (snd m)"
    proof (rule json_fields_all [where st = "cc_struct (K c)" and rs = "read_steps (R c)", OF _ wt_slots(2) [OF w]])
      show "steps_print (cc_struct (K c)) (cc_struct (K c)) (print_steps (P c)) (read_steps (R c))"
        using json_fits [of c] by (simp add: prints_json_def)
      fix s f d p r
      assume s: "s \<in> set ss" "slot_wt K s (Some d)" "step_prints (cc_struct (K c)) (f, d) p r" "(step_key p, r) \<in> set (read_steps (R c))"
      have "json_string_ok (step_key p)"
        using keys_plain [of c] s(4) plain_text_ok by (auto simp: list_all_iff plain_key_def)
      moreover have "\<forall>(k, v) \<in> set (json_slot F P p s). k = step_key p \<and> jval_ok v"
        by (rule json_slot_ok [where n = "size s", OF less.hyps s(2) _ _ s(3)])
          (use less.prems s(1) size_list_less [OF s(1), of size] in \<open>auto simp: TR_obj\<close>)
      ultimately show "\<forall>m \<in> set (json_slot F P p s). json_string_ok (fst m) \<and> jval_ok (snd m)" by auto
    qed
    moreover have "json_string_ok ''_self''" by code_simp
    ultimately show ?thesis
      using plain_text_ok [OF self_plain] by (auto simp: TR_obj members_ok_all simp del: json_string_ok.simps)
  qed (simp_all add: json_body_ok)
qed

end

end
