(* ===== verification/JsonOut.thy ===== *)
theory JsonOut
  imports JsonPrints Documents
begin

text \<open>
  Printing a document of the library into a buffer of theory Io: the text is the JSON value of the
  document, and the tokeniser of the reader finds the tokens of that value in it.
\<close>

section \<open>A buffer takes the bytes\<close>

text \<open>The printer looks only at whether the result of \<open>libiodefv2_io_write\<close> is negative.\<close>

definition buffer_writer :: "io writer" where
  "buffer_writer p s = (case io_write s p of (Inl e, _) \<Rightarrow> Inl e | (Inr _, p) \<Rightarrow> Inr p)"

definition buffer_room :: "io \<Rightarrow> nat" where
  "buffer_room p = (if buffer_io p then io_room p else 0)"

interpretation buffer_sink: byte_sink buffer_writer unread buffer_room
proof
  fix s :: string and p assume s: "s \<noteq> []" "length s \<le> buffer_room p"
  then have "buffer_io p" "length s \<le> io_room p" by (auto simp: buffer_room_def split: if_splits)
  then show "\<exists>p'. buffer_writer p s = Inr p' \<and> unread p' = unread p @ s \<and> buffer_room p - length s \<le> buffer_room p'"
    using io_write_buffer [of p s] s(1) by (auto simp: buffer_writer_def buffer_room_def)
qed

interpretation lib_printer: json_printer lib_codes lib_rank lib_bound lib_print lib_read buffer_writer unread buffer_room F
  for F :: "32 word \<Rightarrow> string" ..

section \<open>Printing documents\<close>

lemma print_writes:
  assumes "wt lib_codes t (T_class c)" "printable F t" "float_text_ok F" "size t \<le> n" "live m" "all_ok m"
    "owns m (cells_of t lk)" "buffer_io fd" "length (jtext (json_of F lib_print t)) \<le> io_room fd"
  obtains fd' m' where "obj_print_json lib_print buffer_writer F n c (Some (root t)) fd m = (Inr fd', m')"
    "unread fd' = unread fd @ jtext (json_of F lib_print t)" "ocells m' = ocells m"
proof -
  have "buffer_sink.emits (cells_of t lk) (obj_print_json lib_print buffer_writer F n c (Some (root t)))
      (jtext (json_of F lib_print t))"
    by (rule lib_printer.rendersD [OF lib_printer.obj_renders [OF assms(3)] assms(1,2,4)])
  from buffer_sink.emitsD [OF this assms(5-7), of fd] that show ?thesis
    using assms(8,9) by (auto simp: buffer_room_def quiet_def)
qed

text \<open>
  C37. Printing an object of any class into a buffer with enough room succeeds and appends exactly the
  JSON value of the object: the class name, and a member for every child that is present, in the
  order of the struct, with strings escaped. Memory is unchanged afterwards. The tree must be well
  typed, with data objects whose union holds what their type says.
\<close>

theorem print_writes_json:
  assumes "wt lib_codes t (T_class c)" "printable F t" "float_text_ok F" "size t \<le> n" "live m" "all_ok m"
    "owns m (cells_of t lk)" "buffer_io fd" "length (jtext (json_of F lib_print t)) \<le> io_room fd"
  shows "\<exists>fd' m'. obj_print_json lib_print buffer_writer F n c (Some (root t)) fd m = (Inr fd', m') \<and>
    unread fd' = unread fd @ jtext (json_of F lib_print t) \<and> ocells m' = ocells m"
  by (rule print_writes [OF assms]) blast

definition sample_json :: jval where
  "sample_json = J_obj [(''_self'', J_str ''iodefv2_alternative_id_t''), (''restriction'', J_str ''need-to-know''),
     (''incident_id'', J_arr [J_obj [(''_self'', J_str ''iodefv2_incident_id_t''), (''name'', J_str ''csirt'')]])]"

lemma sample_json_of: "json_of F lib_print (sample b) = sample_json"
  by (simp add: sample_def lib_prints alternative_id_print_json_def incident_id_print_json_def enum_json_def
      alternative_id_restriction_to_string_def enum_to_string_def json_body_def conv_char_def ccode_def sample_json_def)

lemma sample_json_size: "length (jtext sample_json) \<le> 400" "ntok sample_json = 12" "root (sample 0) = 0"
  by (simp_all add: sample_json_def quoted_def sample_def)

definition zero_text :: "32 word \<Rightarrow> string" where
  "zero_text f = ''0''"

lemma zero_text_ok: "float_text_ok zero_text"
proof -
  have "prim_char CHR ''0''" by code_simp
  then show ?thesis by (simp add: float_text_ok_def zero_text_def)
qed

lemma sample_printable: "printable F (sample b)"
  by (simp add: sample_def)

theorem print_writes_json_witness:
  "\<exists>fd' m'. obj_print_json lib_print buffer_writer zero_text 20 68 (Some 0) (sample_io []) (sample_mem [sample 0]) =
      (Inr fd', m') \<and> unread fd' = jtext sample_json"
proof -
  have "length (jtext (json_of zero_text lib_print (sample 0))) \<le> io_room (sample_io [])" "buffer_io (sample_io [])"
    using sample_json_size(1) by (simp_all add: sample_json_of sample_io_ok)
  from print_writes_json [OF sample_ok(1) sample_printable zero_text_ok sample_ok(3) sample_live(1,2) sample_owned(1) this(2,1)]
  show ?thesis unfolding sample_json_of sample_json_size sample_io_ok(2) append_Nil by blast
qed

text \<open>
  C38. What is printed for a document into an empty buffer is one JSON value, whose tokens the
  tokeniser of the reader finds, as long as they fit in its array: printing and tokenising agree for
  every document, whatever its strings contain.
\<close>

theorem printed_document_tokenises:
  assumes "wt lib_codes t (T_class c)" "printable F t" "float_text_ok F" "size t \<le> n" "live m" "all_ok m"
    "owns m (cells_of t lk)" "buffer_io fd" "unread fd = []" "length (jtext (json_of F lib_print t)) \<le> io_room fd"
    "ntok (json_of F lib_print t) \<le> cap"
  shows "\<exists>fd' m'. obj_print_json lib_print buffer_writer F n c (Some (root t)) fd m = (Inr fd', m') \<and>
    jsmn_parse cap (unread fd') jsmn_init = Inr (ntok (json_of F lib_print t), jtoks (json_of F lib_print t) 0 (-1) 0)"
proof -
  obtain fd' m' where p: "obj_print_json lib_print buffer_writer F n c (Some (root t)) fd m = (Inr fd', m')"
    "unread fd' = unread fd @ jtext (json_of F lib_print t)"
    by (rule print_writes [OF assms(1-8,10)])
  moreover have "jval_ok (json_of F lib_print t)" by (rule lib_json.json_of_ok [OF assms(3,1,2)])
  ultimately show ?thesis using jsmn_parses [OF _ assms(11)] assms(9) by auto
qed

theorem printed_document_tokenises_witness:
  "\<exists>fd' m'. obj_print_json lib_print buffer_writer zero_text 20 68 (Some 0) (sample_io []) (sample_mem [sample 0]) =
      (Inr fd', m') \<and> jsmn_parse 1024 (unread fd') jsmn_init = Inr (12, jtoks sample_json 0 (-1) 0)"
proof -
  have "length (jtext (json_of zero_text lib_print (sample 0))) \<le> io_room (sample_io [])" "buffer_io (sample_io [])"
    "ntok (json_of zero_text lib_print (sample 0)) \<le> 1024" "unread (sample_io []) = []"
    using sample_json_size(1,2) by (simp_all add: sample_json_of sample_io_ok)
  from printed_document_tokenises [OF sample_ok(1) sample_printable zero_text_ok sample_ok(3) sample_live(1,2)
      sample_owned(1) this(2,4,1,3)]
  show ?thesis unfolding sample_json_of sample_json_size .
qed

end
