(* ===== verification/JsonAt.thy ===== *)
theory JsonAt
  imports JsonPrints
begin

text \<open>
  Where the tokens and the text of a JSON value lie in what the reader was given, and what the reader
  finds there: keys, strings, numbers and times.
\<close>

section \<open>Values in place\<close>

text \<open>
  The tokens of \<open>v\<close> start at index \<open>i\<close> and its text at position \<open>p\<close>; \<open>par\<close> is the parent of its
  first token. The same for members and for elements.
\<close>

definition toks_at :: "json_data \<Rightarrow> nat \<Rightarrow> token list \<Rightarrow> bool" where
  "toks_at ctrl i ts \<longleftrightarrow> (\<exists>us vs. json_toks ctrl = us @ map jtok_of ts @ vs \<and> length us = i)"

definition text_at :: "json_data \<Rightarrow> nat \<Rightarrow> string \<Rightarrow> bool" where
  "text_at ctrl p s \<longleftrightarrow> (\<exists>xs ys. json_input ctrl = xs @ s @ ys \<and> length xs = p \<and> ends ys)"

definition value_at :: "json_data \<Rightarrow> jval \<Rightarrow> nat \<Rightarrow> int \<Rightarrow> nat \<Rightarrow> bool" where
  "value_at ctrl v p par i \<longleftrightarrow> toks_at ctrl i (jtoks v p par i) \<and> text_at ctrl p (jtext v)"

definition members_at :: "json_data \<Rightarrow> (string \<times> jval) list \<Rightarrow> nat \<Rightarrow> int \<Rightarrow> nat \<Rightarrow> bool" where
  "members_at ctrl ms p par i \<longleftrightarrow> ms = [] \<or> toks_at ctrl i (mtoks ms p par i) \<and> text_at ctrl p (jmembers ms)"

definition elements_at :: "json_data \<Rightarrow> jval list \<Rightarrow> nat \<Rightarrow> int \<Rightarrow> nat \<Rightarrow> bool" where
  "elements_at ctrl vs p par i \<longleftrightarrow> vs = [] \<or> toks_at ctrl i (etoks vs p par i) \<and> text_at ctrl p (jelements vs)"

lemma toks_at_hd: "toks_at ctrl i (t # ts) \<Longrightarrow> jtok_at ctrl i = ret (jtok_of t) \<and> i < length (json_toks ctrl)"
  by (auto simp: toks_at_def jtok_at_def nth_append)

lemma toks_at_append: "toks_at ctrl i (ts @ us) \<Longrightarrow> toks_at ctrl i ts \<and> toks_at ctrl (i + length ts) us"
proof -
  assume "toks_at ctrl i (ts @ us)"
  then obtain xs ys where "json_toks ctrl = xs @ map jtok_of (ts @ us) @ ys" "length xs = i"
    unfolding toks_at_def by blast
  then have "json_toks ctrl = xs @ map jtok_of ts @ (map jtok_of us @ ys)"
    "json_toks ctrl = (xs @ map jtok_of ts) @ map jtok_of us @ ys" "length (xs @ map jtok_of ts) = i + length ts" "length xs = i"
    by simp_all
  then show ?thesis unfolding toks_at_def by blast
qed

lemma toks_at_tl: "toks_at ctrl i (t # ts) \<Longrightarrow> toks_at ctrl (Suc i) ts"
  using toks_at_append [of ctrl i "[t]" ts] by simp

lemma text_at_part: "text_at ctrl p (s @ t @ r) \<Longrightarrow> (\<And>ys. ends ys \<Longrightarrow> ends (r @ ys)) \<Longrightarrow> text_at ctrl (p + length s) t"
proof -
  assume "text_at ctrl p (s @ t @ r)" and e: "\<And>ys. ends ys \<Longrightarrow> ends (r @ ys)"
  then obtain xs ys where "json_input ctrl = xs @ (s @ t @ r) @ ys" "length xs = p" "ends ys"
    unfolding text_at_def by blast
  then have "json_input ctrl = (xs @ s) @ t @ (r @ ys)" "length (xs @ s) = p + length s" "ends (r @ ys)"
    using e by simp_all
  then show ?thesis unfolding text_at_def by blast
qed

lemma text_at_drop: "text_at ctrl p (s @ t) \<Longrightarrow> \<exists>r. drop (p + length s) (json_input ctrl) = t @ r \<and> ends r"
  by (auto simp: text_at_def)

lemma value_at_object: "value_at ctrl (J_obj ms) p par i \<Longrightarrow> members_at ctrl ms (p + 1) (int i) (Suc i) \<and>
    (\<exists>a b. jtok_at ctrl i = ret \<lparr>jtype = JSMN_OBJECT, jstart = a, jend = b, jsize = length ms\<rparr>)"
  using toks_at_hd [of ctrl i] toks_at_tl [of ctrl i] text_at_part [of ctrl p "''{''" "jmembers ms" "''}''"]
  by (fastforce simp: value_at_def members_at_def jtok_of_def)

lemma value_at_array: "value_at ctrl (J_arr vs) p par i \<Longrightarrow> elements_at ctrl vs (p + 1) (int i) (Suc i) \<and>
    (\<exists>a b. jtok_at ctrl i = ret \<lparr>jtype = JSMN_ARRAY, jstart = a, jend = b, jsize = length vs\<rparr>)"
  using toks_at_hd [of ctrl i] toks_at_tl [of ctrl i] text_at_part [of ctrl p "''[''" "jelements vs" "'']''"]
  by (fastforce simp: value_at_def elements_at_def jtok_of_def)

lemma elements_at_Cons: "elements_at ctrl (v # vs) p par i \<Longrightarrow>
    value_at ctrl v p par i \<and> elements_at ctrl vs (p + length (jtext v) + 2) par (i + ntok v)"
proof -
  assume e: "elements_at ctrl (v # vs) p par i"
  then have t: "toks_at ctrl i (jtoks v p par i @ etoks vs (p + length (jtext v) + 2) par (i + ntok v))"
    and x: "text_at ctrl p (jtext v @ (if vs = [] then [] else '', '' @ jelements vs))"
    by (simp_all add: elements_at_def)
  have "text_at ctrl p (jtext v)"
    using text_at_part [of ctrl p "[]" "jtext v"] x by (auto split: if_splits)
  moreover have "vs \<noteq> [] \<Longrightarrow> text_at ctrl (p + length (jtext v) + 2) (jelements vs)"
    using text_at_part [of ctrl p "jtext v @ '', ''" "jelements vs" "[]"] x by (simp add: add.assoc)
  ultimately show ?thesis using toks_at_append [OF t] unfolding value_at_def elements_at_def by simp blast
qed

text \<open>The key of a member is compared with the keys the reader knows.\<close>

lemma members_at_Cons:
  assumes "members_at ctrl ((k, v) # ms) p par i"
  shows "\<exists>j. jtok_at ctrl i = ret j \<and> (\<forall>k'. jsoneq (json_input ctrl) j k' \<longleftrightarrow> k' = k)"
    "i < length (json_toks ctrl)" "value_at ctrl v (p + length k + 4) (int i) (Suc i)"
    "members_at ctrl ms (p + length k + length (jtext v) + 6) par (Suc i + ntok v)"
proof -
  let ?j = "\<lparr>tk_type = JSMN_STRING, tk_start = int (p + 1), tk_end = int (p + 1 + length k), tk_size = 1, tk_parent = par\<rparr>"
  have t: "toks_at ctrl i (?j # jtoks v (p + length k + 4) (int i) (Suc i) @
      mtoks ms (p + length k + length (jtext v) + 6) par (Suc i + ntok v))"
    and x: "text_at ctrl p (quoted k @ '': '' @ jtext v @ (if ms = [] then [] else '', '' @ jmembers ms))"
    using assms by (simp_all add: members_at_def)
  note j = toks_at_hd [OF t]
  then show "i < length (json_toks ctrl)" by simp
  obtain r where r: "drop (p + 1) (json_input ctrl) = k @ r"
    using text_at_drop [of ctrl p "[CHR 0x22]" "k @ [CHR 0x22] @ '': '' @ jtext v @ (if ms = [] then [] else '', '' @ jmembers ms)"] x
    by (auto simp: quoted_def)
  have "jsoneq (json_input ctrl) (jtok_of ?j) k' \<longleftrightarrow> k' = k" for k'
    using r by (auto simp: jsoneq_def jtok_of_def nat_add_distrib)
  then show "\<exists>j. jtok_at ctrl i = ret j \<and> (\<forall>k'. jsoneq (json_input ctrl) j k' \<longleftrightarrow> k' = k)"
    using j by blast
  note u = toks_at_append [OF toks_at_tl [OF t]]
  have "text_at ctrl (p + length (quoted k @ '': '')) (jtext v)"
    by (rule text_at_part) (use x in \<open>auto split: if_splits\<close>)
  moreover have e: "p + length (quoted k @ '': '') = p + length k + 4" by (simp add: quoted_def)
  ultimately have "text_at ctrl (p + length k + 4) (jtext v)" by (simp only: e)
  then show "value_at ctrl v (p + length k + 4) (int i) (Suc i)"
    using u unfolding value_at_def by simp
  have "text_at ctrl (p + length (quoted k @ '': '' @ jtext v @ '', '')) (jmembers ms)" if "ms \<noteq> []"
    using text_at_part [of ctrl p "quoted k @ '': '' @ jtext v @ '', ''" "jmembers ms" "[]"] x that by simp
  moreover have e6: "p + length (quoted k @ '': '' @ jtext v @ '', '') = p + length k + length (jtext v) + 6"
    by (simp add: quoted_def)
  ultimately show "members_at ctrl ms (p + length k + length (jtext v) + 6) par (Suc i + ntok v)"
    using u unfolding members_at_def e6 by auto
qed

text \<open>The top of a document.\<close>

lemma value_at_top: "json_toks ctrl = map jtok_of (jtoks v 0 (-1) 0) \<Longrightarrow> json_input ctrl = jtext v \<Longrightarrow> value_at ctrl v 0 (-1) 0"
  unfolding value_at_def toks_at_def text_at_def by (metis append_Nil append_Nil2 list.size(3) ends_simps(1))

section \<open>Strings and numbers\<close>

lemma string_at:
  assumes "value_at ctrl (J_str b) p par i"
  obtains r where "jtok_at ctrl i = ret \<lparr>jtype = JSMN_STRING, jstart = p + 1, jend = p + 1 + length b, jsize = 0\<rparr>"
    "drop (p + 1) (json_input ctrl) = b @ r"
proof -
  have "jtok_at ctrl i = ret \<lparr>jtype = JSMN_STRING, jstart = p + 1, jend = p + 1 + length b, jsize = 0\<rparr>"
    using assms toks_at_hd [of ctrl i] by (fastforce simp: value_at_def jtok_of_def nat_add_distrib)
  moreover obtain r where "drop (p + 1) (json_input ctrl) = b @ r"
    using text_at_drop [of ctrl p "[CHR 0x22]" "b @ [CHR 0x22]"] assms by (auto simp: value_at_def quoted_def)
  ultimately show ?thesis using that by blast
qed

lemma json_body_empty: "json_body s = [] \<longleftrightarrow> s = []"
  by (cases s) (auto simp: conv_char_def split: if_splits)

lemma unescape_body: "unescape_string out (json_body s @ r) (length (json_body s)) = Inr (out @ s)"
  using unescape_from_body [of _ "[]" s r out] by (simp add: unescape_string_def)

lemma get_string_into_at:
  assumes "value_at ctrl (J_str (json_body s)) p par i" "ocells m a = Some (string_cell [] b)"
  shows "get_string_into ctrl i (Ref_ptr (Some a)) m = (Inr (), if s = [] then m else put_cell a (string_cell s True) m)"
proof -
  obtain r where j: "jtok_at ctrl i = ret \<lparr>jtype = JSMN_STRING, jstart = p + 1, jend = p + 1 + length (json_body s), jsize = 0\<rparr>"
    and d: "drop (p + 1) (json_input ctrl) = json_body s @ r"
    by (rule string_at [OF assms(1)])
  have ls: "load_string (Some a) m = (Inr \<lparr>str_refcount = 1, str_text = [], str_buf = b\<rparr>, m)"
    using assms(2) by (simp add: load_simps)
  show ?thesis
  proof (cases "s = []")
    case True
    then show ?thesis using j by (simp add: get_string_into_def act_bind_def ret_def)
  next
    case False
    then have "json_body s \<noteq> []" by (simp add: json_body_empty)
    then show ?thesis
      using j d unescape_body [of "[]" s r] ls store_Some [OF assms(2)] False
      by (simp add: get_string_into_def act_bind_def ret_def get_string_def lift_res_def)
  qed
qed

lemma get_buf_at:
  assumes "value_at ctrl (J_str s) p par i" "length s < 128" "NUL \<notin> set s"
  shows "get_buf ctrl i = ret s"
proof -
  obtain r where j: "jtok_at ctrl i = ret \<lparr>jtype = JSMN_STRING, jstart = p + 1, jend = p + 1 + length s, jsize = 0\<rparr>"
    and d: "drop (p + 1) (json_input ctrl) = s @ r"
    by (rule string_at [OF assms(1)])
  show ?thesis using d assms(2) cstr_id [OF assms(3)]
    by (simp add: get_buf_def j fun_eq_iff act_bind_def ret_def get_string_copy_def lift_res_def Let_def)
qed

lemma ends_number: "ends s \<Longrightarrow> number_end s"
proof (cases s)
  case (Cons c r)
  assume "ends s"
  then have "c = CHR '','' \<or> c = CHR '']'' \<or> c = CHR ''}''" by (simp add: ends_def Cons)
  moreover have "\<not> is_digit_in 10 CHR '',''" "\<not> is_digit_in 10 CHR '']''" "\<not> is_digit_in 10 CHR ''}''" by code_simp+
  ultimately show ?thesis by (auto simp: number_end_def Cons)
qed (simp add: number_end_def)

lemma get_integer_at:
  fixes v :: "32 word"
  assumes "value_at ctrl (J_prim (nat_dec (unat v))) p par i"
  shows "get_integer ctrl i = ret (int (unat v))"
proof -
  have j: "jtok_at ctrl i = ret \<lparr>jtype = JSMN_PRIMITIVE, jstart = p, jend = p + length (nat_dec (unat v)), jsize = 0\<rparr>"
    using assms toks_at_hd [of ctrl i] by (fastforce simp: value_at_def jtok_of_def nat_add_distrib)
  obtain r where d: "drop p (json_input ctrl) = nat_dec (unat v) @ r" "ends r"
    using text_at_drop [of ctrl p "[]" "nat_dec (unat v)"] assms by (auto simp: value_at_def)
  have "0 \<le> int (unat v)" "int (unat v) < 2 ^ 32" using unsigned_less [of v, where 'a = int] by simp_all
  moreover have "LONG_MIN \<le> 0" "2 ^ 32 \<le> LONG_MAX" by (simp_all add: LONG_MIN_def LONG_MAX_def)
  ultimately have "LONG_MIN \<le> int (unat v)" "int (unat v) \<le> LONG_MAX" by linarith+
  then have "strtol 10 (nat_dec (unat v) @ r) = (int (unat v), length (nat_dec (unat v)), False)"
    using strtol_int_dec [of 10 r "int (unat v)"] ends_number [OF d(2)] by (simp add: int_dec_def)
  then show ?thesis using d(1) by (simp add: get_integer_def j fun_eq_iff act_bind_def ret_def)
qed

section \<open>Times\<close>

definition time_chars :: string where "time_chars = ''0123456789-+:.T''"

lemma digit_time_char: "d < 10 \<Longrightarrow> digit_char d \<in> set time_chars"
proof -
  have "\<forall>d < 10. digit_char d \<in> set time_chars" by code_simp
  then show "d < 10 \<Longrightarrow> digit_char d \<in> set time_chars" by blast
qed

lemma time_text_chars: "set (time_to_string t) \<subseteq> set time_chars"
proof -
  have p: "set (pad2 n) \<subseteq> set time_chars" for n using pad2_chars [of _ n] digit_time_char by blast
  have n: "set (int_dec (int n)) \<subseteq> set time_chars" for n
    using nat_dec_chars [of _ n] digit_time_char by (auto simp: int_dec_def)
  have s: "set ''-'' \<subseteq> set time_chars" "set ''T'' \<subseteq> set time_chars" "set '':'' \<subseteq> set time_chars"
    "set ''.'' \<subseteq> set time_chars" "CHR ''-'' \<in> set time_chars" "CHR ''+'' \<in> set time_chars" by code_simp+
  have "set (fmt_d2 i) \<subseteq> set time_chars" "set (fmt_plus_d2 i) \<subseteq> set time_chars" for i
    using p s(5,6) by (auto simp: fmt_d2_def fmt_plus_d2_def)
  then show ?thesis using p n s(1-4) unfolding time_to_string_def Let_def set_append by (simp only: Un_subset_iff simp_thms)
qed

lemma json_body_id: "\<forall>c \<in> set s. conv_char c = [[c]] \<Longrightarrow> json_body s = s"
  by (induction s) (simp_all add: json_body_def)

lemma time_text_body: "json_body (time_to_string t) = time_to_string t" "NUL \<notin> set (time_to_string t)"
proof -
  have "\<forall>c \<in> set time_chars. conv_char c = [[c]] \<and> c \<noteq> NUL" by code_simp
  then have c: "conv_char c = [[c]]" "c \<noteq> NUL" if "c \<in> set (time_to_string t)" for c
    using that time_text_chars by blast+
  then show "json_body (time_to_string t) = time_to_string t" by (simp add: json_body_id)
  show "NUL \<notin> set (time_to_string t)" using c(2) by blast
qed

lemma nat_dec_length: "n < 10 ^ k \<Longrightarrow> 0 < k \<Longrightarrow> length (nat_dec n) \<le> k"
proof (induction k arbitrary: n)
  case (Suc k)
  show ?case
  proof (cases "n < 10")
    case True
    then show ?thesis by (simp add: nat_dec_small)
  next
    case False
    then have "k \<noteq> 0" using Suc.prems by (cases k) auto
    moreover have "n div 10 < 10 ^ k" using Suc.prems by (simp add: less_mult_imp_div_less mult.commute)
    ultimately show ?thesis using Suc.IH [of "n div 10"] False by (simp add: nat_dec_big)
  qed
qed simp

lemma c_div_le: "0 < b \<Longrightarrow> \<bar>c_div a b\<bar> \<le> \<bar>a\<bar>" and c_mod_le: "0 < b \<Longrightarrow> \<bar>c_mod a b\<bar> \<le> \<bar>a\<bar>"
  using zdiv_mono2 [of "\<bar>a\<bar>" 1 b] zmod_le_nonneg_dividend [of "\<bar>a\<bar>" b]
  by (auto simp: c_div_def c_mod_def abs_mult sgn_if pos_imp_zdiv_nonneg_iff)

lemma time_text_short:
  shows "length (time_to_string t) < 128"
proof -
  have p: "length (pad2 n) \<le> 10" if "n < 10 ^ 10" for n
    using nat_dec_length [OF that] by (simp add: pad2_def nat_dec_small)
  have f: "length (fmt_d2 i) \<le> 11 \<and> length (fmt_plus_d2 i) \<le> 11" if "- (10 ^ 10) < i" "i < 10 ^ 10" for i
    using p [of "nat i"] p [of "nat (- i)"] that by (auto simp: fmt_d2_def fmt_plus_d2_def nat_less_iff)
  have b: "- (10 ^ 10) < x \<and> x < 10 ^ 10" if "- (2 ^ 31) \<le> x" "x \<le> 2 ^ 31" for x :: int using that by simp
  let ?o = "sint (time_gmt_offset t)"
  have "- (2 ^ 31) \<le> ?o" "?o < 2 ^ 31" using sint_ge [of "time_gmt_offset t"] sint_lt [of "time_gmt_offset t"] by simp_all
  then have "\<bar>?o\<bar> \<le> 2 ^ 31" by linarith
  then have o: "- (2 ^ 31) \<le> c_div ?o 3600" "c_div ?o 3600 \<le> 2 ^ 31"
    "- (2 ^ 31) \<le> c_div (c_mod ?o 3600) 60" "c_div (c_mod ?o 3600) 60 \<le> 2 ^ 31"
    using c_div_le [of 3600 ?o] c_mod_le [of 3600 ?o] c_div_le [of 60 "c_mod ?o 3600"] by linarith+
  define u where "u = gmtime (unat (time_sec t + time_gmt_offset t))"
  have u: "tm_ok u" unfolding u_def by (rule gmtime_ok(1)) (use unsigned_less [of "time_sec t + time_gmt_offset t"] in simp)
  have "length (int_dec (int (tm_year u))) \<le> 4"
    using nat_dec_length [of "tm_year u" 4] u by (simp add: int_dec_def tm_ok_def)
  moreover have "length (fmt_d2 (int (tm_mon u))) \<le> 11" "length (fmt_d2 (int (tm_mday u))) \<le> 11"
    "length (fmt_d2 (tm_hour u)) \<le> 11" "length (fmt_d2 (tm_min u)) \<le> 11" "length (fmt_d2 (tm_sec u)) \<le> 11"
    using u by (auto simp: tm_ok_def intro!: conjunct1 [OF f])
  moreover have "length (fmt_plus_d2 (c_div ?o 3600)) \<le> 11" "length (fmt_d2 (c_div (c_mod ?o 3600) 60)) \<le> 11"
    using f b o by simp_all
  moreover have "length (pad2 (unat (time_usec t))) \<le> 10"
    by (rule p) (use unsigned_less [of "time_usec t", where 'a = nat] in simp)
  ultimately show ?thesis
    by (simp add: time_to_string_def Let_def u_def [symmetric])
qed

lemma read_time_at:
  assumes v: "value_at ctrl (J_str (json_body (time_to_string
      \<lparr>time_refcount = 1, time_sec = x, time_usec = y, time_gmt_offset = z\<rparr>))) p par i"
    and t: "usec_ok y" "offset_ok z" and m: "all_ok m"
  shows "read_time mk ctrl i m = (Inr (Some (onext m)), with_cell m (time_cell x y z))"
proof -
  let ?t = "\<lparr>time_refcount = 1, time_sec = x, time_usec = y, time_gmt_offset = z\<rparr>"
  have "get_buf ctrl i = ret (time_to_string ?t)"
    using get_buf_at [OF v [unfolded time_text_body(1)] time_text_short time_text_body(2)] .
  moreover have "time_set_from_string mk (Some (onext m)) (time_to_string ?t) (with_cell m (time_cell 0 0 0)) =
      (Inr (), with_cell m (time_cell x y z))"
    using time_parse_text [of ?t mk] t
    by (simp add: time_set_from_string_def time_text_is_cstr act_simps lift_res_def)
  ultimately show ?thesis
    by (simp add: read_time_def time_new_from_string_def act_bind_def ret_def time_new_app [OF m] act_try_def)
qed

section \<open>Enumerations\<close>

definition values_nonneg :: "(int \<Rightarrow> string option) \<Rightarrow> bool" where
  "values_nonneg str \<longleftrightarrow> (\<forall>v s. str v = Some s \<longrightarrow> 0 \<le> v)"

lemma enum_functions_nonneg: "list_all (\<lambda>(_, _, str). values_nonneg str) enum_functions"
proof -
  have "values_nonneg (enum_to_string tbl)" for tbl by (simp add: values_nonneg_def enum_to_string_def)
  then show ?thesis by (simp add: enum_functions_def to_string_defs)
qed

lemma enum_pair_reads:
  assumes "enum_pair num str" "str (sint v) = Some s"
  shows "enum_number num s = sint v" "0 \<le> sint v"
proof -
  have "\<forall>e \<in> set enum_functions. enum_pair_ok (fst (snd e)) (snd (snd e))"
    by (simp add: enum_functions_def enums_ok)
  then have ok: "enum_pair_ok num str" using assms(1) by (force simp: enum_pair_def)
  then have "num (Some s) = Inr (sint v)" using assms(2) by (auto simp: enum_pair_ok_def)
  then show "enum_number num s = sint v" by (simp add: enum_number_def)
  show "0 \<le> sint v"
    using enum_functions_nonneg assms by (fastforce simp: enum_pair_def list_all_iff values_nonneg_def)
qed

end
