(* ===== verification/JsonBack.thy ===== *)
theory JsonBack
  imports JsonAt JsonOut
begin

text \<open>
  Reading what was printed: the reader makes a tree with the contents of the one that was printed
  (locale \<open>json_codes\<close>), for trees without data objects.
\<close>

section \<open>Actions on a tree\<close>

text \<open>
  The action returns a value and changes the tree \<open>dst\<close> into another one at the same address, and
  \<open>Q\<close> holds of the value and the new tree.
\<close>

definition sound :: "omem \<Rightarrow> tree \<Rightarrow> (addr \<times> string) option \<Rightarrow> bool" where
  "sound m t lk \<longleftrightarrow> live m \<and> all_ok m \<and> owns m (cells_of t lk)"

definition brings :: "'a act \<Rightarrow> omem \<Rightarrow> tree \<Rightarrow> (addr \<times> string) option \<Rightarrow> ('a \<Rightarrow> tree \<Rightarrow> bool) \<Rightarrow> bool" where
  "brings Y m dst lk Q \<longleftrightarrow> (\<exists>x u m'. Y m = (Inr x, m') \<and> evolves m (addrs dst) (cells_of u lk) m' \<and>
     root u = root dst \<and> Q x u)"

lemma bringsI:
  "Y m = (Inr x, m') \<Longrightarrow> evolves m (addrs dst) (cells_of u lk) m' \<Longrightarrow> root u = root dst \<Longrightarrow> Q x u \<Longrightarrow> brings Y m dst lk Q"
  unfolding brings_def by blast

lemma sound_evolves: "sound m t lk \<Longrightarrow> evolves m (addrs t) (cells_of u lk) m' \<Longrightarrow> sound m' u lk"
  unfolding sound_def
  by (metis all_ok_evolves cells_addrs evolves_owns live_evolves)

lemma brings_mono: "brings Y m dst lk Q \<Longrightarrow> (\<And>x u. Q x u \<Longrightarrow> Q' x u) \<Longrightarrow> brings Y m dst lk Q'"
  unfolding brings_def by blast

lemma brings_pure: "sound m dst lk \<Longrightarrow> Y m = (Inr x, m) \<Longrightarrow> Q x dst \<Longrightarrow> brings Y m dst lk Q"
  by (rule bringsI [where u = dst]) (use evolves_refl [of m "cells_of dst lk"] in \<open>auto simp: sound_def cells_addrs [of _ lk]\<close>)

lemma brings_ret: "sound m dst lk \<Longrightarrow> Q x dst \<Longrightarrow> brings (ret x) m dst lk Q"
  by (rule brings_pure) (simp_all add: ret_def)

lemma brings_bind:
  assumes "sound m dst lk" "brings Y m dst lk Q"
    and "\<And>x u m'. sound m' u lk \<Longrightarrow> root u = root dst \<Longrightarrow> Q x u \<Longrightarrow> brings (Z x) m' u lk Q'"
  shows "brings (act_bind Y Z) m dst lk Q'"
proof -
  obtain x u m1 where 1: "Y m = (Inr x, m1)" "evolves m (addrs dst) (cells_of u lk) m1" "root u = root dst" "Q x u"
    using assms(2) unfolding brings_def by blast
  obtain y w m2 where 2: "Z x m1 = (Inr y, m2)" "evolves m1 (addrs u) (cells_of w lk) m2" "root w = root u" "Q' y w"
    using assms(3) [OF sound_evolves [OF assms(1) 1(2)] 1(3,4)] unfolding brings_def by blast
  have "evolves m (addrs dst) (cells_of w lk) m2"
    using assms(1) evolves_trans [OF _ _ cells_addrs [of _ lk] 1(2) cells_addrs [of _ lk] 2(2)] by (simp add: sound_def)
  then show ?thesis
    by (intro bringsI [where u = w]) (use 1 2 in \<open>simp_all add: act_bind_def\<close>)
qed

lemma brings_then:
  assumes "sound m dst lk" "brings Y m dst lk (\<lambda>_. Q)"
    and "\<And>u m'. sound m' u lk \<Longrightarrow> root u = root dst \<Longrightarrow> Q u \<Longrightarrow> brings Z m' u lk Q'"
  shows "brings (act_then Y Z) m dst lk Q'"
  unfolding act_then_def by (rule brings_bind [OF assms(1,2)]) (use assms(3) in auto)

lemma brings_bind_pure:
  assumes "Y m = (Inr x, m)" "brings (Z x) m dst lk Q"
  shows "brings (act_bind Y Z) m dst lk Q"
  using assms unfolding brings_def by (simp add: act_bind_def)

section \<open>Actions on children\<close>

lemma sound_child: "sound m (TR_obj q c (xs @ TS_ptr f t # ys)) lk \<Longrightarrow> sound m t None"
  by (simp add: sound_def owns_Cons owns_append)

lemma brings_child:
  assumes "sound m (TR_obj q c (xs @ TS_ptr f t # ys)) lk" "brings Y m t None Q"
  shows "brings Y m (TR_obj q c (xs @ TS_ptr f t # ys)) lk (\<lambda>x u. \<exists>t'. u = TR_obj q c (xs @ TS_ptr f t' # ys) \<and> Q x t')"
proof -
  obtain x u m1 where 1: "Y m = (Inr x, m1)" "evolves m (addrs t) (cells_of u None) m1" "root u = root t" "Q x u"
    using assms(2) unfolding brings_def by blast
  show ?thesis
    by (rule bringsI [where x = x and m' = m1 and u = "TR_obj q c (xs @ TS_ptr f u # ys)"])
      (use assms(1) 1(1,4) replace_child [OF _ _ 1(2,3)] in \<open>auto simp: sound_def\<close>)
qed

text \<open>The last element of a list.\<close>

lemma sound_element: "sound m (TR_obj q c (xs @ TS_list f (ts @ [t]) # ys)) lk \<Longrightarrow> sound m t (Some (q, f))"
  by (simp add: sound_def owns_Cons owns_append)

lemma replace_element:
  assumes "live m" "owns m (cells_of (TR_obj q c (xs @ TS_list f (ts @ [t]) # ys)) lk)"
    and "evolves m (addrs t) (cells_of t' (Some (q, f))) m'" "root t' = root t"
  shows "evolves m (addrs (TR_obj q c (xs @ TS_list f (ts @ [t]) # ys)))
    (cells_of (TR_obj q c (xs @ TS_list f (ts @ [t']) # ys)) lk) m'"
proof -
  have "fields_of (xs @ TS_list f (ts @ [t]) # ys) = fields_of (xs @ TS_list f (ts @ [t']) # ys)"
    by (simp add: fields_of_def assms(4))
  then show ?thesis
    by (intro evolves_part [OF assms(1,2) _ assms(3), where ss = "cells_of t (Some (q, f))" and
          ys = "(q, obj_cell c lk (fields_of (xs @ TS_list f (ts @ [t]) # ys))) # slots_cells q xs @ list_cells q f ts @ slots_cells q ys"])
      (simp_all add: fst_cells slots_cells_addrs list_cells_addrs)
qed

lemma brings_element:
  assumes "sound m (TR_obj q c (xs @ TS_list f (ts @ [t]) # ys)) lk" "brings Y m t (Some (q, f)) Q"
  shows "brings Y m (TR_obj q c (xs @ TS_list f (ts @ [t]) # ys)) lk
    (\<lambda>x u. \<exists>t'. u = TR_obj q c (xs @ TS_list f (ts @ [t']) # ys) \<and> Q x t')"
proof -
  obtain x u m1 where 1: "Y m = (Inr x, m1)" "evolves m (addrs t) (cells_of u (Some (q, f))) m1" "root u = root t" "Q x u"
    using assms(2) unfolding brings_def by blast
  show ?thesis
    by (rule bringsI [where x = x and m' = m1 and u = "TR_obj q c (xs @ TS_list f (ts @ [u]) # ys)"])
      (use assms(1) 1(1,4) replace_element [OF _ _ 1(2,3)] in \<open>auto simp: sound_def\<close>)
qed

section \<open>New children\<close>

context object_codes
begin

definition fresh_tree :: "ty \<Rightarrow> tree \<Rightarrow> bool" where
  "fresh_tree ty t \<longleftrightarrow> wt K t ty \<and> blank K t \<and> complete K t \<and> size t \<le> bound"

lemma leaf_new_makes:
  assumes "live m" "all_ok m" "bound \<le> n"
  shows "makes (leaf_new ty (obj_new K n)) m (fresh_tree ty)"
proof -
  have "maker_of (leaf_new ty (obj_new K n)) ty bound"
  proof (rule leaf_maker)
    fix c assume ty: "ty = T_class c"
    have r: "rank c \<le> bound" by (rule rank_bound)
    then have "maker_of (obj_new K n c) (T_class c) (rank c)" using assms(3) by (intro new_makes) simp
    then show "maker_of (obj_new K n c) ty bound"
      unfolding maker_of_def ty by (blast intro: makes_mono le_trans [OF _ r])
  qed
  then show ?thesis using assms unfolding maker_of_def fresh_tree_def by blast
qed

lemma maker_ptr_brings:
  assumes s: "sound m (TR_obj q c (xs @ s # ys)) lk" "distinct (map fname (xs @ s # ys))" "bound \<le> n"
    and f: "s = TS_null f \<or> (\<exists>t. s = TS_ptr f t \<and> fresh_tree ty t)"
  shows "brings (run_maker K n (Some q) (Maker_ptr ty f) k) m (TR_obj q c (xs @ s # ys)) lk
    (\<lambda>r u. \<exists>t. r = Ref_ptr (Some (root t)) \<and> u = TR_obj q c (xs @ TS_ptr f t # ys) \<and> fresh_tree ty t)"
  using f
proof
  assume "\<exists>t. s = TS_ptr f t \<and> fresh_tree ty t"
  then obtain t where t: "s = TS_ptr f t" "fresh_tree ty t" by blast
  have "get_ptr (Some q) f m = (Inr (Some (root t)), m)"
    using get_ptr_slot(1) [OF _ s(2)] s(1) t(1) by (auto simp: sound_def)
  then have "run_maker K n (Some q) (Maker_ptr ty f) k m = (Inr (Ref_ptr (Some (root t))), m)"
    by (simp add: act_bind_def act_then_def ret_def)
  then show ?thesis using t by (intro brings_pure [OF s(1)]) auto
next
  assume t: "s = TS_null f"
  have l: "live m" "all_ok m" "owns m (cells_of (TR_obj q c (xs @ TS_null f # ys)) lk)" using s(1) by (simp_all add: sound_def t)
  obtain t m1 where m1: "leaf_new ty (obj_new K n) m = (Inr (Some (root t), Inr ()), m1)" "evolves m [] (cells_of t None) m1"
    "fresh_tree ty t" using leaf_new_makes [OF l(1,2) s(3)] unfolding makes_def by blast
  obtain m2 where m2: "set_slot (Some q) f (S_ptr (Some (root t))) m1 = (Inr (), m2)"
    "evolves m (addrs (TR_obj q c (xs @ TS_null f # ys))) (cells_of (TR_obj q c (xs @ TS_ptr f t # ys)) lk) m2"
    using set_child [OF l(1,3) m1(2)] s(2) t by auto
  have "owns m2 (cells_of (TR_obj q c (xs @ TS_ptr f t # ys)) lk)" by (rule evolves_owns [OF m2(2)])
  then have "get_ptr (Some q) f m2 = (Inr (Some (root t)), m2)"
    by (rule get_ptr_slot(1)) (use s(2) t in auto)
  moreover have "get_ptr (Some q) f m = (Inr None, m)"
    by (rule get_ptr_slot(2) [OF l(3)]) (use s(2) t in auto)
  ultimately have "run_maker K n (Some q) (Maker_ptr ty f) k m = (Inr (Ref_ptr (Some (root t))), m2)"
    using m1(1) m2(1) by (simp add: act_bind_def act_then_def ret_def call_out_def lift_res_def)
  then show ?thesis using m2(2) m1(3) by (intro bringsI [where u = "TR_obj q c (xs @ TS_ptr f t # ys)"]) (auto simp: t)
qed

lemma get_pointer_made_brings:
  assumes "sound m d lk" "brings Y m d lk (\<lambda>r u. \<exists>t. r = Ref_ptr (Some (root t)) \<and> Q t u)"
  shows "brings (get_pointer_made Y) m d lk (\<lambda>p u. \<exists>t. p = Some (root t) \<and> Q t u)"
  unfolding get_pointer_made_def
  by (rule brings_bind [OF assms]) (auto intro!: brings_ret)

lemma maker_listed_brings:
  assumes s: "sound m (TR_obj q c (xs @ TS_list f ts # ys)) lk" "distinct (map fname (xs @ TS_list f ts # ys))" "bound \<le> n"
  shows "brings (run_maker K n (Some q) (Maker_listed c' f) LIST_APPEND) m (TR_obj q c (xs @ TS_list f ts # ys)) lk
    (\<lambda>r u. \<exists>t. r = Ref_ptr (Some (root t)) \<and> u = TR_obj q c (xs @ TS_list f (ts @ [t]) # ys) \<and> fresh_tree (T_class c') t)"
proof -
  have l: "live m" "all_ok m" "owns m (cells_of (TR_obj q c (xs @ TS_list f ts # ys)) lk)" using s(1) by (simp_all add: sound_def)
  obtain t m1 where m1: "obj_new K n c' m = (Inr (Some (root t), Inr ()), m1)" "evolves m [] (cells_of t None) m1"
    "fresh_tree (T_class c') t" using leaf_new_makes [OF l(1,2) s(3), of "T_class c'"] unfolding makes_def leaf_new_def by auto
  have w: "wt K t (T_class c')" using m1(3) by (simp add: fresh_tree_def)
  obtain m2 where m2: "list_put q f (length ts) (root t) m1 = (Inr (), m2)"
    "evolves m (addrs (TR_obj q c (xs @ TS_list f ts # ys))) (cells_of (TR_obj q c (xs @ TS_list f (ts @ [t]) # ys)) lk) m2"
    using insert_child(2) [OF l(1,3) m1(2) w s(2), of "length ts"] by auto
  have "run_maker K n (Some q) (Maker_listed c' f) LIST_APPEND m = (Inr (Ref_ptr (Some (root t))), m2)"
    using m1(1) m2(1) insert_child(1) [OF l(1,3) m1(2) w s(2)]
    by (simp add: act_bind_def act_then_def ret_def list_insert_pos_def insert_at_def LIST_APPEND_def)
  then show ?thesis using m2(2) m1(3) by (intro bringsI [where u = "TR_obj q c (xs @ TS_list f (ts @ [t]) # ys)"]) auto
qed

end

section \<open>Setting fields\<close>

text \<open>Slots that are equal up to the flags that copying ignores.\<close>

definition same_flag :: "tslot \<Rightarrow> tslot \<Rightarrow> bool" where
  "same_flag u v \<longleftrightarrow> u = v \<or> (\<exists>f x y. u = TS_ignored f x \<and> v = TS_ignored f y)"

lemma same_flag_refl [simp]: "same_flag u u"
  by (simp add: same_flag_def)

lemma same_flags_refl: "list_all2 same_flag us us"
  by (simp add: list_all2_refl)

lemma same_flag_name: "same_flag u v \<Longrightarrow> fname v = fname u"
  by (auto simp: same_flag_def)

lemma same_flags_names: "list_all2 same_flag us vs \<Longrightarrow> map fname vs = map fname us"
  by (induction rule: list_all2_induct) (auto dest: same_flag_name)

lemma same_flag_trans: "same_flag u v \<Longrightarrow> same_flag v w \<Longrightarrow> same_flag u w"
  by (auto simp: same_flag_def)

lemma same_flags_trans: "list_all2 same_flag us vs \<Longrightarrow> list_all2 same_flag vs ws \<Longrightarrow> list_all2 same_flag us ws"
  by (rule list_all2_trans [OF same_flag_trans])

lemma set_plain_brings:
  assumes "sound m (TR_obj q c (xs @ s # ys)) lk" "distinct (map fname (xs @ s # ys))"
    "slot_cells s q = []" "slot_cells s' q = []" "fname s' = fname s"
  shows "brings (set_slot (Some q) (fname s) (slot_of s')) m (TR_obj q c (xs @ s # ys)) lk (\<lambda>_ u. u = TR_obj q c (xs @ s' # ys))"
proof -
  have l: "live m" "owns m (cells_of (TR_obj q c (xs @ s # ys)) lk)" using assms(1) by (simp_all only: sound_def)
  from set_plain [OF l assms(3-5,2)]
  obtain m' where "set_slot (Some q) (fname s) (slot_of s') m = (Inr (), m')"
    "evolves m (addrs (TR_obj q c (xs @ s # ys))) (cells_of (TR_obj q c (xs @ s' # ys)) lk) m'"
    by blast
  then show ?thesis by (rule bringsI) simp_all
qed

lemma set_flag_brings:
  assumes "sound m (TR_obj q c (xs @ s # ys)) lk" "distinct (map fname (xs @ s # ys))" "TS_ignored g x \<in> set (xs @ ys)"
  shows "brings (set_slot (Some q) g (S_int 1)) m (TR_obj q c (xs @ s # ys)) lk
    (\<lambda>_ u. \<exists>xs' ys'. u = TR_obj q c (xs' @ s # ys') \<and> list_all2 same_flag xs xs' \<and> list_all2 same_flag ys ys')"
proof -
  have flag: "brings (set_slot (Some q) g (S_int 1)) m (TR_obj q c (as @ TS_ignored g x # bs)) lk
      (\<lambda>_ u. u = TR_obj q c (as @ TS_ignored g 1 # bs))" if "xs @ s # ys = as @ TS_ignored g x # bs" for as bs
    using set_plain_brings [of m q c as "TS_ignored g x" bs lk "TS_ignored g 1"] assms(1,2) that by simp
  have f: "same_flag (TS_ignored g x) (TS_ignored g 1)" by (simp add: same_flag_def)
  from assms(3) consider "TS_ignored g x \<in> set xs" | "TS_ignored g x \<in> set ys" by auto
  then show ?thesis
  proof cases
    case 1
    then obtain as bs where xs: "xs = as @ TS_ignored g x # bs" by (meson split_list)
    have "list_all2 same_flag xs (as @ TS_ignored g 1 # bs)"
      using f same_flags_refl by (simp add: xs list_all2_append)
    moreover have "brings (set_slot (Some q) g (S_int 1)) m (TR_obj q c (xs @ s # ys)) lk
        (\<lambda>_ u. u = TR_obj q c ((as @ TS_ignored g 1 # bs) @ s # ys))"
      using flag [of as "bs @ s # ys"] by (simp add: xs)
    ultimately show ?thesis by (elim brings_mono) (use same_flags_refl in blast)
  next
    case 2
    then obtain as bs where ys: "ys = as @ TS_ignored g x # bs" by (meson split_list)
    have "list_all2 same_flag ys (as @ TS_ignored g 1 # bs)"
      using f same_flags_refl by (simp add: ys list_all2_append)
    moreover have "brings (set_slot (Some q) g (S_int 1)) m (TR_obj q c (xs @ s # ys)) lk
        (\<lambda>_ u. u = TR_obj q c (xs @ s # (as @ TS_ignored g 1 # bs)))"
      using flag [of "xs @ s # as" bs] by (simp add: ys)
    ultimately show ?thesis by (elim brings_mono) (use same_flags_refl in blast)
  qed
qed

lemma set_int_brings:
  assumes s: "sound m (TR_obj q c (xs @ TS_int f w # ys)) lk" "distinct (map fname (xs @ TS_int f w # ys))"
    and i: "sets_int st f i" and flag: "\<And>g. map_of st g = Some F_ignored \<Longrightarrow> \<exists>x. TS_ignored g x \<in> set (xs @ ys)"
  shows "brings (run_setter K n (Some q) i (Arg_int v)) m (TR_obj q c (xs @ TS_int f w # ys)) lk
    (\<lambda>_ u. \<exists>xs' ys'. u = TR_obj q c (xs' @ TS_int f v # ys') \<and> list_all2 same_flag xs xs' \<and> list_all2 same_flag ys ys')"
proof -
  have b: "brings (set_slot (Some q) f (S_int v)) m (TR_obj q c (xs @ TS_int f w # ys)) lk
      (\<lambda>_ u. u = TR_obj q c (xs @ TS_int f v # ys))"
    using set_plain_brings [OF s, of "TS_int f v"] by simp
  show ?thesis
  proof (cases i)
    case (Setter_int g)
    then have "g = f" using i by simp
    then show ?thesis using b by (simp add: Setter_int) (elim brings_mono, use same_flags_refl in blast)
  next
    case (Setter_int_flag h g)
    then have g: "h = f" "map_of st g = Some F_ignored" using i by simp_all
    obtain x where x: "TS_ignored g x \<in> set (xs @ ys)" using flag [OF g(2)] by blast
    have "brings (act_then (set_slot (Some q) f (S_int v)) (set_slot (Some q) g (S_int 1))) m
        (TR_obj q c (xs @ TS_int f w # ys)) lk
        (\<lambda>_ u. \<exists>xs' ys'. u = TR_obj q c (xs' @ TS_int f v # ys') \<and> list_all2 same_flag xs xs' \<and> list_all2 same_flag ys ys')"
      by (rule brings_then [OF s(1) b]) (use set_flag_brings [OF _ _ x] s(2) in auto)
    then show ?thesis by (simp add: Setter_int_flag g)
  qed (use i in simp_all)
qed

lemma set_optional_brings:
  assumes "sound m (TR_obj q c (xs @ TS_opt f b w # ys)) lk" "distinct (map fname (xs @ TS_opt f b w # ys))"
  shows "brings (run_setter K n (Some q) (Setter_optional f) (Arg_int v)) m (TR_obj q c (xs @ TS_opt f b w # ys)) lk
    (\<lambda>_ u. u = TR_obj q c (xs @ TS_opt f True v # ys))"
  using set_plain_brings [OF assms, of "TS_opt f True v"] by simp

lemma act_then_assoc: "act_bind Y (\<lambda>x. act_then (S x) Z) = act_then (act_bind Y S) Z"
  by (rule ext) (auto simp: act_then_def act_bind_def split: prod.split sum.split)

text \<open>A child made before takes the place of a child that is destroyed.\<close>

lemma swap_child:
  assumes l: "live m" "owns m (cells_of (TR_obj q c (xs @ TS_ptr f t0 # ys)) lk)" "distinct (map fname (xs @ TS_ptr f t0 # ys))"
    and t: "evolves m [] (cells_of t None) m1" and D: "D (Some (root t0)) m1 = (Inr (), m2)" "evolves m1 (addrs t0) [] m2"
  shows "\<exists>m'. act_then (D (Some (root t0))) (set_slot (Some q) f (S_ptr (Some (root t)))) m1 = (Inr (), m') \<and>
    evolves m (addrs (TR_obj q c (xs @ TS_ptr f t0 # ys))) (cells_of (TR_obj q c (xs @ TS_ptr f t # ys)) lk) m'"
proof -
  let ?x = "\<lparr>obj_class = c, obj_refcount = 1, obj_link = lk, obj_fields = fields_of (xs @ TS_ptr f t0 # ys)\<rparr>"
  let ?c = "obj_cell c lk (fields_of (xs @ TS_ptr f t # ys))"
  let ?C = "cells_of (TR_obj q c (xs @ TS_ptr f t0 # ys)) lk"
  let ?r = "slots_cells q xs @ slots_cells q ys @ cells_of t None"
  have e1: "evolves m (map fst ?C) (?C @ cells_of t None) m1" by (rule evolves_new [OF l(1,2) t])
  have l1: "live m1" and o1: "owns m1 (?C @ cells_of t None)"
    by (rule live_evolves [OF l(1,2) e1], rule evolves_owns [OF e1])
  have e2: "evolves m1 (map fst (?C @ cells_of t None)) ((q, C_object ?x) # ?r) m2"
    by (rule evolves_part [OF l1 o1 _ D(2), where ss = "cells_of t0 None" and ys = "(q, C_object ?x) # ?r"])
      (simp_all add: fst_cells)
  have l2: "live m2" and o2: "owns m2 ((q, C_object ?x) # ?r)"
    by (rule live_evolves [OF l1 o1 e2], rule evolves_owns [OF e2])
  have q: "ocells m2 q = Some (C_object ?x)" using o2 by (simp add: owns_Cons)
  have c: "C_object (with_field ?x f (S_ptr (Some (root t)))) = ?c"
    using fields_of_update [OF l(3), of "TS_ptr f t"] by (simp add: with_field_def)
  let ?m = "put_cell q ?c m2"
  have e3: "evolves m2 (map fst ((q, C_object ?x) # ?r)) (cells_of (TR_obj q c (xs @ TS_ptr f t # ys)) lk) ?m"
    by (rule evolves_part [OF l2 o2 _ evolves_put [OF q, of ?c], where ss = "[(q, C_object ?x)]" and ys = ?r]) simp_all
  have "evolves m (addrs (TR_obj q c (xs @ TS_ptr f t0 # ys))) (cells_of (TR_obj q c (xs @ TS_ptr f t # ys)) lk) ?m"
    by (rule evolves_trans [OF l(1,2) cells_addrs [of _ lk] evolves_trans [OF l(1,2) cells_addrs [of _ lk]
          e1 [folded cells_addrs [of _ lk]] refl e2] refl e3])
  moreover have "act_then (D (Some (root t0))) (set_slot (Some q) f (S_ptr (Some (root t)))) m1 = (Inr (), ?m)"
    using D(1) set_slot_app [OF q] by (simp add: act_then_def act_bind_def c)
  ultimately show ?thesis by blast
qed

context object_codes
begin

lemma set_child_brings:
  assumes s: "sound m (TR_obj q c (xs @ s # ys)) lk" "distinct (map fname (xs @ s # ys))"
    and f: "s = TS_null f \<or> (\<exists>t0. s = TS_ptr f t0 \<and> wt K t0 ty \<and> size t0 \<le> n)"
    and Y: "Y m = (Inr (Some (root t)), m1)" "evolves m [] (cells_of t None) m1"
  shows "brings (act_bind Y (\<lambda>p. run_setter K n (Some q) (Setter_ptr ty f) (Arg_ptr p))) m (TR_obj q c (xs @ s # ys)) lk
    (\<lambda>_ u. u = TR_obj q c (xs @ TS_ptr f t # ys))"
proof -
  let ?C = "cells_of (TR_obj q c (xs @ s # ys)) lk"
  have l: "live m" "owns m ?C" using s(1) by (simp_all only: sound_def)
  have e1: "evolves m (map fst ?C) (?C @ cells_of t None) m1" by (rule evolves_new [OF l Y(2)])
  have l1: "live m1" and o1: "owns m1 ?C"
    using live_evolves [OF l e1] evolves_owns [OF e1] by (simp_all only: owns_append)
  have "\<exists>m'. run_setter K n (Some q) (Setter_ptr ty f) (Arg_ptr (Some (root t))) m1 = (Inr (), m') \<and>
      evolves m (addrs (TR_obj q c (xs @ s # ys))) (cells_of (TR_obj q c (xs @ TS_ptr f t # ys)) lk) m'"
    using f
  proof
    assume n: "s = TS_null f"
    have "get_ptr (Some q) f m1 = (Inr None, m1)" by (rule get_ptr_slot(2) [OF o1 s(2)]) (simp add: n)
    then show ?thesis using set_child [OF l(1) l(2) [unfolded n] Y(2) s(2) [unfolded n]]
      by (simp add: n act_bind_def act_then_def ret_def)
  next
    assume "\<exists>t0. s = TS_ptr f t0 \<and> wt K t0 ty \<and> size t0 \<le> n"
    then obtain t0 where n: "s = TS_ptr f t0" "wt K t0 ty" "size t0 \<le> n" by blast
    have g: "get_ptr (Some q) f m1 = (Inr (Some (root t0)), m1)" by (rule get_ptr_slot(1) [OF o1 s(2)]) (simp add: n)
    have "owns m1 (cells_of t0 None)" using o1 by (simp add: n owns_Cons owns_append)
    moreover have "destroys K (leaf_destroy ty (obj_destroy K n)) ty n" by (rule leaf_destroys) (rule obj_destroys)
    ultimately obtain m2 where D: "leaf_destroy ty (obj_destroy K n) (Some (root t0)) m1 = (Inr (), m2)"
      "evolves m1 (addrs t0) [] m2" using destroysD [OF _ n(2,3) l1] by metis
    from swap_child [where D = "leaf_destroy ty (obj_destroy K n)", OF l(1) l(2) [unfolded n(1)] s(2) [unfolded n(1)] Y(2) D] g
    show ?thesis by (simp add: n(1) act_bind_def)
  qed
  then show ?thesis
    using Y(1) unfolding brings_def by (fastforce simp: act_bind_def)
qed

end

end
