(* ===== verification/JsonTrip.thy ===== *)
theory JsonTrip
  imports JsonBack
begin

text \<open>
  Reading what was printed: for every class, the reader fills a new object with the contents of the
  object that was printed, when that has no data objects (\<open>readable\<close>).
\<close>

section \<open>What survives\<close>

text \<open>
  The contents that the printed text determines. Data objects are left out: their text does not say
  what they are. Times must have the range that their text keeps. A number that is not optional is
  read back only as an enumeration; an enumeration without a string is not printed, so it must be
  zero or, when optional, unset; and the value of an unset number is not printed.
\<close>

fun readable :: "print_codes \<Rightarrow> tree \<Rightarrow> bool" and
  fields_readable :: "print_codes \<Rightarrow> print_step list \<Rightarrow> tslot list \<Rightarrow> bool" and
  slot_readable :: "print_codes \<Rightarrow> print_step \<Rightarrow> tslot \<Rightarrow> bool" where
  "readable P (TR_string a s b) \<longleftrightarrow> True"
| "readable P (TR_time a x y z) \<longleftrightarrow> usec_ok y \<and> offset_ok z"
| "readable P (TR_data a w k n pl) \<longleftrightarrow> False"
| "readable P (TR_obj a c ss) \<longleftrightarrow> fields_readable P (print_steps (P c)) ss"
| "fields_readable P ps [] \<longleftrightarrow> True"
| "fields_readable P ps (s # ss) \<longleftrightarrow> (case s of
     TS_ignored f v \<Rightarrow> fields_readable P ps ss
   | _ \<Rightarrow> (case ps of [] \<Rightarrow> False | p # ps \<Rightarrow> slot_readable P p s \<and> fields_readable P ps ss))"
| "slot_readable P p (TS_null f) \<longleftrightarrow> True"
| "slot_readable P p (TS_ptr f t) \<longleftrightarrow> readable P t"
| "slot_readable P p (TS_int f v) \<longleftrightarrow> v = 0 \<or> (case p of Print_enum k g str \<Rightarrow> str (sint v) \<noteq> None | _ \<Rightarrow> False)"
| "slot_readable P p (TS_opt f b v) \<longleftrightarrow> (if b then (case p of Print_optional_enum k g str \<Rightarrow> str (sint v) \<noteq> None | _ \<Rightarrow> True)
     else v = 0)"
| "slot_readable P p (TS_list f ts) \<longleftrightarrow> (\<forall>t \<in> set ts. readable P t)"
| "slot_readable P p (TS_ignored f v) \<longleftrightarrow> True"
| "slot_readable P p (TS_head0 f) \<longleftrightarrow> True"

lemma json_slot_member: "json_slot F P p s = [] \<or> (\<exists>v. json_slot F P p s = [(step_key p, v)])"
  by (cases s; cases p) (auto simp: enum_json_def number_json_def split: option.split)

section \<open>Fresh fields\<close>

context object_codes
begin

text \<open>A field that is as \<open>_new\<close> left it, up to a flag.\<close>

definition fresh_slot :: "field_decl \<Rightarrow> tslot \<Rightarrow> bool" where
  "fresh_slot d s \<longleftrightarrow> slot_wt K s (Some d) \<and> slot_complete K s (Some d) \<and> (d = F_ignored \<or> slot_blank K s (Some d)) \<and> size s \<le> bound"

lemma fresh_slot_same: "fresh_slot d u \<Longrightarrow> same_flag u v \<Longrightarrow> fresh_slot d v"
  by (auto simp: fresh_slot_def same_flag_def)

lemma copied_same: "copied K d u s \<Longrightarrow> same_flag s s' \<Longrightarrow> copied K d u s'"
  by (auto simp: copied_def same_flag_def)

lemma fresh_slots:
  assumes "fresh_tree (T_class c) (TR_obj q c zs)"
  shows "list_all2 (\<lambda>z (f, d). fname z = f \<and> fresh_slot d z) zs (cc_struct (K c))"
proof -
  have w: "wt K (TR_obj q c zs) (T_class c)" and b: "blank K (TR_obj q c zs)" "complete K (TR_obj q c zs)" "size (TR_obj q c zs) \<le> bound"
    using assms by (simp_all add: fresh_tree_def)
  have "fresh_slot d z" if z: "z \<in> set zs" "map_of (cc_struct (K c)) (fname z) = Some d" "slot_wt K z (Some d)" for z d
    using b z size_list_le [OF z(1), of size] by (force simp: fresh_slot_def)
  then show ?thesis using wt_slots [OF w] w
    by (fastforce simp: list_all2_conv_all_nth in_set_conv_nth map_of_eq_Some_iff)
qed

text \<open>What is not printed is as in a new object.\<close>

lemma absent_copied:
  assumes "slot_wt K s (Some d)" "slot_complete K s (Some d)" "slot_readable P p s" "json_slot F P p s = []"
    and "fresh_slot d z" "fname z = fname s" "step_prints st (fname s, d) p r"
  shows "copied K d s z"
  using assms
  by (cases d; cases s; cases z)
    (auto simp: copied_def fresh_slot_def number_json_def enum_json_def split: print_step.splits option.splits if_splits)


section \<open>Values read into fresh fields\<close>

text \<open>The field \<open>s\<close> of the source was read into the field between \<open>xs\<close> and \<open>ys\<close>.\<close>

definition filled :: "addr \<Rightarrow> nat \<Rightarrow> tslot list \<Rightarrow> tslot list \<Rightarrow> field_decl \<Rightarrow> tslot \<Rightarrow> nat \<Rightarrow> nat \<Rightarrow> tree \<Rightarrow> bool" where
  "filled q c xs ys d s k j u \<longleftrightarrow> j = k \<and> (\<exists>xs' ys' z. u = TR_obj q c (xs' @ z # ys') \<and>
     list_all2 same_flag xs xs' \<and> list_all2 same_flag ys ys' \<and> fname z = fname s \<and> copied K d s z)"

lemma filled_flags: "list_all2 same_flag xs xs' \<Longrightarrow> list_all2 same_flag ys ys' \<Longrightarrow> fname z = fname s \<Longrightarrow> copied K d s z \<Longrightarrow>
    filled q c xs ys d s k k (TR_obj q c (xs' @ z # ys'))"
  unfolding filled_def by blast

lemma filledI: "fname z = fname s \<Longrightarrow> copied K d s z \<Longrightarrow> filled q c xs ys d s k k (TR_obj q c (xs @ z # ys))"
  unfolding filled_def using same_flags_refl by blast

lemma string_brings:
  assumes "value_at ctrl (J_str (json_body s)) p par i" "sound m (TR_string a [] b) lk"
  shows "brings (get_string_into ctrl i (Ref_ptr (Some a))) m (TR_string a [] b) lk
    (\<lambda>_ u. like K T_string (TR_string a' s b') u)"
proof -
  have a: "ocells m a = Some (string_cell [] b)" using assms(2) by (simp add: sound_def owns_Cons)
  note g = get_string_into_at [OF assms(1) a]
  show ?thesis
  proof (cases "s = []")
    case True
    then show ?thesis using g by (intro brings_pure [OF assms(2)]) (simp_all add: like_def)
  next
    case False
    then show ?thesis using g evolves_put [OF a]
      by (intro bringsI [where x = "()" and m' = "put_cell a (string_cell s True) m" and u = "TR_string a s True"])
        (simp_all add: like_def)
  qed
qed

lemma fresh_ptr:
  assumes "fresh_slot d z" "declared_ptr d ty"
  shows "z = TS_null (fname z) \<or> (\<exists>t. z = TS_ptr (fname z) t \<and> fresh_tree ty t)"
  using assms by (cases d; cases z) (auto simp: fresh_slot_def fresh_tree_def)

lemma source_ptr:
  assumes "slot_wt K s (Some d)" "declared_ptr d ty" "json_slot F P p s \<noteq> []"
  obtains t where "s = TS_ptr (fname s) t" "wt K t ty"
  using assms by (cases d; cases s) auto

lemma copied_ptr: "declared_ptr d ty \<Longrightarrow> like K ty t u \<Longrightarrow> copied K d (TS_ptr f t) (TS_ptr f u)"
  by (cases d) (simp_all add: copied_def like_def)

lemma filled_string:
  assumes s: "sound m (TR_obj q c (xs @ z # ys)) lk" "distinct (map fname (xs @ z # ys))" "bound \<le> n"
    and z: "fresh_slot d z" "declared_ptr d T_string" "fname z = f"
    and v: "value_at ctrl (json_of F P t) p par i" "wt K t T_string"
  shows "brings (run_read mk strtof ctrl K n rec (Some q) obj (Read_string (Maker_ptr T_string f)) i) m (TR_obj q c (xs @ z # ys)) lk
    (filled q c xs ys d (TS_ptr f t) i)"
  unfolding run_read.simps
proof (rule brings_bind [OF s(1) maker_ptr_brings [OF s]])
  show "z = TS_null f \<or> (\<exists>t. z = TS_ptr f t \<and> fresh_tree T_string t)" using fresh_ptr [OF z(1,2)] z(3) by simp
next
  fix r u m'
  assume u: "sound m' u lk" "\<exists>t. r = Ref_ptr (Some (root t)) \<and> u = TR_obj q c (xs @ TS_ptr f t # ys) \<and> fresh_tree T_string t"
  then obtain a b where a: "r = Ref_ptr (Some a)" "u = TR_obj q c (xs @ TS_ptr f (TR_string a [] b) # ys)"
    by (auto simp: fresh_tree_def elim!: wt_stringE)
  obtain a' s b' where t: "t = TR_string a' s b'" using v(2) by (rule wt_stringE)
  have "brings (get_string_into ctrl i r) m' u lk
      (\<lambda>x u. \<exists>t'. u = TR_obj q c (xs @ TS_ptr f t' # ys) \<and> like K T_string t t')"
    unfolding a t
    by (rule brings_child [OF u(1) [unfolded a] string_brings [OF _ sound_child [OF u(1) [unfolded a]]]])
      (use v(1) t in simp)
  then show "brings (act_then (get_string_into ctrl i r) (ret i)) m' u lk (filled q c xs ys d (TS_ptr f t) i)"
    by (rule brings_then [OF u(1)]) (auto intro!: brings_ret filledI copied_ptr [OF z(2)])
qed

lemma filled_time:
  assumes s: "sound m (TR_obj q c (xs @ z # ys)) lk" "distinct (map fname (xs @ z # ys))" "bound \<le> n"
    and z: "fresh_slot d z" "declared_ptr d T_time" "fname z = f"
    and v: "value_at ctrl (json_of F P t) p par i" "wt K t T_time" "readable P t"
  shows "brings (run_read mk strtof ctrl K n rec (Some q) obj (Read_new_time (Setter_ptr T_time f)) i) m (TR_obj q c (xs @ z # ys)) lk
    (filled q c xs ys d (TS_ptr f t) i)"
proof -
  obtain a x y o' where t: "t = TR_time a x y o'" using v(2) by (rule wt_timeE)
  let ?t = "TR_time (onext m) x y o'"
  have m: "all_ok m" using s(1) by (simp add: sound_def)
  have r: "read_time mk ctrl i m = (Inr (Some (root ?t)), with_cell m (time_cell x y o'))"
    using read_time_at [OF _ _ _ m, of ctrl x y o' p par i mk] v t by simp
  have e: "evolves m [] (cells_of ?t None) (with_cell m (time_cell x y o'))" using evolves_with_cell by simp
  have "z = TS_null f \<or> (\<exists>t0. z = TS_ptr f t0 \<and> wt K t0 T_time \<and> size t0 \<le> n)"
    using fresh_ptr [OF z(1,2)] z(3) s(3) by (fastforce simp: fresh_tree_def)
  from set_child_brings [where Y = "read_time mk ctrl i" and t = ?t, OF s(1,2) this r e]
  show ?thesis unfolding run_read.simps act_then_assoc
    by (rule brings_then [OF s(1)]) (use z(2) in \<open>auto intro!: brings_ret filledI copied_ptr simp: t like_def\<close>)
qed


text \<open>Numbers.\<close>

lemma filled_int:
  assumes s: "sound m (TR_obj q c (xs @ z # ys)) lk" "distinct (map fname (xs @ z # ys))"
    and i: "sets_int st f g" and flag: "\<And>h. map_of st h = Some F_ignored \<Longrightarrow> \<exists>x. TS_ignored h x \<in> set (xs @ ys)"
    and z: "fresh_slot F_int z" "fname z = f"
  shows "brings (act_then (run_setter K n (Some q) g (Arg_int v)) (ret i)) m (TR_obj q c (xs @ z # ys)) lk
    (filled q c xs ys F_int (TS_int f v) i)"
proof -
  have w: "z = TS_int f 0" using z by (cases z) (simp_all add: fresh_slot_def)
  show ?thesis
  proof (rule brings_then [OF s(1) set_int_brings [OF s(1,2) [unfolded w] i flag, folded w]])
    fix u m' assume "sound m' u lk" "\<exists>xs' ys'. u = TR_obj q c (xs' @ TS_int f v # ys') \<and> list_all2 same_flag xs xs' \<and>
        list_all2 same_flag ys ys'"
    then show "brings (ret i) m' u lk (filled q c xs ys F_int (TS_int f v) i)"
      by (auto intro!: brings_ret filled_flags simp: copied_def)
  qed
qed

lemma filled_opt:
  assumes s: "sound m (TR_obj q c (xs @ z # ys)) lk" "distinct (map fname (xs @ z # ys))"
    and z: "fresh_slot F_optional z" "fname z = f"
  shows "brings (act_then (run_setter K n (Some q) (Setter_optional f) (Arg_int v)) (ret i)) m (TR_obj q c (xs @ z # ys)) lk
    (filled q c xs ys F_optional (TS_opt f True v) i)"
proof -
  have w: "z = TS_opt f False 0" using z by (cases z) (simp_all add: fresh_slot_def)
  show ?thesis
    by (rule brings_then [OF s(1) set_optional_brings [OF s(1,2) [unfolded w], folded w]])
      (auto intro!: brings_ret filledI simp: copied_def)
qed

lemma plain_no_nul: "plain_text s \<Longrightarrow> NUL \<notin> set s"
  using plain_char_ok(3) by (fastforce simp: plain_text_def list_all_iff ccode_def)

lemma read_enum_setter:
  assumes "enum_pair num str" "str (sint v) = Some e" "value_at ctrl (J_str e) p par i"
  shows "run_read mk strtof ctrl K n rec P obj (Read_enum num g) i = act_then (run_setter K n P g (Arg_int v)) (ret i)"
proof -
  have "plain_text e" "length e < 128" using enum_pair_strings [OF assms(1)] assms(2) by (auto simp: enum_strings_ok_def)
  then have "get_buf ctrl i = ret e" using get_buf_at [OF assms(3)] plain_no_nul by blast
  then show ?thesis using enum_pair_reads [OF assms(1,2)]
    by (simp add: fun_eq_iff act_bind_def ret_def)
qed

lemma read_uint32_setter:
  assumes "value_at ctrl (J_prim (nat_dec (unat v))) p par i"
  shows "run_read mk strtof ctrl K n rec P obj (Read_uint32 g) i = act_then (run_setter K n P g (Arg_int v)) (ret i)"
  using get_integer_at [OF assms] by (simp add: fun_eq_iff act_bind_def ret_def)

end

section \<open>Objects and lists\<close>

context json_codes
begin

text \<open>\<open>rec\<close> reads the text of objects of class \<open>c\<close> into new ones.\<close>

definition reads :: "(nat \<Rightarrow> addr option \<Rightarrow> nat \<Rightarrow> nat act) \<Rightarrow> json_data \<Rightarrow> (32 word \<Rightarrow> string) \<Rightarrow> nat \<Rightarrow> nat \<Rightarrow> bool" where
  "reads rec ctrl F n c \<longleftrightarrow> (\<forall>t u lk m p par i. wt K t (T_class c) \<longrightarrow> complete K t \<longrightarrow> readable P t \<longrightarrow>
     size t + bound \<le> n \<longrightarrow> fresh_tree (T_class c) u \<longrightarrow> sound m u lk \<longrightarrow> value_at ctrl (json_of F P t) p par i \<longrightarrow>
     brings (rec c (Some (root u)) i) m u lk (\<lambda>j w. j = i + ntok (json_of F P t) \<and> like K (T_class c) t w))"

lemma readsD: "reads rec ctrl F n c \<Longrightarrow> wt K t (T_class c) \<Longrightarrow> complete K t \<Longrightarrow> readable P t \<Longrightarrow>
    size t + bound \<le> n \<Longrightarrow> fresh_tree (T_class c) u \<Longrightarrow> sound m u lk \<Longrightarrow> value_at ctrl (json_of F P t) p par i \<Longrightarrow>
    brings (rec c (Some (root u)) i) m u lk (\<lambda>j w. j = i + ntok (json_of F P t) \<and> like K (T_class c) t w)"
  unfolding reads_def by blast

lemma filled_object:
  assumes rec: "reads rec ctrl F n c'"
    and s: "sound m (TR_obj q c (xs @ z # ys)) lk" "distinct (map fname (xs @ z # ys))" "bound \<le> n"
    and z: "fresh_slot d z" "declared_ptr d (T_class c')" "fname z = f"
    and v: "value_at ctrl (json_of F P t) p par i" "wt K t (T_class c')" "complete K t" "readable P t" "size t + bound \<le> n"
  shows "brings (run_read mk strtof ctrl K n rec (Some q) obj (Read_object c' (Maker_ptr (T_class c') f)) i) m
    (TR_obj q c (xs @ z # ys)) lk (filled q c xs ys d (TS_ptr f t) (i + ntok (json_of F P t) - 1))"
  unfolding run_read.simps
proof (rule brings_bind [OF s(1) get_pointer_made_brings [OF s(1) maker_ptr_brings [OF s]]])
  show "z = TS_null f \<or> (\<exists>t. z = TS_ptr f t \<and> fresh_tree (T_class c') t)" using fresh_ptr [OF z(1,2)] z(3) by simp
next
  fix r u m'
  assume u: "sound m' u lk" "\<exists>t. r = Some (root t) \<and> u = TR_obj q c (xs @ TS_ptr f t # ys) \<and> fresh_tree (T_class c') t"
  then obtain w where w: "r = Some (root w)" "u = TR_obj q c (xs @ TS_ptr f w # ys)" "fresh_tree (T_class c') w" by blast
  have "brings (rec c' r i) m' u lk (\<lambda>j u. \<exists>t'. u = TR_obj q c (xs @ TS_ptr f t' # ys) \<and>
      j = i + ntok (json_of F P t) \<and> like K (T_class c') t t')"
    unfolding w(1,2)
    by (rule brings_child [OF u(1) [unfolded w(2)] readsD [OF rec v(2-5) w(3) sound_child [OF u(1) [unfolded w(2)]] v(1)]])
  then show "brings (act_bind (rec c' r i) (\<lambda>idx. ret (idx - 1))) m' u lk
      (filled q c xs ys d (TS_ptr f t) (i + ntok (json_of F P t) - 1))"
    by (rule brings_bind [OF u(1)]) (auto intro!: brings_ret filledI copied_ptr [OF z(2)])
qed

lemma elements_brings:
  assumes rec: "reads rec ctrl F n c'" "bound \<le> n"
  shows "sound m (TR_obj q c (xs @ TS_list f us # ys)) lk \<Longrightarrow> distinct (map fname (xs @ TS_list f us # ys)) \<Longrightarrow>
    elements_at ctrl (map (json_of F P) vs) p par i \<Longrightarrow>
    (\<And>t. t \<in> set vs \<Longrightarrow> wt K t (T_class c') \<and> complete K t \<and> readable P t \<and> size t + bound \<le> n) \<Longrightarrow>
    brings (read_elements (\<lambda>idx. act_bind (get_pointer_made (run_maker K n (Some q) (Maker_listed c' f) LIST_APPEND))
        (\<lambda>q. rec c' q idx)) (length vs) i) m (TR_obj q c (xs @ TS_list f us # ys)) lk
      (\<lambda>j u. j = i + nelem (map (json_of F P) vs) \<and>
        (\<exists>ws. u = TR_obj q c (xs @ TS_list f (us @ ws) # ys) \<and> list_all2 (like K (T_class c')) vs ws))"
proof (induction vs arbitrary: us p i m)
  case Nil
  then show ?case by (auto intro!: brings_ret)
next
  case (Cons v vs)
  let ?elem = "\<lambda>idx. act_bind (get_pointer_made (run_maker K n (Some q) (Maker_listed c' f) LIST_APPEND)) (\<lambda>q. rec c' q idx)"
  have at: "value_at ctrl (json_of F P v) p par i"
    "elements_at ctrl (map (json_of F P) vs) (p + length (jtext (json_of F P v)) + 2) par (i + ntok (json_of F P v))"
    using elements_at_Cons Cons.prems(3) by auto
  have v: "wt K v (T_class c')" "complete K v" "readable P v" "size v + bound \<le> n" using Cons.prems(4) by auto
  have e: "brings (?elem i) m (TR_obj q c (xs @ TS_list f us # ys)) lk (\<lambda>j u. j = i + ntok (json_of F P v) \<and>
      (\<exists>w. u = TR_obj q c (xs @ TS_list f (us @ [w]) # ys) \<and> like K (T_class c') v w))"
  proof (rule brings_bind [OF Cons.prems(1) get_pointer_made_brings [OF Cons.prems(1) maker_listed_brings [OF Cons.prems(1,2) rec(2)]]])
    fix r u m'
    assume u: "sound m' u lk" "\<exists>t. r = Some (root t) \<and> u = TR_obj q c (xs @ TS_list f (us @ [t]) # ys) \<and> fresh_tree (T_class c') t"
    then obtain w where w: "r = Some (root w)" "u = TR_obj q c (xs @ TS_list f (us @ [w]) # ys)" "fresh_tree (T_class c') w" by blast
    have "brings (rec c' r i) m' u lk (\<lambda>j u. \<exists>t'. u = TR_obj q c (xs @ TS_list f (us @ [t']) # ys) \<and>
        j = i + ntok (json_of F P v) \<and> like K (T_class c') v t')"
      unfolding w(1,2)
      by (rule brings_element [OF u(1) [unfolded w(2)] readsD [OF rec(1) v w(3) sound_element [OF u(1) [unfolded w(2)]] at(1)]])
    then show "brings (rec c' r i) m' u lk (\<lambda>j u. j = i + ntok (json_of F P v) \<and>
        (\<exists>w. u = TR_obj q c (xs @ TS_list f (us @ [w]) # ys) \<and> like K (T_class c') v w))"
      by (rule brings_mono) blast
  qed
  show ?case unfolding read_elements.simps list.size add_Suc_right add_0_right
  proof (rule brings_bind [OF Cons.prems(1) e], elim conjE exE)
    fix j u m' w
    assume u: "sound m' u lk" "u = TR_obj q c (xs @ TS_list f (us @ [w]) # ys)" "like K (T_class c') v w"
      and j: "j = i + ntok (json_of F P v)"
    have "brings (read_elements ?elem (length vs) j) m' u lk (\<lambda>j' u. j' = j + nelem (map (json_of F P) vs) \<and>
        (\<exists>ws. u = TR_obj q c (xs @ TS_list f ((us @ [w]) @ ws) # ys) \<and> list_all2 (like K (T_class c')) vs ws))"
      unfolding u(2) by (rule Cons.IH [OF u(1) [unfolded u(2)]]) (use Cons.prems at j in auto)
    then show "brings (read_elements ?elem (length vs) j) m' u lk (\<lambda>j u. j = i + nelem (map (json_of F P) (v # vs)) \<and>
        (\<exists>ws. u = TR_obj q c (xs @ TS_list f (us @ ws) # ys) \<and> list_all2 (like K (T_class c')) (v # vs) ws))"
      by (rule brings_mono) (use u(3) in \<open>fastforce simp: j\<close>)
  qed
qed

lemma like_contents: "list_all2 (like K ty) ts us \<Longrightarrow>
    map content us = map content ts \<and> (\<forall>u \<in> set us. wt K u ty \<and> complete K u)"
  by (induction rule: list_all2_induct) (auto simp: like_def)

lemma filled_list:
  assumes rec: "reads rec ctrl F n c'"
    and s: "sound m (TR_obj q c (xs @ z # ys)) lk" "distinct (map fname (xs @ z # ys))" "bound \<le> n"
    and z: "fresh_slot (F_listed c') z" "fname z = f"
    and v: "value_at ctrl (J_arr (map (json_of F P) ts)) p par i"
    and ts: "\<And>t. t \<in> set ts \<Longrightarrow> wt K t (T_class c') \<and> complete K t \<and> readable P t \<and> size t + bound \<le> n"
  shows "brings (run_read mk strtof ctrl K n rec (Some q) obj (Read_list c' (Maker_listed c' f)) i) m
    (TR_obj q c (xs @ z # ys)) lk (filled q c xs ys (F_listed c') (TS_list f ts) (i + ntok (J_arr (map (json_of F P) ts)) - 1))"
proof -
  have w: "z = TS_list f []" using z by (cases z) (simp_all add: fresh_slot_def)
  let ?n = "nelem (map (json_of F P) ts)"
  obtain a b where at: "elements_at ctrl (map (json_of F P) ts) (p + 1) (int i) (Suc i)"
    "jtok_at ctrl i = ret \<lparr>jtype = JSMN_ARRAY, jstart = a, jend = b, jsize = length ts\<rparr>"
    using value_at_array [OF v] by auto
  have "brings (act_bind (read_elements (\<lambda>idx. act_bind (get_pointer_made (run_maker K n (Some q) (Maker_listed c' f) LIST_APPEND))
      (\<lambda>q. rec c' q idx)) (length ts) (i + 1)) (\<lambda>idx. ret (idx - 1))) m (TR_obj q c (xs @ z # ys)) lk
      (filled q c xs ys (F_listed c') (TS_list f ts) (i + ?n))"
    unfolding w
  proof (rule brings_bind [OF s(1) [unfolded w] elements_brings [OF rec s(3) s(1,2) [unfolded w], of ts "p + 1" "int i"]])
    show "elements_at ctrl (map (json_of F P) ts) (p + 1) (int i) (i + 1)" using at(1) by simp
    fix j u m' assume u: "sound m' u lk" "j = i + 1 + ?n \<and>
        (\<exists>ws. u = TR_obj q c (xs @ TS_list f ([] @ ws) # ys) \<and> list_all2 (like K (T_class c')) ts ws)"
    then show "brings (ret (j - 1)) m' u lk (filled q c xs ys (F_listed c') (TS_list f ts) (i + ?n))"
      by (auto intro!: brings_ret filledI dest!: like_contents simp: copied_def)
  qed (use ts in auto)
  then show ?thesis unfolding run_read.simps
    by (intro brings_bind_pure [where x = "\<lparr>jtype = JSMN_ARRAY, jstart = a, jend = b, jsize = length ts\<rparr>"])
      (simp_all add: at(2), simp add: ret_def)
qed

text \<open>One statement.\<close>

lemma filled_slot:
  assumes rec: "\<And>c. reads rec ctrl F n c"
    and m: "sound m (TR_obj q c (xs @ z # ys)) lk" "distinct (map fname (xs @ z # ys))" "bound \<le> n"
    and z: "fresh_slot d z" "fname z = fname s"
    and s: "slot_wt K s (Some d)" "slot_complete K s (Some d)" "slot_readable P p s" "size s + bound \<le> n"
    and fit: "step_prints st (fname s, d) p r"
    and flag: "\<And>h. map_of st h = Some F_ignored \<Longrightarrow> \<exists>x. TS_ignored h x \<in> set (xs @ ys)"
    and v: "json_slot F P p s = [(k, v)]" "value_at ctrl v pp par i"
  shows "brings (run_read mk strtof ctrl K n rec (Some q) obj r i) m (TR_obj q c (xs @ z # ys)) lk
    (filled q c xs ys d s (i + ntok v - 1))"
proof (cases s)
  case (TS_ptr f t)
  have v': "value_at ctrl (json_of F P t) pp par i" "ntok (json_of F P t) = ntok v" using v by (simp_all add: TS_ptr)
  have t: "complete K t" "readable P t" "size t + bound \<le> n" using s by (simp_all add: TS_ptr)
  have dp: "\<exists>ty. declared_ptr d ty \<and> wt K t ty" using s(1) by (cases d) (auto simp: TS_ptr)
  have same: "declared_ptr d ty \<Longrightarrow> wt K t ty" for ty using dp by (cases d) auto
  have z': "fname z = f" using z(2) by (simp add: TS_ptr)
  show ?thesis
  proof (cases p)
    case (Print_string k g)
    then have d: "declared_ptr d T_string" and r: "r = Read_string (Maker_ptr T_string f)" using fit by (simp_all add: TS_ptr)
    obtain a x b where "t = TR_string a x b" using same [OF d] by (rule wt_stringE)
    then have "i + ntok v - 1 = i" using v by (auto simp: TS_ptr)
    then show ?thesis using filled_string [OF m z(1) d z' v'(1) same [OF d]] by (simp only: r TS_ptr)
  next
    case (Print_time k g)
    then have d: "declared_ptr d T_time" and r: "r = Read_new_time (Setter_ptr T_time f)" using fit by (simp_all add: TS_ptr)
    obtain a x y o' where "t = TR_time a x y o'" using same [OF d] by (rule wt_timeE)
    then have "i + ntok v - 1 = i" using v by (auto simp: TS_ptr)
    then show ?thesis using filled_time [OF m z(1) d z' v'(1) same [OF d] t(2)] by (simp only: r TS_ptr)
  next
    case (Print_data k g)
    then have "declared_ptr d T_data" using fit by (simp add: TS_ptr)
    then have "wt K t T_data" by (rule same)
    then show ?thesis using t(2) by (auto elim: wt_dataE)
  next
    case (Print_object c' k g)
    then have d: "declared_ptr d (T_class c')" and r: "r = Read_object c' (Maker_ptr (T_class c') f)" using fit by (simp_all add: TS_ptr)
    then show ?thesis using filled_object [OF rec m z(1) d z' v'(1) same [OF d] t] by (simp only: r TS_ptr v'(2))
  qed (use fit s(1) in \<open>auto simp: TS_ptr\<close>)
next
  case (TS_list f ts)
  then obtain c' where d: "d = F_listed c'" using s(1) by (cases d) auto
  then have r: "r = Read_list c' (Maker_listed c' f)"
    using fit by (cases p) (auto simp: TS_list)
  have ts: "wt K t (T_class c') \<and> complete K t \<and> readable P t \<and> size t + bound \<le> n" if "t \<in> set ts" for t
    using s that size_list_le [OF that, of size] by (auto simp: TS_list d)
  have "v = J_arr (map (json_of F P) ts)" using v(1) by (simp add: TS_list split: if_splits)
  then show ?thesis using filled_list [where ts = ts and f = f, OF rec m z(1) [unfolded d] _ _ ts] z(2) v(2) by (simp only: r d TS_list fname.simps)
next
  case (TS_int f w)
  then have d: "d = F_int" using s(1) by simp
  show ?thesis
  proof (cases p)
    case (Print_uint32 k g)
    then show ?thesis using s(3) v(1) by (simp add: TS_int)
  next
    case (Print_enum k g str)
    obtain num h where r: "r = Read_enum num h" "enum_pair num str" "sets_int st f h"
      using fit by (cases r) (auto simp: Print_enum TS_int)
    obtain e where e: "str (sint w) = Some e" "v = J_str e" using v(1) by (auto simp: Print_enum TS_int enum_json_def split: option.splits)
    have "i + ntok v - 1 = i" by (simp add: e)
    then show ?thesis using filled_int [OF m(1,2) r(3) flag z(1) [unfolded d], of n w i] z(2)
      by (simp only: r(1) read_enum_setter [OF r(2) e(1) v(2) [unfolded e(2)]] TS_int d fname.simps)
  qed (use v in \<open>simp_all add: TS_int\<close>)
next
  case (TS_opt f b w)
  then have d: "d = F_optional" using s(1) by simp
  have b: "b" using v(1) by (cases b) (simp_all add: TS_opt)
  show ?thesis
  proof (cases p)
    case (Print_optional_uint32 k g)
    then have r: "r = Read_uint32 (Setter_optional f)" using fit by (simp add: TS_opt)
    have e: "v = J_prim (nat_dec (unat w))" using v(1) b by (simp add: TS_opt Print_optional_uint32 number_json_def)
    have "i + ntok v - 1 = i" by (simp add: e)
    then show ?thesis using filled_opt [OF m(1,2) z(1) [unfolded d], of f n w i] z(2) b
      by (simp only: r read_uint32_setter [OF v(2) [unfolded e]] TS_opt d fname.simps simp_thms)
  next
    case (Print_optional_enum k g str)
    obtain num where r: "r = Read_enum num (Setter_optional f)" "enum_pair num str"
      using fit by (cases r) (auto simp: Print_optional_enum TS_opt)
    obtain e where e: "str (sint w) = Some e" "v = J_str e"
      using v(1) b by (auto simp: Print_optional_enum TS_opt enum_json_def split: option.splits)
    have "i + ntok v - 1 = i" by (simp add: e)
    then show ?thesis using filled_opt [OF m(1,2) z(1) [unfolded d], of f n w i] z(2) b
      by (simp only: r(1) read_enum_setter [OF r(2) e(1) v(2) [unfolded e(2)]] TS_opt d fname.simps simp_thms)
  qed (use v b in \<open>simp_all add: TS_opt\<close>)
qed (use v in simp_all)

text \<open>The members of an object.\<close>

definition flags_in :: "struct \<Rightarrow> tslot list \<Rightarrow> bool" where
  "flags_in st ss \<longleftrightarrow> (\<forall>h. map_of st h = Some F_ignored \<longrightarrow> (\<exists>x. TS_ignored h x \<in> set ss))"

definition source_fields :: "nat \<Rightarrow> struct \<Rightarrow> tslot list \<Rightarrow> bool" where
  "source_fields n ds ss \<longleftrightarrow> list_all2 (\<lambda>s (f, d). fname s = f \<and> slot_wt K s (Some d) \<and> slot_complete K s (Some d) \<and>
     size s + bound \<le> n) ss ds"

definition fresh_fields :: "struct \<Rightarrow> tslot list \<Rightarrow> bool" where
  "fresh_fields ds zs \<longleftrightarrow> list_all2 (\<lambda>z (f, d). fname z = f \<and> fresh_slot d z) zs ds"

definition filled_fields :: "struct \<Rightarrow> tslot list \<Rightarrow> tslot list \<Rightarrow> bool" where
  "filled_fields ds ss zs \<longleftrightarrow> map slot_content zs = map slot_content ss \<and>
     list_all2 (\<lambda>z (f, d). fname z = f \<and> slot_wt K z (Some d) \<and> slot_complete K z (Some d)) zs ds"

lemma fields_Nil [simp]:
  "source_fields n [] ss \<longleftrightarrow> ss = []" "fresh_fields [] zs \<longleftrightarrow> zs = []" "filled_fields [] ss zs \<longleftrightarrow> ss = [] \<and> zs = []"
  by (auto simp: source_fields_def fresh_fields_def filled_fields_def)

lemma source_fields_Cons: "source_fields n ((f, d) # ds) ss \<longleftrightarrow> (\<exists>s ss'. ss = s # ss' \<and> fname s = f \<and> slot_wt K s (Some d) \<and>
    slot_complete K s (Some d) \<and> size s + bound \<le> n \<and> source_fields n ds ss')"
  by (auto simp: source_fields_def list_all2_Cons2)

lemma fresh_fields_Cons: "fresh_fields ((f, d) # ds) zs \<longleftrightarrow> (\<exists>z zs'. zs = z # zs' \<and> fname z = f \<and> fresh_slot d z \<and> fresh_fields ds zs')"
  by (auto simp: fresh_fields_def list_all2_Cons2)

lemma filled_fields_Cons: "copied K d s z \<Longrightarrow> fname z = f \<Longrightarrow> filled_fields ds ss zs \<Longrightarrow> filled_fields ((f, d) # ds) (s # ss) (z # zs)"
  by (simp add: filled_fields_def copied_def)

lemma fresh_fields_same: "list_all2 same_flag zs zs' \<Longrightarrow> fresh_fields ds zs \<Longrightarrow> fresh_fields ds zs'"
proof (induction arbitrary: ds rule: list_all2_induct)
  case (Cons z zs z' zs')
  then show ?case by (cases ds) (auto simp: fresh_fields_def dest: fresh_slot_same same_flag_name)
qed simp

lemma flags_in_same:
  assumes "flags_in st us" "list_all2 same_flag us vs"
  shows "flags_in st vs"
proof -
  have "\<exists>y. TS_ignored h y \<in> set vs" if "TS_ignored h x \<in> set us" for h x
    using assms(2) that by (induction rule: list_all2_induct) (auto simp: same_flag_def)
  then show ?thesis using assms(1) unfolding flags_in_def by blast
qed

lemma flags_in_other:
  assumes "flags_in st (xs @ z # ys)" "slot_wt K z (Some d)" "d \<noteq> F_ignored"
  shows "flags_in st (xs @ z' # ys)" "map_of st h = Some F_ignored \<Longrightarrow> \<exists>x. TS_ignored h x \<in> set (xs @ ys)"
  using assms unfolding flags_in_def by (fastforce simp: all_conj_distrib)+

lemma read_key_find:
  assumes "\<forall>k'. jsoneq (json_input ctrl) j k' \<longleftrightarrow> k' = k" "distinct (map fst rs)" "(k, r) \<in> set rs"
  shows "read_key ctrl j rs = Some r"
proof -
  have "find (\<lambda>y. fst y = fst (k, r)) rs = Some (k, r)" by (rule find_distinct [OF assms(2,3)])
  then show ?thesis using assms(1) by (simp add: read_key_def split_def)
qed

lemma members_brings:
  assumes rec: "\<And>c. reads rec ctrl F n c" "bound \<le> n"
    and rs0: "distinct (map fst rs0)" "list_all (\<lambda>(k, s). plain_key k) rs0"
    and run_def: "run = run_read mk strtof ctrl K n rec (Some q) obj"
  shows "steps_print st ds ps rs \<Longrightarrow> set rs \<subseteq> set rs0 \<Longrightarrow> source_fields n ds ss \<Longrightarrow> fields_readable P ps ss \<Longrightarrow>
    fresh_fields ds zs \<Longrightarrow> sound m (TR_obj q c (xs @ zs)) lk \<Longrightarrow> distinct (map fname (xs @ zs)) \<Longrightarrow> flags_in st (xs @ zs) \<Longrightarrow>
    members_at ctrl (json_fields F P ps ss) p par i \<Longrightarrow>
    brings (read_members ctrl rs0 run (length (json_fields F P ps ss)) i) m (TR_obj q c (xs @ zs)) lk
      (\<lambda>j u. j = i + nmem (json_fields F P ps ss) \<and> (\<exists>xs' zs'. u = TR_obj q c (xs' @ zs') \<and>
        list_all2 same_flag xs xs' \<and> filled_fields ds ss zs'))"
proof (induction ds arbitrary: ps rs ss zs xs p i m)
  case Nil
  then show ?case using steps_print_Nil [OF Nil.prems(1)] same_flags_refl by (auto intro!: brings_ret)
next
  case (Cons fd ds)
  obtain f d where fd: "fd = (f, d)" by fastforce
  obtain s ss' where s: "ss = s # ss'" "fname s = f" "slot_wt K s (Some d)" "slot_complete K s (Some d)" "size s + bound \<le> n"
      "source_fields n ds ss'" using Cons.prems(3) by (auto simp: fd source_fields_Cons)
  obtain z zs' where z: "zs = z # zs'" "fname z = f" "fresh_slot d z" "fresh_fields ds zs'"
    using Cons.prems(5) by (auto simp: fd fresh_fields_Cons)
  have zw: "slot_wt K z (Some d)" using z(3) by (simp add: fresh_slot_def)
  note m = Cons.prems(6-8) [unfolded z(1)]
  text \<open>The rest, once this field is done.\<close>
  have rest: "brings (read_members ctrl rs0 run (length (json_fields F P ps' ss')) i') m' (TR_obj q c (xs1 @ z1 # zs1)) lk
      (\<lambda>j u. j = i' + nmem (json_fields F P ps' ss') \<and> (\<exists>xs' zs'. u = TR_obj q c (xs' @ zs') \<and>
        list_all2 same_flag xs xs' \<and> filled_fields (fd # ds) ss zs'))"
    if t: "steps_print st ds ps' rs'" "set rs' \<subseteq> set rs0" "fields_readable P ps' ss'" "list_all2 same_flag xs xs1"
      "list_all2 same_flag zs' zs1" "copied K d s z1" "fname z1 = f" "sound m' (TR_obj q c (xs1 @ z1 # zs1)) lk"
      "flags_in st (xs1 @ z1 # zs1)" "members_at ctrl (json_fields F P ps' ss') p' par i'" for ps' rs' xs1 z1 zs1 m' p' i'
  proof -
    have n: "distinct (map fname ((xs1 @ [z1]) @ zs1))"
      using m(2) same_flags_names [OF t(4)] same_flags_names [OF t(5)] z(2) t(7) by simp
    from Cons.IH [OF t(1,2) s(6) t(3) fresh_fields_same [OF t(5) z(4)], of m' "xs1 @ [z1]" p' i'] t(8-10) n
    have "brings (read_members ctrl rs0 run (length (json_fields F P ps' ss')) i') m' (TR_obj q c (xs1 @ z1 # zs1)) lk
      (\<lambda>j u. j = i' + nmem (json_fields F P ps' ss') \<and> (\<exists>xs' zs'. u = TR_obj q c (xs' @ zs') \<and>
        list_all2 same_flag (xs1 @ [z1]) xs' \<and> filled_fields ds ss' zs'))" by simp
    then show ?thesis
    proof (rule brings_mono, elim conjE exE)
      fix j u xs' zs''
      assume j: "j = i' + nmem (json_fields F P ps' ss')" "u = TR_obj q c (xs' @ zs'')"
        "list_all2 same_flag (xs1 @ [z1]) xs'" "filled_fields ds ss' zs''"
      obtain ws w where w: "xs' = ws @ [w]" "list_all2 same_flag xs1 ws" "same_flag z1 w"
        using j(3) by (auto simp: list_all2_append1 list_all2_Cons1)
      have "filled_fields (fd # ds) ss (w # zs'')" unfolding fd s(1)
        by (rule filled_fields_Cons [OF copied_same [OF t(6) w(3)] _ j(4)]) (use same_flag_name [OF w(3)] t(7) in simp)
      moreover have "list_all2 same_flag xs ws" by (rule same_flags_trans [OF t(4) w(2)])
      moreover have "u = TR_obj q c (ws @ w # zs'')" using j(2) w(1) by simp
      ultimately show "j = i' + nmem (json_fields F P ps' ss') \<and> (\<exists>xs' zs'. u = TR_obj q c (xs' @ zs') \<and>
          list_all2 same_flag xs xs' \<and> filled_fields (fd # ds) ss zs')" using j(1) by blast
    qed
  qed
  from Cons.prems(1) [unfolded fd] show ?case
  proof (cases rule: steps_print_cases)
    case ignored
    then obtain v where v: "s = TS_ignored f v" using s(2,3) by (cases s) auto
    have "copied K d s z" using zw ignored(1) z(2) by (cases z) (auto simp: copied_def v)
    then show ?thesis
      using rest [OF ignored(2) Cons.prems(2) _ same_flags_refl same_flags_refl _ z(2), of m p i] Cons.prems m
      by (simp add: s(1) v z(1))
  next
    case (step p1 ps' r rs')
    have js: "json_fields F P ps ss = json_slot F P p1 s @ json_fields F P ps' ss'"
      using step(1) s(3) by (cases s) (auto simp: s(1) step(2))
    have rd: "slot_readable P p1 s" "fields_readable P ps' ss'"
      using Cons.prems(4) step(1) s(3) by (cases s; auto simp: s(1) step(2))+
    have rs': "set rs' \<subseteq> set rs0" "(step_key p1, r) \<in> set rs0" using Cons.prems(2) step(3) by auto
    from json_slot_member [of F P p1 s] show ?thesis
    proof (elim disjE exE)
      assume e: "json_slot F P p1 s = []"
      have "copied K d s z" by (rule absent_copied [OF s(3,4) rd(1) e z(3)]) (use z(2) s(2) step(4) in auto)
      then show ?thesis
        using rest [OF step(5) rs'(1) rd(2) same_flags_refl same_flags_refl _ z(2), of m p i] Cons.prems(9) m
        by (simp add: js e z(1))
    next
      fix v assume v: "json_slot F P p1 s = [(step_key p1, v)]"
      let ?ms = "json_fields F P ps' ss'"
      have at: "members_at ctrl ((step_key p1, v) # ?ms) p par i" using Cons.prems(9) by (simp add: js v)
      obtain j where j: "jtok_at ctrl i = ret j" "\<forall>k'. jsoneq (json_input ctrl) j k' \<longleftrightarrow> k' = step_key p1"
        using members_at_Cons(1) [OF at] by blast
      have k: "step_key p1 \<noteq> ''_self''" using rs0(2) rs'(2) by (auto simp: list_all_iff plain_key_def)
      have rm: "read_members ctrl rs0 run (length (json_fields F P ps ss)) i =
          act_bind (run r (i + 1)) (\<lambda>idx. read_members ctrl rs0 run (length ?ms) (idx + 1))"
        using members_at_Cons(2) [OF at] j k read_key_find [OF j(2) rs0(1) rs'(2)]
        by (simp add: js v fun_eq_iff act_bind_def ret_def)
      have nm: "i + nmem (json_fields F P ps ss) = i + 1 + ntok v + nmem ?ms" by (simp add: js v)
      have fl: "\<And>h. map_of st h = Some F_ignored \<Longrightarrow> \<exists>x. TS_ignored h x \<in> set (xs @ zs')"
        by (rule flags_in_other(2) [OF m(3) zw step(1)])
      have run: "brings (run r (i + 1)) m (TR_obj q c (xs @ z # zs')) lk (filled q c xs zs' d s (i + 1 + ntok v - 1))"
        unfolding run_def
        by (rule filled_slot [OF rec(1) m(1,2) rec(2) z(3) _ s(3,4) rd(1) s(5) _ fl v])
          (use z(2) s(2) step(4) members_at_Cons(3) [OF at] in auto)
      have "brings (act_bind (run r (i + 1)) (\<lambda>idx. read_members ctrl rs0 run (length ?ms) (idx + 1))) m
          (TR_obj q c (xs @ z # zs')) lk (\<lambda>j u. j = i + 1 + ntok v + nmem ?ms \<and> (\<exists>xs' zs'. u = TR_obj q c (xs' @ zs') \<and>
            list_all2 same_flag xs xs' \<and> filled_fields (fd # ds) ss zs'))"
      proof (rule brings_bind [OF m(1) run])
        fix x u m' assume u: "sound m' u lk" "filled q c xs zs' d s (i + 1 + ntok v - 1) x u"
        then obtain xs1 zs1 z1 where x: "x = i + 1 + ntok v - 1" "u = TR_obj q c (xs1 @ z1 # zs1)" "list_all2 same_flag xs xs1"
          "list_all2 same_flag zs' zs1" "fname z1 = f" "copied K d s z1" unfolding filled_def s(2) by blast
        have "list_all2 same_flag (xs @ z1 # zs') (xs1 @ z1 # zs1)" using x(3,4) by (simp add: list_all2_appendI)
        then have "flags_in st (xs1 @ z1 # zs1)"
          using flags_in_same [OF flags_in_other(1) [OF m(3) zw step(1), of z1]] by blast
        moreover have "x + 1 = Suc i + ntok v" using x(1) by simp
        ultimately show "brings (read_members ctrl rs0 run (length ?ms) (x + 1)) m' u lk
          (\<lambda>j u. j = i + 1 + ntok v + nmem ?ms \<and> (\<exists>xs' zs'. u = TR_obj q c (xs' @ zs') \<and>
            list_all2 same_flag xs xs' \<and> filled_fields (fd # ds) ss zs'))"
          using rest [OF step(5) rs'(1) rd(2) x(3,4,6,5), of m' _ "x + 1"] u(1) members_at_Cons(4) [OF at]
          by (simp add: x(2))
      qed
      then show ?thesis by (simp only: rm nm z(1))
    qed
  qed
qed

section \<open>Every class\<close>

lemma struct_slots:
  assumes "map fname ss = map fst (cc_struct (K c))"
  shows "(\<forall>s \<in> set ss. Q s (map_of (cc_struct (K c)) (fname s))) \<longleftrightarrow> list_all2 (\<lambda>s (f, d). Q s (Some d)) ss (cc_struct (K c))"
proof -
  have d: "distinct (map fst (cc_struct (K c)))" using codes_regular [of c] by (simp add: regular_def)
  have l: "length ss = length (cc_struct (K c))" using assms by (metis length_map)
  have n: "fname (ss ! i) = fst (cc_struct (K c) ! i)" if "i < length ss" for i
    using assms l that by (metis nth_map)
  have "map_of (cc_struct (K c)) (fname (ss ! i)) = Some (snd (cc_struct (K c) ! i))" if "i < length ss" for i
    using map_of_is_SomeI [OF d, of "fname (ss ! i)" "snd (cc_struct (K c) ! i)"] n [OF that] l that
    by (metis nth_mem prod.collapse)
  then show ?thesis using l by (auto simp: list_all2_conv_all_nth split_def in_set_conv_nth all_set_conv_all_nth)
qed

lemma source_of_tree:
  assumes "wt K (TR_obj a c ss) (T_class c)" "complete K (TR_obj a c ss)" "size (TR_obj a c ss) + bound \<le> Suc n"
  shows "source_fields n (cc_struct (K c)) ss"
proof -
  have n: "map fname ss = map fst (cc_struct (K c))" using assms(1) by simp
  have "size s + bound \<le> n" if "s \<in> set ss" for s
    using assms(3) size_list_less [OF that, of size] by simp
  moreover have "list_all2 (\<lambda>s (f, d). slot_complete K s (Some d)) ss (cc_struct (K c))"
    using assms(2) struct_slots [OF n, of "slot_complete K"] by simp
  ultimately show ?thesis using wt_slots(2) [OF assms(1)]
    unfolding source_fields_def by (simp add: list_all2_conv_all_nth split_def)
qed

lemma fresh_of_tree:
  assumes "fresh_tree (T_class c) (TR_obj q c zs)"
  shows "fresh_fields (cc_struct (K c)) zs" "flags_in (cc_struct (K c)) zs" "distinct (map fname zs)"
proof -
  have w: "wt K (TR_obj q c zs) (T_class c)" using assms by (simp add: fresh_tree_def)
  show "fresh_fields (cc_struct (K c)) zs" using fresh_slots [OF assms] by (simp add: fresh_fields_def)
  show "distinct (map fname zs)" by (rule wt_slots(1) [OF w])
  have "\<exists>x. TS_ignored h x \<in> set zs" if h: "map_of (cc_struct (K c)) h = Some F_ignored" for h
  proof -
    have "h \<in> fst ` set (cc_struct (K c))" using map_of_SomeD [OF h] by force
    then have "h \<in> fname ` set zs" using w by (metis list.set_map wt.simps(4))
    then obtain z where z: "z \<in> set zs" "fname z = h" by blast
    then have "slot_wt K z (Some F_ignored)" using w h by auto
    then show ?thesis using z by (cases z) auto
  qed
  then show "flags_in (cc_struct (K c)) zs" by (simp add: flags_in_def)
qed

lemma like_of_fields:
  assumes "filled_fields (cc_struct (K c)) ss zs"
  shows "like K (T_class c) (TR_obj a c ss) (TR_obj q c zs)"
proof -
  have l: "list_all2 (\<lambda>z (f, d). fname z = f \<and> slot_wt K z (Some d) \<and> slot_complete K z (Some d)) zs (cc_struct (K c))"
    using assms by (simp add: filled_fields_def)
  have n: "map fname zs = map fst (cc_struct (K c))"
    by (rule nth_equalityI) (use l in \<open>auto simp: list_all2_conv_all_nth split_def\<close>)
  have "list_all2 (\<lambda>z (f, d). slot_wt K z (Some d)) zs (cc_struct (K c))"
    "list_all2 (\<lambda>z (f, d). slot_complete K z (Some d)) zs (cc_struct (K c))"
    using l by (auto elim!: list_all2_mono)
  then show ?thesis
    using struct_slots [OF n, of "slot_wt K"] struct_slots [OF n, of "slot_complete K"] n assms
    by (simp add: like_def filled_fields_def)
qed

lemma obj_reads: "reads (obj_read_json mk strtof ctrl R K n) ctrl F n c"
proof (induction n arbitrary: c)
  case 0
  have "size t > 0" if "wt K t (T_class c)" for t using that by (cases t) auto
  then show ?case by (fastforce simp: reads_def)
next
  case (Suc n)
  show ?case unfolding reads_def
  proof (intro allI impI)
    fix t u lk m p par i
    assume t: "wt K t (T_class c)" "complete K t" "readable P t" "size t + bound \<le> Suc n"
      and u: "fresh_tree (T_class c) u" "sound m u lk" and v: "value_at ctrl (json_of F P t) p par i"
    obtain a ss where ta: "t = TR_obj a c ss" using t(1) by (cases t) auto
    obtain q zs where ua: "u = TR_obj q c zs" using u(1) by (cases u) (auto simp: fresh_tree_def)
    let ?ms = "json_fields F P (print_steps (P c)) ss"
    obtain x y where j: "members_at ctrl ((''_self'', J_str (self_name (P c))) # ?ms) (p + 1) (int i) (Suc i)"
      "jtok_at ctrl i = ret \<lparr>jtype = JSMN_OBJECT, jstart = x, jend = y, jsize = Suc (length ?ms)\<rparr>"
      using value_at_object [OF v [unfolded ta json_of.simps]] by auto
    obtain k where k: "jtok_at ctrl (Suc i) = ret k" "jsoneq (json_input ctrl) k ''_self''"
      using members_at_Cons(1) [OF j(1)] by blast
    let ?run = "run_read mk strtof ctrl K n (obj_read_json mk strtof ctrl R K n) (Some q) i"
    have st: "steps_print (cc_struct (K c)) (cc_struct (K c)) (print_steps (P c)) (read_steps (R c))"
      "distinct (map fst (read_steps (R c)))"
      using json_fits [of c] by (simp_all add: prints_json_def)
    have b: "bound \<le> n" using t(4) by (simp add: ta)
    have ms: "members_at ctrl ?ms (p + 1 + length ''_self'' + length (jtext (J_str (self_name (P c)))) + 6) (int i) (i + 3)"
      using members_at_Cons(4) [OF j(1)] by (simp add: numeral_3_eq_3)
    have "brings (read_members ctrl (read_steps (R c)) ?run (length ?ms) (i + 3)) m (TR_obj q c ([] @ zs)) lk
        (\<lambda>j u. j = i + 3 + nmem ?ms \<and> (\<exists>xs' zs'. u = TR_obj q c (xs' @ zs') \<and> list_all2 same_flag [] xs' \<and>
          filled_fields (cc_struct (K c)) ss zs'))"
      by (rule members_brings [OF Suc.IH b st(2) keys_plain refl st(1) subset_refl source_of_tree _ fresh_of_tree(1) _ _ _ ms])
        (use t u fresh_of_tree in \<open>auto simp: ta ua\<close>)
    moreover have "obj_read_json mk strtof ctrl R K (Suc n) c (Some q) i =
        read_members ctrl (read_steps (R c)) ?run (length ?ms) (i + 3)"
      using j(2) k members_at_Cons(2) [OF j(1)] by (simp add: fun_eq_iff act_bind_def ret_def numeral_3_eq_3)
    ultimately show "brings (obj_read_json mk strtof ctrl R K (Suc n) c (Some (root u)) i) m u lk
        (\<lambda>j w. j = i + ntok (json_of F P t) \<and> like K (T_class c) t w)"
      by (simp only: ua root.simps append_Nil) (elim brings_mono, auto simp: ta intro!: like_of_fields)
  qed
qed

end

section \<open>Documents\<close>

lemma json_string_no_nul: "json_string_ok k \<Longrightarrow> NUL \<notin> set k"
proof (induction k rule: length_induct)
  case (1 k)
  have h: "hexval NUL = None" "ccode NUL = 0" "NUL \<noteq> bslash" by code_simp+
  show ?case
  proof (cases k)
    case (Cons c cs)
    show ?thesis
    proof (cases "c = bslash")
      case True
      then obtain d ds where d: "cs = d # ds" using 1(2) Cons by (cases cs) auto
      show ?thesis
      proof (cases "d = CHR ''u''")
        case u: True
        then obtain h1 h2 h3 h4 rest where "ds = h1 # h2 # h3 # h4 # rest" "hexval h1 \<noteq> None" "hexval h2 \<noteq> None"
            "hexval h3 \<noteq> None" "hexval h4 \<noteq> None" "json_string_ok rest"
          using 1(2) True d Cons by (auto split: list.splits)
        moreover from this have "h1 \<noteq> NUL" "h2 \<noteq> NUL" "h3 \<noteq> NUL" "h4 \<noteq> NUL" using h(1) by auto
        ultimately show ?thesis using 1(1) True u d h(3) Cons by auto
      next
        case False
        then have "d \<noteq> NUL" "json_string_ok ds" using 1(2) True d Cons h(3) by (auto split: if_splits)
        then show ?thesis using 1(1) Cons True d h(3) by auto
      qed
    next
      case False
      then have "json_string_ok cs" "c \<noteq> NUL" using 1(2) Cons h(2) by auto
      then show ?thesis using 1(1) Cons by simp
    qed
  qed simp
qed

lemma json_text_no_nul:
  "jval_ok v \<Longrightarrow> NUL \<notin> set (jtext v)"
  "members_ok ms \<Longrightarrow> NUL \<notin> set (jmembers ms)"
  "elements_ok vs \<Longrightarrow> NUL \<notin> set (jelements vs)"
proof (induction v and ms and vs rule: jtext_jmembers_jelements.induct)
  case (1 s)
  then show ?case using json_string_no_nul by (simp add: quoted_def)
next
  case (2 s)
  have "\<not> prim_char NUL" by code_simp
  then show ?case using 2 by auto
next
  case (6 k v ms)
  then show ?case using json_string_no_nul by (auto simp: quoted_def)
qed auto

lemma readable_printable:
  "readable P t \<Longrightarrow> printable F t"
  "fields_readable P ps ss \<Longrightarrow> \<forall>s \<in> set ss. slot_printable F s"
  "slot_readable P p s \<Longrightarrow> slot_printable F s"
proof (induction t and ps ss and p s rule: readable_fields_readable_slot_readable.induct)
  case (6 P ps s ss)
  then show ?case by (cases s; cases ps) auto
qed simp_all


lemma self_key:
  assumes "jval_ok (J_obj ((''_self'', J_str n) # ms))" "ctrl = \<lparr>json_input = jtext (J_obj ((''_self'', J_str n) # ms)),
    json_toks = map jtok_of (jtoks (J_obj ((''_self'', J_str n) # ms)) 0 (-1) 0)\<rparr>"
  shows "get_json_key (json_input ctrl) (json_toks ctrl) ''_self'' 0 = Inr 1"
    and "\<exists>j. jtok_at ctrl 2 = ret j \<and> (\<forall>k. jsoneq (json_input ctrl) j k \<longleftrightarrow> k = n)"
proof -
  let ?v = "J_obj ((''_self'', J_str n) # ms)"
  have v: "value_at ctrl ?v 0 (-1) 0" by (rule value_at_top) (simp_all add: assms(2))
  obtain x y where j: "members_at ctrl ((''_self'', J_str n) # ms) 1 0 1"
    "jtok_at ctrl 0 = ret \<lparr>jtype = JSMN_OBJECT, jstart = x, jend = y, jsize = Suc (length ms)\<rparr>"
    using value_at_object [OF v] by auto
  obtain k where k: "jtok_at ctrl 1 = ret k" "jsoneq (json_input ctrl) k ''_self''"
    using members_at_Cons(1) [OF j(1)] by auto
  have at: "jtok_at ctrl i = ret t \<Longrightarrow> i < length (json_toks ctrl) \<and> json_toks ctrl ! i = t" for i t
    by (cases "i < length (json_toks ctrl)") (auto simp: jtok_at_def ret_def fail_def fun_eq_iff)
  note t = at [OF j(2)] at [OF k(1)]
  have "\<not> jsoneq (json_input ctrl) (json_toks ctrl ! 0) ''_self''" using t(1) by (simp add: jsoneq_def)
  then show "get_json_key (json_input ctrl) (json_toks ctrl) ''_self'' 0 = Inr 1"
    using t k(2) by (simp add: get_json_key_def)
  have "value_at ctrl (J_str n) 10 1 2" using members_at_Cons(3) [OF j(1)] by (simp add: numeral_2_eq_2)
  then obtain r where r: "jtok_at ctrl 2 = ret \<lparr>jtype = JSMN_STRING, jstart = 10 + 1, jend = 10 + 1 + length n, jsize = 0\<rparr>"
    "drop (10 + 1) (json_input ctrl) = n @ r" by (rule string_at)
  have "jsoneq (json_input ctrl) \<lparr>jtype = JSMN_STRING, jstart = 10 + 1, jend = 10 + 1 + length n, jsize = 0\<rparr> k \<longleftrightarrow> k = n" for k
    unfolding jsoneq_def jtok.simps r(2) by auto
  then show "\<exists>j. jtok_at ctrl 2 = ret j \<and> (\<forall>k. jsoneq (json_input ctrl) j k \<longleftrightarrow> k = n)"
    using r(1) by blast
qed

text \<open>Reading the text of a document makes a document with its contents, and changes nothing else.\<close>

lemma new_from_text:
  assumes c: "map_of code_table c = Some k" and t: "wt lib_codes t (T_class c)" "complete lib_codes t" "readable lib_print t"
    "size t + lib_bound \<le> n" "ntok (json_of F lib_print t) \<le> 1024" and F: "float_text_ok F" and m: "live m" "all_ok m"
  obtains u m' where "object_new_from_json mk strtof read_table lib_read lib_codes n (jtext (json_of F lib_print t)) m =
      (Inr (Some (root u), Inr ()), m')"
    "evolves m [] (cells_of u None) m'" "wt lib_codes u (T_class c)" "content u = content t"
proof -
  let ?v = "json_of F lib_print t"
  let ?ctrl = "\<lparr>json_input = jtext ?v, json_toks = map jtok_of (jtoks ?v 0 (-1) 0)\<rparr>"
  obtain a ss where ta: "t = TR_obj a c ss" using t(1) by (cases t) auto
  obtain ms where v: "?v = J_obj ((''_self'', J_str (self_name (lib_print c))) # ms)" by (simp add: ta)
  have ok: "jval_ok ?v" by (rule lib_json.json_of_ok [OF F t(1) readable_printable(1) [OF t(3)]])
  have whole: "cstr (jtext ?v) = jtext ?v" by (rule cstr_id [OF json_text_no_nul(1) [OF ok]])
  have parse: "jsmn_parse 1024 (jtext ?v) jsmn_init = Inr (ntok ?v, jtoks ?v 0 (-1) 0)" by (rule jsmn_parses [OF ok t(5)])
  have key: "get_json_key (jtext ?v) (map jtok_of (jtoks ?v 0 (-1) 0)) ''_self'' 0 = Inr 1"
    using self_key(1) [OF ok [unfolded v] refl] by (simp add: v)
  obtain j where j: "jtok_at ?ctrl 2 = ret j" "\<forall>k. jsoneq (jtext ?v) j k \<longleftrightarrow> k = self_name (lib_print c)"
    using self_key(2) [OF ok [unfolded v] refl] by (auto simp: v)
  have cls: "find (\<lambda>(_, r). jsoneq (jtext ?v) j (read_self r)) read_table = Some (c, lib_read c)"
    using lib_json_facts [OF c] j(2) by simp
  have b: "lib_bound \<le> n" using t(4) by simp
  obtain w m1 where w: "obj_new lib_codes n c m = (Inr (Some (root w), Inr ()), m1)" "evolves m [] (cells_of w None) m1"
    "lib.fresh_tree (T_class c) w"
    using lib.leaf_new_makes [OF m b, of "T_class c"] unfolding makes_def leaf_new_def by auto
  have s1: "sound m1 w None"
    using w(2) m evolves_live [OF m(1) owns_Nil _ w(2)] evolves_owns [OF w(2)] by (simp add: sound_def evolves_def all_ok_def)
  have at: "value_at ?ctrl ?v 0 (-1) 0" by (rule value_at_top) simp_all
  have "brings (obj_read_json mk strtof ?ctrl lib_read lib_codes n c (Some (root w)) 0) m1 w None
      (\<lambda>j u. j = 0 + ntok ?v \<and> like lib_codes (T_class c) t u)"
    by (rule lib_json.readsD [OF lib_json.obj_reads t(1-4) w(3) s1 at])
  then obtain i u m2 where u: "obj_read_json mk strtof ?ctrl lib_read lib_codes n c (Some (root w)) 0 m1 = (Inr i, m2)"
    "evolves m1 (addrs w) (cells_of u None) m2" "root u = root w" "like lib_codes (T_class c) t u"
    unfolding brings_def by blast
  have "object_new_from_json mk strtof read_table lib_read lib_codes n (jtext ?v) m = (Inr (Some (root u), Inr ()), m2)"
    using parse key j(1) [unfolded numeral_2_eq_2] cls w(1) u(1,3)
    by (simp add: object_new_from_json_def whole Let_def act_bind_def ret_def lift_res_def act_try_def)
  moreover have "evolves m [] (cells_of u None) m2"
    by (rule evolves_trans [OF m(1) owns_Nil _ w(2) cells_addrs [of _ None] u(2)]) simp
  ultimately show ?thesis using that u(4) by (simp add: like_def)
qed



end
