(* ===== verification/Criteria.thy ===== *)
theory Criteria
  imports Errors
begin

text \<open>
  The criteria of src/src/iodefv2-criteria.c: a criterion compares the value below a path with a
  criterion value; criteria combine criterions by conjunction, disjunction and negation in nodes
  that own their parts. The heap of nodes is explicit, since \<open>and_criteria\<close> and \<open>or_criteria\<close>
  rewrite it in place. The functions of paths and criterion values that criterions call are the record
  \<open>criterion_calls\<close>; what they do to memory of their own is left out.
\<close>

section \<open>State\<close>

type_synonym crit_ptr = nat

record ('p, 'v) criterion =
  crit_path :: 'p
  crit_value :: "'v option"
  crit_operator :: nat

record criteria =
  crefs :: int
  negated :: bool
  criterion_of :: "crit_ptr option"
  c_or :: "crit_ptr option"
  c_and :: "crit_ptr option"

record ('p, 'v) criteria_heap =
  crit_nodes :: "crit_ptr \<Rightarrow> criteria option"
  criterions :: "crit_ptr \<Rightarrow> ('p, 'v) criterion option"
  crit_next :: crit_ptr
  crit_alloc_ok :: "crit_ptr \<Rightarrow> bool"

text \<open>\<open>call_match\<close> returns what \<open>iodefv2_criterion_value_match\<close> returns when that is not negative.\<close>

record ('p, 'v, 'o, 'w) criterion_calls =
  call_path_get :: "'p \<Rightarrow> 'o \<Rightarrow> 'w option res"
  call_match :: "'v option \<Rightarrow> 'w option \<Rightarrow> nat \<Rightarrow> nat res"
  call_path_clone :: "'p \<Rightarrow> 'p res"
  call_value_clone :: "'v \<Rightarrow> 'v res"
  call_path_name :: "'p \<Rightarrow> string"
  call_value_text :: "'v \<Rightarrow> string"

type_synonym ('p, 'v, 'a) crit_act = "('p, 'v) criteria_heap \<Rightarrow> 'a res \<times> ('p, 'v) criteria_heap"

definition crit_bind :: "('p, 'v, 'a) crit_act \<Rightarrow> ('a \<Rightarrow> ('p, 'v, 'b) crit_act) \<Rightarrow> ('p, 'v, 'b) crit_act" where
  "crit_bind f g = (\<lambda>h. case f h of (Inl e, h') \<Rightarrow> (Inl e, h') | (Inr x, h') \<Rightarrow> g x h')"

lemma crit_bind_app:
  "f h = (Inr x, h') \<Longrightarrow> crit_bind f g h = g x h'"
  "f h = (Inl e, h') \<Longrightarrow> crit_bind f g h = (Inl e, h')"
  by (simp_all add: crit_bind_def)

definition crit_ret :: "'a res \<Rightarrow> ('p, 'v, 'a) crit_act" where
  "crit_ret r = (\<lambda>h. (r, h))"

lemma crit_ret_app [simp]: "crit_ret r h = (r, h)"
  by (simp add: crit_ret_def)

definition node_at :: "crit_ptr \<Rightarrow> ('p, 'v, criteria) crit_act" where
  "node_at a = (\<lambda>h. (case crit_nodes h a of None \<Rightarrow> Inl (UB Use_after_free) | Some x \<Rightarrow> Inr x, h))"

definition put_node :: "crit_ptr \<Rightarrow> criteria option \<Rightarrow> ('p, 'v, unit) crit_act" where
  "put_node a x = (\<lambda>h. (Inr (), h\<lparr>crit_nodes := (crit_nodes h)(a := x)\<rparr>))"

definition change_node :: "crit_ptr \<Rightarrow> (criteria \<Rightarrow> criteria) \<Rightarrow> ('p, 'v, unit) crit_act" where
  "change_node a f = crit_bind (node_at a) (\<lambda>x. put_node a (Some (f x)))"

section \<open>Criterions\<close>

definition OPERATOR_NULL :: nat where "OPERATOR_NULL = 0x20"

text \<open>The table of \<open>iodefv2_criterion_operator_to_string\<close>; it has no terminating entry.\<close>

definition operator_table :: "(nat \<times> string) list" where
  "operator_table =
     [(0x1, ''=''), (0x4001, ''=*''), (0x8001, ''!=''), (0xC001, ''!=*''), (0x2, ''<''), (0x4, ''>''),
      (0x3, ''<=''), (0x5, ''>=''), (0x10, ''~''), (0x4010, ''~*''), (0x8010, ''!~''), (0xC010, ''!~*''),
      (0x8, ''<>''), (0x4008, ''<>*''), (0x8008, ''!<>''), (0xC008, ''!<>*''), (0x8020, ''''), (0x20, ''!'')]"

fun operator_search :: "nat \<Rightarrow> (nat \<times> string) list \<Rightarrow> string option res" where
  "operator_search op [] = Inl (UB Out_of_bounds)"
| "operator_search op ((i, s) # tbl) =
     (if i = 0 then Inr None else if op = i then Inr (Some s) else operator_search op tbl)"

definition criterion_operator_to_string :: "nat \<Rightarrow> string option res" where
  "criterion_operator_to_string op = operator_search op operator_table"

definition criterion_new :: "'p \<Rightarrow> 'v option \<Rightarrow> nat \<Rightarrow> ('p, 'v, crit_ptr) crit_act" where
  "criterion_new p v op = (\<lambda>h.
     if v = None \<and> even (op div OPERATOR_NULL) then (Inl (E ERROR_ASSERTION), h)
     else let a = crit_next h; h1 = h\<lparr>crit_next := a + 1\<rparr> in
       if \<not> crit_alloc_ok h a then (Inl E_errno, h1)
       else (Inr a, h1\<lparr>criterions := (criterions h)(a \<mapsto> \<lparr>crit_path = p, crit_value = v, crit_operator = op\<rparr>)\<rparr>))"

definition criterion_destroy :: "crit_ptr \<Rightarrow> ('p, 'v, unit) crit_act" where
  "criterion_destroy k = (\<lambda>h. if criterions h k = None then (Inl (UB Use_after_free), h)
     else (Inr (), h\<lparr>criterions := (criterions h)(k := None)\<rparr>))"

definition criterion_at :: "crit_ptr option \<Rightarrow> ('p, 'v) criteria_heap \<Rightarrow> ('p, 'v) criterion res" where
  "criterion_at k h = (case k of None \<Rightarrow> Inl (E ERROR_ASSERTION)
     | Some k \<Rightarrow> (case criterions h k of None \<Rightarrow> Inl (UB Use_after_free) | Some c \<Rightarrow> Inr c))"

definition clone_parts :: "('p, 'v, 'o, 'w) criterion_calls \<Rightarrow> ('p, 'v) criterion \<Rightarrow> ('p \<times> 'v option) res" where
  "clone_parts F c = res_bind (call_path_clone F (crit_path c)) (\<lambda>p.
     case crit_value c of None \<Rightarrow> Inr (p, None)
     | Some v \<Rightarrow> res_bind (call_value_clone F v) (\<lambda>v'. Inr (p, Some v')))"

definition criterion_clone :: "('p, 'v, 'o, 'w) criterion_calls \<Rightarrow> crit_ptr option \<Rightarrow> ('p, 'v, crit_ptr) crit_act" where
  "criterion_clone F k = (\<lambda>h.
     case res_bind (criterion_at k h) (\<lambda>c. res_bind (clone_parts F c) (\<lambda>pv. Inr (pv, crit_operator c))) of
       Inl e \<Rightarrow> (Inl e, h)
     | Inr ((p, v), op) \<Rightarrow> criterion_new p v op h)"

definition criterion_match :: "('p, 'v, 'o, 'w) criterion_calls \<Rightarrow> ('p, 'v) criterion \<Rightarrow> 'o \<Rightarrow> nat res" where
  "criterion_match F c obj = res_bind (call_path_get F (crit_path c) obj) (\<lambda>w.
     res_bind (call_match F (crit_value c) w (crit_operator c)) (\<lambda>r. Inr (if r > 0 then 1 else 0)))"

text \<open>The text appended to the string, with the return code.\<close>

definition criterion_to_string :: "('p, 'v, 'o, 'w) criterion_calls \<Rightarrow> ('p, 'v) criterion \<Rightarrow> string res" where
  "criterion_to_string F c = res_bind (criterion_operator_to_string (crit_operator c)) (\<lambda>op. case op of
     None \<Rightarrow> Inl E_minus1
   | Some s \<Rightarrow> Inr (case crit_value c of
       None \<Rightarrow> s @ (if s = [] then [] else '' '') @ call_path_name F (crit_path c)
     | Some v \<Rightarrow> call_path_name F (crit_path c) @ '' '' @ s @ '' '' @ call_value_text F v))"

section \<open>Criteria\<close>

text \<open>\<open>calloc\<close>: the stored pointer and the return code.\<close>

definition criteria_new :: "('p, 'v, crit_ptr option \<times> unit res) crit_act" where
  "criteria_new = (\<lambda>h. let a = crit_next h; h1 = h\<lparr>crit_next := a + 1\<rparr> in
     if \<not> crit_alloc_ok h a then (Inr (None, Inl E_errno), h1)
     else (Inr (Some a, Inr ()), h1\<lparr>crit_nodes := (crit_nodes h)(a \<mapsto>
       \<lparr>crefs = 1, negated = False, criterion_of = None, c_or = None, c_and = None\<rparr>)\<rparr>))"

definition criteria_ref :: "crit_ptr \<Rightarrow> ('p, 'v, unit) crit_act" where
  "criteria_ref a = change_node a (\<lambda>x. x\<lparr>crefs := crefs x + 1\<rparr>)"

definition criteria_set_negation :: "crit_ptr \<Rightarrow> bool \<Rightarrow> ('p, 'v, unit) crit_act" where
  "criteria_set_negation a b = change_node a (\<lambda>x. x\<lparr>negated := b\<rparr>)"

definition criteria_set_criterion :: "crit_ptr \<Rightarrow> crit_ptr \<Rightarrow> ('p, 'v, unit) crit_act" where
  "criteria_set_criterion a k = change_node a (\<lambda>x. x\<lparr>criterion_of := Some k\<rparr>)"

definition when_some :: "crit_ptr option \<Rightarrow> (crit_ptr \<Rightarrow> ('p, 'v, unit) crit_act) \<Rightarrow> ('p, 'v, unit) crit_act" where
  "when_some a f = (case a of None \<Rightarrow> crit_ret (Inr ()) | Some b \<Rightarrow> f b)"

fun criteria_destroy :: "nat \<Rightarrow> crit_ptr \<Rightarrow> ('p, 'v, unit) crit_act" where
  "criteria_destroy 0 a = crit_ret (Inl (UB No_fuel))"
| "criteria_destroy (Suc n) a =
     crit_bind (change_node a (\<lambda>x. x\<lparr>crefs := crefs x - 1\<rparr>)) (\<lambda>_.
     crit_bind (node_at a) (\<lambda>x.
       if crefs x \<noteq> 0 then crit_ret (Inr ())
       else crit_bind (when_some (criterion_of x) criterion_destroy) (\<lambda>_.
            crit_bind (when_some (c_or x) (criteria_destroy n)) (\<lambda>_.
            crit_bind (when_some (c_and x) (criteria_destroy n)) (\<lambda>_.
              put_node a None)))))"

text \<open>
  A part of a clone: what the recursive call stored goes into the new node, whatever it returned;
  after an error the new node is destroyed and the error returned. \<open>k\<close> is what follows.
\<close>

definition clone_part :: "nat \<Rightarrow> crit_ptr \<Rightarrow> (crit_ptr option \<Rightarrow> criteria \<Rightarrow> criteria) \<Rightarrow>
    ('p, 'v, crit_ptr option \<times> unit res) crit_act option \<Rightarrow> ('p, 'v, crit_ptr option \<times> unit res) crit_act \<Rightarrow>
    ('p, 'v, crit_ptr option \<times> unit res) crit_act" where
  "clone_part n new upd part k = (case part of None \<Rightarrow> k
     | Some f \<Rightarrow> crit_bind f (\<lambda>(d, r). crit_bind (change_node new (upd d)) (\<lambda>_. case r of
         Inr u \<Rightarrow> k
       | Inl e \<Rightarrow> crit_bind (criteria_destroy n new) (\<lambda>_. crit_ret (Inr (Some new, Inl e))))))"

definition clone_criterion :: "('p, 'v, 'o, 'w) criterion_calls \<Rightarrow> nat \<Rightarrow> crit_ptr \<Rightarrow> crit_ptr option \<Rightarrow>
    ('p, 'v, crit_ptr option \<times> unit res) crit_act" where
  "clone_criterion F n new k = (\<lambda>h. case criterion_clone F k h of
     (Inr k, h') \<Rightarrow> crit_bind (change_node new (\<lambda>y. y\<lparr>criterion_of := Some k\<rparr>)) (\<lambda>_. crit_ret (Inr (Some new, Inr ()))) h'
   | (Inl (UB u), h') \<Rightarrow> (Inl (UB u), h')
   | (Inl e, h') \<Rightarrow> crit_bind (criteria_destroy n new) (\<lambda>_. crit_ret (Inr (Some new, Inl e))) h')"

fun criteria_clone :: "('p, 'v, 'o, 'w) criterion_calls \<Rightarrow> nat \<Rightarrow> crit_ptr \<Rightarrow> ('p, 'v, crit_ptr option \<times> unit res) crit_act" where
  "criteria_clone F 0 src = crit_ret (Inl (UB No_fuel))"
| "criteria_clone F (Suc n) src =
     crit_bind criteria_new (\<lambda>(d, r). case d of
       None \<Rightarrow> crit_ret (Inr (d, r))
     | Some new \<Rightarrow>
         crit_bind (node_at src) (\<lambda>x.
         crit_bind (change_node new (\<lambda>y. y\<lparr>negated := negated x\<rparr>)) (\<lambda>_.
         clone_part (Suc n) new (\<lambda>d y. y\<lparr>c_or := d\<rparr>) (map_option (criteria_clone F n) (c_or x))
        (clone_part (Suc n) new (\<lambda>d y. y\<lparr>c_and := d\<rparr>) (map_option (criteria_clone F n) (c_and x))
        (clone_criterion F (Suc n) new (criterion_of x))))))"

fun criteria_to_string :: "('p, 'v, 'o, 'w) criterion_calls \<Rightarrow> nat \<Rightarrow> crit_ptr \<Rightarrow> ('p, 'v) criteria_heap \<Rightarrow> string res" where
  "criteria_to_string F 0 a h = Inl (UB No_fuel)"
| "criteria_to_string F (Suc n) a h = res_bind (fst (node_at a h)) (\<lambda>x.
     res_bind (case res_bind (criterion_at (criterion_of x) h) (criterion_to_string F) of
         Inl (UB u) \<Rightarrow> Inl (UB u) | Inl e \<Rightarrow> Inr [] | Inr s \<Rightarrow> Inr s) (\<lambda>s.
     res_bind (case c_and x of None \<Rightarrow> Inr []
         | Some b \<Rightarrow> res_bind (criteria_to_string F n b h) (\<lambda>t. Inr ('' && '' @ t))) (\<lambda>conj.
     case c_or x of None \<Rightarrow> Inr (s @ conj)
     | Some b \<Rightarrow> res_bind (criteria_to_string F n b h) (\<lambda>t. Inr (''(('' @ s @ conj @ '') || ('' @ t @ ''))'')))))"

fun or_loop :: "nat \<Rightarrow> crit_ptr \<Rightarrow> crit_ptr \<Rightarrow> ('p, 'v, unit) crit_act" where
  "or_loop 0 a b = crit_ret (Inl (UB No_fuel))"
| "or_loop (Suc n) a b = crit_bind (node_at a) (\<lambda>x. case c_or x of
     Some o' \<Rightarrow> or_loop n o' b
   | None \<Rightarrow> change_node a (\<lambda>x. x\<lparr>c_or := Some b\<rparr>))"

definition criteria_or_criteria :: "nat \<Rightarrow> crit_ptr \<Rightarrow> crit_ptr \<Rightarrow> ('p, 'v, unit) crit_act" where
  "criteria_or_criteria n a b = or_loop n a b"

text \<open>The loop of \<open>iodefv2_criteria_and_criteria\<close> at node \<open>cur\<close> after node \<open>last\<close>.\<close>

fun and_loop :: "('p, 'v, 'o, 'w) criterion_calls \<Rightarrow> nat \<Rightarrow> crit_ptr option \<Rightarrow> crit_ptr option \<Rightarrow> crit_ptr \<Rightarrow> ('p, 'v, unit) crit_act" where
  "and_loop F n None lst b = (case lst of None \<Rightarrow> crit_ret (Inl (UB Null_deref))
     | Some l \<Rightarrow> change_node l (\<lambda>x. x\<lparr>c_and := Some b\<rparr>))"
| "and_loop F 0 (Some a) lst b = crit_ret (Inl (UB No_fuel))"
| "and_loop F (Suc n) (Some a) lst b =
     crit_bind (node_at a) (\<lambda>x.
     crit_bind (case c_or x of None \<Rightarrow> crit_ret (Inr ())
       | Some o' \<Rightarrow> crit_bind (criteria_clone F n b) (\<lambda>(d, r). case (d, r) of
           (_, Inl e) \<Rightarrow> crit_ret (Inl e)
         | (None, Inr u) \<Rightarrow> crit_ret (Inl (E ERROR_ASSERTION))
         | (Some new, Inr u) \<Rightarrow> and_loop F n (Some o') None new)) (\<lambda>_.
     crit_bind (node_at a) (\<lambda>x. and_loop F n (c_and x) (Some a) b)))"

definition criteria_and_criteria :: "('p, 'v, 'o, 'w) criterion_calls \<Rightarrow> nat \<Rightarrow> crit_ptr \<Rightarrow> crit_ptr \<Rightarrow> ('p, 'v, unit) crit_act" where
  "criteria_and_criteria F n a b = and_loop F n (Some a) None b"

fun criteria_match :: "('p, 'v, 'o, 'w) criterion_calls \<Rightarrow> nat \<Rightarrow> crit_ptr \<Rightarrow> 'o \<Rightarrow> ('p, 'v) criteria_heap \<Rightarrow> nat res" where
  "criteria_match F 0 a obj h = Inl (UB No_fuel)"
| "criteria_match F (Suc n) a obj h = res_bind (fst (node_at a h)) (\<lambda>x.
     res_bind (criterion_at (criterion_of x) h) (\<lambda>c.
     res_bind (criterion_match F c obj) (\<lambda>r.
     res_bind (case c_and x of Some b \<Rightarrow> if r = 1 then criteria_match F n b obj h else Inr r | None \<Rightarrow> Inr r) (\<lambda>r.
     res_bind (case c_or x of Some b \<Rightarrow> if r = 0 then criteria_match F n b obj h else Inr r | None \<Rightarrow> Inr r) (\<lambda>r.
       Inr (if negated x then (if r = 0 then 1 else 0) else r))))))"


section \<open>Criteria as trees\<close>

text \<open>
  The nodes that criteria own: the address of a node, its negation, its criterion with its address,
  and the criteria of its \<open>or\<close> and \<open>and\<close> pointers (\<open>CLeaf\<close> for NULL).
\<close>

datatype ('p, 'v) ctree =
    CLeaf
  | CNode crit_ptr bool crit_ptr "('p, 'v) criterion" "('p, 'v) ctree" "('p, 'v) ctree"

fun croot :: "('p, 'v) ctree \<Rightarrow> crit_ptr option" where
  "croot CLeaf = None"
| "croot (CNode a ng k c o' n') = Some a"

fun cnodes :: "('p, 'v) ctree \<Rightarrow> crit_ptr list" where
  "cnodes CLeaf = []"
| "cnodes (CNode a ng k c o' n') = a # cnodes o' @ cnodes n'"

fun crits :: "('p, 'v) ctree \<Rightarrow> ('p, 'v) criterion set" where
  "crits CLeaf = {}"
| "crits (CNode a ng k c o' n') = {c} \<union> crits o' \<union> crits n'"

fun holds :: "('p, 'v) criteria_heap \<Rightarrow> ('p, 'v) ctree \<Rightarrow> bool" where
  "holds h CLeaf \<longleftrightarrow> True"
| "holds h (CNode a ng k c o' n') \<longleftrightarrow> criterions h k = Some c \<and> holds h o' \<and> holds h n' \<and>
     crit_nodes h a = Some \<lparr>crefs = 1, negated = ng, criterion_of = Some k, c_or = croot o', c_and = croot n'\<rparr>"

fun cdepth :: "('p, 'v) ctree \<Rightarrow> nat" where
  "cdepth CLeaf = 0"
| "cdepth (CNode a ng k c o' n') = Suc (max (cdepth o') (cdepth n'))"

fun never_negated :: "('p, 'v) ctree \<Rightarrow> bool" where
  "never_negated CLeaf \<longleftrightarrow> True"
| "never_negated (CNode a ng k c o' n') \<longleftrightarrow> \<not> ng \<and> never_negated o' \<and> never_negated n'"

fun alternatives_plain :: "('p, 'v) ctree \<Rightarrow> bool" where
  "alternatives_plain CLeaf \<longleftrightarrow> True"
| "alternatives_plain (CNode a ng k c o' n') \<longleftrightarrow> \<not> ng \<and> alternatives_plain o'"

text \<open>What criteria mean, when \<open>m\<close> says which criterions match.\<close>

fun meaning :: "(('p, 'v) criterion \<Rightarrow> bool) \<Rightarrow> ('p, 'v) ctree \<Rightarrow> bool" where
  "meaning m CLeaf \<longleftrightarrow> True"
| "meaning m (CNode a ng k c o' n') \<longleftrightarrow> ng \<noteq> (m c \<and> meaning m n' \<or> o' \<noteq> CLeaf \<and> meaning m o')"

definition matches :: "('p, 'v, 'o, 'w) criterion_calls \<Rightarrow> 'o \<Rightarrow> ('p, 'v) criterion \<Rightarrow> bool" where
  "matches F obj c \<longleftrightarrow> criterion_match F c obj = Inr 1"

lemma criterion_match_Inr: "criterion_match F c obj = Inr r \<Longrightarrow> r = (if matches F obj c then 1 else 0)"
  by (auto simp: matches_def criterion_match_def res_bind_Inr_iff)

lemma croot_None [simp]: "croot t = None \<longleftrightarrow> t = CLeaf"
  by (cases t) auto

lemma node_at_holds:
  "holds h (CNode a ng k c o' n') \<Longrightarrow> node_at a h =
     (Inr \<lparr>crefs = 1, negated = ng, criterion_of = Some k, c_or = croot o', c_and = croot n'\<rparr>, h)"
  by (simp add: node_at_def)

lemma criteria_match_meaning:
  assumes "holds h t" "croot t = Some a" "cdepth t \<le> n" "\<forall>c \<in> crits t. criterion_match F c obj \<in> range Inr"
  shows "criteria_match F n a obj h = Inr (if meaning (matches F obj) t then 1 else 0)"
  using assms
proof (induction t arbitrary: n a)
  case (CNode b ng k c o' n')
  obtain l where n: "n = Suc l" using CNode.prems(3) by (cases n) auto
  obtain r where r: "criterion_match F c obj = Inr r" using CNode.prems(4) by auto
  have N: "criteria_match F l y obj h = Inr (if meaning (matches F obj) n' then 1 else 0)" if "croot n' = Some y" for y
    using CNode that n by auto
  have O: "criteria_match F l y obj h = Inr (if meaning (matches F obj) o' then 1 else 0)" if "croot o' = Some y" for y
    using CNode that n by auto
  show ?case
    using CNode.prems(1,2) n r N O criterion_match_Inr [OF r] node_at_holds [OF CNode.prems(1)]
    by (cases "croot o'"; cases "croot n'"; cases "matches F obj c"; cases "meaning (matches F obj) n'")
      (auto simp: criterion_at_def)
qed simp

section \<open>Separation\<close>

text \<open>Nothing exists yet at the addresses that will be given out.\<close>

definition unused :: "('p, 'v) criteria_heap \<Rightarrow> bool" where
  "unused h \<longleftrightarrow> (\<forall>a \<ge> crit_next h. crit_nodes h a = None \<and> criterions h a = None \<and> crit_alloc_ok h a)"

text \<open>Only new cells were added, and only the nodes in \<open>A\<close> changed.\<close>

definition changes :: "crit_ptr set \<Rightarrow> ('p, 'v) criteria_heap \<Rightarrow> ('p, 'v) criteria_heap \<Rightarrow> bool" where
  "changes A h h' \<longleftrightarrow> unused h' \<and> crit_next h \<le> crit_next h' \<and>
     (\<forall>a < crit_next h. (a \<notin> A \<longrightarrow> crit_nodes h' a = crit_nodes h a) \<and> criterions h' a = criterions h a)"

lemma changes_trans: "changes A h h' \<Longrightarrow> changes B h' h'' \<Longrightarrow> B \<subseteq> A \<union> {crit_next h..} \<Longrightarrow> changes A h h''"
  unfolding changes_def by (auto simp: subset_iff dest: order.strict_trans2) (metis leD order.strict_trans2)

lemma changes_refl: "unused h \<Longrightarrow> changes A h h"
  by (simp add: changes_def)

lemma holds_below: "holds h t \<Longrightarrow> unused h \<Longrightarrow> set (cnodes t) \<subseteq> {..<crit_next h}"
  by (induction t) (auto simp: unused_def not_le [symmetric])

lemma holds_changes:
  "holds h t \<Longrightarrow> unused h \<Longrightarrow> changes A h h' \<Longrightarrow> set (cnodes t) \<inter> A = {} \<Longrightarrow> holds h' t"
proof (induction t)
  case (CNode a ng k c o' n')
  then have "a < crit_next h" "k < crit_next h" by (auto simp: unused_def not_le [symmetric])
  then show ?case using CNode by (auto simp: changes_def)
qed simp

lemma changes_unused: "changes A h h' \<Longrightarrow> unused h'"
  by (simp add: changes_def)

lemma changes_weaken: "changes A h h' \<Longrightarrow> A \<subseteq> B \<Longrightarrow> changes B h h'"
  by (auto simp: changes_def)

section \<open>Cloning\<close>

text \<open>
  Criterions of \<open>G\<close> can be cloned, into criterions of \<open>G\<close> that match the same objects, and
  matching them gives an answer for \<open>obj\<close>.
\<close>

definition answers :: "('p, 'v, 'o, 'w) criterion_calls \<Rightarrow> 'o \<Rightarrow> ('p, 'v) criterion set \<Rightarrow> bool" where
  "answers F obj G \<longleftrightarrow> (\<forall>c \<in> G. criterion_match F c obj \<in> range Inr \<and>
     (crit_value c = None \<longrightarrow> odd (crit_operator c div OPERATOR_NULL)) \<and>
     (\<exists>p v. clone_parts F c = Inr (p, v) \<and> (v = None \<longleftrightarrow> crit_value c = None) \<and>
       \<lparr>crit_path = p, crit_value = v, crit_operator = crit_operator c\<rparr> \<in> G \<and>
       criterion_match F \<lparr>crit_path = p, crit_value = v, crit_operator = crit_operator c\<rparr> obj = criterion_match F c obj))"

lemma criterion_clone_ok:
  assumes "answers F obj G" "c \<in> G" "criterions h k = Some c" "unused h"
  obtains c' h' where "criterion_clone F (Some k) h = (Inr (crit_next h), h')" "c' \<in> G"
    "matches F obj c' = matches F obj c" "criterions h' (crit_next h) = Some c'" "crit_nodes h' = crit_nodes h"
    "crit_next h' = Suc (crit_next h)" "changes {} h h'"
proof -
  from assms(1,2) obtain p v where pv: "clone_parts F c = Inr (p, v)" "v = None \<longleftrightarrow> crit_value c = None"
      "\<lparr>crit_path = p, crit_value = v, crit_operator = crit_operator c\<rparr> \<in> G" (is "?c \<in> G")
      "criterion_match F \<lparr>crit_path = p, crit_value = v, crit_operator = crit_operator c\<rparr> obj = criterion_match F c obj"
    and op: "crit_value c = None \<longrightarrow> odd (crit_operator c div OPERATOR_NULL)"
    unfolding answers_def by blast
  have a: "crit_alloc_ok h (crit_next h)" using assms(4) by (simp add: unused_def)
  let ?h = "h\<lparr>crit_next := crit_next h + 1, criterions := (criterions h)(crit_next h \<mapsto> ?c)\<rparr>"
  have "criterion_clone F (Some k) h = (Inr (crit_next h), ?h)"
    using assms(3) pv(1,2) op a by (cases v) (auto simp: criterion_clone_def criterion_at_def criterion_new_def Let_def)
  moreover have "changes {} h ?h" using assms(4) by (auto simp: changes_def unused_def)
  ultimately show thesis using that [of ?h ?c] pv(3,4) by (simp add: matches_def)
qed

text \<open>A separate tree with the meaning of \<open>t\<close>, made of new cells only.\<close>

definition copies :: "('p, 'v, 'o, 'w) criterion_calls \<Rightarrow> 'o \<Rightarrow> ('p, 'v) criterion set \<Rightarrow> ('p, 'v) criteria_heap \<Rightarrow>
    ('p, 'v) ctree \<Rightarrow> ('p, 'v) criteria_heap \<Rightarrow> ('p, 'v) ctree \<Rightarrow> bool" where
  "copies F obj G h t h' t' \<longleftrightarrow> holds h' t' \<and> distinct (cnodes t') \<and> set (cnodes t') \<subseteq> {crit_next h..} \<and>
     crits t' \<subseteq> G \<and> cdepth t' = cdepth t \<and> (t' = CLeaf \<longleftrightarrow> t = CLeaf) \<and>
     meaning (matches F obj) t' = meaning (matches F obj) t"


lemma copies_changes:
  assumes "copies F obj G h t h1 t'" "unused h1" "changes A h1 h2" "A \<inter> {crit_next h..} = {}"
  shows "copies F obj G h t h2 t'"
  using assms holds_changes [of h1 t' A h2] unfolding copies_def by blast

lemma change_node_app:
  "crit_nodes h a = Some x \<Longrightarrow> change_node a f h = (Inr (), h\<lparr>crit_nodes := (crit_nodes h)(a \<mapsto> f x)\<rparr>)"
  by (simp add: change_node_def node_at_def crit_bind_app put_node_def)

lemma changes_put:
  "changes A h h' \<Longrightarrow> a < crit_next h' \<Longrightarrow> changes (insert a A) h (h'\<lparr>crit_nodes := (crit_nodes h')(a := x)\<rparr>)"
  by (auto simp: changes_def unused_def)

lemma holds_put:
  "a \<notin> set (cnodes t) \<Longrightarrow> holds (h\<lparr>crit_nodes := (crit_nodes h)(a := x)\<rparr>) t \<longleftrightarrow> holds h t"
  by (induction t) auto

lemma clone_part_ok:
  assumes clone: "\<And>y. croot t = Some y \<Longrightarrow> \<exists>t' h'. f y h = (Inr (croot t', Inr ()), h') \<and>
      changes {} h h' \<and> copies F obj G h t h' t'"
    and new: "crit_nodes h new = Some x" "new < crit_next h" "unused h" and upd: "upd None x = x"
  shows "\<exists>t' h'. clone_part n new upd (map_option f (croot t)) k h = k h' \<and>
      crit_nodes h' new = Some (upd (croot t') x) \<and> changes {new} h h' \<and> copies F obj G h t h' t'"
proof (cases "croot t")
  case None
  then show ?thesis using new upd
    by (intro exI [of _ CLeaf] exI [of _ h]) (simp add: clone_part_def copies_def changes_refl)
next
  case (Some y)
  from clone [OF this] obtain t' h1 where c: "f y h = (Inr (croot t', Inr ()), h1)"
    and ch: "changes {} h h1" and co: "copies F obj G h t h1 t'" by blast
  have x: "crit_nodes h1 new = Some x" "new < crit_next h1" using ch new by (auto simp: changes_def)
  let ?h = "h1\<lparr>crit_nodes := (crit_nodes h1)(new \<mapsto> upd (croot t') x)\<rparr>"
  have "new \<notin> set (cnodes t')" using co new(2) by (auto simp: copies_def)
  then have "copies F obj G h t ?h t'" using co by (simp add: copies_def holds_put)
  then show ?thesis
    using Some c changes_put [OF ch x(2)]
    by (intro exI [of _ t'] exI [of _ ?h]) (simp add: clone_part_def crit_bind_app change_node_app [OF x(1)])
qed

lemma clone_criterion_ok:
  assumes "answers F obj G" "c \<in> G" "criterions h k = Some c" "unused h" "new < crit_next h"
    "crit_nodes h new = Some \<lparr>crefs = 1, negated = ng, criterion_of = None, c_or = x, c_and = y\<rparr>"
  obtains c' h' where "clone_criterion F n new (Some k) h = (Inr (Some new, Inr ()), h')" "changes {new} h h'"
    "c' \<in> G" "matches F obj c' = matches F obj c" "criterions h' (crit_next h) = Some c'"
    "crit_nodes h' new = Some \<lparr>crefs = 1, negated = ng, criterion_of = Some (crit_next h), c_or = x, c_and = y\<rparr>"
proof -
  from criterion_clone_ok [OF assms(1-4)]
  obtain c' h1 where cl: "criterion_clone F (Some k) h = (Inr (crit_next h), h1)" and c': "c' \<in> G"
    "matches F obj c' = matches F obj c" "criterions h1 (crit_next h) = Some c'" "crit_nodes h1 = crit_nodes h"
    "crit_next h1 = Suc (crit_next h)" and ch: "changes {} h h1"
    by blast
  let ?h = "h1\<lparr>crit_nodes := (crit_nodes h1)(new \<mapsto>
      \<lparr>crefs = 1, negated = ng, criterion_of = Some (crit_next h), c_or = x, c_and = y\<rparr>)\<rparr>"
  have "clone_criterion F n new (Some k) h = (Inr (Some new, Inr ()), ?h)"
    using assms(6) by (simp add: clone_criterion_def cl crit_bind_app change_node_app c'(4))
  moreover have "changes {new} h ?h" using changes_put [OF ch, of new] assms(5) c'(5) by simp
  ultimately show thesis using that [of ?h c'] c' by simp
qed

lemma criteria_clone_ok:
  assumes "answers F obj G" "holds h t" "croot t = Some a" "cdepth t \<le> n" "crits t \<subseteq> G" "unused h"
  shows "\<exists>t' h'. criteria_clone F n a h = (Inr (croot t', Inr ()), h') \<and> changes {} h h' \<and> copies F obj G h t h' t'"
  using assms(2-)
proof (induction t arbitrary: h a n)
  case (CNode b ng k c o' n')
  obtain l where n: "n = Suc l" using CNode.prems(3) by (cases n) auto
  define new where "new = crit_next h"
  define h0 where "h0 = h\<lparr>crit_next := new + 1, crit_nodes := (crit_nodes h)(new \<mapsto>
       \<lparr>crefs = 1, negated = False, criterion_of = None, c_or = None, c_and = None\<rparr>)\<rparr>"
  define h1 where "h1 = h0\<lparr>crit_nodes := (crit_nodes h0)(new \<mapsto>
       \<lparr>crefs = 1, negated = ng, criterion_of = None, c_or = None, c_and = None\<rparr>)\<rparr>"
  note src = CNode.prems(1)
  have ab: "a = b" using CNode.prems(2) by simp
  have new: "criteria_new h = (Inr (Some new, Inr ()), h0)"
    using CNode.prems(5) by (simp add: criteria_new_def Let_def h0_def new_def unused_def)
  have c01: "changes {} h h0" "changes {} h h1"
    using CNode.prems(5) by (auto simp: changes_def unused_def h0_def h1_def new_def)
  have s0: "holds h0 (CNode b ng k c o' n')" and s1: "holds h1 (CNode b ng k c o' n')"
    using holds_changes [OF src CNode.prems(5) c01(1)] holds_changes [OF src CNode.prems(5) c01(2)] by simp_all
  have N1: "crit_nodes h1 new = Some \<lparr>crefs = 1, negated = ng, criterion_of = None, c_or = None, c_and = None\<rparr>"
    "new < crit_next h1" "unused h1"
    using changes_unused [OF c01(2)] by (simp_all add: h1_def h0_def)
  have set_neg: "change_node new (\<lambda>y. y\<lparr>negated := ng\<rparr>) h0 = (Inr (), h1)"
    using change_node_app [of h0 new "\<lparr>crefs = 1, negated = False, criterion_of = None, c_or = None, c_and = None\<rparr>"]
    by (simp add: h0_def h1_def)
  let ?k3 = "clone_criterion F (Suc l) new (Some k)"
  let ?k2 = "clone_part (Suc l) new (\<lambda>d y. y\<lparr>c_and := d\<rparr>) (map_option (criteria_clone F l) (croot n')) ?k3"
  have start: "criteria_clone F n a h =
      clone_part (Suc l) new (\<lambda>d y. y\<lparr>c_or := d\<rparr>) (map_option (criteria_clone F l) (croot o')) ?k2 h1"
    unfolding n ab criteria_clone.simps by (simp add: crit_bind_app new node_at_holds [OF s0] set_neg)
  have "\<exists>o2 h2. clone_part (Suc l) new (\<lambda>d y. y\<lparr>c_or := d\<rparr>) (map_option (criteria_clone F l) (croot o')) ?k2 h1 = ?k2 h2 \<and>
      crit_nodes h2 new = Some \<lparr>crefs = 1, negated = ng, criterion_of = None, c_or = croot o2, c_and = None\<rparr> \<and>
      changes {new} h1 h2 \<and> copies F obj G h1 o' h2 o2"
    using clone_part_ok [of o' "criteria_clone F l" h1 F obj G new _ "\<lambda>d y. y\<lparr>c_or := d\<rparr>" "Suc l" ?k2, OF _ N1]
      CNode.IH(1) [of h1 _ l] CNode.prems(3,4) s1 N1(3) n by simp
  then obtain o2 h2 where p2: "criteria_clone F n a h = ?k2 h2" and c12: "changes {new} h1 h2"
    and o2: "copies F obj G h1 o' h2 o2"
    and N2: "crit_nodes h2 new = Some \<lparr>crefs = 1, negated = ng, criterion_of = None, c_or = croot o2, c_and = None\<rparr>"
    using start by auto
  have below: "new \<notin> set (cnodes (CNode b ng k c o' n'))"
    using holds_below [OF src CNode.prems(5)] by (auto simp: new_def)
  have s2: "holds h2 (CNode b ng k c o' n')" using holds_changes [OF s1 N1(3) c12] below by blast
  have U2: "unused h2" "new < crit_next h2" using c12 N1(2) by (auto simp: changes_def)
  have "\<exists>n2 h3. ?k2 h2 = ?k3 h3 \<and>
      crit_nodes h3 new = Some \<lparr>crefs = 1, negated = ng, criterion_of = None, c_or = croot o2, c_and = croot n2\<rparr> \<and>
      changes {new} h2 h3 \<and> copies F obj G h2 n' h3 n2"
    using clone_part_ok [of n' "criteria_clone F l" h2 F obj G new _ "\<lambda>d y. y\<lparr>c_and := d\<rparr>" "Suc l" ?k3, OF _ N2 U2(2,1)]
      CNode.IH(2) [of h2 _ l] CNode.prems(3,4) s2 U2(1) n by simp
  then obtain n2 h3 where p3: "criteria_clone F n a h = ?k3 h3" and c23: "changes {new} h2 h3"
    and n2: "copies F obj G h2 n' h3 n2"
    and N3: "crit_nodes h3 new = Some \<lparr>crefs = 1, negated = ng, criterion_of = None, c_or = croot o2, c_and = croot n2\<rparr>"
    using p2 by auto
  have s3: "holds h3 (CNode b ng k c o' n')" using holds_changes [OF s2 U2(1) c23] below by blast
  have U3: "unused h3" "new < crit_next h3" using c23 U2(2) by (auto simp: changes_def)
  have "c \<in> G" "criterions h3 k = Some c" using CNode.prems(4) s3 by simp_all
  from clone_criterion_ok [OF assms(1) this U3 N3]
  obtain c' h4 where fin: "?k3 h3 = (Inr (Some new, Inr ()), h4)" and c34: "changes {new} h3 h4"
    and c': "c' \<in> G" "matches F obj c' = matches F obj c" "criterions h4 (crit_next h3) = Some c'"
    and N4: "crit_nodes h4 new = Some \<lparr>crefs = 1, negated = ng, criterion_of = Some (crit_next h3),
       c_or = croot o2, c_and = croot n2\<rparr>" by blast
  let ?t = "CNode new ng (crit_next h3) c' o2 n2"
  have c25: "changes {new} h2 h4" using changes_trans [OF c23 c34] by simp
  have o5: "copies F obj G h1 o' h4 o2"
    using copies_changes [OF o2 U2(1) c25] N1(2) by simp
  have n5: "copies F obj G h2 n' h4 n2"
    using copies_changes [OF n2 U3(1) c34] U2(2) by simp
  have "changes {} h h4" using changes_trans [OF c01(2) changes_trans [OF c12 c25]] by (auto simp: new_def)
  moreover have "copies F obj G h (CNode b ng k c o' n') h4 ?t"
  proof -
    have up: "set (cnodes o2) \<subseteq> {..<crit_next h2}" using holds_below [OF _ U2(1)] o2 by (simp add: copies_def)
    have "crit_next h \<le> crit_next h1" "crit_next h1 \<le> crit_next h2" using c01(2) c12 by (simp_all add: changes_def)
    moreover have "set (cnodes o2) \<subseteq> {crit_next h1..}" "set (cnodes n2) \<subseteq> {crit_next h2..}"
      using o5 n5 by (simp_all add: copies_def)
    ultimately have d: "new \<notin> set (cnodes o2)" "new \<notin> set (cnodes n2)" "set (cnodes o2) \<inter> set (cnodes n2) = {}"
      "set (cnodes ?t) \<subseteq> {new..}"
      using up N1(2) U2(2) by (fastforce simp: new_def)+
    have "holds h4 ?t" using o5 n5 c'(3) N4 by (simp add: copies_def)
    then show ?thesis
      using o5 n5 d c'(1,2) unfolding copies_def new_def by simp
  qed
  ultimately show ?case using p3 fin by (intro exI [of _ ?t] exI [of _ h4]) simp
qed simp


section \<open>Conjunction and disjunction\<close>

text \<open>
  What an operation made of \<open>t\<close>: a tree at the same root, of the nodes of \<open>t\<close> and of \<open>u\<close> and of new
  nodes, whose meaning is \<open>v\<close>.
\<close>

definition becomes :: "('p, 'v, 'o, 'w) criterion_calls \<Rightarrow> 'o \<Rightarrow> ('p, 'v) criterion set \<Rightarrow> ('p, 'v) criteria_heap \<Rightarrow>
    ('p, 'v) ctree \<Rightarrow> ('p, 'v) ctree \<Rightarrow> bool \<Rightarrow> ('p, 'v) criteria_heap \<Rightarrow> bool" where
  "becomes F obj G h t u v h' \<longleftrightarrow> changes (set (cnodes t)) h h' \<and> (\<exists>t'. holds h' t' \<and> croot t' = croot t \<and>
     distinct (cnodes t') \<and> set (cnodes t') \<subseteq> set (cnodes t) \<union> set (cnodes u) \<union> {crit_next h..} \<and>
     crits t' \<subseteq> G \<and> cdepth t' \<le> cdepth t + cdepth u \<and> meaning (matches F obj) t' = v)"

text \<open>The step of the loop for the \<open>or\<close> branch \<open>t\<close> of a node, given what the loop does with \<open>t\<close>.\<close>

lemma and_alternatives_ok:
  assumes "answers F obj G" "unused h" "holds h t" "holds h u" "croot u = Some r" "cdepth u \<le> n" "crits u \<subseteq> G"
    "distinct (cnodes t)"
    and loop: "\<And>h0 u1 q. holds h0 t \<Longrightarrow> unused h0 \<Longrightarrow> holds h0 u1 \<Longrightarrow> u1 \<noteq> CLeaf \<Longrightarrow> distinct (cnodes t @ cnodes u1) \<Longrightarrow>
      cdepth u1 = cdepth u \<Longrightarrow> crits u1 \<subseteq> G \<Longrightarrow> croot t = Some q \<Longrightarrow>
      \<exists>h'. and_loop F n (Some q) None (the (croot u1)) h0 = (Inr (), h') \<and>
        becomes F obj G h0 t u1 (meaning (matches F obj) t \<and> meaning (matches F obj) u1) h'"
  shows "\<exists>h1 t2. (case croot t of None \<Rightarrow> crit_ret (Inr ())
       | Some q \<Rightarrow> crit_bind (criteria_clone F n r) (\<lambda>(d, r). case (d, r) of
           (_, Inl e) \<Rightarrow> crit_ret (Inl e)
         | (None, Inr u) \<Rightarrow> crit_ret (Inl (E ERROR_ASSERTION))
         | (Some new, Inr u) \<Rightarrow> and_loop F n (Some q) None new)) h = (Inr (), h1) \<and>
     changes (set (cnodes t)) h h1 \<and> holds h1 t2 \<and> croot t2 = croot t \<and> distinct (cnodes t2) \<and>
     set (cnodes t2) \<subseteq> set (cnodes t) \<union> {crit_next h..} \<and> crits t2 \<subseteq> G \<and>
     cdepth t2 \<le> cdepth t + cdepth u \<and> (t \<noteq> CLeaf \<longrightarrow> meaning (matches F obj) t2 = (meaning (matches F obj) t \<and> meaning (matches F obj) u))"
proof (cases "croot t")
  case None
  then show ?thesis using assms(2) by (intro exI [of _ h] exI [of _ CLeaf]) (simp add: changes_refl)
next
  case (Some q)
  obtain u1 h0 where cl: "criteria_clone F n r h = (Inr (croot u1, Inr ()), h0)" and c0: "changes {} h h0"
    and u1: "copies F obj G h u h0 u1"
    using criteria_clone_ok [OF assms(1,4,5,6,7,2)] by blast
  have leaf: "u1 \<noteq> CLeaf" using u1 assms(5) by (auto simp: copies_def)
  then obtain r1 where r1: "croot u1 = Some r1" by (cases u1) auto
  have "set (cnodes t) \<subseteq> {..<crit_next h}" using holds_below [OF assms(3,2)] .
  then have "set (cnodes t) \<inter> set (cnodes u1) = {}" using u1 by (fastforce simp: copies_def)
  then have d: "distinct (cnodes t @ cnodes u1)" using assms(8) u1 by (simp add: copies_def)
  have "holds h0 t" using holds_changes [OF assms(3,2) c0] by simp
  from loop [OF this changes_unused [OF c0] _ leaf d _ _ Some] u1
  obtain h1 t2 where a: "and_loop F n (Some q) None r1 h0 = (Inr (), h1)" and c1: "changes (set (cnodes t)) h0 h1"
    and t2: "holds h1 t2" "croot t2 = croot t" "distinct (cnodes t2)"
     "set (cnodes t2) \<subseteq> set (cnodes t) \<union> set (cnodes u1) \<union> {crit_next h0..}" "crits t2 \<subseteq> G" "cdepth t2 \<le> cdepth t + cdepth u"
     "meaning (matches F obj) t2 = (meaning (matches F obj) t \<and> meaning (matches F obj) u1)"
    by (auto simp: becomes_def r1 copies_def)
  have "changes (set (cnodes t)) h h1" using changes_trans [OF changes_weaken [OF c0] c1] by simp
  moreover have "set (cnodes t2) \<subseteq> set (cnodes t) \<union> {crit_next h..}"
    using t2(4) u1 c0 by (fastforce simp: copies_def changes_def)
  ultimately show ?thesis
    using Some cl r1 a t2 u1 by (intro exI [of _ h1] exI [of _ t2]) (simp add: crit_bind_app copies_def)
qed

text \<open>
  The rest of the loop after node \<open>b\<close>, given what the loop does with the next node: the conjunction
  goes on with the tree of \<open>n'\<close>, or \<open>u\<close> is appended to \<open>b\<close>.
\<close>

lemma and_next_ok:
  assumes b: "holds h (CNode b ng k c o' n')" and u: "holds h u" "croot u = Some r" "crits u \<subseteq> G" and h: "unused h"
    and d: "distinct (b # cnodes o' @ cnodes n' @ cnodes u)"
    and loop: "\<And>q. croot n' = Some q \<Longrightarrow> \<exists>h'. and_loop F n (Some q) (Some b) r h = (Inr (), h') \<and>
      becomes F obj G h n' u (meaning (matches F obj) n' \<and> meaning (matches F obj) u) h'"
  shows "\<exists>h2 n2. and_loop F n (croot n') (Some b) r h = (Inr (), h2) \<and> changes (insert b (set (cnodes n'))) h h2 \<and>
      holds h2 (CNode b ng k c o' n2) \<and> distinct (cnodes n2) \<and> crits n2 \<subseteq> G \<and> cdepth n2 \<le> cdepth n' + cdepth u \<and>
      meaning (matches F obj) n2 = (meaning (matches F obj) n' \<and> meaning (matches F obj) u) \<and>
      set (cnodes n2) \<subseteq> set (cnodes n') \<union> set (cnodes u) \<union> {crit_next h..}"
proof (cases "croot n'")
  case None
  let ?h = "h\<lparr>crit_nodes := (crit_nodes h)(b \<mapsto>
      \<lparr>crefs = 1, negated = ng, criterion_of = Some k, c_or = croot o', c_and = Some r\<rparr>)\<rparr>"
  have "b < crit_next h" using holds_below [OF b h] by simp
  then have "changes {b} h ?h" using changes_put [OF changes_refl [OF h]] by simp
  moreover have "holds ?h (CNode b ng k c o' u)" using b u d by (simp add: holds_put)
  moreover have "and_loop F n (croot n') (Some b) r h = (Inr (), ?h)" using b None by (simp add: change_node_app)
  ultimately show ?thesis using None d u(3) by (intro exI [of _ ?h] exI [of _ u]) auto
next
  case (Some q)
  from loop [OF this]
  obtain h2 n2 where a: "and_loop F n (Some q) (Some b) r h = (Inr (), h2)" and c2: "changes (set (cnodes n')) h h2"
    and n2: "holds h2 n2" "croot n2 = croot n'" "distinct (cnodes n2)"
      "set (cnodes n2) \<subseteq> set (cnodes n') \<union> set (cnodes u) \<union> {crit_next h..}" "crits n2 \<subseteq> G"
      "cdepth n2 \<le> cdepth n' + cdepth u" "meaning (matches F obj) n2 = (meaning (matches F obj) n' \<and> meaning (matches F obj) u)"
    unfolding becomes_def by blast
  have below: "b < crit_next h" "k < crit_next h" using holds_below [OF b h] b h by (auto simp: unused_def not_le [symmetric])
  have "holds h2 o'" using holds_changes [of h o' "set (cnodes n')" h2] b h c2 d by auto
  moreover have "crit_nodes h2 b = crit_nodes h b" "criterions h2 k = criterions h k"
    using c2 below d by (simp_all add: changes_def)
  ultimately have "holds h2 (CNode b ng k c o' n2)" using b n2 by simp
  moreover have "changes (insert b (set (cnodes n'))) h h2" using changes_weaken [OF c2] by blast
  ultimately show ?thesis using Some a n2 by (intro exI [of _ h2] exI [of _ n2]) simp
qed

lemma and_loop_ok:
  assumes "answers F obj G" "holds h t" "croot t = Some a" "holds h u" "u \<noteq> CLeaf" "distinct (cnodes t @ cnodes u)"
    "cdepth t + cdepth u \<le> n" "crits t \<subseteq> G" "crits u \<subseteq> G" "unused h" "never_negated t"
  shows "\<exists>h'. and_loop F n (Some a) lst (the (croot u)) h = (Inr (), h') \<and>
      becomes F obj G h t u (meaning (matches F obj) t \<and> meaning (matches F obj) u) h'"
  using assms(2-)
proof (induction t arbitrary: h a u n lst)
  case (CNode b ng k c o' n')
  obtain l where n: "n = Suc l" using CNode.prems(6) by (cases n) auto
  obtain r where r: "croot u = Some r" using CNode.prems(4) by (cases u) auto
  note src = CNode.prems(1)
  let ?m = "meaning (matches F obj)"
  have ab: "a = b" using CNode.prems(2) by simp
  have parts: "holds h o'" "holds h n'" "cdepth u \<le> l" "distinct (cnodes o')"
    "crits o' \<subseteq> G" "crits n' \<subseteq> G" "never_negated o'" "never_negated n'" "\<not> ng" "c \<in> G"
    using src CNode.prems n by simp_all
  have "\<exists>h'. and_loop F l (Some q) None (the (croot u1)) h0 = (Inr (), h') \<and> becomes F obj G h0 o' u1 (?m o' \<and> ?m u1) h'"
    if "holds h0 o'" "unused h0" "holds h0 u1" "u1 \<noteq> CLeaf" "distinct (cnodes o' @ cnodes u1)"
      "cdepth u1 = cdepth u" "crits u1 \<subseteq> G" "croot o' = Some q" for h0 u1 q
    using CNode.IH(1) [OF that(1,8,3,4,5) _ parts(5) that(7,2) parts(7)] CNode.prems(6) that(6) n by simp
  from and_alternatives_ok [OF assms(1) CNode.prems(9) parts(1) CNode.prems(3) r parts(3) CNode.prems(8) parts(4) this]
  obtain h1 o2 where first: "(case croot o' of None \<Rightarrow> crit_ret (Inr ())
       | Some q \<Rightarrow> crit_bind (criteria_clone F l r) (\<lambda>(d, r). case (d, r) of
           (_, Inl e) \<Rightarrow> crit_ret (Inl e)
         | (None, Inr u) \<Rightarrow> crit_ret (Inl (E ERROR_ASSERTION))
         | (Some new, Inr u) \<Rightarrow> and_loop F l (Some q) None new)) h = (Inr (), h1)"
    and c1: "changes (set (cnodes o')) h h1" and o2: "holds h1 o2" "croot o2 = croot o'" "distinct (cnodes o2)"
     "set (cnodes o2) \<subseteq> set (cnodes o') \<union> {crit_next h..}" "crits o2 \<subseteq> G" "cdepth o2 \<le> cdepth o' + cdepth u" "o' \<noteq> CLeaf \<longrightarrow> ?m o2 = (?m o' \<and> ?m u)"
    by blast
  have old: "set (cnodes (CNode b ng k c o' n')) \<subseteq> {..<crit_next h}" "set (cnodes u) \<subseteq> {..<crit_next h}"
    using holds_below CNode.prems(1,3,9) by blast+
  have n1: "holds h1 n'" "holds h1 u"
    using holds_changes [OF parts(2) CNode.prems(9) c1] holds_changes [OF CNode.prems(3,9) c1] CNode.prems(5) by auto
  have "b \<notin> set (cnodes o')" "b < crit_next h" "k < crit_next h" "criterions h k = Some c"
    using CNode.prems(5,9) old src by (auto simp: unused_def not_le [symmetric])
  then have "crit_nodes h1 b = crit_nodes h b" "criterions h1 k = Some c" using c1 by (simp_all add: changes_def)
  then have b1: "holds h1 (CNode b ng k c o2 n')" using src o2 n1 by simp
  have below: "b < crit_next h1" "k < crit_next h1"
    using \<open>b < crit_next h\<close> \<open>k < crit_next h\<close> c1 by (simp_all add: changes_def)
  have up: "set (cnodes o2) \<subseteq> {..<crit_next h1}" using holds_below [OF o2(1) changes_unused [OF c1]] .
  have fresh: "b \<notin> set (cnodes o2)" using o2(4) CNode.prems(5) \<open>b < crit_next h\<close> by auto
  have apart: "set (cnodes o2) \<inter> (set (cnodes n') \<union> set (cnodes u)) = {}" using o2(4) CNode.prems(5) old by fastforce
  note src0 = node_at_holds [OF src] and src1 = node_at_holds [OF b1]
  have run: "and_loop F n (Some a) lst (the (croot u)) h = and_loop F l (croot n') (Some b) r h1"
    unfolding n ab r option.sel and_loop.simps
    by (simp add: crit_bind_app src0 src1 first)
  have dis: "distinct (b # cnodes o2 @ cnodes n' @ cnodes u)" using CNode.prems(5) fresh apart o2(3) by auto
  have next_loop: "\<exists>h'. and_loop F l (Some q) (Some b) r h1 = (Inr (), h') \<and> becomes F obj G h1 n' u (?m n' \<and> ?m u) h'"
    if "croot n' = Some q" for q
    using CNode.IH(2) [OF n1(1) that n1(2) CNode.prems(4) _ _ parts(6) CNode.prems(8) changes_unused [OF c1] parts(8)]
      CNode.prems(5,6) n r by simp
  from and_next_ok [OF b1 n1(2) r CNode.prems(8) changes_unused [OF c1] dis next_loop]
  obtain h2 n2 where second: "and_loop F l (croot n') (Some b) r h1 = (Inr (), h2)"
    and c2: "changes (insert b (set (cnodes n'))) h1 h2" and n2: "holds h2 (CNode b ng k c o2 n2)" "distinct (cnodes n2)"
      "crits n2 \<subseteq> G" "?m n2 = (?m n' \<and> ?m u)" "cdepth n2 \<le> cdepth n' + cdepth u" "set (cnodes n2) \<subseteq> set (cnodes n') \<union> set (cnodes u) \<union> {crit_next h1..}"
    by blast
  have "changes (set (cnodes (CNode b ng k c o' n'))) h h2"
    using changes_trans [OF changes_weaken [OF c1] c2, of "set (cnodes (CNode b ng k c o' n'))"] by auto
  moreover have "distinct (cnodes (CNode b ng k c o2 n2))"
  proof -
    have "set (cnodes o2) \<inter> set (cnodes n2) = {}" using apart n2(6) up by fastforce
    moreover have "b \<notin> set (cnodes n2)" using n2(6) CNode.prems(5) below(1) by fastforce
    ultimately show ?thesis using fresh o2(3) n2(2) by simp
  qed
  moreover have "set (cnodes (CNode b ng k c o2 n2)) \<subseteq> set (cnodes (CNode b ng k c o' n')) \<union> set (cnodes u) \<union> {crit_next h..}"
    using o2(4) n2(6) c1 by (auto simp: changes_def)
  moreover have "?m (CNode b ng k c o2 n2) = (?m (CNode b ng k c o' n') \<and> ?m u)"
  proof -
    have "o2 = CLeaf \<longleftrightarrow> o' = CLeaf" using o2(2) croot_None by metis
    then show ?thesis using o2(7) n2(4) parts(9) by auto
  qed
  moreover have "cdepth (CNode b ng k c o2 n2) \<le> cdepth (CNode b ng k c o' n') + cdepth u"
    using o2(6) n2(5) by (simp add: max_def)
  ultimately show ?case
    unfolding run becomes_def using second n2 o2(5) parts(10)
    by (intro exI [of _ h2] conjI exI [of _ "CNode b ng k c o2 n2"]) simp_all
qed simp

lemma or_loop_ok:
  assumes "holds h t" "croot t = Some a" "holds h u" "u \<noteq> CLeaf" "distinct (cnodes t @ cnodes u)"
    "cdepth t \<le> n" "crits t \<union> crits u \<subseteq> G" "unused h" "alternatives_plain t"
  shows "\<exists>h'. or_loop n a (the (croot u)) h = (Inr (), h') \<and>
      becomes F obj G h t u (meaning (matches F obj) t \<or> meaning (matches F obj) u) h'"
  using assms
proof (induction t arbitrary: a n)
  case (CNode b ng k c o' n')
  obtain l where n: "n = Suc l" using CNode.prems(6) by (cases n) auto
  obtain r where r: "croot u = Some r" using CNode.prems(4) by (cases u) auto
  let ?m = "meaning (matches F obj)"
  note src = CNode.prems(1)
  have ab: "a = b" using CNode.prems(2) by simp
  have "set (cnodes (CNode b ng k c o' n')) \<subseteq> {..<crit_next h}" using holds_below [OF src CNode.prems(8)] .
  then have below: "b < crit_next h" by simp
  have "\<exists>h2 o2. or_loop n a (the (croot u)) h = (Inr (), h2) \<and> changes (insert b (set (cnodes o'))) h h2 \<and>
      holds h2 (CNode b ng k c o2 n') \<and> distinct (cnodes o2) \<and> crits o2 \<subseteq> G \<and> cdepth o2 \<le> cdepth o' + cdepth u \<and>
      set (cnodes o2) \<subseteq> set (cnodes o') \<union> set (cnodes u) \<union> {crit_next h..} \<and>
      o2 \<noteq> CLeaf \<and> ?m o2 = (o' \<noteq> CLeaf \<and> ?m o' \<or> ?m u)"
  proof (cases "croot o'")
    case None
    let ?h = "h\<lparr>crit_nodes := (crit_nodes h)(b \<mapsto>
        \<lparr>crefs = 1, negated = ng, criterion_of = Some k, c_or = Some r, c_and = croot n'\<rparr>)\<rparr>"
    have "changes {b} h ?h" using changes_put [OF changes_refl [OF CNode.prems(8)] below] by simp
    moreover have "holds ?h (CNode b ng k c u n')" using src CNode.prems(3,5) r by (simp add: holds_put)
    moreover have "or_loop n a (the (croot u)) h = (Inr (), ?h)"
      using src None by (simp add: n ab r crit_bind_app node_at_holds [OF src] change_node_app)
    ultimately show ?thesis
      using None CNode.prems(4,5,7) by (intro exI [of _ ?h] exI [of _ u]) auto
  next
    case (Some q)
    have "distinct (cnodes o' @ cnodes u)" using CNode.prems(5) by auto
    then have "\<exists>h'. or_loop l q (the (croot u)) h = (Inr (), h') \<and> becomes F obj G h o' u (?m o' \<or> ?m u) h'"
      using CNode.IH(1) [OF _ Some CNode.prems(3,4), of l] CNode.prems n by simp
    then obtain h2 o2 where a: "or_loop l q r h = (Inr (), h2)" and c2: "changes (set (cnodes o')) h h2"
      and o2: "holds h2 o2" "croot o2 = croot o'" "distinct (cnodes o2)"
        "set (cnodes o2) \<subseteq> set (cnodes o') \<union> set (cnodes u) \<union> {crit_next h..}" "crits o2 \<subseteq> G"
        "cdepth o2 \<le> cdepth o' + cdepth u" "?m o2 = (?m o' \<or> ?m u)"
      unfolding becomes_def r option.sel by blast
    have "k < crit_next h" using src CNode.prems(8) by (auto simp: unused_def not_le [symmetric])
    then have "crit_nodes h2 b = crit_nodes h b" "criterions h2 k = Some c"
      using c2 below CNode.prems(5) src by (simp_all add: changes_def)
    moreover have "holds h2 n'" using holds_changes [of h n' "set (cnodes o')" h2] src CNode.prems(5,8) c2 by auto
    ultimately have h2: "holds h2 (CNode b ng k c o2 n')" using src o2 by simp
    have "changes (insert b (set (cnodes o'))) h h2" using changes_weaken [OF c2] by blast
    moreover have "or_loop n a (the (croot u)) h = (Inr (), h2)"
      using a Some by (simp add: n ab r crit_bind_app node_at_holds [OF src])
    moreover have "o2 \<noteq> CLeaf" "o' \<noteq> CLeaf" using o2(2) Some by auto
    ultimately show ?thesis using o2 h2 by (intro exI [of _ h2] exI [of _ o2]) simp
  qed
  then obtain h2 o2 where run: "or_loop n a (the (croot u)) h = (Inr (), h2)"
    and c2: "changes (insert b (set (cnodes o'))) h h2" and o2: "holds h2 (CNode b ng k c o2 n')" "distinct (cnodes o2)"
      "crits o2 \<subseteq> G" "cdepth o2 \<le> cdepth o' + cdepth u" "set (cnodes o2) \<subseteq> set (cnodes o') \<union> set (cnodes u) \<union> {crit_next h..}"
      "o2 \<noteq> CLeaf" "?m o2 = (o' \<noteq> CLeaf \<and> ?m o' \<or> ?m u)"
    by blast
  have old: "set (cnodes n') \<subseteq> {..<crit_next h}" using holds_below src CNode.prems(8) by fastforce
  have "changes (set (cnodes (CNode b ng k c o' n'))) h h2" using changes_weaken [OF c2] by auto
  moreover have "distinct (cnodes (CNode b ng k c o2 n'))"
  proof -
    have "set (cnodes o2) \<inter> set (cnodes n') = {}" using old o2(5) CNode.prems(5) by fastforce
    moreover have "b \<notin> set (cnodes o2)" using o2(5) CNode.prems(5) below by auto
    ultimately show ?thesis using o2(2) CNode.prems(5) by simp
  qed
  moreover have "set (cnodes (CNode b ng k c o2 n')) \<subseteq> set (cnodes (CNode b ng k c o' n')) \<union> set (cnodes u) \<union> {crit_next h..}"
    using o2(5) by auto
  moreover have "?m (CNode b ng k c o2 n') = (?m (CNode b ng k c o' n') \<or> ?m u)"
    using o2(6,7) CNode.prems(9) by auto
  moreover have "cdepth (CNode b ng k c o2 n') \<le> cdepth (CNode b ng k c o' n') + cdepth u"
    using o2(4) by (simp add: max_def)
  moreover have "crits (CNode b ng k c o2 n') \<subseteq> G" using o2(3) CNode.prems(7) by simp
  ultimately show ?case
    unfolding becomes_def using run o2(1)
    by (intro exI [of _ h2] conjI exI [of _ "CNode b ng k c o2 n'"]) simp_all
qed simp

text \<open>
  C39. \<open>criteria_and_criteria\<close> and \<open>criteria_or_criteria\<close> mean conjunction and disjunction: the
  criteria they leave match an object exactly when both, or one, of the two criteria they were given
  matched. This needs criteria that own their nodes, criterions that can be cloned and give an answer
  for the object, memory for the clones, and no negation where the first criteria are extended: on
  all of their nodes for a conjunction, along their alternatives for a disjunction.
\<close>

theorem criteria_connectives:
  assumes "holds h t" "holds h u" "croot t = Some a" "croot u = Some b" "distinct (cnodes t @ cnodes u)" "unused h"
    "answers F obj G" "crits t \<union> crits u \<subseteq> G" "cdepth t + cdepth u \<le> n"
  shows "\<exists>x y. criteria_match F n a obj h = Inr x \<and> criteria_match F n b obj h = Inr y \<and>
    (never_negated t \<longrightarrow> (\<exists>h'. criteria_and_criteria F n a b h = (Inr (), h') \<and> criteria_match F n a obj h' = Inr (min x y))) \<and>
    (alternatives_plain t \<longrightarrow> (\<exists>h'. criteria_or_criteria n a b h = (Inr (), h') \<and> criteria_match F n a obj h' = Inr (max x y)))"
proof -
  have G: "\<forall>c \<in> G. criterion_match F c obj \<in> range Inr" using assms(7) by (simp add: answers_def)
  have m: "criteria_match F n q obj k = Inr (if meaning (matches F obj) s then 1 else 0)"
    if "holds k s" "croot s = Some q" "cdepth s \<le> n" "crits s \<subseteq> G" for k s q
  proof (rule criteria_match_meaning [OF that(1-3)])
    show "\<forall>c \<in> crits s. criterion_match F c obj \<in> range Inr" using that(4) G by (auto simp only: subset_iff)
  qed
  have leaf: "u \<noteq> CLeaf" using assms(4) by auto
  have after: "criteria_match F n a obj h' = Inr (if v then 1 else 0)" if B: "becomes F obj G h t u v h'" for v h'
  proof -
    obtain t' where "holds h' t'" "croot t' = croot t" "crits t' \<subseteq> G" "cdepth t' \<le> cdepth t + cdepth u"
      "meaning (matches F obj) t' = v"
      using B unfolding becomes_def by blast
    then show ?thesis using m [of h' t' a] assms(3,9) by simp
  qed
  let ?v = "\<lambda>s. if meaning (matches F obj) s then 1 else (0 :: nat)"
  have "criteria_match F n a obj h = Inr (?v t)" "criteria_match F n b obj h = Inr (?v u)"
    using m [OF assms(1,3)] m [OF assms(2,4)] assms(8,9) by simp_all
  moreover have "\<exists>h'. criteria_and_criteria F n a b h = (Inr (), h') \<and> criteria_match F n a obj h' = Inr (min (?v t) (?v u))"
    if neg: "never_negated t"
  proof -
    obtain h' where "and_loop F n (Some a) None b h = (Inr (), h')"
      and "becomes F obj G h t u (meaning (matches F obj) t \<and> meaning (matches F obj) u) h'"
      using and_loop_ok [OF assms(7,1,3,2) leaf assms(5,9) _ _ assms(6) neg, of None] assms(4,8) by auto
    then show ?thesis using after by (intro exI [of _ h']) (simp add: criteria_and_criteria_def)
  qed
  moreover have "\<exists>h'. criteria_or_criteria n a b h = (Inr (), h') \<and> criteria_match F n a obj h' = Inr (max (?v t) (?v u))"
    if alt: "alternatives_plain t"
  proof -
    obtain h' where "or_loop n a b h = (Inr (), h')"
      and "becomes F obj G h t u (meaning (matches F obj) t \<or> meaning (matches F obj) u) h'"
      using or_loop_ok [OF assms(1,3,2) leaf assms(5) _ assms(8,6) alt, of n F obj] assms(4,9) by auto
    then show ?thesis using after by (intro exI [of _ h']) (simp add: criteria_or_criteria_def)
  qed
  ultimately show ?thesis by blast
qed

text \<open>Criterions that compare the number below a path with a number; criteria \<open>0 \<or> 1\<close> and \<open>2\<close>.\<close>

definition sample_calls :: "(nat, nat, nat \<Rightarrow> nat, nat) criterion_calls" where
  "sample_calls = \<lparr>call_path_get = (\<lambda>p obj. Inr (Some (obj p))), call_match = (\<lambda>v w op. Inr (if v = w then 1 else 0)),
     call_path_clone = Inr, call_value_clone = (\<lambda>v. if v = 9 then Inl E_errno else Inr v),
     call_path_name = (\<lambda>p. ''path''), call_value_text = (\<lambda>v. ''value'')\<rparr>"

definition sample_criterion :: "nat \<Rightarrow> (nat, nat) criterion" where
  "sample_criterion i = \<lparr>crit_path = i, crit_value = Some i, crit_operator = 1\<rparr>"

definition sample_heap :: "nat list \<Rightarrow> criteria list \<Rightarrow> (nat, nat) criteria_heap" where
  "sample_heap vs xs = \<lparr>crit_nodes = (\<lambda>a. if a < length xs then Some (xs ! a) else None),
     criterions = (\<lambda>a. if a < length vs then Some (sample_criterion (vs ! a)) else None), crit_next = 10, crit_alloc_ok = (\<lambda>a. True)\<rparr>"

definition node :: "bool \<Rightarrow> nat \<Rightarrow> crit_ptr option \<Rightarrow> crit_ptr option \<Rightarrow> criteria" where
  "node ng k o' n' = \<lparr>crefs = 1, negated = ng, criterion_of = Some k, c_or = o', c_and = n'\<rparr>"

theorem criteria_connectives_witness:
  "\<exists>h'. criteria_and_criteria sample_calls 5 0 2
       (sample_heap [0, 1, 2] [node False 0 (Some 1) None, node False 1 None None, node False 2 None None]) = (Inr (), h') \<and>
     criteria_match sample_calls 5 0 (\<lambda>p. if p = 0 then 7 else p) h' = Inr 1"
proof -
  let ?c = sample_criterion and ?obj = "\<lambda>p :: nat. if p = 0 then 7 else p"
  let ?h = "sample_heap [0, 1, 2] [node False 0 (Some 1) None, node False 1 None None, node False 2 None None]"
  let ?t = "CNode 0 False 0 (?c 0) (CNode 1 False 1 (?c 1) CLeaf CLeaf) CLeaf" and ?u = "CNode 2 False 2 (?c 2) CLeaf CLeaf"
  have "holds ?h ?t" "holds ?h ?u" "unused ?h" by (simp_all add: sample_heap_def node_def unused_def numeral_2_eq_2)
  moreover have "answers sample_calls ?obj {?c 0, ?c 1, ?c 2}"
    by (simp add: answers_def sample_calls_def sample_criterion_def criterion_match_def clone_parts_def)
  moreover have "criteria_match sample_calls 5 0 ?obj ?h = Inr 1" "criteria_match sample_calls 5 2 ?obj ?h = Inr 1"
    by code_simp+
  ultimately show ?thesis
    using criteria_connectives [of ?h ?t ?u 0 2 sample_calls ?obj "{?c 0, ?c 1, ?c 2}" 5] by simp
qed

section \<open>Where the code goes wrong\<close>

text \<open>
  Conjoining to negated criteria negates the whole conjunction: \<open>not 0\<close> and then \<open>1\<close> matches an
  object that \<open>1\<close> does not match.
\<close>

lemma negation_captures_conjunction:
  "case criteria_and_criteria sample_calls 5 0 1 (sample_heap [0, 1] [node True 0 None None, node False 1 None None]) of
     (r, h') \<Rightarrow> criteria_match sample_calls 5 1 (\<lambda>p. 7) h' = Inr 0 \<and> criteria_match sample_calls 5 0 (\<lambda>p. 7) h' = Inr 1"
  by code_simp

text \<open>
  When cloning fails below the first node, the freed part of the clone is destroyed once more:
  here the criterion of the second node cannot be cloned.
\<close>

lemma clone_failure_frees_twice:
  "fst (criteria_clone sample_calls 5 0 (sample_heap [0, 9] [node False 0 None (Some 1), node False 1 None None])) =
     Inl (UB Use_after_free)"
  by code_simp

text \<open>The text of negated criteria is that of the criteria without the negation.\<close>

lemma negation_not_printed:
  "criteria_to_string sample_calls (Suc 0) 0 (sample_heap [0] [node True 0 None None]) = Inr ''path = value''"
  by (simp add: node_at_def sample_heap_def node_def criterion_at_def criterion_to_string_def
      criterion_operator_to_string_def operator_table_def sample_criterion_def sample_calls_def)

text \<open>An operator that is not in the table, like \<open>LESSER | NOCASE\<close>, is searched beyond its end.\<close>

lemma unknown_operator_overruns: "criterion_operator_to_string 0x4002 = Inl (UB Out_of_bounds)"
  by (simp add: criterion_operator_to_string_def operator_table_def)

end
