(* ===== verification/Spec2Isabelle.thy ===== *)
theory Spec2Isabelle
  imports Prelude Errors CList Hash Variable StringBuf Json Class CStd Path PathCache Documents TimeText
    Io JsonRead JsonOut JsonTrip Criteria
begin

text \<open>
  A verification development for libiodefv2, a C library for IODEF version 2 documents (RFC 5070-bis,
  incident reports): a document is a tree of reference-counted objects of 67 classes, which programs
  build, query by path, copy, compare, and exchange as JSON text.

  \<^bold>\<open>The program.\<close> The sources are under src/src. At the bottom are general components: error integers
  (libiodefv2-error/libiodefv2-error.c), intrusive lists (include/libiodefv2-list.h), hash tables
  (libiodefv2-hash.c), growable strings (libiodefv2-string.c), named variables (variable.c), input
  and output objects (libiodefv2-io.c). On them stand times and data objects (iodefv2-time.c,
  iodefv2-data.c), the schema tables (include/iodefv2-tree-data.h) with their queries
  (iodefv2-class.c), the paths (iodefv2-path.c), and three generated files with the same functions
  for every class: iodefv2-tree-wrap.c (creation, destruction, copying, comparison, access),
  iodefv2-document-print-json.c and iodefv2-document-read-json.c, the last on top of the tokeniser
  lib-wrappers-gen/jsmn/jsmn.c.

  \<^bold>\<open>Conventions\<close> (theory Prelude). A C function is a HOL function of the same name, without the prefix
  \<open>iodefv2_\<close> or \<open>libiodefv2_\<close>. It returns \<open>Inr\<close> a value or \<open>Inl\<close> a failure: \<open>E\<close>, \<open>E_minus1\<close>
  and the like are the negative error integers of the code, \<open>UB\<close> is undefined behaviour (a use after
  free, an access outside a buffer), which the theorems exclude. State is passed explicitly.
  Integers are \<open>int\<close> with the C wrap-around written out, or words where bits matter. Allocations can
  fail wherever the code asks for memory: which ones do is part of the state or a parameter.
  A call that is recursive through memory has a number \<open>n\<close>, the bound of its depth and of the lists
  it walks; the theorems say how much is enough, and then the result does not depend on it.

  \<^bold>\<open>Components and theories.\<close>
  \<^item> Errors: packing of an error source and code into 32 bits and back.
  \<^item> CList: the list macros over a heap of \<open>next\<close> and \<open>prev\<close> pointers, \<open>ring\<close> for a well-formed
    list, and the positional insertion of iodefv2-tree-wrap.c; each operation refines one on HOL lists.
  \<^item> KeyedStore: the locale \<open>keyed_store\<close>, the contract of a container looked up by keys;
    interpreted by Hash (with the release of every element exactly once) and by Variable.
  \<^item> CMem and StringBuf: memory blocks with owners, and every operation of the string object over
    them, with growth, lent buffers and ownership.
  \<^item> Enums, TreeData, Class: the conversions of all enumerations, the schema tables of all
    classes, and their queries; \<open>schema_walk\<close> ties them together.
  \<^item> Path and PathCache: a path by itself (parsing, printing, extending, comparing), and the heap of
    shared, reference-counted paths with the table they are shared through, as a transition system
    whose reachable states satisfy exact reference counts.
  \<^item> ObjMem, Data, Object, ObjAccess: the memory of a document (strings, times, data, buffers,
    values, objects), and what every kind of statement of the generated functions does. TreeWrapA,
    TreeWrapB, TreeWrap hold the statements of each class as tables, read off its functions.
  \<^item> ObjCode, ObjTree, ObjProofs, ObjNew, ObjCopy, ObjCompare: the locale \<open>object_codes\<close> says what
    the tables must satisfy (they follow the struct of the class); in it, documents are trees,
    \<open>evolves\<close> says that memory changed from one tree to another with nothing lost or leaked, and
    the functions are proved to do so. ObjLib interprets the locale with the tables of the library,
    and Documents states the results for it.
  \<^item> CStd and TimeText: number parsing and printing of the C library, the calendar, and times as
    text and back.
  \<^item> Io: the object with callbacks, its buffer implementation, and forwarding.
  \<^item> Json: strings, escapes and UTF-8. Jsmn: the tokeniser; the tokens of a JSON value are \<open>jtoks\<close>,
    its text is \<open>jtext\<close>. DataText: data objects as text, base64.
  \<^item> JsonPrint, JsonRead: what every kind of statement of the generated printers and readers does;
    JsonTables holds the statements of each class. JsonFits and JsonLib: they agree with the struct
    and with each other (\<open>fits_json\<close>), for every class; the one key that does not is named
    (\<open>json_exceptions\<close>).
  \<^item> JsonText, JsonEmit, JsonPrints, JsonOut: the JSON value of a document (\<open>json_of\<close>), output as a
    locale \<open>byte_sink\<close>, and the printer, which writes that value; interpreted with the buffers of
    theory Io and the tables of the library.
  \<^item> JsonAt, JsonBack, JsonTrip: where the tokens of a value lie in a text, what the reader finds there,
    and the reader on the text of a document (\<open>brings\<close>: an action that changes one tree into another).
  \<^item> Criteria: criterions, and the trees of criteria with the functions that make, clone, print,
    destroy, combine and match them (iodefv2-criteria.c), over a heap of nodes.

  \<^bold>\<open>What is shown.\<close> Round trips: errors, enumerations, paths, JSON strings, UTF-8, base64, times.
  Refinement of abstract operations: lists, tables, variables, strings. Invariants over all traces
  of client calls: hash tables (released once), shared paths (counts, meaning of a shared name).
  For documents of every class: creation makes a complete tree of new memory, destruction releases
  exactly the cells of a tree, clones have the contents of their source and share nothing with it,
  copies have them too but for required strings that are empty in the source (\<open>overlay\<close>),
  comparison decides a reference comparison. For JSON: the tokeniser stays in
  bounds on any text and finds exactly the tokens of a value; printers and readers of all
  classes agree with the schema and, but for one key, with each other; the printer writes exactly the
  value of the document, the tokeniser finds its tokens, and the reader makes a document with the
  same contents of them (documents without data objects, \<open>readable\<close>). For criteria: the operations that combine them mean
  conjunction and disjunction.

  \<^bold>\<open>Bounds.\<close> A walk over a list needs its length plus one steps; a function on a tree needs a depth of
  at most the size of the tree, and \<open>lib_bound\<close> (the largest new object) more where it makes new
  objects. \<open>for_each\<close> over raw heaps, \<open>string_ncat\<close> and \<open>string_vprintf\<close> are partial functions, so not
  returning is the value \<open>None\<close>; the theorems show that they return. The tokeniser and the JSON string
  functions need no bound: they are total functions. Positions of the
  tokeniser are numbers here and 32-bit integers in the code, so texts are below 2 GiB.

  \<^bold>\<open>Parameters.\<close> The errno tables (generated at build time), \<open>mktime\<close> (the local time zone), \<open>%f\<close>
  and \<open>strtof\<close> (floating point), and the operating system's file operations are not in the sources
  and are arguments of the definitions that use them. Getting a value by its path and comparing it
  with a criterion value are arguments of theory Criteria (record \<open>criterion_calls\<close>). The growth of the strings that only collect
  text for the JSON printer and reader is taken to succeed; StringBuf has it in full.

  \<^bold>\<open>Not modelled.\<close> Locks: operations run one at a time. The printer for readers and the binary writer
  of documents (iodefv2-document-print.c, iodefv2-document-write.c), which nothing reads back;
  values with their casts (iodefv2-value.c, iodefv2-value-type.c) and setting values through paths;
  criterion values and the criteria parser (iodefv2-criterion-value.c, the flex and bison sources); logging, identifiers, NTP stamps and the clock, file and network helpers (common.c);
  the language bindings, the vendored gnulib, and the iodefv2-message and iodefv2-document-read
  files, which Makefile.am does not compile.
\<close>

end
